(* ===== verification/Ocne_Prelude.thy ===== *)
theory Ocne_Prelude
  imports Main "HOL-Library.Word" "HOL-Library.Sublist" "HOL-Library.Multiset"
begin

text \<open>
  The vocabulary the component theories share.  A Go \<^verbatim>\<open>error\<close> is its message, a
  Go function that returns \<open>(T, error)\<close> is modelled by a \<open>result\<close>: \<open>Inl\<close> is the early
  return with the error, \<open>Inr\<close> the value.  A Go pointer that may be nil is an \<open>option\<close>.
  The named collections gather what the component proofs rewrite with: \<open>go_res\<close> for the
  result plumbing, \<open>go_str\<close> for the string library, \<open>merge_defs\<close> for the field-wise merges.
\<close>

named_theorems go_res
named_theorems go_str
named_theorems merge_defs

type_synonym gerror = string
type_synonym 'a result = "gerror + 'a"
type_synonym u16 = "16 word"
type_synonym u64 = "64 word"

section \<open>Results\<close>

definition rbind :: "'a result \<Rightarrow> ('a \<Rightarrow> 'b result) \<Rightarrow> 'b result" where
  "rbind r f = (case r of Inl e \<Rightarrow> Inl e | Inr x \<Rightarrow> f x)"

definition is_ok :: "'a result \<Rightarrow> bool" where
  "is_ok r = (case r of Inl _ \<Rightarrow> False | Inr _ \<Rightarrow> True)"

lemma rbind_Inl [simp, go_res]: "rbind (Inl e) f = Inl e"
  by (simp add: rbind_def)

lemma rbind_Inr [simp, go_res]: "rbind (Inr x) f = f x"
  by (simp add: rbind_def)

lemma rbind_Inr_iff [go_res]: "rbind r f = Inr y \<longleftrightarrow> (\<exists>x. r = Inr x \<and> f x = Inr y)"
  by (cases r) auto

lemma rbind_Inl_iff [go_res]:
  "rbind r f = Inl e \<longleftrightarrow> r = Inl e \<or> (\<exists>x. r = Inr x \<and> f x = Inl e)"
  by (cases r) auto

lemma rbind_assoc: "rbind (rbind r f) g = rbind r (\<lambda>x. rbind (f x) g)"
  by (cases r) auto

lemma is_ok_simps [simp, go_res]: "\<not> is_ok (Inl e)" "is_ok (Inr x)"
  by (simp_all add: is_ok_def)

lemma is_ok_iff: "is_ok r \<longleftrightarrow> (\<exists>x. r = Inr x)"
  by (cases r) auto

text \<open>A Go panic is an outcome of its own.\<close>

datatype 'a outcome = Returns 'a | Panics

definition obind :: "'a outcome \<Rightarrow> ('a \<Rightarrow> 'b outcome) \<Rightarrow> 'b outcome" where
  "obind m f = (case m of Returns x \<Rightarrow> f x | Panics \<Rightarrow> Panics)"

lemma obind_simps [simp]: "obind (Returns x) f = f x" "obind Panics f = Panics"
  by (simp_all add: obind_def)

section \<open>Lists, maps and options\<close>

text \<open>The first element that satisfies a test, as the early-return search loops compute it.\<close>

lemma find_None_iff2': "find P xs = None \<longleftrightarrow> (\<forall>x \<in> set xs. \<not> P x)"
  by (induction xs) auto

lemma find_SomeD: "find P xs = Some x \<Longrightarrow> x \<in> set xs \<and> P x"
  by (induction xs) (auto split: if_splits)

lemma find_unique:
  assumes "x \<in> set xs" and "P x" and "\<And>y. y \<in> set xs \<Longrightarrow> P y \<Longrightarrow> y = x"
  shows "find P xs = Some x"
proof (cases "find P xs")
  case None
  with assms(1,2) show ?thesis by (auto simp: find_None_iff2')
next
  case (Some y)
  with assms(3) show ?thesis by (auto dest: find_SomeD)
qed

lemma distinct_map_snoc:
  "distinct (map f (xs @ [x])) \<longleftrightarrow> distinct (map f xs) \<and> f x \<notin> f ` set xs"
  by auto

lemma distinct_map_inj_on: "distinct (map f xs) \<Longrightarrow> inj_on f (set xs)"
  by (simp add: distinct_map)

lemma distinct_map_keyD:
  "distinct (map f xs) \<Longrightarrow> x \<in> set xs \<Longrightarrow> y \<in> set xs \<Longrightarrow> f x = f y \<Longrightarrow> x = y"
  by (meson distinct_map inj_onD)

lemma mset_eq_lengthD: "mset xs = mset ys \<Longrightarrow> length xs = length ys"
  by (rule mset_eq_length)

text \<open>
  \<open>remove_at\<close> drops one position: the loops that mark the entries of a list as used are
  modelled by taking the used entry out.
\<close>

definition remove_at :: "nat \<Rightarrow> 'a list \<Rightarrow> 'a list" where
  "remove_at n xs = take n xs @ drop (Suc n) xs"

lemma remove_at_Cons_0 [simp]: "remove_at 0 (x # xs) = xs"
  by (simp add: remove_at_def)

lemma remove_at_Cons_Suc [simp]: "remove_at (Suc n) (x # xs) = x # remove_at n xs"
  by (simp add: remove_at_def)

lemma mset_remove_at: "n < length xs \<Longrightarrow> add_mset (xs ! n) (mset (remove_at n xs)) = mset xs"
  by (induction xs arbitrary: n) (auto simp: nth_Cons split: nat.splits)

end
