(* ===== verification/Go_Strings.thy ===== *)
theory Go_Strings
  imports Ocne_Prelude
begin

text \<open>
  The functions of Go's \<^verbatim>\<open>strings\<close> and \<^verbatim>\<open>strconv\<close> packages that the program calls, as
  documented by the Go standard library, with the lemmas the components use.  A Go string is
  a byte sequence, here a \<open>char list\<close>; the functions that look at Unicode classes
  (\<^verbatim>\<open>TrimSpace\<close>, \<^verbatim>\<open>Fields\<close>, \<^verbatim>\<open>ToLower\<close>, \<^verbatim>\<open>Split\<close> with an empty separator) are given on
  ASCII.
\<close>

section \<open>Searching and cutting\<close>

abbreviation has_prefix :: "string \<Rightarrow> string \<Rightarrow> bool" where
  "has_prefix s p \<equiv> prefix p s"

abbreviation has_suffix :: "string \<Rightarrow> string \<Rightarrow> bool" where
  "has_suffix s p \<equiv> suffix p s"

text \<open>\<^verbatim>\<open>strings.Cut\<close>: what is before and after the first occurrence of the separator.\<close>

fun go_cut :: "string \<Rightarrow> string \<Rightarrow> (string \<times> string) option" where
  "go_cut [] sep = (if sep = [] then Some ([], []) else None)"
| "go_cut (c # cs) sep =
     (if prefix sep (c # cs) then Some ([], drop (length sep) (c # cs))
      else (case go_cut cs sep of None \<Rightarrow> None | Some (a, b) \<Rightarrow> Some (c # a, b)))"

definition go_contains :: "string \<Rightarrow> string \<Rightarrow> bool" where
  "go_contains s sub = (go_cut s sub \<noteq> None)"

definition cut_prefix :: "string \<Rightarrow> string \<Rightarrow> string \<times> bool" where
  "cut_prefix s p = (if prefix p s then (drop (length p) s, True) else (s, False))"

definition cut_suffix :: "string \<Rightarrow> string \<Rightarrow> string \<times> bool" where
  "cut_suffix s p = (if suffix p s then (take (length s - length p) s, True) else (s, False))"

definition trim_prefix :: "string \<Rightarrow> string \<Rightarrow> string" where
  "trim_prefix s p = fst (cut_prefix s p)"

definition trim_suffix :: "string \<Rightarrow> string \<Rightarrow> string" where
  "trim_suffix s p = fst (cut_suffix s p)"

lemma go_cut_Some: "go_cut s sep = Some (a, b) \<Longrightarrow> s = a @ sep @ b"
proof (induction s arbitrary: a)
  case Nil
  then show ?case by (auto split: if_splits)
next
  case (Cons c cs)
  then show ?case
    by (auto split: if_splits option.splits simp: prefix_def)
qed

lemma go_cut_None_iff: "go_cut s sep = None \<longleftrightarrow> \<not> sublist sep s"
proof (induction s)
  case Nil
  then show ?case by simp
next
  case (Cons c cs)
  then show ?case
    by (auto simp: sublist_Cons_right split: option.splits)
qed

lemma go_contains_iff: "go_contains s sub \<longleftrightarrow> sublist sub s"
  by (simp add: go_contains_def go_cut_None_iff)

lemma go_cut_length: "go_cut s sep = Some (a, b) \<Longrightarrow> sep \<noteq> [] \<Longrightarrow> length b < length s"
  by (drule go_cut_Some) simp

lemma go_cut_char_None: "c \<notin> set s \<Longrightarrow> go_cut s [c] = None"
  by (induction s) auto

lemma go_cut_char: "c \<notin> set a \<Longrightarrow> go_cut (a @ c # b) [c] = Some (a, b)"
  by (induction a) auto

lemma cut_suffix_append [simp]: "cut_suffix (s @ p) p = (s, True)"
  by (simp add: cut_suffix_def suffix_def)

lemma trim_prefix_append [simp]: "trim_prefix (p @ s) p = s"
  by (simp add: trim_prefix_def cut_prefix_def)

section \<open>Splitting and joining\<close>

function go_split :: "string \<Rightarrow> string \<Rightarrow> string list" where
  "go_split s sep =
     (if sep = [] then map (\<lambda>c. [c]) s
      else (case go_cut s sep of None \<Rightarrow> [s] | Some (a, b) \<Rightarrow> a # go_split b sep))"
  by pat_completeness auto
termination
  by (relation "measure (\<lambda>(s, sep). length s)") (auto intro: go_cut_length)

declare go_split.simps [simp del]

fun go_join :: "string list \<Rightarrow> string \<Rightarrow> string" where
  "go_join [] sep = []"
| "go_join [x] sep = x"
| "go_join (x # y # ys) sep = x @ sep @ go_join (y # ys) sep"

lemma go_split_nonempty [simp]: "sep \<noteq> [] \<Longrightarrow> go_split s sep \<noteq> []"
  by (subst go_split.simps) (auto split: option.splits)

lemma go_join_Cons: "xs \<noteq> [] \<Longrightarrow> go_join (x # xs) sep = x @ sep @ go_join xs sep"
  by (cases xs) auto

lemma go_join_split: "sep \<noteq> [] \<Longrightarrow> go_join (go_split s sep) sep = s"
proof (induction s sep rule: go_split.induct)
  case (1 s sep)
  show ?case
  proof (cases "go_cut s sep")
    case None
    with "1.prems" show ?thesis by (subst go_split.simps) simp
  next
    case (Some ab)
    obtain a b where ab: "ab = (a, b)" by (cases ab)
    with Some "1" have "go_join (go_split b sep) sep = b" by simp
    moreover from Some ab have "s = a @ sep @ b" by (auto dest: go_cut_Some)
    ultimately show ?thesis using Some ab "1.prems"
      by (subst go_split.simps) (simp add: go_join_Cons)
  qed
qed

text \<open>With a one-character separator, splitting inverts joining.\<close>

lemma go_split_char_simple: "c \<notin> set s \<Longrightarrow> go_split s [c] = [s]"
  by (subst go_split.simps) (simp add: go_cut_char_None)

lemma go_split_char_Cons: "c \<notin> set a \<Longrightarrow> go_split (a @ c # b) [c] = a # go_split b [c]"
  by (subst go_split.simps) (simp add: go_cut_char)

lemma go_split_join_char:
  "xs \<noteq> [] \<Longrightarrow> \<forall>x \<in> set xs. c \<notin> set x \<Longrightarrow> go_split (go_join xs [c]) [c] = xs"
proof (induction xs)
  case Nil
  then show ?case by simp
next
  case (Cons x xs)
  then show ?case
    by (cases "xs = []") (simp_all add: go_split_char_simple go_join_Cons go_split_char_Cons)
qed

lemma go_split_no_sep: "\<forall>x \<in> set (go_split s [c]). c \<notin> set x"
proof (induction s "[c]" rule: go_split.induct)
  case (1 s)
  show ?case
  proof (cases "go_cut s [c]")
    case None
    then have "c \<notin> set s"
      by (metis go_cut_char in_set_conv_decomp_first option.distinct(1))
    with None show ?thesis by (subst go_split.simps) simp
  next
    case (Some ab)
    obtain a b where ab: "ab = (a, b)" by (cases ab)
    have "c \<notin> set a"
    proof
      assume "c \<in> set a"
      then obtain a1 a2 where a: "a = a1 @ c # a2" and "c \<notin> set a1"
        by (meson split_list_first)
      moreover from Some ab have "s = a @ [c] @ b" by (auto dest: go_cut_Some)
      ultimately have "go_cut s [c] = Some (a1, a2 @ [c] @ b)" by (simp add: go_cut_char)
      with Some ab a show False by simp
    qed
    with Some ab "1" show ?thesis by (subst go_split.simps) simp
  qed
qed

text \<open>\<^verbatim>\<open>strings.ReplaceAll\<close> with a nonempty pattern.\<close>

definition replace_all :: "string \<Rightarrow> string \<Rightarrow> string \<Rightarrow> string" where
  "replace_all s old new = go_join (go_split s old) new"

section \<open>Trimming\<close>

definition is_space :: "char \<Rightarrow> bool" where
  "is_space c = (c = CHR '' '' \<or> c = CHR 0x09 \<or> c = CHR 0x0A \<or> c = CHR 0x0B \<or> c = CHR 0x0C \<or> c = CHR 0x0D)"

definition trim_left :: "string \<Rightarrow> string \<Rightarrow> string" where
  "trim_left s cutset = dropWhile (\<lambda>c. c \<in> set cutset) s"

definition trim_right :: "string \<Rightarrow> string \<Rightarrow> string" where
  "trim_right s cutset = rev (dropWhile (\<lambda>c. c \<in> set cutset) (rev s))"

definition go_trim :: "string \<Rightarrow> string \<Rightarrow> string" where
  "go_trim s cutset = trim_right (trim_left s cutset) cutset"

definition trim_space :: "string \<Rightarrow> string" where
  "trim_space s = rev (dropWhile is_space (rev (dropWhile is_space s)))"

lemma dropWhile_all: "\<forall>x \<in> set xs. P x \<Longrightarrow> dropWhile P xs = []"
  by simp

lemma trim_left_hd: "trim_left s cs \<noteq> [] \<Longrightarrow> hd (trim_left s cs) \<notin> set cs"
  unfolding trim_left_def by (rule hd_dropWhile)

lemma trim_right_last: "trim_right s cs \<noteq> [] \<Longrightarrow> last (trim_right s cs) \<notin> set cs"
  unfolding trim_right_def by (metis hd_dropWhile last_rev rev_is_Nil_conv)

lemma dropWhile_hd: "xs \<noteq> [] \<Longrightarrow> \<not> P (hd xs) \<Longrightarrow> dropWhile P xs = xs"
  by (cases xs) auto

lemma trim_space_idem: "trim_space (trim_space s) = trim_space s"
proof -
  define a where "a = dropWhile is_space s"
  define b where "b = dropWhile is_space (rev a)"
  have t: "trim_space s = rev b" by (simp add: trim_space_def a_def b_def)
  show ?thesis
  proof (cases "b = []")
    case True
    then show ?thesis by (simp add: t) (simp add: trim_space_def)
  next
    case False
    obtain pre where "rev a = pre @ b"
      by (metis b_def takeWhile_dropWhile_id)
    then have "a = rev b @ rev pre" by (metis rev_append rev_rev_ident)
    with False have "hd (rev b) = hd a" and "a \<noteq> []" by auto
    then have "\<not> is_space (hd (rev b))" by (metis a_def hd_dropWhile)
    with False have "dropWhile is_space (rev b) = rev b" by (simp add: dropWhile_hd)
    moreover have "dropWhile is_space b = b" by (simp add: b_def)
    ultimately show ?thesis by (simp add: t) (simp add: trim_space_def)
  qed
qed

text \<open>\<^verbatim>\<open>strings.Fields\<close>: the maximal runs of characters that are not white space.\<close>

function go_fields :: "string \<Rightarrow> string list" where
  "go_fields s =
     (case dropWhile is_space s of
        [] \<Rightarrow> []
      | c # cs \<Rightarrow> takeWhile (\<lambda>x. \<not> is_space x) (c # cs) # go_fields (dropWhile (\<lambda>x. \<not> is_space x) (c # cs)))"
  by pat_completeness auto
termination
proof (relation "measure length", goal_cases)
  case 1
  then show ?case by simp
next
  case (2 s c cs)
  have c: "\<not> is_space c" using 2 by (metis hd_dropWhile list.discI list.sel(1))
  have "length (dropWhile (\<lambda>x. \<not> is_space x) (c # cs)) \<le> length cs"
    using c by (simp add: length_dropWhile_le)
  also have "length cs < length s"
    using 2 by (metis Suc_le_eq length_Cons length_dropWhile_le)
  finally show ?case by simp
qed

declare go_fields.simps [simp del]

text \<open>\<^verbatim>\<open>strings.ToLower\<close> on ASCII.\<close>

definition lower_char :: "char \<Rightarrow> char" where
  "lower_char c = (let n = of_char c :: nat in if 65 \<le> n \<and> n \<le> 90 then char_of (n + 32) else c)"

definition to_lower :: "string \<Rightarrow> string" where
  "to_lower s = map lower_char s"

section \<open>Numbers\<close>

definition is_digit :: "char \<Rightarrow> bool" where
  "is_digit c = (48 \<le> (of_char c :: nat) \<and> (of_char c :: nat) \<le> 57)"

definition digit_val :: "char \<Rightarrow> nat" where
  "digit_val c = of_char c - 48"

definition digit_char :: "nat \<Rightarrow> char" where
  "digit_char d = char_of (48 + d)"

definition nat_of_digits :: "string \<Rightarrow> nat" where
  "nat_of_digits s = foldl (\<lambda>n c. 10 * n + digit_val c) 0 s"

text \<open>\<^verbatim>\<open>strconv.ParseUint(s, 10, bits)\<close>: empty, a character that is no digit, or a value that does
  not fit are errors.\<close>

definition parse_uint :: "nat \<Rightarrow> string \<Rightarrow> nat option" where
  "parse_uint bits s =
     (if s = [] \<or> \<not> list_all is_digit s then None
      else if int (nat_of_digits s) < 2 ^ bits then Some (nat_of_digits s) else None)"

text \<open>\<^verbatim>\<open>strconv.FormatUint(n, 10)\<close> and \<^verbatim>\<open>%d\<close> of an unsigned value.\<close>

fun format_nat :: "nat \<Rightarrow> string" where
  "format_nat n = (if n < 10 then [digit_char n] else format_nat (n div 10) @ [digit_char (n mod 10)])"

declare format_nat.simps [simp del]

definition format_int :: "int \<Rightarrow> string" where
  "format_int i = (if i < 0 then CHR ''-'' # format_nat (nat (- i)) else format_nat (nat i))"

text \<open>\<^verbatim>\<open>strconv.Atoi\<close> on a 64-bit platform.\<close>

definition atoi :: "string \<Rightarrow> int option" where
  "atoi s =
     (let (neg, ds) = (case s of
            [] \<Rightarrow> (False, [])
          | c # cs \<Rightarrow> (if c = CHR ''-'' then (True, cs) else if c = CHR ''+'' then (False, cs) else (False, s)))
      in if ds = [] \<or> \<not> list_all is_digit ds then None
         else let n = int (nat_of_digits ds)
              in if neg then (if n \<le> 2 ^ 63 then Some (- n) else None)
                 else (if n < 2 ^ 63 then Some n else None))"

lemma digit_char_props:
  assumes "d < 10"
  shows "is_digit (digit_char d)" "digit_val (digit_char d) = d"
  using assms by (simp_all add: is_digit_def digit_val_def digit_char_def)

lemma nat_of_digits_snoc [simp]: "nat_of_digits (s @ [c]) = 10 * nat_of_digits s + digit_val c"
  by (simp add: nat_of_digits_def)

lemma format_nat_nonempty [simp]: "format_nat n \<noteq> []"
  by (subst format_nat.simps) simp

lemma format_nat_digits: "list_all is_digit (format_nat n)"
proof (induction n rule: format_nat.induct)
  case (1 n)
  then show ?case
    by (subst format_nat.simps) (simp add: digit_char_props)
qed

lemma nat_of_digits_format: "nat_of_digits (format_nat n) = n"
proof (induction n rule: format_nat.induct)
  case (1 n)
  show ?case
  proof (cases "n < 10")
    case True
    then show ?thesis
      by (subst format_nat.simps) (simp add: nat_of_digits_def digit_char_props)
  next
    case False
    with 1 have "nat_of_digits (format_nat (n div 10)) = n div 10" by simp
    with False show ?thesis
      by (subst format_nat.simps) (simp add: digit_char_props)
  qed
qed

lemma parse_format: "n < 2 ^ bits \<Longrightarrow> parse_uint bits (format_nat n) = Some n"
  by (simp add: parse_uint_def format_nat_digits nat_of_digits_format)

lemma parse_uint_bound: "parse_uint bits s = Some n \<Longrightarrow> n < 2 ^ bits"
  by (auto simp: parse_uint_def split: if_splits)

lemma format_nat_inj: "format_nat m = format_nat n \<longleftrightarrow> m = n"
  by (metis nat_of_digits_format)

lemma list_all_notin: "list_all P s \<Longrightarrow> \<not> P c \<Longrightarrow> c \<notin> set s"
  by (auto simp: list_all_iff)

lemma format_nat_no_char: "\<not> is_digit c \<Longrightarrow> c \<notin> set (format_nat n)"
  by (rule list_all_notin [OF format_nat_digits])

lemma nat_of_digits_Cons_pos:
  "list_all is_digit (c # s) \<Longrightarrow> c \<noteq> CHR ''0'' \<Longrightarrow> nat_of_digits (c # s) > 0"
proof (induction s rule: rev_induct)
  case Nil
  have "of_char c \<noteq> (of_char CHR ''0'' :: nat)" using Nil of_char_eq_iff by metis
  then have "of_char c \<noteq> (48 :: nat)" by simp
  with Nil show ?case by (simp add: nat_of_digits_def is_digit_def digit_val_def)
next
  case (snoc d s)
  then show ?case using nat_of_digits_snoc [of "c # s" d] by simp
qed

lemma digit_char_val: "is_digit c \<Longrightarrow> digit_char (digit_val c) = c"
  by (simp add: is_digit_def digit_char_def digit_val_def)

lemma digit_val_less: "is_digit c \<Longrightarrow> digit_val c < 10"
  by (auto simp: is_digit_def digit_val_def)

lemma format_nat_of_digits:
  "list_all is_digit s \<Longrightarrow> s \<noteq> [] \<Longrightarrow> (length s > 1 \<Longrightarrow> hd s \<noteq> CHR ''0'') \<Longrightarrow> format_nat (nat_of_digits s) = s"
proof (induction s rule: rev_induct)
  case Nil
  then show ?case by simp
next
  case (snoc d s)
  then have d: "is_digit d" by simp
  show ?case
  proof (cases s)
    case Nil
    with d show ?thesis
      by (subst format_nat.simps) (simp add: nat_of_digits_def digit_val_less digit_char_val)
  next
    case (Cons c s')
    with snoc.prems have pos: "nat_of_digits s > 0" using nat_of_digits_Cons_pos [of c s'] by auto
    have "format_nat (nat_of_digits s) = s" using snoc Cons by auto
    with pos d show ?thesis
      by (subst format_nat.simps) (simp add: digit_val_less digit_char_val)
  qed
qed

lemma nat_of_digits_eqD:
  assumes "list_all is_digit s" "list_all is_digit t" "s \<noteq> []" "t \<noteq> []"
    and "length s > 1 \<Longrightarrow> hd s \<noteq> CHR ''0''" "length t > 1 \<Longrightarrow> hd t \<noteq> CHR ''0''"
    and "nat_of_digits s = nat_of_digits t"
  shows "s = t"
  using format_nat_of_digits [of s] format_nat_of_digits [of t] assms by metis

end
