(* ===== verification/Go_Values.thy ===== *)
theory Go_Values
  imports Go_Strings
begin

text \<open>
  Untyped data: what Go holds in an \<^verbatim>\<open>interface{}\<close> that came from YAML or JSON, and the access
  functions of \<^verbatim>\<open>k8s.io/apimachinery/pkg/apis/meta/v1/unstructured\<close> the program uses on it,
  as that package documents them.  A Go map is a finite or infinite partial function; the
  program never iterates over one here.
\<close>

datatype gval =
    GNil
  | GBool bool
  | GInt int
  | GStr string
  | GList "gval list"
  | GMap "string \<Rightarrow> gval option"

definition is_nil :: "gval \<Rightarrow> bool" where
  "is_nil v = (case v of GNil \<Rightarrow> True | _ \<Rightarrow> False)"

lemma is_nil_simps [simp]:
  "is_nil GNil" "\<not> is_nil (GMap m)" "\<not> is_nil (GStr t)" "\<not> is_nil (GList l)" "\<not> is_nil (GInt i)" "\<not> is_nil (GBool b)"
  by (simp_all add: is_nil_def)

text \<open>\<open>nested_field\<close> follows a path: \<open>Inr None\<close> is "not found", an intermediate value that is no
  map is an error.\<close>

fun nested_field :: "gval \<Rightarrow> string list \<Rightarrow> gval option result" where
  "nested_field v [] = Inr (Some v)"
| "nested_field GNil (k # ks) = Inr None"
| "nested_field (GMap m) (k # ks) =
     (case m k of None \<Rightarrow> Inr None | Some v \<Rightarrow> nested_field v ks)"
| "nested_field _ (k # ks) = Inl ''accessor error: not a map''"

text \<open>\<open>NestedString\<close>: a value that is there and is no string is an error.\<close>

definition nested_string :: "(string \<Rightarrow> gval option) \<Rightarrow> string list \<Rightarrow> (string \<times> bool) result" where
  "nested_string m ks =
     rbind (nested_field (GMap m) ks) (\<lambda>r. case r of
         None \<Rightarrow> Inr ([], False)
       | Some (GStr s) \<Rightarrow> Inr (s, True)
       | Some _ \<Rightarrow> Inl ''accessor error: not a string'')"

text \<open>\<open>SetNestedField\<close> makes the maps on the way that are missing, and fails on one that is
  there and is no map.  The last equation is the path of length 0, which the program never uses.\<close>

fun set_nested_field :: "(string \<Rightarrow> gval option) \<Rightarrow> gval \<Rightarrow> string list \<Rightarrow> (string \<Rightarrow> gval option) result" where
  "set_nested_field m v [k] = Inr (m(k \<mapsto> v))"
| "set_nested_field m v (k # ks) =
     (case m k of
        None \<Rightarrow> rbind (set_nested_field Map.empty v ks) (\<lambda>m'. Inr (m(k \<mapsto> GMap m')))
      | Some (GMap sub) \<Rightarrow> rbind (set_nested_field sub v ks) (\<lambda>m'. Inr (m(k \<mapsto> GMap m')))
      | Some _ \<Rightarrow> Inl ''value cannot be set: not a map'')"
| "set_nested_field m v [] = Inr m"

lemma set_nested_field_get:
  "set_nested_field m v ks = Inr m' \<Longrightarrow> ks \<noteq> [] \<Longrightarrow> nested_field (GMap m') ks = Inr (Some v)"
proof (induction m v ks arbitrary: m' rule: set_nested_field.induct)
  case (2 m v k k2 ks)
  then show ?case
    by (auto split: option.splits gval.splits simp: rbind_Inr_iff)
qed auto

lemma nested_string_set:
  assumes "set_nested_field m (GStr s) ks = Inr m'" and "ks \<noteq> []"
  shows "nested_string m' ks = Inr (s, True)"
  by (simp add: nested_string_def set_nested_field_get [OF assms])

text \<open>Other top-level keys are left alone.\<close>

lemma set_nested_field_other:
  "set_nested_field m v (k # ks) = Inr m' \<Longrightarrow> k' \<noteq> k \<Longrightarrow> m' k' = m k'"
  by (cases ks) (auto split: option.splits gval.splits simp: rbind_Inr_iff)

text \<open>A string that could be read can be overwritten.\<close>

lemma set_nested_field_total:
  "nested_field (GMap m) ks = Inr (Some v) \<Longrightarrow> ks \<noteq> [] \<Longrightarrow> \<exists>m'. set_nested_field m w ks = Inr m'"
proof (induction m w ks rule: set_nested_field.induct)
  case (2 m w k k2 ks)
  then obtain u where u: "m k = Some u" "nested_field u (k2 # ks) = Inr (Some v)"
    by (auto split: option.splits)
  then obtain sub where "u = GMap sub" by (cases u) auto
  with u 2 show ?case by auto
qed auto

end
