(* ===== verification/Config_Types.thy ===== *)
theory Config_Types
  imports Go_Values
begin

text \<open>
  The configuration structures of \<^verbatim>\<open>pkg/config/types/types.go\<close>, field for field and in the
  order of the source: every Go struct is a record whose fields carry a short prefix for the
  struct (\<open>lv\<close> for \<^verbatim>\<open>LibvirtProvider\<close>, \<open>clu\<close> for \<^verbatim>\<open>ClusterConfig\<close>, \<open>cfg\<close> for \<^verbatim>\<open>Config\<close>, and so on).
  A \<^verbatim>\<open>*bool\<close> is a \<open>bool option\<close>, a \<^verbatim>\<open>uint16\<close> a 16-bit word, an \<^verbatim>\<open>interface{}\<close> a \<open>gval\<close>; an \<^verbatim>\<open>int\<close> is
  never computed with here and is an \<open>int\<close>.  The constants \<open>zero_X\<close> are the zero values that a
  Go composite literal gives to the fields it leaves out.
\<close>

section \<open>The structures\<close>

record Node =
  node_Memory :: "string"
  node_CPUs :: "int"
  node_Storage :: "string"

record LibvirtProvider =
  lv_SessionURI :: "string"
  lv_SshKey :: "string"
  lv_StoragePool :: "string"
  lv_Network :: "string"
  lv_ControlPlaneNode :: "Node"
  lv_WorkerNode :: "Node"
  lv_BootVolumeName :: "string"
  lv_BootVolumeContainerImagePath :: "string"
  lv_SlirpSubnet :: "string"
  lv_SecureBoot :: "bool"
  lv_SecureBootPtr :: "bool option"
  lv_Smm :: "bool"
  lv_SmmPtr :: "bool option"

record OciInstanceShape =
  os_Shape :: "string"
  os_Ocpus :: "int"
  os_BootVolumeSize :: "string"

record LoadBalancer =
  lb_Subnet1 :: "string"
  lb_Subnet2 :: "string"

record OciImageSet =
  oi_Amd64 :: "string"
  oi_Arm64 :: "string"

record Proxy =
  proxy_HttpsProxy :: "string"
  proxy_HttpProxy :: "string"
  proxy_NoProxy :: "string"

record OciProvider =
  oci_KubeConfigPath :: "string"
  oci_Compartment :: "string"
  oci_Profile :: "string"
  oci_Namespace :: "string"
  oci_ControlPlaneShape :: "OciInstanceShape"
  oci_Images :: "OciImageSet"
  oci_WorkerShape :: "OciInstanceShape"
  oci_SelfManaged :: "bool"
  oci_SelfManagedPtr :: "bool option"
  oci_LoadBalancer :: "LoadBalancer"
  oci_Vcn :: "string"
  oci_ImageBucket :: "string"
  oci_Proxy :: "Proxy"

record OlvmNetwork =
  on_NetworkName :: "string"
  on_VnicName :: "string"
  on_VnicProfileName :: "string"

record OlvmMachineCpuTopology =
  topo_Cores :: "int"
  topo_Sockets :: "int"
  topo_Threads :: "int"

record OlvmMachineCpu =
  cpu_Architecture :: "string"
  cpu_Topology :: "OlvmMachineCpuTopology"

record OlvmIPV4 =
  v4_Subnet :: "string"
  v4_IpAddresses :: "string"

record OlvmIPV6 =
  v6_AutoConf :: "bool"
  v6_AutoConfPtr :: "bool option"
  v6_IpAddresses :: "string"

record OlvmVirtualMachineNetwork =
  vn_Gateway :: "string"
  vn_Interface :: "string"
  vn_InterfaceType :: "string"
  vn_IPV4 :: "OlvmIPV4"
  vn_IPV6 :: "OlvmIPV6"

record OlvmVirtualMachine =
  vm_Cpu :: "OlvmMachineCpu"
  vm_Memory :: "string"
  vm_Network :: "OlvmVirtualMachineNetwork"

record OlvmMachine =
  om_OlvmNetwork :: "OlvmNetwork"
  om_OlvmOvirtClusterName :: "string"
  om_VirtualMachine :: "OlvmVirtualMachine"
  om_VMTemplateName :: "string"

record OvirtCsiDriver =
  csi_ConfigMapName :: "string"
  csi_ControllerPluginName :: "string"
  csi_CsiDriverName :: "string"
  csi_Install :: "bool"
  csi_InstallPtr :: "bool option"
  csi_Namespace :: "string"
  csi_NodePluginName :: "string"
  csi_SecretName :: "string"

record OlvmLocalAPIEndpoint =
  lae_BindPort :: "int"
  lae_AdvertiseAddress :: "string"

record NamespacedName =
  nn_Name :: "string"
  nn_Namespace :: "string"

record OlvmAPIServer =
  api_CAConfigMap :: "NamespacedName"
  api_CredentialsSecret :: "NamespacedName"
  api_InsecureSkipTLSVerify :: "bool"
  api_InsecureSkipTLSVerifyPtr :: "bool option"
  api_ServerCA :: "string"
  api_ServerCAPath :: "string"
  api_ServerURL :: "string"

record OlvmOck =
  ock_DiskName :: "string"
  ock_DiskSize :: "string"
  ock_StorageDomainName :: "string"

record OlvmProvider =
  olvm_ControlPlaneMachine :: "OlvmMachine"
  olvm_CSIDriver :: "OvirtCsiDriver"
  olvm_DatacenterName :: "string"
  olvm_LocalAPIEndpoint :: "OlvmLocalAPIEndpoint"
  olvm_Namespace :: "string"
  olvm_OlvmAPIServer :: "OlvmAPIServer"
  olvm_OlvmOck :: "OlvmOck"
  olvm_Proxy :: "Proxy"
  olvm_SelfManaged :: "bool"
  olvm_SelfManagedPtr :: "bool option"
  olvm_WorkerMachine :: "OlvmMachine"

record ByoProvider =
  byo_AutomaticTokenCreation :: "bool"
  byo_AutomaticTokenCreationPtr :: "bool option"
  byo_NetworkInterface :: "string"

record CertificateInformation =
  ci_Country :: "string"
  ci_Org :: "string"
  ci_OrgUnit :: "string"
  ci_State :: "string"

record Providers =
  prv_Libvirt :: "LibvirtProvider"
  prv_Oci :: "OciProvider"
  prv_Byo :: "ByoProvider"
  prv_Olvm :: "OlvmProvider"

record Catalog =
  cat_Protocol :: "string"
  cat_URI :: "string"
  cat_Name :: "string"
  cat_Namespace :: "string"

record Application =
  app_Name :: "string"
  app_Release :: "string"
  app_Version :: "string"
  app_Catalog :: "string"
  app_Namespace :: "string"
  app_Config :: "gval"
  app_ConfigFrom :: "string"

record EphemeralClusterConfig =
  eph_Name :: "string"
  eph_Preserve :: "bool"
  eph_Node :: "Node"

record Config =
  cfg_Providers :: "Providers"
  cfg_KubeConfig :: "string"
  cfg_AutoStartUI :: "string"
  cfg_Proxy :: "Proxy"
  cfg_KubeAPIServerBindPort :: "u16"
  cfg_KubeAPIServerBindPortAlt :: "u16"
  cfg_PodSubnet :: "string"
  cfg_ServiceSubnet :: "string"
  cfg_Registry :: "string"
  cfg_CertificateInformation :: "CertificateInformation"
  cfg_OsTag :: "string"
  cfg_OsRegistry :: "string"
  cfg_KubeProxyMode :: "string"
  cfg_BootVolumeContainerImage :: "string"
  cfg_CNI :: "string"
  cfg_Headless :: "bool"
  cfg_HeadlessPtr :: "bool option"
  cfg_Catalog :: "bool"
  cfg_CatalogPtr :: "bool option"
  cfg_CommunityCatalog :: "bool"
  cfg_CommunityCatalogPtr :: "bool option"
  cfg_EphemeralConfig :: "EphemeralClusterConfig"
  cfg_Quiet :: "bool"
  cfg_QuietPtr :: "bool option"
  cfg_KubeVersion :: "string"
  cfg_SshPublicKeyPath :: "string"
  cfg_SshPublicKey :: "string"
  cfg_Password :: "string"
  cfg_ExtraIgnitionInline :: "string"
  cfg_ExtraIgnition :: "string"

record ClusterConfig =
  clu_WorkingDirectory :: "string"
  clu_Name :: "string"
  clu_Provider :: "string"
  clu_Providers :: "Providers"
  clu_Proxy :: "Proxy"
  clu_Registry :: "string"
  clu_WorkerNodes :: "u16"
  clu_ControlPlaneNodes :: "u16"
  clu_KubeAPIServerBindPort :: "u16"
  clu_KubeAPIServerBindPortAlt :: "u16"
  clu_VirtualIp :: "string"
  clu_LoadBalancer :: "string"
  clu_PodSubnet :: "string"
  clu_ServiceSubnet :: "string"
  clu_CertificateInformation :: "CertificateInformation"
  clu_OsTag :: "string"
  clu_OsRegistry :: "string"
  clu_KubeProxyMode :: "string"
  clu_BootVolumeContainerImage :: "string"
  clu_CNI :: "string"
  clu_Headless :: "bool"
  clu_HeadlessPtr :: "bool option"
  clu_Catalog :: "bool"
  clu_CatalogPtr :: "bool option"
  clu_CommunityCatalog :: "bool"
  clu_CommunityCatalogPtr :: "bool option"
  clu_Catalogs :: "Catalog list"
  clu_Applications :: "Application list"
  clu_KubeVersion :: "string"
  clu_SshPublicKeyPath :: "string"
  clu_SshPublicKey :: "string"
  clu_Password :: "string"
  clu_CipherSuites :: "string"
  clu_ClusterDefinitionInline :: "string"
  clu_ClusterDefinition :: "string"
  clu_ExtraIgnitionInline :: "string"
  clu_ExtraIgnition :: "string"

record ImageInfo =
  img_BaseImage :: "string"
  img_Tag :: "string"
  img_Digest :: "string"

section \<open>Zero values\<close>

definition zero_Node :: "Node" where
  "zero_Node = \<lparr>node_Memory = [], node_CPUs = 0, node_Storage = []\<rparr>"

definition zero_LibvirtProvider :: "LibvirtProvider" where
  "zero_LibvirtProvider = \<lparr>lv_SessionURI = [], lv_SshKey = [], lv_StoragePool = [], lv_Network = [], lv_ControlPlaneNode = zero_Node, lv_WorkerNode = zero_Node, lv_BootVolumeName = [], lv_BootVolumeContainerImagePath = [], lv_SlirpSubnet = [], lv_SecureBoot = False, lv_SecureBootPtr = None, lv_Smm = False, lv_SmmPtr = None\<rparr>"

definition zero_OciInstanceShape :: "OciInstanceShape" where
  "zero_OciInstanceShape = \<lparr>os_Shape = [], os_Ocpus = 0, os_BootVolumeSize = []\<rparr>"

definition zero_LoadBalancer :: "LoadBalancer" where
  "zero_LoadBalancer = \<lparr>lb_Subnet1 = [], lb_Subnet2 = []\<rparr>"

definition zero_OciImageSet :: "OciImageSet" where
  "zero_OciImageSet = \<lparr>oi_Amd64 = [], oi_Arm64 = []\<rparr>"

definition zero_Proxy :: "Proxy" where
  "zero_Proxy = \<lparr>proxy_HttpsProxy = [], proxy_HttpProxy = [], proxy_NoProxy = []\<rparr>"

definition zero_OciProvider :: "OciProvider" where
  "zero_OciProvider = \<lparr>oci_KubeConfigPath = [], oci_Compartment = [], oci_Profile = [], oci_Namespace = [], oci_ControlPlaneShape = zero_OciInstanceShape, oci_Images = zero_OciImageSet, oci_WorkerShape = zero_OciInstanceShape, oci_SelfManaged = False, oci_SelfManagedPtr = None, oci_LoadBalancer = zero_LoadBalancer, oci_Vcn = [], oci_ImageBucket = [], oci_Proxy = zero_Proxy\<rparr>"

definition zero_OlvmNetwork :: "OlvmNetwork" where
  "zero_OlvmNetwork = \<lparr>on_NetworkName = [], on_VnicName = [], on_VnicProfileName = []\<rparr>"

definition zero_OlvmMachineCpuTopology :: "OlvmMachineCpuTopology" where
  "zero_OlvmMachineCpuTopology = \<lparr>topo_Cores = 0, topo_Sockets = 0, topo_Threads = 0\<rparr>"

definition zero_OlvmMachineCpu :: "OlvmMachineCpu" where
  "zero_OlvmMachineCpu = \<lparr>cpu_Architecture = [], cpu_Topology = zero_OlvmMachineCpuTopology\<rparr>"

definition zero_OlvmIPV4 :: "OlvmIPV4" where
  "zero_OlvmIPV4 = \<lparr>v4_Subnet = [], v4_IpAddresses = []\<rparr>"

definition zero_OlvmIPV6 :: "OlvmIPV6" where
  "zero_OlvmIPV6 = \<lparr>v6_AutoConf = False, v6_AutoConfPtr = None, v6_IpAddresses = []\<rparr>"

definition zero_OlvmVirtualMachineNetwork :: "OlvmVirtualMachineNetwork" where
  "zero_OlvmVirtualMachineNetwork = \<lparr>vn_Gateway = [], vn_Interface = [], vn_InterfaceType = [], vn_IPV4 = zero_OlvmIPV4, vn_IPV6 = zero_OlvmIPV6\<rparr>"

definition zero_OlvmVirtualMachine :: "OlvmVirtualMachine" where
  "zero_OlvmVirtualMachine = \<lparr>vm_Cpu = zero_OlvmMachineCpu, vm_Memory = [], vm_Network = zero_OlvmVirtualMachineNetwork\<rparr>"

definition zero_OlvmMachine :: "OlvmMachine" where
  "zero_OlvmMachine = \<lparr>om_OlvmNetwork = zero_OlvmNetwork, om_OlvmOvirtClusterName = [], om_VirtualMachine = zero_OlvmVirtualMachine, om_VMTemplateName = []\<rparr>"

definition zero_OvirtCsiDriver :: "OvirtCsiDriver" where
  "zero_OvirtCsiDriver = \<lparr>csi_ConfigMapName = [], csi_ControllerPluginName = [], csi_CsiDriverName = [], csi_Install = False, csi_InstallPtr = None, csi_Namespace = [], csi_NodePluginName = [], csi_SecretName = []\<rparr>"

definition zero_OlvmLocalAPIEndpoint :: "OlvmLocalAPIEndpoint" where
  "zero_OlvmLocalAPIEndpoint = \<lparr>lae_BindPort = 0, lae_AdvertiseAddress = []\<rparr>"

definition zero_NamespacedName :: "NamespacedName" where
  "zero_NamespacedName = \<lparr>nn_Name = [], nn_Namespace = []\<rparr>"

definition zero_OlvmAPIServer :: "OlvmAPIServer" where
  "zero_OlvmAPIServer = \<lparr>api_CAConfigMap = zero_NamespacedName, api_CredentialsSecret = zero_NamespacedName, api_InsecureSkipTLSVerify = False, api_InsecureSkipTLSVerifyPtr = None, api_ServerCA = [], api_ServerCAPath = [], api_ServerURL = []\<rparr>"

definition zero_OlvmOck :: "OlvmOck" where
  "zero_OlvmOck = \<lparr>ock_DiskName = [], ock_DiskSize = [], ock_StorageDomainName = []\<rparr>"

definition zero_OlvmProvider :: "OlvmProvider" where
  "zero_OlvmProvider = \<lparr>olvm_ControlPlaneMachine = zero_OlvmMachine, olvm_CSIDriver = zero_OvirtCsiDriver, olvm_DatacenterName = [], olvm_LocalAPIEndpoint = zero_OlvmLocalAPIEndpoint, olvm_Namespace = [], olvm_OlvmAPIServer = zero_OlvmAPIServer, olvm_OlvmOck = zero_OlvmOck, olvm_Proxy = zero_Proxy, olvm_SelfManaged = False, olvm_SelfManagedPtr = None, olvm_WorkerMachine = zero_OlvmMachine\<rparr>"

definition zero_ByoProvider :: "ByoProvider" where
  "zero_ByoProvider = \<lparr>byo_AutomaticTokenCreation = False, byo_AutomaticTokenCreationPtr = None, byo_NetworkInterface = []\<rparr>"

definition zero_CertificateInformation :: "CertificateInformation" where
  "zero_CertificateInformation = \<lparr>ci_Country = [], ci_Org = [], ci_OrgUnit = [], ci_State = []\<rparr>"

definition zero_Providers :: "Providers" where
  "zero_Providers = \<lparr>prv_Libvirt = zero_LibvirtProvider, prv_Oci = zero_OciProvider, prv_Byo = zero_ByoProvider, prv_Olvm = zero_OlvmProvider\<rparr>"

definition zero_Catalog :: "Catalog" where
  "zero_Catalog = \<lparr>cat_Protocol = [], cat_URI = [], cat_Name = [], cat_Namespace = []\<rparr>"

definition zero_Application :: "Application" where
  "zero_Application = \<lparr>app_Name = [], app_Release = [], app_Version = [], app_Catalog = [], app_Namespace = [], app_Config = GNil, app_ConfigFrom = []\<rparr>"

definition zero_EphemeralClusterConfig :: "EphemeralClusterConfig" where
  "zero_EphemeralClusterConfig = \<lparr>eph_Name = [], eph_Preserve = False, eph_Node = zero_Node\<rparr>"

definition zero_Config :: "Config" where
  "zero_Config = \<lparr>cfg_Providers = zero_Providers, cfg_KubeConfig = [], cfg_AutoStartUI = [], cfg_Proxy = zero_Proxy, cfg_KubeAPIServerBindPort = 0, cfg_KubeAPIServerBindPortAlt = 0, cfg_PodSubnet = [], cfg_ServiceSubnet = [], cfg_Registry = [], cfg_CertificateInformation = zero_CertificateInformation, cfg_OsTag = [], cfg_OsRegistry = [], cfg_KubeProxyMode = [], cfg_BootVolumeContainerImage = [], cfg_CNI = [], cfg_Headless = False, cfg_HeadlessPtr = None, cfg_Catalog = False, cfg_CatalogPtr = None, cfg_CommunityCatalog = False, cfg_CommunityCatalogPtr = None, cfg_EphemeralConfig = zero_EphemeralClusterConfig, cfg_Quiet = False, cfg_QuietPtr = None, cfg_KubeVersion = [], cfg_SshPublicKeyPath = [], cfg_SshPublicKey = [], cfg_Password = [], cfg_ExtraIgnitionInline = [], cfg_ExtraIgnition = []\<rparr>"

definition zero_ClusterConfig :: "ClusterConfig" where
  "zero_ClusterConfig = \<lparr>clu_WorkingDirectory = [], clu_Name = [], clu_Provider = [], clu_Providers = zero_Providers, clu_Proxy = zero_Proxy, clu_Registry = [], clu_WorkerNodes = 0, clu_ControlPlaneNodes = 0, clu_KubeAPIServerBindPort = 0, clu_KubeAPIServerBindPortAlt = 0, clu_VirtualIp = [], clu_LoadBalancer = [], clu_PodSubnet = [], clu_ServiceSubnet = [], clu_CertificateInformation = zero_CertificateInformation, clu_OsTag = [], clu_OsRegistry = [], clu_KubeProxyMode = [], clu_BootVolumeContainerImage = [], clu_CNI = [], clu_Headless = False, clu_HeadlessPtr = None, clu_Catalog = False, clu_CatalogPtr = None, clu_CommunityCatalog = False, clu_CommunityCatalogPtr = None, clu_Catalogs = [], clu_Applications = [], clu_KubeVersion = [], clu_SshPublicKeyPath = [], clu_SshPublicKey = [], clu_Password = [], clu_CipherSuites = [], clu_ClusterDefinitionInline = [], clu_ClusterDefinition = [], clu_ExtraIgnitionInline = [], clu_ExtraIgnition = []\<rparr>"

definition zero_ImageInfo :: "ImageInfo" where
  "zero_ImageInfo = \<lparr>img_BaseImage = [], img_Tag = [], img_Digest = []\<rparr>"

end
