(* ===== verification/Config_Merge.thy ===== *)
theory Config_Merge
  imports Config_Types
begin

text \<open>
  The merges of \<^verbatim>\<open>pkg/config/types/types.go\<close>: \<open>Merge\<close> functions lay the values set in their second
  argument over those of the first, one function per structure, composed as in the source.
  A second argument that the source tests against nil is an \<open>option\<close>.  The interface
  \<open>overlay\<close> states what all of them promise (associativity, and that merging with the zero
  value normalises a structure), its lemmas are proved once, and every structure of the
  configuration interprets it.
\<close>

section \<open>The scalar choices\<close>

definition ies :: "string \<Rightarrow> string \<Rightarrow> string" where
  "ies i e = (if e \<noteq> [] then e else i)"

definition ieu :: "u16 \<Rightarrow> u16 \<Rightarrow> u16" where
  "ieu i e = (if e \<noteq> 0 then e else i)"

definition iei :: "int \<Rightarrow> int \<Rightarrow> int" where
  "iei i e = (if e \<noteq> 0 then e else i)"

definition iebp :: "bool option \<Rightarrow> bool option \<Rightarrow> bool \<Rightarrow> bool" where
  "iebp i e def = (case e of Some b \<Rightarrow> b | None \<Rightarrow> (case i of Some b \<Rightarrow> b | None \<Rightarrow> def))"

definition iebpp :: "bool option \<Rightarrow> bool option \<Rightarrow> bool option" where
  "iebpp i e = (case e of Some b \<Rightarrow> Some b | None \<Rightarrow> (case i of Some b \<Rightarrow> Some b | None \<Rightarrow> None))"

section \<open>The structure merges\<close>

definition MergeCatalogs :: "Catalog list \<Rightarrow> Catalog list \<Rightarrow> Catalog list" where
  "MergeCatalogs def ovr = ([] @ def) @ ovr"

definition MergeApplications :: "Application list \<Rightarrow> Application list \<Rightarrow> Application list" where
  "MergeApplications def ovr = ([] @ def) @ ovr"

definition MergeProxy :: "Proxy \<Rightarrow> Proxy option \<Rightarrow> Proxy" where
  "MergeProxy def ovr_ptr = (case ovr_ptr of None \<Rightarrow> def
     | Some ovr \<Rightarrow> \<lparr>proxy_HttpsProxy = ies (proxy_HttpsProxy def) (proxy_HttpsProxy ovr),
       proxy_HttpProxy = ies (proxy_HttpProxy def) (proxy_HttpProxy ovr),
       proxy_NoProxy = ies (proxy_NoProxy def) (proxy_NoProxy ovr)\<rparr>)"

definition MergeCertificateInformation :: "CertificateInformation \<Rightarrow> CertificateInformation option \<Rightarrow> CertificateInformation" where
  "MergeCertificateInformation def ovr_ptr = (case ovr_ptr of None \<Rightarrow> def
     | Some ovr \<Rightarrow> \<lparr>ci_Country = ies (ci_Country def) (ci_Country ovr),
       ci_Org = ies (ci_Org def) (ci_Org ovr),
       ci_OrgUnit = ies (ci_OrgUnit def) (ci_OrgUnit ovr),
       ci_State = ies (ci_State def) (ci_State ovr)\<rparr>)"

definition MergeNode :: "Node \<Rightarrow> Node option \<Rightarrow> Node" where
  "MergeNode def ovr_ptr = (case ovr_ptr of None \<Rightarrow> def
     | Some ovr \<Rightarrow> \<lparr>node_Memory = ies (node_Memory def) (node_Memory ovr),
       node_CPUs = iei (node_CPUs def) (node_CPUs ovr),
       node_Storage = ies (node_Storage def) (node_Storage ovr)\<rparr>)"

definition MergeLibvirtProvider :: "LibvirtProvider \<Rightarrow> LibvirtProvider option \<Rightarrow> LibvirtProvider" where
  "MergeLibvirtProvider def ovr_ptr = (case ovr_ptr of None \<Rightarrow> def
     | Some ovr \<Rightarrow> \<lparr>lv_SessionURI = ies (lv_SessionURI def) (lv_SessionURI ovr),
       lv_SshKey = ies (lv_SshKey def) (lv_SshKey ovr),
       lv_StoragePool = ies (lv_StoragePool def) (lv_StoragePool ovr),
       lv_Network = ies (lv_Network def) (lv_Network ovr),
       lv_ControlPlaneNode = MergeNode (lv_ControlPlaneNode def) (Some (lv_ControlPlaneNode ovr)),
       lv_WorkerNode = MergeNode (lv_WorkerNode def) (Some (lv_WorkerNode ovr)),
       lv_BootVolumeName = ies (lv_BootVolumeName def) (lv_BootVolumeName ovr),
       lv_BootVolumeContainerImagePath = ies (lv_BootVolumeContainerImagePath def) (lv_BootVolumeContainerImagePath ovr),
       lv_SlirpSubnet = ies (lv_SlirpSubnet def) (lv_SlirpSubnet ovr),
       lv_SecureBoot = iebp (lv_SecureBootPtr def) (lv_SecureBootPtr ovr) False,
       lv_SecureBootPtr = iebpp (lv_SecureBootPtr def) (lv_SecureBootPtr ovr),
       lv_Smm = iebp (lv_SmmPtr def) (lv_SmmPtr ovr) False,
       lv_SmmPtr = iebpp (lv_SmmPtr def) (lv_SmmPtr ovr)\<rparr>)"

definition MergeOciInstanceShape :: "OciInstanceShape \<Rightarrow> OciInstanceShape \<Rightarrow> OciInstanceShape" where
  "MergeOciInstanceShape def ovr =
      \<lparr>os_Shape = ies (os_Shape def) (os_Shape ovr),
       os_Ocpus = iei (os_Ocpus def) (os_Ocpus ovr),
       os_BootVolumeSize = ies (os_BootVolumeSize def) (os_BootVolumeSize ovr)\<rparr>"

definition MergeLoadBalancer :: "LoadBalancer \<Rightarrow> LoadBalancer \<Rightarrow> LoadBalancer" where
  "MergeLoadBalancer def ovr =
      \<lparr>lb_Subnet1 = ies (lb_Subnet1 def) (lb_Subnet1 ovr),
       lb_Subnet2 = ies (lb_Subnet2 def) (lb_Subnet2 ovr)\<rparr>"

definition MergeOciImageSet :: "OciImageSet \<Rightarrow> OciImageSet \<Rightarrow> OciImageSet" where
  "MergeOciImageSet def ovr =
      \<lparr>oi_Amd64 = ies (oi_Amd64 def) (oi_Amd64 ovr),
       oi_Arm64 = ies (oi_Arm64 def) (oi_Arm64 ovr)\<rparr>"

definition MergeOciProvider :: "OciProvider \<Rightarrow> OciProvider \<Rightarrow> OciProvider" where
  "MergeOciProvider def ovr =
      \<lparr>oci_KubeConfigPath = ies (oci_KubeConfigPath def) (oci_KubeConfigPath ovr),
       oci_Compartment = ies (oci_Compartment def) (oci_Compartment ovr),
       oci_Profile = ies (oci_Profile def) (oci_Profile ovr),
       oci_Namespace = ies (oci_Namespace def) (oci_Namespace ovr),
       oci_ControlPlaneShape = MergeOciInstanceShape (oci_ControlPlaneShape def) (oci_ControlPlaneShape ovr),
       oci_Images = MergeOciImageSet (oci_Images def) (oci_Images ovr),
       oci_WorkerShape = MergeOciInstanceShape (oci_WorkerShape def) (oci_WorkerShape ovr),
       oci_SelfManaged = iebp (oci_SelfManagedPtr def) (oci_SelfManagedPtr ovr) False,
       oci_SelfManagedPtr = iebpp (oci_SelfManagedPtr def) (oci_SelfManagedPtr ovr),
       oci_LoadBalancer = MergeLoadBalancer (oci_LoadBalancer def) (oci_LoadBalancer ovr),
       oci_Vcn = ies (oci_Vcn def) (oci_Vcn ovr),
       oci_ImageBucket = ies (oci_ImageBucket def) (oci_ImageBucket ovr),
       oci_Proxy = MergeProxy (oci_Proxy def) (Some (oci_Proxy ovr))\<rparr>"

definition MergeNamespacedName :: "NamespacedName \<Rightarrow> NamespacedName \<Rightarrow> NamespacedName" where
  "MergeNamespacedName def ovr =
      \<lparr>nn_Name = ies (nn_Name def) (nn_Name ovr),
       nn_Namespace = ies (nn_Namespace def) (nn_Namespace ovr)\<rparr>"

definition MergeOlvmAPIServer :: "OlvmAPIServer \<Rightarrow> OlvmAPIServer \<Rightarrow> OlvmAPIServer" where
  "MergeOlvmAPIServer def ovr =
      \<lparr>api_CAConfigMap = MergeNamespacedName (api_CAConfigMap def) (api_CAConfigMap ovr),
       api_CredentialsSecret = MergeNamespacedName (api_CredentialsSecret def) (api_CredentialsSecret ovr),
       api_InsecureSkipTLSVerify = iebp (api_InsecureSkipTLSVerifyPtr def) (api_InsecureSkipTLSVerifyPtr ovr) False,
       api_InsecureSkipTLSVerifyPtr = iebpp (api_InsecureSkipTLSVerifyPtr def) (api_InsecureSkipTLSVerifyPtr ovr),
       api_ServerCA = ies (api_ServerCA def) (api_ServerCA ovr),
       api_ServerCAPath = ies (api_ServerCAPath def) (api_ServerCAPath ovr),
       api_ServerURL = ies (api_ServerURL def) (api_ServerURL ovr)\<rparr>"

definition MergeOlvmCsiDriver :: "OvirtCsiDriver \<Rightarrow> OvirtCsiDriver \<Rightarrow> OvirtCsiDriver" where
  "MergeOlvmCsiDriver def ovr =
      \<lparr>csi_ConfigMapName = ies (csi_ConfigMapName def) (csi_ConfigMapName ovr),
       csi_ControllerPluginName = ies (csi_ControllerPluginName def) (csi_ControllerPluginName ovr),
       csi_CsiDriverName = ies (csi_CsiDriverName def) (csi_CsiDriverName ovr),
       csi_Install = iebp (csi_InstallPtr def) (csi_InstallPtr ovr) True,
       csi_InstallPtr = iebpp (csi_InstallPtr def) (csi_InstallPtr ovr),
       csi_Namespace = ies (csi_Namespace def) (csi_Namespace ovr),
       csi_NodePluginName = ies (csi_NodePluginName def) (csi_NodePluginName ovr),
       csi_SecretName = ies (csi_SecretName def) (csi_SecretName ovr)\<rparr>"

definition MergeOlvmLocalAPIEndpoint :: "OlvmLocalAPIEndpoint \<Rightarrow> OlvmLocalAPIEndpoint \<Rightarrow> OlvmLocalAPIEndpoint" where
  "MergeOlvmLocalAPIEndpoint def ovr =
      \<lparr>lae_BindPort = iei (lae_BindPort def) (lae_BindPort ovr),
       lae_AdvertiseAddress = ies (lae_AdvertiseAddress def) (lae_AdvertiseAddress ovr)\<rparr>"

definition MergeOlvmNetwork :: "OlvmNetwork \<Rightarrow> OlvmNetwork \<Rightarrow> OlvmNetwork" where
  "MergeOlvmNetwork def ovr =
      \<lparr>on_NetworkName = ies (on_NetworkName def) (on_NetworkName ovr),
       on_VnicName = ies (on_VnicName def) (on_VnicName ovr),
       on_VnicProfileName = ies (on_VnicProfileName def) (on_VnicProfileName ovr)\<rparr>"

definition MergeOlvmMachineCpuTopology :: "OlvmMachineCpuTopology \<Rightarrow> OlvmMachineCpuTopology \<Rightarrow> OlvmMachineCpuTopology" where
  "MergeOlvmMachineCpuTopology def ovr =
      \<lparr>topo_Cores = iei (topo_Cores def) (topo_Cores ovr),
       topo_Sockets = iei (topo_Sockets def) (topo_Sockets ovr),
       topo_Threads = iei (topo_Threads def) (topo_Threads ovr)\<rparr>"

definition MergeOlvmMachineCpu :: "OlvmMachineCpu \<Rightarrow> OlvmMachineCpu \<Rightarrow> OlvmMachineCpu" where
  "MergeOlvmMachineCpu def ovr =
      \<lparr>cpu_Architecture = ies (cpu_Architecture def) (cpu_Architecture ovr),
       cpu_Topology = MergeOlvmMachineCpuTopology (cpu_Topology def) (cpu_Topology ovr)\<rparr>"

definition MergeOlvmIPV4 :: "OlvmIPV4 \<Rightarrow> OlvmIPV4 \<Rightarrow> OlvmIPV4" where
  "MergeOlvmIPV4 def ovr =
      \<lparr>v4_Subnet = ies (v4_Subnet def) (v4_Subnet ovr),
       v4_IpAddresses = ies (v4_IpAddresses def) (v4_IpAddresses ovr)\<rparr>"

definition MergeOlvmIPV6 :: "OlvmIPV6 \<Rightarrow> OlvmIPV6 \<Rightarrow> OlvmIPV6" where
  "MergeOlvmIPV6 def ovr =
      \<lparr>v6_AutoConf = iebp (v6_AutoConfPtr def) (v6_AutoConfPtr ovr) False,
       v6_AutoConfPtr = iebpp (v6_AutoConfPtr def) (v6_AutoConfPtr ovr),
       v6_IpAddresses = ies (v6_IpAddresses def) (v6_IpAddresses ovr)\<rparr>"

definition MergeOlvmVirtualMachineNetwork :: "OlvmVirtualMachineNetwork \<Rightarrow> OlvmVirtualMachineNetwork \<Rightarrow> OlvmVirtualMachineNetwork" where
  "MergeOlvmVirtualMachineNetwork def ovr =
      \<lparr>vn_Gateway = ies (vn_Gateway def) (vn_Gateway ovr),
       vn_Interface = ies (vn_Interface def) (vn_Interface ovr),
       vn_InterfaceType = ies (vn_InterfaceType def) (vn_InterfaceType ovr),
       vn_IPV4 = MergeOlvmIPV4 (vn_IPV4 def) (vn_IPV4 ovr),
       vn_IPV6 = MergeOlvmIPV6 (vn_IPV6 def) (vn_IPV6 ovr)\<rparr>"

definition MergeOlvmVirtualMachine :: "OlvmVirtualMachine \<Rightarrow> OlvmVirtualMachine \<Rightarrow> OlvmVirtualMachine" where
  "MergeOlvmVirtualMachine def ovr =
      \<lparr>vm_Cpu = MergeOlvmMachineCpu (vm_Cpu def) (vm_Cpu ovr),
       vm_Memory = ies (vm_Memory def) (vm_Memory ovr),
       vm_Network = MergeOlvmVirtualMachineNetwork (vm_Network def) (vm_Network ovr)\<rparr>"

definition MergeOlvmMachine :: "OlvmMachine \<Rightarrow> OlvmMachine \<Rightarrow> OlvmMachine" where
  "MergeOlvmMachine def ovr =
      \<lparr>om_OlvmNetwork = MergeOlvmNetwork (om_OlvmNetwork def) (om_OlvmNetwork ovr),
       om_OlvmOvirtClusterName = ies (om_OlvmOvirtClusterName def) (om_OlvmOvirtClusterName ovr),
       om_VirtualMachine = MergeOlvmVirtualMachine (om_VirtualMachine def) (om_VirtualMachine ovr),
       om_VMTemplateName = ies (om_VMTemplateName def) (om_VMTemplateName ovr)\<rparr>"

definition MergeOlvmOck :: "OlvmOck \<Rightarrow> OlvmOck \<Rightarrow> OlvmOck" where
  "MergeOlvmOck def ovr =
      \<lparr>ock_DiskName = ies (ock_DiskName def) (ock_DiskName ovr),
       ock_DiskSize = ies (ock_DiskSize def) (ock_DiskSize ovr),
       ock_StorageDomainName = ies (ock_StorageDomainName def) (ock_StorageDomainName ovr)\<rparr>"

definition MergeOlvmProvider :: "OlvmProvider \<Rightarrow> OlvmProvider \<Rightarrow> OlvmProvider" where
  "MergeOlvmProvider def ovr =
      \<lparr>olvm_ControlPlaneMachine = MergeOlvmMachine (olvm_ControlPlaneMachine def) (olvm_ControlPlaneMachine ovr),
       olvm_CSIDriver = MergeOlvmCsiDriver (olvm_CSIDriver def) (olvm_CSIDriver ovr),
       olvm_DatacenterName = ies (olvm_DatacenterName def) (olvm_DatacenterName ovr),
       olvm_LocalAPIEndpoint = MergeOlvmLocalAPIEndpoint (olvm_LocalAPIEndpoint def) (olvm_LocalAPIEndpoint ovr),
       olvm_Namespace = ies (olvm_Namespace def) (olvm_Namespace ovr),
       olvm_OlvmAPIServer = MergeOlvmAPIServer (olvm_OlvmAPIServer def) (olvm_OlvmAPIServer ovr),
       olvm_OlvmOck = MergeOlvmOck (olvm_OlvmOck def) (olvm_OlvmOck ovr),
       olvm_Proxy = MergeProxy (olvm_Proxy def) (Some (olvm_Proxy ovr)),
       olvm_SelfManaged = iebp (olvm_SelfManagedPtr def) (olvm_SelfManagedPtr ovr) False,
       olvm_SelfManagedPtr = iebpp (olvm_SelfManagedPtr def) (olvm_SelfManagedPtr ovr),
       olvm_WorkerMachine = MergeOlvmMachine (olvm_WorkerMachine def) (olvm_WorkerMachine ovr)\<rparr>"

definition MergeByoProvider :: "ByoProvider \<Rightarrow> ByoProvider \<Rightarrow> ByoProvider" where
  "MergeByoProvider def ovr =
      \<lparr>byo_AutomaticTokenCreation = iebp (byo_AutomaticTokenCreationPtr def) (byo_AutomaticTokenCreationPtr ovr) False,
       byo_AutomaticTokenCreationPtr = iebpp (byo_AutomaticTokenCreationPtr def) (byo_AutomaticTokenCreationPtr ovr),
       byo_NetworkInterface = ies (byo_NetworkInterface def) (byo_NetworkInterface ovr)\<rparr>"

definition MergeProviders :: "Providers \<Rightarrow> Providers \<Rightarrow> Providers" where
  "MergeProviders def ovr =
      \<lparr>prv_Libvirt = MergeLibvirtProvider (prv_Libvirt def) (Some (prv_Libvirt ovr)),
       prv_Oci = MergeOciProvider (prv_Oci def) (prv_Oci ovr),
       prv_Byo = MergeByoProvider (prv_Byo def) (prv_Byo ovr),
       prv_Olvm = MergeOlvmProvider (prv_Olvm def) (prv_Olvm ovr)\<rparr>"

definition MergeEphemeralConfig :: "EphemeralClusterConfig \<Rightarrow> EphemeralClusterConfig \<Rightarrow> EphemeralClusterConfig" where
  "MergeEphemeralConfig def ovr =
      \<lparr>eph_Name = ies (eph_Name def) (eph_Name ovr),
       eph_Preserve = False,
       eph_Node = MergeNode (eph_Node def) (Some (eph_Node ovr))\<rparr>"

definition MergeConfig :: "Config \<Rightarrow> Config \<Rightarrow> Config" where
  "MergeConfig def ovr =
      \<lparr>cfg_Providers = MergeProviders (cfg_Providers def) (cfg_Providers ovr),
       cfg_KubeConfig = ies (cfg_KubeConfig def) (cfg_KubeConfig ovr),
       cfg_AutoStartUI = ies (cfg_AutoStartUI def) (cfg_AutoStartUI ovr),
       cfg_Proxy = MergeProxy (cfg_Proxy def) (Some (cfg_Proxy ovr)),
       cfg_KubeAPIServerBindPort = ieu (cfg_KubeAPIServerBindPort def) (cfg_KubeAPIServerBindPort ovr),
       cfg_KubeAPIServerBindPortAlt = ieu (cfg_KubeAPIServerBindPortAlt def) (cfg_KubeAPIServerBindPortAlt ovr),
       cfg_PodSubnet = ies (cfg_PodSubnet def) (cfg_PodSubnet ovr),
       cfg_ServiceSubnet = ies (cfg_ServiceSubnet def) (cfg_ServiceSubnet ovr),
       cfg_Registry = ies (cfg_Registry def) (cfg_Registry ovr),
       cfg_CertificateInformation = MergeCertificateInformation (cfg_CertificateInformation def) (Some (cfg_CertificateInformation ovr)),
       cfg_OsTag = ies (cfg_OsTag def) (cfg_OsTag ovr),
       cfg_OsRegistry = ies (cfg_OsRegistry def) (cfg_OsRegistry ovr),
       cfg_KubeProxyMode = ies (cfg_KubeProxyMode def) (cfg_KubeProxyMode ovr),
       cfg_BootVolumeContainerImage = ies (cfg_BootVolumeContainerImage def) (cfg_BootVolumeContainerImage ovr),
       cfg_CNI = ies (cfg_CNI def) (cfg_CNI ovr),
       cfg_Headless = iebp (cfg_HeadlessPtr def) (cfg_HeadlessPtr ovr) False,
       cfg_HeadlessPtr = iebpp (cfg_HeadlessPtr def) (cfg_HeadlessPtr ovr),
       cfg_Catalog = iebp (cfg_CatalogPtr def) (cfg_CatalogPtr ovr) True,
       cfg_CatalogPtr = iebpp (cfg_CatalogPtr def) (cfg_CatalogPtr ovr),
       cfg_CommunityCatalog = iebp (cfg_CommunityCatalogPtr def) (cfg_CommunityCatalogPtr ovr) False,
       cfg_CommunityCatalogPtr = iebpp (cfg_CommunityCatalogPtr def) (cfg_CommunityCatalogPtr ovr),
       cfg_EphemeralConfig = MergeEphemeralConfig (cfg_EphemeralConfig def) (cfg_EphemeralConfig ovr),
       cfg_Quiet = iebp (cfg_QuietPtr def) (cfg_QuietPtr ovr) False,
       cfg_QuietPtr = iebpp (cfg_QuietPtr def) (cfg_QuietPtr ovr),
       cfg_KubeVersion = ies (cfg_KubeVersion def) (cfg_KubeVersion ovr),
       cfg_SshPublicKeyPath = ies (cfg_SshPublicKeyPath def) (cfg_SshPublicKeyPath ovr),
       cfg_SshPublicKey = ies (cfg_SshPublicKey def) (cfg_SshPublicKey ovr),
       cfg_Password = ies (cfg_Password def) (cfg_Password ovr),
       cfg_ExtraIgnitionInline = ies (cfg_ExtraIgnitionInline def) (cfg_ExtraIgnitionInline ovr),
       cfg_ExtraIgnition = ies (cfg_ExtraIgnition def) (cfg_ExtraIgnition ovr)\<rparr>"

definition MergeClusterConfig :: "ClusterConfig \<Rightarrow> ClusterConfig \<Rightarrow> ClusterConfig" where
  "MergeClusterConfig def ovr =
      \<lparr>clu_WorkingDirectory = ies (clu_WorkingDirectory def) (clu_WorkingDirectory ovr),
       clu_Name = ies (clu_Name def) (clu_Name ovr),
       clu_Provider = ies (clu_Provider def) (clu_Provider ovr),
       clu_Providers = MergeProviders (clu_Providers def) (clu_Providers ovr),
       clu_Proxy = MergeProxy (clu_Proxy def) (Some (clu_Proxy ovr)),
       clu_Registry = ies (clu_Registry def) (clu_Registry ovr),
       clu_WorkerNodes = ieu (clu_WorkerNodes def) (clu_WorkerNodes ovr),
       clu_ControlPlaneNodes = ieu (clu_ControlPlaneNodes def) (clu_ControlPlaneNodes ovr),
       clu_KubeAPIServerBindPort = ieu (clu_KubeAPIServerBindPort def) (clu_KubeAPIServerBindPort ovr),
       clu_KubeAPIServerBindPortAlt = ieu (clu_KubeAPIServerBindPortAlt def) (clu_KubeAPIServerBindPortAlt ovr),
       clu_VirtualIp = ies (clu_VirtualIp def) (clu_VirtualIp ovr),
       clu_LoadBalancer = ies (clu_LoadBalancer def) (clu_LoadBalancer ovr),
       clu_PodSubnet = ies (clu_PodSubnet def) (clu_PodSubnet ovr),
       clu_ServiceSubnet = ies (clu_ServiceSubnet def) (clu_ServiceSubnet ovr),
       clu_CertificateInformation = MergeCertificateInformation (clu_CertificateInformation def) (Some (clu_CertificateInformation ovr)),
       clu_OsTag = ies (clu_OsTag def) (clu_OsTag ovr),
       clu_OsRegistry = ies (clu_OsRegistry def) (clu_OsRegistry ovr),
       clu_KubeProxyMode = ies (clu_KubeProxyMode def) (clu_KubeProxyMode ovr),
       clu_BootVolumeContainerImage = ies (clu_BootVolumeContainerImage def) (clu_BootVolumeContainerImage ovr),
       clu_CNI = ies (clu_CNI def) (clu_CNI ovr),
       clu_Headless = iebp (clu_HeadlessPtr def) (clu_HeadlessPtr ovr) False,
       clu_HeadlessPtr = iebpp (clu_HeadlessPtr def) (clu_HeadlessPtr ovr),
       clu_Catalog = iebp (clu_CatalogPtr def) (clu_CatalogPtr ovr) True,
       clu_CatalogPtr = iebpp (clu_CatalogPtr def) (clu_CatalogPtr ovr),
       clu_CommunityCatalog = iebp (clu_CommunityCatalogPtr def) (clu_CommunityCatalogPtr ovr) False,
       clu_CommunityCatalogPtr = iebpp (clu_CommunityCatalogPtr def) (clu_CommunityCatalogPtr ovr),
       clu_Catalogs = MergeCatalogs (clu_Catalogs def) (clu_Catalogs ovr),
       clu_Applications = MergeApplications (clu_Applications def) (clu_Applications ovr),
       clu_KubeVersion = ies (clu_KubeVersion def) (clu_KubeVersion ovr),
       clu_SshPublicKeyPath = ies (clu_SshPublicKeyPath def) (clu_SshPublicKeyPath ovr),
       clu_SshPublicKey = ies (clu_SshPublicKey def) (clu_SshPublicKey ovr),
       clu_Password = ies (clu_Password def) (clu_Password ovr),
       clu_CipherSuites = ies (clu_CipherSuites def) (clu_CipherSuites ovr),
       clu_ClusterDefinitionInline = ies (clu_ClusterDefinitionInline def) (clu_ClusterDefinitionInline ovr),
       clu_ClusterDefinition = ies (clu_ClusterDefinition def) (clu_ClusterDefinition ovr),
       clu_ExtraIgnitionInline = ies (clu_ExtraIgnitionInline def) (clu_ExtraIgnitionInline ovr),
       clu_ExtraIgnition = ies (clu_ExtraIgnition def) (clu_ExtraIgnition ovr)\<rparr>"

definition OverlayConfig :: "ClusterConfig \<Rightarrow> Config \<Rightarrow> ClusterConfig" where
  "OverlayConfig cc c =
      \<lparr>clu_WorkingDirectory = clu_WorkingDirectory cc,
       clu_Name = clu_Name cc,
       clu_Provider = clu_Provider cc,
       clu_Providers = MergeProviders (cfg_Providers c) (clu_Providers cc),
       clu_Proxy = MergeProxy (cfg_Proxy c) (Some (clu_Proxy cc)),
       clu_Registry = ies (cfg_Registry c) (clu_Registry cc),
       clu_WorkerNodes = clu_WorkerNodes cc,
       clu_ControlPlaneNodes = clu_ControlPlaneNodes cc,
       clu_KubeAPIServerBindPort = ieu (cfg_KubeAPIServerBindPort c) (clu_KubeAPIServerBindPort cc),
       clu_KubeAPIServerBindPortAlt = ieu (cfg_KubeAPIServerBindPortAlt c) (clu_KubeAPIServerBindPortAlt cc),
       clu_VirtualIp = clu_VirtualIp cc,
       clu_LoadBalancer = clu_LoadBalancer cc,
       clu_PodSubnet = ies (cfg_PodSubnet c) (clu_PodSubnet cc),
       clu_ServiceSubnet = ies (cfg_ServiceSubnet c) (clu_ServiceSubnet cc),
       clu_CertificateInformation = MergeCertificateInformation (cfg_CertificateInformation c) (Some (clu_CertificateInformation cc)),
       clu_OsTag = ies (cfg_OsTag c) (clu_OsTag cc),
       clu_OsRegistry = ies (cfg_OsRegistry c) (clu_OsRegistry cc),
       clu_KubeProxyMode = ies (cfg_KubeProxyMode c) (clu_KubeProxyMode cc),
       clu_BootVolumeContainerImage = ies (cfg_BootVolumeContainerImage c) (clu_BootVolumeContainerImage cc),
       clu_CNI = ies (cfg_CNI c) (clu_CNI cc),
       clu_Headless = iebp (cfg_HeadlessPtr c) (clu_HeadlessPtr cc) False,
       clu_HeadlessPtr = iebpp (cfg_HeadlessPtr c) (clu_HeadlessPtr cc),
       clu_Catalog = iebp (cfg_CatalogPtr c) (clu_CatalogPtr cc) True,
       clu_CatalogPtr = iebpp (cfg_CatalogPtr c) (clu_CatalogPtr cc),
       clu_CommunityCatalog = iebp (cfg_CommunityCatalogPtr c) (clu_CommunityCatalogPtr cc) False,
       clu_CommunityCatalogPtr = iebpp (cfg_CommunityCatalogPtr c) (clu_CommunityCatalogPtr cc),
       clu_Catalogs = MergeCatalogs (clu_Catalogs cc) [],
       clu_Applications = MergeApplications (clu_Applications cc) [],
       clu_KubeVersion = ies (cfg_KubeVersion c) (clu_KubeVersion cc),
       clu_SshPublicKeyPath = ies (cfg_SshPublicKeyPath c) (clu_SshPublicKeyPath cc),
       clu_SshPublicKey = ies (cfg_SshPublicKey c) (clu_SshPublicKey cc),
       clu_Password = ies (cfg_Password c) (clu_Password cc),
       clu_CipherSuites = clu_CipherSuites cc,
       clu_ClusterDefinitionInline = clu_ClusterDefinitionInline cc,
       clu_ClusterDefinition = clu_ClusterDefinition cc,
       clu_ExtraIgnitionInline = ies (cfg_ExtraIgnitionInline c) (clu_ExtraIgnitionInline cc),
       clu_ExtraIgnition = ies (cfg_ExtraIgnition c) (clu_ExtraIgnition cc)\<rparr>"

definition CopyConfig :: "Config \<Rightarrow> Config" where
  "CopyConfig c = MergeConfig zero_Config c"

definition CopyClusterConfig :: "ClusterConfig \<Rightarrow> ClusterConfig" where
  "CopyClusterConfig cc = MergeClusterConfig zero_ClusterConfig cc"

section \<open>The contract of a merge\<close>

text \<open>
  \<open>mrg\<close> is the merge, \<open>zero\<close> the structure with nothing set, \<open>norm\<close> the structures that are
  in the form a merge produces (every plain boolean agrees with the pointer it is derived
  from, and no field a merge drops is set).
\<close>

locale overlay =
  fixes mrg :: "'a \<Rightarrow> 'a \<Rightarrow> 'a" and zero :: 'a and norm :: "'a \<Rightarrow> bool"
  assumes assoc: "mrg (mrg a b) c = mrg a (mrg b c)"
    and norm_mrg: "norm (mrg a b)"
    and left_zero: "norm x \<Longrightarrow> mrg zero x = x"
    and right_zero: "norm x \<Longrightarrow> mrg x zero = x"
begin

lemma norm_iff_copy: "norm x \<longleftrightarrow> mrg zero x = x"
  using norm_mrg [of zero x] left_zero by auto

lemma zero_commutes: "mrg x zero = mrg zero x"
proof -
  have "mrg x zero = mrg zero (mrg x zero)"
    by (simp add: left_zero norm_mrg)
  also have "\<dots> = mrg (mrg zero x) zero" by (simp add: assoc)
  also have "\<dots> = mrg zero x" by (simp add: right_zero norm_mrg)
  finally show ?thesis .
qed

lemma copy_left: "mrg (mrg zero a) b = mrg a b"
  by (metis assoc left_zero norm_mrg)

lemma copy_right: "mrg a (mrg zero b) = mrg a b"
  by (metis assoc copy_left zero_commutes)

lemma copy_idem: "mrg zero (mrg zero x) = mrg zero x"
  by (rule copy_right)

lemma layers_split:
  "ys \<noteq> [] \<Longrightarrow> foldl mrg a (xs @ ys) = mrg (foldl mrg a xs) (foldl mrg zero ys)"
proof (induction ys rule: rev_nonempty_induct)
  case (single y)
  then show ?case by (simp add: copy_right)
next
  case (snoc y ys)
  have "foldl mrg a (xs @ ys @ [y]) = mrg (foldl mrg a (xs @ ys)) y" by simp
  with snoc show ?case by (simp add: assoc)
qed

lemma layers_norm: "xs \<noteq> [] \<Longrightarrow> norm (foldl mrg a xs)"
  by (cases xs rule: rev_cases) (simp_all add: norm_mrg)

lemma layers_copy: "foldl mrg a (map (mrg zero) xs) = foldl mrg a xs"
  by (induction xs arbitrary: a) (simp_all add: copy_right)

end

text \<open>
  A merge that also is idempotent: laying a structure over itself, or over a merge it already
  took part in, changes nothing.  Structures with lists that are appended are not.
\<close>

locale idem_overlay = overlay +
  assumes idem: "norm x \<Longrightarrow> mrg x x = x"
begin

lemma absorb_left: "norm x \<Longrightarrow> mrg x (mrg x y) = mrg x y"
  by (metis assoc idem)

lemma absorb_right: "mrg (mrg x y) y = mrg x y"
proof (cases "norm y")
  case True
  then show ?thesis by (simp add: assoc idem)
next
  case False
  have "mrg (mrg x (mrg zero y)) (mrg zero y) = mrg x (mrg (mrg zero y) (mrg zero y))"
    by (rule assoc)
  also have "mrg (mrg zero y) (mrg zero y) = mrg zero y"
    by (rule idem [OF norm_mrg])
  finally show ?thesis by (simp add: copy_right)
qed

end

text \<open>A field that is merged by its own choice is merged layer by layer.\<close>

lemma foldl_field:
  assumes "\<And>a b. f (mrg a b) = ch (f a) (f b)"
  shows "f (foldl mrg a xs) = foldl ch (f a) (map f xs)"
  by (induction xs arbitrary: a) (simp_all add: assms)

section \<open>The scalars keep the contract\<close>

interpretation str: idem_overlay ies "[]" "\<lambda>_. True"
  by unfold_locales (auto simp: ies_def)

interpretation uint: idem_overlay ieu 0 "\<lambda>_. True"
  by unfold_locales (auto simp: ieu_def)

interpretation intg: idem_overlay iei 0 "\<lambda>_. True"
  by unfold_locales (auto simp: iei_def)

interpretation bptr: idem_overlay iebpp None "\<lambda>_. True"
  by unfold_locales (auto simp: iebpp_def split: option.splits)

interpretation cats: overlay MergeCatalogs "[]" "\<lambda>_. True"
  by unfold_locales (auto simp: MergeCatalogs_def)

interpretation apps: overlay MergeApplications "[]" "\<lambda>_. True"
  by unfold_locales (auto simp: MergeApplications_def)

text \<open>A plain boolean is a function of the merged pointer and its default.\<close>

lemma iebp_assoc: "iebp (iebpp a b) c d = iebp a (iebpp b c) d"
  by (auto simp: iebp_def iebpp_def split: option.splits)

lemma iebp_iebpp: "iebp None (iebpp a b) d = iebp a b d"
  by (auto simp: iebp_def iebpp_def split: option.splits)

lemma iebp_right: "iebp a None d = iebp None a d"
  by (auto simp: iebp_def split: option.splits)

lemma iebp_idem: "iebp a a d = iebp None a d"
  by (auto simp: iebp_def split: option.splits)

lemmas iebp_laws = iebp_assoc iebp_iebpp iebp_right iebp_idem

interpretation ov_Proxy: idem_overlay "(\<lambda>a b. MergeProxy a (Some b))" zero_Proxy "(\<lambda>_. True)"
proof unfold_locales
  fix a b c x :: Proxy
  show "MergeProxy (MergeProxy a (Some b)) (Some c) = MergeProxy a (Some (MergeProxy b (Some c)))"
    by (simp add: MergeProxy_def str.assoc)
  show "MergeProxy zero_Proxy (Some x) = x"
    by (cases x) (simp add: MergeProxy_def zero_Proxy_def str.left_zero)
  show "MergeProxy x (Some zero_Proxy) = x"
    by (cases x) (simp add: MergeProxy_def zero_Proxy_def str.right_zero)
  show "MergeProxy x (Some x) = x"
    by (cases x) (simp add: MergeProxy_def zero_Proxy_def str.idem)
qed (simp_all)

interpretation ov_CertificateInformation: idem_overlay "(\<lambda>a b. MergeCertificateInformation a (Some b))" zero_CertificateInformation "(\<lambda>_. True)"
proof unfold_locales
  fix a b c x :: CertificateInformation
  show "MergeCertificateInformation (MergeCertificateInformation a (Some b)) (Some c) = MergeCertificateInformation a (Some (MergeCertificateInformation b (Some c)))"
    by (simp add: MergeCertificateInformation_def str.assoc)
  show "MergeCertificateInformation zero_CertificateInformation (Some x) = x"
    by (cases x) (simp add: MergeCertificateInformation_def zero_CertificateInformation_def str.left_zero)
  show "MergeCertificateInformation x (Some zero_CertificateInformation) = x"
    by (cases x) (simp add: MergeCertificateInformation_def zero_CertificateInformation_def str.right_zero)
  show "MergeCertificateInformation x (Some x) = x"
    by (cases x) (simp add: MergeCertificateInformation_def zero_CertificateInformation_def str.idem)
qed (simp_all)

interpretation ov_Node: idem_overlay "(\<lambda>a b. MergeNode a (Some b))" zero_Node "(\<lambda>_. True)"
proof unfold_locales
  fix a b c x :: Node
  show "MergeNode (MergeNode a (Some b)) (Some c) = MergeNode a (Some (MergeNode b (Some c)))"
    by (simp add: MergeNode_def intg.assoc str.assoc)
  show "MergeNode zero_Node (Some x) = x"
    by (cases x) (simp add: MergeNode_def zero_Node_def intg.left_zero str.left_zero)
  show "MergeNode x (Some zero_Node) = x"
    by (cases x) (simp add: MergeNode_def zero_Node_def intg.right_zero str.right_zero)
  show "MergeNode x (Some x) = x"
    by (cases x) (simp add: MergeNode_def zero_Node_def intg.idem str.idem)
qed (simp_all)

definition norm_LibvirtProvider :: "LibvirtProvider \<Rightarrow> bool" where
  "norm_LibvirtProvider x = (lv_SecureBoot x = iebp None (lv_SecureBootPtr x) False \<and>
     lv_Smm x = iebp None (lv_SmmPtr x) False)"

interpretation ov_LibvirtProvider: idem_overlay "(\<lambda>a b. MergeLibvirtProvider a (Some b))" zero_LibvirtProvider "norm_LibvirtProvider"
proof unfold_locales
  fix a b c x :: LibvirtProvider
  show "MergeLibvirtProvider (MergeLibvirtProvider a (Some b)) (Some c) = MergeLibvirtProvider a (Some (MergeLibvirtProvider b (Some c)))"
    by (simp add: MergeLibvirtProvider_def bptr.assoc str.assoc ov_Node.assoc iebp_assoc)
  show "norm_LibvirtProvider (MergeLibvirtProvider a (Some b))"
    by (simp add: MergeLibvirtProvider_def norm_LibvirtProvider_def iebp_iebpp)
  show "MergeLibvirtProvider zero_LibvirtProvider (Some x) = x" if "norm_LibvirtProvider x"
    using that by (cases x) (simp add: MergeLibvirtProvider_def zero_LibvirtProvider_def norm_LibvirtProvider_def bptr.left_zero str.left_zero ov_Node.left_zero)
  show "MergeLibvirtProvider x (Some zero_LibvirtProvider) = x" if "norm_LibvirtProvider x"
    using that by (cases x) (simp add: MergeLibvirtProvider_def zero_LibvirtProvider_def norm_LibvirtProvider_def iebp_right bptr.right_zero str.right_zero ov_Node.right_zero)
  show "MergeLibvirtProvider x (Some x) = x" if "norm_LibvirtProvider x"
    using that by (cases x) (simp add: MergeLibvirtProvider_def zero_LibvirtProvider_def norm_LibvirtProvider_def iebp_idem bptr.idem str.idem ov_Node.idem)
qed

interpretation ov_OciInstanceShape: idem_overlay "MergeOciInstanceShape" zero_OciInstanceShape "(\<lambda>_. True)"
proof unfold_locales
  fix a b c x :: OciInstanceShape
  show "MergeOciInstanceShape (MergeOciInstanceShape a b) c = MergeOciInstanceShape a (MergeOciInstanceShape b c)"
    by (simp add: MergeOciInstanceShape_def intg.assoc str.assoc)
  show "MergeOciInstanceShape zero_OciInstanceShape x = x"
    by (cases x) (simp add: MergeOciInstanceShape_def zero_OciInstanceShape_def intg.left_zero str.left_zero)
  show "MergeOciInstanceShape x zero_OciInstanceShape = x"
    by (cases x) (simp add: MergeOciInstanceShape_def zero_OciInstanceShape_def intg.right_zero str.right_zero)
  show "MergeOciInstanceShape x x = x"
    by (cases x) (simp add: MergeOciInstanceShape_def zero_OciInstanceShape_def intg.idem str.idem)
qed (simp_all)

interpretation ov_LoadBalancer: idem_overlay "MergeLoadBalancer" zero_LoadBalancer "(\<lambda>_. True)"
proof unfold_locales
  fix a b c x :: LoadBalancer
  show "MergeLoadBalancer (MergeLoadBalancer a b) c = MergeLoadBalancer a (MergeLoadBalancer b c)"
    by (simp add: MergeLoadBalancer_def str.assoc)
  show "MergeLoadBalancer zero_LoadBalancer x = x"
    by (cases x) (simp add: MergeLoadBalancer_def zero_LoadBalancer_def str.left_zero)
  show "MergeLoadBalancer x zero_LoadBalancer = x"
    by (cases x) (simp add: MergeLoadBalancer_def zero_LoadBalancer_def str.right_zero)
  show "MergeLoadBalancer x x = x"
    by (cases x) (simp add: MergeLoadBalancer_def zero_LoadBalancer_def str.idem)
qed (simp_all)

interpretation ov_OciImageSet: idem_overlay "MergeOciImageSet" zero_OciImageSet "(\<lambda>_. True)"
proof unfold_locales
  fix a b c x :: OciImageSet
  show "MergeOciImageSet (MergeOciImageSet a b) c = MergeOciImageSet a (MergeOciImageSet b c)"
    by (simp add: MergeOciImageSet_def str.assoc)
  show "MergeOciImageSet zero_OciImageSet x = x"
    by (cases x) (simp add: MergeOciImageSet_def zero_OciImageSet_def str.left_zero)
  show "MergeOciImageSet x zero_OciImageSet = x"
    by (cases x) (simp add: MergeOciImageSet_def zero_OciImageSet_def str.right_zero)
  show "MergeOciImageSet x x = x"
    by (cases x) (simp add: MergeOciImageSet_def zero_OciImageSet_def str.idem)
qed (simp_all)

definition norm_OciProvider :: "OciProvider \<Rightarrow> bool" where
  "norm_OciProvider x = (oci_SelfManaged x = iebp None (oci_SelfManagedPtr x) False)"

interpretation ov_OciProvider: idem_overlay "MergeOciProvider" zero_OciProvider "norm_OciProvider"
proof unfold_locales
  fix a b c x :: OciProvider
  show "MergeOciProvider (MergeOciProvider a b) c = MergeOciProvider a (MergeOciProvider b c)"
    by (simp add: MergeOciProvider_def bptr.assoc str.assoc ov_LoadBalancer.assoc ov_OciImageSet.assoc ov_OciInstanceShape.assoc ov_Proxy.assoc iebp_assoc)
  show "norm_OciProvider (MergeOciProvider a b)"
    by (simp add: MergeOciProvider_def norm_OciProvider_def iebp_iebpp)
  show "MergeOciProvider zero_OciProvider x = x" if "norm_OciProvider x"
    using that by (cases x) (simp add: MergeOciProvider_def zero_OciProvider_def norm_OciProvider_def bptr.left_zero str.left_zero ov_LoadBalancer.left_zero ov_OciImageSet.left_zero ov_OciInstanceShape.left_zero ov_Proxy.left_zero)
  show "MergeOciProvider x zero_OciProvider = x" if "norm_OciProvider x"
    using that by (cases x) (simp add: MergeOciProvider_def zero_OciProvider_def norm_OciProvider_def iebp_right bptr.right_zero str.right_zero ov_LoadBalancer.right_zero ov_OciImageSet.right_zero ov_OciInstanceShape.right_zero ov_Proxy.right_zero)
  show "MergeOciProvider x x = x" if "norm_OciProvider x"
    using that by (cases x) (simp add: MergeOciProvider_def zero_OciProvider_def norm_OciProvider_def iebp_idem bptr.idem str.idem ov_LoadBalancer.idem ov_OciImageSet.idem ov_OciInstanceShape.idem ov_Proxy.idem)
qed

interpretation ov_NamespacedName: idem_overlay "MergeNamespacedName" zero_NamespacedName "(\<lambda>_. True)"
proof unfold_locales
  fix a b c x :: NamespacedName
  show "MergeNamespacedName (MergeNamespacedName a b) c = MergeNamespacedName a (MergeNamespacedName b c)"
    by (simp add: MergeNamespacedName_def str.assoc)
  show "MergeNamespacedName zero_NamespacedName x = x"
    by (cases x) (simp add: MergeNamespacedName_def zero_NamespacedName_def str.left_zero)
  show "MergeNamespacedName x zero_NamespacedName = x"
    by (cases x) (simp add: MergeNamespacedName_def zero_NamespacedName_def str.right_zero)
  show "MergeNamespacedName x x = x"
    by (cases x) (simp add: MergeNamespacedName_def zero_NamespacedName_def str.idem)
qed (simp_all)

definition norm_OlvmAPIServer :: "OlvmAPIServer \<Rightarrow> bool" where
  "norm_OlvmAPIServer x = (api_InsecureSkipTLSVerify x = iebp None (api_InsecureSkipTLSVerifyPtr x) False)"

interpretation ov_OlvmAPIServer: idem_overlay "MergeOlvmAPIServer" zero_OlvmAPIServer "norm_OlvmAPIServer"
proof unfold_locales
  fix a b c x :: OlvmAPIServer
  show "MergeOlvmAPIServer (MergeOlvmAPIServer a b) c = MergeOlvmAPIServer a (MergeOlvmAPIServer b c)"
    by (simp add: MergeOlvmAPIServer_def bptr.assoc str.assoc ov_NamespacedName.assoc iebp_assoc)
  show "norm_OlvmAPIServer (MergeOlvmAPIServer a b)"
    by (simp add: MergeOlvmAPIServer_def norm_OlvmAPIServer_def iebp_iebpp)
  show "MergeOlvmAPIServer zero_OlvmAPIServer x = x" if "norm_OlvmAPIServer x"
    using that by (cases x) (simp add: MergeOlvmAPIServer_def zero_OlvmAPIServer_def norm_OlvmAPIServer_def bptr.left_zero str.left_zero ov_NamespacedName.left_zero)
  show "MergeOlvmAPIServer x zero_OlvmAPIServer = x" if "norm_OlvmAPIServer x"
    using that by (cases x) (simp add: MergeOlvmAPIServer_def zero_OlvmAPIServer_def norm_OlvmAPIServer_def iebp_right bptr.right_zero str.right_zero ov_NamespacedName.right_zero)
  show "MergeOlvmAPIServer x x = x" if "norm_OlvmAPIServer x"
    using that by (cases x) (simp add: MergeOlvmAPIServer_def zero_OlvmAPIServer_def norm_OlvmAPIServer_def iebp_idem bptr.idem str.idem ov_NamespacedName.idem)
qed

definition norm_OvirtCsiDriver :: "OvirtCsiDriver \<Rightarrow> bool" where
  "norm_OvirtCsiDriver x = (csi_Install x = iebp None (csi_InstallPtr x) True)"

interpretation ov_OvirtCsiDriver: idem_overlay "MergeOlvmCsiDriver" zero_OvirtCsiDriver "norm_OvirtCsiDriver"
proof unfold_locales
  fix a b c x :: OvirtCsiDriver
  show "MergeOlvmCsiDriver (MergeOlvmCsiDriver a b) c = MergeOlvmCsiDriver a (MergeOlvmCsiDriver b c)"
    by (simp add: MergeOlvmCsiDriver_def bptr.assoc str.assoc iebp_assoc)
  show "norm_OvirtCsiDriver (MergeOlvmCsiDriver a b)"
    by (simp add: MergeOlvmCsiDriver_def norm_OvirtCsiDriver_def iebp_iebpp)
  show "MergeOlvmCsiDriver zero_OvirtCsiDriver x = x" if "norm_OvirtCsiDriver x"
    using that by (cases x) (simp add: MergeOlvmCsiDriver_def zero_OvirtCsiDriver_def norm_OvirtCsiDriver_def bptr.left_zero str.left_zero)
  show "MergeOlvmCsiDriver x zero_OvirtCsiDriver = x" if "norm_OvirtCsiDriver x"
    using that by (cases x) (simp add: MergeOlvmCsiDriver_def zero_OvirtCsiDriver_def norm_OvirtCsiDriver_def iebp_right bptr.right_zero str.right_zero)
  show "MergeOlvmCsiDriver x x = x" if "norm_OvirtCsiDriver x"
    using that by (cases x) (simp add: MergeOlvmCsiDriver_def zero_OvirtCsiDriver_def norm_OvirtCsiDriver_def iebp_idem bptr.idem str.idem)
qed

interpretation ov_OlvmLocalAPIEndpoint: idem_overlay "MergeOlvmLocalAPIEndpoint" zero_OlvmLocalAPIEndpoint "(\<lambda>_. True)"
proof unfold_locales
  fix a b c x :: OlvmLocalAPIEndpoint
  show "MergeOlvmLocalAPIEndpoint (MergeOlvmLocalAPIEndpoint a b) c = MergeOlvmLocalAPIEndpoint a (MergeOlvmLocalAPIEndpoint b c)"
    by (simp add: MergeOlvmLocalAPIEndpoint_def intg.assoc str.assoc)
  show "MergeOlvmLocalAPIEndpoint zero_OlvmLocalAPIEndpoint x = x"
    by (cases x) (simp add: MergeOlvmLocalAPIEndpoint_def zero_OlvmLocalAPIEndpoint_def intg.left_zero str.left_zero)
  show "MergeOlvmLocalAPIEndpoint x zero_OlvmLocalAPIEndpoint = x"
    by (cases x) (simp add: MergeOlvmLocalAPIEndpoint_def zero_OlvmLocalAPIEndpoint_def intg.right_zero str.right_zero)
  show "MergeOlvmLocalAPIEndpoint x x = x"
    by (cases x) (simp add: MergeOlvmLocalAPIEndpoint_def zero_OlvmLocalAPIEndpoint_def intg.idem str.idem)
qed (simp_all)

interpretation ov_OlvmNetwork: idem_overlay "MergeOlvmNetwork" zero_OlvmNetwork "(\<lambda>_. True)"
proof unfold_locales
  fix a b c x :: OlvmNetwork
  show "MergeOlvmNetwork (MergeOlvmNetwork a b) c = MergeOlvmNetwork a (MergeOlvmNetwork b c)"
    by (simp add: MergeOlvmNetwork_def str.assoc)
  show "MergeOlvmNetwork zero_OlvmNetwork x = x"
    by (cases x) (simp add: MergeOlvmNetwork_def zero_OlvmNetwork_def str.left_zero)
  show "MergeOlvmNetwork x zero_OlvmNetwork = x"
    by (cases x) (simp add: MergeOlvmNetwork_def zero_OlvmNetwork_def str.right_zero)
  show "MergeOlvmNetwork x x = x"
    by (cases x) (simp add: MergeOlvmNetwork_def zero_OlvmNetwork_def str.idem)
qed (simp_all)

interpretation ov_OlvmMachineCpuTopology: idem_overlay "MergeOlvmMachineCpuTopology" zero_OlvmMachineCpuTopology "(\<lambda>_. True)"
proof unfold_locales
  fix a b c x :: OlvmMachineCpuTopology
  show "MergeOlvmMachineCpuTopology (MergeOlvmMachineCpuTopology a b) c = MergeOlvmMachineCpuTopology a (MergeOlvmMachineCpuTopology b c)"
    by (simp add: MergeOlvmMachineCpuTopology_def intg.assoc)
  show "MergeOlvmMachineCpuTopology zero_OlvmMachineCpuTopology x = x"
    by (cases x) (simp add: MergeOlvmMachineCpuTopology_def zero_OlvmMachineCpuTopology_def intg.left_zero)
  show "MergeOlvmMachineCpuTopology x zero_OlvmMachineCpuTopology = x"
    by (cases x) (simp add: MergeOlvmMachineCpuTopology_def zero_OlvmMachineCpuTopology_def intg.right_zero)
  show "MergeOlvmMachineCpuTopology x x = x"
    by (cases x) (simp add: MergeOlvmMachineCpuTopology_def zero_OlvmMachineCpuTopology_def intg.idem)
qed (simp_all)

interpretation ov_OlvmMachineCpu: idem_overlay "MergeOlvmMachineCpu" zero_OlvmMachineCpu "(\<lambda>_. True)"
proof unfold_locales
  fix a b c x :: OlvmMachineCpu
  show "MergeOlvmMachineCpu (MergeOlvmMachineCpu a b) c = MergeOlvmMachineCpu a (MergeOlvmMachineCpu b c)"
    by (simp add: MergeOlvmMachineCpu_def str.assoc ov_OlvmMachineCpuTopology.assoc)
  show "MergeOlvmMachineCpu zero_OlvmMachineCpu x = x"
    by (cases x) (simp add: MergeOlvmMachineCpu_def zero_OlvmMachineCpu_def str.left_zero ov_OlvmMachineCpuTopology.left_zero)
  show "MergeOlvmMachineCpu x zero_OlvmMachineCpu = x"
    by (cases x) (simp add: MergeOlvmMachineCpu_def zero_OlvmMachineCpu_def str.right_zero ov_OlvmMachineCpuTopology.right_zero)
  show "MergeOlvmMachineCpu x x = x"
    by (cases x) (simp add: MergeOlvmMachineCpu_def zero_OlvmMachineCpu_def str.idem ov_OlvmMachineCpuTopology.idem)
qed (simp_all)

interpretation ov_OlvmIPV4: idem_overlay "MergeOlvmIPV4" zero_OlvmIPV4 "(\<lambda>_. True)"
proof unfold_locales
  fix a b c x :: OlvmIPV4
  show "MergeOlvmIPV4 (MergeOlvmIPV4 a b) c = MergeOlvmIPV4 a (MergeOlvmIPV4 b c)"
    by (simp add: MergeOlvmIPV4_def str.assoc)
  show "MergeOlvmIPV4 zero_OlvmIPV4 x = x"
    by (cases x) (simp add: MergeOlvmIPV4_def zero_OlvmIPV4_def str.left_zero)
  show "MergeOlvmIPV4 x zero_OlvmIPV4 = x"
    by (cases x) (simp add: MergeOlvmIPV4_def zero_OlvmIPV4_def str.right_zero)
  show "MergeOlvmIPV4 x x = x"
    by (cases x) (simp add: MergeOlvmIPV4_def zero_OlvmIPV4_def str.idem)
qed (simp_all)

definition norm_OlvmIPV6 :: "OlvmIPV6 \<Rightarrow> bool" where
  "norm_OlvmIPV6 x = (v6_AutoConf x = iebp None (v6_AutoConfPtr x) False)"

interpretation ov_OlvmIPV6: idem_overlay "MergeOlvmIPV6" zero_OlvmIPV6 "norm_OlvmIPV6"
proof unfold_locales
  fix a b c x :: OlvmIPV6
  show "MergeOlvmIPV6 (MergeOlvmIPV6 a b) c = MergeOlvmIPV6 a (MergeOlvmIPV6 b c)"
    by (simp add: MergeOlvmIPV6_def bptr.assoc str.assoc iebp_assoc)
  show "norm_OlvmIPV6 (MergeOlvmIPV6 a b)"
    by (simp add: MergeOlvmIPV6_def norm_OlvmIPV6_def iebp_iebpp)
  show "MergeOlvmIPV6 zero_OlvmIPV6 x = x" if "norm_OlvmIPV6 x"
    using that by (cases x) (simp add: MergeOlvmIPV6_def zero_OlvmIPV6_def norm_OlvmIPV6_def bptr.left_zero str.left_zero)
  show "MergeOlvmIPV6 x zero_OlvmIPV6 = x" if "norm_OlvmIPV6 x"
    using that by (cases x) (simp add: MergeOlvmIPV6_def zero_OlvmIPV6_def norm_OlvmIPV6_def iebp_right bptr.right_zero str.right_zero)
  show "MergeOlvmIPV6 x x = x" if "norm_OlvmIPV6 x"
    using that by (cases x) (simp add: MergeOlvmIPV6_def zero_OlvmIPV6_def norm_OlvmIPV6_def iebp_idem bptr.idem str.idem)
qed

definition norm_OlvmVirtualMachineNetwork :: "OlvmVirtualMachineNetwork \<Rightarrow> bool" where
  "norm_OlvmVirtualMachineNetwork x = (norm_OlvmIPV6 (vn_IPV6 x))"

interpretation ov_OlvmVirtualMachineNetwork: idem_overlay "MergeOlvmVirtualMachineNetwork" zero_OlvmVirtualMachineNetwork "norm_OlvmVirtualMachineNetwork"
proof unfold_locales
  fix a b c x :: OlvmVirtualMachineNetwork
  show "MergeOlvmVirtualMachineNetwork (MergeOlvmVirtualMachineNetwork a b) c = MergeOlvmVirtualMachineNetwork a (MergeOlvmVirtualMachineNetwork b c)"
    by (simp add: MergeOlvmVirtualMachineNetwork_def str.assoc ov_OlvmIPV4.assoc ov_OlvmIPV6.assoc)
  show "norm_OlvmVirtualMachineNetwork (MergeOlvmVirtualMachineNetwork a b)"
    by (simp add: MergeOlvmVirtualMachineNetwork_def norm_OlvmVirtualMachineNetwork_def ov_OlvmIPV6.norm_mrg)
  show "MergeOlvmVirtualMachineNetwork zero_OlvmVirtualMachineNetwork x = x" if "norm_OlvmVirtualMachineNetwork x"
    using that by (cases x) (simp add: MergeOlvmVirtualMachineNetwork_def zero_OlvmVirtualMachineNetwork_def norm_OlvmVirtualMachineNetwork_def str.left_zero ov_OlvmIPV4.left_zero ov_OlvmIPV6.left_zero)
  show "MergeOlvmVirtualMachineNetwork x zero_OlvmVirtualMachineNetwork = x" if "norm_OlvmVirtualMachineNetwork x"
    using that by (cases x) (simp add: MergeOlvmVirtualMachineNetwork_def zero_OlvmVirtualMachineNetwork_def norm_OlvmVirtualMachineNetwork_def str.right_zero ov_OlvmIPV4.right_zero ov_OlvmIPV6.right_zero)
  show "MergeOlvmVirtualMachineNetwork x x = x" if "norm_OlvmVirtualMachineNetwork x"
    using that by (cases x) (simp add: MergeOlvmVirtualMachineNetwork_def zero_OlvmVirtualMachineNetwork_def norm_OlvmVirtualMachineNetwork_def str.idem ov_OlvmIPV4.idem ov_OlvmIPV6.idem)
qed

definition norm_OlvmVirtualMachine :: "OlvmVirtualMachine \<Rightarrow> bool" where
  "norm_OlvmVirtualMachine x = (norm_OlvmVirtualMachineNetwork (vm_Network x))"

interpretation ov_OlvmVirtualMachine: idem_overlay "MergeOlvmVirtualMachine" zero_OlvmVirtualMachine "norm_OlvmVirtualMachine"
proof unfold_locales
  fix a b c x :: OlvmVirtualMachine
  show "MergeOlvmVirtualMachine (MergeOlvmVirtualMachine a b) c = MergeOlvmVirtualMachine a (MergeOlvmVirtualMachine b c)"
    by (simp add: MergeOlvmVirtualMachine_def str.assoc ov_OlvmMachineCpu.assoc ov_OlvmVirtualMachineNetwork.assoc)
  show "norm_OlvmVirtualMachine (MergeOlvmVirtualMachine a b)"
    by (simp add: MergeOlvmVirtualMachine_def norm_OlvmVirtualMachine_def ov_OlvmVirtualMachineNetwork.norm_mrg)
  show "MergeOlvmVirtualMachine zero_OlvmVirtualMachine x = x" if "norm_OlvmVirtualMachine x"
    using that by (cases x) (simp add: MergeOlvmVirtualMachine_def zero_OlvmVirtualMachine_def norm_OlvmVirtualMachine_def str.left_zero ov_OlvmMachineCpu.left_zero ov_OlvmVirtualMachineNetwork.left_zero)
  show "MergeOlvmVirtualMachine x zero_OlvmVirtualMachine = x" if "norm_OlvmVirtualMachine x"
    using that by (cases x) (simp add: MergeOlvmVirtualMachine_def zero_OlvmVirtualMachine_def norm_OlvmVirtualMachine_def str.right_zero ov_OlvmMachineCpu.right_zero ov_OlvmVirtualMachineNetwork.right_zero)
  show "MergeOlvmVirtualMachine x x = x" if "norm_OlvmVirtualMachine x"
    using that by (cases x) (simp add: MergeOlvmVirtualMachine_def zero_OlvmVirtualMachine_def norm_OlvmVirtualMachine_def str.idem ov_OlvmMachineCpu.idem ov_OlvmVirtualMachineNetwork.idem)
qed

definition norm_OlvmMachine :: "OlvmMachine \<Rightarrow> bool" where
  "norm_OlvmMachine x = (norm_OlvmVirtualMachine (om_VirtualMachine x))"

interpretation ov_OlvmMachine: idem_overlay "MergeOlvmMachine" zero_OlvmMachine "norm_OlvmMachine"
proof unfold_locales
  fix a b c x :: OlvmMachine
  show "MergeOlvmMachine (MergeOlvmMachine a b) c = MergeOlvmMachine a (MergeOlvmMachine b c)"
    by (simp add: MergeOlvmMachine_def str.assoc ov_OlvmNetwork.assoc ov_OlvmVirtualMachine.assoc)
  show "norm_OlvmMachine (MergeOlvmMachine a b)"
    by (simp add: MergeOlvmMachine_def norm_OlvmMachine_def ov_OlvmVirtualMachine.norm_mrg)
  show "MergeOlvmMachine zero_OlvmMachine x = x" if "norm_OlvmMachine x"
    using that by (cases x) (simp add: MergeOlvmMachine_def zero_OlvmMachine_def norm_OlvmMachine_def str.left_zero ov_OlvmNetwork.left_zero ov_OlvmVirtualMachine.left_zero)
  show "MergeOlvmMachine x zero_OlvmMachine = x" if "norm_OlvmMachine x"
    using that by (cases x) (simp add: MergeOlvmMachine_def zero_OlvmMachine_def norm_OlvmMachine_def str.right_zero ov_OlvmNetwork.right_zero ov_OlvmVirtualMachine.right_zero)
  show "MergeOlvmMachine x x = x" if "norm_OlvmMachine x"
    using that by (cases x) (simp add: MergeOlvmMachine_def zero_OlvmMachine_def norm_OlvmMachine_def str.idem ov_OlvmNetwork.idem ov_OlvmVirtualMachine.idem)
qed

interpretation ov_OlvmOck: idem_overlay "MergeOlvmOck" zero_OlvmOck "(\<lambda>_. True)"
proof unfold_locales
  fix a b c x :: OlvmOck
  show "MergeOlvmOck (MergeOlvmOck a b) c = MergeOlvmOck a (MergeOlvmOck b c)"
    by (simp add: MergeOlvmOck_def str.assoc)
  show "MergeOlvmOck zero_OlvmOck x = x"
    by (cases x) (simp add: MergeOlvmOck_def zero_OlvmOck_def str.left_zero)
  show "MergeOlvmOck x zero_OlvmOck = x"
    by (cases x) (simp add: MergeOlvmOck_def zero_OlvmOck_def str.right_zero)
  show "MergeOlvmOck x x = x"
    by (cases x) (simp add: MergeOlvmOck_def zero_OlvmOck_def str.idem)
qed (simp_all)

definition norm_OlvmProvider :: "OlvmProvider \<Rightarrow> bool" where
  "norm_OlvmProvider x = (olvm_SelfManaged x = iebp None (olvm_SelfManagedPtr x) False \<and>
     norm_OlvmMachine (olvm_ControlPlaneMachine x) \<and>
     norm_OvirtCsiDriver (olvm_CSIDriver x) \<and>
     norm_OlvmAPIServer (olvm_OlvmAPIServer x) \<and>
     norm_OlvmMachine (olvm_WorkerMachine x))"

interpretation ov_OlvmProvider: idem_overlay "MergeOlvmProvider" zero_OlvmProvider "norm_OlvmProvider"
proof unfold_locales
  fix a b c x :: OlvmProvider
  show "MergeOlvmProvider (MergeOlvmProvider a b) c = MergeOlvmProvider a (MergeOlvmProvider b c)"
    by (simp add: MergeOlvmProvider_def bptr.assoc str.assoc ov_OlvmAPIServer.assoc ov_OlvmLocalAPIEndpoint.assoc ov_OlvmMachine.assoc ov_OlvmOck.assoc ov_OvirtCsiDriver.assoc ov_Proxy.assoc iebp_assoc)
  show "norm_OlvmProvider (MergeOlvmProvider a b)"
    by (simp add: MergeOlvmProvider_def norm_OlvmProvider_def iebp_iebpp ov_OlvmAPIServer.norm_mrg ov_OlvmMachine.norm_mrg ov_OvirtCsiDriver.norm_mrg)
  show "MergeOlvmProvider zero_OlvmProvider x = x" if "norm_OlvmProvider x"
    using that by (cases x) (simp add: MergeOlvmProvider_def zero_OlvmProvider_def norm_OlvmProvider_def bptr.left_zero str.left_zero ov_OlvmAPIServer.left_zero ov_OlvmLocalAPIEndpoint.left_zero ov_OlvmMachine.left_zero ov_OlvmOck.left_zero ov_OvirtCsiDriver.left_zero ov_Proxy.left_zero)
  show "MergeOlvmProvider x zero_OlvmProvider = x" if "norm_OlvmProvider x"
    using that by (cases x) (simp add: MergeOlvmProvider_def zero_OlvmProvider_def norm_OlvmProvider_def iebp_right bptr.right_zero str.right_zero ov_OlvmAPIServer.right_zero ov_OlvmLocalAPIEndpoint.right_zero ov_OlvmMachine.right_zero ov_OlvmOck.right_zero ov_OvirtCsiDriver.right_zero ov_Proxy.right_zero)
  show "MergeOlvmProvider x x = x" if "norm_OlvmProvider x"
    using that by (cases x) (simp add: MergeOlvmProvider_def zero_OlvmProvider_def norm_OlvmProvider_def iebp_idem bptr.idem str.idem ov_OlvmAPIServer.idem ov_OlvmLocalAPIEndpoint.idem ov_OlvmMachine.idem ov_OlvmOck.idem ov_OvirtCsiDriver.idem ov_Proxy.idem)
qed

definition norm_ByoProvider :: "ByoProvider \<Rightarrow> bool" where
  "norm_ByoProvider x = (byo_AutomaticTokenCreation x = iebp None (byo_AutomaticTokenCreationPtr x) False)"

interpretation ov_ByoProvider: idem_overlay "MergeByoProvider" zero_ByoProvider "norm_ByoProvider"
proof unfold_locales
  fix a b c x :: ByoProvider
  show "MergeByoProvider (MergeByoProvider a b) c = MergeByoProvider a (MergeByoProvider b c)"
    by (simp add: MergeByoProvider_def bptr.assoc str.assoc iebp_assoc)
  show "norm_ByoProvider (MergeByoProvider a b)"
    by (simp add: MergeByoProvider_def norm_ByoProvider_def iebp_iebpp)
  show "MergeByoProvider zero_ByoProvider x = x" if "norm_ByoProvider x"
    using that by (cases x) (simp add: MergeByoProvider_def zero_ByoProvider_def norm_ByoProvider_def bptr.left_zero str.left_zero)
  show "MergeByoProvider x zero_ByoProvider = x" if "norm_ByoProvider x"
    using that by (cases x) (simp add: MergeByoProvider_def zero_ByoProvider_def norm_ByoProvider_def iebp_right bptr.right_zero str.right_zero)
  show "MergeByoProvider x x = x" if "norm_ByoProvider x"
    using that by (cases x) (simp add: MergeByoProvider_def zero_ByoProvider_def norm_ByoProvider_def iebp_idem bptr.idem str.idem)
qed

definition norm_Providers :: "Providers \<Rightarrow> bool" where
  "norm_Providers x = (norm_LibvirtProvider (prv_Libvirt x) \<and>
     norm_OciProvider (prv_Oci x) \<and>
     norm_ByoProvider (prv_Byo x) \<and>
     norm_OlvmProvider (prv_Olvm x))"

interpretation ov_Providers: idem_overlay "MergeProviders" zero_Providers "norm_Providers"
proof unfold_locales
  fix a b c x :: Providers
  show "MergeProviders (MergeProviders a b) c = MergeProviders a (MergeProviders b c)"
    by (simp add: MergeProviders_def ov_ByoProvider.assoc ov_LibvirtProvider.assoc ov_OciProvider.assoc ov_OlvmProvider.assoc)
  show "norm_Providers (MergeProviders a b)"
    by (simp add: MergeProviders_def norm_Providers_def ov_ByoProvider.norm_mrg ov_LibvirtProvider.norm_mrg ov_OciProvider.norm_mrg ov_OlvmProvider.norm_mrg)
  show "MergeProviders zero_Providers x = x" if "norm_Providers x"
    using that by (cases x) (simp add: MergeProviders_def zero_Providers_def norm_Providers_def ov_ByoProvider.left_zero ov_LibvirtProvider.left_zero ov_OciProvider.left_zero ov_OlvmProvider.left_zero)
  show "MergeProviders x zero_Providers = x" if "norm_Providers x"
    using that by (cases x) (simp add: MergeProviders_def zero_Providers_def norm_Providers_def ov_ByoProvider.right_zero ov_LibvirtProvider.right_zero ov_OciProvider.right_zero ov_OlvmProvider.right_zero)
  show "MergeProviders x x = x" if "norm_Providers x"
    using that by (cases x) (simp add: MergeProviders_def zero_Providers_def norm_Providers_def ov_ByoProvider.idem ov_LibvirtProvider.idem ov_OciProvider.idem ov_OlvmProvider.idem)
qed

definition norm_EphemeralClusterConfig :: "EphemeralClusterConfig \<Rightarrow> bool" where
  "norm_EphemeralClusterConfig x = (\<not> eph_Preserve x)"

interpretation ov_EphemeralClusterConfig: idem_overlay "MergeEphemeralConfig" zero_EphemeralClusterConfig "norm_EphemeralClusterConfig"
proof unfold_locales
  fix a b c x :: EphemeralClusterConfig
  show "MergeEphemeralConfig (MergeEphemeralConfig a b) c = MergeEphemeralConfig a (MergeEphemeralConfig b c)"
    by (simp add: MergeEphemeralConfig_def str.assoc ov_Node.assoc)
  show "norm_EphemeralClusterConfig (MergeEphemeralConfig a b)"
    by (simp add: MergeEphemeralConfig_def norm_EphemeralClusterConfig_def)
  show "MergeEphemeralConfig zero_EphemeralClusterConfig x = x" if "norm_EphemeralClusterConfig x"
    using that by (cases x) (simp add: MergeEphemeralConfig_def zero_EphemeralClusterConfig_def norm_EphemeralClusterConfig_def str.left_zero ov_Node.left_zero)
  show "MergeEphemeralConfig x zero_EphemeralClusterConfig = x" if "norm_EphemeralClusterConfig x"
    using that by (cases x) (simp add: MergeEphemeralConfig_def zero_EphemeralClusterConfig_def norm_EphemeralClusterConfig_def str.right_zero ov_Node.right_zero)
  show "MergeEphemeralConfig x x = x" if "norm_EphemeralClusterConfig x"
    using that by (cases x) (simp add: MergeEphemeralConfig_def zero_EphemeralClusterConfig_def norm_EphemeralClusterConfig_def str.idem ov_Node.idem)
qed

definition norm_Config :: "Config \<Rightarrow> bool" where
  "norm_Config x = (cfg_Headless x = iebp None (cfg_HeadlessPtr x) False \<and>
     cfg_Catalog x = iebp None (cfg_CatalogPtr x) True \<and>
     cfg_CommunityCatalog x = iebp None (cfg_CommunityCatalogPtr x) False \<and>
     cfg_Quiet x = iebp None (cfg_QuietPtr x) False \<and>
     norm_Providers (cfg_Providers x) \<and>
     norm_EphemeralClusterConfig (cfg_EphemeralConfig x))"

interpretation ov_Config: idem_overlay "MergeConfig" zero_Config "norm_Config"
proof unfold_locales
  fix a b c x :: Config
  show "MergeConfig (MergeConfig a b) c = MergeConfig a (MergeConfig b c)"
    by (simp add: MergeConfig_def bptr.assoc str.assoc uint.assoc ov_CertificateInformation.assoc ov_EphemeralClusterConfig.assoc ov_Providers.assoc ov_Proxy.assoc iebp_assoc)
  show "norm_Config (MergeConfig a b)"
    by (simp add: MergeConfig_def norm_Config_def iebp_iebpp ov_EphemeralClusterConfig.norm_mrg ov_Providers.norm_mrg)
  show "MergeConfig zero_Config x = x" if "norm_Config x"
    using that by (cases x) (simp add: MergeConfig_def zero_Config_def norm_Config_def bptr.left_zero str.left_zero uint.left_zero ov_CertificateInformation.left_zero ov_EphemeralClusterConfig.left_zero ov_Providers.left_zero ov_Proxy.left_zero)
  show "MergeConfig x zero_Config = x" if "norm_Config x"
    using that by (cases x) (simp add: MergeConfig_def zero_Config_def norm_Config_def iebp_right bptr.right_zero str.right_zero uint.right_zero ov_CertificateInformation.right_zero ov_EphemeralClusterConfig.right_zero ov_Providers.right_zero ov_Proxy.right_zero)
  show "MergeConfig x x = x" if "norm_Config x"
    using that by (cases x) (simp add: MergeConfig_def zero_Config_def norm_Config_def iebp_idem bptr.idem str.idem uint.idem ov_CertificateInformation.idem ov_EphemeralClusterConfig.idem ov_Providers.idem ov_Proxy.idem)
qed

definition norm_ClusterConfig :: "ClusterConfig \<Rightarrow> bool" where
  "norm_ClusterConfig x = (clu_Headless x = iebp None (clu_HeadlessPtr x) False \<and>
     clu_Catalog x = iebp None (clu_CatalogPtr x) True \<and>
     clu_CommunityCatalog x = iebp None (clu_CommunityCatalogPtr x) False \<and>
     norm_Providers (clu_Providers x))"

interpretation ov_ClusterConfig: overlay "MergeClusterConfig" zero_ClusterConfig "norm_ClusterConfig"
proof unfold_locales
  fix a b c x :: ClusterConfig
  show "MergeClusterConfig (MergeClusterConfig a b) c = MergeClusterConfig a (MergeClusterConfig b c)"
    by (simp add: MergeClusterConfig_def apps.assoc bptr.assoc cats.assoc str.assoc uint.assoc ov_CertificateInformation.assoc ov_Providers.assoc ov_Proxy.assoc iebp_assoc)
  show "norm_ClusterConfig (MergeClusterConfig a b)"
    by (simp add: MergeClusterConfig_def norm_ClusterConfig_def iebp_iebpp ov_Providers.norm_mrg)
  show "MergeClusterConfig zero_ClusterConfig x = x" if "norm_ClusterConfig x"
    using that by (cases x) (simp add: MergeClusterConfig_def zero_ClusterConfig_def norm_ClusterConfig_def apps.left_zero bptr.left_zero cats.left_zero str.left_zero uint.left_zero ov_CertificateInformation.left_zero ov_Providers.left_zero ov_Proxy.left_zero)
  show "MergeClusterConfig x zero_ClusterConfig = x" if "norm_ClusterConfig x"
    using that by (cases x) (simp add: MergeClusterConfig_def zero_ClusterConfig_def norm_ClusterConfig_def iebp_right apps.right_zero bptr.right_zero cats.right_zero str.right_zero uint.right_zero ov_CertificateInformation.right_zero ov_Providers.right_zero ov_Proxy.right_zero)
qed

end
