(* ===== verification/Config_Load.thy ===== *)
theory Config_Load
  imports Config_Merge
begin

text \<open>
  How the effective configuration is put together: \<^verbatim>\<open>pkg/config/config.go\<close> (the built-in
  defaults, the defaults file, the cluster file) and \<open>GetFullConfig\<close> of
  \<^verbatim>\<open>pkg/cmdutil/config.go\<close>.  The operating system and the YAML library are fields of the
  record \<open>os_env\<close>: reading a file yields its contents, "does not exist" or another error.
\<close>

datatype file_error = ENotExist gerror | EOther gerror

record os_env =
  env_UserHomeDir :: "string result"
  env_Stat :: "string \<Rightarrow> file_error option"
  env_Getenv :: "string \<Rightarrow> string"
  env_ReadFile :: "string \<Rightarrow> file_error + string"
  env_UnmarshalConfig :: "string \<Rightarrow> Config result"
  env_UnmarshalCluster :: "string \<Rightarrow> ClusterConfig result"
  env_Join :: "string list \<Rightarrow> string"
  env_Abs :: "string \<Rightarrow> string result"
  env_Dir :: "string \<Rightarrow> string"

definition IsNotExist :: "file_error \<Rightarrow> bool" where
  "IsNotExist e = (case e of ENotExist _ \<Rightarrow> True | EOther _ \<Rightarrow> False)"

fun err_text :: "file_error \<Rightarrow> gerror" where
  "err_text (ENotExist e) = e"
| "err_text (EOther e) = e"

section \<open>The built-in defaults\<close>

definition UserConfigDefaults :: string where
  "UserConfigDefaults = ''.ocne/defaults.yaml''"

definition UserConfigDefaultsEnvironmentVariable :: string where
  "UserConfigDefaultsEnvironmentVariable = ''OCNE_DEFAULTS''"

definition KubeVersion :: string where
  "KubeVersion = ''1.33''"

definition default_node :: "string \<Rightarrow> Node" where
  "default_node storage = \<lparr>node_Memory = ''4194304Ki'', node_CPUs = 2, node_Storage = storage\<rparr>"

definition default_libvirt :: LibvirtProvider where
  "default_libvirt = zero_LibvirtProvider\<lparr>
     lv_SessionURI := ''qemu:///session'',
     lv_SlirpSubnet := ''192.18.255.0/24'',
     lv_StoragePool := ''images'',
     lv_Network := ''default'',
     lv_ControlPlaneNode := default_node ''20Gi'',
     lv_WorkerNode := default_node ''20Gi'',
     lv_BootVolumeName := ''boot.qcow2'',
     lv_BootVolumeContainerImagePath := ''disk/boot.qcow2''\<rparr>"

definition default_oci :: OciProvider where
  "default_oci = zero_OciProvider\<lparr>
     oci_Namespace := ''ocne'',
     oci_Profile := ''DEFAULT'',
     oci_ImageBucket := ''ocne-images'',
     oci_ControlPlaneShape := \<lparr>os_Shape = ''VM.Standard.A1.Flex'', os_Ocpus = 2, os_BootVolumeSize = ''50''\<rparr>,
     oci_WorkerShape := \<lparr>os_Shape = ''VM.Standard.E4.Flex'', os_Ocpus = 4, os_BootVolumeSize = ''50''\<rparr>\<rparr>"

definition default_olvm_machine :: "string \<Rightarrow> OlvmMachine" where
  "default_olvm_machine memory = zero_OlvmMachine\<lparr>
     om_VirtualMachine := zero_OlvmVirtualMachine\<lparr>
       vm_Memory := memory,
       vm_Network := zero_OlvmVirtualMachineNetwork\<lparr>vn_Interface := ''enp1s0''\<rparr>\<rparr>\<rparr>"

definition default_olvm :: OlvmProvider where
  "default_olvm = zero_OlvmProvider\<lparr>
     olvm_Namespace := ''ocne'',
     olvm_ControlPlaneMachine := default_olvm_machine ''7GB'',
     olvm_WorkerMachine := default_olvm_machine ''16GB'',
     olvm_LocalAPIEndpoint := zero_OlvmLocalAPIEndpoint\<lparr>lae_BindPort := 6444\<rparr>,
     olvm_CSIDriver := zero_OvirtCsiDriver\<lparr>
       csi_Namespace := ''ovirt-csi'',
       csi_SecretName := ''ovirt-csi-creds'',
       csi_ConfigMapName := ''ovirt-csi-ca.crt''\<rparr>\<rparr>"

definition builtin_config :: Config where
  "builtin_config = zero_Config\<lparr>
     cfg_Providers := zero_Providers\<lparr>
       prv_Libvirt := default_libvirt, prv_Oci := default_oci, prv_Olvm := default_olvm\<rparr>,
     cfg_PodSubnet := ''10.244.0.0/16'',
     cfg_ServiceSubnet := ''10.96.0.0/12'',
     cfg_KubeAPIServerBindPort := 6443,
     cfg_KubeAPIServerBindPortAlt := 6444,
     cfg_AutoStartUI := ''true'',
     cfg_CertificateInformation := \<lparr>ci_Country = ''US'', ci_Org = ''OCNE'', ci_OrgUnit = ''OCNE'', ci_State = ''TX''\<rparr>,
     cfg_OsRegistry := ''ostree-unverified-registry:container-registry.oracle.com/olcne/ock-ostree'',
     cfg_OsTag := KubeVersion,
     cfg_KubeProxyMode := ''iptables'',
     cfg_BootVolumeContainerImage := ''docker://container-registry.oracle.com/olcne/ock'',
     cfg_Registry := ''container-registry.oracle.com'',
     cfg_EphemeralConfig := \<lparr>eph_Name = ''ocne-ephemeral'', eph_Preserve = True, eph_Node = default_node ''30Gi''\<rparr>,
     cfg_KubeVersion := KubeVersion\<rparr>"

section \<open>Reading the files\<close>

definition ParseConfig :: "os_env \<Rightarrow> string \<Rightarrow> Config result" where
  "ParseConfig env contents = env_UnmarshalConfig env contents"

definition ParseConfigFile :: "os_env \<Rightarrow> string \<Rightarrow> file_error + Config" where
  "ParseConfigFile env configPath =
     (case env_ReadFile env configPath of
        Inl err \<Rightarrow> Inl err
      | Inr configBytes \<Rightarrow>
          (case ParseConfig env configBytes of
             Inl err \<Rightarrow> Inl (EOther (''could not parse config file '' @ configPath @ '': '' @ err))
           | Inr conf \<Rightarrow> Inr conf))"

definition GetDefaultConfig :: "os_env \<Rightarrow> Config result" where
  "GetDefaultConfig env =
     (case env_UserHomeDir env of
        Inl err \<Rightarrow> Inl err
      | Inr homedir \<Rightarrow>
          (let sshKeyPath = env_Join env [homedir, ''.ssh'', ''id_rsa.pub''];
               statErr = env_Stat env sshKeyPath;
               defaultPath = (let ovr = env_Getenv env UserConfigDefaultsEnvironmentVariable
                              in if ovr \<noteq> [] then ovr else env_Join env [homedir, UserConfigDefaults]);
               load = (\<lambda>sshKey.
                 (let defaultConfig = builtin_config\<lparr>cfg_SshPublicKeyPath := sshKey\<rparr>
                  in case ParseConfigFile env defaultPath of
                       Inl err \<Rightarrow> if IsNotExist err then Inr defaultConfig else Inl (err_text err)
                     | Inr configFileDefaults \<Rightarrow> Inr (MergeConfig defaultConfig configFileDefaults)))
           in case statErr of
                None \<Rightarrow> load sshKeyPath
              | Some err \<Rightarrow> if IsNotExist err then load [] else Inl (err_text err)))"

definition ParseClusterConfig :: "os_env \<Rightarrow> string \<Rightarrow> ClusterConfig result" where
  "ParseClusterConfig env contents = env_UnmarshalCluster env contents"

definition ParseClusterConfigFile :: "os_env \<Rightarrow> string \<Rightarrow> ClusterConfig result" where
  "ParseClusterConfigFile env configPath =
     (case env_ReadFile env configPath of
        Inl err \<Rightarrow> Inl (err_text err)
      | Inr configBytes \<Rightarrow>
          (case ParseClusterConfig env configBytes of
             Inl err \<Rightarrow> Inl (''could not parse config file '' @ configPath @ '': '' @ err)
           | Inr ret \<Rightarrow>
               (if clu_WorkingDirectory ret = []
                then rbind (env_Abs env configPath) (\<lambda>wd. Inr (ret\<lparr>clu_WorkingDirectory := env_Dir env wd\<rparr>))
                else Inr ret)))"

text \<open>\<open>make_ref\<close> is \<open>MakeOstreeReference\<close> of the image package, which has its own theory.\<close>

definition GetFullConfig ::
  "os_env \<Rightarrow> (string \<Rightarrow> string result) \<Rightarrow> Config \<Rightarrow> ClusterConfig \<Rightarrow> string \<Rightarrow> (Config \<times> ClusterConfig) result" where
  "GetFullConfig env make_ref defaultConfig clusterConfig clusterConfigPath =
     rbind (if clusterConfigPath \<noteq> []
            then rbind (ParseClusterConfigFile env clusterConfigPath)
                   (\<lambda>ncc. Inr (MergeClusterConfig ncc clusterConfig))
            else Inr clusterConfig) (\<lambda>clusterConfig.
     rbind (GetDefaultConfig env) (\<lambda>df.
     (let ndf = MergeConfig df defaultConfig;
          cc = OverlayConfig clusterConfig ndf
      in rbind (make_ref (clu_OsRegistry cc)) (\<lambda>img.
         Inr (ndf, cc\<lparr>clu_OsRegistry := img\<rparr>)))))"

section \<open>Overlaying is merging\<close>

text \<open>
  The specification of \<open>OverlayConfig\<close>: a \<open>Config\<close> seen as a \<open>ClusterConfig\<close> that sets only what the two
  have in common.
\<close>

definition base_cluster :: "Config \<Rightarrow> ClusterConfig" where
  "base_cluster c = zero_ClusterConfig\<lparr>
     clu_Providers := cfg_Providers c,
     clu_Proxy := cfg_Proxy c,
     clu_Registry := cfg_Registry c,
     clu_KubeAPIServerBindPort := cfg_KubeAPIServerBindPort c,
     clu_KubeAPIServerBindPortAlt := cfg_KubeAPIServerBindPortAlt c,
     clu_PodSubnet := cfg_PodSubnet c,
     clu_ServiceSubnet := cfg_ServiceSubnet c,
     clu_CertificateInformation := cfg_CertificateInformation c,
     clu_OsTag := cfg_OsTag c,
     clu_OsRegistry := cfg_OsRegistry c,
     clu_KubeProxyMode := cfg_KubeProxyMode c,
     clu_BootVolumeContainerImage := cfg_BootVolumeContainerImage c,
     clu_CNI := cfg_CNI c,
     clu_HeadlessPtr := cfg_HeadlessPtr c,
     clu_CatalogPtr := cfg_CatalogPtr c,
     clu_CommunityCatalogPtr := cfg_CommunityCatalogPtr c,
     clu_KubeVersion := cfg_KubeVersion c,
     clu_SshPublicKeyPath := cfg_SshPublicKeyPath c,
     clu_SshPublicKey := cfg_SshPublicKey c,
     clu_Password := cfg_Password c,
     clu_ExtraIgnitionInline := cfg_ExtraIgnitionInline c,
     clu_ExtraIgnition := cfg_ExtraIgnition c\<rparr>"

lemma overlay_is_merge: "OverlayConfig cc c = MergeClusterConfig (base_cluster c) cc"
  by (simp add: OverlayConfig_def MergeClusterConfig_def base_cluster_def zero_ClusterConfig_def
      str.left_zero uint.left_zero MergeApplications_def MergeCatalogs_def)

lemma base_cluster_merge: 
  "MergeClusterConfig (base_cluster (MergeConfig a b)) cc
     = MergeClusterConfig (base_cluster a) (MergeClusterConfig (base_cluster b) cc)"
proof -
  have "MergeClusterConfig (base_cluster a) (base_cluster b)
      = MergeClusterConfig zero_ClusterConfig (base_cluster (MergeConfig a b))"
    by (simp add: MergeClusterConfig_def MergeConfig_def base_cluster_def zero_ClusterConfig_def
        str.left_zero uint.left_zero bptr.left_zero iebp_iebpp apps.left_zero cats.left_zero
        ov_Proxy.copy_right ov_CertificateInformation.left_zero ov_Providers.left_zero
        ov_Providers.norm_mrg ov_Proxy.left_zero)
  then have "MergeClusterConfig (MergeClusterConfig (base_cluster a) (base_cluster b)) cc
      = MergeClusterConfig (base_cluster (MergeConfig a b)) cc"
    by (simp add: ov_ClusterConfig.copy_left)
  then show ?thesis by (simp add: ov_ClusterConfig.assoc)
qed

section \<open>The ephemeral cluster\<close>

text \<open>
  \<^verbatim>\<open>pkg/commands/cluster/start/ephemeral.go\<close>: the helper cluster is removed unless the configuration asks to
  keep it.  \<open>delete\<close> is the delete command, given the copied configurations.
\<close>

definition StopEphemeralCluster ::
  "(Config \<Rightarrow> ClusterConfig \<Rightarrow> gerror option) \<Rightarrow> Config \<Rightarrow> ClusterConfig \<Rightarrow> (Config \<times> ClusterConfig) option \<times> gerror option" where
  "StopEphemeralCluster delete config clusterConfig =
     (if eph_Preserve (cfg_EphemeralConfig config) then (None, None)
      else (let c = CopyConfig config;
                cc = CopyClusterConfig clusterConfig;
                cc' = cc\<lparr>clu_Provider := ''libvirt'', clu_Name := eph_Name (cfg_EphemeralConfig c)\<rparr>;
                c' = c\<lparr>cfg_Quiet := True\<rparr>
            in (Some (c', cc'), delete c' cc')))"

section \<open>Properties\<close>

lemma merge_drops_preserve: "\<not> eph_Preserve (cfg_EphemeralConfig (MergeConfig a b))"
  by (simp add: MergeConfig_def MergeEphemeralConfig_def)

lemma GetFullConfig_InrD:
  assumes "GetFullConfig env mr dc cc path = Inr (c, cc')"
  obtains df base where "GetDefaultConfig env = Inr df" and "c = MergeConfig df dc"
    and "path = [] \<Longrightarrow> base = cc"
    and "path \<noteq> [] \<Longrightarrow> \<exists>file. ParseClusterConfigFile env path = Inr file \<and> base = MergeClusterConfig file cc"
    and "\<exists>img. mr (clu_OsRegistry (OverlayConfig base c)) = Inr img \<and> cc' = (OverlayConfig base c)\<lparr>clu_OsRegistry := img\<rparr>"
  using assms unfolding GetFullConfig_def
  by (auto simp: rbind_Inr_iff Let_def split: if_splits)

text \<open>The first layer that sets a string.\<close>

fun first_set :: "string list \<Rightarrow> string" where
  "first_set [] = []"
| "first_set (x # xs) = (if x \<noteq> [] then x else first_set xs)"

text \<open>The string settings that a \<open>Config\<close> and a \<open>ClusterConfig\<close> share.\<close>

definition shared_settings :: "((Config \<Rightarrow> string) \<times> (ClusterConfig \<Rightarrow> string)) list" where
  "shared_settings =
     [(cfg_PodSubnet, clu_PodSubnet), (cfg_ServiceSubnet, clu_ServiceSubnet), (cfg_Registry, clu_Registry),
      (cfg_OsTag, clu_OsTag), (cfg_KubeProxyMode, clu_KubeProxyMode),
      (cfg_BootVolumeContainerImage, clu_BootVolumeContainerImage), (cfg_CNI, clu_CNI),
      (cfg_KubeVersion, clu_KubeVersion), (cfg_SshPublicKeyPath, clu_SshPublicKeyPath),
      (cfg_SshPublicKey, clu_SshPublicKey), (cfg_Password, clu_Password),
      (cfg_ExtraIgnition, clu_ExtraIgnition), (cfg_ExtraIgnitionInline, clu_ExtraIgnitionInline)]"

lemma ies_first_set: "ies (ies a b) (ies c d) = first_set [d, c, b, a]"
  by (simp add: ies_def)

lemma shared_overlay:
  "\<forall>(f, g) \<in> set shared_settings. g ((OverlayConfig (MergeClusterConfig file cc) (MergeConfig df dc))\<lparr>clu_OsRegistry := img\<rparr>)
     = first_set [g cc, g file, f dc, f df]"
  by (simp add: shared_settings_def OverlayConfig_def MergeClusterConfig_def MergeConfig_def ies_first_set
      del: first_set.simps)

text \<open>A concrete environment: a home directory without an ssh key, an empty defaults file that cannot be
  found, and a cluster file that names the cluster and asks for Kubernetes 1.31.\<close>

definition sample_cluster_file :: ClusterConfig where
  "sample_cluster_file = zero_ClusterConfig\<lparr>clu_Name := ''demo'', clu_KubeVersion := ''1.31''\<rparr>"

definition sample_env :: os_env where
  "sample_env = \<lparr>env_UserHomeDir = Inr ''/root'', env_Stat = (\<lambda>_. Some (ENotExist ''no such file'')),
     env_Getenv = (\<lambda>_. []),
     env_ReadFile = (\<lambda>p. if p = ''c.yaml'' then Inr ''demo'' else Inl (ENotExist ''no such file'')),
     env_UnmarshalConfig = (\<lambda>_. Inr zero_Config), env_UnmarshalCluster = (\<lambda>_. Inr sample_cluster_file),
     env_Join = (\<lambda>ps. go_join ps ''/''), env_Abs = (\<lambda>p. Inr (''/work/'' @ p)), env_Dir = (\<lambda>_. ''/work'')\<rparr>"

lemma sample_default: "GetDefaultConfig sample_env = Inr (builtin_config\<lparr>cfg_SshPublicKeyPath := []\<rparr>)"
  by (simp add: GetDefaultConfig_def sample_env_def ParseConfigFile_def IsNotExist_def Let_def
      UserConfigDefaults_def)

lemma sample_file: "ParseClusterConfigFile sample_env ''c.yaml'' = Inr (sample_cluster_file\<lparr>clu_WorkingDirectory := ''/work''\<rparr>)"
  by (simp add: ParseClusterConfigFile_def ParseClusterConfig_def sample_env_def sample_cluster_file_def
      zero_ClusterConfig_def)

lemma sample_full:
  "\<exists>c cc. GetFullConfig sample_env Inr zero_Config zero_ClusterConfig ''c.yaml'' = Inr (c, cc)"
  by (simp add: GetFullConfig_def sample_default sample_file Let_def)

text \<open>
  C1. A cluster configuration overlaid on the global configuration is exactly the merge of the
  global configuration, read as a cluster configuration, with the cluster's own: \<open>OverlayConfig\<close>,
  written out field by field in the source, and \<open>MergeClusterConfig\<close> agree on every field.
\<close>

theorem OverlayConfig_refines_merge: "OverlayConfig cc c = MergeClusterConfig (base_cluster c) cc"
  by (rule overlay_is_merge)



text \<open>
  The configuration commands work with never asks to preserve the ephemeral cluster, whatever the
  built-in default (which is to preserve it), the defaults file and the command line say; so stopping
  the ephemeral cluster always deletes it.
\<close>

theorem ephemeral_cluster_always_deleted:
  assumes "GetFullConfig env mr dc cc path = Inr (c, cc')"
  shows "\<not> eph_Preserve (cfg_EphemeralConfig c)
    \<and> (\<exists>args. StopEphemeralCluster delete c cc' = (Some args, delete (fst args) (snd args)))"
proof -
  from assms obtain df where "c = MergeConfig df dc" by (elim GetFullConfig_InrD) auto
  then have "\<not> eph_Preserve (cfg_EphemeralConfig c)" by (simp add: merge_drops_preserve)
  then show ?thesis by (simp add: StopEphemeralCluster_def Let_def)
qed

theorem ephemeral_cluster_always_deleted_witness:
  "eph_Preserve (cfg_EphemeralConfig builtin_config)
     \<and> (\<exists>c cc. GetFullConfig sample_env Inr zero_Config zero_ClusterConfig ''c.yaml'' = Inr (c, cc)
          \<and> \<not> eph_Preserve (cfg_EphemeralConfig c))"
proof -
  obtain c cc where full: "GetFullConfig sample_env Inr zero_Config zero_ClusterConfig ''c.yaml'' = Inr (c, cc)"
    using sample_full by blast
  with ephemeral_cluster_always_deleted [OF full, of "\<lambda>_ _. None"] show ?thesis
    by (auto simp: builtin_config_def)
qed

text \<open>
  Copying a configuration is faithful exactly on the configurations in merged form: \<open>CopyConfig\<close>
  and \<open>CopyClusterConfig\<close> return their argument if and only if its plain booleans agree with the
  pointers they are derived from (and, for \<open>Config\<close>, the ephemeral cluster is not preserved).
\<close>

theorem Copy_faithful_iff:
  "(CopyConfig c = c \<longleftrightarrow> norm_Config c) \<and> (CopyClusterConfig cc = cc \<longleftrightarrow> norm_ClusterConfig cc)"
  by (simp add: CopyConfig_def CopyClusterConfig_def ov_Config.norm_iff_copy ov_ClusterConfig.norm_iff_copy)

text \<open>
  Configuration layers can be grouped at will: merging a sequence of cluster configurations one
  after the other gives the same as merging any final part of it first and laying that part over
  the rest; the lists of applications and catalogs of all layers are kept in order.
\<close>

theorem cluster_layers_regroup:
  "foldl MergeClusterConfig a (xs @ y # ys)
     = MergeClusterConfig (foldl MergeClusterConfig a xs) (foldl MergeClusterConfig zero_ClusterConfig (y # ys))
   \<and> clu_Applications (foldl MergeClusterConfig a xs) = clu_Applications a @ concat (map clu_Applications xs)
   \<and> clu_Catalogs (foldl MergeClusterConfig a xs) = clu_Catalogs a @ concat (map clu_Catalogs xs)"
proof -
  have "clu_Applications (foldl MergeClusterConfig a xs) = clu_Applications a @ concat (map clu_Applications xs)" for a
    by (induction xs arbitrary: a) (simp_all add: MergeClusterConfig_def MergeApplications_def)
  moreover have "clu_Catalogs (foldl MergeClusterConfig a xs) = clu_Catalogs a @ concat (map clu_Catalogs xs)" for a
    by (induction xs arbitrary: a) (simp_all add: MergeClusterConfig_def MergeCatalogs_def)
  ultimately show ?thesis by (simp only: ov_ClusterConfig.layers_split [OF list.distinct(2)])
qed

end
