(* ===== verification/Ignition_Types.thy ===== *)
theory Ignition_Types
  imports Go_Strings
begin

text \<open>
  The data types of Ignition configurations, version 3.4 (the structures of
  \<^verbatim>\<open>coreos/ignition/v2/config/v3_4/types\<close>, which the program builds, merges and compares).
  A pointer is an \<open>option\<close>.  A Go slice is a \<open>slice\<close>, which keeps the nil slice apart from the
  empty one, because \<^verbatim>\<open>reflect.DeepEqual\<close> does: on these types \<^verbatim>\<open>DeepEqual\<close> is equality.
\<close>

type_synonym 'a slice = "'a list option"

definition sl :: "'a slice \<Rightarrow> 'a list" where
  "sl s = (case s of None \<Rightarrow> [] | Some xs \<Rightarrow> xs)"

definition sl_append :: "'a slice \<Rightarrow> 'a \<Rightarrow> 'a slice" where
  "sl_append s x = Some (sl s @ [x])"

lemma sl_simps [simp]: "sl None = []" "sl (Some xs) = xs"
  by (simp_all add: sl_def)

lemma sl_sl_append [simp]: "sl (sl_append s x) = sl s @ [x]"
  by (simp add: sl_append_def)

section \<open>The structures\<close>

record IgnClevisCustom =
  clvc_Config :: "string option"
  clvc_NeedsNetwork :: "bool option"
  clvc_Pin :: "string option"

record IgnTang =
  tang_Advertisement :: "string option"
  tang_Thumbprint :: "string option"
  tang_URL :: "string"

record IgnClevis =
  clv_Custom :: "IgnClevisCustom"
  clv_Tang :: "IgnTang slice"
  clv_Threshold :: "int option"
  clv_Tpm2 :: "bool option"

record IgnHTTPHeader =
  hdr_Name :: "string"
  hdr_Value :: "string option"

record IgnVerification =
  veri_Hash :: "string option"

record IgnResource =
  res_Compression :: "string option"
  res_HTTPHeaders :: "IgnHTTPHeader slice"
  res_Source :: "string option"
  res_Verification :: "IgnVerification"

record IgnIgnitionConfig =
  ignc_Merge :: "IgnResource slice"
  ignc_Replace :: "IgnResource"

record IgnProxy =
  iprx_HTTPProxy :: "string option"
  iprx_HTTPSProxy :: "string option"
  iprx_NoProxy :: "string slice"

record IgnTLS =
  tls_CertificateAuthorities :: "IgnResource slice"

record IgnSecurity =
  sec_TLS :: "IgnTLS"

record IgnTimeouts =
  tmo_HTTPResponseHeaders :: "int option"
  tmo_HTTPTotal :: "int option"

record IgnIgnition =
  igni_Config :: "IgnIgnitionConfig"
  igni_Proxy :: "IgnProxy"
  igni_Security :: "IgnSecurity"
  igni_Timeouts :: "IgnTimeouts"
  igni_Version :: "string"

record IgnKernelArguments =
  karg_ShouldExist :: "string slice"
  karg_ShouldNotExist :: "string slice"

record IgnPasswdGroup =
  pgrp_Gid :: "int option"
  pgrp_Name :: "string"
  pgrp_PasswordHash :: "string option"
  pgrp_ShouldExist :: "bool option"
  pgrp_System :: "bool option"

record IgnPasswdUser =
  pusr_Gecos :: "string option"
  pusr_Groups :: "string slice"
  pusr_HomeDir :: "string option"
  pusr_Name :: "string"
  pusr_NoCreateHome :: "bool option"
  pusr_NoLogInit :: "bool option"
  pusr_NoUserGroup :: "bool option"
  pusr_PasswordHash :: "string option"
  pusr_PrimaryGroup :: "string option"
  pusr_SSHAuthorizedKeys :: "string slice"
  pusr_Shell :: "string option"
  pusr_ShouldExist :: "bool option"
  pusr_System :: "bool option"
  pusr_UID :: "int option"

record IgnPasswd =
  pwd_Groups :: "IgnPasswdGroup slice"
  pwd_Users :: "IgnPasswdUser slice"

record IgnNodeGroup =
  ngrp_ID :: "int option"
  ngrp_Name :: "string option"

record IgnNodeUser =
  nusr_ID :: "int option"
  nusr_Name :: "string option"

record IgnNode =
  inode_Group :: "IgnNodeGroup"
  inode_Overwrite :: "bool option"
  inode_Path :: "string"
  inode_User :: "IgnNodeUser"

record IgnDirectoryEmbedded1 =
  dire_Mode :: "int option"

record IgnDirectory =
  dir_Node :: "IgnNode"
  dir_DirectoryEmbedded1 :: "IgnDirectoryEmbedded1"

record IgnPartition =
  part_GUID :: "string option"
  part_Label :: "string option"
  part_Number :: "int"
  part_Resize :: "bool option"
  part_ShouldExist :: "bool option"
  part_SizeMiB :: "int option"
  part_StartMiB :: "int option"
  part_TypeGUID :: "string option"
  part_WipePartitionEntry :: "bool option"

record IgnDisk =
  disk_Device :: "string"
  disk_Partitions :: "IgnPartition slice"
  disk_WipeTable :: "bool option"

record IgnFileEmbedded1 =
  filee_Append :: "IgnResource slice"
  filee_Contents :: "IgnResource"
  filee_Mode :: "int option"

record IgnFile =
  file_Node :: "IgnNode"
  file_FileEmbedded1 :: "IgnFileEmbedded1"

record IgnFilesystem =
  fs_Device :: "string"
  fs_Format :: "string option"
  fs_Label :: "string option"
  fs_MountOptions :: "string slice"
  fs_Options :: "string slice"
  fs_Path :: "string option"
  fs_UUID :: "string option"
  fs_WipeFilesystem :: "bool option"

record IgnLinkEmbedded1 =
  linke_Hard :: "bool option"
  linke_Target :: "string option"

record IgnLink =
  link_Node :: "IgnNode"
  link_LinkEmbedded1 :: "IgnLinkEmbedded1"

record IgnLuks =
  luks_Clevis :: "IgnClevis"
  luks_Device :: "string option"
  luks_Discard :: "bool option"
  luks_KeyFile :: "IgnResource"
  luks_Label :: "string option"
  luks_Name :: "string"
  luks_OpenOptions :: "string slice"
  luks_Options :: "string slice"
  luks_UUID :: "string option"
  luks_WipeVolume :: "bool option"

record IgnRaid =
  raid_Devices :: "string slice"
  raid_Level :: "string option"
  raid_Name :: "string"
  raid_Options :: "string slice"
  raid_Spares :: "int option"

record IgnStorage =
  sto_Directories :: "IgnDirectory slice"
  sto_Disks :: "IgnDisk slice"
  sto_Files :: "IgnFile slice"
  sto_Filesystems :: "IgnFilesystem slice"
  sto_Links :: "IgnLink slice"
  sto_Luks :: "IgnLuks slice"
  sto_Raid :: "IgnRaid slice"

record IgnDropin =
  drop_Contents :: "string option"
  drop_Name :: "string"

record IgnUnit =
  unit_Contents :: "string option"
  unit_Dropins :: "IgnDropin slice"
  unit_Enabled :: "bool option"
  unit_Mask :: "bool option"
  unit_Name :: "string"

record IgnSystemd =
  sysd_Units :: "IgnUnit slice"

record IgnConfig =
  ign_Ignition :: "IgnIgnition"
  ign_KernelArguments :: "IgnKernelArguments"
  ign_Passwd :: "IgnPasswd"
  ign_Storage :: "IgnStorage"
  ign_Systemd :: "IgnSystemd"

section \<open>Zero values\<close>

definition zero_IgnClevisCustom :: IgnClevisCustom where
  "zero_IgnClevisCustom = \<lparr>clvc_Config = None, clvc_NeedsNetwork = None, clvc_Pin = None\<rparr>"

definition zero_IgnTang :: IgnTang where
  "zero_IgnTang = \<lparr>tang_Advertisement = None, tang_Thumbprint = None, tang_URL = []\<rparr>"

definition zero_IgnClevis :: IgnClevis where
  "zero_IgnClevis = \<lparr>clv_Custom = zero_IgnClevisCustom, clv_Tang = None, clv_Threshold = None, clv_Tpm2 = None\<rparr>"

definition zero_IgnHTTPHeader :: IgnHTTPHeader where
  "zero_IgnHTTPHeader = \<lparr>hdr_Name = [], hdr_Value = None\<rparr>"

definition zero_IgnVerification :: IgnVerification where
  "zero_IgnVerification = \<lparr>veri_Hash = None\<rparr>"

definition zero_IgnResource :: IgnResource where
  "zero_IgnResource = \<lparr>res_Compression = None, res_HTTPHeaders = None, res_Source = None, res_Verification = zero_IgnVerification\<rparr>"

definition zero_IgnIgnitionConfig :: IgnIgnitionConfig where
  "zero_IgnIgnitionConfig = \<lparr>ignc_Merge = None, ignc_Replace = zero_IgnResource\<rparr>"

definition zero_IgnProxy :: IgnProxy where
  "zero_IgnProxy = \<lparr>iprx_HTTPProxy = None, iprx_HTTPSProxy = None, iprx_NoProxy = None\<rparr>"

definition zero_IgnTLS :: IgnTLS where
  "zero_IgnTLS = \<lparr>tls_CertificateAuthorities = None\<rparr>"

definition zero_IgnSecurity :: IgnSecurity where
  "zero_IgnSecurity = \<lparr>sec_TLS = zero_IgnTLS\<rparr>"

definition zero_IgnTimeouts :: IgnTimeouts where
  "zero_IgnTimeouts = \<lparr>tmo_HTTPResponseHeaders = None, tmo_HTTPTotal = None\<rparr>"

definition zero_IgnIgnition :: IgnIgnition where
  "zero_IgnIgnition = \<lparr>igni_Config = zero_IgnIgnitionConfig, igni_Proxy = zero_IgnProxy, igni_Security = zero_IgnSecurity, igni_Timeouts = zero_IgnTimeouts, igni_Version = []\<rparr>"

definition zero_IgnKernelArguments :: IgnKernelArguments where
  "zero_IgnKernelArguments = \<lparr>karg_ShouldExist = None, karg_ShouldNotExist = None\<rparr>"

definition zero_IgnPasswdGroup :: IgnPasswdGroup where
  "zero_IgnPasswdGroup = \<lparr>pgrp_Gid = None, pgrp_Name = [], pgrp_PasswordHash = None, pgrp_ShouldExist = None, pgrp_System = None\<rparr>"

definition zero_IgnPasswdUser :: IgnPasswdUser where
  "zero_IgnPasswdUser = \<lparr>pusr_Gecos = None, pusr_Groups = None, pusr_HomeDir = None, pusr_Name = [], pusr_NoCreateHome = None, pusr_NoLogInit = None, pusr_NoUserGroup = None, pusr_PasswordHash = None, pusr_PrimaryGroup = None, pusr_SSHAuthorizedKeys = None, pusr_Shell = None, pusr_ShouldExist = None, pusr_System = None, pusr_UID = None\<rparr>"

definition zero_IgnPasswd :: IgnPasswd where
  "zero_IgnPasswd = \<lparr>pwd_Groups = None, pwd_Users = None\<rparr>"

definition zero_IgnNodeGroup :: IgnNodeGroup where
  "zero_IgnNodeGroup = \<lparr>ngrp_ID = None, ngrp_Name = None\<rparr>"

definition zero_IgnNodeUser :: IgnNodeUser where
  "zero_IgnNodeUser = \<lparr>nusr_ID = None, nusr_Name = None\<rparr>"

definition zero_IgnNode :: IgnNode where
  "zero_IgnNode = \<lparr>inode_Group = zero_IgnNodeGroup, inode_Overwrite = None, inode_Path = [], inode_User = zero_IgnNodeUser\<rparr>"

definition zero_IgnDirectoryEmbedded1 :: IgnDirectoryEmbedded1 where
  "zero_IgnDirectoryEmbedded1 = \<lparr>dire_Mode = None\<rparr>"

definition zero_IgnDirectory :: IgnDirectory where
  "zero_IgnDirectory = \<lparr>dir_Node = zero_IgnNode, dir_DirectoryEmbedded1 = zero_IgnDirectoryEmbedded1\<rparr>"

definition zero_IgnPartition :: IgnPartition where
  "zero_IgnPartition = \<lparr>part_GUID = None, part_Label = None, part_Number = 0, part_Resize = None, part_ShouldExist = None, part_SizeMiB = None, part_StartMiB = None, part_TypeGUID = None, part_WipePartitionEntry = None\<rparr>"

definition zero_IgnDisk :: IgnDisk where
  "zero_IgnDisk = \<lparr>disk_Device = [], disk_Partitions = None, disk_WipeTable = None\<rparr>"

definition zero_IgnFileEmbedded1 :: IgnFileEmbedded1 where
  "zero_IgnFileEmbedded1 = \<lparr>filee_Append = None, filee_Contents = zero_IgnResource, filee_Mode = None\<rparr>"

definition zero_IgnFile :: IgnFile where
  "zero_IgnFile = \<lparr>file_Node = zero_IgnNode, file_FileEmbedded1 = zero_IgnFileEmbedded1\<rparr>"

definition zero_IgnFilesystem :: IgnFilesystem where
  "zero_IgnFilesystem = \<lparr>fs_Device = [], fs_Format = None, fs_Label = None, fs_MountOptions = None, fs_Options = None, fs_Path = None, fs_UUID = None, fs_WipeFilesystem = None\<rparr>"

definition zero_IgnLinkEmbedded1 :: IgnLinkEmbedded1 where
  "zero_IgnLinkEmbedded1 = \<lparr>linke_Hard = None, linke_Target = None\<rparr>"

definition zero_IgnLink :: IgnLink where
  "zero_IgnLink = \<lparr>link_Node = zero_IgnNode, link_LinkEmbedded1 = zero_IgnLinkEmbedded1\<rparr>"

definition zero_IgnLuks :: IgnLuks where
  "zero_IgnLuks = \<lparr>luks_Clevis = zero_IgnClevis, luks_Device = None, luks_Discard = None, luks_KeyFile = zero_IgnResource, luks_Label = None, luks_Name = [], luks_OpenOptions = None, luks_Options = None, luks_UUID = None, luks_WipeVolume = None\<rparr>"

definition zero_IgnRaid :: IgnRaid where
  "zero_IgnRaid = \<lparr>raid_Devices = None, raid_Level = None, raid_Name = [], raid_Options = None, raid_Spares = None\<rparr>"

definition zero_IgnStorage :: IgnStorage where
  "zero_IgnStorage = \<lparr>sto_Directories = None, sto_Disks = None, sto_Files = None, sto_Filesystems = None, sto_Links = None, sto_Luks = None, sto_Raid = None\<rparr>"

definition zero_IgnDropin :: IgnDropin where
  "zero_IgnDropin = \<lparr>drop_Contents = None, drop_Name = []\<rparr>"

definition zero_IgnUnit :: IgnUnit where
  "zero_IgnUnit = \<lparr>unit_Contents = None, unit_Dropins = None, unit_Enabled = None, unit_Mask = None, unit_Name = []\<rparr>"

definition zero_IgnSystemd :: IgnSystemd where
  "zero_IgnSystemd = \<lparr>sysd_Units = None\<rparr>"

definition zero_IgnConfig :: IgnConfig where
  "zero_IgnConfig = \<lparr>ign_Ignition = zero_IgnIgnition, ign_KernelArguments = zero_IgnKernelArguments, ign_Passwd = zero_IgnPasswd, ign_Storage = zero_IgnStorage, ign_Systemd = zero_IgnSystemd\<rparr>"

end
