(* ===== verification/Ignition_Compare.thy ===== *)
theory Ignition_Compare
  imports Ignition_Types
begin

text \<open>
  \<^verbatim>\<open>pkg/cluster/ignition/compare.go\<close>: whether two Ignition configurations are the same up to the
  order of their entries.  Each list is compared by the loop of the source: for every entry of
  the first list, scan the second one for the first entry not matched yet that has the same key;
  it must be deeply equal, and is then marked as matched.  The interface \<open>list_compare\<close> states
  what such a comparison promises; the lemmas relate the loops, with their table of matched
  indices, to equality of multisets.
\<close>

section \<open>The matching loop\<close>

text \<open>The inner loop: index and value of the first entry that is not matched and passes the test.\<close>

fun find_unmatched :: "(nat \<Rightarrow> bool) \<Rightarrow> ('a \<Rightarrow> bool) \<Rightarrow> nat \<Rightarrow> 'a list \<Rightarrow> (nat \<times> 'a) option" where
  "find_unmatched matchedB P j [] = None"
| "find_unmatched matchedB P j (y # ys) =
     (if matchedB j then find_unmatched matchedB P (Suc j) ys
      else if P y then Some (j, y)
      else find_unmatched matchedB P (Suc j) ys)"

text \<open>\<^verbatim>\<open>matchedB[j] = true\<close>.\<close>

definition mark :: "(nat \<Rightarrow> bool) \<Rightarrow> nat \<Rightarrow> (nat \<Rightarrow> bool)" where
  "mark m j = m(j := True)"

text \<open>The outer loop of the comparisons by key.\<close>

fun keyed_loop :: "('a \<Rightarrow> 'k) \<Rightarrow> (nat \<Rightarrow> bool) \<Rightarrow> 'a list \<Rightarrow> 'a list \<Rightarrow> bool" where
  "keyed_loop key matchedB [] b = True"
| "keyed_loop key matchedB (x # xs) b =
     (case find_unmatched matchedB (\<lambda>y. key x = key y) 0 b of
        None \<Rightarrow> False
      | Some (j, y) \<Rightarrow> if x \<noteq> y then False else keyed_loop key (mark matchedB j) xs b)"

definition compare_keyed :: "('a \<Rightarrow> 'k) \<Rightarrow> 'a list \<Rightarrow> 'a list \<Rightarrow> bool" where
  "compare_keyed key a b =
     (if length a \<noteq> length b then False else keyed_loop key (\<lambda>_. False) a b)"

text \<open>The outer loop of \<open>compareMergeAppend\<close>, which looks for a deeply equal entry.\<close>

fun equal_loop :: "(nat \<Rightarrow> bool) \<Rightarrow> 'a list \<Rightarrow> 'a list \<Rightarrow> bool" where
  "equal_loop matchedB [] b = True"
| "equal_loop matchedB (refA # xs) b =
     (case find_unmatched matchedB (\<lambda>refB. refA = refB) 0 b of
        None \<Rightarrow> False
      | Some (j, _) \<Rightarrow> equal_loop (mark matchedB j) xs b)"

section \<open>The comparisons\<close>

definition compareMergeAppend :: "IgnResource list \<Rightarrow> IgnResource list \<Rightarrow> bool" where
  "compareMergeAppend a b = (if length a \<noteq> length b then False else equal_loop (\<lambda>_. False) a b)"

definition compareSecurity :: "IgnSecurity \<Rightarrow> IgnSecurity \<Rightarrow> bool" where
  "compareSecurity a b = (a = b)"

definition compareTimeouts :: "IgnTimeouts \<Rightarrow> IgnTimeouts \<Rightarrow> bool" where
  "compareTimeouts a b = (a = b)"

definition compareProxy :: "IgnProxy \<Rightarrow> IgnProxy \<Rightarrow> bool" where
  "compareProxy a b = (a = b)"

definition compareConfigReference :: "IgnResource \<Rightarrow> IgnResource \<Rightarrow> bool" where
  "compareConfigReference a b = (a = b)"

definition compareDirectories :: "IgnDirectory list \<Rightarrow> IgnDirectory list \<Rightarrow> bool" where
  "compareDirectories = compare_keyed (\<lambda>d. inode_Path (dir_Node d))"

definition compareFiles :: "IgnFile list \<Rightarrow> IgnFile list \<Rightarrow> bool" where
  "compareFiles = compare_keyed (\<lambda>f. inode_Path (file_Node f))"

definition compareLinks :: "IgnLink list \<Rightarrow> IgnLink list \<Rightarrow> bool" where
  "compareLinks = compare_keyed (\<lambda>l. inode_Path (link_Node l))"

definition compareDisks :: "IgnDisk list \<Rightarrow> IgnDisk list \<Rightarrow> bool" where
  "compareDisks = compare_keyed disk_Device"

definition compareRaid :: "IgnRaid list \<Rightarrow> IgnRaid list \<Rightarrow> bool" where
  "compareRaid = compare_keyed raid_Name"

definition compareFilesystems :: "IgnFilesystem list \<Rightarrow> IgnFilesystem list \<Rightarrow> bool" where
  "compareFilesystems = compare_keyed fs_Device"

definition compareStorage :: "IgnStorage \<Rightarrow> IgnStorage \<Rightarrow> bool" where
  "compareStorage a b =
     (if \<not> compareDirectories (sl (sto_Directories a)) (sl (sto_Directories b)) then False
      else if \<not> compareFiles (sl (sto_Files a)) (sl (sto_Files b)) then False
      else if \<not> compareLinks (sl (sto_Links a)) (sl (sto_Links b)) then False
      else if \<not> compareDisks (sl (sto_Disks a)) (sl (sto_Disks b)) then False
      else if \<not> compareRaid (sl (sto_Raid a)) (sl (sto_Raid b)) then False
      else if \<not> compareFilesystems (sl (sto_Filesystems a)) (sl (sto_Filesystems b)) then False
      else True)"

definition compareUnits :: "IgnUnit list \<Rightarrow> IgnUnit list \<Rightarrow> bool" where
  "compareUnits = compare_keyed unit_Name"

text \<open>The contents of two drop-ins of the same name: both absent, or both there with equal text.\<close>

definition dropin_contents_ok :: "IgnDropin \<Rightarrow> IgnDropin \<Rightarrow> bool" where
  "dropin_contents_ok dropA dropB =
     (case drop_Contents dropA of
        None \<Rightarrow> (case drop_Contents dropB of None \<Rightarrow> True | Some _ \<Rightarrow> False)
      | Some ca \<Rightarrow> (case drop_Contents dropB of None \<Rightarrow> False | Some cb \<Rightarrow> ca = cb))"

fun dropin_loop :: "(nat \<Rightarrow> bool) \<Rightarrow> IgnDropin list \<Rightarrow> IgnDropin list \<Rightarrow> bool" where
  "dropin_loop matchedD [] b = True"
| "dropin_loop matchedD (dropA # xs) b =
     (case find_unmatched matchedD (\<lambda>dropB. drop_Name dropA = drop_Name dropB) 0 b of
        None \<Rightarrow> False
      | Some (j, dropB) \<Rightarrow>
          if \<not> dropin_contents_ok dropA dropB then False else dropin_loop (mark matchedD j) xs b)"

definition compareDropinsOf :: "IgnUnit \<Rightarrow> IgnUnit \<Rightarrow> bool" where
  "compareDropinsOf unitA unitB =
     (if length (sl (unit_Dropins unitA)) \<noteq> length (sl (unit_Dropins unitB)) then False
      else dropin_loop (\<lambda>_. False) (sl (unit_Dropins unitA)) (sl (unit_Dropins unitB)))"

definition compareUnitDropins :: "IgnUnit list \<Rightarrow> IgnUnit list \<Rightarrow> bool" where
  "compareUnitDropins a b =
     (if length a \<noteq> length b then False
      else list_all (\<lambda>unitA. list_all (\<lambda>unitB.
             unit_Name unitA = unit_Name unitB \<longrightarrow> compareDropinsOf unitA unitB) b) a)"

definition compareSystemd :: "IgnSystemd \<Rightarrow> IgnSystemd \<Rightarrow> bool" where
  "compareSystemd a b =
     (if \<not> compareUnits (sl (sysd_Units a)) (sl (sysd_Units b)) then False
      else if \<not> compareUnitDropins (sl (sysd_Units a)) (sl (sysd_Units b)) then False
      else True)"

definition compareUsers :: "IgnPasswdUser list \<Rightarrow> IgnPasswdUser list \<Rightarrow> bool" where
  "compareUsers = compare_keyed pusr_Name"

definition compareGroups :: "IgnPasswdGroup list \<Rightarrow> IgnPasswdGroup list \<Rightarrow> bool" where
  "compareGroups = compare_keyed pgrp_Name"

definition comparePasswd :: "IgnPasswd \<Rightarrow> IgnPasswd \<Rightarrow> bool" where
  "comparePasswd a b =
     (if \<not> compareUsers (sl (pwd_Users a)) (sl (pwd_Users b)) then False
      else if \<not> compareGroups (sl (pwd_Groups a)) (sl (pwd_Groups b)) then False
      else True)"

definition Compare :: "IgnConfig option \<Rightarrow> IgnConfig option \<Rightarrow> bool" where
  "Compare pa pb =
     (case (pa, pb) of
        (Some a, Some b) \<Rightarrow>
          (if igni_Version (ign_Ignition a) \<noteq> igni_Version (ign_Ignition b) then False
           else if \<not> compareSecurity (igni_Security (ign_Ignition a)) (igni_Security (ign_Ignition b)) then False
           else if \<not> compareTimeouts (igni_Timeouts (ign_Ignition a)) (igni_Timeouts (ign_Ignition b)) then False
           else if \<not> compareProxy (igni_Proxy (ign_Ignition a)) (igni_Proxy (ign_Ignition b)) then False
           else if \<not> compareMergeAppend (sl (ignc_Merge (igni_Config (ign_Ignition a)))) (sl (ignc_Merge (igni_Config (ign_Ignition b))))
             \<or> \<not> compareConfigReference (ignc_Replace (igni_Config (ign_Ignition a))) (ignc_Replace (igni_Config (ign_Ignition b))) then False
           else if \<not> compareStorage (ign_Storage a) (ign_Storage b) then False
           else if \<not> compareSystemd (ign_Systemd a) (ign_Systemd b) then False
           else if \<not> comparePasswd (ign_Passwd a) (ign_Passwd b) then False
           else True)
      | _ \<Rightarrow> pa = pb)"

section \<open>The loop against a list of what is left\<close>

text \<open>The entries not marked yet, and the loop that takes them out instead of marking them.\<close>

fun unmatched :: "(nat \<Rightarrow> bool) \<Rightarrow> nat \<Rightarrow> 'a list \<Rightarrow> 'a list" where
  "unmatched m j [] = []"
| "unmatched m j (y # ys) = (if m j then unmatched m (Suc j) ys else y # unmatched m (Suc j) ys)"

fun take_out :: "('a \<Rightarrow> 'a \<Rightarrow> bool) \<Rightarrow> ('a \<Rightarrow> 'a \<Rightarrow> bool) \<Rightarrow> 'a list \<Rightarrow> 'a list \<Rightarrow> bool" where
  "take_out K ok [] rest = True"
| "take_out K ok (x # xs) rest =
     (case List.extract (K x) rest of
        None \<Rightarrow> False
      | Some (ys, y, zs) \<Rightarrow> ok x y \<and> take_out K ok xs (ys @ zs))"

lemma unmatched_none [simp]: "unmatched (\<lambda>_. False) j b = b"
  by (induction b arbitrary: j) auto

lemma unmatched_upd_before: "i < j \<Longrightarrow> unmatched (mark m i) j b = unmatched m j b"
  by (induction b arbitrary: j) (auto simp: mark_def)

lemma mark_same [simp]: "mark m i i"
  by (simp add: mark_def)

lemma find_unmatched_extract:
  "(find_unmatched m P j b = None \<longrightarrow> List.extract P (unmatched m j b) = None) \<and>
   (\<forall>i y. find_unmatched m P j b = Some (i, y) \<longrightarrow>
      j \<le> i \<and> (\<exists>ys zs. List.extract P (unmatched m j b) = Some (ys, y, zs)
        \<and> unmatched (mark m i) j b = ys @ zs))"
proof (induction b arbitrary: j)
  case Nil
  then show ?case by (simp add: extract_Nil_code)
next
  case (Cons b bs)
  note IH = Cons.IH [of "Suc j"]
  show ?case
  proof (cases "m j")
    case True
    with IH show ?thesis by (fastforce simp: mark_def)
  next
    case mj: False
    show ?thesis
    proof (cases "P b")
      case True
      with mj show ?thesis by (auto simp: extract_Cons_code unmatched_upd_before)
    next
      case False
      with mj IH show ?thesis by (fastforce simp: extract_Cons_code mark_def split: option.splits)
    qed
  qed
qed

lemma find_unmatched_cases:
  obtains (none) "find_unmatched m P j b = None" "List.extract P (unmatched m j b) = None"
  | (some) i y ys zs where "find_unmatched m P j b = Some (i, y)"
      "List.extract P (unmatched m j b) = Some (ys, y, zs)" "unmatched (mark m i) j b = ys @ zs"
  using find_unmatched_extract [of m P j b] by (cases "find_unmatched m P j b") auto

lemma keyed_loop_take_out:
  "keyed_loop key m a b = take_out (\<lambda>x y. key x = key y) (=) a (unmatched m 0 b)"
proof (induction a arbitrary: m)
  case (Cons x xs)
  show ?case
    by (rule find_unmatched_cases [of m "\<lambda>y. key x = key y" 0 b]) (auto simp: Cons.IH)
qed simp

lemma equal_loop_take_out: "equal_loop m a b = take_out (=) (=) a (unmatched m 0 b)"
proof (induction a arbitrary: m)
  case (Cons x xs)
  show ?case
  proof (rule find_unmatched_cases [of m "\<lambda>y. x = y" 0 b])
    fix i y ys zs
    assume found: "find_unmatched m (\<lambda>y. x = y) 0 b = Some (i, y)"
      and ex: "List.extract (\<lambda>y. x = y) (unmatched m 0 b) = Some (ys, y, zs)"
      and rest: "unmatched (mark m i) 0 b = ys @ zs"
    from ex have "x = y" by (simp add: extract_Some_iff)
    with found ex rest show ?thesis by (simp add: Cons.IH)
  qed simp
qed simp

lemma dropin_loop_take_out:
  "dropin_loop m a b = take_out (\<lambda>x y. drop_Name x = drop_Name y) dropin_contents_ok a (unmatched m 0 b)"
proof (induction a arbitrary: m)
  case (Cons x xs)
  show ?case
    by (rule find_unmatched_cases [of m "\<lambda>y. drop_Name x = drop_Name y" 0 b]) (auto simp: Cons.IH)
qed simp

lemma take_out_refl: "(\<And>x. K x x) \<Longrightarrow> (\<And>x. ok x x) \<Longrightarrow> take_out K ok a a"
  by (induction a) (simp_all add: extract_Cons_code)

lemma take_out_sound: "take_out K (=) a r \<Longrightarrow> length a = length r \<Longrightarrow> mset a = mset r"
proof (induction a arbitrary: r)
  case (Cons x xs)
  from Cons.prems(1) obtain ys zs where r: "r = ys @ x # zs" and rest: "take_out K (=) xs (ys @ zs)"
    by (auto split: option.splits simp: extract_Some_iff)
  with Cons.prems(2) have "mset xs = mset (ys @ zs)" by (intro Cons.IH) auto
  with r show ?case by simp
qed simp

lemma take_out_complete:
  assumes "\<And>x. K x x" and "mset a = mset r"
    and "\<And>x y. x \<in> set a \<Longrightarrow> y \<in> set a \<Longrightarrow> K x y \<Longrightarrow> x = y"
  shows "take_out K (=) a r"
  using assms
proof (induction a arbitrary: r)
  case (Cons x xs)
  have "x \<in> set r" using Cons.prems(2) by (metis list.set_intros(1) set_mset_mset)
  then obtain ys y zs where ex: "List.extract (K x) r = Some (ys, y, zs)"
    using Cons.prems(1) by (cases "List.extract (K x) r") (auto simp: extract_None_iff)
  then have r: "r = ys @ y # zs" and "K x y" by (auto simp: extract_Some_iff)
  moreover have "y \<in> set (x # xs)" using r Cons.prems(2) by (metis in_set_conv_decomp set_mset_mset)
  ultimately have "x = y" using Cons.prems(3) by auto
  moreover from this r Cons.prems(2) have "mset xs = mset (ys @ zs)" by simp
  ultimately show ?case using ex Cons.IH [OF Cons.prems(1), of "ys @ zs"] Cons.prems(3) by simp
qed simp

section \<open>The contract of a comparison\<close>

locale list_compare =
  fixes cmp :: "'a list \<Rightarrow> 'a list \<Rightarrow> bool" and key :: "'a \<Rightarrow> 'k"
  assumes refl: "cmp a a"
    and sound: "cmp a b \<Longrightarrow> mset a = mset b"
    and complete: "distinct (map key a) \<Longrightarrow> mset a = mset b \<Longrightarrow> cmp a b"
begin

lemma exact: "distinct (map key a) \<Longrightarrow> cmp a b \<longleftrightarrow> mset a = mset b"
  using sound complete by blast

lemma symmetric: "distinct (map key a) \<Longrightarrow> cmp a b \<Longrightarrow> cmp b a"
proof -
  assume "distinct (map key a)" and "cmp a b"
  moreover from this have "mset (map key a) = mset (map key b)" by (simp add: sound)
  ultimately show "cmp b a" by (metis complete mset_eq_imp_distinct_iff sound)
qed

lemma transitive: "distinct (map key a) \<Longrightarrow> cmp a b \<Longrightarrow> cmp b c \<Longrightarrow> cmp a c"
  by (metis complete sound)

end

text \<open>A comparison that needs no distinct keys.\<close>

locale exact_compare =
  fixes cmp :: "'a list \<Rightarrow> 'a list \<Rightarrow> bool"
  assumes iff_mset: "cmp a b \<longleftrightarrow> mset a = mset b"

sublocale exact_compare \<subseteq> list_compare cmp "\<lambda>x. x"
  by unfold_locales (simp_all add: iff_mset)

lemma compare_keyed_eq:
  "compare_keyed key a b \<longleftrightarrow> length a = length b \<and> take_out (\<lambda>x y. key x = key y) (=) a b"
  by (simp add: compare_keyed_def keyed_loop_take_out)

lemma compareMergeAppend_eq:
  "compareMergeAppend a b \<longleftrightarrow> length a = length b \<and> take_out (=) (=) a b"
  by (simp add: compareMergeAppend_def equal_loop_take_out)

lemma compare_keyed_contract: "list_compare (compare_keyed key) key"
proof
  fix a b
  show "compare_keyed key a a"
    by (simp add: compare_keyed_eq take_out_refl)
  show "mset a = mset b" if "compare_keyed key a b"
    using that unfolding compare_keyed_eq by (blast intro: take_out_sound)
  show "compare_keyed key a b" if d: "distinct (map key a)" and m: "mset a = mset b"
  proof -
    have "take_out (\<lambda>x y. key x = key y) (=) a b"
      using m distinct_map_keyD [OF d] by (intro take_out_complete) auto
    then show ?thesis using mset_eq_lengthD [OF m] by (simp add: compare_keyed_eq)
  qed
qed

interpretation merge_cmp: exact_compare compareMergeAppend
proof
  fix a b
  show "compareMergeAppend a b \<longleftrightarrow> mset a = mset b"
  proof
    show "mset a = mset b" if "compareMergeAppend a b"
      using that unfolding compareMergeAppend_eq by (blast intro: take_out_sound)
    show "compareMergeAppend a b" if m: "mset a = mset b"
      using take_out_complete [of "(=)", OF _ m] mset_eq_lengthD [OF m] by (simp add: compareMergeAppend_eq)
  qed
qed

interpretation dirs_cmp: list_compare compareDirectories "\<lambda>d. inode_Path (dir_Node d)"
  unfolding compareDirectories_def by (rule compare_keyed_contract)

interpretation files_cmp: list_compare compareFiles "\<lambda>f. inode_Path (file_Node f)"
  unfolding compareFiles_def by (rule compare_keyed_contract)

interpretation links_cmp: list_compare compareLinks "\<lambda>l. inode_Path (link_Node l)"
  unfolding compareLinks_def by (rule compare_keyed_contract)

interpretation disks_cmp: list_compare compareDisks disk_Device
  unfolding compareDisks_def by (rule compare_keyed_contract)

interpretation raid_cmp: list_compare compareRaid raid_Name
  unfolding compareRaid_def by (rule compare_keyed_contract)

interpretation fs_cmp: list_compare compareFilesystems fs_Device
  unfolding compareFilesystems_def by (rule compare_keyed_contract)

interpretation units_cmp: list_compare compareUnits unit_Name
  unfolding compareUnits_def by (rule compare_keyed_contract)

interpretation users_cmp: list_compare compareUsers pusr_Name
  unfolding compareUsers_def by (rule compare_keyed_contract)

interpretation groups_cmp: list_compare compareGroups pgrp_Name
  unfolding compareGroups_def by (rule compare_keyed_contract)

text \<open>The second pass over the units adds nothing when their names are distinct.\<close>

lemma compareDropinsOf_refl: "compareDropinsOf u u"
  by (simp add: compareDropinsOf_def dropin_loop_take_out take_out_refl dropin_contents_ok_def split: option.splits)

lemma compareUnitDropins_redundant:
  assumes "distinct (map unit_Name a)" and "mset a = mset b"
  shows "compareUnitDropins a b"
proof -
  from assms(2) have len: "length a = length b" and "set b = set a"
    by (auto dest: mset_eq_lengthD mset_eq_setD)
  then have "u = v" if "u \<in> set a" "v \<in> set b" "unit_Name u = unit_Name v" for u v
    using that distinct_map_keyD [OF assms(1)] by auto
  then have "compareDropinsOf u v" if "u \<in> set a" "v \<in> set b" "unit_Name u = unit_Name v" for u v
    using that compareDropinsOf_refl by blast
  with len show ?thesis by (auto simp: compareUnitDropins_def list_all_iff)
qed

section \<open>Properties\<close>

text \<open>The specification: equal headers, and the same entries in each list that is looked at.\<close>

definition same_lists :: "IgnConfig \<Rightarrow> IgnConfig \<Rightarrow> bool" where
  "same_lists a b \<longleftrightarrow>
     mset (sl (ignc_Merge (igni_Config (ign_Ignition a)))) = mset (sl (ignc_Merge (igni_Config (ign_Ignition b)))) \<and>
     mset (sl (sto_Directories (ign_Storage a))) = mset (sl (sto_Directories (ign_Storage b))) \<and>
     mset (sl (sto_Files (ign_Storage a))) = mset (sl (sto_Files (ign_Storage b))) \<and>
     mset (sl (sto_Links (ign_Storage a))) = mset (sl (sto_Links (ign_Storage b))) \<and>
     mset (sl (sto_Disks (ign_Storage a))) = mset (sl (sto_Disks (ign_Storage b))) \<and>
     mset (sl (sto_Raid (ign_Storage a))) = mset (sl (sto_Raid (ign_Storage b))) \<and>
     mset (sl (sto_Filesystems (ign_Storage a))) = mset (sl (sto_Filesystems (ign_Storage b))) \<and>
     mset (sl (sysd_Units (ign_Systemd a))) = mset (sl (sysd_Units (ign_Systemd b))) \<and>
     mset (sl (pwd_Users (ign_Passwd a))) = mset (sl (pwd_Users (ign_Passwd b))) \<and>
     mset (sl (pwd_Groups (ign_Passwd a))) = mset (sl (pwd_Groups (ign_Passwd b)))"

definition same_header :: "IgnConfig \<Rightarrow> IgnConfig \<Rightarrow> bool" where
  "same_header a b \<longleftrightarrow>
     igni_Version (ign_Ignition a) = igni_Version (ign_Ignition b) \<and>
     igni_Security (ign_Ignition a) = igni_Security (ign_Ignition b) \<and>
     igni_Timeouts (ign_Ignition a) = igni_Timeouts (ign_Ignition b) \<and>
     igni_Proxy (ign_Ignition a) = igni_Proxy (ign_Ignition b) \<and>
     ignc_Replace (igni_Config (ign_Ignition a)) = ignc_Replace (igni_Config (ign_Ignition b))"

text \<open>No list names the same thing twice, as a valid configuration does not.\<close>

definition distinct_entries :: "IgnConfig \<Rightarrow> bool" where
  "distinct_entries a \<longleftrightarrow>
     distinct (map (\<lambda>d. inode_Path (dir_Node d)) (sl (sto_Directories (ign_Storage a)))) \<and>
     distinct (map (\<lambda>f. inode_Path (file_Node f)) (sl (sto_Files (ign_Storage a)))) \<and>
     distinct (map (\<lambda>l. inode_Path (link_Node l)) (sl (sto_Links (ign_Storage a)))) \<and>
     distinct (map disk_Device (sl (sto_Disks (ign_Storage a)))) \<and>
     distinct (map raid_Name (sl (sto_Raid (ign_Storage a)))) \<and>
     distinct (map fs_Device (sl (sto_Filesystems (ign_Storage a)))) \<and>
     distinct (map unit_Name (sl (sysd_Units (ign_Systemd a)))) \<and>
     distinct (map pusr_Name (sl (pwd_Users (ign_Passwd a)))) \<and>
     distinct (map pgrp_Name (sl (pwd_Groups (ign_Passwd a))))"

lemmas list_sounds = dirs_cmp.sound files_cmp.sound links_cmp.sound disks_cmp.sound raid_cmp.sound
  fs_cmp.sound units_cmp.sound users_cmp.sound groups_cmp.sound

lemmas list_completes = dirs_cmp.complete files_cmp.complete links_cmp.complete disks_cmp.complete
  raid_cmp.complete fs_cmp.complete units_cmp.complete users_cmp.complete groups_cmp.complete

lemma Compare_Some:
  "Compare (Some a) (Some b) \<longleftrightarrow> same_header a b \<and>
     compareMergeAppend (sl (ignc_Merge (igni_Config (ign_Ignition a)))) (sl (ignc_Merge (igni_Config (ign_Ignition b)))) \<and>
     compareStorage (ign_Storage a) (ign_Storage b) \<and> compareSystemd (ign_Systemd a) (ign_Systemd b) \<and>
     comparePasswd (ign_Passwd a) (ign_Passwd b)"
  by (auto simp: Compare_def same_header_def compareSecurity_def compareTimeouts_def compareProxy_def
      compareConfigReference_def)

lemma Compare_sound: "Compare (Some a) (Some b) \<Longrightarrow> same_header a b \<and> same_lists a b"
  unfolding Compare_Some same_lists_def
  by (simp add: compareStorage_def compareSystemd_def comparePasswd_def merge_cmp.iff_mset list_sounds
      split: if_splits)

lemma Compare_complete:
  "distinct_entries a \<Longrightarrow> same_header a b \<Longrightarrow> same_lists a b \<Longrightarrow> Compare (Some a) (Some b)"
  unfolding Compare_Some same_lists_def distinct_entries_def
  by (simp add: compareStorage_def compareSystemd_def comparePasswd_def merge_cmp.iff_mset list_completes
      compareUnitDropins_redundant)

text \<open>Two small configurations that differ only in the order of their units.\<close>

definition sample_unit :: "string \<Rightarrow> string option \<Rightarrow> IgnUnit" where
  "sample_unit n c = zero_IgnUnit\<lparr>unit_Name := n, unit_Dropins := Some [\<lparr>drop_Contents = c, drop_Name = ''d.conf''\<rparr>]\<rparr>"

definition sample_units :: "IgnUnit list \<Rightarrow> IgnConfig" where
  "sample_units us = zero_IgnConfig\<lparr>ign_Systemd := \<lparr>sysd_Units = Some us\<rparr>\<rparr>"



text \<open>
  What the comparison does not see: encrypted volumes and kernel arguments can differ at will.
\<close>

theorem Compare_ignores_luks_and_kargs:
  "Compare (Some (a\<lparr>ign_KernelArguments := k, ign_Storage := (ign_Storage a)\<lparr>sto_Luks := l\<rparr>\<rparr>)) (Some b)
     = Compare (Some a) (Some b)"
  by (simp add: Compare_def compareStorage_def)

text \<open>
  With a unit name used twice the comparison is not even reflexive: the second pass over the units
  holds every pair of units of one name against each other.
\<close>

theorem Compare_not_reflexive:
  "\<exists>a. \<not> Compare (Some a) (Some a)"
proof
  let ?us = "[sample_unit ''a'' None, sample_unit ''a'' (Some ''x'')]"
  have "\<not> compareDropinsOf (sample_unit ''a'' None) (sample_unit ''a'' (Some ''x''))"
    by (simp add: compareDropinsOf_def sample_unit_def dropin_contents_ok_def)
  then have "\<not> compareUnitDropins ?us ?us"
    by (simp add: compareUnitDropins_def sample_unit_def)
  then show "\<not> Compare (Some (sample_units ?us)) (Some (sample_units ?us))"
    by (simp add: Compare_Some compareSystemd_def sample_units_def)
qed

end
