(* ===== verification/Semver.thy ===== *)
theory Semver
  imports Go_Strings "HOL-Library.List_Lexorder" "HOL-Library.Product_Lexorder" "HOL-Library.Char_ord"
begin

text \<open>
  The semantic version library the program compares versions with
  (\<^verbatim>\<open>vendor/github.com/Masterminds/semver/v3\<close>): parsing, printing, the order on versions and the
  constraints on them.  The regular expressions are written out as scanners; major, minor and patch
  are 64-bit words.  \<open>parseConstraint\<close> is the whole of \<open>NewConstraint\<close> on the strings the program builds:
  one operator and one version, no ranges, commas or alternatives.
\<close>

record Version =
  ver_major :: u64
  ver_minor :: u64
  ver_patch :: u64
  ver_pre :: string
  ver_metadata :: string
  ver_original :: string

definition ErrInvalidSemVer :: gerror where "ErrInvalidSemVer = ''invalid semantic version''"
definition ErrSegmentStartsZero :: gerror where "ErrSegmentStartsZero = ''version segment starts with 0''"
definition ErrInvalidMetadata :: gerror where "ErrInvalidMetadata = ''invalid metadata string''"
definition ErrInvalidPrerelease :: gerror where "ErrInvalidPrerelease = ''invalid prerelease string''"

section \<open>Validating and parsing\<close>

definition sv_allowed :: "char \<Rightarrow> bool" where
  "sv_allowed c = (c = CHR ''-'' \<or> is_digit c \<or>
     (let n = of_char c :: nat in (65 \<le> n \<and> n \<le> 90) \<or> (97 \<le> n \<and> n \<le> 122)))"

fun validate_parts :: "string list \<Rightarrow> gerror option" where
  "validate_parts [] = None"
| "validate_parts (p # ps) =
     (if p = [] then Some ErrInvalidPrerelease
      else if list_all is_digit p then
        (if length p > 1 \<and> hd p = CHR ''0'' then Some ErrSegmentStartsZero else validate_parts ps)
      else if \<not> list_all sv_allowed p then Some ErrInvalidPrerelease
      else validate_parts ps)"

definition validatePrerelease :: "string \<Rightarrow> gerror option" where
  "validatePrerelease p = validate_parts (go_split p ''.'')"

definition validateMetadata :: "string \<Rightarrow> gerror option" where
  "validateMetadata m =
     (if list_all (\<lambda>p. p \<noteq> [] \<and> list_all sv_allowed p) (go_split m ''.'') then None
      else Some ErrInvalidMetadata)"

text \<open>
  The match of \<open>looseSemVerRegex\<close> (and of \<open>cvRegex\<close>, which only widens the class of the number
  characters): an optional v, one to three numbers, an optional pre-release and metadata.  The submatches
  two and three carry their dot, the others do not carry their mark.
\<close>

definition scan_seg :: "(char \<Rightarrow> bool) \<Rightarrow> string \<Rightarrow> string \<times> string" where
  "scan_seg cls s = (case s of
     [] \<Rightarrow> ([], [])
   | c # r \<Rightarrow> (if c = CHR ''.'' \<and> takeWhile cls r \<noteq> [] then (c # takeWhile cls r, dropWhile cls r) else ([], s)))"

definition idents :: "string \<Rightarrow> bool" where
  "idents s = list_all (\<lambda>p. p \<noteq> [] \<and> list_all sv_allowed p) (go_split s ''.'')"

definition scan_pre :: "string \<Rightarrow> string option \<times> string" where
  "scan_pre s = (case s of
     [] \<Rightarrow> (None, [])
   | c # r \<Rightarrow> (if c = CHR ''-'' then (Some (takeWhile (\<lambda>d. d \<noteq> CHR ''+'') r), dropWhile (\<lambda>d. d \<noteq> CHR ''+'') r)
               else (None, s)))"

definition scan_meta :: "string \<Rightarrow> string option \<times> string" where
  "scan_meta s = (case s of
     [] \<Rightarrow> (None, [])
   | c # r \<Rightarrow> (if c = CHR ''+'' then (Some r, []) else (None, s)))"

fun ident_opt :: "string option \<Rightarrow> bool" where
  "ident_opt None = True"
| "ident_opt (Some s) = idents s"

fun ident_text :: "string option \<Rightarrow> string" where
  "ident_text None = []"
| "ident_text (Some s) = s"

definition loose_match :: "(char \<Rightarrow> bool) \<Rightarrow> string \<Rightarrow> (string \<times> string \<times> string \<times> string \<times> string) option" where
  "loose_match cls v =
     (let s = trim_prefix v ''v'';
          m1 = takeWhile cls s;
          (m2, r1) = scan_seg cls (dropWhile cls s);
          (m3, r2) = scan_seg cls r1;
          (pre, r3) = scan_pre r2;
          (meta, r4) = scan_meta r3
      in if m1 \<noteq> [] \<and> r4 = [] \<and> ident_opt pre \<and> ident_opt meta
         then Some (m1, m2, m3, ident_text pre, ident_text meta) else None)"

definition parse_segment :: "string \<Rightarrow> u64 result" where
  "parse_segment s = (case parse_uint 64 s of
     None \<Rightarrow> Inl (''error parsing version segment: strconv.ParseUint: parsing '' @ [CHR 34] @ s @ [CHR 34]
              @ '': value out of range'')
   | Some n \<Rightarrow> Inr (of_nat n))"

definition opt_segment :: "string \<Rightarrow> u64 result" where
  "opt_segment m = (if m \<noteq> [] then parse_segment (trim_prefix m ''.'') else Inr 0)"

definition coerceNewVersion :: "string \<Rightarrow> Version result" where
  "coerceNewVersion v =
     (case loose_match is_digit v of
        None \<Rightarrow> Inl ErrInvalidSemVer
      | Some (m1, m2, m3, pre, meta) \<Rightarrow>
          rbind (parse_segment m1) (\<lambda>major.
          rbind (opt_segment m2) (\<lambda>minor.
          rbind (opt_segment m3) (\<lambda>patch.
            (case (if pre \<noteq> [] then validatePrerelease pre else None) of
               Some e \<Rightarrow> Inl e
             | None \<Rightarrow>
                 (case (if meta \<noteq> [] then validateMetadata meta else None) of
                    Some e \<Rightarrow> Inl e
                  | None \<Rightarrow> Inr \<lparr>ver_major = major, ver_minor = minor, ver_patch = patch,
                              ver_pre = pre, ver_metadata = meta, ver_original = v\<rparr>))))))"

text \<open>\<open>CoerceNewVersion\<close> is true and the program never changes it.\<close>

definition NewVersion :: "string \<Rightarrow> Version result" where
  "NewVersion v = coerceNewVersion v"

definition ver_String :: "Version \<Rightarrow> string" where
  "ver_String v =
     format_nat (unat (ver_major v)) @ ''.'' @ format_nat (unat (ver_minor v)) @ ''.'' @ format_nat (unat (ver_patch v)) @
     (if ver_pre v \<noteq> [] then ''-'' @ ver_pre v else []) @
     (if ver_metadata v \<noteq> [] then ''+'' @ ver_metadata v else [])"

definition semver_New :: "u64 \<Rightarrow> u64 \<Rightarrow> u64 \<Rightarrow> string \<Rightarrow> string \<Rightarrow> Version" where
  "semver_New major minor patch pre metadata =
     (let v = \<lparr>ver_major = major, ver_minor = minor, ver_patch = patch, ver_pre = pre,
               ver_metadata = metadata, ver_original = []\<rparr>
      in v\<lparr>ver_original := ver_String v\<rparr>)"

definition originalVPrefix :: "Version \<Rightarrow> string" where
  "originalVPrefix v = (if take 1 (ver_original v) = ''v'' then ''v'' else [])"

definition IncMinor :: "Version \<Rightarrow> Version" where
  "IncMinor v =
     (let vNext = v\<lparr>ver_metadata := [], ver_pre := [], ver_patch := 0, ver_minor := ver_minor v + 1\<rparr>
      in vNext\<lparr>ver_original := originalVPrefix v @ ver_String vNext\<rparr>)"

section \<open>Comparing\<close>

definition compareSegment :: "u64 \<Rightarrow> u64 \<Rightarrow> int" where
  "compareSegment v w = (if v < w then -1 else if v > w then 1 else 0)"

definition comparePrePart :: "string \<Rightarrow> string \<Rightarrow> int" where
  "comparePrePart s t =
     (if s = t then 0
      else if s = [] then (if t \<noteq> [] then -1 else 1)
      else if t = [] then (if s \<noteq> [] then 1 else -1)
      else (case (parse_uint 64 t, parse_uint 64 s) of
              (None, None) \<Rightarrow> (if s > t then 1 else -1)
            | (None, Some _) \<Rightarrow> -1
            | (Some _, None) \<Rightarrow> 1
            | (Some oi, Some si) \<Rightarrow> (if si > oi then 1 else -1)))"

text \<open>The loop over the longer of the two lists of parts; a missing part is the empty string.\<close>

fun compare_parts :: "string list \<Rightarrow> string list \<Rightarrow> int" where
  "compare_parts [] [] = 0"
| "compare_parts (s # ss) [] = (let d = comparePrePart s [] in if d \<noteq> 0 then d else compare_parts ss [])"
| "compare_parts [] (t # ts) = (let d = comparePrePart [] t in if d \<noteq> 0 then d else compare_parts [] ts)"
| "compare_parts (s # ss) (t # ts) = (let d = comparePrePart s t in if d \<noteq> 0 then d else compare_parts ss ts)"

definition comparePrerelease :: "string \<Rightarrow> string \<Rightarrow> int" where
  "comparePrerelease v w = compare_parts (go_split v ''.'') (go_split w ''.'')"

definition ver_Compare :: "Version \<Rightarrow> Version \<Rightarrow> int" where
  "ver_Compare v w =
     (let d1 = compareSegment (ver_major v) (ver_major w);
          d2 = compareSegment (ver_minor v) (ver_minor w);
          d3 = compareSegment (ver_patch v) (ver_patch w)
      in if d1 \<noteq> 0 then d1 else if d2 \<noteq> 0 then d2 else if d3 \<noteq> 0 then d3
         else if ver_pre v = [] \<and> ver_pre w = [] then 0
         else if ver_pre v = [] then 1
         else if ver_pre w = [] then -1
         else comparePrerelease (ver_pre v) (ver_pre w))"

definition ver_LessThan :: "Version \<Rightarrow> Version \<Rightarrow> bool" where
  "ver_LessThan v w = (ver_Compare v w < 0)"

definition ver_GreaterThan :: "Version \<Rightarrow> Version \<Rightarrow> bool" where
  "ver_GreaterThan v w = (ver_Compare v w > 0)"

definition ver_Equal :: "Version \<Rightarrow> Version \<Rightarrow> bool" where
  "ver_Equal v w = (ver_Compare v w = 0)"

section \<open>Constraints\<close>

record sv_constraint =
  con_con :: Version
  con_orig :: string
  con_origfunc :: string
  con_minorDirty :: bool
  con_dirty :: bool
  con_patchDirty :: bool

definition isX :: "string \<Rightarrow> bool" where
  "isX x = (x = ''x'' \<or> x = ''*'' \<or> x = ''X'')"

definition re_space :: "char \<Rightarrow> bool" where
  "re_space c = ((of_char c :: nat) \<in> {9, 10, 12, 13, 32})"

definition cv_char :: "char \<Rightarrow> bool" where
  "cv_char c = (is_digit c \<or> c \<in> set ''|xX*'')"

definition constraint_ops :: "string list" where
  "constraint_ops = [''='', [], ''!='', ''>'', ''<'', ''>='', ''=>'', ''<='', ''=<'', ''~'', ''~>'', ''^'']"

definition op_char :: "char \<Rightarrow> bool" where
  "op_char c = (c \<in> set ''=!<>~^'')"

definition parseConstraint :: "string \<Rightarrow> sv_constraint result" where
  "parseConstraint c =
     (if c = [] then Inr \<lparr>con_con = \<lparr>ver_major = 0, ver_minor = 0, ver_patch = 0, ver_pre = [], ver_metadata = [],
                             ver_original = ''0.0.0''\<rparr>,
                           con_orig = c, con_origfunc = [], con_minorDirty = False, con_dirty = True, con_patchDirty = False\<rparr>
      else
      let s = dropWhile re_space c;
          oper = takeWhile op_char s;
          t = dropWhile re_space (dropWhile op_char s);
          body = takeWhile (\<lambda>d. \<not> re_space d) t;
          trail = dropWhile (\<lambda>d. \<not> re_space d) t
      in if oper \<notin> set constraint_ops \<or> \<not> list_all re_space trail then Inl (''improper constraint: '' @ c)
         else (case loose_match cv_char body of
                 None \<Rightarrow> Inl (''improper constraint: '' @ c)
               | Some (m3, m4, m5, pre, meta) \<Rightarrow>
                   (let m6 = (if pre \<noteq> [] then ''-'' @ pre else []);
                        (ver, minorDirty, patchDirty, dirty) =
                          (if isX m3 \<or> m3 = [] then (''0.0.0'' @ m6, False, False, True)
                           else if isX (trim_prefix m4 ''.'') \<or> m4 = [] then (m3 @ ''.0.0'' @ m6, True, False, True)
                           else if isX (trim_prefix m5 ''.'') \<or> m5 = [] then (m3 @ m4 @ ''.0'' @ m6, False, True, True)
                           else (body, False, False, False))
                    in (case NewVersion ver of
                          Inl _ \<Rightarrow> Inl ''constraint parser error''
                        | Inr con \<Rightarrow> Inr \<lparr>con_con = con, con_orig = body, con_origfunc = oper,
                             con_minorDirty = minorDirty, con_dirty = dirty, con_patchDirty = patchDirty\<rparr>))))"

definition constraintTilde :: "Version \<Rightarrow> sv_constraint \<Rightarrow> bool \<Rightarrow> bool" where
  "constraintTilde v c includePre =
     (if ver_pre v \<noteq> [] \<and> \<not> includePre then False
      else if ver_LessThan v (con_con c) then False
      else if ver_major (con_con c) = 0 \<and> ver_minor (con_con c) = 0 \<and> ver_patch (con_con c) = 0
              \<and> \<not> con_minorDirty c \<and> \<not> con_patchDirty c then True
      else if ver_major v \<noteq> ver_major (con_con c) then False
      else if ver_minor v \<noteq> ver_minor (con_con c) \<and> \<not> con_minorDirty c then False
      else True)"

definition constraintTildeOrEqual :: "Version \<Rightarrow> sv_constraint \<Rightarrow> bool \<Rightarrow> bool" where
  "constraintTildeOrEqual v c includePre =
     (if ver_pre v \<noteq> [] \<and> \<not> includePre then False
      else if con_dirty c then constraintTilde v c includePre
      else ver_Equal v (con_con c))"

definition constraintNotEqual :: "Version \<Rightarrow> sv_constraint \<Rightarrow> bool \<Rightarrow> bool" where
  "constraintNotEqual v c includePre =
     (if ver_pre v \<noteq> [] \<and> \<not> includePre then False
      else if con_dirty c \<and> ver_major (con_con c) \<noteq> ver_major v then True
      else if con_dirty c \<and> ver_minor (con_con c) \<noteq> ver_minor v \<and> \<not> con_minorDirty c then True
      else if con_dirty c \<and> con_minorDirty c then False
      else if con_dirty c \<and> ver_patch (con_con c) \<noteq> ver_patch v \<and> \<not> con_patchDirty c then True
      else if con_dirty c \<and> con_patchDirty c then
        (if ver_pre v \<noteq> [] \<or> ver_pre (con_con c) \<noteq> []
         then comparePrerelease (ver_pre v) (ver_pre (con_con c)) \<noteq> 0 else False)
      else \<not> ver_Equal v (con_con c))"

definition constraintGreaterThan :: "Version \<Rightarrow> sv_constraint \<Rightarrow> bool \<Rightarrow> bool" where
  "constraintGreaterThan v c includePre =
     (if ver_pre v \<noteq> [] \<and> \<not> includePre then False
      else if \<not> con_dirty c then ver_Compare v (con_con c) = 1
      else if ver_major v > ver_major (con_con c) then True
      else if ver_major v < ver_major (con_con c) then False
      else if con_minorDirty c then False
      else if con_patchDirty c then ver_minor v > ver_minor (con_con c)
      else ver_Compare v (con_con c) = 1)"

definition constraintLessThan :: "Version \<Rightarrow> sv_constraint \<Rightarrow> bool \<Rightarrow> bool" where
  "constraintLessThan v c includePre =
     (if ver_pre v \<noteq> [] \<and> \<not> includePre then False else ver_Compare v (con_con c) < 0)"

definition constraintGreaterThanEqual :: "Version \<Rightarrow> sv_constraint \<Rightarrow> bool \<Rightarrow> bool" where
  "constraintGreaterThanEqual v c includePre =
     (if ver_pre v \<noteq> [] \<and> \<not> includePre then False else ver_Compare v (con_con c) \<ge> 0)"

definition constraintLessThanEqual :: "Version \<Rightarrow> sv_constraint \<Rightarrow> bool \<Rightarrow> bool" where
  "constraintLessThanEqual v c includePre =
     (if ver_pre v \<noteq> [] \<and> \<not> includePre then False
      else if \<not> con_dirty c then ver_Compare v (con_con c) \<le> 0
      else if ver_major v > ver_major (con_con c) then False
      else if ver_major v = ver_major (con_con c) \<and> ver_minor v > ver_minor (con_con c) \<and> \<not> con_minorDirty c then False
      else True)"

definition constraintCaret :: "Version \<Rightarrow> sv_constraint \<Rightarrow> bool \<Rightarrow> bool" where
  "constraintCaret v c includePre =
     (if ver_pre v \<noteq> [] \<and> \<not> includePre then False
      else if ver_LessThan v (con_con c) then False
      else if ver_major (con_con c) > 0 \<or> con_minorDirty c then ver_major v = ver_major (con_con c)
      else if ver_major (con_con c) = 0 \<and> ver_major v > 0 then False
      else if ver_minor (con_con c) > 0 \<or> con_patchDirty c then ver_minor v = ver_minor (con_con c)
      else if ver_minor (con_con c) = 0 \<and> ver_minor v > 0 then False
      else ver_patch (con_con c) = ver_patch v)"

definition constraint_check :: "sv_constraint \<Rightarrow> Version \<Rightarrow> bool \<Rightarrow> bool" where
  "constraint_check c v includePre =
     (let f = con_origfunc c
      in if f = [] \<or> f = ''='' then constraintTildeOrEqual v c includePre
         else if f = ''!='' then constraintNotEqual v c includePre
         else if f = ''>'' then constraintGreaterThan v c includePre
         else if f = ''<'' then constraintLessThan v c includePre
         else if f = ''>='' \<or> f = ''=>'' then constraintGreaterThanEqual v c includePre
         else if f = ''<='' \<or> f = ''=<'' then constraintLessThanEqual v c includePre
         else if f = ''~'' \<or> f = ''~>'' then constraintTilde v c includePre
         else constraintCaret v c includePre)"

text \<open>\<open>Constraints.Check\<close> for the one constraint of such a string: pre-releases are looked at only if the
  constraint names one.\<close>

definition Constraints_Check :: "sv_constraint \<Rightarrow> Version \<Rightarrow> bool" where
  "Constraints_Check c v = constraint_check c v (ver_pre (con_con c) \<noteq> [])"

section \<open>The order on versions\<close>

text \<open>
  The specification of the comparison: a version is a tuple of numbers and of the parts of its
  pre-release, in lexicographic order; a part is a number or a text, numbers first.  No pre-release
  is greater than any pre-release.
\<close>

definition cmp3 :: "'a::linorder \<Rightarrow> 'a \<Rightarrow> int" where
  "cmp3 x y = (if x < y then -1 else if y < x then 1 else 0)"

definition part_key :: "string \<Rightarrow> nat \<times> nat \<times> string" where
  "part_key s = (if s = [] then (0, 0, []) else (case parse_uint 64 s of Some n \<Rightarrow> (1, n, []) | None \<Rightarrow> (2, 0, s)))"

definition good_part :: "string \<Rightarrow> bool" where
  "good_part s \<longleftrightarrow> s \<noteq> [] \<and> list_all sv_allowed s \<and> (list_all is_digit s \<longrightarrow> length s > 1 \<longrightarrow> hd s \<noteq> CHR ''0'')"

lemma digit_sv_allowed: "is_digit c \<Longrightarrow> sv_allowed c"
  by (simp add: sv_allowed_def)

lemma validate_parts_None: "validate_parts ps = None \<longleftrightarrow> list_all good_part ps"
  by (induction ps) (auto simp: good_part_def digit_sv_allowed list_all_iff)

lemma parse_uint_eqD:
  "good_part s \<Longrightarrow> good_part t \<Longrightarrow> parse_uint b s = Some n \<Longrightarrow> parse_uint b t = Some n \<Longrightarrow> s = t"
  by (rule nat_of_digits_eqD) (auto simp: parse_uint_def good_part_def split: if_splits)

lemma comparePrePart_key:
  assumes "good_part s" "good_part t"
  shows "comparePrePart s t = cmp3 (part_key s) (part_key t)"
proof -
  have ne: "s \<noteq> []" "t \<noteq> []" using assms by (auto simp: good_part_def)
  show ?thesis
  proof (cases "s = t")
    case True
    then show ?thesis by (simp add: comparePrePart_def cmp3_def)
  next
    case False
    show ?thesis
    proof (cases "parse_uint 64 s")
      case None
      with False ne show ?thesis
        by (auto simp: comparePrePart_def part_key_def cmp3_def split: option.splits)
    next
      case (Some n)
      show ?thesis
      proof (cases "parse_uint 64 t")
        case None
        with False ne Some show ?thesis by (simp add: comparePrePart_def part_key_def cmp3_def)
      next
        case (Some m)
        with False have "n \<noteq> m" using parse_uint_eqD [OF assms] \<open>parse_uint 64 s = Some n\<close> by auto
        with False ne Some \<open>parse_uint 64 s = Some n\<close> show ?thesis
          by (auto simp: comparePrePart_def part_key_def cmp3_def)
      qed
    qed
  qed
qed

lemma part_key_inj: "good_part s \<Longrightarrow> good_part t \<Longrightarrow> part_key s = part_key t \<longleftrightarrow> s = t"
  using parse_uint_eqD [of s t 64] by (auto simp: part_key_def good_part_def split: option.splits)

lemma cmp3_Cons:
  "cmp3 (x # xs) (y # ys) = (if cmp3 x y \<noteq> 0 then cmp3 x y else cmp3 xs ys)"
  by (auto simp: cmp3_def)

lemma compare_parts_key:
  "list_all good_part ss \<Longrightarrow> list_all good_part ts \<Longrightarrow>
     compare_parts ss ts = cmp3 (map part_key ss) (map part_key ts)"
proof (induction ss ts rule: compare_parts.induct)
  case 1
  then show ?case by (simp add: cmp3_def)
next
  case (2 s ss)
  then have "s \<noteq> []" by (auto simp: good_part_def)
  then show ?case by (simp add: cmp3_def comparePrePart_def)
next
  case (3 t ts)
  then have "[] \<noteq> t" by (auto simp: good_part_def)
  then show ?case by (simp add: cmp3_def comparePrePart_def)
next
  case (4 s ss t ts)
  then show ?case by (simp add: cmp3_Cons comparePrePart_key Let_def)
qed

type_synonym version_key = "nat \<times> nat \<times> nat \<times> nat \<times> (nat \<times> nat \<times> string) list"

definition ver_key :: "Version \<Rightarrow> version_key" where
  "ver_key v = (unat (ver_major v), unat (ver_minor v), unat (ver_patch v),
     if ver_pre v = [] then 1 else 0,
     if ver_pre v = [] then [] else map part_key (go_split (ver_pre v) ''.''))"

definition wf_version :: "Version \<Rightarrow> bool" where
  "wf_version v \<longleftrightarrow> (ver_pre v = [] \<or> validatePrerelease (ver_pre v) = None)
     \<and> (ver_metadata v = [] \<or> validateMetadata (ver_metadata v) = None)"

lemma cmp3_pair: "cmp3 (a, b) (c, d) = (if cmp3 a c \<noteq> 0 then cmp3 a c else cmp3 b d)"
  by (auto simp: cmp3_def)

lemma compareSegment_cmp3: "compareSegment v w = cmp3 (unat v) (unat w)"
  by (auto simp: compareSegment_def cmp3_def word_less_nat_alt)

lemma compareSegment_zero [simp]: "compareSegment v w = 0 \<longleftrightarrow> v = w"
  by (auto simp: compareSegment_def)

lemma cmp3_bits: "cmp3 (0::nat) 0 = 0" "cmp3 (1::nat) 1 = 0" "cmp3 (0::nat) 1 = -1" "cmp3 (1::nat) 0 = 1"
  by (simp_all add: cmp3_def)

lemma Compare_key:
  assumes "wf_version v" "wf_version w"
  shows "ver_Compare v w = cmp3 (ver_key v) (ver_key w)"
proof -
  have pre: "comparePrerelease (ver_pre v) (ver_pre w)
      = cmp3 (map part_key (go_split (ver_pre v) ''.'')) (map part_key (go_split (ver_pre w) ''.''))"
    if "ver_pre v \<noteq> []" "ver_pre w \<noteq> []"
    using that assms unfolding comparePrerelease_def wf_version_def validatePrerelease_def
    by (intro compare_parts_key) (auto simp: validate_parts_None)
  have key: "cmp3 (ver_key v) (ver_key w) =
      (let d1 = compareSegment (ver_major v) (ver_major w);
           d2 = compareSegment (ver_minor v) (ver_minor w);
           d3 = compareSegment (ver_patch v) (ver_patch w)
       in if d1 \<noteq> 0 then d1 else if d2 \<noteq> 0 then d2 else if d3 \<noteq> 0 then d3
          else cmp3 (if ver_pre v = [] then 1 else (0::nat), if ver_pre v = [] then [] else map part_key (go_split (ver_pre v) ''.''))
             (if ver_pre w = [] then 1 else 0, if ver_pre w = [] then [] else map part_key (go_split (ver_pre w) ''.'')))"
    unfolding ver_key_def cmp3_pair [where b = "(_, _)"] Let_def compareSegment_cmp3 by (rule refl)
  have tail: "cmp3 (if ver_pre v = [] then 1 else (0::nat), if ver_pre v = [] then [] else map part_key (go_split (ver_pre v) ''.''))
             (if ver_pre w = [] then 1 else 0, if ver_pre w = [] then [] else map part_key (go_split (ver_pre w) ''.''))
      = (if ver_pre v = [] \<and> ver_pre w = [] then 0 else if ver_pre v = [] then 1 else if ver_pre w = [] then -1
         else comparePrerelease (ver_pre v) (ver_pre w))"
  proof (cases "ver_pre v = [] \<or> ver_pre w = []")
    case True
    then show ?thesis by (cases "ver_pre v = []"; cases "ver_pre w = []") (simp_all add: cmp3_def)
  next
    case False
    with pre show ?thesis by (simp add: cmp3_pair cmp3_bits)
  qed
  show ?thesis unfolding key tail ver_Compare_def by (rule refl)
qed

lemma go_split_inj: "go_split a ''.'' = go_split b ''.'' \<Longrightarrow> a = b"
  by (metis go_join_split list.distinct(1))

lemma map_part_key_inj:
  "list_all good_part ss \<Longrightarrow> list_all good_part ts \<Longrightarrow> map part_key ss = map part_key ts \<longleftrightarrow> ss = ts"
  by (induction ss ts rule: list_induct2') (auto simp: part_key_inj)

lemma pre_key_inj:
  assumes "validatePrerelease p = None" "validatePrerelease q = None"
  shows "map part_key (go_split p ''.'') = map part_key (go_split q ''.'') \<longleftrightarrow> p = q"
  using assms map_part_key_inj [of "go_split p ''.''" "go_split q ''.''"] go_split_inj [of p q]
  by (metis validatePrerelease_def validate_parts_None)

lemma ver_key_inj:
  assumes "wf_version v" "wf_version w"
  shows "ver_key v = ver_key w \<longleftrightarrow> ver_major v = ver_major w \<and> ver_minor v = ver_minor w
     \<and> ver_patch v = ver_patch w \<and> ver_pre v = ver_pre w"
proof (cases "ver_pre v = [] \<or> ver_pre w = []")
  case True
  then show ?thesis
    by (cases "ver_pre v = []"; cases "ver_pre w = []") (simp_all add: ver_key_def word_unat_eq_iff)
next
  case False
  with assms have "validatePrerelease (ver_pre v) = None" "validatePrerelease (ver_pre w) = None"
    by (simp_all add: wf_version_def)
  with False show ?thesis by (simp add: ver_key_def pre_key_inj word_unat_eq_iff)
qed

lemma cmp3_flip: "cmp3 y x = - cmp3 x y"
  by (auto simp: cmp3_def)

lemma cmp3_le_iff: "cmp3 x y \<le> 0 \<longleftrightarrow> x \<le> y" "cmp3 x y = 0 \<longleftrightarrow> x = y" "cmp3 x y < 0 \<longleftrightarrow> x < y" "cmp3 x y > 0 \<longleftrightarrow> x > y"
  by (auto simp: cmp3_def)

text \<open>Parsing succeeds only with well-formed versions.\<close>

lemma NewVersion_wf: "NewVersion s = Inr v \<Longrightarrow> wf_version v \<and> ver_original v = s"
  unfolding NewVersion_def coerceNewVersion_def
  by (auto simp: wf_version_def rbind_Inr_iff split: option.splits if_splits)

text \<open>Parsing what was printed.\<close>

lemma takeWhile_digits:
  "list_all is_digit ds \<Longrightarrow> (rest = [] \<or> \<not> is_digit (hd rest)) \<Longrightarrow>
     takeWhile is_digit (ds @ rest) = ds \<and> dropWhile is_digit (ds @ rest) = rest"
  by (cases rest) (auto simp: list_all_iff)

lemma scan_seg_num:
  "rest = [] \<or> \<not> is_digit (hd rest) \<Longrightarrow>
     scan_seg is_digit (CHR ''.'' # format_nat n @ rest) = (CHR ''.'' # format_nat n, rest)"
  using takeWhile_digits [OF format_nat_digits, of rest n] by (simp add: scan_seg_def)

lemma segment_format: "parse_segment (format_nat (unat w)) = Inr w"
proof -
  have "unat w < 2 ^ 64" using unsigned_less [of w] by (simp only: len_num1 len_bit0) simp
  from parse_format [OF this] show ?thesis by (simp add: parse_segment_def)
qed

lemma trim_prefix_char: "trim_prefix (c # s) [c] = s"
  by (simp add: trim_prefix_def cut_prefix_def)

lemma trim_v_digits: "trim_prefix (format_nat n @ s) ''v'' = format_nat n @ s"
proof -
  obtain c ds where f: "format_nat n = c # ds" by (cases "format_nat n") auto
  with format_nat_digits [of n] have "is_digit c" by simp
  then have "c \<noteq> CHR ''v''" by (auto simp: is_digit_def)
  then show ?thesis by (simp add: f trim_prefix_def cut_prefix_def)
qed

lemma validate_idents: "validatePrerelease p = None \<Longrightarrow> idents p"
  by (auto simp: validatePrerelease_def validate_parts_None idents_def list_all_iff good_part_def)

lemma metadata_idents: "validateMetadata m = None \<longleftrightarrow> idents m"
  by (simp add: validateMetadata_def idents_def)

lemma join_chars:
  "list_all (\<lambda>p. c \<notin> set p) ps \<Longrightarrow> c \<notin> set sep \<Longrightarrow> c \<notin> set (go_join ps sep)"
  by (induction ps sep rule: go_join.induct) auto

lemma not_allowed: "\<not> sv_allowed CHR ''+''" "\<not> sv_allowed CHR ''.''"
  by (simp_all add: sv_allowed_def is_digit_def)

lemma idents_no_plus: "idents p \<Longrightarrow> CHR ''+'' \<notin> set p"
proof -
  assume "idents p"
  then have "list_all (\<lambda>q. CHR ''+'' \<notin> set q) (go_split p ''.'')"
    using not_allowed(1) unfolding idents_def list_all_iff by blast
  then have "CHR ''+'' \<notin> set (go_join (go_split p ''.'') ''.'')" by (rule join_chars) simp
  then show ?thesis by (simp add: go_join_split)
qed

lemma scan_tail:
  assumes "pre = [] \<or> idents pre" "meta = [] \<or> idents meta"
  defines "t \<equiv> (if pre \<noteq> [] then ''-'' @ pre else []) @ (if meta \<noteq> [] then ''+'' @ meta else [])"
  shows "scan_pre t = (if pre \<noteq> [] then Some pre else None, if meta \<noteq> [] then ''+'' @ meta else [])"
proof (cases "pre = []")
  case True
  then show ?thesis by (simp add: t_def scan_pre_def)
next
  case False
  with assms have np: "CHR ''+'' \<notin> set pre" using idents_no_plus by blast
  then have all: "\<forall>x \<in> set pre. x \<noteq> CHR ''+''" by blast
  with False show ?thesis
    by (cases "meta = []")
      (simp_all add: t_def scan_pre_def)
qed

lemma loose_match_String:
  assumes "wf_version v"
  shows "loose_match is_digit (ver_String v) = Some (format_nat (unat (ver_major v)),
     ''.'' @ format_nat (unat (ver_minor v)), ''.'' @ format_nat (unat (ver_patch v)), ver_pre v, ver_metadata v)"
proof -
  have ids: "ver_pre v = [] \<or> idents (ver_pre v)" "ver_metadata v = [] \<or> idents (ver_metadata v)"
    using assms validate_idents metadata_idents by (auto simp: wf_version_def)
  let ?t = "(if ver_pre v \<noteq> [] then ''-'' @ ver_pre v else []) @ (if ver_metadata v \<noteq> [] then ''+'' @ ver_metadata v else [])"
  have t: "?t = [] \<or> \<not> is_digit (hd ?t)" by (simp add: is_digit_def)
  have m1: "takeWhile is_digit (ver_String v) = format_nat (unat (ver_major v))"
      "dropWhile is_digit (ver_String v) = ''.'' @ format_nat (unat (ver_minor v)) @ ''.'' @ format_nat (unat (ver_patch v)) @ ?t"
    unfolding ver_String_def
    using takeWhile_digits [OF format_nat_digits, of "''.'' @ format_nat (unat (ver_minor v)) @ ''.'' @ format_nat (unat (ver_patch v)) @ ?t" "unat (ver_major v)"]
    by (simp_all add: is_digit_def)
  have v: "trim_prefix (ver_String v) ''v'' = ver_String v"
    unfolding ver_String_def by (rule trim_v_digits)
  have s2: "scan_seg is_digit (''.'' @ format_nat (unat (ver_minor v)) @ ''.'' @ format_nat (unat (ver_patch v)) @ ?t)
      = (''.'' @ format_nat (unat (ver_minor v)), ''.'' @ format_nat (unat (ver_patch v)) @ ?t)"
    using scan_seg_num [of "''.'' @ format_nat (unat (ver_patch v)) @ ?t" "unat (ver_minor v)"]
    by (simp add: is_digit_def)
  have s3: "scan_seg is_digit (''.'' @ format_nat (unat (ver_patch v)) @ ?t) = (''.'' @ format_nat (unat (ver_patch v)), ?t)"
    using scan_seg_num [OF t, of "unat (ver_patch v)"] by simp
  note p = scan_tail [OF ids]
  show ?thesis
    unfolding loose_match_def Let_def v m1 s2 s3 p prod.case
    using ids by (cases "ver_metadata v = []"; cases "ver_pre v = []") (simp_all add: scan_meta_def)
qed

lemma NewVersion_String:
  assumes "wf_version v"
  shows "NewVersion (ver_String v) = Inr (v\<lparr>ver_original := ver_String v\<rparr>)"
  using assms unfolding NewVersion_def coerceNewVersion_def loose_match_String [OF assms]
  by (auto simp: wf_version_def segment_format opt_segment_def trim_prefix_char split: if_splits)

end
