(* ===== verification/K8s_Versions.thy ===== *)
theory K8s_Versions
  imports Semver
begin

text \<open>
  The table of supported Kubernetes versions (\<^verbatim>\<open>pkg/catalog/versions/k8s.go\<close>) and the comparison of version
  strings (\<^verbatim>\<open>pkg/util/version.go\<close>).
\<close>

record KubernetesVersions =
  kv_Kubernetes :: string
  kv_Pause :: string
  kv_Etcd :: string
  kv_CoreDNS :: string

definition kv_entry :: "string \<Rightarrow> string \<Rightarrow> string \<Rightarrow> string \<Rightarrow> string \<times> KubernetesVersions" where
  "kv_entry k p e c = (k, \<lparr>kv_Kubernetes = k, kv_Pause = p, kv_Etcd = e, kv_CoreDNS = c\<rparr>)"

definition kubernetesVersions_literal :: "(string \<times> KubernetesVersions) list" where
  "kubernetesVersions_literal =
     [kv_entry ''1.26.6'' ''3.9'' ''3.5.6'' ''v1.9.3-4'',
      kv_entry ''1.27.12'' ''3.9'' ''3.5.10'' ''v1.10.1'',
      kv_entry ''1.28.8'' ''3.9'' ''3.5.10'' ''v1.10.1-1'',
      kv_entry ''1.29.3'' ''3.9'' ''3.5.10'' ''v1.11.1'',
      kv_entry ''1.30.3'' ''3.9'' ''3.5.12'' ''v1.11.1'',
      kv_entry ''1.31.0'' ''3.10'' ''3.5.15'' ''current'',
      kv_entry ''1.32.0'' ''3.10'' ''3.5.15'' ''current'',
      kv_entry ''1.33.5'' ''3.10'' ''3.5.23'' ''current'']"

text \<open>The keys \<open>init\<close> adds, with the keys whose entry they share.\<close>

definition kubernetesVersions_aliases :: "(string \<times> string) list" where
  "kubernetesVersions_aliases =
     [(''1.26'', ''1.26.6''), (''1.27'', ''1.27.12''), (''1.28'', ''1.28.8''), (''1.29'', ''1.29.3''),
      (''1.30'', ''1.30.3''), (''1.31'', ''1.31.0''), (''1.32'', ''1.32.0''), (''1.33'', ''1.33.5'')]"

definition kubernetesVersions :: "string \<Rightarrow> KubernetesVersions option" where
  "kubernetesVersions ver =
     (case map_of kubernetesVersions_aliases ver of
        Some full \<Rightarrow> map_of kubernetesVersions_literal full
      | None \<Rightarrow> map_of kubernetesVersions_literal ver)"

definition GetKubernetesVersions :: "string \<Rightarrow> KubernetesVersions result" where
  "GetKubernetesVersions ver = (case kubernetesVersions ver of
     None \<Rightarrow> Inl (''No Kubernetes version available for '' @ ver)
   | Some ret \<Rightarrow> Inr ret)"

definition IsSupportedKubernetesVersion :: "string \<Rightarrow> bool result" where
  "IsSupportedKubernetesVersion v0 =
     (let v = trim_prefix v0 ''v''
      in if kubernetesVersions v \<noteq> None then Inr True
         else rbind (NewVersion v) (\<lambda>sv.
           let kv = semver_New (ver_major sv) (ver_minor sv) (ver_patch sv) [] []
           in Inr (kubernetesVersions (ver_String kv) \<noteq> None)))"

definition EnsureSupportedKubernetesVersion :: "string \<Rightarrow> unit result" where
  "EnsureSupportedKubernetesVersion v =
     rbind (IsSupportedKubernetesVersion v) (\<lambda>ok.
       if \<not> ok then Inl (v @ '' is not a supported Kubernetes version'') else Inr ())"

definition CompareVersions :: "string \<Rightarrow> string \<Rightarrow> int result" where
  "CompareVersions v1 v2 =
     rbind (NewVersion v1) (\<lambda>ver1. rbind (NewVersion v2) (\<lambda>ver2. Inr (ver_Compare ver1 ver2)))"

definition CompareKubernetesVersions :: "string \<Rightarrow> string \<Rightarrow> int result" where
  "CompareKubernetesVersions v1 v2 =
     rbind (EnsureSupportedKubernetesVersion v1) (\<lambda>_.
     rbind (EnsureSupportedKubernetesVersion v2) (\<lambda>_. CompareVersions v1 v2))"

section \<open>Lemmas\<close>

lemmas version_table_defs = kubernetesVersions_def kubernetesVersions_literal_def kubernetesVersions_aliases_def
  kv_entry_def

lemma CompareVersions_parsed:
  "NewVersion a = Inr v \<Longrightarrow> NewVersion b = Inr w \<Longrightarrow> CompareVersions a b = Inr (cmp3 (ver_key v) (ver_key w))"
  by (simp add: CompareVersions_def Compare_key NewVersion_wf)

lemma wf_New_plain: "wf_version (semver_New a b c [] [])"
  by (simp add: semver_New_def wf_version_def Let_def)

lemma semver_New_simps [simp]:
  "ver_major (semver_New a b c p m) = a" "ver_minor (semver_New a b c p m) = b"
  "ver_patch (semver_New a b c p m) = c" "ver_pre (semver_New a b c p m) = p"
  "ver_metadata (semver_New a b c p m) = m"
  by (simp_all add: semver_New_def Let_def)

text \<open>A version string without a v of its own is not changed by the trimming.\<close>

lemma trim_v_other: "\<not> prefix ''v'' s \<Longrightarrow> trim_prefix s ''v'' = s"
  by (simp add: trim_prefix_def cut_prefix_def)

lemma loose_match_no_v: "loose_match cls (CHR ''v'' # s) = loose_match cls s" if "\<not> prefix ''v'' s"
  using that by (simp add: loose_match_def trim_v_other trim_prefix_char)

lemma parse_no_v:
  assumes "\<not> prefix ''v'' s"
  shows "NewVersion (CHR ''v'' # s) = rbind (NewVersion s) (\<lambda>v. Inr (v\<lparr>ver_original := CHR ''v'' # s\<rparr>))"
  unfolding NewVersion_def coerceNewVersion_def loose_match_no_v [OF assms]
  by (auto simp: rbind_def split: option.splits sum.splits)

lemma table_key_parses: "kubernetesVersions k = Some r \<Longrightarrow> \<exists>v. NewVersion k = Inr v"
proof -
  assume "kubernetesVersions k = Some r"
  then have "k \<in> set (map fst kubernetesVersions_aliases @ map fst kubernetesVersions_literal)"
    by (auto simp: kubernetesVersions_def split: option.splits dest!: map_of_SomeD intro: rev_image_eqI)
  moreover have "list_all (\<lambda>k. is_ok (NewVersion k)) (map fst kubernetesVersions_aliases @ map fst kubernetesVersions_literal)"
    by code_simp
  ultimately have "is_ok (NewVersion k)" unfolding list_all_iff by blast
  then show ?thesis by (simp add: is_ok_iff)
qed

lemma supported_parses:
  assumes "IsSupportedKubernetesVersion s = Inr True" and "\<not> prefix ''vv'' s"
  shows "\<exists>v. NewVersion s = Inr v"
proof -
  let ?t = "trim_prefix s ''v''"
  have t: "\<exists>v. NewVersion ?t = Inr v"
    using assms(1) table_key_parses
    by (auto simp: IsSupportedKubernetesVersion_def Let_def rbind_Inr_iff split: if_splits)
  show ?thesis
  proof (cases "prefix ''v'' s")
    case True
    then obtain r where s: "s = CHR ''v'' # r" by (auto simp: prefix_def)
    with assms(2) have "\<not> prefix ''v'' r" by (simp add: prefix_def)
    with t s show ?thesis by (auto simp: parse_no_v trim_prefix_char)
  next
    case False
    with t show ?thesis by (simp add: trim_v_other)
  qed
qed

section \<open>Properties\<close>

text \<open>
  C16. Comparing two version strings is comparing the versions they denote in one linear order (major,
  minor, patch, a release after its pre-releases, pre-releases part by part with numbers first); it says 0
  exactly for strings that differ at most in their metadata, a leading v and omitted zeros.
\<close>

theorem CompareVersions_order:
  assumes "NewVersion a = Inr v" and "NewVersion b = Inr w"
  shows "CompareVersions a b = Inr (cmp3 (ver_key v) (ver_key w)) \<and>
    (CompareVersions a b = Inr 0 \<longleftrightarrow> (ver_major v, ver_minor v, ver_patch v, ver_pre v)
                                  = (ver_major w, ver_minor w, ver_patch w, ver_pre w))"
  using assms NewVersion_wf [OF assms(1)] NewVersion_wf [OF assms(2)]
  by (simp add: CompareVersions_parsed cmp3_le_iff ver_key_inj)

theorem CompareVersions_order_witness:
  "CompareVersions ''v1.30'' ''1.30.0+build'' = Inr 0"
proof -
  have a: "NewVersion ''v1.30'' = Inr \<lparr>ver_major = 1, ver_minor = 30, ver_patch = 0, ver_pre = [],
      ver_metadata = [], ver_original = ''v1.30''\<rparr>" by code_simp
  have b: "NewVersion ''1.30.0+build'' = Inr \<lparr>ver_major = 1, ver_minor = 30, ver_patch = 0, ver_pre = [],
      ver_metadata = ''build'', ver_original = ''1.30.0+build''\<rparr>" by code_simp
  from CompareVersions_order [OF a b, THEN conjunct2] show ?thesis by simp
qed

text \<open>
  Comparing supported Kubernetes versions never fails, unless a string starts with two v: the check that
  they are supported and the comparison agree on what a version is.
\<close>

theorem CompareKubernetesVersions_total:
  assumes "IsSupportedKubernetesVersion a = Inr True" and "IsSupportedKubernetesVersion b = Inr True"
    and "\<not> prefix ''vv'' a" and "\<not> prefix ''vv'' b"
  shows "\<exists>v w. NewVersion a = Inr v \<and> NewVersion b = Inr w
    \<and> CompareKubernetesVersions a b = Inr (cmp3 (ver_key v) (ver_key w))"
  using assms supported_parses [of a] supported_parses [of b]
  by (auto simp: CompareKubernetesVersions_def EnsureSupportedKubernetesVersion_def CompareVersions_parsed)

theorem CompareKubernetesVersions_total_witness:
  "\<exists>r. CompareKubernetesVersions ''v1.33'' ''1.31.0'' = Inr r"
proof -
  have "IsSupportedKubernetesVersion ''v1.33'' = Inr True" "IsSupportedKubernetesVersion ''1.31.0'' = Inr True"
    by code_simp+
  from CompareKubernetesVersions_total [OF this] show ?thesis by auto
qed

text \<open>
  The table of versions is closed: every key's entry names a key with the same entry, and the two-number
  keys that \<open>init\<close> adds denote a patch release of the same minor version.
\<close>

theorem version_table_closed:
  "(\<forall>k r. GetKubernetesVersions k = Inr r \<longrightarrow> GetKubernetesVersions (kv_Kubernetes r) = Inr r) \<and>
   (\<forall>(k, full) \<in> set kubernetesVersions_aliases. \<exists>r v w. GetKubernetesVersions k = Inr r \<and> kv_Kubernetes r = full
      \<and> NewVersion k = Inr v \<and> NewVersion full = Inr w \<and> ver_major v = ver_major w \<and> ver_minor v = ver_minor w)"
proof
  have mem: "(k, r) \<in> set kubernetesVersions_literal \<or> (\<exists>f. (k, f) \<in> set kubernetesVersions_aliases \<and> (f, r) \<in> set kubernetesVersions_literal)"
    if "kubernetesVersions k = Some r" for k r
    using that by (auto simp: kubernetesVersions_def split: option.splits dest!: map_of_SomeD)
  have key: "list_all (\<lambda>(k, r). kubernetesVersions (kv_Kubernetes r) = Some r) kubernetesVersions_literal"
    by code_simp
  show "\<forall>k r. GetKubernetesVersions k = Inr r \<longrightarrow> GetKubernetesVersions (kv_Kubernetes r) = Inr r"
    using mem key by (fastforce simp: GetKubernetesVersions_def list_all_iff split: option.splits)
  have "list_all (\<lambda>(k, full). (case (GetKubernetesVersions k, NewVersion k, NewVersion full) of
       (Inr r, Inr v, Inr w) \<Rightarrow> kv_Kubernetes r = full \<and> ver_major v = ver_major w \<and> ver_minor v = ver_minor w
     | _ \<Rightarrow> False)) kubernetesVersions_aliases"
    by code_simp
  then show "\<forall>(k, full) \<in> set kubernetesVersions_aliases. \<exists>r v w. GetKubernetesVersions k = Inr r \<and> kv_Kubernetes r = full
      \<and> NewVersion k = Inr v \<and> NewVersion full = Inr w \<and> ver_major v = ver_major w \<and> ver_minor v = ver_minor w"
    unfolding list_all_iff by (fastforce split: sum.splits)
qed

theorem version_table_closed_witness: "GetKubernetesVersions ''1.33'' = GetKubernetesVersions ''1.33.5''"
proof -
  have r: "GetKubernetesVersions ''1.33'' = Inr \<lparr>kv_Kubernetes = ''1.33.5'', kv_Pause = ''3.10'',
      kv_Etcd = ''3.5.23'', kv_CoreDNS = ''current''\<rparr>" by code_simp
  with version_table_closed [THEN conjunct1, rule_format, OF r] show ?thesis by simp
qed

end
