(* ===== verification/Effects.thy ===== *)
theory Effects
  imports Ocne_Prelude
begin

text \<open>
  Code that talks to the outside world.  An action takes the state \<open>'s\<close> of the world and the list of effects
  so far, and gives a result and the new state and list.  Questions (\<open>ask\<close>) may move the world on
  but are not effects; \<open>perform\<close> records its effect, whether it succeeds or not.  \<open>emits P m\<close> says that every
  effect of \<open>m\<close> satisfies \<open>P\<close>; its rules follow the shape of the code.
\<close>

named_theorems emits_intro

type_synonym ('s, 'e, 'a) act = "'s \<times> 'e list \<Rightarrow> 'a result \<times> 's \<times> 'e list"

definition aret :: "'a \<Rightarrow> ('s, 'e, 'a) act" where
  "aret x = (\<lambda>w. (Inr x, w))"

definition afail :: "gerror \<Rightarrow> ('s, 'e, 'a) act" where
  "afail e = (\<lambda>w. (Inl e, w))"

text \<open>Go on with the value, or return early with the error.\<close>

definition abind :: "('s, 'e, 'a) act \<Rightarrow> ('a \<Rightarrow> ('s, 'e, 'b) act) \<Rightarrow> ('s, 'e, 'b) act" where
  "abind m f = (\<lambda>w. case m w of (Inl e, w') \<Rightarrow> (Inl e, w') | (Inr x, w') \<Rightarrow> f x w')"

text \<open>Go on with the result, error or not.\<close>

definition atry :: "('s, 'e, 'a) act \<Rightarrow> ('a result \<Rightarrow> ('s, 'e, 'b) act) \<Rightarrow> ('s, 'e, 'b) act" where
  "atry m f = (\<lambda>w. case m w of (r, w') \<Rightarrow> f r w')"

definition ask :: "('s \<Rightarrow> 'a result \<times> 's) \<Rightarrow> ('s, 'e, 'a) act" where
  "ask q = (\<lambda>(s, tr). case q s of (r, s') \<Rightarrow> (r, s', tr))"

definition perform :: "'e \<Rightarrow> ('s \<Rightarrow> 'a result \<times> 's) \<Rightarrow> ('s, 'e, 'a) act" where
  "perform ev q = (\<lambda>(s, tr). case q s of (r, s') \<Rightarrow> (r, s', tr @ [ev]))"

definition alift :: "'a result \<Rightarrow> ('s, 'e, 'a) act" where
  "alift r = (\<lambda>w. (r, w))"

lemma aret_run [simp]: "aret x w = (Inr x, w)" by (simp add: aret_def)
lemma afail_run [simp]: "afail e w = (Inl e, w)" by (simp add: afail_def)
lemma alift_run [simp]: "alift r w = (r, w)" by (simp add: alift_def)

lemma abind_run: "abind m f w = (case m w of (Inl e, w') \<Rightarrow> (Inl e, w') | (Inr x, w') \<Rightarrow> f x w')"
  by (simp add: abind_def)

lemma atry_run: "atry m f w = (case m w of (r, w') \<Rightarrow> f r w')"
  by (simp add: atry_def)

lemma abind_Inr: "m w = (Inr x, w') \<Longrightarrow> abind m f w = f x w'" by (simp add: abind_def)
lemma abind_Inl: "m w = (Inl e, w') \<Longrightarrow> abind m f w = (Inl e, w')" by (simp add: abind_def)

text \<open>The rest of a function after a call that may panic.\<close>

definition panic_or :: "'a result outcome \<Rightarrow> ('a \<Rightarrow> ('s, 'e, 'b outcome) act) \<Rightarrow> ('s, 'e, 'b outcome) act" where
  "panic_or x f = (case x of Panics \<Rightarrow> aret Panics | Returns r \<Rightarrow> abind (alift r) f)"

text \<open>An action that may panic, then the next.\<close>

definition pbind :: "('s, 'e, 'a outcome) act \<Rightarrow> ('a \<Rightarrow> ('s, 'e, 'b outcome) act) \<Rightarrow> ('s, 'e, 'b outcome) act" where
  "pbind m f = abind m (\<lambda>x. case x of Panics \<Rightarrow> aret Panics | Returns y \<Rightarrow> f y)"

definition pret :: "'a \<Rightarrow> ('s, 'e, 'a outcome) act" where
  "pret x = aret (Returns x)"

text \<open>A question that may panic.\<close>

definition pask :: "('s \<Rightarrow> 'a result outcome \<times> 's) \<Rightarrow> ('s, 'e, 'a outcome) act" where
  "pask q = abind (ask (\<lambda>s. case q s of (r, s') \<Rightarrow> (Inr r, s'))) (\<lambda>r. panic_or r pret)"

text \<open>A wait or a loop that need not end; if it does not, the result is an error of its own.\<close>

definition wait_for :: "('s \<Rightarrow> ('a result \<times> 's) option) \<Rightarrow> ('s, 'e, 'a) act" where
  "wait_for q = ask (\<lambda>s. case q s of None \<Rightarrow> (Inl ''the wait does not return'', s) | Some x \<Rightarrow> x)"

text \<open>Loops over a list that stop at the first error.\<close>

primrec afor :: "'b list \<Rightarrow> ('b \<Rightarrow> ('s, 'e, unit) act) \<Rightarrow> ('s, 'e, unit) act" where
  "afor [] f = aret ()"
| "afor (x # xs) f = abind (f x) (\<lambda>_. afor xs f)"

text \<open>An action with events of another kind.\<close>

definition with_events :: "('e \<Rightarrow> 'f) \<Rightarrow> ('s, 'e, 'a) act \<Rightarrow> ('s, 'f, 'a) act" where
  "with_events f m = (\<lambda>(s, tr). case m (s, []) of (r, s', evs) \<Rightarrow> (r, s', tr @ map f evs))"

lemma pbind_run: "pbind m f w = (case m w of
     (Inl e, w') \<Rightarrow> (Inl e, w') | (Inr Panics, w') \<Rightarrow> (Inr Panics, w') | (Inr (Returns x), w') \<Rightarrow> f x w')"
  by (auto simp: pbind_def abind_def split: prod.splits sum.splits outcome.splits)

lemma pret_run [simp]: "pret x w = (Inr (Returns x), w)"
  by (simp add: pret_def)

section \<open>Which effects an action can have\<close>

definition emits :: "('e \<Rightarrow> bool) \<Rightarrow> ('s, 'e, 'a) act \<Rightarrow> bool" where
  "emits P m \<longleftrightarrow> (\<forall>s tr r s' tr'. m (s, tr) = (r, s', tr') \<longrightarrow> (\<exists>evs. tr' = tr @ evs \<and> list_all P evs))"

lemma emitsI:
  "(\<And>s tr r s' tr'. m (s, tr) = (r, s', tr') \<Longrightarrow> \<exists>evs. tr' = tr @ evs \<and> list_all P evs) \<Longrightarrow> emits P m"
  unfolding emits_def by blast

lemma emitsD:
  "emits P m \<Longrightarrow> m (s, tr) = (r, s', tr') \<Longrightarrow> \<exists>evs. tr' = tr @ evs \<and> list_all P evs"
  unfolding emits_def by blast

lemma emits_aret [emits_intro]: "emits P (aret x)" by (rule emitsI) (simp add: aret_def)
lemma emits_afail [emits_intro]: "emits P (afail e)" by (rule emitsI) (simp add: afail_def)
lemma emits_alift [emits_intro]: "emits P (alift r)" by (rule emitsI) (simp add: alift_def)

lemma emits_ask [emits_intro]: "emits P (ask q)"
  by (rule emitsI) (auto simp: ask_def split: prod.splits)

lemma emits_perform [emits_intro]: "P ev \<Longrightarrow> emits P (perform ev q)"
  by (rule emitsI) (auto simp: perform_def split: prod.splits)

lemma emits_abind [emits_intro]:
  assumes "emits P m" and "\<And>x. emits P (f x)"
  shows "emits P (abind m f)"
proof (rule emitsI)
  fix s tr r s' tr'
  assume run: "abind m f (s, tr) = (r, s', tr')"
  obtain q s1 tr1 where m: "m (s, tr) = (q, s1, tr1)" by (metis prod.exhaust)
  obtain e1 where e1: "tr1 = tr @ e1" "list_all P e1" using emitsD [OF assms(1) m] by blast
  show "\<exists>evs. tr' = tr @ evs \<and> list_all P evs"
  proof (cases q)
    case (Inl e)
    with run m e1 show ?thesis by (auto simp: abind_def)
  next
    case (Inr x)
    with run m have "f x (s1, tr1) = (r, s', tr')" by (simp add: abind_def)
    from emitsD [OF assms(2) this] e1 show ?thesis by (metis append.assoc list_all_append)
  qed
qed

lemma emits_atry [emits_intro]:
  assumes "emits P m" and "\<And>x. emits P (f x)"
  shows "emits P (atry m f)"
proof (rule emitsI)
  fix s tr r s' tr'
  assume run: "atry m f (s, tr) = (r, s', tr')"
  obtain q s1 tr1 where m: "m (s, tr) = (q, s1, tr1)" by (metis prod.exhaust)
  obtain e1 where e1: "tr1 = tr @ e1" "list_all P e1" using emitsD [OF assms(1) m] by blast
  from run m have "f q (s1, tr1) = (r, s', tr')" by (simp add: atry_def)
  from emitsD [OF assms(2) this] e1 show "\<exists>evs. tr' = tr @ evs \<and> list_all P evs"
    by (metis append.assoc list_all_append)
qed

lemma emits_afor [emits_intro]: "(\<And>x. x \<in> set xs \<Longrightarrow> emits P (f x)) \<Longrightarrow> emits P (afor xs f)"
  by (induction xs) (auto intro: emits_intro)

lemma emits_if [emits_intro]:
  "(b \<Longrightarrow> emits P m) \<Longrightarrow> (\<not> b \<Longrightarrow> emits P n) \<Longrightarrow> emits P (if b then m else n)"
  by simp

lemma emits_case_option [emits_intro]:
  "(x = None \<Longrightarrow> emits P m) \<Longrightarrow> (\<And>y. x = Some y \<Longrightarrow> emits P (f y)) \<Longrightarrow>
     emits P (case x of None \<Rightarrow> m | Some y \<Rightarrow> f y)"
  by (cases x) auto

lemma emits_case_sum [emits_intro]:
  "(\<And>e. x = Inl e \<Longrightarrow> emits P (f e)) \<Longrightarrow> (\<And>y. x = Inr y \<Longrightarrow> emits P (g y)) \<Longrightarrow>
     emits P (case x of Inl e \<Rightarrow> f e | Inr y \<Rightarrow> g y)"
  by (cases x) auto

lemma emits_case_prod [emits_intro]:
  "(\<And>a b. x = (a, b) \<Longrightarrow> emits P (f a b)) \<Longrightarrow> emits P (case x of (a, b) \<Rightarrow> f a b)"
  by (cases x) auto

lemma emits_panic_or [emits_intro]: "(\<And>y. emits P (f y)) \<Longrightarrow> emits P (panic_or x f)"
  unfolding panic_or_def by (cases x) (auto intro: emits_intro)

lemma emits_pret [emits_intro]: "emits P (pret x)"
  unfolding pret_def by (rule emits_aret)

lemma emits_pbind [emits_intro]: "emits P m \<Longrightarrow> (\<And>x. emits P (f x)) \<Longrightarrow> emits P (pbind m f)"
  unfolding pbind_def by (intro emits_abind) (auto split: outcome.split intro: emits_intro)

lemma emits_pask [emits_intro]: "emits P (pask q)"
  unfolding pask_def by (intro emits_intro)

lemma emits_wait_for [emits_intro]: "emits P (wait_for q)"
  unfolding wait_for_def by (rule emits_ask)

lemma emits_with_events [emits_intro]:
  assumes "emits P m" and "\<And>e. P e \<Longrightarrow> Q (f e)"
  shows "emits Q (with_events f m)"
proof (rule emitsI)
  fix s tr r s' tr'
  assume run: "with_events f m (s, tr) = (r, s', tr')"
  obtain q t evs where m: "m (s, []) = (q, t, evs)" by (metis prod.exhaust)
  with run have "tr' = tr @ map f evs" by (simp add: with_events_def)
  moreover from emitsD [OF assms(1) m] assms(2) have "list_all Q (map f evs)" by (auto simp: list_all_iff)
  ultimately show "\<exists>evs. tr' = tr @ evs \<and> list_all Q evs" by blast
qed

lemma emits_mono: "emits P m \<Longrightarrow> (\<And>e. P e \<Longrightarrow> Q e) \<Longrightarrow> emits Q m"
  unfolding emits_def list_all_iff by blast

text \<open>An action without effects leaves the list as it is.\<close>

lemma no_effects: "emits (\<lambda>_. False) m \<Longrightarrow> m (s, tr) = (r, s', tr') \<Longrightarrow> tr' = tr"
  by (drule (1) emitsD) (auto simp: list_all_iff)

text \<open>What was done stays done: the list of effects only grows.\<close>

lemma emits_True_grows: "emits (\<lambda>_. True) m \<Longrightarrow> m (s, tr) = (r, s', tr') \<Longrightarrow> prefix tr tr'"
  by (drule (1) emitsD) (auto simp: prefix_def)

section \<open>What must have gone well before an effect\<close>

text \<open>
  \<open>does P m w\<close>: run on \<open>w\<close>, the action has an effect of kind \<open>P\<close>.  If the first part of a sequence has no such effects, it
  must have succeeded, and the second part has one.
\<close>

definition does :: "('e \<Rightarrow> bool) \<Rightarrow> ('s, 'e, 'a) act \<Rightarrow> 's \<times> 'e list \<Rightarrow> bool" where
  "does P m w \<longleftrightarrow> filter P (snd (snd (m w))) \<noteq> filter P (snd w)"

lemma doesI: "m (s, tr) = (r, s', tr @ evs) \<Longrightarrow> ev \<in> set evs \<Longrightarrow> P ev \<Longrightarrow> does P m (s, tr)"
  by (auto simp: does_def filter_empty_conv)

lemma never_does: "emits (\<lambda>ev. \<not> P ev) m \<Longrightarrow> \<not> does P m w"
proof -
  assume m: "emits (\<lambda>ev. \<not> P ev) m"
  obtain s tr where w: "w = (s, tr)" by (cases w)
  obtain r s' tr' where run: "m (s, tr) = (r, s', tr')" by (metis prod.exhaust)
  from emitsD [OF m run] show ?thesis by (auto simp: does_def w run list_all_iff filter_empty_conv)
qed

lemma does_abind:
  assumes "does P (abind m f) w" and "emits (\<lambda>ev. \<not> P ev) m"
  obtains x w1 where "m w = (Inr x, w1)" "does P (f x) w1"
proof -
  obtain q w1 where m: "m w = (q, w1)" by (cases "m w")
  with never_does [OF assms(2), of w] have same: "filter P (snd w1) = filter P (snd w)" by (simp add: does_def)
  show thesis
  proof (cases q)
    case (Inl e)
    with m same assms(1) show thesis by (simp add: does_def abind_def)
  next
    case (Inr x)
    with m same assms(1) have "does P (f x) w1" by (simp add: does_def abind_def)
    with m Inr that show thesis by blast
  qed
qed

lemma does_atry:
  assumes "does P (atry m f) w" and "emits (\<lambda>ev. \<not> P ev) m"
  obtains r w1 where "m w = (r, w1)" "does P (f r) w1"
proof -
  obtain r w1 where m: "m w = (r, w1)" by (cases "m w")
  with never_does [OF assms(2), of w] assms(1) have "does P (f r) w1" by (simp add: does_def atry_def)
  with m that show thesis by blast
qed

lemma does_aret [simp]: "\<not> does P (aret x) w" "\<not> does P (afail e) w" "\<not> does P (alift r) w"
  by (simp_all add: does_def)

lemma does_panic_or:
  assumes "does P (panic_or x f) w"
  obtains y where "x = Returns (Inr y)" "does P (f y) w"
  using assms by (cases x rule: outcome.exhaust) (auto simp: panic_or_def does_def abind_def split: sum.splits)

end
