(* ===== verification/Image_Reference.thy ===== *)
theory Image_Reference
  imports Go_Strings Config_Types K8s_Versions Effects
begin

text \<open>
  Names of container images: \<^verbatim>\<open>pkg/image/registry.go\<close>, the parts of \<^verbatim>\<open>pkg/image/image.go\<close> that decide
  something, and \<open>EnsureBootImageVersion\<close> of \<^verbatim>\<open>pkg/cmdutil/config.go\<close>.  The image library
  (\<^verbatim>\<open>github.com/containers/image\<close>) is the record \<open>image_lib\<close>: how a name parses with and without a transport.
\<close>

text \<open>What the library says of a docker reference: its short name, its registry, and a tag or a digest.\<close>

record docker_ref =
  dr_FamiliarName :: string
  dr_Domain :: string
  dr_Tag :: "string option"
  dr_Digest :: "string option"

record image_ref =
  ir_Name :: string
  ir_DockerReference :: "docker_ref option"

datatype parse_named = Named | NameNotCanonical | NamedError gerror

record image_lib =
  il_has_transport :: "string \<Rightarrow> bool"
  il_ParseImageName :: "string \<Rightarrow> image_ref result"
  il_ParseNamed :: "string \<Rightarrow> parse_named"

section \<open>Splitting an image name\<close>

definition SplitImage :: "image_lib \<Rightarrow> string \<Rightarrow> ImageInfo result" where
  "SplitImage lib imageArg =
     (let userImage = (if \<not> il_has_transport lib imageArg then ''docker://'' @ imageArg else imageArg)
      in case il_ParseImageName lib userImage of
           Inl err \<Rightarrow> Inl (''error parsing image '' @ imageArg @ '' with error '' @ err)
         | Inr imageRef \<Rightarrow>
             (case ir_DockerReference imageRef of
                None \<Rightarrow> Inl (''error parsing image, '' @ imageArg @ '' not a valid docker reference'')
              | Some named \<Rightarrow>
                  (case dr_Digest named of
                     Some d \<Rightarrow> Inr \<lparr>img_BaseImage = dr_FamiliarName named, img_Tag = [], img_Digest = d\<rparr>
                   | None \<Rightarrow>
                       (case dr_Tag named of
                          Some tag \<Rightarrow>
                            (if tag = ''latest''
                             then (if snd (cut_suffix imageArg '':latest'')
                                   then Inr \<lparr>img_BaseImage = dr_FamiliarName named, img_Tag = ''latest'', img_Digest = []\<rparr>
                                   else Inr \<lparr>img_BaseImage = dr_FamiliarName named, img_Tag = [], img_Digest = []\<rparr>)
                             else Inr \<lparr>img_BaseImage = dr_FamiliarName named, img_Tag = tag, img_Digest = []\<rparr>)
                        | None \<Rightarrow> Inl (''error parsing image '' @ imageArg @ '' could not parse as tagged or with digest'')))))"

section \<open>Default registries\<close>

definition AddDefaultRegistry :: "image_lib \<Rightarrow> string \<Rightarrow> string \<Rightarrow> string result" where
  "AddDefaultRegistry lib imageToChange registry =
     (case il_ParseNamed lib imageToChange of
        Named \<Rightarrow> Inr imageToChange
      | NameNotCanonical \<Rightarrow> Inr (trim_right registry ''/'' @ ''/'' @ trim_left imageToChange ''/'')
      | NamedError err \<Rightarrow> Inl (''Could not add default source registry to image name '' @ imageToChange
                              @ '' due to error: '' @ err))"

fun AddDefaultRegistries :: "image_lib \<Rightarrow> string list \<Rightarrow> string \<Rightarrow> string list" where
  "AddDefaultRegistries lib [] registry = []"
| "AddDefaultRegistries lib (imageToChange # images) registry =
     (if length imageToChange = 0 then AddDefaultRegistries lib images registry
      else (case AddDefaultRegistry lib imageToChange registry of
              Inl _ \<Rightarrow> AddDefaultRegistries lib images registry
            | Inr toAdd \<Rightarrow> toAdd # AddDefaultRegistries lib images registry))"

section \<open>ostree references\<close>

definition not_ostree :: "string \<Rightarrow> (string \<times> string \<times> string) result" where
  "not_ostree img = Inl (img @ '' is not a valid ostree image reference'')"

text \<open>
  The transport switch: the transport, the fields that are left, and whether the rest is an archive.
  \<open>fields[0][2:]\<close> panics when there is no field left or it is shorter than two bytes, and \<open>fields[0]\<close> when
  none is left.
\<close>

definition ostree_transport :: "string \<Rightarrow> string list \<Rightarrow> (string \<times> string list \<times> bool) option outcome" where
  "ostree_transport t rest =
     (if t = ''ostree-unverified-image'' \<or> t = ''ostree-image-signed'' then
        (case rest of
           [] \<Rightarrow> Panics
         | f # fs \<Rightarrow>
             (let tr = t @ '':'' @ f
              in if f = ''registry'' \<or> f = ''containers-storage'' then Returns (Some (tr, fs, False))
                 else if f = ''docker-archive'' \<or> f = ''oci'' \<or> f = ''oci-archive'' then Returns (Some (tr, fs, True))
                 else if f = ''docker'' then
                   (case fs of
                      [] \<Rightarrow> Panics
                    | g # gs \<Rightarrow> (if length g < 2 then Panics else Returns (Some (tr @ ''://'', drop 2 g # gs, False))))
                 else Returns None))
      else if t = ''ostree-unverified-registry'' then Returns (Some (t, rest, False))
      else if t = ''ostree-remote-image'' then
        (case rest of
           f1 # f2 # f3 # fs \<Rightarrow>
             (if f2 = ''registry'' then Returns (Some (t @ '':'' @ f1 @ '':'' @ f2, f3 # fs, False))
              else if f2 = ''docker'' then
                (if \<not> has_prefix f3 ''//'' then Returns None
                 else Returns (Some (t @ '':'' @ f1 @ '':docker://'', drop 2 f3 # fs, False)))
              else Returns (Some (t @ '':'' @ f1, f3 # fs, False)))
         | _ \<Rightarrow> Returns None)
      else Returns None)"

definition ParseOstreeReference :: "image_lib \<Rightarrow> string \<Rightarrow> (string \<times> string \<times> string) result outcome" where
  "ParseOstreeReference lib img =
     (case go_split img '':'' of
        t # rest \<Rightarrow>
          (if rest = [] then Returns (not_ostree img)
           else obind (ostree_transport t rest) (\<lambda>r.
             (case r of
                None \<Rightarrow> Returns (not_ostree img)
              | Some (ostreeTransport, flds, isArchive) \<Rightarrow>
                  (let registry = go_join flds '':''
                   in if isArchive then Returns (Inr (ostreeTransport, registry, []))
                      else Returns (rbind (SplitImage lib registry) (\<lambda>imgInfo.
                             Inr (ostreeTransport, img_BaseImage imgInfo, img_Tag imgInfo)))))))
      | [] \<Rightarrow> Returns (not_ostree img))"

definition MakeOstreeReference :: "image_lib \<Rightarrow> string \<Rightarrow> (string \<times> gerror option) outcome" where
  "MakeOstreeReference lib img =
     obind (ParseOstreeReference lib img) (\<lambda>r.
       (case r of
          Inr _ \<Rightarrow> Returns (img, None)
        | Inl _ \<Rightarrow>
            (let img' = ''ostree-unverified-registry:'' @ img
             in obind (ParseOstreeReference lib img') (\<lambda>r2.
                  (case r2 of Inr _ \<Rightarrow> Returns (img', None) | Inl err \<Rightarrow> Returns (img', Some err))))))"

section \<open>The boot image\<close>

definition EnsureBootImageVersion :: "image_lib \<Rightarrow> string \<Rightarrow> string \<Rightarrow> string \<times> gerror option" where
  "EnsureBootImageVersion lib kubeVersion imageForContainer =
     (case SplitImage lib imageForContainer of
        Inl err \<Rightarrow> (imageForContainer, Some err)
      | Inr imgInfo \<Rightarrow>
          (let auto = (img_Tag imgInfo \<noteq> [] \<and> IsSupportedKubernetesVersion (img_Tag imgInfo) = Inr True);
               components = go_split imageForContainer '':''
           in if auto \<and> length components < 2 then ([], Some (''invalid image '' @ imageForContainer))
              else (let tag = (if auto then [] else img_Tag imgInfo);
                        image = (if auto then go_join (butlast components) '':'' else imageForContainer)
                    in if tag = [] \<and> img_Digest imgInfo = []
                       then (image @ '':'' @ trim_prefix kubeVersion ''v'', None)
                       else (image, None))))"

section \<open>Changing the registry\<close>

definition ChangeImageDomain :: "image_lib \<Rightarrow> string \<Rightarrow> string \<Rightarrow> image_ref result" where
  "ChangeImageDomain lib imageString newDomain =
     (case go_cut imageString '':'' of
        None \<Rightarrow> Inl (''could not remove the transport name from image '' @ imageString)
      | Some (transport, afterTransport) \<Rightarrow>
          (case il_ParseImageName lib imageString of
             Inl err \<Rightarrow> Inl (''could not parse the image '' @ imageString @ '' with error '' @ err)
           | Inr imageRef \<Rightarrow>
               (case ir_DockerReference imageRef of
                  None \<Rightarrow> Inl (''could not parse the image name, it is not a docker reference '' @ imageString)
                | Some dockerRef \<Rightarrow>
                    (case go_cut afterTransport (dr_Domain dockerRef) of
                       None \<Rightarrow> Inl (''could not remove the domain name '' @ dr_Domain dockerRef
                                   @ '' from image name (transport removed): '' @ afterTransport)
                     | Some (afterTransportBeforeDomain, afterDomain) \<Rightarrow>
                         (let newURL = transport @ '':'' @ afterTransportBeforeDomain @ fst (cut_suffix newDomain ''/'')
                                @ ''/'' @ fst (cut_prefix afterDomain ''/'')
                          in case il_ParseImageName lib newURL of
                               Inl err \<Rightarrow> Inl (''could not parse the image after changing the domain: '' @ newURL
                                              @ '', with error '' @ err)
                             | Inr newImage \<Rightarrow> Inr newImage)))))"

section \<open>Copying an image\<close>

text \<open>The two effects of \<open>Copy\<close>, and the parts of the library that answer: the copy and the login.\<close>

datatype copy_event = CopyImage string string | LoginTo string

record 's copy_lib =
  cl_policy :: "'s \<Rightarrow> unit result \<times> 's"
  cl_copy :: "string \<Rightarrow> string \<Rightarrow> 's \<Rightarrow> unit result \<times> 's"
  cl_login :: "string \<Rightarrow> 's \<Rightarrow> unit result \<times> 's"

definition auth_error :: "gerror \<Rightarrow> bool" where
  "auth_error err = (go_contains err ''denied'' \<or> go_contains err ''unauthorized'' \<or> go_contains err ''403''
     \<or> go_contains err ''not authorized'' \<or> go_contains err ''authentication required'')"

definition Copy :: "image_lib \<Rightarrow> 's copy_lib \<Rightarrow> string \<Rightarrow> string \<Rightarrow> ('s, copy_event, unit) act" where
  "Copy lib cl src dest =
     abind (alift (il_ParseImageName lib src)) (\<lambda>srcRef.
     abind (alift (il_ParseImageName lib dest)) (\<lambda>destRef.
     abind (ask (cl_policy cl)) (\<lambda>_.
     atry (perform (CopyImage src dest) (cl_copy cl src dest)) (\<lambda>r.
       (case r of
          Inr _ \<Rightarrow> aret ()
        | Inl err \<Rightarrow>
            (if \<not> auth_error err then afail err
             else if go_contains err ''initializing source'' then afail err
             else if ir_DockerReference destRef = None \<and> ir_DockerReference srcRef = None then afail err
             else abind (case ir_DockerReference destRef of
                           Some destName \<Rightarrow> perform (LoginTo (dr_Domain destName)) (cl_login cl (dr_Domain destName))
                         | None \<Rightarrow> aret ()) (\<lambda>_.
                  perform (CopyImage src dest) (cl_copy cl src dest))))))))"

text \<open>\<open>next\<close> is the rest of the archive: the names of the headers still to come, then the error at its end.\<close>

fun AdvanceTarToPath :: "string list \<Rightarrow> gerror \<Rightarrow> string \<Rightarrow> unit result \<times> string list" where
  "AdvanceTarToPath [] eof filePath = (Inl eof, [])"
| "AdvanceTarToPath (hdr # hdrs) eof filePath =
     (if filePath = hdr then (Inr (), hdrs) else AdvanceTarToPath hdrs eof filePath)"

section \<open>Lemmas\<close>

lemma go_split_snoc: "c \<notin> set t \<Longrightarrow> go_split (a @ c # t) [c] = go_split a [c] @ [t]"
proof (induction a rule: length_induct)
  case (1 a)
  show ?case
  proof (cases "c \<in> set a")
    case False
    with 1(2) show ?thesis by (simp add: go_split_char_Cons go_split_char_simple)
  next
    case True
    then obtain b d where a: "a = b @ c # d" "c \<notin> set b" by (metis split_list_first)
    with 1 have "go_split (d @ c # t) [c] = go_split d [c] @ [t]" by simp
    with a show ?thesis by (simp add: go_split_char_Cons)
  qed
qed

lemma strip_tag: "CHR '':'' \<notin> set t \<Longrightarrow> go_join (butlast (go_split (a @ '':'' @ t) '':'')) '':'' = a"
  using go_join_split [of "'':''" a] by (simp add: go_split_snoc)

lemma ParseOstree_registry:
  assumes "SplitImage lib img = Inr info"
  shows "ParseOstreeReference lib (''ostree-unverified-registry:'' @ img)
    = Returns (Inr (''ostree-unverified-registry'', img_BaseImage info, img_Tag info))"
proof -
  have "go_split (''ostree-unverified-registry'' @ CHR '':'' # img) '':'' = ''ostree-unverified-registry'' # go_split img '':''"
    by (rule go_split_char_Cons) simp
  then show ?thesis
    using assms go_join_split [of "'':''" img]
    by (simp add: ParseOstreeReference_def ostree_transport_def)
qed

text \<open>The inputs on which \<open>ParseOstreeReference\<close> indexes past the end.\<close>

definition ostree_panics :: "string \<Rightarrow> bool" where
  "ostree_panics img \<longleftrightarrow> (\<exists>t \<in> {''ostree-unverified-image'', ''ostree-image-signed''}.
     go_split img '':'' = [t, ''docker''] \<or>
     (\<exists>g gs. go_split img '':'' = t # ''docker'' # g # gs \<and> length g < 2))"

lemma transport_panics_iff:
  "rest \<noteq> [] \<Longrightarrow> ostree_transport t rest = Panics \<longleftrightarrow>
     t \<in> {''ostree-unverified-image'', ''ostree-image-signed''} \<and>
     (rest = [''docker''] \<or> (\<exists>g gs. rest = ''docker'' # g # gs \<and> length g < 2))"
  by (auto simp: ostree_transport_def Let_def split: list.splits if_splits)

lemma ParseOstree_panics: "ParseOstreeReference lib img = Panics \<longleftrightarrow> ostree_panics img"
proof -
  obtain t rest where s: "go_split img '':'' = t # rest" by (metis go_split_nonempty neq_Nil_conv list.discI)
  show ?thesis
  proof (cases "rest = []")
    case True
    with s show ?thesis by (simp add: ParseOstreeReference_def ostree_panics_def)
  next
    case False
    have "ParseOstreeReference lib img = Panics \<longleftrightarrow> ostree_transport t rest = Panics"
      using s False by (cases "ostree_transport t rest") (simp_all add: ParseOstreeReference_def Let_def split: option.split prod.split)
    moreover have "ostree_panics img \<longleftrightarrow> t \<in> {''ostree-unverified-image'', ''ostree-image-signed''} \<and>
       (rest = [''docker''] \<or> (\<exists>g gs. rest = ''docker'' # g # gs \<and> length g < 2))"
      unfolding ostree_panics_def s list.inject by blast
    ultimately show ?thesis using transport_panics_iff [OF False] by blast
  qed
qed

lemma trim_left_nonempty_keeps: "x \<in> set (trim_left s cs) \<Longrightarrow> x \<in> set s"
  by (auto simp: trim_left_def dest: set_dropWhileD)

section \<open>Properties\<close>

text \<open>
  \<open>ParseOstreeReference\<close> panics on exactly these inputs: an unverified or signed image reference whose second
  field is docker and that ends there, or goes on with fewer than two characters.  \<open>MakeOstreeReference\<close> panics
  on exactly the same ones, and the configuration loader passes it the user's setting.
\<close>

theorem ostree_panics_exactly:
  "(ParseOstreeReference lib img = Panics \<longleftrightarrow> ostree_panics img)
   \<and> (MakeOstreeReference lib img = Panics \<longleftrightarrow> ostree_panics img)
   \<and> ostree_panics ''ostree-unverified-image:docker''"
proof (intro conjI)
  have fresh: "\<not> ostree_panics (''ostree-unverified-registry:'' @ img)"
  proof -
    have "go_split (''ostree-unverified-registry'' @ CHR '':'' # img) '':'' = ''ostree-unverified-registry'' # go_split img '':''"
      by (rule go_split_char_Cons) simp
    then show ?thesis by (simp add: ostree_panics_def)
  qed
  show "ParseOstreeReference lib img = Panics \<longleftrightarrow> ostree_panics img" by (rule ParseOstree_panics)
  show "MakeOstreeReference lib img = Panics \<longleftrightarrow> ostree_panics img"
    using ParseOstree_panics [of lib img] ParseOstree_panics [of lib "''ostree-unverified-registry:'' @ img"] fresh
    by (cases "ParseOstreeReference lib img"; cases "ParseOstreeReference lib (''ostree-unverified-registry:'' @ img)")
      (simp_all add: MakeOstreeReference_def Let_def split: sum.split)
  have "go_split (''ostree-unverified-image'' @ CHR '':'' # ''docker'') '':'' = [''ostree-unverified-image'', ''docker'']"
    by (subst go_split_char_Cons) (simp_all add: go_split_char_simple)
  then show "ostree_panics ''ostree-unverified-image:docker''" by (simp add: ostree_panics_def)
qed

text \<open>
  Making an ostree reference of any image name the library can split gives a reference that parses, with the
  same base image and tag if a transport had to be added; making a reference of the result changes nothing.
\<close>

theorem MakeOstreeReference_correct:
  assumes "SplitImage lib img = Inr info" and "\<not> ostree_panics img"
  shows "\<exists>r parts. MakeOstreeReference lib img = Returns (r, None)
    \<and> ParseOstreeReference lib r = Returns (Inr parts)
    \<and> MakeOstreeReference lib r = Returns (r, None)
    \<and> (r \<noteq> img \<longrightarrow> parts = (''ostree-unverified-registry'', img_BaseImage info, img_Tag info))"
proof (cases "\<exists>p. ParseOstreeReference lib img = Returns (Inr p)")
  case True
  then obtain p where "ParseOstreeReference lib img = Returns (Inr p)" by blast
  then show ?thesis by (cases p) (simp add: MakeOstreeReference_def)
next
  case False
  with assms(2) obtain e where e: "ParseOstreeReference lib img = Returns (Inl e)"
    by (metis ParseOstree_panics outcome.exhaust sum.exhaust)
  note ok = ParseOstree_registry [OF assms(1)]
  have "MakeOstreeReference lib img = Returns (''ostree-unverified-registry:'' @ img, None)"
    using e ok by (simp add: MakeOstreeReference_def Let_def)
  moreover have "MakeOstreeReference lib (''ostree-unverified-registry:'' @ img)
      = Returns (''ostree-unverified-registry:'' @ img, None)"
    using ok by (simp add: MakeOstreeReference_def)
  ultimately show ?thesis using ok by blast
qed

text \<open>A library in the small: the last colon starts the tag, every name is a docker reference.\<close>

definition sample_lib :: image_lib where
  "sample_lib = \<lparr>
     il_has_transport = (\<lambda>s. has_prefix s ''docker://''),
     il_ParseImageName = (\<lambda>s.
       (let n = trim_prefix s ''docker://'';
            parts = go_split n '':'';
            named = (if length parts < 2 then (n, ''latest'') else (go_join (butlast parts) '':'', last parts))
        in Inr \<lparr>ir_Name = n, ir_DockerReference = Some \<lparr>dr_FamiliarName = fst named, dr_Domain = hd (go_split n ''/''),
              dr_Tag = Some (snd named), dr_Digest = None\<rparr>\<rparr>)),
     il_ParseNamed = (\<lambda>s. if has_prefix s ''reg.io/'' then Named else NameNotCanonical)\<rparr>"

theorem MakeOstreeReference_correct_witness:
  "\<exists>r. MakeOstreeReference sample_lib ''ock:1.33'' = Returns (r, None) \<and> r \<noteq> ''ock:1.33''"
proof -
  have "SplitImage sample_lib ''ock:1.33'' = Inr \<lparr>img_BaseImage = ''ock'', img_Tag = ''1.33'', img_Digest = []\<rparr>"
    by code_simp
  moreover have "\<not> ostree_panics ''ock:1.33''"
  proof -
    have "go_split ''ock:1.33'' '':'' = [''ock'', ''1.33'']" by code_simp
    then show ?thesis by (simp add: ostree_panics_def)
  qed
  ultimately obtain r where r: "MakeOstreeReference sample_lib ''ock:1.33'' = Returns (r, None)"
    "\<exists>parts. ParseOstreeReference sample_lib r = Returns (Inr parts)"
    using MakeOstreeReference_correct by blast
  have "\<not> (\<exists>p. ParseOstreeReference sample_lib ''ock:1.33'' = Returns (Inr p))"
  proof -
    have "ParseOstreeReference sample_lib ''ock:1.33'' = Returns (not_ostree ''ock:1.33'')" by code_simp
    then show ?thesis by (simp add: not_ostree_def)
  qed
  with r show ?thesis by metis
qed

text \<open>
  The boot image follows the Kubernetes version: on an image without a tag or digest, a version tag that was added
  for one supported version is replaced, not kept, when the image is prepared for another version.  (The
  hypothesis on the library: naming a tag after an untagged image gives the same image with that tag.)
\<close>

theorem EnsureBootImageVersion_retags:
  assumes "SplitImage lib img = Inr \<lparr>img_BaseImage = b, img_Tag = [], img_Digest = []\<rparr>"
    and "SplitImage lib (img @ '':'' @ trim_prefix v1 ''v'')
          = Inr \<lparr>img_BaseImage = b, img_Tag = trim_prefix v1 ''v'', img_Digest = []\<rparr>"
    and "IsSupportedKubernetesVersion (trim_prefix v1 ''v'') = Inr True" and "trim_prefix v1 ''v'' \<noteq> []"
    and "CHR '':'' \<notin> set (trim_prefix v1 ''v'')"
  shows "EnsureBootImageVersion lib v1 img = (img @ '':'' @ trim_prefix v1 ''v'', None)
    \<and> EnsureBootImageVersion lib v2 (fst (EnsureBootImageVersion lib v1 img)) = EnsureBootImageVersion lib v2 img"
proof -
  have first: "EnsureBootImageVersion lib v img = (img @ '':'' @ trim_prefix v ''v'', None)" for v
    using assms(1) by (simp add: EnsureBootImageVersion_def)
  have len: "\<not> length (go_split (img @ '':'' @ trim_prefix v1 ''v'') '':'') < 2"
    using assms(5) by (simp add: go_split_snoc Suc_le_eq)
  have "EnsureBootImageVersion lib v2 (img @ '':'' @ trim_prefix v1 ''v'') = (img @ '':'' @ trim_prefix v2 ''v'', None)"
    unfolding EnsureBootImageVersion_def assms(2) using assms(3,4) len strip_tag [OF assms(5), of img]
    by (simp add: Let_def)
  with first show ?thesis by simp
qed

theorem EnsureBootImageVersion_retags_witness:
  "fst (EnsureBootImageVersion sample_lib ''v1.33'' (fst (EnsureBootImageVersion sample_lib ''1.32'' ''reg.io/ock'')))
     = ''reg.io/ock:1.33''"
proof -
  have t: "trim_prefix ''1.32'' ''v'' = ''1.32''" "trim_prefix ''v1.33'' ''v'' = ''1.33''" by code_simp+
  have a: "SplitImage sample_lib ''reg.io/ock'' = Inr \<lparr>img_BaseImage = ''reg.io/ock'', img_Tag = [], img_Digest = []\<rparr>"
    and b: "SplitImage sample_lib (''reg.io/ock'' @ '':'' @ trim_prefix ''1.32'' ''v'')
      = Inr \<lparr>img_BaseImage = ''reg.io/ock'', img_Tag = trim_prefix ''1.32'' ''v'', img_Digest = []\<rparr>"
    and c: "IsSupportedKubernetesVersion (trim_prefix ''1.32'' ''v'') = Inr True"
    by code_simp+
  have d: "trim_prefix ''1.32'' ''v'' \<noteq> []" "CHR '':'' \<notin> set (trim_prefix ''1.32'' ''v'')" by (simp_all add: t)
  note EnsureBootImageVersion_retags [OF a b c d, of "''v1.33''", THEN conjunct2]
  moreover have "fst (EnsureBootImageVersion sample_lib ''v1.33'' ''reg.io/ock'') = ''reg.io/ock:1.33''"
    using a by (simp add: EnsureBootImageVersion_def t)
  ultimately show ?thesis by metis
qed



end
