(* ===== verification/Retry.thy ===== *)
theory Retry
  imports Ocne_Prelude
begin

text \<open>
  The retry loops of \<^verbatim>\<open>pkg/util/backoff.go\<close>.  The functor, the clock and sleeping act on a state of
  the outside world \<open>'s\<close>; durations are in nanoseconds.  The loop may not end if the clock stands still, so it
  is a partial function: that it returns is a theorem.
\<close>

record ('s, 'r) retry_world =
  rw_ftor :: "'s \<Rightarrow> ('r option \<times> bool \<times> gerror option) \<times> 's"
  rw_Now :: "'s \<Rightarrow> int"
  rw_Sleep :: "int \<Rightarrow> 's \<Rightarrow> 's"

partial_function (option) retry_loop ::
  "('s, 'r) retry_world \<Rightarrow> int \<Rightarrow> int \<Rightarrow> int \<Rightarrow> int \<Rightarrow> int \<Rightarrow> int \<Rightarrow> int \<Rightarrow> 'r option \<Rightarrow> gerror option \<Rightarrow> 's
     \<Rightarrow> (('r option \<times> bool \<times> gerror option) \<times> 's) option" where
  "retry_loop w begin0 start mx factor timeout wait incr ret err s =
     (if rw_Now w s - begin0 < timeout then
        (case rw_ftor w s of ((ret', failFast, err'), s1) \<Rightarrow>
           if failFast \<and> err' \<noteq> None then Some ((ret', failFast, err'), s1)
           else if err' = None then Some ((ret', False, None), s1)
           else (let s2 = rw_Sleep w wait s1
                 in if wait < mx
                    then retry_loop w begin0 start mx factor timeout (start + factor) (incr * factor) ret' err' s2
                    else retry_loop w begin0 start mx factor timeout mx incr ret' err' s2))
      else Some ((ret, False, err), s))"

declare retry_loop.simps [code]

definition ExponentialRetryImpl ::
  "('s, 'r) retry_world \<Rightarrow> int \<Rightarrow> int \<Rightarrow> int \<Rightarrow> int \<Rightarrow> 's \<Rightarrow> (('r option \<times> bool \<times> gerror option) \<times> 's) option" where
  "ExponentialRetryImpl w start mx factor timeout s =
     retry_loop w (rw_Now w s) start mx factor timeout start factor None None s"

definition duration_ms :: int where "duration_ms = 1000000"
definition duration_s :: int where "duration_s = 1000000000"

definition ExponentialRetryTimeout ::
  "('s, 'r) retry_world \<Rightarrow> int \<Rightarrow> 's \<Rightarrow> (('r option \<times> bool \<times> gerror option) \<times> 's) option" where
  "ExponentialRetryTimeout w timeout s = ExponentialRetryImpl w (10 * duration_ms) duration_s duration_s timeout s"

definition ExponentialRetry :: "('s, 'r) retry_world \<Rightarrow> 's \<Rightarrow> (('r option \<times> bool \<times> gerror option) \<times> 's) option" where
  "ExponentialRetry w s = ExponentialRetryTimeout w (10 * duration_s) s"

definition LinearRetryImpl ::
  "('s, 'r) retry_world \<Rightarrow> int \<Rightarrow> int \<Rightarrow> 's \<Rightarrow> (('r option \<times> bool \<times> gerror option) \<times> 's) option" where
  "LinearRetryImpl w wait timeout s = ExponentialRetryImpl w wait wait 0 timeout s"

definition LinearRetryTimeout ::
  "('s, 'r) retry_world \<Rightarrow> int \<Rightarrow> 's \<Rightarrow> (('r option \<times> bool \<times> gerror option) \<times> 's) option" where
  "LinearRetryTimeout w timeout s = LinearRetryImpl w (100 * duration_ms) timeout s"

definition LinearRetry :: "('s, 'r) retry_world \<Rightarrow> 's \<Rightarrow> (('r option \<times> bool \<times> gerror option) \<times> 's) option" where
  "LinearRetry w s = LinearRetryTimeout w (10 * duration_s) s"

section \<open>Termination\<close>

text \<open>Time does not run backwards, and sleeping takes at least as long as asked.\<close>

definition time_passes :: "('s, 'r) retry_world \<Rightarrow> bool" where
  "time_passes w \<longleftrightarrow> (\<forall>s. rw_Now w (snd (rw_ftor w s)) \<ge> rw_Now w s) \<and> (\<forall>d s. rw_Now w (rw_Sleep w d s) \<ge> rw_Now w s + d)"

lemma time_after_round:
  "time_passes w \<Longrightarrow> rw_ftor w s = (x, s1) \<Longrightarrow> rw_Now w (rw_Sleep w d s1) \<ge> rw_Now w s + d"
  unfolding time_passes_def by (metis add_le_cancel_right order_trans snd_conv)

text \<open>
  The loop comes back; a result without an error comes from a call of the functor, unless the time was up
  before the first; and an error that is not final means that the time is up.
\<close>

lemma retry_loop_returns:
  assumes "time_passes w" and "0 < mx" "0 < start + factor" "0 < wait"
  shows "\<exists>r ff e s'. retry_loop w b start mx factor timeout wait incr ret err s = Some ((r, ff, e), s') \<and>
      (e = None \<longrightarrow> (err \<noteq> None \<or> rw_Now w s - b < timeout) \<longrightarrow> (\<exists>t x. rw_ftor w t = ((r, x, None), s'))) \<and>
      (ff \<longrightarrow> e \<noteq> None) \<and>
      (e \<noteq> None \<longrightarrow> \<not> ff \<longrightarrow> rw_Now w s' - b \<ge> timeout)"
  using assms(4)
proof (induction "nat (timeout - (rw_Now w s - b))" arbitrary: wait incr ret err s rule: less_induct)
  case less
  show ?case
  proof (cases "rw_Now w s - b < timeout")
    case False
    then show ?thesis
      by (intro exI [of _ ret] exI [of _ False] exI [of _ err] exI [of _ s]) (subst retry_loop.simps, simp)
  next
    case True
    obtain r ff e s1 where f: "rw_ftor w s = ((r, ff, e), s1)" by (metis prod.exhaust)
    show ?thesis
    proof (cases "e \<noteq> None \<and> \<not> ff")
      case False
      with f True show ?thesis by (subst retry_loop.simps) auto
    next
      case again: True
      let ?s2 = "rw_Sleep w wait s1"
      have "rw_Now w ?s2 \<ge> rw_Now w s + wait" using time_after_round [OF assms(1) f] .
      with less.prems True have dec: "nat (timeout - (rw_Now w ?s2 - b)) < nat (timeout - (rw_Now w s - b))" by simp
      show ?thesis
      proof (cases "wait < mx")
        case True
        then have "retry_loop w b start mx factor timeout wait incr ret err s
            = retry_loop w b start mx factor timeout (start + factor) (incr * factor) r e ?s2"
          using \<open>rw_Now w s - b < timeout\<close> again f by (subst retry_loop.simps) (auto simp: Let_def)
        with less.hyps [OF dec assms(3)] again show ?thesis by metis
      next
        case False
        then have "retry_loop w b start mx factor timeout wait incr ret err s
            = retry_loop w b start mx factor timeout mx incr r e ?s2"
          using \<open>rw_Now w s - b < timeout\<close> again f by (subst retry_loop.simps) (auto simp: Let_def)
        with less.hyps [OF dec assms(2)] again show ?thesis by metis
      qed
    qed
  qed
qed

text \<open>What the functor and sleeping keep, the loop keeps.\<close>

lemma retry_loop_keeps:
  fixes w :: "('s, 'r) retry_world" and r :: "'r option \<times> bool \<times> gerror option"
  assumes "retry_loop w b start mx factor timeout wait incr ret err s = Some (r, s')"
    and "I s" and "\<And>t x t'. I t \<Longrightarrow> rw_ftor w t = (x, t') \<Longrightarrow> I t'" and "\<And>d t. I t \<Longrightarrow> I (rw_Sleep w d t)"
  shows "I s'"
proof -
  have "(\<forall>t x t'. I t \<longrightarrow> rw_ftor v t = (x, t') \<longrightarrow> I t') \<longrightarrow> (\<forall>d t. I t \<longrightarrow> I (rw_Sleep v d t)) \<longrightarrow> I s \<longrightarrow> I (snd y)"
    if "retry_loop v b start mx factor timeout wait incr ret err s = Some y"
    for v :: "('s, 'r) retry_world" and b start mx factor timeout wait incr ret err s
      and y :: "('r option \<times> bool \<times> gerror option) \<times> 's"
  proof (rule retry_loop.raw_induct [where P = "\<lambda>v b start mx factor timeout wait incr ret err s y.
      (\<forall>t x t'. I t \<longrightarrow> rw_ftor v t = (x, t') \<longrightarrow> I t') \<longrightarrow> (\<forall>d t. I t \<longrightarrow> I (rw_Sleep v d t)) \<longrightarrow> I s \<longrightarrow> I (snd y)",
      OF _ that])
    fix loop :: "('s, 'r) retry_world \<Rightarrow> int \<Rightarrow> int \<Rightarrow> int \<Rightarrow> int \<Rightarrow> int \<Rightarrow> int \<Rightarrow> int \<Rightarrow> 'r option \<Rightarrow> gerror option \<Rightarrow> 's
         \<Rightarrow> (('r option \<times> bool \<times> gerror option) \<times> 's) option"
      and v :: "('s, 'r) retry_world" and b start mx factor timeout wait incr ret err s
      and y :: "('r option \<times> bool \<times> gerror option) \<times> 's"
    assume IH: "\<And>v b start mx factor timeout wait incr ret err s y.
        loop v b start mx factor timeout wait incr ret err s = Some y \<Longrightarrow>
        (\<forall>t x t'. I t \<longrightarrow> rw_ftor v t = (x, t') \<longrightarrow> I t') \<longrightarrow> (\<forall>d t. I t \<longrightarrow> I (rw_Sleep v d t)) \<longrightarrow> I s \<longrightarrow> I (snd y)"
      and run: "(if rw_Now v s - b < timeout
        then case rw_ftor v s of ((ret', failFast, err'), s1) \<Rightarrow>
          if failFast \<and> err' \<noteq> None then Some ((ret', failFast, err'), s1)
          else if err' = None then Some ((ret', False, None), s1)
          else let s2 = rw_Sleep v wait s1
               in if wait < mx then loop v b start mx factor timeout (start + factor) (incr * factor) ret' err' s2
                  else loop v b start mx factor timeout mx incr ret' err' s2
        else Some ((ret, False, err), s)) = Some y"
    show "(\<forall>t x t'. I t \<longrightarrow> rw_ftor v t = (x, t') \<longrightarrow> I t') \<longrightarrow> (\<forall>d t. I t \<longrightarrow> I (rw_Sleep v d t)) \<longrightarrow> I s \<longrightarrow> I (snd y)"
    proof (intro impI)
      assume keep: "\<forall>t x t'. I t \<longrightarrow> rw_ftor v t = (x, t') \<longrightarrow> I t'" "\<forall>d t. I t \<longrightarrow> I (rw_Sleep v d t)" and "I s"
      obtain q ff e s1 where f: "rw_ftor v s = ((q, ff, e), s1)" by (metis prod.exhaust)
      with keep \<open>I s\<close> have i: "I s1" "I (rw_Sleep v wait s1)" by blast+
      show "I (snd y)"
      proof (cases "rw_Now v s - b < timeout \<and> e \<noteq> None \<and> \<not> ff")
        case True
        with f run obtain wait' incr' ret' where
          "loop v b start mx factor timeout wait' incr' ret' e (rw_Sleep v wait s1) = Some y"
          by (auto simp: Let_def split: if_splits)
        from IH [OF this] keep i show ?thesis by blast
      next
        case False
        with f run have "snd y = s1 \<or> snd y = s" by (cases y) (auto split: if_splits)
        with i \<open>I s\<close> show ?thesis by auto
      qed
    qed
  qed
  from this [OF assms(1)] assms(2-4) show ?thesis by auto
qed

text \<open>If every call fails without a value, so does the loop.\<close>

lemma retry_loop_no_value:
  assumes "retry_loop w b start mx factor timeout wait incr None err s = Some ((r, ff, e), s')"
    and "\<And>t. \<exists>e t'. rw_ftor w t = ((None, False, Some e), t')"
  shows "r = None"
proof -
  have "(\<forall>t. \<exists>e t'. rw_ftor w t = ((None, False, Some e), t')) \<longrightarrow> ret = None \<longrightarrow> fst (fst y) = None"
    if "retry_loop w b start mx factor timeout wait incr ret err s = Some y"
    for w :: "('s, 'r) retry_world" and b start mx factor timeout wait incr ret err s y
  proof (rule retry_loop.raw_induct [where P = "\<lambda>w b start mx factor timeout wait incr ret err s y.
      (\<forall>t. \<exists>e t'. rw_ftor w t = ((None, False, Some e), t')) \<longrightarrow> ret = None \<longrightarrow> fst (fst y) = None", OF _ that], intro impI)
    fix loop :: "('s, 'r) retry_world \<Rightarrow> int \<Rightarrow> int \<Rightarrow> int \<Rightarrow> int \<Rightarrow> int \<Rightarrow> int \<Rightarrow> int \<Rightarrow> 'r option \<Rightarrow> gerror option \<Rightarrow> 's
         \<Rightarrow> (('r option \<times> bool \<times> gerror option) \<times> 's) option"
      and w :: "('s, 'r) retry_world" and b start mx factor timeout wait incr ret err s y
    assume IH: "\<And>w b start mx factor timeout wait incr ret err s y.
        loop w b start mx factor timeout wait incr ret err s = Some y \<Longrightarrow>
        (\<forall>t. \<exists>e t'. rw_ftor w t = ((None, False, Some e), t')) \<longrightarrow> ret = None \<longrightarrow> fst (fst y) = None"
      and run: "(if rw_Now w s - b < timeout
        then case rw_ftor w s of ((ret', failFast, err'), s1) \<Rightarrow>
          if failFast \<and> err' \<noteq> None then Some ((ret', failFast, err'), s1)
          else if err' = None then Some ((ret', False, None), s1)
          else let s2 = rw_Sleep w wait s1
               in if wait < mx then loop w b start mx factor timeout (start + factor) (incr * factor) ret' err' s2
                  else loop w b start mx factor timeout mx incr ret' err' s2
        else Some ((ret, False, err), s)) = Some y"
      and fails: "\<forall>t. \<exists>e t'. rw_ftor w t = ((None, False, Some e), t')" and "ret = None"
    from fails obtain e s1 where "rw_ftor w s = ((None, False, Some e), s1)" by blast
    with run \<open>ret = None\<close> IH [of w b start mx factor timeout _ _ None "Some e" "rw_Sleep w wait s1" y] fails
    show "fst (fst y) = None" by (auto simp: Let_def split: if_splits)
  qed
  from this [OF assms(1)] assms(2) show ?thesis by auto
qed

lemma retry_impl_returns:
  assumes "time_passes w" and "0 < timeout" and "0 < start" "0 < mx" "0 \<le> factor"
  obtains r ff e s' where "ExponentialRetryImpl w start mx factor timeout s = Some ((r, ff, e), s')"
    and "e = None \<Longrightarrow> \<exists>t x. rw_ftor w t = ((r, x, None), s')"
    and "e \<noteq> None \<Longrightarrow> \<not> ff \<Longrightarrow> rw_Now w s' - rw_Now w s \<ge> timeout"
proof -
  have "0 < start + factor" using assms by simp
  from retry_loop_returns [OF assms(1,4) this assms(3), of "rw_Now w s" timeout factor None None s]
  obtain r ff e s' where
    "retry_loop w (rw_Now w s) start mx factor timeout start factor None None s = Some ((r, ff, e), s')"
    "e = None \<longrightarrow> (None \<noteq> (None :: gerror option) \<or> rw_Now w s - rw_Now w s < timeout) \<longrightarrow>
       (\<exists>t x. rw_ftor w t = ((r, x, None), s'))"
    "e \<noteq> None \<longrightarrow> \<not> ff \<longrightarrow> rw_Now w s' - rw_Now w s \<ge> timeout"
    by blast
  moreover have "rw_Now w s - rw_Now w s < timeout" using assms(2) by simp
  ultimately show thesis using that unfolding ExponentialRetryImpl_def by blast
qed

lemma linear_retry_returns:
  assumes "time_passes w" and "0 < timeout"
  obtains r ff e s' where "LinearRetryTimeout w timeout s = Some ((r, ff, e), s')"
    and "e = None \<Longrightarrow> \<exists>t x. rw_ftor w t = ((r, x, None), s')"
    and "e \<noteq> None \<Longrightarrow> \<not> ff \<Longrightarrow> rw_Now w s' - rw_Now w s \<ge> timeout"
proof -
  have "0 < 100 * duration_ms" by (simp add: duration_ms_def)
  from retry_impl_returns [OF assms this this order.refl] that show thesis
    unfolding LinearRetryTimeout_def LinearRetryImpl_def by metis
qed


text \<open>A clock that only sleeping moves, and a functor that succeeds the third time.\<close>

definition sample_retry :: "(int \<times> nat, nat) retry_world" where
  "sample_retry = \<lparr>rw_ftor = (\<lambda>(t, n). (if n < 2 then (None, False, Some ''not yet'') else (Some n, False, None), (t, Suc n))),
     rw_Now = fst, rw_Sleep = (\<lambda>d (t, n). (t + d, n))\<rparr>"


end
