(* ===== verification/K8s_Nodes.thy ===== *)
theory K8s_Nodes
  imports Go_Strings Retry
begin

text \<open>
  Kubernetes nodes as \<^verbatim>\<open>pkg/k8s/node.go\<close> looks at them: their role, their readiness, the images they hold,
  and the waits for them.  A node carries the fields of the API object the program reads; a map that may be nil is
  an optional map.  The API server is a record of functions on the state \<open>'s\<close> of the outside world.
\<close>

record NodeCondition =
  nc_Type :: string
  nc_Status :: string

record KNode =
  kn_Name :: string
  kn_Labels :: "(string \<rightharpoonup> string) option"
  kn_Annotations :: "(string \<rightharpoonup> string) option"
  kn_Conditions :: "NodeCondition list"
  kn_Images :: "string list list"
  kn_KubeletVersion :: string
  kn_Addresses :: "string list"
  kn_ProviderID :: string

definition K8sLabelControlPlane :: string where
  "K8sLabelControlPlane = ''node-role.kubernetes.io/control-plane''"

definition label_of :: "KNode \<Rightarrow> string \<Rightarrow> string option" where
  "label_of node l = (case kn_Labels node of None \<Rightarrow> None | Some m \<Rightarrow> m l)"

definition IsNodeReady :: "KNode \<Rightarrow> bool" where
  "IsNodeReady node = list_ex (\<lambda>cond. nc_Type cond = ''Ready'' \<and> nc_Status cond = ''True'') (kn_Conditions node)"

definition GetRole :: "KNode \<Rightarrow> bool \<times> string" where
  "GetRole node =
     (let cp = (case kn_Labels node of None \<Rightarrow> False | Some m \<Rightarrow> m K8sLabelControlPlane \<noteq> None)
      in if cp then (True, ''control plane'') else (False, ''worker''))"

definition IsControlPlane :: "KNode \<Rightarrow> bool" where
  "IsControlPlane node = fst (GetRole node)"

definition IsControlPlaneNode :: "KNode \<Rightarrow> bool" where
  "IsControlPlaneNode node = (label_of node ''node-role.kubernetes.io/control-plane'' \<noteq> None)"

section \<open>Looking for an image\<close>

fun image_name_loop :: "string \<Rightarrow> string \<Rightarrow> string \<Rightarrow> string list \<Rightarrow> string \<times> bool \<times> bool \<Rightarrow> string \<times> bool \<times> bool" where
  "image_name_loop bestName imgName imgPrefix [] acc = acc"
| "image_name_loop bestName imgName imgPrefix (name # names) (ret, haveBest, exactMatch) =
     image_name_loop bestName imgName imgPrefix names
       (if name = bestName then (ret, True, exactMatch)
        else if name = imgName then (name, haveBest, True)
        else if exactMatch then (ret, haveBest, exactMatch)
        else if has_prefix name imgPrefix then (name, haveBest, exactMatch)
        else (ret, haveBest, exactMatch))"

definition processImage :: "string \<Rightarrow> string \<Rightarrow> string \<Rightarrow> string list \<Rightarrow> string \<times> bool \<times> bool" where
  "processImage registry best secondBest names =
     image_name_loop (registry @ '':'' @ best) (registry @ '':'' @ secondBest) (registry @ '':'') names ([], False, False)"

fun image_loop :: "string \<Rightarrow> string \<Rightarrow> string \<Rightarrow> string list list \<Rightarrow> string \<Rightarrow> bool \<Rightarrow> string \<times> bool \<times> bool" where
  "image_loop registry best secondBest [] ret foundExact = (ret, False, foundExact)"
| "image_loop registry best secondBest (img # imgs) ret foundExact =
     (case processImage registry best secondBest img of (imgName, haveBest, exactMatch) \<Rightarrow>
        if imgName = [] then image_loop registry best secondBest imgs ret foundExact
        else if haveBest then (registry @ '':'' @ best, True, exactMatch)
        else if exactMatch then image_loop registry best secondBest imgs imgName True
        else if \<not> foundExact then image_loop registry best secondBest imgs imgName foundExact
        else if ret = [] then image_loop registry best secondBest imgs imgName foundExact
        else image_loop registry best secondBest imgs ret foundExact)"

definition GetImageCandidate :: "string \<Rightarrow> string \<Rightarrow> string \<Rightarrow> KNode \<Rightarrow> string \<times> bool \<times> bool" where
  "GetImageCandidate registry best secondBest node = image_loop registry best secondBest (kn_Images node) [] False"

lemma IsControlPlane_iff: "IsControlPlane node \<longleftrightarrow> IsControlPlaneNode node"
  by (simp add: IsControlPlane_def GetRole_def IsControlPlaneNode_def label_of_def K8sLabelControlPlane_def
      split: option.splits)

text \<open>An image that another tag of the registry names: what the search looks at.\<close>

definition other_tag :: "string \<Rightarrow> string \<Rightarrow> string \<Rightarrow> bool" where
  "other_tag registry best name \<longleftrightarrow> prefix (registry @ '':'') name \<and> name \<noteq> registry @ '':'' @ best"

definition has_other :: "string \<Rightarrow> string \<Rightarrow> string list \<Rightarrow> bool" where
  "has_other registry best names \<longleftrightarrow> (\<exists>n \<in> set names. other_tag registry best n)"

lemma name_loop_result:
  fixes registry best secondBest :: string
  defines "b \<equiv> registry @ '':'' @ best" and "s \<equiv> registry @ '':'' @ secondBest" and "p \<equiv> registry @ '':''"
  assumes "image_name_loop b s p names (r, hb, ex) = (ret, haveBest, exact)"
    and "ex \<longrightarrow> r = s" and "r = [] \<or> other_tag registry best r"
  shows "haveBest \<longleftrightarrow> hb \<or> b \<in> set names"
    and "exact \<longleftrightarrow> ex \<or> (s \<in> set names \<and> s \<noteq> b)"
    and "exact \<longrightarrow> ret = s"
    and "ret = [] \<longleftrightarrow> r = [] \<and> \<not> has_other registry best names"
    and "ret = [] \<or> other_tag registry best ret"
    and "ret \<noteq> [] \<longrightarrow> ret = r \<or> ret \<in> set names"
proof -
  have "(haveBest \<longleftrightarrow> hb \<or> b \<in> set names) \<and> (exact \<longleftrightarrow> ex \<or> (s \<in> set names \<and> s \<noteq> b)) \<and> (exact \<longrightarrow> ret = s)
    \<and> (ret = [] \<longleftrightarrow> r = [] \<and> \<not> has_other registry best names) \<and> (ret = [] \<or> other_tag registry best ret)
    \<and> (ret \<noteq> [] \<longrightarrow> ret = r \<or> ret \<in> set names)"
    using assms(4-)
  proof (induction names arbitrary: r hb ex)
    case Nil
    then show ?case by (auto simp: has_other_def)
  next
    case (Cons n ns)
    have sp: "prefix p s" "s \<noteq> []" by (simp_all add: s_def p_def)
    have pn: "prefix p n \<Longrightarrow> n \<noteq> []" by (auto simp: p_def)
    consider "n = b" | "n \<noteq> b" "n = s" | "n \<noteq> b" "n \<noteq> s" "ex" | "n \<noteq> b" "n \<noteq> s" "\<not> ex" "prefix p n"
      | "n \<noteq> b" "n \<noteq> s" "\<not> ex" "\<not> prefix p n" by blast
    then show ?case
    proof cases
      case 1
      with Cons.prems have "image_name_loop b s p ns (r, True, ex) = (ret, haveBest, exact)" by simp
      from Cons.IH [OF this Cons.prems(2,3)] 1 show ?thesis by (auto simp: has_other_def other_tag_def b_def)
    next
      case 2
      then have o: "other_tag registry best s" using sp by (simp add: other_tag_def b_def p_def)
      from 2 Cons.prems have "image_name_loop b s p ns (s, hb, True) = (ret, haveBest, exact)" by simp
      from Cons.IH [OF this] 2 o sp(2) show ?thesis by (auto simp: has_other_def)
    next
      case 3
      with Cons.prems have "image_name_loop b s p ns (r, hb, ex) = (ret, haveBest, exact)" by simp
      from Cons.IH [OF this Cons.prems(2,3)] 3 Cons.prems(2) sp show ?thesis by (auto simp: has_other_def)
    next
      case 4
      then have o: "other_tag registry best n" by (simp add: other_tag_def b_def p_def)
      from 4 Cons.prems have "image_name_loop b s p ns (n, hb, ex) = (ret, haveBest, exact)" by simp
      from Cons.IH [OF this] 4 o pn show ?thesis by (auto simp: has_other_def)
    next
      case 5
      then have o: "\<not> other_tag registry best n" by (simp add: other_tag_def p_def)
      from 5 Cons.prems have "image_name_loop b s p ns (r, hb, ex) = (ret, haveBest, exact)" by simp
      from Cons.IH [OF this Cons.prems(2,3)] 5 o show ?thesis by (auto simp: has_other_def)
    qed
  qed
  then show "haveBest \<longleftrightarrow> hb \<or> b \<in> set names" "exact \<longleftrightarrow> ex \<or> (s \<in> set names \<and> s \<noteq> b)" "exact \<longrightarrow> ret = s"
    "ret = [] \<longleftrightarrow> r = [] \<and> \<not> has_other registry best names" "ret = [] \<or> other_tag registry best ret"
    "ret \<noteq> [] \<longrightarrow> ret = r \<or> ret \<in> set names"
    by blast+
qed

lemma processImage_facts:
  assumes "processImage registry best secondBest names = (ret, haveBest, exact)"
  shows "haveBest \<longleftrightarrow> registry @ '':'' @ best \<in> set names"
    and "exact \<longleftrightarrow> registry @ '':'' @ secondBest \<in> set names \<and> secondBest \<noteq> best"
    and "exact \<longrightarrow> ret = registry @ '':'' @ secondBest"
    and "ret = [] \<longleftrightarrow> \<not> has_other registry best names"
    and "ret \<noteq> [] \<longrightarrow> other_tag registry best ret \<and> ret \<in> set names"
  using name_loop_result [OF assms [unfolded processImage_def]] by auto

lemma image_loop_result:
  assumes "image_loop registry best secondBest imgs r fe = (ret, current, exact)"
    and "fe \<longrightarrow> r = registry @ '':'' @ secondBest"
    and "r = [] \<or> other_tag registry best r"
  shows "(current \<longleftrightarrow> (\<exists>img \<in> set imgs. registry @ '':'' @ best \<in> set img \<and> has_other registry best img))
    \<and> (current \<longrightarrow> ret = registry @ '':'' @ best)
    \<and> (\<not> current \<longrightarrow> (exact \<longleftrightarrow> fe \<or> (secondBest \<noteq> best \<and> (\<exists>img \<in> set imgs. registry @ '':'' @ secondBest \<in> set img)))
         \<and> (exact \<longrightarrow> ret = registry @ '':'' @ secondBest)
         \<and> (ret = [] \<longleftrightarrow> r = [] \<and> (\<forall>img \<in> set imgs. \<not> has_other registry best img))
         \<and> (ret \<noteq> [] \<longrightarrow> other_tag registry best ret \<and> (ret = r \<or> (\<exists>img \<in> set imgs. ret \<in> set img))))"
  using assms
proof (induction imgs arbitrary: r fe)
  case Nil
  then show ?case by auto
next
  case (Cons img imgs)
  obtain n hb ex where pi: "processImage registry best secondBest img = (n, hb, ex)" by (metis prod.exhaust)
  note f = processImage_facts [OF pi]
  have exh: "ex \<Longrightarrow> has_other registry best img"
    using f(2) unfolding has_other_def other_tag_def
    by (intro bexI [of _ "registry @ '':'' @ secondBest"]) auto
  note ins = list.set(2) bex_simps(5) ball_simps(7)
  consider "n = []" | "n \<noteq> []" "hb" | "n \<noteq> []" "\<not> hb" "ex" | "n \<noteq> []" "\<not> hb" "\<not> ex" "fe" "r \<noteq> []"
    | "n \<noteq> []" "\<not> hb" "\<not> ex" "\<not> fe \<or> r = []" by blast
  then show ?case
  proof cases
    case 1
    with pi Cons.prems have run: "image_loop registry best secondBest imgs r fe = (ret, current, exact)" by simp
    have "\<not> has_other registry best img" "\<not> (registry @ '':'' @ secondBest \<in> set img \<and> secondBest \<noteq> best)"
      using 1 f(2,4) exh by blast+
    with Cons.IH [OF run Cons.prems(2,3)] show ?thesis by (simp only: ins) blast
  next
    case 2
    with pi Cons.prems(1) have "ret = registry @ '':'' @ best" "current" by simp_all
    moreover have "registry @ '':'' @ best \<in> set img" "has_other registry best img" using 2 f(1,4) by blast+
    ultimately show ?thesis by (simp only: ins) blast
  next
    case 3
    with pi Cons.prems have run: "image_loop registry best secondBest imgs n True = (ret, current, exact)" by simp
    have n: "True \<longrightarrow> n = registry @ '':'' @ secondBest" "n = [] \<or> other_tag registry best n" using 3 f(3,5) by blast+
    have "registry @ '':'' @ best \<notin> set img" "has_other registry best img" "n \<in> set img"
      "registry @ '':'' @ secondBest \<in> set img \<and> secondBest \<noteq> best"
      using 3 f(1,2,4,5) by blast+
    with Cons.IH [OF run n] 3(1) show ?thesis by (simp only: ins) blast
  next
    case 4
    with pi Cons.prems have run: "image_loop registry best secondBest imgs r fe = (ret, current, exact)" by simp
    have "registry @ '':'' @ best \<notin> set img" "\<not> (registry @ '':'' @ secondBest \<in> set img \<and> secondBest \<noteq> best)"
      using 4 f(1,2) by blast+
    with Cons.IH [OF run Cons.prems(2,3)] 4(4,5) show ?thesis by (simp only: ins) blast
  next
    case 5
    with pi Cons.prems have run: "image_loop registry best secondBest imgs n fe = (ret, current, exact)"
      by (auto split: if_splits)
    have nf: "\<not> fe" using 5 Cons.prems(2) by auto
    then have n: "fe \<longrightarrow> n = registry @ '':'' @ secondBest" "n = [] \<or> other_tag registry best n" using f(5) by blast+
    have "registry @ '':'' @ best \<notin> set img" "has_other registry best img" "n \<in> set img"
      "\<not> (registry @ '':'' @ secondBest \<in> set img \<and> secondBest \<noteq> best)"
      using 5 f(1,2,4,5) by blast+
    with Cons.IH [OF run n] 5(1) nf show ?thesis by (simp only: ins) blast
  qed
qed

section \<open>Asking the API server\<close>

text \<open>
  What the program asks of the API server about nodes and control-plane pods; each request may change the
  world (time passes, the cluster moves on).
\<close>

record 's node_api =
  na_GetNode :: "string \<Rightarrow> 's \<Rightarrow> KNode result \<times> 's"
  na_GetNodeList :: "'s \<Rightarrow> KNode list result \<times> 's"
  na_ControlPlanePods :: "'s \<Rightarrow> string list result \<times> 's"
  na_Now :: "'s \<Rightarrow> int"
  na_Sleep :: "int \<Rightarrow> 's \<Rightarrow> 's"

definition GetNodeNames :: "'s node_api \<Rightarrow> 's \<Rightarrow> string list result \<times> 's" where
  "GetNodeNames cli s = (case na_GetNodeList cli s of (r, s1) \<Rightarrow>
     (rbind r (\<lambda>nodeList. Inr (map kn_Name nodeList)), s1))"

text \<open>The polling loops of the two waits; the deadline is fixed when the wait starts.\<close>

partial_function (option) poll_nodes :: "'s node_api \<Rightarrow> int \<Rightarrow> 's \<Rightarrow> (KNode list result \<times> 's) option" where
  "poll_nodes cli maxTime s =
     (case na_GetNodeList cli s of (r, s1) \<Rightarrow>
        (case r of
           Inr nodes \<Rightarrow> (if nodes \<noteq> [] then Some (Inr nodes, s1)
                       else if na_Now cli s1 > maxTime then Some (Inl ''Timeout waiting for get nodes to succeed'', s1)
                       else poll_nodes cli maxTime (na_Sleep cli (5 * duration_s) s1))
         | Inl err \<Rightarrow> (if na_Now cli s1 > maxTime then Some (Inl ''Timeout waiting for get nodes to succeed'', s1)
                     else poll_nodes cli maxTime (na_Sleep cli (5 * duration_s) s1))))"

declare poll_nodes.simps [code]

definition WaitUntilGetNodesSucceeds :: "'s node_api \<Rightarrow> 's \<Rightarrow> (KNode list result \<times> 's) option" where
  "WaitUntilGetNodesSucceeds cli s =
     (case na_GetNodeList cli s of (r, s1) \<Rightarrow>
        (if (case r of Inr nodes \<Rightarrow> nodes \<noteq> [] | Inl _ \<Rightarrow> False) then Some (r, s1)
         else (case poll_nodes cli (na_Now cli s1 + 15 * 60 * duration_s) s1 of
                 None \<Rightarrow> None
               | Some (Inl e, s2) \<Rightarrow> Some (Inl (''Failed to access Kubernetes cluster: '' @ e), s2)
               | Some (Inr nodes, s2) \<Rightarrow> Some (Inr nodes, s2))))"

partial_function (option) poll_ready :: "'s node_api \<Rightarrow> string \<Rightarrow> int \<Rightarrow> 's \<Rightarrow> (unit result \<times> 's) option" where
  "poll_ready cli nodeName maxTime s =
     (case na_GetNode cli nodeName s of (r, s1) \<Rightarrow>
        (case r of
           Inl err \<Rightarrow> Some (Inl err, s1)
         | Inr node \<Rightarrow>
             (if IsNodeReady node then Some (Inr (), s1)
              else if na_Now cli s1 > maxTime
                then Some (Inl (''Timeout waiting for node '' @ nodeName @ '' to be ready''), s1)
              else poll_ready cli nodeName maxTime (na_Sleep cli (5 * duration_s) s1))))"

declare poll_ready.simps [code]

definition WaitUntilNodeIsReady :: "'s node_api \<Rightarrow> string \<Rightarrow> 's \<Rightarrow> (unit result \<times> 's) option" where
  "WaitUntilNodeIsReady cli nodeName s =
     (case poll_ready cli nodeName (na_Now cli s + 10 * 60 * duration_s) s of
        None \<Rightarrow> None
      | Some (Inl e, s2) \<Rightarrow> Some (Inl (''Error waiting for node '' @ nodeName @ '' to be ready: '' @ e), s2)
      | Some (Inr u, s2) \<Rightarrow> Some (Inr u, s2))"

text \<open>
  \<open>order\<close> is the order in which Go walks the set of node names; any enumeration of the set is possible.
\<close>

fun get_nodes :: "'s node_api \<Rightarrow> string list \<Rightarrow> 's \<Rightarrow> KNode list result \<times> 's" where
  "get_nodes cli [] s = (Inr [], s)"
| "get_nodes cli (n # ns) s =
     (case na_GetNode cli n s of
        (Inl err, s1) \<Rightarrow> (Inl err, s1)
      | (Inr node, s1) \<Rightarrow>
          (case get_nodes cli ns s1 of
             (Inl err, s2) \<Rightarrow> (Inl err, s2)
           | (Inr rest, s2) \<Rightarrow> (Inr (node # rest), s2)))"

definition GetControlPlaneNodes :: "(string list \<Rightarrow> string list) \<Rightarrow> 's node_api \<Rightarrow> 's \<Rightarrow> KNode list result \<times> 's" where
  "GetControlPlaneNodes order cli s =
     (case na_ControlPlanePods cli s of
        (Inl err, s1) \<Rightarrow> (Inl err, s1)
      | (Inr nodeNames, s1) \<Rightarrow> get_nodes cli (order (remdups nodeNames)) s1)"

definition control_plane_retry :: "(string list \<Rightarrow> string list) \<Rightarrow> 's node_api \<Rightarrow> ('s, KNode list) retry_world" where
  "control_plane_retry order cli = \<lparr>
     rw_ftor = (\<lambda>s. case GetControlPlaneNodes order cli s of
        (Inl err, s1) \<Rightarrow> ((None, True, Some err), s1)
      | (Inr nodeList, s1) \<Rightarrow>
          (if nodeList = [] then ((None, False, Some ''no control plane nodes''), s1)
           else ((Some nodeList, False, None), s1))),
     rw_Now = na_Now cli, rw_Sleep = na_Sleep cli\<rparr>"

definition WaitForControlPlaneNodes ::
  "(string list \<Rightarrow> string list) \<Rightarrow> 's node_api \<Rightarrow> 's \<Rightarrow> (KNode list result \<times> 's) option" where
  "WaitForControlPlaneNodes order cli s =
     (case LinearRetry (control_plane_retry order cli) s of
        None \<Rightarrow> None
      | Some ((lst, _, err), s1) \<Rightarrow>
          (case err of
             Some e \<Rightarrow> Some (Inl e, s1)
           | None \<Rightarrow> (case lst of
                 Some ret \<Rightarrow> Some (Inr ret, s1)
               | None \<Rightarrow> Some (Inl ''internal error: functor did not return a *v1.NodeList'', s1))))"

text \<open>Requests take no negative time, and sleeping takes at least as long as asked.\<close>

definition api_time :: "'s node_api \<Rightarrow> bool" where
  "api_time cli \<longleftrightarrow>
     (\<forall>n s. na_Now cli (snd (na_GetNode cli n s)) \<ge> na_Now cli s) \<and>
     (\<forall>s. na_Now cli (snd (na_GetNodeList cli s)) \<ge> na_Now cli s) \<and>
     (\<forall>s. na_Now cli (snd (na_ControlPlanePods cli s)) \<ge> na_Now cli s) \<and>
     (\<forall>d s. na_Now cli (na_Sleep cli d s) \<ge> na_Now cli s + d)"

lemma get_nodes_time: "api_time cli \<Longrightarrow> na_Now cli (snd (get_nodes cli ns s)) \<ge> na_Now cli s"
proof (induction cli ns s rule: get_nodes.induct)
  case 1
  then show ?case by simp
next
  case (2 cli n ns s)
  obtain r s1 where g: "na_GetNode cli n s = (r, s1)" by fastforce
  with 2(2) have t: "na_Now cli s1 \<ge> na_Now cli s" unfolding api_time_def by (metis snd_conv)
  show ?case
  proof (cases r)
    case (Inl e)
    with g t show ?thesis by simp
  next
    case (Inr node)
    with 2 g have "na_Now cli (snd (get_nodes cli ns s1)) \<ge> na_Now cli s1" by simp
    with g t Inr show ?thesis by (auto split: prod.splits sum.splits)
  qed
qed

lemma control_plane_time: "api_time cli \<Longrightarrow> time_passes (control_plane_retry order cli)"
proof -
  assume a: "api_time cli"
  have "na_Now cli (snd (GetControlPlaneNodes order cli s)) \<ge> na_Now cli s" for s
  proof -
    obtain r s1 where p: "na_ControlPlanePods cli s = (r, s1)" by fastforce
    with a have "na_Now cli s1 \<ge> na_Now cli s" unfolding api_time_def by (metis snd_conv)
    with p get_nodes_time [OF a, of s1] show ?thesis
      by (cases r) (auto simp: GetControlPlaneNodes_def intro: order_trans)
  qed
  then have "na_Now cli (snd (rw_ftor (control_plane_retry order cli) s)) \<ge> na_Now cli s" for s
    by (auto simp: control_plane_retry_def split: prod.splits sum.splits) (metis snd_conv)+
  with a show ?thesis by (auto simp: time_passes_def api_time_def control_plane_retry_def)
qed

lemma poll_step:
  assumes "api_time cli" and "na_Now cli s \<le> na_Now cli s1" and "\<not> na_Now cli s1 > maxTime"
  shows "nat (maxTime + 1 - na_Now cli (na_Sleep cli (5 * duration_s) s1)) < nat (maxTime + 1 - na_Now cli s)"
proof -
  have "na_Now cli (na_Sleep cli (5 * duration_s) s1) \<ge> na_Now cli s1 + 5 * duration_s"
    using assms(1) by (simp add: api_time_def)
  with assms(2,3) show ?thesis by (simp add: duration_s_def)
qed

lemma poll_nodes_returns:
  assumes "api_time cli"
  shows "\<exists>r s'. poll_nodes cli maxTime s = Some (r, s') \<and> (\<forall>nodes. r = Inr nodes \<longrightarrow> nodes \<noteq> [])"
proof (induction "nat (maxTime + 1 - na_Now cli s)" arbitrary: s rule: less_induct)
  case less
  obtain r s1 where g: "na_GetNodeList cli s = (r, s1)" by fastforce
  with assms have t: "na_Now cli s \<le> na_Now cli s1" unfolding api_time_def by (metis snd_conv)
  show ?case
  proof (cases "(case r of Inr nodes \<Rightarrow> nodes \<noteq> [] | Inl _ \<Rightarrow> False) \<or> na_Now cli s1 > maxTime")
    case True
    with g show ?thesis by (subst poll_nodes.simps) (auto split: sum.splits)
  next
    case False
    then have "poll_nodes cli maxTime s = poll_nodes cli maxTime (na_Sleep cli (5 * duration_s) s1)"
      using g by (subst poll_nodes.simps) (auto split: sum.splits)
    with less [OF poll_step [OF assms t]] False show ?thesis by simp
  qed
qed

lemma poll_ready_returns:
  assumes "api_time cli"
  shows "\<exists>r s'. poll_ready cli name maxTime s = Some (r, s') \<and>
    (r = Inr () \<longrightarrow> (\<exists>t node. na_GetNode cli name t = (Inr node, s') \<and> IsNodeReady node))"
proof (induction "nat (maxTime + 1 - na_Now cli s)" arbitrary: s rule: less_induct)
  case less
  obtain r s1 where g: "na_GetNode cli name s = (r, s1)" by fastforce
  with assms have t: "na_Now cli s \<le> na_Now cli s1" unfolding api_time_def by (metis snd_conv)
  show ?case
  proof (cases "(case r of Inr node \<Rightarrow> IsNodeReady node | Inl _ \<Rightarrow> True) \<or> na_Now cli s1 > maxTime")
    case True
    with g show ?thesis by (subst poll_ready.simps) (auto split: sum.splits)
  next
    case False
    then have "poll_ready cli name maxTime s = poll_ready cli name maxTime (na_Sleep cli (5 * duration_s) s1)"
      using g by (subst poll_ready.simps) (auto split: sum.splits)
    with less [OF poll_step [OF assms t]] False show ?thesis by simp
  qed
qed

lemma get_nodes_length: "get_nodes cli ns s = (Inr l, s') \<Longrightarrow> length l = length ns"
  by (induction ns arbitrary: s l) (auto split: prod.splits sum.splits)

section \<open>Properties\<close>

text \<open>
  What the search for an image on a node finds.  It reports the current image (second result) exactly if one image
  carries the wanted tag together with another tag of the registry, and then names the wanted tag.  Otherwise it
  names the second-best tag, marked exact, if any image carries it, else some other tag of the registry, and nothing
  only if no image has a tag of the registry other than the wanted one.
\<close>

theorem GetImageCandidate_spec:
  assumes "GetImageCandidate registry best secondBest node = (ret, current, exact)"
  shows "(current \<longleftrightarrow> (\<exists>img \<in> set (kn_Images node). registry @ '':'' @ best \<in> set img \<and> has_other registry best img))
    \<and> (current \<longrightarrow> ret = registry @ '':'' @ best)
    \<and> (\<not> current \<longrightarrow>
         (exact \<longleftrightarrow> secondBest \<noteq> best \<and> (\<exists>img \<in> set (kn_Images node). registry @ '':'' @ secondBest \<in> set img))
         \<and> (exact \<longrightarrow> ret = registry @ '':'' @ secondBest)
         \<and> (ret = [] \<longleftrightarrow> (\<forall>img \<in> set (kn_Images node). \<not> has_other registry best img))
         \<and> (ret \<noteq> [] \<longrightarrow> other_tag registry best ret \<and> (\<exists>img \<in> set (kn_Images node). ret \<in> set img)))"
  using image_loop_result [OF assms [unfolded GetImageCandidate_def]] by auto

definition sample_node :: "string list list \<Rightarrow> KNode" where
  "sample_node imgs = \<lparr>kn_Name = ''n1'', kn_Labels = None, kn_Annotations = None, kn_Conditions = [], kn_Images = imgs,
     kn_KubeletVersion = ''v1.33.5'', kn_Addresses = [], kn_ProviderID = []\<rparr>"

theorem GetImageCandidate_spec_witness:
  "\<exists>ret exact. GetImageCandidate ''r'' ''current'' ''v1'' (sample_node [[''r:old''], [''r:v1'']]) = (ret, False, exact)
     \<and> exact \<and> ret = ''r:v1''"
proof -
  obtain ret current exact where run:
    "GetImageCandidate ''r'' ''current'' ''v1'' (sample_node [[''r:old''], [''r:v1'']]) = (ret, current, exact)"
    by (metis prod.exhaust)
  from GetImageCandidate_spec [OF run] have "\<not> current" by (auto simp: sample_node_def)
  with GetImageCandidate_spec [OF run] have "exact \<and> ret = ''r:v1''" by (simp add: sample_node_def)
  with run \<open>\<not> current\<close> show ?thesis by auto
qed

text \<open>
  An image whose only name is the wanted tag is not seen, although it is the best match there is: the
  search answers as for a node without the image.
\<close>

theorem GetImageCandidate_misses_sole_tag:
  "GetImageCandidate registry best secondBest (node\<lparr>kn_Images := [[registry @ '':'' @ best]]\<rparr>) = ([], False, False)"
  by (simp add: GetImageCandidate_def processImage_def)

text \<open>
  The waits for nodes come back, provided time passes: the wait for the API server ends with a non-empty list
  of nodes or an error, the wait for a node ends with an error or with the node seen ready, and the wait for
  control-plane nodes ends with a non-empty list or an error, whatever order the set of node names is walked in.
\<close>

theorem node_waits_return:
  assumes "api_time cli" and "\<And>ns. distinct ns \<Longrightarrow> distinct (order ns) \<and> set (order ns) = set ns"
  shows "(\<exists>r s'. WaitUntilGetNodesSucceeds cli s = Some (r, s') \<and> (\<forall>nodes. r = Inr nodes \<longrightarrow> nodes \<noteq> []))
    \<and> (\<exists>r s'. WaitUntilNodeIsReady cli name s = Some (r, s') \<and>
         (r = Inr () \<longrightarrow> (\<exists>t node. na_GetNode cli name t = (Inr node, s') \<and> IsNodeReady node)))
    \<and> (\<exists>r s'. WaitForControlPlaneNodes order cli s = Some (r, s') \<and>
         (\<forall>nodes. r = Inr nodes \<longrightarrow> nodes \<noteq> [] \<and> (\<exists>t. GetControlPlaneNodes order cli t = (Inr nodes, s'))))"
proof (intro conjI)
  obtain r s1 where g: "na_GetNodeList cli s = (r, s1)" by fastforce
  obtain r' s' where p: "poll_nodes cli (na_Now cli s1 + 15 * 60 * duration_s) s1 = Some (r', s')"
    "\<forall>nodes. r' = Inr nodes \<longrightarrow> nodes \<noteq> []"
    using poll_nodes_returns [OF assms(1)] by blast
  show "\<exists>r s'. WaitUntilGetNodesSucceeds cli s = Some (r, s') \<and> (\<forall>nodes. r = Inr nodes \<longrightarrow> nodes \<noteq> [])"
    using g p by (cases r; cases r') (auto simp: WaitUntilGetNodesSucceeds_def)
  obtain q t where "poll_ready cli name (na_Now cli s + 10 * 60 * duration_s) s = Some (q, t)"
    "q = Inr () \<longrightarrow> (\<exists>t' node. na_GetNode cli name t' = (Inr node, t) \<and> IsNodeReady node)"
    using poll_ready_returns [OF assms(1)] by blast
  then show "\<exists>r s'. WaitUntilNodeIsReady cli name s = Some (r, s') \<and>
         (r = Inr () \<longrightarrow> (\<exists>t node. na_GetNode cli name t = (Inr node, s') \<and> IsNodeReady node))"
    by (cases q) (auto simp: WaitUntilNodeIsReady_def)
next
  have "0 < 10 * duration_s" by (simp add: duration_s_def)
  then obtain l ff e s' where run: "LinearRetry (control_plane_retry order cli) s = Some ((l, ff, e), s')"
    and ok: "e = None \<Longrightarrow> \<exists>t x. rw_ftor (control_plane_retry order cli) t = ((l, x, None), s')"
    unfolding LinearRetry_def by (rule linear_retry_returns [OF control_plane_time [OF assms(1)]]) blast
  have "\<exists>nodes. l = Some nodes \<and> nodes \<noteq> [] \<and> GetControlPlaneNodes order cli t = (Inr nodes, s')"
    if "rw_ftor (control_plane_retry order cli) t = ((l, x, None), s')" for t x
    using that by (auto simp: control_plane_retry_def split: prod.splits sum.splits if_splits)
  with run ok show "\<exists>r s'. WaitForControlPlaneNodes order cli s = Some (r, s') \<and>
         (\<forall>nodes. r = Inr nodes \<longrightarrow> nodes \<noteq> [] \<and> (\<exists>t. GetControlPlaneNodes order cli t = (Inr nodes, s')))"
    by (cases e; cases l) (fastforce simp: WaitForControlPlaneNodes_def)+
qed

text \<open>A cluster whose clock is the state, with one node that becomes ready after a minute.\<close>

definition sample_api :: "int node_api" where
  "sample_api = \<lparr>
     na_GetNode = (\<lambda>n s. (Inr ((sample_node [])\<lparr>kn_Name := n,
        kn_Conditions := [\<lparr>nc_Type = ''Ready'', nc_Status = (if s > 60 * duration_s then ''True'' else ''False'')\<rparr>]\<rparr>), s + 1)),
     na_GetNodeList = (\<lambda>s. (Inr [(sample_node [])\<lparr>kn_Conditions := [\<lparr>nc_Type = ''Ready'', nc_Status = ''True''\<rparr>]\<rparr>], s + 1)),
     na_ControlPlanePods = (\<lambda>s. (Inr [''n1'', ''n1''], s + 1)),
     na_Now = (\<lambda>s. s), na_Sleep = (\<lambda>d s. s + d)\<rparr>"

theorem node_waits_return_witness:
  "\<exists>r s'. WaitForControlPlaneNodes id sample_api 0 = Some (r, s')"
proof -
  have "api_time sample_api" by (simp add: api_time_def sample_api_def)
  from node_waits_return [OF this, of id 0 "''n1''"] show ?thesis by auto
qed

end
