(* ===== verification/Kube_Api.thy ===== *)
theory Kube_Api
  imports Effects K8s_Nodes
begin

text \<open>
  The Kubernetes API server as the commands use it (\<^verbatim>\<open>pkg/k8s/pod.go\<close>, \<^verbatim>\<open>configmap.go\<close>, \<^verbatim>\<open>namespace.go\<close>)
  and the scripts that are run on a node through a privileged pod (\<^verbatim>\<open>pkg/util/script\<close>).  Each change of the
  cluster is an event; the requests themselves are fields of \<open>kube_api\<close>.
\<close>

text \<open>An API error is "not found" or another one.\<close>

datatype kerror = KNotFound gerror | KOther gerror

fun kerror_text :: "kerror \<Rightarrow> gerror" where
  "kerror_text (KNotFound e) = e"
| "kerror_text (KOther e) = e"

record PodOptions =
  po_NodeName :: string
  po_Namespace :: string
  po_PodName :: string
  po_ImageName :: string
  po_ConfigMapName :: string
  po_HostPID :: bool
  po_HostNetwork :: bool
  po_Env :: "(string \<times> string) list"

record KPod =
  pod_Name :: string
  pod_Annotations :: "string \<rightharpoonup> string"
  pod_Ready :: "bool list"

datatype kube_event =
    EvDeleteConfigmap string string
  | EvCreateConfigmap string string "(string \<times> string) list"
  | EvUpdateConfigMap string string string
  | EvProviderStage string
  | EvDeletePod string string
  | EvCreateScriptsPod PodOptions
  | EvExec string string
  | EvCreateNamespace string
  | EvDrain "string list"
  | EvUncordon string
  | EvHelmUpgrade string string string
  | EvPreInstall string

record 's kube_api =
  ka_node :: "'s node_api"
  ka_GetPod :: "string \<Rightarrow> string \<Rightarrow> 's \<Rightarrow> KPod result \<times> 's"
  ka_GetPods :: "string \<Rightarrow> 's \<Rightarrow> KPod list result \<times> 's"
  ka_DeletePod :: "string \<Rightarrow> string \<Rightarrow> 's \<Rightarrow> (kerror + unit) \<times> 's"
  ka_CreatePod :: "PodOptions \<Rightarrow> 's \<Rightarrow> unit result \<times> 's"
  ka_GetConfigmap :: "string \<Rightarrow> string \<Rightarrow> 's \<Rightarrow> (string \<rightharpoonup> string) result \<times> 's"
  ka_UpdateConfigMap :: "string \<Rightarrow> string \<Rightarrow> (string \<rightharpoonup> string) \<Rightarrow> 's \<Rightarrow> unit result \<times> 's"
  ka_DeleteConfigmap :: "string \<Rightarrow> string \<Rightarrow> 's \<Rightarrow> (kerror + unit) \<times> 's"
  ka_CreateConfigmap :: "string \<Rightarrow> string \<Rightarrow> (string \<times> string) list \<Rightarrow> 's \<Rightarrow> unit result \<times> 's"
  ka_GetNamespace :: "string \<Rightarrow> 's \<Rightarrow> (kerror + unit) \<times> 's"
  ka_CreateNamespace :: "string \<Rightarrow> 's \<Rightarrow> unit result \<times> 's"
  ka_WaitForServiceAccount :: "string \<Rightarrow> string \<Rightarrow> 's \<Rightarrow> unit result \<times> 's"
  ka_NewKubectlConfig :: "string list \<Rightarrow> 's \<Rightarrow> unit result \<times> 's"
  ka_RunInPod :: "string \<Rightarrow> string \<Rightarrow> 's \<Rightarrow> string result \<times> 's"
  ka_DaemonSetImages :: "string \<Rightarrow> string \<Rightarrow> 's \<Rightarrow> string list result \<times> 's"
  ka_DeploymentImages :: "string \<Rightarrow> string \<Rightarrow> 's \<Rightarrow> string list result \<times> 's"
  ka_ClusterDNS :: "'s \<Rightarrow> string list result \<times> 's"
  ka_ControlPlaneEndpoint :: "'s \<Rightarrow> string result \<times> 's"
  ka_Drain :: "string list \<Rightarrow> 's \<Rightarrow> unit result \<times> 's"
  ka_Uncordon :: "string \<Rightarrow> 's \<Rightarrow> unit result \<times> 's"

type_synonym ('s, 'a) kact = "('s, kube_event, 'a) act"

section \<open>Actions\<close>

text \<open>Keep an API error as a value, to look at its kind.\<close>

definition keep :: "('s \<Rightarrow> ('e + 'a) \<times> 's) \<Rightarrow> 's \<Rightarrow> ('e + 'a) result \<times> 's" where
  "keep q s = (case q s of (r, s') \<Rightarrow> (Inr r, s'))"

text \<open>Run the action, then the deferred one, whose result is dropped.\<close>

definition adefer :: "('s, 'e, 'a) act \<Rightarrow> ('s, 'e, 'b) act \<Rightarrow> ('s, 'e, 'a) act" where
  "adefer m d = (\<lambda>w. case m w of (r, w1) \<Rightarrow> (r, snd (d w1)))"

lemma emits_adefer [emits_intro]:
  assumes "emits P m" and "emits P d"
  shows "emits P (adefer m d)"
proof (rule emitsI)
  fix s tr r s' tr'
  assume run: "adefer m d (s, tr) = (r, s', tr')"
  obtain q s1 tr1 where m: "m (s, tr) = (q, s1, tr1)" by (metis prod.exhaust)
  obtain q2 s2 tr2 where d: "d (s1, tr1) = (q2, s2, tr2)" by (metis prod.exhaust)
  obtain e1 e2 where "tr1 = tr @ e1" "list_all P e1" "tr2 = tr1 @ e2" "list_all P e2"
    using emitsD [OF assms(1) m] emitsD [OF assms(2) d] by blast
  with run m d show "\<exists>evs. tr' = tr @ evs \<and> list_all P evs" by (auto simp: adefer_def)
qed

text \<open>Retrying an action: \<open>util.LinearRetryTimeout\<close> on the API server's clock.  The error for a retry that never
  comes back is never seen when time passes.\<close>

definition act_retry_world ::
  "'s node_api \<Rightarrow> ('s \<times> 'e list \<Rightarrow> ('r option \<times> bool \<times> gerror option) \<times> 's \<times> 'e list) \<Rightarrow> ('s \<times> 'e list, 'r) retry_world" where
  "act_retry_world na f = \<lparr>rw_ftor = f, rw_Now = (\<lambda>(s, _). na_Now na s), rw_Sleep = (\<lambda>d (s, tr). (na_Sleep na d s, tr))\<rparr>"

definition aretry ::
  "'s node_api \<Rightarrow> int \<Rightarrow> ('s \<times> 'e list \<Rightarrow> ('r option \<times> bool \<times> gerror option) \<times> 's \<times> 'e list) \<Rightarrow> ('s, 'e, 'r option) act" where
  "aretry na timeout f = (\<lambda>w. case LinearRetryTimeout (act_retry_world na f) timeout w of
       None \<Rightarrow> (Inl ''retry does not return'', w)
     | Some ((r, _, None), w') \<Rightarrow> (Inr r, w')
     | Some ((r, _, Some e), w') \<Rightarrow> (Inl e, w'))"

text \<open>The functors of the program never fail fast: \<open>return nil, false, err\<close>.\<close>

definition retry_functor :: "('s, 'e, 'a) act \<Rightarrow> 's \<times> 'e list \<Rightarrow> ('a option \<times> bool \<times> gerror option) \<times> 's \<times> 'e list" where
  "retry_functor m w = (case m w of (Inl e, w') \<Rightarrow> ((None, False, Some e), w') | (Inr x, w') \<Rightarrow> ((Some x, False, None), w'))"

lemma emits_aretry [emits_intro]:
  assumes "emits P m"
  shows "emits P (aretry na timeout (retry_functor m))"
proof (rule emitsI)
  fix s tr r s' tr'
  assume run: "aretry na timeout (retry_functor m) (s, tr) = (r, s', tr')"
  let ?w = "act_retry_world na (retry_functor m)"
  let ?I = "\<lambda>w. \<exists>evs. snd w = tr @ evs \<and> list_all P evs"
  show "\<exists>evs. tr' = tr @ evs \<and> list_all P evs"
  proof (cases "LinearRetryTimeout ?w timeout (s, tr)")
    case None
    with run show ?thesis by (simp add: aretry_def)
  next
    case (Some y)
    then obtain x w' where y: "LinearRetryTimeout ?w timeout (s, tr) = Some (x, w')" by (cases y) auto
    have "?I w'"
    proof (rule retry_loop_keeps [OF y [unfolded LinearRetryTimeout_def LinearRetryImpl_def ExponentialRetryImpl_def]])
      show "?I (s, tr)" by simp
      show "?I t'" if "?I t" "rw_ftor ?w t = (x, t')" for t x t'
      proof -
        obtain q t1 where m: "m t = (q, t1)" by (cases "m t")
        with that(2) have "t1 = t'" by (auto simp: act_retry_world_def retry_functor_def split: sum.splits)
        with m emitsD [OF assms, of "fst t" "snd t" q "fst t'" "snd t'"]
        obtain evs where "snd t' = snd t @ evs" "list_all P evs" by auto
        with that(1) show ?thesis by auto
      qed
      show "?I (rw_Sleep ?w d t)" if "?I t" for d t
        using that by (auto simp: act_retry_world_def split: prod.splits)
    qed
    with run y show ?thesis by (auto simp: aretry_def split: prod.splits option.splits)
  qed
qed

text \<open>A first attempt that succeeds is the result.\<close>

lemma aretry_first:
  assumes "m w = (Inr x, w')" and "0 < timeout"
  shows "aretry na timeout (retry_functor m) w = (Inr (Some x), w')"
  using assms
  by (simp add: aretry_def LinearRetryTimeout_def LinearRetryImpl_def ExponentialRetryImpl_def retry_loop.simps
      act_retry_world_def retry_functor_def split: prod.split)

definition DeletePod :: "'s kube_api \<Rightarrow> string \<Rightarrow> string \<Rightarrow> ('s, unit) kact" where
  "DeletePod ka ns name =
     abind (perform (EvDeletePod ns name) (keep (ka_DeletePod ka ns name))) (\<lambda>r.
       (case r of Inr _ \<Rightarrow> aret () | Inl (KNotFound _) \<Rightarrow> aret () | Inl (KOther e) \<Rightarrow> afail e))"

definition DeleteConfigmap :: "'s kube_api \<Rightarrow> string \<Rightarrow> string \<Rightarrow> ('s, unit) kact" where
  "DeleteConfigmap ka ns name =
     abind (perform (EvDeleteConfigmap ns name) (keep (ka_DeleteConfigmap ka ns name))) (\<lambda>r.
       (case r of Inr _ \<Rightarrow> aret () | Inl (KNotFound _) \<Rightarrow> aret () | Inl (KOther e) \<Rightarrow> afail e))"

definition CreateConfigMapWithData :: "'s kube_api \<Rightarrow> string \<Rightarrow> string \<Rightarrow> (string \<times> string) list \<Rightarrow> ('s, unit) kact" where
  "CreateConfigMapWithData ka ns name data =
     perform (EvCreateConfigmap ns name data) (ka_CreateConfigmap ka ns name data)"

definition CreateScriptsPod :: "'s kube_api \<Rightarrow> PodOptions \<Rightarrow> ('s, unit) kact" where
  "CreateScriptsPod ka p = perform (EvCreateScriptsPod p) (ka_CreatePod ka p)"

text \<open>At most 49 looks at the pod, five seconds apart; \<open>n\<close> is how many are left after this one.\<close>

fun wait_pod_loop :: "'s kube_api \<Rightarrow> string \<Rightarrow> string \<Rightarrow> nat \<Rightarrow> 's \<Rightarrow> unit result \<times> 's" where
  "wait_pod_loop ka ns name n s =
     (case ka_GetPod ka ns name s of (r, s1) \<Rightarrow>
        if (case r of Inr pod \<Rightarrow> pod_Ready pod = [True] | Inl _ \<Rightarrow> False) then (Inr (), s1)
        else (case n of
                0 \<Rightarrow> (case r of Inl err \<Rightarrow> (Inl err, s1)
                      | Inr _ \<Rightarrow> (Inl (''Timed out waiting for pod '' @ ns @ ''/'' @ name @ '' to be ready''), s1))
              | Suc m \<Rightarrow> wait_pod_loop ka ns name m (na_Sleep (ka_node ka) (5 * duration_s) s1)))"

declare wait_pod_loop.simps [simp del]

definition WaitUntilPodReady :: "'s kube_api \<Rightarrow> string \<Rightarrow> string \<Rightarrow> 's \<Rightarrow> unit result \<times> 's" where
  "WaitUntilPodReady ka ns name s =
     (case wait_pod_loop ka ns name 48 s of
        (Inl _, s1) \<Rightarrow> (Inl (''Timeout waiting for pod '' @ ns @ ''/'' @ name @ '' to be ready''), s1)
      | (Inr u, s1) \<Rightarrow> (Inr u, s1))"

definition CreateNamespaceIfNotExists :: "'s kube_api \<Rightarrow> string \<Rightarrow> ('s, unit) kact" where
  "CreateNamespaceIfNotExists ka name =
     abind (ask (keep (ka_GetNamespace ka name))) (\<lambda>r.
       (case r of
          Inr _ \<Rightarrow> aret ()
        | Inl (KNotFound _) \<Rightarrow>
            abind (perform (EvCreateNamespace name) (ka_CreateNamespace ka name)) (\<lambda>_.
              ask (ka_WaitForServiceAccount ka ''default'' name))
        | Inl (KOther e) \<Rightarrow> afail e))"

section \<open>Scripts on a node\<close>

definition DefaultPodImage :: string where
  "DefaultPodImage = ''container-registry.oracle.com/os/oraclelinux:8''"

text \<open>The result is what the script printed, which callers read from the stream they configured.\<close>

definition RunScript ::
  "'s kube_api \<Rightarrow> string \<Rightarrow> string \<Rightarrow> string \<Rightarrow> string \<Rightarrow> (string \<times> string) list \<Rightarrow> ('s, string) kact" where
  "RunScript ka nodeName ns action script envVars =
     (let nodeAction = action @ ''-'' @ nodeName;
          podName = nodeAction @ ''-pod'';
          cmName = nodeAction @ ''-cm'';
          scriptName = nodeAction @ ''.sh'';
          p = \<lparr>po_NodeName = nodeName, po_Namespace = ns, po_PodName = podName, po_ImageName = DefaultPodImage,
               po_ConfigMapName = cmName, po_HostPID = True, po_HostNetwork = True, po_Env = envVars\<rparr>
      in abind (DeleteConfigmap ka ns cmName) (\<lambda>_.
           adefer
             (abind (CreateConfigMapWithData ka ns cmName [(scriptName, script)]) (\<lambda>_.
              abind (DeletePod ka ns podName) (\<lambda>_.
                adefer
                  (abind (CreateScriptsPod ka p) (\<lambda>_.
                   abind (ask (WaitUntilPodReady ka ns podName)) (\<lambda>_.
                     perform (EvExec podName script) (ka_RunInPod ka podName script))))
                  (DeletePod ka ns podName))))
             (DeleteConfigmap ka ns cmName)))"

section \<open>Lemmas\<close>

lemma DeletePod_run: "\<exists>r s'. DeletePod ka ns name (s, tr) = (r, s', tr @ [EvDeletePod ns name])"
  by (auto simp: DeletePod_def abind_def perform_def keep_def split: prod.splits sum.splits kerror.splits)

lemma DeleteConfigmap_run: "\<exists>r s'. DeleteConfigmap ka ns name (s, tr) = (r, s', tr @ [EvDeleteConfigmap ns name])"
  by (auto simp: DeleteConfigmap_def abind_def perform_def keep_def split: prod.splits sum.splits kerror.splits)

lemma emits_DeletePod [emits_intro]: "P (EvDeletePod ns name) \<Longrightarrow> emits P (DeletePod ka ns name)"
  unfolding DeletePod_def by (auto intro!: emits_intro split: sum.splits kerror.splits)

lemma emits_DeleteConfigmap [emits_intro]: "P (EvDeleteConfigmap ns name) \<Longrightarrow> emits P (DeleteConfigmap ka ns name)"
  unfolding DeleteConfigmap_def by (auto intro!: emits_intro split: sum.splits kerror.splits)

lemma emits_CreateNamespaceIfNotExists [emits_intro]:
  "P (EvCreateNamespace name) \<Longrightarrow> emits P (CreateNamespaceIfNotExists ka name)"
  unfolding CreateNamespaceIfNotExists_def by (auto intro!: emits_intro split: sum.splits kerror.splits)

text \<open>The events of a script on a node: its config map, its pod, and itself.\<close>

definition script_event :: "string \<Rightarrow> string \<Rightarrow> string \<Rightarrow> string \<Rightarrow> kube_event \<Rightarrow> bool" where
  "script_event nodeName ns action script ev \<longleftrightarrow>
     (let n = action @ ''-'' @ nodeName
      in ev = EvDeleteConfigmap ns (n @ ''-cm'') \<or> ev = EvCreateConfigmap ns (n @ ''-cm'') [(n @ ''.sh'', script)]
       \<or> ev = EvDeletePod ns (n @ ''-pod'') \<or> (\<exists>p. ev = EvCreateScriptsPod p \<and> po_NodeName p = nodeName)
       \<or> ev = EvExec (n @ ''-pod'') script)"

lemma emits_RunScript: "emits (script_event nodeName ns action script) (RunScript ka nodeName ns action script env)"
  unfolding RunScript_def Let_def CreateConfigMapWithData_def CreateScriptsPod_def
  by (intro emits_intro) (simp_all add: script_event_def Let_def)

lemma emits_RunScript' [emits_intro]:
  "(\<And>ev. script_event nodeName ns action script ev \<Longrightarrow> P ev) \<Longrightarrow> emits P (RunScript ka nodeName ns action script env)"
  by (rule emits_mono [OF emits_RunScript])

lemma DeletePod_trace: "DeletePod ka ns name (s, tr) = (r, s', tr') \<Longrightarrow> tr' = tr @ [EvDeletePod ns name]"
  using DeletePod_run [of ka ns name s tr] by auto

lemma DeleteConfigmap_trace: "DeleteConfigmap ka ns name (s, tr) = (r, s', tr') \<Longrightarrow> tr' = tr @ [EvDeleteConfigmap ns name]"
  using DeleteConfigmap_run [of ka ns name s tr] by auto

lemma ask_trace: "ask q (s, tr) = (r, s', tr') \<Longrightarrow> tr' = tr"
  by (auto simp: ask_def split: prod.splits)

lemma perform_trace: "perform ev q (s, tr) = (r, s', tr') \<Longrightarrow> tr' = tr @ [ev]"
  by (auto simp: perform_def split: prod.splits)

lemma abind_cases:
  assumes "abind m f (s, tr) = (r, s', tr')"
  obtains (err) e where "m (s, tr) = (Inl e, s', tr')" "r = Inl e"
    | (ok) x s1 tr1 where "m (s, tr) = (Inr x, s1, tr1)" "f x (s1, tr1) = (r, s', tr')"
  using assms by (auto simp: abind_def split: prod.splits sum.splits)

lemma adefer_cases:
  assumes "adefer m d (s, tr) = (r, s', tr')"
  obtains s1 tr1 q where "m (s, tr) = (r, s1, tr1)" "d (s1, tr1) = (q, s', tr')"
  using assms by (cases "m (s, tr)"; cases "d (snd (m (s, tr)))") (auto simp: adefer_def)

text \<open>
  A cluster in the small, for examples: every request succeeds, pods are ready at once, and every script prints
  \<open>out\<close>; the state is the clock.
\<close>

definition sample_kube :: "string \<Rightarrow> int kube_api" where
  "sample_kube out = \<lparr>
     ka_node = sample_api,
     ka_GetPod = (\<lambda>_ n s. (Inr \<lparr>pod_Name = n, pod_Annotations = Map.empty, pod_Ready = [True]\<rparr>, s)),
     ka_GetPods = (\<lambda>_ s. (Inr [\<lparr>pod_Name = ''kube-apiserver-n1'',
        pod_Annotations = [''kubeadm.kubernetes.io/kube-apiserver.advertise-address.endpoint'' \<mapsto> ''10.0.0.1:6444''],
        pod_Ready = [True]\<rparr>], s)),
     ka_DeletePod = (\<lambda>_ _ s. (Inr (), s)), ka_CreatePod = (\<lambda>_ s. (Inr (), s)),
     ka_GetConfigmap = (\<lambda>_ _ s. (Inr Map.empty, s)), ka_UpdateConfigMap = (\<lambda>_ _ _ s. (Inr (), s)),
     ka_DeleteConfigmap = (\<lambda>_ _ s. (Inr (), s)), ka_CreateConfigmap = (\<lambda>_ _ _ s. (Inr (), s)),
     ka_GetNamespace = (\<lambda>_ s. (Inr (), s)), ka_CreateNamespace = (\<lambda>_ s. (Inr (), s)),
     ka_WaitForServiceAccount = (\<lambda>_ _ s. (Inr (), s)), ka_NewKubectlConfig = (\<lambda>_ s. (Inr (), s)),
     ka_RunInPod = (\<lambda>_ _ s. (Inr out, s)),
     ka_DaemonSetImages = (\<lambda>_ _ s. (Inr [], s)), ka_DeploymentImages = (\<lambda>_ _ s. (Inr [], s)),
     ka_ClusterDNS = (\<lambda>s. (Inr [], s)), ka_ControlPlaneEndpoint = (\<lambda>s. (Inr ''10.0.0.9:6443'', s)),
     ka_Drain = (\<lambda>_ s. (Inr (), s)), ka_Uncordon = (\<lambda>_ s. (Inr (), s))\<rparr>"

lemma sample_RunScript:
  "RunScript (sample_kube out) n ns a script env (s, tr) = (Inr out, s, tr @
     [EvDeleteConfigmap ns (a @ ''-'' @ n @ ''-cm''),
      EvCreateConfigmap ns (a @ ''-'' @ n @ ''-cm'') [(a @ ''-'' @ n @ ''.sh'', script)],
      EvDeletePod ns (a @ ''-'' @ n @ ''-pod''),
      EvCreateScriptsPod \<lparr>po_NodeName = n, po_Namespace = ns, po_PodName = a @ ''-'' @ n @ ''-pod'',
        po_ImageName = DefaultPodImage, po_ConfigMapName = a @ ''-'' @ n @ ''-cm'', po_HostPID = True,
        po_HostNetwork = True, po_Env = env\<rparr>,
      EvExec (a @ ''-'' @ n @ ''-pod'') script,
      EvDeletePod ns (a @ ''-'' @ n @ ''-pod''), EvDeleteConfigmap ns (a @ ''-'' @ n @ ''-cm'')])"
proof -
  have w: "wait_pod_loop (sample_kube out) ns name k s = (Inr (), s)" for name k
    by (subst wait_pod_loop.simps) (simp add: sample_kube_def)
  have del: "DeletePod (sample_kube out) ns name (s, tr) = (Inr (), s, tr @ [EvDeletePod ns name])"
    "DeleteConfigmap (sample_kube out) ns name (s, tr) = (Inr (), s, tr @ [EvDeleteConfigmap ns name])" for name tr
    by (simp_all add: DeletePod_def DeleteConfigmap_def abind_def perform_def keep_def sample_kube_def)
  have new: "ka_CreateConfigmap (sample_kube out) ns name d s = (Inr (), s)" "ka_CreatePod (sample_kube out) p s = (Inr (), s)"
    "ka_RunInPod (sample_kube out) pod script s = (Inr out, s)" for name d p pod
    by (simp_all add: sample_kube_def)
  show ?thesis
    by (simp add: RunScript_def Let_def abind_def adefer_def CreateConfigMapWithData_def CreateScriptsPod_def perform_def
        ask_def WaitUntilPodReady_def w del new)
qed

lemma sample_DeletePod:
  "DeletePod (sample_kube out) ns name (s, tr) = (Inr (), s, tr @ [EvDeletePod ns name])"
  by (simp add: DeletePod_def abind_def perform_def keep_def sample_kube_def)

text \<open>
  C4. A script on a node cleans up after itself: whatever fails, and at whatever point, a config map that was
  created is deleted last, and a pod that was created is deleted just before it.  The script ran if the result is no
  error, and it ran at most once.
\<close>

theorem RunScript_cleans_up:
  assumes "RunScript ka nodeName ns action script env (s, tr) = (r, s', tr')"
  shows "\<exists>evs. tr' = tr @ evs \<and>
    (let n = action @ ''-'' @ nodeName; dcm = EvDeleteConfigmap ns (n @ ''-cm''); dpod = EvDeletePod ns (n @ ''-pod'');
         ccm = EvCreateConfigmap ns (n @ ''-cm'') [(n @ ''.sh'', script)];
         cpod = EvCreateScriptsPod \<lparr>po_NodeName = nodeName, po_Namespace = ns, po_PodName = n @ ''-pod'',
            po_ImageName = DefaultPodImage, po_ConfigMapName = n @ ''-cm'', po_HostPID = True, po_HostNetwork = True, po_Env = env\<rparr>
     in (is_ok r \<longrightarrow> EvExec (n @ ''-pod'') script \<in> set evs) \<and>
        evs \<in> {[dcm], [dcm, ccm, dcm], [dcm, ccm, dpod, dcm], [dcm, ccm, dpod, cpod, dpod, dcm],
               [dcm, ccm, dpod, cpod, EvExec (n @ ''-pod'') script, dpod, dcm]})"
  using assms unfolding RunScript_def Let_def CreateConfigMapWithData_def CreateScriptsPod_def
  by (auto elim!: abind_cases adefer_cases dest!: DeletePod_trace DeleteConfigmap_trace ask_trace perform_trace)

theorem RunScript_cleans_up_witness:
  "\<exists>r s' tr'. RunScript (sample_kube []\<lparr>ka_CreatePod := (\<lambda>_ s. (Inl ''no room'', s))\<rparr>) ''n1'' ''ns'' ''act'' ''true'' [] (0, [])
       = (r, s', tr') \<and> last tr' = EvDeleteConfigmap ''ns'' ''act-n1-cm''"
proof -
  obtain r s' tr' where run: "RunScript (sample_kube []\<lparr>ka_CreatePod := (\<lambda>_ s. (Inl ''no room'', s))\<rparr>) ''n1'' ''ns'' ''act'' ''true'' [] (0, [])
      = (r, s', tr')" by (metis prod.exhaust)
  from RunScript_cleans_up [OF run] have "last tr' = EvDeleteConfigmap ''ns'' ''act-n1-cm''"
    by (auto simp: Let_def)
  with run show ?thesis by blast
qed

end
