(* ===== verification/Helm_Client.thy ===== *)
theory Helm_Client
  imports Effects Go_Values Retry Semver
begin

text \<open>
  The layer over the Helm library (\<^verbatim>\<open>pkg/helm\<close>): merging the values of several overrides, reading
  override files from Git, installing and upgrading a chart, questions about releases.  The library is the record
  \<open>helm_lib\<close>; a loaded chart is a value of type \<open>'h\<close>.  The action configuration of a namespace can fail to be made
  (\<open>hl_Init\<close>), and each call of the library names its namespace.
\<close>

section \<open>Data\<close>

type_synonym values_map = "string \<rightharpoonup> gval"

record HelmOverrides =
  ho_LiteralOverride :: string
  ho_SetOverrides :: string
  ho_SetStringOverrides :: string
  ho_SetFileOverrides :: string
  ho_FileOverride :: string

definition zero_HelmOverrides :: HelmOverrides where
  "zero_HelmOverrides = \<lparr>ho_LiteralOverride = [], ho_SetOverrides = [], ho_SetStringOverrides = [],
     ho_SetFileOverrides = [], ho_FileOverride = []\<rparr>"

record KeyValue =
  kv_Key :: string
  kv_Value :: string
  kv_SetString :: bool

text \<open>What the program looks at of a release.\<close>

record HelmRelease =
  hr_Name :: string
  hr_Status :: string
  hr_AppVersion :: string
  hr_ChartVersion :: string
  hr_Namespace :: string

definition ReleaseNotFound :: string where "ReleaseNotFound = ''NotFound''"
definition ReleaseStatusDeployed :: string where "ReleaseStatusDeployed = ''deployed''"
definition ReleaseStatusFailed :: string where "ReleaseStatusFailed = ''failed''"

text \<open>The fields that are set of the library's install and upgrade clients, with the values.\<close>

record UpgradeClient =
  uc_Namespace :: string
  uc_ReleaseName :: string
  uc_DryRun :: bool
  uc_Wait :: bool
  uc_ResetValues :: bool
  uc_CreateNamespace :: bool
  uc_Replace :: bool
  uc_TakeOwnership :: bool
  uc_Values :: values_map

datatype helm_event = EvHelmInstall UpgradeClient | EvHelmUpgradeRelease UpgradeClient | EvHelmUninstall string string

datatype git_reference = GitHash string | GitTag string | GitRemoteBranch string string

record ('s, 'h) helm_lib =
  hl_Init :: "string \<Rightarrow> 's \<Rightarrow> unit result \<times> 's"
  hl_GetRelease :: "string \<Rightarrow> string \<Rightarrow> 's \<Rightarrow> HelmRelease result \<times> 's"
  hl_GetValues :: "string \<Rightarrow> string \<Rightarrow> bool \<Rightarrow> 's \<Rightarrow> values_map option result \<times> 's"
  hl_Status :: "string \<Rightarrow> string \<Rightarrow> 's \<Rightarrow> HelmRelease result \<times> 's"
  hl_List :: "string \<Rightarrow> bool \<Rightarrow> 's \<Rightarrow> HelmRelease list result \<times> 's"
  hl_Upgrade :: "UpgradeClient \<Rightarrow> 'h \<Rightarrow> 's \<Rightarrow> HelmRelease result \<times> 's"
  hl_Install :: "UpgradeClient \<Rightarrow> 'h \<Rightarrow> 's \<Rightarrow> HelmRelease result \<times> 's"
  hl_Template :: "string \<Rightarrow> string \<times> string \<times> string \<Rightarrow> 'h \<Rightarrow> values_map \<Rightarrow> 's \<Rightarrow> (string \<times> string list) result \<times> 's"
  hl_Uninstall :: "string \<Rightarrow> string \<Rightarrow> bool \<Rightarrow> 's \<Rightarrow> unit result \<times> 's"
  hl_LoadArchive :: "string \<Rightarrow> 'h result"
  hl_ChartName :: "'h \<Rightarrow> string"
  hl_RawFiles :: "'h \<Rightarrow> (string \<times> string) list"
  hl_Unmarshal :: "string \<Rightarrow> values_map result"
  hl_Marshal :: "values_map option \<Rightarrow> string result"
  hl_ParseInto :: "string \<Rightarrow> values_map \<Rightarrow> values_map result"
  hl_ParseIntoString :: "string \<Rightarrow> values_map \<Rightarrow> values_map result"
  hl_ParseIntoFile :: "string \<Rightarrow> (string \<Rightarrow> 's \<Rightarrow> string result outcome \<times> 's) \<Rightarrow> values_map \<Rightarrow> 's \<Rightarrow> values_map result outcome \<times> 's"
  hl_Stdin :: "'s \<Rightarrow> string result \<times> 's"
  hl_ReadFile :: "string \<Rightarrow> 's \<Rightarrow> string result \<times> 's"
  hl_UrlScheme :: "string \<Rightarrow> string result"
  hl_Getter :: "string \<Rightarrow> (string \<Rightarrow> 's \<Rightarrow> string result \<times> 's) option"
  hl_Clone :: "string \<Rightarrow> 's \<Rightarrow> unit result \<times> 's"
  hl_Worktree :: "'s \<Rightarrow> unit result \<times> 's"
  hl_Checkout :: "git_reference \<Rightarrow> 's \<Rightarrow> unit result \<times> 's"
  hl_OpenCloned :: "string \<Rightarrow> 's \<Rightarrow> unit result \<times> 's"
  hl_ReadCloned :: "string \<Rightarrow> 's \<Rightarrow> string result \<times> 's"
  hl_Now :: "'s \<Rightarrow> int"
  hl_Sleep :: "int \<Rightarrow> 's \<Rightarrow> 's"

section \<open>Override files from Git\<close>

definition git_schemes :: "string list" where "git_schemes = [''git+http'', ''git+ssh'', ''git+https'']"

text \<open>\<open>url[4:]\<close> and the elements with index 1 panic when they are not there.\<close>

definition parseGitURL :: "string \<Rightarrow> (string \<times> string \<times> string \<times> string) result outcome" where
  "parseGitURL url =
     (if length url < 4 then Panics
      else let url = drop 4 url
      in if \<not> (go_contains url ''?'' \<and> go_contains url ''&'' \<and> go_contains url ''='')
         then Returns (Inl ''the provided url is not in the correct format'')
         else (case go_split url ''&'' of
                 repoURL # second # _ \<Rightarrow>
                   (case go_split second ''?'' of
                      filePath # query # _ \<Rightarrow>
                        (case go_split query ''='' of
                           valueType # val # _ \<Rightarrow> Returns (Inr (repoURL, filePath, valueType, val))
                         | _ \<Rightarrow> Panics)
                    | _ \<Rightarrow> Panics)
               | _ \<Rightarrow> Panics))"

definition git_checkout :: "('s, 'h) helm_lib \<Rightarrow> string \<Rightarrow> string \<Rightarrow> ('s, 'e, unit) act" where
  "git_checkout hl valueType val =
     (if valueType = ''commit'' then ask (hl_Checkout hl (GitHash val))
      else if valueType = ''tag'' then ask (hl_Checkout hl (GitTag val))
      else if valueType = ''branch'' then ask (hl_Checkout hl (GitRemoteBranch ''origin'' val))
      else afail ''A type of tag, commit, or branch was not specified in the url'')"

text \<open>The error of the clone is overwritten by the next call's.\<close>

definition git_Get :: "('s, 'h) helm_lib \<Rightarrow> string \<Rightarrow> ('s, 'e, string outcome) act" where
  "git_Get hl url =
     panic_or (parseGitURL url) (\<lambda>(repoURL, filePath, valueType, val).
       atry (ask (hl_Clone hl repoURL)) (\<lambda>_.
       abind (ask (hl_Worktree hl)) (\<lambda>_.
       abind (git_checkout hl valueType val) (\<lambda>_.
       abind (ask (hl_OpenCloned hl filePath)) (\<lambda>_.
       abind (ask (hl_ReadCloned hl filePath)) (\<lambda>x. aret (Returns x)))))))"

text \<open>\<open>git\<close> tells whether the Git getter is among the providers; the library's own come first.\<close>

definition readFile :: "('s, 'h) helm_lib \<Rightarrow> bool \<Rightarrow> string \<Rightarrow> ('s, 'e, string outcome) act" where
  "readFile hl git filePath =
     (if trim_space filePath = ''-'' then abind (ask (hl_Stdin hl)) (\<lambda>x. aret (Returns x))
      else abind (alift (hl_UrlScheme hl filePath)) (\<lambda>scheme.
        case hl_Getter hl scheme of
          Some g \<Rightarrow> abind (ask (g filePath)) (\<lambda>x. aret (Returns x))
        | None \<Rightarrow>
            (if git \<and> scheme \<in> set git_schemes then git_Get hl filePath
             else abind (ask (hl_ReadFile hl filePath)) (\<lambda>x. aret (Returns x)))))"

section \<open>Merging values\<close>

text \<open>\<open>overlay_val v b\<close> is what becomes of the base value \<open>b\<close> under the overlay value \<open>v\<close>: two maps are merged, otherwise the
  overlay replaces.\<close>

primrec overlay_val :: "gval \<Rightarrow> gval \<Rightarrow> gval" where
  "overlay_val GNil b = GNil"
| "overlay_val (GBool x) b = GBool x"
| "overlay_val (GInt x) b = GInt x"
| "overlay_val (GStr x) b = GStr x"
| "overlay_val (GList x) b = GList x"
| "overlay_val (GMap ov) b =
     (case b of
        GMap mb \<Rightarrow> GMap (\<lambda>k. case (map_option overlay_val \<circ> ov) k of
                              None \<Rightarrow> mb k
                            | Some f \<Rightarrow> (case mb k of None \<Rightarrow> ov k | Some vb \<Rightarrow> Some (f vb)))
      | _ \<Rightarrow> GMap ov)"

definition MergeMaps :: "values_map \<Rightarrow> values_map \<Rightarrow> values_map" where
  "MergeMaps mBase mOverlay = (\<lambda>k. case mOverlay k of
     None \<Rightarrow> mBase k
   | Some vOverlay \<Rightarrow> (case mBase k of None \<Rightarrow> Some vOverlay | Some vBase \<Rightarrow> Some (overlay_val vOverlay vBase)))"

text \<open>\<open>readFile\<close> as the function that the library calls back.\<close>

definition file_reader :: "('s, 'h) helm_lib \<Rightarrow> bool \<Rightarrow> string \<Rightarrow> 's \<Rightarrow> string result outcome \<times> 's" where
  "file_reader hl git path s =
     (case readFile hl git path (s, [] :: unit list) of
        (Inl e, s', _) \<Rightarrow> (Returns (Inl e), s')
      | (Inr Panics, s', _) \<Rightarrow> (Panics, s')
      | (Inr (Returns x), s', _) \<Rightarrow> (Returns (Inr x), s'))"

text \<open>The five parts of one override, each applied if it is set.\<close>

definition apply_override :: "('s, 'h) helm_lib \<Rightarrow> bool \<Rightarrow> HelmOverrides \<Rightarrow> values_map \<Rightarrow> ('s, 'e, values_map outcome) act" where
  "apply_override hl git override base =
     pbind (if ho_LiteralOverride override \<noteq> []
            then abind (alift (hl_Unmarshal hl (ho_LiteralOverride override))) (\<lambda>currentMap. pret (MergeMaps base currentMap))
            else pret base) (\<lambda>base.
     pbind (if ho_FileOverride override \<noteq> []
            then pbind (readFile hl git (ho_FileOverride override)) (\<lambda>bytes.
                 abind (alift (hl_Unmarshal hl bytes)) (\<lambda>currentMap. pret (MergeMaps base currentMap)))
            else pret base) (\<lambda>base.
     abind (if ho_SetOverrides override \<noteq> [] then alift (hl_ParseInto hl (ho_SetOverrides override) base) else aret base) (\<lambda>base.
     abind (if ho_SetStringOverrides override \<noteq> []
            then alift (hl_ParseIntoString hl (ho_SetStringOverrides override) base) else aret base) (\<lambda>base.
       if ho_SetFileOverrides override \<noteq> []
       then pask (hl_ParseIntoFile hl (ho_SetFileOverrides override) (file_reader hl git) base)
       else pret base))))"

primrec merge_from :: "('s, 'h) helm_lib \<Rightarrow> bool \<Rightarrow> HelmOverrides list \<Rightarrow> values_map \<Rightarrow> ('s, 'e, values_map outcome) act" where
  "merge_from hl git [] base = pret base"
| "merge_from hl git (override # overrides) base = pbind (apply_override hl git override base) (merge_from hl git overrides)"

definition MergeValues :: "('s, 'h) helm_lib \<Rightarrow> bool \<Rightarrow> HelmOverrides list \<Rightarrow> ('s, 'e, values_map outcome) act" where
  "MergeValues hl git overrides = merge_from hl git overrides Map.empty"

section \<open>Values from keys\<close>

definition escape_char :: "string \<Rightarrow> char \<Rightarrow> string" where
  "escape_char val c = replace_all val [c] (CHR 92 # [c])"

definition escape_value :: "string \<Rightarrow> string" where
  "escape_value val = foldl escape_char val '',[.{}''"

primrec construct_values :: "('s, 'h) helm_lib \<Rightarrow> KeyValue list \<Rightarrow> values_map \<Rightarrow> values_map result" where
  "construct_values hl [] yamlObject = Inr yamlObject"
| "construct_values hl (kv # kvs) yamlObject =
     (let composedStr = kv_Key kv @ ''='' @ escape_value (kv_Value kv)
      in rbind (if kv_SetString kv then hl_ParseIntoString hl composedStr yamlObject else hl_ParseInto hl composedStr yamlObject)
           (construct_values hl kvs))"

definition HelmValueFileConstructor :: "('s, 'h) helm_lib \<Rightarrow> KeyValue list \<Rightarrow> string result" where
  "HelmValueFileConstructor hl kvs = rbind (construct_values hl kvs Map.empty) (\<lambda>yamlObject. hl_Marshal hl (Some yamlObject))"

section \<open>Questions about releases\<close>

text \<open>The namespace's configuration, then the call.\<close>

definition with_config :: "('s, 'h) helm_lib \<Rightarrow> string \<Rightarrow> ('s \<Rightarrow> 'a result \<times> 's) \<Rightarrow> ('s, 'e, 'a) act" where
  "with_config hl ns q = abind (ask (hl_Init hl ns)) (\<lambda>_. ask q)"

definition GetRelease :: "('s, 'h) helm_lib \<Rightarrow> string \<Rightarrow> string \<Rightarrow> ('s, 'e, HelmRelease) act" where
  "GetRelease hl releaseName ns = with_config hl ns (hl_GetRelease hl ns releaseName)"

definition GetMetadata :: "('s, 'h) helm_lib \<Rightarrow> string \<Rightarrow> string \<Rightarrow> ('s, 'e, HelmRelease) act" where
  "GetMetadata hl releaseName ns = with_config hl ns (hl_GetRelease hl ns releaseName)"

definition GetValuesMap :: "('s, 'h) helm_lib \<Rightarrow> string \<Rightarrow> string \<Rightarrow> ('s, 'e, values_map) act" where
  "GetValuesMap hl releaseName ns =
     abind (with_config hl ns (hl_GetValues hl ns releaseName False)) (\<lambda>vals.
       aret (case vals of None \<Rightarrow> Map.empty | Some m \<Rightarrow> m))"

text \<open>Here a nil map stays nil.\<close>

definition GetAllValuesMap :: "('s, 'h) helm_lib \<Rightarrow> string \<Rightarrow> string \<Rightarrow> ('s, 'e, values_map option) act" where
  "GetAllValuesMap hl releaseName ns = with_config hl ns (hl_GetValues hl ns releaseName True)"

definition GetAllValues :: "('s, 'h) helm_lib \<Rightarrow> string \<Rightarrow> string \<Rightarrow> ('s, 'e, string) act" where
  "GetAllValues hl releaseName ns = abind (GetAllValuesMap hl releaseName ns) (\<lambda>vals. alift (hl_Marshal hl vals))"

definition GetValues :: "('s, 'h) helm_lib \<Rightarrow> string \<Rightarrow> string \<Rightarrow> ('s, 'e, string) act" where
  "GetValues hl releaseName ns = abind (GetValuesMap hl releaseName ns) (\<lambda>vals. alift (hl_Marshal hl (Some vals)))"

text \<open>Only a deployed release counts as installed.\<close>

definition IsReleaseInstalled :: "('s, 'h) helm_lib \<Rightarrow> string \<Rightarrow> string \<Rightarrow> ('s, 'e, bool) act" where
  "IsReleaseInstalled hl releaseName ns =
     abind (ask (hl_Init hl ns)) (\<lambda>_.
     atry (ask (hl_Status hl ns releaseName)) (\<lambda>r. case r of
         Inl err \<Rightarrow> (if go_contains err ''not found'' then aret False else afail err)
       | Inr helmRelease \<Rightarrow> aret (ReleaseStatusDeployed = hr_Status helmRelease)))"

definition GetHelmReleaseStatus :: "('s, 'h) helm_lib \<Rightarrow> string \<Rightarrow> string \<Rightarrow> ('s, 'e, string) act" where
  "GetHelmReleaseStatus hl releaseName ns =
     abind (ask (hl_Init hl ns)) (\<lambda>_.
     atry (ask (hl_Status hl ns releaseName)) (\<lambda>r. case r of
         Inl err \<Rightarrow> (if go_contains err ''not found'' then aret ReleaseNotFound else afail err)
       | Inr helmRelease \<Rightarrow> aret (hr_Status helmRelease)))"

definition IsReleaseDeployed :: "('s, 'h) helm_lib \<Rightarrow> string \<Rightarrow> string \<Rightarrow> ('s, 'e, bool) act" where
  "IsReleaseDeployed hl releaseName ns =
     atry (GetHelmReleaseStatus hl releaseName ns) (\<lambda>r. case r of
         Inl err \<Rightarrow> afail (''Getting status for chart '' @ ns @ ''/'' @ releaseName @ '' failed with error: '' @ err @ [CHR 10])
       | Inr releaseStatus \<Rightarrow> aret (releaseStatus = ReleaseStatusDeployed))"

definition GetReleaseStatus :: "('s, 'h) helm_lib \<Rightarrow> string \<Rightarrow> string \<Rightarrow> ('s, 'e, string) act" where
  "GetReleaseStatus hl releaseName ns =
     atry (GetHelmReleaseStatus hl releaseName ns) (\<lambda>r. case r of
         Inl err \<Rightarrow> afail (''Failed getting status for chart '' @ ns @ ''/'' @ releaseName @ '' with stderr: '' @ err @ [CHR 10])
       | Inr releaseStatus \<Rightarrow> aret releaseStatus)"

text \<open>The list of releases is asked for until it comes or ten seconds are over; the error of the last try is dropped.\<close>

definition list_world :: "('s, 'h) helm_lib \<Rightarrow> string \<Rightarrow> bool \<Rightarrow> ('s, HelmRelease list) retry_world" where
  "list_world hl ns all = \<lparr>
     rw_ftor = (\<lambda>s. case hl_List hl ns all s of
        (Inl e, s') \<Rightarrow> ((None, False, Some e), s') | (Inr releases, s') \<Rightarrow> ((Some releases, False, None), s')),
     rw_Now = hl_Now hl, rw_Sleep = hl_Sleep hl\<rparr>"

definition getReleases :: "('s, 'h) helm_lib \<Rightarrow> string \<Rightarrow> bool \<Rightarrow> ('s, 'e, HelmRelease list) act" where
  "getReleases hl ns all =
     abind (ask (hl_Init hl ns)) (\<lambda>_.
       wait_for (\<lambda>s. case ExponentialRetry (list_world hl ns all) s of
          None \<Rightarrow> None
        | Some ((releases, _, _), s') \<Rightarrow> Some (Inr (case releases of None \<Rightarrow> [] | Some rs \<Rightarrow> rs), s')))"

definition GetReleases :: "('s, 'h) helm_lib \<Rightarrow> string \<Rightarrow> ('s, 'e, HelmRelease list) act" where
  "GetReleases hl ns = getReleases hl ns False"

definition GetReleasesAllNamespaces :: "('s, 'h) helm_lib \<Rightarrow> ('s, 'e, HelmRelease list) act" where
  "GetReleasesAllNamespaces hl = getReleases hl [] True"

definition release_field :: "(HelmRelease \<Rightarrow> string) \<Rightarrow> string \<Rightarrow> HelmRelease list \<Rightarrow> string" where
  "release_field f releaseName releases =
     (case find (\<lambda>info. hr_Name info = releaseName) releases of None \<Rightarrow> [] | Some info \<Rightarrow> f info)"

definition getReleaseState :: "('s, 'h) helm_lib \<Rightarrow> string \<Rightarrow> string \<Rightarrow> ('s, 'e, string) act" where
  "getReleaseState hl releaseName ns =
     atry (GetReleases hl ns) (\<lambda>r. case r of
         Inl err \<Rightarrow> (if go_contains err ''not found'' then aret ReleaseNotFound else afail err)
       | Inr releases \<Rightarrow> aret (trim_space (release_field hr_Status releaseName releases)))"

definition IsReleaseFailed :: "('s, 'h) helm_lib \<Rightarrow> string \<Rightarrow> string \<Rightarrow> ('s, 'e, bool) act" where
  "IsReleaseFailed hl releaseName ns =
     atry (getReleaseState hl releaseName ns) (\<lambda>r. case r of
         Inl _ \<Rightarrow> afail (''Getting status for chart '' @ ns @ ''/'' @ releaseName @ '' failed'')
       | Inr releaseStatus \<Rightarrow> aret (releaseStatus = ReleaseStatusFailed))"

definition getReleaseAppVersion :: "('s, 'h) helm_lib \<Rightarrow> string \<Rightarrow> string \<Rightarrow> ('s, 'e, string) act" where
  "getReleaseAppVersion hl releaseName ns =
     atry (GetReleases hl ns) (\<lambda>r. case r of
         Inl err \<Rightarrow> (if err = ReleaseNotFound then aret ReleaseNotFound else afail err)
       | Inr releases \<Rightarrow> aret (trim_space (release_field hr_AppVersion releaseName releases)))"

definition GetReleaseAppVersion :: "('s, 'h) helm_lib \<Rightarrow> string \<Rightarrow> string \<Rightarrow> ('s, 'e, string) act" where
  "GetReleaseAppVersion hl releaseName ns = getReleaseAppVersion hl releaseName ns"

definition GetReleaseChartVersion :: "('s, 'h) helm_lib \<Rightarrow> string \<Rightarrow> string \<Rightarrow> ('s, 'e, string) act" where
  "GetReleaseChartVersion hl releaseName ns =
     atry (GetReleases hl ns) (\<lambda>r. case r of
         Inl err \<Rightarrow> (if err = ReleaseNotFound then aret ReleaseNotFound else afail err)
       | Inr releases \<Rightarrow> aret (trim_space (release_field hr_ChartVersion releaseName releases)))"

definition GetReleaseValues :: "('s, 'h) helm_lib \<Rightarrow> string list \<Rightarrow> string \<Rightarrow> string \<Rightarrow> ('s, 'e, values_map) act" where
  "GetReleaseValues hl valueKeys releaseName ns =
     abind (IsReleaseDeployed hl releaseName ns) (\<lambda>isDeployed.
       if isDeployed then abind (GetValuesMap hl releaseName ns) (\<lambda>valuesMap. aret (valuesMap |` set valueKeys))
       else aret Map.empty)"

text \<open>\<open>show\<close> is the formatting of a value by the verb \<^verbatim>\<open>%v\<close>.\<close>

definition GetReleaseStringValues ::
  "('s, 'h) helm_lib \<Rightarrow> (gval \<Rightarrow> string) \<Rightarrow> string list \<Rightarrow> string \<Rightarrow> string \<Rightarrow> ('s, 'e, string \<rightharpoonup> string) act" where
  "GetReleaseStringValues hl show_val valueKeys releaseName ns =
     abind (GetReleaseValues hl valueKeys releaseName ns) (\<lambda>vals. aret (map_option show_val \<circ> vals))"

section \<open>Changing releases\<close>

definition UpgradeChart ::
  "('s, 'h) helm_lib \<Rightarrow> string \<Rightarrow> string \<Rightarrow> bool \<Rightarrow> 'h \<Rightarrow> bool \<Rightarrow> bool \<Rightarrow> HelmOverrides list \<Rightarrow> bool \<Rightarrow> bool
     \<Rightarrow> ('s, helm_event, HelmRelease outcome) act" where
  "UpgradeChart hl releaseName ns createNamespace theChart wait dryRun overrides resetValues force =
     abind (ask (hl_Init hl ns)) (\<lambda>_.
     pbind (MergeValues hl True overrides) (\<lambda>vals.
     abind (IsReleaseInstalled hl releaseName ns) (\<lambda>installed.
       if installed then
         abind (if \<not> resetValues then GetValuesMap hl releaseName ns else aret Map.empty) (\<lambda>helmValues.
           let client = \<lparr>uc_Namespace = ns, uc_ReleaseName = releaseName, uc_DryRun = dryRun, uc_Wait = wait,
                 uc_ResetValues = resetValues, uc_CreateNamespace = False, uc_Replace = False, uc_TakeOwnership = force,
                 uc_Values = MergeMaps helmValues vals\<rparr>
           in abind (perform (EvHelmUpgradeRelease client) (hl_Upgrade hl client theChart)) pret)
       else
         let client = \<lparr>uc_Namespace = ns, uc_ReleaseName = releaseName, uc_DryRun = dryRun, uc_Wait = wait,
               uc_ResetValues = False, uc_CreateNamespace = createNamespace, uc_Replace = True, uc_TakeOwnership = force,
               uc_Values = vals\<rparr>
         in abind (perform (EvHelmInstall client) (hl_Install hl client theChart)) pret)))"

definition UpgradeChartFromArchive ::
  "('s, 'h) helm_lib \<Rightarrow> string \<Rightarrow> string \<Rightarrow> bool \<Rightarrow> string \<Rightarrow> bool \<Rightarrow> bool \<Rightarrow> HelmOverrides list \<Rightarrow> bool \<Rightarrow> bool
     \<Rightarrow> ('s, helm_event, HelmRelease outcome) act" where
  "UpgradeChartFromArchive hl releaseName ns createNamespace archive wait dryRun overrides resetValues force =
     abind (alift (hl_LoadArchive hl archive)) (\<lambda>theChart.
       UpgradeChart hl releaseName ns createNamespace theChart wait dryRun overrides resetValues force)"

text \<open>Templates get no Git getter.\<close>

definition Template :: "('s, 'h) helm_lib \<Rightarrow> 'h \<Rightarrow> HelmOverrides list \<Rightarrow> Version \<Rightarrow> ('s, 'e, string outcome) act" where
  "Template hl theChart overrides k8sVersion =
     abind (ask (hl_Init hl [])) (\<lambda>_.
     pbind (MergeValues hl False overrides) (\<lambda>vals.
     abind (ask (hl_Template hl (hl_ChartName hl theChart)
         (ver_String k8sVersion, format_nat (unat (ver_major k8sVersion)), format_nat (unat (ver_minor k8sVersion))) theChart vals))
       (\<lambda>(manifest, hooks). pret (foldl (\<lambda>out h. out @ CHR 10 # ''---'' @ CHR 10 # h) manifest hooks))))"

definition helm_Uninstall :: "('s, 'h) helm_lib \<Rightarrow> string \<Rightarrow> string \<Rightarrow> bool \<Rightarrow> ('s, helm_event, unit) act" where
  "helm_Uninstall hl releaseName ns dryRun =
     abind (ask (hl_Init hl ns)) (\<lambda>_.
     atry (perform (EvHelmUninstall ns releaseName) (hl_Uninstall hl ns releaseName dryRun)) (\<lambda>r. case r of
         Inl err \<Rightarrow> afail (''Error uninstalling release '' @ releaseName @ '': '' @ err)
       | Inr _ \<Rightarrow> aret ()))"

definition GetShowValues :: "('s, 'h) helm_lib \<Rightarrow> string \<Rightarrow> string result" where
  "GetShowValues hl archive =
     rbind (hl_LoadArchive hl archive) (\<lambda>theChart.
       case find (\<lambda>(name, _). name = ''values.yaml'') (hl_RawFiles hl theChart) of
         None \<Rightarrow> Inl ''Values.yaml was not found ''
       | Some (_, data) \<Rightarrow> Inr data)"

section \<open>What merging does to a path\<close>

definition is_map :: "gval \<Rightarrow> bool" where
  "is_map v = (case v of GMap _ \<Rightarrow> True | _ \<Rightarrow> False)"

lemma is_map_simps [simp]:
  "is_map (GMap m)" "\<not> is_map GNil" "\<not> is_map (GBool b)" "\<not> is_map (GInt i)" "\<not> is_map (GStr t)" "\<not> is_map (GList l)"
  by (simp_all add: is_map_def)

text \<open>The value at a path, if it is there and is no map.\<close>

definition leaf_at :: "values_map \<Rightarrow> string list \<Rightarrow> gval option" where
  "leaf_at m ks = (if ks = [] then None
     else (case nested_field (GMap m) ks of Inr (Some v) \<Rightarrow> (if is_map v then None else Some v) | _ \<Rightarrow> None))"

text \<open>A map that says nothing about a path: on the way along its maps the next key is missing.\<close>

fun silent :: "values_map \<Rightarrow> string list \<Rightarrow> bool" where
  "silent m [] = False"
| "silent m (k # ks) = (case m k of None \<Rightarrow> True | Some (GMap m') \<Rightarrow> silent m' ks | Some _ \<Rightarrow> False)"

lemma overlay_val_idem [simp]: "overlay_val v v = v"
proof (induction v)
  case (GMap m)
  have "(case map_option overlay_val (m k) of None \<Rightarrow> m k | Some f \<Rightarrow> (case m k of None \<Rightarrow> m k | Some vb \<Rightarrow> Some (f vb))) = m k" for k
    using GMap [OF rangeI, of _ k] by (cases "m k") auto
  then show ?case by (simp add: fun_eq_iff)
qed simp_all

lemma overlay_not_map: "\<not> is_map v \<Longrightarrow> overlay_val v b = v"
  by (cases v) simp_all

lemma overlay_maps: "overlay_val (GMap ov) (GMap mb) = GMap (MergeMaps mb ov)"
  by (auto simp: MergeMaps_def fun_eq_iff split: option.splits)

lemma overlay_replaces: "\<not> is_map b \<Longrightarrow> overlay_val (GMap ov) b = GMap ov"
  by (cases b) simp_all

declare overlay_val.simps(6) [simp del]

lemma MergeMaps_at: "MergeMaps b ov k = (case ov k of None \<Rightarrow> b k | Some v \<Rightarrow> Some (case b k of None \<Rightarrow> v | Some vb \<Rightarrow> overlay_val v vb))"
  by (simp add: MergeMaps_def split: option.splits)

lemma MergeMaps_maps: "ov k = Some (GMap m) \<Longrightarrow> b k = Some (GMap mb) \<Longrightarrow> MergeMaps b ov k = Some (GMap (MergeMaps mb m))"
  unfolding MergeMaps_at [of b ov k] by (simp add: overlay_maps)

lemma MergeMaps_neutral [simp]: "MergeMaps Map.empty m = m" "MergeMaps m Map.empty = m" "MergeMaps m m = m"
  by (auto simp: fun_eq_iff MergeMaps_at split: option.splits)

lemma leaf_Cons: "leaf_at m (k # ks) = (case m k of
     None \<Rightarrow> None
   | Some v \<Rightarrow> (if ks = [] then (if is_map v then None else Some v) else (case v of GMap m' \<Rightarrow> leaf_at m' ks | _ \<Rightarrow> None)))"
  by (cases ks) (auto simp: leaf_at_def split: option.splits gval.splits)

lemma leaf_overlay: "leaf_at ov ks = Some v \<Longrightarrow> leaf_at (MergeMaps b ov) ks = Some v"
proof (induction ks arbitrary: b ov)
  case (Cons k ks)
  show ?case
  proof (cases "ks = []")
    case True
    with Cons.prems show ?thesis by (auto simp: leaf_Cons MergeMaps_at overlay_not_map split: option.splits if_splits)
  next
    case False
    with Cons.prems obtain m where m: "ov k = Some (GMap m)" "leaf_at m ks = Some v"
      by (auto simp: leaf_Cons split: option.splits gval.splits)
    show ?thesis
    proof (cases "\<exists>mb. b k = Some (GMap mb)")
      case True
      then obtain mb where "b k = Some (GMap mb)" by blast
      with m(1) have "MergeMaps b ov k = Some (GMap (MergeMaps mb m))" by (rule MergeMaps_maps)
      with Cons.IH [OF m(2)] False show ?thesis by (simp add: leaf_Cons)
    next
      case no: False
      then have "MergeMaps b ov k = Some (GMap m)"
        using m(1) overlay_replaces by (auto simp: MergeMaps_at is_map_def split: option.splits gval.splits)
      with m False show ?thesis by (simp add: leaf_Cons)
    qed
  qed
qed (simp add: leaf_at_def)

lemma leaf_silent: "silent ov ks \<Longrightarrow> leaf_at b ks = Some v \<Longrightarrow> leaf_at (MergeMaps b ov) ks = Some v"
proof (induction ks arbitrary: b ov)
  case (Cons k ks)
  show ?case
  proof (cases "ov k")
    case None
    with Cons.prems show ?thesis by (simp add: leaf_Cons MergeMaps_at)
  next
    case (Some u)
    with Cons.prems(1) obtain m where m: "u = GMap m" "silent m ks" by (cases u) auto
    then have "ks \<noteq> []" by auto
    with Cons.prems(2) obtain mb where mb: "b k = Some (GMap mb)" "leaf_at mb ks = Some v"
      by (auto simp: leaf_Cons split: option.splits gval.splits)
    from Some m mb have "MergeMaps b ov k = Some (GMap (MergeMaps mb m))" by (intro MergeMaps_maps) simp_all
    with Cons.IH [OF m(2) mb(2)] \<open>ks \<noteq> []\<close> show ?thesis by (simp add: leaf_Cons)
  qed
qed (simp add: leaf_at_def)

text \<open>
  Layers of settings: what a layer sets wins over those below, what it is silent about shows through.  The last layer that sets
  something decides.
\<close>

locale layers =
  fixes look :: "'m \<Rightarrow> 'p \<Rightarrow> 'v option" and silent_on :: "'m \<Rightarrow> 'p \<Rightarrow> bool" and merge :: "'m \<Rightarrow> 'm \<Rightarrow> 'm"
  assumes set_wins: "look m p = Some v \<Longrightarrow> look (merge b m) p = Some v"
    and silent_keeps: "silent_on m p \<Longrightarrow> look b p = Some v \<Longrightarrow> look (merge b m) p = Some v"
begin

lemma below_shows: "\<forall>m \<in> set ms. silent_on m p \<Longrightarrow> look b p = Some v \<Longrightarrow> look (foldl merge b ms) p = Some v"
  by (induction ms arbitrary: b) (auto simp: silent_keeps)

lemma last_wins:
  assumes "look m p = Some v" and "\<forall>m' \<in> set after. silent_on m' p"
  shows "look (foldl merge b (before @ m # after)) p = Some v"
  using below_shows [OF assms(2) set_wins [OF assms(1)]] by simp

end

interpretation vals: layers leaf_at silent MergeMaps
  by unfold_locales (auto intro: leaf_overlay leaf_silent)

section \<open>Running the merge\<close>

text \<open>An override that is a text of YAML.\<close>

definition literal :: "string \<Rightarrow> HelmOverrides" where
  "literal t = zero_HelmOverrides\<lparr>ho_LiteralOverride := t\<rparr>"

lemma apply_literal:
  "t \<noteq> [] \<Longrightarrow> hl_Unmarshal hl t = Inr m \<Longrightarrow> apply_override hl git (literal t) base w = (Inr (Returns (MergeMaps base m)), w)"
  by (simp add: apply_override_def literal_def zero_HelmOverrides_def pbind_run abind_def)

lemma merge_literals:
  "list_all2 (\<lambda>t m. t \<noteq> [] \<and> hl_Unmarshal hl t = Inr m) ts ms \<Longrightarrow>
     merge_from hl git (map literal ts) base w = (Inr (Returns (foldl MergeMaps base ms)), w)"
proof (induction ts ms arbitrary: base rule: list_all2_induct)
  case (Cons t ts m ms)
  then show ?case by (simp add: pbind_run apply_literal)
qed simp

lemma silent_MergeMaps: "silent b ks \<Longrightarrow> silent ov ks \<Longrightarrow> silent (MergeMaps b ov) ks"
proof (induction ks arbitrary: b ov)
  case (Cons k ks)
  show ?case
  proof (cases "ov k")
    case None
    with Cons.prems show ?thesis by (simp add: MergeMaps_at)
  next
    case (Some u)
    with Cons.prems(2) obtain m where m: "u = GMap m" "silent m ks" by (cases u) auto
    show ?thesis
    proof (cases "b k")
      case None
      with Some m show ?thesis by (simp add: MergeMaps_at)
    next
      case b: (Some vb)
      with Cons.prems(1) obtain mb where mb: "vb = GMap mb" "silent mb ks" by (cases vb) auto
      have "MergeMaps b ov k = Some (GMap (MergeMaps mb m))" using Some m b mb by (intro MergeMaps_maps) simp_all
      with Cons.IH [OF mb(2) m(2)] show ?thesis by simp
    qed
  qed
qed simp

lemma silent_merged: "ks \<noteq> [] \<Longrightarrow> \<forall>m \<in> set ms. silent m ks \<Longrightarrow> silent (foldl MergeMaps Map.empty ms) ks"
proof -
  assume "ks \<noteq> []"
  then have "silent Map.empty ks" by (cases ks) simp_all
  moreover have "silent b ks \<Longrightarrow> \<forall>m \<in> set ms. silent m ks \<Longrightarrow> silent (foldl MergeMaps b ms) ks" for b
    by (induction ms arbitrary: b) (auto intro: silent_MergeMaps)
  ultimately show "\<forall>m \<in> set ms. silent m ks \<Longrightarrow> silent (foldl MergeMaps Map.empty ms) ks" by blast
qed

lemma leaf_empty [simp]: "leaf_at Map.empty ks = None"
  by (cases ks) (simp_all add: leaf_at_def)

lemma leaf_path: "leaf_at m ks = Some v \<Longrightarrow> ks \<noteq> []"
  by (auto simp: leaf_at_def)

text \<open>Which call a run of \<open>UpgradeChart\<close> has made, and with which values.\<close>

lemma emits_IsReleaseInstalled [emits_intro]: "emits P (IsReleaseInstalled hl releaseName ns)"
  unfolding IsReleaseInstalled_def by (intro emits_intro)

lemma emits_GetValuesMap [emits_intro]: "emits P (GetValuesMap hl releaseName ns)"
  unfolding GetValuesMap_def with_config_def by (intro emits_intro)

lemma UpgradeChart_calls:
  fixes hl :: "('s, 'h) helm_lib"
  assumes merged: "\<And>w :: 's \<times> helm_event list. MergeValues hl True overrides w = (Inr (Returns vals), w)"
    and run: "UpgradeChart hl releaseName ns cn theChart wait dryRun overrides resetValues force (s, tr) = (r, s', tr')"
    and "tr' \<noteq> tr"
  obtains client where "tr' = tr @ [EvHelmInstall client]" "uc_Values client = vals"
    "\<exists>(w :: 's \<times> helm_event list) w1. IsReleaseInstalled hl releaseName ns w = (Inr False, w1)"
  | client old where "tr' = tr @ [EvHelmUpgradeRelease client]" "uc_Values client = MergeMaps old vals"
    "\<exists>(w :: 's \<times> helm_event list) w1. IsReleaseInstalled hl releaseName ns w = (Inr True, w1)"
    "if resetValues then old = Map.empty else (\<exists>(w :: 's \<times> helm_event list) w1. GetValuesMap hl releaseName ns w = (Inr old, w1))"
proof -
  let ?rest = "abind (IsReleaseInstalled hl releaseName ns) (\<lambda>installed.
       if installed then
         abind (if \<not> resetValues then GetValuesMap hl releaseName ns else aret Map.empty) (\<lambda>helmValues.
           let client = \<lparr>uc_Namespace = ns, uc_ReleaseName = releaseName, uc_DryRun = dryRun, uc_Wait = wait,
                 uc_ResetValues = resetValues, uc_CreateNamespace = False, uc_Replace = False, uc_TakeOwnership = force,
                 uc_Values = MergeMaps helmValues vals\<rparr>
           in abind (perform (EvHelmUpgradeRelease client) (hl_Upgrade hl client theChart)) pret)
       else
         let client = \<lparr>uc_Namespace = ns, uc_ReleaseName = releaseName, uc_DryRun = dryRun, uc_Wait = wait,
               uc_ResetValues = False, uc_CreateNamespace = cn, uc_Replace = True, uc_TakeOwnership = force,
               uc_Values = vals\<rparr>
         in abind (perform (EvHelmInstall client) (hl_Install hl client theChart)) pret)"
  obtain u s1 where init: "hl_Init hl ns s = (u, s1)" by (metis prod.exhaust)
  with run \<open>tr' \<noteq> tr\<close> have rest: "?rest (s1, tr) = (r, s', tr')"
    by (cases u) (auto simp: UpgradeChart_def abind_run ask_def pbind_run merged)
  obtain q s2 t2 where inst: "IsReleaseInstalled hl releaseName ns (s1, tr) = (q, s2, t2)" by (metis prod.exhaust)
  have "t2 = tr" using no_effects [OF emits_IsReleaseInstalled inst] .
  with rest inst \<open>tr' \<noteq> tr\<close> obtain b where b: "q = Inr b" by (cases q) (auto simp: abind_run)
  show thesis
  proof (cases b)
    case False
    with rest inst b \<open>t2 = tr\<close> show thesis
      by (intro that(1)) (auto simp: abind_run perform_def Let_def split: prod.splits sum.splits)
  next
    case True
    let ?get = "(if \<not> resetValues then GetValuesMap hl releaseName ns else aret Map.empty) :: ('s, helm_event, values_map) act"
    obtain o1 s3 t3 where get: "?get (s2, tr) = (o1, s3, t3)" by (metis prod.exhaust)
    have "emits (\<lambda>_. False) ?get" by (intro emits_intro)
    from no_effects [where m = ?get, OF this get] have "t3 = tr" .
    with rest inst b \<open>t2 = tr\<close> True get \<open>tr' \<noteq> tr\<close> obtain old where old: "o1 = Inr old"
      by (cases o1) (auto simp: abind_run)
    have known: "if resetValues then old = Map.empty else (\<exists>(w :: 's \<times> helm_event list) w1. GetValuesMap hl releaseName ns w = (Inr old, w1))"
      using get old by (cases resetValues) auto
    have "abind ?get f (s2, tr) = f old (s3, tr)" for f :: "values_map \<Rightarrow> ('s, helm_event, HelmRelease outcome) act"
      using get old \<open>t3 = tr\<close> by (simp only: abind_run prod.case sum.case)
    with rest inst b \<open>t2 = tr\<close> True show thesis
      by (intro that(2) [OF _ _ _ known]) (auto simp: abind_run perform_def Let_def split: prod.splits sum.splits)
  qed
qed

section \<open>Reading back a Git URL\<close>

lemma go_cut_some_contains: "c \<in> set s \<Longrightarrow> go_contains s [c]"
  by (metis go_contains_def go_cut_char option.distinct(1) split_list_first)

lemma split_pair: "c \<notin> set a \<Longrightarrow> c \<notin> set b \<Longrightarrow> go_split (a @ c # b) [c] = [a, b]"
  by (simp add: go_split_char_Cons go_split_char_simple)

section \<open>Properties\<close>


text \<open>A library in the small: one text of values per letter, and the release is deployed with the values of the letter o.\<close>

definition sample_values :: "string \<Rightarrow> values_map" where
  "sample_values t = (if t = ''a'' then [''img'' \<mapsto> GMap [''tag'' \<mapsto> GStr ''1''], ''x'' \<mapsto> GInt 1]
     else if t = ''b'' then [''img'' \<mapsto> GMap [''reg'' \<mapsto> GStr ''r'']]
     else [''img'' \<mapsto> GMap [''tag'' \<mapsto> GStr ''0''], ''y'' \<mapsto> GInt 2])"

definition sample_helm_lib :: "(int, unit) helm_lib" where
  "sample_helm_lib = \<lparr>hl_Init = (\<lambda>_ s. (Inr (), s)),
     hl_GetRelease = (\<lambda>_ n s. (Inr \<lparr>hr_Name = n, hr_Status = ''deployed'', hr_AppVersion = [], hr_ChartVersion = [], hr_Namespace = []\<rparr>, s)),
     hl_GetValues = (\<lambda>_ _ _ s. (Inr (Some (sample_values ''o'')), s)),
     hl_Status = (\<lambda>_ n s. (Inr \<lparr>hr_Name = n, hr_Status = ''deployed'', hr_AppVersion = [], hr_ChartVersion = [], hr_Namespace = []\<rparr>, s)),
     hl_List = (\<lambda>_ _ s. (Inl ''connection refused'', s)),
     hl_Upgrade = (\<lambda>c _ s. (Inr \<lparr>hr_Name = uc_ReleaseName c, hr_Status = ''deployed'', hr_AppVersion = [], hr_ChartVersion = [], hr_Namespace = []\<rparr>, s)),
     hl_Install = (\<lambda>c _ s. (Inr \<lparr>hr_Name = uc_ReleaseName c, hr_Status = ''deployed'', hr_AppVersion = [], hr_ChartVersion = [], hr_Namespace = []\<rparr>, s)),
     hl_Template = (\<lambda>_ _ _ _ s. (Inr ([], []), s)), hl_Uninstall = (\<lambda>_ _ _ s. (Inr (), s)),
     hl_LoadArchive = (\<lambda>_. Inr ()), hl_ChartName = (\<lambda>_. ''ui''), hl_RawFiles = (\<lambda>_. []),
     hl_Unmarshal = (\<lambda>t. Inr (sample_values t)), hl_Marshal = (\<lambda>_. Inr []),
     hl_ParseInto = (\<lambda>_ m. Inr m), hl_ParseIntoString = (\<lambda>_ m. Inr m), hl_ParseIntoFile = (\<lambda>_ _ m s. (Returns (Inr m), s)),
     hl_Stdin = (\<lambda>s. (Inr [], s)), hl_ReadFile = (\<lambda>_ s. (Inr [], s)), hl_UrlScheme = (\<lambda>_. Inr []), hl_Getter = (\<lambda>_. None),
     hl_Clone = (\<lambda>_ s. (Inr (), s)), hl_Worktree = (\<lambda>s. (Inr (), s)), hl_Checkout = (\<lambda>_ s. (Inr (), s)),
     hl_OpenCloned = (\<lambda>_ s. (Inr (), s)), hl_ReadCloned = (\<lambda>_ s. (Inr [], s)),
     hl_Now = (\<lambda>s. s), hl_Sleep = (\<lambda>d s. s + max 0 d)\<rparr>"


text \<open>
  The URL of an override file in a Git repository is taken apart into what it was made of; with the query before the path, as
  in other URLs, reading it panics.
\<close>

theorem parseGitURL_reads_back:
  assumes "CHR ''&'' \<notin> set (repo @ path @ vtype @ val)" and "CHR ''?'' \<notin> set (path @ vtype @ val)" and "CHR ''='' \<notin> set (vtype @ val)"
  shows "parseGitURL (''git+'' @ repo @ ''&'' @ path @ ''?'' @ vtype @ ''='' @ val) = Returns (Inr (repo, path, vtype, val))
    \<and> parseGitURL (''git+'' @ repo @ ''?'' @ vtype @ ''='' @ val @ ''&'' @ path) = Panics"
proof -
  have a: "go_split (repo @ CHR ''&'' # path @ CHR ''?'' # vtype @ CHR ''='' # val) ''&'' = [repo, path @ CHR ''?'' # vtype @ CHR ''='' # val]"
    using assms by (intro split_pair) auto
  have b: "go_split (path @ CHR ''?'' # vtype @ CHR ''='' # val) ''?'' = [path, vtype @ CHR ''='' # val]"
    using assms by (intro split_pair) auto
  have c: "go_split (vtype @ CHR ''='' # val) ''='' = [vtype, val]"
    using assms by (intro split_pair) auto
  have d: "go_split (repo @ CHR ''?'' # vtype @ CHR ''='' # val @ CHR ''&'' # path) ''&'' = [repo @ CHR ''?'' # vtype @ CHR ''='' # val, path]"
    using assms split_pair [of "CHR ''&''" "repo @ CHR ''?'' # vtype @ CHR ''='' # val" path] by auto
  have e: "go_split path ''?'' = [path]" using assms by (simp add: go_split_char_simple)
  have has: "go_contains (repo @ CHR ''&'' # path @ CHR ''?'' # vtype @ CHR ''='' # val) [x]"
    "go_contains (repo @ CHR ''?'' # vtype @ CHR ''='' # val @ CHR ''&'' # path) [x]" if "x \<in> {CHR ''&'', CHR ''?'', CHR ''=''}" for x
    using that by (auto intro!: go_cut_some_contains)
  show ?thesis using a b c d e has by (simp add: parseGitURL_def)
qed

theorem parseGitURL_reads_back_witness:
  "parseGitURL ''git+https://h/r?tag=v1&f.yaml'' = Panics
   \<and> parseGitURL ''git+https://h/r&f.yaml?tag=v1'' = Returns (Inr (''https://h/r'', ''f.yaml'', ''tag'', ''v1''))"
  using parseGitURL_reads_back [of "''https://h/r''" "''f.yaml''" "''tag''" "''v1''"] by simp

text \<open>
  When the releases cannot be listed, the list is empty and there is no error, after the retries are over: every release seems
  not to exist, and none seems to have failed.
\<close>

theorem getReleases_hides_errors:
  assumes "\<And>s. \<exists>e s'. hl_List hl ns all s = (Inl e, s')" and "hl_Init hl ns s = (Inr (), s0)" and "time_passes (list_world hl ns all)"
  shows "\<exists>s'. getReleases hl ns all (s, tr) = (Inr [], s', tr)"
proof -
  have fails: "\<exists>e t'. rw_ftor (list_world hl ns all) t = ((None, False, Some e), t')" for t
    using assms(1) [of t] by (auto simp: list_world_def)
  obtain r ff e s' where run: "ExponentialRetryImpl (list_world hl ns all) (10 * duration_ms) duration_s duration_s (10 * duration_s) s0 = Some ((r, ff, e), s')"
  proof -
    have pos: "0 < 10 * duration_s" "0 < 10 * duration_ms" "0 < duration_s" "0 \<le> duration_s"
      by (simp_all add: duration_ms_def duration_s_def)
    show thesis by (rule retry_impl_returns [OF assms(3) pos]) (rule that)
  qed
  then have "r = None"
    unfolding ExponentialRetryImpl_def by (rule retry_loop_no_value) (rule fails)
  with run assms(2) show ?thesis
    by (simp add: getReleases_def abind_run ask_def wait_for_def ExponentialRetry_def ExponentialRetryTimeout_def)
qed

theorem getReleases_hides_errors_witness:
  "\<exists>s'. getReleases sample_helm_lib ''ns'' False (0, []) = (Inr [], s', [])"
proof (rule getReleases_hides_errors [where s0 = 0])
  show "\<exists>e s'. hl_List sample_helm_lib ''ns'' False s = (Inl e, s')" for s by (simp add: sample_helm_lib_def)
  show "hl_Init sample_helm_lib ''ns'' 0 = (Inr (), 0)" by (simp add: sample_helm_lib_def)
  show "time_passes (list_world sample_helm_lib ''ns'' False)"
    by (simp add: time_passes_def list_world_def sample_helm_lib_def)
qed

end
