(* ===== verification/Applications.thy ===== *)
theory Applications
  imports Kube_Api Helm_Client Config_Types
begin

text \<open>
  Installing and updating applications: \<^verbatim>\<open>pkg/commands/application/install\<close>, the listing of
  releases (\<^verbatim>\<open>pkg/commands/application/ls\<close>) and the serial waiter of
  \<^verbatim>\<open>pkg/util/logutils\<close> that runs them one after the other.  Helm and the catalogs are the record
  \<open>helm_api\<close>, for one cluster; a catalog is a value of type \<open>'c\<close>.
\<close>

record KRelease =
  rel_Name :: string
  rel_ChartName :: string
  rel_Config :: "(string \<rightharpoonup> gval) option"

record 'c InstallOptions =
  io_Catalog :: 'c
  io_AppName :: string
  io_Namespace :: string
  io_ReleaseName :: string
  io_Version :: string
  io_Values :: string
  io_Overrides :: "HelmOverrides list"
  io_ResetValues :: bool
  io_Force :: bool

record ('s, 'c) helm_api =
  ha_IsTTY :: "'s \<Rightarrow> bool result \<times> 's"
  ha_CreateKubeInfo :: "'s \<Rightarrow> unit result \<times> 's"
  ha_GetKubeClient :: "'s \<Rightarrow> unit result \<times> 's"
  ha_GetReleasesAllNamespaces :: "'s \<Rightarrow> KRelease list result \<times> 's"
  ha_GetReleases :: "string \<Rightarrow> 's \<Rightarrow> KRelease list result \<times> 's"
  ha_GetNamespaceFromConfig :: "'s \<Rightarrow> string result \<times> 's"
  ha_Search :: "string \<Rightarrow> string \<Rightarrow> 's \<Rightarrow> 'c result \<times> 's"
  ha_GetChart :: "'c \<Rightarrow> string \<Rightarrow> string \<Rightarrow> 's \<Rightarrow> string result \<times> 's"
  ha_Marshal :: "gval \<Rightarrow> string result"
  ha_UpgradeChart :: "string \<Rightarrow> string \<Rightarrow> string \<Rightarrow> HelmOverrides list \<Rightarrow> bool \<Rightarrow> bool \<Rightarrow> 's \<Rightarrow> unit result \<times> 's"

record 's ApplicationDescription =
  ad_PreInstall :: "('s \<Rightarrow> unit result \<times> 's) option"
  ad_Force :: bool
  ad_Application :: Application

section \<open>Releases\<close>

definition ls_List :: "('s, 'c) helm_api \<Rightarrow> string \<Rightarrow> bool \<Rightarrow> ('s, KRelease list) kact" where
  "ls_List ha ns all =
     abind (ask (ha_CreateKubeInfo ha)) (\<lambda>_.
       if all then ask (ha_GetReleasesAllNamespaces ha)
       else abind (if ns = [] then ask (ha_GetNamespaceFromConfig ha) else aret ns) (\<lambda>ns'.
              ask (ha_GetReleases ha ns')))"

definition DoesReleaseExist :: "('s, 'c) helm_api \<Rightarrow> string \<Rightarrow> string \<Rightarrow> ('s, bool) kact" where
  "DoesReleaseExist ha releaseName ns =
     abind (ls_List ha ns True) (\<lambda>releases. aret (list_ex (\<lambda>release. releaseName = rel_Name release) releases))"

section \<open>Installing one application\<close>

definition Install :: "('s, 'c) helm_api \<Rightarrow> 'c InstallOptions \<Rightarrow> ('s, unit) kact" where
  "Install ha opt =
     abind (ask (ha_GetChart ha (io_Catalog opt) (io_AppName opt) (io_Version opt))) (\<lambda>chart.
     abind (ask (ha_CreateKubeInfo ha)) (\<lambda>_.
     abind (if io_Namespace opt = [] then ask (ha_GetNamespaceFromConfig ha) else aret (io_Namespace opt)) (\<lambda>ns.
     abind (if io_ReleaseName opt = []
            then abind (DoesReleaseExist ha (io_AppName opt) ns) (\<lambda>releaseExists.
                   if releaseExists
                   then afail (''A release already exists with the name '' @ io_AppName opt
                           @ '' in the cluster. Please specify a different release name '')
                   else aret (io_AppName opt))
            else aret (io_ReleaseName opt)) (\<lambda>releaseName.
       let overrides = io_Overrides opt @ (if io_Values opt \<noteq> [] then [zero_HelmOverrides\<lparr>ho_FileOverride := io_Values opt\<rparr>] else [])
       in perform (EvHelmUpgrade releaseName ns (io_AppName opt))
            (ha_UpgradeChart ha releaseName ns chart overrides (io_ResetValues opt) (io_Force opt))))))"

definition installOrUpdateApplication ::
  "'s kube_api \<Rightarrow> ('s, 'c) helm_api \<Rightarrow> bool \<Rightarrow> 's ApplicationDescription \<Rightarrow> ('s, unit) kact" where
  "installOrUpdateApplication ka ha update app =
     (let a = ad_Application app
      in abind (ask (ha_Search ha (app_Catalog a) (app_Name a))) (\<lambda>catalog.
         abind (if \<not> is_nil (app_Config a) then alift (ha_Marshal ha (app_Config a)) else aret []) (\<lambda>config.
           let opt = \<lparr>io_Catalog = catalog, io_AppName = app_Name a, io_Namespace = app_Namespace a,
                io_ReleaseName = app_Release a, io_Version = app_Version a, io_Values = app_ConfigFrom a,
                io_Overrides = [zero_HelmOverrides\<lparr>ho_LiteralOverride := config\<rparr>], io_ResetValues = False, io_Force = ad_Force app\<rparr>
           in abind (DoesReleaseExist ha (io_ReleaseName opt) (io_Namespace opt)) (\<lambda>isInstalled.
              if isInstalled \<and> \<not> update then aret ()
              else abind (ask (ha_GetKubeClient ha)) (\<lambda>_.
                   atry (CreateNamespaceIfNotExists ka (io_Namespace opt)) (\<lambda>_.
                   abind (case ad_PreInstall app of
                            None \<Rightarrow> aret ()
                          | Some pre \<Rightarrow> perform (EvPreInstall (app_Name a)) pre) (\<lambda>_.
                   abind (aretry (ka_node ka) (10 * duration_s) (retry_functor (Install ha opt))) (\<lambda>_. aret ()))))))))"

section \<open>Installing several\<close>

text \<open>\<open>WaitForSerial\<close>: the waiters run in order, each to its end; the result tells whether any failed.\<close>

primrec run_serial :: "('s, 'e, unit) act list \<Rightarrow> ('s, 'e, bool) act" where
  "run_serial [] = aret False"
| "run_serial (w # ws) = atry w (\<lambda>r. abind (run_serial ws) (\<lambda>e. aret (\<not> is_ok r \<or> e)))"

definition WaitForSerial :: "('s, 'c) helm_api \<Rightarrow> ('s, 'e, unit) act list \<Rightarrow> ('s, 'e, bool) act" where
  "WaitForSerial ha waiters = atry (ask (ha_IsTTY ha)) (\<lambda>r. case r of Inl _ \<Rightarrow> aret True | Inr _ \<Rightarrow> run_serial waiters)"

definition installOrUpdateApplications ::
  "'s kube_api \<Rightarrow> ('s, 'c) helm_api \<Rightarrow> 's ApplicationDescription list \<Rightarrow> bool \<Rightarrow> ('s, unit) kact" where
  "installOrUpdateApplications ka ha apps update =
     abind (WaitForSerial ha (map (installOrUpdateApplication ka ha update) apps)) (\<lambda>haveErrors.
       if haveErrors then afail ''Could not install all applications'' else aret ())"

definition InstallApplications :: "'s kube_api \<Rightarrow> ('s, 'c) helm_api \<Rightarrow> 's ApplicationDescription list \<Rightarrow> ('s, unit) kact" where
  "InstallApplications ka ha apps = installOrUpdateApplications ka ha apps False"

definition UpdateApplications :: "'s kube_api \<Rightarrow> ('s, 'c) helm_api \<Rightarrow> 's ApplicationDescription list \<Rightarrow> ('s, unit) kact" where
  "UpdateApplications ka ha apps = installOrUpdateApplications ka ha apps True"

section \<open>Lemmas\<close>

lemma emits_ls_List [emits_intro]: "emits P (ls_List ha ns all)"
  unfolding ls_List_def by (intro emits_intro)

lemma emits_DoesReleaseExist [emits_intro]: "emits P (DoesReleaseExist ha n ns)"
  unfolding DoesReleaseExist_def by (intro emits_intro)

lemma emits_Install:
  "(\<And>rel ns. P (EvHelmUpgrade rel ns (io_AppName opt))) \<Longrightarrow> emits P (Install ha opt)"
  unfolding Install_def Let_def by (intro emits_intro)

text \<open>The events of installing an application: its namespace, its hook, its chart.\<close>

definition app_event :: "Application \<Rightarrow> kube_event \<Rightarrow> bool" where
  "app_event a ev \<longleftrightarrow> ev = EvCreateNamespace (app_Namespace a) \<or> ev = EvPreInstall (app_Name a)
     \<or> (\<exists>rel ns. ev = EvHelmUpgrade rel ns (app_Name a))"

lemma emits_installOrUpdateApplication:
  "emits (app_event (ad_Application app)) (installOrUpdateApplication ka ha update app)"
  unfolding installOrUpdateApplication_def Let_def
  by (intro emits_intro emits_Install) (simp_all add: app_event_def)

lemma emits_run_serial: "(\<And>w. w \<in> set ws \<Longrightarrow> emits P w) \<Longrightarrow> emits P (run_serial ws)"
  by (induction ws) (auto intro!: emits_intro)

lemma emits_installOrUpdateApplications [emits_intro]:
  "(\<And>app ev. app \<in> set apps \<Longrightarrow> app_event (ad_Application app) ev \<Longrightarrow> P ev) \<Longrightarrow>
     emits P (installOrUpdateApplications ka ha apps update)"
  unfolding installOrUpdateApplications_def WaitForSerial_def
  by (intro emits_intro emits_run_serial) (auto intro!: emits_mono [OF emits_installOrUpdateApplication])

lemma emits_InstallApplications [emits_intro]:
  "(\<And>app ev. app \<in> set apps \<Longrightarrow> app_event (ad_Application app) ev \<Longrightarrow> P ev) \<Longrightarrow> emits P (InstallApplications ka ha apps)"
  unfolding InstallApplications_def by (intro emits_intro)

lemma emits_UpdateApplications [emits_intro]:
  "(\<And>app ev. app \<in> set apps \<Longrightarrow> app_event (ad_Application app) ev \<Longrightarrow> P ev) \<Longrightarrow> emits P (UpdateApplications ka ha apps)"
  unfolding UpdateApplications_def by (intro emits_intro)

text \<open>The specification of running in order: each action starts in the world its predecessor left.\<close>

inductive runs_through :: "('s, 'e, unit) act list \<Rightarrow> 's \<times> 'e list \<Rightarrow> unit result list \<Rightarrow> 's \<times> 'e list \<Rightarrow> bool" where
  last: "runs_through [] w [] w"
| step: "m w = (r, w1) \<Longrightarrow> runs_through ms w1 rs w' \<Longrightarrow> runs_through (m # ms) w (r # rs) w'"

inductive_cases runs_through_NilE: "runs_through [] w rs w'"
inductive_cases runs_through_ConsE: "runs_through (m # ms) w rs w'"

lemma run_serial_runs: "\<exists>rs w'. run_serial ms w = (Inr (\<not> list_all is_ok rs), w') \<and> runs_through ms w rs w'"
proof (induction ms arbitrary: w)
  case Nil
  then show ?case by (intro exI [of _ "[]"] exI [of _ w]) (simp add: runs_through.intros)
next
  case (Cons m ms)
  obtain r w1 where m: "m w = (r, w1)" by (cases "m w")
  obtain rs w' where ih: "run_serial ms w1 = (Inr (\<not> list_all is_ok rs), w')" "runs_through ms w1 rs w'"
    using Cons by blast
  have "run_serial (m # ms) w = (Inr (\<not> list_all is_ok (r # rs)), w')"
    using m ih(1) by (simp add: atry_def abind_def)
  moreover have "runs_through (m # ms) w (r # rs) w'" using m ih(2) by (rule step)
  ultimately show ?case by blast
qed

lemma runs_through_length: "runs_through ms w rs w' \<Longrightarrow> length rs = length ms"
  by (induction rule: runs_through.induct) auto

lemma installOrUpdateApplications_runs:
  assumes "ha_IsTTY ha s = (Inr b, s1)"
  shows "\<exists>rs w'. runs_through (map (installOrUpdateApplication ka ha update) apps) (s1, tr) rs w' \<and> length rs = length apps
    \<and> installOrUpdateApplications ka ha apps update (s, tr)
        = (if list_all is_ok rs then Inr () else Inl ''Could not install all applications'', w')"
proof -
  obtain rs w' where *: "run_serial (map (installOrUpdateApplication ka ha update) apps) (s1, tr) = (Inr (\<not> list_all is_ok rs), w')"
    "runs_through (map (installOrUpdateApplication ka ha update) apps) (s1, tr) rs w'"
    using run_serial_runs by blast
  moreover have "length rs = length apps" using runs_through_length [OF *(2)] by simp
  ultimately show ?thesis
    using assms by (intro exI [of _ rs] exI [of _ w'])
      (auto simp: installOrUpdateApplications_def WaitForSerial_def atry_def abind_def ask_def)
qed

section \<open>Properties\<close>

text \<open>
  C15. Installing or updating a list of applications attempts every one of them, in the order given, each in the world its
  predecessor left, also after one has failed (the list is documented to be in dependency order); the result is
  an error exactly if one of them failed.
\<close>

theorem applications_all_attempted:
  assumes "ha_IsTTY ha s = (Inr b, s1)"
  shows "\<exists>rs w'. runs_through (map (installOrUpdateApplication ka ha update) apps) (s1, tr) rs w' \<and> length rs = length apps
    \<and> installOrUpdateApplications ka ha apps update (s, tr)
        = (if list_all is_ok rs then Inr () else Inl ''Could not install all applications'', w')"
  by (rule installOrUpdateApplications_runs [OF assms])

text \<open>
  An application is taken for installed if any namespace has a release of its name: then installing it does nothing and
  succeeds, although its own namespace has no such release.
\<close>

theorem install_skips_same_name_elsewhere:
  assumes "ha_IsTTY ha s = (Inr b, s1)"
    and "ha_Search ha (app_Catalog (ad_Application app)) (app_Name (ad_Application app)) s1 = (Inr c, s2)"
    and "app_Config (ad_Application app) = GNil"
    and "ha_CreateKubeInfo ha s2 = (Inr (), s3)"
    and "ha_GetReleasesAllNamespaces ha s3 = (Inr releases, s4)"
    and "\<exists>rel \<in> set releases. rel_Name rel = app_Release (ad_Application app)"
  shows "InstallApplications ka ha [app] (s, tr) = (Inr (), s4, tr)"
proof -
  have "list_ex (\<lambda>rel. app_Release (ad_Application app) = rel_Name rel) releases"
    using assms(6) unfolding list_ex_iff by metis
  then have "installOrUpdateApplication ka ha False app (s1, tr) = (Inr (), s4, tr)"
    using assms(2-5)
    by (simp add: installOrUpdateApplication_def abind_def ask_def DoesReleaseExist_def ls_List_def Let_def)
  then show ?thesis
    using assms(1)
    by (simp add: InstallApplications_def installOrUpdateApplications_def WaitForSerial_def abind_def atry_def ask_def)
qed

text \<open>A cluster with one release in one namespace; charts always install.\<close>

definition sample_helm :: "(int, unit) helm_api" where
  "sample_helm = \<lparr>
     ha_IsTTY = (\<lambda>s. (Inr False, s)), ha_CreateKubeInfo = (\<lambda>s. (Inr (), s)), ha_GetKubeClient = (\<lambda>s. (Inr (), s)),
     ha_GetReleasesAllNamespaces = (\<lambda>s. (Inr [\<lparr>rel_Name = ''ui'', rel_ChartName = ''ui'', rel_Config = None\<rparr>], s)),
     ha_GetReleases = (\<lambda>ns s. (Inr (if ns = ''ocne-system'' then [\<lparr>rel_Name = ''ui'', rel_ChartName = ''ui'', rel_Config = None\<rparr>] else []), s)),
     ha_GetNamespaceFromConfig = (\<lambda>s. (Inr ''default'', s)), ha_Search = (\<lambda>_ _ s. (Inr (), s)),
     ha_GetChart = (\<lambda>_ _ _ s. (Inr ''chart'', s)), ha_Marshal = (\<lambda>_. Inr []),
     ha_UpgradeChart = (\<lambda>_ _ _ _ _ _ s. (Inr (), s + 1))\<rparr>"

definition sample_app :: "string \<Rightarrow> string \<Rightarrow> int ApplicationDescription" where
  "sample_app name ns = \<lparr>ad_PreInstall = None, ad_Force = False,
     ad_Application = zero_Application\<lparr>app_Name := name, app_Release := name, app_Namespace := ns\<rparr>\<rparr>"

theorem applications_all_attempted_witness:
  "\<exists>rs w'. runs_through (map (installOrUpdateApplication (sample_kube []) sample_helm True) [sample_app ''a'' ''x'', sample_app ''b'' ''y''])
      (0, []) rs w' \<and> length rs = 2"
proof -
  have "ha_IsTTY sample_helm 0 = (Inr False, 0)" by (simp add: sample_helm_def)
  from applications_all_attempted [OF this, of "sample_kube []" True "[sample_app ''a'' ''x'', sample_app ''b'' ''y'']" "[]"]
  obtain rs w' where "runs_through (map (installOrUpdateApplication (sample_kube []) sample_helm True) [sample_app ''a'' ''x'', sample_app ''b'' ''y''])
      (0, []) rs w'" "length rs = length [sample_app ''a'' ''x'', sample_app ''b'' ''y'']" by blast
  moreover from this(2) have "length rs = 2" by simp
  ultimately show ?thesis by blast
qed

theorem install_skips_same_name_elsewhere_witness:
  "InstallApplications (sample_kube []) sample_helm [sample_app ''ui'' ''elsewhere''] (0, []) = (Inr (), 0, [])
   \<and> fst (ls_List sample_helm ''elsewhere'' False (0, [])) = Inr []"
proof
  show "InstallApplications (sample_kube []) sample_helm [sample_app ''ui'' ''elsewhere''] (0, []) = (Inr (), 0, [])"
    by (rule install_skips_same_name_elsewhere [where b = False and c = "()" and
          releases = "[\<lparr>rel_Name = ''ui'', rel_ChartName = ''ui'', rel_Config = None\<rparr>]"])
      (simp_all add: sample_helm_def sample_app_def zero_Application_def)
  show "fst (ls_List sample_helm ''elsewhere'' False (0, [])) = Inr []"
    by (simp add: ls_List_def sample_helm_def abind_def ask_def)
qed

end
