(* ===== verification/Cluster_Update.thy ===== *)
theory Cluster_Update
  imports Image_Reference Applications
begin

text \<open>
  The repairs that every update applies to a cluster first (\<^verbatim>\<open>pkg/cluster/update/update.go\<close>): tagging
  images and moving kube-proxy, CoreDNS, flannel and the UI to tags that survive the update on clusters of
  Kubernetes 1.30 and lower, and moving a virtual IP into the cluster.  What the texts of the
  scripts do on a node is not modelled; the YAML, JSON and host:port parsers are parameters.
\<close>

record ('s, 'c) update_env =
  ue_lib :: image_lib
  ue_ka :: "'s kube_api"
  ue_ha :: "('s, 'c) helm_api"
  ue_Unmarshal :: "string \<Rightarrow> (string \<rightharpoonup> gval) result"
  ue_ParseHostPort :: "string \<Rightarrow> (string \<times> string) result"
  ue_VipScript :: "u16 \<Rightarrow> u16 \<Rightarrow> string \<Rightarrow> string result"
  ue_GetKeepalivedConf :: string
  ue_CheckNodeUpdate :: string
  ue_Timestamps :: "string \<Rightarrow> (int \<times> int) result"

definition OCNESystemNamespace :: string where "OCNESystemNamespace = ''ocne-system''"
definition KubeNamespace :: string where "KubeNamespace = ''kube-system''"
definition InternalCatalog :: string where "InternalCatalog = ''embedded''"
definition CurrentTag :: string where "CurrentTag = ''current''"
definition KubeProxyImage :: string where "KubeProxyImage = ''container-registry.oracle.com/olcne/kube-proxy''"
definition CoreDNSImage :: string where "CoreDNSImage = ''container-registry.oracle.com/olcne/coredns''"
definition CNIFlannelImage :: string where "CNIFlannelImage = ''container-registry.oracle.com/olcne/flannel''"
definition UIImage :: string where "UIImage = ''container-registry.oracle.com/olcne/ui''"

section \<open>Tags of what is installed\<close>

fun container_tag :: "image_lib \<Rightarrow> string \<Rightarrow> string list \<Rightarrow> string result" where
  "container_tag lib registry [] = Inr []"
| "container_tag lib registry (c # cs) =
     rbind (SplitImage lib c) (\<lambda>imgInfo.
       if img_BaseImage imgInfo \<noteq> registry then container_tag lib registry cs else Inr (img_Tag imgInfo))"

definition workload_tag :: "image_lib \<Rightarrow> string \<Rightarrow> string list result \<Rightarrow> string result" where
  "workload_tag lib registry r =
     (case r of
        Inl err \<Rightarrow> (if go_contains err ''not found'' then Inr [] else Inl err)
      | Inr containers \<Rightarrow> container_tag lib registry containers)"

definition getDaemonSetTag :: "('s, 'c) update_env \<Rightarrow> string \<Rightarrow> string \<Rightarrow> string \<Rightarrow> ('s, string) kact" where
  "getDaemonSetTag e ns name registry =
     atry (ask (ka_DaemonSetImages (ue_ka e) ns name)) (\<lambda>r. alift (workload_tag (ue_lib e) registry r))"

definition getDeploymentTag :: "('s, 'c) update_env \<Rightarrow> string \<Rightarrow> string \<Rightarrow> string \<Rightarrow> ('s, string) kact" where
  "getDeploymentTag e ns name registry =
     atry (ask (ka_DeploymentImages (ue_ka e) ns name)) (\<lambda>r. alift (workload_tag (ue_lib e) registry r))"

section \<open>Tagging images on a node\<close>

definition tagCommand :: "string \<Rightarrow> string \<Rightarrow> string" where
  "tagCommand imgName registry = ''chroot /hostroot podman tag '' @ imgName @ '' '' @ registry @ '':'' @ CurrentTag"

text \<open>One paragraph of the script: the image of one application, if it has to be tagged.\<close>

definition tag_line :: "bool \<Rightarrow> string \<Rightarrow> string \<Rightarrow> string \<Rightarrow> string \<Rightarrow> string" where
  "tag_line current tag img registry tagScript =
     (if \<not> current \<and> tag \<noteq> [] \<and> img \<noteq> [] then tagScript @ [CHR 10] @ tagCommand img registry else tagScript)"

definition tagOnNode ::
  "('s, 'c) update_env \<Rightarrow> KNode \<Rightarrow> string \<Rightarrow> string \<Rightarrow> string \<Rightarrow> string \<Rightarrow> ('s, unit) kact" where
  "tagOnNode e node kubeProxyTag corednsTag flannelTag uiTag =
     (let (kubeProxyImg, kubeProxyCurrent, _) = GetImageCandidate KubeProxyImage CurrentTag kubeProxyTag node;
          (corednsImg, corednsCurrent, _) = GetImageCandidate CoreDNSImage CurrentTag corednsTag node;
          (flannelImg, flannelCurrent, _) = GetImageCandidate CNIFlannelImage CurrentTag flannelTag node;
          (uiImg, uiCurrent, _) = GetImageCandidate UIImage CurrentTag uiTag node
      in if kubeProxyCurrent \<and> corednsCurrent \<and> flannelCurrent \<and> uiCurrent then aret ()
         else abind (ask (ka_NewKubectlConfig (ue_ka e) [])) (\<lambda>_.
           let tagScript = tag_line uiCurrent uiTag uiImg UIImage
                 (tag_line flannelCurrent flannelTag flannelImg CNIFlannelImage
                   (tag_line corednsCurrent corednsTag corednsImg CoreDNSImage
                     (tag_line kubeProxyCurrent kubeProxyTag kubeProxyImg KubeProxyImage ''#! /bin/bash'')))
           in abind (RunScript (ue_ka e) (kn_Name node) OCNESystemNamespace ''tag-images'' tagScript []) (\<lambda>_. aret ())))"

section \<open>Moving the applications\<close>

text \<open>A release that is found has a configuration, if only an empty one.\<close>

definition getRelease :: "('s, 'c) update_env \<Rightarrow> string \<Rightarrow> string \<Rightarrow> ('s, (string \<rightharpoonup> gval) option) kact" where
  "getRelease e release ns =
     abind (ls_List (ue_ha e) ns False) (\<lambda>releases.
       aret (case find (\<lambda>rel. rel_Name rel = release) releases of
               None \<Rightarrow> None
             | Some rel \<Rightarrow> Some (case rel_Config rel of None \<Rightarrow> Map.empty | Some m \<Rightarrow> m)))"

definition internal_app :: "bool \<Rightarrow> string \<Rightarrow> string \<Rightarrow> string \<Rightarrow> string \<Rightarrow> (string \<rightharpoonup> gval) \<Rightarrow> 's ApplicationDescription" where
  "internal_app force name ns release version config = \<lparr>ad_PreInstall = None, ad_Force = force,
     ad_Application = \<lparr>app_Name = name, app_Release = release, app_Version = version, app_Catalog = InternalCatalog,
        app_Namespace = ns, app_Config = GMap config, app_ConfigFrom = []\<rparr>\<rparr>"

definition updateKubeProxy :: "('s, 'c) update_env \<Rightarrow> ('s, unit) kact" where
  "updateKubeProxy e =
     atry (getRelease e ''kube-proxy'' ''kube-system'') (\<lambda>rel.
     atry (ask (ka_DaemonSetImages (ue_ka e) ''kube-system'' ''kube-proxy'')) (\<lambda>ds.
       (case ds of
          Inl err \<Rightarrow> (if go_contains err ''not found'' then aret () else afail err)
        | Inr _ \<Rightarrow>
            (case rel of
               Inr (Some cfg) \<Rightarrow>
                 abind (alift (nested_string cfg [''image'', ''tag''])) (\<lambda>(tag, found).
                   if \<not> found \<or> tag = CurrentTag then aret ()
                   else abind (alift (set_nested_field cfg (GStr CurrentTag) [''image'', ''tag''])) (\<lambda>cfg'.
                     UpdateApplications (ue_ka e) (ue_ha e)
                       [internal_app False ''kube-proxy'' ''kube-system'' ''kube-proxy'' ''2.0.0'' cfg']))
             | _ \<Rightarrow>
                 abind (ask (ka_GetConfigmap (ue_ka e) ''kube-system'' ''kube-proxy'')) (\<lambda>cm.
                   (case cm ''config.conf'' of
                      None \<Rightarrow> afail ''ConfigMap kube-proxy in kube-system did not have a config.conf key''
                    | Some conf \<Rightarrow>
                        abind (alift (ue_Unmarshal e conf)) (\<lambda>confParsed.
                          (case cm ''kubeconfig.conf'' of
                             None \<Rightarrow> afail ''ConfigMap kube-proxy in kube-system did not have a kubeconfig.conf key''
                           | Some kcfg \<Rightarrow>
                               abind (alift (ue_Unmarshal e kcfg)) (\<lambda>kcfgParsed.
                                 InstallApplications (ue_ka e) (ue_ha e)
                                   [internal_app True ''kube-proxy'' ''kube-system'' ''kube-proxy'' ''2.0.0''
                                      [''image'' \<mapsto> GMap [''tag'' \<mapsto> GStr CurrentTag],
                                       ''kubeconfig'' \<mapsto> GMap kcfgParsed, ''config'' \<mapsto> GMap confParsed]])))))))))"

definition updateCoreDNS :: "('s, 'c) update_env \<Rightarrow> ('s, unit) kact" where
  "updateCoreDNS e =
     abind (getRelease e ''core-dns'' ''kube-system'') (\<lambda>rel.
     atry (ask (ka_DeploymentImages (ue_ka e) ''kube-system'' ''coredns'')) (\<lambda>dep.
       (case dep of
          Inl err \<Rightarrow> (if go_contains err ''not found'' then aret () else afail err)
        | Inr _ \<Rightarrow>
            (case rel of
               Some cfg \<Rightarrow>
                 abind (alift (nested_string cfg [''image'', ''tag''])) (\<lambda>(tag, found).
                   if \<not> found \<or> tag = CurrentTag then aret ()
                   else abind (alift (set_nested_field cfg (GStr CurrentTag) [''image'', ''tag''])) (\<lambda>cfg'.
                     UpdateApplications (ue_ka e) (ue_ha e)
                       [internal_app True ''coredns'' ''kube-system'' ''core-dns'' ''2.0.0'' cfg']))
             | None \<Rightarrow>
                 abind (ask (ka_ClusterDNS (ue_ka e))) (\<lambda>clusterDNS.
                   (case clusterDNS of
                      [] \<Rightarrow> afail ''cluster does not have a DNS service ip''
                    | ip # _ \<Rightarrow>
                        InstallApplications (ue_ka e) (ue_ha e)
                          [internal_app True ''coredns'' ''kube-system'' ''core-dns'' ''2.0.0''
                             [''image'' \<mapsto> GMap [''tag'' \<mapsto> GStr CurrentTag],
                              ''service'' \<mapsto> GMap [''clusterIP'' \<mapsto> GStr ip, ''clusterIPs'' \<mapsto> GList (map GStr clusterDNS)]]]))))))"

definition updateFlannel :: "('s, 'c) update_env \<Rightarrow> ('s, unit) kact" where
  "updateFlannel e =
     abind (getRelease e ''flannel'' ''kube-flannel'') (\<lambda>rel.
       (case rel of
          None \<Rightarrow> aret ()
        | Some cfg \<Rightarrow>
            abind (alift (nested_string cfg [''flannel'', ''image'', ''tag''])) (\<lambda>(tag, found).
              if \<not> found \<or> tag = CurrentTag then aret ()
              else abind (alift (set_nested_field cfg (GStr CurrentTag) [''flannel'', ''image'', ''tag''])) (\<lambda>cfg'.
                UpdateApplications (ue_ka e) (ue_ha e)
                  [internal_app False ''flannel'' ''kube-flannel'' ''flannel'' ''2.0.0'' cfg']))))"

definition updateUI :: "('s, 'c) update_env \<Rightarrow> ('s, unit) kact" where
  "updateUI e =
     abind (getRelease e ''ui'' ''ocne-system'') (\<lambda>rel.
       (case rel of
          None \<Rightarrow> aret ()
        | Some cfg \<Rightarrow>
            abind (alift (nested_string cfg [''image'', ''tag''])) (\<lambda>(tag, _).
              if tag = CurrentTag then aret ()
              else abind (alift (set_nested_field cfg (GStr CurrentTag) [''image'', ''tag''])) (\<lambda>cfg'.
                UpdateApplications (ue_ka e) (ue_ha e)
                  [internal_app False ''ui'' ''ocne-system'' ''ui'' [] cfg']))))"

section \<open>Kubernetes 1.30 and lower\<close>

fun any_below_131 :: "KNode list \<Rightarrow> bool result" where
  "any_below_131 [] = Inr False"
| "any_below_131 (n # ns) =
     rbind (CompareVersions (kn_KubeletVersion n) ''1.31'') (\<lambda>res.
       if res = -1 then Inr True else any_below_131 ns)"

text \<open>Tag on every node; the results are whether any failed and whether any succeeded.\<close>

fun tag_nodes :: "('s, 'c) update_env \<Rightarrow> string \<Rightarrow> string \<Rightarrow> string \<Rightarrow> string \<Rightarrow> KNode list \<Rightarrow> bool \<Rightarrow> bool
    \<Rightarrow> ('s, bool \<times> bool) kact" where
  "tag_nodes e kp cd fl ui [] haveError haveSuccess = aret (haveError, haveSuccess)"
| "tag_nodes e kp cd fl ui (node # nodes) haveError haveSuccess =
     atry (tagOnNode e node kp cd fl ui) (\<lambda>r.
       (case r of
          Inl _ \<Rightarrow> tag_nodes e kp cd fl ui nodes True haveSuccess
        | Inr _ \<Rightarrow> tag_nodes e kp cd fl ui nodes haveError True))"

text \<open>The last part of \<open>oneThirtyAndLower\<close>: only the error of the first step is returned.\<close>

definition refresh_workloads :: "('s, 'c) update_env \<Rightarrow> ('s, unit) kact" where
  "refresh_workloads e =
     abind (updateKubeProxy e) (\<lambda>_.
     atry (updateCoreDNS e) (\<lambda>r. case r of Inl _ \<Rightarrow> aret () | Inr _ \<Rightarrow>
     atry (updateFlannel e) (\<lambda>r. case r of Inl _ \<Rightarrow> aret () | Inr _ \<Rightarrow>
     atry (updateUI e) (\<lambda>r. aret ()))))"

definition oneThirtyAndLower :: "('s, 'c) update_env \<Rightarrow> KNode list \<Rightarrow> ('s, unit) kact" where
  "oneThirtyAndLower e nodes =
     abind (alift (any_below_131 nodes)) (\<lambda>doIt.
       if \<not> doIt then aret ()
       else abind (getDaemonSetTag e ''kube-system'' ''kube-proxy'' KubeProxyImage) (\<lambda>kubeProxyTag.
            abind (getDeploymentTag e ''kube-system'' ''coredns'' CoreDNSImage) (\<lambda>corednsTag.
            abind (getDaemonSetTag e ''kube-flannel'' ''kube-flannel-ds'' CNIFlannelImage) (\<lambda>flannelTag.
            abind (getDeploymentTag e ''ocne-system'' ''ui'' UIImage) (\<lambda>uiTag.
            abind (tag_nodes e kubeProxyTag corednsTag flannelTag uiTag nodes False False) (\<lambda>(haveError, haveSuccess).
              if \<not> haveSuccess \<and> haveError then afail ''Could not tag images on any nodes''
              else refresh_workloads e))))))"

section \<open>The virtual IP\<close>

definition vipableProviderIds :: "string list" where
  "vipableProviderIds = [''olvm://'']"

definition isVipableProvider :: "string \<Rightarrow> bool" where
  "isVipableProvider provider = (provider = [] \<or> list_ex (\<lambda>vp. has_prefix provider vp) vipableProviderIds)"

definition ParseUint16 :: "string \<Rightarrow> u16 result" where
  "ParseUint16 s = (case parse_uint 16 s of
     Some n \<Rightarrow> Inr (of_nat n)
   | None \<Rightarrow> Inl (''strconv.ParseUint: parsing '' @ [CHR 34] @ s @ [CHR 34] @ '': ''
       @ (if s \<noteq> [] \<and> list_all is_digit s then ''value out of range'' else ''invalid syntax'')))"

definition parseEndpoint :: "('s, 'c) update_env \<Rightarrow> string \<Rightarrow> (string \<times> u16) result" where
  "parseEndpoint e endpoint =
     rbind (ue_ParseHostPort e endpoint) (\<lambda>(endpointHost, endpointPortStr).
     rbind (ParseUint16 endpointPortStr) (\<lambda>port. Inr (endpointHost, port)))"

definition KubeAPIServerAdvertiseAddressEndpointAnnotationKey :: string where
  "KubeAPIServerAdvertiseAddressEndpointAnnotationKey = ''kubeadm.kubernetes.io/kube-apiserver.advertise-address.endpoint''"

definition getEndpointForNode :: "('s, 'c) update_env \<Rightarrow> KNode \<Rightarrow> KPod list \<Rightarrow> (string \<times> u16) result" where
  "getEndpointForNode e node pods =
     (case find (\<lambda>p. pod_Name p = ''kube-apiserver-'' @ kn_Name node) pods of
        None \<Rightarrow> Inl (''could not find kube-apiserver pod for node '' @ kn_Name node)
      | Some p \<Rightarrow>
          (case pod_Annotations p KubeAPIServerAdvertiseAddressEndpointAnnotationKey of
             None \<Rightarrow> Inl (''could not find endpoint annotation '' @ KubeAPIServerAdvertiseAddressEndpointAnnotationKey
                         @ '' on node '' @ kn_Name node)
           | Some endpoint \<Rightarrow> parseEndpoint e endpoint))"

definition CAPIClusterNameAnnotation :: string where
  "CAPIClusterNameAnnotation = ''cluster.x-k8s.io/cluster-name''"

text \<open>Whether the nodes leave it possible that the endpoint is a virtual IP.\<close>

fun vip_possible :: "string \<Rightarrow> KNode list \<Rightarrow> bool" where
  "vip_possible apiHost [] = True"
| "vip_possible apiHost (n # ns) =
     (if \<not> IsControlPlaneNode n then vip_possible apiHost ns
      else if apiHost \<in> set (kn_Addresses n) then False
      else if isVipableProvider (kn_ProviderID n) then vip_possible apiHost ns
      else if (case kn_Annotations n of None \<Rightarrow> True | Some a \<Rightarrow> a CAPIClusterNameAnnotation = None)
           then vip_possible apiHost ns
      else False)"

text \<open>Whether keepalived manages the address on every control-plane node.\<close>

fun vip_configured :: "('s, 'c) update_env \<Rightarrow> string \<Rightarrow> KNode list \<Rightarrow> ('s, bool) kact" where
  "vip_configured e apiHost [] = aret True"
| "vip_configured e apiHost (n # ns) =
     (if \<not> IsControlPlaneNode n then vip_configured e apiHost ns
      else abind (ask (ka_NewKubectlConfig (ue_ka e) [])) (\<lambda>_.
           abind (RunScript (ue_ka e) (kn_Name n) OCNESystemNamespace ''check-ips'' (ue_GetKeepalivedConf e) []) (\<lambda>keepalivedConf.
           abind (DeletePod (ue_ka e) OCNESystemNamespace (''check-ips-'' @ kn_Name n)) (\<lambda>_.
             if go_contains keepalivedConf apiHost then vip_configured e apiHost ns else aret False))))"

definition upgrade_vip_on :: "('s, 'c) update_env \<Rightarrow> string \<Rightarrow> u16 \<Rightarrow> KPod list \<Rightarrow> KNode \<Rightarrow> ('s, unit) kact" where
  "upgrade_vip_on e apiHost apiHostPort pods n =
     (if \<not> IsControlPlaneNode n then aret ()
      else abind (alift (getEndpointForNode e n pods)) (\<lambda>(_, endpointPort).
           abind (alift (ue_VipScript e apiHostPort endpointPort apiHost)) (\<lambda>updateScript.
           abind (ask (ka_NewKubectlConfig (ue_ka e) [])) (\<lambda>_.
           abind (RunScript (ue_ka e) (kn_Name n) OCNESystemNamespace ''upgrade-vips'' updateScript []) (\<lambda>_.
             atry (DeletePod (ue_ka e) OCNESystemNamespace (''check-update-'' @ kn_Name n)) (\<lambda>_. aret ()))))))"

definition virtualIp :: "('s, 'c) update_env \<Rightarrow> KNode list \<Rightarrow> ('s, unit) kact" where
  "virtualIp e nodes =
     abind (getRelease e ''ha-config'' ''ocne-system'') (\<lambda>haRelease.
       if haRelease \<noteq> None then aret ()
       else abind (ask (ka_ControlPlaneEndpoint (ue_ka e))) (\<lambda>endpoint.
            abind (alift (parseEndpoint e endpoint)) (\<lambda>(apiHost, apiHostPort).
              if \<not> vip_possible apiHost nodes then aret ()
              else abind (vip_configured e apiHost nodes) (\<lambda>configured.
                if \<not> configured then aret ()
                else abind (ask (ka_GetPods (ue_ka e) KubeNamespace)) (\<lambda>kubeSystemPods.
                     abind (afor nodes (upgrade_vip_on e apiHost apiHostPort kubeSystemPods)) (\<lambda>_.
                     atry (InstallApplications (ue_ka e) (ue_ha e)
                       [internal_app False ''ocne-ha-monitor'' ''ocne-system'' ''ha-config'' ''2.0.0''
                          [''apiAddress'' \<mapsto> GStr apiHost, ''apiPort'' \<mapsto> GStr (format_nat (unat apiHostPort))]])
                       (\<lambda>_. aret ())))))))"

section \<open>All repairs\<close>

definition cluster_Update :: "('s, 'c) update_env \<Rightarrow> KNode list \<Rightarrow> ('s, unit) kact" where
  "cluster_Update e nodes =
     afor [oneThirtyAndLower e, virtualIp e] (\<lambda>f. f nodes)"

section \<open>Is an update available?\<close>

definition OCNEAnnoUpdateAvailable :: string where
  "OCNEAnnoUpdateAvailable = ''ocne.oracle.com/update-available''"

definition IsUpdateAvailable :: "('s, 'c) update_env \<Rightarrow> KNode \<Rightarrow> ('s, bool) kact" where
  "IsUpdateAvailable e node =
     (if (case kn_Annotations node of None \<Rightarrow> False
          | Some a \<Rightarrow> (case a OCNEAnnoUpdateAvailable of None \<Rightarrow> False | Some v \<Rightarrow> to_lower v = ''true''))
      then aret True
      else if kn_KubeletVersion node = ''v1.32.7+1.el8'' \<or> kn_KubeletVersion node = ''v1.32.5+1.el8'' then
        abind (ask (ka_NewKubectlConfig (ue_ka e) [])) (\<lambda>_.
        abind (RunScript (ue_ka e) (kn_Name node) OCNESystemNamespace ''check-update-127'' (ue_CheckNodeUpdate e) []) (\<lambda>ockInfo.
        abind (DeletePod (ue_ka e) OCNESystemNamespace (''check-update-'' @ kn_Name node)) (\<lambda>_.
        abind (alift (ue_Timestamps e ockInfo)) (\<lambda>(boot, upd). aret (boot < upd)))))
      else aret False)"

definition IsUpdateAvailableByName :: "('s, 'c) update_env \<Rightarrow> string \<Rightarrow> ('s, bool) kact" where
  "IsUpdateAvailableByName e name =
     abind (ask (na_GetNode (ka_node (ue_ka e)) name)) (\<lambda>node. IsUpdateAvailable e node)"

section \<open>What the repairs can do\<close>

text \<open>Events of a script with one of these actions on one of these nodes, or the removal of a pod there.\<close>

definition node_event :: "string set \<Rightarrow> string set \<Rightarrow> kube_event \<Rightarrow> bool" where
  "node_event names actions ev \<longleftrightarrow>
     (\<exists>n \<in> names. \<exists>a \<in> actions. (\<exists>script. script_event n OCNESystemNamespace a script ev)
        \<or> ev = EvDeletePod OCNESystemNamespace (a @ ''-'' @ n))"

definition internal_names :: "(string \<times> string) set" where
  "internal_names = {(''kube-proxy'', ''kube-system''), (''coredns'', ''kube-system''), (''flannel'', ''kube-flannel''),
     (''ui'', ''ocne-system''), (''ocne-ha-monitor'', ''ocne-system'')}"

text \<open>Events of installing one of the applications the program brings along.\<close>

definition internal_event :: "kube_event \<Rightarrow> bool" where
  "internal_event ev \<longleftrightarrow> (\<exists>(name, ns) \<in> internal_names. ev = EvCreateNamespace ns \<or> ev = EvPreInstall name
     \<or> (\<exists>rel ns'. ev = EvHelmUpgrade rel ns' name))"

definition update_event :: "KNode list \<Rightarrow> kube_event \<Rightarrow> bool" where
  "update_event nodes ev \<longleftrightarrow>
     node_event (kn_Name ` set nodes) {''tag-images'', ''check-ips'', ''upgrade-vips'', ''check-update''} ev \<or> internal_event ev"

lemma internal_app_event:
  "app_event (ad_Application (internal_app f name ns rel ver cfg)) ev \<Longrightarrow> (name, ns) \<in> internal_names \<Longrightarrow> internal_event ev"
  unfolding internal_event_def app_event_def internal_app_def by (cases ev) auto

lemma node_eventI:
  "n \<in> set nodes \<Longrightarrow> a \<in> {''tag-images'', ''check-ips'', ''upgrade-vips'', ''check-update''} \<Longrightarrow>
     script_event (kn_Name n) OCNESystemNamespace a script ev \<Longrightarrow> update_event nodes ev"
  unfolding update_event_def node_event_def by blast

lemma node_deleteI:
  "n \<in> set nodes \<Longrightarrow> a \<in> {''tag-images'', ''check-ips'', ''upgrade-vips'', ''check-update''} \<Longrightarrow>
     update_event nodes (EvDeletePod OCNESystemNamespace (a @ ''-'' @ kn_Name n))"
  unfolding update_event_def node_event_def by blast

lemma emits_getRelease [emits_intro]: "emits P (getRelease e r ns)"
  unfolding getRelease_def by (intro emits_intro)

lemma emits_internal:
  "(name, ns) \<in> internal_names \<Longrightarrow> emits internal_event (InstallApplications ka ha [internal_app f name ns rel ver cfg])"
  "(name, ns) \<in> internal_names \<Longrightarrow> emits internal_event (UpdateApplications ka ha [internal_app f name ns rel ver cfg])"
  by (auto intro!: emits_intro dest: internal_app_event)

lemma emits_refresh_workloads: "emits internal_event (refresh_workloads e)"
proof -
  have "emits internal_event (updateKubeProxy e)"
    unfolding updateKubeProxy_def
    by (auto intro!: emits_intro emits_internal simp: internal_names_def split: sum.split option.split prod.split)
  moreover have "emits internal_event (updateCoreDNS e)"
    unfolding updateCoreDNS_def
    by (auto intro!: emits_intro emits_internal simp: internal_names_def split: sum.split option.split prod.split list.split)
  moreover have "emits internal_event (updateFlannel e)"
    unfolding updateFlannel_def
    by (auto intro!: emits_intro emits_internal simp: internal_names_def split: sum.split option.split prod.split)
  moreover have "emits internal_event (updateUI e)"
    unfolding updateUI_def
    by (auto intro!: emits_intro emits_internal simp: internal_names_def split: sum.split option.split prod.split)
  ultimately show ?thesis unfolding refresh_workloads_def by (intro emits_intro)
qed

lemma emits_tagOnNode: "node \<in> set nodes \<Longrightarrow> emits (update_event nodes) (tagOnNode e node kp cd fl ui)"
  unfolding tagOnNode_def Let_def
  by (intro emits_intro) (erule node_eventI [where a = "''tag-images''"], simp, assumption)

lemma emits_tag_nodes: "set ns \<subseteq> set nodes \<Longrightarrow> emits (update_event nodes) (tag_nodes e kp cd fl ui ns he hs)"
  by (induction ns arbitrary: he hs) (auto intro!: emits_intro emits_tagOnNode split: sum.split)

lemma emits_oneThirtyAndLower: "emits (update_event nodes) (oneThirtyAndLower e nodes)"
  unfolding oneThirtyAndLower_def getDaemonSetTag_def getDeploymentTag_def
  by (auto intro!: emits_intro emits_tag_nodes emits_mono [OF emits_refresh_workloads]
      simp: update_event_def split: prod.split)

lemma emits_vip_configured: "set ns \<subseteq> set nodes \<Longrightarrow> emits (update_event nodes) (vip_configured e h ns)"
proof (induction ns)
  case (Cons n ns)
  have "update_event nodes (EvDeletePod OCNESystemNamespace (''check-ips'' @ ''-'' @ kn_Name n))"
    by (rule node_deleteI) (use Cons.prems in auto)
  with Cons show ?case by (auto intro!: emits_intro intro: node_eventI)
qed (auto intro!: emits_intro)

lemma emits_upgrade_vip_on: "n \<in> set nodes \<Longrightarrow> emits (update_event nodes) (upgrade_vip_on e h p pods n)"
proof -
  assume n: "n \<in> set nodes"
  then have "update_event nodes (EvDeletePod OCNESystemNamespace (''check-update'' @ ''-'' @ kn_Name n))"
    by (rule node_deleteI) simp
  with n show ?thesis
    unfolding upgrade_vip_on_def by (auto intro!: emits_intro intro: node_eventI split: prod.split)
qed

lemma ha_monitor_internal: "(''ocne-ha-monitor'', ''ocne-system'') \<in> internal_names"
  by (simp add: internal_names_def)

lemma emits_virtualIp: "emits (update_event nodes) (virtualIp e nodes)"
  unfolding virtualIp_def
  by (auto intro!: emits_intro emits_vip_configured emits_upgrade_vip_on dest: internal_app_event [OF _ ha_monitor_internal]
      simp: update_event_def split: prod.split)

lemma emits_cluster_Update: "emits (update_event nodes) (cluster_Update e nodes)"
  unfolding cluster_Update_def by (auto intro!: emits_intro emits_oneThirtyAndLower emits_virtualIp)

lemma RunScript_output:
  assumes "RunScript ka n ns action script env (s, tr) = (Inr out, s', tr')"
  shows "\<exists>t t'. ka_RunInPod ka (action @ ''-'' @ n @ ''-pod'') script t = (Inr out, t')"
  using assms unfolding RunScript_def Let_def
  by (auto elim!: abind_cases adefer_cases simp: perform_def split: prod.splits) blast

lemma vip_configured_True:
  assumes "vip_configured e h ns (s, tr) = (Inr True, s', tr')" and "n \<in> set ns" and "IsControlPlaneNode n"
  shows "\<exists>t out t'. ka_RunInPod (ue_ka e) (''check-ips-'' @ kn_Name n @ ''-pod'') (ue_GetKeepalivedConf e) t = (Inr out, t')
     \<and> go_contains out h"
  using assms
proof (induction ns arbitrary: s tr)
  case (Cons m ns)
  show ?case
  proof (cases "n = m")
    case False
    with Cons.prems(2) have "n \<in> set ns" by simp
    with Cons.prems(1,3) Cons.IH show ?thesis
      by (auto elim!: abind_cases split: if_splits)
  next
    case True
    with Cons.prems(1,3) obtain s1 tr1 out s2 tr2 where
      "RunScript (ue_ka e) (kn_Name n) OCNESystemNamespace ''check-ips'' (ue_GetKeepalivedConf e) [] (s1, tr1) = (Inr out, s2, tr2)"
      "go_contains out h"
      by (auto elim!: abind_cases split: if_splits)
    with RunScript_output [OF this(1)] show ?thesis by auto
  qed
qed simp

lemma vip_possible_addresses:
  "vip_possible h ns \<Longrightarrow> n \<in> set ns \<Longrightarrow> IsControlPlaneNode n \<Longrightarrow> h \<notin> set (kn_Addresses n)"
  by (induction ns) (auto split: if_splits)

definition upgrade_exec :: "kube_event \<Rightarrow> bool" where
  "upgrade_exec ev \<longleftrightarrow> (\<exists>n script. ev = EvExec (''upgrade-vips-'' @ n @ ''-pod'') script)"

lemma vip_configured_no_upgrade: "emits (\<lambda>ev. \<not> upgrade_exec ev) (vip_configured e h ns)"
proof (induction ns)
  case (Cons n ns)
  then show ?case
    by (auto intro!: emits_intro simp: upgrade_exec_def script_event_def Let_def)
qed (simp add: emits_aret del: aret_run)

text \<open>The path of \<open>virtualIp\<close> on which the virtual IP is moved.\<close>

lemma virtualIp_moves:
  assumes "getRelease e ''ha-config'' ''ocne-system'' w = (Inr None, w1)"
    and "ask (ka_ControlPlaneEndpoint (ue_ka e)) w1 = (Inr endpoint, w2)"
    and "parseEndpoint e endpoint = Inr (h, p)"
    and "vip_possible h nodes"
    and "vip_configured e h nodes w2 = (Inr True, w3)"
    and "ask (ka_GetPods (ue_ka e) KubeNamespace) w3 = (Inr pods, w4)"
    and "afor nodes (upgrade_vip_on e h p pods) w4 = (Inr (), w5)"
    and "InstallApplications (ue_ka e) (ue_ha e)
      [internal_app False ''ocne-ha-monitor'' ''ocne-system'' ''ha-config'' ''2.0.0''
         [''apiAddress'' \<mapsto> GStr h, ''apiPort'' \<mapsto> GStr (format_nat (unat p))]] w5 = (r, w6)"
  shows "virtualIp e nodes w = (Inr (), w6)"
  using assms(4) unfolding virtualIp_def
  by (simp add: abind_def atry_def assms(1,2,3,5,6,7,8) del: afor.simps vip_configured.simps)

text \<open>A cluster with one control-plane node, on which keepalived manages the endpoint's address.\<close>

definition sample_update :: "(int, unit) update_env" where
  "sample_update = \<lparr>ue_lib = sample_lib, ue_ka = sample_kube ''virtual_ipaddress 10.0.0.9'', ue_ha = sample_helm,
     ue_Unmarshal = (\<lambda>_. Inr Map.empty),
     ue_ParseHostPort = (\<lambda>s. case go_cut s '':'' of None \<Rightarrow> Inl ''no port'' | Some r \<Rightarrow> Inr r),
     ue_VipScript = (\<lambda>_ _ ip. Inr (''vip '' @ ip)), ue_GetKeepalivedConf = ''cat'', ue_CheckNodeUpdate = ''check'',
     ue_Timestamps = (\<lambda>_. Inr (1, 2))\<rparr>"

definition sample_cp :: KNode where
  "sample_cp = (sample_node [])\<lparr>kn_Labels := Some [K8sLabelControlPlane \<mapsto> []], kn_Addresses := [''10.0.0.1'']\<rparr>"

section \<open>Properties\<close>

text \<open>
  C13. The repairs touch nothing else: every change they make to the cluster, on any path, is part of running one of
  their own scripts on one of the given nodes, or of installing one of the five applications the program brings along.
\<close>

theorem cluster_Update_touches_only:
  assumes "cluster_Update e nodes (s, tr) = (r, s', tr')"
  shows "\<exists>evs. tr' = tr @ evs \<and> (\<forall>ev \<in> set evs. update_event nodes ev)"
  using emitsD [OF emits_cluster_Update assms] by (simp add: list_all_iff)

theorem cluster_Update_touches_only_witness:
  "\<exists>r s' tr'. cluster_Update sample_update [sample_cp] (0, []) = (r, s', tr') \<and> (\<forall>ev \<in> set tr'. update_event [sample_cp] ev)"
proof -
  obtain r s' tr' where run: "cluster_Update sample_update [sample_cp] (0, []) = (r, s', tr')" by (metis prod.exhaust)
  from cluster_Update_touches_only [OF run] run show ?thesis by auto
qed

text \<open>
  C14. On a cluster where every node runs at least Kubernetes 1.31 and the monitor for the virtual IP is installed, the
  repairs change nothing and succeed.
\<close>

theorem cluster_Update_noop:
  assumes "\<forall>n \<in> set nodes. \<exists>c. CompareVersions (kn_KubeletVersion n) ''1.31'' = Inr c \<and> c \<noteq> -1"
    and "getRelease e ''ha-config'' ''ocne-system'' (s, tr) = (Inr (Some cfg), s', tr')"
  shows "cluster_Update e nodes (s, tr) = (Inr (), s', tr)"
proof -
  have "any_below_131 nodes = Inr False"
    using assms(1) by (induction nodes) auto
  moreover have "tr' = tr"
    using no_effects [OF emits_getRelease assms(2)] .
  ultimately show ?thesis
    using assms(2) by (simp add: cluster_Update_def oneThirtyAndLower_def virtualIp_def abind_def)
qed

theorem cluster_Update_noop_witness:
  "cluster_Update (sample_update\<lparr>ue_ha := sample_helm\<lparr>ha_GetReleases := (\<lambda>_ s.
       (Inr [\<lparr>rel_Name = ''ha-config'', rel_ChartName = ''ocne-ha-monitor'', rel_Config = None\<rparr>], s))\<rparr>\<rparr>) [sample_cp] (0, [])
     = (Inr (), 0, [])"
proof (rule cluster_Update_noop)
  have "CompareVersions ''v1.33.5'' ''1.31'' = Inr 1" by code_simp
  then show "\<forall>n \<in> set [sample_cp]. \<exists>c. CompareVersions (kn_KubeletVersion n) ''1.31'' = Inr c \<and> c \<noteq> -1"
    by (simp add: sample_cp_def sample_node_def)
  show "getRelease (sample_update\<lparr>ue_ha := sample_helm\<lparr>ha_GetReleases := (\<lambda>_ s.
       (Inr [\<lparr>rel_Name = ''ha-config'', rel_ChartName = ''ocne-ha-monitor'', rel_Config = None\<rparr>], s))\<rparr>\<rparr>)
       ''ha-config'' ''ocne-system'' (0, []) = (Inr (Some Map.empty), 0, [])"
    by (simp add: getRelease_def ls_List_def sample_helm_def abind_def ask_def)
qed

text \<open>
  Only kube-proxy can make moving the applications fail: the step gives an error exactly when moving kube-proxy
  does, and it is the same error.  A failure to move CoreDNS, flannel or the UI ends the step with success; after a
  failure to move CoreDNS, neither flannel nor the UI is looked at.
\<close>

theorem refresh_fails_only_for_kube_proxy:
  "(refresh_workloads e w = (Inl err, w')) = (updateKubeProxy e w = (Inl err, w'))
   \<and> (case updateKubeProxy e w of
          (Inr _, w1) \<Rightarrow> (case updateCoreDNS e w1 of (Inl _, w2) \<Rightarrow> refresh_workloads e w = (Inr (), w2) | _ \<Rightarrow> True)
        | _ \<Rightarrow> True)"
  by (auto simp: refresh_workloads_def abind_def atry_def split: prod.splits sum.splits)



end
