(* ===== verification/Version_Constraints.thy ===== *)
theory Version_Constraints
  imports K8s_Versions
begin

text \<open>
  Constraints on versions of the form major.minor, as the commands build and check them: the text is printed from
  a version (\<^verbatim>\<open>extractMajorAndMinorVersionFromVersion\<close> of \<^verbatim>\<open>pkg/commands/cluster/stage/stage.go\<close>, the same format in
  \<^verbatim>\<open>pkg/commands/node/update/update.go\<close>), parsed by the semver library and checked against another version.  A constraint
  string with a single constraint is parsed as that constraint.
\<close>

definition extractMajorAndMinorVersionFromVersion :: "Version \<Rightarrow> string" where
  "extractMajorAndMinorVersionFromVersion version =
     format_nat (unat (ver_major version)) @ ''.'' @ format_nat (unat (ver_minor version))"

abbreviation major_minor :: "Version \<Rightarrow> u64 \<times> u64" where
  "major_minor v \<equiv> (ver_major v, ver_minor v)"

lemma cv_digit: "is_digit c \<Longrightarrow> cv_char c"
  by (simp add: cv_char_def)

lemma digit_kinds: "is_digit c \<Longrightarrow> \<not> op_char c" "is_digit c \<Longrightarrow> \<not> re_space c"
  by (auto simp: is_digit_def op_char_def re_space_def)

lemma takeWhile_format:
  assumes "\<And>c. is_digit c \<Longrightarrow> P c" and "rest = [] \<or> \<not> P (hd rest)"
  shows "takeWhile P (format_nat n @ rest) = format_nat n" "dropWhile P (format_nat n @ rest) = rest"
proof -
  have d: "list_all P (format_nat n)" using format_nat_digits [of n] assms(1) by (auto simp: list_all_iff)
  then show "takeWhile P (format_nat n @ rest) = format_nat n" "dropWhile P (format_nat n @ rest) = rest"
    using assms(2) by (cases rest; auto simp: list_all_iff takeWhile_append dropWhile_append)+
qed

lemma hd_format_nat: "is_digit (hd (format_nat n @ s))" "format_nat n @ s \<noteq> []"
proof -
  have "hd (format_nat n) \<in> set (format_nat n)" by simp
  then show "is_digit (hd (format_nat n @ s))" using format_nat_digits [of n] by (auto simp: list_all_iff)
qed simp

lemma loose_match_two:
  assumes "\<And>c. is_digit c \<Longrightarrow> cls c" and "\<not> cls CHR ''.''" and "x = [] \<or> x = ''.x'' \<and> cls CHR ''x''"
  shows "loose_match cls (format_nat a @ ''.'' @ format_nat b @ x) = Some (format_nat a, ''.'' @ format_nat b, x, [], [])"
proof -
  have t: "takeWhile cls (format_nat b @ x) = format_nat b" "dropWhile cls (format_nat b @ x) = x"
    using takeWhile_format [of cls x b] assms by auto
  have "takeWhile cls (format_nat a @ ''.'' @ format_nat b @ x) = format_nat a"
    "dropWhile cls (format_nat a @ ''.'' @ format_nat b @ x) = ''.'' @ format_nat b @ x"
    using takeWhile_format [of cls "''.'' @ format_nat b @ x" a] assms by auto
  moreover have "scan_seg cls (''.'' @ format_nat b @ x) = (''.'' @ format_nat b, x)"
    by (simp add: scan_seg_def t)
  moreover have "scan_seg cls x = (x, [])" using assms by (auto simp: scan_seg_def)
  moreover have "trim_prefix (format_nat a @ ''.'' @ format_nat b @ x) ''v'' = format_nat a @ ''.'' @ format_nat b @ x"
    by (rule trim_v_digits)
  ultimately show ?thesis by (simp add: loose_match_def scan_pre_def scan_meta_def)
qed

text \<open>Parsing what was printed.\<close>

lemma digit_cls: "\<not> is_digit CHR ''.''" "\<not> cv_char CHR ''.''" "cv_char CHR ''x''"
  by code_simp+

lemma NewVersion_extract:
  "NewVersion (extractMajorAndMinorVersionFromVersion v) = Inr \<lparr>ver_major = ver_major v, ver_minor = ver_minor v, ver_patch = 0,
     ver_pre = [], ver_metadata = [], ver_original = extractMajorAndMinorVersionFromVersion v\<rparr>"
  using loose_match_two [of is_digit "[]" "unat (ver_major v)" "unat (ver_minor v)"] digit_cls
  by (simp add: NewVersion_def coerceNewVersion_def extractMajorAndMinorVersionFromVersion_def segment_format
      opt_segment_def trim_prefix_char)

lemma NewVersion_minor_zero:
  "NewVersion (extractMajorAndMinorVersionFromVersion v @ ''.0'') = Inr \<lparr>ver_major = ver_major v, ver_minor = ver_minor v, ver_patch = 0,
     ver_pre = [], ver_metadata = [], ver_original = extractMajorAndMinorVersionFromVersion v @ ''.0''\<rparr>"
proof -
  let ?v = "\<lparr>ver_major = ver_major v, ver_minor = ver_minor v, ver_patch = 0, ver_pre = [], ver_metadata = [], ver_original = []\<rparr>"
  have zero: "format_nat 0 = ''0''" by code_simp
  have "extractMajorAndMinorVersionFromVersion v @ ''.0'' = ver_String ?v"
    by (simp add: extractMajorAndMinorVersionFromVersion_def ver_String_def zero)
  with NewVersion_String [of ?v] show ?thesis by (simp add: wf_version_def)
qed

definition minor_constraint :: "string \<Rightarrow> Version \<Rightarrow> string \<Rightarrow> sv_constraint" where
  "minor_constraint f v orig = \<lparr>con_con = \<lparr>ver_major = ver_major v, ver_minor = ver_minor v, ver_patch = 0, ver_pre = [],
      ver_metadata = [], ver_original = extractMajorAndMinorVersionFromVersion v @ ''.0''\<rparr>, con_orig = orig, con_origfunc = f,
      con_minorDirty = False, con_dirty = True, con_patchDirty = True\<rparr>"

lemma parse_minor_constraint:
  assumes "(oper, sp) = (''='', []) \<or> (oper, sp) = (''<='', '' '')" and "x = [] \<or> x = ''.x''"
  shows "parseConstraint (oper @ sp @ extractMajorAndMinorVersionFromVersion v @ x)
    = Inr (minor_constraint oper v (extractMajorAndMinorVersionFromVersion v @ x))"
proof -
  let ?b = "extractMajorAndMinorVersionFromVersion v @ x"
  have hd: "is_digit (hd ?b)" "?b \<noteq> []"
    using hd_format_nat by (auto simp: extractMajorAndMinorVersionFromVersion_def)
  have nosp: "\<forall>c \<in> set ?b. \<not> re_space c"
    using assms(2) format_nat_digits digit_kinds(2)
    by (auto simp: extractMajorAndMinorVersionFromVersion_def list_all_iff re_space_def)
  have opc: "op_char CHR ''=''" "op_char CHR ''<''" "\<not> op_char CHR '' ''" "re_space CHR '' ''" "\<not> re_space CHR ''=''" "\<not> re_space CHR ''<''"
    by (simp_all add: op_char_def re_space_def)
  have tw: "takeWhile op_char (oper @ sp @ ?b) = oper" "dropWhile op_char (oper @ sp @ ?b) = sp @ ?b"
    "dropWhile re_space (oper @ sp @ ?b) = oper @ sp @ ?b" "dropWhile re_space (sp @ ?b) = ?b"
    using assms(1) hd opc digit_kinds by (cases ?b; auto)+
  have whole: "takeWhile (\<lambda>d. \<not> re_space d) ?b = ?b" "dropWhile (\<lambda>d. \<not> re_space d) ?b = []"
    using nosp by simp_all
  have m: "loose_match cv_char ?b = Some (format_nat (unat (ver_major v)), ''.'' @ format_nat (unat (ver_minor v)), x, [], [])"
    using loose_match_two [of cv_char x "unat (ver_major v)" "unat (ver_minor v)"] assms(2) cv_digit digit_cls
    by (auto simp: extractMajorAndMinorVersionFromVersion_def)
  have notX: "\<not> isX (format_nat n)" "format_nat n \<noteq> []" for n
    using format_nat_digits [of n] by (auto simp: isX_def is_digit_def)
  have x: "isX (trim_prefix x ''.'') \<or> x = []" using assms(2) by (auto simp: trim_prefix_char isX_def)
  have ops: "oper \<in> set constraint_ops" "oper \<noteq> []" using assms(1) by (auto simp: constraint_ops_def)
  have v: "NewVersion (format_nat (unat (ver_major v)) @ (''.'' @ format_nat (unat (ver_minor v))) @ ''.0'')
      = Inr \<lparr>ver_major = ver_major v, ver_minor = ver_minor v, ver_patch = 0,
          ver_pre = [], ver_metadata = [], ver_original = extractMajorAndMinorVersionFromVersion v @ ''.0''\<rparr>"
    using NewVersion_minor_zero [of v] by (simp add: extractMajorAndMinorVersionFromVersion_def)
  show ?thesis
    unfolding parseConstraint_def Let_def tw whole m option.case prod.case
    using ops x notX v by (simp add: trim_prefix_char minor_constraint_def)
qed

lemmas parse_eq_minor = parse_minor_constraint [of "''=''" "[]" "[]", simplified]
lemmas parse_eq_minor_x = parse_minor_constraint [of "''=''" "[]" "''.x''", simplified]
lemmas parse_le_minor = parse_minor_constraint [of "''<=''" "'' ''" "[]", simplified]

text \<open>What these constraints accept.\<close>

lemma compare_minor_zero:
  "ver_Compare w \<lparr>ver_major = a, ver_minor = b, ver_patch = 0, ver_pre = [], ver_metadata = m, ver_original = s\<rparr> < 0
     \<longleftrightarrow> ver_major w < a \<or> ver_major w = a \<and> ver_minor w < b \<or> ver_major w = a \<and> ver_minor w = b \<and> ver_patch w = 0 \<and> ver_pre w \<noteq> []"
  by (auto simp: ver_Compare_def compareSegment_def Let_def word_gt_0)

lemma check_eq_minor:
  "Constraints_Check (minor_constraint ''='' v orig) w \<longleftrightarrow> ver_pre w = [] \<and> major_minor w = major_minor v"
  by (auto simp: Constraints_Check_def constraint_check_def minor_constraint_def constraintTildeOrEqual_def constraintTilde_def
      ver_LessThan_def compare_minor_zero)

lemma check_le_minor:
  "Constraints_Check (minor_constraint ''<='' v orig) w \<longleftrightarrow>
     ver_pre w = [] \<and> (ver_major w < ver_major v \<or> ver_major w = ver_major v \<and> ver_minor w \<le> ver_minor v)"
  by (auto simp: Constraints_Check_def constraint_check_def minor_constraint_def constraintLessThanEqual_def)

end
