(* ===== verification/Cluster_Stage.thy ===== *)
theory Cluster_Stage
  imports Cluster_Update Version_Constraints
begin

text \<open>
  Staging an update of a cluster (\<^verbatim>\<open>pkg/commands/cluster/stage/stage.go\<close>): the checks of the nodes' versions, the
  script that is run on each ready node, and the new version in the kubeadm configuration.  What a provider driver does
  for a stage is a parameter; so is the order in which a Go map is walked.
\<close>

section \<open>The kubeadm configuration\<close>

text \<open>
  The match of \<^verbatim>\<open>kubernetesVersion:.*[$\n]\<close> at the start of a text, and what follows it: the rest of the line with its newline;
  on a last line without one, up to its last dollar sign.
\<close>

definition kv_literal :: string where "kv_literal = ''kubernetesVersion:''"

definition kv_match :: "string \<Rightarrow> (string \<times> string) option" where
  "kv_match s =
     (if \<not> prefix kv_literal s then None
      else let t = drop (length kv_literal) s;
               line = takeWhile (\<lambda>c. c \<noteq> CHR 10) t
           in case dropWhile (\<lambda>c. c \<noteq> CHR 10) t of
                c # r \<Rightarrow> Some (kv_literal @ line @ [c], r)
              | [] \<Rightarrow> (if CHR ''$'' \<in> set line
                       then Some (kv_literal @ rev (dropWhile (\<lambda>c. c \<noteq> CHR ''$'') (rev line)),
                                  rev (takeWhile (\<lambda>c. c \<noteq> CHR ''$'') (rev line)))
                       else None))"

lemma kv_match_split: "kv_match s = Some (m, r) \<Longrightarrow> s = m @ r \<and> prefix kv_literal m"
proof -
  assume a: "kv_match s = Some (m, r)"
  then obtain t where s: "s = kv_literal @ t" by (auto simp: kv_match_def prefix_def split: if_splits)
  let ?nl = "\<lambda>c. c \<noteq> CHR 10" and ?dl = "\<lambda>c. c \<noteq> CHR ''$''"
  have dl: "rev (dropWhile ?dl (rev u)) @ rev (takeWhile ?dl (rev u)) = u" for u
    unfolding rev_append [symmetric] takeWhile_dropWhile_id rev_rev_ident by (rule refl)
  show ?thesis
  proof (cases "dropWhile ?nl t")
    case Nil
    then have all: "\<forall>c \<in> set t. c \<noteq> CHR 10" by simp
    note tw = takeWhile_eq_all_conv [THEN iffD2, OF all] and dw = dropWhile_eq_Nil_conv [THEN iffD2, OF all]
    from a have "m = kv_literal @ rev (dropWhile ?dl (rev t))" "r = rev (takeWhile ?dl (rev t))"
      by (simp_all add: s kv_match_def Let_def tw dw split: if_splits)
    with s dl [of t] show ?thesis by (simp only: append.assoc prefixI simp_thms)
  next
    case (Cons c u)
    then have t: "takeWhile ?nl t @ c # u = t" by (metis takeWhile_dropWhile_id)
    from Cons a s have "m = kv_literal @ takeWhile ?nl t @ [c]" "r = u"
      by (simp_all add: kv_match_def Let_def)
    with t s show ?thesis by simp
  qed
qed

lemma kv_match_shorter: "kv_match s = Some (m, r) \<Longrightarrow> length r < length s"
  by (drule kv_match_split) (auto simp: prefix_def kv_literal_def)

text \<open>\<open>FindString\<close> and \<open>ReplaceAll\<close> with this pattern; no replacement here has a dollar sign.\<close>

fun kv_find :: "string \<Rightarrow> string option" where
  "kv_find [] = None"
| "kv_find (c # cs) = (case kv_match (c # cs) of Some (m, _) \<Rightarrow> Some m | None \<Rightarrow> kv_find cs)"

function kv_replace :: "string \<Rightarrow> string \<Rightarrow> string" where
  "kv_replace repl [] = []"
| "kv_replace repl (c # cs) =
     (case kv_match (c # cs) of Some (_, r) \<Rightarrow> repl @ kv_replace repl r | None \<Rightarrow> c # kv_replace repl cs)"
  by pat_completeness auto
termination by (relation "measure (\<lambda>(_, s). length s)") (auto dest!: kv_match_shorter)

definition KubeCMName :: string where "KubeCMName = ''kubeadm-config''"
definition KubeCMField :: string where "KubeCMField = ''ClusterConfiguration''"

definition cluster_configuration :: "(string \<rightharpoonup> string) \<Rightarrow> string" where
  "cluster_configuration cm = (case cm KubeCMField of None \<Rightarrow> [] | Some d \<Rightarrow> d)"

definition version_line :: "string \<Rightarrow> string" where
  "version_line KubeVersion = ''kubernetesVersion: v'' @ KubeVersion @ ''.0'' @ [CHR 10]"

definition update_kubeadm_version :: "'s kube_api \<Rightarrow> string \<Rightarrow> ('s, unit) kact" where
  "update_kubeadm_version ka KubeVersion =
     abind (ask (ka_GetConfigmap ka KubeNamespace KubeCMName)) (\<lambda>cm.
       let newData = kv_replace (version_line KubeVersion) (cluster_configuration cm)
       in perform (EvUpdateConfigMap KubeNamespace KubeCMName newData)
            (ka_UpdateConfigMap ka KubeNamespace KubeCMName (cm(KubeCMField \<mapsto> newData))))"

text \<open>Reading the version back, as \<^verbatim>\<open>pkg/commands/node/update/update.go\<close> does.\<close>

definition getVersionsFromKubeadmConfigMap :: "(string \<rightharpoonup> string) \<Rightarrow> Version result outcome" where
  "getVersionsFromKubeadmConfigMap cm =
     (let newData = (case kv_find (cluster_configuration cm) of None \<Rightarrow> [] | Some m \<Rightarrow> m);
          sanitizedNewData = replace_all newData [CHR 10] []
      in case go_split sanitizedNewData '': v'' of
           _ # desiredMajorMinorPatch # _ \<Rightarrow> Returns (NewVersion desiredMajorMinorPatch)
         | _ \<Rightarrow> Panics)"

section \<open>The versions of the nodes\<close>

fun node_versions :: "KNode list \<Rightarrow> Version list result" where
  "node_versions [] = Inr []"
| "node_versions (node # nodes) =
     rbind (NewVersion (kn_KubeletVersion node)) (\<lambda>version.
     rbind (node_versions nodes) (\<lambda>listOfVersions. Inr (version # listOfVersions)))"

text \<open>\<open>sort.Sort(semver.Collection(...))\<close>, as insertion.\<close>

fun insert_version :: "Version \<Rightarrow> Version list \<Rightarrow> Version list" where
  "insert_version v [] = [v]"
| "insert_version v (w # ws) = (if ver_LessThan v w then v # w # ws else w # insert_version v ws)"

definition sort_versions :: "Version list \<Rightarrow> Version list" where
  "sort_versions vs = foldl (\<lambda>acc v. insert_version v acc) [] vs"

definition stageNodeClusterCheck :: "(string list \<Rightarrow> string list) \<Rightarrow> KNode list \<Rightarrow> string list result outcome" where
  "stageNodeClusterCheck order nodeList =
     (case node_versions nodeList of
        Inl err \<Rightarrow> Returns (Inl err)
      | Inr vs \<Rightarrow>
          (let listOfMinorVersions = order (remdups (map extractMajorAndMinorVersionFromVersion vs))
           in case sort_versions vs of
                [] \<Rightarrow> Panics
              | lowestVersion # rest \<Rightarrow>
                  (let increasedLowerVersion = IncMinor lowestVersion;
                       highestVersion = last (lowestVersion # rest);
                       bad = ''error when extracting major and minor version from version string in Kubernetes cluster''
                   in case parseConstraint (''='' @ extractMajorAndMinorVersionFromVersion lowestVersion @ ''.x'') of
                        Inl _ \<Rightarrow> Returns (Inl bad)
                      | Inr equalMajorAndMinor \<Rightarrow>
                          (case parseConstraint (''='' @ extractMajorAndMinorVersionFromVersion increasedLowerVersion @ ''.x'') of
                             Inl _ \<Rightarrow> Returns (Inl bad)
                           | Inr equalMajorMinorIncreased \<Rightarrow>
                               (if Constraints_Check equalMajorAndMinor highestVersion
                                   \<or> Constraints_Check equalMajorMinorIncreased highestVersion
                                then Returns (Inr listOfMinorVersions)
                                else Returns (Inl (''the cluster's nodes don't share the same version or the cluster's ''
                                       @ ''nodes aren't within a minor version of each other '')))))))"

definition larger_version :: "Version \<Rightarrow> Version \<Rightarrow> Version" where
  "larger_version a b = (if ver_GreaterThan a b then a else b)"

definition stageNodeVersionCheck :: "string list \<Rightarrow> string \<Rightarrow> unit result outcome" where
  "stageNodeVersionCheck listOfMinorVersions versionToStage =
     (case NewVersion versionToStage of
        Inl err \<Rightarrow> Returns (Inl err)
      | Inr versionToStageSemVer \<Rightarrow>
          (case listOfMinorVersions of
             [] \<Rightarrow> Panics
           | first # others \<Rightarrow>
               (case NewVersion first of
                  Inl err \<Rightarrow> Returns (Inl err)
                | Inr firstMajorMinor \<Rightarrow>
                    (case others of
                       [] \<Rightarrow>
                         (let same = extractMajorAndMinorVersionFromVersion firstMajorMinor;
                              incr = extractMajorAndMinorVersionFromVersion (IncMinor firstMajorMinor)
                          in Returns (rbind (parseConstraint (''='' @ incr)) (\<lambda>equalMajorMinorIncreased.
                             rbind (parseConstraint (''='' @ same)) (\<lambda>equalMajorMinorSame.
                               if Constraints_Check equalMajorMinorIncreased versionToStageSemVer
                                 \<or> Constraints_Check equalMajorMinorSame versionToStageSemVer
                               then Inr ()
                               else Inl (''the minor version given to the stage command is not exactly the same minor version or one ''
                                   @ ''minor version higher than the version currently being used by nodes in the cluster. ''
                                   @ ''The version to stage should be '' @ same @ '' or '' @ incr)))))
                     | second # _ \<Rightarrow>
                         Returns (rbind (NewVersion second) (\<lambda>secondMajorMinor.
                           let larger = extractMajorAndMinorVersionFromVersion (larger_version firstMajorMinor secondMajorMinor)
                           in rbind (parseConstraint (''='' @ larger)) (\<lambda>equalToLargerMajorAndMinor.
                                if Constraints_Check equalToLargerMajorAndMinor versionToStageSemVer then Inr ()
                                else Inl (''the minor version given to stage is not the larger of the two minor versions ''
                                    @ ''currently being used by nodes in the cluster. The version to stage should be '' @ larger))))))))"

section \<open>Staging\<close>

record StageOptions =
  so_KubeConfigPath :: string
  so_KubeVersion :: string
  so_OsRegistry :: string
  so_Transport :: string
  so_ClusterConfig :: "ClusterConfig option"
  so_Config :: "Config option"

text \<open>The world by kubeconfig path, the drivers, the walk over a map, and the script.\<close>

record ('s, 'c, 'd) stage_env =
  se_env :: "string \<Rightarrow> ('s, 'c) update_env"
  se_CreateDriver :: "Config option \<Rightarrow> ClusterConfig \<Rightarrow> 's \<Rightarrow> 'd result \<times> 's"
  se_Stage :: "'d \<Rightarrow> string \<Rightarrow> 's \<Rightarrow> (string \<times> string \<times> bool) result \<times> 's"
  se_order :: "string list \<Rightarrow> string list"
  se_stageNodeScript :: string

definition is_major_minor :: "string \<Rightarrow> bool" where
  "is_major_minor v = (case v of [a, b, c, d] \<Rightarrow> is_digit a \<and> a \<noteq> CHR ''0'' \<and> b = CHR ''.'' \<and> is_digit c \<and> is_digit d | _ \<Rightarrow> False)"

definition StageNode :: "('s, 'c, 'd) stage_env \<Rightarrow> ('s, 'c) update_env \<Rightarrow> StageOptions \<Rightarrow> string \<Rightarrow> ('s, unit) kact" where
  "StageNode se e opts nodename =
     abind (aretry (ka_node (ue_ka e)) (60 * duration_s) (retry_functor
       (RunScript (ue_ka e) nodename OCNESystemNamespace ''stage-node'' (se_stageNodeScript se)
          [(''NODE_NAME'', nodename), (''NEW_K8S_VERSION'', so_KubeVersion opts), (''NEW_REGISTRY'', so_OsRegistry opts),
           (''NEW_TRANSPORT'', so_Transport opts)]))) (\<lambda>_. aret ())"

fun stage_nodes :: "('s, 'c, 'd) stage_env \<Rightarrow> ('s, 'c) update_env \<Rightarrow> StageOptions \<Rightarrow> KNode list \<Rightarrow> nat \<Rightarrow> ('s, nat) kact" where
  "stage_nodes se e opts [] stageCount = aret stageCount"
| "stage_nodes se e opts (node # nodes) stageCount =
     (if IsNodeReady node
      then atry (StageNode se e opts (kn_Name node)) (\<lambda>r. stage_nodes se e opts nodes (if is_ok r then stageCount + 1 else stageCount))
      else stage_nodes se e opts nodes stageCount)"

text \<open>
  The part behind the checks.  The functor that updates the kubeadm configuration reports its success as final; the retry
  loop looks at that only with an error.
\<close>

definition stage_checked :: "('s, 'c, 'd) stage_env \<Rightarrow> ('s, 'c) update_env \<Rightarrow> StageOptions \<Rightarrow> KNode list \<Rightarrow> ('s, unit outcome) kact" where
  "stage_checked se e opts nodeList =
     abind (stage_nodes se e opts nodeList 0) (\<lambda>stageCount.
       if stageCount = 0 then afail ''Unable to stage any nodes''
       else abind (aretry (ka_node (ue_ka e)) (60 * duration_s)
                     (retry_functor (update_kubeadm_version (ue_ka e) (so_KubeVersion opts)))) (\<lambda>_.
            aret (Returns ())))"

text \<open>From the client on.\<close>

definition stage_cluster :: "('s, 'c, 'd) stage_env \<Rightarrow> StageOptions \<Rightarrow> ('s, unit outcome) kact" where
  "stage_cluster se opts =
     (let e = se_env se (so_KubeConfigPath opts)
      in abind (ask (ha_GetKubeClient (ue_ha e))) (\<lambda>_.
         abind (ask (na_GetNodeList (ka_node (ue_ka e)))) (\<lambda>nodeList.
         abind (cluster_Update e nodeList) (\<lambda>_.
         atry (CreateNamespaceIfNotExists (ue_ka e) OCNESystemNamespace) (\<lambda>_.
         abind (ask (ka_NewKubectlConfig (ue_ka e) [])) (\<lambda>_.
         panic_or (stageNodeClusterCheck (se_order se) nodeList) (\<lambda>listOfMinorVersions.
         panic_or (stageNodeVersionCheck listOfMinorVersions (so_KubeVersion opts)) (\<lambda>_.
           stage_checked se e opts nodeList))))))))"

definition Stage :: "('s, 'c, 'd) stage_env \<Rightarrow> StageOptions \<Rightarrow> ('s, unit outcome) kact" where
  "Stage se opts =
     (if \<not> is_major_minor (so_KubeVersion opts)
      then afail (''version in major.minor format is not provided. Please choose a version of Kubernetes in the form of ''
             @ ''major.minor, such as 1.30'')
      else if \<not> is_ok (GetKubernetesVersions (so_KubeVersion opts))
      then afail ''the kubernetes version is unsupported. Please choose a supported version of Kubernetes to update to''
      else (case so_ClusterConfig opts of
              None \<Rightarrow> stage_cluster se opts
            | Some cc \<Rightarrow>
                abind (ask (se_CreateDriver se (so_Config opts) cc)) (\<lambda>cd.
                abind (perform (EvProviderStage (so_KubeVersion opts)) (se_Stage se cd (so_KubeVersion opts)))
                  (\<lambda>(kcfgPath, helpStanza, doNodes).
                     if \<not> doNodes then aret (Returns ()) else stage_cluster se (opts\<lparr>so_KubeConfigPath := kcfgPath\<rparr>)))))"

section \<open>Replacing the version\<close>

lemma kv_literal_no_border:
  assumes "prefix kv_literal (p @ kv_literal @ z)" and "p \<noteq> []"
  shows "prefix kv_literal p"
proof (cases "length kv_literal \<le> length p")
  case True
  with assms(1) show ?thesis by (meson prefixI prefix_length_prefix)
next
  case False
  have once: "\<forall>n < length kv_literal. 0 < n \<longrightarrow> kv_literal ! n \<noteq> CHR ''k''"
    by (simp add: kv_literal_def All_less_Suc nth_Cons')
  from assms(1) obtain zs where e: "p @ kv_literal @ z = kv_literal @ zs" by (auto simp: prefix_def)
  have "kv_literal ! length p = (kv_literal @ zs) ! length p" using False by (simp add: nth_append)
  also have "\<dots> = (p @ kv_literal @ z) ! length p" by (simp only: e)
  also have "\<dots> = CHR ''k''" by (simp add: kv_literal_def)
  finally show ?thesis using once False assms(2) by (simp add: not_le)
qed

lemma kv_match_terminated:
  assumes "prefix kv_literal s" and "c \<in> set (drop (length kv_literal) s)" and "c = CHR 10 \<or> c = CHR ''$''"
  shows "kv_match s \<noteq> None"
proof (cases "dropWhile (\<lambda>c. c \<noteq> CHR 10) (drop (length kv_literal) s)")
  case Nil
  then have all: "\<forall>c \<in> set (drop (length kv_literal) s). c \<noteq> CHR 10" by simp
  note tw = takeWhile_eq_all_conv [THEN iffD2, OF all] and dw = dropWhile_eq_Nil_conv [THEN iffD2, OF all]
  from all assms(2,3) have "CHR ''$'' \<in> set (drop (length kv_literal) s)" by auto
  with assms(1) show ?thesis by (simp add: kv_match_def Let_def tw dw)
next
  case (Cons d u)
  with assms(1) show ?thesis by (simp add: kv_match_def Let_def)
qed

lemma kv_match_end:
  assumes "kv_match s = Some (m, r)"
  shows "\<exists>u c. m = kv_literal @ u @ [c] \<and> (c = CHR 10 \<or> c = CHR ''$'')"
proof -
  let ?t = "drop (length kv_literal) s"
  have pre: "prefix kv_literal s" using assms by (auto simp: kv_match_def split: if_splits)
  show ?thesis
  proof (cases "dropWhile (\<lambda>c. c \<noteq> CHR 10) ?t")
    case Nil
    let ?l = "takeWhile (\<lambda>c. c \<noteq> CHR 10) ?t"
    from assms pre Nil have m: "m = kv_literal @ rev (dropWhile (\<lambda>c. c \<noteq> CHR ''$'') (rev ?l))" "CHR ''$'' \<in> set ?l"
      unfolding kv_match_def Let_def Nil by (auto split: if_splits)
    then have "dropWhile (\<lambda>c. c \<noteq> CHR ''$'') (rev ?l) \<noteq> []" by auto
    then obtain d u where d: "dropWhile (\<lambda>c. c \<noteq> CHR ''$'') (rev ?l) = d # u" by (meson neq_Nil_conv)
    then have "d = CHR ''$''" by (simp only: dropWhile_eq_Cons_conv) simp
    with d m show ?thesis by simp
  next
    case (Cons d u)
    then have "d = CHR 10" by (simp only: dropWhile_eq_Cons_conv) simp
    with assms pre Cons show ?thesis by (auto simp: kv_match_def Let_def)
  qed
qed

lemma kv_find_match: "kv_match t = Some (m, r) \<Longrightarrow> kv_find t = Some m"
  by (cases t) (auto simp: kv_match_def kv_literal_def)

lemma kv_replace_split:
  "kv_find s \<noteq> None \<Longrightarrow> \<exists>p m r. s = p @ m @ r \<and> kv_match (m @ r) = Some (m, r) \<and> kv_replace repl s = p @ repl @ kv_replace repl r"
proof (induction s)
  case (Cons c cs)
  show ?case
  proof (cases "kv_match (c # cs)")
    case None
    with Cons obtain p m r where "cs = p @ m @ r" "kv_match (m @ r) = Some (m, r)" "kv_replace repl cs = p @ repl @ kv_replace repl r"
      by auto
    with None show ?thesis by (intro exI [of _ "c # p"] exI [of _ m] exI [of _ r]) auto
  next
    case (Some x)
    then obtain m r where x: "kv_match (c # cs) = Some (m, r)" by (cases x) auto
    then have "kv_replace repl (c # cs) = [] @ repl @ kv_replace repl r" by simp
    moreover from kv_match_split [OF x] have "c # cs = [] @ m @ r" by simp
    moreover from this x have "kv_match (m @ r) = Some (m, r)" by simp
    ultimately show ?thesis by blast
  qed
qed simp

lemma kv_match_line:
  assumes "CHR 10 \<notin> set v"
  shows "kv_match (version_line v @ z) = Some (version_line v, z)"
proof -
  define b where "b = '' v'' @ v @ ''.0''"
  have b: "\<And>c. c \<in> set b \<Longrightarrow> c \<noteq> CHR 10" using assms by (auto simp: b_def)
  have line: "version_line v = kv_literal @ b @ [CHR 10]" by (simp add: version_line_def kv_literal_def b_def)
  have "takeWhile (\<lambda>c. c \<noteq> CHR 10) (b @ CHR 10 # z) = b" "dropWhile (\<lambda>c. c \<noteq> CHR 10) (b @ CHR 10 # z) = CHR 10 # z"
    using b by simp_all
  then show ?thesis by (simp add: kv_match_def Let_def line)
qed

lemma kv_find_replaced:
  "kv_find s \<noteq> None \<Longrightarrow> CHR 10 \<notin> set v \<Longrightarrow> kv_find (kv_replace (version_line v) s) = Some (version_line v)"
proof (induction s)
  case (Cons c cs)
  show ?case
  proof (cases "kv_match (c # cs)")
    case (Some x)
    with kv_find_match [OF kv_match_line [OF Cons.prems(2)]] show ?thesis by (cases x) auto
  next
    case None
    with Cons.prems have cs: "kv_find cs \<noteq> None" by simp
    then obtain p m r where split: "cs = p @ m @ r" "kv_match (m @ r) = Some (m, r)"
      "kv_replace (version_line v) cs = p @ version_line v @ kv_replace (version_line v) r"
      using kv_replace_split by blast
    have "kv_match (c # kv_replace (version_line v) cs) = None"
    proof (rule ccontr)
      assume "kv_match (c # kv_replace (version_line v) cs) \<noteq> None"
      then have "prefix kv_literal (c # kv_replace (version_line v) cs)" by (auto simp: kv_match_def split: if_splits)
      moreover have "c # kv_replace (version_line v) cs = (c # p) @ kv_literal @ ('' v'' @ v @ ''.0'' @ [CHR 10]
          @ kv_replace (version_line v) r)"
        by (simp add: split(3)) (simp add: version_line_def kv_literal_def)
      ultimately have "prefix kv_literal (c # p)" by (metis kv_literal_no_border list.distinct(1))
      then obtain q where q: "c # p = kv_literal @ q" by (auto simp: prefix_def)
      obtain u d where "m = kv_literal @ u @ [d]" "d = CHR 10 \<or> d = CHR ''$''" using kv_match_end [OF split(2)] by blast
      moreover have "c # cs = kv_literal @ q @ m @ r" using q split(1) by simp
      ultimately have "kv_match (c # cs) \<noteq> None" by (intro kv_match_terminated [of _ d]) auto
      with None show False by simp
    qed
    with Cons cs None show ?thesis by simp
  qed
qed simp

section \<open>The checks\<close>

lemma node_versions_Inr:
  "node_versions nodes = Inr vs \<longleftrightarrow> list_all2 (\<lambda>n v. NewVersion (kn_KubeletVersion n) = Inr v) nodes vs"
  by (induction nodes arbitrary: vs) (auto simp: rbind_Inr_iff list_all2_Cons1)

lemma node_versions_wf: "node_versions nodes = Inr vs \<Longrightarrow> \<forall>v \<in> set vs. wf_version v"
  by (induction nodes arbitrary: vs) (auto simp: rbind_Inr_iff dest: NewVersion_wf)

lemma less_key: "wf_version v \<Longrightarrow> wf_version w \<Longrightarrow> ver_LessThan v w \<longleftrightarrow> ver_key v < ver_key w"
  by (simp add: ver_LessThan_def Compare_key cmp3_le_iff)

lemma mset_insert_version: "mset (insert_version v ws) = add_mset v (mset ws)"
  by (induction ws) auto

lemma sorted_insert_version:
  "\<forall>w \<in> insert v (set ws). wf_version w \<Longrightarrow> sorted (map ver_key ws) \<Longrightarrow> sorted (map ver_key (insert_version v ws))"
proof (induction ws)
  case (Cons w ws)
  have "set (insert_version v ws) = insert v (set ws)"
    by (metis mset_insert_version set_mset_add_mset_insert set_mset_mset)
  with Cons show ?case by (auto simp: less_key not_less intro: order.trans less_imp_le)
qed simp

lemma sort_versions_sorted:
  assumes "\<forall>v \<in> set vs. wf_version v"
  shows "sorted (map ver_key (sort_versions vs)) \<and> mset (sort_versions vs) = mset vs"
proof -
  have "\<forall>w \<in> set (acc @ vs). wf_version w \<Longrightarrow> sorted (map ver_key acc) \<Longrightarrow>
      sorted (map ver_key (foldl (\<lambda>acc v. insert_version v acc) acc vs))
      \<and> mset (foldl (\<lambda>acc v. insert_version v acc) acc vs) = mset (acc @ vs)" for acc
  proof (induction vs arbitrary: acc)
    case (Cons v vs)
    have set: "set (insert_version v acc) = insert v (set acc)"
      by (metis mset_insert_version set_mset_add_mset_insert set_mset_mset)
    from Cons.prems have "sorted (map ver_key (insert_version v acc))" by (intro sorted_insert_version) auto
    moreover from Cons.prems set have "\<forall>w \<in> set (insert_version v acc @ vs). wf_version w" by auto
    ultimately show ?case using Cons.IH [of "insert_version v acc"] by (simp add: mset_insert_version)
  qed simp
  from this [of "[]"] assms show ?thesis by (simp add: sort_versions_def)
qed

lemma key_minor_mono: "ver_key v \<le> ver_key w \<Longrightarrow> major_minor v \<le> major_minor w"
  by (auto simp: ver_key_def less_eq_prod_def word_less_nat_alt word_le_nat_alt word_unat_eq_iff)

lemma sorted_last: "sorted (map f ys) \<Longrightarrow> y \<in> set ys \<Longrightarrow> f y \<le> f (last ys)"
  by (induction ys) auto

lemma sort_versions_ends:
  assumes "\<forall>v \<in> set vs. wf_version v" and "sort_versions vs = lo # rest" and "w \<in> set vs"
  shows "major_minor lo \<le> major_minor w" "major_minor w \<le> major_minor (last (lo # rest))"
    "lo \<in> set vs" "last (lo # rest) \<in> set vs"
proof -
  note s = sort_versions_sorted [OF assms(1), unfolded assms(2)]
  then have set: "set vs = set (lo # rest)" by (metis set_mset_mset)
  with assms(3) have w: "w \<in> set (lo # rest)" by simp
  from s w have "ver_key lo \<le> ver_key w" by auto
  then show "major_minor lo \<le> major_minor w" by (rule key_minor_mono)
  have "ver_key w \<le> ver_key (last (lo # rest))" using s w by (intro sorted_last) auto
  then show "major_minor w \<le> major_minor (last (lo # rest))" by (rule key_minor_mono)
  show "lo \<in> set vs" "last (lo # rest) \<in> set vs" using set by auto
qed

lemma extract_inj: "extractMajorAndMinorVersionFromVersion v = extractMajorAndMinorVersionFromVersion w \<longleftrightarrow> major_minor v = major_minor w"
proof
  assume "extractMajorAndMinorVersionFromVersion v = extractMajorAndMinorVersionFromVersion w"
  then have "NewVersion (extractMajorAndMinorVersionFromVersion v) = NewVersion (extractMajorAndMinorVersionFromVersion w)" by simp
  then show "major_minor v = major_minor w" by (simp add: NewVersion_extract)
qed (simp add: extractMajorAndMinorVersionFromVersion_def)

lemma IncMinor_simps [simp]: "ver_major (IncMinor v) = ver_major v" "ver_minor (IncMinor v) = ver_minor v + 1"
  by (simp_all add: IncMinor_def Let_def)

lemma cluster_check:
  assumes "node_versions nodes = Inr vs" and "sort_versions vs = lo # rest"
  shows "stageNodeClusterCheck order nodes = Returns (Inr minors) \<longleftrightarrow>
    minors = order (remdups (map extractMajorAndMinorVersionFromVersion vs)) \<and> ver_pre (last (lo # rest)) = []
    \<and> major_minor (last (lo # rest)) \<in> {major_minor lo, (ver_major lo, ver_minor lo + 1)}"
  using assms unfolding stageNodeClusterCheck_def Let_def
  by (auto simp: parse_eq_minor_x check_eq_minor split: if_splits)

lemma version_check_one:
  assumes "NewVersion k = Inr kv"
  shows "stageNodeVersionCheck [extractMajorAndMinorVersionFromVersion u] k = Returns (Inr ()) \<longleftrightarrow>
    ver_pre kv = [] \<and> major_minor kv \<in> {major_minor u, (ver_major u, ver_minor u + 1)}"
  using assms unfolding stageNodeVersionCheck_def Let_def
  by (auto simp: NewVersion_extract parse_eq_minor check_eq_minor split: if_splits)

lemma greater_minor:
  "ver_GreaterThan \<lparr>ver_major = a, ver_minor = b, ver_patch = 0, ver_pre = [], ver_metadata = [], ver_original = s\<rparr>
     \<lparr>ver_major = a', ver_minor = b', ver_patch = 0, ver_pre = [], ver_metadata = [], ver_original = s'\<rparr> \<longleftrightarrow> (a', b') < (a, b)"
  by (auto simp: ver_GreaterThan_def ver_Compare_def compareSegment_def Let_def less_prod_def)

lemma version_check_two:
  assumes "NewVersion k = Inr kv"
  shows "stageNodeVersionCheck (extractMajorAndMinorVersionFromVersion u # extractMajorAndMinorVersionFromVersion w # us) k
      = Returns (Inr ()) \<longleftrightarrow> ver_pre kv = [] \<and> major_minor kv = max (major_minor u) (major_minor w)"
  using assms unfolding stageNodeVersionCheck_def Let_def larger_version_def
  by (auto simp: NewVersion_extract parse_eq_minor check_eq_minor greater_minor max_def split: if_splits)

definition minor_of :: "KNode \<Rightarrow> u64 \<times> u64" where
  "minor_of n = (case NewVersion (kn_KubeletVersion n) of Inl _ \<Rightarrow> (0, 0) | Inr v \<Rightarrow> major_minor v)"

lemma minor_of_versions:
  "list_all2 (\<lambda>n v. NewVersion (kn_KubeletVersion n) = Inr v) nodes vs \<Longrightarrow> minor_of ` set nodes = major_minor ` set vs"
  by (induction rule: list_all2_induct) (auto simp: minor_of_def)

lemma next_minor:
  assumes "a \<le> b" and "b \<le> a + (1 :: u64)"
  shows "b = a \<or> b = a + 1"
proof (cases "1 + a = 0")
  case True
  with assms show ?thesis by (simp add: add.commute)
next
  case False
  then have "unat (a + 1) = Suc (unat a)" by (simp add: unatSuc add.commute)
  with assms have "unat b = unat a \<or> unat b = unat (a + 1)" by (simp add: word_le_nat_alt) linarith
  then show ?thesis by (simp only: word_unat_eq_iff)
qed

lemma minor_range:
  assumes "(M :: u64, m) \<le> x" and "x \<le> (M, m + 1)"
  shows "x = (M, m) \<or> x = (M, m + (1 :: u64))"
proof -
  obtain a b where x: "x = (a, b)" by (cases x)
  from assms have "M \<le> a" "a \<le> M" by (auto simp: x less_eq_prod_def order.strict_iff_order)
  then have "a = M" by simp
  with assms have "m \<le> b" "b \<le> m + 1" by (auto simp: x less_eq_prod_def)
  with \<open>a = M\<close> next_minor show ?thesis by (auto simp: x)
qed

lemma two_elements: "distinct ms \<Longrightarrow> set ms = {x, y} \<Longrightarrow> x \<noteq> y \<Longrightarrow> ms = [x, y] \<or> ms = [y, x]"
proof -
  assume a: "distinct ms" "set ms = {x, y}" "x \<noteq> y"
  then have "length ms = 2" by (metis card_2_iff distinct_card)
  then obtain u v where "ms = [u, v]" by (metis length_0_conv length_Suc_conv numeral_2_eq_2)
  with a show ?thesis by auto
qed

lemma one_element: "distinct ms \<Longrightarrow> set ms = {x} \<Longrightarrow> ms = [x]"
  by (cases ms; cases "tl ms") auto

text \<open>The list of minor versions in any order, for sorted versions from \<open>lo\<close> to \<open>hi\<close>.\<close>

lemma minors_between:
  assumes "\<forall>v \<in> set vs. wf_version v" and "sort_versions vs = lo # rest"
    and "major_minor (last (lo # rest)) \<in> {major_minor lo, (ver_major lo, ver_minor lo + 1)}"
  shows "major_minor ` set vs = {major_minor lo, major_minor (last (lo # rest))}"
proof -
  note ends = sort_versions_ends [OF assms(1,2)]
  have lo: "lo \<in> set vs" "last (lo # rest) \<in> set vs"
    using sort_versions_sorted [OF assms(1)] assms(2)
    by (metis list.set_intros(1) set_mset_mset, metis last_in_set list.distinct(1) set_mset_mset)
  have "major_minor w \<in> {major_minor lo, major_minor (last (lo # rest))}" if "w \<in> set vs" for w
  proof -
    from ends(1,2) [OF that] have w: "major_minor lo \<le> major_minor w" "major_minor w \<le> major_minor (last (lo # rest))" .
    with assms(3) minor_range [of "ver_major lo" "ver_minor lo" "major_minor w"] show ?thesis by auto
  qed
  with lo show ?thesis by blast
qed

lemma next_minor_unique:
  assumes "m < m + (1 :: u64)"
  shows "x = (M, m + 1) \<longleftrightarrow> (\<exists>M' m'. {(M, m), (M, m + 1)} = {(M', m')} \<and> x \<in> {(M', m'), (M', m' + 1)}
     \<or> {(M, m), (M, m + 1)} = {(M', m'), (M', m' + 1)} \<and> m' < m' + 1 \<and> x = (M', m' + 1))"
proof -
  have "m' = m" if "{(M, m), (M, m + 1)} = {(M', m'), (M', m' + 1)}" "m' < m' + 1" for M' m'
    using that assms by (auto simp: doubleton_eq_iff)
  moreover have "{(M, m), (M, m + 1)} \<noteq> {(M', m')}" for M' m' using assms by auto
  moreover have "M' = M" if "{(M, m), (M, m + 1)} = {(M', m'), (M', m' + 1)}" for M' m'
    using that by (auto simp: doubleton_eq_iff)
  ultimately show ?thesis using assms by blast
qed

lemma far_apart:
  assumes "x \<le> y" and "y \<noteq> x" and "y \<noteq> (fst x, snd x + (1 :: u64))" and "x \<in> S" and "y \<in> S"
  shows "\<not> (S = {(M :: u64, m)} \<or> S = {(M, m), (M, m + 1)} \<and> m < m + 1)"
proof
  assume "S = {(M, m)} \<or> S = {(M, m), (M, m + 1)} \<and> m < m + 1"
  with assms have "x = (M, m + 1)" "y = (M, m)" "m < m + 1" by auto
  with assms(1) show False by (simp add: less_eq_prod_def)
qed

lemma checks_pass:
  assumes "node_versions nodes = Inr vs" and "vs \<noteq> []" and "\<forall>v \<in> set vs. ver_pre v = []"
    and "NewVersion k = Inr kv" and "ver_pre kv = []"
    and "\<And>ms. distinct ms \<Longrightarrow> distinct (order ms) \<and> set (order ms) = set ms"
  shows "(\<exists>minors. stageNodeClusterCheck order nodes = Returns (Inr minors) \<and> stageNodeVersionCheck minors k = Returns (Inr ()))
    \<longleftrightarrow> (\<exists>M m. major_minor ` set vs = {(M, m)} \<and> major_minor kv \<in> {(M, m), (M, m + 1)}
           \<or> major_minor ` set vs = {(M, m), (M, m + 1)} \<and> m < m + 1 \<and> major_minor kv = (M, m + 1))"
    (is "?L \<longleftrightarrow> ?R")
proof -
  have wf: "\<forall>v \<in> set vs. wf_version v"
    by (rule node_versions_wf [OF assms(1)])
  note sorted = sort_versions_sorted [OF wf]
  from sorted assms(2) obtain lo rest where lo: "sort_versions vs = lo # rest" by (cases "sort_versions vs") auto
  let ?hi = "last (lo # rest)"
  have inv: "lo \<in> set vs" "?hi \<in> set vs" using sort_versions_ends(3,4) [OF wf lo] assms(2) by (meson list.set_sel(1))+
  let ?ms = "order (remdups (map extractMajorAndMinorVersionFromVersion vs))"
  have ms: "distinct ?ms" "set ?ms = extractMajorAndMinorVersionFromVersion ` set vs" using assms(6) [of "remdups _"] by auto
  have L: "?L \<longleftrightarrow> major_minor ?hi \<in> {major_minor lo, (ver_major lo, ver_minor lo + 1)} \<and> stageNodeVersionCheck ?ms k = Returns (Inr ())"
    using cluster_check [OF assms(1) lo, of order] inv assms(3) by auto
  have le: "major_minor lo \<le> major_minor ?hi" using sort_versions_ends(1) [OF wf lo inv(2)] .
  have ext: "extractMajorAndMinorVersionFromVersion ` set vs = {extractMajorAndMinorVersionFromVersion lo, extractMajorAndMinorVersionFromVersion ?hi}"
    if "major_minor ` set vs = {major_minor lo, major_minor ?hi}"
  proof -
    have "extractMajorAndMinorVersionFromVersion w \<in> {extractMajorAndMinorVersionFromVersion lo, extractMajorAndMinorVersionFromVersion ?hi}" if "w \<in> set vs" for w
      using that \<open>major_minor ` set vs = _\<close> extract_inj [of w] by blast
    with inv show ?thesis by blast
  qed
  show ?thesis
  proof (cases "major_minor ?hi = major_minor lo")
    case True
    then have S: "major_minor ` set vs = {major_minor lo}" using minors_between [OF wf lo] by simp
    with True ext have "set ?ms = {extractMajorAndMinorVersionFromVersion lo}" using ms(2) extract_inj [of ?hi lo] by simp
    with ms(1) have "?ms = [extractMajorAndMinorVersionFromVersion lo]" by (rule one_element)
    with L True S version_check_one [OF assms(4)] assms(5) show ?thesis by (auto simp: doubleton_eq_iff)
  next
    case False
    show ?thesis
    proof (cases "major_minor ?hi = (ver_major lo, ver_minor lo + 1)")
      case True
      then have S: "major_minor ` set vs = {major_minor lo, major_minor ?hi}" using minors_between [OF wf lo] by simp
      from ext [OF S] ms(2) have set: "set ?ms = {extractMajorAndMinorVersionFromVersion lo, extractMajorAndMinorVersionFromVersion ?hi}"
        by (rule trans [rotated])
      have "extractMajorAndMinorVersionFromVersion lo \<noteq> extractMajorAndMinorVersionFromVersion ?hi"
        using False unfolding extract_inj by (rule not_sym)
      from two_elements [OF ms(1) set this]
      have V: "stageNodeVersionCheck ?ms k = Returns (Inr ()) \<longleftrightarrow> major_minor kv = max (major_minor lo) (major_minor ?hi)"
        by (elim disjE) (simp_all only: version_check_two [OF assms(4)] assms(5) max.commute simp_thms)
      have M: "max (major_minor lo) (major_minor ?hi) = major_minor ?hi" using le by (simp add: max_def)
      have lt: "ver_minor lo < ver_minor lo + 1" using le False True by (auto simp: less_eq_prod_def order.strict_iff_order)
      have "?L \<longleftrightarrow> major_minor kv = (ver_major lo, ver_minor lo + 1)" using L V M True by simp
      also have "\<dots> \<longleftrightarrow> ?R" unfolding S True using lt by (rule next_minor_unique)
      finally show ?thesis .
    next
      case no: False
      have "\<not> ?R"
      proof
        assume ?R
        then obtain M m where "major_minor ` set vs = {(M, m)} \<or> major_minor ` set vs = {(M, m), (M, m + 1)} \<and> m < m + 1" by blast
        moreover have "\<not> (major_minor ` set vs = {(M, m)} \<or> major_minor ` set vs = {(M, m), (M, m + 1)} \<and> m < m + 1)"
          by (rule far_apart [OF le False]) (use no inv in \<open>auto intro: imageI\<close>)
        ultimately show False by blast
      qed
      with L False no show ?thesis by blast
    qed
  qed
qed

section \<open>What staging changes\<close>

text \<open>Running the stage script on a node, or changing the kubeadm configuration.\<close>

definition stage_write :: "kube_event \<Rightarrow> bool" where
  "stage_write ev \<longleftrightarrow> (\<exists>n script. ev = EvExec (''stage-node-'' @ n @ ''-pod'') script)
     \<or> (\<exists>data. ev = EvUpdateConfigMap KubeNamespace KubeCMName data)"

lemma update_event_no_stage: "update_event nodes ev \<Longrightarrow> \<not> stage_write ev"
  by (auto simp: update_event_def node_event_def internal_event_def stage_write_def script_event_def Let_def)

lemma repairs_no_stage: "emits (\<lambda>ev. \<not> stage_write ev) (cluster_Update e nodes)"
  by (rule emits_mono [OF emits_cluster_Update update_event_no_stage])

lemma namespace_no_stage: "emits (\<lambda>ev. \<not> stage_write ev) (CreateNamespaceIfNotExists ka ns)"
  by (intro emits_intro) (simp add: stage_write_def)

lemma does_ask_bind:
  assumes "does P (abind (ask q) f) w"
  obtains x s1 s2 w1 where "q s1 = (Inr x, s2)" "does P (f x) w1"
proof -
  from assms obtain x w1 where x: "ask q w = (Inr x, w1)" "does P (f x) w1"
    by (rule does_abind) (rule emits_ask)
  obtain s1 tr s2 where "w = (s1, tr)" "q s1 = (Inr x, s2)"
    using x(1) by (cases w; cases "q (fst w)") (auto simp: ask_def)
  with x(2) that show thesis by blast
qed

lemma stage_cluster_writes:
  assumes "does stage_write (stage_cluster se opts) w"
  obtains e nodes minors s1 s2 where "e = se_env se (so_KubeConfigPath opts)"
    "na_GetNodeList (ka_node (ue_ka e)) s1 = (Inr nodes, s2)"
    "stageNodeClusterCheck (se_order se) nodes = Returns (Inr minors)"
    "stageNodeVersionCheck minors (so_KubeVersion opts) = Returns (Inr ())"
  using assms unfolding stage_cluster_def Let_def
  by (elim does_ask_bind does_abind [OF _ repairs_no_stage] does_atry [OF _ namespace_no_stage] does_panic_or)
    (rule that [OF refl], assumption, assumption, simp)

section \<open>Properties\<close>

text \<open>
  C8. The two checks before a stage together accept exactly this: all nodes run one minor version and it or the next one is
  staged, or the nodes run two consecutive minor versions and the newer one is staged; the order in
  which the minor versions come out of the map does not matter.  (For versions that are no pre-releases.)
\<close>

theorem stage_checks_exact:
  assumes "nodes \<noteq> []" and "\<forall>n \<in> set nodes. \<exists>v. NewVersion (kn_KubeletVersion n) = Inr v \<and> ver_pre v = []"
    and "NewVersion k = Inr kv" and "ver_pre kv = []"
    and "\<And>ms. distinct ms \<Longrightarrow> distinct (order ms) \<and> set (order ms) = set ms"
  shows "(\<exists>minors. stageNodeClusterCheck order nodes = Returns (Inr minors) \<and> stageNodeVersionCheck minors k = Returns (Inr ()))
    \<longleftrightarrow> (\<exists>M m. minor_of ` set nodes = {(M, m)} \<and> major_minor kv \<in> {(M, m), (M, m + 1)}
           \<or> minor_of ` set nodes = {(M, m), (M, m + 1)} \<and> m < m + 1 \<and> major_minor kv = (M, m + 1))"
proof -
  from assms(2) have "\<exists>vs. node_versions nodes = Inr vs \<and> (\<forall>v \<in> set vs. ver_pre v = [])"
    by (induction nodes) fastforce+
  then obtain vs where vs: "node_versions nodes = Inr vs" "\<forall>v \<in> set vs. ver_pre v = []" by blast
  then have all: "list_all2 (\<lambda>n v. NewVersion (kn_KubeletVersion n) = Inr v) nodes vs" by (simp add: node_versions_Inr)
  with assms(1) have "vs \<noteq> []" by auto
  from checks_pass [OF vs(1) this vs(2) assms(3-5)] show ?thesis unfolding minor_of_versions [OF all] .
qed

theorem stage_checks_exact_witness:
  "\<exists>minors. stageNodeClusterCheck rev [(sample_node [])\<lparr>kn_KubeletVersion := ''v1.31.4''\<rparr>, (sample_node [])\<lparr>kn_KubeletVersion := ''v1.32.7+1.el8''\<rparr>]
      = Returns (Inr minors) \<and> stageNodeVersionCheck minors ''1.32'' = Returns (Inr ())"
proof -
  let ?nodes = "[(sample_node [])\<lparr>kn_KubeletVersion := ''v1.31.4''\<rparr>, (sample_node [])\<lparr>kn_KubeletVersion := ''v1.32.7+1.el8''\<rparr>]"
  have v: "NewVersion ''v1.31.4'' = Inr \<lparr>ver_major = 1, ver_minor = 31, ver_patch = 4, ver_pre = [], ver_metadata = [], ver_original = ''v1.31.4''\<rparr>"
    "NewVersion ''v1.32.7+1.el8'' = Inr \<lparr>ver_major = 1, ver_minor = 32, ver_patch = 7, ver_pre = [], ver_metadata = ''1.el8'', ver_original = ''v1.32.7+1.el8''\<rparr>"
    "NewVersion ''1.32'' = Inr \<lparr>ver_major = 1, ver_minor = 32, ver_patch = 0, ver_pre = [], ver_metadata = [], ver_original = ''1.32''\<rparr>"
    by code_simp+
  have S: "minor_of ` set ?nodes = {(1, 31), (1, 32)}" using v by (simp add: minor_of_def)
  have ok: "?nodes \<noteq> []" "\<forall>n \<in> set ?nodes. \<exists>v. NewVersion (kn_KubeletVersion n) = Inr v \<and> ver_pre v = []"
    using v by simp_all
  show ?thesis
  proof (rule stage_checks_exact [OF ok v(3), THEN iffD2])
    show "\<exists>M m. minor_of ` set ?nodes = {(M, m)} \<and> major_minor \<lparr>ver_major = 1, ver_minor = 32, ver_patch = 0, ver_pre = [],
          ver_metadata = [], ver_original = ''1.32''\<rparr> \<in> {(M, m), (M, m + 1)}
        \<or> minor_of ` set ?nodes = {(M, m), (M, m + 1)} \<and> m < m + 1 \<and> major_minor \<lparr>ver_major = 1, ver_minor = 32, ver_patch = 0,
          ver_pre = [], ver_metadata = [], ver_original = ''1.32''\<rparr> = (M, m + 1)"
      unfolding S by (rule exI [of _ 1], rule exI [of _ 31]) simp
  qed simp_all
qed

text \<open>
  The checks panic exactly on a cluster without nodes, where they index into an empty list; whatever else the nodes
  report is an error or a result.
\<close>

theorem stage_checks_panic:
  assumes "\<And>ms. distinct ms \<Longrightarrow> distinct (order ms) \<and> set (order ms) = set ms"
  shows "(stageNodeClusterCheck order nodes = Panics \<longleftrightarrow> nodes = [])
    \<and> (stageNodeClusterCheck order nodes = Returns (Inr minors) \<longrightarrow> stageNodeVersionCheck minors k \<noteq> Panics)"
proof -
  have nil: "node_versions nodes = Inr vs \<Longrightarrow> (vs = [] \<longleftrightarrow> nodes = [])" for vs by (cases nodes) (auto simp: rbind_Inr_iff)
  have sort: "node_versions nodes = Inr vs \<Longrightarrow> (sort_versions vs = [] \<longleftrightarrow> vs = [])" for vs
    using sort_versions_sorted [OF node_versions_wf] by (metis mset_zero_iff)
  have panic: "stageNodeClusterCheck order nodes = Panics \<longleftrightarrow> nodes = []"
    using nil sort unfolding stageNodeClusterCheck_def Let_def
    by (auto simp: parse_eq_minor_x split: sum.splits list.splits)
  have "minors \<noteq> []" if run: "stageNodeClusterCheck order nodes = Returns (Inr minors)"
  proof -
    from run obtain vs where vs: "node_versions nodes = Inr vs" by (auto simp: stageNodeClusterCheck_def split: sum.splits)
    from run panic nil [OF vs] have "vs \<noteq> []" by auto
    moreover from this sort [OF vs] obtain lo rest where "sort_versions vs = lo # rest" by (meson neq_Nil_conv)
    ultimately have "minors = order (remdups (map extractMajorAndMinorVersionFromVersion vs))"
      using cluster_check [OF vs] run by blast
    with \<open>vs \<noteq> []\<close> assms [of "remdups (map extractMajorAndMinorVersionFromVersion vs)"] show ?thesis by auto
  qed
  with panic show ?thesis
    by (auto simp: stageNodeVersionCheck_def Let_def split: sum.splits list.splits)
qed

theorem stage_checks_panic_witness: "stageNodeClusterCheck rev [] = Panics"
  using stage_checks_panic [of rev "[]"] by simp

text \<open>
  What a stage writes into the kubeadm configuration is read back by the update of a node: if the configuration has a line
  with a version, then after replacing it with the staged version, that version is found.
\<close>

theorem staged_version_reads_back:
  assumes "kv_find (cluster_configuration cm) \<noteq> None" and "is_major_minor k"
  shows "getVersionsFromKubeadmConfigMap (cm(KubeCMField \<mapsto> kv_replace (version_line k) (cluster_configuration cm)))
    = Returns (NewVersion (k @ ''.0''))"
proof -
  obtain a b c d where k: "k = [a, b, c, d]" "is_digit a" "b = CHR ''.''" "is_digit c" "is_digit d"
    using assms(2) by (auto simp: is_major_minor_def split: list.splits)
  then have no: "CHR 10 \<notin> set k" "CHR '':'' \<notin> set k" by (auto simp: is_digit_def)
  let ?l = "''kubernetesVersion: v'' @ k @ ''.0''"
  have find: "kv_find (kv_replace (version_line k) (cluster_configuration cm)) = Some (?l @ [CHR 10])"
    using kv_find_replaced [OF assms(1) no(1)] by (simp add: version_line_def)
  have "CHR 10 \<notin> set ?l" using no by simp
  then have line: "replace_all (?l @ [CHR 10]) [CHR 10] [] = ?l"
    using go_split_char_Cons [of "CHR 10" ?l "[]"] go_split_char_simple [of "CHR 10" "[]"]
    by (simp only: replace_all_def) simp
  have "go_cut (k @ ''.0'') '': v'' = None"
  proof -
    have "\<not> sublist '': v'' (k @ ''.0'')"
    proof
      assume "sublist '': v'' (k @ ''.0'')"
      then have "set '': v'' \<subseteq> set (k @ ''.0'')" by (rule set_mono_sublist)
      with no(2) show False by simp
    qed
    then show ?thesis by (simp add: go_cut_None_iff)
  qed
  then have "go_split (k @ ''.0'') '': v'' = [k @ ''.0'']" by (simp add: go_split.simps)
  moreover have "go_cut ?l '': v'' = Some (''kubernetesVersion'', k @ ''.0'')" by simp
  ultimately have "go_split ?l '': v'' = [''kubernetesVersion'', k @ ''.0'']" by (simp add: go_split.simps)
  with find line show ?thesis
    by (simp add: getVersionsFromKubeadmConfigMap_def cluster_configuration_def Let_def)
qed

theorem staged_version_reads_back_witness:
  "getVersionsFromKubeadmConfigMap [KubeCMField \<mapsto> kv_replace (version_line ''1.33'') (''kubernetesVersion: v1.32.7'' @ [CHR 10])]
    = Returns (NewVersion ''1.33.0'')"
proof -
  let ?cm = "[KubeCMField \<mapsto> ''kubernetesVersion: v1.32.7'' @ [CHR 10]]"
  have conf: "cluster_configuration ?cm = ''kubernetesVersion: v1.32.7'' @ [CHR 10]" by (simp add: cluster_configuration_def)
  have "kv_find (''kubernetesVersion: v1.32.7'' @ [CHR 10]) \<noteq> None" by code_simp
  then have "kv_find (cluster_configuration ?cm) \<noteq> None" unfolding conf .
  moreover have "is_major_minor ''1.33''" by code_simp
  ultimately have "getVersionsFromKubeadmConfigMap (?cm(KubeCMField \<mapsto> kv_replace (version_line ''1.33'') (cluster_configuration ?cm)))
    = Returns (NewVersion (''1.33'' @ ''.0''))" by (rule staged_version_reads_back)
  then show ?thesis unfolding conf by simp
qed


text \<open>The cluster in the small, with the monitor for the virtual IP installed: one ready node of 1.33.\<close>

definition sample_stage :: "(int, unit, unit) stage_env" where
  "sample_stage = \<lparr>se_env = (\<lambda>_. sample_update\<lparr>ue_ha := sample_helm\<lparr>ha_GetReleases := (\<lambda>_ s.
       (Inr [\<lparr>rel_Name = ''ha-config'', rel_ChartName = ''ocne-ha-monitor'', rel_Config = None\<rparr>], s))\<rparr>\<rparr>),
     se_CreateDriver = (\<lambda>_ _ s. (Inr (), s)), se_Stage = (\<lambda>_ _ s. (Inr ([], [], True), s)), se_order = rev,
     se_stageNodeScript = ''stage''\<rparr>"


end
