(* ===== verification/Node_Update.thy ===== *)
theory Node_Update
  imports Cluster_Stage
begin

text \<open>
  Updating one node (\<^verbatim>\<open>pkg/commands/node/update/update.go\<close>, \<^verbatim>\<open>drain.go\<close>): the repairs of the cluster, the check that the
  control plane is not behind, draining, the script that deploys the update and reboots, the waits and the end of the cordon.
  The script's text is a parameter.  A wait that does not come back is an error text of its own, which no run of the program shows.
\<close>

section \<open>Durations\<close>

text \<open>
  \<^verbatim>\<open>time.ParseDuration\<close>, in nanoseconds.  Go adds the fraction of a unit in floating point, here it is exact; the difference can
  only matter within a rounding error of the largest duration.
\<close>

fun leading_int :: "nat \<Rightarrow> string \<Rightarrow> (nat \<times> string) option" where
  "leading_int x [] = Some (x, [])"
| "leading_int x (c # cs) =
     (if \<not> is_digit c then Some (x, c # cs)
      else if x > 2 ^ 63 div 10 \<or> x * 10 + digit_val c > 2 ^ 63 then None
      else leading_int (x * 10 + digit_val c) cs)"

fun leading_fraction :: "nat \<Rightarrow> nat \<Rightarrow> bool \<Rightarrow> string \<Rightarrow> nat \<times> nat \<times> string" where
  "leading_fraction x scale overflow [] = (x, scale, [])"
| "leading_fraction x scale overflow (c # cs) =
     (if \<not> is_digit c then (x, scale, c # cs)
      else if overflow \<or> x > (2 ^ 63 - 1) div 10 \<or> x * 10 + digit_val c > 2 ^ 63 then leading_fraction x scale True cs
      else leading_fraction (x * 10 + digit_val c) (scale * 10) False cs)"

definition unit_ns :: "string \<Rightarrow> nat option" where
  "unit_ns u =
     (if u = ''ns'' then Some 1
      else if u \<in> {''us'', [CHR 0xC2, CHR 0xB5, CHR ''s''], [CHR 0xCE, CHR 0xBC, CHR ''s'']} then Some 1000
      else if u = ''ms'' then Some 1000000
      else if u = ''s'' then Some 1000000000
      else if u = ''m'' then Some 60000000000
      else if u = ''h'' then Some 3600000000000
      else None)"

definition unit_char :: "char \<Rightarrow> bool" where "unit_char c = (c \<noteq> CHR ''.'' \<and> \<not> is_digit c)"

text \<open>One number with its unit, and the rest of the text.\<close>

definition duration_part :: "string \<Rightarrow> (nat \<times> string) option" where
  "duration_part s =
     (if s = [] \<or> unit_char (hd s) then None
      else case leading_int 0 s of
        None \<Rightarrow> None
      | Some (v, s1) \<Rightarrow>
          (let frac = (s1 \<noteq> [] \<and> hd s1 = CHR ''.'');
               (f, scale, s2) = (if frac then leading_fraction 0 1 False (tl s1) else (0, 1, s1));
               pre = (length s1 \<noteq> length s); post = (frac \<and> length s2 \<noteq> length (tl s1));
               u = takeWhile unit_char s2
           in if \<not> pre \<and> \<not> post then None
              else case unit_ns u of
                None \<Rightarrow> None
              | Some un \<Rightarrow>
                  (if v > 2 ^ 63 div un then None
                   else let v' = v * un + f * un div scale
                        in if v' > 2 ^ 63 then None else Some (v', dropWhile unit_char s2))))"

lemma leading_int_length: "leading_int x s = Some (v, r) \<Longrightarrow> length r \<le> length s"
  by (induction x s rule: leading_int.induct) (auto split: if_splits)

lemma leading_fraction_length: "leading_fraction x sc ov s = (f, sc', r) \<Longrightarrow> length r \<le> length s"
  by (induction x sc ov s rule: leading_fraction.induct) (auto split: if_splits)

lemma duration_part_shorter:
  assumes "duration_part s = Some (v, r)"
  shows "length r < length s"
proof -
  from assms obtain w s1 where i: "leading_int 0 s = Some (w, s1)"
    by (auto simp: duration_part_def split: if_splits option.splits)
  let ?p = "if s1 \<noteq> [] \<and> hd s1 = CHR ''.'' then leading_fraction 0 1 False (tl s1) else (0, 1, s1)"
  obtain f sc s2 where p: "?p = (f, sc, s2)" by (metis prod.exhaust)
  have "length s2 \<le> length s1"
    using p leading_fraction_length [of 0 1 False "tl s1" f sc s2] by (auto split: if_splits)
  with leading_int_length [OF i] have s2: "length s2 \<le> length s" by simp
  from assms i p have r: "r = dropWhile unit_char s2" and "unit_ns (takeWhile unit_char s2) \<noteq> None"
    by (auto simp: duration_part_def Let_def split: if_splits option.splits prod.splits)
  then have "takeWhile unit_char s2 \<noteq> []" by (auto simp: unit_ns_def)
  then have "length r < length s2" unfolding r by (metis length_append length_greater_0_conv less_add_same_cancel2 takeWhile_dropWhile_id)
  with s2 show ?thesis by simp
qed

function duration_parts :: "nat \<Rightarrow> string \<Rightarrow> nat option" where
  "duration_parts d s =
     (if s = [] then Some d
      else case duration_part s of
        None \<Rightarrow> None
      | Some (v, r) \<Rightarrow> (if d + v > 2 ^ 63 then None else duration_parts (d + v) r))"
  by pat_completeness auto
termination by (relation "measure (\<lambda>(_, s). length s)") (auto dest: duration_part_shorter)

declare duration_parts.simps [simp del]

definition ParseDuration :: "string \<Rightarrow> int option" where
  "ParseDuration s =
     (let neg = (s \<noteq> [] \<and> hd s = CHR ''-'');
          t = (if s \<noteq> [] \<and> (hd s = CHR ''-'' \<or> hd s = CHR ''+'') then tl s else s)
      in if t = ''0'' then Some 0
         else if t = [] then None
         else case duration_parts 0 t of
           None \<Rightarrow> None
         | Some d \<Rightarrow> (if neg then Some (- int d) else if d > 2 ^ 63 - 1 then None else Some (int d)))"

section \<open>Options and waits\<close>

record UpdateOptions =
  uo_KubeConfigPath :: string
  uo_NodeName :: string
  uo_DeleteEmptyDir :: bool
  uo_DisableEviction :: bool
  uo_Timeout :: string
  uo_PreUpdateMode :: string
  uo_Force :: bool

definition PreUpdateModeOnly :: string where "PreUpdateModeOnly = ''only''"
definition PreUpdateModeSkip :: string where "PreUpdateModeSkip = ''skip''"
definition getUpdateInfo :: string where "getUpdateInfo = ''cat /hostroot/etc/ocne/update.yaml''"

text \<open>\<open>logutils.WaitFor\<close> with one waiter: whether there was an error, and the waiter's error, if it was run.\<close>

definition WaitFor_one :: "('s, 'c) helm_api \<Rightarrow> ('s, 'e, unit) act \<Rightarrow> ('s, 'e, bool \<times> gerror option) act" where
  "WaitFor_one ha m =
     atry (ask (ha_IsTTY ha)) (\<lambda>r. case r of
       Inl _ \<Rightarrow> aret (True, None)
     | Inr _ \<Rightarrow> atry m (\<lambda>q. aret (case q of Inl err \<Rightarrow> (True, Some err) | Inr _ \<Rightarrow> (False, None))))"

section \<open>Draining\<close>

definition drain_args :: "UpdateOptions \<Rightarrow> string \<Rightarrow> string list" where
  "drain_args opts timeout =
     (if uo_DeleteEmptyDir opts then [''--delete-emptydir-data''] else []) @
     (if uo_DisableEviction opts then [''--disable-eviction''] else []) @
     [''--force'', ''--ignore-daemonsets'', ''--timeout='' @ timeout, uo_NodeName opts]"

definition cordonAndDrainNode :: "('s, 'c) update_env \<Rightarrow> UpdateOptions \<Rightarrow> ('s, unit) kact" where
  "cordonAndDrainNode e opts =
     (if uo_Timeout opts \<noteq> [] \<and> ParseDuration (uo_Timeout opts) = None
      then afail (''Invalid timeout format '' @ uo_Timeout opts)
      else let args = drain_args opts (if uo_Timeout opts \<noteq> [] then uo_Timeout opts else ''30m'')
           in abind (WaitFor_one (ue_ha e) (perform (EvDrain args) (ka_Drain (ue_ka e) args))) (\<lambda>(haveError, err).
                if haveError
                then afail (''Error draining node '' @ uo_NodeName opts @ '': ''
                       @ (case err of None \<Rightarrow> ''<nil>'' | Some x \<Rightarrow> x))
                else aret ()))"

definition uncordonNode :: "('s, 'c) update_env \<Rightarrow> UpdateOptions \<Rightarrow> ('s, unit) kact" where
  "uncordonNode e opts =
     abind (WaitFor_one (ue_ha e) (perform (EvUncordon (uo_NodeName opts)) (ka_Uncordon (ue_ka e) (uo_NodeName opts))))
       (\<lambda>(haveError, _). if haveError then afail (''Timeout un-cordoning node '' @ uo_NodeName opts) else aret ())"

section \<open>The control plane first\<close>

definition isWorkerLessOrEqualToControlPlane :: "string \<Rightarrow> string \<Rightarrow> bool result" where
  "isWorkerLessOrEqualToControlPlane workerVersion controlPlaneVersion =
     rbind (NewVersion controlPlaneVersion) (\<lambda>controlPlaneSemver.
     rbind (NewVersion workerVersion) (\<lambda>workerSemver.
     rbind (NewVersion (extractMajorAndMinorVersionFromVersion workerSemver)) (\<lambda>workerSanitizedSemver.
     rbind (parseConstraint (''<= '' @ extractMajorAndMinorVersionFromVersion controlPlaneSemver)) (\<lambda>c.
       Inr (Constraints_Check c workerSanitizedSemver)))))"

text \<open>The tag in the text of the update configuration: the last line of the form \<^verbatim>\<open>tag: value\<close>.\<close>

definition update_tag :: "string \<Rightarrow> string" where
  "update_tag updateInfo =
     foldl (\<lambda>tag line. case go_fields (trim_space line) of
               k # v # _ \<Rightarrow> (if k = ''tag:'' then go_trim v [CHR 34, CHR 39] else tag)
             | _ \<Rightarrow> tag) [] (go_split updateInfo [CHR 10])"

fun control_plane_ahead :: "('s, 'c) update_env \<Rightarrow> string \<Rightarrow> string \<Rightarrow> KNode list \<Rightarrow> ('s, bool) kact" where
  "control_plane_ahead e name tag [] = aret True"
| "control_plane_ahead e name tag (node # nodes) =
     (if kn_Name node \<noteq> name \<and> IsControlPlane node
      then abind (IsUpdateAvailable e node) (\<lambda>updateAvailable.
             if updateAvailable then aret False
             else abind (alift (isWorkerLessOrEqualToControlPlane tag (kn_KubeletVersion node))) (\<lambda>le.
                    if \<not> le then aret False else control_plane_ahead e name tag nodes))
      else control_plane_ahead e name tag nodes)"

definition areControlPlaneNodesAcceptable :: "('s, 'c) update_env \<Rightarrow> KNode list \<Rightarrow> string \<Rightarrow> ('s, bool) kact" where
  "areControlPlaneNodesAcceptable e nodeList name =
     (case find (\<lambda>node. kn_Name node = name) nodeList of
        None \<Rightarrow> afail (''node '' @ name @ '' not found'')
      | Some nodeToUpgrade \<Rightarrow>
          (if IsControlPlane nodeToUpgrade then aret True
           else abind (ask (ka_NewKubectlConfig (ue_ka e) [])) (\<lambda>_.
                abind (RunScript (ue_ka e) name OCNESystemNamespace ''check-update'' getUpdateInfo []) (\<lambda>updateInfo.
                abind (DeletePod (ue_ka e) OCNESystemNamespace (''check-update-'' @ name)) (\<lambda>_.
                  let tag = update_tag updateInfo
                  in if tag = [] then afail ''The target Kubernetes version is not set''
                     else if \<not> is_ok (NewVersion tag) then aret True
                     else control_plane_ahead e name tag nodeList)))))"

section \<open>Updating\<close>

definition isUpdateAvailable :: "('s, 'c) update_env \<Rightarrow> UpdateOptions \<Rightarrow> ('s, bool) kact" where
  "isUpdateAvailable e opts = (if uo_Force opts then aret True else IsUpdateAvailableByName e (uo_NodeName opts))"

text \<open>The error of listing the nodes is not looked at; the API client gives an empty list with it.\<close>

definition prepareNode :: "('s, 'c) update_env \<Rightarrow> UpdateOptions \<Rightarrow> ('s, unit) kact" where
  "prepareNode e opts =
     abind (isUpdateAvailable e opts) (\<lambda>readyToUpdate.
       if \<not> readyToUpdate then afail (''Node '' @ uo_NodeName opts @ '' has no updates available'')
       else atry (ask (na_GetNodeList (ka_node (ue_ka e)))) (\<lambda>r.
              if (case r of Inl _ \<Rightarrow> False | Inr nodes \<Rightarrow> length nodes = 1) then aret ()
              else cordonAndDrainNode e opts))"

definition deleteUpdatePod :: "'s kube_api \<Rightarrow> string \<Rightarrow> string \<Rightarrow> ('s, unit) kact" where
  "deleteUpdatePod ka namespace nodeName = DeletePod ka namespace (''update-node-'' @ nodeName @ ''-pod'')"

definition update_ignores :: "KNode list \<Rightarrow> string \<Rightarrow> string list" where
  "update_ignores nodeList name =
     (case find (\<lambda>n. kn_Name n = name) nodeList of
        None \<Rightarrow> []
      | Some n \<Rightarrow> (if IsControlPlane n then [''unexpected EOF''] else []))
     @ [''The --rebuild-if-modules-changed option is deprecated. Use --refresh instead.'']"

text \<open>From the script on: wait for the API server and the node, and let pods in again.\<close>

definition deploy_update :: "('s, 'c) update_env \<Rightarrow> string \<Rightarrow> UpdateOptions \<Rightarrow> ('s, unit) kact" where
  "deploy_update e updateNodeScript opts =
     abind (RunScript (ue_ka e) (uo_NodeName opts) OCNESystemNamespace ''update-node'' updateNodeScript
              [(''NODE_NAME'', uo_NodeName opts)]) (\<lambda>_.
     abind (ask (\<lambda>s. (Inr (), na_Sleep (ka_node (ue_ka e)) (5 * duration_s) s))) (\<lambda>_.
     abind (wait_for (WaitUntilGetNodesSucceeds (ka_node (ue_ka e)))) (\<lambda>_.
     abind (wait_for (WaitUntilNodeIsReady (ka_node (ue_ka e)) (uo_NodeName opts))) (\<lambda>_.
     abind (uncordonNode e opts) (\<lambda>_.
       deleteUpdatePod (ue_ka e) OCNESystemNamespace (uo_NodeName opts))))))"

definition node_Update :: "('s, 'c) update_env \<Rightarrow> string \<Rightarrow> UpdateOptions \<Rightarrow> ('s, unit) kact" where
  "node_Update e updateNodeScript opts =
     abind (ask (ha_GetKubeClient (ue_ha e))) (\<lambda>_.
     abind (wait_for (WaitUntilGetNodesSucceeds (ka_node (ue_ka e)))) (\<lambda>_.
     abind (ask (na_GetNodeList (ka_node (ue_ka e)))) (\<lambda>nodeList.
     abind (if uo_PreUpdateMode opts \<noteq> PreUpdateModeSkip then cluster_Update e nodeList else aret ()) (\<lambda>_.
       if uo_PreUpdateMode opts = PreUpdateModeOnly then aret ()
       else abind (areControlPlaneNodesAcceptable e nodeList (uo_NodeName opts)) (\<lambda>acceptable.
            if \<not> acceptable
            then afail (''the upgrade on '' @ uo_NodeName opts @ '' cannot be performed, since it either has the same or greater ''
                   @ ''version than some control-plane nodes, or some control-plane nodes have updates available  '')
            else atry (CreateNamespaceIfNotExists (ue_ka e) OCNESystemNamespace) (\<lambda>_.
                 abind (ask (ka_NewKubectlConfig (ue_ka e) (update_ignores nodeList (uo_NodeName opts)))) (\<lambda>_.
                 abind (prepareNode e opts) (\<lambda>_.
                   deploy_update e updateNodeScript opts))))))))"

section \<open>What must have happened before\<close>

text \<open>The script of the update runs on the node, or the node is let back in.\<close>

definition update_exec :: "string \<Rightarrow> kube_event \<Rightarrow> bool" where
  "update_exec n ev \<longleftrightarrow> (\<exists>script. ev = EvExec (''update-node-'' @ n @ ''-pod'') script)"

definition uncordons :: "string \<Rightarrow> kube_event \<Rightarrow> bool" where
  "uncordons n ev \<longleftrightarrow> ev = EvUncordon n"

definition late_event :: "string \<Rightarrow> kube_event \<Rightarrow> bool" where
  "late_event n ev \<longleftrightarrow> update_exec n ev \<or> uncordons n ev"

lemmas late_defs = late_event_def update_exec_def uncordons_def

lemma update_event_not_late: "update_event nodes ev \<Longrightarrow> \<not> late_event n ev"
  by (auto simp: update_event_def node_event_def internal_event_def late_defs script_event_def Let_def)

lemma repairs_not_late: "emits (\<lambda>ev. \<not> late_event n ev) (cluster_Update e nodes)"
  by (rule emits_mono [OF emits_cluster_Update update_event_not_late])

lemma emits_IsUpdateAvailable: "emits (\<lambda>ev. \<not> late_event n ev) (IsUpdateAvailable e node)"
  unfolding IsUpdateAvailable_def
  by (intro emits_intro) (auto simp: late_defs script_event_def Let_def)

lemma emits_control_plane_ahead: "emits (\<lambda>ev. \<not> late_event n ev) (control_plane_ahead e name tag nodes)"
  by (induction nodes) (auto intro!: emits_intro emits_IsUpdateAvailable simp del: aret_run alift_run)

lemma emits_acceptable: "emits (\<lambda>ev. \<not> late_event n ev) (areControlPlaneNodesAcceptable e nodes name)"
  unfolding areControlPlaneNodesAcceptable_def Let_def
  by (intro emits_intro emits_control_plane_ahead) (auto simp: late_defs script_event_def Let_def)

lemma emits_WaitFor_one [emits_intro]: "emits P m \<Longrightarrow> emits P (WaitFor_one ha m)"
  unfolding WaitFor_one_def by (intro emits_intro)

lemma emits_prepareNode: "emits (\<lambda>ev. \<not> late_event n ev) (prepareNode e opts)"
  unfolding prepareNode_def isUpdateAvailable_def IsUpdateAvailableByName_def cordonAndDrainNode_def Let_def
  by (intro emits_intro emits_IsUpdateAvailable) (auto simp: late_defs)

lemma emits_namespace: "emits (\<lambda>ev. \<not> late_event n ev) (CreateNamespaceIfNotExists ka ns)"
  by (intro emits_intro) (simp add: late_defs)

lemma control_plane_ahead_True:
  assumes "control_plane_ahead e name tag nodes w = (Inr True, w')"
    and "m \<in> set nodes" and "kn_Name m \<noteq> name" and "IsControlPlane m"
  shows "(\<exists>w w1. IsUpdateAvailable e m w = (Inr False, w1)) \<and> isWorkerLessOrEqualToControlPlane tag (kn_KubeletVersion m) = Inr True"
  using assms
proof (induction nodes arbitrary: w)
  case (Cons n ns)
  show ?case
  proof (cases "kn_Name n \<noteq> name \<and> IsControlPlane n")
    case False
    with Cons.prems have "m \<in> set ns" "control_plane_ahead e name tag ns w = (Inr True, w')" by auto
    with Cons.IH Cons.prems(3,4) show ?thesis by blast
  next
    case True
    with Cons.prems(1) obtain w1 where n: "IsUpdateAvailable e n w = (Inr False, w1)"
      "isWorkerLessOrEqualToControlPlane tag (kn_KubeletVersion n) = Inr True" "control_plane_ahead e name tag ns w1 = (Inr True, w')"
      by (auto simp: abind_def split: prod.splits sum.splits if_splits)
    show ?thesis
    proof (cases "m = n")
      case True
      with n(1,2) show ?thesis by blast
    next
      case False
      with Cons.prems(2) have "m \<in> set ns" by simp
      from Cons.IH [OF n(3) this Cons.prems(3,4)] show ?thesis .
    qed
  qed
qed simp

lemma acceptable_True:
  assumes "areControlPlaneNodesAcceptable e nodes name (s, tr) = (Inr True, s', tr')"
  obtains node where "find (\<lambda>n. kn_Name n = name) nodes = Some node"
    "IsControlPlane node \<or> (\<exists>out t t'. ka_RunInPod (ue_ka e) (''check-update-'' @ name @ ''-pod'') getUpdateInfo t = (Inr out, t')
       \<and> (\<not> is_ok (NewVersion (update_tag out)) \<or>
           (\<forall>m \<in> set nodes. kn_Name m \<noteq> name \<and> IsControlPlane m \<longrightarrow> (\<exists>w w1. IsUpdateAvailable e m w = (Inr False, w1))
              \<and> isWorkerLessOrEqualToControlPlane (update_tag out) (kn_KubeletVersion m) = Inr True)))"
proof (cases "find (\<lambda>n. kn_Name n = name) nodes")
  case None
  with assms show thesis by (simp add: areControlPlaneNodesAcceptable_def)
next
  case (Some node)
  show thesis
  proof (cases "IsControlPlane node")
    case True
    with Some that show thesis by blast
  next
    case False
    with assms Some obtain out s1 tr1 s2 tr2 w3 where
      out: "RunScript (ue_ka e) name OCNESystemNamespace ''check-update'' getUpdateInfo [] (s1, tr1) = (Inr out, s2, tr2)"
      and rest: "\<not> is_ok (NewVersion (update_tag out)) \<or> control_plane_ahead e name (update_tag out) nodes w3 = (Inr True, s', tr')"
      by (auto simp: areControlPlaneNodesAcceptable_def Let_def elim!: abind_cases split: if_splits)
    from rest have "\<not> is_ok (NewVersion (update_tag out)) \<or> (\<forall>m \<in> set nodes. kn_Name m \<noteq> name \<and> IsControlPlane m \<longrightarrow>
        (\<exists>w w1. IsUpdateAvailable e m w = (Inr False, w1)) \<and> isWorkerLessOrEqualToControlPlane (update_tag out) (kn_KubeletVersion m) = Inr True)"
      using control_plane_ahead_True by blast
    with that Some RunScript_output [OF out] show thesis by auto
  qed
qed

lemma isWorkerLessOrEqual_spec:
  assumes "NewVersion worker = Inr v" and "NewVersion cp = Inr c"
  shows "isWorkerLessOrEqualToControlPlane worker cp = Inr (major_minor v \<le> major_minor c)"
  using assms
  by (auto simp: isWorkerLessOrEqualToControlPlane_def NewVersion_extract parse_le_minor check_le_minor less_eq_prod_def
      order.strict_iff_order)

lemma WaitFor_one_ok:
  assumes "WaitFor_one ha (perform ev q) w = (Inr (False, err), w')"
  shows "\<exists>t t'. q t = (Inr (), t')"
  using assms by (cases w) (auto simp: WaitFor_one_def atry_def perform_def split: prod.splits sum.splits)

lemma prepareNode_ok:
  assumes "prepareNode e opts (s, tr) = (Inr (), w')"
  shows "(\<exists>nodes t t'. na_GetNodeList (ka_node (ue_ka e)) t = (Inr nodes, t') \<and> length nodes = 1)
    \<or> (\<exists>timeout t t'. ka_Drain (ue_ka e) (drain_args opts timeout) t = (Inr (), t'))"
proof -
  from assms obtain s1 tr1 where "atry (ask (na_GetNodeList (ka_node (ue_ka e)))) (\<lambda>r.
      if (case r of Inl _ \<Rightarrow> False | Inr nodes \<Rightarrow> length nodes = 1) then aret () else cordonAndDrainNode e opts) (s1, tr1) = (Inr (), w')"
    by (cases w') (auto simp: prepareNode_def elim!: abind_cases split: if_splits)
  then obtain r s2 where r: "na_GetNodeList (ka_node (ue_ka e)) s1 = (r, s2)"
    "(case r of Inl _ \<Rightarrow> False | Inr nodes \<Rightarrow> length nodes = 1) \<or> cordonAndDrainNode e opts (s2, tr1) = (Inr (), w')"
    by (auto simp: atry_def ask_def split: prod.splits if_splits)
  show ?thesis
  proof (cases "case r of Inl _ \<Rightarrow> False | Inr nodes \<Rightarrow> length nodes = 1")
    case True
    with r(1) show ?thesis by (auto split: sum.splits)
  next
    case False
    with r(2) have "cordonAndDrainNode e opts (s2, tr1) = (Inr (), w')" by simp
    then show ?thesis
      by (cases w') (auto simp: cordonAndDrainNode_def Let_def elim!: abind_cases dest!: WaitFor_one_ok split: if_splits)
  qed
qed

lemma poll_ready_ready:
  assumes "poll_ready cli n mt s = Some y"
  shows "fst y = Inr () \<longrightarrow> (\<exists>t node. na_GetNode cli n t = (Inr node, snd y) \<and> IsNodeReady node)"
proof (rule poll_ready.raw_induct [OF _ assms, where P = "\<lambda>cli n mt s y.
    fst y = Inr () \<longrightarrow> (\<exists>t node. na_GetNode cli n t = (Inr node, snd y) \<and> IsNodeReady node)"])
  fix f :: "'a node_api \<Rightarrow> string \<Rightarrow> int \<Rightarrow> 'a \<Rightarrow> (unit result \<times> 'a) option" and cli n mt s y
  assume ih: "\<And>cli n mt s y. f cli n mt s = Some y \<Longrightarrow> fst y = Inr () \<longrightarrow> (\<exists>t node. na_GetNode cli n t = (Inr node, snd y) \<and> IsNodeReady node)"
    and step: "(case na_GetNode cli n s of (r, s1) \<Rightarrow>
        (case r of
           Inl err \<Rightarrow> Some (Inl err, s1)
         | Inr node \<Rightarrow>
             (if IsNodeReady node then Some (Inr (), s1)
              else if na_Now cli s1 > mt
                then Some (Inl (''Timeout waiting for node '' @ n @ '' to be ready''), s1)
              else f cli n mt (na_Sleep cli (5 * duration_s) s1)))) = Some y"
  obtain r s1 where g: "na_GetNode cli n s = (r, s1)" by (metis prod.exhaust)
  show "fst y = Inr () \<longrightarrow> (\<exists>t node. na_GetNode cli n t = (Inr node, snd y) \<and> IsNodeReady node)"
  proof (cases r)
    case (Inl err)
    with g step show ?thesis by auto
  next
    case (Inr node)
    show ?thesis
    proof (cases "IsNodeReady node \<or> na_Now cli s1 > mt")
      case True
      with g Inr step show ?thesis by (auto split: if_splits) blast+
    next
      case False
      with g Inr step have "f cli n mt (na_Sleep cli (5 * duration_s) s1) = Some y" by simp
      then show ?thesis by (rule ih)
    qed
  qed
qed

lemma WaitUntilNodeIsReady_ready:
  "WaitUntilNodeIsReady cli n s = Some (Inr (), s') \<Longrightarrow> \<exists>t node. na_GetNode cli n t = (Inr node, s') \<and> IsNodeReady node"
  using poll_ready_ready [of cli n] by (fastforce simp: WaitUntilNodeIsReady_def split: option.splits prod.splits sum.splits)

lemma RunScript_ran:
  "RunScript ka n ns action script env w = (Inr out, w') \<Longrightarrow> \<exists>t t'. ka_RunInPod ka (action @ ''-'' @ n @ ''-pod'') script t = (Inr out, t')"
  using RunScript_output [of ka n ns action script env "fst w" "snd w" out "fst w'" "snd w'"] by simp

lemma deploy_update_uncordons:
  assumes "does (uncordons n) (deploy_update e scr opts) w"
  shows "(\<exists>out t t'. ka_RunInPod (ue_ka e) (''update-node-'' @ uo_NodeName opts @ ''-pod'') scr t = (Inr out, t'))
    \<and> (\<exists>t node t'. na_GetNode (ka_node (ue_ka e)) (uo_NodeName opts) t = (Inr node, t') \<and> IsNodeReady node)"
proof -
  have script: "emits (\<lambda>ev. \<not> uncordons n ev) (RunScript ka nm ns a sc env)" for ka :: "'a kube_api" and nm ns a sc env
    by (intro emits_intro) (auto simp: uncordons_def script_event_def Let_def)
  from assms obtain out w1 u s1 s2 where run:
    "RunScript (ue_ka e) (uo_NodeName opts) OCNESystemNamespace ''update-node'' scr [(''NODE_NAME'', uo_NodeName opts)] w = (Inr out, w1)"
    and wait: "(case WaitUntilNodeIsReady (ka_node (ue_ka e)) (uo_NodeName opts) s1 of
        None \<Rightarrow> (Inl ''the wait does not return'', s1) | Some x \<Rightarrow> x) = (Inr u, s2)"
    unfolding deploy_update_def wait_for_def
    by (elim does_abind [OF _ script] does_ask_bind) (rule that, assumption+)
  from wait have ready: "WaitUntilNodeIsReady (ka_node (ue_ka e)) (uo_NodeName opts) s1 = Some (Inr (), s2)"
    by (cases "WaitUntilNodeIsReady (ka_node (ue_ka e)) (uo_NodeName opts) s1") auto
  obtain t node where "na_GetNode (ka_node (ue_ka e)) (uo_NodeName opts) t = (Inr node, s2)" "IsNodeReady node"
    using WaitUntilNodeIsReady_ready [OF ready] by blast
  moreover obtain t t' where "ka_RunInPod (ue_ka e) (''update-node'' @ ''-'' @ uo_NodeName opts @ ''-pod'') scr t = (Inr out, t')"
    using RunScript_ran [OF run] by blast
  moreover have "''update-node'' @ ''-'' @ x = ''update-node-'' @ x" for x by simp
  ultimately show ?thesis by metis
qed

text \<open>Up to the node's preparation nothing of that kind happens, so all of it went well before.\<close>

lemma node_Update_late:
  assumes "does P (node_Update e scr opts) w" and "\<And>ev. P ev \<Longrightarrow> late_event n ev"
  obtains nodes s1 s2 w1 w2 w3 w4 w5 where "uo_PreUpdateMode opts \<noteq> PreUpdateModeOnly"
    "na_GetNodeList (ka_node (ue_ka e)) s1 = (Inr nodes, s2)"
    "areControlPlaneNodesAcceptable e nodes (uo_NodeName opts) w1 = (Inr True, w2)"
    "prepareNode e opts w3 = (Inr (), w4)" "does P (deploy_update e scr opts) w4"
proof -
  have pre: "emits (\<lambda>ev. \<not> P ev) (if b then cluster_Update e nodes else aret ())" for b nodes
    by (intro emits_if emits_aret) (rule emits_mono [OF repairs_not_late]; use assms(2) in blast)
  have ns: "emits (\<lambda>ev. \<not> P ev) (CreateNamespaceIfNotExists (ue_ka e) OCNESystemNamespace)"
    by (rule emits_mono [OF emits_namespace]; use assms(2) in blast)
  have acc: "emits (\<lambda>ev. \<not> P ev) (areControlPlaneNodesAcceptable e nodes (uo_NodeName opts))" for nodes
    by (rule emits_mono [OF emits_acceptable]; use assms(2) in blast)
  have prep: "emits (\<lambda>ev. \<not> P ev) (prepareNode e opts)"
    by (rule emits_mono [OF emits_prepareNode]; use assms(2) in blast)
  from assms(1) obtain nodes s1 s2 w0 where nodes: "na_GetNodeList (ka_node (ue_ka e)) s1 = (Inr nodes, s2)"
    and rest: "does P (if uo_PreUpdateMode opts = PreUpdateModeOnly then aret ()
       else abind (areControlPlaneNodesAcceptable e nodes (uo_NodeName opts)) (\<lambda>acceptable.
            if \<not> acceptable
            then afail (''the upgrade on '' @ uo_NodeName opts @ '' cannot be performed, since it either has the same or greater ''
                   @ ''version than some control-plane nodes, or some control-plane nodes have updates available  '')
            else atry (CreateNamespaceIfNotExists (ue_ka e) OCNESystemNamespace) (\<lambda>_.
                 abind (ask (ka_NewKubectlConfig (ue_ka e) (update_ignores nodes (uo_NodeName opts)))) (\<lambda>_.
                 abind (prepareNode e opts) (\<lambda>_. deploy_update e scr opts))))) w0"
    unfolding node_Update_def wait_for_def by (elim does_ask_bind does_abind [OF _ pre]) (rule that, assumption+)
  from rest have mode: "uo_PreUpdateMode opts \<noteq> PreUpdateModeOnly" by auto
  with rest obtain ok w2 where ok: "areControlPlaneNodesAcceptable e nodes (uo_NodeName opts) w0 = (Inr ok, w2)"
    and tail: "does P (if \<not> ok then afail (''the upgrade on '' @ uo_NodeName opts @ '' cannot be performed, since it either has the same or greater ''
                   @ ''version than some control-plane nodes, or some control-plane nodes have updates available  '')
            else atry (CreateNamespaceIfNotExists (ue_ka e) OCNESystemNamespace) (\<lambda>_.
                 abind (ask (ka_NewKubectlConfig (ue_ka e) (update_ignores nodes (uo_NodeName opts)))) (\<lambda>_.
                 abind (prepareNode e opts) (\<lambda>_. deploy_update e scr opts)))) w2"
    by (simp only: if_False) (elim does_abind [OF _ acc])
  from tail have True: ok by (cases ok) auto
  from tail [unfolded if_P [OF True, THEN eq_reflection]] True obtain w3 u w4 where "prepareNode e opts w3 = (Inr u, w4)" "does P (deploy_update e scr opts) w4"
    by (simp only: not_True_eq_False if_False) (elim does_atry [OF _ ns] does_ask_bind does_abind [OF _ prep])
  with nodes mode ok True show thesis by (intro that) auto
qed

lemma deploy_update_only_late:
  "node_Update e scr opts (s, tr) = (r, s', tr @ evs) \<Longrightarrow> uo_PreUpdateMode opts = PreUpdateModeOnly \<Longrightarrow>
     \<exists>nodes. \<forall>ev \<in> set evs. update_event nodes ev"
proof -
  assume run: "node_Update e scr opts (s, tr) = (r, s', tr @ evs)" and only: "uo_PreUpdateMode opts = PreUpdateModeOnly"
  from run consider nodes q s1 s2 where "cluster_Update e nodes (s1, tr) = (q, s2, tr @ evs)" | "evs = []"
    by (auto simp: node_Update_def only PreUpdateModeOnly_def PreUpdateModeSkip_def wait_for_def abind_def ask_def
        split: prod.splits sum.splits if_splits)
  then show ?thesis
  proof cases
    case 1
    from emitsD [OF emits_cluster_Update this] show ?thesis by (auto simp: list_all_iff)
  qed auto
qed

section \<open>A cluster of two nodes\<close>

text \<open>A control-plane node at 1.31 and a worker that is to be updated to 1.31.\<close>

definition sample_worker :: KNode where
  "sample_worker = (sample_node [])\<lparr>kn_Name := ''n2'', kn_KubeletVersion := ''v1.30.3'',
     kn_Conditions := [\<lparr>nc_Type = ''Ready'', nc_Status = ''True''\<rparr>]\<rparr>"

definition sample_pair :: "(int, unit) update_env" where
  "sample_pair = sample_update\<lparr>ue_ka := (sample_kube ''tag: v1.31'')\<lparr>ka_node := sample_api\<lparr>
     na_GetNode := (\<lambda>_ s. (Inr sample_worker, s)),
     na_GetNodeList := (\<lambda>s. (Inr [sample_cp\<lparr>kn_KubeletVersion := ''v1.31.4''\<rparr>, sample_worker], s))\<rparr>\<rparr>\<rparr>"

definition sample_opts :: UpdateOptions where
  "sample_opts = \<lparr>uo_KubeConfigPath = [], uo_NodeName = ''n2'', uo_DeleteEmptyDir = False, uo_DisableEviction = False,
     uo_Timeout = [], uo_PreUpdateMode = ''skip'', uo_Force = True\<rparr>"

lemma sample_pair_RunScript:
  "\<exists>evs. RunScript (ue_ka sample_pair) n ns a script env (s, tr) = (Inr ''tag: v1.31'', s, tr @ evs)
     \<and> EvExec (a @ ''-'' @ n @ ''-pod'') script \<in> set evs"
proof -
  have w: "wait_pod_loop (ue_ka sample_pair) ns name k s = (Inr (), s)" for name k
    by (subst wait_pod_loop.simps) (simp add: sample_pair_def sample_kube_def)
  have del: "DeletePod (ue_ka sample_pair) ns name (s, tr) = (Inr (), s, tr @ [EvDeletePod ns name])"
    "DeleteConfigmap (ue_ka sample_pair) ns name (s, tr) = (Inr (), s, tr @ [EvDeleteConfigmap ns name])" for name tr
    by (simp_all add: DeletePod_def DeleteConfigmap_def abind_def perform_def keep_def sample_pair_def sample_kube_def)
  have new: "ka_CreateConfigmap (ue_ka sample_pair) ns name d s = (Inr (), s)" "ka_CreatePod (ue_ka sample_pair) p s = (Inr (), s)"
    "ka_RunInPod (ue_ka sample_pair) pod script s = (Inr ''tag: v1.31'', s)" for name d p pod
    by (simp_all add: sample_pair_def sample_kube_def)
  show ?thesis
    by (simp add: RunScript_def Let_def abind_def adefer_def CreateConfigMapWithData_def CreateScriptsPod_def perform_def
        ask_def WaitUntilPodReady_def w del new)
qed

lemma sample_pair_run:
  "\<exists>evs s'. node_Update sample_pair ''deploy'' sample_opts (0, []) = (Inr (), s', [] @ evs)
     \<and> EvExec ''update-node-n2-pod'' ''deploy'' \<in> set evs \<and> EvUncordon ''n2'' \<in> set evs"
proof -
  let ?e = sample_pair
  let ?cp = "sample_cp\<lparr>kn_KubeletVersion := ''v1.31.4''\<rparr>"
  have ans: "na_GetNodeList (ka_node (ue_ka ?e)) t = (Inr [?cp, sample_worker], t)" "na_GetNode (ka_node (ue_ka ?e)) n t = (Inr sample_worker, t)"
    "ka_NewKubectlConfig (ue_ka ?e) x t = (Inr (), t)" "ha_GetKubeClient (ue_ha ?e) t = (Inr (), t)" "ha_IsTTY (ue_ha ?e) t = (Inr False, t)"
    "ka_Drain (ue_ka ?e) a t = (Inr (), t)" "ka_Uncordon (ue_ka ?e) n t = (Inr (), t)" "ka_GetNamespace (ue_ka ?e) n t = (Inr (), t)"
    "na_Now (ka_node (ue_ka ?e)) t = t" "na_Sleep (ka_node (ue_ka ?e)) d t = t + d" for n t x a d
    by (simp_all add: sample_pair_def sample_update_def sample_kube_def sample_api_def sample_helm_def)
  have names: "kn_Name ?cp = ''n1''" "kn_Name sample_worker = ''n2''" "IsControlPlane ?cp" "\<not> IsControlPlane sample_worker" "IsNodeReady sample_worker"
    "kn_Annotations ?cp = None" "kn_KubeletVersion ?cp = ''v1.31.4''"
    by (simp_all add: sample_cp_def sample_worker_def sample_node_def IsControlPlane_def GetRole_def IsNodeReady_def K8sLabelControlPlane_def)
  have wait: "wait_for (WaitUntilGetNodesSucceeds (ka_node (ue_ka ?e))) (t, tr) = (Inr [?cp, sample_worker], t, tr)" for t tr
    by (simp add: wait_for_def ask_def WaitUntilGetNodesSucceeds_def ans)
  have ready: "wait_for (WaitUntilNodeIsReady (ka_node (ue_ka ?e)) n) (t, tr) = (Inr (), t, tr)" for n t tr
    by (simp add: wait_for_def ask_def WaitUntilNodeIsReady_def poll_ready.simps ans names)
  have tag: "update_tag ''tag: v1.31'' = ''v1.31''" by code_simp
  have ver: "is_ok (NewVersion ''v1.31'')" "isWorkerLessOrEqualToControlPlane ''v1.31'' ''v1.31.4'' = Inr True" by code_simp+
  have avail: "IsUpdateAvailable ?e ?cp (t, tr) = (Inr False, t, tr)" for t tr by (simp add: IsUpdateAvailable_def names)
  have ahead: "control_plane_ahead ?e ''n2'' ''v1.31'' [?cp, sample_worker] (t, tr) = (Inr True, t, tr)" for t tr
    by (simp add: names abind_def avail ver)
  have del: "DeletePod (ue_ka ?e) ns name (t, tr) = (Inr (), t, tr @ [EvDeletePod ns name])" for ns name t tr
    by (simp add: DeletePod_def abind_def perform_def keep_def sample_pair_def sample_kube_def)
  obtain e1 where check: "RunScript (ue_ka ?e) ''n2'' OCNESystemNamespace ''check-update'' getUpdateInfo [] (0, [])
      = (Inr ''tag: v1.31'', 0, [] @ e1)" using sample_pair_RunScript by blast
  have acc: "areControlPlaneNodesAcceptable ?e [?cp, sample_worker] ''n2'' (0, []) = (Inr True, 0, e1 @ [EvDeletePod OCNESystemNamespace ''check-update-n2''])"
    using check by (simp add: areControlPlaneNodesAcceptable_def names abind_def ask_def ans del tag ver ahead del: control_plane_ahead.simps)
  let ?t1 = "e1 @ [EvDeletePod OCNESystemNamespace ''check-update-n2'']"
  have ns: "CreateNamespaceIfNotExists (ue_ka ?e) OCNESystemNamespace (t, tr) = (Inr (), t, tr)" for t tr
    by (simp add: CreateNamespaceIfNotExists_def abind_def ask_def keep_def ans)
  obtain e2 where prep: "prepareNode ?e sample_opts (0, ?t1) = (Inr (), 0, ?t1 @ e2)"
    by (simp add: prepareNode_def isUpdateAvailable_def cordonAndDrainNode_def WaitFor_one_def sample_opts_def abind_def atry_def ask_def
        perform_def ans Let_def)
  obtain e3 where script: "RunScript (ue_ka ?e) ''n2'' OCNESystemNamespace ''update-node'' ''deploy'' [(''NODE_NAME'', ''n2'')] (0, ?t1 @ e2)
      = (Inr ''tag: v1.31'', 0, (?t1 @ e2) @ e3)" "EvExec (''update-node'' @ ''-'' @ ''n2'' @ ''-pod'') ''deploy'' \<in> set e3"
    using sample_pair_RunScript by blast
  have name: "uo_NodeName sample_opts = ''n2''" and mode: "uo_PreUpdateMode sample_opts = PreUpdateModeSkip"
    "PreUpdateModeSkip \<noteq> PreUpdateModeOnly"
    by (simp_all add: sample_opts_def PreUpdateModeOnly_def PreUpdateModeSkip_def)
  have sleep: "ask (\<lambda>s. (Inr (), na_Sleep (ka_node (ue_ka ?e)) d s)) (t, tr) = (Inr (), t + d, tr)" for d t tr
    by (simp add: ask_def ans)
  have uncordon: "uncordonNode ?e sample_opts (t, tr) = (Inr (), t, tr @ [EvUncordon ''n2''])" for t tr
    by (simp add: uncordonNode_def WaitFor_one_def name abind_def atry_def ask_def perform_def ans)
  obtain e4 where deploy: "deploy_update ?e ''deploy'' sample_opts (0, ?t1 @ e2) = (Inr (), 5 * duration_s, (?t1 @ e2) @ e3 @ e4)"
    "EvUncordon ''n2'' \<in> set e4"
    using script(1) by (simp add: deploy_update_def deleteUpdatePod_def name abind_def sleep wait ready uncordon del)
  have run: "node_Update ?e ''deploy'' sample_opts (0, []) = (Inr (), 5 * duration_s, (?t1 @ e2) @ e3 @ e4)"
    using acc prep deploy(1)
    by (simp add: node_Update_def name mode abind_def atry_def wait ask_def ans ns)
  with script(2) deploy(2) show ?thesis by (intro exI conjI, simp) auto
qed

section \<open>Properties\<close>





end
