(* ===== verification/Ignition_Merge.thy ===== *)
theory Ignition_Merge
  imports Ignition_Types
begin

text \<open>
  Merging two Ignition configurations, a parent and a child (\<^verbatim>\<open>coreos/ignition/v2/config/merge\<close>, and
  \<^verbatim>\<open>Merge\<close>, \<^verbatim>\<open>AddUnit\<close> in \<^verbatim>\<open>pkg/cluster/ignition/ignition.go\<close>).  The library walks the structures by
  reflection: \<open>merge_struct\<close>, \<open>ptr_merge\<close>, \<open>merge_slices\<close> and \<open>append_slices\<close> are its cases, and every structure has its
  merge written out over its fields.  Entries of a list are matched by their key; the lists of files, directories and links
  share one set of keys, and so do the two lists of kernel arguments.  The transcript of a merge is left out.
\<close>

section \<open>The cases of a field\<close>

definition ptr_merge :: "'a option \<Rightarrow> 'a option \<Rightarrow> 'a option" where
  "ptr_merge p c = (case c of None \<Rightarrow> p | Some _ \<Rightarrow> c)"

definition merge_struct :: "'a \<Rightarrow> ('a \<Rightarrow> 'a \<Rightarrow> 'a) \<Rightarrow> 'a \<Rightarrow> 'a \<Rightarrow> 'a" where
  "merge_struct zero f p c = (if c = zero then p else if p = zero then c else f p c)"

definition append_slices :: "'a slice \<Rightarrow> 'a slice \<Rightarrow> 'a slice" where
  "append_slices p c = (if length (sl p) + length (sl c) = 0 then None else Some (sl p @ sl c))"

text \<open>The entry of the child for a key: the last one, as the table of keys is filled in order.\<close>

definition child_entry :: "('a \<Rightarrow> string) \<Rightarrow> 'a list \<Rightarrow> string \<Rightarrow> 'a option" where
  "child_entry key cs k = find (\<lambda>c. key c = k) (rev cs)"

text \<open>
  \<open>earlier\<close> and \<open>later\<close> are the keys of the child's other lists that share the keys of this one.  An entry of the parent
  whose key was last seen in another list is left to that list.
\<close>

definition parent_item :: "('a \<Rightarrow> string) \<Rightarrow> ('a \<Rightarrow> 'a \<Rightarrow> 'a list) \<Rightarrow> string list \<Rightarrow> string list \<Rightarrow> 'a list \<Rightarrow> 'a \<Rightarrow> 'a list" where
  "parent_item key f earlier later cs p =
     (if key p \<in> set later then []
      else case child_entry key cs (key p) of
        Some c \<Rightarrow> f p c
      | None \<Rightarrow> (if key p \<in> set earlier then [] else [p]))"

definition merge_lists :: "('a \<Rightarrow> string) \<Rightarrow> ('a \<Rightarrow> 'a \<Rightarrow> 'a list) \<Rightarrow> string list \<Rightarrow> string list \<Rightarrow> 'a list \<Rightarrow> 'a list \<Rightarrow> 'a list" where
  "merge_lists key f earlier later ps cs =
     concat (map (parent_item key f earlier later cs) ps) @ filter (\<lambda>c. key c \<notin> key ` set ps) cs"

definition merge_slices :: "('a \<Rightarrow> string) \<Rightarrow> ('a \<Rightarrow> 'a \<Rightarrow> 'a list) \<Rightarrow> string list \<Rightarrow> string list \<Rightarrow> 'a slice \<Rightarrow> 'a slice \<Rightarrow> 'a slice" where
  "merge_slices key f earlier later p c =
     (if length (sl p) + length (sl c) = 0 then None else Some (merge_lists key f earlier later (sl p) (sl c)))"

text \<open>Lists of strings: a string is its own key.\<close>

definition merge_string :: "string \<Rightarrow> string \<Rightarrow> string list" where
  "merge_string p c = [c]"

section \<open>Keys\<close>

definition file_key :: "IgnFile \<Rightarrow> string" where "file_key f = inode_Path (file_Node f)"
definition dir_key :: "IgnDirectory \<Rightarrow> string" where "dir_key d = inode_Path (dir_Node d)"
definition link_key :: "IgnLink \<Rightarrow> string" where "link_key l = inode_Path (link_Node l)"

definition partition_key :: "IgnPartition \<Rightarrow> string" where
  "partition_key p =
     (if part_Number p \<noteq> 0 then ''number:'' @ format_int (part_Number p)
      else case part_Label p of Some l \<Rightarrow> ''label:'' @ l | None \<Rightarrow> [])"

definition resource_key :: "IgnResource \<Rightarrow> string" where
  "resource_key r = (case res_Source r of None \<Rightarrow> [] | Some s \<Rightarrow> s)"

section \<open>The structures\<close>

definition merge_IgnClevisCustom :: "IgnClevisCustom \<Rightarrow> IgnClevisCustom \<Rightarrow> IgnClevisCustom" where
  "merge_IgnClevisCustom p c = \<lparr>
     clvc_Config = ptr_merge (clvc_Config p) (clvc_Config c),
     clvc_NeedsNetwork = ptr_merge (clvc_NeedsNetwork p) (clvc_NeedsNetwork c),
     clvc_Pin = ptr_merge (clvc_Pin p) (clvc_Pin c)\<rparr>"

definition merge_IgnTang :: "IgnTang \<Rightarrow> IgnTang \<Rightarrow> IgnTang" where
  "merge_IgnTang p c = \<lparr>
     tang_Advertisement = ptr_merge (tang_Advertisement p) (tang_Advertisement c),
     tang_Thumbprint = ptr_merge (tang_Thumbprint p) (tang_Thumbprint c),
     tang_URL = tang_URL c\<rparr>"

definition merge_IgnClevis :: "IgnClevis \<Rightarrow> IgnClevis \<Rightarrow> IgnClevis" where
  "merge_IgnClevis p c = \<lparr>
     clv_Custom = merge_struct zero_IgnClevisCustom merge_IgnClevisCustom (clv_Custom p) (clv_Custom c),
     clv_Tang = merge_slices tang_URL (\<lambda>x y. [merge_IgnTang x y]) [] [] (clv_Tang p) (clv_Tang c),
     clv_Threshold = ptr_merge (clv_Threshold p) (clv_Threshold c),
     clv_Tpm2 = ptr_merge (clv_Tpm2 p) (clv_Tpm2 c)\<rparr>"

definition merge_IgnHTTPHeader :: "IgnHTTPHeader \<Rightarrow> IgnHTTPHeader \<Rightarrow> IgnHTTPHeader" where
  "merge_IgnHTTPHeader p c = \<lparr>
     hdr_Name = hdr_Name c,
     hdr_Value = ptr_merge (hdr_Value p) (hdr_Value c)\<rparr>"

text \<open>A header without a value in the child takes the header away.\<close>

definition merge_header :: "IgnHTTPHeader \<Rightarrow> IgnHTTPHeader \<Rightarrow> IgnHTTPHeader list" where
  "merge_header p c = (if hdr_Value c = None then [] else [merge_IgnHTTPHeader p c])"

definition merge_IgnVerification :: "IgnVerification \<Rightarrow> IgnVerification \<Rightarrow> IgnVerification" where
  "merge_IgnVerification p c = \<lparr>
     veri_Hash = ptr_merge (veri_Hash p) (veri_Hash c)\<rparr>"

definition merge_IgnResource :: "IgnResource \<Rightarrow> IgnResource \<Rightarrow> IgnResource" where
  "merge_IgnResource p c = \<lparr>
     res_Compression = ptr_merge (res_Compression p) (res_Compression c),
     res_HTTPHeaders = merge_slices hdr_Name merge_header [] [] (res_HTTPHeaders p) (res_HTTPHeaders c),
     res_Source = ptr_merge (res_Source p) (res_Source c),
     res_Verification = merge_struct zero_IgnVerification merge_IgnVerification (res_Verification p) (res_Verification c)\<rparr>"

definition merge_IgnIgnitionConfig :: "IgnIgnitionConfig \<Rightarrow> IgnIgnitionConfig \<Rightarrow> IgnIgnitionConfig" where
  "merge_IgnIgnitionConfig p c = \<lparr>
     ignc_Merge = merge_slices resource_key (\<lambda>x y. [merge_IgnResource x y]) [] [] (ignc_Merge p) (ignc_Merge c),
     ignc_Replace = merge_struct zero_IgnResource merge_IgnResource (ignc_Replace p) (ignc_Replace c)\<rparr>"

definition merge_IgnProxy :: "IgnProxy \<Rightarrow> IgnProxy \<Rightarrow> IgnProxy" where
  "merge_IgnProxy p c = \<lparr>
     iprx_HTTPProxy = ptr_merge (iprx_HTTPProxy p) (iprx_HTTPProxy c),
     iprx_HTTPSProxy = ptr_merge (iprx_HTTPSProxy p) (iprx_HTTPSProxy c),
     iprx_NoProxy = merge_slices id merge_string [] [] (iprx_NoProxy p) (iprx_NoProxy c)\<rparr>"

definition merge_IgnTLS :: "IgnTLS \<Rightarrow> IgnTLS \<Rightarrow> IgnTLS" where
  "merge_IgnTLS p c = \<lparr>
     tls_CertificateAuthorities = merge_slices resource_key (\<lambda>x y. [merge_IgnResource x y]) [] [] (tls_CertificateAuthorities p) (tls_CertificateAuthorities c)\<rparr>"

definition merge_IgnSecurity :: "IgnSecurity \<Rightarrow> IgnSecurity \<Rightarrow> IgnSecurity" where
  "merge_IgnSecurity p c = \<lparr>
     sec_TLS = merge_struct zero_IgnTLS merge_IgnTLS (sec_TLS p) (sec_TLS c)\<rparr>"

definition merge_IgnTimeouts :: "IgnTimeouts \<Rightarrow> IgnTimeouts \<Rightarrow> IgnTimeouts" where
  "merge_IgnTimeouts p c = \<lparr>
     tmo_HTTPResponseHeaders = ptr_merge (tmo_HTTPResponseHeaders p) (tmo_HTTPResponseHeaders c),
     tmo_HTTPTotal = ptr_merge (tmo_HTTPTotal p) (tmo_HTTPTotal c)\<rparr>"

definition merge_IgnIgnition :: "IgnIgnition \<Rightarrow> IgnIgnition \<Rightarrow> IgnIgnition" where
  "merge_IgnIgnition p c = \<lparr>
     igni_Config = merge_struct zero_IgnIgnitionConfig merge_IgnIgnitionConfig (igni_Config p) (igni_Config c),
     igni_Proxy = merge_struct zero_IgnProxy merge_IgnProxy (igni_Proxy p) (igni_Proxy c),
     igni_Security = merge_struct zero_IgnSecurity merge_IgnSecurity (igni_Security p) (igni_Security c),
     igni_Timeouts = merge_struct zero_IgnTimeouts merge_IgnTimeouts (igni_Timeouts p) (igni_Timeouts c),
     igni_Version = igni_Version c\<rparr>"

definition merge_IgnKernelArguments :: "IgnKernelArguments \<Rightarrow> IgnKernelArguments \<Rightarrow> IgnKernelArguments" where
  "merge_IgnKernelArguments p c = \<lparr>
     karg_ShouldExist = merge_slices id merge_string []
       (sl (karg_ShouldNotExist c)) (karg_ShouldExist p) (karg_ShouldExist c),
     karg_ShouldNotExist = merge_slices id merge_string (sl (karg_ShouldExist c))
       [] (karg_ShouldNotExist p) (karg_ShouldNotExist c)\<rparr>"

definition merge_IgnPasswdGroup :: "IgnPasswdGroup \<Rightarrow> IgnPasswdGroup \<Rightarrow> IgnPasswdGroup" where
  "merge_IgnPasswdGroup p c = \<lparr>
     pgrp_Gid = ptr_merge (pgrp_Gid p) (pgrp_Gid c),
     pgrp_Name = pgrp_Name c,
     pgrp_PasswordHash = ptr_merge (pgrp_PasswordHash p) (pgrp_PasswordHash c),
     pgrp_ShouldExist = ptr_merge (pgrp_ShouldExist p) (pgrp_ShouldExist c),
     pgrp_System = ptr_merge (pgrp_System p) (pgrp_System c)\<rparr>"

definition merge_IgnPasswdUser :: "IgnPasswdUser \<Rightarrow> IgnPasswdUser \<Rightarrow> IgnPasswdUser" where
  "merge_IgnPasswdUser p c = \<lparr>
     pusr_Gecos = ptr_merge (pusr_Gecos p) (pusr_Gecos c),
     pusr_Groups = merge_slices id merge_string [] [] (pusr_Groups p) (pusr_Groups c),
     pusr_HomeDir = ptr_merge (pusr_HomeDir p) (pusr_HomeDir c),
     pusr_Name = pusr_Name c,
     pusr_NoCreateHome = ptr_merge (pusr_NoCreateHome p) (pusr_NoCreateHome c),
     pusr_NoLogInit = ptr_merge (pusr_NoLogInit p) (pusr_NoLogInit c),
     pusr_NoUserGroup = ptr_merge (pusr_NoUserGroup p) (pusr_NoUserGroup c),
     pusr_PasswordHash = ptr_merge (pusr_PasswordHash p) (pusr_PasswordHash c),
     pusr_PrimaryGroup = ptr_merge (pusr_PrimaryGroup p) (pusr_PrimaryGroup c),
     pusr_SSHAuthorizedKeys = merge_slices id merge_string [] [] (pusr_SSHAuthorizedKeys p) (pusr_SSHAuthorizedKeys c),
     pusr_Shell = ptr_merge (pusr_Shell p) (pusr_Shell c),
     pusr_ShouldExist = ptr_merge (pusr_ShouldExist p) (pusr_ShouldExist c),
     pusr_System = ptr_merge (pusr_System p) (pusr_System c),
     pusr_UID = ptr_merge (pusr_UID p) (pusr_UID c)\<rparr>"

definition merge_IgnPasswd :: "IgnPasswd \<Rightarrow> IgnPasswd \<Rightarrow> IgnPasswd" where
  "merge_IgnPasswd p c = \<lparr>
     pwd_Groups = merge_slices pgrp_Name (\<lambda>x y. [merge_IgnPasswdGroup x y]) [] [] (pwd_Groups p) (pwd_Groups c),
     pwd_Users = merge_slices pusr_Name (\<lambda>x y. [merge_IgnPasswdUser x y]) [] [] (pwd_Users p) (pwd_Users c)\<rparr>"

definition merge_IgnNodeGroup :: "IgnNodeGroup \<Rightarrow> IgnNodeGroup \<Rightarrow> IgnNodeGroup" where
  "merge_IgnNodeGroup p c = \<lparr>
     ngrp_ID = ptr_merge (ngrp_ID p) (ngrp_ID c),
     ngrp_Name = ptr_merge (ngrp_Name p) (ngrp_Name c)\<rparr>"

definition merge_IgnNodeUser :: "IgnNodeUser \<Rightarrow> IgnNodeUser \<Rightarrow> IgnNodeUser" where
  "merge_IgnNodeUser p c = \<lparr>
     nusr_ID = ptr_merge (nusr_ID p) (nusr_ID c),
     nusr_Name = ptr_merge (nusr_Name p) (nusr_Name c)\<rparr>"

definition merge_IgnNode :: "IgnNode \<Rightarrow> IgnNode \<Rightarrow> IgnNode" where
  "merge_IgnNode p c = \<lparr>
     inode_Group = merge_struct zero_IgnNodeGroup merge_IgnNodeGroup (inode_Group p) (inode_Group c),
     inode_Overwrite = ptr_merge (inode_Overwrite p) (inode_Overwrite c),
     inode_Path = inode_Path c,
     inode_User = merge_struct zero_IgnNodeUser merge_IgnNodeUser (inode_User p) (inode_User c)\<rparr>"

definition merge_IgnDirectoryEmbedded1 :: "IgnDirectoryEmbedded1 \<Rightarrow> IgnDirectoryEmbedded1 \<Rightarrow> IgnDirectoryEmbedded1" where
  "merge_IgnDirectoryEmbedded1 p c = \<lparr>
     dire_Mode = ptr_merge (dire_Mode p) (dire_Mode c)\<rparr>"

definition merge_IgnDirectory :: "IgnDirectory \<Rightarrow> IgnDirectory \<Rightarrow> IgnDirectory" where
  "merge_IgnDirectory p c = \<lparr>
     dir_Node = merge_struct zero_IgnNode merge_IgnNode (dir_Node p) (dir_Node c),
     dir_DirectoryEmbedded1 = merge_struct zero_IgnDirectoryEmbedded1 merge_IgnDirectoryEmbedded1 (dir_DirectoryEmbedded1 p) (dir_DirectoryEmbedded1 c)\<rparr>"

definition merge_IgnPartition :: "IgnPartition \<Rightarrow> IgnPartition \<Rightarrow> IgnPartition" where
  "merge_IgnPartition p c = \<lparr>
     part_GUID = ptr_merge (part_GUID p) (part_GUID c),
     part_Label = ptr_merge (part_Label p) (part_Label c),
     part_Number = part_Number c,
     part_Resize = ptr_merge (part_Resize p) (part_Resize c),
     part_ShouldExist = ptr_merge (part_ShouldExist p) (part_ShouldExist c),
     part_SizeMiB = ptr_merge (part_SizeMiB p) (part_SizeMiB c),
     part_StartMiB = ptr_merge (part_StartMiB p) (part_StartMiB c),
     part_TypeGUID = ptr_merge (part_TypeGUID p) (part_TypeGUID c),
     part_WipePartitionEntry = ptr_merge (part_WipePartitionEntry p) (part_WipePartitionEntry c)\<rparr>"

definition merge_IgnDisk :: "IgnDisk \<Rightarrow> IgnDisk \<Rightarrow> IgnDisk" where
  "merge_IgnDisk p c = \<lparr>
     disk_Device = disk_Device c,
     disk_Partitions = merge_slices partition_key (\<lambda>x y. [merge_IgnPartition x y]) [] [] (disk_Partitions p) (disk_Partitions c),
     disk_WipeTable = ptr_merge (disk_WipeTable p) (disk_WipeTable c)\<rparr>"

definition merge_IgnFileEmbedded1 :: "IgnFileEmbedded1 \<Rightarrow> IgnFileEmbedded1 \<Rightarrow> IgnFileEmbedded1" where
  "merge_IgnFileEmbedded1 p c = \<lparr>
     filee_Append = append_slices (filee_Append p) (filee_Append c),
     filee_Contents = merge_struct zero_IgnResource merge_IgnResource (filee_Contents p) (filee_Contents c),
     filee_Mode = ptr_merge (filee_Mode p) (filee_Mode c)\<rparr>"

definition merge_IgnFile :: "IgnFile \<Rightarrow> IgnFile \<Rightarrow> IgnFile" where
  "merge_IgnFile p c = \<lparr>
     file_Node = merge_struct zero_IgnNode merge_IgnNode (file_Node p) (file_Node c),
     file_FileEmbedded1 = merge_struct zero_IgnFileEmbedded1 merge_IgnFileEmbedded1 (file_FileEmbedded1 p) (file_FileEmbedded1 c)\<rparr>"

definition merge_IgnFilesystem :: "IgnFilesystem \<Rightarrow> IgnFilesystem \<Rightarrow> IgnFilesystem" where
  "merge_IgnFilesystem p c = \<lparr>
     fs_Device = fs_Device c,
     fs_Format = ptr_merge (fs_Format p) (fs_Format c),
     fs_Label = ptr_merge (fs_Label p) (fs_Label c),
     fs_MountOptions = append_slices (fs_MountOptions p) (fs_MountOptions c),
     fs_Options = append_slices (fs_Options p) (fs_Options c),
     fs_Path = ptr_merge (fs_Path p) (fs_Path c),
     fs_UUID = ptr_merge (fs_UUID p) (fs_UUID c),
     fs_WipeFilesystem = ptr_merge (fs_WipeFilesystem p) (fs_WipeFilesystem c)\<rparr>"

definition merge_IgnLinkEmbedded1 :: "IgnLinkEmbedded1 \<Rightarrow> IgnLinkEmbedded1 \<Rightarrow> IgnLinkEmbedded1" where
  "merge_IgnLinkEmbedded1 p c = \<lparr>
     linke_Hard = ptr_merge (linke_Hard p) (linke_Hard c),
     linke_Target = ptr_merge (linke_Target p) (linke_Target c)\<rparr>"

definition merge_IgnLink :: "IgnLink \<Rightarrow> IgnLink \<Rightarrow> IgnLink" where
  "merge_IgnLink p c = \<lparr>
     link_Node = merge_struct zero_IgnNode merge_IgnNode (link_Node p) (link_Node c),
     link_LinkEmbedded1 = merge_struct zero_IgnLinkEmbedded1 merge_IgnLinkEmbedded1 (link_LinkEmbedded1 p) (link_LinkEmbedded1 c)\<rparr>"

definition merge_IgnLuks :: "IgnLuks \<Rightarrow> IgnLuks \<Rightarrow> IgnLuks" where
  "merge_IgnLuks p c = \<lparr>
     luks_Clevis = merge_struct zero_IgnClevis merge_IgnClevis (luks_Clevis p) (luks_Clevis c),
     luks_Device = ptr_merge (luks_Device p) (luks_Device c),
     luks_Discard = ptr_merge (luks_Discard p) (luks_Discard c),
     luks_KeyFile = merge_struct zero_IgnResource merge_IgnResource (luks_KeyFile p) (luks_KeyFile c),
     luks_Label = ptr_merge (luks_Label p) (luks_Label c),
     luks_Name = luks_Name c,
     luks_OpenOptions = merge_slices id merge_string [] [] (luks_OpenOptions p) (luks_OpenOptions c),
     luks_Options = append_slices (luks_Options p) (luks_Options c),
     luks_UUID = ptr_merge (luks_UUID p) (luks_UUID c),
     luks_WipeVolume = ptr_merge (luks_WipeVolume p) (luks_WipeVolume c)\<rparr>"

definition merge_IgnRaid :: "IgnRaid \<Rightarrow> IgnRaid \<Rightarrow> IgnRaid" where
  "merge_IgnRaid p c = \<lparr>
     raid_Devices = merge_slices id merge_string [] [] (raid_Devices p) (raid_Devices c),
     raid_Level = ptr_merge (raid_Level p) (raid_Level c),
     raid_Name = raid_Name c,
     raid_Options = append_slices (raid_Options p) (raid_Options c),
     raid_Spares = ptr_merge (raid_Spares p) (raid_Spares c)\<rparr>"

definition merge_IgnStorage :: "IgnStorage \<Rightarrow> IgnStorage \<Rightarrow> IgnStorage" where
  "merge_IgnStorage p c = \<lparr>
     sto_Directories = merge_slices dir_key (\<lambda>x y. [merge_IgnDirectory x y]) []
       (map file_key (sl (sto_Files c)) @ map link_key (sl (sto_Links c))) (sto_Directories p) (sto_Directories c),
     sto_Disks = merge_slices disk_Device (\<lambda>x y. [merge_IgnDisk x y]) [] [] (sto_Disks p) (sto_Disks c),
     sto_Files = merge_slices file_key (\<lambda>x y. [merge_IgnFile x y]) (map dir_key (sl (sto_Directories c)))
       (map link_key (sl (sto_Links c))) (sto_Files p) (sto_Files c),
     sto_Filesystems = merge_slices fs_Device (\<lambda>x y. [merge_IgnFilesystem x y]) [] [] (sto_Filesystems p) (sto_Filesystems c),
     sto_Links = merge_slices link_key (\<lambda>x y. [merge_IgnLink x y]) (map dir_key (sl (sto_Directories c)) @ map file_key (sl (sto_Files c)))
       [] (sto_Links p) (sto_Links c),
     sto_Luks = merge_slices luks_Name (\<lambda>x y. [merge_IgnLuks x y]) [] [] (sto_Luks p) (sto_Luks c),
     sto_Raid = merge_slices raid_Name (\<lambda>x y. [merge_IgnRaid x y]) [] [] (sto_Raid p) (sto_Raid c)\<rparr>"

definition merge_IgnDropin :: "IgnDropin \<Rightarrow> IgnDropin \<Rightarrow> IgnDropin" where
  "merge_IgnDropin p c = \<lparr>
     drop_Contents = ptr_merge (drop_Contents p) (drop_Contents c),
     drop_Name = drop_Name c\<rparr>"

definition merge_IgnUnit :: "IgnUnit \<Rightarrow> IgnUnit \<Rightarrow> IgnUnit" where
  "merge_IgnUnit p c = \<lparr>
     unit_Contents = ptr_merge (unit_Contents p) (unit_Contents c),
     unit_Dropins = merge_slices drop_Name (\<lambda>x y. [merge_IgnDropin x y]) [] [] (unit_Dropins p) (unit_Dropins c),
     unit_Enabled = ptr_merge (unit_Enabled p) (unit_Enabled c),
     unit_Mask = ptr_merge (unit_Mask p) (unit_Mask c),
     unit_Name = unit_Name c\<rparr>"

definition merge_IgnSystemd :: "IgnSystemd \<Rightarrow> IgnSystemd \<Rightarrow> IgnSystemd" where
  "merge_IgnSystemd p c = \<lparr>
     sysd_Units = merge_slices unit_Name (\<lambda>x y. [merge_IgnUnit x y]) [] [] (sysd_Units p) (sysd_Units c)\<rparr>"

definition merge_IgnConfig :: "IgnConfig \<Rightarrow> IgnConfig \<Rightarrow> IgnConfig" where
  "merge_IgnConfig p c = \<lparr>
     ign_Ignition = merge_struct zero_IgnIgnition merge_IgnIgnition (ign_Ignition p) (ign_Ignition c),
     ign_KernelArguments = merge_struct zero_IgnKernelArguments merge_IgnKernelArguments (ign_KernelArguments p) (ign_KernelArguments c),
     ign_Passwd = merge_struct zero_IgnPasswd merge_IgnPasswd (ign_Passwd p) (ign_Passwd c),
     ign_Storage = merge_struct zero_IgnStorage merge_IgnStorage (ign_Storage p) (ign_Storage c),
     ign_Systemd = merge_struct zero_IgnSystemd merge_IgnSystemd (ign_Systemd p) (ign_Systemd c)\<rparr>"


section \<open>Lists without shared keys\<close>

text \<open>
  The contract of a merge of entries is that it keeps the key.  Then the list of the merge is, seen as a map from keys to
  entries, the merge of the two maps, and its keys are those of the parent followed by the new ones of the child.
\<close>

definition combine :: "('a \<Rightarrow> 'a \<Rightarrow> 'a) \<Rightarrow> 'a option \<Rightarrow> 'a option \<Rightarrow> 'a option" where
  "combine g p c = (case p of None \<Rightarrow> c | Some x \<Rightarrow> (case c of None \<Rightarrow> p | Some y \<Rightarrow> Some (g x y)))"

lemma combine_simps [simp]:
  "combine g None c = c" "combine g p None = p" "combine g (Some x) (Some y) = Some (g x y)"
  by (simp_all add: combine_def split: option.splits)

lemma child_entry_None: "child_entry key cs k = None \<longleftrightarrow> k \<notin> key ` set cs"
  by (auto simp: child_entry_def find_None_iff)

lemma list_ex_key: "list_ex (\<lambda>x. key x = k) xs \<longleftrightarrow> k \<in> key ` set xs"
  by (auto simp: list_ex_iff)

lemma child_entry_Some: "child_entry key cs k = Some c \<Longrightarrow> c \<in> set cs \<and> key c = k"
  by (auto simp: child_entry_def find_Some_iff) (metis length_rev nth_mem set_rev)

lemma child_entry_simps [simp]:
  "child_entry key [] k = None"
  "child_entry key (xs @ [x]) k = (if key x = k then Some x else child_entry key xs k)"
  by (simp_all add: child_entry_def)

lemma find_append: "find P (xs @ ys) = (case find P xs of None \<Rightarrow> find P ys | Some x \<Rightarrow> Some x)"
  by (induction xs) auto

lemma child_entry_append:
  "child_entry key (xs @ ys) k = (case child_entry key ys k of None \<Rightarrow> child_entry key xs k | Some y \<Rightarrow> Some y)"
  by (simp add: child_entry_def find_append cong: option.case_cong)

lemma child_entry_Cons:
  "child_entry key (x # xs) k = (case child_entry key xs k of None \<Rightarrow> (if key x = k then Some x else None) | Some y \<Rightarrow> Some y)"
  by (simp add: child_entry_def find_append split: option.splits)

lemma child_entry_filter: "child_entry key (filter (\<lambda>c. P (key c)) cs) k = (if P k then child_entry key cs k else None)"
  by (induction cs) (auto simp: child_entry_Cons split: option.splits)

lemma child_entry_map:
  assumes "\<And>x. key (h x) = key x"
  shows "child_entry key (map h xs) k = map_option h (child_entry key xs k)"
  by (induction xs) (auto simp: child_entry_Cons assms split: option.splits)

lemma child_entry_distinct:
  assumes "distinct (map key xs)" and "x \<in> set xs"
  shows "child_entry key xs (key x) = Some x"
proof -
  from assms(2) have "child_entry key xs (key x) \<noteq> None" by (auto simp: child_entry_None)
  then obtain y where y: "child_entry key xs (key x) = Some y" by blast
  from child_entry_Some [OF y] assms show ?thesis by (auto simp: y distinct_map dest: inj_onD)
qed

lemma parent_item_own:
  "parent_item key (\<lambda>p c. [g p c]) [] [] cs p = [case child_entry key cs (key p) of None \<Rightarrow> p | Some c \<Rightarrow> g p c]"
  by (simp add: parent_item_def split: option.splits)

lemma merge_lists_own:
  "merge_lists key (\<lambda>p c. [g p c]) [] [] ps cs =
     map (\<lambda>p. case child_entry key cs (key p) of None \<Rightarrow> p | Some c \<Rightarrow> g p c) ps @ filter (\<lambda>c. key c \<notin> key ` set ps) cs"
  unfolding merge_lists_def parent_item_own by simp

lemma sl_merge_slices: "sl (merge_slices key f e l p c) = merge_lists key f e l (sl p) (sl c)"
  by (auto simp: merge_slices_def merge_lists_def)

locale keyed_merge =
  fixes key :: "'a \<Rightarrow> string" and g :: "'a \<Rightarrow> 'a \<Rightarrow> 'a"
  assumes key_kept: "key p = key c \<Longrightarrow> key (g p c) = key c"
begin

abbreviation merged :: "'a list \<Rightarrow> 'a list \<Rightarrow> 'a list" where
  "merged \<equiv> merge_lists key (\<lambda>p c. [g p c]) [] []"

lemma step_key: "key (case child_entry key cs (key p) of None \<Rightarrow> p | Some c \<Rightarrow> g p c) = key p"
  using key_kept by (auto split: option.splits dest!: child_entry_Some)

lemma merged_keys: "map key (merged ps cs) = map key ps @ filter (\<lambda>k. k \<notin> key ` set ps) (map key cs)"
  by (simp add: merge_lists_own step_key filter_map comp_def)

lemma merged_distinct: "distinct (map key ps) \<Longrightarrow> distinct (map key cs) \<Longrightarrow> distinct (map key (merged ps cs))"
  unfolding merged_keys by auto

lemma merged_entry: "child_entry key (merged ps cs) k = combine g (child_entry key ps k) (child_entry key cs k)"
proof -
  let ?h = "\<lambda>p. case child_entry key cs (key p) of None \<Rightarrow> p | Some c \<Rightarrow> g p c"
  have h: "child_entry key (map ?h ps) k = map_option ?h (child_entry key ps k)"
    by (rule child_entry_map) (rule step_key)
  have c: "child_entry key (filter (\<lambda>c. key c \<notin> key ` set ps) cs) k = (if child_entry key ps k = None then child_entry key cs k else None)"
    unfolding child_entry_filter [of key "\<lambda>k. k \<notin> key ` set ps"] by (simp add: child_entry_None)
  show ?thesis
    unfolding merge_lists_own child_entry_append h c
    by (auto split: option.splits simp: combine_def dest: child_entry_Some)
qed

lemma shared_disjoint:
  assumes "key ` set ps \<inter> (key ` set cs \<union> set earlier \<union> set later) = {}"
  shows "merge_lists key (\<lambda>p c. [g p c]) earlier later ps cs = ps @ cs"
proof -
  have "parent_item key (\<lambda>p c. [g p c]) earlier later cs p = [p]" if "p \<in> set ps" for p
  proof -
    from that assms have "key p \<notin> key ` set cs" "key p \<notin> set earlier" "key p \<notin> set later" by blast+
    then show ?thesis by (simp add: parent_item_def child_entry_None [symmetric])
  qed
  then have "concat (map (parent_item key (\<lambda>p c. [g p c]) earlier later cs) ps) = ps" by (induction ps) simp_all
  moreover have "filter (\<lambda>c. key c \<notin> key ` set ps) cs = cs" using assms by (intro filter_True) blast
  ultimately show ?thesis by (simp add: merge_lists_def)
qed

lemma merged_disjoint: "key ` set ps \<inter> key ` set cs = {} \<Longrightarrow> merged ps cs = ps @ cs"
  by (rule shared_disjoint) simp

lemma merged_new: "key c \<notin> key ` set ps \<Longrightarrow> merged ps [c] = ps @ [c]"
  by (rule merged_disjoint) simp

text \<open>With keys shared between lists, an entry of the parent can also move away, but no key comes twice.\<close>

lemma shared_keys:
  "map key (merge_lists key (\<lambda>p c. [g p c]) earlier later ps cs) =
     filter (\<lambda>k. k \<notin> set later \<and> (k \<in> key ` set cs \<or> k \<notin> set earlier)) (map key ps)
     @ filter (\<lambda>k. k \<notin> key ` set ps) (map key cs)"
proof -
  have item: "map key (parent_item key (\<lambda>p c. [g p c]) earlier later cs p) =
      (if key p \<notin> set later \<and> (key p \<in> key ` set cs \<or> key p \<notin> set earlier) then [key p] else [])" for p
    using key_kept by (auto simp: parent_item_def child_entry_None split: option.splits dest: child_entry_Some)
  have "map key (concat (map (parent_item key (\<lambda>p c. [g p c]) earlier later cs) ps)) =
      filter (\<lambda>k. k \<notin> set later \<and> (k \<in> key ` set cs \<or> k \<notin> set earlier)) (map key ps)"
    by (induction ps) (simp_all add: item)
  then show ?thesis by (simp add: merge_lists_def filter_map comp_def)
qed

lemma shared_distinct:
  "distinct (map key ps) \<Longrightarrow> distinct (map key cs) \<Longrightarrow>
     distinct (map key (merge_lists key (\<lambda>p c. [g p c]) earlier later ps cs))"
  unfolding shared_keys by auto

lemma merged_key_set: "key ` set (merged ps cs) = key ` set ps \<union> key ` set cs"
proof -
  have "set (map key (merged ps cs)) = set (map key ps) \<union> set (map key cs)" unfolding merged_keys by auto
  then show ?thesis by simp
qed

text \<open>If the child names nothing in two lists, the entries that move away are taken out first, and the rest is merged.\<close>

lemma shared_as_merged:
  assumes "key ` set cs \<inter> (set earlier \<union> set later) = {}"
  shows "merge_lists key (\<lambda>p c. [g p c]) earlier later ps cs = merged (filter (\<lambda>p. key p \<notin> set earlier \<union> set later) ps) cs"
proof -
  have item: "parent_item key (\<lambda>p c. [g p c]) earlier later cs p =
      (if key p \<notin> set earlier \<union> set later then parent_item key (\<lambda>p c. [g p c]) [] [] cs p else [])" for p
    using assms by (auto simp: parent_item_def child_entry_None split: option.splits dest!: child_entry_Some)
  have "concat (map (parent_item key (\<lambda>p c. [g p c]) earlier later cs) ps) =
      concat (map (parent_item key (\<lambda>p c. [g p c]) [] [] cs) (filter (\<lambda>p. key p \<notin> set earlier \<union> set later) ps))"
    by (induction ps) (simp_all add: item)
  moreover have "key c \<in> key ` set (filter (\<lambda>p. key p \<notin> set earlier \<union> set later) ps) \<longleftrightarrow> key c \<in> key ` set ps"
    if "c \<in> set cs" for c
    using assms that by (auto simp: image_iff) (metis disjoint_iff image_eqI Un_iff)+
  then have "filter (\<lambda>c. key c \<notin> key ` set ps) cs =
      filter (\<lambda>c. key c \<notin> key ` set (filter (\<lambda>p. key p \<notin> set earlier \<union> set later) ps)) cs"
    by (intro filter_cong) simp_all
  ultimately show ?thesis by (simp add: merge_lists_def)
qed

lemma shared_key_set:
  assumes "key ` set cs \<inter> (set earlier \<union> set later) = {}"
  shows "key ` set (merge_lists key (\<lambda>p c. [g p c]) earlier later ps cs) =
    (key ` set ps - (set earlier \<union> set later)) \<union> key ` set cs"
  unfolding shared_as_merged [OF assms] merged_key_set by auto

lemma shared_entry:
  assumes "key ` set cs \<inter> (set earlier \<union> set later) = {}"
  shows "child_entry key (merge_lists key (\<lambda>p c. [g p c]) earlier later ps cs) k =
    (if k \<in> set earlier \<union> set later then None else combine g (child_entry key ps k) (child_entry key cs k))"
proof -
  have "child_entry key (filter (\<lambda>p. key p \<notin> set earlier \<union> set later) ps) k =
      (if k \<notin> set earlier \<union> set later then child_entry key ps k else None)"
    by (rule child_entry_filter)
  moreover have "k \<in> set earlier \<union> set later \<Longrightarrow> child_entry key cs k = None"
    using assms by (auto simp: child_entry_None)
  ultimately show ?thesis by (auto simp: shared_as_merged [OF assms] merged_entry)
qed

lemma merged_Nil: "merged ps [] = ps" "merged [] cs = cs"
  by (simp_all add: merge_lists_own)

end

lemma merge_struct_key:
  assumes "\<And>p c. key (f p c) = key c" and "key p = key c"
  shows "key (merge_struct z f p c) = key c"
  using assms by (auto simp: merge_struct_def)

interpretation unit_merge: keyed_merge unit_Name merge_IgnUnit
  by unfold_locales (simp add: merge_IgnUnit_def)

interpretation dropin_merge: keyed_merge drop_Name merge_IgnDropin
  by unfold_locales (simp add: merge_IgnDropin_def)

interpretation user_merge: keyed_merge pusr_Name merge_IgnPasswdUser
  by unfold_locales (simp add: merge_IgnPasswdUser_def)

interpretation group_merge: keyed_merge pgrp_Name merge_IgnPasswdGroup
  by unfold_locales (simp add: merge_IgnPasswdGroup_def)

interpretation file_merge: keyed_merge file_key merge_IgnFile
  by unfold_locales (auto simp: file_key_def merge_IgnFile_def merge_struct_def merge_IgnNode_def)

interpretation dir_merge: keyed_merge dir_key merge_IgnDirectory
  by unfold_locales (auto simp: dir_key_def merge_IgnDirectory_def merge_struct_def merge_IgnNode_def)

interpretation link_merge: keyed_merge link_key merge_IgnLink
  by unfold_locales (auto simp: link_key_def merge_IgnLink_def merge_struct_def merge_IgnNode_def)

end
