(* ===== verification/Ignition_Build.thy ===== *)
theory Ignition_Build
  imports Ignition_Merge
begin

text \<open>
  Building Ignition configurations (\<^verbatim>\<open>pkg/cluster/ignition/ignition.go\<close>, \<^verbatim>\<open>FilesFromPath\<close> in \<^verbatim>\<open>pkg/util/files.go\<close>).
  The functions that change a configuration in place give the new configuration, or an error and then nothing has
  changed.  Encoding a text as a data URL, the two parsers and the file system are parameters.
\<close>

section \<open>What is added\<close>

record FileContents =
  fc_Source :: string

record File =
  f_Path :: string
  f_Filesystem :: string
  f_Mode :: int
  f_UserId :: int
  f_User :: string
  f_GroupId :: int
  f_Group :: string
  f_Contents :: FileContents
  f_Overwrite :: bool

record User =
  u_Name :: string
  u_SshKey :: string
  u_Password :: string
  u_Groups :: "string list"
  u_Shell :: string
  u_System :: bool
  u_NoCreateHome :: bool
  u_PrimaryGroup :: string

record Group =
  g_Name :: string
  g_System :: bool

definition zero_File :: File where
  "zero_File = \<lparr>f_Path = [], f_Filesystem = [], f_Mode = 0, f_UserId = 0, f_User = [], f_GroupId = 0, f_Group = [],
     f_Contents = \<lparr>fc_Source = []\<rparr>, f_Overwrite = False\<rparr>"

definition zero_User :: User where
  "zero_User = \<lparr>u_Name = [], u_SshKey = [], u_Password = [], u_Groups = [], u_Shell = [], u_System = False,
     u_NoCreateHome = False, u_PrimaryGroup = []\<rparr>"

section \<open>The parts of a configuration\<close>

definition units_of :: "IgnConfig \<Rightarrow> IgnUnit list" where "units_of ign = sl (sysd_Units (ign_Systemd ign))"
definition users_of :: "IgnConfig \<Rightarrow> IgnPasswdUser list" where "users_of ign = sl (pwd_Users (ign_Passwd ign))"
definition groups_of :: "IgnConfig \<Rightarrow> IgnPasswdGroup list" where "groups_of ign = sl (pwd_Groups (ign_Passwd ign))"
definition files_of :: "IgnConfig \<Rightarrow> IgnFile list" where "files_of ign = sl (sto_Files (ign_Storage ign))"
definition dirs_of :: "IgnConfig \<Rightarrow> IgnDirectory list" where "dirs_of ign = sl (sto_Directories (ign_Storage ign))"
definition links_of :: "IgnConfig \<Rightarrow> IgnLink list" where "links_of ign = sl (sto_Links (ign_Storage ign))"

lemmas parts_of_defs = units_of_def users_of_def groups_of_def files_of_def dirs_of_def links_of_def

section \<open>The operations\<close>

definition IgnitionVersion :: string where "IgnitionVersion = ''3.4.0''"

definition NewIgnition :: IgnConfig where
  "NewIgnition = zero_IgnConfig\<lparr>ign_Ignition := zero_IgnIgnition\<lparr>igni_Version := IgnitionVersion\<rparr>\<rparr>"

definition user_entry :: "User \<Rightarrow> IgnPasswdUser" where
  "user_entry u = zero_IgnPasswdUser\<lparr>
     pusr_Name := u_Name u,
     pusr_PasswordHash := (if u_Password u \<noteq> [] then Some (u_Password u) else None),
     pusr_SSHAuthorizedKeys := (if u_SshKey u \<noteq> [] then Some [u_SshKey u] else None),
     pusr_Groups := (if u_Groups u = [] then None else Some (u_Groups u)),
     pusr_Shell := Some (u_Shell u),
     pusr_System := Some (u_System u),
     pusr_NoCreateHome := Some (u_NoCreateHome u),
     pusr_PrimaryGroup := Some (u_PrimaryGroup u)\<rparr>"

definition AddUser :: "User \<Rightarrow> IgnConfig \<Rightarrow> IgnConfig result" where
  "AddUser u ign =
     (if list_ex (\<lambda>pu. pusr_Name pu = u_Name u) (users_of ign)
      then Inl (''A user with name '' @ u_Name u @ '' is already defined'')
      else Inr (ign\<lparr>ign_Passwd := (ign_Passwd ign)\<lparr>pwd_Users := sl_append (pwd_Users (ign_Passwd ign)) (user_entry u)\<rparr>\<rparr>))"

definition group_entry :: "Group \<Rightarrow> IgnPasswdGroup" where
  "group_entry g = zero_IgnPasswdGroup\<lparr>pgrp_Name := g_Name g, pgrp_System := Some (g_System g)\<rparr>"

definition AddGroup :: "Group \<Rightarrow> IgnConfig \<Rightarrow> IgnConfig result" where
  "AddGroup g ign =
     (if list_ex (\<lambda>pg. pgrp_Name pg = g_Name g) (groups_of ign)
      then Inl (''A group with name '' @ g_Name g @ '' is already defined'')
      else Inr (ign\<lparr>ign_Passwd := (ign_Passwd ign)\<lparr>pwd_Groups := sl_append (pwd_Groups (ign_Passwd ign)) (group_entry g)\<rparr>\<rparr>))"

text \<open>\<open>MakeDataURL\<close> gives the URL and the compression it used, if any.\<close>

type_synonym data_url = "string \<Rightarrow> (string \<times> string option) result"

definition file_entry :: "File \<Rightarrow> string \<Rightarrow> string option \<Rightarrow> IgnFile" where
  "file_entry f data compressed = \<lparr>
     file_Node = \<lparr>
       inode_Group = \<lparr>ngrp_ID = (if f_GroupId f \<noteq> 0 then Some (f_GroupId f) else None),
                      ngrp_Name = (if f_Group f \<noteq> [] then Some (f_Group f) else None)\<rparr>,
       inode_Overwrite = Some True,
       inode_Path = f_Path f,
       inode_User = \<lparr>nusr_ID = (if f_UserId f \<noteq> 0 then Some (f_UserId f) else None),
                     nusr_Name = (if f_User f \<noteq> [] then Some (f_User f) else None)\<rparr>\<rparr>,
     file_FileEmbedded1 = \<lparr>
       filee_Append = None,
       filee_Contents = zero_IgnResource\<lparr>res_Compression := compressed, res_Source := Some data\<rparr>,
       filee_Mode = Some (f_Mode f)\<rparr>\<rparr>"

definition AddFile :: "data_url \<Rightarrow> File \<Rightarrow> IgnConfig \<Rightarrow> IgnConfig result" where
  "AddFile MakeDataURL f ign =
     (if list_ex (\<lambda>sf. file_key sf = f_Path f) (files_of ign)
      then Inl (''A file with path '' @ f_Path f @ '' is already defined'')
      else rbind (MakeDataURL (fc_Source (f_Contents f))) (\<lambda>(data, compressed).
        Inr (ign\<lparr>ign_Storage := (ign_Storage ign)\<lparr>sto_Files := sl_append (sto_Files (ign_Storage ign)) (file_entry f data compressed)\<rparr>\<rparr>)))"

definition AddLink :: "IgnLink \<Rightarrow> IgnConfig \<Rightarrow> IgnConfig result" where
  "AddLink l ign =
     (if list_ex (\<lambda>x. link_key x = link_key l) (links_of ign)
      then Inl (''A link with path '' @ link_key l @ '' is already defined'')
      else Inr (ign\<lparr>ign_Storage := (ign_Storage ign)\<lparr>sto_Links := sl_append (sto_Links (ign_Storage ign)) l\<rparr>\<rparr>))"

definition AddDir :: "IgnDirectory \<Rightarrow> IgnConfig \<Rightarrow> IgnConfig result" where
  "AddDir d ign =
     (if list_ex (\<lambda>x. dir_key x = dir_key d) (dirs_of ign)
      then Inl (''A directory with path '' @ dir_key d @ '' is already defined'')
      else Inr (ign\<lparr>ign_Storage := (ign_Storage ign)\<lparr>sto_Directories := sl_append (sto_Directories (ign_Storage ign)) d\<rparr>\<rparr>))"

definition Merge :: "IgnConfig \<Rightarrow> IgnConfig \<Rightarrow> IgnConfig" where
  "Merge a b = merge_IgnConfig a b"

definition AddUnit :: "IgnConfig \<Rightarrow> IgnUnit \<Rightarrow> IgnConfig" where
  "AddUnit ign u =
     Merge ign (NewIgnition\<lparr>ign_Systemd := (ign_Systemd NewIgnition)\<lparr>sysd_Units := sl_append (sysd_Units (ign_Systemd NewIgnition)) u\<rparr>\<rparr>)"

section \<open>Reading configurations\<close>

text \<open>
  The parsers give a report beside the value and the error.  The version of a text that is no Ignition configuration is
  \<^verbatim>\<open>0.0.0\<close>.
\<close>

record ign_parsers =
  ip_GetConfigVersion :: "string \<Rightarrow> string"
  ip_TranslateBytes :: "string \<Rightarrow> string \<times> string \<times> gerror option"
  ip_ParseCompatibleVersion :: "string \<Rightarrow> IgnConfig \<times> string \<times> gerror option"

definition no_report :: "'a \<times> string \<times> gerror option \<Rightarrow> 'a result" where
  "no_report x = (case x of (ret, report, err) \<Rightarrow>
     (if report \<noteq> [] then Inl (''could not parse extra ignition: '' @ report)
      else case err of Some e \<Rightarrow> Inl e | None \<Rightarrow> Inr ret))"

definition FromBytes :: "ign_parsers \<Rightarrow> string \<Rightarrow> IgnConfig result" where
  "FromBytes ip bytes =
     rbind (if ip_GetConfigVersion ip bytes = ''0.0.0'' then no_report (ip_TranslateBytes ip bytes) else Inr bytes)
       (\<lambda>bytes. no_report (ip_ParseCompatibleVersion ip bytes))"

definition FromString :: "ign_parsers \<Rightarrow> string \<Rightarrow> IgnConfig result" where
  "FromString ip s = FromBytes ip s"

record file_system =
  fsys_IsDir :: "string \<Rightarrow> bool result"
  fsys_ReadDir :: "string \<Rightarrow> (string \<times> bool) list result"
  fsys_ReadFile :: "string \<Rightarrow> string result"

text \<open>The names in a directory are bare: the directory is not put in front of them.\<close>

definition FilesFromPath :: "file_system \<Rightarrow> string \<Rightarrow> string list result" where
  "FilesFromPath os path =
     rbind (fsys_IsDir os path) (\<lambda>is_dir.
       if \<not> is_dir then Inr [path]
       else rbind (fsys_ReadDir os path) (\<lambda>dirents. Inr (map fst (filter (\<lambda>de. \<not> snd de) dirents))))"

fun merge_files :: "file_system \<Rightarrow> ign_parsers \<Rightarrow> string list \<Rightarrow> IgnConfig \<Rightarrow> IgnConfig result" where
  "merge_files os ip [] ret = Inr ret"
| "merge_files os ip (p # paths) ret =
     rbind (fsys_ReadFile os p) (\<lambda>fileBytes.
       merge_files os ip paths (case FromBytes ip fileBytes of Inl _ \<Rightarrow> ret | Inr ign \<Rightarrow> Merge ret ign))"

definition FromPath :: "file_system \<Rightarrow> ign_parsers \<Rightarrow> string \<Rightarrow> IgnConfig result" where
  "FromPath os ip path =
     rbind (FilesFromPath os path) (\<lambda>paths.
       if paths = [path] then rbind (fsys_ReadFile os path) (\<lambda>fileBytes. FromBytes ip fileBytes)
       else merge_files os ip paths NewIgnition)"

section \<open>The parts of a merge\<close>

text \<open>
  What a merge does to each list, whatever structures on the way are zero.  For files, directories and links the keys of the other
  lists matter.
\<close>

lemma slices_None: "sl p = [] \<Longrightarrow> sl (merge_slices key f e l p c) = filter (\<lambda>x. True) (sl c)"
  by (simp add: sl_merge_slices merge_lists_def)

lemma parent_item_unmatched: "\<not> (key p \<in> set l \<or> key p \<in> set e) \<Longrightarrow> parent_item key f e l [] p = [p]"
  by (simp add: parent_item_def)

lemma merge_lists_Nil [simp]: "merge_lists key f [] [] ps [] = ps" "merge_lists key f e l [] cs = cs"
proof -
  have "parent_item key f [] [] [] = (\<lambda>p. [p])" by (intro ext) (simp add: parent_item_unmatched)
  then show "merge_lists key f [] [] ps [] = ps" by (simp add: merge_lists_def)
qed (simp add: merge_lists_def)

lemma units_of_Merge: "units_of (Merge a b) = unit_merge.merged (units_of a) (units_of b)"
  by (simp add: units_of_def Merge_def merge_IgnConfig_def merge_struct_def merge_IgnSystemd_def sl_merge_slices zero_IgnSystemd_def)

lemma users_of_Merge: "users_of (Merge a b) = user_merge.merged (users_of a) (users_of b)"
  by (simp add: users_of_def Merge_def merge_IgnConfig_def merge_struct_def merge_IgnPasswd_def sl_merge_slices zero_IgnPasswd_def)

lemma groups_of_Merge: "groups_of (Merge a b) = group_merge.merged (groups_of a) (groups_of b)"
  by (simp add: groups_of_def Merge_def merge_IgnConfig_def merge_struct_def merge_IgnPasswd_def sl_merge_slices zero_IgnPasswd_def)

lemma files_of_Merge:
  "files_of (Merge a b) = merge_lists file_key (\<lambda>x y. [merge_IgnFile x y]) (map dir_key (dirs_of b)) (map link_key (links_of b))
     (files_of a) (files_of b)"
  by (simp add: parts_of_defs Merge_def merge_IgnConfig_def merge_struct_def merge_IgnStorage_def sl_merge_slices zero_IgnStorage_def)

lemma dirs_of_Merge:
  "dirs_of (Merge a b) = merge_lists dir_key (\<lambda>x y. [merge_IgnDirectory x y]) []
     (map file_key (files_of b) @ map link_key (links_of b)) (dirs_of a) (dirs_of b)"
  by (simp add: parts_of_defs Merge_def merge_IgnConfig_def merge_struct_def merge_IgnStorage_def sl_merge_slices zero_IgnStorage_def)

lemma links_of_Merge:
  "links_of (Merge a b) = merge_lists link_key (\<lambda>x y. [merge_IgnLink x y])
     (map dir_key (dirs_of b) @ map file_key (files_of b)) [] (links_of a) (links_of b)"
  by (simp add: parts_of_defs Merge_def merge_IgnConfig_def merge_struct_def merge_IgnStorage_def sl_merge_slices zero_IgnStorage_def)

lemmas parts_of_Merge = units_of_Merge users_of_Merge groups_of_Merge files_of_Merge dirs_of_Merge links_of_Merge

lemma Version_Merge: "igni_Version (ign_Ignition b) \<noteq> [] \<Longrightarrow> igni_Version (ign_Ignition (Merge a b)) = igni_Version (ign_Ignition b)"
  by (auto simp: Merge_def merge_IgnConfig_def merge_struct_def merge_IgnIgnition_def zero_IgnIgnition_def)

lemma parts_of_NewIgnition [simp]:
  "units_of NewIgnition = []" "users_of NewIgnition = []" "groups_of NewIgnition = []"
  "files_of NewIgnition = []" "dirs_of NewIgnition = []" "links_of NewIgnition = []"
  by (simp_all add: parts_of_defs NewIgnition_def zero_IgnConfig_def zero_IgnSystemd_def zero_IgnPasswd_def zero_IgnStorage_def)

text \<open>Adding a unit merges it into the units, and leaves everything else.\<close>

lemma parts_of_AddUnit [simp]:
  "units_of (AddUnit ign u) = unit_merge.merged (units_of ign) [u]"
  "users_of (AddUnit ign u) = users_of ign" "groups_of (AddUnit ign u) = groups_of ign"
  "files_of (AddUnit ign u) = files_of ign" "dirs_of (AddUnit ign u) = dirs_of ign" "links_of (AddUnit ign u) = links_of ign"
proof -
  let ?w = "NewIgnition\<lparr>ign_Systemd := (ign_Systemd NewIgnition)\<lparr>sysd_Units := sl_append (sysd_Units (ign_Systemd NewIgnition)) u\<rparr>\<rparr>"
  have "units_of ?w = [u]" "users_of ?w = []" "groups_of ?w = []" "files_of ?w = []" "dirs_of ?w = []" "links_of ?w = []"
    by (simp_all add: parts_of_defs NewIgnition_def zero_IgnConfig_def zero_IgnSystemd_def zero_IgnPasswd_def zero_IgnStorage_def)
  then show "units_of (AddUnit ign u) = unit_merge.merged (units_of ign) [u]"
    "users_of (AddUnit ign u) = users_of ign" "groups_of (AddUnit ign u) = groups_of ign"
    "files_of (AddUnit ign u) = files_of ign" "dirs_of (AddUnit ign u) = dirs_of ign" "links_of (AddUnit ign u) = links_of ign"
    unfolding AddUnit_def parts_of_Merge by simp_all
qed

section \<open>Unique names\<close>

text \<open>No list names an entry twice: what the Add functions check, and what the merge relies on.\<close>

definition unique_names :: "IgnConfig \<Rightarrow> bool" where
  "unique_names ign \<longleftrightarrow> distinct (map unit_Name (units_of ign)) \<and> distinct (map pusr_Name (users_of ign))
     \<and> distinct (map pgrp_Name (groups_of ign)) \<and> distinct (map file_key (files_of ign))
     \<and> distinct (map dir_key (dirs_of ign)) \<and> distinct (map link_key (links_of ign))"

lemma unique_NewIgnition [simp]: "unique_names NewIgnition"
  by (simp add: unique_names_def)

lemma unique_Merge: "unique_names a \<Longrightarrow> unique_names b \<Longrightarrow> unique_names (Merge a b)"
  unfolding unique_names_def parts_of_Merge
  by (simp only: unit_merge.merged_distinct user_merge.merged_distinct group_merge.merged_distinct
      file_merge.shared_distinct dir_merge.shared_distinct link_merge.shared_distinct conj_commute simp_thms)

lemma unique_AddUnit: "unique_names ign \<Longrightarrow> unique_names (AddUnit ign u)"
  using unit_merge.merged_distinct [of "units_of ign" "[u]"] by (simp add: unique_names_def)

text \<open>What the Add functions do to the lists.\<close>

lemma entry_keys [simp]:
  "pusr_Name (user_entry u) = u_Name u" "pgrp_Name (group_entry g) = g_Name g" "file_key (file_entry f data c) = f_Path f"
  by (simp_all add: user_entry_def group_entry_def file_entry_def file_key_def)

lemma AddUser_Inr:
  assumes "AddUser u ign = Inr ign'"
  shows "u_Name u \<notin> pusr_Name ` set (users_of ign)" "users_of ign' = users_of ign @ [user_entry u]"
    "units_of ign' = units_of ign" "groups_of ign' = groups_of ign" "files_of ign' = files_of ign" "dirs_of ign' = dirs_of ign"
    "links_of ign' = links_of ign"
  using assms by (auto simp: AddUser_def parts_of_defs list_ex_key split: if_splits)

lemma AddGroup_Inr:
  assumes "AddGroup g ign = Inr ign'"
  shows "g_Name g \<notin> pgrp_Name ` set (groups_of ign)" "groups_of ign' = groups_of ign @ [group_entry g]"
    "units_of ign' = units_of ign" "users_of ign' = users_of ign" "files_of ign' = files_of ign" "dirs_of ign' = dirs_of ign"
    "links_of ign' = links_of ign"
  using assms by (auto simp: AddGroup_def parts_of_defs list_ex_key split: if_splits)

lemma AddFile_Inr:
  assumes "AddFile mk f ign = Inr ign'"
  obtains data compressed where "f_Path f \<notin> file_key ` set (files_of ign)" "mk (fc_Source (f_Contents f)) = Inr (data, compressed)"
    "files_of ign' = files_of ign @ [file_entry f data compressed]"
    "units_of ign' = units_of ign" "users_of ign' = users_of ign" "groups_of ign' = groups_of ign" "dirs_of ign' = dirs_of ign"
    "links_of ign' = links_of ign"
  using assms by (auto simp: AddFile_def parts_of_defs list_ex_key rbind_Inr_iff split: if_splits)

lemma AddFile_fails_iff:
  "(\<exists>e. AddFile mk f ign = Inl e) \<longleftrightarrow> f_Path f \<in> file_key ` set (files_of ign) \<or> \<not> is_ok (mk (fc_Source (f_Contents f)))"
  by (cases "mk (fc_Source (f_Contents f))") (auto simp: AddFile_def list_ex_key is_ok_def split: prod.splits)

lemma AddLink_Inr:
  assumes "AddLink l ign = Inr ign'"
  shows "link_key l \<notin> link_key ` set (links_of ign)" "links_of ign' = links_of ign @ [l]"
    "units_of ign' = units_of ign" "users_of ign' = users_of ign" "groups_of ign' = groups_of ign" "dirs_of ign' = dirs_of ign"
    "files_of ign' = files_of ign"
  using assms by (auto simp: AddLink_def parts_of_defs list_ex_key split: if_splits)

lemma AddDir_Inr:
  assumes "AddDir d ign = Inr ign'"
  shows "dir_key d \<notin> dir_key ` set (dirs_of ign)" "dirs_of ign' = dirs_of ign @ [d]"
    "units_of ign' = units_of ign" "users_of ign' = users_of ign" "groups_of ign' = groups_of ign" "links_of ign' = links_of ign"
    "files_of ign' = files_of ign"
  using assms by (auto simp: AddDir_def parts_of_defs list_ex_key split: if_splits)

lemma unique_AddUser: "unique_names ign \<Longrightarrow> AddUser u ign = Inr ign' \<Longrightarrow> unique_names ign'"
  using AddUser_Inr [of u ign ign'] by (simp add: unique_names_def)

lemma unique_AddGroup: "unique_names ign \<Longrightarrow> AddGroup g ign = Inr ign' \<Longrightarrow> unique_names ign'"
  using AddGroup_Inr [of g ign ign'] by (simp add: unique_names_def)

lemma unique_AddFile: "unique_names ign \<Longrightarrow> AddFile mk f ign = Inr ign' \<Longrightarrow> unique_names ign'"
  by (erule AddFile_Inr) (simp add: unique_names_def)

lemma unique_AddLink: "unique_names ign \<Longrightarrow> AddLink l ign = Inr ign' \<Longrightarrow> unique_names ign'"
  using AddLink_Inr [of l ign ign'] by (simp add: unique_names_def)

lemma unique_AddDir: "unique_names ign \<Longrightarrow> AddDir d ign = Inr ign' \<Longrightarrow> unique_names ign'"
  using AddDir_Inr [of d ign ign'] by (simp add: unique_names_def)

lemmas unique_kept = unique_AddUser unique_AddGroup unique_AddFile unique_AddLink unique_AddDir unique_AddUnit unique_Merge

text \<open>The configurations the program can build, from empty ones and from parsed ones that name nothing twice.\<close>

inductive built :: "data_url \<Rightarrow> IgnConfig \<Rightarrow> bool" for mk :: data_url where
  built_new: "built mk NewIgnition"
| built_parsed: "FromBytes ip bytes = Inr ign \<Longrightarrow> unique_names ign \<Longrightarrow> built mk ign"
| built_user: "built mk ign \<Longrightarrow> AddUser u ign = Inr ign' \<Longrightarrow> built mk ign'"
| built_group: "built mk ign \<Longrightarrow> AddGroup g ign = Inr ign' \<Longrightarrow> built mk ign'"
| built_file: "built mk ign \<Longrightarrow> AddFile mk f ign = Inr ign' \<Longrightarrow> built mk ign'"
| built_link: "built mk ign \<Longrightarrow> AddLink l ign = Inr ign' \<Longrightarrow> built mk ign'"
| built_dir: "built mk ign \<Longrightarrow> AddDir d ign = Inr ign' \<Longrightarrow> built mk ign'"
| built_addunit: "built mk ign \<Longrightarrow> built mk (AddUnit ign u)"
| built_merge: "built mk a \<Longrightarrow> built mk b \<Longrightarrow> built mk (Merge a b)"

section \<open>A configuration as a set of maps\<close>

datatype node = NDir IgnDirectory | NFile IgnFile | NLink IgnLink

text \<open>A path names a directory, a file or a link.  In a merge two entries of one kind are merged, otherwise the child's wins.\<close>

definition node_of :: "IgnConfig \<Rightarrow> string \<Rightarrow> node option" where
  "node_of ign path =
     (case child_entry link_key (links_of ign) path of Some l \<Rightarrow> Some (NLink l)
      | None \<Rightarrow> (case child_entry file_key (files_of ign) path of Some f \<Rightarrow> Some (NFile f)
      | None \<Rightarrow> (case child_entry dir_key (dirs_of ign) path of Some d \<Rightarrow> Some (NDir d) | None \<Rightarrow> None)))"

definition separate :: "IgnConfig \<Rightarrow> bool" where
  "separate ign \<longleftrightarrow> file_key ` set (files_of ign) \<inter> dir_key ` set (dirs_of ign) = {}
     \<and> file_key ` set (files_of ign) \<inter> link_key ` set (links_of ign) = {}
     \<and> dir_key ` set (dirs_of ign) \<inter> link_key ` set (links_of ign) = {}"

fun merge_node :: "node \<Rightarrow> node \<Rightarrow> node" where
  "merge_node (NDir p) (NDir c) = NDir (merge_IgnDirectory p c)"
| "merge_node (NFile p) (NFile c) = NFile (merge_IgnFile p c)"
| "merge_node (NLink p) (NLink c) = NLink (merge_IgnLink p c)"
| "merge_node p c = c"

record ign_view =
  view_unit :: "string \<Rightarrow> IgnUnit option"
  view_user :: "string \<Rightarrow> IgnPasswdUser option"
  view_group :: "string \<Rightarrow> IgnPasswdGroup option"
  view_node :: "string \<Rightarrow> node option"

definition view :: "IgnConfig \<Rightarrow> ign_view" where
  "view ign = \<lparr>view_unit = child_entry unit_Name (units_of ign), view_user = child_entry pusr_Name (users_of ign),
     view_group = child_entry pgrp_Name (groups_of ign), view_node = node_of ign\<rparr>"

definition combine_views :: "ign_view \<Rightarrow> ign_view \<Rightarrow> ign_view" where
  "combine_views a b = \<lparr>
     view_unit = (\<lambda>n. combine merge_IgnUnit (view_unit a n) (view_unit b n)),
     view_user = (\<lambda>n. combine merge_IgnPasswdUser (view_user a n) (view_user b n)),
     view_group = (\<lambda>n. combine merge_IgnPasswdGroup (view_group a n) (view_group b n)),
     view_node = (\<lambda>n. combine merge_node (view_node a n) (view_node b n))\<rparr>"

lemma separate_Merge:
  assumes "separate a" and "separate b"
  shows "separate (Merge a b)"
proof -
  have "file_key ` set (files_of b) \<inter> (set (map dir_key (dirs_of b)) \<union> set (map link_key (links_of b))) = {}"
    "dir_key ` set (dirs_of b) \<inter> (set [] \<union> set (map file_key (files_of b) @ map link_key (links_of b))) = {}"
    "link_key ` set (links_of b) \<inter> (set (map dir_key (dirs_of b) @ map file_key (files_of b)) \<union> set []) = {}"
    using assms(2) by (auto simp: separate_def)
  note keys = file_merge.shared_key_set [OF this(1)] dir_merge.shared_key_set [OF this(2)] link_merge.shared_key_set [OF this(3)]
  from assms show ?thesis unfolding separate_def parts_of_Merge keys by auto
qed

lemma node_of_Merge:
  assumes "separate a" and "separate b"
  shows "node_of (Merge a b) path = combine merge_node (node_of a path) (node_of b path)"
proof -
  have sep: "file_key ` set (files_of b) \<inter> (set (map dir_key (dirs_of b)) \<union> set (map link_key (links_of b))) = {}"
    "dir_key ` set (dirs_of b) \<inter> (set [] \<union> set (map file_key (files_of b) @ map link_key (links_of b))) = {}"
    "link_key ` set (links_of b) \<inter> (set (map dir_key (dirs_of b) @ map file_key (files_of b)) \<union> set []) = {}"
    using assms(2) by (auto simp: separate_def)
  note entries = file_merge.shared_entry [OF sep(1)] dir_merge.shared_entry [OF sep(2)] link_merge.shared_entry [OF sep(3)]
  have in_b: "path \<in> set (map file_key (files_of b)) \<longleftrightarrow> child_entry file_key (files_of b) path \<noteq> None"
    "path \<in> set (map dir_key (dirs_of b)) \<longleftrightarrow> child_entry dir_key (dirs_of b) path \<noteq> None"
    "path \<in> set (map link_key (links_of b)) \<longleftrightarrow> child_entry link_key (links_of b) path \<noteq> None"
    by (auto simp: child_entry_None)
  have one_b: "child_entry file_key (files_of b) path = None \<or> child_entry dir_key (dirs_of b) path = None"
    "child_entry file_key (files_of b) path = None \<or> child_entry link_key (links_of b) path = None"
    "child_entry dir_key (dirs_of b) path = None \<or> child_entry link_key (links_of b) path = None"
    using assms(2) by (auto simp: separate_def child_entry_None)
  have one_a: "child_entry file_key (files_of a) path = None \<or> child_entry dir_key (dirs_of a) path = None"
    "child_entry file_key (files_of a) path = None \<or> child_entry link_key (links_of a) path = None"
    "child_entry dir_key (dirs_of a) path = None \<or> child_entry link_key (links_of a) path = None"
    using assms(1) by (auto simp: separate_def child_entry_None)
  show ?thesis
    using one_a one_b unfolding node_of_def parts_of_Merge entries
    by (simp only: set_append Un_iff in_b set_simps empty_iff)
      (cases "child_entry file_key (files_of b) path"; cases "child_entry dir_key (dirs_of b) path"; cases "child_entry link_key (links_of b) path";
       cases "child_entry file_key (files_of a) path"; cases "child_entry dir_key (dirs_of a) path"; cases "child_entry link_key (links_of a) path";
       simp)
qed

section \<open>Properties\<close>

text \<open>
  C10. Merging two configurations merges what they name: seen as maps from names to units, users and groups and from paths to
  files, directories and links, the result has every entry of either side, entries that both name are merged, and where they
  name different kinds of node by one path the child wins.  No path names two nodes afterwards if none did before.
\<close>

theorem Merge_refines_combine:
  assumes "separate a" and "separate b"
  shows "view (Merge a b) = combine_views (view a) (view b) \<and> separate (Merge a b)"
  using separate_Merge [OF assms] node_of_Merge [OF assms]
  by (simp add: view_def combine_views_def parts_of_Merge unit_merge.merged_entry user_merge.merged_entry group_merge.merged_entry fun_eq_iff)

theorem Merge_refines_combine_witness:
  "view_unit (view (Merge (AddUnit NewIgnition (zero_IgnUnit\<lparr>unit_Name := ''a'', unit_Enabled := Some True\<rparr>))
      (AddUnit NewIgnition (zero_IgnUnit\<lparr>unit_Name := ''a'', unit_Contents := Some ''x''\<rparr>)))) ''a''
    = Some (zero_IgnUnit\<lparr>unit_Name := ''a'', unit_Enabled := Some True, unit_Contents := Some ''x''\<rparr>)"
proof -
  let ?a = "AddUnit NewIgnition (zero_IgnUnit\<lparr>unit_Name := ''a'', unit_Enabled := Some True\<rparr>)"
    and ?b = "AddUnit NewIgnition (zero_IgnUnit\<lparr>unit_Name := ''a'', unit_Contents := Some ''x''\<rparr>)"
  have "separate ?a" "separate ?b" by (simp_all add: separate_def)
  note merge = Merge_refines_combine [OF this]
  have "view_unit (view ?a) ''a'' = Some (zero_IgnUnit\<lparr>unit_Name := ''a'', unit_Enabled := Some True\<rparr>)"
    "view_unit (view ?b) ''a'' = Some (zero_IgnUnit\<lparr>unit_Name := ''a'', unit_Contents := Some ''x''\<rparr>)"
    by (simp_all add: view_def unit_merge.merged_entry child_entry_Cons)
  then show ?thesis
    by (simp add: merge combine_views_def) (simp add: merge_IgnUnit_def zero_IgnUnit_def ptr_merge_def merge_slices_def)
qed

text \<open>
  C12. No operation makes a list name an entry twice: a configuration that was built with the Add functions, by merging
  and from parsed configurations without repeated names has no repeated names.
\<close>

theorem built_names_unique:
  assumes "built mk ign"
  shows "unique_names ign"
  using assms by (induction rule: built.induct) (assumption | rule unique_NewIgnition unique_kept)+

theorem built_names_unique_witness:
  "\<exists>ign. AddUser (zero_User\<lparr>u_Name := ''ocne''\<rparr>) NewIgnition = Inr ign \<and> map pusr_Name (users_of ign) = [''ocne'']
     \<and> unique_names (Merge ign ign)"
proof -
  obtain ign where add: "AddUser (zero_User\<lparr>u_Name := ''ocne''\<rparr>) NewIgnition = Inr ign" by (simp add: AddUser_def)
  then have "built (\<lambda>s. Inr (s, None)) (Merge ign ign)" by (intro built_merge built_user [OF built_new])
  from built_names_unique [OF this] add AddUser_Inr(2) [OF add] show ?thesis by (simp add: zero_User_def)
qed

text \<open>
  Reading a directory of configurations does not look into that directory: what it reads are files of the bare names in it, so it
  fails when one of those is missing where the program runs, whatever the directory's own files hold.
\<close>

theorem FromPath_reads_bare_names:
  assumes "fsys_IsDir os path = Inr True" and "fsys_ReadDir os path = Inr dirents"
    and "(n, False) \<in> set dirents" and "n \<noteq> path" and "fsys_ReadFile os n = Inl err"
  shows "\<exists>e. FromPath os ip path = Inl e"
proof -
  let ?names = "map fst (filter (\<lambda>de. \<not> snd de) dirents)"
  from assms(3) have n: "n \<in> set ?names" by force
  then have "?names \<noteq> [path]" using assms(4) by (metis list.set(1,2) singletonD)
  moreover have "\<exists>e. merge_files os ip ps ret = Inl e" if "n \<in> set ps" for ps ret
    using that
  proof (induction ps arbitrary: ret)
    case (Cons p ps)
    then show ?case using assms(5) by (cases "fsys_ReadFile os p") auto
  qed simp
  ultimately show ?thesis using assms(1,2) n by (simp add: FromPath_def FilesFromPath_def)
qed

theorem FromPath_reads_bare_names_witness:
  "\<exists>e. FromPath \<lparr>fsys_IsDir = (\<lambda>_. Inr True), fsys_ReadDir = (\<lambda>_. Inr [(''a.ign'', False)]),
       fsys_ReadFile = (\<lambda>p. if p = ''/etc/ign/a.ign'' then Inr ''text'' else Inl ''no such file'')\<rparr>
     \<lparr>ip_GetConfigVersion = (\<lambda>_. ''3.4.0''), ip_TranslateBytes = (\<lambda>s. (s, [], None)), ip_ParseCompatibleVersion = (\<lambda>_. (NewIgnition, [], None))\<rparr>
     ''/etc/ign'' = Inl e"
  by (rule FromPath_reads_bare_names [where n = "''a.ign''" and dirents = "[(''a.ign'', False)]" and err = "''no such file''"]) simp_all

end
