(* ===== verification/Ignition_Texts.thy ===== *)
theory Ignition_Texts
  imports Go_Strings
begin

text \<open>
  The names and texts that go into the ignition configuration of a node (\<^verbatim>\<open>pkg/cluster/ignition/library.go\<close>,
  \<^verbatim>\<open>virtual_ip.go\<close>): paths, unit names, scripts and configuration files.  A template or a format string is a function of its
  arguments; none of the texts is cut.
\<close>

text \<open>Lines, each with its end of line.\<close>

definition text_lines :: "string list \<Rightarrow> string" where
  "text_lines ls = concat (map (\<lambda>l. l @ [CHR 10]) ls)"

lemma text_lines_simps [simp]: "text_lines [] = []" "text_lines (l # ls) = l @ CHR 10 # text_lines ls"
  by (simp_all add: text_lines_def)

lemma text_lines_end: "ls \<noteq> [] \<Longrightarrow> last (text_lines ls) = CHR 10"
  by (induction ls rule: rev_induct) (simp_all add: text_lines_def)

section \<open>Paths and names\<close>

definition KubeadmFilePath :: string where "KubeadmFilePath = ''/etc/kubernetes/kubeadm.conf''"
definition CaCrtFilePath :: string where "CaCrtFilePath = ''/etc/kubernetes/pki/ca.crt''"
definition CaKeyFilePath :: string where "CaKeyFilePath = ''/etc/kubernetes/pki/ca.key''"
definition VolumePluginDir :: string where "VolumePluginDir = ''/var/lib/kubelet/volumeplugins''"
definition InitConfigAPIVersion :: string where "InitConfigAPIVersion = ''kubeadm.k8s.io/v1beta3''"
definition InitConfigKind :: string where "InitConfigKind = ''InitConfiguration''"
definition JoinConfigAPIVersion :: string where "JoinConfigAPIVersion = ''kubeadm.k8s.io/v1beta3''"
definition JoinConfigKind :: string where "JoinConfigKind = ''JoinConfiguration''"
definition ActionInit :: string where "ActionInit = ''init''"
definition ActionJoin :: string where "ActionJoin = ''join''"
definition KubeletServiceName :: string where "KubeletServiceName = ''kubelet.service''"
definition CrioServiceName :: string where "CrioServiceName = ''crio.service''"
definition KeepalivedServiceName :: string where "KeepalivedServiceName = ''keepalived.service''"
definition KeepalivedRefreshServiceName :: string where "KeepalivedRefreshServiceName = ''keepalived-refresh.service''"
definition KeepalivedRefreshPathName :: string where "KeepalivedRefreshPathName = ''keepalived-refresh.path''"
definition NginxServiceName :: string where "NginxServiceName = ''ocne-nginx.service''"
definition NginxRefreshServiceName :: string where "NginxRefreshServiceName = ''ocne-nginx-refresh.service''"
definition NginxRefreshPathName :: string where "NginxRefreshPathName = ''ocne-nginx-refresh.path''"
definition OcneServiceName :: string where "OcneServiceName = ''ocne.service''"
definition OcneUpdateServiceName :: string where "OcneUpdateServiceName = ''ocne-update.service''"
definition OcneUpdateConfigPath :: string where "OcneUpdateConfigPath = ''/etc/ocne/update.yaml''"
definition ContainerRegistryPath :: string where "ContainerRegistryPath = ''/etc/containers/registries.conf''"
definition KubeadmUpgradePath :: string where "KubeadmUpgradePath = ''/etc/ocne/ocne-kubeadm-upgrade.sh''"
definition OckPatchDirectory :: string where "OckPatchDirectory = ''/etc/ocne/ock/patches''"
definition KeepAlivedUser :: string where "KeepAlivedUser = ''keepalived_script''"
definition KeepAlivedGroup :: string where "KeepAlivedGroup = ''keepalived_script''"
definition KeepAlivedConfigPath :: string where "KeepAlivedConfigPath = ''/etc/keepalived/keepalived.conf''"
definition KeepAlivedCheckScriptPath :: string where "KeepAlivedCheckScriptPath = ''/etc/keepalived/check_apiserver.sh''"
definition KeepAlivedStateScriptPath :: string where "KeepAlivedStateScriptPath = ''/etc/keepalived/keepalived_state.sh''"
definition NginxUser :: string where "NginxUser = ''nginx_script''"
definition NginxGroup :: string where "NginxGroup = ''nginx_script''"
definition NginxConfigPath :: string where "NginxConfigPath = ''/etc/ocne/nginx/nginx.conf''"
definition nginxPullPath :: string where "nginxPullPath = ''/etc/ocne/nginx/pull_ocne_nginx''"
definition nginxStartPath :: string where "nginxStartPath = ''/etc/ocne/nginx/start_ocne_nginx''"
definition nginxImagePath :: string where "nginxImagePath = ''/etc/ocne/nginx/image''"

section \<open>Texts\<close>

definition bootstrap_text :: "string \<Rightarrow> string \<Rightarrow> string" where
  \<open>bootstrap_text action net_interface = text_lines [
     ''[Service]'',
     ''Environment=ACTION='' @ action,
     ''Environment=NET_INTERFACE='' @ net_interface]\<close>

definition update_yaml :: "string \<Rightarrow> string \<Rightarrow> string \<Rightarrow> string" where
  \<open>update_yaml registry tag transport = text_lines [
     ''registry: '' @ registry,
     ''tag: '' @ tag,
     ''transport: '' @ transport]\<close>

definition OcneSh :: "string" where
  \<open>OcneSh = text_lines [
     ''#! /bin/bash'',
     ''set -x'',
     ''set -e'',
     '''',
     ''if ['' @ ''[ -f "/etc/ocne/reset-kubeadm" ]'' @ '']; then'',
     [CHR 9] @ ''echo Performing kubeadm reset'',
     [CHR 9] @ ''kubeadm reset -f && rm /etc/ocne/reset-kubeadm'',
     ''fi'',
     '''',
     ''NODE_IP=$(ip addr show $NET_INTERFACE | grep 'inet6'' @ [CHR 92] @ ''?'' @ [CHR 92] @ ''b' | awk '{print $2}' | cut -d/ -f1 | head -n 1)'',
     '''',
     ''# If Kubernetes is already configured, don't bother doing anything'',
     ''if ['' @ ''[ -f "/etc/kubernetes/kubelet.conf" ]'' @ '']; then'',
     [CHR 9] @ ''echo Kubernetes is already initialized'',
     [CHR 9] @ ''exit 0'',
     ''fi'',
     '''',
     ''K8S=/etc/kubernetes'',
     ''PKI=$K8S/pki'',
     '''',
     ''systemctl enable --now crio.service'',
     ''systemctl enable kubelet.service'',
     '''',
     ''# update kubeadm.conf to replace NODE_IP with $NODE_IP'',
     ''sed -i -e 's/NODE_IP/'"$NODE_IP"'/g' ${K8S}/kubeadm.conf'',
     '''',
     ''if ['' @ ''[ "$ACTION" == "" ]'' @ '']; then'',
     [CHR 9] @ ''kubeadm init --config /etc/ocne/kubeadm-default.conf'',
     [CHR 9] @ ''KUBECONFIG=/etc/kubernetes/admin.conf kubectl taint node $(hostname)  node-role.kubernetes.io/control-plane:NoSchedule-'',
     ''elif ['' @ ''[ "$ACTION" == "init" ]'' @ '']; then'',
     [CHR 9] @ ''echo Initializing new Kubernetes cluster'',
     [CHR 9] @ ''mkdir -p $PKI'',
     '''',
     [CHR 9] @ ''kubeadm init --config ${K8S}/kubeadm.conf --upload-certs'',
     '''',
     [CHR 9] @ ''ENDPOINT=$(yq 'select(.kind == "ClusterConfiguration") | .controlPlaneEndpoint' < /etc/kubernetes/kubeadm.conf)'',
     [CHR 9] @ ''ENDPOINT_IP=$(echo $ENDPOINT | cut -d: -f1)'',
     [CHR 9] @ ''ENDPOINT_PORT=$(echo $ENDPOINT | cut -d: -f2)'',
     '''',
     ''elif ['' @ ''[ "$ACTION" == "join" ]'' @ '']; then'',
     [CHR 9] @ ''echo Joining existing Kubernetes cluster'',
     [CHR 9] @ ''kubeadm join --config ${K8S}/kubeadm.conf'',
     ''else'',
     [CHR 9] @ ''echo "Action '$ACTION' is invalid.  Valid values are 'init' and 'join'"'',
     [CHR 9] @ ''exit 1'',
     ''fi'']\<close>

definition registry_text :: "string \<Rightarrow> string" where
  \<open>registry_text registry = text_lines [''unqualified-search-registries = ["'' @ registry @ ''"]'']\<close>

definition KubeadmUpgrade :: "string" where
  \<open>KubeadmUpgrade = text_lines [
     ''#! /bin/bash'',
     ''#'',
     ''# Copyright (c) 2025, Oracle and/or its affiliates.'',
     ''# Licensed under the Universal Permissive License v 1.0 as shown at https://oss.oracle.com/licenses/upl.'',
     ''exit 0'']\<close>

definition keepalived_text :: "string \<Rightarrow> string \<Rightarrow> string \<Rightarrow> string \<Rightarrow> string" where
  \<open>keepalived_text iface priority virtualIP peers = text_lines [
     '''',
     ''global_defs {'',
     ''  router_id LVS_DEVEL'',
     ''  enable_script_security'',
     ''}'',
     ''vrrp_script check_apiserver {'',
     ''  script "/etc/keepalived/check_apiserver.sh"'',
     ''  interval 5'',
     ''  weight 0 # 0 is needed for instance to transition in and out of FAULT state'',
     ''  fall 10'',
     ''  rise 2'',
     ''}'',
     ''vrrp_instance VI_1 {'',
     ''  state BACKUP'',
     ''  interface '' @ iface,
     ''  virtual_router_id 51'',
     ''  priority '' @ priority,
     ''  unicast_peer {'',
     peers,
     ''  }'',
     ''  virtual_ipaddress {'',
     ''    '' @ virtualIP,
     ''  }'',
     ''  track_script {'',
     ''    check_apiserver'',
     ''  }'',
     ''  notify /etc/keepalived/keepalived_state.sh'',
     ''}'']\<close>

definition check_script_text :: "string \<Rightarrow> string \<Rightarrow> string \<Rightarrow> string" where
  \<open>check_script_text bindPort virtualIP config = text_lines [
     ''#!/bin/bash'',
     ''if ! (ip addr | grep -q '' @ [CHR 39] @ virtualIP @ ''/'); then'',
     ''  if grep -zo 'unicast_peer['' @ ''[:space:]'' @ '']*{['' @ ''[:space:]'' @ '']*}' '' @ config @ ''; then'',
     ''    if arping -f -I $(ip route get '' @ virtualIP @ '' | cut -d' ' -f3 | head -1) -c 3 '' @ virtualIP @ ''; then'',
     ''      if curl -k https://'' @ virtualIP @ '':'' @ bindPort @ ''; then'',
     ''        exit 1'',
     ''      fi'',
     ''    fi'',
     ''  fi'',
     ''fi'',
     '''',
     ''PORTS=$(netstat -nltp)'',
     ''echo $PORTS | grep -q '' @ bindPort,
     ''if [ $? -ne 0 ]; then'',
     ''  echo $(date): keepalived failed to find nginx bound to port >> /etc/keepalived/log'',
     ''  exit 1'',
     ''fi'']\<close>

definition keepAlivedStateScript :: "string" where
  \<open>keepAlivedStateScript = text_lines [
     ''#!/bin/bash'',
     ''echo $(date): keepalived state: "$@" >> /etc/keepalived/log'']\<close>

definition nginx_text :: "string \<Rightarrow> string \<Rightarrow> string" where
  \<open>nginx_text bindPort altPort = text_lines [
     '''',
     ''load_module /usr/lib64/nginx/modules/ngx_stream_module.so;'',
     ''events {'',
     ''  worker_connections 2048;'',
     ''}'',
     ''stream {'',
     ''  upstream backend1 {'',
     ''    server localhost:'' @ altPort @ '' fail_timeout=10s max_fails=1;'',
     ''    least_conn;'',
     ''  }'',
     ''  server {'',
     ''    listen '' @ bindPort @ '';'',
     ''    listen [::]:'' @ bindPort @ '';'',
     ''    proxy_pass backend1;'',
     ''    proxy_connect_timeout 500m;'',
     ''  }'',
     ''}'']\<close>

definition keepalivedRefreshPathUnit :: "string \<Rightarrow> string \<Rightarrow> string" where
  \<open>keepalivedRefreshPathUnit p1 p2 = text_lines [
     '''',
     ''[Unit]'',
     ''Description=Configuration checker for Keepalived'',
     '''',
     ''[Path]'',
     ''PathChanged='' @ p1,
     ''Unit='' @ p2,
     '''',
     ''[Install]'',
     ''WantedBy=multi-user.target'']\<close>

definition keepalivedRefreshUnit :: "string \<Rightarrow> string" where
  \<open>keepalivedRefreshUnit p1 = text_lines [
     '''',
     ''[Unit]'',
     ''Description=Refresh Keepalived on configuration changes'',
     '''',
     ''[Service]'',
     ''ExecStart=systemctl reload '' @ p1,
     ''Type=oneshot'',
     '''',
     ''[Install]'',
     ''WantedBy=multi-user.target'']\<close>

definition nginxRefreshPathUnit :: "string \<Rightarrow> string \<Rightarrow> string" where
  \<open>nginxRefreshPathUnit p1 p2 = text_lines [
     '''',
     ''[Unit]'',
     ''Description=Configuration checker for Nginx'',
     '''',
     ''[Path]'',
     ''PathChanged='' @ p1,
     ''Unit='' @ p2,
     '''',
     ''[Install]'',
     ''WantedBy=multi-user.target'']\<close>

definition nginxRefreshUnit :: "string \<Rightarrow> string" where
  \<open>nginxRefreshUnit p1 = text_lines [
     '''',
     ''[Unit]'',
     ''Description=Restart Nginx on configuration changes'',
     '''',
     ''[Service]'',
     ''ExecStart=systemctl reload '' @ p1,
     ''Type=oneshot'',
     '''',
     ''[Install]'',
     ''WantedBy=multi-user.target'']\<close>

definition NginxService :: "string" where
  \<open>NginxService = text_lines [
     '''',
     ''[Unit]'',
     ''Description=Nginx load balancer for Kubernetes control plane nodes in OCNE'',
     ''Wants=network.target'',
     ''After=network.target'',
     ''Before=keepalived.service'',
     ''StartLimitIntervalSec=0'',
     '''',
     ''[Service]'',
     ''ExecStartPre=/etc/ocne/nginx/pull_ocne_nginx'',
     ''ExecStart=/etc/ocne/nginx/start_ocne_nginx'',
     ''ExecStop=podman stop ocne-nginx'',
     ''ExecReload=podman exec ocne-nginx nginx -s reload'',
     ''Restart=always'',
     ''RestartSec=1'',
     '''',
     ''[Install]'',
     ''WantedBy=multi-user.target'',
     ''WantedBy=keepalived.service'']\<close>

definition nginxPull :: "string" where
  \<open>nginxPull = text_lines [
     ''#!/bin/bash'',
     '''',
     ''IMAGE=container-registry.oracle.com/olcne/nginx:1.17.7-1'',
     '''',
     ''if [ -f "/etc/ocne/nginx/image" ]; then'',
     [CHR 9] @ ''. "/etc/ocne/nginx/image"'',
     ''fi'',
     '''',
     ''podman image exists ${IMAGE} || crictl pull ${IMAGE}'',
     ''exit 0'']\<close>

definition nginxStart :: "string" where
  \<open>nginxStart = text_lines [
     ''#!/bin/bash'',
     '''',
     ''IMAGE=container-registry.oracle.com/olcne/nginx:1.17.7-1'',
     '''',
     ''if [ -f "/etc/ocne/nginx/image" ]; then'',
     [CHR 9] @ ''. "/etc/ocne/nginx/image"'',
     ''fi'',
     '''',
     ''exec podman run --name ocne-nginx --replace --rm --network=host --volume=/etc/ocne/nginx:/etc/nginx ${IMAGE}'']\<close>

definition nginxImage :: "string" where
  \<open>nginxImage =
     ''IMAGE=container-registry.oracle.com/olcne/nginx:1.17.7-1''\<close>


end
