(* ===== verification/Kubeadm_Config.thy ===== *)
theory Kubeadm_Config
  imports K8s_Versions Config_Types Ignition_Texts
begin

text \<open>
  The kubeadm configurations of the first and of a joining node (\<^verbatim>\<open>pkg/cluster/ignition/kubeadm.go\<close>,
  \<^verbatim>\<open>kubeproxy.go\<close>, and \<^verbatim>\<open>GetURIAddress\<close> in \<^verbatim>\<open>pkg/util/net.go\<close>).  The YAML encoder and the validation of addresses are
  parameters.  An inlined structure is a field of its own.
\<close>

section \<open>Inputs\<close>

definition ControlPlaneRole :: string where "ControlPlaneRole = ''control-plane''"
definition WorkerRole :: string where "WorkerRole = ''worker''"

record ClusterInit =
  ci_OsTag :: string
  ci_OsRegistry :: string
  ci_ImageRegistry :: string
  ci_KubeAPIServerIP :: string
  ci_KubeAPIBindPort :: u16
  ci_KubeAPIBindPortAlt :: u16
  ci_InternalLB :: bool
  ci_Proxy :: Proxy
  ci_KubeAPIExtraSans :: "string list"
  ci_KubePKICert :: string
  ci_KubePKIKey :: string
  ci_ServiceSubnet :: string
  ci_PodSubnet :: string
  ci_ExpectingWorkerNodes :: bool
  ci_ProxyMode :: string
  ci_NetInterface :: string
  ci_UploadCertificateKey :: string
  ci_KubeVersion :: string
  ci_TLSCipherSuites :: string

record ClusterJoin =
  cj_Role :: string
  cj_OsTag :: string
  cj_OsRegistry :: string
  cj_ImageRegistry :: string
  cj_KubeAPIServerIP :: string
  cj_JoinToken :: string
  cj_KubePKICertHashes :: "string list"
  cj_KubeAPIBindPort :: u16
  cj_KubeAPIBindPortAlt :: u16
  cj_InternalLB :: bool
  cj_Proxy :: Proxy
  cj_ProxyMode :: string
  cj_NetInterface :: string
  cj_UploadCertificateKey :: string
  cj_TLSCipherSuites :: string

section \<open>The configurations\<close>

record Patches =
  pat_Directory :: string

record LocalAPIEndpoint =
  lae_AdvertiseAddress :: string
  lae_BindPort :: u16

record KubeletExtraArgs =
  kea_NodeIP :: string
  kea_TLSMinVersion :: string
  kea_TLSCipherSuites :: string
  kea_Address :: string
  kea_AuthorizationMode :: string
  kea_VolumePluginDir :: string

record NodeRegistration =
  nr_KubeletExtraArgs :: KubeletExtraArgs
  nr_Taints :: "string list option"

record InitConfig =
  ki_ApiVersion :: string
  ki_Kind :: string
  ki_LocalAPIEndpoint :: LocalAPIEndpoint
  ki_NodeRegistration :: NodeRegistration
  ki_CertificateKey :: string
  ki_SkipPhases :: "string list"
  ki_Patches :: "Patches option"

record ControlPlane =
  ctl_LocalAPIEndPoint :: LocalAPIEndpoint
  ctl_CertificateKey :: string

record BootstrapTokenDiscovery =
  btd_ApiServerEndpoint :: string
  btd_Token :: string
  btd_CACertHashes :: "string list"

record Discovery =
  disc_BootstrapToken :: BootstrapTokenDiscovery

record JoinConfig =
  kj_ApiVersion :: string
  kj_Kind :: string
  kj_ControlPlane :: ControlPlane
  kj_NodeRegistration :: NodeRegistration
  kj_Discovery :: Discovery
  kj_Patches :: "Patches option"
  kj_SkipPhases :: "string list"

record CustomImage =
  cim_ImageRepository :: string
  cim_ImageTag :: string

record EtcdExtraArgs =
  eea_TLSCipherSuites :: string
  eea_ListenClientURLs :: string
  eea_ListenPeerURLs :: string
  eea_ListenMetricsURLs :: string
  eea_AdvertiseClientURLs :: string
  eea_InitialAdvertisePeersURLs :: string

record EtcdLocal =
  el_CustomImage :: CustomImage
  el_ExtraArgs :: EtcdExtraArgs
  el_PeerCertSans :: "string list"

record Etcd =
  etcd_Local :: EtcdLocal

record DNS =
  dns_CustomImage :: CustomImage

record ApiServerExtraArgs =
  aea_TLSMinVersion :: string
  aea_TLSCipherSuites :: string

record ApiServer =
  as_CertSans :: "string list"
  as_ExtraArgs :: ApiServerExtraArgs

record ControllerManagerExtraArgs =
  cme_TLSMinVersion :: string
  cme_TLSCipherSuites :: string
  cme_CloudProvider :: string
  cme_BindAddress :: string

record ControllerManager =
  cm_ExtraArgs :: ControllerManagerExtraArgs

record SchedulerExtraArgs =
  sea_TLSMinVersion :: string
  sea_TLSCipherSuites :: string
  sea_BindAddress :: string

record Scheduler =
  sch_ExtraArgs :: SchedulerExtraArgs

record Networking =
  nw_ServiceCIDR :: string
  nw_PodCIDR :: string

record ClusterConfig_kubeadm =
  kc_ApiVersion :: string
  kc_Kind :: string
  kc_ApiServer :: ApiServer
  kc_ControllerManager :: ControllerManager
  kc_Scheduler :: Scheduler
  kc_Networking :: Networking
  kc_ImageRepository :: string
  kc_KubernetesVersion :: string
  kc_ControlPlaneEndpoint :: string
  kc_Etcd :: Etcd
  kc_DNS :: DNS

record KubeProxy =
  kp_ApiVersion :: string
  kp_Kind :: string
  kp_Mode :: string
  kp_MetricsBindAddress :: string

text \<open>What the code uses of the YAML encoder and of the address library.\<close>

record kubeadm_lib =
  kl_MarshalInit :: "InitConfig \<Rightarrow> string result"
  kl_MarshalJoin :: "JoinConfig \<Rightarrow> string result"
  kl_MarshalCluster :: "ClusterConfig_kubeadm \<Rightarrow> string result"
  kl_MarshalProxy :: "KubeProxy \<Rightarrow> string result"
  kl_IsIPv4 :: "string \<Rightarrow> bool"
  kl_IsIPv6 :: "string \<Rightarrow> bool"

definition GetURIAddress :: "kubeadm_lib \<Rightarrow> string \<Rightarrow> string" where
  "GetURIAddress kl addr =
     (if kl_IsIPv4 kl addr then addr else if kl_IsIPv6 kl addr then ''['' @ addr @ '']'' else addr)"

definition host_port :: "string \<Rightarrow> u16 \<Rightarrow> string" where
  "host_port host port = host @ '':'' @ format_nat (unat port)"

section \<open>Generating them\<close>

definition getInitLocalAPIEndpointBindPort :: "ClusterInit \<Rightarrow> u16" where
  "getInitLocalAPIEndpointBindPort ci = (if ci_InternalLB ci then ci_KubeAPIBindPortAlt ci else ci_KubeAPIBindPort ci)"

definition getJoinLocalAPIEndpointBindPort :: "ClusterJoin \<Rightarrow> u16" where
  "getJoinLocalAPIEndpointBindPort cj = (if cj_InternalLB cj then cj_KubeAPIBindPortAlt cj else cj_KubeAPIBindPort cj)"

definition GenerateKubeadmInit :: "ClusterInit \<Rightarrow> InitConfig" where
  "GenerateKubeadmInit ci = \<lparr>
     ki_ApiVersion = InitConfigAPIVersion,
     ki_Kind = InitConfigKind,
     ki_LocalAPIEndpoint = \<lparr>lae_AdvertiseAddress = ''NODE_IP'', lae_BindPort = getInitLocalAPIEndpointBindPort ci\<rparr>,
     ki_NodeRegistration = \<lparr>
       nr_KubeletExtraArgs = \<lparr>kea_NodeIP = ''NODE_IP'', kea_TLSMinVersion = ''VersionTLS12'',
         kea_TLSCipherSuites = ci_TLSCipherSuites ci, kea_Address = ''0.0.0.0'', kea_AuthorizationMode = ''AlwaysAllow'',
         kea_VolumePluginDir = VolumePluginDir\<rparr>,
       nr_Taints = (if ci_ExpectingWorkerNodes ci then None else Some [])\<rparr>,
     ki_CertificateKey = ci_UploadCertificateKey ci,
     ki_SkipPhases = [''addon/kube-proxy'', ''addon/coredns'', ''preflight''],
     ki_Patches = Some \<lparr>pat_Directory = OckPatchDirectory\<rparr>\<rparr>"

definition GenerateKubeadmInitYaml :: "kubeadm_lib \<Rightarrow> ClusterInit \<Rightarrow> string result" where
  "GenerateKubeadmInitYaml kl ci = kl_MarshalInit kl (GenerateKubeadmInit ci)"

definition zero_ControlPlane :: ControlPlane where
  "zero_ControlPlane = \<lparr>ctl_LocalAPIEndPoint = \<lparr>lae_AdvertiseAddress = [], lae_BindPort = 0\<rparr>, ctl_CertificateKey = []\<rparr>"

definition GenerateKubeadmJoin :: "kubeadm_lib \<Rightarrow> ClusterJoin \<Rightarrow> JoinConfig" where
  "GenerateKubeadmJoin kl cj =
     (let cpEndpoint = GetURIAddress kl (cj_KubeAPIServerIP cj) in \<lparr>
     kj_ApiVersion = JoinConfigAPIVersion,
     kj_Kind = JoinConfigKind,
     kj_ControlPlane =
       (if cj_Role cj = ControlPlaneRole
        then \<lparr>ctl_LocalAPIEndPoint = \<lparr>lae_AdvertiseAddress = ''NODE_IP'', lae_BindPort = getJoinLocalAPIEndpointBindPort cj\<rparr>,
              ctl_CertificateKey = cj_UploadCertificateKey cj\<rparr>
        else zero_ControlPlane),
     kj_NodeRegistration = \<lparr>
       nr_KubeletExtraArgs = \<lparr>kea_NodeIP = ''NODE_IP'', kea_TLSMinVersion = [],
         kea_TLSCipherSuites = cj_TLSCipherSuites cj, kea_Address = ''0.0.0.0'', kea_AuthorizationMode = ''AlwaysAllow'',
         kea_VolumePluginDir = VolumePluginDir\<rparr>,
       nr_Taints = None\<rparr>,
     kj_Discovery = \<lparr>disc_BootstrapToken = \<lparr>
       btd_ApiServerEndpoint = host_port cpEndpoint (cj_KubeAPIBindPort cj),
       btd_Token = cj_JoinToken cj,
       btd_CACertHashes = cj_KubePKICertHashes cj\<rparr>\<rparr>,
     kj_Patches = Some \<lparr>pat_Directory = OckPatchDirectory\<rparr>,
     kj_SkipPhases = [''preflight'']\<rparr>)"

definition GenerateKubeadmJoinYaml :: "kubeadm_lib \<Rightarrow> ClusterJoin \<Rightarrow> string result" where
  "GenerateKubeadmJoinYaml kl cj = kl_MarshalJoin kl (GenerateKubeadmJoin kl cj)"

definition GenerateClusterConfiguration :: "kubeadm_lib \<Rightarrow> ClusterInit \<Rightarrow> KubernetesVersions \<Rightarrow> ClusterConfig_kubeadm" where
  "GenerateClusterConfiguration kl ci kubeVersions =
     (let cro = ''container-registry.oracle.com/olcne''; tmv = ''VersionTLS12'';
          cpEndpoint = GetURIAddress kl (ci_KubeAPIServerIP ci) in \<lparr>
     kc_ApiVersion = ''kubeadm.k8s.io/v1beta3'',
     kc_Kind = ''ClusterConfiguration'',
     kc_ApiServer = \<lparr>
       as_CertSans = ci_KubeAPIExtraSans ci,
       as_ExtraArgs = \<lparr>aea_TLSMinVersion = tmv, aea_TLSCipherSuites = ci_TLSCipherSuites ci\<rparr>\<rparr>,
     kc_ControllerManager = \<lparr>cm_ExtraArgs = \<lparr>cme_TLSMinVersion = tmv, cme_TLSCipherSuites = ci_TLSCipherSuites ci,
       cme_CloudProvider = [], cme_BindAddress = []\<rparr>\<rparr>,
     kc_Scheduler = \<lparr>sch_ExtraArgs = \<lparr>sea_TLSMinVersion = tmv, sea_TLSCipherSuites = ci_TLSCipherSuites ci,
       sea_BindAddress = []\<rparr>\<rparr>,
     kc_Networking = \<lparr>nw_ServiceCIDR = ci_ServiceSubnet ci, nw_PodCIDR = ci_PodSubnet ci\<rparr>,
     kc_ImageRepository = cro,
     kc_KubernetesVersion = kv_Kubernetes kubeVersions,
     kc_ControlPlaneEndpoint = host_port cpEndpoint (ci_KubeAPIBindPort ci),
     kc_Etcd = \<lparr>etcd_Local = \<lparr>
       el_CustomImage = \<lparr>cim_ImageRepository = cro, cim_ImageTag = kv_Etcd kubeVersions\<rparr>,
       el_ExtraArgs = \<lparr>eea_TLSCipherSuites = ci_TLSCipherSuites ci, eea_ListenClientURLs = [], eea_ListenPeerURLs = [],
         eea_ListenMetricsURLs = ''http://0.0.0.0:2381'', eea_AdvertiseClientURLs = [], eea_InitialAdvertisePeersURLs = []\<rparr>,
       el_PeerCertSans = []\<rparr>\<rparr>,
     kc_DNS = \<lparr>dns_CustomImage = \<lparr>cim_ImageRepository = cro, cim_ImageTag = kv_CoreDNS kubeVersions\<rparr>\<rparr>\<rparr>)"

definition GenerateClusterConfigurationYaml :: "kubeadm_lib \<Rightarrow> ClusterInit \<Rightarrow> string result" where
  "GenerateClusterConfigurationYaml kl ci =
     rbind (GetKubernetesVersions (ci_KubeVersion ci)) (\<lambda>kubeVersions.
       kl_MarshalCluster kl (GenerateClusterConfiguration kl ci kubeVersions))"

definition GenerateKubeProxyConfiguration :: "string \<Rightarrow> KubeProxy" where
  "GenerateKubeProxyConfiguration proxyMode = \<lparr>
     kp_ApiVersion = ''kubeproxy.config.k8s.io/v1alpha1'',
     kp_Kind = ''KubeProxyConfiguration'',
     kp_Mode = proxyMode,
     kp_MetricsBindAddress = ''0.0.0.0:10249''\<rparr>"

definition GenerateKubeProxyConfigurationYaml :: "kubeadm_lib \<Rightarrow> string \<Rightarrow> string result" where
  "GenerateKubeProxyConfigurationYaml kl proxyMode = kl_MarshalProxy kl (GenerateKubeProxyConfiguration proxyMode)"

end
