(* ===== verification/Ignition_Library.thy ===== *)
theory Ignition_Library
  imports Ignition_Build Kubeadm_Config Image_Reference
begin

text \<open>
  The ignition configurations of nodes (\<^verbatim>\<open>pkg/cluster/ignition/library.go\<close>, \<^verbatim>\<open>virtual_ip.go\<close>): what every
  node has, what the first and a joining node add, the load balancer of the control plane, proxies, the network and the default user.
  Rendering one of the templates cannot fail, so the texts are used directly; parsing an ostree reference can panic.
\<close>

definition file_mode :: "int \<Rightarrow> int \<Rightarrow> int \<Rightarrow> int" where
  "file_mode u g w = 64 * u + 8 * g + w"

text \<open>An Add function whose error is not looked at.\<close>

definition ignoring :: "(IgnConfig \<Rightarrow> IgnConfig result) \<Rightarrow> IgnConfig \<Rightarrow> IgnConfig" where
  "ignoring f ign = (case f ign of Inl _ \<Rightarrow> ign | Inr ign' \<Rightarrow> ign')"

definition plain_file :: "string \<Rightarrow> int \<Rightarrow> string \<Rightarrow> File" where
  "plain_file path m source = zero_File\<lparr>f_Path := path, f_Mode := m, f_Contents := \<lparr>fc_Source = source\<rparr>\<rparr>"

definition owned_file :: "string \<Rightarrow> int \<Rightarrow> string \<Rightarrow> string \<Rightarrow> string \<Rightarrow> File" where
  "owned_file path m source usr grp =
     zero_File\<lparr>f_Path := path, f_Mode := m, f_Contents := \<lparr>fc_Source = source\<rparr>, f_User := usr, f_Group := grp\<rparr>"

definition enabled_unit :: "string \<Rightarrow> IgnUnit" where
  "enabled_unit name = zero_IgnUnit\<lparr>unit_Name := name, unit_Enabled := Some True\<rparr>"

definition dropin :: "string \<Rightarrow> string \<Rightarrow> IgnDropin" where
  "dropin name contents = \<lparr>drop_Contents = Some contents, drop_Name = name\<rparr>"

section \<open>What every node has\<close>

record clusterCommonConfig =
  ccc_OsRegistry :: string
  ccc_OsTag :: string
  ccc_ImageRegistry :: string
  ccc_NetInterface :: string

definition ContainerConfiguration :: "data_url \<Rightarrow> string \<Rightarrow> IgnConfig result" where
  "ContainerConfiguration mk registry =
     (let ret = AddUnit NewIgnition (enabled_unit CrioServiceName);
          ret = AddUnit ret (enabled_unit KubeletServiceName);
          containerRegistryFile = plain_file ContainerRegistryPath (file_mode 6 4 4) (registry_text registry)
      in Inr (ignoring (AddFile mk containerRegistryFile) ret))"

definition KubeadmPatches :: "data_url \<Rightarrow> IgnConfig result" where
  "KubeadmPatches mk =
     (let kubeadmUpgradeFile = plain_file KubeadmUpgradePath (file_mode 5 5 5) KubeadmUpgrade;
          patchDir = zero_IgnDirectory\<lparr>dir_Node := zero_IgnNode\<lparr>inode_Path := OckPatchDirectory\<rparr>\<rparr>
      in Inr (ignoring (AddDir patchDir) (ignoring (AddFile mk kubeadmUpgradeFile) NewIgnition)))"

definition clusterCommon :: "data_url \<Rightarrow> image_lib \<Rightarrow> clusterCommonConfig \<Rightarrow> string \<Rightarrow> IgnConfig result outcome" where
  "clusterCommon mk lib cc action =
     (let bootstrapFile = bootstrap_text action (ccc_NetInterface cc);
          ocneUnit = (enabled_unit OcneServiceName)\<lparr>unit_Dropins := Some [dropin ''bootstrap.conf'' bootstrapFile]\<rparr>;
          ocneUpdateUnit = enabled_unit OcneUpdateServiceName
      in obind (ParseOstreeReference lib (ccc_OsRegistry cc)) (\<lambda>r. Returns (
           rbind r (\<lambda>(ostreeTransport, registry, tag).
             if tag \<noteq> [] then Inl ''osRegistry field cannot have a tag''
             else let updateFile = plain_file OcneUpdateConfigPath (file_mode 4 0 0) (update_yaml registry (ccc_OsTag cc) ostreeTransport);
                      ocneShFile = plain_file ''/etc/ocne/ocne.sh'' (file_mode 5 5 5) OcneSh
                  in rbind (ContainerConfiguration mk (ccc_ImageRegistry cc)) (\<lambda>container.
                     rbind (KubeadmPatches mk) (\<lambda>patches.
                       let ret = ignoring (AddFile mk updateFile) NewIgnition;
                           ret = ignoring (AddFile mk ocneShFile) ret;
                           ret = AddUnit ret ocneUpdateUnit;
                           ret = AddUnit ret ocneUnit
                       in Inr (Merge (Merge ret container) patches)))))))"

section \<open>The load balancer of the control plane\<close>

definition GetKeepalivedRefreshUnit :: string where
  "GetKeepalivedRefreshUnit = keepalivedRefreshUnit KeepalivedServiceName"

definition GetKeepalivedRefreshPathUnit :: string where
  "GetKeepalivedRefreshPathUnit = keepalivedRefreshPathUnit KeepAlivedConfigPath KeepalivedRefreshServiceName"

definition GetNginxRefreshUnit :: string where
  "GetNginxRefreshUnit = nginxRefreshUnit NginxServiceName"

definition GetNginxRefreshPathUnit :: string where
  "GetNginxRefreshPathUnit = nginxRefreshPathUnit NginxConfigPath NginxRefreshServiceName"

text \<open>The template of nginx does not use the peer.\<close>

definition generateNginxConfig :: "u16 \<Rightarrow> u16 \<Rightarrow> string \<Rightarrow> string" where
  "generateNginxConfig bindPort altPort peer = nginx_text (format_nat (unat bindPort)) (format_nat (unat altPort))"

definition generateKeepalivedConfig :: "string \<Rightarrow> string \<Rightarrow> string \<Rightarrow> string \<Rightarrow> string" where
  "generateKeepalivedConfig iface priority virtualIP peers = keepalived_text iface priority virtualIP peers"

definition GenerateKeepalivedCheckScript :: "u16 \<Rightarrow> u16 \<Rightarrow> string \<Rightarrow> string" where
  "GenerateKeepalivedCheckScript bindPort altPort virtualIP =
     check_script_text (format_nat (unat bindPort)) virtualIP KeepAlivedConfigPath"

text \<open>The drop-in for services that need a proxy: the template takes away the space before its conditions.\<close>

definition proxy_dropin_text :: "Proxy \<Rightarrow> string" where
  "proxy_dropin_text p =
     ''[Service]''
     @ (if proxy_HttpsProxy p \<noteq> []
        then CHR 10 # ''Environment=HTTPS_PROXY='' @ proxy_HttpsProxy p @ CHR 10 # ''Environment=https_proxy='' @ proxy_HttpsProxy p else [])
     @ (if proxy_HttpProxy p \<noteq> []
        then CHR 10 # ''Environment=HTTP_PROXY='' @ proxy_HttpProxy p @ CHR 10 # ''Environment=http_proxy='' @ proxy_HttpProxy p else [])
     @ (if proxy_NoProxy p \<noteq> [] then CHR 10 # ''Environment=no_proxy='' @ proxy_NoProxy p else [])
     @ [CHR 10]"

record IgnitionData =
  igd_Files :: "File list"
  igd_Units :: "IgnUnit list"

definition text_unit :: "string \<Rightarrow> string \<Rightarrow> IgnUnit" where
  "text_unit name contents = (enabled_unit name)\<lparr>unit_Contents := Some contents\<rparr>"

definition GenerateAssetsForVirtualIp :: "u16 \<Rightarrow> u16 \<Rightarrow> string \<Rightarrow> Proxy option \<Rightarrow> string \<Rightarrow> IgnitionData" where
  "GenerateAssetsForVirtualIp bindPort altPort virtualIP proxy netInterface =
     (let keepAlivedConfig = generateKeepalivedConfig netInterface ''50'' virtualIP [];
          keepAlivedCheckScript = GenerateKeepalivedCheckScript bindPort altPort virtualIP;
          nginxConfigSource = generateNginxConfig bindPort altPort (''    server localhost:'' @ format_nat (unat altPort) @ '';'');
          nginxUnit = text_unit NginxServiceName NginxService;
          nginxUnit = (case proxy of
             None \<Rightarrow> nginxUnit
           | Some p \<Rightarrow> (if proxy_HttpProxy p \<noteq> [] \<or> proxy_HttpsProxy p \<noteq> [] \<or> proxy_NoProxy p \<noteq> []
                       then nginxUnit\<lparr>unit_Dropins := Some [dropin ''proxy.conf'' (proxy_dropin_text p)]\<rparr> else nginxUnit))
      in \<lparr>igd_Files = [
            owned_file KeepAlivedConfigPath (file_mode 6 4 4) keepAlivedConfig KeepAlivedUser KeepAlivedGroup,
            owned_file KeepAlivedCheckScriptPath (file_mode 7 5 5) keepAlivedCheckScript KeepAlivedUser KeepAlivedGroup,
            owned_file KeepAlivedStateScriptPath (file_mode 7 5 5) keepAlivedStateScript KeepAlivedUser KeepAlivedGroup,
            owned_file ''/etc/keepalived/log'' (file_mode 6 4 4) [] KeepAlivedUser KeepAlivedGroup,
            owned_file NginxConfigPath (file_mode 6 4 4) nginxConfigSource NginxUser NginxGroup,
            plain_file nginxPullPath (file_mode 7 5 5) nginxPull,
            plain_file nginxStartPath (file_mode 7 5 5) nginxStart,
            plain_file nginxImagePath (file_mode 6 4 4) nginxImage],
          igd_Units = [
            nginxUnit,
            text_unit NginxRefreshServiceName GetNginxRefreshUnit,
            text_unit NginxRefreshPathName GetNginxRefreshPathUnit,
            enabled_unit KeepalivedServiceName,
            text_unit KeepalivedRefreshServiceName GetKeepalivedRefreshUnit,
            text_unit KeepalivedRefreshPathName GetKeepalivedRefreshPathUnit]\<rparr>)"

fun add_files :: "data_url \<Rightarrow> File list \<Rightarrow> IgnConfig \<Rightarrow> IgnConfig result" where
  "add_files mk [] ign = Inr ign"
| "add_files mk (f # fs) ign = rbind (AddFile mk f ign) (add_files mk fs)"

text \<open>An error is let through unless it says that the group or user is there already.\<close>

definition unless_defined :: "(IgnConfig \<Rightarrow> IgnConfig result) \<Rightarrow> IgnConfig \<Rightarrow> IgnConfig result" where
  "unless_defined f ign =
     (case f ign of Inl err \<Rightarrow> (if \<not> go_contains err ''already defined'' then Inl err else Inr ign) | Inr ign' \<Rightarrow> Inr ign')"

definition IgnitionForVirtualIp :: "data_url \<Rightarrow> IgnConfig \<Rightarrow> u16 \<Rightarrow> u16 \<Rightarrow> string \<Rightarrow> Proxy option \<Rightarrow> string \<Rightarrow> IgnConfig result" where
  "IgnitionForVirtualIp mk ign bindPort altPort virtualIP proxy netInterface =
     rbind (unless_defined (AddGroup \<lparr>g_Name = ''nginx_script'', g_System = True\<rparr>) ign) (\<lambda>ign.
     rbind (unless_defined (AddUser (zero_User\<lparr>u_Name := ''nginx_script'', u_PrimaryGroup := ''nginx_script'',
              u_Shell := ''/sbin/nologin'', u_System := True, u_NoCreateHome := True\<rparr>)) ign) (\<lambda>ign.
       let data = GenerateAssetsForVirtualIp bindPort altPort virtualIP proxy netInterface
       in rbind (add_files mk (igd_Files data) ign) (\<lambda>ign. Inr (foldl AddUnit ign (igd_Units data)))))"

section \<open>The first and the joining nodes\<close>

definition init_common :: "ClusterInit \<Rightarrow> clusterCommonConfig" where
  "init_common ci = \<lparr>ccc_OsRegistry = ci_OsRegistry ci, ccc_OsTag = ci_OsTag ci, ccc_ImageRegistry = ci_ImageRegistry ci,
     ccc_NetInterface = ci_NetInterface ci\<rparr>"

definition initialize_node :: "data_url \<Rightarrow> kubeadm_lib \<Rightarrow> ClusterInit \<Rightarrow> IgnConfig \<Rightarrow> IgnConfig result" where
  "initialize_node mk kl ci ret =
     rbind (GenerateKubeadmInitYaml kl ci) (\<lambda>ki.
     rbind (GenerateClusterConfigurationYaml kl ci) (\<lambda>cc.
       let kubeadmConfigRaw = ki @ CHR 10 # ''---'' @ CHR 10 # cc;
           ret = ignoring (AddFile mk (plain_file KubeadmFilePath (file_mode 6 0 0) kubeadmConfigRaw)) ret;
           ret = ignoring (AddFile mk (plain_file CaCrtFilePath (file_mode 6 0 0) (ci_KubePKICert ci))) ret;
           ret = ignoring (AddFile mk (plain_file CaKeyFilePath (file_mode 6 0 0) (ci_KubePKIKey ci))) ret
       in if ci_InternalLB ci
          then IgnitionForVirtualIp mk ret (ci_KubeAPIBindPort ci) (ci_KubeAPIBindPortAlt ci) (ci_KubeAPIServerIP ci)
                 (Some (ci_Proxy ci)) (ci_NetInterface ci)
          else Inr ret))"

definition InitializeCluster :: "data_url \<Rightarrow> image_lib \<Rightarrow> kubeadm_lib \<Rightarrow> ClusterInit \<Rightarrow> IgnConfig result outcome" where
  "InitializeCluster mk lib kl ci =
     obind (clusterCommon mk lib (init_common ci) ActionInit) (\<lambda>r. Returns (rbind r (initialize_node mk kl ci)))"

definition join_common :: "ClusterJoin \<Rightarrow> clusterCommonConfig" where
  "join_common cj = \<lparr>ccc_OsRegistry = cj_OsRegistry cj, ccc_OsTag = cj_OsTag cj, ccc_ImageRegistry = cj_ImageRegistry cj,
     ccc_NetInterface = cj_NetInterface cj\<rparr>"

text \<open>The error of encoding the kube-proxy configuration is not looked at; the text is then empty.\<close>

definition join_text :: "kubeadm_lib \<Rightarrow> ClusterJoin \<Rightarrow> string \<Rightarrow> string" where
  "join_text kl cj joinYaml =
     (if cj_Role cj = ControlPlaneRole
      then joinYaml @ CHR 10 # ''---'' @ CHR 10 #
        (case GenerateKubeProxyConfigurationYaml kl (cj_ProxyMode cj) of Inl _ \<Rightarrow> [] | Inr kpc \<Rightarrow> kpc)
      else joinYaml)"

definition join_node :: "data_url \<Rightarrow> kubeadm_lib \<Rightarrow> ClusterJoin \<Rightarrow> IgnConfig \<Rightarrow> IgnConfig result" where
  "join_node mk kl cj ret =
     rbind (GenerateKubeadmJoinYaml kl cj) (\<lambda>joinYaml.
       let ret = ignoring (AddFile mk (plain_file KubeadmFilePath (file_mode 6 0 0) (join_text kl cj joinYaml))) ret
       in if cj_Role cj = ControlPlaneRole \<and> cj_InternalLB cj
          then IgnitionForVirtualIp mk ret (cj_KubeAPIBindPort cj) (cj_KubeAPIBindPortAlt cj) (cj_KubeAPIServerIP cj)
                 (Some (cj_Proxy cj)) (cj_NetInterface cj)
          else Inr ret)"

definition JoinCluster :: "data_url \<Rightarrow> image_lib \<Rightarrow> kubeadm_lib \<Rightarrow> ClusterJoin \<Rightarrow> IgnConfig result outcome" where
  "JoinCluster mk lib kl cj =
     obind (clusterCommon mk lib (join_common cj) ActionJoin) (\<lambda>r. Returns (rbind r (join_node mk kl cj)))"

section \<open>Network, proxies and the default user\<close>

record NetworkScript =
  ns_Name :: string
  ns_Type :: string
  ns_OnBoot :: bool
  ns_BrowserOnly :: bool
  ns_BootProto :: string
  ns_DefaultRoute :: bool
  ns_ProxyMode :: string
  ns_IPV4FailureFatal :: bool
  ns_IPV6Init :: bool
  ns_IPV6Autoconf :: bool
  ns_IPV6DefaultRoute :: bool
  ns_IPV6FailureFatal :: bool
  ns_IPV6AddrGenMode :: string

definition DefaultNetwork :: NetworkScript where
  "DefaultNetwork = \<lparr>ns_Name = [], ns_Type = ''Ethernet'', ns_OnBoot = True, ns_BrowserOnly = False, ns_BootProto = ''dhcp'',
     ns_DefaultRoute = True, ns_ProxyMode = ''none'', ns_IPV4FailureFatal = False, ns_IPV6Init = True, ns_IPV6Autoconf = True,
     ns_IPV6DefaultRoute = True, ns_IPV6FailureFatal = False, ns_IPV6AddrGenMode = ''eui64''\<rparr>"

definition yesno :: "bool \<Rightarrow> string" where
  "yesno b = (if b then ''yes'' else ''no'')"

definition network_text :: "NetworkScript \<Rightarrow> string" where
  "network_text n = text_lines [
     ''TYPE='' @ ns_Type n,
     ''PROXY_METHOD='' @ ns_ProxyMode n,
     ''BROWSER_ONLY='' @ yesno (ns_BrowserOnly n),
     ''BOOTPROTO='' @ ns_BootProto n,
     ''DEFROUTE='' @ yesno (ns_DefaultRoute n),
     ''IPV4_FAILURE_FATAL='' @ yesno (ns_IPV4FailureFatal n),
     ''IPV6INIT='' @ yesno (ns_IPV6Init n),
     ''IPV6_AUTOCONF='' @ yesno (ns_IPV6Autoconf n),
     ''IPV6_DEFROUTE='' @ yesno (ns_IPV6DefaultRoute n),
     ''IPV6_FAILURE_FATAL='' @ yesno (ns_IPV6FailureFatal n),
     ''IPV6_ADDR_GEN_MODE='' @ ns_IPV6AddrGenMode n,
     ''NAME='' @ ns_Name n,
     ''DEVICE='' @ ns_Name n,
     ''ONBOOT='' @ yesno (ns_OnBoot n)]"

definition ToFile :: "NetworkScript \<Rightarrow> File" where
  "ToFile n = (plain_file (''/etc/sysconfig/network-scripts/ifcfg-'' @ ns_Name n) (file_mode 4 4 4) (network_text n))
     \<lparr>f_Filesystem := ''root''\<rparr>"

definition appendNoProxies :: "Proxy \<Rightarrow> string list \<Rightarrow> Proxy" where
  "appendNoProxies proxy np =
     (let nps = go_join np '','';
          nps = (if proxy_NoProxy proxy \<noteq> [] then go_join [proxy_NoProxy proxy, nps] '','' else nps)
      in \<lparr>proxy_HttpsProxy = proxy_HttpsProxy proxy, proxy_HttpProxy = proxy_HttpProxy proxy, proxy_NoProxy = nps\<rparr>)"

definition proxy_ignition :: "Proxy \<Rightarrow> string list \<Rightarrow> IgnConfig result" where
  "proxy_ignition inProxy noProxies =
     (let proxy = appendNoProxies inProxy noProxies
      in if proxy_HttpsProxy proxy = [] \<and> proxy_HttpProxy proxy = [] \<and> proxy_NoProxy proxy = [] then Inr NewIgnition
         else let d = Some [dropin ''proxy.conf'' (proxy_dropin_text proxy)];
                  ret = AddUnit NewIgnition ((enabled_unit ''crio.service'')\<lparr>unit_Dropins := d\<rparr>);
                  ret = AddUnit ret (enabled_unit ''kublet.service'');
                  ret = AddUnit ret ((enabled_unit ''ocne-update.service'')\<lparr>unit_Dropins := d\<rparr>);
                  ret = AddUnit ret (zero_IgnUnit\<lparr>unit_Name := ''rpm-ostreed.service'', unit_Dropins := d\<rparr>)
              in Inr ret)"

definition OcneUser :: "(string \<Rightarrow> string result) \<Rightarrow> string \<Rightarrow> string \<Rightarrow> string \<Rightarrow> IgnConfig result" where
  "OcneUser ReadFile sshKey sshKeyPath password =
     rbind (if sshKey \<noteq> [] then Inr sshKey else if sshKeyPath \<noteq> [] then ReadFile sshKeyPath else Inr sshKey) (\<lambda>sshKey.
       AddUser (zero_User\<lparr>u_Name := ''ocne'', u_SshKey := sshKey, u_Password := password, u_Groups := [''wheel''],
         u_Shell := ''/usr/bin/rescue.sh''\<rparr>) NewIgnition)"

section \<open>What is in them\<close>

text \<open>
  A file as it is stored, when its text can be encoded.  \<open>encodes\<close> says that every text can be; the library fails only
  if compressing does.
\<close>

definition encodes :: "data_url \<Rightarrow> bool" where
  "encodes mk \<longleftrightarrow> (\<forall>s. is_ok (mk s))"

definition stored :: "data_url \<Rightarrow> File \<Rightarrow> IgnFile" where
  "stored mk f = (case mk (fc_Source (f_Contents f)) of Inl _ \<Rightarrow> zero_IgnFile | Inr (data, compressed) \<Rightarrow> file_entry f data compressed)"

lemma AddFile_stored:
  assumes "encodes mk" and "f_Path f \<notin> file_key ` set (files_of ign)"
  obtains ign' where "AddFile mk f ign = Inr ign'" "files_of ign' = files_of ign @ [stored mk f]" "units_of ign' = units_of ign"
    "users_of ign' = users_of ign" "groups_of ign' = groups_of ign" "dirs_of ign' = dirs_of ign" "links_of ign' = links_of ign"
proof -
  from assms(1) obtain d c where mk: "mk (fc_Source (f_Contents f)) = Inr (d, c)"
    unfolding encodes_def is_ok_iff by (metis surj_pair)
  with assms(2) obtain ign' where add: "AddFile mk f ign = Inr ign'" by (auto simp: AddFile_def list_ex_key)
  from add show thesis
  proof (rule AddFile_Inr)
    fix data compressed
    assume "mk (fc_Source (f_Contents f)) = Inr (data, compressed)" "files_of ign' = files_of ign @ [file_entry f data compressed]"
    then have "files_of ign' = files_of ign @ [stored mk f]" by (simp add: stored_def)
    moreover assume "units_of ign' = units_of ign" "users_of ign' = users_of ign" "groups_of ign' = groups_of ign" "dirs_of ign' = dirs_of ign"
      "links_of ign' = links_of ign"
    ultimately show thesis by (intro that [OF add])
  qed
qed

lemma stored_key: "encodes mk \<Longrightarrow> file_key (stored mk f) = f_Path f"
  by (auto simp: encodes_def is_ok_iff stored_def split: sum.splits prod.splits) (metis sum.distinct(1))

lemma ignoring_AddFile:
  assumes "encodes mk" and "f_Path f \<notin> file_key ` set (files_of ign)"
  shows "files_of (ignoring (AddFile mk f) ign) = files_of ign @ [stored mk f]"
    "units_of (ignoring (AddFile mk f) ign) = units_of ign" "users_of (ignoring (AddFile mk f) ign) = users_of ign"
    "groups_of (ignoring (AddFile mk f) ign) = groups_of ign" "dirs_of (ignoring (AddFile mk f) ign) = dirs_of ign"
    "links_of (ignoring (AddFile mk f) ign) = links_of ign"
  by (rule AddFile_stored [OF assms]; simp add: ignoring_def)+

lemma ignoring_AddDir:
  assumes "dir_key d \<notin> dir_key ` set (dirs_of ign)"
  shows "dirs_of (ignoring (AddDir d) ign) = dirs_of ign @ [d]"
    "units_of (ignoring (AddDir d) ign) = units_of ign" "users_of (ignoring (AddDir d) ign) = users_of ign"
    "groups_of (ignoring (AddDir d) ign) = groups_of ign" "files_of (ignoring (AddDir d) ign) = files_of ign"
    "links_of (ignoring (AddDir d) ign) = links_of ign"
  using assms by (simp_all add: AddDir_def ignoring_def list_ex_key parts_of_defs)

lemma add_files_stored:
  assumes "encodes mk" and "distinct (map f_Path fs)" and "f_Path ` set fs \<inter> file_key ` set (files_of ign) = {}"
  shows "\<exists>ign'. add_files mk fs ign = Inr ign' \<and> files_of ign' = files_of ign @ map (stored mk) fs \<and> units_of ign' = units_of ign
    \<and> users_of ign' = users_of ign \<and> groups_of ign' = groups_of ign \<and> dirs_of ign' = dirs_of ign \<and> links_of ign' = links_of ign"
  using assms(2,3)
proof (induction fs arbitrary: ign)
  case (Cons f fs)
  then have "f_Path f \<notin> file_key ` set (files_of ign)" by auto
  with assms(1) obtain i where i: "AddFile mk f ign = Inr i" "files_of i = files_of ign @ [stored mk f]" "units_of i = units_of ign"
    "users_of i = users_of ign" "groups_of i = groups_of ign" "dirs_of i = dirs_of ign" "links_of i = links_of ign"
    by (rule AddFile_stored)
  have "f_Path ` set fs \<inter> file_key ` set (files_of i) = {}"
    using Cons.prems by (auto simp: i(2) stored_key [OF assms(1)])
  with Cons.IH [of i] Cons.prems(1) i show ?case by auto
qed simp

lemma add_units_new:
  assumes "distinct (map unit_Name us)" and "unit_Name ` set us \<inter> unit_Name ` set (units_of ign) = {}"
  shows "units_of (foldl AddUnit ign us) = units_of ign @ us"
    "files_of (foldl AddUnit ign us) = files_of ign" "users_of (foldl AddUnit ign us) = users_of ign"
    "groups_of (foldl AddUnit ign us) = groups_of ign" "dirs_of (foldl AddUnit ign us) = dirs_of ign"
    "links_of (foldl AddUnit ign us) = links_of ign"
proof -
  show "units_of (foldl AddUnit ign us) = units_of ign @ us"
    using assms
  proof (induction us arbitrary: ign)
    case (Cons u us)
    then have "units_of (AddUnit ign u) = units_of ign @ [u]" by (simp add: unit_merge.merged_new)
    moreover from this Cons.prems have "unit_Name ` set us \<inter> unit_Name ` set (units_of (AddUnit ign u)) = {}" by auto
    ultimately show ?case using Cons.IH [of "AddUnit ign u"] Cons.prems(1) by simp
  qed simp
qed (induction us arbitrary: ign; simp)+

lemmas path_defs = OcneUpdateConfigPath_def ContainerRegistryPath_def KubeadmUpgradePath_def KubeadmFilePath_def CaCrtFilePath_def
  CaKeyFilePath_def KeepAlivedConfigPath_def KeepAlivedCheckScriptPath_def KeepAlivedStateScriptPath_def NginxConfigPath_def
  nginxPullPath_def nginxStartPath_def nginxImagePath_def OckPatchDirectory_def

lemmas name_defs = CrioServiceName_def KubeletServiceName_def OcneServiceName_def OcneUpdateServiceName_def NginxServiceName_def
  NginxRefreshServiceName_def NginxRefreshPathName_def KeepalivedServiceName_def KeepalivedRefreshServiceName_def
  KeepalivedRefreshPathName_def

lemma file_simps [simp]:
  "f_Path (plain_file p m s) = p" "f_Contents (plain_file p m s) = \<lparr>fc_Source = s\<rparr>"
  "f_Path (owned_file p m s u g) = p" "f_Contents (owned_file p m s u g) = \<lparr>fc_Source = s\<rparr>"
  by (simp_all add: plain_file_def owned_file_def)

lemma unit_simps [simp]: "unit_Name (enabled_unit n) = n" "unit_Name (text_unit n c) = n"
  by (simp_all add: enabled_unit_def text_unit_def)

text \<open>The files and units that every node has.\<close>

definition common_files :: "clusterCommonConfig \<Rightarrow> string \<Rightarrow> string \<Rightarrow> File list" where
  "common_files cc transport registry = [
     plain_file OcneUpdateConfigPath (file_mode 4 0 0) (update_yaml registry (ccc_OsTag cc) transport),
     plain_file ''/etc/ocne/ocne.sh'' (file_mode 5 5 5) OcneSh,
     plain_file ContainerRegistryPath (file_mode 6 4 4) (registry_text (ccc_ImageRegistry cc)),
     plain_file KubeadmUpgradePath (file_mode 5 5 5) KubeadmUpgrade]"

definition common_units :: "clusterCommonConfig \<Rightarrow> string \<Rightarrow> IgnUnit list" where
  "common_units cc action = [
     enabled_unit OcneUpdateServiceName,
     (enabled_unit OcneServiceName)\<lparr>unit_Dropins := Some [dropin ''bootstrap.conf'' (bootstrap_text action (ccc_NetInterface cc))]\<rparr>,
     enabled_unit CrioServiceName,
     enabled_unit KubeletServiceName]"

definition patch_dir :: IgnDirectory where
  "patch_dir = zero_IgnDirectory\<lparr>dir_Node := zero_IgnNode\<lparr>inode_Path := OckPatchDirectory\<rparr>\<rparr>"

lemma patch_dir_key [simp]: "dir_key patch_dir = OckPatchDirectory"
  by (simp add: patch_dir_def dir_key_def)

lemma container_parts:
  assumes "encodes mk"
  obtains c where "ContainerConfiguration mk r = Inr c" "units_of c = [enabled_unit CrioServiceName, enabled_unit KubeletServiceName]"
    "files_of c = [stored mk (plain_file ContainerRegistryPath (file_mode 6 4 4) (registry_text r))]"
    "users_of c = []" "groups_of c = []" "dirs_of c = []" "links_of c = []"
  by (rule that, simp_all add: ContainerConfiguration_def Let_def)
    (simp_all add: ignoring_AddFile [OF assms] unit_merge.merged_new name_defs)

lemma patches_parts:
  assumes "encodes mk"
  obtains c where "KubeadmPatches mk = Inr c" "units_of c = []" "users_of c = []" "groups_of c = []" "links_of c = []"
    "files_of c = [stored mk (plain_file KubeadmUpgradePath (file_mode 5 5 5) KubeadmUpgrade)]" "dirs_of c = [patch_dir]"
  by (rule that, simp_all add: KubeadmPatches_def Let_def patch_dir_def [symmetric])
    (simp_all add: ignoring_AddFile [OF assms] ignoring_AddDir)

lemma clusterCommon_parts:
  assumes "encodes mk" and "clusterCommon mk lib cc action = Returns (Inr ign)"
  obtains t r where "ParseOstreeReference lib (ccc_OsRegistry cc) = Returns (Inr (t, r, []))"
    "files_of ign = map (stored mk) (common_files cc t r)" "units_of ign = common_units cc action"
    "users_of ign = []" "groups_of ign = []" "dirs_of ign = [patch_dir]" "links_of ign = []"
proof -
  let ?ret = "\<lambda>t r. AddUnit (AddUnit (ignoring (AddFile mk (plain_file ''/etc/ocne/ocne.sh'' (file_mode 5 5 5) OcneSh))
     (ignoring (AddFile mk (plain_file OcneUpdateConfigPath (file_mode 4 0 0) (update_yaml r (ccc_OsTag cc) t))) NewIgnition))
     (enabled_unit OcneUpdateServiceName))
     ((enabled_unit OcneServiceName)\<lparr>unit_Dropins := Some [dropin ''bootstrap.conf'' (bootstrap_text action (ccc_NetInterface cc))]\<rparr>)"
  from assms(2) obtain t r con pat where parse: "ParseOstreeReference lib (ccc_OsRegistry cc) = Returns (Inr (t, r, []))"
    and con: "ContainerConfiguration mk (ccc_ImageRegistry cc) = Inr con" and pat: "KubeadmPatches mk = Inr pat"
    and ign: "ign = Merge (Merge (?ret t r) con) pat"
    by (cases "ParseOstreeReference lib (ccc_OsRegistry cc)")
      (auto simp: clusterCommon_def Let_def rbind_Inr_iff split: if_splits)
  note key = stored_key [OF assms(1)]
  obtain a where a: "a = ?ret t r" "files_of a = map (stored mk) (take 2 (common_files cc t r))"
    "units_of a = take 2 (common_units cc action)"
    "users_of a = []" "groups_of a = []" "dirs_of a = []" "links_of a = []"
    by (rule that [OF refl])
      (simp_all add: ignoring_AddFile [OF assms(1)] key common_files_def common_units_def path_defs name_defs unit_merge.merged_new)
  obtain c' where c: "con = c'" "units_of c' = drop 2 (common_units cc action)"
    "files_of c' = map (stored mk) (take 1 (drop 2 (common_files cc t r)))"
    "users_of c' = []" "groups_of c' = []" "dirs_of c' = []" "links_of c' = []"
    by (rule container_parts [OF assms(1), of "ccc_ImageRegistry cc"]) (use con in \<open>simp add: common_files_def common_units_def\<close>)
  obtain p' where p: "pat = p'" "units_of p' = []" "users_of p' = []" "groups_of p' = []" "links_of p' = []"
    "files_of p' = map (stored mk) (drop 3 (common_files cc t r))" "dirs_of p' = [patch_dir]"
    by (rule patches_parts [OF assms(1)]) (use pat in \<open>simp add: common_files_def\<close>)
  have parts: "ign = Merge (Merge a c') p'" unfolding ign a(1) c(1) p(1) by (rule refl)
  show thesis
  proof (rule that [OF parse])
    show "files_of ign = map (stored mk) (common_files cc t r)"
      unfolding parts files_of_Merge dirs_of_Merge links_of_Merge a(2-) c(2-) p(2-)
      by (simp add: common_files_def path_defs file_merge.shared_disjoint key)
    show "units_of ign = common_units cc action"
      unfolding parts units_of_Merge a(2-) c(2-) p(2-) by (simp add: common_units_def name_defs unit_merge.merged_disjoint)
    show "dirs_of ign = [patch_dir]" unfolding parts files_of_Merge dirs_of_Merge links_of_Merge a(2-) c(2-) p(2-) by simp
    show "links_of ign = []" unfolding parts files_of_Merge dirs_of_Merge links_of_Merge a(2-) c(2-) p(2-) by simp
  qed (simp_all add: parts users_of_Merge groups_of_Merge a(2-) c(2-) p(2-))
qed

text \<open>The load balancer adds a user, a group, its files and its units to a configuration that has none of them.\<close>

definition nginx_user :: User where
  "nginx_user = zero_User\<lparr>u_Name := ''nginx_script'', u_PrimaryGroup := ''nginx_script'', u_Shell := ''/sbin/nologin'',
     u_System := True, u_NoCreateHome := True\<rparr>"

definition nginx_group :: Group where
  "nginx_group = \<lparr>g_Name = ''nginx_script'', g_System = True\<rparr>"

lemma vip_paths:
  "map f_Path (igd_Files (GenerateAssetsForVirtualIp bp ap ip proxy iface)) =
     [KeepAlivedConfigPath, KeepAlivedCheckScriptPath, KeepAlivedStateScriptPath, ''/etc/keepalived/log'', NginxConfigPath,
      nginxPullPath, nginxStartPath, nginxImagePath]"
  by (simp add: GenerateAssetsForVirtualIp_def Let_def)

lemma vip_names:
  "map unit_Name (igd_Units (GenerateAssetsForVirtualIp bp ap ip proxy iface)) =
     [NginxServiceName, NginxRefreshServiceName, NginxRefreshPathName, KeepalivedServiceName, KeepalivedRefreshServiceName,
      KeepalivedRefreshPathName]"
  by (simp add: GenerateAssetsForVirtualIp_def Let_def split: option.split)

lemma set_of_map: "map f xs = ys \<Longrightarrow> f ` set xs = set ys"
  by (metis list.set_map)

lemma vip_parts:
  assumes "encodes mk" and "users_of ign = []" and "groups_of ign = []"
    and "file_key ` set (files_of ign) \<inter> set (map f_Path (igd_Files (GenerateAssetsForVirtualIp bp ap ip proxy iface))) = {}"
    and "unit_Name ` set (units_of ign) \<inter> set (map unit_Name (igd_Units (GenerateAssetsForVirtualIp bp ap ip proxy iface))) = {}"
  obtains ign' where "IgnitionForVirtualIp mk ign bp ap ip proxy iface = Inr ign'"
    "files_of ign' = files_of ign @ map (stored mk) (igd_Files (GenerateAssetsForVirtualIp bp ap ip proxy iface))"
    "units_of ign' = units_of ign @ igd_Units (GenerateAssetsForVirtualIp bp ap ip proxy iface)"
    "users_of ign' = [user_entry nginx_user]" "groups_of ign' = [group_entry nginx_group]" "dirs_of ign' = dirs_of ign"
    "links_of ign' = links_of ign"
proof -
  let ?d = "GenerateAssetsForVirtualIp bp ap ip proxy iface"
  obtain i where i: "unless_defined (AddGroup nginx_group) ign = Inr i" "groups_of i = [group_entry nginx_group]"
    "users_of i = []" "files_of i = files_of ign" "units_of i = units_of ign" "dirs_of i = dirs_of ign" "links_of i = links_of ign"
    by (rule that [where i = "case AddGroup nginx_group ign of Inr x \<Rightarrow> x"])
      (use assms(2,3) in \<open>simp_all add: unless_defined_def AddGroup_def parts_of_defs\<close>)
  obtain j where j: "unless_defined (AddUser nginx_user) i = Inr j" "users_of j = [user_entry nginx_user]"
    "groups_of j = [group_entry nginx_group]" "files_of j = files_of ign" "units_of j = units_of ign" "dirs_of j = dirs_of ign"
    "links_of j = links_of ign"
    by (rule that [where j = "case AddUser nginx_user i of Inr x \<Rightarrow> x"])
      (use i in \<open>simp_all add: unless_defined_def AddUser_def parts_of_defs\<close>)
  have "distinct (map f_Path (igd_Files ?d))" unfolding vip_paths by (simp add: path_defs)
  moreover have "f_Path ` set (igd_Files ?d) \<inter> file_key ` set (files_of j) = {}"
    using assms(4) by (auto simp: j(4))
  ultimately obtain k where k: "add_files mk (igd_Files ?d) j = Inr k" "files_of k = files_of ign @ map (stored mk) (igd_Files ?d)"
    "units_of k = units_of ign" "users_of k = [user_entry nginx_user]" "groups_of k = [group_entry nginx_group]"
    "dirs_of k = dirs_of ign" "links_of k = links_of ign"
    using add_files_stored [OF assms(1), of "igd_Files ?d" j] j by auto
  have names: "distinct (map unit_Name (igd_Units ?d))" unfolding vip_names by (simp add: name_defs)
  have "unit_Name ` set (igd_Units ?d) \<inter> unit_Name ` set (units_of k) = {}"
    using assms(5) by (auto simp: k(3))
  note units = add_units_new [OF names this]
  have run: "IgnitionForVirtualIp mk ign bp ap ip proxy iface = Inr (foldl AddUnit k (igd_Units ?d))"
    using i(1) j(1) k(1) by (simp add: IgnitionForVirtualIp_def nginx_group_def nginx_user_def Let_def)
  show thesis by (rule that [OF run]) (simp_all add: units k)
qed

text \<open>What the nodes have beyond that.\<close>

definition init_files :: "ClusterInit \<Rightarrow> string \<Rightarrow> string \<Rightarrow> File list" where
  "init_files ci ki cc = [
     plain_file KubeadmFilePath (file_mode 6 0 0) (ki @ CHR 10 # ''---'' @ CHR 10 # cc),
     plain_file CaCrtFilePath (file_mode 6 0 0) (ci_KubePKICert ci),
     plain_file CaKeyFilePath (file_mode 6 0 0) (ci_KubePKIKey ci)]"

definition join_files :: "kubeadm_lib \<Rightarrow> ClusterJoin \<Rightarrow> string \<Rightarrow> File list" where
  "join_files kl cj joinYaml = [plain_file KubeadmFilePath (file_mode 6 0 0) (join_text kl cj joinYaml)]"

definition no_assets :: IgnitionData where "no_assets = \<lparr>igd_Files = [], igd_Units = []\<rparr>"

definition init_vip :: "ClusterInit \<Rightarrow> IgnitionData" where
  "init_vip ci = (if ci_InternalLB ci
     then GenerateAssetsForVirtualIp (ci_KubeAPIBindPort ci) (ci_KubeAPIBindPortAlt ci) (ci_KubeAPIServerIP ci) (Some (ci_Proxy ci))
       (ci_NetInterface ci)
     else no_assets)"

definition join_vip :: "ClusterJoin \<Rightarrow> IgnitionData" where
  "join_vip cj = (if cj_Role cj = ControlPlaneRole \<and> cj_InternalLB cj
     then GenerateAssetsForVirtualIp (cj_KubeAPIBindPort cj) (cj_KubeAPIBindPortAlt cj) (cj_KubeAPIServerIP cj) (Some (cj_Proxy cj))
       (cj_NetInterface cj)
     else no_assets)"

text \<open>Adding the load balancer, or not, to a node whose files so far are \<open>fs\<close>.\<close>

lemma with_vip:
  assumes "encodes mk" and b: "files_of b = map (stored mk) fs" "units_of b = common_units cc action" "users_of b = []" "groups_of b = []"
      "dirs_of b = [patch_dir]" "links_of b = []"
    and paths: "set (map f_Path fs) \<subseteq> {OcneUpdateConfigPath, ''/etc/ocne/ocne.sh'', ContainerRegistryPath, KubeadmUpgradePath,
      KubeadmFilePath, CaCrtFilePath, CaKeyFilePath}" and dist: "distinct (map f_Path fs)"
    and run: "(if lb then IgnitionForVirtualIp mk b bp ap ip proxy iface else Inr b) = Inr ign"
    and d: "d = (if lb then GenerateAssetsForVirtualIp bp ap ip proxy iface else no_assets)"
  shows "files_of ign = map (stored mk) (fs @ igd_Files d)" "units_of ign = common_units cc action @ igd_Units d" "unique_names ign"
proof -
  note key = stored_key [OF assms(1)]
  let ?d = "GenerateAssetsForVirtualIp bp ap ip proxy iface"
  have keys: "file_key ` set (files_of b) = set (map f_Path fs)" unfolding b(1) by (auto simp: key image_iff)
  have fresh: "file_key ` set (files_of b) \<inter> set (map f_Path (igd_Files ?d)) = {}"
    unfolding keys vip_paths using paths by (auto simp: path_defs)
  have new: "unit_Name ` set (units_of b) \<inter> set (map unit_Name (igd_Units ?d)) = {}"
    unfolding b(2) vip_names by (simp add: common_units_def name_defs)
  have parts: "files_of ign = map (stored mk) (fs @ igd_Files d) \<and> units_of ign = common_units cc action @ igd_Units d
      \<and> distinct (map pusr_Name (users_of ign)) \<and> distinct (map pgrp_Name (groups_of ign)) \<and> dirs_of ign = [patch_dir] \<and> links_of ign = []"
  proof (cases lb)
    case True
    from vip_parts [OF assms(1) b(3,4) fresh new] run b d True show ?thesis by (metis distinct_singleton list.simps(8,9) map_append sum.inject(2))
  next
    case False
    with run b d show ?thesis by (simp add: no_assets_def)
  qed
  then show "files_of ign = map (stored mk) (fs @ igd_Files d)" "units_of ign = common_units cc action @ igd_Units d" by simp_all
  have "distinct (map f_Path (fs @ igd_Files d))"
    using fresh dist by (auto simp: d keys no_assets_def vip_paths [THEN arg_cong [where f = distinct]] path_defs)
  moreover have "distinct (map unit_Name (common_units cc action @ igd_Units d))"
    by (simp add: d no_assets_def vip_names set_of_map [OF vip_names] common_units_def name_defs)
  ultimately show "unique_names ign" using parts by (simp add: unique_names_def key comp_def)
qed

lemma text_lines_contains: "l \<in> set ls \<Longrightarrow> l = a @ x @ b \<Longrightarrow> go_contains (text_lines ls) x"
  unfolding go_contains_iff
  by (auto simp: text_lines_def sublist_def in_set_conv_decomp) (metis append.assoc)

lemma port_texts:
  "go_contains (generateNginxConfig bp ap peer) (''listen '' @ format_nat (unat bp) @ '';'')"
  "go_contains (generateNginxConfig bp ap peer) (''server localhost:'' @ format_nat (unat ap) @ '' '')"
  "go_contains (GenerateKeepalivedCheckScript bp ap ip) (''grep -q '' @ format_nat (unat bp))"
  "go_contains (generateKeepalivedConfig iface prio ip peers) ip"
  unfolding generateNginxConfig_def GenerateKeepalivedCheckScript_def generateKeepalivedConfig_def
    nginx_text_def check_script_text_def keepalived_text_def
  by (rule text_lines_contains [where l = "''    listen '' @ format_nat (unat bp) @ '';''" and a = "''    ''" and b = "[]"], simp, simp)
    (rule text_lines_contains [where l = "''    server localhost:'' @ format_nat (unat ap) @ '' fail_timeout=10s max_fails=1;''" and a = "''    ''"
        and b = "''fail_timeout=10s max_fails=1;''"], simp, simp,
     rule text_lines_contains [where l = "''echo $PORTS | grep -q '' @ format_nat (unat bp)" and a = "''echo $PORTS | ''" and b = "[]"], simp, simp,
     rule text_lines_contains [where l = "''    '' @ ip" and a = "''    ''" and b = "[]"], simp, simp)

text \<open>
  The library that reads unit files on the node cannot read one that does not end with an end of line (see the comment in
  \<^verbatim>\<open>library.go\<close>), so every text of a unit must.
\<close>

definition line_ended :: "string \<Rightarrow> bool" where "line_ended s \<longleftrightarrow> s \<noteq> [] \<and> last s = CHR 10"

definition unit_line_ended :: "IgnUnit \<Rightarrow> bool" where
  "unit_line_ended u \<longleftrightarrow> (case unit_Contents u of None \<Rightarrow> True | Some c \<Rightarrow> line_ended c)
     \<and> list_all (\<lambda>d. case drop_Contents d of None \<Rightarrow> True | Some c \<Rightarrow> line_ended c) (sl (unit_Dropins u))"

lemma line_ended_text_lines: "ls \<noteq> [] \<Longrightarrow> line_ended (text_lines ls)"
  using text_lines_end [of ls] by (cases ls) (simp_all add: line_ended_def)

lemma line_ended_dropin: "line_ended (proxy_dropin_text p)"
  by (simp add: line_ended_def proxy_dropin_text_def)

lemma unit_line_ended_simps [simp]:
  "unit_line_ended (enabled_unit n)" "unit_line_ended (text_unit n c) \<longleftrightarrow> line_ended c"
  "unit_line_ended ((enabled_unit n)\<lparr>unit_Dropins := Some [dropin m c]\<rparr>) \<longleftrightarrow> line_ended c"
  "unit_line_ended ((text_unit n c)\<lparr>unit_Dropins := Some [dropin m c']\<rparr>) \<longleftrightarrow> line_ended c \<and> line_ended c'"
  by (simp_all add: unit_line_ended_def enabled_unit_def text_unit_def dropin_def zero_IgnUnit_def)

lemma common_units_line_ended: "\<forall>u \<in> set (common_units cc action). unit_line_ended u"
  by (simp add: common_units_def bootstrap_text_def line_ended_text_lines del: text_lines_simps)

lemma vip_units_line_ended: "\<forall>u \<in> set (igd_Units (GenerateAssetsForVirtualIp bp ap ip proxy iface)). unit_line_ended u"
  by (simp add: GenerateAssetsForVirtualIp_def Let_def line_ended_dropin line_ended_text_lines NginxService_def GetNginxRefreshUnit_def
      nginxRefreshUnit_def GetNginxRefreshPathUnit_def nginxRefreshPathUnit_def GetKeepalivedRefreshUnit_def keepalivedRefreshUnit_def
      GetKeepalivedRefreshPathUnit_def keepalivedRefreshPathUnit_def del: text_lines_simps split: option.split)

text \<open>A node of each kind, for examples.\<close>

definition sample_kubeadm :: kubeadm_lib where
  "sample_kubeadm = \<lparr>kl_MarshalInit = (\<lambda>_. Inr ''init''), kl_MarshalJoin = (\<lambda>_. Inr ''join''), kl_MarshalCluster = (\<lambda>_. Inr ''cluster''),
     kl_MarshalProxy = (\<lambda>_. Inr ''proxy''), kl_IsIPv4 = (\<lambda>_. True), kl_IsIPv6 = (\<lambda>_. False)\<rparr>"

definition sample_init :: ClusterInit where
  "sample_init = \<lparr>ci_OsTag = ''1.33'', ci_OsRegistry = ''ostree-unverified-registry:ock'', ci_ImageRegistry = ''reg.io'', ci_KubeAPIServerIP = ''10.0.0.9'',
     ci_KubeAPIBindPort = 6443, ci_KubeAPIBindPortAlt = 6444, ci_InternalLB = False, ci_Proxy = zero_Proxy, ci_KubeAPIExtraSans = [],
     ci_KubePKICert = ''cert'', ci_KubePKIKey = ''key'', ci_ServiceSubnet = ''10.96.0.0/12'', ci_PodSubnet = ''10.244.0.0/16'',
     ci_ExpectingWorkerNodes = True, ci_ProxyMode = ''iptables'', ci_NetInterface = ''eth0'', ci_UploadCertificateKey = ''k'',
     ci_KubeVersion = ''1.33'', ci_TLSCipherSuites = []\<rparr>"

definition sample_join :: ClusterJoin where
  "sample_join = \<lparr>cj_Role = ControlPlaneRole, cj_OsTag = ''1.33'', cj_OsRegistry = ''ostree-unverified-registry:ock'', cj_ImageRegistry = ''reg.io'',
     cj_KubeAPIServerIP = ''10.0.0.9'', cj_JoinToken = ''t'', cj_KubePKICertHashes = [], cj_KubeAPIBindPort = 6443, cj_KubeAPIBindPortAlt = 6444,
     cj_InternalLB = False, cj_Proxy = zero_Proxy, cj_ProxyMode = ''iptables'', cj_NetInterface = ''eth0'', cj_UploadCertificateKey = ''k'',
     cj_TLSCipherSuites = []\<rparr>"

lemma sample_common:
  "ccc_OsRegistry cc = ''ostree-unverified-registry:ock'' \<Longrightarrow> \<exists>ign. clusterCommon mk sample_lib cc action = Returns (Inr ign)"
proof -
  assume "ccc_OsRegistry cc = ''ostree-unverified-registry:ock''"
  moreover have "ParseOstreeReference sample_lib ''ostree-unverified-registry:ock'' = Returns (Inr (''ostree-unverified-registry'', ''ock'', []))"
    by code_simp
  ultimately show ?thesis by (simp add: clusterCommon_def Let_def ContainerConfiguration_def KubeadmPatches_def)
qed

section \<open>Properties\<close>

text \<open>
  C11. The ignition configuration of the first node has exactly these files and units, each once, the kubeadm file being the
  initialisation and the cluster configuration; none of the errors that are not looked at on the way occurs, and every text of a
  unit ends with an end of line.
\<close>

theorem InitializeCluster_contents:
  assumes "encodes mk" and "InitializeCluster mk lib kl ci = Returns (Inr ign)"
  shows "\<exists>t r ki cc. ParseOstreeReference lib (ci_OsRegistry ci) = Returns (Inr (t, r, []))
    \<and> GenerateKubeadmInitYaml kl ci = Inr ki \<and> GenerateClusterConfigurationYaml kl ci = Inr cc
    \<and> files_of ign = map (stored mk) (common_files (init_common ci) t r @ init_files ci ki cc @ igd_Files (init_vip ci))
    \<and> units_of ign = common_units (init_common ci) ActionInit @ igd_Units (init_vip ci)
    \<and> unique_names ign \<and> (\<forall>u \<in> set (units_of ign). unit_line_ended u)"
proof -
  note key = stored_key [OF assms(1)]
  from assms(2) obtain a where a: "clusterCommon mk lib (init_common ci) ActionInit = Returns (Inr a)" "initialize_node mk kl ci a = Inr ign"
    by (cases "clusterCommon mk lib (init_common ci) ActionInit") (auto simp: InitializeCluster_def rbind_Inr_iff)
  from a(2) obtain ki cc where yaml: "GenerateKubeadmInitYaml kl ci = Inr ki" "GenerateClusterConfigurationYaml kl ci = Inr cc"
    by (auto simp: initialize_node_def rbind_Inr_iff)
  obtain t r where common: "ParseOstreeReference lib (ci_OsRegistry ci) = Returns (Inr (t, r, []))"
    "files_of a = map (stored mk) (common_files (init_common ci) t r)" "units_of a = common_units (init_common ci) ActionInit"
    "users_of a = []" "groups_of a = []" "dirs_of a = [patch_dir]" "links_of a = []"
    by (rule clusterCommon_parts [OF assms(1) a(1)]) (simp add: init_common_def)
  let ?fs = "common_files (init_common ci) t r @ init_files ci ki cc"
  let ?add = "\<lambda>f i. ignoring (AddFile mk f) i"
  let ?b = "?add (init_files ci ki cc ! 2) (?add (init_files ci ki cc ! 1) (?add (init_files ci ki cc ! 0) a))"
  have b: "files_of ?b = map (stored mk) ?fs" "units_of ?b = common_units (init_common ci) ActionInit"
    "users_of ?b = []" "groups_of ?b = []" "dirs_of ?b = [patch_dir]" "links_of ?b = []"
    by (simp_all add: ignoring_AddFile [OF assms(1)] common key common_files_def init_files_def path_defs)
  have run: "(if ci_InternalLB ci then IgnitionForVirtualIp mk ?b (ci_KubeAPIBindPort ci) (ci_KubeAPIBindPortAlt ci) (ci_KubeAPIServerIP ci)
      (Some (ci_Proxy ci)) (ci_NetInterface ci) else Inr ?b) = Inr ign"
    using a(2) by (simp add: initialize_node_def yaml init_files_def Let_def split: if_splits)
  have paths: "set (map f_Path ?fs) \<subseteq> {OcneUpdateConfigPath, ''/etc/ocne/ocne.sh'', ContainerRegistryPath, KubeadmUpgradePath,
      KubeadmFilePath, CaCrtFilePath, CaKeyFilePath}" "distinct (map f_Path ?fs)"
    by (simp_all add: common_files_def init_files_def path_defs)
  have "\<forall>u \<in> set (common_units (init_common ci) ActionInit @ igd_Units (init_vip ci)). unit_line_ended u"
    using common_units_line_ended vip_units_line_ended by (auto simp: init_vip_def no_assets_def)
  with with_vip [OF assms(1) b paths run init_vip_def] common(1) yaml show ?thesis by auto
qed

theorem InitializeCluster_contents_witness:
  "\<exists>ign. InitializeCluster (\<lambda>s. Inr (s, None)) sample_lib sample_kubeadm sample_init = Returns (Inr ign)
     \<and> length (files_of ign) = 7 \<and> unique_names ign"
proof -
  have mk: "encodes (\<lambda>s. Inr (s, None))" by (simp add: encodes_def)
  obtain a where a: "clusterCommon (\<lambda>s. Inr (s, None)) sample_lib (init_common sample_init) ActionInit = Returns (Inr a)"
    using sample_common [of "init_common sample_init"] by (auto simp: init_common_def sample_init_def)
  have "is_ok (GetKubernetesVersions ''1.33'')" by code_simp
  moreover have "ci_KubeVersion sample_init = ''1.33''" "\<not> ci_InternalLB sample_init" by (simp_all add: sample_init_def)
  moreover have "kl_MarshalInit sample_kubeadm c = Inr ''init''" "kl_MarshalCluster sample_kubeadm d = Inr ''cluster''" for c d
    by (simp_all add: sample_kubeadm_def)
  ultimately obtain ign where run: "InitializeCluster (\<lambda>s. Inr (s, None)) sample_lib sample_kubeadm sample_init = Returns (Inr ign)"
    by (auto simp: InitializeCluster_def a initialize_node_def GenerateKubeadmInitYaml_def GenerateClusterConfigurationYaml_def is_ok_iff Let_def)
  from InitializeCluster_contents [OF mk run] have "length (files_of ign) = 7" "unique_names ign"
    by (auto simp: common_files_def init_files_def init_vip_def sample_init_def no_assets_def)
  with run show ?thesis by blast
qed

text \<open>
  A joining node has exactly these files and units, each once: only a control-plane node gets the kube-proxy configuration, and
  only a control-plane node behind the internal load balancer gets the load balancer.
\<close>

theorem JoinCluster_contents:
  assumes "encodes mk" and "JoinCluster mk lib kl cj = Returns (Inr ign)"
  shows "\<exists>t r joinYaml. ParseOstreeReference lib (cj_OsRegistry cj) = Returns (Inr (t, r, []))
    \<and> GenerateKubeadmJoinYaml kl cj = Inr joinYaml
    \<and> files_of ign = map (stored mk) (common_files (join_common cj) t r @ join_files kl cj joinYaml @ igd_Files (join_vip cj))
    \<and> units_of ign = common_units (join_common cj) ActionJoin @ igd_Units (join_vip cj)
    \<and> unique_names ign \<and> (\<forall>u \<in> set (units_of ign). unit_line_ended u)"
proof -
  note key = stored_key [OF assms(1)]
  from assms(2) obtain a where a: "clusterCommon mk lib (join_common cj) ActionJoin = Returns (Inr a)" "join_node mk kl cj a = Inr ign"
    by (cases "clusterCommon mk lib (join_common cj) ActionJoin") (auto simp: JoinCluster_def rbind_Inr_iff)
  from a(2) obtain joinYaml where yaml: "GenerateKubeadmJoinYaml kl cj = Inr joinYaml"
    by (auto simp: join_node_def rbind_Inr_iff)
  obtain t r where common: "ParseOstreeReference lib (cj_OsRegistry cj) = Returns (Inr (t, r, []))"
    "files_of a = map (stored mk) (common_files (join_common cj) t r)" "units_of a = common_units (join_common cj) ActionJoin"
    "users_of a = []" "groups_of a = []" "dirs_of a = [patch_dir]" "links_of a = []"
    by (rule clusterCommon_parts [OF assms(1) a(1)]) (simp add: join_common_def)
  let ?fs = "common_files (join_common cj) t r @ join_files kl cj joinYaml"
  let ?b = "ignoring (AddFile mk (join_files kl cj joinYaml ! 0)) a"
  have b: "files_of ?b = map (stored mk) ?fs" "units_of ?b = common_units (join_common cj) ActionJoin"
    "users_of ?b = []" "groups_of ?b = []" "dirs_of ?b = [patch_dir]" "links_of ?b = []"
    by (simp_all add: ignoring_AddFile [OF assms(1)] common key common_files_def join_files_def path_defs)
  have run: "(if cj_Role cj = ControlPlaneRole \<and> cj_InternalLB cj
      then IgnitionForVirtualIp mk ?b (cj_KubeAPIBindPort cj) (cj_KubeAPIBindPortAlt cj) (cj_KubeAPIServerIP cj)
      (Some (cj_Proxy cj)) (cj_NetInterface cj) else Inr ?b) = Inr ign"
    using a(2) by (simp only: join_node_def yaml join_files_def Let_def rbind_Inr nth_Cons_0)
  have paths: "set (map f_Path ?fs) \<subseteq> {OcneUpdateConfigPath, ''/etc/ocne/ocne.sh'', ContainerRegistryPath, KubeadmUpgradePath,
      KubeadmFilePath, CaCrtFilePath, CaKeyFilePath}" "distinct (map f_Path ?fs)"
    by (simp_all add: common_files_def join_files_def path_defs)
  have "\<forall>u \<in> set (common_units (join_common cj) ActionJoin @ igd_Units (join_vip cj)). unit_line_ended u"
    using common_units_line_ended vip_units_line_ended by (auto simp: join_vip_def no_assets_def)
  with with_vip [OF assms(1) b paths run join_vip_def] common(1) yaml show ?thesis by auto
qed

theorem JoinCluster_contents_witness:
  "\<exists>ign. JoinCluster (\<lambda>s. Inr (s, None)) sample_lib sample_kubeadm sample_join = Returns (Inr ign)
     \<and> length (files_of ign) = 5 \<and> unique_names ign"
proof -
  have mk: "encodes (\<lambda>s. Inr (s, None))" by (simp add: encodes_def)
  obtain a where a: "clusterCommon (\<lambda>s. Inr (s, None)) sample_lib (join_common sample_join) ActionJoin = Returns (Inr a)"
    using sample_common [of "join_common sample_join"] by (auto simp: join_common_def sample_join_def)
  have "\<not> cj_InternalLB sample_join" by (simp add: sample_join_def)
  moreover have "kl_MarshalJoin sample_kubeadm c = Inr ''join''" for c by (simp add: sample_kubeadm_def)
  ultimately obtain ign where run: "JoinCluster (\<lambda>s. Inr (s, None)) sample_lib sample_kubeadm sample_join = Returns (Inr ign)"
    by (simp add: JoinCluster_def a join_node_def GenerateKubeadmJoinYaml_def Let_def)
  from JoinCluster_contents [OF mk run] have "length (files_of ign) = 5" "unique_names ign"
    by (auto simp: common_files_def join_files_def join_vip_def sample_join_def no_assets_def)
  with run show ?thesis by blast
qed

text \<open>
  The ports of the load balancer fit together: clients reach the control plane at the port on which nginx listens, nginx forwards
  to the port on which the node's API server is bound, the check looks for the first one, and the configuration of keepalived
  names the address that clients use, so that the repair of the virtual IP recognises it.
\<close>

theorem load_balancer_consistent:
  assumes "ci_InternalLB ci"
  shows "let listen = format_nat (unat (ci_KubeAPIBindPort ci)); fwd = format_nat (unat (lae_BindPort (ki_LocalAPIEndpoint (GenerateKubeadmInit ci))))
    in (\<exists>f \<in> set (igd_Files (init_vip ci)). f_Path f = NginxConfigPath
          \<and> go_contains (fc_Source (f_Contents f)) (''listen '' @ listen @ '';'')
          \<and> go_contains (fc_Source (f_Contents f)) (''server localhost:'' @ fwd @ '' ''))
     \<and> (\<exists>f \<in> set (igd_Files (init_vip ci)). f_Path f = KeepAlivedCheckScriptPath
          \<and> go_contains (fc_Source (f_Contents f)) (''grep -q '' @ listen))
     \<and> (\<exists>f \<in> set (igd_Files (init_vip ci)). f_Path f = KeepAlivedConfigPath
          \<and> go_contains (fc_Source (f_Contents f)) (ci_KubeAPIServerIP ci))
     \<and> kc_ControlPlaneEndpoint (GenerateClusterConfiguration kl ci kv) = GetURIAddress kl (ci_KubeAPIServerIP ci) @ '':'' @ listen"
  using assms
  by (simp add: Let_def init_vip_def GenerateAssetsForVirtualIp_def GenerateKubeadmInit_def GenerateClusterConfiguration_def
      getInitLocalAPIEndpointBindPort_def host_port_def path_defs port_texts [simplified])

theorem load_balancer_consistent_witness:
  "\<exists>f \<in> set (igd_Files (init_vip (sample_init\<lparr>ci_InternalLB := True\<rparr>))). f_Path f = NginxConfigPath
     \<and> go_contains (fc_Source (f_Contents f)) ''listen 6443;''"
proof -
  let ?ci = "sample_init\<lparr>ci_InternalLB := True\<rparr>"
  have lb: "ci_InternalLB ?ci" by simp
  have "unat (ci_KubeAPIBindPort ?ci) = 6443" by (simp add: sample_init_def)
  moreover have "format_nat 6443 = ''6443''"
    by (simp add: format_nat.simps [of 6443] format_nat.simps [of 644] format_nat.simps [of 64] format_nat.simps [of 6] digit_char_def char_of_eq_iff)
  ultimately have port: "''listen '' @ format_nat (unat (ci_KubeAPIBindPort ?ci)) @ '';'' = ''listen 6443;''" by simp
  have "\<exists>f \<in> set (igd_Files (init_vip ?ci)). f_Path f = NginxConfigPath
      \<and> go_contains (fc_Source (f_Contents f)) (''listen '' @ format_nat (unat (ci_KubeAPIBindPort ?ci)) @ '';'')
      \<and> go_contains (fc_Source (f_Contents f)) (''server localhost:'' @
           format_nat (unat (lae_BindPort (ki_LocalAPIEndpoint (GenerateKubeadmInit ?ci)))) @ '' '')"
    by (rule load_balancer_consistent [OF lb, unfolded Let_def, THEN conjunct1])
  then show ?thesis unfolding port by (elim bexE conjE) (intro bexI conjI)
qed

text \<open>
  Whoever names two or more addresses that need no proxy, as all callers do, always gets the drop-ins for a proxy, also when no
  proxy is configured; the drop-ins are well ended, and the unit meant for the kubelet has another name.
\<close>

theorem proxy_always_configured:
  assumes "2 \<le> length noProxies"
  shows "\<exists>ign. proxy_ignition p noProxies = Inr ign
    \<and> map unit_Name (units_of ign) = [''crio.service'', ''kublet.service'', ''ocne-update.service'', ''rpm-ostreed.service'']
    \<and> (\<forall>u \<in> set (units_of ign). unit_line_ended u \<and> unit_Name u \<noteq> KubeletServiceName)
    \<and> list_all (\<lambda>u. unit_Name u = ''kublet.service'' \<or> sl (unit_Dropins u) \<noteq> []) (units_of ign)"
proof -
  obtain a b rest where np: "noProxies = a # b # rest"
    using assms by (cases noProxies; cases "tl noProxies") auto
  have "proxy_NoProxy (appendNoProxies p noProxies) \<noteq> []" by (simp add: np appendNoProxies_def Let_def)
  then obtain ign d where run: "proxy_ignition p noProxies = Inr ign"
    and d: "d = Some [dropin ''proxy.conf'' (proxy_dropin_text (appendNoProxies p noProxies))]"
    and units: "units_of ign = [(enabled_unit ''crio.service'')\<lparr>unit_Dropins := d\<rparr>, enabled_unit ''kublet.service'',
      (enabled_unit ''ocne-update.service'')\<lparr>unit_Dropins := d\<rparr>, zero_IgnUnit\<lparr>unit_Name := ''rpm-ostreed.service'', unit_Dropins := d\<rparr>]"
    by (simp add: proxy_ignition_def Let_def unit_merge.merged_new)
  have "unit_line_ended (zero_IgnUnit\<lparr>unit_Name := ''rpm-ostreed.service'', unit_Dropins := d\<rparr>)"
    by (simp add: unit_line_ended_def d dropin_def zero_IgnUnit_def line_ended_dropin)
  moreover have "unit_Dropins (enabled_unit n) = None" for n by (simp add: enabled_unit_def zero_IgnUnit_def)
  ultimately show ?thesis using run units by (simp add: d line_ended_dropin KubeletServiceName_def)
qed

theorem proxy_always_configured_witness:
  "\<exists>ign. proxy_ignition zero_Proxy [''10.96.0.0/12'', ''10.244.0.0/16''] = Inr ign \<and> length (units_of ign) = 4"
proof -
  have "2 \<le> length [''10.96.0.0/12'', ''10.244.0.0/16'']" by simp
  from proxy_always_configured [OF this, of zero_Proxy] show ?thesis by (auto dest!: arg_cong [where f = length])
qed

end
