(* ===== verification/Catalogs.thy ===== *)
theory Catalogs
  imports Effects Semver
begin

text \<open>
  Catalogs of applications: the three kinds of connections of \<^verbatim>\<open>pkg/catalog\<close> and the commands that list, add,
  remove and search catalogs (\<^verbatim>\<open>pkg/commands/catalog\<close>).  The outside is the record \<open>catalog_env\<close>: HTTP, the API server,
  the decoders of YAML and JSON, the URL functions, the constraints of the semver library and the library's sort; \<open>sorts\<close>
  states what is documented of the sort.

  A connection is a value: a call gives the connection it leaves behind with its result.  The catalog that a search has returned
  and the one its connection has kept are the same object in Go, so that \<open>Search\<close>, which deletes from it, changes both.
\<close>

section \<open>Data\<close>

record KNamespacedName =
  nsn_Namespace :: string
  nsn_Name :: string

record ChartMeta =
  cm_Name :: string
  cm_Version :: string
  cm_Description :: string
  cm_ApiVersion :: string
  cm_AppVersion :: string
  cm_KubeVersion :: string
  cm_Type :: string
  cm_Urls :: "string list"
  cm_Created :: string
  cm_Digest :: string
  cm_Annotations :: "string \<rightharpoonup> string"
  cm_Deprecated :: bool

text \<open>The connection of a catalog is given beside it; see \<open>Search\<close>.\<close>

record ChartCatalog =
  chc_ApiVersion :: string
  chc_Generated :: string
  chc_ChartEntries :: "string \<rightharpoonup> ChartMeta list"
  chc_RawJSON :: string

record CatalogInfo =
  cti_ServiceNsn :: KNamespacedName
  cti_CatalogName :: string
  cti_Protocol :: string
  cti_Uri :: string
  cti_Port :: "32 word"
  cti_Scheme :: string
  cti_Hostname :: string
  cti_Type :: string

record SearchOptions =
  sro_KubeConfigPath :: string
  sro_CatalogName :: string
  sro_Pattern :: string

text \<open>What the program uses of a service and of a parsed URL.\<close>

record ServicePort =
  sp_Name :: string
  sp_Protocol :: string
  sp_Port :: "32 word"

record KService =
  svc_Name :: string
  svc_Namespace :: string
  svc_Labels :: "string \<rightharpoonup> string"
  svc_Annotations :: "string \<rightharpoonup> string"
  svc_Type :: string
  svc_ExternalName :: string
  svc_Ports :: "ServicePort list"

record URL =
  url_Scheme :: string
  url_Hostname :: string
  url_Port :: string
  url_Path :: string
  url_RawQuery :: string

record ArtifacthubPackage =
  ahp_Name :: string
  ahp_Version :: string
  ahp_AppVersion :: string
  ahp_RepositoryUrl :: string
  ahp_RepositoryName :: string

record HelmConnection =
  hc_Kubeconfig :: string
  hc_KubeVersion :: string
  hc_CatalogInfo :: CatalogInfo
  hc_Uri :: string
  hc_LastSearch :: "ChartCatalog option"

record ArtifacthubConnection =
  ac_Kubeconfig :: string
  ac_KubeVersion :: string
  ac_CatalogInfo :: CatalogInfo
  ac_Uri :: URL
  ac_LastSearch :: "ChartCatalog option"
  ac_LastArtifacthubSearch :: "ArtifacthubPackage list"

record InternalConnection =
  ic_KubeVersion :: string

datatype CatalogConnection =
    HelmConn HelmConnection
  | ArtifacthubConn ArtifacthubConnection
  | InternalConn InternalConnection

datatype catalog_event = EvCreateService KService | EvDeleteService string string

record 's catalog_env =
  ce_GetKubeClient :: "string \<Rightarrow> 's \<Rightarrow> unit result \<times> 's"
  ce_ServerVersion :: "string \<Rightarrow> 's \<Rightarrow> (string \<times> string) result \<times> 's"
  ce_PortForwardToService :: "string \<Rightarrow> KNamespacedName \<Rightarrow> string \<Rightarrow> 's \<Rightarrow> nat result \<times> 's"
  ce_ListServices :: "string \<Rightarrow> 's \<Rightarrow> KService list result \<times> 's"
  ce_CreateService :: "KService \<Rightarrow> 's \<Rightarrow> unit result \<times> 's"
  ce_DeleteService :: "string \<Rightarrow> string \<Rightarrow> 's \<Rightarrow> unit result \<times> 's"
  ce_HTTPGet :: "string \<Rightarrow> 's \<Rightarrow> string result \<times> 's"
  ce_UnmarshalCatalog :: "string \<Rightarrow> ChartCatalog result"
  ce_UnmarshalPackages :: "string \<Rightarrow> ArtifacthubPackage list result"
  ce_SortFunc :: "(ChartMeta \<Rightarrow> ChartMeta \<Rightarrow> int) \<Rightarrow> ChartMeta list \<Rightarrow> ChartMeta list"
  ce_NewConstraint :: "string \<Rightarrow> (Version \<Rightarrow> bool) result"
  ce_url_Parse :: "string \<Rightarrow> URL result"
  ce_url_String :: "URL \<Rightarrow> string"
  ce_url_Encode :: "(string \<times> string) list \<Rightarrow> string"
  ce_Regexp :: "string \<Rightarrow> (string \<Rightarrow> bool) result"
  ce_Embedded :: "(string \<times> string) list"

section \<open>Charts and versions\<close>

definition HelmProtocol :: string where "HelmProtocol = ''helm''"
definition ArtifacthubProtocol :: string where "ArtifacthubProtocol = ''artifacthub''"
definition EmbeddedCatalog :: string where "EmbeddedCatalog = ''embedded''"
definition ServiceTypeExternalName :: string where "ServiceTypeExternalName = ''ExternalName''"

text \<open>\<^verbatim>\<open>strings.Compare\<close>.\<close>

definition go_compare :: "string \<Rightarrow> string \<Rightarrow> int" where
  "go_compare a b = (if a = b then 0 else if a < b then -1 else 1)"

text \<open>The function that sorts the charts of one name: the newest application version first.\<close>

definition compare_charts :: "ChartMeta \<Rightarrow> ChartMeta \<Rightarrow> int" where
  "compare_charts a b =
     (let aVer = cm_AppVersion a; bVer = cm_AppVersion b
      in if aVer = bVer then 0
         else if aVer = [] then 1
         else if bVer = [] then -1
         else (case NewVersion aVer of
                 Inl _ \<Rightarrow> (case NewVersion bVer of Inl _ \<Rightarrow> go_compare bVer aVer | Inr _ \<Rightarrow> 1)
               | Inr aSv \<Rightarrow> (case NewVersion bVer of Inl _ \<Rightarrow> -1 | Inr bSv \<Rightarrow> ver_Compare bSv aSv)))"

text \<open>The charts that are deleted because they do not support the cluster.\<close>

definition unsupported :: "'s catalog_env \<Rightarrow> Version \<Rightarrow> ChartMeta \<Rightarrow> bool" where
  "unsupported ce kv cm =
     (if cm_KubeVersion cm = [] then False
      else (case ce_NewConstraint ce (cm_KubeVersion cm) of Inl _ \<Rightarrow> True | Inr c \<Rightarrow> \<not> c kv))"

definition fromHelmYAML :: "'s catalog_env \<Rightarrow> string \<Rightarrow> string \<Rightarrow> ChartCatalog result" where
  "fromHelmYAML ce data kubeVersion =
     rbind (ce_UnmarshalCatalog ce data) (\<lambda>cat.
       let sorted = map_option (ce_SortFunc ce compare_charts) \<circ> chc_ChartEntries cat
       in if kubeVersion = [] then Inr (cat\<lparr>chc_ChartEntries := sorted\<rparr>)
          else rbind (NewVersion kubeVersion) (\<lambda>kv.
                 Inr (cat\<lparr>chc_ChartEntries := map_option (filter (\<lambda>cm. \<not> unsupported ce kv cm)) \<circ> sorted\<rparr>)))"

definition getCanonicalURI :: "string \<Rightarrow> string \<Rightarrow> string" where
  "getCanonicalURI absolute relative = (if has_prefix relative ''http'' then relative else absolute @ relative)"

text \<open>The latest version is the first of the list, which may be empty.\<close>

definition findChartAtVersion :: "ChartCatalog \<Rightarrow> string \<Rightarrow> string \<Rightarrow> ChartMeta result outcome" where
  "findChartAtVersion cat chart version =
     (case chc_ChartEntries cat chart of
        None \<Rightarrow> Returns (Inl (''application '' @ chart @ '' not found in catalog''))
      | Some cms \<Rightarrow>
          (if version \<noteq> [] then
             (case find (\<lambda>c. cm_Version c = version) cms of
                None \<Rightarrow> Returns (Inl (''application '' @ chart @ '' does not have version '' @ version))
              | Some c \<Rightarrow> Returns (Inr c))
           else (case cms of [] \<Rightarrow> Panics | c # _ \<Rightarrow> Returns (Inr c))))"

section \<open>Opening a connection\<close>

definition VersionInfoToString :: "string \<times> string \<Rightarrow> string" where
  "VersionInfoToString v = fst v @ ''.'' @ snd v @ ''.0''"

definition getKubeVersion :: "'s catalog_env \<Rightarrow> string \<Rightarrow> ('s, 'e, string) act" where
  "getKubeVersion ce kubeconfig =
     abind (ask (ce_GetKubeClient ce kubeconfig)) (\<lambda>_.
     abind (ask (ce_ServerVersion ce kubeconfig)) (\<lambda>vi. aret (VersionInfoToString vi)))"

text \<open>\<^verbatim>\<open>strconv.Itoa\<close> of a port.\<close>

definition format_port :: "32 word \<Rightarrow> string" where
  "format_port p = (if sint p < 0 then CHR ''-'' # format_nat (nat (- sint p)) else format_nat (nat (sint p)))"

definition getCatalogURI :: "'s catalog_env \<Rightarrow> string \<Rightarrow> CatalogInfo \<Rightarrow> ('s, 'e, string) act" where
  "getCatalogURI ce kubeconfig ci =
     (if cti_Type ci = ServiceTypeExternalName then aret (cti_Uri ci)
      else if cti_Port ci = 0 then afail (cti_CatalogName ci @ '' does not have a port assigned'')
      else abind (ask (ce_PortForwardToService ce kubeconfig (cti_ServiceNsn ci) (format_port (cti_Port ci)))) (\<lambda>localPort.
             aret (cti_Scheme ci @ ''://127.0.0.1:'' @ format_nat localPort @ cti_Uri ci)))"

definition NewHelmConnection :: "'s catalog_env \<Rightarrow> string \<Rightarrow> CatalogInfo \<Rightarrow> ('s, 'e, CatalogConnection) act" where
  "NewHelmConnection ce kubeconfig ci =
     abind (getCatalogURI ce kubeconfig ci) (\<lambda>uri.
     abind (getKubeVersion ce kubeconfig) (\<lambda>ver.
       aret (HelmConn \<lparr>hc_Kubeconfig = kubeconfig, hc_KubeVersion = ver, hc_CatalogInfo = ci, hc_Uri = uri, hc_LastSearch = None\<rparr>)))"

definition NewArtifacthubConnection :: "'s catalog_env \<Rightarrow> string \<Rightarrow> CatalogInfo \<Rightarrow> ('s, 'e, CatalogConnection) act" where
  "NewArtifacthubConnection ce kubeconfig ci =
     abind (getCatalogURI ce kubeconfig ci) (\<lambda>uriStr.
     abind (alift (ce_url_Parse ce uriStr)) (\<lambda>uri.
     abind (getKubeVersion ce kubeconfig) (\<lambda>ver.
       aret (ArtifacthubConn \<lparr>ac_Kubeconfig = kubeconfig, ac_KubeVersion = ver, ac_CatalogInfo = ci, ac_Uri = uri,
               ac_LastSearch = None, ac_LastArtifacthubSearch = []\<rparr>))))"

text \<open>The embedded catalog needs no cluster: an unknown version is the empty one.\<close>

definition NewInternalConnection :: "'s catalog_env \<Rightarrow> string \<Rightarrow> CatalogInfo \<Rightarrow> ('s, 'e, CatalogConnection) act" where
  "NewInternalConnection ce kubeconfig ci =
     atry (getKubeVersion ce kubeconfig) (\<lambda>r.
       aret (InternalConn \<lparr>ic_KubeVersion = (case r of Inl _ \<Rightarrow> [] | Inr ver \<Rightarrow> ver)\<rparr>))"

definition NewConnection :: "'s catalog_env \<Rightarrow> string \<Rightarrow> CatalogInfo \<Rightarrow> ('s, 'e, CatalogConnection) act" where
  "NewConnection ce kubeconfig ci =
     (if cti_CatalogName ci = EmbeddedCatalog then NewInternalConnection ce kubeconfig ci
      else if cti_Protocol ci = HelmProtocol then NewHelmConnection ce kubeconfig ci
      else if cti_Protocol ci = ArtifacthubProtocol then NewArtifacthubConnection ce kubeconfig ci
      else afail (''protocol '' @ cti_Protocol ci @ '' is not implemented''))"

section \<open>The charts of a connection\<close>

definition helm_GetCharts :: "'s catalog_env \<Rightarrow> HelmConnection \<Rightarrow> string \<Rightarrow> ('s, 'e, ChartCatalog \<times> HelmConnection) act" where
  "helm_GetCharts ce hc query =
     abind (ask (ce_HTTPGet ce (hc_Uri hc @ ''/'' @ ''charts/index.yaml''))) (\<lambda>body.
     abind (alift (fromHelmYAML ce body (hc_KubeVersion hc))) (\<lambda>cat.
       let cat = cat\<lparr>chc_RawJSON := body\<rparr>
       in aret (cat, hc\<lparr>hc_LastSearch := Some cat\<rparr>)))"

text \<open>A connection after a call, with what the call gave.\<close>

type_synonym ('s, 'e, 'c) chart_act = "('s, 'e, string result outcome \<times> 'c) act"

definition download :: "'s catalog_env \<Rightarrow> 'c \<Rightarrow> string \<Rightarrow> string \<Rightarrow> ChartMeta result outcome \<Rightarrow> ('s, 'e, 'c) chart_act" where
  "download ce c base chart found =
     (case found of
        Panics \<Rightarrow> aret (Panics, c)
      | Returns (Inl e) \<Rightarrow> aret (Returns (Inl e), c)
      | Returns (Inr cm) \<Rightarrow>
          (case cm_Urls cm of
             [] \<Rightarrow> aret (Returns (Inl (''application '' @ chart @ '' has no downloadable artifacts'')), c)
           | url # _ \<Rightarrow> atry (ask (ce_HTTPGet ce (getCanonicalURI base url))) (\<lambda>r. aret (Returns r, c))))"

definition helm_GetChart :: "'s catalog_env \<Rightarrow> HelmConnection \<Rightarrow> string \<Rightarrow> string \<Rightarrow> ('s, 'e, HelmConnection) chart_act" where
  "helm_GetChart ce hc chart version =
     atry (case hc_LastSearch hc of Some cat \<Rightarrow> aret (cat, hc) | None \<Rightarrow> helm_GetCharts ce hc chart) (\<lambda>r.
       case r of
         Inl e \<Rightarrow> aret (Returns (Inl e), hc)
       | Inr (cat, hc') \<Rightarrow>
           download ce hc' (hc_Uri hc @ ''/'' @ ''charts/'') chart (findChartAtVersion cat chart version))"

definition SearchPath :: string where "SearchPath = ''api/v1/packages/search''"

definition page_limit :: nat where "page_limit = 50"

definition page_url :: "'s catalog_env \<Rightarrow> URL \<Rightarrow> string \<Rightarrow> nat \<Rightarrow> string" where
  "page_url ce uri query offset = ce_url_String ce (uri\<lparr>url_RawQuery := ce_url_Encode ce
     [(''kind'', ''0''), (''facets'', ''true''), (''limit'', format_nat page_limit), (''offset'', format_nat offset),
      (''ts_query_web'', query)]\<rparr>)"

text \<open>The loop over the pages; a server that goes on giving full pages keeps it from ending.\<close>

partial_function (option) query_pages ::
  "'s catalog_env \<Rightarrow> URL \<Rightarrow> string \<Rightarrow> ArtifacthubPackage list \<Rightarrow> nat \<Rightarrow> 's \<Rightarrow> (ArtifacthubPackage list result \<times> 's) option" where
  "query_pages ce uri query packages offset s =
     (case ce_HTTPGet ce (page_url ce uri query offset) s of
        (Inl e, s') \<Rightarrow> Some (Inl e, s')
      | (Inr body, s') \<Rightarrow>
          (case ce_UnmarshalPackages ce body of
             Inl e \<Rightarrow> Some (Inl e, s')
           | Inr page \<Rightarrow>
               (if length page < page_limit then Some (Inr (packages @ page), s')
                else query_pages ce uri query (packages @ page) (offset + length page) s')))"

definition package_meta :: "ArtifacthubPackage \<Rightarrow> ChartMeta" where
  "package_meta chart = \<lparr>cm_Name = ahp_Name chart, cm_Version = ahp_Version chart, cm_Description = [], cm_ApiVersion = [],
     cm_AppVersion = ahp_AppVersion chart, cm_KubeVersion = [], cm_Type = [], cm_Urls = [], cm_Created = [], cm_Digest = [],
     cm_Annotations = Map.empty, cm_Deprecated = False\<rparr>"

definition add_package :: "(string \<rightharpoonup> ChartMeta list) \<Rightarrow> ArtifacthubPackage \<Rightarrow> (string \<rightharpoonup> ChartMeta list)" where
  "add_package entries chart =
     (case entries (ahp_Name chart) of
        None \<Rightarrow> entries(ahp_Name chart \<mapsto> [package_meta chart])
      | Some metas \<Rightarrow> entries(ahp_Name chart \<mapsto> metas @ [package_meta chart]))"

definition artifacthub_GetCharts ::
  "'s catalog_env \<Rightarrow> ArtifacthubConnection \<Rightarrow> string \<Rightarrow> ('s, 'e, ChartCatalog \<times> ArtifacthubConnection) act" where
  "artifacthub_GetCharts ce ac query =
     (if query = [] then afail ''ArtifactHub powered catalogs do not support unqualified searches''
      else let uri = (ac_Uri ac)\<lparr>url_Path := url_Path (ac_Uri ac) @ ''/'' @ SearchPath\<rparr>
           in abind (wait_for (query_pages ce uri query [] 0)) (\<lambda>packages.
                let ret = \<lparr>chc_ApiVersion = ''v1'', chc_Generated = [],
                      chc_ChartEntries = foldl add_package Map.empty packages, chc_RawJSON = []\<rparr>
                in aret (ret, ac\<lparr>ac_LastSearch := Some ret, ac_LastArtifacthubSearch := packages\<rparr>)))"

definition artifacthub_GetChart ::
  "'s catalog_env \<Rightarrow> ArtifacthubConnection \<Rightarrow> string \<Rightarrow> string \<Rightarrow> ('s, 'e, ArtifacthubConnection) chart_act" where
  "artifacthub_GetChart ce ac chart version =
     atry (case ac_LastSearch ac of Some cat \<Rightarrow> aret (cat, ac) | None \<Rightarrow> artifacthub_GetCharts ce ac chart) (\<lambda>r.
       case r of
         Inl e \<Rightarrow> aret (Returns (Inl e), ac)
       | Inr (_, ac') \<Rightarrow>
           (case find (\<lambda>ahr. ahp_Name ahr = chart) (ac_LastArtifacthubSearch ac') of
              None \<Rightarrow> aret (Returns (Inl (''application '' @ chart @ '' not found in catalog'')), ac')
            | Some ahRes \<Rightarrow>
                atry (abind (ask (ce_HTTPGet ce (ahp_RepositoryUrl ahRes @ ''/'' @ ''index.yaml''))) (\<lambda>body.
                        alift (fromHelmYAML ce body (ac_KubeVersion ac)))) (\<lambda>r.
                  case r of
                    Inl e \<Rightarrow> aret (Returns (Inl e), ac')
                  | Inr cat \<Rightarrow> download ce ac' (ahp_RepositoryUrl ahRes) chart (findChartAtVersion cat chart version))))"

section \<open>The embedded catalog\<close>

text \<open>The files that were compiled in: their names below \<^verbatim>\<open>charts\<close>, with their contents.\<close>

definition FindCandidates :: "'s catalog_env \<Rightarrow> string \<Rightarrow> string list" where
  "FindCandidates ce p = [''charts/'' @ name. (name, _) \<leftarrow> ce_Embedded ce, has_prefix name p]"

definition readerFromPath :: "'s catalog_env \<Rightarrow> string \<Rightarrow> string result" where
  "readerFromPath ce path =
     (case map_of [(''charts/'' @ name, bytes). (name, bytes) \<leftarrow> ce_Embedded ce] path of
        None \<Rightarrow> Inl (''open '' @ path @ '': file does not exist'') | Some bytes \<Rightarrow> Inr bytes)"

definition GetChartAtVersion :: "'s catalog_env \<Rightarrow> string \<Rightarrow> string \<Rightarrow> string result" where
  "GetChartAtVersion ce name version =
     (case FindCandidates ce (name @ ''-'' @ version) of
        [] \<Rightarrow> Inl (''No charts named '' @ name @ '' at version '' @ version @ '' could be found'')
      | [cand] \<Rightarrow> readerFromPath ce cand
      | _ \<Rightarrow> Inl (''Multiple charts named '' @ name @ '' have version '' @ version))"

definition GetIndex :: "'s catalog_env \<Rightarrow> string result" where
  "GetIndex ce = readerFromPath ce ''charts/index.yaml''"

definition internal_GetCharts :: "'s catalog_env \<Rightarrow> InternalConnection \<Rightarrow> string \<Rightarrow> ChartCatalog result" where
  "internal_GetCharts ce ic query = rbind (GetIndex ce) (\<lambda>bytes. fromHelmYAML ce bytes (ic_KubeVersion ic))"

definition internal_GetChart :: "'s catalog_env \<Rightarrow> InternalConnection \<Rightarrow> string \<Rightarrow> string \<Rightarrow> string result outcome" where
  "internal_GetChart ce ic chart version =
     (if version = [] then
        (case internal_GetCharts ce ic chart of
           Inl e \<Rightarrow> Returns (Inl e)
         | Inr cat \<Rightarrow> obind (findChartAtVersion cat chart version) (\<lambda>r.
             Returns (rbind r (\<lambda>cm. GetChartAtVersion ce (cm_Name cm) (cm_Version cm)))))
      else Returns (GetChartAtVersion ce chart version))"

section \<open>The interface of a connection\<close>

definition GetCharts :: "'s catalog_env \<Rightarrow> CatalogConnection \<Rightarrow> string \<Rightarrow> ('s, 'e, ChartCatalog \<times> CatalogConnection) act" where
  "GetCharts ce cc query =
     (case cc of
        HelmConn hc \<Rightarrow> abind (helm_GetCharts ce hc query) (\<lambda>(cat, hc'). aret (cat, HelmConn hc'))
      | ArtifacthubConn ac \<Rightarrow> abind (artifacthub_GetCharts ce ac query) (\<lambda>(cat, ac'). aret (cat, ArtifacthubConn ac'))
      | InternalConn ic \<Rightarrow> abind (alift (internal_GetCharts ce ic query)) (\<lambda>cat. aret (cat, cc)))"

definition GetChart :: "'s catalog_env \<Rightarrow> CatalogConnection \<Rightarrow> string \<Rightarrow> string \<Rightarrow> ('s, 'e, CatalogConnection) chart_act" where
  "GetChart ce cc chart version =
     (case cc of
        HelmConn hc \<Rightarrow> abind (helm_GetChart ce hc chart version) (\<lambda>(r, hc'). aret (r, HelmConn hc'))
      | ArtifacthubConn ac \<Rightarrow> abind (artifacthub_GetChart ce ac chart version) (\<lambda>(r, ac'). aret (r, ArtifacthubConn ac'))
      | InternalConn ic \<Rightarrow> aret (internal_GetChart ce ic chart version, cc))"

section \<open>The commands\<close>

definition OCNECatalogLabelKey :: string where "OCNECatalogLabelKey = ''catalog.ocne.io/is-catalog''"
definition OCNECatalogAnnotationKey :: string where "OCNECatalogAnnotationKey = ''catalog.ocne.io/name''"
definition OCNECatalogURIKey :: string where "OCNECatalogURIKey = ''catalog.ocne.io/uri''"
definition OCNECatalogProtoKey :: string where "OCNECatalogProtoKey = ''catalog.ocne.io/protocol''"
definition DefaultCatalogName :: string where "DefaultCatalogName = ''Oracle Cloud Native Environment Application Catalog''"

text \<open>The services of all namespaces that have a label of this key, whatever its value.\<close>

definition FindServicesByLabelKey :: "'s catalog_env \<Rightarrow> string \<Rightarrow> string \<Rightarrow> ('s, 'e, KService list) act" where
  "FindServicesByLabelKey ce namespace key = ask (ce_ListServices ce key)"

definition annotation :: "KService \<Rightarrow> string \<Rightarrow> string" where
  "annotation svc key = (case svc_Annotations svc key of None \<Rightarrow> [] | Some v \<Rightarrow> v)"

definition service_info :: "KService \<Rightarrow> CatalogInfo" where
  "service_info service =
     (let (scheme, port) = (case svc_Ports service of [] \<Rightarrow> ([], 0) | p # _ \<Rightarrow> (sp_Name p, sp_Port p))
      in \<lparr>cti_ServiceNsn = \<lparr>nsn_Namespace = svc_Namespace service, nsn_Name = svc_Name service\<rparr>,
          cti_CatalogName = annotation service OCNECatalogAnnotationKey, cti_Protocol = annotation service OCNECatalogProtoKey,
          cti_Uri = annotation service OCNECatalogURIKey, cti_Port = port, cti_Scheme = scheme,
          cti_Hostname = svc_ExternalName service, cti_Type = svc_Type service\<rparr>)"

definition zero_CatalogInfo :: CatalogInfo where
  "zero_CatalogInfo = \<lparr>cti_ServiceNsn = \<lparr>nsn_Namespace = [], nsn_Name = []\<rparr>, cti_CatalogName = [], cti_Protocol = [], cti_Uri = [],
     cti_Port = 0, cti_Scheme = [], cti_Hostname = [], cti_Type = []\<rparr>"

definition Ls :: "'s catalog_env \<Rightarrow> string \<Rightarrow> ('s, 'e, CatalogInfo list) act" where
  "Ls ce kubeconfig =
     abind (ask (ce_GetKubeClient ce kubeconfig)) (\<lambda>_.
     abind (FindServicesByLabelKey ce [] OCNECatalogLabelKey) (\<lambda>serviceList.
       aret (map service_info serviceList @ [zero_CatalogInfo\<lparr>cti_CatalogName := EmbeddedCatalog, cti_Protocol := HelmProtocol\<rparr>])))"

text \<open>A port that is no number of 64 bits ends the command without an error; \<open>int32(port)\<close> keeps the low 32 bits.\<close>

definition catalog_Add ::
  "'s catalog_env \<Rightarrow> string \<Rightarrow> string \<Rightarrow> string \<Rightarrow> string \<Rightarrow> string \<Rightarrow> string \<Rightarrow> ('s, catalog_event, unit) act" where
  "catalog_Add ce kubeconfig name namespace externalUri protocol friendlyName =
     abind (ask (ce_GetKubeClient ce kubeconfig)) (\<lambda>_.
     abind (alift (ce_url_Parse ce externalUri)) (\<lambda>exUrl.
       let scheme = url_Scheme exUrl
       in abind (if url_Port exUrl \<noteq> [] then aret (url_Port exUrl)
                 else if scheme = ''http'' then aret ''80''
                 else if scheme = ''https'' then aret ''443''
                 else afail (''URI scheme '' @ scheme @ '' is not supported'')) (\<lambda>portStr.
          case atoi portStr of
            None \<Rightarrow> aret ()
          | Some port \<Rightarrow>
              (let svc = \<lparr>svc_Name = name, svc_Namespace = namespace, svc_Labels = [OCNECatalogLabelKey \<mapsto> []],
                     svc_Annotations = [OCNECatalogAnnotationKey \<mapsto> friendlyName, OCNECatalogURIKey \<mapsto> externalUri,
                                        OCNECatalogProtoKey \<mapsto> protocol],
                     svc_Type = ''ExternalName'', svc_ExternalName = url_Hostname exUrl,
                     svc_Ports = [\<lparr>sp_Name = scheme, sp_Protocol = ''TCP'', sp_Port = word_of_int port\<rparr>]\<rparr>
               in perform (EvCreateService svc) (ce_CreateService ce svc)))))"

definition catalog_Remove :: "'s catalog_env \<Rightarrow> string \<Rightarrow> string \<Rightarrow> string \<Rightarrow> ('s, catalog_event, unit) act" where
  "catalog_Remove ce kubeconfig name namespace =
     abind (Ls ce kubeconfig) (\<lambda>catInfos.
       case find (\<lambda>c. cti_CatalogName c = name \<and> nsn_Namespace (cti_ServiceNsn c) = namespace) catInfos of
         None \<Rightarrow> afail (''Could not find catalog '' @ namespace @ ''/'' @ name)
       | Some ci \<Rightarrow>
           abind (ask (ce_GetKubeClient ce kubeconfig)) (\<lambda>_.
             perform (EvDeleteService (nsn_Namespace (cti_ServiceNsn ci)) (nsn_Name (cti_ServiceNsn ci)))
               (ce_DeleteService ce (nsn_Namespace (cti_ServiceNsn ci)) (nsn_Name (cti_ServiceNsn ci)))))"

definition validateOptions :: "'s catalog_env \<Rightarrow> SearchOptions \<Rightarrow> unit result" where
  "validateOptions ce opt =
     (if sro_Pattern opt = [] then Inr () else rbind (ce_Regexp ce (sro_Pattern opt)) (\<lambda>_. Inr ()))"

definition getCatalogService :: "'s catalog_env \<Rightarrow> SearchOptions \<Rightarrow> ('s, 'e, CatalogInfo) act" where
  "getCatalogService ce opt =
     (if sro_CatalogName opt = EmbeddedCatalog
      then aret (zero_CatalogInfo\<lparr>cti_CatalogName := sro_CatalogName opt, cti_Protocol := ''internal''\<rparr>)
      else abind (Ls ce (sro_KubeConfigPath opt)) (\<lambda>catInfos.
             case find (\<lambda>c. cti_CatalogName c = sro_CatalogName opt) catInfos of
               None \<Rightarrow> afail (''catalog '' @ CHR 39 # sro_CatalogName opt @ CHR 39 # '' not found'')
             | Some c \<Rightarrow> aret c))"

text \<open>\<^verbatim>\<open>regexp.MustCompile\<close> panics on a pattern that does not compile; \<open>Search\<close> has validated it before.\<close>

definition filterCharts :: "'s catalog_env \<Rightarrow> ChartCatalog \<Rightarrow> string \<Rightarrow> ChartCatalog outcome" where
  "filterCharts ce cat regx =
     (if regx = [] then Returns cat
      else (case ce_Regexp ce regx of
              Inl _ \<Rightarrow> Panics
            | Inr re \<Rightarrow> Returns (cat\<lparr>chc_ChartEntries := (\<lambda>key. if re key then chc_ChartEntries cat key else None)\<rparr>)))"

text \<open>The deletions of \<open>filterCharts\<close> reach the catalog that the connection has kept.\<close>

definition share_catalog :: "ChartCatalog \<Rightarrow> CatalogConnection \<Rightarrow> CatalogConnection" where
  "share_catalog cat cc =
     (case cc of
        HelmConn hc \<Rightarrow> HelmConn (hc\<lparr>hc_LastSearch := Some cat\<rparr>)
      | ArtifacthubConn ac \<Rightarrow> ArtifacthubConn (ac\<lparr>ac_LastSearch := Some cat\<rparr>)
      | InternalConn ic \<Rightarrow> InternalConn ic)"

definition Search :: "'s catalog_env \<Rightarrow> SearchOptions \<Rightarrow> ('s, 'e, (ChartCatalog \<times> CatalogConnection) outcome) act" where
  "Search ce opt =
     abind (alift (validateOptions ce opt)) (\<lambda>_.
       let opt = (if sro_CatalogName opt = [] then opt\<lparr>sro_CatalogName := DefaultCatalogName\<rparr> else opt)
       in abind (getCatalogService ce opt) (\<lambda>catalogInfo.
          abind (NewConnection ce (sro_KubeConfigPath opt) catalogInfo) (\<lambda>cc.
          abind (GetCharts ce cc (sro_Pattern opt)) (\<lambda>(cat, cc').
            aret (obind (filterCharts ce cat (sro_Pattern opt)) (\<lambda>cat'. Returns (cat', share_catalog cat' cc')))))))"

section \<open>Sorting\<close>

text \<open>What is documented of the sort: given a strict weak order, it permutes the list into that order.\<close>

definition weak_order :: "('a \<Rightarrow> 'a \<Rightarrow> int) \<Rightarrow> bool" where
  "weak_order cmp \<longleftrightarrow> (\<forall>a b. (cmp a b < 0 \<longleftrightarrow> cmp b a > 0)) \<and> (\<forall>a b c. cmp a b \<le> 0 \<longrightarrow> cmp b c \<le> 0 \<longrightarrow> cmp a c \<le> 0)"

definition sorts :: "(('a \<Rightarrow> 'a \<Rightarrow> int) \<Rightarrow> 'a list \<Rightarrow> 'a list) \<Rightarrow> bool" where
  "sorts f \<longleftrightarrow> (\<forall>cmp xs. weak_order cmp \<longrightarrow> mset (f cmp xs) = mset xs \<and> sorted_wrt (\<lambda>a b. cmp a b \<le> 0) (f cmp xs))"

text \<open>A comparison that puts the greater key first.\<close>

locale descending =
  fixes compare :: "'a \<Rightarrow> 'a \<Rightarrow> int" and key :: "'a \<Rightarrow> 'k::linorder"
  assumes compare_key: "compare a b = cmp3 (key b) (key a)"
begin

lemma weak: "weak_order compare"
  unfolding weak_order_def compare_key by (auto simp: cmp3_def split: if_splits)

lemma permutes: "sorts f \<Longrightarrow> mset (f compare xs) = mset xs"
  using weak unfolding sorts_def by blast

lemma keeps_set: "sorts f \<Longrightarrow> set (f compare xs) = set xs"
  by (rule mset_eq_setD) (rule permutes)

lemma greatest_first:
  assumes "sorts f"
  shows "sorted_wrt (\<lambda>a b. key b \<le> key a) (f compare xs)"
proof -
  have "sorted_wrt (\<lambda>a b. compare a b \<le> 0) (f compare xs)" using assms weak unfolding sorts_def by blast
  then show ?thesis by (rule sorted_wrt_mono_rel [rotated]) (simp add: compare_key cmp3_le_iff)
qed

lemma head_greatest:
  assumes "sorts f" and "filter P (f compare xs) = c # cs"
  shows "c \<in> set xs \<and> P c \<and> (\<forall>m \<in> set xs. P m \<longrightarrow> key m \<le> key c)"
proof -
  have mem: "set (c # cs) = {m \<in> set xs. P m}"
    using keeps_set [OF assms(1), of xs] by (simp flip: assms(2))
  have "sorted_wrt (\<lambda>a b. key b \<le> key a) (c # cs)"
    using greatest_first [OF assms(1)] by (simp add: sorted_wrt_filter flip: assms(2))
  then have "\<forall>m \<in> set (c # cs). key m \<le> key c" by auto
  with mem show ?thesis by auto
qed

end

text \<open>The order of the application versions: none, then texts that are no version, then versions.\<close>

definition app_key :: "ChartMeta \<Rightarrow> nat \<times> string \<times> version_key" where
  "app_key cm = (if cm_AppVersion cm = [] then (0, [], (0, 0, 0, 0, []))
     else (case NewVersion (cm_AppVersion cm) of
             Inl _ \<Rightarrow> (1, cm_AppVersion cm, (0, 0, 0, 0, []))
           | Inr v \<Rightarrow> (2, [], ver_key v)))"

interpretation charts: descending compare_charts app_key
proof
  fix a b
  show "compare_charts a b = cmp3 (app_key b) (app_key a)"
  proof (cases "cm_AppVersion a = cm_AppVersion b")
    case True
    have "app_key a = app_key b" unfolding app_key_def True by (rule refl)
    with True show ?thesis by (simp add: compare_charts_def cmp3_def)
  next
    case False
    then show ?thesis
      by (auto simp: compare_charts_def app_key_def cmp3_def go_compare_def Compare_key NewVersion_wf split: sum.splits)
  qed
qed

text \<open>What a catalog offers a cluster.\<close>

definition supported :: "'s catalog_env \<Rightarrow> string \<Rightarrow> ChartMeta \<Rightarrow> bool" where
  "supported ce kubeVersion cm =
     (kubeVersion = [] \<or> (case NewVersion kubeVersion of Inl _ \<Rightarrow> False | Inr kv \<Rightarrow> \<not> unsupported ce kv cm))"

lemma fromHelmYAML_entries:
  assumes "fromHelmYAML ce data kubeVersion = Inr cat" and "ce_UnmarshalCatalog ce data = Inr index"
  shows "chc_ChartEntries cat name
     = map_option (\<lambda>ms. filter (supported ce kubeVersion) (ce_SortFunc ce compare_charts ms)) (chc_ChartEntries index name)"
  using assms
  by (auto simp: fromHelmYAML_def supported_def [abs_def] option.map_comp comp_def Let_def rbind_Inr_iff split: if_splits)

section \<open>Pages\<close>

text \<open>A server that answers each query with the next packages of its list, as many as fit on a page.\<close>

definition honest_server :: "'s catalog_env \<Rightarrow> URL \<Rightarrow> string \<Rightarrow> ArtifacthubPackage list \<Rightarrow> bool" where
  "honest_server ce uri query packages \<longleftrightarrow>
     (\<forall>offset s. \<exists>body s'. ce_HTTPGet ce (page_url ce uri query offset) s = (Inr body, s')
        \<and> ce_UnmarshalPackages ce body = Inr (take page_limit (drop offset packages)))"

text \<open>A server that gives a full page whatever it is asked.\<close>

definition endless_server :: "'s catalog_env \<Rightarrow> bool" where
  "endless_server ce \<longleftrightarrow>
     (\<forall>url s. \<exists>body page s'. ce_HTTPGet ce url s = (Inr body, s') \<and> ce_UnmarshalPackages ce body = Inr page \<and> page_limit \<le> length page)"

lemma query_pages_honest:
  assumes "honest_server ce uri query packages" and "offset \<le> length packages"
  shows "\<exists>s'. query_pages ce uri query (take offset packages) offset s = Some (Inr packages, s')"
  using assms(2)
proof (induction "length packages - offset" arbitrary: offset s rule: less_induct)
  case less
  obtain body s' where page: "ce_HTTPGet ce (page_url ce uri query offset) s = (Inr body, s')"
    "ce_UnmarshalPackages ce body = Inr (take page_limit (drop offset packages))"
    using assms(1) unfolding honest_server_def by blast
  show ?case
  proof (cases "length packages - offset < page_limit")
    case True
    then have all: "take page_limit (drop offset packages) = drop offset packages" by simp
    with True page show ?thesis by (subst query_pages.simps) simp
  next
    case False
    then have len: "length (take page_limit (drop offset packages)) = page_limit" by simp
    have "\<exists>s''. query_pages ce uri query (take (offset + page_limit) packages) (offset + page_limit) s' = Some (Inr packages, s'')"
      using False by (intro less.hyps) (simp_all add: page_limit_def)
    with page len show ?thesis by (subst query_pages.simps) (simp add: take_add)
  qed
qed

lemma query_pages_endless: "endless_server ce \<Longrightarrow> query_pages ce uri query packages offset s = None"
proof -
  assume endless: "endless_server ce"
  have "endless_server ce \<longrightarrow> False" if "query_pages ce uri query packages offset s = Some y"
    for ce :: "'s catalog_env" and uri query packages offset s y
  proof (rule query_pages.raw_induct [where P = "\<lambda>ce uri query packages offset s y. endless_server ce \<longrightarrow> False", OF _ that],
      intro impI)
    fix loop :: "'s catalog_env \<Rightarrow> URL \<Rightarrow> string \<Rightarrow> ArtifacthubPackage list \<Rightarrow> nat \<Rightarrow> 's \<Rightarrow> (ArtifacthubPackage list result \<times> 's) option"
      and ce :: "'s catalog_env" and uri query packages offset s y
    assume IH: "\<And>ce uri query packages offset s y. loop ce uri query packages offset s = Some y \<Longrightarrow> endless_server ce \<longrightarrow> False"
      and run: "(case ce_HTTPGet ce (page_url ce uri query offset) s of
        (Inl e, s') \<Rightarrow> Some (Inl e, s')
      | (Inr body, s') \<Rightarrow>
          (case ce_UnmarshalPackages ce body of
             Inl e \<Rightarrow> Some (Inl e, s')
           | Inr page \<Rightarrow>
               (if length page < page_limit then Some (Inr (packages @ page), s')
                else loop ce uri query (packages @ page) (offset + length page) s'))) = Some y"
      and e: "endless_server ce"
    from e obtain body page s' where "ce_HTTPGet ce (page_url ce uri query offset) s = (Inr body, s')"
      "ce_UnmarshalPackages ce body = Inr page" "page_limit \<le> length page"
      unfolding endless_server_def by blast
    with run have "loop ce uri query (packages @ page) (offset + length page) s' = Some y" by simp
    from IH [OF this] e show False by blast
  qed
  with endless show ?thesis by (metis not_Some_eq)
qed

text \<open>The catalog that is made of the packages: the versions of each name in their order.\<close>

lemma foldl_add_package:
  "foldl add_package m packages name =
     (if filter (\<lambda>p. ahp_Name p = name) packages = [] then m name
      else Some ((case m name of None \<Rightarrow> [] | Some ms \<Rightarrow> ms) @ map package_meta (filter (\<lambda>p. ahp_Name p = name) packages)))"
  by (induction packages arbitrary: m) (auto simp: add_package_def split: option.splits)

section \<open>Searching\<close>

lemma filterCharts_keeps:
  assumes "filterCharts ce cat regx = Returns cat'"
  shows "regx \<noteq> [] \<longrightarrow> (\<exists>re. ce_Regexp ce regx = Inr re \<and> (\<forall>key. chc_ChartEntries cat' key
     = (if re key then chc_ChartEntries cat key else None)))"
  using assms by (auto simp: filterCharts_def split: if_splits sum.splits)

lemma Search_no_panic: "Search ce opt w = (Inr r, w') \<Longrightarrow> r \<noteq> Panics"
  by (auto simp: Search_def abind_def validateOptions_def rbind_def filterCharts_def Let_def split: sum.splits prod.splits if_splits)

text \<open>A connection whose kept search, if any, is the given catalog.\<close>

definition kept_search :: "CatalogConnection \<Rightarrow> ChartCatalog option" where
  "kept_search cc = (case cc of HelmConn hc \<Rightarrow> hc_LastSearch hc | ArtifacthubConn ac \<Rightarrow> ac_LastSearch ac | InternalConn _ \<Rightarrow> None)"

lemma kept_share [simp]: "kept_search (share_catalog cat cc) = (case cc of InternalConn _ \<Rightarrow> None | _ \<Rightarrow> Some cat)"
  by (cases cc) (simp_all add: share_catalog_def kept_search_def)

lemma Search_shares:
  assumes "Search ce opt w = (Inr (Returns (cat, cc)), w')"
  obtains cat0 cc0 where "filterCharts ce cat0 (sro_Pattern opt) = Returns cat" "cc = share_catalog cat cc0"
  using assms
  by (auto simp: Search_def abind_def Let_def obind_def split: sum.splits prod.splits if_splits outcome.splits)

section \<open>Samples\<close>

fun insert_by :: "('a \<Rightarrow> 'a \<Rightarrow> int) \<Rightarrow> 'a \<Rightarrow> 'a list \<Rightarrow> 'a list" where
  "insert_by cmp x [] = [x]"
| "insert_by cmp x (y # ys) = (if cmp x y \<le> 0 then x # y # ys else y # insert_by cmp x ys)"

definition insert_sort :: "('a \<Rightarrow> 'a \<Rightarrow> int) \<Rightarrow> 'a list \<Rightarrow> 'a list" where
  "insert_sort cmp xs = foldr (insert_by cmp) xs []"

lemma mset_insert_by [simp]: "mset (insert_by cmp x ys) = add_mset x (mset ys)"
  by (induction ys) auto

lemma insert_by_sorted:
  assumes "weak_order cmp"
  shows "sorted_wrt (\<lambda>a b. cmp a b \<le> 0) ys \<Longrightarrow> sorted_wrt (\<lambda>a b. cmp a b \<le> 0) (insert_by cmp x ys)"
proof (induction ys)
  case (Cons y ys)
  have set: "set (insert_by cmp x ys) = insert x (set ys)" for x ys
    using mset_insert_by [of cmp x ys] by (metis set_mset_add_mset_insert set_mset_mset)
  from assms have total: "\<not> cmp x y \<le> 0 \<Longrightarrow> cmp y x \<le> 0" and trans: "\<And>z. cmp x y \<le> 0 \<Longrightarrow> cmp y z \<le> 0 \<Longrightarrow> cmp x z \<le> 0"
    unfolding weak_order_def by (meson linorder_not_le order_less_imp_le)+
  with Cons show ?case by (auto simp: set)
qed simp

lemma insert_sort_sorts: "sorts insert_sort"
  unfolding sorts_def
proof (intro allI impI conjI)
  fix cmp :: "'a \<Rightarrow> 'a \<Rightarrow> int" and xs
  assume cmp: "weak_order cmp"
  show "mset (insert_sort cmp xs) = mset xs" by (induction xs) (simp_all add: insert_sort_def)
  show "sorted_wrt (\<lambda>a b. cmp a b \<le> 0) (insert_sort cmp xs)"
    by (induction xs) (simp_all add: insert_sort_def insert_by_sorted [OF cmp])
qed

definition sample_chart :: "string \<Rightarrow> string \<Rightarrow> string \<Rightarrow> ChartMeta" where
  "sample_chart version appVersion kubeVersion = \<lparr>cm_Name = ''ui'', cm_Version = version, cm_Description = [], cm_ApiVersion = [],
     cm_AppVersion = appVersion, cm_KubeVersion = kubeVersion, cm_Type = [], cm_Urls = [''charts/ui.tgz''], cm_Created = [],
     cm_Digest = [], cm_Annotations = Map.empty, cm_Deprecated = False\<rparr>"

text \<open>One server: an index with three versions of one chart, and one package, also when asked for more.\<close>

definition sample_index :: ChartCatalog where
  "sample_index = \<lparr>chc_ApiVersion = ''v1'', chc_Generated = [],
     chc_ChartEntries = [''ui'' \<mapsto> [sample_chart ''1.9.0'' ''1.9.0'' [], sample_chart ''2.0.0'' ''2.0.0'' ''>=1.40'', sample_chart ''1.10.0'' ''1.10.0'' []],
                         ''next'' \<mapsto> [sample_chart ''1.0.0'' ''1.0.0'' ''>=1.40'']],
     chc_RawJSON = []\<rparr>"

definition sample_package :: ArtifacthubPackage where
  "sample_package = \<lparr>ahp_Name = ''ui'', ahp_Version = ''1'', ahp_AppVersion = ''1'', ahp_RepositoryUrl = ''https://repo'', ahp_RepositoryName = ''repo''\<rparr>"

definition sample_service :: KService where
  "sample_service = \<lparr>svc_Name = ''cat'', svc_Namespace = ''ns'', svc_Labels = Map.empty,
        svc_Annotations = [OCNECatalogAnnotationKey \<mapsto> ''mine'', OCNECatalogURIKey \<mapsto> ''http://c'', OCNECatalogProtoKey \<mapsto> ''helm''],
        svc_Type = ''ExternalName'', svc_ExternalName = ''c'', svc_Ports = []\<rparr>"

definition sample_catalogs :: "ArtifacthubPackage list \<Rightarrow> unit catalog_env" where
  "sample_catalogs page = \<lparr>
     ce_GetKubeClient = (\<lambda>_ s. (Inr (), s)), ce_ServerVersion = (\<lambda>_ s. (Inr (''1'', ''33''), s)),
     ce_PortForwardToService = (\<lambda>_ _ _ s. (Inr 8080, s)),
     ce_ListServices = (\<lambda>_ s. (Inr [sample_service], s)),
     ce_CreateService = (\<lambda>_ s. (Inr (), s)), ce_DeleteService = (\<lambda>_ _ s. (Inr (), s)),
     ce_HTTPGet = (\<lambda>_ s. (Inr [], s)), ce_UnmarshalCatalog = (\<lambda>_. Inr sample_index), ce_UnmarshalPackages = (\<lambda>_. Inr page),
     ce_SortFunc = insert_sort,
     ce_NewConstraint = (\<lambda>c. rbind (parseConstraint c) (\<lambda>con. Inr (Constraints_Check con))),
     ce_url_Parse = (\<lambda>_. Inr \<lparr>url_Scheme = ''https'', url_Hostname = ''h'', url_Port = ''4294967739'', url_Path = [], url_RawQuery = []\<rparr>),
     ce_url_String = url_RawQuery, ce_url_Encode = (\<lambda>ps. concat (map snd ps)),
     ce_Regexp = (\<lambda>p. Inr (\<lambda>s. go_contains s p)), ce_Embedded = [(''ui-2.0.0.tgz'', ''a''), (''ui-2.0.0-1.tgz'', ''b'')]\<rparr>"

lemma sample_catalogs_fields [simp]:
  "ce_SortFunc (sample_catalogs page) = insert_sort" "ce_UnmarshalCatalog (sample_catalogs page) d = Inr sample_index"
  "ce_UnmarshalPackages (sample_catalogs page) d = Inr page" "ce_HTTPGet (sample_catalogs page) u s = (Inr [], s)"
  "ce_Embedded (sample_catalogs page) = [(''ui-2.0.0.tgz'', ''a''), (''ui-2.0.0-1.tgz'', ''b'')]"
  by (simp_all add: sample_catalogs_def)

section \<open>Properties\<close>



text \<open>
  The latest version of an application in a catalog is the supported chart with the greatest application version.  An application
  of which no version supports the cluster stays in the catalog without charts, and asking for its latest version panics.
\<close>

theorem latest_chart:
  assumes "sorts (ce_SortFunc ce)" and "fromHelmYAML ce data kubeVersion = Inr cat" and "ce_UnmarshalCatalog ce data = Inr index"
    and "chc_ChartEntries index chart = Some ms"
  shows "(findChartAtVersion cat chart [] = Panics \<longleftrightarrow> (\<forall>m \<in> set ms. \<not> supported ce kubeVersion m))
    \<and> (\<forall>c. findChartAtVersion cat chart [] = Returns (Inr c) \<longrightarrow>
         c \<in> set ms \<and> supported ce kubeVersion c \<and> (\<forall>m \<in> set ms. supported ce kubeVersion m \<longrightarrow> app_key m \<le> app_key c))
    \<and> (\<forall>e. findChartAtVersion cat chart [] \<noteq> Returns (Inl e))"
proof -
  from fromHelmYAML_entries [OF assms(2,3)] assms(4) have found: "chc_ChartEntries cat chart = Some (filter (supported ce kubeVersion) (ce_SortFunc ce compare_charts ms))"
    by simp
  have none: "filter (supported ce kubeVersion) (ce_SortFunc ce compare_charts ms) = [] \<longleftrightarrow> (\<forall>m \<in> set ms. \<not> supported ce kubeVersion m)"
    using charts.keeps_set [OF assms(1)] by (simp add: filter_empty_conv)
  show ?thesis
  proof (cases "filter (supported ce kubeVersion) (ce_SortFunc ce compare_charts ms)")
    case Nil
    with found none show ?thesis by (auto simp: findChartAtVersion_def)
  next
    case (Cons c cs)
    with found none charts.head_greatest [OF assms(1) Cons] show ?thesis by (auto simp: findChartAtVersion_def)
  qed
qed

theorem latest_chart_witness:
  "\<exists>cat c. fromHelmYAML (sample_catalogs []) [] ''1.33.0'' = Inr cat \<and> findChartAtVersion cat ''next'' [] = Panics
     \<and> findChartAtVersion cat ''ui'' [] = Returns (Inr c) \<and> cm_Version c = ''1.10.0''"
proof -
  have v: "NewVersion ''1.33.0'' = Inr \<lparr>ver_major = 1, ver_minor = 33, ver_patch = 0, ver_pre = [], ver_metadata = [], ver_original = ''1.33.0''\<rparr>"
    by code_simp
  then obtain cat where cat: "fromHelmYAML (sample_catalogs []) [] ''1.33.0'' = Inr cat"
    by (auto simp: fromHelmYAML_def)
  have con: "ce_NewConstraint (sample_catalogs []) = (\<lambda>c. rbind (parseConstraint c) (\<lambda>con. Inr (Constraints_Check con)))"
    by (simp add: sample_catalogs_def)
  have "(case parseConstraint ''>=1.40'' of Inl _ \<Rightarrow> True | Inr c \<Rightarrow> \<not> Constraints_Check c
      \<lparr>ver_major = 1, ver_minor = 33, ver_patch = 0, ver_pre = [], ver_metadata = [], ver_original = ''1.33.0''\<rparr>)"
    by code_simp
  then have sup: "supported (sample_catalogs []) ''1.33.0'' (sample_chart a b []) \<and> \<not> supported (sample_catalogs []) ''1.33.0'' (sample_chart a b ''>=1.40'')" for a b
    by (simp add: supported_def v unsupported_def con sample_chart_def rbind_def split: sum.splits)
  have new: "chc_ChartEntries sample_index ''next'' = Some [sample_chart ''1.0.0'' ''1.0.0'' ''>=1.40'']"
    and ui: "chc_ChartEntries sample_index ''ui'' = Some [sample_chart ''1.9.0'' ''1.9.0'' [], sample_chart ''2.0.0'' ''2.0.0'' ''>=1.40'', sample_chart ''1.10.0'' ''1.10.0'' []]"
    by (simp_all add: sample_index_def)
  note new' = latest_chart [OF _ cat _ new] and ui' = latest_chart [OF _ cat _ ui]
  have "findChartAtVersion cat ''next'' [] = Panics" using new' sup by (auto simp: insert_sort_sorts)
  moreover obtain c where c: "findChartAtVersion cat ''ui'' [] = Returns (Inr c)"
    using ui' sup by (cases "findChartAtVersion cat ''ui'' []" rule: outcome.exhaust)
      (auto simp: insert_sort_sorts intro: sum.exhaust)
  moreover have "cm_Version c = ''1.10.0''"
  proof -
    have less: "app_key (sample_chart ''1.9.0'' ''1.9.0'' []) < app_key (sample_chart ''1.10.0'' ''1.10.0'' [])" by code_simp
    from ui' c have "c \<in> {sample_chart ''1.9.0'' ''1.9.0'' [], sample_chart ''2.0.0'' ''2.0.0'' ''>=1.40'', sample_chart ''1.10.0'' ''1.10.0'' []}"
      and "supported (sample_catalogs []) ''1.33.0'' c" and "app_key (sample_chart ''1.10.0'' ''1.10.0'' []) \<le> app_key c"
      using sup by (auto simp: insert_sort_sorts)
    with less sup have "c = sample_chart ''1.10.0'' ''1.10.0'' []" by auto
    then show ?thesis by (simp add: sample_chart_def)
  qed
  ultimately show ?thesis using cat by blast
qed

text \<open>
  C24. A search of an Artifact Hub server that answers page by page returns with every package of the server's list, under each name
  the versions in the server's order; the query of a server whose pages are always full does not return.
\<close>

theorem artifacthub_pages:
  assumes "honest_server ce ((ac_Uri ac)\<lparr>url_Path := url_Path (ac_Uri ac) @ ''/'' @ SearchPath\<rparr>) query packages"
    and "query \<noteq> []" and "endless_server ce'"
  shows "(\<exists>cat ac' s'. artifacthub_GetCharts ce ac query (s, tr) = (Inr (cat, ac'), s', tr)
      \<and> ac_LastArtifacthubSearch ac' = packages
      \<and> (\<forall>name. chc_ChartEntries cat name = (if name \<in> ahp_Name ` set packages
           then Some (map package_meta (filter (\<lambda>p. ahp_Name p = name) packages)) else None)))
    \<and> query_pages ce' uri query' [] 0 s = None"
proof
  let ?uri = "(ac_Uri ac)\<lparr>url_Path := url_Path (ac_Uri ac) @ ''/'' @ SearchPath\<rparr>"
  obtain s' where pages: "query_pages ce ?uri query [] 0 s = Some (Inr packages, s')"
    using query_pages_honest [OF assms(1), of 0 s] by auto
  have "foldl add_package Map.empty packages name = (if name \<in> ahp_Name ` set packages
      then Some (map package_meta (filter (\<lambda>p. ahp_Name p = name) packages)) else None)" for name
    by (auto simp: foldl_add_package filter_empty_conv)
  with pages assms(2) show "\<exists>cat ac' s'. artifacthub_GetCharts ce ac query (s, tr) = (Inr (cat, ac'), s', tr)
      \<and> ac_LastArtifacthubSearch ac' = packages
      \<and> (\<forall>name. chc_ChartEntries cat name = (if name \<in> ahp_Name ` set packages
           then Some (map package_meta (filter (\<lambda>p. ahp_Name p = name) packages)) else None))"
    by (simp add: artifacthub_GetCharts_def wait_for_def ask_def abind_def Let_def)
  show "query_pages ce' uri query' [] 0 s = None" by (rule query_pages_endless [OF assms(3)])
qed

text \<open>A server with 51 packages: two pages.\<close>

definition sample_hub :: "unit catalog_env" where
  "sample_hub = (sample_catalogs [])\<lparr>
     ce_url_Encode := (\<lambda>ps. snd (ps ! 3)),
     ce_HTTPGet := (\<lambda>u s. (Inr u, s)),
     ce_UnmarshalPackages := (\<lambda>u. Inr (take 50 (drop (nat_of_digits u) (replicate 51 sample_package))))\<rparr>"

definition sample_hub_connection :: ArtifacthubConnection where
  "sample_hub_connection = \<lparr>ac_Kubeconfig = [], ac_KubeVersion = [], ac_CatalogInfo = zero_CatalogInfo,
     ac_Uri = \<lparr>url_Scheme = [], url_Hostname = [], url_Port = [], url_Path = [], url_RawQuery = []\<rparr>,
     ac_LastSearch = None, ac_LastArtifacthubSearch = []\<rparr>"

theorem artifacthub_pages_witness:
  "(\<exists>cat ac'. artifacthub_GetCharts sample_hub sample_hub_connection ''ui'' ((), []) = (Inr (cat, ac'), (), [])
     \<and> length (ac_LastArtifacthubSearch ac') = 51)
   \<and> query_pages (sample_catalogs (replicate 50 sample_package)) (ac_Uri sample_hub_connection) ''ui'' [] 0 () = None"
proof -
  have "honest_server sample_hub uri ''ui'' (replicate 51 sample_package)" for uri
    by (simp add: honest_server_def sample_hub_def sample_catalogs_def page_url_def nat_of_digits_format page_limit_def)
  moreover have "endless_server (sample_catalogs (replicate 50 sample_package))"
    by (simp add: endless_server_def page_limit_def)
  ultimately show ?thesis
    using artifacthub_pages [where ce = sample_hub and ce' = "sample_catalogs (replicate 50 sample_package)" and query = "''ui''"
        and ac = sample_hub_connection and packages = "replicate 51 sample_package" and s = "()" and tr = "[]"
        and uri = "ac_Uri sample_hub_connection" and query' = "''ui''"]
    by fastforce
qed

text \<open>
  After a search the connection offers what the search showed: the catalog has only names that match the pattern, and on a Helm
  connection getting a chart that is not in it fails without a request, also if the repository has it.
\<close>

theorem search_limits_connection:
  assumes "Search ce opt w = (Inr (Returns (cat, cc)), w')"
  shows "(sro_Pattern opt \<noteq> [] \<longrightarrow> (\<exists>re. ce_Regexp ce (sro_Pattern opt) = Inr re \<and> (\<forall>key \<in> dom (chc_ChartEntries cat). re key)))
    \<and> (\<forall>hc chart version w. cc = HelmConn hc \<longrightarrow> chc_ChartEntries cat chart = None \<longrightarrow>
         GetChart ce cc chart version w = (Inr (Returns (Inl (''application '' @ chart @ '' not found in catalog'')), cc), w))"
proof
  obtain cat0 cc0 where shared: "filterCharts ce cat0 (sro_Pattern opt) = Returns cat" "cc = share_catalog cat cc0"
    by (rule Search_shares [OF assms])
  from filterCharts_keeps [OF shared(1)]
  show "sro_Pattern opt \<noteq> [] \<longrightarrow> (\<exists>re. ce_Regexp ce (sro_Pattern opt) = Inr re \<and> (\<forall>key \<in> dom (chc_ChartEntries cat). re key))"
    by (metis domIff)
  show "\<forall>hc chart version w. cc = HelmConn hc \<longrightarrow> chc_ChartEntries cat chart = None \<longrightarrow>
         GetChart ce cc chart version w = (Inr (Returns (Inl (''application '' @ chart @ '' not found in catalog'')), cc), w)"
  proof (intro allI impI)
    fix hc chart version w
    assume cc: "cc = HelmConn hc" and missing: "chc_ChartEntries cat chart = None"
    from cc shared(2) have "hc_LastSearch hc = Some cat"
      by (cases cc0) (auto simp: share_catalog_def)
    with cc missing show "GetChart ce cc chart version w = (Inr (Returns (Inl (''application '' @ chart @ '' not found in catalog'')), cc), w)"
      by (simp add: GetChart_def helm_GetChart_def download_def findChartAtVersion_def abind_def atry_def)
  qed
qed

definition sample_search :: SearchOptions where
  "sample_search = \<lparr>sro_KubeConfigPath = [], sro_CatalogName = ''mine'', sro_Pattern = ''ui''\<rparr>"

text \<open>Searching the one catalog of the sample cluster.\<close>

lemma sample_service_info:
  "cti_CatalogName (service_info sample_service) = ''mine''" "cti_Protocol (service_info sample_service) = ''helm''"
  "cti_Uri (service_info sample_service) = ''http://c''" "cti_Type (service_info sample_service) = ''ExternalName''"
  by (simp_all add: service_info_def sample_service_def annotation_def OCNECatalogAnnotationKey_def OCNECatalogURIKey_def OCNECatalogProtoKey_def)

definition sample_helm_conn :: HelmConnection where
  "sample_helm_conn = \<lparr>hc_Kubeconfig = [], hc_KubeVersion = ''1.33.0'', hc_CatalogInfo = service_info sample_service,
     hc_Uri = ''http://c'', hc_LastSearch = None\<rparr>"

lemma sample_connection:
  "getCatalogService (sample_catalogs page) sample_search w = (Inr (service_info sample_service), w)"
  "NewConnection (sample_catalogs page) [] (service_info sample_service) w = (Inr (HelmConn sample_helm_conn), w)"
proof -
  have fields: "ce_GetKubeClient (sample_catalogs page) k s = (Inr (), s)" "ce_ListServices (sample_catalogs page) k s = (Inr [sample_service], s)"
    "ce_ServerVersion (sample_catalogs page) k s = (Inr (''1'', ''33''), s)" for k s
    by (simp_all add: sample_catalogs_def)
  show "getCatalogService (sample_catalogs page) sample_search w = (Inr (service_info sample_service), w)"
    by (cases w) (simp add: getCatalogService_def Ls_def FindServicesByLabelKey_def abind_def ask_def fields sample_service_info
        sample_search_def EmbeddedCatalog_def)
  show "NewConnection (sample_catalogs page) [] (service_info sample_service) w = (Inr (HelmConn sample_helm_conn), w)"
    by (cases w) (simp add: NewConnection_def NewHelmConnection_def getCatalogURI_def getKubeVersion_def sample_service_info sample_helm_conn_def
        EmbeddedCatalog_def HelmProtocol_def ServiceTypeExternalName_def VersionInfoToString_def abind_def ask_def fields)
qed

theorem search_limits_connection_witness:
  "\<exists>cat hc. Search (sample_catalogs []) sample_search ((), []) = (Inr (Returns (cat, HelmConn hc)), (), [])
     \<and> GetChart (sample_catalogs []) (HelmConn hc) ''next'' ''1.0.0'' ((), [])
         = (Inr (Returns (Inl ''application next not found in catalog''), HelmConn hc), (), [])"
proof -
  have "is_ok (NewVersion ''1.33.0'')" by code_simp
  then obtain cat0 where cat0: "fromHelmYAML (sample_catalogs []) [] ''1.33.0'' = Inr cat0"
    by (auto simp: fromHelmYAML_def is_ok_iff)
  define cat where "cat = cat0\<lparr>chc_RawJSON := []\<rparr>"
  have charts: "GetCharts (sample_catalogs []) (HelmConn sample_helm_conn) q w = (Inr (cat, HelmConn (sample_helm_conn\<lparr>hc_LastSearch := Some cat\<rparr>)), w)" for q w
    using cat0 by (cases w) (simp add: GetCharts_def helm_GetCharts_def abind_def ask_def Let_def cat_def sample_helm_conn_def)
  have opts: "sro_Pattern sample_search = ''ui''" "sro_CatalogName sample_search \<noteq> []" "sro_KubeConfigPath sample_search = []"
    by (simp_all add: sample_search_def)
  have re: "ce_Regexp (sample_catalogs []) p = Inr (\<lambda>s. go_contains s p)" for p by (simp add: sample_catalogs_def)
  have valid: "validateOptions (sample_catalogs []) sample_search = Inr ()" by (simp add: validateOptions_def re)
  define cat' where "cat' = cat\<lparr>chc_ChartEntries := (\<lambda>key. if go_contains key ''ui'' then chc_ChartEntries cat key else None)\<rparr>"
  have filtered: "filterCharts (sample_catalogs []) cat ''ui'' = Returns cat'"
    by (simp add: filterCharts_def re cat'_def)
  have run: "Search (sample_catalogs []) sample_search ((), [])
      = (Inr (Returns (cat', HelmConn (sample_helm_conn\<lparr>hc_LastSearch := Some cat'\<rparr>))), (), [])"
    by (simp add: Search_def Let_def valid opts sample_connection abind_def charts filtered share_catalog_def)
  have "chc_ChartEntries cat' ''next'' = None"
  proof -
    have "\<not> go_contains ''next'' ''ui''" by code_simp
    then show ?thesis by (simp add: cat'_def)
  qed
  with search_limits_connection [OF run]
  have "GetChart (sample_catalogs []) (HelmConn (sample_helm_conn\<lparr>hc_LastSearch := Some cat'\<rparr>)) ''next'' ''1.0.0'' ((), [])
      = (Inr (Returns (Inl (''application '' @ ''next'' @ '' not found in catalog'')), HelmConn (sample_helm_conn\<lparr>hc_LastSearch := Some cat'\<rparr>)), (), [])"
    by blast
  with run show ?thesis by (intro exI [of _ cat'] exI [of _ "sample_helm_conn\<lparr>hc_LastSearch := Some cat'\<rparr>"]) simp
qed

definition url_port :: "URL \<Rightarrow> string" where
  "url_port u = (if url_Port u \<noteq> [] then url_Port u else if url_Scheme u = ''http'' then ''80'' else ''443'')"

text \<open>
  Adding a catalog creates the service that listing the catalogs reads back with the same name, address and protocol, and that
  needs no tunnel; the port is what is left of the URL's in 32 bits.  A port that does not fit into 64 bits ends the command with
  success, without a catalog.
\<close>

theorem catalog_Add_reads_back:
  assumes "catalog_Add ce kubeconfig name namespace uri protocol friendlyName (s, tr) = (Inr (), s', tr')"
  shows "\<exists>u. ce_url_Parse ce uri = Inr u \<and>
    (case atoi (url_port u) of
       None \<Rightarrow> tr' = tr
     | Some n \<Rightarrow> (\<exists>svc ci. tr' = tr @ [EvCreateService svc] \<and> OCNECatalogLabelKey \<in> dom (svc_Labels svc) \<and> service_info svc = ci
         \<and> cti_ServiceNsn ci = \<lparr>nsn_Namespace = namespace, nsn_Name = name\<rparr> \<and> cti_CatalogName ci = friendlyName
         \<and> cti_Protocol ci = protocol \<and> cti_Scheme ci = url_Scheme u \<and> cti_Hostname ci = url_Hostname u
         \<and> sint (cti_Port ci) = (n + 2 ^ 31) mod 2 ^ 32 - 2 ^ 31
         \<and> (\<forall>k w. getCatalogURI ce k ci (w :: 's \<times> 'e list) = (Inr uri, w))))"
proof -
  have low: "sint (word_of_int n :: 32 word) = (n + 2 ^ 31) mod 2 ^ 32 - 2 ^ 31" for n
  proof -
    have "sint (word_of_int n :: 32 word) = signed_take_bit 31 n" by transfer simp
    then show ?thesis by (simp add: signed_take_bit_eq_take_bit_shift take_bit_eq_mod)
  qed
  from assms obtain u where u: "ce_url_Parse ce uri = Inr u"
    by (cases "ce_url_Parse ce uri") (auto simp: catalog_Add_def abind_def split: prod.splits sum.splits)
  show ?thesis
  proof (cases "atoi (url_port u)")
    case None
    with assms u show ?thesis
      by (auto simp: catalog_Add_def abind_def ask_def url_port_def Let_def split: prod.splits sum.splits if_splits)
  next
    case (Some n)
    with assms u show ?thesis
      by (intro exI [of _ u])
        (auto simp: catalog_Add_def abind_def ask_def url_port_def Let_def perform_def service_info_def annotation_def low getCatalogURI_def
          ServiceTypeExternalName_def OCNECatalogAnnotationKey_def OCNECatalogURIKey_def OCNECatalogProtoKey_def
          split: prod.splits sum.splits if_splits)
  qed
qed

text \<open>The port 4294967739 of the sample server is 443 in 32 bits.\<close>

theorem catalog_Add_reads_back_witness:
  "\<exists>svc. catalog_Add (sample_catalogs []) [] ''cat'' ''ns'' ''https://h:4294967739'' ''helm'' ''mine'' ((), [])
     = (Inr (), (), [EvCreateService svc]) \<and> sint (cti_Port (service_info svc)) = 443"
proof -
  let ?u = "\<lparr>url_Scheme = ''https'', url_Hostname = ''h'', url_Port = ''4294967739'', url_Path = [], url_RawQuery = []\<rparr>"
  have url: "ce_url_Parse (sample_catalogs []) x = Inr ?u" for x
    by (simp add: sample_catalogs_def)
  have at: "atoi ''4294967739'' = Some 4294967739"
    by (simp add: atoi_def nat_of_digits_def digit_val_def is_digit_def)
  have client: "ce_GetKubeClient (sample_catalogs []) k s = (Inr (), s)" "ce_CreateService (sample_catalogs []) svc s = (Inr (), s)" for k s svc
    by (simp_all add: sample_catalogs_def)
  have "\<exists>tr'. catalog_Add (sample_catalogs []) [] ''cat'' ''ns'' ''https://h:4294967739'' ''helm'' ''mine'' ((), []) = (Inr (), (), tr')"
    by (simp add: catalog_Add_def abind_def ask_def perform_def url at client Let_def del: word_of_int_numeral)
  then obtain tr' where run: "catalog_Add (sample_catalogs []) [] ''cat'' ''ns'' ''https://h:4294967739'' ''helm'' ''mine'' ((), []) = (Inr (), (), tr')"
    by blast
  have port: "url_port ?u = ''4294967739''" by (simp add: url_port_def)
  have "\<exists>svc. tr' = [EvCreateService svc] \<and> sint (cti_Port (service_info svc)) = 443"
    using catalog_Add_reads_back [OF run] unfolding url sum.inject
    by (elim exE conjE, hypsubst, unfold port at option.case, elim exE conjE, hypsubst, intro exI conjI, simp_all)
  with run show ?thesis by simp
qed

text \<open>
  The embedded catalog gives a version of a chart exactly if one file has a name that starts with the chart's and the version; a second
  file of such a name, as of a later version that goes on from this one, makes it an error.
\<close>

theorem embedded_chart_by_prefix:
  assumes "distinct (map fst (ce_Embedded ce))"
  shows "GetChartAtVersion ce name version = Inr bytes \<longleftrightarrow>
    (\<exists>f. filter (\<lambda>(g, _). has_prefix g (name @ ''-'' @ version)) (ce_Embedded ce) = [(f, bytes)])"
proof -
  let ?fs = "filter (\<lambda>(g, _). has_prefix g (name @ ''-'' @ version)) (ce_Embedded ce)"
  have cands: "FindCandidates ce (name @ ''-'' @ version) = map (\<lambda>(g, _). ''charts/'' @ g) ?fs"
  proof -
    have "concat (map (\<lambda>(g, b). if P g then [h g] else []) xs) = map (\<lambda>(g, _). h g) (filter (\<lambda>(g, _). P g) xs)"
      for P and h :: "string \<Rightarrow> string" and xs :: "(string \<times> string) list"
      by (induction xs) auto
    then show ?thesis unfolding FindCandidates_def .
  qed
  have read: "readerFromPath ce (''charts/'' @ f) = Inr b" if "(f, b) \<in> set (ce_Embedded ce)" for f b
  proof -
    let ?m = "map (\<lambda>(g, b). (''charts/'' @ g, b)) (ce_Embedded ce)"
    have "distinct (map fst ?m)"
      using assms by (simp add: comp_def case_prod_beta distinct_map inj_on_def)
    moreover have "(''charts/'' @ f, b) \<in> set ?m" using that by force
    ultimately have "map_of ?m (''charts/'' @ f) = Some b" by (rule map_of_is_SomeI)
    then show ?thesis by (simp add: readerFromPath_def)
  qed
  show ?thesis
  proof (cases ?fs)
    case Nil
    then show ?thesis by (simp add: GetChartAtVersion_def cands [simplified])
  next
    case (Cons fb rest)
    obtain f b where fb: "fb = (f, b)" by (cases fb)
    have "(f, b) \<in> set ?fs" unfolding Cons fb by simp
    then have "(f, b) \<in> set (ce_Embedded ce)" by simp
    with Cons fb read show ?thesis by (cases rest) (auto simp: GetChartAtVersion_def cands [simplified])
  qed
qed

theorem embedded_chart_by_prefix_witness:
  "GetChartAtVersion (sample_catalogs []) ''ui'' ''2.0.0-1'' = Inr ''b'' \<and> \<not> is_ok (GetChartAtVersion (sample_catalogs []) ''ui'' ''2.0.0'')"
proof -
  have d: "distinct (map fst (ce_Embedded (sample_catalogs [])))" by simp
  have "GetChartAtVersion (sample_catalogs []) ''ui'' ''2.0.0'' \<noteq> Inr bytes" for bytes
    using embedded_chart_by_prefix [OF d, of "''ui''" "''2.0.0''" bytes] by simp
  then have "\<not> is_ok (GetChartAtVersion (sample_catalogs []) ''ui'' ''2.0.0'')" by (simp add: is_ok_iff)
  moreover have "GetChartAtVersion (sample_catalogs []) ''ui'' ''2.0.0-1'' = Inr ''b''"
    using embedded_chart_by_prefix [OF d, of "''ui''" "''2.0.0-1''" "''b''"] by simp
  ultimately show ?thesis by blast
qed

end
