(* ===== verification/K8s_Yaml.thy ===== *)
theory K8s_Yaml
  imports Go_Values
begin

text \<open>
  Reading several objects from one text of YAML (\<^verbatim>\<open>pkg/k8s/yaml.go\<close>).  The decoder of one document is a parameter: it
  gives an error, or the object, or \<open>None\<close> for a document that holds nothing.  The specification
  splits the lines into groups at the separators and decodes each group.
\<close>

type_synonym yaml_object = "string \<rightharpoonup> gval"
type_synonym object_decoder = "string \<Rightarrow> yaml_object option result"

text \<open>The lines as \<^verbatim>\<open>ReadBytes\<close> gives them: each with its newline, and the rest after the last one, which comes with the end of the file.\<close>

definition read_lines :: "string \<Rightarrow> string list" where
  "read_lines s = (let ls = go_split s [CHR 10] in map (\<lambda>l. l @ [CHR 10]) (butlast ls) @ [last ls])"

definition flushBuffer :: "object_decoder \<Rightarrow> string \<Rightarrow> yaml_object list \<Rightarrow> yaml_object list result" where
  "flushBuffer dec buffer objs =
     (if buffer = [] then Inr objs
      else rbind (dec buffer) (\<lambda>obj. Inr (case obj of None \<Rightarrow> objs | Some ob \<Rightarrow> objs @ [ob])))"

definition ignored_line :: "string \<Rightarrow> bool" where
  "ignored_line line = (has_prefix line ''#'' \<or> trim_space line = [])"

fun unmarshall_lines :: "object_decoder \<Rightarrow> string list \<Rightarrow> string \<Rightarrow> yaml_object list \<Rightarrow> yaml_object list \<times> gerror option" where
  "unmarshall_lines dec [] buffer objs =
     (case flushBuffer dec buffer objs of Inl err \<Rightarrow> (objs, Some err) | Inr objs' \<Rightarrow> (objs', None))"
| "unmarshall_lines dec (line # ls) buffer objs =
     (if has_prefix line ''---'' then
        (case flushBuffer dec buffer objs of Inl err \<Rightarrow> (objs, Some err) | Inr objs' \<Rightarrow> unmarshall_lines dec ls [] objs')
      else unmarshall_lines dec ls (if ignored_line line then buffer else buffer @ line) objs)"

definition Unmarshall :: "object_decoder \<Rightarrow> string \<Rightarrow> yaml_object list \<times> gerror option" where
  "Unmarshall dec text = unmarshall_lines dec (read_lines text) [] []"

definition ErrorNotExist :: gerror where "ErrorNotExist = ''does not exist''"

definition FindIn :: "object_decoder \<Rightarrow> string \<Rightarrow> (yaml_object \<Rightarrow> bool) \<Rightarrow> yaml_object result" where
  "FindIn dec haystack test =
     (case Unmarshall dec haystack of
        (_, Some err) \<Rightarrow> Inl err
      | (candidates, None) \<Rightarrow> (case find test candidates of None \<Rightarrow> Inl ErrorNotExist | Some c \<Rightarrow> Inr c))"

definition FindAll :: "object_decoder \<Rightarrow> string \<Rightarrow> (yaml_object \<Rightarrow> bool) \<Rightarrow> yaml_object list result" where
  "FindAll dec haystack test =
     (case Unmarshall dec haystack of (_, Some err) \<Rightarrow> Inl err | (candidates, None) \<Rightarrow> Inr (filter test candidates))"

section \<open>Specification\<close>

text \<open>The groups of elements between separators.\<close>

fun groups :: "('a \<Rightarrow> bool) \<Rightarrow> 'a list \<Rightarrow> 'a list list" where
  "groups sep [] = [[]]"
| "groups sep (x # xs) = (if sep x then [] # groups sep xs else (x # hd (groups sep xs)) # tl (groups sep xs))"

definition documents :: "string \<Rightarrow> string list" where
  "documents text = map (\<lambda>g. concat (filter (\<lambda>l. \<not> ignored_line l) g)) (groups (\<lambda>l. has_prefix l ''---'') (read_lines text))"

fun decode_all :: "object_decoder \<Rightarrow> string list \<Rightarrow> yaml_object list \<times> gerror option" where
  "decode_all dec [] = ([], None)"
| "decode_all dec (d # ds) =
     (if d = [] then decode_all dec ds
      else (case dec d of
              Inl err \<Rightarrow> ([], Some err)
            | Inr obj \<Rightarrow> (let (objs, err) = decode_all dec ds in ((case obj of None \<Rightarrow> [] | Some ob \<Rightarrow> [ob]) @ objs, err))))"

lemma groups_nonempty [simp]: "groups sep xs \<noteq> []"
  by (induction xs) auto

definition with_objects :: "yaml_object list \<Rightarrow> yaml_object list \<times> gerror option \<Rightarrow> yaml_object list \<times> gerror option" where
  "with_objects objs r = (objs @ fst r, snd r)"

lemma decode_after_flush:
  "(case flushBuffer dec buffer objs of Inl err \<Rightarrow> (objs, Some err) | Inr objs' \<Rightarrow> with_objects objs' (decode_all dec ds))
     = with_objects objs (decode_all dec (buffer # ds))"
  by (auto simp: flushBuffer_def with_objects_def split: sum.splits option.splits prod.splits)

lemma unmarshall_lines_groups:
  "unmarshall_lines dec ls buffer objs = with_objects objs (decode_all dec (
     let gs = map (\<lambda>g. concat (filter (\<lambda>l. \<not> ignored_line l) g)) (groups (\<lambda>l. has_prefix l ''---'') ls)
     in (buffer @ hd gs) # tl gs))"
proof (induction ls arbitrary: buffer objs)
  case Nil
  show ?case by (cases "buffer = []") (auto simp: with_objects_def Let_def flushBuffer_def split: sum.split option.split)
next
  case (Cons l ls)
  let ?gs = "map (\<lambda>g. concat (filter (\<lambda>l. \<not> ignored_line l) g)) (groups (\<lambda>l. has_prefix l ''---'') ls)"
  have gs: "?gs = hd ?gs # tl ?gs" by (rule list.collapse [symmetric]) simp
  show ?case
  proof (cases "has_prefix l ''---''")
    case True
    have "unmarshall_lines dec (l # ls) buffer objs
        = (case flushBuffer dec buffer objs of Inl err \<Rightarrow> (objs, Some err) | Inr objs' \<Rightarrow> with_objects objs' (decode_all dec ?gs))"
      using True Cons.IH [of "[]"] gs by (simp add: Let_def split: sum.split)
    also have "\<dots> = with_objects objs (decode_all dec (buffer # ?gs))" by (rule decode_after_flush)
    finally show ?thesis using True by (simp add: Let_def)
  next
    case False
    then show ?thesis using Cons.IH by (simp add: Let_def hd_map map_tl)
  qed
qed

lemma Unmarshall_documents: "Unmarshall dec text = decode_all dec (documents text)"
proof -
  let ?gs = "documents text"
  have "?gs = hd ?gs # tl ?gs" by (rule list.collapse [symmetric]) (simp add: documents_def)
  then show ?thesis
    unfolding Unmarshall_def unmarshall_lines_groups Let_def documents_def [symmetric] by (simp add: with_objects_def)
qed

section \<open>Properties\<close>

text \<open>
  C22. Reading the objects of a text decodes the documents between the separator lines, in their order and without comments and
  blank lines, up to the first that fails; finding one object gives the first of all that are found.
\<close>

theorem Unmarshall_reads_documents:
  "Unmarshall dec text = decode_all dec (documents text)
   \<and> FindIn dec text test = rbind (FindAll dec text test) (\<lambda>found. case found of [] \<Rightarrow> Inl ErrorNotExist | c # _ \<Rightarrow> Inr c)"
proof
  show "Unmarshall dec text = decode_all dec (documents text)" by (rule Unmarshall_documents)
  have "find test xs = (case filter test xs of [] \<Rightarrow> None | c # _ \<Rightarrow> Some c)" for xs
    by (induction xs) auto
  then show "FindIn dec text test = rbind (FindAll dec text test) (\<lambda>found. case found of [] \<Rightarrow> Inl ErrorNotExist | c # _ \<Rightarrow> Inr c)"
    by (cases "Unmarshall dec text"; cases "snd (Unmarshall dec text)")
      (simp_all add: FindIn_def FindAll_def split: list.split)
qed

end
