(* ===== verification/Catalog_Mirror.thy ===== *)
theory Catalog_Mirror
  imports Catalogs Helm_Client K8s_Yaml Image_Reference Kube_Api
begin

text \<open>
  Mirroring a catalog (\<^verbatim>\<open>pkg/commands/catalog/mirror\<close>) and copying lists of images (\<^verbatim>\<open>pkg/commands/catalog/copy\<close>): which
  charts are chosen, the values they are rendered with, the images that are found in what was rendered, and what happens to them.

  A Go map is a partial function; the order in which a loop runs over one is the parameter \<open>me_order\<close>, which is given the set
  of keys.  The connection of the catalog is threaded through the loop, since its calls change it.
\<close>

section \<open>Data\<close>

record CopyOptions =
  cpo_FilePath :: string
  cpo_Destination :: string
  cpo_DestinationFilePath :: string
  cpo_Images :: "string list option"

record ChartWithOverrides =
  cwo_Chart :: ChartMeta
  cwo_Overrides :: "HelmOverrides list"

record MirrorOptions =
  mo_KubeConfigPath :: string
  mo_CatalogName :: string
  mo_DestinationURI :: string
  mo_Push :: bool
  mo_ClusterConfig :: ClusterConfig
  mo_DefaultRegistry :: string
  mo_Download :: bool
  mo_Archive :: string

text \<open>The image names in a pod specification.\<close>

record PodSpecImages =
  ps_Containers :: "string list"
  ps_InitContainers :: "string list"
  ps_EphemeralContainers :: "string list"

datatype mirror_event =
    EvPrint string
  | EvImage copy_event
  | EvMakeTemp
  | EvRemoveArchive string
  | EvArchive string string
  | EvRemoveTemp string
  | EvCreateList string
  | EvWriteList string

record ('s, 'h) mirror_env =
  me_catalog :: "'s catalog_env"
  me_helm :: "('s, 'h) helm_lib"
  me_image :: image_lib
  me_copy :: "'s copy_lib"
  me_RefString :: "docker_ref \<Rightarrow> string"
  me_CreateKubeInfo :: "string \<Rightarrow> 's \<Rightarrow> unit result \<times> 's"
  me_MarshalConfig :: "gval \<Rightarrow> string result"
  me_DecodeObject :: object_decoder
  me_PodSpecOf :: "string \<Rightarrow> yaml_object \<Rightarrow> PodSpecImages result"
  me_order :: "string set \<Rightarrow> string list"
  me_MkdirTemp :: "'s \<Rightarrow> string result \<times> 's"
  me_Remove :: "string \<Rightarrow> 's \<Rightarrow> unit result \<times> 's"
  me_RemoveAll :: "string \<Rightarrow> 's \<Rightarrow> unit result \<times> 's"
  me_CreateReportArchive :: "string \<Rightarrow> string \<Rightarrow> 's \<Rightarrow> unit result \<times> 's"
  me_ScanFile :: "string \<Rightarrow> 's \<Rightarrow> (string list \<times> gerror option) result \<times> 's"
  me_CreateFile :: "string \<Rightarrow> 's \<Rightarrow> unit result \<times> 's"
  me_WriteString :: "string \<Rightarrow> 's \<Rightarrow> unit result \<times> 's"
  me_Now :: "'s \<Rightarrow> int"
  me_Sleep :: "int \<Rightarrow> 's \<Rightarrow> 's"

section \<open>Choosing charts\<close>

definition CatalogMirror :: string where "CatalogMirror = ''ocne.oracle.com/mirror''"

definition skip_chart :: "ChartMeta \<Rightarrow> bool" where
  "skip_chart cm = (cm_Annotations cm CatalogMirror = Some ''false'')"

text \<open>The loop that looks for the chart with the highest version; those whose version does not parse are passed over.\<close>

fun max_chart :: "(Version \<times> ChartMeta) option \<Rightarrow> ChartMeta list \<Rightarrow> (Version \<times> ChartMeta) option" where
  "max_chart best [] = best"
| "max_chart best (chart # charts) =
     (case NewVersion (cm_Version chart) of
        Inl _ \<Rightarrow> max_chart best charts
      | Inr chartSemver \<Rightarrow>
          (case best of
             None \<Rightarrow> max_chart (Some (chartSemver, chart)) charts
           | Some (maxSemver, maxChart) \<Rightarrow>
               (if ver_GreaterThan chartSemver maxSemver then max_chart (Some (chartSemver, chart)) charts
                else max_chart (Some (maxSemver, maxChart)) charts)))"

text \<open>The chart for one application of the cluster's configuration; \<open>toIterate[app.Name][0]\<close> panics on an empty list.\<close>

definition first_chart :: "ChartMeta list \<Rightarrow> ChartMeta outcome" where
  "first_chart charts = (case charts of [] \<Rightarrow> Panics | c # _ \<Rightarrow> Returns c)"

definition chosen_chart :: "Application \<Rightarrow> ChartMeta list \<Rightarrow> ChartMeta outcome" where
  "chosen_chart app charts =
     (if app_Version app = [] then
        (case max_chart None charts of None \<Rightarrow> first_chart charts | Some (_, maxChart) \<Rightarrow> Returns maxChart)
      else (case find (\<lambda>chart. cm_Version chart = app_Version app) charts of
              None \<Rightarrow> first_chart charts
            | Some chart \<Rightarrow> Returns chart))"

definition append_at :: "(string \<rightharpoonup> 'a list) \<Rightarrow> string \<Rightarrow> 'a \<Rightarrow> (string \<rightharpoonup> 'a list)" where
  "append_at m k x = m(k \<mapsto> (case m k of None \<Rightarrow> [] | Some xs \<Rightarrow> xs) @ [x])"

fun filter_apps ::
  "(string \<rightharpoonup> ChartMeta list) \<Rightarrow> Application list \<Rightarrow> string \<Rightarrow> (string \<rightharpoonup> ChartMeta list) \<Rightarrow> (string \<rightharpoonup> ChartMeta list) outcome" where
  "filter_apps toIterate [] catalogName toReturn = Returns toReturn"
| "filter_apps toIterate (app # search) catalogName toReturn =
     (if trim_space (app_Catalog app) \<noteq> trim_space catalogName then filter_apps toIterate search catalogName toReturn
      else (case toIterate (app_Name app) of
              None \<Rightarrow> filter_apps toIterate search catalogName toReturn
            | Some charts \<Rightarrow>
                obind (chosen_chart app charts) (\<lambda>toAdd.
                  if skip_chart toAdd then filter_apps toIterate search catalogName toReturn
                  else filter_apps toIterate search catalogName (append_at toReturn (app_Name app) toAdd))))"

definition filter_charts ::
  "(string \<rightharpoonup> ChartMeta list) \<Rightarrow> Application list \<Rightarrow> string \<Rightarrow> (string \<rightharpoonup> ChartMeta list) outcome" where
  "filter_charts toIterate search catalogName =
     (if search = [] then
        Returns (\<lambda>name. case toIterate name of
          None \<Rightarrow> None
        | Some app \<Rightarrow> (let charts = filter (\<lambda>chart. \<not> skip_chart chart) app in if charts = [] then None else Some charts))
      else filter_apps toIterate search catalogName Map.empty)"

section \<open>Values\<close>

definition appsWithRequiredValues :: "string \<rightharpoonup> (string \<rightharpoonup> string)" where
  "appsWithRequiredValues = [''oci-capi'' \<mapsto> [
     ''authConfig.fingerprint'' \<mapsto> ''placeholder-fingerprint'',
     ''authConfig.key'' \<mapsto> ''placeholder-key'',
     ''authConfig.passphrase'' \<mapsto> ''placeholder-password'',
     ''authConfig.region'' \<mapsto> ''us-ashburn-1'',
     ''authConfig.tenancy'' \<mapsto> ''placeholder-tenancy'',
     ''authConfig.useInstancePrincipal'' \<mapsto> ''placeholder-principal'',
     ''authConfig.user'' \<mapsto> ''ocne-user'']]"

definition set_string :: "('s, 'h) mirror_env \<Rightarrow> (string \<rightharpoonup> string) option \<Rightarrow> string" where
  "set_string me setOverridesMap =
     (case setOverridesMap of
        None \<Rightarrow> []
      | Some m \<Rightarrow> trim_suffix (concat [key @ ''='' @ (case m key of None \<Rightarrow> [] | Some val \<Rightarrow> val) @ '',''. key \<leftarrow> me_order me (dom m)]) '','')"

text \<open>A configuration that cannot be encoded leaves the file override alone; the error is logged by the caller, which goes on.\<close>

definition buildOverride ::
  "('s, 'h) mirror_env \<Rightarrow> ChartMeta \<Rightarrow> gval \<Rightarrow> string \<Rightarrow> (string \<rightharpoonup> string) option \<Rightarrow> ChartWithOverrides \<times> gerror option" where
  "buildOverride me chart confInterface configFrom setOverridesMap =
     (let configFrom = trim_right configFrom [CHR 10];
          fileOverride = zero_HelmOverrides\<lparr>ho_FileOverride := configFrom\<rparr>
      in case (if is_nil confInterface then Inr [] else rbind (me_MarshalConfig me confInterface) (\<lambda>y. Inr (trim_right y [CHR 10]))) of
           Inl err \<Rightarrow> (\<lparr>cwo_Chart = chart, cwo_Overrides = [fileOverride]\<rparr>, Some err)
         | Inr configVal \<Rightarrow>
             (\<lparr>cwo_Chart = chart, cwo_Overrides = [fileOverride, zero_HelmOverrides\<lparr>ho_LiteralOverride := configVal\<rparr>,
                zero_HelmOverrides\<lparr>ho_SetOverrides := set_string me setOverridesMap\<rparr>]\<rparr>, None))"

fun override_apps ::
  "('s, 'h) mirror_env \<Rightarrow> (string \<rightharpoonup> ChartMeta list) \<Rightarrow> Application list \<Rightarrow> (string \<rightharpoonup> ChartWithOverrides list)
     \<Rightarrow> (string \<rightharpoonup> ChartWithOverrides list)" where
  "override_apps me toIterate [] toReturn = toReturn"
| "override_apps me toIterate (app # apps) toReturn =
     override_apps me toIterate apps
       (foldl (\<lambda>m chart. append_at m (app_Name app)
                 (fst (buildOverride me chart (app_Config app) (app_ConfigFrom app) (appsWithRequiredValues (app_Name app)))))
          toReturn (case toIterate (app_Name app) of None \<Rightarrow> [] | Some charts \<Rightarrow> charts))"

definition addOverrides ::
  "('s, 'h) mirror_env \<Rightarrow> (string \<rightharpoonup> ChartMeta list) \<Rightarrow> Application list \<Rightarrow> (string \<rightharpoonup> ChartWithOverrides list)" where
  "addOverrides me toIterate apps =
     (if apps = [] then
        (\<lambda>key. case toIterate key of
           None \<Rightarrow> None
         | Some app \<Rightarrow> (if app = [] then None
                        else Some (map (\<lambda>chart. fst (buildOverride me chart GNil [] (appsWithRequiredValues key))) app)))
      else override_apps me toIterate apps Map.empty)"

section \<open>Images in rendered charts\<close>

definition workload_kinds :: "string list" where
  "workload_kinds = [''pod'', ''podtemplate'', ''deployment'', ''replicationcontroller'', ''replicaset'', ''statefulset'',
     ''daemonset'', ''job'', ''cronjob'']"

definition object_kind :: "yaml_object \<Rightarrow> string" where
  "object_kind ob = (case nested_string ob [''kind''] of Inr (s, True) \<Rightarrow> s | _ \<Rightarrow> [])"

definition spec_images :: "PodSpecImages \<Rightarrow> string list" where
  "spec_images spec = ps_Containers spec @ ps_InitContainers spec @ ps_EphemeralContainers spec"

text \<open>\<open>fromPodSpec\<close> appends the images of a specification to the list of the enclosing function, and returns that list, which the
  caller appends to the list.  Go leaves open whether the caller reads its list before or after the call; its compiler reads plain
  variables after calls, as here.\<close>

definition fromPodSpec :: "string list \<Rightarrow> PodSpecImages \<Rightarrow> string list" where
  "fromPodSpec toReturn spec = (let toReturn = toReturn @ spec_images spec in toReturn @ toReturn)"

fun images_loop :: "('s, 'h) mirror_env \<Rightarrow> yaml_object list \<Rightarrow> string list \<Rightarrow> string list" where
  "images_loop me [] toReturn = toReturn"
| "images_loop me (ob # objects) toReturn =
     (let objectType = to_lower (object_kind ob)
      in if objectType \<in> set workload_kinds
         then (case me_PodSpecOf me objectType ob of
                 Inl _ \<Rightarrow> images_loop me objects toReturn
               | Inr spec \<Rightarrow> images_loop me objects (fromPodSpec toReturn spec))
         else images_loop me objects toReturn)"

definition imagesFromObjects :: "('s, 'h) mirror_env \<Rightarrow> yaml_object list \<Rightarrow> string list" where
  "imagesFromObjects me objects = images_loop me objects []"

text \<open>The submatches of the regular expression for a comment with the label and what follows it up to the next white space.\<close>

definition extraImagesLabel :: string where "extraImagesLabel = ''extra-image''"

function grabExtraImages :: "string \<Rightarrow> string list" where
  "grabExtraImages s =
     (case s of
        [] \<Rightarrow> []
      | c # cs \<Rightarrow>
          (let label = extraImagesLabel @ '':''; t = dropWhile re_space cs; u = dropWhile re_space (drop (length label) t)
           in if c = CHR ''#'' \<and> has_prefix t label
              then takeWhile (\<lambda>d. \<not> re_space d) u # grabExtraImages (dropWhile (\<lambda>d. \<not> re_space d) u)
              else grabExtraImages cs))"
  by pat_completeness auto
termination
proof (relation "measure length", goal_cases)
  case (2 s c cs label t u)
  have "length (dropWhile (\<lambda>d. \<not> re_space d) u) \<le> length u" by (rule length_dropWhile_le)
  also have "\<dots> \<le> length (drop (length label) t)" using 2 by (metis length_dropWhile_le)
  also have "\<dots> \<le> length t" by simp
  also have "\<dots> \<le> length cs" using 2 by (metis length_dropWhile_le)
  finally show ?case using 2 by simp
qed simp_all

declare grabExtraImages.simps [simp del]

definition splitYamls :: "string \<Rightarrow> string list" where
  "splitYamls manifest =
     (let temp = go_split manifest (CHR 10 # ''---'')
      in fst (cut_prefix (hd temp) (''---'' @ [CHR 10])) # tl temp)"

definition unmarshallObjects :: "('s, 'h) mirror_env \<Rightarrow> string list \<Rightarrow> yaml_object list" where
  "unmarshallObjects me listOfYamls =
     concat (map (\<lambda>y. case Unmarshall (me_DecodeObject me) (trim_space y) of (_, Some _) \<Rightarrow> [] | (temp, None) \<Rightarrow> temp) listOfYamls)"

definition manifest_images :: "('s, 'h) mirror_env \<Rightarrow> string \<Rightarrow> string list" where
  "manifest_images me manifest =
     imagesFromObjects me (unmarshallObjects me (splitYamls manifest)) @ grabExtraImages manifest"

text \<open>The images of one chart; a chart that cannot be fetched, read or rendered is skipped.\<close>

definition chart_images ::
  "('s, 'h) mirror_env \<Rightarrow> Version \<Rightarrow> string \<Rightarrow> ChartWithOverrides \<Rightarrow> CatalogConnection
     \<Rightarrow> ('s, 'e, (string list \<times> CatalogConnection) outcome) act" where
  "chart_images me k8sVersion name cwo cc =
     abind (GetChart (me_catalog me) cc name (cm_Version (cwo_Chart cwo))) (\<lambda>(r, cc').
       case r of
         Panics \<Rightarrow> aret Panics
       | Returns (Inl _) \<Rightarrow> pret ([], cc')
       | Returns (Inr chart) \<Rightarrow>
           (case hl_LoadArchive (me_helm me) chart of
              Inl _ \<Rightarrow> pret ([], cc')
            | Inr archive \<Rightarrow>
                atry (Template (me_helm me) archive (cwo_Overrides cwo) k8sVersion) (\<lambda>r. case r of
                    Inl _ \<Rightarrow> pret ([], cc')
                  | Inr Panics \<Rightarrow> aret Panics
                  | Inr (Returns manifest) \<Rightarrow> pret (manifest_images me manifest, cc'))))"

fun charts_images ::
  "('s, 'h) mirror_env \<Rightarrow> Version \<Rightarrow> (string \<times> ChartWithOverrides) list \<Rightarrow> string list \<Rightarrow> CatalogConnection
     \<Rightarrow> ('s, 'e, string list outcome) act" where
  "charts_images me k8sVersion [] images cc = pret images"
| "charts_images me k8sVersion ((name, cwo) # charts) images cc =
     pbind (chart_images me k8sVersion name cwo cc) (\<lambda>(found, cc').
       charts_images me k8sVersion charts (images @ found) cc')"

definition extractImages ::
  "('s, 'h) mirror_env \<Rightarrow> (string \<rightharpoonup> ChartWithOverrides list) \<Rightarrow> CatalogConnection \<Rightarrow> string \<Rightarrow> Version
     \<Rightarrow> ('s, 'e, string list outcome) act" where
  "extractImages me meta cc kc k8sVersion =
     atry (ask (me_CreateKubeInfo me kc)) (\<lambda>_.
     pbind (charts_images me k8sVersion
        [(name, cwo). name \<leftarrow> me_order me (dom meta), cwo \<leftarrow> (case meta name of None \<Rightarrow> [] | Some cwos \<Rightarrow> cwos)] [] cc) (\<lambda>images.
       if images = [] then afail ''no container images found'' else pret images))"

text \<open>Rendering a chart to objects, for other commands.\<close>

definition GetChartObjects ::
  "('s, 'h) mirror_env \<Rightarrow> string \<Rightarrow> string \<Rightarrow> string \<Rightarrow> string \<Rightarrow> HelmOverrides list \<Rightarrow> Version \<Rightarrow> ('s, 'e, yaml_object list outcome) act" where
  "GetChartObjects me kubeConfigPath chartCatalogName name version overrides k8sVersion =
     abind (ask (me_CreateKubeInfo me kubeConfigPath)) (\<lambda>_.
     atry (Search (me_catalog me) \<lparr>sro_KubeConfigPath = kubeConfigPath, sro_CatalogName = chartCatalogName, sro_Pattern = name\<rparr>) (\<lambda>r. case r of
         Inl err \<Rightarrow> afail (''Could not search catalog '' @ name @ '': '' @ err)
       | Inr Panics \<Rightarrow> aret Panics
       | Inr (Returns (_, cc)) \<Rightarrow>
           abind (GetChart (me_catalog me) cc name version) (\<lambda>(r, _). case r of
               Panics \<Rightarrow> aret Panics
             | Returns (Inl err) \<Rightarrow> afail (''Error getting helm chart '' @ name @ '', error getting chart from catalog: '' @ err)
             | Returns (Inr chart) \<Rightarrow>
                 (case hl_LoadArchive (me_helm me) chart of
                    Inl err \<Rightarrow> afail (''Error getting helm chart '' @ name @ '', error reading chart bytes: '' @ err)
                  | Inr archive \<Rightarrow>
                      atry (Template (me_helm me) archive overrides k8sVersion) (\<lambda>r. case r of
                          Inl err \<Rightarrow> afail (''Error getting helm chart '' @ name @ '', error rendering chart: '' @ err)
                        | Inr Panics \<Rightarrow> aret Panics
                        | Inr (Returns manifest) \<Rightarrow>
                            (case Unmarshall (me_DecodeObject me) manifest of
                               (_, Some err) \<Rightarrow> afail (''Error getting helm chart '' @ name @ '', could not unmarshall chart with error: '' @ err)
                             | ([], None) \<Rightarrow> afail (''Error getting helm chart '' @ name @ '', could not unmarshall chart: no objects found'')
                             | (objects, None) \<Rightarrow> pret objects))))))"

section \<open>Copying to another registry\<close>

text \<open>\<open>util.LinearRetry\<close> with a functor that fails fast on every error but an internal one of the server.\<close>

definition server_error :: "gerror \<Rightarrow> bool" where
  "server_error err = go_contains err ''500 Internal Server Error''"

definition copy_functor ::
  "('s, 'h) mirror_env \<Rightarrow> string \<Rightarrow> string \<Rightarrow> 's \<times> mirror_event list \<Rightarrow> (unit option \<times> bool \<times> gerror option) \<times> 's \<times> mirror_event list" where
  "copy_functor me src dest w =
     (case with_events EvImage (Copy (me_image me) (me_copy me) src dest) w of
        (Inl err, w') \<Rightarrow> ((None, \<not> server_error err, Some err), w')
      | (Inr _, w') \<Rightarrow> ((None, False, None), w'))"

text \<open>The result of the last attempt; a retry that does not return ends the command with an error of its own.\<close>

definition copy_retry :: "('s, 'h) mirror_env \<Rightarrow> string \<Rightarrow> string \<Rightarrow> ('s, mirror_event, unit result) act" where
  "copy_retry me src dest = (\<lambda>w.
     case LinearRetry \<lparr>rw_ftor = copy_functor me src dest, rw_Now = (\<lambda>(s, _). me_Now me s), rw_Sleep = (\<lambda>d (s, tr). (me_Sleep me d s, tr))\<rparr> w of
       None \<Rightarrow> (Inl ''the retry does not return'', w)
     | Some ((_, _, Some err), w') \<Rightarrow> (Inr (Inl err), w')
     | Some ((_, _, None), w') \<Rightarrow> (Inr (Inr ()), w'))"

fun copyImagesToNewDomain :: "('s, 'h) mirror_env \<Rightarrow> (string \<times> string) list \<Rightarrow> string list \<Rightarrow> ('s, mirror_event, string list) act" where
  "copyImagesToNewDomain me [] copied = aret copied"
| "copyImagesToNewDomain me ((theimage, newImageURL) # images) copied =
     abind (copy_retry me theimage newImageURL) (\<lambda>r.
       copyImagesToNewDomain me images (if is_ok r then copied @ [theimage] else copied))"

definition extractImageURLs :: "('s, 'h) mirror_env \<Rightarrow> string \<Rightarrow> ('s, 'e, string list) act" where
  "extractImageURLs me filePath =
     atry (ask (me_ScanFile me filePath)) (\<lambda>r. case r of
         Inl err \<Rightarrow> afail (''failed to open source file: '' @ err)
       | Inr (_, Some err) \<Rightarrow> afail (''error reading source file: '' @ err)
       | Inr (ls, None) \<Rightarrow> aret (filter (\<lambda>l. l \<noteq> []) ls))"

text \<open>The images with a transport, and their names in the destination; the ones whose domain cannot be changed are left out.\<close>

definition with_transport :: "string \<Rightarrow> string" where
  "with_transport img = (if has_prefix img ''docker://'' then img else ''docker://'' @ img)"

fun renamed_images :: "('s, 'h) mirror_env \<Rightarrow> string list \<Rightarrow> string \<Rightarrow> (string \<times> string) list outcome" where
  "renamed_images me [] dest = Returns []"
| "renamed_images me (theImage # images) dest =
     (let theImage = with_transport theImage
      in case ChangeImageDomain (me_image me) theImage dest of
           Inl _ \<Rightarrow> renamed_images me images dest
         | Inr newImageCreated \<Rightarrow>
             (case ir_DockerReference newImageCreated of
                None \<Rightarrow> Panics
              | Some dr \<Rightarrow> obind (renamed_images me images dest) (\<lambda>rest.
                  Returns ((theImage, ''docker://'' @ me_RefString me dr) # rest))))"

fun write_images :: "('s, 'h) mirror_env \<Rightarrow> string list \<Rightarrow> string \<Rightarrow> ('s, mirror_event, unit) act" where
  "write_images me [] newDomain = aret ()"
| "write_images me (theimage # images) newDomain =
     (case ChangeImageDomain (me_image me) theimage newDomain of
        Inl _ \<Rightarrow> write_images me images newDomain
      | Inr imageRef \<Rightarrow>
          (case ir_DockerReference imageRef of
             None \<Rightarrow> write_images me images newDomain
           | Some dockerRef \<Rightarrow>
               atry (perform (EvWriteList (me_RefString me dockerRef @ [CHR 10])) (me_WriteString me (me_RefString me dockerRef @ [CHR 10]))) (\<lambda>_.
                 write_images me images newDomain)))"

definition writeUpdatedImageURLs :: "('s, 'h) mirror_env \<Rightarrow> string list \<Rightarrow> string \<Rightarrow> string \<Rightarrow> ('s, mirror_event, unit) act" where
  "writeUpdatedImageURLs me images newDomain destinationFilePath =
     atry (perform (EvCreateList destinationFilePath) (me_CreateFile me destinationFilePath)) (\<lambda>r. case r of
         Inl err \<Rightarrow> afail (''failed to create destination file: '' @ err)
       | Inr _ \<Rightarrow> write_images me images newDomain)"

definition copy_Copy :: "('s, 'h) mirror_env \<Rightarrow> CopyOptions \<Rightarrow> ('s, mirror_event, unit outcome) act" where
  "copy_Copy me opt =
     abind (case cpo_Images opt of None \<Rightarrow> extractImageURLs me (cpo_FilePath opt) | Some images \<Rightarrow> aret images) (\<lambda>imageURLs.
       case renamed_images me imageURLs (cpo_Destination opt) of
         Panics \<Rightarrow> aret Panics
       | Returns images \<Rightarrow>
           abind (copyImagesToNewDomain me images []) (\<lambda>copiedImages.
             if cpo_DestinationFilePath opt \<noteq> []
             then abind (writeUpdatedImageURLs me copiedImages (cpo_Destination opt) (cpo_DestinationFilePath opt)) pret
             else pret ()))"

section \<open>Downloading\<close>

text \<open>At most five tries, with a pause after each that met an internal error of the server.\<close>

fun copy_tries :: "('s, 'h) mirror_env \<Rightarrow> nat \<Rightarrow> string \<Rightarrow> string \<Rightarrow> string \<Rightarrow> ('s, mirror_event, unit) act" where
  "copy_tries me 0 src dest file_path = afail ''download failed due to Internal Server Error''"
| "copy_tries me (Suc i) src dest file_path =
     atry (with_events EvImage (Copy (me_image me) (me_copy me) src dest)) (\<lambda>r. case r of
         Inr _ \<Rightarrow> aret ()
       | Inl err \<Rightarrow>
           (if \<not> server_error err then afail err
            else atry (perform (EvRemoveArchive file_path) (me_Remove me file_path)) (\<lambda>_.
                 abind (ask (\<lambda>s. (Inr (), me_Sleep me (3 * duration_s) s))) (\<lambda>_.
                   copy_tries me i src dest file_path))))"

definition copyOneImage :: "('s, 'h) mirror_env \<Rightarrow> string \<Rightarrow> string \<Rightarrow> nat \<Rightarrow> ImageInfo \<Rightarrow> ('s, mirror_event, unit) act" where
  "copyOneImage me img ociArchiveDir counter imageInfo =
     (let file_path = ociArchiveDir @ ''/'' @ format_nat counter @ ''.oci''
      in copy_tries me 5 (''docker://'' @ img)
           (''oci-archive:'' @ file_path @ '':'' @ img_BaseImage imageInfo @ '':'' @ img_Tag imageInfo) file_path)"

fun download_images :: "('s, 'h) mirror_env \<Rightarrow> string \<Rightarrow> nat \<Rightarrow> string list \<Rightarrow> ('s, mirror_event, unit) act" where
  "download_images me ociArchiveDir counter [] = aret ()"
| "download_images me ociArchiveDir counter (img # images) =
     abind (alift (SplitImage (me_image me) img)) (\<lambda>imageInfo.
     abind (copyOneImage me img ociArchiveDir counter imageInfo) (\<lambda>_.
       download_images me ociArchiveDir (counter + 1) images))"

definition downloadArchive :: "('s, 'h) mirror_env \<Rightarrow> string list \<Rightarrow> string \<Rightarrow> ('s, mirror_event, unit) act" where
  "downloadArchive me images archivePath =
     abind (perform EvMakeTemp (me_MkdirTemp me)) (\<lambda>ociArchiveDir.
       adefer
         (abind (download_images me ociArchiveDir 1 images) (\<lambda>_.
            perform (EvArchive ociArchiveDir archivePath) (me_CreateReportArchive me ociArchiveDir archivePath)))
         (perform (EvRemoveTemp ociArchiveDir) (me_RemoveAll me ociArchiveDir)))"

section \<open>The command\<close>

definition performSearch :: "('s, 'h) mirror_env \<Rightarrow> string \<Rightarrow> string \<Rightarrow> string \<Rightarrow> ('s, 'e, (ChartCatalog \<times> CatalogConnection) outcome) act" where
  "performSearch me regex catalogName kPath =
     Search (me_catalog me) \<lparr>sro_KubeConfigPath = kPath, sro_CatalogName = catalogName, sro_Pattern = regex\<rparr>"

definition removeDuplicates :: "('s, 'h) mirror_env \<Rightarrow> string list \<Rightarrow> string list" where
  "removeDuplicates me arr = me_order me (set arr)"

text \<open>What is done with the images.\<close>

definition mirror_images :: "('s, 'h) mirror_env \<Rightarrow> MirrorOptions \<Rightarrow> string list \<Rightarrow> ('s, mirror_event, unit outcome) act" where
  "mirror_images me options images =
     abind (if mo_Push options then aret () else afor images (\<lambda>img. perform (EvPrint img) (\<lambda>s. (Inr (), s)))) (\<lambda>_.
     abind (if mo_Download options then downloadArchive me images (mo_Archive options) else aret ()) (\<lambda>_.
       if mo_Push options \<and> mo_DestinationURI options = [] then afail ''Please provide a destination URI''
       else if mo_Push options
       then copy_Copy me \<lparr>cpo_FilePath = [], cpo_Destination = mo_DestinationURI options, cpo_DestinationFilePath = [], cpo_Images = Some images\<rparr>
       else pret ()))"

definition Mirror :: "('s, 'h) mirror_env \<Rightarrow> MirrorOptions \<Rightarrow> ('s, mirror_event, unit outcome) act" where
  "Mirror me options =
     pbind (performSearch me ''.*'' (mo_CatalogName options) (mo_KubeConfigPath options)) (\<lambda>(found, cc).
       case filter_charts (chc_ChartEntries found) (clu_Applications (mo_ClusterConfig options)) (mo_CatalogName options) of
         Panics \<Rightarrow> aret Panics
       | Returns toIterate \<Rightarrow>
           (let toRender = addOverrides me toIterate (clu_Applications (mo_ClusterConfig options))
            in abind (alift (GetKubernetesVersions (clu_KubeVersion (mo_ClusterConfig options)))) (\<lambda>allVersions.
               abind (alift (NewVersion (kv_Kubernetes allVersions))) (\<lambda>k8sVersion.
               pbind (extractImages me toRender cc (mo_KubeConfigPath options) k8sVersion) (\<lambda>images.
                 mirror_images me options
                   (removeDuplicates me (AddDefaultRegistries (me_image me) images (mo_DefaultRegistry options))))))))"

section \<open>The chosen charts\<close>

text \<open>\<open>best_of c v charts\<close>: among the charts whose version parses, \<open>c\<close> has the highest, \<open>v\<close>.\<close>

definition best_of :: "ChartMeta \<Rightarrow> Version \<Rightarrow> ChartMeta list \<Rightarrow> bool" where
  "best_of c v charts \<longleftrightarrow> c \<in> set charts \<and> NewVersion (cm_Version c) = Inr v
     \<and> (\<forall>c' \<in> set charts. \<forall>v'. NewVersion (cm_Version c') = Inr v' \<longrightarrow> ver_key v' \<le> ver_key v)"

lemma GreaterThan_key: "NewVersion s = Inr v \<Longrightarrow> NewVersion t = Inr w \<Longrightarrow> ver_GreaterThan v w \<longleftrightarrow> ver_key w < ver_key v"
  by (auto simp: ver_GreaterThan_def Compare_key NewVersion_wf cmp3_def)

lemma max_chart_Some:
  "NewVersion (cm_Version b) = Inr vb \<Longrightarrow>
     \<exists>c v. max_chart (Some (vb, b)) charts = Some (v, c) \<and> best_of c v (b # charts)"
proof (induction charts arbitrary: b vb)
  case Nil
  then show ?case by (simp add: best_of_def)
next
  case (Cons chart charts)
  show ?case
  proof (cases "NewVersion (cm_Version chart)")
    case (Inl e)
    with Cons.IH [OF Cons.prems] show ?thesis by (auto simp: best_of_def)
  next
    case (Inr w)
    show ?thesis
    proof (cases "ver_GreaterThan w vb")
      case True
      with Cons.IH [OF Inr] Inr Cons.prems GreaterThan_key [OF Inr Cons.prems] show ?thesis
        by (fastforce simp: best_of_def)
    next
      case False
      with Cons.IH [OF Cons.prems] Inr Cons.prems GreaterThan_key [OF Inr Cons.prems] show ?thesis
        by (fastforce simp: best_of_def)
    qed
  qed
qed

lemma max_chart_spec:
  "(case max_chart None charts of
      None \<Rightarrow> \<forall>c \<in> set charts. \<not> is_ok (NewVersion (cm_Version c))
    | Some (v, c) \<Rightarrow> best_of c v charts)"
proof (induction charts)
  case (Cons c charts)
  show ?case
  proof (cases "NewVersion (cm_Version c)")
    case (Inl e)
    with Cons show ?thesis by (auto simp: best_of_def split: option.splits)
  next
    case (Inr v)
    with max_chart_Some [OF Inr, of charts] show ?thesis by auto
  qed
qed simp

lemma chosen_panics: "chosen_chart app charts = Panics \<longleftrightarrow> charts = []"
  using max_chart_spec [of charts]
  by (cases charts) (auto simp: chosen_chart_def first_chart_def split: option.splits if_splits)

text \<open>An application whose catalog is the one that is mirrored, and that the catalog has.\<close>

definition mirrored :: "(string \<rightharpoonup> ChartMeta list) \<Rightarrow> string \<Rightarrow> Application \<Rightarrow> bool" where
  "mirrored toIterate catalogName app \<longleftrightarrow> trim_space (app_Catalog app) = trim_space catalogName \<and> toIterate (app_Name app) \<noteq> None"

lemma filter_apps_panics:
  "filter_apps toIterate search catalogName m = Panics \<longleftrightarrow>
     (\<exists>app \<in> set search. trim_space (app_Catalog app) = trim_space catalogName \<and> toIterate (app_Name app) = Some [])"
proof (induction search arbitrary: m)
  case (Cons app search)
  show ?case
  proof (cases "trim_space (app_Catalog app) = trim_space catalogName \<and> toIterate (app_Name app) \<noteq> None")
    case True
    then obtain charts where c: "toIterate (app_Name app) = Some charts" by blast
    show ?thesis
    proof (cases "chosen_chart app charts" rule: outcome.exhaust)
      case (Returns x)
      with chosen_panics [of app charts] have "charts \<noteq> []" by auto
      with Returns c True Cons.IH show ?thesis by (auto simp: obind_def)
    next
      case Panics
      with chosen_panics [of app charts] c True show ?thesis by (auto simp: obind_def)
    qed
  next
    case False
    with Cons.IH show ?thesis by (auto split: option.split)
  qed
qed simp

text \<open>What is chosen under a name: one chart for each of its applications that is not marked to be skipped.\<close>

definition choices :: "(string \<rightharpoonup> ChartMeta list) \<Rightarrow> Application list \<Rightarrow> string \<Rightarrow> string \<Rightarrow> ChartMeta list" where
  "choices toIterate search catalogName name =
     [c. app \<leftarrow> search, mirrored toIterate catalogName app \<and> app_Name app = name,
         c \<leftarrow> (case chosen_chart app (the (toIterate name)) of Panics \<Rightarrow> [] | Returns c \<Rightarrow> [c]), \<not> skip_chart c]"

lemma choices_simps:
  "choices toIterate [] catalogName name = []"
  "choices toIterate (app # search) catalogName name =
     (if mirrored toIterate catalogName app \<and> app_Name app = name
      then (case chosen_chart app (the (toIterate name)) of Panics \<Rightarrow> [] | Returns c \<Rightarrow> (if skip_chart c then [] else [c])) else [])
     @ choices toIterate search catalogName name"
  by (simp_all add: choices_def split: outcome.split)

definition list_at :: "(string \<rightharpoonup> 'a list) \<Rightarrow> string \<Rightarrow> 'a list" where
  "list_at m k = (case m k of None \<Rightarrow> [] | Some xs \<Rightarrow> xs)"

lemma list_at_append: "list_at (append_at m k x) k' = (if k = k' then list_at m k @ [x] else list_at m k')"
  by (auto simp: list_at_def append_at_def split: option.split)

lemma filter_apps_choices:
  "filter_apps toIterate search catalogName m = Returns m' \<Longrightarrow>
     list_at m' name = list_at m name @ choices toIterate search catalogName name"
proof (induction search arbitrary: m)
  case Nil
  then show ?case by (simp add: choices_simps)
next
  case (Cons app search)
  show ?case
  proof (cases "trim_space (app_Catalog app) = trim_space catalogName \<and> toIterate (app_Name app) \<noteq> None")
    case True
    then obtain charts where c: "toIterate (app_Name app) = Some charts" by blast
    from True Cons.prems c obtain x where x: "chosen_chart app charts = Returns x"
      by (cases "chosen_chart app charts" rule: outcome.exhaust) auto
    show ?thesis
    proof (cases "skip_chart x")
      case True
      with x c Cons.prems \<open>_ \<and> _\<close> have "filter_apps toIterate search catalogName m = Returns m'" by simp
      from Cons.IH [OF this] x c True \<open>_ \<and> _\<close> show ?thesis by (auto simp: choices_simps mirrored_def)
    next
      case False
      with x c Cons.prems \<open>_ \<and> _\<close> have "filter_apps toIterate search catalogName (append_at m (app_Name app) x) = Returns m'" by simp
      from Cons.IH [OF this] x c False \<open>_ \<and> _\<close> show ?thesis by (auto simp: choices_simps mirrored_def list_at_append)
    qed
  next
    case False
    with Cons.prems have "filter_apps toIterate search catalogName m = Returns m'" by (auto split: option.splits)
    from Cons.IH [OF this] False show ?thesis by (auto simp: choices_simps mirrored_def)
  qed
qed

section \<open>The collected images\<close>

text \<open>The specification that a workload gives, if it can be read.\<close>

definition pod_spec :: "('s, 'h) mirror_env \<Rightarrow> yaml_object \<Rightarrow> PodSpecImages option" where
  "pod_spec me ob = (let k = to_lower (object_kind ob)
     in if k \<in> set workload_kinds then (case me_PodSpecOf me k ob of Inl _ \<Rightarrow> None | Inr spec \<Rightarrow> Some spec) else None)"

lemma images_loop_Cons:
  "images_loop me (ob # obs) acc = images_loop me obs (case pod_spec me ob of None \<Rightarrow> acc | Some spec \<Rightarrow> (acc @ spec_images spec) @ (acc @ spec_images spec))"
  by (simp add: pod_spec_def fromPodSpec_def Let_def split: sum.split)

lemma images_loop_set:
  "set (images_loop me obs acc) = set acc \<union> (\<Union>ob \<in> set obs. case pod_spec me ob of None \<Rightarrow> {} | Some spec \<Rightarrow> set (spec_images spec))"
proof (induction obs arbitrary: acc)
  case (Cons ob obs)
  show ?case unfolding images_loop_Cons Cons.IH by (auto split: option.splits)
qed simp

lemma images_loop_length:
  "\<forall>ob \<in> set obs. \<exists>spec. pod_spec me ob = Some spec \<and> spec_images spec \<noteq> [] \<Longrightarrow>
     (length acc + 2) * 2 ^ length obs \<le> length (images_loop me obs acc) + 2"
proof (induction obs arbitrary: acc)
  case (Cons ob obs)
  then obtain spec where spec: "pod_spec me ob = Some spec" "Suc 0 \<le> length (spec_images spec)"
    by (auto simp: Suc_le_eq)
  let ?acc = "(acc @ spec_images spec) @ (acc @ spec_images spec)"
  have "(length acc + 2) * 2 ^ length (ob # obs) \<le> (length ?acc + 2) * 2 ^ length obs"
  proof -
    have "(length acc + 2) * 2 \<le> length ?acc + 2" using spec(2) by simp
    from mult_le_mono1 [OF this, of "2 ^ length obs"] show ?thesis by (simp only: list.size power.simps add_0_right add_Suc_right mult.assoc)
  qed
  also have "\<dots> \<le> length (images_loop me obs ?acc) + 2" using Cons.prems by (intro Cons.IH) simp
  finally show ?case unfolding images_loop_Cons spec(1) by simp
qed simp

section \<open>What the command does\<close>

lemma emits_Copy: "emits (\<lambda>_. True) (Copy lib cl src dest)"
  unfolding Copy_def by (intro emits_intro) simp_all

lemma emits_image_copy [emits_intro]: "(\<And>c. P (EvImage c)) \<Longrightarrow> emits P (with_events EvImage (Copy lib cl src dest))"
  by (rule emits_with_events [OF emits_Copy])

lemma emits_copy_retry [emits_intro]:
  assumes "\<And>c. P (EvImage c)"
  shows "emits P (copy_retry me src dest)"
proof (rule emitsI)
  fix s tr r s' tr'
  assume run: "copy_retry me src dest (s, tr) = (r, s', tr')"
  let ?w = "\<lparr>rw_ftor = copy_functor me src dest, rw_Now = (\<lambda>(s, _). me_Now me s), rw_Sleep = (\<lambda>d (s, tr). (me_Sleep me d s, tr))\<rparr>"
  let ?I = "\<lambda>w. \<exists>evs. snd w = tr @ evs \<and> list_all P evs"
  show "\<exists>evs. tr' = tr @ evs \<and> list_all P evs"
  proof (cases "LinearRetry ?w (s, tr)")
    case None
    with run show ?thesis by (simp add: copy_retry_def)
  next
    case (Some y)
    then obtain x w' where y: "LinearRetry ?w (s, tr) = Some (x, w')" by (cases y) auto
    have "?I w'"
    proof (rule retry_loop_keeps [OF y [unfolded LinearRetry_def LinearRetryTimeout_def LinearRetryImpl_def ExponentialRetryImpl_def]])
      show "?I (s, tr)" by simp
      show "?I t'" if "?I t" "rw_ftor ?w t = (x, t')" for t x t'
      proof -
        obtain q t2 where q: "with_events EvImage (Copy (me_image me) (me_copy me) src dest) t = (q, t2)" by (metis prod.exhaust)
        with that(2) have "t' = t2" by (cases q) (auto simp: copy_functor_def)
        with that(1) q emitsD [OF emits_image_copy [where P = P, OF assms], of "me_image me" "me_copy me" src dest "fst t" "snd t" q "fst t2" "snd t2"]
        show ?thesis by auto
      qed
      show "?I (rw_Sleep ?w d t)" if "?I t" for d t using that by (auto simp: case_prod_beta)
    qed
    with run y show ?thesis by (cases w') (auto simp: copy_retry_def split: prod.splits option.splits)
  qed
qed

lemma emits_copyImages [emits_intro]: "(\<And>c. P (EvImage c)) \<Longrightarrow> emits P (copyImagesToNewDomain me images copied)"
  by (induction me images copied rule: copyImagesToNewDomain.induct) (auto intro!: emits_intro)

lemma emits_copy_list:
  assumes "\<And>c. P (EvImage c)"
  shows "emits P (copy_Copy me \<lparr>cpo_FilePath = f, cpo_Destination = dest, cpo_DestinationFilePath = [], cpo_Images = Some images\<rparr>)"
  unfolding copy_Copy_def by (auto intro!: emits_intro assms split: outcome.split)

lemma emits_copy_tries [emits_intro]: "(\<And>c. P (EvImage c)) \<Longrightarrow> P (EvRemoveArchive f) \<Longrightarrow> emits P (copy_tries me n src dest f)"
  by (induction me n src dest f rule: copy_tries.induct) (auto intro!: emits_intro)

lemma emits_download_images [emits_intro]:
  "(\<And>c. P (EvImage c)) \<Longrightarrow> (\<And>f. P (EvRemoveArchive f)) \<Longrightarrow> emits P (download_images me dir n images)"
  by (induction me dir n images rule: download_images.induct) (auto simp: copyOneImage_def Let_def intro!: emits_intro)

lemma emits_download [emits_intro]:
  "(\<And>c. P (EvImage c)) \<Longrightarrow> (\<And>f. P (EvRemoveArchive f)) \<Longrightarrow> P EvMakeTemp \<Longrightarrow> (\<And>d a. P (EvArchive d a)) \<Longrightarrow> (\<And>d. P (EvRemoveTemp d)) \<Longrightarrow>
     emits P (downloadArchive me images path)"
  unfolding downloadArchive_def by (intro emits_intro)

text \<open>Everything before the images are known asks questions only.\<close>

lemma emits_Search [emits_intro]: "emits P (Search ce opt)"
proof -
  have uri: "emits P (getCatalogURI ce k ci)" for k ci unfolding getCatalogURI_def by (intro emits_intro)
  have ver: "emits P (getKubeVersion ce k)" for k unfolding getKubeVersion_def by (intro emits_intro)
  have conn: "emits P (NewConnection ce k ci)" for k ci
    unfolding NewConnection_def NewHelmConnection_def NewArtifacthubConnection_def NewInternalConnection_def
    by (intro emits_intro uri ver)
  have charts: "emits P (GetCharts ce cc q)" for cc q
    unfolding GetCharts_def helm_GetCharts_def artifacthub_GetCharts_def Let_def
    by (auto split: CatalogConnection.split intro!: emits_intro)
  have service: "emits P (getCatalogService ce opt)" for opt
    unfolding getCatalogService_def Ls_def FindServicesByLabelKey_def by (intro emits_intro)
  show ?thesis unfolding Search_def Let_def by (intro emits_intro service conn charts)
qed

lemma emits_download_chart: "emits P (download ce c base chart found)"
  unfolding download_def by (auto split: outcome.split sum.split list.split intro!: emits_intro)

lemma emits_GetChart [emits_intro]: "emits P (GetChart ce cc chart version)"
  unfolding GetChart_def helm_GetChart_def artifacthub_GetChart_def helm_GetCharts_def artifacthub_GetCharts_def Let_def
  by (auto split: CatalogConnection.split option.split intro!: emits_intro emits_download_chart)

lemma emits_git_Get [emits_intro]: "emits P (git_Get hl url)"
  unfolding git_Get_def git_checkout_def by (intro emits_intro)

lemma emits_readFile [emits_intro]: "emits P (readFile hl git path)"
  unfolding readFile_def by (intro emits_intro)

lemma emits_merge_from [emits_intro]: "emits P (merge_from hl git ovs base)"
  by (induction ovs arbitrary: base) (auto simp: apply_override_def intro!: emits_intro)

lemma emits_Template [emits_intro]: "emits P (Template hl c ovs v)"
  unfolding Template_def MergeValues_def by (intro emits_intro)

lemma emits_chart_images [emits_intro]: "emits P (chart_images me v n cwo cc)"
  unfolding chart_images_def by (auto split: outcome.split sum.split intro!: emits_intro)

lemma emits_charts_images [emits_intro]: "emits P (charts_images me v charts images cc)"
  by (induction me v charts images cc rule: charts_images.induct) (auto simp del: pret_run intro!: emits_intro)

lemma emits_extractImages [emits_intro]: "emits P (extractImages me meta cc kc v)"
  unfolding extractImages_def by (intro emits_intro)

text \<open>What the options allow.\<close>

fun allowed :: "MirrorOptions \<Rightarrow> mirror_event \<Rightarrow> bool" where
  "allowed options (EvPrint _) = (\<not> mo_Push options)"
| "allowed options (EvImage _) = (mo_Download options \<or> mo_Push options \<and> mo_DestinationURI options \<noteq> [])"
| "allowed options EvMakeTemp = mo_Download options"
| "allowed options (EvRemoveArchive _) = mo_Download options"
| "allowed options (EvArchive _ _) = mo_Download options"
| "allowed options (EvRemoveTemp _) = mo_Download options"
| "allowed options (EvCreateList _) = False"
| "allowed options (EvWriteList _) = False"

lemma emits_mirror_images: "emits (allowed options) (mirror_images me options images)"
  unfolding mirror_images_def by (auto intro!: emits_intro emits_copy_list)

lemma emits_Mirror: "emits (allowed options) (Mirror me options)"
  unfolding Mirror_def performSearch_def
  by (auto simp: Let_def split: outcome.split prod.split intro!: emits_intro emits_mirror_images)

lemma Mirror_needs_destination:
  assumes "mo_Push options" and "mo_DestinationURI options = []"
  shows "fst (Mirror me options w) \<noteq> Inr (Returns ())"
proof -
  have "fst (mirror_images me options images w) \<noteq> Inr (Returns ())" for images w
    using assms by (auto simp: mirror_images_def abind_run split: prod.splits sum.splits)
  then show ?thesis
    unfolding Mirror_def
    by (auto simp: Let_def pbind_run abind_run split: prod.splits sum.splits outcome.splits)
qed

section \<open>Properties\<close>

text \<open>Which chart an application gets.\<close>

definition chart_choice :: "Application \<Rightarrow> ChartMeta list \<Rightarrow> ChartMeta \<Rightarrow> bool" where
  "chart_choice app charts c \<longleftrightarrow>
     (if app_Version app = []
      then (\<exists>v. best_of c v charts) \<or> c = hd charts \<and> (\<forall>c \<in> set charts. \<not> is_ok (NewVersion (cm_Version c)))
      else c \<in> set charts \<and> cm_Version c = app_Version app \<or> c = hd charts \<and> (\<forall>c \<in> set charts. cm_Version c \<noteq> app_Version app))"

lemma chosen_chart_choice: "chosen_chart app charts = Returns c \<Longrightarrow> chart_choice app charts c"
  using max_chart_spec [of charts]
  by (cases charts)
    (auto simp: chosen_chart_def first_chart_def chart_choice_def find_None_iff find_Some_iff split: option.splits if_splits prod.splits)

lemma choices_choice:
  assumes "c \<in> set (choices entries search catalogName name)"
  shows "\<exists>app \<in> set search. mirrored entries catalogName app \<and> app_Name app = name \<and> chart_choice app (list_at entries name) c"
proof -
  from assms obtain app where app: "app \<in> set search" "mirrored entries catalogName app" "app_Name app = name"
    "chosen_chart app (the (entries name)) = Returns c"
    by (auto simp: choices_def split: outcome.splits)
  from app(2,3) have "the (entries name) = list_at entries name" by (auto simp: mirrored_def list_at_def)
  with app chosen_chart_choice show ?thesis by metis
qed

text \<open>
  The charts to mirror.  Without applications in the configuration, every chart of the catalog that is not marked to be skipped;
  with some, for each application of this catalog, in order, one chart: the greatest version if none is asked for, else the
  version asked for, and the first chart of the list where that choice finds nothing.  The choice panics exactly when the list
  of charts of such an application is empty, which it is when none of them supports the version of the cluster.
\<close>

theorem filter_charts_choice:
  "(\<forall>m. search = [] \<and> filter_charts entries search catalogName = Returns m \<longrightarrow>
      list_at m name = filter (\<lambda>c. \<not> skip_chart c) (list_at entries name))
   \<and> (\<forall>m. search \<noteq> [] \<and> filter_charts entries search catalogName = Returns m \<longrightarrow>
        list_at m name = choices entries search catalogName name
        \<and> (\<forall>c \<in> set (list_at m name). \<exists>app \<in> set search.
              mirrored entries catalogName app \<and> app_Name app = name \<and> chart_choice app (list_at entries name) c))
   \<and> (filter_charts entries search catalogName = Panics \<longleftrightarrow>
        (\<exists>app \<in> set search. trim_space (app_Catalog app) = trim_space catalogName \<and> entries (app_Name app) = Some []))"
proof (intro conjI allI impI; (elim conjE)?)
  show "filter_charts entries search catalogName = Panics \<longleftrightarrow>
      (\<exists>app \<in> set search. trim_space (app_Catalog app) = trim_space catalogName \<and> entries (app_Name app) = Some [])"
    by (auto simp: filter_charts_def filter_apps_panics)
next
  fix m assume "search = []" and "filter_charts entries search catalogName = Returns m"
  then show "list_at m name = filter (\<lambda>c. \<not> skip_chart c) (list_at entries name)"
    by (auto simp: filter_charts_def list_at_def Let_def filter_empty_conv split: option.splits if_splits)
next
  fix m assume "search \<noteq> []" and "filter_charts entries search catalogName = Returns m"
  then have "filter_apps entries search catalogName Map.empty = Returns m" by (simp add: filter_charts_def)
  from filter_apps_choices [OF this] show all: "list_at m name = choices entries search catalogName name" by (simp add: list_at_def)
  show "\<forall>c \<in> set (list_at m name). \<exists>app \<in> set search.
      mirrored entries catalogName app \<and> app_Name app = name \<and> chart_choice app (list_at entries name) c"
    unfolding all by (blast dest: choices_choice)
qed

theorem filter_charts_choice_witness:
  "\<exists>m. filter_charts (chc_ChartEntries sample_index) [zero_Application\<lparr>app_Name := ''ui'', app_Version := ''1.9.0''\<rparr>] [] = Returns m
     \<and> list_at m ''ui'' = [sample_chart ''1.9.0'' ''1.9.0'' []]"
proof -
  let ?app = "zero_Application\<lparr>app_Name := ''ui'', app_Version := ''1.9.0''\<rparr>" and ?e = "chc_ChartEntries sample_index"
  have app: "app_Name ?app = ''ui''" "app_Version ?app = ''1.9.0''" "app_Catalog ?app = []" by (simp_all add: zero_Application_def)
  have e: "?e ''ui'' = Some [sample_chart ''1.9.0'' ''1.9.0'' [], sample_chart ''2.0.0'' ''2.0.0'' ''>=1.40'', sample_chart ''1.10.0'' ''1.10.0'' []]"
    by (simp add: sample_index_def)
  have c: "chosen_chart ?app (the (?e ''ui'')) = Returns (sample_chart ''1.9.0'' ''1.9.0'' [])"
    unfolding e by (simp add: chosen_chart_def app sample_chart_def)
  have "filter_charts ?e [?app] [] \<noteq> Panics"
    using filter_charts_choice [of "[?app]" ?e "[]" "''ui''"] e app by auto
  then obtain m where m: "filter_charts ?e [?app] [] = Returns m" by (cases "filter_charts ?e [?app] []" rule: outcome.exhaust) auto
  have "mirrored ?e [] ?app" by (simp add: mirrored_def app e)
  moreover have "\<not> skip_chart (sample_chart ''1.9.0'' ''1.9.0'' [])" by (simp add: skip_chart_def sample_chart_def)
  ultimately have "choices ?e [?app] [] ''ui'' = [sample_chart ''1.9.0'' ''1.9.0'' []]"
    by (simp add: choices_simps app c)
  with filter_charts_choice [of "[?app]" ?e "[]" "''ui''"] m show ?thesis by auto
qed

text \<open>
  C21. The images found in the objects of a chart are those of its readable workloads, but the list of them is copied for every
  workload: with one image in each, n workloads give at least 2^(n+1) - 2 entries.  The duplicates are removed only after the
  images of all charts were collected.
\<close>

theorem images_doubled:
  "set (imagesFromObjects me obs) = (\<Union>ob \<in> set obs. case pod_spec me ob of None \<Rightarrow> {} | Some spec \<Rightarrow> set (spec_images spec))
   \<and> ((\<forall>ob \<in> set obs. \<exists>spec. pod_spec me ob = Some spec \<and> spec_images spec \<noteq> []) \<longrightarrow>
        2 ^ (length obs + 1) \<le> length (imagesFromObjects me obs) + 2)"
proof -
  have "2 ^ (length obs + 1) = (length [] + 2) * 2 ^ length obs" by simp
  with images_loop_set [of me obs "[]"] images_loop_length [of obs me "[]"] show ?thesis
    unfolding imagesFromObjects_def by fastforce
qed

text \<open>A cluster without catalogs, on which every object is a pod with one image.\<close>

definition sample_mirror_catalogs :: "int catalog_env" where
  "sample_mirror_catalogs = \<lparr>
     ce_GetKubeClient = (\<lambda>_ s. (Inr (), s)), ce_ServerVersion = (\<lambda>_ s. (Inr (''1'', ''33''), s)),
     ce_PortForwardToService = (\<lambda>_ _ _ s. (Inr 8080, s)), ce_ListServices = (\<lambda>_ s. (Inr [], s)),
     ce_CreateService = (\<lambda>_ s. (Inr (), s)), ce_DeleteService = (\<lambda>_ _ s. (Inr (), s)),
     ce_HTTPGet = (\<lambda>_ s. (Inr [], s)), ce_UnmarshalCatalog = (\<lambda>_. Inr sample_index), ce_UnmarshalPackages = (\<lambda>_. Inr []),
     ce_SortFunc = (\<lambda>_ xs. xs), ce_NewConstraint = (\<lambda>_. Inr (\<lambda>_. True)), ce_url_Parse = (\<lambda>_. Inl ''no URL''),
     ce_url_String = url_RawQuery, ce_url_Encode = (\<lambda>ps. concat (map snd ps)),
     ce_Regexp = (\<lambda>_. Inr (\<lambda>_. True)), ce_Embedded = []\<rparr>"

definition sample_mirror :: "(int, unit) mirror_env" where
  "sample_mirror = \<lparr>
     me_catalog = sample_mirror_catalogs, me_helm = sample_helm_lib, me_image = sample_lib,
     me_copy = \<lparr>cl_policy = (\<lambda>s. (Inr (), s)), cl_copy = (\<lambda>_ _ s. (Inr (), s + 1)), cl_login = (\<lambda>_ s. (Inr (), s))\<rparr>,
     me_RefString = dr_FamiliarName, me_CreateKubeInfo = (\<lambda>_ s. (Inr (), s)), me_MarshalConfig = (\<lambda>_. Inr []),
     me_DecodeObject = (\<lambda>_. Inr (Some [''kind'' \<mapsto> GStr ''Pod''])),
     me_PodSpecOf = (\<lambda>_ _. Inr \<lparr>ps_Containers = [''ui:1''], ps_InitContainers = [], ps_EphemeralContainers = []\<rparr>),
     me_order = (\<lambda>_. []), me_MkdirTemp = (\<lambda>s. (Inr ''/tmp/a'', s)), me_Remove = (\<lambda>_ s. (Inr (), s)), me_RemoveAll = (\<lambda>_ s. (Inr (), s)),
     me_CreateReportArchive = (\<lambda>_ _ s. (Inr (), s)), me_ScanFile = (\<lambda>_ s. (Inr ([], None), s)), me_CreateFile = (\<lambda>_ s. (Inr (), s)),
     me_WriteString = (\<lambda>_ s. (Inr (), s)), me_Now = (\<lambda>s. s), me_Sleep = (\<lambda>d s. s + d)\<rparr>"

theorem images_doubled_witness:
  "14 \<le> length (imagesFromObjects sample_mirror (replicate 3 [''kind'' \<mapsto> GStr ''Pod'']))"
proof -
  let ?ob = "[''kind'' \<mapsto> GStr ''Pod'']"
  have "nested_string ?ob [''kind''] = Inr (''Pod'', True)" by code_simp
  then have "to_lower (object_kind ?ob) = ''pod''" unfolding object_kind_def by code_simp
  then have "pod_spec sample_mirror ?ob = Some \<lparr>ps_Containers = [''ui:1''], ps_InitContainers = [], ps_EphemeralContainers = []\<rparr>"
    by (simp add: pod_spec_def workload_kinds_def sample_mirror_def)
  then have "\<forall>ob \<in> set (replicate 3 ?ob). \<exists>spec. pod_spec sample_mirror ob = Some spec \<and> spec_images spec \<noteq> []"
    by (simp add: spec_images_def)
  with images_doubled [of sample_mirror "replicate 3 ?ob"] show ?thesis by simp
qed

text \<open>
  C20. Mirroring does only what its options allow: images are copied only to download or to push them, the archive is made only for a
  download, and nothing is printed when pushing.  A push without a destination never succeeds, and copies no image unless a download
  is asked for as well.
\<close>

theorem Mirror_effects:
  assumes "Mirror me options (s, tr) = (r, s', tr')"
  shows "\<exists>evs. tr' = tr @ evs \<and> list_all (allowed options) evs
     \<and> (mo_Push options \<and> mo_DestinationURI options = [] \<longrightarrow> r \<noteq> Inr (Returns ()) \<and> (\<not> mo_Download options \<longrightarrow> evs = []))"
proof -
  from emitsD [OF emits_Mirror assms] obtain evs where evs: "tr' = tr @ evs" "list_all (allowed options) evs" by blast
  have "evs = []" if "mo_Push options" "mo_DestinationURI options = []" "\<not> mo_Download options"
  proof -
    have "\<not> allowed options e" for e using that by (cases e) auto
    with evs(2) show ?thesis by (cases evs) auto
  qed
  with evs Mirror_needs_destination [of options me "(s, tr)"] assms show ?thesis by auto
qed

theorem Mirror_effects_witness:
  "let options = \<lparr>mo_KubeConfigPath = [], mo_CatalogName = ''mine'', mo_DestinationURI = [], mo_Push = True,
       mo_ClusterConfig = zero_ClusterConfig, mo_DefaultRegistry = ''reg.io'', mo_Download = False, mo_Archive = []\<rparr>
   in \<exists>r s'. Mirror sample_mirror options (0, []) = (r, s', []) \<and> r \<noteq> Inr (Returns ())"
proof -
  let ?options = "\<lparr>mo_KubeConfigPath = [], mo_CatalogName = ''mine'', mo_DestinationURI = [], mo_Push = True,
       mo_ClusterConfig = zero_ClusterConfig, mo_DefaultRegistry = ''reg.io'', mo_Download = False, mo_Archive = []\<rparr>"
  obtain r s' tr' where run: "Mirror sample_mirror ?options (0, []) = (r, s', tr')" by (metis prod.exhaust)
  from Mirror_effects [OF run] have "tr' = []" "r \<noteq> Inr (Returns ())" by auto
  with run show ?thesis by (simp add: Let_def)
qed

end
