(* ===== verification/Admin_Pods.thy ===== *)
theory Admin_Pods
  imports Kube_Api Go_Values
begin

text \<open>
  Pods on a node, for administration, and what is run in them: the specifications of the pods (\<^verbatim>\<open>pkg/k8s/pod.go\<close>), where the
  kubeconfig comes from (\<^verbatim>\<open>pkg/k8s/client/config.go\<close>), running a command in a pod (\<^verbatim>\<open>pkg/k8s/kubectl\<close>), the endpoint of the
  control plane (\<^verbatim>\<open>endpoint.go\<close>), and the tokens and certificates with which nodes join (\<^verbatim>\<open>tokens.go\<close>).

  The outside is \<open>admin_env\<close>: for each kubeconfig its cluster, the file system, and the libraries of kubeadm.
\<close>

section \<open>Specifications of pods\<close>

record Toleration =
  tol_Key :: string
  tol_Effect :: string
  tol_Operator :: string

datatype VolumeSource = HostPathVolume string string | ConfigMapVolume string int

record PodVolume =
  vol_Name :: string
  vol_Source :: VolumeSource

record PodContainer =
  pc_Name :: string
  pc_Image :: string
  pc_Command :: "string list"
  pc_Env :: "(string \<times> string) list"
  pc_Stdin :: bool
  pc_StdinOnce :: bool
  pc_TTY :: bool
  pc_Privileged :: bool
  pc_VolumeMounts :: "(string \<times> string) list"

record PodSpecification =
  px_Name :: string
  px_Namespace :: string
  px_Labels :: "string \<rightharpoonup> string"
  px_NodeName :: string
  px_RestartPolicy :: string
  px_HostNetwork :: bool
  px_HostPID :: bool
  px_RunAs :: "(int \<times> int \<times> bool) option"
  px_Containers :: "PodContainer list"
  px_Volumes :: "PodVolume list"
  px_Tolerations :: "Toleration list"

definition tolerated :: "string \<Rightarrow> Toleration" where
  "tolerated key = \<lparr>tol_Key = key, tol_Effect = ''NoSchedule'', tol_Operator = ''Exists''\<rparr>"

definition node_tolerations :: "Toleration list" where
  "node_tolerations = map tolerated
     [''node-role.kubernetes.io/control-plane'', ''node.kubernetes.io/not-ready'', ''node.kubernetes.io/unschedulable'', ''node.kubernetes.io/unreachable'']"

definition AdminPodName :: "string \<Rightarrow> string \<Rightarrow> string" where
  "AdminPodName node pre = replace_all (pre @ ''-'' @ node) ''.'' ''-''"

definition BasicAdminPod :: "string \<Rightarrow> string \<Rightarrow> string \<Rightarrow> bool \<Rightarrow> PodSpecification" where
  "BasicAdminPod node namespace podNamePrefix toolbox =
     (let img = (if toolbox then ''olcne/ock:toolbox'' else ''container-registry.oracle.com/os/oraclelinux:8'');
          podName = AdminPodName node podNamePrefix
      in \<lparr>px_Name = podName, px_Namespace = namespace, px_Labels = [''run'' \<mapsto> podName], px_NodeName = node, px_RestartPolicy = ''Never'',
          px_HostNetwork = True, px_HostPID = True, px_RunAs = None,
          px_Containers = [\<lparr>pc_Name = podName, pc_Image = img, pc_Command = [], pc_Env = [], pc_Stdin = True, pc_StdinOnce = True,
             pc_TTY = True, pc_Privileged = True, pc_VolumeMounts = [(''host-root'', ''/hostroot'')]\<rparr>],
          px_Volumes = [\<lparr>vol_Name = ''host-root'', vol_Source = HostPathVolume ''/'' ''Directory''\<rparr>],
          px_Tolerations = node_tolerations\<rparr>)"

definition ScriptMountPath :: string where "ScriptMountPath = ''/ocne-scripts''"

definition scripts_pod :: "PodOptions \<Rightarrow> PodSpecification" where
  "scripts_pod p =
     \<lparr>px_Name = po_PodName p, px_Namespace = po_Namespace p, px_Labels = Map.empty, px_NodeName = po_NodeName p, px_RestartPolicy = ''Never'',
      px_HostNetwork = po_HostNetwork p, px_HostPID = po_HostPID p, px_RunAs = Some (0, 0, False),
      px_Containers = [\<lparr>pc_Name = ''app'', pc_Image = po_ImageName p, pc_Command = [''sleep'', ''10d''], pc_Env = po_Env p, pc_Stdin = False,
         pc_StdinOnce = False, pc_TTY = False, pc_Privileged = True,
         pc_VolumeMounts = [(''ocne-scripts'', ScriptMountPath), (''host-root'', ''/hostroot'')]\<rparr>],
      px_Volumes = [\<lparr>vol_Name = ''ocne-scripts'', vol_Source = ConfigMapVolume (po_ConfigMapName p) (5 * 64)\<rparr>,
                    \<lparr>vol_Name = ''host-root'', vol_Source = HostPathVolume ''/'' ''Directory''\<rparr>],
      px_Tolerations = node_tolerations\<rparr>"

section \<open>The outside\<close>

text \<open>
  What a command in a pod comes to: the error of \<open>kubectl exec\<close>, the fatal errors that kubectl reports on the way, and the pieces
  written to its error stream.
\<close>

record exec_outcome =
  eo_Err :: "gerror option"
  eo_Fatal :: "string list"
  eo_Written :: "string list"

record KubectlConfig =
  kc_Namespace :: string
  kc_IgnoreErrors :: "string list"
  kc_Pipes :: bool

datatype admin_event =
    EvCluster string kube_event
  | EvCreateAdminPod string PodSpecification
  | EvCommand string string "string list"
  | EvCreateToken string string

record 's admin_env =
  ae_ka :: "string \<Rightarrow> 's kube_api"
  ae_order :: "string list \<Rightarrow> string list"
  ae_GetKubeClient :: "string \<Rightarrow> 's \<Rightarrow> string result \<times> 's"
  ae_CreatePod :: "string \<Rightarrow> PodSpecification \<Rightarrow> 's \<Rightarrow> unit result \<times> 's"
  ae_Exec :: "string \<Rightarrow> string \<Rightarrow> string list \<Rightarrow> 's \<Rightarrow> exec_outcome \<times> 's"
  ae_Abs :: "string \<Rightarrow> string result"
  ae_Stat :: "string \<Rightarrow> 's \<Rightarrow> unit result \<times> 's"
  ae_Getenv :: "string \<Rightarrow> string"
  ae_HomeDir :: string
  ae_ReadFile :: "string \<Rightarrow> 's \<Rightarrow> string result \<times> 's"
  ae_LoadContexts :: "string \<Rightarrow> (string \<times> (string \<rightharpoonup> string)) result"
  ae_UnmarshalMap :: "string \<Rightarrow> (string \<rightharpoonup> gval) result"
  ae_UrlHost :: "string \<Rightarrow> string result"
  ae_CertHashes :: "string \<Rightarrow> 's \<Rightarrow> string list result \<times> 's"
  ae_GenerateToken :: "'s \<Rightarrow> string result \<times> 's"
  ae_NewTokenString :: "string \<Rightarrow> unit result"
  ae_GetClientset :: "string \<Rightarrow> 's \<Rightarrow> unit result \<times> 's"
  ae_CreateNewTokens :: "string \<Rightarrow> string \<Rightarrow> 's \<Rightarrow> unit result \<times> 's"

section \<open>Where the kubeconfig is\<close>

definition EnvVarKubeConfig :: string where "EnvVarKubeConfig = ''KUBECONFIG''"
definition EnvVarTestKubeConfig :: string where "EnvVarTestKubeConfig = ''TEST_KUBECONFIG''"

text \<open>With an error the path is returned, too.\<close>

definition sanitizePath :: "'s admin_env \<Rightarrow> string \<Rightarrow> 's \<Rightarrow> (string \<times> gerror option) \<times> 's" where
  "sanitizePath ae path s =
     (case ae_Abs ae path of
        Inl err \<Rightarrow> (([], Some err), s)
      | Inr path \<Rightarrow>
          (case ae_Stat ae path s of
             (Inl err, s') \<Rightarrow> ((path, Some err), s')
           | (Inr _, s') \<Rightarrow> ((path, None), s')))"

definition env_kubeconfig :: "'s admin_env \<Rightarrow> string \<Rightarrow> 's \<Rightarrow> (string \<times> gerror option) \<times> 's" where
  "env_kubeconfig ae var s =
     (case sanitizePath ae (ae_Getenv ae var) s of
        ((path, None), s') \<Rightarrow> ((path, None), s')
      | ((path, Some _), s') \<Rightarrow> ((path, Some (''Failed to access the kubeconfig set by the environment variable '' @ var @ '': '')), s'))"

definition GetKubeConfigLocation :: "'s admin_env \<Rightarrow> string \<Rightarrow> 's \<Rightarrow> (string \<times> gerror option) \<times> 's" where
  "GetKubeConfigLocation ae kubeconfigPath s =
     (if kubeconfigPath \<noteq> [] then sanitizePath ae kubeconfigPath s
      else if ae_Getenv ae EnvVarTestKubeConfig \<noteq> [] then env_kubeconfig ae EnvVarTestKubeConfig s
      else if ae_Getenv ae EnvVarKubeConfig \<noteq> [] then env_kubeconfig ae EnvVarKubeConfig s
      else if ae_HomeDir ae \<noteq> [] then sanitizePath ae (ae_HomeDir ae @ ''/.kube/config'') s
      else (([], Some ''unable to find kubeconfig''), s))"

definition location :: "'s admin_env \<Rightarrow> string \<Rightarrow> 's \<Rightarrow> string result \<times> 's" where
  "location ae kubeconfigPath s =
     (case GetKubeConfigLocation ae kubeconfigPath s of ((path, None), s') \<Rightarrow> (Inr path, s') | ((_, Some err), s') \<Rightarrow> (Inl err, s'))"

text \<open>The namespace of the current context.\<close>

definition GetNamespaceFromConfig :: "'s admin_env \<Rightarrow> string \<Rightarrow> ('s, 'e, string) act" where
  "GetNamespaceFromConfig ae kubeConfigPath =
     abind (ask (location ae kubeConfigPath)) (\<lambda>path.
     abind (ask (ae_ReadFile ae path)) (\<lambda>bytesOfKubeConfig.
     abind (alift (ae_LoadContexts ae bytesOfKubeConfig)) (\<lambda>(currentContextName, contexts).
       aret (case contexts currentContextName of
               None \<Rightarrow> ''default''
             | Some namespace \<Rightarrow> (if namespace = [] then ''default'' else namespace)))))"

section \<open>Commands in a pod\<close>

text \<open>\<open>filter\<close> says whether a message is kept.\<close>

definition kubectl_filter :: "string list \<Rightarrow> string \<Rightarrow> bool" where
  "kubectl_filter ignores s = (\<not> list_ex (\<lambda>i. go_contains s i) ignores)"

text \<open>\<open>kErrWriter.Write\<close>: what is left after cutting out the ignored texts is kept unless it is blank.\<close>

fun cut_ignored :: "string \<Rightarrow> string list \<Rightarrow> string \<Rightarrow> string" where
  "cut_ignored out [] kept = kept"
| "cut_ignored out (e # es) kept = cut_ignored out es (if go_contains out e then replace_all kept e [] else kept)"

definition kErrWriter_Write :: "string list \<Rightarrow> string \<Rightarrow> string \<Rightarrow> string" where
  "kErrWriter_Write ignore errBuf out =
     (let kept = cut_ignored out ignore out in if trim_space kept \<noteq> [] then errBuf @ kept else errBuf)"

text \<open>With pipes nothing reaches the buffer.\<close>

definition error_buffer :: "KubectlConfig \<Rightarrow> string list \<Rightarrow> string" where
  "error_buffer kc written = (if kc_Pipes kc then [] else foldl (kErrWriter_Write (kc_IgnoreErrors kc)) [] written)"

definition command_result :: "KubectlConfig \<Rightarrow> exec_outcome \<Rightarrow> unit result" where
  "command_result kc x =
     (let fatal = filter (kubectl_filter (kc_IgnoreErrors kc)) (eo_Fatal x);
          errBuf = error_buffer kc (eo_Written x)
      in if eo_Err x \<noteq> None \<or> fatal \<noteq> []
         then (if errBuf \<noteq> [] then Inl (''Error running script: '' @ errBuf)
               else (case eo_Err x of
                       Some err \<Rightarrow> Inl err
                     | None \<Rightarrow> Inl (''Error running script: '' @ last fatal)))
         else Inr ())"

definition NewKubectlConfig :: "'s admin_env \<Rightarrow> string \<Rightarrow> string \<Rightarrow> string list \<Rightarrow> bool \<Rightarrow> ('s, 'e, KubectlConfig) act" where
  "NewKubectlConfig ae kubeConfigPath namespace ignoreErrors usePipes =
     abind (ask (location ae kubeConfigPath)) (\<lambda>_.
       aret \<lparr>kc_Namespace = namespace, kc_IgnoreErrors = ignoreErrors, kc_Pipes = usePipes\<rparr>)"

definition RunCommand :: "'s admin_env \<Rightarrow> string \<Rightarrow> KubectlConfig \<Rightarrow> string \<Rightarrow> string list \<Rightarrow> ('s, admin_event, unit) act" where
  "RunCommand ae kubeconfig kc podName cmdArgs =
     perform (EvCommand kubeconfig podName cmdArgs) (\<lambda>s. case ae_Exec ae kubeconfig podName cmdArgs s of (x, s') \<Rightarrow> (command_result kc x, s'))"

section \<open>Administration pods\<close>

text \<open>At most 49 looks at the pod.\<close>

fun pod_loop :: "'s kube_api \<Rightarrow> string \<Rightarrow> string \<Rightarrow> nat \<Rightarrow> 's \<Rightarrow> unit result \<times> 's" where
  "pod_loop ka namespace name left s =
     (case ka_GetPod ka namespace name s of (r, s1) \<Rightarrow>
        if (case r of Inr pod \<Rightarrow> pod_Ready pod = [True] | Inl _ \<Rightarrow> False) then (Inr (), s1)
        else (case left of
                0 \<Rightarrow> (case r of Inl err \<Rightarrow> (Inl err, s1)
                      | Inr _ \<Rightarrow> (Inl (''timed out waiting for pod '' @ namespace @ ''/'' @ name @ '' to be ready''), s1))
              | Suc k \<Rightarrow> pod_loop ka namespace name k (na_Sleep (ka_node ka) (5 * duration_s) s1)))"

declare pod_loop.simps [simp del]

definition WaitForPod :: "'s kube_api \<Rightarrow> string \<Rightarrow> string \<Rightarrow> 's \<Rightarrow> unit result \<times> 's" where
  "WaitForPod ka namespace name s = pod_loop ka namespace name 48 s"

definition StartAdminPodOnNode :: "'s admin_env \<Rightarrow> string \<Rightarrow> string \<Rightarrow> string \<Rightarrow> string \<Rightarrow> bool \<Rightarrow> ('s, admin_event, PodSpecification) act" where
  "StartAdminPodOnNode ae kubeconfig node namespace podNamePrefix toolbox =
     (let pod = BasicAdminPod node namespace podNamePrefix toolbox;
          ka = ae_ka ae kubeconfig
      in abind (wait_for (WaitUntilGetNodesSucceeds (ka_node ka))) (\<lambda>_.
         abind (ask (na_GetNode (ka_node ka) node)) (\<lambda>_.
         abind (perform (EvCreateAdminPod kubeconfig pod) (ae_CreatePod ae kubeconfig pod)) (\<lambda>_.
         abind (ask (WaitForPod ka (px_Namespace pod) (px_Name pod))) (\<lambda>_.
           aret pod)))))"

definition DeleteAdminPod :: "'s admin_env \<Rightarrow> string \<Rightarrow> string \<Rightarrow> string \<Rightarrow> string \<Rightarrow> ('s, admin_event, unit) act" where
  "DeleteAdminPod ae kubeconfig node namespace pre =
     with_events (EvCluster kubeconfig) (DeletePod (ae_ka ae kubeconfig) namespace (AdminPodName node pre))"

section \<open>The endpoint of the control plane\<close>

definition fromConfigMap :: "'s admin_env \<Rightarrow> string \<Rightarrow> ('s, 'e, string) act" where
  "fromConfigMap ae kubeconfig =
     abind (ask (ka_GetConfigmap (ae_ka ae kubeconfig) ''kube-system'' ''kubeadm-config'')) (\<lambda>cm.
     abind (alift (ae_UnmarshalMap ae (case cm ''ClusterConfiguration'' of Some t \<Rightarrow> t | None \<Rightarrow> []))) (\<lambda>config.
       case config ''controlPlaneEndpoint'' of
         None \<Rightarrow> afail ''Kubeadm configuration does not have a controlPlaneEndpoint''
       | Some (GStr host) \<Rightarrow> aret host
       | Some _ \<Rightarrow> afail ''Kubeadm configuration field controlPlaneEndpoint is not a string''))"

text \<open>\<open>restHost\<close> is the host of the client's configuration.\<close>

definition GetControlPlaneEndpoint :: "'s admin_env \<Rightarrow> string \<Rightarrow> string \<Rightarrow> ('s, 'e, string) act" where
  "GetControlPlaneEndpoint ae kubeconfig restHost =
     atry (fromConfigMap ae kubeconfig) (\<lambda>r. case r of
         Inr cpEndpoint \<Rightarrow> (if cpEndpoint \<noteq> [] then aret cpEndpoint else alift (ae_UrlHost ae restHost))
       | Inl _ \<Rightarrow> alift (ae_UrlHost ae restHost))"

section \<open>Tokens and certificates\<close>

definition CreateJoinToken :: "'s admin_env \<Rightarrow> string \<Rightarrow> bool \<Rightarrow> ('s, admin_event, string) act" where
  "CreateJoinToken ae kubeconfigPath generateOnly =
     abind (ask (ae_GenerateToken ae)) (\<lambda>tokenStr.
       if generateOnly then aret tokenStr
       else abind (alift (ae_NewTokenString ae tokenStr)) (\<lambda>_.
            abind (ask (ae_GetClientset ae kubeconfigPath)) (\<lambda>_.
            abind (perform (EvCreateToken kubeconfigPath tokenStr) (ae_CreateNewTokens ae kubeconfigPath tokenStr)) (\<lambda>_.
              aret tokenStr))))"

definition CreateJoin :: "'s admin_env \<Rightarrow> string \<Rightarrow> ('s, admin_event, string \<times> string list) act" where
  "CreateJoin ae kubeconfigPath =
     abind (ask (ae_CertHashes ae kubeconfigPath)) (\<lambda>caCertHashes.
     abind (CreateJoinToken ae kubeconfigPath False) (\<lambda>tokenStr.
       aret (tokenStr, caCertHashes)))"

definition first_control_plane :: "'s admin_env \<Rightarrow> string \<Rightarrow> ('s, 'e, string) act" where
  "first_control_plane ae kubeconfigPath =
     abind (ask (GetControlPlaneNodes (ae_order ae) (ka_node (ae_ka ae kubeconfigPath)))) (\<lambda>nodes.
       case nodes of [] \<Rightarrow> afail ''Did not find any control plane nodes'' | node # _ \<Rightarrow> aret (kn_Name node))"

definition UploadCertificateStanza :: "'s admin_env \<Rightarrow> string \<Rightarrow> string \<Rightarrow> ('s, 'e, string) act" where
  \<open>UploadCertificateStanza ae kubeconfigPath key =
     abind (ask (ae_GetClientset ae kubeconfigPath)) (\<lambda>_.
     abind (first_control_plane ae kubeconfigPath) (\<lambda>nodeName.
       aret (''echo "chroot /hostroot kubeadm init phase upload-certs --certificate-key '' @ key
             @ '' --upload-certs" | ocne cluster console --node '' @ nodeName)))\<close>

definition OCNENamespace :: string where "OCNENamespace = ''ocne-system''"

definition upload_ignores :: "string list" where
  "upload_ignores = [''could not fetch a Kubernetes version'', ''falling back to'']"

definition upload_command :: "string \<Rightarrow> string list" where
  "upload_command key =
     [''chroot'', ''/hostroot'', ''kubeadm'', ''init'', ''phase'', ''upload-certs'', ''--certificate-key'', key, ''--upload-certs'']"

definition UploadCertificates :: "'s admin_env \<Rightarrow> string \<Rightarrow> string \<Rightarrow> ('s, admin_event, unit) act" where
  "UploadCertificates ae kubeconfigPath key =
     abind (ask (ae_GetKubeClient ae kubeconfigPath)) (\<lambda>_.
     abind (first_control_plane ae kubeconfigPath) (\<lambda>nodeName.
     abind (with_events (EvCluster kubeconfigPath) (CreateNamespaceIfNotExists (ae_ka ae kubeconfigPath) OCNENamespace)) (\<lambda>_.
     abind (StartAdminPodOnNode ae kubeconfigPath nodeName OCNENamespace ''exec'' False) (\<lambda>pod.
       adefer
         (abind (NewKubectlConfig ae kubeconfigPath (px_Namespace pod) upload_ignores True) (\<lambda>kc.
            RunCommand ae kubeconfigPath kc (px_Name pod) (upload_command key)))
         (with_events (EvCluster kubeconfigPath) (DeletePod (ae_ka ae kubeconfigPath) (px_Namespace pod) (px_Name pod)))))))"

section \<open>An example\<close>

text \<open>Two clusters on which every request succeeds, and a machine with a kubeconfig.\<close>

definition sample_admin :: "int admin_env" where
  "sample_admin = \<lparr>ae_ka = (\<lambda>_. sample_kube []), ae_order = id, ae_GetKubeClient = (\<lambda>_ s. (Inr ''https://10.0.0.9:6443'', s)),
     ae_CreatePod = (\<lambda>_ _ s. (Inr (), s)), ae_Exec = (\<lambda>_ _ _ s. (\<lparr>eo_Err = None, eo_Fatal = [], eo_Written = []\<rparr>, s)),
     ae_Abs = Inr, ae_Stat = (\<lambda>_ s. (Inr (), s)), ae_Getenv = (\<lambda>_. []), ae_HomeDir = ''/h'', ae_ReadFile = (\<lambda>_ s. (Inr [], s)),
     ae_LoadContexts = (\<lambda>_. Inr ([], Map.empty)), ae_UnmarshalMap = (\<lambda>_. Inr [''controlPlaneEndpoint'' \<mapsto> GStr ''10.0.0.9:6443'']),
     ae_UrlHost = (\<lambda>_. Inr ''10.0.0.9:6443''), ae_CertHashes = (\<lambda>_ s. (Inr [''sha256:0''], s)), ae_GenerateToken = (\<lambda>s. (Inr ''t.0'', s)),
     ae_NewTokenString = (\<lambda>_. Inr ()), ae_GetClientset = (\<lambda>_ s. (Inr (), s)), ae_CreateNewTokens = (\<lambda>_ _ s. (Inr (), s))\<rparr>"

section \<open>Lemmas\<close>

lemma emits_StartAdminPodOnNode [emits_intro]: "(\<And>pod. P (EvCreateAdminPod kc pod)) \<Longrightarrow> emits P (StartAdminPodOnNode ae kc node ns pre tb)"
  unfolding StartAdminPodOnNode_def Let_def by (intro emits_intro) simp_all

lemma emits_NewKubectlConfig [emits_intro]: "emits P (NewKubectlConfig ae kc ns ig pipes)"
  unfolding NewKubectlConfig_def by (intro emits_intro)

lemma emits_RunCommand [emits_intro]: "P (EvCommand kc pod args) \<Longrightarrow> emits P (RunCommand ae kc c pod args)"
  unfolding RunCommand_def by (intro emits_intro)

lemma emits_GetControlPlaneEndpoint [emits_intro]: "emits P (GetControlPlaneEndpoint ae kc host)"
  unfolding GetControlPlaneEndpoint_def fromConfigMap_def by (auto intro!: emits_intro split: option.splits gval.splits sum.splits)

lemma emits_first_control_plane [emits_intro]: "emits P (first_control_plane ae kc)"
  unfolding first_control_plane_def by (auto intro!: emits_intro split: list.splits)

lemma emits_CreateJoin [emits_intro]: "(\<And>tok. P (EvCreateToken kc tok)) \<Longrightarrow> emits P (CreateJoin ae kc)"
  unfolding CreateJoin_def CreateJoinToken_def by (auto intro!: emits_intro)

lemma emits_CreateJoinToken [emits_intro]:
  "(\<And>tok. \<not> generateOnly \<Longrightarrow> P (EvCreateToken kc tok)) \<Longrightarrow> emits P (CreateJoinToken ae kc generateOnly)"
  unfolding CreateJoinToken_def by (auto intro!: emits_intro)

lemma emits_UploadCertificateStanza [emits_intro]: "emits P (UploadCertificateStanza ae kc key)"
  unfolding UploadCertificateStanza_def by (intro emits_intro)

lemma emits_UploadCertificates:
  assumes "\<And>k. k = EvCreateNamespace OCNENamespace \<or> (\<exists>ns n. k = EvDeletePod ns n) \<Longrightarrow> P (EvCluster kc k)"
    and "\<And>pod. P (EvCreateAdminPod kc pod)" and "\<And>n. P (EvCommand kc n (upload_command key))"
  shows "emits P (UploadCertificates ae kc key)"
proof -
  have kube: "emits P (with_events (EvCluster kc) (CreateNamespaceIfNotExists ka OCNENamespace))" "emits P (with_events (EvCluster kc) (DeletePod ka ns n))"
    for ka :: "'a kube_api" and ns n
    by (rule emits_with_events [where P = "\<lambda>k. k = EvCreateNamespace OCNENamespace \<or> (\<exists>ns n. k = EvDeletePod ns n)"]; auto intro: emits_intro assms(1))+
  show ?thesis unfolding UploadCertificates_def by (intro emits_intro kube assms(2,3))
qed

section \<open>Properties\<close>

lemma StartAdminPodOnNode_trace:
  assumes "StartAdminPodOnNode ae kc node ns pre tb (s, tr) = (r, s', tr')"
  shows "(tr' = tr \<and> \<not> is_ok r) \<or> (\<exists>pod. tr' = tr @ [EvCreateAdminPod kc pod] \<and> (\<forall>p. r = Inr p \<longrightarrow> p = pod) \<and> pod = BasicAdminPod node ns pre tb)"
  using assms unfolding StartAdminPodOnNode_def Let_def
  by (auto elim!: abind_cases dest!: no_effects [OF emits_wait_for] ask_trace perform_trace simp: is_ok_def)

lemma RunCommand_trace:
  "RunCommand ae kc c pod args (s, tr) = (r, s', tr') \<Longrightarrow> tr' = tr @ [EvCommand kc pod args]"
  by (auto simp: RunCommand_def dest: perform_trace)

text \<open>
  Uploading the certificates runs one command, in a pod made for it on the first control-plane node.  The pod is deleted on every path
  after it was seen ready; a pod that is made and does not become ready stays, with an error.
\<close>

theorem upload_pod_deleted:
  assumes "UploadCertificates ae kc key (s, tr) = (r, s', tr')"
  shows "\<exists>a b. tr' = tr @ a @ b \<and> list_all (\<lambda>ev. ev = EvCluster kc (EvCreateNamespace OCNENamespace)) a
    \<and> (b = [] \<and> \<not> is_ok r
       \<or> (\<exists>pod. b = [EvCreateAdminPod kc pod] \<and> \<not> is_ok r
          \<or> (\<exists>c. b = EvCreateAdminPod kc pod # c @ [EvCluster kc (EvDeletePod OCNENamespace (px_Name pod))]
               \<and> (c = [EvCommand kc (px_Name pod) (upload_command key)] \<or> c = [] \<and> \<not> is_ok r))))"
proof -
  let ?ns = "with_events (EvCluster kc) (CreateNamespaceIfNotExists (ae_ka ae kc) OCNENamespace) :: ('a, admin_event, unit) act"
  let ?P = "\<lambda>ev. ev = EvCluster kc (EvCreateNamespace OCNENamespace)"
  have ns: "emits ?P ?ns" by (rule emits_with_events [where P = "\<lambda>k. k = EvCreateNamespace OCNENamespace"]) (auto intro: emits_intro)
  have first: "emits (\<lambda>_. False) (first_control_plane ae kc)"
    unfolding first_control_plane_def by (auto intro!: emits_intro split: list.splits)
  show ?thesis
    using assms unfolding UploadCertificates_def
  proof (cases rule: abind_cases)
    case (err e)
    then show ?thesis by (auto dest!: ask_trace simp: is_ok_def)
  next
    case (ok x s1 tr1)
    then have "tr1 = tr" by (auto dest: ask_trace)
    show ?thesis using ok(2)
    proof (cases rule: abind_cases)
      case (err e)
      with \<open>tr1 = tr\<close> show ?thesis by (auto dest!: no_effects [OF first] simp: is_ok_def)
    next
      case (ok node s2 tr2)
      then have "tr2 = tr" using \<open>tr1 = tr\<close> by (auto dest!: no_effects [OF first])
      show ?thesis using ok(2)
      proof (cases rule: abind_cases)
        case (err e)
        with emitsD [OF ns err(1)] \<open>tr2 = tr\<close> show ?thesis by (auto simp: is_ok_def)
      next
        case (ok u s3 tr3)
        obtain a where a: "tr3 = tr @ a" "list_all ?P a" using emitsD [OF ns ok(1)] \<open>tr2 = tr\<close> by blast
        show ?thesis using ok(2)
        proof (cases rule: abind_cases)
          case (err e)
          from StartAdminPodOnNode_trace [OF err(1)] a err show ?thesis by (auto simp: is_ok_def)
        next
          case (ok pod s4 tr4)
          from StartAdminPodOnNode_trace [OF ok(1)] a have tr4: "tr4 = tr @ a @ [EvCreateAdminPod kc pod]"
            and "px_Namespace pod = OCNENamespace" by (auto simp: is_ok_def BasicAdminPod_def Let_def)
          let ?body = "abind (NewKubectlConfig ae kc (px_Namespace pod) upload_ignores True) (\<lambda>c. RunCommand ae kc c (px_Name pod) (upload_command key))"
          from ok(2) obtain s5 tr5 q where body: "?body (s4, tr4) = (r, s5, tr5)"
            and "with_events (EvCluster kc) (DeletePod (ae_ka ae kc) (px_Namespace pod) (px_Name pod)) (s5, tr5) = (q, s', tr')"
            by (rule adefer_cases)
          then have "tr' = tr5 @ [EvCluster kc (EvDeletePod OCNENamespace (px_Name pod))]"
            using \<open>px_Namespace pod = OCNENamespace\<close>
            by (auto simp: with_events_def split: prod.splits dest!: DeletePod_trace)
          moreover have "tr5 = tr4 @ [EvCommand kc (px_Name pod) (upload_command key)] \<or> tr5 = tr4 \<and> \<not> is_ok r"
          proof -
            have quiet: "emits (\<lambda>_. False) (NewKubectlConfig ae kc (px_Namespace pod) upload_ignores True :: ('a, admin_event, KubectlConfig) act)"
              unfolding NewKubectlConfig_def by (intro emits_intro)
            from body show ?thesis
              by (cases rule: abind_cases) (auto dest!: no_effects [OF quiet] RunCommand_trace simp: is_ok_def)
          qed
          ultimately show ?thesis using a(2) tr4 by fastforce
        qed
      qed
    qed
  qed
qed

theorem upload_pod_deleted_witness:
  "\<exists>r s' a b. UploadCertificates sample_admin ''/k'' ''key'' (0, []) = (r, s', a @ b)
     \<and> list_all (\<lambda>ev. ev = EvCluster ''/k'' (EvCreateNamespace OCNENamespace)) a"
proof -
  obtain r s' tr' where run: "UploadCertificates sample_admin ''/k'' ''key'' (0, []) = (r, s', tr')" by (metis prod.exhaust)
  from upload_pod_deleted [OF run] obtain a b where "tr' = a @ b"
    "list_all (\<lambda>ev. ev = EvCluster ''/k'' (EvCreateNamespace OCNENamespace)) a" by auto
  with run show ?thesis by blast
qed

end
