(* ===== verification/Base64.thy ===== *)
theory Base64
  imports Go_Strings
begin

text \<open>
  Encodings of Go's library that the commands put texts into: \<^verbatim>\<open>base64.StdEncoding\<close>, \<^verbatim>\<open>hex.EncodeToString\<close> and the octal
  format \<^verbatim>\<open>%o\<close>; what a base64 text decodes to is what the shell's \<^verbatim>\<open>base64 -d\<close> gives back.
\<close>

definition b64_alphabet :: string where
  "b64_alphabet = ''ABCDEFGHIJKLMNOPQRSTUVWXYZabcdefghijklmnopqrstuvwxyz0123456789+/''"

definition b64_sym :: "nat \<Rightarrow> char" where
  "b64_sym n = b64_alphabet ! (n mod 64)"

definition byte :: "char \<Rightarrow> nat" where "byte c = of_char c"

fun b64_encode :: "string \<Rightarrow> string" where
  "b64_encode [] = []"
| "b64_encode [a] = (let n = byte a * 16 in [b64_sym (n div 64), b64_sym n, CHR ''='', CHR ''=''])"
| "b64_encode [a, b] = (let n = (byte a * 256 + byte b) * 4 in [b64_sym (n div 4096), b64_sym (n div 64), b64_sym n, CHR ''=''])"
| "b64_encode (a # b # c # cs) =
     (let n = (byte a * 256 + byte b) * 256 + byte c
      in [b64_sym (n div 262144), b64_sym (n div 4096), b64_sym (n div 64), b64_sym n] @ b64_encode cs)"

fun index_of :: "char \<Rightarrow> string \<Rightarrow> nat option" where
  "index_of c [] = None"
| "index_of c (x # xs) = (if x = c then Some 0 else map_option Suc (index_of c xs))"

definition b64_val :: "char \<Rightarrow> nat option" where
  "b64_val c = index_of c b64_alphabet"

fun b64_decode :: "string \<Rightarrow> string option" where
  "b64_decode [] = Some []"
| "b64_decode (p # q # r # t # rest) =
     (case (b64_val p, b64_val q) of
        (Some i, Some j) \<Rightarrow>
          (if rest = [] \<and> r = CHR ''='' \<and> t = CHR ''='' then Some [char_of ((i * 64 + j) div 16)]
           else (case b64_val r of
                   None \<Rightarrow> None
                 | Some k \<Rightarrow>
                     (if rest = [] \<and> t = CHR ''='' then Some [char_of ((i * 64 + j) div 16), char_of (((i * 64 + j) * 64 + k) div 4)]
                      else (case b64_val t of
                              None \<Rightarrow> None
                            | Some l \<Rightarrow>
                                (let n = ((i * 64 + j) * 64 + k) * 64 + l
                                 in map_option (\<lambda>s. char_of (n div 65536) # char_of (n div 256) # char_of n # s) (b64_decode rest))))))
      | _ \<Rightarrow> None)"
| "b64_decode _ = None"

text \<open>\<^verbatim>\<open>%o\<close> of a mode.\<close>

fun octal :: "nat \<Rightarrow> string" where
  "octal n = (if n < 8 then [digit_char n] else octal (n div 8) @ [digit_char (n mod 8)])"

declare octal.simps [simp del]

definition hex_digit :: "nat \<Rightarrow> char" where
  "hex_digit n = ''0123456789abcdef'' ! (n mod 16)"

definition hex_encode :: "string \<Rightarrow> string" where
  "hex_encode bs = concat (map (\<lambda>c. [hex_digit (byte c div 16), hex_digit (byte c)]) bs)"

section \<open>Lemmas\<close>

lemma byte_less [simp]: "byte c < 256"
  by (simp add: byte_def)

lemma byte_le: "byte c \<le> 255"
  using byte_less [of c] by linarith

lemma char_of_byte [simp]: "char_of (byte c) = c"
  by (simp add: byte_def)

lemma char_of_low: "(char_of (m * 256 + byte c) :: char) = c"
proof -
  have "(m * 256 + byte c) mod 256 = byte c" by (subst mod_mult_self3) (rule mod_less [OF byte_less])
  then have "(char_of (m * 256 + byte c) :: char) = char_of (byte c)" using char_of_mod_256 [of "m * 256 + byte c", symmetric] by (simp only:)
  then show ?thesis by (simp only: char_of_byte)
qed

lemma b64_val_all: "list_all (\<lambda>n. b64_val (b64_sym n) = Some n) [0..<64]"
  by code_simp

lemma b64_val_sym [simp]: "b64_val (b64_sym n) = Some (n mod 64)"
proof -
  have "b64_sym n = b64_sym (n mod 64)" by (simp add: b64_sym_def)
  moreover have "n mod 64 \<in> set [0..<64]" by simp
  from bspec [OF b64_val_all [unfolded list_all_iff] this] have "b64_val (b64_sym (n mod 64)) = Some (n mod 64)" .
  ultimately show ?thesis by simp
qed

lemma b64_sym_alphabet: "b64_sym n \<in> set b64_alphabet"
proof -
  have "length b64_alphabet = 64" by code_simp
  then show ?thesis by (simp add: b64_sym_def)
qed

lemma b64_sym_no_pad [simp]: "b64_sym n \<noteq> CHR ''=''"
proof
  assume "b64_sym n = CHR ''=''"
  then have "b64_val (CHR ''='') = Some (n mod 64)" using b64_val_sym [of n] by simp
  moreover have "b64_val (CHR ''='') = None" by code_simp
  ultimately show False by simp
qed

lemma six_bits: "n div (64 * k) * 64 + n div k mod 64 = n div (k :: nat)"
  using div_mult_mod_eq [of "n div k" 64] by (simp add: div_mult2_eq mult.commute)

lemma digits_64:
  "n < 4096 \<Longrightarrow> n div 64 mod 64 * 64 + n mod 64 = (n :: nat)"
  "n < 262144 \<Longrightarrow> (n div 4096 mod 64 * 64 + n div 64 mod 64) * 64 + n mod 64 = (n :: nat)"
  "n < 16777216 \<Longrightarrow> ((n div 262144 mod 64 * 64 + n div 4096 mod 64) * 64 + n div 64 mod 64) * 64 + n mod 64 = (n :: nat)"
  using six_bits [of n 1] six_bits [of n 64] six_bits [of n 4096] by simp_all

lemma b64_roundtrip: "b64_decode (b64_encode s) = Some s"
proof (induction s rule: b64_encode.induct)
  case 1
  then show ?case by simp
next
  case (2 a)
  define n where "n = byte a * 16"
  then have "n < 4096" "n div 16 = byte a" using byte_less [of a] by linarith+
  moreover have "b64_encode [a] = [b64_sym (n div 64), b64_sym n, CHR ''='', CHR ''='']" by (simp add: n_def Let_def)
  ultimately show ?case using digits_64(1) by simp
next
  case (3 a b)
  define m where "m = byte a * 256 + byte b"
  define n where "n = m * 4"
  have n: "n < 262144" using byte_le [of a] byte_le [of b] by (simp add: n_def m_def)
  have "n div 64 < 4096" using n by (simp add: less_mult_imp_div_less)
  then have "n div 4096 mod 64 * 64 + n div 64 mod 64 = n div 64"
    using digits_64(1) [of "n div 64"] by (simp add: div_mult2_eq [symmetric])
  moreover have "n div 64 div 16 = byte a" using byte_less [of b] by (simp add: n_def m_def div_mult2_eq [symmetric])
  moreover have "n div 4 = m" by (simp add: n_def)
  moreover have "b64_encode [a, b] = [b64_sym (n div 4096), b64_sym (n div 64), b64_sym n, CHR ''='']" by (simp add: n_def m_def Let_def)
  ultimately show ?case using digits_64(2) [OF n] by (simp add: m_def char_of_low)
next
  case (4 a b c cs)
  define m where "m = byte a * 256 + byte b"
  define n where "n = m * 256 + byte c"
  have n: "n < 16777216" using byte_le [of a] byte_le [of b] byte_le [of c] by (simp add: n_def m_def)
  have m: "n div 256 = m" using byte_less [of c] by (simp add: n_def)
  moreover from m have "n div 65536 = byte a" using byte_less [of b] div_mult2_eq [of n 256 256] by (simp add: m_def)
  moreover have "b64_encode (a # b # c # cs)
      = b64_sym (n div 262144) # b64_sym (n div 4096) # b64_sym (n div 64) # b64_sym n # b64_encode cs" by (simp add: n_def m_def Let_def)
  moreover have "(char_of n :: char) = c" "(char_of m :: char) = b" by (simp_all only: n_def m_def char_of_low)
  moreover have "b64_decode (b64_encode cs) = Some cs" using 4 by simp
  ultimately show ?case using digits_64(3) [OF n] by (simp add: Let_def)
qed

text \<open>The characters that mean something to a shell between double quotes.\<close>

definition shell_special :: string where
  "shell_special = [CHR 34, CHR ''$'', CHR 96, CHR 92, CHR ''!'', CHR 10]"

lemma b64_encode_set: "set (b64_encode s) \<subseteq> insert (CHR ''='') (set b64_alphabet)"
  by (induction s rule: b64_encode.induct) (auto simp: Let_def b64_sym_alphabet)

lemma b64_no_special: "set (b64_encode s) \<inter> set shell_special = {}"
proof -
  have "list_all (\<lambda>c. c \<notin> set shell_special) (CHR ''='' # b64_alphabet)" by code_simp
  with b64_encode_set [of s] show ?thesis by (auto simp: list_all_iff)
qed

end
