(* ===== verification/Pid_Lock.thy ===== *)
theory Pid_Lock
  imports Go_Strings
begin

text \<open>
  The lock between processes (\<^verbatim>\<open>pkg/util/pidlock/pidfile.go\<close>): a file that only one process can create, with the number of that
  process in it.

  \<open>WaitFor\<close> and \<open>Drop\<close> are the code over an operating system that is a record of functions on a state.  The machine of the second part
  lets any number of processes run the same code on one file system, one system call at a time: \<open>lock_act\<close> is what a process does next,
  \<open>lock_step\<close> picks the process.  A file that was opened is an inode of its own, so that a process can read a file that is no longer
  at its path; processes may crash at any point, which leaves the file behind, and their numbers may be used again.
\<close>

section \<open>The code\<close>

type_synonym pid = "32 word"

datatype open_result = Opened nat | Exists | OpenFails gerror

record 's lock_os =
  lo_OcneDir :: "'s \<Rightarrow> string result \<times> 's"
  lo_HomeDir :: "'s \<Rightarrow> string result \<times> 's"
  lo_CreateExcl :: "string \<Rightarrow> 's \<Rightarrow> open_result \<times> 's"
  lo_Write :: "nat \<Rightarrow> string \<Rightarrow> 's \<Rightarrow> 's"
  lo_Open :: "string \<Rightarrow> 's \<Rightarrow> nat result \<times> 's"
  lo_Read :: "nat \<Rightarrow> nat \<Rightarrow> 's \<Rightarrow> string result \<times> 's"
  lo_Remove :: "string \<Rightarrow> 's \<Rightarrow> 's"
  lo_Getpid :: pid
  lo_Now :: "'s \<Rightarrow> int"
  lo_Sleep :: "int \<Rightarrow> 's \<Rightarrow> 's"

definition PidFile :: string where "PidFile = ''ocne.pid''"

definition UserConfigDir :: string where "UserConfigDir = ''.ocne''"

definition lock_path :: "string \<Rightarrow> string" where
  "lock_path dir = dir @ ''/'' @ PidFile"

definition lock_pause :: int where "lock_pause = 10 * 1000000"

text \<open>\<^verbatim>\<open>strconv.Itoa(os.Getpid())\<close>; the number of a process is a positive 32-bit number.\<close>

definition pid_text :: "pid \<Rightarrow> string" where
  "pid_text p = format_nat (unat p)"

text \<open>The loop of \<open>WaitFor\<close>: what it returns is the handle of the file that this process made.\<close>

partial_function (option) wait_loop :: "'s lock_os \<Rightarrow> string \<Rightarrow> int \<Rightarrow> 's \<Rightarrow> (nat result \<times> 's) option" where
  "wait_loop os path until s =
     (case lo_CreateExcl os path s of
        (Opened h, s') \<Rightarrow> Some (Inr h, s')
      | (OpenFails err, s') \<Rightarrow> Some (Inl err, s')
      | (Exists, s') \<Rightarrow>
          (if lo_Now os s' > until then Some (Inl (''Could not get pidfile lock at '' @ path), s')
           else wait_loop os path until (lo_Sleep os lock_pause s')))"

definition WaitFor :: "'s lock_os \<Rightarrow> int \<Rightarrow> 's \<Rightarrow> (unit result \<times> 's) option" where
  "WaitFor os timeout s =
     (case lo_OcneDir os s of
        (Inl err, s1) \<Rightarrow> Some (Inl err, s1)
      | (Inr configDir, s1) \<Rightarrow>
          (case wait_loop os (lock_path configDir) (lo_Now os s1 + timeout) s1 of
             None \<Rightarrow> None
           | Some (Inl err, s2) \<Rightarrow> Some (Inl err, s2)
           | Some (Inr h, s2) \<Rightarrow> Some (Inr (), lo_Write os h (pid_text (lo_Getpid os)) s2)))"

text \<open>The check of \<open>Drop\<close> on what it has read.\<close>

definition not_owner :: "pid \<Rightarrow> string \<Rightarrow> gerror option" where
  "not_owner pid contents =
     (case atoi contents of
        None \<Rightarrow> Some (''strconv.Atoi: parsing '' @ contents)
      | Some filePid \<Rightarrow>
          (if filePid \<noteq> int (unat pid)
           then Some (''Tried to drop a pid lock for process '' @ contents @ ''.  This process is '' @ pid_text pid)
           else None))"

definition Drop :: "'s lock_os \<Rightarrow> 's \<Rightarrow> unit result \<times> 's" where
  "Drop os s =
     (case lo_HomeDir os s of
        (Inl err, s1) \<Rightarrow> (Inl err, s1)
      | (Inr home, s1) \<Rightarrow>
          (let pidFilePath = lock_path (home @ ''/'' @ UserConfigDir)
           in case lo_Open os pidFilePath s1 of
                (Inl err, s2) \<Rightarrow> (Inl err, s2)
              | (Inr f, s2) \<Rightarrow>
                  (case lo_Read os f 32 s2 of
                     (Inl err, s3) \<Rightarrow> (Inl err, s3)
                   | (Inr contents, s3) \<Rightarrow>
                       (case not_owner (lo_Getpid os) contents of
                          Some err \<Rightarrow> (Inl err, s3)
                        | None \<Rightarrow> (Inr (), lo_Remove os pidFilePath s3)))))"

section \<open>Processes\<close>

datatype lock_pc =
    Outside
  | Waiting int      \<comment> \<open>in the loop of \<open>WaitFor\<close>, until this time\<close>
  | Writing nat      \<comment> \<open>the file was made, the number is not in it yet\<close>
  | Dropping nat     \<comment> \<open>\<open>Drop\<close> has opened the file\<close>
  | Removing         \<comment> \<open>\<open>Drop\<close> has found the number of this process\<close>

text \<open>\<open>lk_maker\<close> and \<open>lk_owned\<close> are no part of the system: they say who made an inode, and which inode a process has a lock on, from
  the moment it makes the file until it removes it or crashes.\<close>

record lock_world =
  lk_path :: "nat option"
  lk_contents :: "nat \<Rightarrow> string"
  lk_next :: nat
  lk_now :: int
  lk_pc :: "pid \<Rightarrow> lock_pc"
  lk_maker :: "nat \<Rightarrow> pid"
  lk_owned :: "pid \<Rightarrow> nat option"

datatype lock_action = CallWaitFor int | TryCreate | CreateFails | WritePid | CallDrop | ReadPid | RemoveFile | Crash

definition goto :: "pid \<Rightarrow> lock_pc \<Rightarrow> 'a lock_world_scheme \<Rightarrow> 'a lock_world_scheme" where
  "goto p l w = w\<lparr>lk_pc := (lk_pc w)(p := l)\<rparr>"

definition make_file :: "pid \<Rightarrow> 'a lock_world_scheme \<Rightarrow> 'a lock_world_scheme" where
  "make_file p w = w\<lparr>lk_path := Some (lk_next w), lk_contents := (lk_contents w)(lk_next w := []), lk_next := Suc (lk_next w),
     lk_maker := (lk_maker w)(lk_next w := p), lk_owned := (lk_owned w)(p := Some (lk_next w))\<rparr>"

definition remove_file :: "pid \<Rightarrow> 'a lock_world_scheme \<Rightarrow> 'a lock_world_scheme" where
  "remove_file p w = w\<lparr>lk_path := None, lk_owned := (lk_owned w)(p := None)\<rparr>"

text \<open>One system call of process \<open>p\<close>, with what the code does up to the next one; \<open>None\<close> if it is not at this point.\<close>

fun lock_act :: "lock_action \<Rightarrow> pid \<Rightarrow> 'a lock_world_scheme \<Rightarrow> 'a lock_world_scheme option" where
  "lock_act (CallWaitFor timeout) p w = (case lk_pc w p of Outside \<Rightarrow> Some (goto p (Waiting (lk_now w + timeout)) w) | _ \<Rightarrow> None)"
| "lock_act TryCreate p w =
     (case lk_pc w p of
        Waiting until \<Rightarrow>
          (case lk_path w of
             None \<Rightarrow> Some (goto p (Writing (lk_next w)) (make_file p w))
           | Some _ \<Rightarrow> Some (if lk_now w > until then goto p Outside w else w))
      | _ \<Rightarrow> None)"
| "lock_act CreateFails p w = (case lk_pc w p of Waiting _ \<Rightarrow> Some (goto p Outside w) | _ \<Rightarrow> None)"
| "lock_act WritePid p w =
     (case lk_pc w p of
        Writing h \<Rightarrow> Some (goto p Outside (w\<lparr>lk_contents := (lk_contents w)(h := pid_text p)\<rparr>))
      | _ \<Rightarrow> None)"
| "lock_act CallDrop p w =
     (case lk_pc w p of
        Outside \<Rightarrow> Some (case lk_path w of None \<Rightarrow> w | Some h \<Rightarrow> goto p (Dropping h) w)
      | _ \<Rightarrow> None)"
| "lock_act ReadPid p w =
     (case lk_pc w p of
        Dropping h \<Rightarrow>
          (let contents = take 32 (lk_contents w h)
           in Some (goto p (if contents \<noteq> [] \<and> not_owner p contents = None then Removing else Outside) w))
      | _ \<Rightarrow> None)"
| "lock_act RemoveFile p w = (case lk_pc w p of Removing \<Rightarrow> Some (goto p Outside (remove_file p w)) | _ \<Rightarrow> None)"
| "lock_act Crash p w = Some (goto p Outside (w\<lparr>lk_owned := (lk_owned w)(p := None)\<rparr>))"

inductive lock_step :: "'a lock_world_scheme \<Rightarrow> 'a lock_world_scheme \<Rightarrow> bool" where
  act: "lock_act a p w = Some w' \<Longrightarrow> lock_step w w'"
| tick: "0 \<le> d \<Longrightarrow> lock_step w (w\<lparr>lk_now := lk_now w + d\<rparr>)"

definition no_locks :: lock_world where
  "no_locks = \<lparr>lk_path = None, lk_contents = (\<lambda>_. []), lk_next = 0, lk_now = 0, lk_pc = (\<lambda>_. Outside), lk_maker = (\<lambda>_. 0),
     lk_owned = (\<lambda>_. None)\<rparr>"

inductive lock_reachable :: "lock_world \<Rightarrow> bool" where
  start: "lock_reachable no_locks"
| step: "lock_reachable w \<Longrightarrow> lock_step w w' \<Longrightarrow> lock_reachable w'"

text \<open>A process has the lock between the end of a \<open>WaitFor\<close> that succeeded and the removal of the file.\<close>

definition has_lock :: "'a lock_world_scheme \<Rightarrow> pid \<Rightarrow> bool" where
  "has_lock w p \<longleftrightarrow> lk_owned w p \<noteq> None"

section \<open>The invariant\<close>

definition lock_inv :: "'a lock_world_scheme \<Rightarrow> bool" where
  "lock_inv w \<longleftrightarrow>
     (\<forall>h. lk_path w = Some h \<longrightarrow> h < lk_next w)
   \<and> (\<forall>h. lk_contents w h = [] \<or> lk_contents w h = pid_text (lk_maker w h))
   \<and> (\<forall>p h. lk_owned w p = Some h \<longrightarrow> lk_path w = Some h \<and> lk_maker w h = p)
   \<and> (\<forall>p h. lk_pc w p = Writing h \<longrightarrow> lk_owned w p = Some h)
   \<and> (\<forall>p h. lk_pc w p = Dropping h \<longrightarrow> h < lk_next w \<and> (lk_maker w h = p \<longrightarrow> lk_path w = Some h))
   \<and> (\<forall>p. lk_pc w p = Removing \<longrightarrow> (\<exists>h. lk_path w = Some h \<and> lk_maker w h = p))"

lemma lock_inv_owned: "lock_inv w \<Longrightarrow> lk_owned w p = Some h \<Longrightarrow> lk_path w = Some h \<and> lk_maker w h = p"
  unfolding lock_inv_def by blast

lemma lock_inv_writing: "lock_inv w \<Longrightarrow> lk_pc w p = Writing h \<Longrightarrow> lk_owned w p = Some h \<and> lk_path w = Some h \<and> lk_maker w h = p"
  unfolding lock_inv_def by blast

lemma lock_inv_removing: "lock_inv w \<Longrightarrow> lk_pc w p = Removing \<Longrightarrow> \<exists>h. lk_path w = Some h \<and> lk_maker w h = p"
  unfolding lock_inv_def by blast

lemma lock_inv_contents: "lock_inv w \<Longrightarrow> lk_contents w h \<noteq> [] \<Longrightarrow> lk_contents w h = pid_text (lk_maker w h)"
  unfolding lock_inv_def by blast

lemma lock_inv_start: "lock_inv no_locks"
  by (simp add: lock_inv_def no_locks_def)

text \<open>The 32 bytes that \<open>Drop\<close> reads hold any number of a process, and it finds out whether it is its own.\<close>

lemma format_nat_length: "n < 10 ^ Suc k \<Longrightarrow> length (format_nat n) \<le> Suc k"
proof (induction k arbitrary: n)
  case 0
  then show ?case by (subst format_nat.simps) simp
next
  case (Suc k)
  then have "n div 10 < 10 ^ Suc k" by (simp add: less_mult_imp_div_less mult.commute)
  from Suc.IH [OF this] show ?case by (subst format_nat.simps) simp
qed

lemma not_owner_pid: "not_owner p (take 32 (pid_text q)) = None \<longleftrightarrow> p = q"
proof -
  have small: "unat q < 2 ^ 32" using unsigned_less [of q, where ?'a = nat] by simp
  then have "length (pid_text q) \<le> 10" unfolding pid_text_def using format_nat_length [of "unat q" 9] by simp
  then have all: "take 32 (pid_text q) = pid_text q" by simp
  have less: "uint q < 9223372036854775808" using unsigned_less [of q, where ?'a = int] by simp
  note all
  moreover have "atoi (pid_text q) = Some (int (unat q))"
  proof (cases "pid_text q")
    case (Cons c cs)
    with format_nat_digits [of "unat q"] have "is_digit c" by (simp add: pid_text_def)
    then have "c \<noteq> CHR ''-''" "c \<noteq> CHR ''+''" by (auto simp: is_digit_def)
    with Cons small format_nat_digits [of "unat q"] nat_of_digits_format [of "unat q"] show ?thesis
      by (simp add: atoi_def pid_text_def Let_def less)
  qed (simp add: pid_text_def)
  ultimately show ?thesis by (auto simp: not_owner_def word_uint_eq_iff)
qed

lemma pid_text_nonempty [simp]: "pid_text p \<noteq> []"
  by (simp add: pid_text_def)

lemmas world_simps = goto_def make_file_def remove_file_def

lemma lock_act_inv:
  assumes inv: "lock_inv w" and run: "lock_act a p w = Some w'"
  shows "lock_inv w'"
proof (cases a)
  case (CallWaitFor timeout)
  with assms show ?thesis by (auto simp: lock_inv_def world_simps split: lock_pc.splits if_splits)
next
  case TryCreate
  with assms show ?thesis
    by (auto simp: lock_inv_def world_simps less_Suc_eq split: lock_pc.splits option.splits if_splits) metis+
next
  case CreateFails
  with assms show ?thesis by (auto simp: lock_inv_def world_simps split: lock_pc.splits if_splits)
next
  case WritePid
  then obtain h where h: "lk_pc w p = Writing h" "w' = goto p Outside (w\<lparr>lk_contents := (lk_contents w)(h := pid_text p)\<rparr>)"
    using run by (auto split: lock_pc.splits)
  have "lk_maker w h = p" using lock_inv_writing [OF inv h(1)] by simp
  with inv show ?thesis unfolding h(2) lock_inv_def world_simps by (auto simp del: fun_upd_apply simp: fun_upd_other split: if_splits) (auto split: if_splits)
next
  case CallDrop
  with assms show ?thesis by (auto simp: lock_inv_def world_simps split: lock_pc.splits option.splits if_splits)
next
  case ReadPid
  then obtain h where h: "lk_pc w p = Dropping h"
    and w': "w' = goto p (if take 32 (lk_contents w h) \<noteq> [] \<and> not_owner p (take 32 (lk_contents w h)) = None then Removing else Outside) w"
    using run by (auto simp: Let_def split: lock_pc.splits)
  have "lk_maker w h = p" if "take 32 (lk_contents w h) \<noteq> []" "not_owner p (take 32 (lk_contents w h)) = None"
    using inv that not_owner_pid by (auto simp: lock_inv_def)
  with inv h have "\<exists>h. lk_path w = Some h \<and> lk_maker w h = p"
    if "take 32 (lk_contents w h) \<noteq> []" "not_owner p (take 32 (lk_contents w h)) = None"
    using that by (auto simp: lock_inv_def)
  with inv w' show ?thesis by (auto simp: lock_inv_def world_simps)
next
  case RemoveFile
  then have pc: "lk_pc w p = Removing" and w': "w' = goto p Outside (remove_file p w)"
    using run by (auto split: lock_pc.splits)
  with inv obtain h where h: "lk_path w = Some h" "lk_maker w h = p" by (auto simp: lock_inv_def)
  have "lk_owned w q = None" if "q \<noteq> p" for q using lock_inv_owned [OF inv, of q] that h by (cases "lk_owned w q") auto
  moreover have "lk_pc w q \<noteq> Writing k" if "q \<noteq> p" for q k using lock_inv_writing [OF inv, of q k] that h by auto
  moreover have "lk_maker w k \<noteq> q" if "lk_pc w q = Dropping k" "q \<noteq> p" for q k using inv that h by (auto simp: lock_inv_def)
  moreover have "q = p" if "lk_pc w q = Removing" for q using inv that h by (auto simp: lock_inv_def)
  ultimately show ?thesis using inv unfolding w' lock_inv_def world_simps by (auto split: if_splits)
next
  case Crash
  with assms show ?thesis by (auto simp: lock_inv_def world_simps split: if_splits)
qed

lemma lock_step_inv: "lock_step w w' \<Longrightarrow> lock_inv w \<Longrightarrow> lock_inv w'"
proof (induction rule: lock_step.induct)
  case (act a p w w')
  then show ?case by (blast intro: lock_act_inv)
next
  case (tick d w)
  then show ?case by (simp add: lock_inv_def)
qed

lemma lock_reachable_inv: "lock_reachable w \<Longrightarrow> lock_inv w"
  by (induction rule: lock_reachable.induct) (auto intro: lock_inv_start lock_step_inv)

inductive_cases lock_stepE: "lock_step w w'"

text \<open>What else there is in the world, locking does not touch.\<close>

lemma lock_act_more: "lock_act a p w = Some w' \<Longrightarrow> lock_world.more w' = lock_world.more w"
  by (cases a) (auto simp: world_simps Let_def split: lock_pc.splits option.splits if_splits)

lemma lock_steps_more: "lock_step\<^sup>*\<^sup>* w w' \<Longrightarrow> lock_world.more w' = lock_world.more w"
  by (induction rule: rtranclp_induct) (auto elim!: lock_stepE dest: lock_act_more)

section \<open>Files that stay\<close>

text \<open>What can happen to the file at the path: it stays, or its maker removes it.\<close>

lemma lock_act_path:
  assumes "lock_inv w" and "lock_act a p w = Some w'" and "lk_path w = Some h"
  shows "lk_path w' = Some h \<and> lk_maker w' h = lk_maker w h \<or> a = RemoveFile \<and> lk_maker w h = p \<and> lk_path w' = None"
  using assms by (cases a) (auto simp: lock_inv_def world_simps Let_def split: lock_pc.splits option.splits if_splits)

text \<open>A file without a number in it, that no process has a lock on.\<close>

definition orphaned :: "nat \<Rightarrow> 'a lock_world_scheme \<Rightarrow> bool" where
  "orphaned h w \<longleftrightarrow> lk_path w = Some h \<and> lk_contents w h = [] \<and> (\<forall>p. lk_owned w p = None \<and> lk_pc w p \<noteq> Removing)"

lemma orphaned_step: "lock_step w w' \<Longrightarrow> lock_inv w \<Longrightarrow> orphaned h w \<Longrightarrow> orphaned h w'"
proof (induction rule: lock_step.induct)
  case (act a p w w')
  show ?case
  proof (cases a)
    case ReadPid
    with act.hyps obtain k where k: "lk_pc w p = Dropping k"
      and w': "w' = goto p (if take 32 (lk_contents w k) \<noteq> [] \<and> not_owner p (take 32 (lk_contents w k)) = None then Removing else Outside) w"
      by (auto simp: Let_def split: lock_pc.splits)
    have "\<not> (take 32 (lk_contents w k) \<noteq> [] \<and> not_owner p (take 32 (lk_contents w k)) = None)"
    proof
      assume own: "take 32 (lk_contents w k) \<noteq> [] \<and> not_owner p (take 32 (lk_contents w k)) = None"
      with act.prems(1) not_owner_pid have "lk_maker w k = p" by (auto simp: lock_inv_def)
      with act.prems k have "k = h" by (auto simp: lock_inv_def orphaned_def)
      with own act.prems(2) show False by (simp add: orphaned_def)
    qed
    with w' act.prems(2) show ?thesis by (auto simp: orphaned_def world_simps)
  next
    case WritePid
    with act.hyps obtain k where "lk_pc w p = Writing k" by (auto split: lock_pc.splits)
    with lock_inv_writing [OF act.prems(1)] act.prems(2) show ?thesis by (auto simp: orphaned_def)
  qed (use act in \<open>auto simp: orphaned_def world_simps split: lock_pc.splits option.splits if_splits\<close>)
qed (simp add: orphaned_def)

lemma orphaned_steps: "lock_step\<^sup>*\<^sup>* w w' \<Longrightarrow> lock_inv w \<Longrightarrow> orphaned h w \<Longrightarrow> orphaned h w'"
proof (induction rule: converse_rtranclp_induct)
  case (step y z)
  then show ?case by (blast intro: lock_step_inv orphaned_step)
qed

section \<open>The code runs on the machine\<close>

text \<open>The operating system as process \<open>p\<close> sees it while no other process runs; every call is a step of the machine.\<close>

definition machine_os :: "pid \<Rightarrow> 'a lock_world_scheme lock_os" where
  "machine_os p = \<lparr>lo_OcneDir = (\<lambda>w. (Inr (''/'' @ UserConfigDir), w)), lo_HomeDir = (\<lambda>w. (Inr [], w)),
     lo_CreateExcl = (\<lambda>_ w. case lk_path w of
        None \<Rightarrow> (Opened (lk_next w), goto p (Writing (lk_next w)) (make_file p w)) | Some _ \<Rightarrow> (Exists, w)),
     lo_Write = (\<lambda>h c w. goto p Outside (w\<lparr>lk_contents := (lk_contents w)(h := c)\<rparr>)),
     lo_Open = (\<lambda>_ w. case lk_path w of None \<Rightarrow> (Inl ''no such file'', w) | Some h \<Rightarrow> (Inr h, goto p (Dropping h) w)),
     lo_Read = (\<lambda>h n w. let c = take n (lk_contents w h)
        in (if c = [] then Inl ''EOF'' else Inr c, goto p (if c \<noteq> [] \<and> not_owner p c = None then Removing else Outside) w)),
     lo_Remove = (\<lambda>_ w. goto p Outside (remove_file p w)), lo_Getpid = p, lo_Now = lk_now, lo_Sleep = (\<lambda>d w. w\<lparr>lk_now := lk_now w + d\<rparr>)\<rparr>"

lemma machine_os_fields:
  "lo_OcneDir (machine_os p) w = (Inr (''/'' @ UserConfigDir), w)" "lo_Now (machine_os p) = lk_now" "lo_Getpid (machine_os p) = p"
  "lo_Write (machine_os p) h c w = goto p Outside (w\<lparr>lk_contents := (lk_contents w)(h := c)\<rparr>)"
  by (simp_all add: machine_os_def)

lemma goto_goto [simp]: "goto p l (goto p l' w) = goto p l w"
  by (simp add: goto_def)

lemma make_file_goto: "goto p l (make_file p (goto p l' w)) = goto p l (make_file p w)"
  by (simp add: world_simps)

text \<open>The world of the code has nothing to say about where the process is; the machine has it in the loop.\<close>

definition loop_done :: "pid \<Rightarrow> int \<Rightarrow> 'a lock_world_scheme \<Rightarrow> nat result \<Rightarrow> 'a lock_world_scheme \<Rightarrow> bool" where
  "loop_done p until w r w' = (case r of
       Inr h \<Rightarrow> lock_step\<^sup>*\<^sup>* (goto p (Waiting until) w) w' \<and> lk_pc w' p = Writing h \<and> lk_owned w' p = Some h
     | Inl _ \<Rightarrow> lock_step\<^sup>*\<^sup>* (goto p (Waiting until) w) (goto p Outside w') \<and> lk_path w' \<noteq> None \<and> until < lk_now w')"

lemma wait_loop_steps: "\<exists>r w'. wait_loop (machine_os p) path until w = Some (r, w') \<and> loop_done p until w r w'"
proof (induction "nat (until - lk_now w + 1)" arbitrary: w rule: less_induct)
  case less
  let ?u = "goto p (Waiting until) w"
  have u: "lk_pc ?u p = Waiting until" "lk_path ?u = lk_path w" "lk_next ?u = lk_next w" "lk_now ?u = lk_now w" by (simp_all add: goto_def)
  show ?case
  proof (cases "lk_path w")
    case None
    let ?w = "goto p (Writing (lk_next w)) (make_file p w)"
    have "wait_loop (machine_os p) path until w = Some (Inr (lk_next w), ?w)"
      using None by (subst wait_loop.simps) (simp add: machine_os_def)
    moreover have "lock_act TryCreate p ?u = Some ?w" by (simp add: u None make_file_goto)
    then have "lock_step ?u ?w" by (rule lock_step.act)
    moreover have "lk_pc ?w p = Writing (lk_next w)" "lk_owned ?w p = Some (lk_next w)" by (simp_all add: world_simps)
    ultimately show ?thesis by (intro exI [of _ "Inr (lk_next w)"] exI [of _ ?w]) (simp add: loop_done_def)
  next
    case (Some h)
    show ?thesis
    proof (cases "lk_now w > until")
      case True
      then have "wait_loop (machine_os p) path until w = Some (Inl (''Could not get pidfile lock at '' @ path), w)"
        using Some by (subst wait_loop.simps) (simp add: machine_os_def)
      moreover have "lock_act TryCreate p ?u = Some (goto p Outside w)" by (simp add: u True Some)
      then have "lock_step ?u (goto p Outside w)" by (rule lock_step.act)
      ultimately show ?thesis using True Some
        by (intro exI [of _ "Inl (''Could not get pidfile lock at '' @ path)"] exI [of _ w]) (simp add: loop_done_def)
    next
      case False
      let ?v = "w\<lparr>lk_now := lk_now w + lock_pause\<rparr>"
      have again: "wait_loop (machine_os p) path until w = wait_loop (machine_os p) path until ?v"
        using False Some by (subst wait_loop.simps) (simp add: machine_os_def)
      have "nat (until - lk_now ?v + 1) < nat (until - lk_now w + 1)" using False by (simp add: lock_pause_def)
      from less [OF this] obtain r w' where run: "wait_loop (machine_os p) path until ?v = Some (r, w')"
        and r: "loop_done p until ?v r w'" by blast
      have "lock_step ?u (?u\<lparr>lk_now := lk_now ?u + lock_pause\<rparr>)" by (rule lock_step.tick) (simp add: lock_pause_def)
      moreover have "?u\<lparr>lk_now := lk_now ?u + lock_pause\<rparr> = goto p (Waiting until) ?v" by (simp add: goto_def)
      ultimately have "lock_step ?u (goto p (Waiting until) ?v)" by simp
      with r have "loop_done p until w r w'"
        by (auto simp: loop_done_def split: sum.splits intro: converse_rtranclp_into_rtranclp)
      with run again show ?thesis by auto
    qed
  qed
qed

lemma WaitFor_more: "\<exists>r w'. WaitFor (machine_os p) timeout w = Some (r, w') \<and> lock_world.more w' = lock_world.more w"
proof -
  let ?path = "lock_path (''/'' @ UserConfigDir)"
  obtain r w' where loop: "wait_loop (machine_os p) ?path (lk_now w + timeout) w = Some (r, w')" "loop_done p (lk_now w + timeout) w r w'"
    using wait_loop_steps by blast
  then have "lock_world.more w' = lock_world.more w"
    by (auto simp: loop_done_def goto_def split: sum.splits dest!: lock_steps_more)
  with loop(1) show ?thesis by (cases r) (auto simp: WaitFor_def machine_os_fields goto_def)
qed

lemma Drop_more: "lock_world.more (snd (Drop (machine_os p) w)) = lock_world.more w"
  by (auto simp: Drop_def machine_os_def Let_def world_simps split: option.splits)

text \<open>The loop ends on any system on which trying does not turn the clock back and sleeping moves it on.\<close>

definition clock_runs :: "'s lock_os \<Rightarrow> bool" where
  "clock_runs os \<longleftrightarrow> (\<forall>path s. lo_Now os s \<le> lo_Now os (snd (lo_CreateExcl os path s))) \<and> (\<forall>d s. lo_Now os s + d \<le> lo_Now os (lo_Sleep os d s))"

lemma wait_loop_returns:
  assumes "clock_runs os"
  shows "\<exists>r s'. wait_loop os path until s = Some (r, s')"
proof (induction "nat (until - lo_Now os s + 1)" arbitrary: s rule: less_induct)
  case less
  obtain q s1 where q: "lo_CreateExcl os path s = (q, s1)" by (cases "lo_CreateExcl os path s")
  with assms have now: "lo_Now os s \<le> lo_Now os s1" unfolding clock_runs_def by (metis snd_conv)
  show ?case
  proof (cases "q = Exists \<and> \<not> lo_Now os s1 > until")
    case True
    let ?s = "lo_Sleep os lock_pause s1"
    have "lo_Now os s1 + lock_pause \<le> lo_Now os ?s" using assms by (simp add: clock_runs_def)
    with now True have "nat (until - lo_Now os ?s + 1) < nat (until - lo_Now os s + 1)" by (simp add: lock_pause_def)
    from less.hyps [OF this] True q show ?thesis by (subst wait_loop.simps) simp
  next
    case False
    with q show ?thesis by (subst wait_loop.simps) (cases q, auto)
  qed
qed

section \<open>Properties\<close>

text \<open>A run of given actions.\<close>

fun lock_run :: "(lock_action \<times> pid) list \<Rightarrow> lock_world \<Rightarrow> lock_world option" where
  "lock_run [] w = Some w"
| "lock_run ((a, p) # acts) w = (case lock_act a p w of None \<Rightarrow> None | Some w' \<Rightarrow> lock_run acts w')"

lemma lock_run_append: "lock_run acts w = Some w1 \<Longrightarrow> lock_run (acts @ rest) w = lock_run rest w1"
  by (induction acts w rule: lock_run.induct) (auto split: option.splits)

lemma lock_run_steps: "lock_run acts w = Some w' \<Longrightarrow> lock_step\<^sup>*\<^sup>* w w'"
  by (induction acts w rule: lock_run.induct) (auto split: option.splits intro: lock_step.act converse_rtranclp_into_rtranclp)

lemma lock_steps_reachable: "lock_step\<^sup>*\<^sup>* w w' \<Longrightarrow> lock_reachable w \<Longrightarrow> lock_reachable w'"
  by (induction rule: rtranclp_induct) (auto intro: lock_reachable.step)

lemma lock_run_reachable: "lock_run acts no_locks = Some w \<Longrightarrow> lock_reachable w"
  using lock_run_steps lock_steps_reachable lock_reachable.start by blast



text \<open>
  A lock can be lost for good: if a process ends between making the file and writing its number, the file stays, whatever any
  process does from then on, and no process ever has the lock again.
\<close>

theorem lock_lost_after_crash:
  assumes "lock_reachable w" and "lk_pc w p = Writing h" and "lk_contents w h = []" and "lock_act Crash p w = Some w1" and "lock_step\<^sup>*\<^sup>* w1 w2"
  shows "lk_path w2 = Some h \<and> \<not> has_lock w2 q"
proof -
  have inv: "lock_inv w" using assms(1) by (rule lock_reachable_inv)
  from lock_inv_writing [OF this assms(2)] have h: "lk_path w = Some h" "lk_owned w p = Some h" "lk_maker w h = p" by auto
  have w1: "w1 = goto p Outside (w\<lparr>lk_owned := (lk_owned w)(p := None)\<rparr>)" using assms(4) by simp
  have "lk_owned w q = None \<and> lk_pc w q \<noteq> Removing" if "q \<noteq> p" for q
  proof
    show "lk_owned w q = None" using lock_inv_owned [OF inv, of q] that h by (cases "lk_owned w q") auto
    show "lk_pc w q \<noteq> Removing" using lock_inv_removing [OF inv, of q] that h by auto
  qed
  with assms(3) h w1 have "orphaned h w1" by (auto simp: orphaned_def world_simps)
  moreover have "lock_inv w1" using inv assms(4) by (rule lock_act_inv)
  ultimately have "orphaned h w2" using assms(5) orphaned_steps by blast
  then show ?thesis by (simp add: orphaned_def has_lock_def)
qed

theorem lock_lost_after_crash_witness:
  "\<exists>w. lock_run [(CallWaitFor 10, 1), (TryCreate, 1), (Crash, 1), (CallWaitFor 10, 2), (TryCreate, 2)] no_locks = Some w
     \<and> lk_path w = Some 0 \<and> \<not> has_lock w 2"
proof -
  obtain w where w: "lock_run [(CallWaitFor 10, 1), (TryCreate, 1)] no_locks = Some w" "lk_pc w 1 = Writing 0" "lk_contents w 0 = []"
    "lk_path w = Some 0" "lk_pc w 2 = Outside"
    by (simp add: no_locks_def world_simps)
  obtain w1 where w1: "lock_act Crash 1 w = Some w1" "lk_path w1 = Some 0" "lk_pc w1 2 = Outside" using w by (simp add: world_simps)
  obtain w2 where w2: "lock_run [(CallWaitFor 10, 2), (TryCreate, 2)] w1 = Some w2" using w1 by (simp add: world_simps)
  from lock_lost_after_crash [OF lock_run_reachable [OF w(1)] w(2,3) w1(1) lock_run_steps [OF w2]]
  have "lk_path w2 = Some 0 \<and> \<not> has_lock w2 2" by simp
  moreover have "lock_run [(CallWaitFor 10, 1), (TryCreate, 1), (Crash, 1), (CallWaitFor 10, 2), (TryCreate, 2)] no_locks = Some w2"
    using lock_run_append [OF w(1), of "[(Crash, 1), (CallWaitFor 10, 2), (TryCreate, 2)]"] w2
    by (simp only: append.simps lock_run.simps(2) w1(1) option.case)
  ultimately show ?thesis by blast
qed



text \<open>
  On any system on which sleeping takes its time, \<open>WaitFor\<close> returns.
\<close>

theorem WaitFor_returns:
  assumes "clock_runs os"
  shows "\<exists>r s'. WaitFor os timeout s = Some (r, s')"
proof (cases "lo_OcneDir os s")
  case (Pair r s1)
  then show ?thesis
    using wait_loop_returns [OF assms] by (auto simp: WaitFor_def split: sum.splits option.splits) (metis option.distinct(1))
qed

theorem WaitFor_returns_witness: "\<exists>r w'. WaitFor (machine_os 2) 10 no_locks = Some (r, w')"
proof -
  have "clock_runs (machine_os 2)"
    by (auto simp: clock_runs_def machine_os_def goto_def make_file_def split: option.splits)
  then show ?thesis by (rule WaitFor_returns)
qed

end
