(* ===== verification/Cluster_Cache.thy ===== *)
theory Cluster_Cache
  imports Pid_Lock Config_Types Effects
begin

text \<open>
  The clusters that were started on this machine (\<^verbatim>\<open>pkg/cluster/cache/cache.go\<close>): a map from names to configurations in a file that is
  read and written under the lock between processes.  The file system and the YAML library are parameters (\<open>cache_env\<close>).

  A map that was never made is \<open>None\<close>: reading from it finds nothing, deleting from it does nothing, and writing into it panics.  A
  process that does not get the lock reads and writes all the same, since the code does not look at the result of \<open>WaitFor\<close>.
\<close>

section \<open>The code\<close>

record Cluster =
  cl_ClusterConfig :: ClusterConfig
  cl_KubeconfigPath :: string

record ClusterCache =
  cc_Clusters :: "(string \<rightharpoonup> Cluster) option"

datatype read_error = NoSuchFile gerror | ReadFails gerror

record 's cache_env =
  ca_os :: "'s lock_os"
  ca_ReadFile :: "string \<Rightarrow> 's \<Rightarrow> (read_error + string) \<times> 's"
  ca_WriteFile :: "string \<Rightarrow> string \<Rightarrow> 's \<Rightarrow> unit result \<times> 's"
  ca_Unmarshal :: "string \<Rightarrow> ClusterCache result"
  ca_Marshal :: "ClusterCache \<Rightarrow> string result"

definition ClusterCacheFilename :: string where "ClusterCacheFilename = ''clusters.yaml''"

definition cache_path :: "string \<Rightarrow> string" where
  "cache_path dir = dir @ ''/'' @ ClusterCacheFilename"

text \<open>What is done under the lock; the results of \<open>WaitFor\<close> and \<open>Drop\<close> are ignored.\<close>

definition locked :: "'s cache_env \<Rightarrow> ('s \<Rightarrow> 'a \<times> 's) \<Rightarrow> 's \<Rightarrow> ('a \<times> 's) option" where
  "locked ca m s =
     (case WaitFor (ca_os ca) (10 * 1000000000) s of
        None \<Rightarrow> None
      | Some (_, s1) \<Rightarrow> (case m s1 of (x, s2) \<Rightarrow> Some (x, snd (Drop (ca_os ca) s2))))"

definition GetCache :: "'s cache_env \<Rightarrow> 's \<Rightarrow> (ClusterCache result \<times> 's) option" where
  "GetCache ca s =
     (case lo_HomeDir (ca_os ca) s of
        (Inl err, s1) \<Rightarrow> Some (Inl err, s1)
      | (Inr home, s1) \<Rightarrow>
          (case locked ca (ca_ReadFile ca (cache_path (home @ ''/'' @ UserConfigDir))) s1 of
             None \<Rightarrow> None
           | Some (Inl (NoSuchFile _), s2) \<Rightarrow> Some (Inr \<lparr>cc_Clusters = Some Map.empty\<rparr>, s2)
           | Some (Inl (ReadFails err), s2) \<Rightarrow> Some (Inl err, s2)
           | Some (Inr cacheBytes, s2) \<Rightarrow> Some (ca_Unmarshal ca cacheBytes, s2)))"

definition Save :: "'s cache_env \<Rightarrow> ClusterCache \<Rightarrow> 's \<Rightarrow> (unit result \<times> 's) option" where
  "Save ca cc s =
     (case lo_OcneDir (ca_os ca) s of
        (Inl err, s1) \<Rightarrow> Some (Inl err, s1)
      | (Inr dir, s1) \<Rightarrow>
          (case ca_Marshal ca cc of
             Inl err \<Rightarrow> Some (Inl err, s1)
           | Inr cacheBytes \<Rightarrow> locked ca (ca_WriteFile ca (cache_path dir) cacheBytes) s1))"

definition cache_Get :: "ClusterCache \<Rightarrow> string \<Rightarrow> Cluster option" where
  "cache_Get cc name = (case cc_Clusters cc of None \<Rightarrow> None | Some m \<Rightarrow> m name)"

definition GetAll :: "ClusterCache \<Rightarrow> (string \<rightharpoonup> Cluster) option" where
  "GetAll cc = cc_Clusters cc"

text \<open>The cache of the caller is changed even if it cannot be saved.\<close>

definition cache_Add :: "'s cache_env \<Rightarrow> ClusterCache \<Rightarrow> ClusterConfig \<Rightarrow> string \<Rightarrow> 's \<Rightarrow> ((unit result \<times> ClusterCache) outcome \<times> 's) option" where
  "cache_Add ca cc config kubeconfig s =
     (case cache_Get cc (clu_Name config) of
        Some _ \<Rightarrow> Some (Returns (Inl (''A cluster named '' @ clu_Name config @ '' already exists''), cc), s)
      | None \<Rightarrow>
          (case cc_Clusters cc of
             None \<Rightarrow> Some (Panics, s)
           | Some m \<Rightarrow>
               (let cc' = cc\<lparr>cc_Clusters := Some (m(clu_Name config \<mapsto> \<lparr>cl_ClusterConfig = config, cl_KubeconfigPath = kubeconfig\<rparr>))\<rparr>
                in case Save ca cc' s of None \<Rightarrow> None | Some (r, s') \<Rightarrow> Some (Returns (r, cc'), s'))))"

definition cache_Delete :: "'s cache_env \<Rightarrow> ClusterCache \<Rightarrow> string \<Rightarrow> 's \<Rightarrow> ((unit result \<times> ClusterCache) \<times> 's) option" where
  "cache_Delete ca cc name s =
     (let cc' = cc\<lparr>cc_Clusters := map_option (\<lambda>m. m(name := None)) (cc_Clusters cc)\<rparr>
      in case Save ca cc' s of None \<Rightarrow> None | Some (r, s') \<Rightarrow> Some ((r, cc'), s'))"

section \<open>What the code relies on\<close>

text \<open>
  The contract of the operating system: \<open>stored\<close> is what is in the file, that locking leaves alone, and waiting for the lock returns.
\<close>

locale cache_files =
  fixes ca :: "'s cache_env"
    and stored :: "'s \<Rightarrow> string option"
    and dir :: string
  assumes home: "\<exists>h s'. lo_HomeDir (ca_os ca) s = (Inr h, s') \<and> stored s' = stored s \<and> h @ ''/'' @ UserConfigDir = dir"
    and ensured: "\<exists>s'. lo_OcneDir (ca_os ca) s = (Inr dir, s') \<and> stored s' = stored s"
    and waits: "\<exists>r s'. WaitFor (ca_os ca) timeout s = Some (r, s') \<and> stored s' = stored s"
    and drops: "stored (snd (Drop (ca_os ca) s)) = stored s"
    and reads: "\<exists>s' e. ca_ReadFile ca (cache_path dir) s = (case stored s of None \<Rightarrow> Inl (NoSuchFile e) | Some t \<Rightarrow> Inr t, s') \<and> stored s' = stored s"
    and writes: "\<exists>s'. ca_WriteFile ca (cache_path dir) t s = (Inr (), s') \<and> stored s' = Some t"
begin

lemma GetCache_stored:
  "\<exists>s'. GetCache ca s = Some (case stored s of None \<Rightarrow> Inr \<lparr>cc_Clusters = Some Map.empty\<rparr> | Some t \<Rightarrow> ca_Unmarshal ca t, s')
     \<and> stored s' = stored s"
proof -
  obtain h s1 where h: "lo_HomeDir (ca_os ca) s = (Inr h, s1)" "stored s1 = stored s" "h @ ''/'' @ UserConfigDir = dir"
    using home by blast
  obtain r s2 where w: "WaitFor (ca_os ca) (10 * 1000000000) s1 = Some (r, s2)" "stored s2 = stored s1" using waits by blast
  obtain s3 e where rd: "ca_ReadFile ca (cache_path dir) s2 = (case stored s2 of None \<Rightarrow> Inl (NoSuchFile e) | Some t \<Rightarrow> Inr t, s3)"
    "stored s3 = stored s2" using reads by blast
  from h w rd drops [of s3] show ?thesis
    by (auto simp: GetCache_def locked_def split: option.splits)
qed

lemma Save_stored:
  assumes "ca_Marshal ca cc = Inr t"
  shows "\<exists>s'. Save ca cc s = Some (Inr (), s') \<and> stored s' = Some t"
proof -
  obtain s1 where d: "lo_OcneDir (ca_os ca) s = (Inr dir, s1)" using ensured by blast
  obtain r s2 where w: "WaitFor (ca_os ca) (10 * 1000000000) s1 = Some (r, s2)" using waits by blast
  obtain s3 where wr: "ca_WriteFile ca (cache_path dir) t s2 = (Inr (), s3)" "stored s3 = Some t" using writes by blast
  from assms d w wr drops [of s3] show ?thesis by (auto simp: Save_def locked_def)
qed

end

section \<open>The lock machine with the file\<close>

text \<open>The world of the lock machine, with the contents of the cache file.\<close>

record cache_world = lock_world +
  cw_file :: "string option"

definition machine_cache :: "pid \<Rightarrow> (string \<Rightarrow> ClusterCache result) \<Rightarrow> (ClusterCache \<Rightarrow> string result) \<Rightarrow> cache_world cache_env" where
  "machine_cache p unmarshal marshal = \<lparr>ca_os = machine_os p,
     ca_ReadFile = (\<lambda>_ w. (case cw_file w of None \<Rightarrow> Inl (NoSuchFile []) | Some t \<Rightarrow> Inr t, w)),
     ca_WriteFile = (\<lambda>_ t w. (Inr (), w\<lparr>cw_file := Some t\<rparr>)), ca_Unmarshal = unmarshal, ca_Marshal = marshal\<rparr>"

lemma cw_file_more: "lock_world.more w' = lock_world.more w \<Longrightarrow> cw_file w' = cw_file (w :: cache_world)"
  by (cases w, cases w') simp

interpretation mc: cache_files "machine_cache p unmarshal marshal" cw_file "''/'' @ UserConfigDir"
proof
  fix s :: cache_world and t timeout
  show "\<exists>h s'. lo_HomeDir (ca_os (machine_cache p unmarshal marshal)) s = (Inr h, s') \<and> cw_file s' = cw_file s \<and> h @ ''/'' @ UserConfigDir = ''/'' @ UserConfigDir"
    by (simp add: machine_cache_def machine_os_def)
  show "\<exists>s'. lo_OcneDir (ca_os (machine_cache p unmarshal marshal)) s = (Inr (''/'' @ UserConfigDir), s') \<and> cw_file s' = cw_file s"
    by (simp add: machine_cache_def machine_os_def)
  obtain r w' where w': "WaitFor (machine_os p) timeout s = Some (r, w')" "lock_world.more w' = lock_world.more s" using WaitFor_more by blast
  from w'(1) cw_file_more [OF w'(2)]
  show "\<exists>r s'. WaitFor (ca_os (machine_cache p unmarshal marshal)) timeout s = Some (r, s') \<and> cw_file s' = cw_file s"
    by (simp add: machine_cache_def)
  show "cw_file (snd (Drop (ca_os (machine_cache p unmarshal marshal)) s)) = cw_file s"
    using cw_file_more [OF Drop_more] by (simp add: machine_cache_def)
  show "\<exists>s' e. ca_ReadFile (machine_cache p unmarshal marshal) (cache_path (''/'' @ UserConfigDir)) s =
      (case cw_file s of None \<Rightarrow> Inl (NoSuchFile e) | Some t \<Rightarrow> Inr t, s') \<and> cw_file s' = cw_file s"
    by (auto simp: machine_cache_def split: option.splits)
  show "\<exists>s'. ca_WriteFile (machine_cache p unmarshal marshal) (cache_path (''/'' @ UserConfigDir)) t s = (Inr (), s') \<and> cw_file s' = Some t"
    by (simp add: machine_cache_def)
qed

section \<open>Properties\<close>

text \<open>What is documented of the YAML library: it reads what it has written; here, for the cache with these clusters.\<close>

definition yaml_faithful :: "(string \<Rightarrow> ClusterCache result) \<Rightarrow> (ClusterCache \<Rightarrow> string result) \<Rightarrow> (string \<rightharpoonup> Cluster) \<Rightarrow> bool" where
  "yaml_faithful unmarshal marshal m \<longleftrightarrow> (\<exists>t. marshal \<lparr>cc_Clusters = Some m\<rparr> = Inr t \<and> unmarshal t = Inr \<lparr>cc_Clusters = Some m\<rparr>)"

text \<open>The cache that the file holds.\<close>

definition holds_cache :: "(string \<Rightarrow> ClusterCache result) \<Rightarrow> cache_world \<Rightarrow> (string \<rightharpoonup> Cluster) \<Rightarrow> bool" where
  "holds_cache unmarshal w m \<longleftrightarrow> (case cw_file w of None \<Rightarrow> m = Map.empty | Some t \<Rightarrow> unmarshal t = Inr \<lparr>cc_Clusters = Some m\<rparr>)"

lemma machine_cache_fields:
  "ca_Unmarshal (machine_cache p unmarshal marshal) = unmarshal" "ca_Marshal (machine_cache p unmarshal marshal) = marshal"
  by (simp_all add: machine_cache_def)

lemma GetCache_holds:
  assumes "holds_cache unmarshal w m"
  shows "\<exists>w'. GetCache (machine_cache p unmarshal marshal) w = Some (Inr \<lparr>cc_Clusters = Some m\<rparr>, w') \<and> holds_cache unmarshal w' m"
proof -
  obtain w' where w': "GetCache (machine_cache p unmarshal marshal) w = Some (case cw_file w of None \<Rightarrow> Inr \<lparr>cc_Clusters = Some Map.empty\<rparr>
      | Some t \<Rightarrow> ca_Unmarshal (machine_cache p unmarshal marshal) t, w')" "cw_file w' = cw_file w"
    using mc.GetCache_stored by blast
  with assms show ?thesis by (auto simp: holds_cache_def machine_cache_fields split: option.splits)
qed

lemma Save_holds:
  assumes "yaml_faithful unmarshal marshal m"
  shows "\<exists>w'. Save (machine_cache p unmarshal marshal) \<lparr>cc_Clusters = Some m\<rparr> w = Some (Inr (), w') \<and> holds_cache unmarshal w' m"
proof -
  from assms obtain t where t: "ca_Marshal (machine_cache p unmarshal marshal) \<lparr>cc_Clusters = Some m\<rparr> = Inr t" "unmarshal t = Inr \<lparr>cc_Clusters = Some m\<rparr>"
    by (auto simp: yaml_faithful_def machine_cache_fields)
  from mc.Save_stored [OF t(1)] obtain w' where
    "Save (machine_cache p unmarshal marshal) \<lparr>cc_Clusters = Some m\<rparr> w = Some (Inr (), w')" "cw_file w' = Some t" by blast
  with t(2) show ?thesis by (auto simp: holds_cache_def)
qed

text \<open>The clusters after a cluster was added.\<close>

definition with_cluster :: "ClusterConfig \<Rightarrow> string \<Rightarrow> (string \<rightharpoonup> Cluster) \<Rightarrow> (string \<rightharpoonup> Cluster)" where
  "with_cluster config kubeconfig m = m(clu_Name config \<mapsto> \<lparr>cl_ClusterConfig = config, cl_KubeconfigPath = kubeconfig\<rparr>)"

lemma cache_Add_holds:
  assumes "yaml_faithful unmarshal marshal (with_cluster config kubeconfig m)" and "m (clu_Name config) = None"
  shows "\<exists>cc w'. cache_Add (machine_cache p unmarshal marshal) \<lparr>cc_Clusters = Some m\<rparr> config kubeconfig w = Some (Returns (Inr (), cc), w')
    \<and> holds_cache unmarshal w' (with_cluster config kubeconfig m)"
  using Save_holds [OF assms(1), of p w] assms(2) by (auto simp: cache_Add_def cache_Get_def Let_def with_cluster_def)

text \<open>
  C27. On a machine with the lock, whoever else has it: a cluster that was added under a new name is in the cache that is read next, and
  one that was deleted is not; all other clusters stay as they are.  Adding under a name that is taken fails and changes nothing.
\<close>

theorem cache_reads_back:
  assumes "yaml_faithful unmarshal marshal (with_cluster config kubeconfig m)" and "yaml_faithful unmarshal marshal (m(name := None))"
    and "holds_cache unmarshal w m"
  shows "\<exists>cc w1. GetCache (machine_cache p unmarshal marshal) w = Some (Inr cc, w1) \<and> cache_Get cc name = m name \<and>
    (if m (clu_Name config) = None
     then \<exists>cc' w2. cache_Add (machine_cache p unmarshal marshal) cc config kubeconfig w1 = Some (Returns (Inr (), cc'), w2)
        \<and> holds_cache unmarshal w2 (with_cluster config kubeconfig m)
     else \<exists>e. cache_Add (machine_cache p unmarshal marshal) cc config kubeconfig w1 = Some (Returns (Inl e, cc), w1)) \<and>
    (\<exists>cc' w2. cache_Delete (machine_cache p unmarshal marshal) cc name w1 = Some ((Inr (), cc'), w2) \<and> holds_cache unmarshal w2 (m(name := None)))"
proof -
  let ?ca = "machine_cache p unmarshal marshal" and ?cc = "\<lparr>cc_Clusters = Some m\<rparr>"
  obtain w1 where g: "GetCache ?ca w = Some (Inr ?cc, w1)" using GetCache_holds [OF assms(3)] by blast
  obtain w3 where del: "Save ?ca \<lparr>cc_Clusters = Some (m(name := None))\<rparr> w1 = Some (Inr (), w3)" "holds_cache unmarshal w3 (m(name := None))"
    using Save_holds [OF assms(2)] by blast
  have "\<exists>cc' w2. cache_Delete ?ca ?cc name w1 = Some ((Inr (), cc'), w2) \<and> holds_cache unmarshal w2 (m(name := None))"
    using del by (simp add: cache_Delete_def)
  moreover have "\<exists>e. cache_Add ?ca ?cc config kubeconfig w1 = Some (Returns (Inl e, ?cc), w1)" if "m (clu_Name config) \<noteq> None"
    using that by (auto simp: cache_Add_def cache_Get_def)
  moreover have "cache_Get ?cc name = m name" by (simp add: cache_Get_def)
  ultimately show ?thesis using g cache_Add_holds [OF assms(1), of p w1]
    by (intro exI [of _ ?cc] exI [of _ w1]) (simp split: if_split)
qed

text \<open>
  The lock protects one access to the file only: when two processes have read the same cache and each adds a cluster under a new
  name, both succeed, and the cluster of the first is lost.
\<close>

theorem cache_lost_update:
  assumes "yaml_faithful unmarshal marshal (with_cluster a ka m)" and "yaml_faithful unmarshal marshal (with_cluster b kb m)"
    and "holds_cache unmarshal w m" and "m (clu_Name a) = None" "m (clu_Name b) = None" "clu_Name a \<noteq> clu_Name b"
  shows "\<exists>cp cq w1 w2 w3 w4 r r'. GetCache (machine_cache p unmarshal marshal) w = Some (Inr cp, w1)
    \<and> GetCache (machine_cache q unmarshal marshal) w1 = Some (Inr cq, w2)
    \<and> cache_Add (machine_cache p unmarshal marshal) cp a ka w2 = Some (Returns (Inr (), r), w3)
    \<and> cache_Add (machine_cache q unmarshal marshal) cq b kb w3 = Some (Returns (Inr (), r'), w4)
    \<and> (\<exists>m'. holds_cache unmarshal w4 m' \<and> m' (clu_Name a) = None \<and> m' (clu_Name b) \<noteq> None)"
proof -
  obtain w1 where w1: "GetCache (machine_cache p unmarshal marshal) w = Some (Inr \<lparr>cc_Clusters = Some m\<rparr>, w1)" "holds_cache unmarshal w1 m"
    using GetCache_holds [OF assms(3)] by blast
  obtain w2 where w2: "GetCache (machine_cache q unmarshal marshal) w1 = Some (Inr \<lparr>cc_Clusters = Some m\<rparr>, w2)"
    using GetCache_holds [OF w1(2)] by blast
  obtain r w3 where w3: "cache_Add (machine_cache p unmarshal marshal) \<lparr>cc_Clusters = Some m\<rparr> a ka w2 = Some (Returns (Inr (), r), w3)"
    using cache_Add_holds [OF assms(1,4)] by blast
  obtain r' w4 where w4: "cache_Add (machine_cache q unmarshal marshal) \<lparr>cc_Clusters = Some m\<rparr> b kb w3 = Some (Returns (Inr (), r'), w4)"
    "holds_cache unmarshal w4 (with_cluster b kb m)"
    using cache_Add_holds [OF assms(2,5)] by blast
  have "with_cluster b kb m (clu_Name a) = None" "with_cluster b kb m (clu_Name b) \<noteq> None" using assms(4,6) by (simp_all add: with_cluster_def)
  with w1(1) w2 w3 w4 show ?thesis by blast
qed

text \<open>Two clusters, and a YAML library that can write the caches with one of them and the empty one.\<close>

definition sample_cluster :: "string \<Rightarrow> ClusterConfig" where
  "sample_cluster name = zero_ClusterConfig\<lparr>clu_Name := name\<rparr>"

definition sample_marshal :: "ClusterCache \<Rightarrow> string result" where
  "sample_marshal cc = Inr (if cache_Get cc ''a'' \<noteq> None then ''a'' else if cache_Get cc ''b'' \<noteq> None then ''b'' else [])"

definition sample_unmarshal :: "string \<Rightarrow> ClusterCache result" where
  "sample_unmarshal t = Inr \<lparr>cc_Clusters = Some (if t = [] then Map.empty else with_cluster (sample_cluster t) [] Map.empty)\<rparr>"

lemma sample_faithful:
  "yaml_faithful sample_unmarshal sample_marshal Map.empty"
  "yaml_faithful sample_unmarshal sample_marshal (with_cluster (sample_cluster ''a'') [] Map.empty)"
  "yaml_faithful sample_unmarshal sample_marshal (with_cluster (sample_cluster ''b'') [] Map.empty)"
  by (simp_all add: yaml_faithful_def sample_unmarshal_def sample_marshal_def cache_Get_def with_cluster_def sample_cluster_def zero_ClusterConfig_def)

definition no_clusters :: cache_world where
  "no_clusters = lock_world.extend no_locks \<lparr>cw_file = None\<rparr>"

lemma no_clusters_hold: "holds_cache sample_unmarshal no_clusters Map.empty"
  by (simp add: holds_cache_def no_clusters_def lock_world.extend_def)

theorem cache_reads_back_witness:
  "\<exists>cc w1 cc' w2. GetCache (machine_cache 1 sample_unmarshal sample_marshal) no_clusters = Some (Inr cc, w1)
    \<and> cache_Add (machine_cache 1 sample_unmarshal sample_marshal) cc (sample_cluster ''a'') [] w1 = Some (Returns (Inr (), cc'), w2)
    \<and> holds_cache sample_unmarshal w2 (with_cluster (sample_cluster ''a'') [] Map.empty)"
proof -
  have "yaml_faithful sample_unmarshal sample_marshal (Map.empty(''x'' := None))" using sample_faithful(1) by simp
  from cache_reads_back [OF sample_faithful(2) this no_clusters_hold, of 1] show ?thesis by (simp only: if_True refl simp_thms) blast
qed

theorem cache_lost_update_witness:
  "\<exists>w4 m'. holds_cache sample_unmarshal w4 m' \<and> m' ''a'' = None \<and> m' ''b'' \<noteq> None"
proof -
  have names: "clu_Name (sample_cluster ''a'') = ''a''" "clu_Name (sample_cluster ''b'') = ''b''" by (simp_all add: sample_cluster_def)
  from cache_lost_update [OF sample_faithful(2,3) no_clusters_hold, of 1 2] show ?thesis unfolding names by auto
qed

end
