(* ===== verification/Cluster_Start.thy ===== *)
theory Cluster_Start
  imports Cluster_Cache Node_Update Catalogs
begin

text \<open>
  Starting a cluster (\<^verbatim>\<open>pkg/commands/cluster/start/start.go\<close>): the checks against the cluster cache, the provider driver, the
  applications that every cluster gets, the catalogs and applications of its configuration.

  The interface of the provider drivers (\<^verbatim>\<open>pkg/cluster/driver/driver.go\<close>) is the record \<open>cluster_driver\<close>; the drivers that
  are registered are a partial function from names.  \<open>start_env\<close> collects what the other components need of the outside, all on one
  state.  A panic still closes the driver, since that is deferred.
\<close>

section \<open>Provider drivers\<close>

record 's cluster_driver =
  cd_Start :: "'s \<Rightarrow> (bool \<times> bool) result \<times> 's"
  cd_PostStart :: "'s \<Rightarrow> unit result \<times> 's"
  cd_Stop :: "'s \<Rightarrow> unit result \<times> 's"
  cd_Join :: "string \<Rightarrow> int \<Rightarrow> int \<Rightarrow> 's \<Rightarrow> unit result \<times> 's"
  cd_Delete :: "'s \<Rightarrow> unit result \<times> 's"
  cd_Close :: "'s \<Rightarrow> unit result \<times> 's"
  cd_GetKubeconfigPath :: "'s \<Rightarrow> string"
  cd_GetKubeAPIServerAddress :: "'s \<Rightarrow> string"
  cd_DefaultCNIInterfaces :: "'s \<Rightarrow> string list"
  cd_Stage :: "string \<Rightarrow> 's \<Rightarrow> (string \<times> string \<times> bool) result \<times> 's"

type_synonym 's driver_create = "Config \<Rightarrow> ClusterConfig \<Rightarrow> 's \<Rightarrow> 's cluster_driver result \<times> 's"

definition CreateDriver :: "(string \<rightharpoonup> 's driver_create) \<Rightarrow> 's driver_create" where
  "CreateDriver drivers config clusterConfig s =
     (case drivers (clu_Provider clusterConfig) of
        None \<Rightarrow> (Inl (''No implementation exists for the '' @ clu_Provider clusterConfig @ '' driver''), s)
      | Some ftor \<Rightarrow> ftor config clusterConfig s)"

section \<open>The outside\<close>

record KDeployment =
  kd_Replicas :: "int option"
  kd_UpdatedReplicas :: int
  kd_AvailableReplicas :: int

datatype start_event =
    EvDriverStart
  | EvDriverPostStart
  | EvDriverClose
  | EvDriverDelete
  | EvCacheAdd string
  | EvCacheDelete string
  | EvKube kube_event
  | EvCatalog catalog_event
  | EvSecret string string
  | EvBrowser "string list"

record ('s, 'c, 'h) start_env =
  sn_drivers :: "string \<rightharpoonup> 's driver_create"
  sn_cache :: "'s cache_env"
  sn_ka :: "'s kube_api"
  sn_ha :: "('s, 'c) helm_api"
  sn_hl :: "('s, 'h) helm_lib"
  sn_ce :: "'s catalog_env"
  sn_image :: image_lib
  sn_order :: "string list \<Rightarrow> string list"
  sn_GetKubeClient :: "string \<Rightarrow> 's \<Rightarrow> unit result \<times> 's"
  sn_CreateKubeInfo :: "string \<Rightarrow> 's \<Rightarrow> unit result \<times> 's"
  sn_UnmarshalKubelet :: "string \<Rightarrow> string list result"
  sn_IsIPv4 :: "string \<Rightarrow> bool"
  sn_IsIPv6 :: "string \<Rightarrow> bool"
  sn_GetDeployment :: "string \<Rightarrow> string \<Rightarrow> 's \<Rightarrow> KDeployment result \<times> 's"
  sn_GetSecret :: "string \<Rightarrow> string \<Rightarrow> 's \<Rightarrow> (kerror + unit) \<times> 's"
  sn_CreateSecret :: "string \<Rightarrow> string \<Rightarrow> 's \<Rightarrow> unit result \<times> 's"
  sn_HeadlampCerts :: "string \<Rightarrow> 's \<Rightarrow> unit result \<times> 's"
  sn_GOOS :: string
  sn_StartCommand :: "string list \<Rightarrow> 's \<Rightarrow> unit result \<times> 's"
  sn_Scanln :: "'s \<Rightarrow> string \<times> 's"

section \<open>Tags\<close>

definition getTagForApplication :: "image_lib \<Rightarrow> string \<Rightarrow> string \<Rightarrow> string \<Rightarrow> KNode \<Rightarrow> string result" where
  "getTagForApplication lib img bestTag legacyTag node =
     (case GetImageCandidate img bestTag legacyTag node of (bestImg, haveBest, haveLegacy) \<Rightarrow>
        if bestImg = [] then Inr legacyTag
        else if haveBest then Inr bestTag
        else if haveLegacy then Inr legacyTag
        else rbind (SplitImage lib bestImg) (\<lambda>imgInfo. Inr (img_Tag imgInfo)))"

fun image_tag_loop :: "image_lib \<Rightarrow> string \<Rightarrow> string \<Rightarrow> string list \<Rightarrow> string result" where
  "image_tag_loop lib img nodeName [] = Inl (''did not have the '' @ img @ '' image on node '' @ nodeName)"
| "image_tag_loop lib img nodeName (name # names) =
     (if \<not> has_prefix name img then image_tag_loop lib img nodeName names
      else rbind (SplitImage lib name) (\<lambda>imgInfo.
             if img_Tag imgInfo \<noteq> [] then Inr (img_Tag imgInfo) else image_tag_loop lib img nodeName names))"

definition getImageTag :: "image_lib \<Rightarrow> string \<Rightarrow> KNode \<Rightarrow> string result" where
  "getImageTag lib img node = image_tag_loop lib img (kn_Name node) (concat (kn_Images node))"

section \<open>Waiting\<close>

text \<open>At most 49 looks at the deployment, with ten seconds between them.\<close>

definition deployment_ready :: "KDeployment \<Rightarrow> int \<Rightarrow> bool" where
  "deployment_ready d expectedReplicas \<longleftrightarrow>
     kd_Replicas d \<noteq> None \<and> kd_UpdatedReplicas d \<ge> expectedReplicas \<and> kd_AvailableReplicas d \<ge> expectedReplicas"

fun deployment_loop :: "('s, 'c, 'h) start_env \<Rightarrow> nat \<Rightarrow> string \<Rightarrow> string \<Rightarrow> int \<Rightarrow> 's \<Rightarrow> unit result \<times> 's" where
  "deployment_loop sn left namespace name expectedReplicas s =
     (case sn_GetDeployment sn namespace name s of (r, s1) \<Rightarrow>
        if (case r of Inr d \<Rightarrow> deployment_ready d expectedReplicas | Inl _ \<Rightarrow> False) then (Inr (), s1)
        else (case left of
                0 \<Rightarrow> (case r of
                       Inl err \<Rightarrow> (Inl err, s1)
                     | Inr _ \<Rightarrow> (Inl (''timed out waiting for deployment '' @ namespace @ ''/'' @ name @ '' to be ready''), s1))
              | Suc k \<Rightarrow> deployment_loop sn k namespace name expectedReplicas (na_Sleep (ka_node (sn_ka sn)) (10 * duration_s) s1)))"

declare deployment_loop.simps [simp del]

definition WaitForDeployment :: "('s, 'c, 'h) start_env \<Rightarrow> string \<Rightarrow> string \<Rightarrow> int \<Rightarrow> 's \<Rightarrow> unit result \<times> 's" where
  "WaitForDeployment sn namespace name expectedReplicas s = deployment_loop sn 48 namespace name expectedReplicas s"

definition CatalogServiceName :: string where "CatalogServiceName = ''ocne-catalog''"
definition CatalogNamespace :: string where "CatalogNamespace = ''ocne-system''"

definition WaitForInternalCatalogInstall :: "('s, 'c, 'h) start_env \<Rightarrow> ('s, 'e, unit) act" where
  "WaitForInternalCatalogInstall sn =
     abind (WaitFor_one (sn_ha sn) (ask (WaitForDeployment sn CatalogNamespace CatalogServiceName 1))) (\<lambda>(haveError, _).
       if haveError then afail ''Oracle Catalog failed to start'' else aret ())"

definition KubeletCMName :: string where "KubeletCMName = ''kubelet-config''"
definition kubeletData :: string where "kubeletData = ''kubelet''"

text \<open>The DNS addresses of the configuration of the kubelets.\<close>

definition GetKubeletConfig :: "('s, 'c, 'h) start_env \<Rightarrow> 's \<Rightarrow> string list result \<times> 's" where
  "GetKubeletConfig sn s =
     (case ka_GetConfigmap (sn_ka sn) KubeNamespace KubeletCMName s of
        (Inl err, s1) \<Rightarrow> (Inl err, s1)
      | (Inr data, s1) \<Rightarrow>
          (case data kubeletData of
             None \<Rightarrow> (Inl (''ConfigMap '' @ KubeletCMName @ '' in '' @ KubeNamespace @ '' does not have key '' @ kubeletData), s1)
           | Some kubeletConf \<Rightarrow> (sn_UnmarshalKubelet sn kubeletConf, s1)))"

text \<open>The value of the last attempt is kept by the enclosing function; a failed retry is one whose last attempt failed.\<close>

definition kubelet_retry :: "('s, 'c, 'h) start_env \<Rightarrow> ('s, string list) retry_world" where
  "kubelet_retry sn = \<lparr>
     rw_ftor = (\<lambda>s. case GetKubeletConfig sn s of
        (Inl err, s1) \<Rightarrow> ((None, False, Some err), s1)
      | (Inr ret, s1) \<Rightarrow> ((Some ret, False, None), s1)),
     rw_Now = na_Now (ka_node (sn_ka sn)), rw_Sleep = na_Sleep (ka_node (sn_ka sn))\<rparr>"

definition WaitForKubeletConfig :: "('s, 'c, 'h) start_env \<Rightarrow> ('s, 'e, string list) act" where
  "WaitForKubeletConfig sn =
     atry (ask (GetKubeletConfig sn)) (\<lambda>r. case r of
         Inr ret \<Rightarrow> aret ret
       | Inl _ \<Rightarrow>
           atry (ask (ha_IsTTY (sn_ha sn))) (\<lambda>tty. case tty of
               Inl _ \<Rightarrow> afail ''Failed to get ConfigMap kubelet-config''
             | Inr _ \<Rightarrow>
                 atry (wait_for (\<lambda>s. case LinearRetryImpl (kubelet_retry sn) (1 * duration_s) (5 * 60 * duration_s) s of
                     None \<Rightarrow> None
                   | Some ((_, _, Some err), s') \<Rightarrow> Some (Inl err, s')
                   | Some ((ret, _, None), s') \<Rightarrow> Some (Inr ret, s'))) (\<lambda>q. case q of
                       Inr (Some ret) \<Rightarrow> aret ret
                     | _ \<Rightarrow> afail ''Failed to get ConfigMap kubelet-config'')))"

section \<open>The certificate of the UI\<close>

definition UISecretNameTLS :: string where "UISecretNameTLS = ''ui-tls''"
definition CASecretNameTLS :: string where "CASecretNameTLS = ''certificate-authority-tls''"
definition UIServiceName :: string where "UIServiceName = ''ui''"

definition CreateCert :: "('s, 'c, 'h) start_env \<Rightarrow> string \<Rightarrow> ('s, start_event, unit) act" where
  "CreateCert sn namespace =
     abind (with_events EvKube (CreateNamespaceIfNotExists (sn_ka sn) namespace)) (\<lambda>_.
     abind (ask (keep (sn_GetSecret sn OCNESystemNamespace UISecretNameTLS))) (\<lambda>r. case r of
         Inr _ \<Rightarrow> aret ()
       | Inl (KOther err) \<Rightarrow> afail err
       | Inl (KNotFound _) \<Rightarrow>
           abind (ask (sn_HeadlampCerts sn UIServiceName)) (\<lambda>_.
           abind (perform (EvSecret OCNESystemNamespace UISecretNameTLS) (sn_CreateSecret sn OCNESystemNamespace UISecretNameTLS)) (\<lambda>_.
             perform (EvSecret OCNESystemNamespace CASecretNameTLS) (sn_CreateSecret sn OCNESystemNamespace CASecretNameTLS)))))"

section \<open>The applications of every cluster\<close>

definition KubeAPIServerImage :: string where "KubeAPIServerImage = ''container-registry.oracle.com/olcne/kube-apiserver''"
definition KubernetesGatewayAPICrds :: string where "KubernetesGatewayAPICrds = ''kubernetes-gateway-api-crds''"
definition CNIFlannelLegacyTag :: string where "CNIFlannelLegacyTag = ''v0.22.3-2''"
definition UILegacyTag :: string where "UILegacyTag = ''v0.23.2''"
definition UIPluginsVersion :: string where "UIPluginsVersion = ''v2.0.0''"
definition ProviderTypeNone :: string where "ProviderTypeNone = ''none''"
definition CNIFlannel :: string where "CNIFlannel = ''flannel''"
definition CNINone :: string where "CNINone = ''none''"
definition ContainerRegistry :: string where "ContainerRegistry = ''container-registry.oracle.com''"

definition string_list :: "string list \<Rightarrow> gval" where
  "string_list xs = GList (map GStr xs)"

definition coredns_app :: "string \<Rightarrow> string list \<Rightarrow> 's ApplicationDescription" where
  "coredns_app tag clusterDNS = internal_app True ''coredns'' ''kube-system'' ''core-dns'' ''2.0.0''
     [''image'' \<mapsto> GMap [''tag'' \<mapsto> GStr tag],
      ''service'' \<mapsto> GMap [''clusterIP'' \<mapsto> GStr (hd clusterDNS), ''clusterIPs'' \<mapsto> string_list clusterDNS]]"

definition kube_proxy_app :: "string \<Rightarrow> string \<Rightarrow> ClusterConfig \<Rightarrow> 's ApplicationDescription" where
  "kube_proxy_app tag apiServer clusterConfig = internal_app True ''kube-proxy'' ''kube-system'' ''kube-proxy'' ''2.0.0''
     [''image'' \<mapsto> GMap [''tag'' \<mapsto> GStr tag],
      ''apiServer'' \<mapsto> GMap [''host'' \<mapsto> GStr apiServer, ''port'' \<mapsto> GInt (uint (clu_KubeAPIServerBindPort clusterConfig))],
      ''config'' \<mapsto> GMap [''mode'' \<mapsto> GStr (clu_KubeProxyMode clusterConfig), ''clusterCIDR'' \<mapsto> GStr (clu_ServiceSubnet clusterConfig)]]"

definition gateway_app :: "'s ApplicationDescription" where
  "gateway_app = \<lparr>ad_PreInstall = None, ad_Force = True,
     ad_Application = \<lparr>app_Name = KubernetesGatewayAPICrds, app_Release = KubernetesGatewayAPICrds, app_Version = [],
       app_Catalog = InternalCatalog, app_Namespace = KubeNamespace, app_Config = GNil, app_ConfigFrom = []\<rparr>\<rparr>"

text \<open>The subnets of the pods: at most one of each family.  The error text has a format verb without an argument.\<close>

fun pod_cidrs :: "(string \<Rightarrow> bool) \<Rightarrow> (string \<Rightarrow> bool) \<Rightarrow> string list \<Rightarrow> string \<Rightarrow> string \<Rightarrow> (string \<times> string) result" where
  "pod_cidrs isIPv4 isIPv6 [] ipv4Cidr ipv6Cidr = Inr (ipv4Cidr, ipv6Cidr)"
| "pod_cidrs isIPv4 isIPv6 (subnet # subnets) ipv4Cidr ipv6Cidr =
     (if isIPv4 subnet \<and> ipv4Cidr = [] then pod_cidrs isIPv4 isIPv6 subnets subnet ipv6Cidr
      else if isIPv6 subnet \<and> ipv6Cidr = [] then pod_cidrs isIPv4 isIPv6 subnets ipv4Cidr subnet
      else Inl ''%!s(MISSING) is an invalid CIDR'')"

definition flannel_args :: "string list \<Rightarrow> string list" where
  "flannel_args ifaces = [''--ip-masq'', ''--kube-subnet-mgr''] @ map (\<lambda>i. ''--iface='' @ i) ifaces"

definition flannel_app :: "string \<Rightarrow> string \<Rightarrow> string list \<Rightarrow> string \<Rightarrow> 's ApplicationDescription" where
  "flannel_app ipv4Cidr ipv6Cidr args tag = internal_app False ''flannel'' ''kube-flannel'' ''flannel'' ''2.0.0''
     [''podCidr'' \<mapsto> GStr ipv4Cidr, ''podCidrv6'' \<mapsto> GStr ipv6Cidr,
      ''flannel'' \<mapsto> GMap [''args'' \<mapsto> string_list args, ''image'' \<mapsto> GMap [''tag'' \<mapsto> GStr tag]]]"

text \<open>Another registry matters only for a cluster without a provider.\<close>

definition other_registry :: "ClusterConfig \<Rightarrow> bool" where
  "other_registry clusterConfig \<longleftrightarrow> clu_Provider clusterConfig = ProviderTypeNone \<and> clu_Registry clusterConfig \<noteq> ContainerRegistry"

definition registry_override :: "ClusterConfig \<Rightarrow> gval" where
  "registry_override clusterConfig = GMap [''registry'' \<mapsto> GStr (clu_Registry clusterConfig)]"

definition ui_override :: "ClusterConfig \<Rightarrow> (string \<rightharpoonup> gval)" where
  "ui_override clusterConfig =
     (if other_registry clusterConfig
      then [''image'' \<mapsto> registry_override clusterConfig,
            ''initContainers'' \<mapsto> GList [GMap [
               ''name'' \<mapsto> GStr ''ui-plugins'',
               ''image'' \<mapsto> GStr (clu_Registry clusterConfig @ ''/olcne/ui-plugins:'' @ UIPluginsVersion),
               ''imagePullPolicy'' \<mapsto> GStr ''IfNotPresent'',
               ''command'' \<mapsto> string_list [''/bin/sh'', ''-c'', ''mkdir -p /build/plugins && cp -r /headlamp-plugins/* /build/plugins/''],
               ''volumeMounts'' \<mapsto> GList [GMap [''name'' \<mapsto> GStr ''ui-plugins'', ''mountPath'' \<mapsto> GStr ''/build/plugins'']]]]]
      else Map.empty)"

definition with_tag :: "(string \<rightharpoonup> gval) \<Rightarrow> string \<Rightarrow> (string \<rightharpoonup> gval) result" where
  "with_tag helmOverride tag =
     (case helmOverride ''image'' of
        None \<Rightarrow> Inr (helmOverride(''image'' \<mapsto> GMap [''tag'' \<mapsto> GStr tag]))
      | Some (GMap imgOvr) \<Rightarrow> Inr (helmOverride(''image'' \<mapsto> GMap (imgOvr(''tag'' \<mapsto> GStr tag))))
      | Some _ \<Rightarrow> Inl ''internal error: Helm overrides for the UI are corrupt'')"

text \<open>The certificate is made before the chart is installed; what that changes is not told apart in the events of the installation.\<close>

definition ui_app :: "('s, 'c, 'h) start_env \<Rightarrow> (string \<rightharpoonup> gval) \<Rightarrow> 's ApplicationDescription" where
  "ui_app sn helmOverride = (internal_app False ''ui'' ''ocne-system'' ''ui'' [] helmOverride)
     \<lparr>ad_PreInstall := Some (\<lambda>s. case CreateCert sn ''ocne-system'' (s, []) of (r, s', _) \<Rightarrow> (r, s'))\<rparr>"

definition catalog_app :: "ClusterConfig \<Rightarrow> 's ApplicationDescription" where
  "catalog_app clusterConfig = internal_app False ''ocne-catalog'' CatalogNamespace ''ocne-catalog'' ''2.0.0''
     (if other_registry clusterConfig then [''image'' \<mapsto> registry_override clusterConfig] else Map.empty)"

definition gateway_apps :: "('s, 'c, 'h) start_env \<Rightarrow> string \<Rightarrow> ('s, 'e, 's ApplicationDescription list) act" where
  "gateway_apps sn localKubeConfig =
     abind (NewConnection (sn_ce sn) localKubeConfig (zero_CatalogInfo\<lparr>cti_CatalogName := InternalCatalog\<rparr>)) (\<lambda>cc.
     abind (GetCharts (sn_ce sn) cc KubernetesGatewayAPICrds) (\<lambda>(cat, _).
       aret (case chc_ChartEntries cat KubernetesGatewayAPICrds of
               None \<Rightarrow> [] | Some crdEnts \<Rightarrow> (if crdEnts \<noteq> [] then [gateway_app] else []))))"

definition cni_apps :: "('s, 'c, 'h) start_env \<Rightarrow> ClusterConfig \<Rightarrow> KNode \<Rightarrow> string list \<Rightarrow> 's ApplicationDescription list result" where
  "cni_apps sn clusterConfig cpNode ifaces =
     (if clu_Provider clusterConfig \<noteq> ProviderTypeNone \<and> (clu_CNI clusterConfig = [] \<or> clu_CNI clusterConfig = CNIFlannel)
      then rbind (getTagForApplication (sn_image sn) CNIFlannelImage CurrentTag CNIFlannelLegacyTag cpNode) (\<lambda>tag.
           rbind (pod_cidrs (sn_IsIPv4 sn) (sn_IsIPv6 sn) (go_split (clu_PodSubnet clusterConfig) '','') [] []) (\<lambda>(ipv4Cidr, ipv6Cidr).
             Inr [flannel_app ipv4Cidr ipv6Cidr (flannel_args ifaces) tag]))
      else Inr [])"

definition ui_apps :: "('s, 'c, 'h) start_env \<Rightarrow> ClusterConfig \<Rightarrow> KNode \<Rightarrow> 's ApplicationDescription list result" where
  "ui_apps sn clusterConfig cpNode =
     (if \<not> clu_Headless clusterConfig
      then rbind (getTagForApplication (sn_image sn) UIImage CurrentTag UILegacyTag cpNode) (\<lambda>tag.
           rbind (with_tag (ui_override clusterConfig) tag) (\<lambda>helmOverride. Inr [ui_app sn helmOverride]))
      else Inr [])"

definition catalog_apps :: "ClusterConfig \<Rightarrow> 's ApplicationDescription list" where
  "catalog_apps clusterConfig = (if clu_Catalog clusterConfig then [catalog_app clusterConfig] else [])"

text \<open>Whether the UI is opened at the end.\<close>

definition auto_start :: "Config \<Rightarrow> ClusterConfig \<Rightarrow> bool" where
  "auto_start config clusterConfig \<longleftrightarrow> cfg_AutoStartUI config = ''true'' \<and> \<not> clu_Headless clusterConfig
     \<and> \<not> (clu_Provider clusterConfig \<noteq> ProviderTypeNone \<and> clu_CNI clusterConfig = CNINone)"

section \<open>What is there already\<close>

definition NewCommunityCatalog :: Catalog where
  "NewCommunityCatalog = \<lparr>cat_Protocol = ArtifacthubProtocol, cat_URI = ''https://artifacthub.io'', cat_Name = ''ArtifactHub Community Catalog'',
     cat_Namespace = ''ocne-system''\<rparr>"

definition getCatalogsToAdd :: "('s, 'c, 'h) start_env \<Rightarrow> string \<Rightarrow> ClusterConfig \<Rightarrow> ('s, 'e, Catalog list) act" where
  "getCatalogsToAdd sn kubeConfig clusterConfig =
     abind (Ls (sn_ce sn) kubeConfig) (\<lambda>allCatalogs.
       let catalogToInstall = filter (\<lambda>c. \<not> list_ex (\<lambda>ci. cti_CatalogName ci = cat_Name c \<and> nsn_Namespace (cti_ServiceNsn ci) = cat_Namespace c) allCatalogs)
             (clu_Catalogs clusterConfig)
       in aret (if clu_CommunityCatalog clusterConfig then clu_Catalogs clusterConfig @ [NewCommunityCatalog] else catalogToInstall))"

definition getAllReleases :: "('s, 'c, 'h) start_env \<Rightarrow> string \<Rightarrow> ('s, 'e, HelmRelease list) act" where
  "getAllReleases sn kubeConfig =
     abind (ask (sn_CreateKubeInfo sn kubeConfig)) (\<lambda>_. GetReleasesAllNamespaces (sn_hl sn))"

definition getAppsToInstall :: "'s ApplicationDescription list \<Rightarrow> HelmRelease list \<Rightarrow> 's ApplicationDescription list" where
  "getAppsToInstall allApps releases =
     filter (\<lambda>app. \<not> list_ex (\<lambda>rel. hr_Name rel = app_Release (ad_Application app) \<and> hr_Namespace rel = app_Namespace (ad_Application app)) releases) allApps"

section \<open>Starting\<close>

definition check_cached :: "ClusterCache \<Rightarrow> ClusterConfig \<Rightarrow> unit result" where
  "check_cached clusterCache clusterConfig =
     (if clu_Provider clusterConfig = ProviderTypeNone then Inr ()
      else (case cache_Get clusterCache (clu_Name clusterConfig) of
              None \<Rightarrow> Inr ()
            | Some cached \<Rightarrow>
                (let c = cl_ClusterConfig cached
                 in if clu_Provider c \<noteq> clu_Provider clusterConfig
                    then Inl (''the provider of the existing cluster is '' @ clu_Provider c @ ''. The target provider is '' @ clu_Provider clusterConfig)
                    else if clu_KubeVersion c \<noteq> clu_KubeVersion clusterConfig
                    then Inl (''the Kubernetes version of the existing cluster is '' @ clu_KubeVersion c
                           @ ''. The target Kubernetes version is '' @ clu_KubeVersion clusterConfig)
                    else Inr ())))"

text \<open>The cache is read again, since starting took its time.\<close>

definition record_cluster :: "('s, 'c, 'h) start_env \<Rightarrow> ClusterConfig \<Rightarrow> string \<Rightarrow> ('s, start_event, unit outcome) act" where
  "record_cluster sn clusterConfig localKubeConfig =
     abind (wait_for (GetCache (sn_cache sn))) (\<lambda>clusterCache.
     abind (perform (EvCacheAdd (clu_Name clusterConfig)) (\<lambda>s. (Inr (), s))) (\<lambda>_.
       pbind (wait_for (\<lambda>s. case cache_Add (sn_cache sn) clusterCache clusterConfig localKubeConfig s of
           None \<Rightarrow> None | Some (r, s') \<Rightarrow> Some (Inr r, s'))) (\<lambda>(r, _). abind (alift r) pret)))"

definition service_name :: "string \<Rightarrow> string" where
  "service_name name = (let svcName = to_lower (replace_all name '' '' []) in if length svcName \<ge> 64 then take 63 svcName else svcName)"

definition add_catalogs :: "('s, 'c, 'h) start_env \<Rightarrow> string \<Rightarrow> Catalog list \<Rightarrow> ('s, start_event, unit) act" where
  "add_catalogs sn localKubeConfig catalogs =
     afor catalogs (\<lambda>c. with_events EvCatalog
       (catalog_Add (sn_ce sn) localKubeConfig (service_name (cat_Name c)) (cat_Namespace c) (cat_URI c) (cat_Protocol c) (cat_Name c)))"

definition DefaultCatalog :: string where
  "DefaultCatalog = ''Oracle Cloud Native Environment Application Catalog''"

definition needs_catalog :: "'s ApplicationDescription list \<Rightarrow> bool" where
  "needs_catalog apps = list_ex (\<lambda>app. app_Catalog (ad_Application app) = [] \<or> app_Catalog (ad_Application app) = DefaultCatalog) apps"

definition configured_apps :: "ClusterConfig \<Rightarrow> 's ApplicationDescription list" where
  "configured_apps clusterConfig = map (\<lambda>a. \<lparr>ad_PreInstall = None, ad_Force = False, ad_Application = a\<rparr>) (clu_Applications clusterConfig)"

text \<open>The prompt is repeated until the answer is a y.\<close>

partial_function (option) prompt_loop :: "('s \<Rightarrow> string \<times> 's) \<Rightarrow> 's \<Rightarrow> (unit result \<times> 's) option" where
  "prompt_loop scanln s = (case scanln s of (userInput, s') \<Rightarrow> if to_lower userInput = ''y'' then Some (Inr (), s') else prompt_loop scanln s')"

definition autoStartUI :: "('s, 'c, 'h) start_env \<Rightarrow> string \<Rightarrow> ('s, start_event, unit) act" where
  "autoStartUI sn localKubeConfig =
     abind (WaitFor_one (sn_ha sn) (ask (WaitForDeployment sn ''ocne-system'' ''ui'' 1))) (\<lambda>(haveError, _).
       if haveError then afail ''timed out starting UI''
       else abind (ask (ce_PortForwardToService (sn_ce sn) localKubeConfig \<lparr>nsn_Namespace = OCNESystemNamespace, nsn_Name = UIServiceName\<rparr> ''443'')) (\<lambda>port.
            let url = ''https://localhost:'' @ format_nat port;
                command = (if sn_GOOS sn = ''linux'' then Some ''xdg-open'' else if sn_GOOS sn = ''darwin'' then Some ''open'' else None)
            in abind (case command of
                        None \<Rightarrow> afail ''unsupported platform''
                      | Some c \<Rightarrow> perform (EvBrowser [c, url]) (sn_StartCommand sn [c, url])) (\<lambda>_.
               wait_for (prompt_loop (sn_Scanln sn)))))"

text \<open>The applications that every cluster gets, in their order.\<close>

definition core_apps ::
  "('s, 'c, 'h) start_env \<Rightarrow> 's cluster_driver \<Rightarrow> ClusterConfig \<Rightarrow> string \<Rightarrow> KNode \<Rightarrow> ('s, 'e, 's ApplicationDescription list) act" where
  "core_apps sn drv clusterConfig localKubeConfig cpNode =
     abind (alift (GetKubernetesVersions (clu_KubeVersion clusterConfig))) (\<lambda>verInfo.
     abind (alift (getTagForApplication (sn_image sn) CoreDNSImage CurrentTag (kv_CoreDNS verInfo) cpNode)) (\<lambda>coreDnsTag.
     abind (WaitForKubeletConfig sn) (\<lambda>clusterDNS.
       if clusterDNS = [] then afail ''cluster does not have a DNS service ip''
       else abind (alift (getImageTag (sn_image sn) KubeAPIServerImage cpNode)) (\<lambda>kubeProxyLegacyTag.
            abind (alift (getTagForApplication (sn_image sn) KubeProxyImage CurrentTag kubeProxyLegacyTag cpNode)) (\<lambda>kubeProxyTag.
            abind (ask (\<lambda>s. (Inr (cd_GetKubeAPIServerAddress drv s), s))) (\<lambda>apiServer.
            abind (gateway_apps sn localKubeConfig) (\<lambda>gateway.
            abind (ask (\<lambda>s. (Inr (cd_DefaultCNIInterfaces drv s), s))) (\<lambda>ifaces.
            abind (alift (cni_apps sn clusterConfig cpNode ifaces)) (\<lambda>cni.
            abind (alift (ui_apps sn clusterConfig cpNode)) (\<lambda>ui.
              aret ([coredns_app coreDnsTag clusterDNS, kube_proxy_app kubeProxyTag apiServer clusterConfig]
                    @ gateway @ cni @ ui @ catalog_apps clusterConfig)))))))))))"

definition install_cluster ::
  "('s, 'c, 'h) start_env \<Rightarrow> Config \<Rightarrow> ClusterConfig \<Rightarrow> 's cluster_driver \<Rightarrow> string \<Rightarrow> KNode \<Rightarrow> ('s, start_event, string outcome) act" where
  "install_cluster sn config clusterConfig drv localKubeConfig cpNode =
     abind (core_apps sn drv clusterConfig localKubeConfig cpNode) (\<lambda>applications.
     abind (getAllReleases sn localKubeConfig) (\<lambda>releases.
     abind (with_events EvKube (InstallApplications (sn_ka sn) (sn_ha sn) (getAppsToInstall applications releases))) (\<lambda>_.
     abind (getCatalogsToAdd sn localKubeConfig clusterConfig) (\<lambda>catalogsToAdd.
     abind (add_catalogs sn localKubeConfig catalogsToAdd) (\<lambda>_.
       let appsToInstall = getAppsToInstall (configured_apps clusterConfig) releases
       in abind (if needs_catalog appsToInstall then WaitForInternalCatalogInstall sn else aret ()) (\<lambda>_.
          abind (with_events EvKube (InstallApplications (sn_ka sn) (sn_ha sn) appsToInstall)) (\<lambda>_.
          abind (perform EvDriverPostStart (cd_PostStart drv)) (\<lambda>_.
          atry (perform EvDriverClose (cd_Close drv)) (\<lambda>_.
          abind (if auto_start config clusterConfig then autoStartUI sn localKubeConfig else aret ()) (\<lambda>_.
            pret localKubeConfig))))))))))"

text \<open>The path is returned with some of the errors, too; the command does not look at it then.\<close>

definition start_cluster ::
  "('s, 'c, 'h) start_env \<Rightarrow> Config \<Rightarrow> ClusterConfig \<Rightarrow> 's cluster_driver \<Rightarrow> ('s, start_event, string outcome) act" where
  "start_cluster sn config clusterConfig drv =
     abind (perform EvDriverStart (cd_Start drv)) (\<lambda>(wasRunning, skipInstall).
     abind (ask (\<lambda>s. (Inr (cd_GetKubeconfigPath drv s), s))) (\<lambda>localKubeConfig.
     pbind (if \<not> wasRunning then record_cluster sn clusterConfig localKubeConfig else pret ()) (\<lambda>_.
       if skipInstall then pret localKubeConfig
       else abind (ask (sn_GetKubeClient sn localKubeConfig)) (\<lambda>_.
            abind (wait_for (WaitForControlPlaneNodes (sn_order sn) (ka_node (sn_ka sn)))) (\<lambda>cpNodes.
              case cpNodes of
                [] \<Rightarrow> aret Panics
              | cpNode # _ \<Rightarrow> install_cluster sn config clusterConfig drv localKubeConfig cpNode)))))"

definition Start :: "('s, 'c, 'h) start_env \<Rightarrow> Config \<Rightarrow> ClusterConfig \<Rightarrow> ('s, start_event, string outcome) act" where
  "Start sn config clusterConfig =
     abind (wait_for (GetCache (sn_cache sn))) (\<lambda>clusterCache.
     abind (alift (check_cached clusterCache clusterConfig)) (\<lambda>_.
     abind (ask (CreateDriver (sn_drivers sn) config clusterConfig)) (\<lambda>drv.
       adefer (start_cluster sn config clusterConfig drv) (perform EvDriverClose (cd_Close drv)))))"

section \<open>Deleting\<close>

definition cluster_Delete :: "('s, 'c, 'h) start_env \<Rightarrow> Config \<Rightarrow> ClusterConfig \<Rightarrow> ('s, start_event, unit) act" where
  "cluster_Delete sn config clusterConfig =
     abind (ask (CreateDriver (sn_drivers sn) config clusterConfig)) (\<lambda>drv.
     abind (perform EvDriverDelete (cd_Delete drv)) (\<lambda>_.
     abind (wait_for (GetCache (sn_cache sn))) (\<lambda>clusterCache.
     abind (perform (EvCacheDelete (clu_Name clusterConfig)) (\<lambda>s. (Inr (), s))) (\<lambda>_.
       wait_for (\<lambda>s. case cache_Delete (sn_cache sn) clusterCache (clu_Name clusterConfig) s of
         None \<Rightarrow> None | Some ((r, _), s') \<Rightarrow> Some (r, s'))))))"

section \<open>What starting changes\<close>

text \<open>Only questions.\<close>

lemma emits_WaitForKubeletConfig [emits_intro]: "emits P (WaitForKubeletConfig sn)"
  unfolding WaitForKubeletConfig_def by (auto intro!: emits_intro split: sum.splits option.splits)

lemma emits_gateway_apps [emits_intro]:
  fixes sn :: "('s, 'c, 'h) start_env"
  shows "emits P (gateway_apps sn kc)"
proof -
  have uri: "emits P (getCatalogURI ce k ci)" for ce :: "'s catalog_env" and k ci unfolding getCatalogURI_def by (intro emits_intro)
  have ver: "emits P (getKubeVersion ce k)" for ce :: "'s catalog_env" and k unfolding getKubeVersion_def by (intro emits_intro)
  have conn: "emits P (NewConnection ce k ci)" for ce :: "'s catalog_env" and k ci
    unfolding NewConnection_def NewHelmConnection_def NewArtifacthubConnection_def NewInternalConnection_def
    by (intro emits_intro uri ver)
  have charts: "emits P (GetCharts ce cc q)" for ce :: "'s catalog_env" and cc q
    unfolding GetCharts_def helm_GetCharts_def artifacthub_GetCharts_def Let_def
    by (auto split: CatalogConnection.split intro!: emits_intro)
  show ?thesis unfolding gateway_apps_def by (intro emits_intro conn charts)
qed

lemma emits_core_apps [emits_intro]: "emits P (core_apps sn drv cc kc node)"
  unfolding core_apps_def by (intro emits_intro)

lemma emits_getAllReleases [emits_intro]: "emits P (getAllReleases sn kc)"
  unfolding getAllReleases_def GetReleasesAllNamespaces_def getReleases_def by (intro emits_intro)

lemma emits_getCatalogsToAdd [emits_intro]: "emits P (getCatalogsToAdd sn kc cc)"
  unfolding getCatalogsToAdd_def Ls_def FindServicesByLabelKey_def Let_def by (intro emits_intro)

lemma emits_WaitForInternalCatalogInstall [emits_intro]: "emits P (WaitForInternalCatalogInstall sn)"
  unfolding WaitForInternalCatalogInstall_def by (intro emits_intro)

text \<open>Installing applications and adding catalogs.\<close>

fun installs :: "start_event \<Rightarrow> bool" where
  "installs (EvKube _) = True"
| "installs (EvCatalog _) = True"
| "installs _ = False"

fun finishes :: "start_event \<Rightarrow> bool" where
  "finishes EvDriverClose = True"
| "finishes (EvBrowser _) = True"
| "finishes _ = False"

lemma emits_kube_installs [emits_intro]: "emits installs (with_events EvKube (InstallApplications ka ha apps))"
  by (rule emits_with_events [where P = "\<lambda>_. True"]) (auto intro!: emits_intro)

lemma emits_add_catalogs [emits_intro]: "emits installs (add_catalogs sn kc catalogs)"
  unfolding add_catalogs_def
proof (intro emits_afor)
  show "emits installs (with_events EvCatalog (catalog_Add ce kc n ns uri p f))" for ce :: "'a catalog_env" and n ns uri p f
    by (rule emits_with_events [where P = "\<lambda>_. True"])
      (auto simp: catalog_Add_def Let_def intro!: emits_intro split: option.splits)
qed

lemma emits_autoStartUI [emits_intro]: "emits finishes (autoStartUI sn kc)"
  unfolding autoStartUI_def Let_def by (intro emits_intro) simp_all

text \<open>Two actions in a row, where the first has effects of one kind and the second of another.\<close>

definition in_phases :: "('e \<Rightarrow> bool) \<Rightarrow> ('a result \<Rightarrow> 'e list \<Rightarrow> bool) \<Rightarrow> ('s, 'e, 'a) act \<Rightarrow> bool" where
  "in_phases P Q m \<longleftrightarrow> (\<forall>s tr r s' tr'. m (s, tr) = (r, s', tr') \<longrightarrow> (\<exists>a b. tr' = tr @ a @ b \<and> list_all P a \<and> Q r b))"

lemma in_phasesD: "in_phases P Q m \<Longrightarrow> m (s, tr) = (r, s', tr') \<Longrightarrow> \<exists>a b. tr' = tr @ a @ b \<and> list_all P a \<and> Q r b"
  unfolding in_phases_def by blast

lemma in_phases_abind:
  assumes "emits P m" and "\<And>x. in_phases P Q (f x)" and "\<And>e. Q (Inl e) []"
  shows "in_phases P Q (abind m f)"
  unfolding in_phases_def
proof (intro allI impI)
  fix s tr r s' tr'
  assume run: "abind m f (s, tr) = (r, s', tr')"
  obtain q s1 tr1 where m: "m (s, tr) = (q, s1, tr1)" by (metis prod.exhaust)
  obtain e1 where e1: "tr1 = tr @ e1" "list_all P e1" using emitsD [OF assms(1) m] by blast
  show "\<exists>a b. tr' = tr @ a @ b \<and> list_all P a \<and> Q r b"
  proof (cases q)
    case (Inl e)
    with run m e1 have "tr' = tr @ e1 @ []" "r = Inl e" by (simp_all add: abind_def)
    with e1 assms(3) [of e] show ?thesis by blast
  next
    case (Inr x)
    with run m have "f x (s1, tr1) = (r, s', tr')" by (simp add: abind_def)
    from in_phasesD [OF assms(2) this] obtain a b where "tr' = tr1 @ a @ b" "list_all P a" "Q r b" by blast
    with e1 have "tr' = tr @ (e1 @ a) @ b" "list_all P (e1 @ a)" "Q r b" by simp_all
    then show ?thesis by blast
  qed
qed

lemma in_phases_pbind:
  assumes "emits P m" and "\<And>x. in_phases P Q (f x)" and "\<And>e. Q (Inl e) []" and "Q (Inr Panics) []"
  shows "in_phases P Q (pbind m f)"
  unfolding pbind_def
proof (rule in_phases_abind [OF assms(1)])
  show "in_phases P Q (case x of Panics \<Rightarrow> aret Panics | Returns y \<Rightarrow> f y)" for x
  proof (cases x)
    case Panics
    then show ?thesis using assms(4) by (auto simp: in_phases_def intro: exI [of _ "[]"])
  next
    case (Returns y)
    with assms(2) show ?thesis by simp
  qed
qed (rule assms(3))

lemma in_phases_case_prod: "(\<And>a b. in_phases P Q (f a b)) \<Longrightarrow> in_phases P Q (case p of (a, b) \<Rightarrow> f a b)"
  by (cases p) simp

lemma in_phases_last:
  assumes "\<And>s tr r s' tr'. m (s, tr) = (r, s', tr') \<Longrightarrow> \<exists>b. tr' = tr @ b \<and> Q r b"
  shows "in_phases P Q m"
  using assms unfolding in_phases_def by (metis append_Nil list.pred_inject(1))

text \<open>The end of a start: the driver's last steps come after everything was installed.\<close>

definition ending :: "start_event list \<Rightarrow> bool" where
  "ending b \<longleftrightarrow> b = [] \<or> (\<exists>c. b = EvDriverPostStart # c \<and> list_all finishes c)"

lemma install_cluster_phases: "in_phases installs (\<lambda>_. ending) (install_cluster sn config cc drv kc node)"
proof -
  have "\<exists>b. tr' = tr @ b \<and> ending b"
    if run: "abind (perform EvDriverPostStart (cd_PostStart drv)) (\<lambda>_. atry (perform EvDriverClose (cd_Close drv)) (\<lambda>_.
        abind (if auto_start config cc then autoStartUI sn kc else aret ()) (\<lambda>_. pret kc))) (s, tr) = (r, s', tr')"
    for s tr r s' tr'
  proof -
    let ?rest = "atry (perform EvDriverClose (cd_Close drv)) (\<lambda>_. abind (if auto_start config cc then autoStartUI sn kc else aret ()) (\<lambda>_. pret kc))"
    have rest: "emits finishes ?rest" by (intro emits_intro) simp
    obtain q s1 where q: "cd_PostStart drv s = (q, s1)" by (cases "cd_PostStart drv s")
    show ?thesis
    proof (cases q)
      case (Inl e)
      with run q have "tr' = tr @ [EvDriverPostStart]" by (simp add: abind_def perform_def)
      then show ?thesis by (auto simp: ending_def)
    next
      case (Inr u)
      with run q have "?rest (s1, tr @ [EvDriverPostStart]) = (r, s', tr')" by (simp add: abind_def perform_def)
      from emitsD [OF rest this] show ?thesis by (auto simp: ending_def)
    qed
  qed
  then have last: "in_phases installs (\<lambda>_. ending) (abind (perform EvDriverPostStart (cd_PostStart drv)) (\<lambda>_. atry (perform EvDriverClose (cd_Close drv)) (\<lambda>_.
        abind (if auto_start config cc then autoStartUI sn kc else aret ()) (\<lambda>_. pret kc))))"
    by (rule in_phases_last)
  show ?thesis
    unfolding install_cluster_def Let_def
    by (intro in_phases_abind last emits_intro) (simp_all add: ending_def)
qed

text \<open>What a start of the driver leads to: the cluster is recorded unless it was running, and then the installation.\<close>

definition started :: "string \<Rightarrow> bool \<Rightarrow> bool \<Rightarrow> start_event list \<Rightarrow> bool" where
  "started name wasRunning skipInstall evs \<longleftrightarrow>
     (\<exists>a b. evs = (if wasRunning then [] else [EvCacheAdd name]) @ a @ b \<and> list_all installs a \<and> ending b \<and> (skipInstall \<longrightarrow> a @ b = []))
     \<or> evs = []"

lemma record_cluster_trace:
  "record_cluster sn cc kc (s, tr) = (r, s', tr') \<Longrightarrow> tr' = tr @ [EvCacheAdd (clu_Name cc)] \<or> (tr' = tr \<and> (\<exists>e. r = Inl e))"
proof -
  assume run: "record_cluster sn cc kc (s, tr) = (r, s', tr')"
  obtain q s1 where q: "wait_for (GetCache (sn_cache sn)) (s, tr) = (q, s1, tr)"
    using no_effects [OF emits_wait_for] by (metis prod.exhaust)
  show ?thesis
  proof (cases q)
    case (Inl e)
    with run q show ?thesis by (auto simp: record_cluster_def abind_def)
  next
    case (Inr cache)
    let ?f = "\<lambda>s. case cache_Add (sn_cache sn) cache cc kc s of None \<Rightarrow> None | Some (r, s') \<Rightarrow> Some (Inr r, s')"
    have "emits (\<lambda>_. False) (pbind (wait_for ?f) (\<lambda>(r, _). abind (alift r) pret) :: (_, start_event, _) act)"
      by (intro emits_intro)
    moreover from run q Inr have "pbind (wait_for ?f) (\<lambda>(r, _). abind (alift r) pret) (s1, tr @ [EvCacheAdd (clu_Name cc)]) = (r, s', tr')"
      by (simp add: record_cluster_def abind_def perform_def)
    ultimately have "tr' = tr @ [EvCacheAdd (clu_Name cc)]" by (rule no_effects)
    then show ?thesis by blast
  qed
qed

lemma start_cluster_trace:
  assumes "start_cluster sn config cc drv (s, tr) = (r, s', tr')"
  shows "\<exists>x s1 evs. cd_Start drv s = (x, s1) \<and> tr' = tr @ EvDriverStart # evs \<and>
    (case x of Inl _ \<Rightarrow> evs = [] | Inr (wasRunning, skipInstall) \<Rightarrow> started (clu_Name cc) wasRunning skipInstall evs)"
proof -
  obtain x s1 where x: "cd_Start drv s = (x, s1)" by (cases "cd_Start drv s")
  show ?thesis
  proof (cases x)
    case (Inl e)
    with assms x show ?thesis by (simp add: start_cluster_def abind_def perform_def)
  next
    case (Inr b)
    obtain wasRunning skipInstall where b: "b = (wasRunning, skipInstall)" by (cases b)
    let ?kc = "cd_GetKubeconfigPath drv s1" and ?tr = "tr @ [EvDriverStart]"
    let ?rest = "if skipInstall then pret ?kc
       else abind (ask (sn_GetKubeClient sn ?kc)) (\<lambda>_.
            abind (wait_for (WaitForControlPlaneNodes (sn_order sn) (ka_node (sn_ka sn)))) (\<lambda>cpNodes.
              case cpNodes of
                [] \<Rightarrow> aret Panics
              | cpNode # _ \<Rightarrow> install_cluster sn config cc drv ?kc cpNode))"
    let ?rec = "if \<not> wasRunning then record_cluster sn cc ?kc else pret ()"
    have phases: "in_phases installs (\<lambda>_. ending) ?rest"
    proof (cases skipInstall)
      case True
      then show ?thesis by (auto simp: in_phases_def ending_def)
    next
      case False
      have "in_phases installs (\<lambda>_. ending) (case nodes of [] \<Rightarrow> aret Panics | cpNode # _ \<Rightarrow> install_cluster sn config cc drv ?kc cpNode)" for nodes
      proof (cases nodes)
        case Nil
        then show ?thesis by (auto simp: in_phases_def ending_def)
      next
        case (Cons a list)
        then show ?thesis by (simp add: install_cluster_phases)
      qed
      with False show ?thesis by (auto intro!: in_phases_abind emits_intro simp: ending_def)
    qed
    from assms x Inr b have run: "pbind ?rec (\<lambda>_. ?rest) (s1, ?tr) = (r, s', tr')"
      by (simp add: start_cluster_def abind_def perform_def ask_def)
    obtain q s2 tr2 where q: "?rec (s1, ?tr) = (q, s2, tr2)" by (metis prod.exhaust)
    have tr2: "tr2 = ?tr @ (if wasRunning then [] else [EvCacheAdd (clu_Name cc)]) \<or> tr2 = ?tr \<and> (\<exists>e. q = Inl e)"
      using q record_cluster_trace [of sn cc ?kc s1 ?tr q s2 tr2] by (auto split: if_splits)
    show ?thesis
    proof (cases "q = Inr (Returns ())")
      case True
      with run q have "?rest (s2, tr2) = (r, s', tr')" by (simp add: pbind_run)
      moreover from this in_phasesD [OF phases] obtain a c where a: "tr' = tr2 @ a @ c" "list_all installs a" "ending c" by blast
      moreover have "skipInstall \<longrightarrow> a @ c = []" using calculation by auto
      ultimately have "started (clu_Name cc) wasRunning skipInstall ((if wasRunning then [] else [EvCacheAdd (clu_Name cc)]) @ a @ c)"
        unfolding started_def by blast
      with x Inr b a(1) tr2 True show ?thesis by auto
    next
      case False
      with run q have "tr' = tr2" by (auto simp: pbind_run split: sum.splits outcome.splits)
      moreover have "started (clu_Name cc) wasRunning skipInstall (if wasRunning then [] else [EvCacheAdd (clu_Name cc)])"
        unfolding started_def by (intro disjI1 exI [of _ "[]"]) (simp add: ending_def)
      moreover have "started (clu_Name cc) wasRunning skipInstall []" by (simp add: started_def)
      ultimately show ?thesis using x Inr b tr2 by auto
    qed
  qed
qed

text \<open>A machine without a cache and a cluster that runs already; its driver leaves nothing to install.\<close>

definition sample_driver :: "int cluster_driver" where
  "sample_driver = \<lparr>cd_Start = (\<lambda>s. (Inr (True, True), s + 1)), cd_PostStart = (\<lambda>s. (Inr (), s)), cd_Stop = (\<lambda>s. (Inr (), s)),
     cd_Join = (\<lambda>_ _ _ s. (Inr (), s)), cd_Delete = (\<lambda>s. (Inr (), s)), cd_Close = (\<lambda>s. (Inr (), s)),
     cd_GetKubeconfigPath = (\<lambda>_. ''/k''), cd_GetKubeAPIServerAddress = (\<lambda>_. ''10.0.0.1''), cd_DefaultCNIInterfaces = (\<lambda>_. [''eth0'']),
     cd_Stage = (\<lambda>_ s. (Inr ([], [], True), s))\<rparr>"

definition sample_start_cache :: "int cache_env" where
  "sample_start_cache = \<lparr>
     ca_os = \<lparr>lo_OcneDir = (\<lambda>s. (Inl ''read-only'', s)), lo_HomeDir = (\<lambda>s. (Inr ''/h'', s)),
       lo_CreateExcl = (\<lambda>_ s. (OpenFails ''read-only'', s)), lo_Write = (\<lambda>_ _ s. s), lo_Open = (\<lambda>_ s. (Inl ''no file'', s)),
       lo_Read = (\<lambda>_ _ s. (Inl ''no file'', s)), lo_Remove = (\<lambda>_ s. s), lo_Getpid = 7, lo_Now = (\<lambda>s. s), lo_Sleep = (\<lambda>d s. s + d)\<rparr>,
     ca_ReadFile = (\<lambda>_ s. (Inl (NoSuchFile ''no file''), s)), ca_WriteFile = (\<lambda>_ _ s. (Inl ''read-only'', s)),
     ca_Unmarshal = (\<lambda>_. Inl ''no YAML''), ca_Marshal = (\<lambda>_. Inr [])\<rparr>"

definition sample_start_catalogs :: "int catalog_env" where
  "sample_start_catalogs = \<lparr>
     ce_GetKubeClient = (\<lambda>_ s. (Inr (), s)), ce_ServerVersion = (\<lambda>_ s. (Inr (''1'', ''33''), s)),
     ce_PortForwardToService = (\<lambda>_ _ _ s. (Inr 8080, s)), ce_ListServices = (\<lambda>_ s. (Inr [sample_service], s)),
     ce_CreateService = (\<lambda>_ s. (Inr (), s)), ce_DeleteService = (\<lambda>_ _ s. (Inr (), s)),
     ce_HTTPGet = (\<lambda>_ s. (Inr [], s)), ce_UnmarshalCatalog = (\<lambda>_. Inr sample_index), ce_UnmarshalPackages = (\<lambda>_. Inr []),
     ce_SortFunc = (\<lambda>_ xs. xs), ce_NewConstraint = (\<lambda>_. Inr (\<lambda>_. True)), ce_url_Parse = (\<lambda>_. Inl ''no URL''),
     ce_url_String = url_RawQuery, ce_url_Encode = (\<lambda>ps. concat (map snd ps)),
     ce_Regexp = (\<lambda>_. Inr (\<lambda>_. True)), ce_Embedded = []\<rparr>"

definition sample_start :: "(int, unit, unit) start_env" where
  "sample_start = \<lparr>sn_drivers = [''olvm'' \<mapsto> (\<lambda>_ _ s. (Inr sample_driver, s))], sn_cache = sample_start_cache, sn_ka = sample_kube [],
     sn_ha = sample_helm, sn_hl = sample_helm_lib, sn_ce = sample_start_catalogs, sn_image = sample_lib, sn_order = id,
     sn_GetKubeClient = (\<lambda>_ s. (Inr (), s)), sn_CreateKubeInfo = (\<lambda>_ s. (Inr (), s)), sn_UnmarshalKubelet = (\<lambda>_. Inr [''10.96.0.10'']),
     sn_IsIPv4 = (\<lambda>x. go_contains x ''.''), sn_IsIPv6 = (\<lambda>x. go_contains x '':''),
     sn_GetDeployment = (\<lambda>_ _ s. (Inr \<lparr>kd_Replicas = Some 1, kd_UpdatedReplicas = 1, kd_AvailableReplicas = 1\<rparr>, s)),
     sn_GetSecret = (\<lambda>_ _ s. (Inr (), s)), sn_CreateSecret = (\<lambda>_ _ s. (Inr (), s)), sn_HeadlampCerts = (\<lambda>_ s. (Inr (), s)),
     sn_GOOS = ''linux'', sn_StartCommand = (\<lambda>_ s. (Inr (), s)), sn_Scanln = (\<lambda>s. (''y'', s))\<rparr>"

section \<open>Properties\<close>

lemma Start_trace:
  fixes sn :: "('s, 'c, 'h) start_env"
  assumes "Start sn config cc (s, tr) = (r, s', tr')"
  shows "tr' = tr \<or>
    (\<exists>cache t (drv :: 's cluster_driver) s0 x s1 evs. check_cached cache cc = Inr () \<and> CreateDriver (sn_drivers sn) config cc t = (Inr drv, s0) \<and> cd_Start drv s0 = (x, s1) \<and> tr' = tr @ EvDriverStart # evs @ [EvDriverClose] \<and>
      (case x of Inl _ \<Rightarrow> evs = [] | Inr (wasRunning, skipInstall) \<Rightarrow> started (clu_Name cc) wasRunning skipInstall evs))"
proof -
  obtain q s1 where q: "wait_for (GetCache (sn_cache sn)) (s, tr) = (q, s1, tr)"
    using no_effects [OF emits_wait_for] by (metis prod.exhaust)
  show ?thesis
  proof (cases "\<exists>cache. q = Inr cache \<and> check_cached cache cc = Inr ()")
    case False
    with assms q show ?thesis by (auto simp: Start_def abind_def alift_def split: sum.splits)
  next
    case True
    then obtain cache where cache: "q = Inr cache" "check_cached cache cc = Inr ()" by blast
    obtain d s2 where d: "CreateDriver (sn_drivers sn) config cc s1 = (d, s2)" by fastforce
    show ?thesis
    proof (cases d)
      case (Inl e)
      with assms q cache d show ?thesis by (auto simp: Start_def abind_def alift_def ask_def)
    next
      case (Inr drv)
      obtain r3 s3 tr3 where run: "start_cluster sn config cc drv (s2, tr) = (r3, s3, tr3)" by (metis prod.exhaust)
      obtain r4 s4 where "cd_Close drv s3 = (r4, s4)" by fastforce
      with assms q cache d Inr run have "tr' = tr3 @ [EvDriverClose]"
        by (auto simp: Start_def abind_def alift_def ask_def adefer_def perform_def)
      moreover obtain x s5 evs where "cd_Start drv s2 = (x, s5)" "tr3 = tr @ EvDriverStart # evs"
        "case x of Inl _ \<Rightarrow> evs = [] | Inr (wasRunning, skipInstall) \<Rightarrow> started (clu_Name cc) wasRunning skipInstall evs"
        using start_cluster_trace [OF run] by blast
      ultimately have "check_cached cache cc = Inr () \<and> CreateDriver (sn_drivers sn) config cc s1 = (Inr drv, s2) \<and> cd_Start drv s2 = (x, s5) \<and> tr' = tr @ EvDriverStart # evs @ [EvDriverClose] \<and>
          (case x of Inl _ \<Rightarrow> evs = [] | Inr (wasRunning, skipInstall) \<Rightarrow> started (clu_Name cc) wasRunning skipInstall evs)"
        using cache(2) d Inr by simp
      then show ?thesis by blast
    qed
  qed
qed



text \<open>The first address of a family.\<close>

definition first_of :: "(string \<Rightarrow> bool) \<Rightarrow> string list \<Rightarrow> string" where
  "first_of P xs = (case filter P xs of [] \<Rightarrow> [] | x # _ \<Rightarrow> x)"

lemma pod_cidrs_result:
  assumes "\<And>x. \<not> (isIPv4 x \<and> isIPv6 x)" and "[] \<notin> set subnets"
  shows "pod_cidrs isIPv4 isIPv6 subnets a b =
     (if list_all (\<lambda>x. isIPv4 x \<or> isIPv6 x) subnets \<and> length (filter isIPv4 subnets) \<le> (if a = [] then 1 else 0)
         \<and> length (filter isIPv6 subnets) \<le> (if b = [] then 1 else 0)
      then Inr (if a = [] then first_of isIPv4 subnets else a, if b = [] then first_of isIPv6 subnets else b)
      else Inl ''%!s(MISSING) is an invalid CIDR'')"
  using assms(2)
proof (induction subnets arbitrary: a b)
  case Nil
  then show ?case by (simp add: first_of_def)
next
  case (Cons x xs)
  then have "x \<noteq> []" "[] \<notin> set xs" by auto
  with Cons.IH [of x b] Cons.IH [of a x] assms(1) [of x] show ?case
    by (auto simp: first_of_def)
qed

text \<open>
  The pod subnets that a start accepts: at most one for each family of addresses, and nothing else; they are passed on as the subnet
  of their family.  (The library that recognises them: no subnet belongs to both families.)
\<close>

theorem pod_cidrs_exact:
  assumes "\<And>x. \<not> (isIPv4 x \<and> isIPv6 x)" and "[] \<notin> set subnets"
  shows "(is_ok (pod_cidrs isIPv4 isIPv6 subnets [] []) \<longleftrightarrow>
      list_all (\<lambda>x. isIPv4 x \<or> isIPv6 x) subnets \<and> length (filter isIPv4 subnets) \<le> 1 \<and> length (filter isIPv6 subnets) \<le> 1)
    \<and> (\<forall>a b. pod_cidrs isIPv4 isIPv6 subnets [] [] = Inr (a, b) \<longrightarrow> a = first_of isIPv4 subnets \<and> b = first_of isIPv6 subnets)"
  using pod_cidrs_result [OF assms, where a = "[]" and b = "[]"] by (auto split: if_splits)

theorem pod_cidrs_exact_witness:
  "pod_cidrs (\<lambda>x. go_contains x ''.'') (\<lambda>x. \<not> go_contains x ''.'') [''fd00::/48'', ''10.244.0.0/16''] [] [] = Inr (''10.244.0.0/16'', ''fd00::/48'')
   \<and> \<not> is_ok (pod_cidrs (\<lambda>x. go_contains x ''.'') (\<lambda>x. \<not> go_contains x ''.'') [''10.0.0.0/16'', ''10.244.0.0/16''] [] [])"
proof -
  let ?v4 = "\<lambda>x. go_contains x ''.''" and ?v6 = "\<lambda>x. \<not> go_contains x ''.''"
  have c: "go_contains ''10.244.0.0/16'' ''.''" "go_contains ''10.0.0.0/16'' ''.''" "\<not> go_contains ''fd00::/48'' ''.''" by code_simp+
  have "is_ok (pod_cidrs ?v4 ?v6 [''fd00::/48'', ''10.244.0.0/16''] [] [])"
    using pod_cidrs_exact [of ?v4 ?v6 "[''fd00::/48'', ''10.244.0.0/16'']"] c by simp
  then obtain a b where ab: "pod_cidrs ?v4 ?v6 [''fd00::/48'', ''10.244.0.0/16''] [] [] = Inr (a, b)" by (auto simp: is_ok_iff)
  then have "a = ''10.244.0.0/16''" "b = ''fd00::/48''"
    using pod_cidrs_exact [of ?v4 ?v6 "[''fd00::/48'', ''10.244.0.0/16'']"] c by (auto simp: first_of_def)
  moreover have "\<not> is_ok (pod_cidrs ?v4 ?v6 [''10.0.0.0/16'', ''10.244.0.0/16''] [] [])"
    using pod_cidrs_exact [of ?v4 ?v6 "[''10.0.0.0/16'', ''10.244.0.0/16'']"] c by simp
  ultimately show ?thesis using ab by simp
qed

text \<open>
  C29. The values for the chart of the UI are well formed whatever the configuration: adding the tag never meets an image that is no map,
  so the internal error cannot occur, the tag reads back, and another registry is kept beside it.
\<close>

theorem ui_values_well_formed:
  "\<exists>m. with_tag (ui_override cc) tag = Inr m \<and> nested_string m [''image'', ''tag''] = Inr (tag, True)
     \<and> (other_registry cc \<longrightarrow> nested_string m [''image'', ''registry''] = Inr (clu_Registry cc, True))"
  by (cases "other_registry cc") (simp_all add: ui_override_def with_tag_def registry_override_def nested_string_def)

theorem ui_values_well_formed_witness:
  "\<exists>m. with_tag (ui_override (zero_ClusterConfig\<lparr>clu_Provider := ''none'', clu_Registry := ''reg.io''\<rparr>)) ''current'' = Inr m
     \<and> nested_string m [''image'', ''registry''] = Inr (''reg.io'', True)"
proof -
  have "other_registry (zero_ClusterConfig\<lparr>clu_Provider := ''none'', clu_Registry := ''reg.io''\<rparr>)"
    by (simp add: other_registry_def ProviderTypeNone_def ContainerRegistry_def)
  with ui_values_well_formed [of "zero_ClusterConfig\<lparr>clu_Provider := ''none'', clu_Registry := ''reg.io''\<rparr>" "''current''"] show ?thesis
    by auto
qed

text \<open>
  The catalogs a start adds: without the community catalog, those of the configuration that the cluster does not list under the same
  name and namespace; with it, all of them and the community catalog, also those that are there already.
\<close>

theorem catalogs_to_add:
  assumes "Ls (sn_ce sn) kc w = (Inr infos, w')"
  shows "\<exists>catalogs. getCatalogsToAdd sn kc cc w = (Inr catalogs, w') \<and>
    (if clu_CommunityCatalog cc
     then set catalogs = insert NewCommunityCatalog (set (clu_Catalogs cc))
     else set catalogs = {c \<in> set (clu_Catalogs cc). \<forall>ci \<in> set infos. cti_CatalogName ci = cat_Name c \<longrightarrow> nsn_Namespace (cti_ServiceNsn ci) \<noteq> cat_Namespace c})"
  using assms by (auto simp: getCatalogsToAdd_def abind_def list_ex_iff)

theorem catalogs_to_add_witness:
  "\<exists>catalogs. getCatalogsToAdd sample_start [] (zero_ClusterConfig\<lparr>clu_CommunityCatalog := True\<rparr>) (0, [] :: start_event list) = (Inr catalogs, 0, [])
     \<and> set catalogs = {NewCommunityCatalog}"
proof -
  obtain infos where "Ls (sn_ce sample_start) [] (0, [] :: start_event list) = (Inr infos, (0, []))"
    by (simp add: Ls_def FindServicesByLabelKey_def sample_start_def sample_start_catalogs_def abind_def ask_def Let_def)
  note added = catalogs_to_add [OF this, of "zero_ClusterConfig\<lparr>clu_CommunityCatalog := True\<rparr>"]
  have "clu_Catalogs (zero_ClusterConfig\<lparr>clu_CommunityCatalog := True\<rparr>) = []" by (simp add: zero_ClusterConfig_def)
  with added show ?thesis by simp
qed

end
