(* ===== verification/Cluster_Join.thy ===== *)
theory Cluster_Join
  imports Admin_Pods Base64 Ignition_Library Cluster_Start
begin

text \<open>
  Joining nodes to a cluster (\<^verbatim>\<open>pkg/commands/cluster/join/join.go\<close>): through the driver of the cluster, or by moving one node from a
  cluster to another.  A move gets a token from the destination, makes the configuration of the node from what it finds there and on
  the node, runs a script on the node that resets it, and takes the node out of its old cluster.

  \<open>join_env\<close> has the two clusters in \<open>jn_ae\<close>, by the path of their kubeconfig.  The two regular expressions are written out as
  the searches that Go's engine makes: the leftmost match, and in it the longest text for each star in turn.
\<close>

section \<open>Data\<close>

record JoinOptions =
  jo_Config :: Config
  jo_ClusterConfig :: ClusterConfig
  jo_KubeConfigPath :: string
  jo_ControlPlaneNodes :: int
  jo_WorkerNodes :: int
  jo_Node :: string
  jo_DestKubeConfigPath :: string
  jo_RoleControlPlane :: bool

datatype join_event =
    EvAdmin admin_event
  | EvDriverJoin string int int
  | EvDeleteNode string string
  | EvMkTempDir
  | EvRemoveAll string
  | EvCopyFromPod string string "(string \<times> string) list"

record 's join_env =
  jn_drivers :: "string \<rightharpoonup> 's driver_create"
  jn_ae :: "'s admin_env"
  jn_kl :: kubeadm_lib
  jn_Rand :: "nat \<Rightarrow> 's \<Rightarrow> string result \<times> 's"
  jn_ApiServerPods :: "string \<Rightarrow> 's \<Rightarrow> (string \<times> string list) list list result \<times> 's"
  jn_CreateOcneTempDir :: "string \<Rightarrow> 's \<Rightarrow> string result \<times> 's"
  jn_RemoveAll :: "string \<Rightarrow> 's \<Rightarrow> unit result \<times> 's"
  jn_CopyFilesFromPod :: "string \<Rightarrow> string \<Rightarrow> (string \<times> string) list \<Rightarrow> 's \<Rightarrow> unit result \<times> 's"
  jn_ReadFile :: "string \<Rightarrow> 's \<Rightarrow> (read_error + string) \<times> 's"
  jn_DeleteNode :: "string \<Rightarrow> string \<Rightarrow> 's \<Rightarrow> unit result \<times> 's"

section \<open>What is read from files\<close>

text \<open>A character that the dot of a regular expression stands for, and one of its white space.\<close>

definition re_blank :: "char \<Rightarrow> bool" where
  "re_blank c = (c = CHR 9 \<or> c = CHR 10 \<or> c = CHR 12 \<or> c = CHR 13 \<or> c = CHR 32)"

abbreviation re_line :: "string \<Rightarrow> string" where
  "re_line s \<equiv> takeWhile (\<lambda>c. c \<noteq> CHR 10) s"

text \<open>
  \<open>(.*)\s*\<close> and then \<open>stop\<close>: the longest text on the line first.
\<close>

fun group_then :: "(string \<Rightarrow> bool) \<Rightarrow> nat \<Rightarrow> string \<Rightarrow> string option" where
  "group_then stop n s =
     (if stop (dropWhile re_blank (drop n s)) then Some (take n s)
      else (case n of 0 \<Rightarrow> None | Suc m \<Rightarrow> group_then stop m s))"

declare group_then.simps [simp del]

definition re_group :: "(string \<Rightarrow> bool) \<Rightarrow> string \<Rightarrow> string option" where
  "re_group stop s = group_then stop (length (re_line s)) s"

text \<open>The same after \<open>\s*\<close>, again the longest first.\<close>

fun blanks_group :: "(string \<Rightarrow> bool) \<Rightarrow> nat \<Rightarrow> string \<Rightarrow> string option" where
  "blanks_group stop n s =
     (case re_group stop (drop n s) of
        Some x \<Rightarrow> Some x
      | None \<Rightarrow> (case n of 0 \<Rightarrow> None | Suc m \<Rightarrow> blanks_group stop m s))"

declare blanks_group.simps [simp del]

text \<open>The leftmost place that starts with \<open>key\<close> and goes on as wanted.\<close>

fun find_group :: "string \<Rightarrow> (string \<Rightarrow> string option) \<Rightarrow> string \<Rightarrow> string option" where
  "find_group key f [] = (if key = [] then f [] else None)"
| "find_group key f (c # cs) =
     (case (if prefix key (c # cs) then f (drop (length key) (c # cs)) else None) of
        Some x \<Rightarrow> Some x
      | None \<Rightarrow> find_group key f cs)"

definition match_virtual_ip :: "string \<Rightarrow> string option" where
  "match_virtual_ip = find_group ''virtual_ipaddress {''
     (\<lambda>s. blanks_group (\<lambda>rest. prefix ''}'' rest) (length (takeWhile re_blank s)) s)"

definition match_interface :: "string \<Rightarrow> string option" where
  "match_interface = find_group ''NET_INTERFACE='' (re_group (\<lambda>rest. rest = []))"

definition parseVirtualIP :: "'s join_env \<Rightarrow> string \<Rightarrow> 's \<Rightarrow> string result \<times> 's" where
  "parseVirtualIP jn path s =
     (case jn_ReadFile jn path s of
        (Inl (NoSuchFile _), s') \<Rightarrow> (Inr [], s')
      | (Inl (ReadFails err), s') \<Rightarrow> (Inl err, s')
      | (Inr b, s') \<Rightarrow>
          (case match_virtual_ip b of
             None \<Rightarrow> (Inl ''Unable to parse virtual IP from keepalive configuration template'', s')
           | Some vip \<Rightarrow> (Inr vip, s')))"

definition parseNetworkInterface :: "'s join_env \<Rightarrow> string \<Rightarrow> 's \<Rightarrow> string result \<times> 's" where
  "parseNetworkInterface jn path s =
     (case jn_ReadFile jn path s of
        (Inl (NoSuchFile err), s') \<Rightarrow> (Inl err, s')
      | (Inl (ReadFails err), s') \<Rightarrow> (Inl err, s')
      | (Inr b, s') \<Rightarrow>
          (case match_interface b of
             None \<Rightarrow> (Inl ''Unable to parse network interface from bootstrap configuration file'', s')
           | Some iface \<Rightarrow> (Inr iface, s')))"

section \<open>Files on a node\<close>

text \<open>\<^verbatim>\<open>filepath.Base\<close> and \<^verbatim>\<open>filepath.Dir\<close> of a clean path below the root.\<close>

definition path_base :: "string \<Rightarrow> string" where
  "path_base p = rev (takeWhile (\<lambda>c. c \<noteq> CHR ''/'') (rev p))"

definition path_dir :: "string \<Rightarrow> string" where
  "path_dir p = rev (drop 1 (dropWhile (\<lambda>c. c \<noteq> CHR ''/'') (rev p)))"

definition copyPodPrefix :: string where "copyPodPrefix = ''copy-files''"
definition bootstrapConfPath :: string where "bootstrapConfPath = ''/etc/systemd/system/ocne.service.d/bootstrap.conf''"

definition startAdminPod :: "'s join_env \<Rightarrow> string \<Rightarrow> string \<Rightarrow> ('s, admin_event, KubectlConfig \<times> string) act" where
  "startAdminPod jn kubeConfigPath nodeName =
     (let ae = jn_ae jn
      in atry (DeleteAdminPod ae kubeConfigPath nodeName OCNENamespace copyPodPrefix) (\<lambda>_.
         abind (with_events (EvCluster kubeConfigPath) (CreateNamespaceIfNotExists (ae_ka ae kubeConfigPath) OCNENamespace)) (\<lambda>_.
         abind (StartAdminPodOnNode ae kubeConfigPath nodeName OCNENamespace copyPodPrefix False) (\<lambda>pod.
         abind (NewKubectlConfig ae kubeConfigPath OCNENamespace [] False) (\<lambda>kcConfig.
           aret (kcConfig, px_Name pod))))))"

definition deletePod :: "'s join_env \<Rightarrow> string \<Rightarrow> string \<Rightarrow> ('s, join_event, unit) act" where
  "deletePod jn kubeConfigPath podName =
     with_events (\<lambda>ev. EvAdmin (EvCluster kubeConfigPath ev)) (DeletePod (ae_ka (jn_ae jn) kubeConfigPath) OCNENamespace podName)"

definition copy_file :: "'s join_env \<Rightarrow> string \<Rightarrow> string \<Rightarrow> string \<Rightarrow> string \<Rightarrow> ('s, join_event, string) act" where
  "copy_file jn kubeConfigPath nodeName path tmpDir =
     abind (with_events EvAdmin (startAdminPod jn kubeConfigPath nodeName)) (\<lambda>(kc, podName).
       adefer
         (let localPath = tmpDir @ ''/'' @ path_base path;
              paths = [(''/hostroot'' @ path, localPath)]
          in abind (perform (EvCopyFromPod kubeConfigPath podName paths) (jn_CopyFilesFromPod jn kubeConfigPath podName paths)) (\<lambda>_.
             aret localPath))
         (deletePod jn kubeConfigPath podName))"

definition getFilesFromDestCluster :: "'s join_env \<Rightarrow> JoinOptions \<Rightarrow> string \<Rightarrow> ('s, join_event, string) act" where
  "getFilesFromDestCluster jn options tmpDir =
     (let dest = jo_DestKubeConfigPath options; ae = jn_ae jn
      in abind (ask (ae_GetKubeClient ae dest)) (\<lambda>_.
         abind (ask (GetControlPlaneNodes (ae_order ae) (ka_node (ae_ka ae dest)))) (\<lambda>nodes.
           case nodes of
             [] \<Rightarrow> afail ''Could not get control plane nodes from destination cluster''
           | node # _ \<Rightarrow> copy_file jn dest (kn_Name node) KeepAlivedConfigPath tmpDir)))"

definition getFilesFromMigratingNode :: "'s join_env \<Rightarrow> JoinOptions \<Rightarrow> string \<Rightarrow> ('s, join_event, string) act" where
  "getFilesFromMigratingNode jn options tmpDir =
     abind (ask (ae_GetKubeClient (jn_ae jn) (jo_KubeConfigPath options))) (\<lambda>_.
       copy_file jn (jo_KubeConfigPath options) (jo_Node options) bootstrapConfPath tmpDir)"

definition write_command :: "string \<Rightarrow> int \<Rightarrow> string \<Rightarrow> string" where
  \<open>write_command path mode data =
     (let remotePath = ''/hostroot'' @ path
      in ''mkdir -p '' @ path_dir remotePath @ '' && echo "'' @ b64_encode data @ ''" > /tmp/encoded && base64 -d /tmp/encoded > ''
         @ remotePath @ '' && chmod '' @ octal (nat mode) @ '' '' @ remotePath)\<close>

definition writeFileToNode :: "'s join_env \<Rightarrow> string \<Rightarrow> KubectlConfig \<Rightarrow> string \<Rightarrow> string \<Rightarrow> int \<Rightarrow> string \<Rightarrow> ('s, join_event, unit) act" where
  "writeFileToNode jn kubeConfigPath kc podName path mode data =
     with_events EvAdmin (RunCommand (jn_ae jn) kubeConfigPath kc podName [''sh'', ''-c'', write_command path mode data])"

text \<open>The configurations of keepalived and nginx are made in the cluster.  The drop-ins of the units that are made here all have contents.\<close>

definition seeded_file :: "File \<Rightarrow> bool" where
  "seeded_file f \<longleftrightarrow> \<not> (f_Path f = KeepAlivedConfigPath \<or> f_Path f = NginxConfigPath)"

definition unit_files :: "IgnUnit \<Rightarrow> (string \<times> int \<times> string) list" where
  "unit_files u =
     (let path = ''/etc/systemd/system/'' @ unit_Name u
      in (case unit_Contents u of Some c \<Rightarrow> if c \<noteq> [] then [(path, file_mode 7 5 5, c)] else [] | None \<Rightarrow> [])
         @ map (\<lambda>d. (path @ ''.d/'' @ drop_Name d, file_mode 6 4 4, case drop_Contents d of Some c \<Rightarrow> c | None \<Rightarrow> [])) (sl (unit_Dropins u)))"

definition enabled_services :: "IgnUnit list \<Rightarrow> string list" where
  "enabled_services us = map unit_Name (filter (\<lambda>u. unit_Enabled u = Some True) us)"

text \<open>The deferred deletion reads the name of the pod even when there is none.\<close>

definition copyHAFilesToNode ::
  "'s join_env \<Rightarrow> JoinOptions \<Rightarrow> u16 \<Rightarrow> u16 \<Rightarrow> string \<Rightarrow> string \<Rightarrow> ('s, join_event, string list outcome) act" where
  "copyHAFilesToNode jn options bindPort altPort virtualIP netInterface =
     (let kubeconfig = jo_KubeConfigPath options
      in abind (ask (ae_GetKubeClient (jn_ae jn) kubeconfig)) (\<lambda>_.
         atry (with_events EvAdmin (startAdminPod jn kubeconfig (jo_Node options))) (\<lambda>r. case r of
             Inl _ \<Rightarrow> aret Panics
           | Inr (kc, podName) \<Rightarrow>
               adefer
                 (let assets = GenerateAssetsForVirtualIp bindPort altPort virtualIP None netInterface;
                      write = (\<lambda>(path, mode, data). writeFileToNode jn kubeconfig kc podName path mode data)
                  in abind (afor (map (\<lambda>f. (f_Path f, f_Mode f, fc_Source (f_Contents f))) (filter seeded_file (igd_Files assets))) write) (\<lambda>_.
                     abind (afor (concat (map unit_files (igd_Units assets))) write) (\<lambda>_.
                       pret (enabled_services (igd_Units assets)))))
                 (deletePod jn kubeconfig podName))))"

section \<open>The configuration of the node\<close>

definition CreateUploadCertificateKey :: "'s join_env \<Rightarrow> 's \<Rightarrow> string result \<times> 's" where
  "CreateUploadCertificateKey jn s = (case jn_Rand jn 32 s of (r, s') \<Rightarrow> (rbind r (\<lambda>bytes. Inr (hex_encode bytes)), s'))"

text \<open>The port of one container's command: the first argument that sets it.\<close>

fun command_port :: "int \<Rightarrow> string list \<Rightarrow> int result" where
  "command_port port [] = Inr port"
| "command_port port (cmd # cmds) =
     (if has_prefix cmd ''--secure-port=''
      then (case atoi (go_split cmd ''='' ! 1) of
              None \<Rightarrow> Inl (''strconv.Atoi: parsing '' @ (go_split cmd ''='' ! 1))
            | Some p \<Rightarrow> Inr p)
      else command_port port cmds)"

fun listen_port :: "int \<Rightarrow> (string \<times> string list) list \<Rightarrow> int result" where
  "listen_port port [] = Inr port"
| "listen_port port ((name, cmds) # cs) =
     (if name = ''kube-apiserver'' then rbind (command_port port cmds) (\<lambda>p. listen_port p cs) else listen_port port cs)"

definition configureControlPlane :: "'s join_env \<Rightarrow> string \<Rightarrow> ClusterJoin \<Rightarrow> ('s, join_event, ClusterJoin) act" where
  "configureControlPlane jn kubeconfig cj =
     abind (ask (jn_ApiServerPods jn kubeconfig)) (\<lambda>pods.
       case pods of
         [] \<Rightarrow> afail ''Unable to fetch API server pods from destination cluster''
       | pod # _ \<Rightarrow>
           abind (alift (listen_port 0 pod)) (\<lambda>listenPort.
             if listenPort = 0 then afail ''Unable to find API server listen port''
             else abind (ask (CreateUploadCertificateKey jn)) (\<lambda>uploadCertificateKey.
                  abind (with_events EvAdmin (UploadCertificates (jn_ae jn) kubeconfig uploadCertificateKey)) (\<lambda>_.
                    aret (cj\<lparr>cj_Role := ControlPlaneRole, cj_UploadCertificateKey := uploadCertificateKey, cj_InternalLB := True,
                            cj_KubeAPIBindPortAlt := word_of_int listenPort\<rparr>)))))"

text \<open>Without a virtual IP there is nothing to do.\<close>

definition configureHA :: "'s join_env \<Rightarrow> JoinOptions \<Rightarrow> ClusterJoin \<Rightarrow> ('s, join_event, string list outcome) act" where
  "configureHA jn options cj =
     abind (perform EvMkTempDir (jn_CreateOcneTempDir jn ''files'')) (\<lambda>tmpDir.
       adefer
         (let vip = clu_VirtualIp (jo_ClusterConfig options)
          in abind (if vip \<noteq> [] then aret vip
                    else abind (getFilesFromDestCluster jn options tmpDir) (\<lambda>templateFile. ask (parseVirtualIP jn templateFile))) (\<lambda>vip.
               if vip = [] then pret []
               else let bindPort = clu_KubeAPIServerBindPort (jo_ClusterConfig options);
                        bindPortAlt = clu_KubeAPIServerBindPortAlt (jo_ClusterConfig options);
                        bindPort = (if bindPort = 0 then cj_KubeAPIBindPort cj else bindPort);
                        bindPortAlt = (if bindPortAlt = 0 then cj_KubeAPIBindPortAlt cj else bindPortAlt)
                    in abind (getFilesFromMigratingNode jn options tmpDir) (\<lambda>bootstrapConfFile.
                       abind (ask (parseNetworkInterface jn bootstrapConfFile)) (\<lambda>netInterface.
                         copyHAFilesToNode jn options bindPort bindPortAlt vip netInterface))))
         (perform (EvRemoveAll tmpDir) (jn_RemoveAll jn tmpDir)))"

section \<open>The move\<close>

definition updateNodeScript :: "string" where
  \<open>updateNodeScript = text_lines [
     ''#! /bin/bash'',
     ''set -e'',
     '''',
     ''chroot /hostroot mv /etc/kubernetes/kubeadm.conf /etc/kubernetes/kubeadm.conf.bak || true'',
     ''chroot /hostroot bash -c "echo '' @ [CHR 92] @ ''"$JOIN_CONFIG'' @ [CHR 92] @ ''" > /etc/kubernetes/kubeadm.conf"'',
     ''chroot /hostroot sed -i '/Environment=ACTION=/c'' @ [CHR 92] @ ''Environment=ACTION=join' /etc/systemd/system/ocne.service.d/bootstrap.conf'',
     ''chroot /hostroot systemctl daemon-reload'',
     ''chroot /hostroot chown keepalived_script:keepalived_script /etc/keepalived/keepalived.conf /etc/keepalived/log || true'',
     ''chroot /hostroot chown nginx_script:nginx_script /etc/ocne/nginx/nginx.conf || true'',
     ''chroot /hostroot systemctl restart ocne-nginx-refresh.service || true'',
     ''chroot /hostroot bash -c 'for svc in $ENABLE_SERVICES; do systemctl enable $svc --now; done'' @ [CHR 39],
     ''chroot /hostroot touch /etc/ocne/reset-kubeadm'',
     ''chroot /hostroot systemctl restart ocne'']\<close>

definition updateNode :: "'s join_env \<Rightarrow> string \<Rightarrow> string \<Rightarrow> string \<Rightarrow> string list \<Rightarrow> ('s, join_event, unit) act" where
  "updateNode jn kubeconfigPath node joinYaml enableServices =
     (let ae = jn_ae jn; ka = ae_ka ae kubeconfigPath
      in abind (with_events (\<lambda>ev. EvAdmin (EvCluster kubeconfigPath ev)) (CreateNamespaceIfNotExists ka OCNENamespace)) (\<lambda>_.
         abind (NewKubectlConfig ae kubeconfigPath OCNENamespace [] False) (\<lambda>_.
         abind (with_events (\<lambda>ev. EvAdmin (EvCluster kubeconfigPath ev)) (RunScript ka node OCNENamespace ''join-node'' updateNodeScript
             [(''JOIN_CONFIG'', joinYaml), (''ENABLE_SERVICES'', go_join enableServices '' '')])) (\<lambda>_.
           aret ()))))"

definition zero_ClusterJoin :: ClusterJoin where
  "zero_ClusterJoin = \<lparr>cj_Role = [], cj_OsTag = [], cj_OsRegistry = [], cj_ImageRegistry = [], cj_KubeAPIServerIP = [], cj_JoinToken = [],
     cj_KubePKICertHashes = [], cj_KubeAPIBindPort = 0, cj_KubeAPIBindPortAlt = 0, cj_InternalLB = False, cj_Proxy = zero_Proxy, cj_ProxyMode = [],
     cj_NetInterface = [], cj_UploadCertificateKey = [], cj_TLSCipherSuites = []\<rparr>"

text \<open>The endpoint is split at every colon, so it cannot be an IPv6 address; the port is cut to 16 bits.\<close>

definition endpoint_join :: "string \<Rightarrow> string \<Rightarrow> string list \<Rightarrow> ClusterJoin result" where
  "endpoint_join cpEndpoint token certHashes =
     (case go_split cpEndpoint '':'' of
        [host, p] \<Rightarrow>
          (case atoi p of
             None \<Rightarrow> Inl (''strconv.Atoi: parsing '' @ p)
           | Some port \<Rightarrow> Inr (zero_ClusterJoin\<lparr>cj_KubeAPIServerIP := host, cj_KubeAPIBindPort := word_of_int port, cj_JoinToken := token,
                 cj_KubePKICertHashes := certHashes\<rparr>))
      | _ \<Rightarrow> Inl (''Malformed control plane endpoint: '' @ cpEndpoint))"

definition joinNodeToCluster :: "'s join_env \<Rightarrow> JoinOptions \<Rightarrow> ('s, join_event, unit outcome) act" where
  "joinNodeToCluster jn options =
     (let ae = jn_ae jn; src = jo_KubeConfigPath options; dest = jo_DestKubeConfigPath options
      in abind (ask (ae_GetKubeClient ae src)) (\<lambda>_.
         abind (ask (na_GetNode (ka_node (ae_ka ae src)) (jo_Node options))) (\<lambda>_.
         abind (ask (ae_GetKubeClient ae dest)) (\<lambda>destHost.
         abind (GetControlPlaneEndpoint ae dest destHost) (\<lambda>cpEndpoint.
         abind (with_events EvAdmin (CreateJoin ae dest)) (\<lambda>(token, certHashes).
         abind (alift (endpoint_join cpEndpoint token certHashes)) (\<lambda>cj.
         pbind (if jo_RoleControlPlane options
                then abind (configureControlPlane jn dest cj) (\<lambda>cj.
                     pbind (configureHA jn options cj) (\<lambda>enableServices. pret (cj, enableServices)))
                else pret (cj, [])) (\<lambda>(cj, enableServices).
         abind (alift (GenerateKubeadmJoinYaml (jn_kl jn) cj)) (\<lambda>joinYaml.
         abind (updateNode jn src (jo_Node options) joinYaml enableServices) (\<lambda>_.
         atry (perform (EvDeleteNode src (jo_Node options)) (jn_DeleteNode jn src (jo_Node options))) (\<lambda>_.
           pret ())))))))))))"

definition Join :: "'s join_env \<Rightarrow> JoinOptions \<Rightarrow> ('s, join_event, unit outcome) act" where
  "Join jn options =
     (if jo_Node options \<noteq> [] \<and> jo_DestKubeConfigPath options \<noteq> [] then joinNodeToCluster jn options
      else abind (ask (CreateDriver (jn_drivers jn) (jo_Config options) (jo_ClusterConfig options))) (\<lambda>drv.
           abind (perform (EvDriverJoin (jo_KubeConfigPath options) (jo_ControlPlaneNodes options) (jo_WorkerNodes options))
                    (cd_Join drv (jo_KubeConfigPath options) (jo_ControlPlaneNodes options) (jo_WorkerNodes options))) (\<lambda>_.
             pret ())))"

section \<open>Reading what was written\<close>

lemma find_group_skip:
  assumes "\<not> sublist key l" and "CHR 10 \<notin> set key"
  shows "find_group key f (l @ CHR 10 # rest) = find_group key f rest"
  using assms(1)
proof (induction l)
  case Nil
  from Nil have "key \<noteq> []" by auto
  with assms(2) have "\<not> prefix key (CHR 10 # rest)" by (cases key) auto
  then show ?case by simp
next
  case (Cons c l)
  then have "\<not> prefix key (c # l)" "\<not> sublist key l" by (auto simp: sublist_Cons_right)
  have "\<not> prefix key ((c # l) @ CHR 10 # rest)"
  proof
    assume "prefix key ((c # l) @ CHR 10 # rest)"
    then consider "prefix key (c # l)" | us where "key = (c # l) @ us" "prefix us (CHR 10 # rest)" "us \<noteq> []"
      by (metis append_Nil2 prefix_append prefix_order.refl)
    then show False
    proof cases
      case 2
      then have "hd us = CHR 10" by (cases us) auto
      with 2 assms(2) show False by (cases us) auto
    qed (use \<open>\<not> prefix key (c # l)\<close> in blast)
  qed
  with Cons.IH [OF \<open>\<not> sublist key l\<close>] show ?case by simp
qed

lemma sublist_char: "sublist key l \<Longrightarrow> c \<in> set key \<Longrightarrow> c \<in> set l"
  by (auto simp: sublist_def)

lemma re_line_stop: "CHR 10 \<notin> set l \<Longrightarrow> re_line (l @ CHR 10 # rest) = l"
  by (induction l) auto

lemma re_group_line:
  "CHR 10 \<notin> set l \<Longrightarrow> stop (dropWhile re_blank (CHR 10 # rest)) \<Longrightarrow> re_group stop (l @ CHR 10 # rest) = Some l"
  by (simp add: re_group_def re_line_stop group_then.simps)

lemma find_group_lines:
  assumes "CHR 10 \<notin> set key"
  shows "\<forall>l \<in> set ls. \<exists>c \<in> set key. c \<notin> set l \<Longrightarrow> find_group key f (text_lines (ls @ rest)) = find_group key f (text_lines rest)"
proof (induction ls)
  case (Cons l ls)
  then have "\<not> sublist key l" using sublist_char by fastforce
  with Cons find_group_skip [OF this assms] show ?case by simp
qed simp

definition keepalived_head :: "string \<Rightarrow> string \<Rightarrow> string \<Rightarrow> string list" where
  \<open>keepalived_head iface priority peers =
    ['''', ''global_defs {'', ''  router_id LVS_DEVEL'', ''  enable_script_security'', ''}'', ''vrrp_script check_apiserver {'',
     ''  script "/etc/keepalived/check_apiserver.sh"'', ''  interval 5'',
     ''  weight 0 # 0 is needed for instance to transition in and out of FAULT state'', ''  fall 10'', ''  rise 2'', ''}'',
     ''vrrp_instance VI_1 {'', ''  state BACKUP'', ''  interface '' @ iface, ''  virtual_router_id 51'', ''  priority '' @ priority,
     ''  unicast_peer {'', peers, ''  }'']\<close>

definition keepalived_tail :: "string list" where
  "keepalived_tail = [''  track_script {'', ''    check_apiserver'', ''  }'', ''  notify /etc/keepalived/keepalived_state.sh'', ''}'']"

lemma keepalived_lines:
  "keepalived_text iface priority vip peers =
     text_lines (keepalived_head iface priority peers @ (''  virtual_ipaddress {'' # (''    '' @ vip) # ''  }'' # keepalived_tail))"
  by (simp add: keepalived_text_def keepalived_head_def keepalived_tail_def)

lemma re_group_stop: "prefix ''}'' rest \<Longrightarrow> CHR 10 \<notin> set vip \<Longrightarrow>
    re_group (\<lambda>rest. prefix ''}'' rest) (vip @ CHR 10 # ''  '' @ rest) = Some vip"
  by (rule re_group_line) (auto simp: re_blank_def prefix_def)

text \<open>In the configuration of keepalived, the address is what the search for it finds.\<close>

lemma virtual_ip_group:
  assumes "CHR 10 \<notin> set vip" and "vip = [] \<or> \<not> re_blank (hd vip)"
  shows "(\<lambda>s. blanks_group (\<lambda>rest. prefix ''}'' rest) (length (takeWhile re_blank s)) s)
     (CHR 10 # ''    '' @ vip @ CHR 10 # ''  }'' @ CHR 10 # ''  track_script {'' @ CHR 10 # rest) = Some vip"
proof (cases vip)
  case Nil
  have "re_group (\<lambda>rest. prefix ''}'' rest) (''}'' @ CHR 10 # ''  track_script {'' @ CHR 10 # rest) = Some []"
    by (simp add: re_group_def group_then.simps re_blank_def)
  with Nil show ?thesis by (simp add: re_blank_def blanks_group.simps)
next
  case (Cons c cs)
  with assms have c: "\<not> re_blank c" by simp
  with Cons re_group_stop [of "''}'' @ CHR 10 # ''  track_script {'' @ CHR 10 # rest" vip] assms(1) show ?thesis
    by (simp add: re_blank_def blanks_group.simps)
qed

lemma virtual_ip_found:
  assumes "CHR ''{'' \<notin> set iface" "CHR ''{'' \<notin> set priority" "CHR ''{'' \<notin> set peers"
    and "CHR 10 \<notin> set vip" and "vip = [] \<or> \<not> re_blank (hd vip)"
  shows "match_virtual_ip (keepalived_text iface priority vip peers) = Some vip"
proof -
  let ?key = "''virtual_ipaddress {''"
  have "\<forall>l \<in> set (keepalived_head iface priority peers). \<exists>c \<in> set ?key. c \<notin> set l"
  proof
    fix l assume "l \<in> set (keepalived_head iface priority peers)"
    then have "CHR ''{'' \<notin> set l \<or> CHR ''v'' \<notin> set l \<or> CHR ''u'' \<notin> set l" using assms(1-3) by (auto simp: keepalived_head_def)
    moreover have "CHR ''{'' \<in> set ?key" "CHR ''v'' \<in> set ?key" "CHR ''u'' \<in> set ?key" by simp_all
    ultimately show "\<exists>c \<in> set ?key. c \<notin> set l" by blast
  qed
  note cut = find_group_lines [OF _ this]
  have "match_virtual_ip (keepalived_text iface priority vip peers)
      = match_virtual_ip (text_lines (''  virtual_ipaddress {'' # (''    '' @ vip) # ''  }'' # keepalived_tail))"
    unfolding match_virtual_ip_def keepalived_lines by (rule cut) simp
  also have "\<dots> = Some vip"
    using virtual_ip_group [OF assms(4,5), of "text_lines (tl keepalived_tail)"]
    by (simp add: match_virtual_ip_def keepalived_tail_def)
  finally show ?thesis .
qed

text \<open>In the bootstrap configuration, the interface is.\<close>

lemma interface_found:
  assumes "CHR ''_'' \<notin> set action" and "CHR 10 \<notin> set iface"
  shows "match_interface (bootstrap_text action iface) = Some iface"
proof -
  let ?key = "''NET_INTERFACE=''"
  have boot: "bootstrap_text action iface = text_lines ([''[Service]'', ''Environment=ACTION='' @ action] @ [''Environment=NET_INTERFACE='' @ iface])"
    by (simp add: bootstrap_text_def)
  have "\<forall>l \<in> set [''[Service]'', ''Environment=ACTION='' @ action]. \<exists>c \<in> set ?key. c \<notin> set l"
    using assms(1) by simp
  from find_group_lines [OF _ this, of _ "[''Environment=NET_INTERFACE='' @ iface]"]
  have "match_interface (bootstrap_text action iface) = match_interface (text_lines [''Environment=NET_INTERFACE='' @ iface])"
    unfolding match_interface_def boot by simp
  also have "\<dots> = Some iface"
    using re_group_line [OF assms(2), of "\<lambda>rest. rest = []" "[]"] by (simp add: match_interface_def re_blank_def)
  finally show ?thesis .
qed

section \<open>What joining changes\<close>

text \<open>Everything before the script that resets the node: no script is run on any node, and no node is deleted.\<close>

fun quiet_kube :: "kube_event \<Rightarrow> bool" where
  "quiet_kube (EvExec _ _) = False"
| "quiet_kube _ = True"

fun quiet_admin :: "admin_event \<Rightarrow> bool" where
  "quiet_admin (EvCluster _ ev) = quiet_kube ev"
| "quiet_admin _ = True"

fun preparing :: "join_event \<Rightarrow> bool" where
  "preparing (EvAdmin ev) = quiet_admin ev"
| "preparing (EvDeleteNode _ _) = False"
| "preparing (EvDriverJoin _ _ _) = False"
| "preparing _ = True"

lemma quiet_kube_emits [emits_intro]: "emits quiet_kube m \<Longrightarrow> emits quiet_admin (with_events (EvCluster kc) m)"
  by (erule emits_with_events) simp

lemma quiet_admin_emits [emits_intro]: "emits quiet_admin m \<Longrightarrow> emits preparing (with_events EvAdmin m)"
  by (erule emits_with_events) simp

lemma quiet_UploadCertificates: "emits quiet_admin (UploadCertificates ae kc key)"
  by (rule emits_UploadCertificates) auto

lemma emits_startAdminPod: "emits quiet_admin (startAdminPod jn kc node)"
  unfolding startAdminPod_def Let_def DeleteAdminPod_def by (intro emits_intro quiet_kube_emits) simp_all

lemma emits_deletePod: "emits preparing (deletePod jn kc name)"
  unfolding deletePod_def by (rule emits_with_events [where P = quiet_kube]) (auto intro: emits_intro)

lemma emits_copy_file: "emits preparing (copy_file jn kc node path tmp)"
  unfolding copy_file_def Let_def by (intro emits_intro quiet_admin_emits emits_startAdminPod emits_deletePod) simp_all

lemma emits_configureControlPlane: "emits preparing (configureControlPlane jn kc cj)"
  unfolding configureControlPlane_def
  by (auto intro!: emits_intro quiet_admin_emits quiet_UploadCertificates split: list.splits)

lemma emits_copyHAFilesToNode: "emits preparing (copyHAFilesToNode jn opts bp ap vip iface)"
proof -
  have w: "emits preparing (writeFileToNode jn kc c pod path mode data)" for kc c pod path mode data
    unfolding writeFileToNode_def by (intro quiet_admin_emits emits_RunCommand) simp
  show ?thesis
    unfolding copyHAFilesToNode_def Let_def
    by (intro emits_intro quiet_admin_emits emits_startAdminPod emits_deletePod) (auto intro: w)
qed

lemma emits_configureHA: "emits preparing (configureHA jn opts cj)"
proof -
  have dest: "emits preparing (getFilesFromDestCluster jn opts tmp)" for tmp
    unfolding getFilesFromDestCluster_def Let_def by (auto intro!: emits_intro emits_copy_file split: list.splits)
  have mig: "emits preparing (getFilesFromMigratingNode jn opts tmp)" for tmp
    unfolding getFilesFromMigratingNode_def by (intro emits_intro emits_copy_file)
  show ?thesis
    unfolding configureHA_def Let_def by (intro emits_intro dest mig emits_copyHAFilesToNode) simp_all
qed

text \<open>The end: the script, and after it the deletion of the node.\<close>

definition moving :: "JoinOptions \<Rightarrow> join_event \<Rightarrow> bool" where
  "moving opts ev \<longleftrightarrow> (\<exists>k. ev = EvAdmin (EvCluster (jo_KubeConfigPath opts) k)
     \<and> (k = EvCreateNamespace OCNENamespace \<or> script_event (jo_Node opts) OCNENamespace ''join-node'' updateNodeScript k))"

definition script_ran :: "'s join_env \<Rightarrow> JoinOptions \<Rightarrow> bool" where
  "script_ran jn opts \<longleftrightarrow> (\<exists>t out t'. ka_RunInPod (ae_ka (jn_ae jn) (jo_KubeConfigPath opts)) (''join-node-'' @ jo_Node opts @ ''-pod'') updateNodeScript t = (Inr out, t'))"

definition move_end :: "'s join_env \<Rightarrow> JoinOptions \<Rightarrow> unit outcome result \<Rightarrow> join_event list \<Rightarrow> bool" where
  "move_end jn opts r evs \<longleftrightarrow>
     (if r = Inr (Returns ()) then \<exists>b. evs = b @ [EvDeleteNode (jo_KubeConfigPath opts) (jo_Node opts)] \<and> list_all (moving opts) b \<and> script_ran jn opts
      else list_all (moving opts) evs)"

lemma emits_updateNode: "emits (moving opts) (updateNode jn (jo_KubeConfigPath opts) (jo_Node opts) yaml svcs)"
proof -
  let ?P = "\<lambda>k. k = EvCreateNamespace OCNENamespace \<or> script_event (jo_Node opts) OCNENamespace ''join-node'' updateNodeScript k"
  have moves: "emits ?P m \<Longrightarrow> emits (moving opts) (with_events (\<lambda>ev. EvAdmin (EvCluster (jo_KubeConfigPath opts) ev)) m)"
    for m :: "('a, kube_event, 'c) act" by (erule emits_with_events) (auto simp: moving_def)
  show ?thesis
    unfolding updateNode_def Let_def
    by (intro emits_abind moves emits_NewKubectlConfig emits_aret) (auto intro: emits_intro)
qed

lemma with_events_result: "with_events f m (s, tr) = (r, s', tr') \<Longrightarrow> \<exists>evs. m (s, []) = (r, s', evs)"
  by (auto simp: with_events_def split: prod.splits)

lemma updateNode_ran:
  assumes "updateNode jn (jo_KubeConfigPath opts) (jo_Node opts) yaml svcs (s, tr) = (Inr u, s', tr')"
  shows "script_ran jn opts"
proof -
  let ?ka = "ae_ka (jn_ae jn) (jo_KubeConfigPath opts)"
  obtain out w w' where "RunScript ?ka (jo_Node opts) OCNENamespace ''join-node'' updateNodeScript
      [(''JOIN_CONFIG'', yaml), (''ENABLE_SERVICES'', go_join svcs '' '')] w = (Inr out, w')"
    using assms unfolding updateNode_def Let_def
    by (auto elim!: abind_cases dest!: with_events_result)
  from RunScript_ran [OF this] show ?thesis by (auto simp: script_ran_def)
qed

lemma move_phases: "in_phases preparing (move_end jn opts) (joinNodeToCluster jn opts)"
proof -
  have last: "in_phases preparing (move_end jn opts)
      (abind (updateNode jn (jo_KubeConfigPath opts) (jo_Node opts) yaml svcs) (\<lambda>_.
       atry (perform (EvDeleteNode (jo_KubeConfigPath opts) (jo_Node opts)) (jn_DeleteNode jn (jo_KubeConfigPath opts) (jo_Node opts))) (\<lambda>_. pret ())))"
    for yaml svcs
  proof (rule in_phases_last)
    fix s tr r s' tr'
    assume run: "abind (updateNode jn (jo_KubeConfigPath opts) (jo_Node opts) yaml svcs) (\<lambda>_.
       atry (perform (EvDeleteNode (jo_KubeConfigPath opts) (jo_Node opts)) (jn_DeleteNode jn (jo_KubeConfigPath opts) (jo_Node opts))) (\<lambda>_. pret ()))
       (s, tr) = (r, s', tr')"
    show "\<exists>b. tr' = tr @ b \<and> move_end jn opts r b"
      using run
    proof (cases rule: abind_cases)
      case (err e)
      with emitsD [OF emits_updateNode err(1)] show ?thesis by (auto simp: move_end_def)
    next
      case (ok u s1 tr1)
      obtain b where "tr1 = tr @ b" "list_all (moving opts) b" using emitsD [OF emits_updateNode ok(1)] by blast
      with ok(2) updateNode_ran [OF ok(1)] show ?thesis
        by (auto simp: move_end_def atry_def perform_def split: prod.splits)
    qed
  qed
  define ending_of where "ending_of yaml svcs = abind (updateNode jn (jo_KubeConfigPath opts) (jo_Node opts) yaml svcs) (\<lambda>_.
       atry (perform (EvDeleteNode (jo_KubeConfigPath opts) (jo_Node opts)) (jn_DeleteNode jn (jo_KubeConfigPath opts) (jo_Node opts))) (\<lambda>_. pret ()))"
    for yaml svcs
  have "in_phases preparing (move_end jn opts) (ending_of yaml svcs)" for yaml svcs using last by (simp add: ending_of_def)
  then show ?thesis
    unfolding joinNodeToCluster_def Let_def ending_of_def [symmetric]
    by (intro in_phases_abind in_phases_pbind in_phases_case_prod emits_intro emits_configureControlPlane emits_configureHA quiet_admin_emits)
      (auto simp: move_end_def)
qed

section \<open>An example\<close>

definition sample_joining :: "int join_env" where
  "sample_joining = \<lparr>jn_drivers = Map.empty, jn_ae = sample_admin, jn_kl = sample_kubeadm, jn_Rand = (\<lambda>n s. (Inr (replicate n CHR 7), s)),
     jn_ApiServerPods = (\<lambda>_ s. (Inr [[(''kube-apiserver'', [''kube-apiserver'', ''--secure-port=6444''])]], s)),
     jn_CreateOcneTempDir = (\<lambda>_ s. (Inr ''/tmp/f'', s)), jn_RemoveAll = (\<lambda>_ s. (Inr (), s)), jn_CopyFilesFromPod = (\<lambda>_ _ _ s. (Inr (), s)),
     jn_ReadFile = (\<lambda>p s. (Inr (if p = ''/tmp/f/keepalived.conf'' then generateKeepalivedConfig ''eth0'' ''50'' ''10.0.0.9'' []
        else bootstrap_text ''join'' ''eth0''), s)), jn_DeleteNode = (\<lambda>_ _ s. (Inl ''etcd has one member'', s))\<rparr>"

definition sample_move :: JoinOptions where
  "sample_move = \<lparr>jo_Config = zero_Config, jo_ClusterConfig = zero_ClusterConfig, jo_KubeConfigPath = ''/src'', jo_ControlPlaneNodes = 0,
     jo_WorkerNodes = 0, jo_Node = ''n1'', jo_DestKubeConfigPath = ''/dest'', jo_RoleControlPlane = False\<rparr>"

section \<open>Properties\<close>



text \<open>
  C31. What a move reads back: the virtual IP from a keepalived configuration that was made for it, and the network interface from
  the bootstrap configuration of a node.  (The address is one line that does not start blank, or missing.)
\<close>

theorem node_settings_read_back:
  assumes "CHR ''{'' \<notin> set iface" "CHR 10 \<notin> set iface" "CHR ''{'' \<notin> set priority" "CHR ''{'' \<notin> set peers"
    and "CHR 10 \<notin> set vip" and "vip = [] \<or> \<not> re_blank (hd vip)" and "CHR ''_'' \<notin> set action"
    and "jn_ReadFile jn p s = (Inr (generateKeepalivedConfig iface priority vip peers), s1)"
    and "jn_ReadFile jn q s = (Inr (bootstrap_text action iface), s2)"
  shows "parseVirtualIP jn p s = (Inr vip, s1) \<and> parseNetworkInterface jn q s = (Inr iface, s2)"
  using assms virtual_ip_found [of iface priority peers vip] interface_found [of action iface]
  by (simp add: parseVirtualIP_def parseNetworkInterface_def generateKeepalivedConfig_def)

theorem node_settings_read_back_witness:
  "parseVirtualIP sample_joining ''/tmp/f/keepalived.conf'' 0 = (Inr ''10.0.0.9'', 0)
   \<and> parseNetworkInterface sample_joining ''/tmp/f/bootstrap.conf'' 0 = (Inr ''eth0'', 0)"
  by (rule node_settings_read_back [where priority = "''50''" and peers = "[]" and action = "''join''"])
    (simp_all add: re_blank_def sample_joining_def)

text \<open>
  The command that writes a file on a node carries its contents in one word between double quotes: it has no character that the shell
  would look at, and it decodes to exactly the contents, whatever they are.
\<close>

theorem write_command_carries:
  \<open>\<exists>e pre post. write_command path mode data = pre @ ''echo "'' @ e @ ''" > /tmp/encoded && base64 -d /tmp/encoded > /hostroot'' @ path @ post
     \<and> b64_decode e = Some data \<and> set e \<inter> set shell_special = {}\<close>
proof (intro exI conjI)
  let ?dir = "''mkdir -p '' @ path_dir (''/hostroot'' @ path) @ '' && ''" and ?mode = "'' && chmod '' @ octal (nat mode) @ '' /hostroot'' @ path"
  show \<open>write_command path mode data = ?dir @ ''echo "'' @ b64_encode data @ ''" > /tmp/encoded && base64 -d /tmp/encoded > /hostroot'' @ path @ ?mode\<close>
    by (simp add: write_command_def Let_def)
qed (simp_all add: b64_roundtrip b64_no_special)

text \<open>
  The endpoints a node can join: a host and a port with one colon between them, so no IPv6 address; the port is any integer of Go and is kept
  modulo 65536.
\<close>

theorem endpoint_join_exact:
  "(is_ok (endpoint_join ep tok hashes) \<longleftrightarrow>
      (\<exists>host p n. ep = host @ CHR '':'' # p \<and> CHR '':'' \<notin> set host \<and> CHR '':'' \<notin> set p \<and> atoi p = Some n))
   \<and> (CHR '':'' \<notin> set host \<and> CHR '':'' \<notin> set p \<and> atoi p = Some n \<longrightarrow>
      endpoint_join (host @ CHR '':'' # p) tok hashes = Inr (zero_ClusterJoin\<lparr>cj_KubeAPIServerIP := host, cj_KubeAPIBindPort := word_of_int n,
        cj_JoinToken := tok, cj_KubePKICertHashes := hashes\<rparr>))"
proof (intro conjI impI)
  show "is_ok (endpoint_join ep tok hashes) \<longleftrightarrow>
      (\<exists>host p n. ep = host @ CHR '':'' # p \<and> CHR '':'' \<notin> set host \<and> CHR '':'' \<notin> set p \<and> atoi p = Some n)"
  proof
    assume "is_ok (endpoint_join ep tok hashes)"
    then obtain host p n where split: "go_split ep '':'' = [host, p]" and n: "atoi p = Some n"
      by (auto simp: endpoint_join_def is_ok_iff split: list.splits option.splits)
    from go_join_split [of "'':''" ep] split have "ep = host @ CHR '':'' # p" by simp
    moreover have "CHR '':'' \<notin> set host" "CHR '':'' \<notin> set p" using go_split_no_sep [of ep "CHR '':''"] split by simp_all
    ultimately show "\<exists>host p n. ep = host @ CHR '':'' # p \<and> CHR '':'' \<notin> set host \<and> CHR '':'' \<notin> set p \<and> atoi p = Some n" using n by blast
  next
    assume "\<exists>host p n. ep = host @ CHR '':'' # p \<and> CHR '':'' \<notin> set host \<and> CHR '':'' \<notin> set p \<and> atoi p = Some n"
    then show "is_ok (endpoint_join ep tok hashes)"
      by (auto simp: endpoint_join_def go_split_char_Cons go_split_char_simple is_ok_iff)
  qed
  show "endpoint_join (host @ CHR '':'' # p) tok hashes = Inr (zero_ClusterJoin\<lparr>cj_KubeAPIServerIP := host, cj_KubeAPIBindPort := word_of_int n,
        cj_JoinToken := tok, cj_KubePKICertHashes := hashes\<rparr>)"
    if "CHR '':'' \<notin> set host \<and> CHR '':'' \<notin> set p \<and> atoi p = Some n"
    using that by (simp add: endpoint_join_def go_split_char_Cons go_split_char_simple)
qed

theorem endpoint_join_exact_witness:
  "\<exists>cj. endpoint_join ''h:71979'' [] [] = Inr cj \<and> cj_KubeAPIBindPort cj = 6443"
proof -
  have "atoi ''71979'' = Some 71979" by (simp add: atoi_def is_digit_def digit_val_def nat_of_digits_def)
  then have "CHR '':'' \<notin> set ''h'' \<and> CHR '':'' \<notin> set ''71979'' \<and> atoi ''71979'' = Some 71979" by simp
  from conjunct2 [OF endpoint_join_exact, rule_format, OF this, of "[]" "[]"] have
    "endpoint_join ''h:71979'' [] [] = Inr (zero_ClusterJoin\<lparr>cj_KubeAPIServerIP := ''h'', cj_KubeAPIBindPort := word_of_int 71979, cj_JoinToken := [], cj_KubePKICertHashes := []\<rparr>)"
    by (simp only: append.simps)
  moreover have "(word_of_int 71979 :: u16) = 6443" by code_simp
  ultimately show ?thesis by simp
qed

end
