(* ===== verification/Driver_State.thy ===== *)
theory Driver_State
  imports Effects
begin

text \<open>
  Operations of a driver.  A driver is a value \<open>'d\<close> that its operations read and change, beside the world \<open>'s\<close>: an operation is an action on both.
  What runs on the world alone leaves the driver as it is.
\<close>

definition in_world :: "('e \<Rightarrow> 'f) \<Rightarrow> ('s, 'e, 'a) act \<Rightarrow> ('s \<times> 'd, 'f, 'a) act" where
  "in_world f m = (\<lambda>((s, d), tr). case m (s, []) of (r, s', evs) \<Rightarrow> (r, (s', d), tr @ map f evs))"

definition world :: "('s \<Rightarrow> 'a result \<times> 's) \<Rightarrow> ('s \<times> 'd, 'f, 'a) act" where
  "world q = (\<lambda>((s, d), tr). case q s of (r, s') \<Rightarrow> (r, (s', d), tr))"

definition changes :: "'f \<Rightarrow> ('s \<Rightarrow> 'a result \<times> 's) \<Rightarrow> ('s \<times> 'd, 'f, 'a) act" where
  "changes ev q = (\<lambda>((s, d), tr). case q s of (r, s') \<Rightarrow> (r, (s', d), tr @ [ev]))"

definition driver :: "('s \<times> 'd, 'f, 'd) act" where
  "driver = (\<lambda>((s, d), tr). (Inr d, (s, d), tr))"

definition set_driver :: "('d \<Rightarrow> 'd) \<Rightarrow> ('s \<times> 'd, 'f, unit) act" where
  "set_driver f = (\<lambda>((s, d), tr). (Inr (), (s, f d), tr))"

definition note_event :: "'f \<Rightarrow> ('s \<times> 'd, 'f, unit) act" where
  "note_event ev = perform ev (\<lambda>w. (Inr (), w))"

text \<open>A loop over a list whose body may panic.\<close>

primrec pfor :: "'b list \<Rightarrow> ('b \<Rightarrow> ('s, 'e, unit outcome) act) \<Rightarrow> ('s, 'e, unit outcome) act" where
  "pfor [] f = pret ()"
| "pfor (x # xs) f = pbind (f x) (\<lambda>_. pfor xs f)"

section \<open>Lemmas\<close>

lemma emits_pfor [emits_intro]: "(\<And>x. x \<in> set xs \<Longrightarrow> emits P (f x)) \<Longrightarrow> emits P (pfor xs f)"
  by (induction xs) (auto intro: emits_intro)

lemma emits_case_outcome [emits_intro]:
  "(x = Panics \<Longrightarrow> emits P m) \<Longrightarrow> (\<And>y. x = Returns y \<Longrightarrow> emits P (f y)) \<Longrightarrow>
     emits P (case x of Panics \<Rightarrow> m | Returns y \<Rightarrow> f y)"
  by (cases x) auto

lemma emits_case_list [emits_intro]:
  "(xs = [] \<Longrightarrow> emits P m) \<Longrightarrow> (\<And>y ys. xs = y # ys \<Longrightarrow> emits P (f y ys)) \<Longrightarrow>
     emits P (case xs of [] \<Rightarrow> m | y # ys \<Rightarrow> f y ys)"
  by (cases xs) auto

lemma in_world_run: "in_world f m ((s, d), tr) = (case m (s, []) of (r, s', evs) \<Rightarrow> (r, (s', d), tr @ map f evs))"
  by (simp add: in_world_def)

lemma world_run: "world q ((s, d), tr) = (case q s of (r, s') \<Rightarrow> (r, (s', d), tr))"
  by (simp add: world_def)

lemma changes_run: "changes ev q ((s, d), tr) = (case q s of (r, s') \<Rightarrow> (r, (s', d), tr @ [ev]))"
  by (simp add: changes_def)

lemma driver_run [simp]: "driver ((s, d), tr) = (Inr d, (s, d), tr)" by (simp add: driver_def)

lemma abind_driver: "abind driver f ((s, d), tr) = f d ((s, d), tr)" by (simp add: abind_def)

lemma set_driver_run [simp]: "set_driver f ((s, d), tr) = (Inr (), (s, f d), tr)" by (simp add: set_driver_def)

lemma note_event_run [simp]: "note_event ev (w, tr) = (Inr (), w, tr @ [ev])" by (simp add: note_event_def perform_def)

lemma emits_in_world [emits_intro]:
  assumes "emits P m" and "\<And>e. P e \<Longrightarrow> Q (f e)"
  shows "emits Q (in_world f m)"
proof (rule emitsI)
  fix w tr r w' tr'
  assume "in_world f m (w, tr) = (r, w', tr')"
  moreover obtain s d where "w = (s, d)" by (cases w)
  moreover obtain q s1 evs where m: "m (s, []) = (q, s1, evs)" by (metis prod.exhaust)
  moreover have "list_all P evs" using emitsD [OF assms(1) m] by auto
  ultimately show "\<exists>evs. tr' = tr @ evs \<and> list_all Q evs" using assms(2) by (auto simp: in_world_def list_all_iff)
qed

lemma emits_world [emits_intro]: "emits P (world q)"
  by (rule emitsI) (auto simp: world_def split: prod.splits)

lemma emits_changes [emits_intro]: "P ev \<Longrightarrow> emits P (changes ev q)"
  by (rule emitsI) (auto simp: changes_def split: prod.splits)

lemma emits_driver [emits_intro]: "emits P driver"
  by (rule emitsI) (auto simp: driver_def)

lemma emits_set_driver [emits_intro]: "emits P (set_driver f)"
  by (rule emitsI) (auto simp: set_driver_def)

lemma emits_note_event [emits_intro]: "P ev \<Longrightarrow> emits P (note_event ev)"
  unfolding note_event_def by (rule emits_perform)

lemma in_world_emits: "(\<And>e. Q (f e)) \<Longrightarrow> emits Q (in_world f m)"
  by (rule emitsI) (auto simp: in_world_def list_all_iff split: prod.splits)

section \<open>The order of effects\<close>

text \<open>
  \<open>traces L m\<close>: the effects that a run of \<open>m\<close> adds, in their order, are a list of \<open>L\<close>.  A sequence adds those of its first part alone, if
  that fails, or those of both.
\<close>

definition traces :: "'e list set \<Rightarrow> ('s, 'e, 'a) act \<Rightarrow> bool" where
  "traces L m \<longleftrightarrow> (\<forall>s tr r s' tr'. m (s, tr) = (r, s', tr') \<longrightarrow> (\<exists>evs \<in> L. tr' = tr @ evs))"

lemma tracesI: "(\<And>s tr r s' tr'. m (s, tr) = (r, s', tr') \<Longrightarrow> \<exists>evs \<in> L. tr' = tr @ evs) \<Longrightarrow> traces L m"
  unfolding traces_def by blast

lemma tracesD: "traces L m \<Longrightarrow> m (s, tr) = (r, s', tr') \<Longrightarrow> \<exists>evs \<in> L. tr' = tr @ evs"
  unfolding traces_def by blast

lemma traces_mono: "traces L m \<Longrightarrow> L \<subseteq> M \<Longrightarrow> traces M m"
  unfolding traces_def by blast

lemma emits_traces: "emits P m \<longleftrightarrow> traces {evs. list_all P evs} m"
  unfolding emits_def traces_def by blast

lemma traces_silent: "emits (\<lambda>_. False) m \<Longrightarrow> traces {[]} m"
  unfolding emits_traces by (erule traces_mono) (auto simp: list_all_iff)

lemma traces_atry:
  assumes "traces A m" and "\<And>r. traces B (f r)" and "\<And>a b. a \<in> A \<Longrightarrow> b \<in> B \<Longrightarrow> a @ b \<in> L"
  shows "traces L (atry m f)"
proof (rule tracesI)
  fix s tr r s' tr'
  assume run: "atry m f (s, tr) = (r, s', tr')"
  obtain q s1 tr1 where m: "m (s, tr) = (q, s1, tr1)" by (metis prod.exhaust)
  with run have "f q (s1, tr1) = (r, s', tr')" by (simp add: atry_def)
  from tracesD [OF assms(2) this] tracesD [OF assms(1) m] assms(3) show "\<exists>evs \<in> L. tr' = tr @ evs" by (metis append.assoc)
qed

lemma traces_abind:
  assumes "traces A m" and "\<And>x. traces B (f x)" and "\<And>a. a \<in> A \<Longrightarrow> a \<in> L" and "\<And>a b. a \<in> A \<Longrightarrow> b \<in> B \<Longrightarrow> a @ b \<in> L"
  shows "traces L (abind m f)"
proof (rule tracesI)
  fix s tr r s' tr'
  assume run: "abind m f (s, tr) = (r, s', tr')"
  obtain q s1 tr1 where m: "m (s, tr) = (q, s1, tr1)" by (metis prod.exhaust)
  obtain a where a: "a \<in> A" "tr1 = tr @ a" using tracesD [OF assms(1) m] by blast
  show "\<exists>evs \<in> L. tr' = tr @ evs"
  proof (cases q)
    case (Inl e)
    with run m a assms(3) show ?thesis by (auto simp: abind_def)
  next
    case (Inr x)
    with run m have "f x (s1, tr1) = (r, s', tr')" by (simp add: abind_def)
    from tracesD [OF assms(2) this] a assms(4) show ?thesis by (metis append.assoc)
  qed
qed

lemma traces_pbind:
  assumes "traces A m" and "\<And>x. traces B (f x)" and "\<And>a. a \<in> A \<Longrightarrow> a \<in> L" and "\<And>a b. a \<in> A \<Longrightarrow> b \<in> B \<Longrightarrow> a @ b \<in> L"
  shows "traces L (pbind m f)"
proof (rule tracesI)
  fix s tr r s' tr'
  assume run: "pbind m f (s, tr) = (r, s', tr')"
  obtain q s1 tr1 where m: "m (s, tr) = (q, s1, tr1)" by (metis prod.exhaust)
  obtain a where a: "a \<in> A" "tr1 = tr @ a" using tracesD [OF assms(1) m] by blast
  consider (go) x where "q = Inr (Returns x)" | (stop) "tr' = tr1" using run m
    by (cases q; cases "projr q") (auto simp: pbind_run split: outcome.splits)
  then show "\<exists>evs \<in> L. tr' = tr @ evs"
  proof cases
    case go
    with run m have "f x (s1, tr1) = (r, s', tr')" by (simp add: pbind_run)
    from tracesD [OF assms(2) this] a assms(4) show ?thesis by (metis append.assoc)
  next
    case stop
    with a assms(3) show ?thesis by blast
  qed
qed

text \<open>A part without effects.\<close>

lemma traces_after:
  assumes "emits (\<lambda>_. False) m" and "\<And>x. traces L (f x)" and "[] \<in> L"
  shows "traces L (abind m f)"
  by (rule traces_abind [OF traces_silent [OF assms(1)] assms(2)]) (use assms(3) in auto)

lemma traces_pafter:
  assumes "emits (\<lambda>_. False) m" and "\<And>x. traces L (f x)" and "[] \<in> L"
  shows "traces L (pbind m f)"
  by (rule traces_pbind [OF traces_silent [OF assms(1)] assms(2)]) (use assms(3) in auto)

lemma traces_nothing: "[] \<in> L \<Longrightarrow> traces L (aret x)" "[] \<in> L \<Longrightarrow> traces L (afail e)" "[] \<in> L \<Longrightarrow> traces L (pret y)"
  by (auto intro!: tracesI simp: pret_def aret_def afail_def)

lemma traces_in_world: "(\<And>evs. map f evs \<in> L) \<Longrightarrow> traces L (in_world f m)"
  by (rule tracesI) (auto simp: in_world_def split: prod.splits)

lemma abind_abind: "abind (abind m f) g = abind m (\<lambda>x. abind (f x) g)"
  by (rule ext) (simp add: abind_def split: prod.splits sum.splits)

lemma pbind_abind: "pbind (abind m f) g = abind m (\<lambda>x. pbind (f x) g)"
  unfolding pbind_def by (rule abind_abind)

lemma traces_in_world_mono:
  assumes "traces A m" and "\<And>a. a \<in> A \<Longrightarrow> map f a \<in> L"
  shows "traces L (in_world f m)"
proof (rule tracesI)
  fix w tr r w' tr'
  assume run: "in_world f m (w, tr) = (r, w', tr')"
  obtain s d where w: "w = (s, d)" by (cases w)
  obtain q s1 evs where m: "m (s, []) = (q, s1, evs)" by (metis prod.exhaust)
  from tracesD [OF assms(1) m] have "evs \<in> A" by simp
  with run w m assms(2) show "\<exists>evs \<in> L. tr' = tr @ evs" by (auto simp: in_world_def)
qed

lemma traces_note:
  assumes "\<And>x. traces A (g x)" and "\<And>a. a \<in> A \<Longrightarrow> ev # a \<in> L"
  shows "traces L (abind (note_event ev) g)"
proof (rule tracesI)
  fix w tr r w' tr'
  assume "abind (note_event ev) g (w, tr) = (r, w', tr')"
  then have "g () (w, tr @ [ev]) = (r, w', tr')" by (simp add: abind_def)
  from tracesD [OF assms(1) this] assms(2) show "\<exists>evs \<in> L. tr' = tr @ evs" by fastforce
qed

lemma traces_set_driver: "(\<And>x. traces L (g x)) \<Longrightarrow> [] \<in> L \<Longrightarrow> traces L (abind (set_driver f) g)"
  by (rule traces_after) (rule emits_set_driver)

lemma in_range_map: "\<forall>e \<in> set evs. e \<in> range f \<Longrightarrow> evs \<in> range (map f)"
  by (metis UNIV_I ex_map_conv image_eqI image_iff)

lemma emits_map: "(\<And>e. P e \<Longrightarrow> e \<in> range f) \<Longrightarrow> emits P m \<Longrightarrow> traces (range (map f)) m"
  unfolding emits_traces by (erule traces_mono) (auto simp: list_all_iff intro!: in_range_map)

end
