(* ===== verification/Certificates.thy ===== *)
theory Certificates
  imports Kube_Api Base64 Kubeadm_Config
begin

text \<open>
  The certificates of a cluster (\<^verbatim>\<open>pkg/certificate\<close>) and the kubeconfigs that are made with them (\<^verbatim>\<open>pkg/cluster/kubepki\<close>).
  The crypto library is \<open>crypto_env\<close>: making keys and certificates and writing them as PEM.  Times are counted in nanoseconds, with the
  library's calendar for adding years.
\<close>

section \<open>Data\<close>

record CertOptions =
  co_Country :: string
  co_Org :: string
  co_OrgUnit :: string
  co_State :: string

text \<open>An address that did not parse is \<open>None\<close>, Go's nil.\<close>

record CertConfig =
  cf_DNSNames :: "string list"
  cf_IPAddresses :: "string option list"
  cf_CommonName :: string
  cf_Options :: CertOptions
  cf_NotBefore :: int
  cf_NotAfter :: int

text \<open>The request for a certificate, as it is given to the library.\<close>

record CertRequest =
  cr_DNSNames :: "string list"
  cr_IPAddresses :: "string option list"
  cr_SerialNumber :: nat
  cr_CommonName :: string
  cr_Country :: "string list"
  cr_Province :: "string list"
  cr_Organization :: "string list"
  cr_NotBefore :: int
  cr_NotAfter :: int
  cr_IsCA :: bool
  cr_KeyUsage :: "string list"
  cr_ExtKeyUsage :: "string list"
  cr_BasicConstraintsValid :: bool

record ('k, 'x) CertResult =
  cres_PrivateKey :: 'k
  cres_PrivateKeyPEM :: string
  cres_Cert :: 'x
  cres_CertPEM :: string

record ('k, 'x) CertPairWithPem =
  cpp_CertChainPEM :: string
  cpp_LeafCertResult :: "('k, 'x) CertResult"
  cpp_RootCertResult :: "('k, 'x) CertResult"

record CertLocation =
  loc_Directory :: string
  loc_RootCertFilename :: string
  loc_RootPrivateKeyFilename :: string
  loc_LeafCertFilename :: string
  loc_LeafPrivateKeyFilename :: string

record ('s, 'k, 'x) crypto_env =
  cy_Now :: "'s \<Rightarrow> int"
  cy_AddYears :: "int \<Rightarrow> nat \<Rightarrow> int"
  cy_SerialNumber :: "'s \<Rightarrow> nat result \<times> 's"
  cy_GenerateKey :: "'s \<Rightarrow> 'k result \<times> 's"
  cy_MarshalKey :: "'k \<Rightarrow> string"
  cy_Request :: "CertRequest \<Rightarrow> 'x"
  cy_CreateCertificate :: "CertRequest \<Rightarrow> 'x \<Rightarrow> 'k \<Rightarrow> 'k \<Rightarrow> 's \<Rightarrow> string result \<times> 's"
  cy_ParseCertificate :: "string \<Rightarrow> 'x result"
  cy_PemEncode :: "string \<Rightarrow> string \<Rightarrow> string"
  cy_ParseIP :: "string \<Rightarrow> string option"
  cy_FirstIp :: "string \<Rightarrow> string result"
  cy_IsIPv4 :: "string \<Rightarrow> bool"
  cy_IsIPv6 :: "string \<Rightarrow> bool"
  cy_Abs :: "string \<Rightarrow> string result"
  cy_MkTempDir :: "string \<Rightarrow> 's \<Rightarrow> string result \<times> 's"
  cy_MkdirAll :: "string \<Rightarrow> 's \<Rightarrow> unit result \<times> 's"
  cy_WriteFile :: "string \<Rightarrow> string \<Rightarrow> int \<Rightarrow> 's \<Rightarrow> unit result \<times> 's"

datatype pki_event = EvTempDir string | EvMkdirAll string | EvWrite string string int

section \<open>Making certificates\<close>

text \<open>The new certificate is read again, so that it has the fields that were made for it; the root signs itself.\<close>

definition createCert ::
  "('s, 'k, 'x) crypto_env \<Rightarrow> CertRequest \<Rightarrow> 'x \<Rightarrow> 'k option \<Rightarrow> ('s, 'e, ('k, 'x) CertResult) act" where
  "createCert cy certRequest parentCert parentPrivKey =
     abind (ask (cy_GenerateKey cy)) (\<lambda>privKey.
       let signer = (case parentPrivKey of None \<Rightarrow> privKey | Some k \<Rightarrow> k);
           privKeyPEM = cy_PemEncode cy ''RSA PRIVATE KEY'' (cy_MarshalKey cy privKey)
       in abind (ask (cy_CreateCertificate cy certRequest parentCert privKey signer)) (\<lambda>certBytes.
          let certPEM = cy_PemEncode cy ''CERTIFICATE'' certBytes
          in abind (alift (cy_ParseCertificate cy certBytes)) (\<lambda>newCert.
             aret \<lparr>cres_PrivateKey = privKey, cres_PrivateKeyPEM = privKeyPEM, cres_Cert = newCert, cres_CertPEM = certPEM\<rparr>)))"

definition root_request :: "CertConfig \<Rightarrow> nat \<Rightarrow> CertRequest" where
  "root_request config serialNumber = \<lparr>cr_DNSNames = [], cr_IPAddresses = [], cr_SerialNumber = serialNumber, cr_CommonName = cf_CommonName config,
     cr_Country = [co_Country (cf_Options config)], cr_Province = [co_State (cf_Options config)], cr_Organization = [co_Org (cf_Options config)],
     cr_NotBefore = cf_NotBefore config, cr_NotAfter = cf_NotAfter config, cr_IsCA = True, cr_KeyUsage = [], cr_ExtKeyUsage = [],
     cr_BasicConstraintsValid = True\<rparr>"

definition createRootCert :: "('s, 'k, 'x) crypto_env \<Rightarrow> CertConfig \<Rightarrow> ('s, 'e, ('k, 'x) CertResult) act" where
  "createRootCert cy config =
     abind (ask (cy_SerialNumber cy)) (\<lambda>serialNumber.
       let certRequest = root_request config serialNumber in createCert cy certRequest (cy_Request cy certRequest) None)"

definition leaf_request :: "CertConfig \<Rightarrow> nat \<Rightarrow> CertRequest" where
  "leaf_request config serialNumber = (root_request config serialNumber)\<lparr>cr_DNSNames := cf_DNSNames config, cr_IPAddresses := cf_IPAddresses config,
     cr_IsCA := False, cr_KeyUsage := [''KeyEncipherment'', ''DataEncipherment'', ''DigitalSignature''],
     cr_ExtKeyUsage := [''ClientAuth'', ''ServerAuth'']\<rparr>"

definition createLeafCert ::
  "('s, 'k, 'x) crypto_env \<Rightarrow> CertConfig \<Rightarrow> ('k, 'x) CertResult \<Rightarrow> ('s, 'e, ('k, 'x) CertResult) act" where
  "createLeafCert cy config rootResult =
     abind (ask (cy_SerialNumber cy)) (\<lambda>serialNumber.
       createCert cy (leaf_request config serialNumber) (cres_Cert rootResult) (Some (cres_PrivateKey rootResult)))"

definition createCACertAndLeafCert ::
  "('s, 'k, 'x) crypto_env \<Rightarrow> CertConfig \<Rightarrow> CertConfig \<Rightarrow> ('s, 'e, ('k, 'x) CertPairWithPem) act" where
  "createCACertAndLeafCert cy rootConfig leafConfig =
     abind (createRootCert cy rootConfig) (\<lambda>rResult.
     abind (createLeafCert cy leafConfig rResult) (\<lambda>iResult.
       aret \<lparr>cpp_CertChainPEM = cres_CertPEM iResult @ cres_CertPEM rResult, cpp_LeafCertResult = iResult, cpp_RootCertResult = rResult\<rparr>))"

definition write_file :: "('s, 'k, 'x) crypto_env \<Rightarrow> string \<Rightarrow> string \<Rightarrow> int \<Rightarrow> ('s, pki_event, unit) act" where
  "write_file cy path contents mode = perform (EvWrite path contents mode) (cy_WriteFile cy path contents mode)"

definition public_mode :: int where "public_mode = 6 * 64 + 4 * 8 + 4"

definition writeCertPair :: "('s, 'k, 'x) crypto_env \<Rightarrow> ('k, 'x) CertPairWithPem \<Rightarrow> CertLocation \<Rightarrow> ('s, pki_event, unit) act" where
  "writeCertPair cy pair loc =
     abind (alift (cy_Abs cy (loc_Directory loc))) (\<lambda>dir.
       afor [(loc_RootCertFilename loc, cres_CertPEM (cpp_RootCertResult pair)),
             (loc_RootPrivateKeyFilename loc, cres_PrivateKeyPEM (cpp_RootCertResult pair)),
             (loc_LeafCertFilename loc, cres_CertPEM (cpp_LeafCertResult pair)),
             (loc_LeafPrivateKeyFilename loc, cres_PrivateKeyPEM (cpp_LeafCertResult pair))]
         (\<lambda>(name, pem). write_file cy (dir @ ''/'' @ name) pem public_mode))"

section \<open>The certificates of Kubernetes\<close>

fun service_ips :: "('s, 'k, 'x) crypto_env \<Rightarrow> string list \<Rightarrow> string option list result" where
  "service_ips cy [] = Inr []"
| "service_ips cy (sip # sips) =
     rbind (cy_FirstIp cy sip) (\<lambda>serviceIP. rbind (service_ips cy sips) (\<lambda>ips. Inr (cy_ParseIP cy serviceIP # ips)))"

definition kube_root_config :: "('s, 'k, 'x) crypto_env \<Rightarrow> string \<Rightarrow> CertOptions \<Rightarrow> int \<Rightarrow> CertConfig" where
  "kube_root_config cy kubeApiServerIP options now = \<lparr>cf_DNSNames = [], cf_IPAddresses = [], cf_CommonName = kubeApiServerIP, cf_Options = options,
     cf_NotBefore = now, cf_NotAfter = cy_AddYears cy now 20\<rparr>"

definition kube_leaf_config :: "('s, 'k, 'x) crypto_env \<Rightarrow> string \<Rightarrow> string option list \<Rightarrow> CertOptions \<Rightarrow> int \<Rightarrow> CertConfig" where
  "kube_leaf_config cy kubeApiServerIP serviceIPs options now = \<lparr>
     cf_DNSNames = [''kubernetes'', ''kubernetes.default'', ''kubernetes.default.svc'', ''kubernetes.default.svc.cluster'',
       ''kubernetes.default.svc.cluster.local''],
     cf_IPAddresses = serviceIPs @ map (cy_ParseIP cy) [kubeApiServerIP, ''127.0.0.1''],
     cf_CommonName = ''admin'', cf_Options = options\<lparr>co_Org := ''system:masters''\<rparr>, cf_NotBefore = now, cf_NotAfter = cy_AddYears cy now 1\<rparr>"

text \<open>The looks at the clock that follow one another are one.\<close>

definition createKubernetesCerts ::
  "('s, 'k, 'x) crypto_env \<Rightarrow> string \<Rightarrow> string list \<Rightarrow> CertOptions \<Rightarrow> ('s, 'e, ('k, 'x) CertPairWithPem) act" where
  "createKubernetesCerts cy kubeApiServerIP serviceSubnets options =
     abind (ask (\<lambda>s. (Inr (cy_Now cy s), s))) (\<lambda>now.
     abind (alift (service_ips cy serviceSubnets)) (\<lambda>serviceIPs.
       createCACertAndLeafCert cy (kube_root_config cy kubeApiServerIP options now) (kube_leaf_config cy kubeApiServerIP serviceIPs options now)))"

definition CreateAndPersistKubernetesCerts ::
  "('s, 'k, 'x) crypto_env \<Rightarrow> string \<Rightarrow> string list \<Rightarrow> string \<Rightarrow> CertOptions \<Rightarrow> ('s, pki_event, ('k, 'x) CertPairWithPem) act" where
  "CreateAndPersistKubernetesCerts cy kubeApiServerIP serviceSubnets outdir options =
     abind (createKubernetesCerts cy kubeApiServerIP serviceSubnets options) (\<lambda>pair.
     abind (writeCertPair cy pair \<lparr>loc_Directory = outdir, loc_RootCertFilename = ''ca.crt'', loc_RootPrivateKeyFilename = ''ca.key'',
              loc_LeafCertFilename = ''admin.crt'', loc_LeafPrivateKeyFilename = ''admin.key''\<rparr>) (\<lambda>_.
       aret pair))"

text \<open>The certificates of the UI.\<close>

definition headlamp_config :: "('s, 'k, 'x) crypto_env \<Rightarrow> string \<Rightarrow> int \<Rightarrow> CertConfig" where
  "headlamp_config cy name now = \<lparr>cf_DNSNames = [], cf_IPAddresses = [], cf_CommonName = name,
     cf_Options = \<lparr>co_Country = ''US'', co_Org = ''Oracle Cloud Native Environment'', co_OrgUnit = ''Oracle Cloud Native Environment'', co_State = ''TX''\<rparr>,
     cf_NotBefore = now, cf_NotAfter = cy_AddYears cy now 10\<rparr>"

definition CreateHeadlampCerts :: "('s, 'k, 'x) crypto_env \<Rightarrow> string \<Rightarrow> ('s, 'e, ('k, 'x) CertPairWithPem) act" where
  "CreateHeadlampCerts cy uiHost =
     abind (ask (\<lambda>s. (Inr (cy_Now cy s), s))) (\<lambda>now.
       createCACertAndLeafCert cy (headlamp_config cy uiHost now) (headlamp_config cy ''Oracle Cloud Native Environment UI'' now))"

section \<open>Kubeconfigs\<close>

record PKIInfo =
  pki_CACertPath :: string
  pki_CAKeyPath :: string
  pki_CertsDir :: string

record KubeconfigRequest =
  kr_Path :: string
  kr_Host :: string
  kr_Port :: u16
  kr_ServiceSubnets :: "string list"

definition kubeconfig_text :: "string \<Rightarrow> string \<Rightarrow> string \<Rightarrow> string \<Rightarrow> string" where
  "kubeconfig_text rootCACert serverURL clientCert clientKey = concat (map (\<lambda>l. CHR 10 # l) [
     ''apiVersion: v1'',
     ''clusters:'',
     ''- cluster:'',
     ''    certificate-authority-data: '' @ rootCACert,
     ''    server: '' @ serverURL,
     ''  name: kubernetes'',
     ''contexts:'',
     ''- context:'',
     ''    cluster: kubernetes'',
     ''    user: kubernetes-admin'',
     ''  name: kubernetes-admin@kubernetes'',
     ''current-context: kubernetes-admin@kubernetes'',
     ''kind: Config'',
     ''preferences: {}'',
     ''users:'',
     ''- name: kubernetes-admin'',
     ''  user:'',
     ''    client-certificate-data: '' @ clientCert,
     ''    client-key-data: '' @ clientKey]) @ [CHR 10]"

definition server_url :: "('s, 'k, 'x) crypto_env \<Rightarrow> string \<Rightarrow> u16 \<Rightarrow> string" where
  "server_url cy addr port =
     ''https://'' @ (if cy_IsIPv4 cy addr then addr else if cy_IsIPv6 cy addr then ''['' @ addr @ '']'' else addr) @ '':'' @ format_nat (unat port)"

definition kubeconfig_of :: "('s, 'k, 'x) crypto_env \<Rightarrow> string \<Rightarrow> u16 \<Rightarrow> ('k, 'x) CertPairWithPem \<Rightarrow> string" where
  "kubeconfig_of cy kubeAPIServerIP port pair =
     kubeconfig_text (b64_encode (cres_CertPEM (cpp_RootCertResult pair))) (server_url cy kubeAPIServerIP port)
       (b64_encode (cres_CertPEM (cpp_LeafCertResult pair))) (b64_encode (cres_PrivateKeyPEM (cpp_LeafCertResult pair)))"

text \<open>The directory of a clean path below the root.\<close>

definition parent_dir :: "string \<Rightarrow> string" where
  "parent_dir p = rev (drop 1 (dropWhile (\<lambda>c. c \<noteq> CHR ''/'') (rev p)))"

definition generateKubeconfig ::
  "('s, 'k, 'x) crypto_env \<Rightarrow> string \<Rightarrow> string \<Rightarrow> u16 \<Rightarrow> ('k, 'x) CertPairWithPem \<Rightarrow> ('s, pki_event, unit) act" where
  "generateKubeconfig cy kubeConfigPath kubeAPIServerIP port pair =
     abind (perform (EvMkdirAll (parent_dir kubeConfigPath)) (cy_MkdirAll cy (parent_dir kubeConfigPath))) (\<lambda>_.
       write_file cy kubeConfigPath (kubeconfig_of cy kubeAPIServerIP port pair) public_mode)"

definition GeneratePKI ::
  "('s, 'k, 'x) crypto_env \<Rightarrow> CertOptions \<Rightarrow> KubeconfigRequest \<Rightarrow> KubeconfigRequest list \<Rightarrow> ('s, pki_event, PKIInfo) act" where
  "GeneratePKI cy options canonKr krs =
     abind (perform (EvTempDir ''bootstrap_certs'') (cy_MkTempDir cy ''bootstrap_certs'')) (\<lambda>bootstrapDirectory.
     abind (CreateAndPersistKubernetesCerts cy (kr_Host canonKr) (kr_ServiceSubnets canonKr) bootstrapDirectory options) (\<lambda>certPair.
     abind (afor (canonKr # krs) (\<lambda>kr. generateKubeconfig cy (kr_Path kr) (kr_Host kr) (kr_Port kr) certPair)) (\<lambda>_.
       aret \<lparr>pki_CACertPath = bootstrapDirectory @ ''/ca.crt'', pki_CAKeyPath = bootstrapDirectory @ ''/ca.key'',
              pki_CertsDir = bootstrapDirectory\<rparr>)))"

section \<open>Lemmas\<close>

lemma afor_ok_trace:
  assumes "\<And>x s tr s' tr'. f x (s, tr) = (Inr (), s', tr') \<Longrightarrow> tr' = tr @ evs x"
  shows "afor xs f (s, tr) = (Inr (), s', tr') \<Longrightarrow> tr' = tr @ concat (map evs xs)"
proof (induction xs arbitrary: s tr)
  case (Cons x xs)
  obtain r s1 tr1 where x: "f x (s, tr) = (r, s1, tr1)" by (metis prod.exhaust)
  with Cons.prems obtain u where r: "r = Inr u" and rest: "afor xs f (s1, tr1) = (Inr (), s', tr')"
    by (auto simp: abind_def split: sum.splits)
  with x assms Cons.IH [OF rest] show ?case by auto
qed simp

lemma generateKubeconfig_trace:
  "generateKubeconfig cy path host port pair (s, tr) = (Inr (), s', tr') \<Longrightarrow>
     tr' = tr @ [EvMkdirAll (parent_dir path), EvWrite path (kubeconfig_of cy host port pair) public_mode]"
  by (auto simp: generateKubeconfig_def write_file_def abind_def perform_def split: prod.splits sum.splits)

text \<open>The key of a pair signs both of its certificates, and the texts are those of the certificates.\<close>

definition signed_by :: "('s, 'k, 'x) crypto_env \<Rightarrow> CertRequest \<Rightarrow> 'x \<Rightarrow> 'k \<Rightarrow> ('k, 'x) CertResult \<Rightarrow> bool" where
  "signed_by cy req parent signer c \<longleftrightarrow>
     (\<exists>s bytes s'. cy_CreateCertificate cy req parent (cres_PrivateKey c) signer s = (Inr bytes, s') \<and> cy_ParseCertificate cy bytes = Inr (cres_Cert c)
        \<and> cres_CertPEM c = cy_PemEncode cy ''CERTIFICATE'' bytes
        \<and> cres_PrivateKeyPEM c = cy_PemEncode cy ''RSA PRIVATE KEY'' (cy_MarshalKey cy (cres_PrivateKey c)))"

definition issued :: "('s, 'k, 'x) crypto_env \<Rightarrow> CertConfig \<Rightarrow> CertConfig \<Rightarrow> ('k, 'x) CertPairWithPem \<Rightarrow> bool" where
  "issued cy rootConfig leafConfig pair \<longleftrightarrow>
     (let root = cpp_RootCertResult pair; leaf = cpp_LeafCertResult pair
      in (\<exists>n. signed_by cy (root_request rootConfig n) (cy_Request cy (root_request rootConfig n)) (cres_PrivateKey root) root)
         \<and> (\<exists>n. signed_by cy (leaf_request leafConfig n) (cres_Cert root) (cres_PrivateKey root) leaf)
         \<and> cpp_CertChainPEM pair = cres_CertPEM leaf @ cres_CertPEM root)"

lemma createCert_result:
  assumes "createCert cy req parent key (s, tr) = (Inr c, s', tr')"
  shows "tr' = tr \<and> signed_by cy req parent (case key of None \<Rightarrow> cres_PrivateKey c | Some k \<Rightarrow> k) c"
proof -
  obtain k s1 bytes x where "cy_CreateCertificate cy req parent k (case key of None \<Rightarrow> k | Some k \<Rightarrow> k) s1 = (Inr bytes, s')"
    "cy_ParseCertificate cy bytes = Inr x" "tr' = tr"
    "c = \<lparr>cres_PrivateKey = k, cres_PrivateKeyPEM = cy_PemEncode cy ''RSA PRIVATE KEY'' (cy_MarshalKey cy k), cres_Cert = x,
            cres_CertPEM = cy_PemEncode cy ''CERTIFICATE'' bytes\<rparr>"
    using assms by (auto simp: createCert_def abind_def ask_def Let_def split: prod.splits sum.splits)
  then show ?thesis unfolding signed_by_def by (cases key) (simp_all, blast+)
qed

lemma createCACertAndLeafCert_result:
  assumes "createCACertAndLeafCert cy rc lc (s, tr) = (Inr pair, s', tr')"
  shows "tr' = tr \<and> issued cy rc lc pair"
  using assms
  by (auto simp: createCACertAndLeafCert_def createRootCert_def createLeafCert_def abind_def ask_def Let_def issued_def
      split: prod.splits sum.splits dest!: createCert_result)

lemma GeneratePKI_last:
  assumes "GeneratePKI cy options kr [] (s, tr) = (Inr info, s', tr')"
  shows "\<exists>t c. cy_WriteFile cy (kr_Path kr) c public_mode t = (Inr (), s')"
proof -
  obtain pair s1 tr1 where "generateKubeconfig cy (kr_Path kr) (kr_Host kr) (kr_Port kr) pair (s1, tr1) = (Inr (), s', tr')"
    using assms unfolding GeneratePKI_def by (auto elim!: abind_cases)
  then show ?thesis
    by (auto simp: generateKubeconfig_def write_file_def perform_def split: prod.splits elim!: abind_cases) blast
qed

section \<open>An example\<close>

text \<open>A crypto library whose keys are numbers and whose certificates say who signed them.\<close>

definition sample_crypto :: "(int, nat, string) crypto_env" where
  "sample_crypto = \<lparr>cy_Now = id, cy_AddYears = (\<lambda>t n. t + int n), cy_SerialNumber = (\<lambda>s. (Inr (nat s), s)), cy_GenerateKey = (\<lambda>s. (Inr (nat s), s)),
     cy_MarshalKey = format_nat, cy_Request = cr_CommonName, cy_CreateCertificate = (\<lambda>req parent k signer s. (Inr (parent @ format_nat signer), s)),
     cy_ParseCertificate = Inr, cy_PemEncode = (\<lambda>t b. b), cy_ParseIP = Some, cy_FirstIp = Inr, cy_IsIPv4 = (\<lambda>_. True), cy_IsIPv6 = (\<lambda>_. False),
     cy_Abs = Inr, cy_MkTempDir = (\<lambda>_ s. (Inr ''/tmp/b'', s)), cy_MkdirAll = (\<lambda>_ s. (Inr (), s)), cy_WriteFile = (\<lambda>_ _ _ s. (Inr (), max 1 s))\<rparr>"

definition sample_request :: KubeconfigRequest where
  "sample_request = \<lparr>kr_Path = ''/h/.kube/config'', kr_Host = ''10.0.0.9'', kr_Port = 6443, kr_ServiceSubnets = [''10.96.0.1'']\<rparr>"

lemma sample_service_ips: "\<exists>ips. service_ips sample_crypto subnets = Inr ips"
  by (induction subnets) (auto simp: sample_crypto_def)

lemma sample_PKI:
  "\<exists>info s' tr'. GeneratePKI sample_crypto options kr [] (s, tr) = (Inr info, s', tr')"
  using sample_service_ips [of "kr_ServiceSubnets kr"]
  by (auto simp add: GeneratePKI_def CreateAndPersistKubernetesCerts_def createKubernetesCerts_def createCACertAndLeafCert_def createRootCert_def
      createLeafCert_def createCert_def writeCertPair_def write_file_def generateKubeconfig_def abind_def ask_def perform_def Let_def
      sample_crypto_def)

section \<open>Properties\<close>

text \<open>
  C32. What a new PKI is made of.  When it succeeds, it made one directory and wrote exactly the four files of the certificates into it and
  one kubeconfig for each request, all from one pair of certificates: a root that signs itself, and a leaf for the group
  \<open>system:masters\<close> that the root's key signs.
\<close>

theorem GeneratePKI_contents:
  assumes "GeneratePKI cy options canonKr krs (s, tr) = (Inr info, s', tr')"
  shows "\<exists>pair ips now abs. issued cy (kube_root_config cy (kr_Host canonKr) options now) (kube_leaf_config cy (kr_Host canonKr) ips options now) pair
    \<and> service_ips cy (kr_ServiceSubnets canonKr) = Inr ips \<and> cy_Abs cy (pki_CertsDir info) = Inr abs
    \<and> tr' = tr @ EvTempDir ''bootstrap_certs'' #
        [EvWrite (abs @ ''/ca.crt'') (cres_CertPEM (cpp_RootCertResult pair)) public_mode,
         EvWrite (abs @ ''/ca.key'') (cres_PrivateKeyPEM (cpp_RootCertResult pair)) public_mode,
         EvWrite (abs @ ''/admin.crt'') (cres_CertPEM (cpp_LeafCertResult pair)) public_mode,
         EvWrite (abs @ ''/admin.key'') (cres_PrivateKeyPEM (cpp_LeafCertResult pair)) public_mode]
        @ concat (map (\<lambda>kr. [EvMkdirAll (parent_dir (kr_Path kr)), EvWrite (kr_Path kr) (kubeconfig_of cy (kr_Host kr) (kr_Port kr) pair) public_mode])
            (canonKr # krs))"
proof -
  let ?kube = "\<lambda>pair kr. generateKubeconfig cy (kr_Path kr) (kr_Host kr) (kr_Port kr) pair"
  obtain dir s1 pair s2 tr2 where dir: "cy_MkTempDir cy ''bootstrap_certs'' s = (Inr dir, s1)" "pki_CertsDir info = dir"
    and certs: "CreateAndPersistKubernetesCerts cy (kr_Host canonKr) (kr_ServiceSubnets canonKr) dir options (s1, tr @ [EvTempDir ''bootstrap_certs'']) = (Inr pair, s2, tr2)"
    and kubes: "afor (canonKr # krs) (?kube pair) (s2, tr2) = (Inr (), s', tr')"
    using assms unfolding GeneratePKI_def by (auto elim!: abind_cases simp: perform_def split: prod.splits simp del: afor.simps)
  obtain s3 tr3 where pair: "createKubernetesCerts cy (kr_Host canonKr) (kr_ServiceSubnets canonKr) options (s1, tr @ [EvTempDir ''bootstrap_certs'']) = (Inr pair, s3, tr3)"
    and written: "writeCertPair cy pair \<lparr>loc_Directory = dir, loc_RootCertFilename = ''ca.crt'', loc_RootPrivateKeyFilename = ''ca.key'',
       loc_LeafCertFilename = ''admin.crt'', loc_LeafPrivateKeyFilename = ''admin.key''\<rparr> (s3, tr3) = (Inr (), s2, tr2)"
    using certs unfolding CreateAndPersistKubernetesCerts_def by (auto elim!: abind_cases)
  obtain ips now where "issued cy (kube_root_config cy (kr_Host canonKr) options now) (kube_leaf_config cy (kr_Host canonKr) ips options now) pair"
    and tr3: "tr3 = tr @ [EvTempDir ''bootstrap_certs'']" and "service_ips cy (kr_ServiceSubnets canonKr) = Inr ips"
    using pair unfolding createKubernetesCerts_def
    by (auto elim!: abind_cases simp: alift_def dest!: createCACertAndLeafCert_result ask_trace split: sum.splits)
  moreover obtain abs where "cy_Abs cy dir = Inr abs"
    and "tr2 = tr3 @ [EvWrite (abs @ ''/ca.crt'') (cres_CertPEM (cpp_RootCertResult pair)) public_mode,
         EvWrite (abs @ ''/ca.key'') (cres_PrivateKeyPEM (cpp_RootCertResult pair)) public_mode,
         EvWrite (abs @ ''/admin.crt'') (cres_CertPEM (cpp_LeafCertResult pair)) public_mode,
         EvWrite (abs @ ''/admin.key'') (cres_PrivateKeyPEM (cpp_LeafCertResult pair)) public_mode]"
    using written unfolding writeCertPair_def write_file_def
    by (auto elim!: abind_cases dest!: perform_trace)
  moreover have "tr' = tr2 @ concat (map (\<lambda>kr. [EvMkdirAll (parent_dir (kr_Path kr)),
      EvWrite (kr_Path kr) (kubeconfig_of cy (kr_Host kr) (kr_Port kr) pair) public_mode]) (canonKr # krs))"
    using kubes by (rule afor_ok_trace [rotated]) (rule generateKubeconfig_trace)
  ultimately show ?thesis using dir(2) tr3 by auto
qed

theorem GeneratePKI_contents_witness:
  "\<exists>info s' tr' pair ips now. GeneratePKI sample_crypto (\<lparr>co_Country = [], co_Org = [], co_OrgUnit = [], co_State = []\<rparr>) sample_request [] (0, [])
       = (Inr info, s', tr')
     \<and> issued sample_crypto (kube_root_config sample_crypto (kr_Host sample_request) (\<lparr>co_Country = [], co_Org = [], co_OrgUnit = [], co_State = []\<rparr>) now)
         (kube_leaf_config sample_crypto (kr_Host sample_request) ips (\<lparr>co_Country = [], co_Org = [], co_OrgUnit = [], co_State = []\<rparr>) now) pair
     \<and> length tr' = 7"
proof -
  let ?o = "\<lparr>co_Country = [], co_Org = [], co_OrgUnit = [], co_State = []\<rparr>"
  obtain info s' tr' where run: "GeneratePKI sample_crypto ?o sample_request [] (0, []) = (Inr info, s', tr')" using sample_PKI by blast
  from GeneratePKI_contents [OF run] run show ?thesis by fastforce
qed

end
