(* ===== verification/None_Byo_Drivers.thy ===== *)
theory None_Byo_Drivers
  imports Driver_State Certificates Admin_Pods Ignition_Library Cluster_Start
begin

text \<open>
  Two provider drivers: the one for clusters that exist already (\<^verbatim>\<open>pkg/cluster/driver/none\<close>) and the one that only prints the ignition
  configurations of nodes that somebody else boots (\<^verbatim>\<open>pkg/cluster/driver/byo\<close>).

  A driver is a value that its operations change; they run on the world together with the driver.  \<open>byo_env\<close> is what the second driver needs
  of the outside.
\<close>

section \<open>Host and port\<close>

text \<open>Go's \<^verbatim>\<open>net.SplitHostPort\<close>; the error is the reason in its text.\<close>

fun last_colon :: "string \<Rightarrow> nat option" where
  "last_colon [] = None"
| "last_colon (c # cs) = (case last_colon cs of Some i \<Rightarrow> Some (Suc i) | None \<Rightarrow> if c = CHR '':'' then Some 0 else None)"

definition missing_port :: string where "missing_port = ''missing port in address''"

definition SplitHostPort :: "string \<Rightarrow> (string \<times> string) result" where
  "SplitHostPort hostport =
     (case last_colon hostport of
        None \<Rightarrow> Inl missing_port
      | Some i \<Rightarrow>
          if hd hostport = CHR ''['' then
            (case index_of (CHR '']'') hostport of
               None \<Rightarrow> Inl ''missing ']' in address''
             | Some end' \<Rightarrow>
                 if end' + 1 = length hostport then Inl missing_port
                 else if end' + 1 \<noteq> i then (if hostport ! (end' + 1) = CHR '':'' then Inl ''too many colons in address'' else Inl missing_port)
                 else if CHR ''['' \<in> set (drop 1 hostport) then Inl ''unexpected '[' in address''
                 else if CHR '']'' \<in> set (drop (end' + 1) hostport) then Inl ''unexpected ']' in address''
                 else Inr (take (end' - 1) (drop 1 hostport), drop (i + 1) hostport))
          else if CHR '':'' \<in> set (take i hostport) then Inl ''too many colons in address''
          else if CHR ''['' \<in> set hostport then Inl ''unexpected '[' in address''
          else if CHR '']'' \<in> set hostport then Inl ''unexpected ']' in address''
          else Inr (take i hostport, drop (i + 1) hostport))"

section \<open>No provider\<close>

record NoneDriver =
  nd_KubeConfig :: string
  nd_KubeAPIServerIP :: string

definition server_ip :: "kubeadm_lib \<Rightarrow> string \<Rightarrow> string result" where
  "server_ip kl controlPlaneEndpoint =
     (case SplitHostPort controlPlaneEndpoint of
        Inl err \<Rightarrow> (if \<not> go_contains (''address '' @ controlPlaneEndpoint @ '': '' @ err) missing_port
                     then Inl (''address '' @ controlPlaneEndpoint @ '': '' @ err) else Inr controlPlaneEndpoint)
      | Inr (kubeAPIServerIP, _) \<Rightarrow> Inr (GetURIAddress kl kubeAPIServerIP))"

definition none_NewDriver :: "'s admin_env \<Rightarrow> kubeadm_lib \<Rightarrow> Config \<Rightarrow> ClusterConfig \<Rightarrow> ('s, 'e, NoneDriver) act" where
  "none_NewDriver ae kl config clusterConfig =
     (if clu_Provider clusterConfig = ProviderTypeNone \<and> cfg_KubeConfig config = []
      then afail ''When the none provider is used, an existing kubeconfig file must be specified''
      else abind (ask (ae_GetKubeClient ae (cfg_KubeConfig config))) (\<lambda>restHost.
           abind (GetControlPlaneEndpoint ae (cfg_KubeConfig config) restHost) (\<lambda>controlPlaneEndpoint.
           abind (alift (server_ip kl controlPlaneEndpoint)) (\<lambda>kubeAPIServerIP.
             aret \<lparr>nd_KubeConfig = cfg_KubeConfig config, nd_KubeAPIServerIP = kubeAPIServerIP\<rparr>))))"

definition none_driver :: "NoneDriver \<Rightarrow> 's cluster_driver" where
  "none_driver nd = \<lparr>cd_Start = (\<lambda>s. (Inr (True, False), s)), cd_PostStart = (\<lambda>s. (Inr (), s)), cd_Stop = (\<lambda>s. (Inr (), s)),
     cd_Join = (\<lambda>_ _ _ s. (Inr (), s)), cd_Delete = (\<lambda>s. (Inr (), s)), cd_Close = (\<lambda>s. (Inr (), s)),
     cd_GetKubeconfigPath = (\<lambda>_. nd_KubeConfig nd), cd_GetKubeAPIServerAddress = (\<lambda>_. nd_KubeAPIServerIP nd),
     cd_DefaultCNIInterfaces = (\<lambda>_. [[]]), cd_Stage = (\<lambda>_ s. (Inr ([], [], True), s))\<rparr>"

definition none_CreateDriver :: "'s admin_env \<Rightarrow> kubeadm_lib \<Rightarrow> 's driver_create" where
  "none_CreateDriver ae kl config clusterConfig s =
     (case (none_NewDriver ae kl config clusterConfig :: ('s, unit, NoneDriver) act) (s, []) of
        (Inl err, s', _) \<Rightarrow> (Inl err, s')
      | (Inr nd, s', _) \<Rightarrow> (Inr (none_driver nd), s'))"

section \<open>Bring your own\<close>

record ByoDriver =
  bd_Name :: string
  bd_Config :: ClusterConfig
  bd_KubeconfigPath :: string
  bd_PKIInfo :: "PKIInfo option"
  bd_UploadCertificateKey :: string

datatype byo_event =
    EvPki pki_event
  | EvByoAdmin admin_event
  | EvInstall kube_event
  | EvPrintln string
  | EvStderr string
  | EvRemove string
  | EvRemoveCerts string

datatype remove_error = NotThere | CannotRemove gerror

record ('s, 'c, 'k, 'x) byo_env =
  by_UserHomeDir :: "'s \<Rightarrow> string result \<times> 's"
  by_Rand :: "nat \<Rightarrow> 's \<Rightarrow> string result \<times> 's"
  by_ReadFile :: "string \<Rightarrow> 's \<Rightarrow> string result \<times> 's"
  by_Stat :: "string \<Rightarrow> 's \<Rightarrow> unit result \<times> 's"
  by_IsTTY :: "'s \<Rightarrow> bool result \<times> 's"
  by_Scanln :: "'s \<Rightarrow> string \<times> 's"
  by_Remove :: "string \<Rightarrow> 's \<Rightarrow> (remove_error + unit) \<times> 's"
  by_RemoveAll :: "string \<Rightarrow> 's \<Rightarrow> unit result \<times> 's"
  by_AbsJoin :: "string \<Rightarrow> string \<Rightarrow> string result"
  by_KeyFile :: "string \<Rightarrow> string result"
  by_fs :: file_system
  by_ip :: ign_parsers
  by_mk :: data_url
  by_lib :: image_lib
  by_kl :: kubeadm_lib
  by_Marshal :: "IgnConfig \<Rightarrow> string result"
  by_ae :: "'s admin_env"
  by_cy :: "('s, 'k, 'x) crypto_env"
  by_ka :: "'s kube_api"
  by_ha :: "('s, 'c) helm_api"

definition GetKubeconfigPath :: "('s, 'c, 'k, 'x) byo_env \<Rightarrow> string \<Rightarrow> 's \<Rightarrow> string result \<times> 's" where
  "GetKubeconfigPath by filename s = (case by_UserHomeDir by s of (r, s') \<Rightarrow> (rbind r (\<lambda>home. Inr (home @ ''/.kube/'' @ filename)), s'))"

definition byo_NewDriver :: "('s, 'c, 'k, 'x) byo_env \<Rightarrow> ClusterConfig \<Rightarrow> 's \<Rightarrow> ByoDriver result \<times> 's" where
  "byo_NewDriver by clusterConfig s =
     (case GetKubeconfigPath by (''kubeconfig.'' @ clu_Name clusterConfig) s of
        (Inl err, s1) \<Rightarrow> (Inl err, s1)
      | (Inr kubeconfigPath, s1) \<Rightarrow>
          (case by_Rand by 32 s1 of
             (Inl err, s2) \<Rightarrow> (Inl err, s2)
           | (Inr bytes, s2) \<Rightarrow>
               (Inr \<lparr>bd_Name = clu_Name clusterConfig, bd_Config = clusterConfig, bd_KubeconfigPath = kubeconfigPath, bd_PKIInfo = None,
                     bd_UploadCertificateKey = hex_encode bytes\<rparr>, s2)))"

definition getKubeAPIServerIP :: "ByoDriver \<Rightarrow> string" where
  "getKubeAPIServerIP bd = (if clu_VirtualIp (bd_Config bd) \<noteq> [] then clu_VirtualIp (bd_Config bd) else clu_LoadBalancer (bd_Config bd))"

definition validateClusterConfig :: "ByoDriver \<Rightarrow> unit result" where
  "validateClusterConfig bd =
     (if clu_VirtualIp (bd_Config bd) = [] \<and> clu_LoadBalancer (bd_Config bd) = [] then Inl ''A virtual IP or load balancer is required''
      else if clu_VirtualIp (bd_Config bd) \<noteq> [] \<and> clu_LoadBalancer (bd_Config bd) \<noteq> []
      then Inl ''Can not specify both virtual IP and load balancer'' else Inr ())"

definition byo_init :: "ByoDriver \<Rightarrow> string \<Rightarrow> string \<Rightarrow> ClusterInit" where
  "byo_init bd caCert caKey =
     (let c = bd_Config bd
      in \<lparr>ci_OsTag = clu_OsTag c, ci_OsRegistry = clu_OsRegistry c, ci_ImageRegistry = clu_Registry c, ci_KubeAPIServerIP = getKubeAPIServerIP bd,
          ci_KubeAPIBindPort = clu_KubeAPIServerBindPort c, ci_KubeAPIBindPortAlt = clu_KubeAPIServerBindPortAlt c,
          ci_InternalLB = clu_VirtualIp c \<noteq> [], ci_Proxy = clu_Proxy c, ci_KubeAPIExtraSans = [], ci_KubePKICert = caCert, ci_KubePKIKey = caKey,
          ci_ServiceSubnet = clu_ServiceSubnet c, ci_PodSubnet = clu_PodSubnet c, ci_ExpectingWorkerNodes = clu_WorkerNodes c > 0,
          ci_ProxyMode = clu_KubeProxyMode c, ci_NetInterface = byo_NetworkInterface (prv_Byo (clu_Providers c)),
          ci_UploadCertificateKey = bd_UploadCertificateKey bd, ci_KubeVersion = clu_KubeVersion c, ci_TLSCipherSuites = clu_CipherSuites c\<rparr>)"

definition byo_join :: "ByoDriver \<Rightarrow> string \<Rightarrow> string \<Rightarrow> string list \<Rightarrow> ClusterJoin" where
  "byo_join bd role joinToken caCertHashes =
     (let c = bd_Config bd
      in \<lparr>cj_Role = role, cj_OsTag = clu_OsTag c, cj_OsRegistry = clu_OsRegistry c, cj_ImageRegistry = clu_Registry c,
          cj_KubeAPIServerIP = getKubeAPIServerIP bd, cj_JoinToken = joinToken, cj_KubePKICertHashes = caCertHashes,
          cj_KubeAPIBindPort = clu_KubeAPIServerBindPort c, cj_KubeAPIBindPortAlt = clu_KubeAPIServerBindPortAlt c,
          cj_InternalLB = clu_VirtualIp c \<noteq> [], cj_Proxy = clu_Proxy c, cj_ProxyMode = clu_KubeProxyMode c,
          cj_NetInterface = byo_NetworkInterface (prv_Byo (clu_Providers c)), cj_UploadCertificateKey = bd_UploadCertificateKey bd,
          cj_TLSCipherSuites = clu_CipherSuites c\<rparr>)"

text \<open>What is merged into the configuration of a node: proxies, the user, and what the cluster's configuration adds.\<close>

definition merge_extras :: "('s, 'c, 'k, 'x) byo_env \<Rightarrow> ByoDriver \<Rightarrow> IgnConfig \<Rightarrow> IgnConfig result" where
  "merge_extras by bd ign =
     (let c = bd_Config bd; ei = clu_ExtraIgnition c
      in rbind (proxy_ignition (clu_Proxy c) [getKubeAPIServerIP bd, clu_ServiceSubnet c, clu_PodSubnet c]) (\<lambda>proxy.
         rbind (OcneUser (by_KeyFile by) (clu_SshPublicKey c) (clu_SshPublicKeyPath c) (clu_Password c)) (\<lambda>usrIgn.
         let ign = Merge (Merge ign proxy) usrIgn
         in rbind (if ei = [] then Inr ign
                   else rbind (if has_prefix ei ''/'' then Inr ei else by_AbsJoin by (clu_WorkingDirectory c) ei) (\<lambda>path.
                        rbind (FromPath (by_fs by) (by_ip by) path) (\<lambda>fromExtra. Inr (Merge ign fromExtra)))) (\<lambda>ign.
            if clu_ExtraIgnitionInline c = [] then Inr ign
            else rbind (FromString (by_ip by) (clu_ExtraIgnitionInline c)) (\<lambda>fromExtra. Inr (Merge ign fromExtra))))))"

definition ignitionForNode ::
  "('s, 'c, 'k, 'x) byo_env \<Rightarrow> string \<Rightarrow> bool \<Rightarrow> string \<Rightarrow> string list \<Rightarrow> ('s \<times> ByoDriver, byo_event, string outcome) act" where
  "ignitionForNode by role join joinToken caCertHashes =
     abind driver (\<lambda>bd.
       if byo_NetworkInterface (prv_Byo (clu_Providers (bd_Config bd))) = [] then afail ''A network interface must be provided''
       else abind (if join then aret (JoinCluster (by_mk by) (by_lib by) (by_kl by) (byo_join bd role joinToken caCertHashes))
                   else case bd_PKIInfo bd of
                          None \<Rightarrow> aret Panics
                        | Some pki \<Rightarrow>
                            abind (world (by_ReadFile by (pki_CACertPath pki))) (\<lambda>caCert.
                            abind (world (by_ReadFile by (pki_CAKeyPath pki))) (\<lambda>caKey.
                              aret (InitializeCluster (by_mk by) (by_lib by) (by_kl by) (byo_init bd caCert caKey))))) (\<lambda>ign.
              panic_or ign (\<lambda>ign.
                abind (alift (rbind (merge_extras by bd ign) (by_Marshal by))) pret)))"

definition byo_request :: "ByoDriver \<Rightarrow> KubeconfigRequest" where
  "byo_request bd = \<lparr>kr_Path = bd_KubeconfigPath bd, kr_Host = getKubeAPIServerIP bd, kr_Port = 6443,
     kr_ServiceSubnets = go_split (clu_ServiceSubnet (bd_Config bd)) '',''\<rparr>"

definition byo_cert_options :: "ByoDriver \<Rightarrow> CertOptions" where
  "byo_cert_options bd =
     (let i = clu_CertificateInformation (bd_Config bd)
      in \<lparr>co_Country = ci_Country i, co_Org = ci_Org i, co_OrgUnit = ci_OrgUnit i, co_State = ci_State i\<rparr>)"

text \<open>The hashes are not needed to initialize a cluster, and whether they can be read is not looked at.\<close>

definition clusterInit :: "('s, 'c, 'k, 'x) byo_env \<Rightarrow> ('s \<times> ByoDriver, byo_event, string outcome) act" where
  "clusterInit by =
     abind driver (\<lambda>bd.
     abind (in_world EvPki (GeneratePKI (by_cy by) (byo_cert_options bd) (byo_request bd) [])) (\<lambda>pkiInfo.
     abind (set_driver (\<lambda>bd. bd\<lparr>bd_PKIInfo := Some pkiInfo\<rparr>)) (\<lambda>_.
     atry (world (ae_CertHashes (by_ae by) (bd_KubeconfigPath bd))) (\<lambda>r.
       ignitionForNode by ControlPlaneRole False [] (case r of Inr hashes \<Rightarrow> hashes | Inl _ \<Rightarrow> [])))))"

definition byo_Start :: "('s, 'c, 'k, 'x) byo_env \<Rightarrow> ('s \<times> ByoDriver, byo_event, (bool \<times> bool) outcome) act" where
  "byo_Start by =
     abind driver (\<lambda>bd.
     atry (world (by_Stat by (bd_KubeconfigPath bd))) (\<lambda>there. case there of
         Inr _ \<Rightarrow> pret (True, False)
       | Inl _ \<Rightarrow>
           abind (alift (validateClusterConfig bd)) (\<lambda>_.
           pbind (clusterInit by) (\<lambda>initIgn.
           abind (note_event (EvPrintln initIgn)) (\<lambda>_.
           abind (world (by_IsTTY by)) (\<lambda>isTTY.
             if \<not> isTTY then pret (False, True)
             else abind (in_world EvPki (wait_for (prompt_loop (by_Scanln by)))) (\<lambda>_. pret (False, False))))))))"

definition ha_monitor_app :: "ByoDriver \<Rightarrow> 's ApplicationDescription" where
  "ha_monitor_app bd = internal_app False ''ocne-ha-monitor'' ''ocne-system'' ''ha-config'' ''2.0.0''
     [''apiAddress'' \<mapsto> GStr (clu_VirtualIp (bd_Config bd)), ''apiPort'' \<mapsto> GInt (uint (clu_KubeAPIServerBindPort (bd_Config bd)))]"

definition byo_PostStart :: "('s, 'c, 'k, 'x) byo_env \<Rightarrow> ('s \<times> ByoDriver, byo_event, unit) act" where
  "byo_PostStart by =
     abind driver (\<lambda>bd.
       if clu_VirtualIp (bd_Config bd) = [] then aret ()
       else in_world EvInstall (InstallApplications (by_ka by) (by_ha by) [ha_monitor_app bd]))"

definition byo_Stop :: "('s \<times> ByoDriver, byo_event, unit) act" where
  "byo_Stop = afail ''The BYO provider does not support stopping a cluster''"

definition join_help :: "string \<Rightarrow> string \<Rightarrow> string" where
  "join_help uploadStanza joinToken =
     ''Run these commands before booting the new node to allow it to join the cluster:'' @ [CHR 10, CHR 9] @ uploadStanza
     @ [CHR 10, CHR 9] @ ''kubeadm token create '' @ joinToken @ [CHR 10]"

text \<open>What a join does with the driver \<open>bd\<close>.\<close>

definition byo_join_with :: "('s, 'c, 'k, 'x) byo_env \<Rightarrow> ByoDriver \<Rightarrow> string \<Rightarrow> int \<Rightarrow> int \<Rightarrow> ('s \<times> ByoDriver, byo_event, unit outcome) act" where
  "byo_join_with by bd kubeconfigPath controlPlaneNodes workerNodes =
     abind (alift (validateClusterConfig bd)) (\<lambda>_.
       if controlPlaneNodes \<noteq> 0 \<and> workerNodes \<noteq> 0
       then afail ''The BYO provider cannot join worker and control plane nodes at the same time''
       else let role = (if controlPlaneNodes \<noteq> 0 then ControlPlaneRole else WorkerRole);
                automatic = byo_AutomaticTokenCreation (prv_Byo (clu_Providers (bd_Config bd)))
            in abind (in_world EvByoAdmin (CreateJoinToken (by_ae by) kubeconfigPath (\<not> automatic))) (\<lambda>joinToken.
               abind (world (ae_CertHashes (by_ae by) kubeconfigPath)) (\<lambda>caCertHashes.
               pbind (ignitionForNode by role True joinToken caCertHashes) (\<lambda>ign.
               abind (note_event (EvPrintln ign)) (\<lambda>_.
               abind (if \<not> automatic
                      then if role = ControlPlaneRole
                           then abind (in_world EvByoAdmin (UploadCertificateStanza (by_ae by) (bd_KubeconfigPath bd) (bd_UploadCertificateKey bd)))
                                  (\<lambda>uploadStanza. note_event (EvStderr (join_help uploadStanza joinToken)))
                           else note_event (EvStderr (''Run this command before booting the new node to allow it to join the cluster: kubeadm token create ''
                                  @ joinToken @ [CHR 10]))
                      else if role = ControlPlaneRole
                           then in_world EvByoAdmin (UploadCertificates (by_ae by) (bd_KubeconfigPath bd) (bd_UploadCertificateKey bd))
                           else aret ()) (\<lambda>_. pret ()))))))"

definition byo_Join :: "('s, 'c, 'k, 'x) byo_env \<Rightarrow> string \<Rightarrow> int \<Rightarrow> int \<Rightarrow> ('s \<times> ByoDriver, byo_event, unit outcome) act" where
  "byo_Join by kubeconfigPath controlPlaneNodes workerNodes = abind driver (\<lambda>bd. byo_join_with by bd kubeconfigPath controlPlaneNodes workerNodes)"

definition byo_Delete :: "('s, 'c, 'k, 'x) byo_env \<Rightarrow> ('s \<times> ByoDriver, byo_event, unit) act" where
  "byo_Delete by =
     abind driver (\<lambda>bd.
     abind (note_event (EvRemove (bd_KubeconfigPath bd))) (\<lambda>_.
     abind (world (keep (by_Remove by (bd_KubeconfigPath bd)))) (\<lambda>r. case r of
         Inl (CannotRemove err) \<Rightarrow> afail err
       | _ \<Rightarrow> aret ())))"

definition byo_Close :: "('s, 'c, 'k, 'x) byo_env \<Rightarrow> ('s \<times> ByoDriver, byo_event, unit) act" where
  "byo_Close by =
     abind driver (\<lambda>bd. case bd_PKIInfo bd of
         None \<Rightarrow> aret ()
       | Some pki \<Rightarrow>
           if pki_CertsDir pki = [] then aret ()
           else abind (note_event (EvRemoveCerts (pki_CertsDir pki))) (\<lambda>_.
                atry (world (by_RemoveAll by (pki_CertsDir pki))) (\<lambda>_. aret ())))"

definition byo_GetKubeAPIServerAddress :: "('s, 'c, 'k, 'x) byo_env \<Rightarrow> ByoDriver \<Rightarrow> string" where
  "byo_GetKubeAPIServerAddress by bd = GetURIAddress (by_kl by) (getKubeAPIServerIP bd)"

definition byo_DefaultCNIInterfaces :: "ByoDriver \<Rightarrow> string list" where
  "byo_DefaultCNIInterfaces bd = [byo_NetworkInterface (prv_Byo (clu_Providers (bd_Config bd)))]"

definition byo_Stage :: "string \<Rightarrow> (string \<times> string \<times> bool) result" where
  "byo_Stage version = Inr ([], [], True)"

section \<open>Lemmas\<close>

lemma last_colon_none: "CHR '':'' \<notin> set s \<Longrightarrow> last_colon s = None"
  by (induction s) auto

lemma last_colon_append: "CHR '':'' \<notin> set p \<Longrightarrow> last_colon (h @ CHR '':'' # p) = Some (length h)"
proof (induction h)
  case Nil
  then show ?case using last_colon_none [of p] by simp
qed simp

lemma index_of_append: "c \<notin> set h \<Longrightarrow> index_of c (h @ c # p) = Some (length h)"
  by (induction h) auto

lemma SplitHostPort_plain:
  assumes "set host \<inter> {CHR '':'', CHR ''['', CHR '']''} = {}" and "set port \<inter> {CHR '':'', CHR ''['', CHR '']''} = {}"
  shows "SplitHostPort (host @ CHR '':'' # port) = Inr (host, port)"
proof -
  have "hd (host @ CHR '':'' # port) \<noteq> CHR ''[''" using assms(1) by (cases host) auto
  then show ?thesis using assms by (auto simp: SplitHostPort_def last_colon_append)
qed

lemma SplitHostPort_brackets:
  assumes "set host \<inter> {CHR ''['', CHR '']''} = {}" and "set port \<inter> {CHR '':'', CHR ''['', CHR '']''} = {}"
  shows "SplitHostPort (CHR ''['' # host @ CHR '']'' # CHR '':'' # port) = Inr (host, port)"
proof -
  have "last_colon (CHR ''['' # host @ CHR '']'' # CHR '':'' # port) = Some (Suc (Suc (length host)))"
    using last_colon_append [of port "CHR ''['' # host @ [CHR '']'']"] assms(2) by simp
  moreover have "index_of (CHR '']'') (CHR ''['' # host @ CHR '']'' # CHR '':'' # port) = Some (Suc (length host))"
    using index_of_append [of "CHR '']''" "CHR ''['' # host" "CHR '':'' # port"] assms(1) by simp
  ultimately show ?thesis using assms by (auto simp: SplitHostPort_def)
qed

lemma emits_ignitionForNode [emits_intro]: "emits P (ignitionForNode by role join tok hashes)"
  unfolding ignitionForNode_def by (auto intro!: emits_intro split: option.splits)

section \<open>Properties\<close>

text \<open>
  The address of a cluster that exists already.  A host with a port gives the host as it stands in a URI, an IPv6 address in brackets again, and an
  endpoint without a port is taken as it is.
\<close>

theorem server_ip_of_endpoint:
  assumes "set port \<inter> {CHR '':'', CHR ''['', CHR '']''} = {}"
  shows "(set host \<inter> {CHR '':'', CHR ''['', CHR '']''} = {} \<longrightarrow> server_ip kl (host @ CHR '':'' # port) = Inr (GetURIAddress kl host))
    \<and> (set host \<inter> {CHR ''['', CHR '']''} = {} \<longrightarrow>
        server_ip kl (CHR ''['' # host @ CHR '']'' # CHR '':'' # port) = Inr (GetURIAddress kl host))
    \<and> (CHR '':'' \<notin> set host \<longrightarrow> server_ip kl host = Inr host)"
proof (intro conjI impI)
  show "server_ip kl host = Inr host" if "CHR '':'' \<notin> set host"
  proof -
    have "go_contains (''address '' @ host @ '': '' @ missing_port) missing_port"
      unfolding go_contains_iff sublist_def by (metis append.assoc append_Nil2)
    with that show ?thesis by (simp add: server_ip_def SplitHostPort_def last_colon_none)
  qed
qed (simp_all add: server_ip_def SplitHostPort_plain SplitHostPort_brackets assms)

theorem server_ip_of_endpoint_witness:
  "server_ip (sample_kubeadm\<lparr>kl_IsIPv4 := (\<lambda>_. False), kl_IsIPv6 := (\<lambda>_. True)\<rparr>) ''[fd00::9]:6443'' = Inr ''[fd00::9]''"
proof -
  have "set ''6443'' \<inter> {CHR '':'', CHR ''['', CHR '']''} = {}" "set ''fd00::9'' \<inter> {CHR ''['', CHR '']''} = {}" by simp_all
  with server_ip_of_endpoint [of "''6443''" "''fd00::9''" "sample_kubeadm\<lparr>kl_IsIPv4 := (\<lambda>_. False), kl_IsIPv6 := (\<lambda>_. True)\<rparr>"]
  show ?thesis by (simp add: GetURIAddress_def)
qed

text \<open>
  Joining with the BYO driver.  It changes a cluster only if tokens are to be created automatically: then the token is made in the
  cluster of the given kubeconfig, while the certificates are uploaded, for a control-plane node, to the cluster of the driver's own
  kubeconfig.  Otherwise it prints what to run.
\<close>

definition byo_join_event :: "ByoDriver \<Rightarrow> string \<Rightarrow> bool \<Rightarrow> byo_event \<Rightarrow> bool" where
  "byo_join_event bd kubeconfigPath control ev \<longleftrightarrow>
     (let automatic = byo_AutomaticTokenCreation (prv_Byo (clu_Providers (bd_Config bd)))
      in case ev of
           EvByoAdmin (EvCreateToken k tok) \<Rightarrow> automatic \<and> k = kubeconfigPath
         | EvByoAdmin (EvCluster k kev) \<Rightarrow> automatic \<and> control \<and> k = bd_KubeconfigPath bd
         | EvByoAdmin (EvCreateAdminPod k pod) \<Rightarrow> automatic \<and> control \<and> k = bd_KubeconfigPath bd
         | EvByoAdmin (EvCommand k pod args) \<Rightarrow> automatic \<and> control \<and> k = bd_KubeconfigPath bd \<and> args = upload_command (bd_UploadCertificateKey bd)
         | EvPrintln _ \<Rightarrow> True
         | EvStderr _ \<Rightarrow> \<not> automatic
         | _ \<Rightarrow> False)"

lemma byo_Join_emits: "emits (byo_join_event bd kubeconfigPath (cp \<noteq> 0)) (byo_join_with by bd kubeconfigPath cp wk)"
  (is "emits ?P _")
proof -
  let ?auto = "byo_AutomaticTokenCreation (prv_Byo (clu_Providers (bd_Config bd)))"
  have role: "(if cp \<noteq> 0 then ControlPlaneRole else WorkerRole) = ControlPlaneRole \<longleftrightarrow> cp \<noteq> 0"
    by (simp add: ControlPlaneRole_def WorkerRole_def)
  have upload: "?auto \<Longrightarrow> cp \<noteq> 0 \<Longrightarrow> emits ?P (in_world EvByoAdmin (UploadCertificates (by_ae by) (bd_KubeconfigPath bd) (bd_UploadCertificateKey bd)))"
    by (rule emits_in_world [where P = "\<lambda>ev. ?P (EvByoAdmin ev)"]) (auto intro!: emits_UploadCertificates simp: byo_join_event_def)
  have token: "emits ?P (in_world EvByoAdmin (CreateJoinToken (by_ae by) kubeconfigPath (\<not> ?auto)))"
    by (rule emits_in_world [where P = "\<lambda>ev. ?P (EvByoAdmin ev)"]) (auto intro!: emits_CreateJoinToken simp: byo_join_event_def)
  have stanza: "emits ?P (in_world EvByoAdmin (UploadCertificateStanza ae k key))" for ae :: "'a admin_env" and k key
    by (rule emits_in_world [where P = "\<lambda>_. False"]) (auto intro: emits_UploadCertificateStanza)
  show ?thesis
    unfolding byo_join_with_def Let_def role
    by (intro emits_intro token stanza upload) (auto simp: byo_join_event_def)
qed

theorem byo_Join_effects:
  assumes "byo_Join by kubeconfigPath cp wk ((s, bd), tr) = (r, w', tr')"
  shows "\<exists>evs. tr' = tr @ evs \<and> list_all (byo_join_event bd kubeconfigPath (cp \<noteq> 0)) evs"
proof -
  have "byo_Join by kubeconfigPath cp wk ((s, bd), tr) = byo_join_with by bd kubeconfigPath cp wk ((s, bd), tr)"
    by (simp add: byo_Join_def abind_run)
  with assms emitsD [OF byo_Join_emits [of bd kubeconfigPath cp "by" wk]] show ?thesis by metis
qed

text \<open>
  A start of the BYO driver that fails after its certificates were made is taken for a running cluster by the next one.  Without a network
  interface the configuration of the first node is refused, but the kubeconfig has been written by then: the next start finds it and says
  that the cluster is running, and never prints the configuration.  (A file that was written is there, and reading the hashes of the
  certificates does not remove it.)
\<close>

theorem byo_failed_start_looks_running:
  assumes writes: "\<And>p c m t t'. cy_WriteFile (by_cy by) p c m t = (Inr (), t') \<Longrightarrow> is_ok (fst (by_Stat by p t'))"
    and reads: "\<And>p k t. is_ok (fst (by_Stat by p t)) \<Longrightarrow> is_ok (fst (by_Stat by p (snd (ae_CertHashes (by_ae by) k t))))"
    and fresh: "by_Stat by (bd_KubeconfigPath bd) s = (Inl e, s1)" "validateClusterConfig bd = Inr ()"
    and pki: "GeneratePKI (by_cy by) (byo_cert_options bd) (byo_request bd) [] (s1, []) = (Inr info, s2, evs)"
    and iface: "byo_NetworkInterface (prv_Byo (clu_Providers (bd_Config bd))) = []"
  shows "\<exists>w1 tr1. byo_Start by ((s, bd), tr) = (Inl ''A network interface must be provided'', w1, tr1)
    \<and> (\<exists>w2. byo_Start by (w1, tr1) = (Inr (Returns (True, False)), w2, tr1))"
proof -
  let ?bd = "bd\<lparr>bd_PKIInfo := Some info\<rparr>"
  let ?tr1 = "tr @ map EvPki evs"
  obtain r s3 where hashes: "ae_CertHashes (by_ae by) (bd_KubeconfigPath bd) s2 = (r, s3)" by fastforce
  have ign: "ignitionForNode by ControlPlaneRole False [] hs ((s3, ?bd), ?tr1) = (Inl ''A network interface must be provided'', (s3, ?bd), ?tr1)" for hs
    using iface by (simp add: ignitionForNode_def abind_run)
  have "clusterInit by ((s1, bd), tr) = (Inl ''A network interface must be provided'', (s3, ?bd), ?tr1)"
    by (simp add: clusterInit_def abind_run atry_run in_world_run world_run pki hashes ign)
  then have first: "byo_Start by ((s, bd), tr) = (Inl ''A network interface must be provided'', (s3, ?bd), ?tr1)"
    by (simp add: byo_Start_def abind_run atry_run pbind_run world_run fresh)
  obtain t c where "cy_WriteFile (by_cy by) (bd_KubeconfigPath bd) c public_mode t = (Inr (), s2)"
    using GeneratePKI_last [OF pki] by (auto simp: byo_request_def)
  with writes have "is_ok (fst (by_Stat by (bd_KubeconfigPath bd) s2))" by blast
  from reads [OF this, of "bd_KubeconfigPath bd"] hashes have "is_ok (fst (by_Stat by (bd_KubeconfigPath bd) s3))" by simp
  then obtain u s4 where "by_Stat by (bd_KubeconfigPath bd) s3 = (Inr u, s4)"
    by (cases "by_Stat by (bd_KubeconfigPath bd) s3") (auto simp: is_ok_def split: sum.splits)
  then have "byo_Start by ((s3, ?bd), ?tr1) = (Inr (Returns (True, False)), (s4, ?bd), ?tr1)"
    by (simp add: byo_Start_def abind_run atry_run world_run)
  with first show ?thesis by blast
qed

text \<open>An empty disk, on which the first write makes every file be there.\<close>

definition sample_byo :: "(int, unit, nat, string) byo_env" where
  "sample_byo = \<lparr>by_UserHomeDir = (\<lambda>s. (Inr ''/h'', s)), by_Rand = (\<lambda>n s. (Inr (replicate n CHR 7), s)), by_ReadFile = (\<lambda>_ s. (Inr [], s)),
     by_Stat = (\<lambda>_ s. (if s > 0 then Inr () else Inl ''no such file'', s)), by_IsTTY = (\<lambda>s. (Inr False, s)), by_Scanln = (\<lambda>s. (''y'', s)),
     by_Remove = (\<lambda>_ s. (Inr (), s)), by_RemoveAll = (\<lambda>_ s. (Inr (), s)), by_AbsJoin = (\<lambda>d f. Inr (d @ ''/'' @ f)), by_KeyFile = (\<lambda>_. Inr []),
     by_fs = \<lparr>fsys_IsDir = (\<lambda>_. Inl ''no such file''), fsys_ReadDir = (\<lambda>_. Inr []), fsys_ReadFile = (\<lambda>_. Inr [])\<rparr>,
     by_ip = \<lparr>ip_GetConfigVersion = (\<lambda>_. []), ip_TranslateBytes = (\<lambda>d. (d, [], None)), ip_ParseCompatibleVersion = (\<lambda>_. (NewIgnition, [], None))\<rparr>,
     by_mk = (\<lambda>s. Inr (s, None)), by_lib = sample_lib, by_kl = sample_kubeadm, by_Marshal = (\<lambda>_. Inr []), by_ae = sample_admin, by_cy = sample_crypto,
     by_ka = sample_kube [], by_ha = sample_helm\<rparr>"

definition sample_byo_driver :: ByoDriver where
  "sample_byo_driver = \<lparr>bd_Name = ''c'', bd_Config = zero_ClusterConfig\<lparr>clu_VirtualIp := ''10.0.0.9'', clu_ServiceSubnet := ''10.96.0.0/12''\<rparr>,
     bd_KubeconfigPath = ''/h/.kube/kubeconfig.c'', bd_PKIInfo = None, bd_UploadCertificateKey = []\<rparr>"

theorem byo_failed_start_looks_running_witness:
  "\<exists>w1 tr1 w2. byo_Start sample_byo ((0, sample_byo_driver), []) = (Inl ''A network interface must be provided'', w1, tr1)
     \<and> byo_Start sample_byo (w1, tr1) = (Inr (Returns (True, False)), w2, tr1)"
proof -
  have "by_cy sample_byo = sample_crypto" "by_ae sample_byo = sample_admin" by (simp_all add: sample_byo_def)
  have stat: "by_Stat sample_byo p t = (if t > 0 then Inr () else Inl ''no such file'', t)" for p t by (simp add: sample_byo_def)
  have "validateClusterConfig sample_byo_driver = Inr ()"
    by (simp add: validateClusterConfig_def sample_byo_driver_def zero_ClusterConfig_def)
  moreover have "byo_NetworkInterface (prv_Byo (clu_Providers (bd_Config sample_byo_driver))) = []"
    by (simp add: sample_byo_driver_def zero_ClusterConfig_def zero_Providers_def zero_ByoProvider_def)
  moreover obtain info s2 evs where "GeneratePKI sample_crypto (byo_cert_options sample_byo_driver) (byo_request sample_byo_driver) [] (0, []) = (Inr info, s2, evs)"
    using sample_PKI by blast
  moreover have "\<And>p c m t t'. cy_WriteFile (by_cy sample_byo) p c m t = (Inr (), t') \<Longrightarrow> is_ok (fst (by_Stat sample_byo p t'))"
    by (auto simp: stat sample_crypto_def sample_byo_def is_ok_def)
  moreover have "\<And>p k t. is_ok (fst (by_Stat sample_byo p t)) \<Longrightarrow> is_ok (fst (by_Stat sample_byo p (snd (ae_CertHashes (by_ae sample_byo) k t))))"
    by (auto simp: stat sample_byo_def sample_admin_def is_ok_def)
  ultimately show ?thesis
    using byo_failed_start_looks_running [of sample_byo sample_byo_driver 0 "''no such file''" 0 info s2 evs "[]"]
    by (auto simp: stat \<open>by_cy sample_byo = sample_crypto\<close>)
qed

theorem byo_Join_effects_witness:
  "\<exists>r w' evs. byo_Join sample_byo ''/k'' 1 0 ((0, sample_byo_driver), []) = (r, w', evs)
     \<and> list_all (byo_join_event sample_byo_driver ''/k'' True) evs"
proof -
  obtain r w' tr' where run: "byo_Join sample_byo ''/k'' 1 0 ((0, sample_byo_driver), []) = (r, w', tr')" by (metis prod.exhaust)
  from byo_Join_effects [OF run] run show ?thesis by auto
qed

definition none_start_event :: "start_event \<Rightarrow> bool" where
  "none_start_event ev \<longleftrightarrow> installs ev \<or> finishes ev \<or> ev = EvDriverStart \<or> ev = EvDriverPostStart"

text \<open>
  Starting on a cluster that exists already: the cluster cache is left alone, and the only other changes are applications and catalogs that are
  installed and the browser that is opened.
\<close>

theorem none_start_leaves_cache:
  fixes sn :: "('s, 'c, 'h) start_env"
  assumes "sn_drivers sn ProviderTypeNone = Some (none_CreateDriver ae kl)" and "clu_Provider cc = ProviderTypeNone"
    and "Start sn config cc (s, tr) = (r, s', tr')"
  shows "\<exists>evs. tr' = tr @ evs \<and> list_all none_start_event evs"
proof (cases "tr' = tr")
  case False
  with Start_trace [OF assms(3)] obtain t and drv :: "'s cluster_driver" and s0 x s1 evs
    where drv: "CreateDriver (sn_drivers sn) config cc t = (Inr drv, s0)" and x: "cd_Start drv s0 = (x, s1)"
      and tr': "tr' = tr @ EvDriverStart # evs @ [EvDriverClose]"
      and evs: "case x of Inl _ \<Rightarrow> evs = [] | Inr (wasRunning, skipInstall) \<Rightarrow> started (clu_Name cc) wasRunning skipInstall evs" by blast
  have "\<exists>nd. drv = none_driver nd"
    using drv assms(1,2) by (auto simp: CreateDriver_def none_CreateDriver_def split: prod.splits sum.splits)
  with x have "x = Inr (True, False)" by (auto simp: none_driver_def)
  with evs have "started (clu_Name cc) True False evs" by simp
  then have "list_all none_start_event evs"
    by (auto simp: started_def ending_def none_start_event_def list_all_iff)
  with tr' show ?thesis by (auto simp: none_start_event_def)
qed auto

theorem none_start_leaves_cache_witness:
  "\<exists>r s' evs. Start (sample_start\<lparr>sn_drivers := [ProviderTypeNone \<mapsto> none_CreateDriver sample_admin sample_kubeadm]\<rparr>) zero_Config
       (zero_ClusterConfig\<lparr>clu_Provider := ProviderTypeNone\<rparr>) (0, []) = (r, s', evs) \<and> list_all none_start_event evs"
proof -
  let ?sn = "sample_start\<lparr>sn_drivers := [ProviderTypeNone \<mapsto> none_CreateDriver sample_admin sample_kubeadm]\<rparr>"
  let ?cc = "zero_ClusterConfig\<lparr>clu_Provider := ProviderTypeNone\<rparr>"
  obtain r s' tr' where run: "Start ?sn zero_Config ?cc (0, []) = (r, s', tr')" by (metis prod.exhaust)
  from none_start_leaves_cache [OF _ _ run] run show ?thesis by auto
qed

end
