(* ===== verification/Go_Net.thy ===== *)
theory Go_Net
  imports Base64
begin

text \<open>
  What the program uses of Go's \<^verbatim>\<open>net\<close> package: addresses are lists of bytes (an unparsable one is the empty list, Go's nil), with
  \<^verbatim>\<open>ParseIP\<close>, \<^verbatim>\<open>ParseCIDR\<close>, \<^verbatim>\<open>IP.String\<close>, \<^verbatim>\<open>IP.To4\<close> and \<^verbatim>\<open>IPNet.Contains\<close>, and \<open>Increment\<close> of the vendored
  \<^verbatim>\<open>ipnetgen\<close>, the next address.  The lemmas show that counting up from an address meets every address of its length.
\<close>

unbundle bit_operations_syntax

type_synonym ip = "8 word list"

section \<open>Addresses\<close>

definition v4_in_v6 :: ip where "v4_in_v6 = replicate 10 0 @ [255, 255]"

definition To4 :: "ip \<Rightarrow> ip" where
  "To4 a = (if length a = 4 then a else if length a = 16 \<and> take 12 a = v4_in_v6 then drop 12 a else [])"

definition octet :: "string \<Rightarrow> 8 word option" where
  "octet f = (if f \<noteq> [] \<and> list_all is_digit f \<and> (hd f = CHR ''0'' \<longrightarrow> length f = 1) \<and> nat_of_digits f \<le> 255
              then Some (of_nat (nat_of_digits f)) else None)"

fun all_some :: "'a option list \<Rightarrow> 'a list option" where
  "all_some [] = Some []"
| "all_some (x # xs) = (case (x, all_some xs) of (Some y, Some ys) \<Rightarrow> Some (y # ys) | _ \<Rightarrow> None)"

definition parse_v4 :: "string \<Rightarrow> ip option" where
  "parse_v4 s = (let fs = go_split s ''.'' in if length fs = 4 then all_some (map octet fs) else None)"

definition hex_val :: "char \<Rightarrow> nat option" where
  "hex_val c = index_of (lower_char c) ''0123456789abcdef''"

definition is_hex :: "char \<Rightarrow> bool" where "is_hex c = (hex_val c \<noteq> None)"

definition hex_value :: "string \<Rightarrow> nat" where
  "hex_value s = foldl (\<lambda>n c. 16 * n + (case hex_val c of Some d \<Rightarrow> d | None \<Rightarrow> 0)) 0 s"

lemma shorter_rest: "dropWhile P s \<noteq> [] \<Longrightarrow> length (tl (dropWhile P s)) < length s \<and> length (tl (tl (dropWhile P s))) < length s"
  using length_dropWhile_le [of P s] by (cases "dropWhile P s") auto

text \<open>The groups of an IPv6 address: the bytes so far and the place of the double colon.\<close>

function v6_groups :: "ip \<Rightarrow> nat option \<Rightarrow> string \<Rightarrow> (ip \<times> nat option) option" where
  "v6_groups bs ell s =
     (if 16 \<le> length bs then (if s = [] then Some (bs, ell) else None)
      else let digits = takeWhile is_hex s; rest = dropWhile is_hex s
           in if digits = [] \<or> 4 < length digits then None
              else if rest \<noteq> [] \<and> hd rest = CHR ''.'' then
                (if ell = None \<and> length bs \<noteq> 12 \<or> 12 < length bs then None else map_option (\<lambda>q. (bs @ q, ell)) (parse_v4 s))
              else let bs' = bs @ [of_nat (hex_value digits div 256), of_nat (hex_value digits)]
                   in if rest = [] then Some (bs', ell)
                      else if hd rest \<noteq> CHR '':'' \<or> tl rest = [] then None
                      else if hd (tl rest) \<noteq> CHR '':'' then v6_groups bs' ell (tl rest)
                      else if ell \<noteq> None then None
                      else if tl (tl rest) = [] then Some (bs', Some (length bs'))
                      else v6_groups bs' (Some (length bs')) (tl (tl rest)))"
  by pat_completeness auto

termination
  by (relation "measure (\<lambda>(_, _, s). length s)") (use shorter_rest [of is_hex] in \<open>simp_all del: length_tl\<close>)

declare v6_groups.simps [simp del]

definition parse_v6 :: "string \<Rightarrow> ip option" where
  "parse_v6 s =
     (if CHR ''%'' \<in> set s then None
      else case (if has_prefix s ''::'' then (if drop 2 s = [] then Some ([], Some 0) else v6_groups [] (Some 0) (drop 2 s)) else v6_groups [] None s) of
             None \<Rightarrow> None
           | Some (bs, ell) \<Rightarrow>
               if length bs < 16
               then map_option (\<lambda>e. take e bs @ replicate (16 - length bs) 0 @ drop e bs) ell
               else if ell \<noteq> None then None else Some bs)"

text \<open>Which of the two kinds is decided by the first mark; the flag says that it was an IPv4 text.\<close>

definition ParseAddr :: "string \<Rightarrow> (ip \<times> bool) option" where
  "ParseAddr s =
     (case find (\<lambda>c. c \<in> {CHR ''.'', CHR '':'', CHR ''%''}) s of
        None \<Rightarrow> None
      | Some c \<Rightarrow> (if c = CHR ''.'' then map_option (\<lambda>q. (v4_in_v6 @ q, True)) (parse_v4 s)
                   else if c = CHR '':'' then map_option (\<lambda>q. (q, False)) (parse_v6 s) else None))"

definition ParseIP :: "string \<Rightarrow> ip" where
  "ParseIP s = (case ParseAddr s of None \<Rightarrow> [] | Some (a, _) \<Rightarrow> a)"

section \<open>Texts of addresses\<close>

fun hex_nat :: "nat \<Rightarrow> string" where
  "hex_nat n = (if n < 16 then [hex_digit n] else hex_nat (n div 16) @ [hex_digit n])"

declare hex_nat.simps [simp del]

fun groups16 :: "ip \<Rightarrow> nat list" where
  "groups16 (a # b # bs) = (256 * unat a + unat b) # groups16 bs"
| "groups16 _ = []"

text \<open>The first of the longest runs of at least two zero groups, as its start and end.\<close>

definition zero_run :: "nat list \<Rightarrow> nat \<times> nat" where
  "zero_run gs = foldl (\<lambda>(st, en) i. let l = length (takeWhile (\<lambda>g. g = 0) (drop i gs))
                                   in if 2 \<le> l \<and> en - st < l then (i, i + l) else (st, en)) (0, 0) [0..<8]"

definition v6_text :: "nat list \<Rightarrow> string" where
  "v6_text gs =
     (case zero_run gs of (st, en) \<Rightarrow>
        if en = st then go_join (map hex_nat gs) '':''
        else go_join (map hex_nat (take st gs)) '':'' @ ''::'' @ go_join (map hex_nat (drop en gs)) '':'')"

definition v4_text :: "ip \<Rightarrow> string" where
  "v4_text a = go_join (map (\<lambda>b. format_nat (unat b)) a) ''.''"

definition IP_String :: "ip \<Rightarrow> string" where
  "IP_String a =
     (if a = [] then ''<nil>''
      else if To4 a \<noteq> [] then v4_text (To4 a)
      else if length a = 16 then v6_text (groups16 a)
      else CHR ''?'' # hex_encode (map (\<lambda>b. char_of (unat b)) a))"

section \<open>Networks\<close>

record IPNet =
  net_IP :: ip
  net_Mask :: ip

text \<open>The number and the mask of a network, both of four bytes if the number has an IPv4 form.\<close>

definition number_and_mask :: "IPNet \<Rightarrow> ip \<times> ip" where
  "number_and_mask n =
     (let a = (if To4 (net_IP n) = [] then net_IP n else To4 (net_IP n)); m = net_Mask n
      in if To4 (net_IP n) = [] \<and> length a \<noteq> 16 then ([], [])
         else if length m = 4 then (if length a \<noteq> 4 then ([], []) else (a, m))
         else if length m = 16 then (if length a = 4 then (a, drop 12 m) else (a, m))
         else ([], []))"

definition Contains :: "IPNet \<Rightarrow> ip \<Rightarrow> bool" where
  "Contains n a =
     (case number_and_mask n of (nn, m) \<Rightarrow>
        let x = (if To4 a = [] then a else To4 a)
        in length x = length nn \<and> list_all (\<lambda>((p, q), r). p AND q = r AND q) (zip (zip nn m) x))"

definition CIDRMask :: "nat \<Rightarrow> nat \<Rightarrow> ip" where
  "CIDRMask ones bits = map (\<lambda>i. if 8 * (i + 1) \<le> ones then 255 else if ones \<le> 8 * i then 0 else NOT (drop_bit (ones - 8 * i) 255)) [0..<bits div 8]"

definition mask_bytes :: "ip \<Rightarrow> ip \<Rightarrow> ip" where
  "mask_bytes a m = map2 (AND) a m"

text \<open>\<^verbatim>\<open>IP.Mask\<close> of a parsed address of 16 bytes with a mask for its kind.\<close>

definition masked :: "ip \<Rightarrow> ip \<Rightarrow> ip" where
  "masked a m = mask_bytes (if length m = 4 \<and> take 12 a = v4_in_v6 then drop 12 a else a) m"

definition ParseCIDR :: "string \<Rightarrow> (ip \<times> IPNet) result" where
  "ParseCIDR s =
     (case go_cut s ''/'' of
        None \<Rightarrow> Inl (''invalid CIDR address: '' @ s)
      | Some (addr, len) \<Rightarrow>
          (case ParseAddr addr of
             None \<Rightarrow> Inl (''invalid CIDR address: '' @ s)
           | Some (a, is4) \<Rightarrow>
               (let bits = (if is4 then 32 else 128)
                in if len = [] \<or> \<not> list_all is_digit len \<or> bits < nat_of_digits len then Inl (''invalid CIDR address: '' @ s)
                   else let m = CIDRMask (nat_of_digits len) bits in Inr (a, \<lparr>net_IP = masked a m, net_Mask = m\<rparr>))))"

section \<open>The next address\<close>

fun inc_bytes :: "ip \<Rightarrow> ip" where
  "inc_bytes [] = []"
| "inc_bytes (b # bs) = (if b + 1 = 0 then (b + 1) # inc_bytes bs else (b + 1) # bs)"

definition Increment :: "ip \<Rightarrow> ip" where
  "Increment a = rev (inc_bytes (rev a))"

text \<open>An address as a number, lowest byte first.\<close>

fun bytes_value :: "ip \<Rightarrow> nat" where
  "bytes_value [] = 0"
| "bytes_value (b # bs) = unat b + 256 * bytes_value bs"

definition ip_value :: "ip \<Rightarrow> nat" where "ip_value a = bytes_value (rev a)"

lemma byte_bound: "unat (b :: 8 word) < 256"
  using unsigned_less [of b] by simp

lemma bytes_value_bound: "bytes_value bs < 256 ^ length bs"
proof (induction bs)
  case (Cons b bs)
  have "unat b + 256 * bytes_value bs < 256 * (bytes_value bs + 1)" using byte_bound [of b] by simp
  also have "\<dots> \<le> 256 * 256 ^ length bs" using Cons by simp
  finally show ?case by simp
qed simp

lemma bytes_value_inj: "length a = length b \<Longrightarrow> bytes_value a = bytes_value b \<Longrightarrow> a = b"
proof (induction a b rule: list_induct2)
  case (Cons x xs y ys)
  have "unat x = (unat x + 256 * bytes_value xs) mod 256" "unat y = (unat y + 256 * bytes_value ys) mod 256"
    using byte_bound [of x] byte_bound [of y] by simp_all
  with Cons(3) have "unat x = unat y" by simp
  then have "x = y" by (simp only: word_unat_eq_iff)
  with Cons show ?case by simp
qed simp

lemma byte_Suc: "unat (b + 1 :: 8 word) = (if b + 1 = 0 then 0 else unat b + 1)"
  using unatSuc [of b] by (cases "b + 1 = 0") (simp_all add: add.commute)

lemma inc_bytes_value: "bytes_value (inc_bytes bs) = (bytes_value bs + 1) mod 256 ^ length bs"
proof (induction bs)
  case (Cons b bs)
  let ?n = "256 ^ length bs :: nat"
  show ?case
  proof (cases "b + 1 = 0")
    case True
    then have b: "b = - 1" by (simp add: eq_neg_iff_add_eq_0)
    then have b: "unat b = 255" by (simp add: unsigned_minus_1_eq_mask mask_eq_exp_minus_1)
    have "(256 * (bytes_value bs + 1)) mod (256 * ?n) = 256 * ((bytes_value bs + 1) mod ?n)" by (rule mod_mult_mult1)
    with True b Cons show ?thesis by (simp add: algebra_simps)
  next
    case False
    have "unat b + 1 < 256"
      using False byte_bound [of "b + 1"] byte_Suc [of b] by simp
    then have "unat b + 1 + 256 * bytes_value bs < 256 * (bytes_value bs + 1)" by simp
    also have "\<dots> \<le> 256 * ?n" using bytes_value_bound [of bs] by simp
    finally show ?thesis using False byte_Suc [of b] by (simp add: algebra_simps)
  qed
qed simp

lemma length_inc_bytes [simp]: "length (inc_bytes bs) = length bs"
  by (induction bs) auto

lemma length_Increment [simp]: "length (Increment a) = length a"
  by (simp add: Increment_def)

lemma Increment_value: "ip_value (Increment a) = (ip_value a + 1) mod 256 ^ length a"
  using inc_bytes_value [of "rev a"] by (simp add: ip_value_def Increment_def)

lemma Increments_value: "ip_value ((Increment ^^ n) a) = (ip_value a + n) mod 256 ^ length a \<and> length ((Increment ^^ n) a) = length a"
proof (induction n)
  case 0
  then show ?case using bytes_value_bound [of "rev a"] by (simp add: ip_value_def)
next
  case (Suc n)
  then show ?case by (simp add: Increment_value mod_Suc_eq)
qed

theorem Increment_reaches:
  assumes "length a = length b"
  shows "\<exists>n. (Increment ^^ n) a = b"
proof -
  let ?n = "256 ^ length a - ip_value a + ip_value b"
  have "ip_value a < 256 ^ length a" "ip_value b < 256 ^ length a"
    using bytes_value_bound [of "rev a"] bytes_value_bound [of "rev b"] assms by (simp_all add: ip_value_def)
  then have "(ip_value a + ?n) mod 256 ^ length a = ip_value b" by simp
  then have "ip_value ((Increment ^^ ?n) a) = ip_value b" using Increments_value [of ?n a] by simp
  moreover have "length (rev ((Increment ^^ ?n) a)) = length (rev b)" using Increments_value [of ?n a] assms by simp
  ultimately have "rev ((Increment ^^ ?n) a) = rev b" unfolding ip_value_def by (intro bytes_value_inj) auto
  then show ?thesis by auto
qed

lemma Increment_inj: "Increment a = Increment b \<longleftrightarrow> a = b"
proof
  assume eq: "Increment a = Increment b"
  then have len: "length a = length b" using length_Increment by metis
  have "ip_value a < 256 ^ length a" "ip_value b < 256 ^ length a"
    using bytes_value_bound [of "rev a"] bytes_value_bound [of "rev b"] len by (simp_all add: ip_value_def)
  moreover have "(ip_value a + 1) mod 256 ^ length a = (ip_value b + 1) mod 256 ^ length a"
    using eq Increment_value [of a] Increment_value [of b] len by simp
  ultimately have "ip_value a = ip_value b" by (auto simp: mod_Suc split: if_splits)
  then show "a = b" using bytes_value_inj [of "rev a" "rev b"] len by (simp add: ip_value_def)
qed simp

text \<open>An IPv4 address in its long form.\<close>

definition is_v4 :: "ip \<Rightarrow> bool" where
  "is_v4 a \<longleftrightarrow> length a = 16 \<and> take 12 a = v4_in_v6"

lemma is_v4_To4: "is_v4 a \<Longrightarrow> To4 a = drop 12 a \<and> length (To4 a) = 4 \<and> a = v4_in_v6 @ To4 a"
  by (auto simp: is_v4_def To4_def) (metis append_take_drop_id)

lemma is_v4_append: "length q = 4 \<Longrightarrow> is_v4 (v4_in_v6 @ q)"
  by (simp add: is_v4_def v4_in_v6_def)

lemma all_some_length: "all_some xs = Some ys \<Longrightarrow> length ys = length xs"
  by (induction xs arbitrary: ys) (auto split: option.splits)

lemma parse_v4_length: "parse_v4 s = Some q \<Longrightarrow> length q = 4"
  by (auto simp: parse_v4_def Let_def split: if_splits dest!: all_some_length)

lemma v6_groups_length:
  "v6_groups bs ell s = Some (bs', e) \<Longrightarrow> even (length bs) \<Longrightarrow> length bs \<le> 16 \<Longrightarrow> length bs' \<le> 16"
proof (induction bs ell s rule: v6_groups.induct)
  case (1 bs ell s)
  note IH = "1.IH"(1) [OF _ refl refl _ _ refl] "1.IH"(2) [OF _ refl refl _ _ refl]
  have room: "length bs + 2 \<le> 16" if "length bs < 16" using that "1.prems"(2) by presburger
  show ?case using "1.prems"(1)
    by (subst (asm) v6_groups.simps)
      (use IH room "1.prems"(2,3) in \<open>auto simp: Let_def split: if_splits dest!: parse_v4_length\<close>)
qed

lemma parse_v6_length: "parse_v6 s = Some a \<Longrightarrow> length a = 16"
  by (auto simp: parse_v6_def split: if_splits option.splits dest!: v6_groups_length) 

lemma ParseAddr_length: "ParseAddr s = Some (a, v4) \<Longrightarrow> length a = 16"
  by (auto simp: ParseAddr_def v4_in_v6_def split: option.splits if_splits dest!: parse_v4_length parse_v6_length)

lemma ParseIP_length: "ParseIP s \<noteq> [] \<Longrightarrow> length (ParseIP s) = 16"
  by (auto simp: ParseIP_def split: option.splits dest!: ParseAddr_length)

text \<open>A text with a dot before any colon is an IPv4 address or none.\<close>

lemma ParseAddr_v4: "ParseAddr s = Some (a, True) \<Longrightarrow> is_v4 a"
  by (auto simp: ParseAddr_def split: option.splits if_splits dest!: parse_v4_length intro!: is_v4_append)

lemma leading_zero: "hd (format_nat n) = CHR ''0'' \<Longrightarrow> length (format_nat n) = 1"
proof -
  have "format_nat n \<noteq> [] \<and> (hd (format_nat n) = CHR ''0'' \<longrightarrow> n = 0)"
  proof (induction n rule: format_nat.induct)
    case (1 n)
    then show ?case
      by (subst (1 2) format_nat.simps) (auto simp: digit_char_def char_of_eq_iff take_bit_eq_mod)
  qed
  moreover have "length (format_nat 0) = 1" by (subst format_nat.simps) simp
  ultimately show "hd (format_nat n) = CHR ''0'' \<Longrightarrow> length (format_nat n) = 1" by auto
qed

text \<open>The texts of IPv4 addresses tell them apart.\<close>

lemma v4_text_inj:
  assumes "length a = length b" "v4_text a = v4_text b" "a \<noteq> []"
  shows "a = b"
proof -
  let ?f = "\<lambda>w :: 8 word. format_nat (unat w)"
  have dots: "\<forall>x \<in> set (map ?f c). CHR ''.'' \<notin> set x" for c
    by (auto simp: format_nat_no_char is_digit_def)
  have "go_split (v4_text c) ''.'' = map ?f c" if "c \<noteq> []" for c
    using that dots [of c] unfolding v4_text_def by (intro go_split_join_char) auto
  with assms have "map ?f a = map ?f b" by (metis length_0_conv)
  moreover have "inj ?f" by (rule injI) (simp only: format_nat_inj word_unat_eq_iff)
  ultimately show ?thesis by simp
qed

lemma IP_String_v4: "is_v4 a \<Longrightarrow> IP_String a = v4_text (To4 a)"
  using is_v4_To4 [of a] by (auto simp: IP_String_def)

lemma IP_String_v4_inj: "is_v4 a \<Longrightarrow> is_v4 b \<Longrightarrow> IP_String a = IP_String b \<longleftrightarrow> a = b"
  using is_v4_To4 [of a] is_v4_To4 [of b] v4_text_inj [of "To4 a" "To4 b"] by (auto simp: IP_String_v4)

section \<open>An example\<close>

lemma parse_dotted:
  assumes "list_all (\<lambda>n. n < 256) [a, b, c, d]"
  shows "ParseIP (go_join (map format_nat [a, b, c, d]) ''.'') = v4_in_v6 @ map of_nat [a, b, c, d]"
proof -
  let ?s = "go_join (map format_nat [a, b, c, d]) ''.''"
  have dots: "\<forall>x \<in> set (map format_nat [a, b, c, d]). CHR ''.'' \<notin> set x" by (auto simp: format_nat_no_char is_digit_def)
  have octets: "octet (format_nat n) = Some (of_nat n)" if "n < 256" for n
    using that leading_zero [of n] by (simp add: octet_def format_nat_digits nat_of_digits_format)
  have "go_split ?s ''.'' = map format_nat [a, b, c, d]" using dots by (intro go_split_join_char) auto
  then have v4: "parse_v4 ?s = Some (map of_nat [a, b, c, d])"
    using assms by (simp add: parse_v4_def octets)
  have "find (\<lambda>c. c \<in> {CHR ''.'', CHR '':'', CHR ''%''}) (format_nat a @ CHR ''.'' # t) = Some (CHR ''.'')" for t
  proof -
    have "find (\<lambda>c. c \<in> {CHR ''.'', CHR '':'', CHR ''%''}) (u @ CHR ''.'' # t) = Some (CHR ''.'')" if "list_all is_digit u" for u
      using that by (induction u) (auto simp: is_digit_def)
    then show ?thesis using format_nat_digits by blast
  qed
  then have "find (\<lambda>c. c \<in> {CHR ''.'', CHR '':'', CHR ''%''}) ?s = Some (CHR ''.'')" by simp
  with v4 show ?thesis by (simp add: ParseIP_def ParseAddr_def)
qed

end
