(* ===== verification/Libvirt_Network.thy ===== *)
theory Libvirt_Network
  imports Go_Net Cluster_Cache
begin

text \<open>
  Addresses and ports for clusters on a libvirt host (\<^verbatim>\<open>pkg/cluster/driver/libvirt/net.go\<close>).  Which address the API server of a cluster
  has, and which port of the host leads to it, is kept in a file that all invocations share.  \<open>libvirt\<close> is the connection to libvirt, with
  all calls the driver makes; \<open>addr_env\<close> is the file and its coder.

  \<open>register\<close> and \<open>release\<close> are what adding and removing a cluster do to the contents of the file; \<open>registry\<close> are the contents that are reached
  by them, when every port was asked for first.
\<close>

section \<open>The connection to libvirt\<close>

datatype ErrorNumber = ErrNoDomain | ErrNoNetwork | ErrNoStoragePool | ErrNoStorageVol | ErrStorageVolExist | ErrOperationInvalid | ErrOther nat

datatype lv_error = LvError ErrorNumber gerror | ForeignError gerror

fun lv_text :: "lv_error \<Rightarrow> gerror" where
  "lv_text (LvError _ t) = t"
| "lv_text (ForeignError t) = t"

definition checkLibvirtError :: "lv_error \<Rightarrow> ErrorNumber \<Rightarrow> bool" where
  "checkLibvirtError err ec = (case err of LvError code _ \<Rightarrow> code = ec | ForeignError _ \<Rightarrow> False)"

record lv_object =
  lo_Name :: string
  lo_UUID :: string

record lv_volume =
  lv_Pool :: string
  lv_Name :: string
  lv_Key :: string

record LibvirtIP =
  lip_Family :: string
  lip_Address :: string
  lip_Netmask :: string
  lip_Prefix :: int

type_synonym ('s, 'a) lv_call = "'s \<Rightarrow> (lv_error + 'a) \<times> 's"

record 's libvirt =
  lv_NetworkLookupByName :: "string \<Rightarrow> ('s, lv_object) lv_call"
  lv_ConnectListNetworks :: "nat \<Rightarrow> ('s, string list) lv_call"
  lv_NetworkGetXMLDesc :: "lv_object \<Rightarrow> ('s, string) lv_call"
  lv_DomainLookupByName :: "string \<Rightarrow> ('s, lv_object) lv_call"
  lv_DomainIsRunning :: "lv_object \<Rightarrow> ('s, bool) lv_call"
  lv_DomainCreate :: "lv_object \<Rightarrow> ('s, unit) lv_call"
  lv_DomainDestroy :: "lv_object \<Rightarrow> ('s, unit) lv_call"
  lv_DomainUndefine :: "lv_object \<Rightarrow> ('s, unit) lv_call"
  lv_DomainDefineXML :: "string \<Rightarrow> ('s, lv_object) lv_call"
  lv_ListAllDomains :: "('s, lv_object list) lv_call"
  lv_ListActivePools :: "('s, lv_object list) lv_call"
  lv_PoolRefresh :: "lv_object \<Rightarrow> ('s, unit) lv_call"
  lv_PoolGetXMLDesc :: "lv_object \<Rightarrow> ('s, string) lv_call"
  lv_PoolIsRunning :: "lv_object \<Rightarrow> ('s, bool) lv_call"
  lv_PoolCreate :: "lv_object \<Rightarrow> ('s, unit) lv_call"
  lv_PoolSetAutostart :: "lv_object \<Rightarrow> ('s, unit) lv_call"
  lv_PoolLookupByName :: "string \<Rightarrow> ('s, lv_object) lv_call"
  lv_PoolDefineXML :: "string \<Rightarrow> ('s, lv_object) lv_call"
  lv_VolLookupByName :: "lv_object \<Rightarrow> string \<Rightarrow> ('s, lv_volume) lv_call"
  lv_VolDelete :: "lv_volume \<Rightarrow> ('s, unit) lv_call"
  lv_VolCreateXML :: "lv_object \<Rightarrow> string \<Rightarrow> ('s, lv_volume) lv_call"
  lv_VolUpload :: "lv_volume \<Rightarrow> string \<Rightarrow> u64 \<Rightarrow> ('s, unit) lv_call"
  lv_VolGetXMLDesc :: "lv_volume \<Rightarrow> ('s, string) lv_call"
  lv_Capabilities :: "('s, string) lv_call"
  lv_Disconnect :: "('s, unit) lv_call"
  lv_XmlNetwork :: "string \<Rightarrow> LibvirtIP list result"
  lv_XmlPoolPath :: "string \<Rightarrow> string result"
  lv_XmlVolPath :: "string \<Rightarrow> string result"
  lv_XmlArch :: "string \<Rightarrow> string result"
  lv_PoolToXml :: "string \<Rightarrow> string \<Rightarrow> string result"

text \<open>A call whose error is only passed on.\<close>

definition lv_plain :: "('s, 'a) lv_call \<Rightarrow> 's \<Rightarrow> 'a result \<times> 's" where
  "lv_plain q s = (case q s of (Inl err, s') \<Rightarrow> (Inl (lv_text err), s') | (Inr x, s') \<Rightarrow> (Inr x, s'))"

section \<open>Networks\<close>

definition doesNetworkExist :: "'s libvirt \<Rightarrow> string \<Rightarrow> 's \<Rightarrow> (bool \<times> bool) result \<times> 's" where
  "doesNetworkExist l networkName s =
     (case lv_NetworkLookupByName l networkName s of
        (Inr _, s1) \<Rightarrow> (Inr (True, True), s1)
      | (Inl err, s1) \<Rightarrow>
          (if \<not> checkLibvirtError err ErrNoNetwork then (Inl (lv_text err), s1)
           else case lv_plain (lv_ConnectListNetworks l 0) s1 of
                  (Inl e, s2) \<Rightarrow> (Inl e, s2)
                | (Inr netNames, s2) \<Rightarrow> (Inr (False, length netNames > 0), s2)))"

definition getNetworkDetails :: "'s libvirt \<Rightarrow> string \<Rightarrow> 's \<Rightarrow> LibvirtIP list result \<times> 's" where
  "getNetworkDetails l networkName s =
     (case lv_plain (lv_NetworkLookupByName l networkName) s of
        (Inl e, s1) \<Rightarrow> (Inl e, s1)
      | (Inr libvirtNet, s1) \<Rightarrow>
          (case lv_plain (lv_NetworkGetXMLDesc l libvirtNet) s1 of
             (Inl e, s2) \<Rightarrow> (Inl e, s2)
           | (Inr xmlDesc, s2) \<Rightarrow> (lv_XmlNetwork l xmlDesc, s2)))"

section \<open>The file of used addresses\<close>

text \<open>Maps that are nil are \<open>None\<close>, and so are nil pointers in them.\<close>

record HostData =
  hd_IPs :: "(string \<rightharpoonup> bool) option"
  hd_Ports :: "(u16 \<rightharpoonup> bool) option"

record ClusterData =
  nc_Host :: string
  nc_IP :: string
  nc_Port :: u16

record NetworkInformation =
  ni_Hosts :: "(string \<rightharpoonup> HostData option) option"
  ni_Clusters :: "(string \<rightharpoonup> ClusterData option) option"

record 's addr_env =
  ad_UserHomeDir :: "'s \<Rightarrow> string result \<times> 's"
  ad_ReadFile :: "string \<Rightarrow> 's \<Rightarrow> (read_error + string) \<times> 's"
  ad_Unmarshal :: "string \<Rightarrow> NetworkInformation \<Rightarrow> NetworkInformation result"
  ad_Marshal :: "NetworkInformation \<Rightarrow> string result"
  ad_MkdirAll :: "string \<Rightarrow> 's \<Rightarrow> unit result \<times> 's"
  ad_WriteFile :: "string \<Rightarrow> string \<Rightarrow> 's \<Rightarrow> unit result \<times> 's"

datatype addr_event = EvAddrDir string | EvAddrFile string NetworkInformation

definition UserIPData :: string where "UserIPData = ''ips.yaml''"

definition addr_dir :: "string \<Rightarrow> string" where "addr_dir home = home @ ''/'' @ UserConfigDir"

definition getUsedAddrFilePath :: "'s addr_env \<Rightarrow> 's \<Rightarrow> string result \<times> 's" where
  "getUsedAddrFilePath ad s = (case ad_UserHomeDir ad s of (r, s') \<Rightarrow> (rbind r (\<lambda>home. Inr (addr_dir home @ ''/'' @ UserIPData)), s'))"

definition no_addresses :: NetworkInformation where
  "no_addresses = \<lparr>ni_Hosts = Some Map.empty, ni_Clusters = Some Map.empty\<rparr>"

definition getNetworkInformation :: "'s addr_env \<Rightarrow> 's \<Rightarrow> NetworkInformation result \<times> 's" where
  "getNetworkInformation ad s =
     (case getUsedAddrFilePath ad s of
        (Inl e, s1) \<Rightarrow> (Inl e, s1)
      | (Inr addrPath, s1) \<Rightarrow>
          (case ad_ReadFile ad addrPath s1 of
             (Inl (NoSuchFile _), s2) \<Rightarrow> (Inr no_addresses, s2)
           | (Inl (ReadFails err), s2) \<Rightarrow> (Inl err, s2)
           | (Inr yamlBytes, s2) \<Rightarrow> (ad_Unmarshal ad yamlBytes no_addresses, s2)))"

definition saveNetworkInformation :: "'s addr_env \<Rightarrow> NetworkInformation \<Rightarrow> ('s, addr_event, unit) act" where
  "saveNetworkInformation ad ni =
     abind (ask (ad_UserHomeDir ad)) (\<lambda>home.
     abind (alift (ad_Marshal ad ni)) (\<lambda>outBytes.
     abind (perform (EvAddrDir (addr_dir home)) (ad_MkdirAll ad (addr_dir home))) (\<lambda>_.
       perform (EvAddrFile (addr_dir home @ ''/'' @ UserIPData) ni) (ad_WriteFile ad (addr_dir home @ ''/'' @ UserIPData) outBytes))))"

text \<open>The maps of a host that is there but lacks them are made; writing to a map that is nil panics, and so does reading through a nil pointer.\<close>

definition set_host :: "string \<Rightarrow> HostData \<Rightarrow> NetworkInformation \<Rightarrow> NetworkInformation" where
  "set_host host h ni = ni\<lparr>ni_Hosts := map_option (\<lambda>m. m(host \<mapsto> Some h)) (ni_Hosts ni)\<rparr>"

definition made :: "('a \<rightharpoonup> 'b) option \<Rightarrow> ('a \<rightharpoonup> 'b)" where
  "made m = (case m of None \<Rightarrow> Map.empty | Some m \<Rightarrow> m)"

definition getHostData :: "NetworkInformation \<Rightarrow> string \<Rightarrow> (HostData \<times> NetworkInformation) outcome" where
  "getHostData ni host =
     (case ni_Hosts ni of
        None \<Rightarrow> Panics
      | Some hosts \<Rightarrow>
          (case hosts host of
             Some None \<Rightarrow> Panics
           | None \<Rightarrow> (let h = \<lparr>hd_IPs = Some Map.empty, hd_Ports = Some Map.empty\<rparr> in Returns (h, set_host host h ni))
           | Some (Some h) \<Rightarrow> (let h = \<lparr>hd_IPs = Some (made (hd_IPs h)), hd_Ports = Some (made (hd_Ports h))\<rparr> in Returns (h, set_host host h ni))))"

section \<open>Addresses\<close>

text \<open>The network of an entry, and the address the search starts from: 200 after the gateway's.\<close>

definition entry_subnet :: "LibvirtIP \<Rightarrow> (IPNet \<times> ip) result" where
  "entry_subnet n =
     (let subnetIp = ParseIP (lip_Address n)
      in if lip_Prefix n \<noteq> 0
         then rbind (ParseCIDR (lip_Address n @ ''/'' @ format_int (lip_Prefix n))) (\<lambda>(_, subnet). Inr (subnet, subnetIp))
         else let subnetMask = ParseIP (lip_Netmask n)
              in if length subnetIp \<noteq> length subnetMask
                 then Inl (''The gateway address '' @ lip_Address n @ '' is not the same length as the subnet mask '' @ lip_Netmask n)
                 else let masked = mask_bytes subnetIp subnetMask in Inr (\<lparr>net_IP = masked, net_Mask = subnetMask\<rparr>, masked))"

definition no_unused :: "string \<Rightarrow> string \<Rightarrow> gerror" where
  "no_unused subnet netmask = ''Could not find unused IP within the subnet '' @ subnet @ '' with subnet mask '' @ netmask"

primrec advance :: "IPNet \<Rightarrow> gerror \<Rightarrow> nat \<Rightarrow> ip \<Rightarrow> ip result" where
  "advance subnet err 0 a = Inr a"
| "advance subnet err (Suc n) a = (if \<not> Contains subnet (Increment a) then Inl err else advance subnet err n (Increment a))"

definition first_address :: "LibvirtIP \<Rightarrow> (IPNet \<times> ip) result" where
  "first_address n =
     rbind (entry_subnet n) (\<lambda>(subnet, subnetIp).
     rbind (advance subnet (no_unused (IP_String subnetIp) (lip_Netmask n)) 200 (ParseIP (lip_Address n))) (\<lambda>a. Inr (subnet, a)))"

partial_function (option) find_ip :: "IPNet \<Rightarrow> (string \<rightharpoonup> bool) \<Rightarrow> ip \<Rightarrow> ip option option" where
  "find_ip subnet used a =
     (if \<not> Contains subnet a then Some None
      else if used (IP_String a) = None then Some (Some a)
      else find_ip subnet used (Increment a))"

text \<open>The address is noted in the data that was read, which is thrown away.\<close>

definition allocateIP :: "'s libvirt \<Rightarrow> 's addr_env \<Rightarrow> string \<Rightarrow> string \<Rightarrow> ('s, 'e, string outcome) act" where
  "allocateIP l ad hostname networkName =
     abind (ask (getNetworkDetails l networkName)) (\<lambda>decoded. case decoded of
         [] \<Rightarrow> aret Panics
       | targetNetwork # _ \<Rightarrow>
           abind (alift (first_address targetNetwork)) (\<lambda>(subnet, a).
           abind (ask (getNetworkInformation ad)) (\<lambda>ni. case getHostData ni hostname of
               Panics \<Rightarrow> aret Panics
             | Returns (hostData, _) \<Rightarrow>
                 abind (wait_for (\<lambda>s. map_option (\<lambda>x. (Inr x, s)) (find_ip subnet (made (hd_IPs hostData)) a))) (\<lambda>x. case x of
                     None \<Rightarrow> afail (no_unused (lip_Address targetNetwork) (lip_Netmask targetNetwork))
                   | Some a \<Rightarrow> pret (IP_String a)))))"

section \<open>Ports\<close>

lemma next_u16: "p < (65535 :: u16) \<Longrightarrow> unat (p + 1) = Suc (unat p)"
  by (simp add: word_less_nat_alt unat_word_ariths(1))

function port_loop :: "(u16 \<rightharpoonup> bool) \<Rightarrow> u16 \<Rightarrow> u16" where
  "port_loop used p = (if p < 65535 then if used p \<noteq> None then port_loop used (p + 1) else p else p)"
  by pat_completeness auto
termination
  by (relation "measure (\<lambda>(_, p). 65535 - unat p)") (simp_all add: next_u16 word_less_nat_alt)

declare port_loop.simps [simp del]

definition next_port :: "(u16 \<rightharpoonup> bool) \<Rightarrow> u16 result" where
  "next_port used = (let p = port_loop used 6443 in if p = 65535 then Inl ''Could not find unused port'' else Inr p)"

definition allocatePort :: "'s addr_env \<Rightarrow> string \<Rightarrow> ('s, 'e, u16 outcome) act" where
  "allocatePort ad hostname =
     abind (ask (getNetworkInformation ad)) (\<lambda>ni. case getHostData ni hostname of
         Panics \<Rightarrow> aret Panics
       | Returns (h, _) \<Rightarrow> abind (alift (next_port (made (hd_Ports h)))) pret)"

section \<open>Clusters\<close>

definition register :: "NetworkInformation \<Rightarrow> string \<Rightarrow> string \<Rightarrow> string \<Rightarrow> u16 \<Rightarrow> NetworkInformation result outcome" where
  "register ni hostname clusterName ip port =
     (if made (ni_Clusters ni) clusterName \<noteq> None
      then Returns (Inl (''Cluster '' @ clusterName @ '' already exists on host '' @ hostname))
      else obind (getHostData ni hostname) (\<lambda>(h, ni).
        case ni_Clusters ni of
          None \<Rightarrow> Panics
        | Some clusters \<Rightarrow>
            (let ips = made (hd_IPs h);
                 h = \<lparr>hd_IPs = Some (if ip \<noteq> ''127.0.0.1'' then ips(ip \<mapsto> True) else ips), hd_Ports = Some ((made (hd_Ports h))(port \<mapsto> True))\<rparr>;
                 ni = set_host hostname h ni
             in Returns (Inr (ni\<lparr>ni_Clusters := Some (clusters(clusterName \<mapsto> Some \<lparr>nc_Host = hostname, nc_IP = ip, nc_Port = port\<rparr>))\<rparr>)))))"

definition addCluster :: "'s addr_env \<Rightarrow> string \<Rightarrow> string \<Rightarrow> string \<Rightarrow> u16 \<Rightarrow> ('s, addr_event, unit outcome) act" where
  "addCluster ad hostname clusterName ip port =
     abind (ask (getNetworkInformation ad)) (\<lambda>ni.
       panic_or (register ni hostname clusterName ip port) (\<lambda>ni. abind (saveNetworkInformation ad ni) (\<lambda>_. pret ())))"

text \<open>\<open>None\<close> if there is nothing to do.\<close>

definition release :: "NetworkInformation \<Rightarrow> string \<Rightarrow> NetworkInformation option outcome" where
  "release ni clusterName =
     (case made (ni_Clusters ni) clusterName of
        None \<Rightarrow> Returns None
      | Some None \<Rightarrow> Panics
      | Some (Some cluster) \<Rightarrow>
          (case made (ni_Hosts ni) (nc_Host cluster) of
             None \<Rightarrow> Returns None
           | Some None \<Rightarrow> Panics
           | Some (Some h) \<Rightarrow>
               (let h = \<lparr>hd_IPs = map_option (\<lambda>m. m(nc_IP cluster := None)) (hd_IPs h),
                          hd_Ports = map_option (\<lambda>m. m(nc_Port cluster := None)) (hd_Ports h)\<rparr>
                in Returns (Some ((set_host (nc_Host cluster) h ni)
                     \<lparr>ni_Clusters := map_option (\<lambda>m. m(clusterName := None)) (ni_Clusters ni)\<rparr>)))))"

definition removeCluster :: "'s addr_env \<Rightarrow> string \<Rightarrow> ('s, addr_event, unit outcome) act" where
  "removeCluster ad clusterName =
     abind (ask (getNetworkInformation ad)) (\<lambda>ni. case release ni clusterName of
         Panics \<Rightarrow> aret Panics
       | Returns None \<Rightarrow> pret ()
       | Returns (Some ni) \<Rightarrow> atry (saveNetworkInformation ad ni) (\<lambda>_. pret ()))"

section \<open>Lemmas\<close>

lemma made_simps [simp]: "made None = Map.empty" "made (Some m) = m"
  by (simp_all add: made_def)

lemma word_Suc_le: "p < (65535 :: u16) \<Longrightarrow> p + 1 \<le> q \<longleftrightarrow> p < q"
  by (simp add: word_le_nat_alt word_less_nat_alt next_u16 Suc_le_eq)

lemma port_loop_spec:
  "p \<le> port_loop used p \<and> (\<forall>q. p \<le> q \<and> q < port_loop used p \<longrightarrow> used q \<noteq> None) \<and> (port_loop used p < 65535 \<longrightarrow> used (port_loop used p) = None)"
proof (induction used p rule: port_loop.induct)
  case (1 used p)
  show ?case
  proof (cases "p < 65535 \<and> used p \<noteq> None")
    case True
    then have step: "port_loop used p = port_loop used (p + 1)" by (subst port_loop.simps) simp
    note IH = 1 [OF conjunct1 [OF True] conjunct2 [OF True]]
    have "p < port_loop used (p + 1)" using IH word_Suc_le [of p] True by blast
    moreover have "used q \<noteq> None" if "p \<le> q" "q < port_loop used (p + 1)" for q
      using that True IH word_Suc_le [of p q] by (cases "q = p") (auto simp: order.not_eq_order_implies_strict)
    ultimately show ?thesis unfolding step using IH by (blast intro: order.strict_implies_order)
  next
    case False
    then have "port_loop used p = p" by (subst port_loop.simps) simp
    with False show ?thesis by auto
  qed
qed

text \<open>What is known of a cluster and of a host.\<close>

definition cluster_of :: "NetworkInformation \<Rightarrow> string \<Rightarrow> ClusterData option" where
  "cluster_of ni c = (case made (ni_Clusters ni) c of Some d \<Rightarrow> d | None \<Rightarrow> None)"

definition host_ports :: "NetworkInformation \<Rightarrow> string \<Rightarrow> u16 \<rightharpoonup> bool" where
  "host_ports ni h = (case made (ni_Hosts ni) h of Some (Some x) \<Rightarrow> made (hd_Ports x) | _ \<Rightarrow> Map.empty)"

definition host_ips :: "NetworkInformation \<Rightarrow> string \<Rightarrow> string \<rightharpoonup> bool" where
  "host_ips ni h = (case made (ni_Hosts ni) h of Some (Some x) \<Rightarrow> made (hd_IPs x) | _ \<Rightarrow> Map.empty)"

definition well_formed :: "NetworkInformation \<Rightarrow> bool" where
  "well_formed ni \<longleftrightarrow> ni_Hosts ni \<noteq> None \<and> ni_Clusters ni \<noteq> None \<and> (\<forall>h. made (ni_Hosts ni) h \<noteq> Some None) \<and> (\<forall>c. made (ni_Clusters ni) c \<noteq> Some None)
     \<and> (\<forall>c d. cluster_of ni c = Some d \<longrightarrow> made (ni_Hosts ni) (nc_Host d) \<noteq> None)"

lemma well_formed_host:
  assumes "well_formed ni"
  obtains h ni' where "getHostData ni host = Returns (h, ni')" "made (hd_Ports h) = host_ports ni host" "made (hd_IPs h) = host_ips ni host"
    "ni_Clusters ni' = ni_Clusters ni" "ni_Hosts ni' = Some ((made (ni_Hosts ni))(host \<mapsto> Some h))"
proof -
  from assms obtain hs where hs: "ni_Hosts ni = Some hs" and ok: "hs host \<noteq> Some None" by (auto simp: well_formed_def)
  let ?ni = "\<lambda>h. set_host host h ni"
  have set: "ni_Clusters (?ni h) = ni_Clusters ni" "ni_Hosts (?ni h) = Some ((made (ni_Hosts ni))(host \<mapsto> Some h))" for h
    by (simp_all add: set_host_def hs)
  show thesis
  proof (cases "hs host")
    case None
    then show thesis
      using set by (intro that [of "\<lparr>hd_IPs = Some Map.empty, hd_Ports = Some Map.empty\<rparr>" "?ni \<lparr>hd_IPs = Some Map.empty, hd_Ports = Some Map.empty\<rparr>"])
        (simp_all add: getHostData_def hs host_ports_def host_ips_def Let_def)
  next
    case (Some x)
    with ok obtain h where h: "x = Some h" by (cases x) auto
    let ?h = "\<lparr>hd_IPs = Some (made (hd_IPs h)), hd_Ports = Some (made (hd_Ports h))\<rparr>"
    show thesis using set Some h by (intro that [of ?h "?ni ?h"]) (simp_all add: getHostData_def hs host_ports_def host_ips_def Let_def)
  qed
qed

lemma register_result:
  assumes "well_formed ni"
  shows "if cluster_of ni c = None
         then \<exists>ni'. register ni host c ip port = Returns (Inr ni') \<and> well_formed ni'
           \<and> cluster_of ni' = (cluster_of ni)(c \<mapsto> \<lparr>nc_Host = host, nc_IP = ip, nc_Port = port\<rparr>)
           \<and> host_ports ni' = (host_ports ni)(host := (host_ports ni host)(port \<mapsto> True))
           \<and> host_ips ni' = (if ip = ''127.0.0.1'' then host_ips ni else (host_ips ni)(host := (host_ips ni host)(ip \<mapsto> True)))
         else \<exists>e. register ni host c ip port = Returns (Inl e)"
proof (cases "cluster_of ni c")
  case None
  then have free: "made (ni_Clusters ni) c = None" using assms by (auto simp: cluster_of_def well_formed_def split: option.splits)
  obtain h ni1 where h: "getHostData ni host = Returns (h, ni1)" "made (hd_Ports h) = host_ports ni host" "made (hd_IPs h) = host_ips ni host"
    "ni_Clusters ni1 = ni_Clusters ni" "ni_Hosts ni1 = Some ((made (ni_Hosts ni))(host \<mapsto> Some h))"
    using well_formed_host [OF assms] by blast
  obtain m where m: "ni_Clusters ni = Some m" using assms by (auto simp: well_formed_def)
  let ?x = "\<lparr>hd_IPs = Some (if ip \<noteq> ''127.0.0.1'' then (host_ips ni host)(ip \<mapsto> True) else host_ips ni host), hd_Ports = Some ((host_ports ni host)(port \<mapsto> True))\<rparr>"
  let ?ni = "\<lparr>ni_Hosts = Some ((made (ni_Hosts ni))(host \<mapsto> Some ?x)), ni_Clusters = Some (m(c \<mapsto> Some \<lparr>nc_Host = host, nc_IP = ip, nc_Port = port\<rparr>))\<rparr>"
  have "register ni host c ip port = Returns (Inr ?ni)"
    using free h m by (cases ni1) (simp add: register_def set_host_def Let_def)
  moreover have "cluster_of ?ni = (cluster_of ni)(c \<mapsto> \<lparr>nc_Host = host, nc_IP = ip, nc_Port = port\<rparr>)"
    by (rule ext) (simp add: cluster_of_def m)
  moreover have "host_ports ?ni = (host_ports ni)(host := (host_ports ni host)(port \<mapsto> True))"
    by (rule ext) (simp add: host_ports_def)
  moreover have "host_ips ?ni = (if ip = ''127.0.0.1'' then host_ips ni else (host_ips ni)(host := (host_ips ni host)(ip \<mapsto> True)))"
    by (rule ext) (simp add: host_ips_def)
  moreover from calculation(2) assms have "well_formed ?ni"
    by (auto simp: well_formed_def m split: if_splits)
  ultimately show ?thesis using None by auto
next
  case (Some d)
  then have "made (ni_Clusters ni) c \<noteq> None" by (auto simp: cluster_of_def split: option.splits)
  with Some show ?thesis by (simp add: register_def)
qed

lemma release_result:
  assumes "well_formed ni"
  shows "case cluster_of ni c of
           None \<Rightarrow> release ni c = Returns None
         | Some d \<Rightarrow> \<exists>ni'. release ni c = Returns (Some ni') \<and> well_formed ni' \<and> cluster_of ni' = (cluster_of ni)(c := None)
             \<and> host_ports ni' = (host_ports ni)(nc_Host d := (host_ports ni (nc_Host d))(nc_Port d := None))
             \<and> host_ips ni' = (host_ips ni)(nc_Host d := (host_ips ni (nc_Host d))(nc_IP d := None))"
proof (cases "cluster_of ni c")
  case None
  then have "made (ni_Clusters ni) c = None" using assms by (auto simp: cluster_of_def well_formed_def split: option.splits)
  with None show ?thesis by (simp add: release_def)
next
  case (Some d)
  then have d: "made (ni_Clusters ni) c = Some (Some d)" by (auto simp: cluster_of_def split: option.splits)
  obtain m hs x where m: "ni_Clusters ni = Some m" and hs: "ni_Hosts ni = Some hs" and x: "hs (nc_Host d) = Some (Some x)"
    using assms Some unfolding well_formed_def by (metis made_simps(2) not_None_eq)
  let ?x = "\<lparr>hd_IPs = map_option (\<lambda>m. m(nc_IP d := None)) (hd_IPs x), hd_Ports = map_option (\<lambda>m. m(nc_Port d := None)) (hd_Ports x)\<rparr>"
  let ?ni = "\<lparr>ni_Hosts = Some (hs(nc_Host d \<mapsto> Some ?x)), ni_Clusters = Some (m(c := None))\<rparr>"
  have cut: "made (map_option (\<lambda>m. m(k := None)) q) = (made q)(k := None)" for k and q :: "('k \<rightharpoonup> 'v) option"
    by (cases q) auto
  have "release ni c = Returns (Some ?ni)"
    using d m hs x by (cases ni) (simp add: release_def set_host_def Let_def)
  moreover have "cluster_of ?ni = (cluster_of ni)(c := None)"
    by (rule ext) (simp add: cluster_of_def m)
  moreover have "host_ports ?ni = (host_ports ni)(nc_Host d := (host_ports ni (nc_Host d))(nc_Port d := None))"
    by (rule ext) (simp add: host_ports_def hs x cut)
  moreover have "host_ips ?ni = (host_ips ni)(nc_Host d := (host_ips ni (nc_Host d))(nc_IP d := None))"
    by (rule ext) (simp add: host_ips_def hs x cut)
  moreover from calculation(2) assms have "well_formed ?ni"
    by (auto simp: well_formed_def m hs split: if_splits)
  ultimately show ?thesis using Some by auto
qed

section \<open>The registry of clusters\<close>

text \<open>What a file can hold when clusters only get ports that were asked for in it, and are removed.\<close>

inductive registry :: "NetworkInformation \<Rightarrow> bool" where
  registry_empty: "registry no_addresses"
| registry_add: "registry ni \<Longrightarrow> getHostData ni host = Returns (h, ni0) \<Longrightarrow> next_port (made (hd_Ports h)) = Inr port \<Longrightarrow>
    register ni host c ip port = Returns (Inr ni') \<Longrightarrow> registry ni'"
| registry_remove: "registry ni \<Longrightarrow> release ni c = Returns (Some ni') \<Longrightarrow> registry ni'"

definition ports_owned :: "NetworkInformation \<Rightarrow> bool" where
  "ports_owned ni \<longleftrightarrow> (\<forall>c d. cluster_of ni c = Some d \<longrightarrow> host_ports ni (nc_Host d) (nc_Port d) \<noteq> None)
     \<and> (\<forall>c c' d d'. cluster_of ni c = Some d \<and> cluster_of ni c' = Some d' \<and> nc_Host d = nc_Host d' \<and> nc_Port d = nc_Port d' \<longrightarrow> c = c')"

lemma ports_ownedD:
  "ports_owned ni \<Longrightarrow> cluster_of ni c = Some d \<Longrightarrow> host_ports ni (nc_Host d) (nc_Port d) \<noteq> None"
  "ports_owned ni \<Longrightarrow> cluster_of ni c = Some d \<Longrightarrow> cluster_of ni c' = Some d' \<Longrightarrow> nc_Host d = nc_Host d' \<Longrightarrow> nc_Port d = nc_Port d' \<Longrightarrow> c = c'"
  unfolding ports_owned_def by blast+

lemma next_port_free: "next_port used = Inr p \<Longrightarrow> used p = None"
proof -
  assume p: "next_port used = Inr p"
  then have "port_loop used 6443 = p" "p \<noteq> 65535" by (auto simp: next_port_def Let_def split: if_splits)
  moreover have "unat p < 65536" using unsigned_less [of p] by simp
  with calculation(2) have "p < 65535" by (simp add: word_less_nat_alt word_unat_eq_iff)
  ultimately show "used p = None" using port_loop_spec [of 6443 used] by auto
qed

lemma registry_inv: "registry ni \<Longrightarrow> well_formed ni \<and> ports_owned ni"
proof (induction rule: registry.induct)
  case registry_empty
  then show ?case by (simp add: well_formed_def ports_owned_def cluster_of_def no_addresses_def)
next
  case (registry_add ni host h ni0 port c ip ni')
  from well_formed_host [of ni host] registry_add have h: "made (hd_Ports h) = host_ports ni host" by auto
  with next_port_free registry_add have free: "host_ports ni host port = None" by auto
  have new: "cluster_of ni' = (cluster_of ni)(c \<mapsto> \<lparr>nc_Host = host, nc_IP = ip, nc_Port = port\<rparr>)"
    "host_ports ni' = (host_ports ni)(host := (host_ports ni host)(port \<mapsto> True))" "well_formed ni'"
    using register_result [of ni c host ip port] registry_add by (auto split: if_splits)
  have other: "\<not> (nc_Host d = host \<and> nc_Port d = port)" if "cluster_of ni c' = Some d" for c' d
    using ports_ownedD(1) [of ni c' d] registry_add.IH that free by auto
  have "ports_owned ni'"
    unfolding ports_owned_def new using registry_add.IH other ports_ownedD [of ni] by (auto split: if_splits)
  with new(3) show ?case by blast
next
  case (registry_remove ni c ni')
  obtain d where d: "cluster_of ni c = Some d"
    using release_result [of ni c] registry_remove by (cases "cluster_of ni c") auto
  have new: "cluster_of ni' = (cluster_of ni)(c := None)"
    "host_ports ni' = (host_ports ni)(nc_Host d := (host_ports ni (nc_Host d))(nc_Port d := None))" "well_formed ni'"
    using release_result [of ni c] registry_remove d by auto
  have "ports_owned ni'"
    unfolding ports_owned_def new using registry_remove.IH d ports_ownedD [of ni] by (auto split: if_splits) metis
  with new(3) show ?case by blast
qed

section \<open>The search for an address\<close>

lemma find_ip_search:
  assumes "\<not> Contains subnet ((Increment ^^ n) a)"
  shows "\<exists>k. k \<le> n \<and> (\<forall>i < k. Contains subnet ((Increment ^^ i) a) \<and> used (IP_String ((Increment ^^ i) a)) \<noteq> None)
    \<and> (let b = (Increment ^^ k) a
       in if Contains subnet b then used (IP_String b) = None \<and> find_ip subnet used a = Some (Some b) else find_ip subnet used a = Some None)"
  using assms
proof (induction n arbitrary: a)
  case 0
  then show ?case by (intro exI [of _ 0]) (simp add: find_ip.simps)
next
  case (Suc n)
  show ?case
  proof (cases "Contains subnet a \<and> used (IP_String a) \<noteq> None")
    case False
    then show ?thesis by (intro exI [of _ 0]) (auto simp: find_ip.simps)
  next
    case True
    have later: "(Increment ^^ Suc i) a = (Increment ^^ i) (Increment a)" for i by (simp add: funpow_swap1)
    from Suc.prems have "\<not> Contains subnet ((Increment ^^ n) (Increment a))" by (simp only: later not_False_eq_True)
    from Suc.IH [OF this] obtain k where k: "k \<le> n"
      "\<forall>i < k. Contains subnet ((Increment ^^ i) (Increment a)) \<and> used (IP_String ((Increment ^^ i) (Increment a))) \<noteq> None"
      "let b = (Increment ^^ k) (Increment a)
       in if Contains subnet b then used (IP_String b) = None \<and> find_ip subnet used (Increment a) = Some (Some b) else find_ip subnet used (Increment a) = Some None"
      by blast
    have "find_ip subnet used a = find_ip subnet used (Increment a)" using True by (subst find_ip.simps) auto
    moreover have "Contains subnet ((Increment ^^ i) a) \<and> used (IP_String ((Increment ^^ i) a)) \<noteq> None" if "i < Suc k" for i
      using that True k(2) by (cases i) (simp_all add: later del: funpow.simps)
    ultimately show ?thesis using k(1,3) by (intro exI [of _ "Suc k"]) (simp only: later, simp)
  qed
qed

text \<open>No network has all addresses: one of four bytes has none of the long ones, and one of 16 bytes none that has four.\<close>

lemma not_contains_length: "length (if To4 a = [] then a else To4 a) \<noteq> length (fst (number_and_mask n)) \<Longrightarrow> \<not> Contains n a"
  by (auto simp: Contains_def Let_def split: prod.splits)

lemma outside: "\<exists>c. length c = 16 \<and> \<not> Contains subnet c"
proof (cases "length (fst (number_and_mask subnet)) = 16")
  case True
  have "is_v4 (v4_in_v6 @ [0, 0, 0, 0])" by (rule is_v4_append) simp
  from is_v4_To4 [OF this] True show ?thesis
    by (intro exI [of _ "v4_in_v6 @ [0, 0, 0, 0]"] conjI not_contains_length) (auto simp: v4_in_v6_def)
next
  case False
  have "replicate 12 (0 :: 8 word) ! 10 \<noteq> v4_in_v6 ! 10" by (simp add: v4_in_v6_def nth_append)
  then have "replicate 12 0 \<noteq> v4_in_v6" by metis
  then have "To4 (replicate 16 0) = []" by (simp add: To4_def)
  with False show ?thesis by (intro exI [of _ "replicate 16 0"] conjI not_contains_length) auto
qed

lemma nil_network: "Contains \<lparr>net_IP = [], net_Mask = m\<rparr> []"
  by (simp add: Contains_def number_and_mask_def To4_def)

lemma find_ip_nil:
  assumes "used ''<nil>'' \<noteq> None"
  shows "find_ip \<lparr>net_IP = [], net_Mask = m\<rparr> used [] = None"
proof (rule ccontr)
  let ?P = "\<lambda>subnet u a. subnet = \<lparr>net_IP = [], net_Mask = m\<rparr> \<and> u = used \<and> a = []"
  have "\<not> ?P subnet u a" if "find_ip subnet u a = Some y" for subnet u a y
  proof (rule find_ip.raw_induct [of "\<lambda>subnet u a y. \<not> ?P subnet u a", OF _ that])
    fix f subnet u a y
    assume IH: "\<And>subnet u a y. f subnet u a = Some y \<Longrightarrow> \<not> ?P subnet u a"
      and eq: "(if \<not> Contains subnet a then Some None else if u (IP_String a) = None then Some (Some a) else f subnet u (Increment a)) = Some y"
    show "\<not> ?P subnet u a"
    proof
      assume p: "?P subnet u a"
      with eq assms have "f subnet u a = Some y" by (simp add: nil_network IP_String_def Increment_def)
      with IH p show False by blast
    qed
  qed
  moreover assume "find_ip \<lparr>net_IP = [], net_Mask = m\<rparr> used [] \<noteq> None"
  ultimately show False by auto
qed

lemma nil_returns: "used ''<nil>'' = None \<Longrightarrow> find_ip \<lparr>net_IP = [], net_Mask = m\<rparr> used [] = Some (Some [])"
  by (subst find_ip.simps) (simp add: nil_network IP_String_def)

lemma entry_subnet_nil:
  assumes "entry_subnet n = Inr (subnet, b)" and "ParseIP (lip_Address n) = []"
  shows "\<exists>m. subnet = \<lparr>net_IP = [], net_Mask = m\<rparr>"
proof (cases "lip_Prefix n = 0")
  case True
  with assms show ?thesis by (auto simp: entry_subnet_def Let_def mask_bytes_def split: if_splits)
next
  case False
  let ?s = "lip_Address n @ ''/'' @ format_int (lip_Prefix n)"
  obtain r where "ParseCIDR ?s = Inr (r, subnet)" using assms False by (auto simp: entry_subnet_def Let_def go_res split: prod.splits)
  then obtain a l x where cut: "go_cut ?s ''/'' = Some (a, l)" and a: "ParseAddr a = Some x" and l: "list_all is_digit l"
    by (auto simp: ParseCIDR_def Let_def split: option.splits if_splits)
  have "a = lip_Address n"
  proof (rule ccontr)
    assume "a \<noteq> lip_Address n"
    then have "CHR ''/'' \<in> set (lip_Address n)"
      using cut go_cut_char [of "CHR ''/''" "lip_Address n" "format_int (lip_Prefix n)"] by auto
    then obtain u v where uv: "lip_Address n = u @ CHR ''/'' # v" "CHR ''/'' \<notin> set u" by (meson split_list_first)
    then have "l = v @ CHR ''/'' # format_int (lip_Prefix n)"
      using cut go_cut_char [of "CHR ''/''" u "v @ CHR ''/'' # format_int (lip_Prefix n)"] by simp
    with l show False by (simp add: is_digit_def)
  qed
  with a assms(2) ParseAddr_length [of a] show ?thesis by (cases x) (auto simp: ParseIP_def)
qed

lemma advance_start: "advance subnet e n a = Inr b \<Longrightarrow> b = (Increment ^^ n) a \<and> (\<forall>i < n. Contains subnet ((Increment ^^ Suc i) a))"
proof (induction n arbitrary: a)
  case (Suc n)
  have later: "(Increment ^^ Suc i) a = (Increment ^^ i) (Increment a)" for i by (simp add: funpow_swap1)
  from Suc have "b = (Increment ^^ n) (Increment a)" "\<forall>i < n. Contains subnet ((Increment ^^ Suc i) (Increment a))" "Contains subnet (Increment a)"
    by (auto split: if_splits)
  then have "Contains subnet ((Increment ^^ Suc i) a)" if "i < Suc n" for i
    using that by (cases i) (simp_all only: later, simp_all)
  with \<open>b = _\<close> show ?case by (auto simp: later simp del: funpow.simps)
qed simp

lemma Increments_nil: "(Increment ^^ n) [] = []"
  by (induction n) (simp_all add: Increment_def)

lemma first_addressD:
  assumes "first_address n = Inr (subnet, a)"
  shows "a = (Increment ^^ 200) (ParseIP (lip_Address n)) \<and> (\<forall>i < 200. Contains subnet ((Increment ^^ Suc i) (ParseIP (lip_Address n))))
    \<and> (if ParseIP (lip_Address n) = [] then a = [] \<and> (\<exists>m. subnet = \<lparr>net_IP = [], net_Mask = m\<rparr>) else length a = 16)"
proof -
  obtain b where b: "entry_subnet n = Inr (subnet, b)"
    and adv: "advance subnet (no_unused (IP_String b) (lip_Netmask n)) 200 (ParseIP (lip_Address n)) = Inr a"
    using assms by (auto simp: first_address_def go_res split: prod.splits)
  from advance_start [OF adv] have a: "a = (Increment ^^ 200) (ParseIP (lip_Address n))"
    "\<forall>i < 200. Contains subnet ((Increment ^^ Suc i) (ParseIP (lip_Address n)))" by blast+
  show ?thesis
  proof (cases "ParseIP (lip_Address n) = []")
    case True
    with a(1) have "a = []" by (simp only: Increments_nil)
    with a(2) True entry_subnet_nil [OF b True] show ?thesis by (simp only: Increments_nil) simp
  next
    case False
    with a Increments_value [of 200 "ParseIP (lip_Address n)"] ParseIP_length [OF False] show ?thesis by simp
  qed
qed

section \<open>An example\<close>

definition sample_libvirt :: "int libvirt" where
  "sample_libvirt = \<lparr>lv_NetworkLookupByName = (\<lambda>_ s. (Inl (LvError ErrNoNetwork ''no network''), s)),
     lv_ConnectListNetworks = (\<lambda>n s. (Inr (take n [''default'']), s)), lv_NetworkGetXMLDesc = (\<lambda>_ s. (Inr [], s)),
     lv_DomainLookupByName = (\<lambda>_ s. (Inl (LvError ErrNoDomain ''no domain''), s)), lv_DomainIsRunning = (\<lambda>_ s. (Inr True, s)),
     lv_DomainCreate = (\<lambda>_ s. (Inr (), s)), lv_DomainDestroy = (\<lambda>_ s. (Inr (), s)), lv_DomainUndefine = (\<lambda>_ s. (Inr (), s)),
     lv_DomainDefineXML = (\<lambda>_ s. (Inr \<lparr>lo_Name = ''d'', lo_UUID = []\<rparr>, s)),
     lv_ListAllDomains = (\<lambda>s. (Inr [\<lparr>lo_Name = ''c-worker-1'', lo_UUID = []\<rparr>, \<lparr>lo_Name = ''other-worker-1'', lo_UUID = []\<rparr>], s)),
     lv_ListActivePools = (\<lambda>s. (Inr [], s)), lv_PoolRefresh = (\<lambda>_ s. (Inr (), s)), lv_PoolGetXMLDesc = (\<lambda>_ s. (Inr [], s)),
     lv_PoolIsRunning = (\<lambda>_ s. (Inr True, s)), lv_PoolCreate = (\<lambda>_ s. (Inr (), s)), lv_PoolSetAutostart = (\<lambda>_ s. (Inr (), s)),
     lv_PoolLookupByName = (\<lambda>n s. (Inr \<lparr>lo_Name = n, lo_UUID = []\<rparr>, s)), lv_PoolDefineXML = (\<lambda>_ s. (Inr \<lparr>lo_Name = ''p'', lo_UUID = []\<rparr>, s)),
     lv_VolLookupByName = (\<lambda>p n s. (Inr \<lparr>lv_Pool = lo_Name p, lv_Name = n, lv_Key = n\<rparr>, s)), lv_VolDelete = (\<lambda>_ s. (Inr (), s)),
     lv_VolCreateXML = (\<lambda>p x s. (Inr \<lparr>lv_Pool = lo_Name p, lv_Name = [], lv_Key = []\<rparr>, s)), lv_VolUpload = (\<lambda>_ _ _ s. (Inr (), s)),
     lv_VolGetXMLDesc = (\<lambda>_ s. (Inr [], s)), lv_Capabilities = (\<lambda>s. (Inr [], s)), lv_Disconnect = (\<lambda>s. (Inr (), s)),
     lv_XmlNetwork = (\<lambda>_. Inr []), lv_XmlPoolPath = Inr, lv_XmlVolPath = Inr, lv_XmlArch = (\<lambda>_. Inr ''x86_64''), lv_PoolToXml = (\<lambda>n p. Inr (n @ p))\<rparr>"

section \<open>Properties\<close>


lemma first_cluster:
  "\<exists>ni. registry ni \<and> cluster_of ni = [''c'' \<mapsto> \<lparr>nc_Host = ''h'', nc_IP = ''10.0.0.9'', nc_Port = 6443\<rparr>]
     \<and> host_ips ni = (\<lambda>_. Map.empty)(''h'' := [''10.0.0.9'' \<mapsto> True]) \<and> well_formed ni"
proof -
  have wf: "well_formed no_addresses" using registry_inv [OF registry_empty] by blast
  have ports: "host_ports no_addresses ''h'' = Map.empty" by (simp add: host_ports_def no_addresses_def)
  obtain h ni' where h: "getHostData no_addresses ''h'' = Returns (h, ni')" "made (hd_Ports h) = Map.empty"
    using well_formed_host [OF wf, of "''h''"] ports by metis
  have "port_loop Map.empty 6443 = 6443" by (subst port_loop.simps) simp
  then have "next_port (made (hd_Ports h)) = Inr 6443" by (simp add: next_port_def h(2))
  moreover have "cluster_of no_addresses = Map.empty" "host_ips no_addresses = (\<lambda>_. Map.empty)"
    by (auto simp: cluster_of_def host_ips_def no_addresses_def)
  ultimately show ?thesis
    using register_result [OF wf, of "''c''" "''h''" "''10.0.0.9''" 6443] registry_add [OF registry_empty h(1), of 6443 "''c''" "''10.0.0.9''"] by auto
qed


text \<open>
  The addresses are not owned in the same way: an address that two clusters on a host share, such as a virtual IP or a load balancer, is free
  for the next cluster as soon as one of the two is deleted, while the other still uses it.
\<close>

theorem release_frees_shared_address:
  assumes "well_formed ni" and "cluster_of ni c = Some d" and "cluster_of ni c' = Some d'" and "c \<noteq> c'"
    and "nc_Host d = nc_Host d'" and "nc_IP d = nc_IP d'"
  shows "\<exists>ni'. release ni c = Returns (Some ni') \<and> cluster_of ni' c' = Some d' \<and> host_ips ni' (nc_Host d') (nc_IP d') = None"
  using release_result [OF assms(1), of c] assms by auto

theorem release_frees_shared_address_witness:
  "\<exists>ni ni' d'. release ni ''c'' = Returns (Some ni') \<and> cluster_of ni' ''b'' = Some d' \<and> nc_IP d' = ''10.0.0.9'' \<and> host_ips ni' ''h'' ''10.0.0.9'' = None"
proof -
  obtain ni where ni: "well_formed ni" "cluster_of ni = [''c'' \<mapsto> \<lparr>nc_Host = ''h'', nc_IP = ''10.0.0.9'', nc_Port = 6443\<rparr>]"
    using first_cluster by blast
  with register_result [OF ni(1), of "''b''" "''h''" "''10.0.0.9''" 6444]
  obtain n2 where n2: "well_formed n2" "cluster_of n2 ''b'' = Some \<lparr>nc_Host = ''h'', nc_IP = ''10.0.0.9'', nc_Port = 6444\<rparr>"
    "cluster_of n2 ''c'' = Some \<lparr>nc_Host = ''h'', nc_IP = ''10.0.0.9'', nc_Port = 6443\<rparr>" by auto
  from release_frees_shared_address [OF n2(1,3,2)] obtain ni' where "release n2 ''c'' = Returns (Some ni')"
    "cluster_of ni' ''b'' = Some \<lparr>nc_Host = ''h'', nc_IP = ''10.0.0.9'', nc_Port = 6444\<rparr>" "host_ips ni' ''h'' ''10.0.0.9'' = None" by auto
  then show ?thesis by (intro exI conjI) (assumption | simp)+
qed

text \<open>
  The address for the API server of a new cluster.  From the entry of a network whose address can be read, the search always ends.  It
  starts 200 addresses after that of the entry, stays inside the network, and finds the first one that is not used; it fails exactly if the
  network ends before.  If neither the address nor the netmask can be read, the text \<open>C34. <nil>\<close> is given out as an address once, and the next
  search does not end.
\<close>

theorem address_search_exact:
  assumes "first_address n = Inr (subnet, a)"
  shows "if ParseIP (lip_Address n) = []
         then find_ip subnet used a = (if used ''<nil>'' = None then Some (Some []) else None)
         else \<exists>k. let at = (\<lambda>i. (Increment ^^ i) (ParseIP (lip_Address n)))
              in 200 \<le> k \<and> (\<forall>i. 0 < i \<and> i < k \<longrightarrow> Contains subnet (at i)) \<and> (\<forall>i. 200 \<le> i \<and> i < k \<longrightarrow> used (IP_String (at i)) \<noteq> None) \<and>
                 (if Contains subnet (at k) then used (IP_String (at k)) = None \<and> find_ip subnet used a = Some (Some (at k))
                  else find_ip subnet used a = Some None)"
proof (cases "ParseIP (lip_Address n) = []")
  case True
  with first_addressD [OF assms] show ?thesis by (auto simp: find_ip_nil nil_returns)
next
  case False
  let ?at = "\<lambda>i. (Increment ^^ i) (ParseIP (lip_Address n))"
  from first_addressD [OF assms] False have a: "a = ?at 200" "\<forall>i < 200. Contains subnet (?at (Suc i))" "length a = 16" by auto
  obtain c where "length c = 16" "\<not> Contains subnet c" using outside by blast
  with a(3) Increment_reaches [of a c] obtain m where "\<not> Contains subnet ((Increment ^^ m) a)" by auto
  from find_ip_search [OF this, of used] obtain k where k:
    "\<forall>i < k. Contains subnet ((Increment ^^ i) a) \<and> used (IP_String ((Increment ^^ i) a)) \<noteq> None"
    "let b = (Increment ^^ k) a in if Contains subnet b then used (IP_String b) = None \<and> find_ip subnet used a = Some (Some b) else find_ip subnet used a = Some None"
    by blast
  have later: "(Increment ^^ i) a = ?at (i + 200)" for i by (simp only: a(1) funpow_add comp_apply)
  have "Contains subnet (?at i)" if "0 < i" "i < k + 200" for i
  proof (cases "i \<le> 200")
    case True
    with that a(2) show ?thesis by (cases i) auto
  next
    case False
    with that have "i - 200 < k" "i - 200 + 200 = i" by linarith+
    with k(1) later [of "i - 200"] show ?thesis by metis
  qed
  moreover have "used (IP_String (?at i)) \<noteq> None" if "200 \<le> i" "i < k + 200" for i
  proof -
    from that have "i - 200 < k" "i - 200 + 200 = i" by linarith+
    with k(1) later [of "i - 200"] show ?thesis by metis
  qed
  ultimately show ?thesis using False k(2) unfolding later Let_def by (auto intro!: exI [of _ "k + 200"])
qed

lemma Increment_last: "b + 1 \<noteq> 0 \<Longrightarrow> Increment (xs @ [b]) = xs @ [b + 1]"
  by (simp add: Increment_def)

lemma Increments_last: "i < 255 \<Longrightarrow> (Increment ^^ i) (xs @ [1]) = xs @ [of_nat (Suc i)]"
proof (induction i)
  case (Suc i)
  have "unat (of_nat (Suc (Suc i)) :: 8 word) = Suc (Suc i)" using Suc.prems by (simp only: unsigned_of_nat) (simp add: take_bit_nat_eq_self)
  then have "(of_nat (Suc (Suc i)) :: 8 word) \<noteq> 0" by (metis nat.distinct(1) unat_0)
  then have "of_nat (Suc i) + 1 \<noteq> (0 :: 8 word)" by (simp add: algebra_simps)
  with Suc show ?case by (simp add: Increment_last add.commute)
qed simp

lemma advance_inside: "(\<And>i. i < n \<Longrightarrow> Contains subnet ((Increment ^^ Suc i) a)) \<Longrightarrow> advance subnet e n a = Inr ((Increment ^^ n) a)"
proof (induction n arbitrary: a)
  case (Suc n)
  have "Contains subnet ((Increment ^^ Suc i) (Increment a))" if "i < n" for i
    using Suc.prems [of "Suc i"] that by (simp add: funpow_swap1)
  with Suc.IH [of "Increment a"] Suc.prems [of 0] show ?case by (simp add: funpow_swap1)
qed simp

lemma sample_texts: "go_join (map format_nat [10, 0, 0, 1]) ''.'' = ''10.0.0.1''" "go_join (map format_nat [255, 255, 255, 0]) ''.'' = ''255.255.255.0''"
  by (simp_all add: format_nat.simps digit_char_def char_of_def bit_0)

definition sample_entry :: LibvirtIP where
  "sample_entry = \<lparr>lip_Family = [], lip_Address = ''10.0.0.1'', lip_Netmask = ''255.255.255.0'', lip_Prefix = 0\<rparr>"

lemma sample_first:
  "\<exists>subnet. first_address sample_entry = Inr (subnet, v4_in_v6 @ [10, 0, 0, 201]) \<and> (\<forall>b. Contains subnet (v4_in_v6 @ [10, 0, 0, b]))"
proof -
  have ips: "ParseIP ''10.0.0.1'' = v4_in_v6 @ [10, 0, 0, 1]" "ParseIP ''255.255.255.0'' = v4_in_v6 @ [255, 255, 255, 0]"
    using parse_dotted [of 10 0 0 1] parse_dotted [of 255 255 255 0] by (simp_all add: sample_texts [simplified])
  let ?n = "\<lparr>net_IP = v4_in_v6 @ [10, 0, 0, 0], net_Mask = v4_in_v6 @ [255, 255, 255, 0]\<rparr>"
  have "mask_bytes (v4_in_v6 @ [10, 0, 0, 1]) (v4_in_v6 @ [255, 255, 255, 0]) = v4_in_v6 @ [10, 0, 0, 0]"
    by (simp add: mask_bytes_def v4_in_v6_def zip_append zip_replicate)
  then have sub: "entry_subnet sample_entry = Inr (?n, v4_in_v6 @ [10, 0, 0, 0])"
    by (simp add: entry_subnet_def sample_entry_def ips Let_def)
  have t4: "To4 (v4_in_v6 @ [a, b, c, d]) = [a, b, c, d]" for a b c d
    by (simp add: To4_def v4_in_v6_def)
  have len: "length v4_in_v6 = 12" by (simp add: v4_in_v6_def)
  have inside: "Contains ?n (v4_in_v6 @ [10, 0, 0, b])" for b
    by (simp add: Contains_def number_and_mask_def t4 Let_def len)
  have steps: "(Increment ^^ i) (v4_in_v6 @ [10, 0, 0, 1]) = v4_in_v6 @ [10, 0, 0, of_nat (Suc i)]" if "i < 255" for i
    using Increments_last [OF that, of "v4_in_v6 @ [10, 0, 0]"] by simp
  have "advance ?n e 200 (v4_in_v6 @ [10, 0, 0, 1]) = Inr ((Increment ^^ 200) (v4_in_v6 @ [10, 0, 0, 1]))" for e
  proof (rule advance_inside)
    fix i :: nat
    assume "i < 200"
    then have "(Increment ^^ Suc i) (v4_in_v6 @ [10, 0, 0, 1]) = v4_in_v6 @ [10, 0, 0, of_nat (Suc (Suc i))]" by (intro steps) simp
    with inside show "Contains ?n ((Increment ^^ Suc i) (v4_in_v6 @ [10, 0, 0, 1]))" by (simp del: funpow.simps)
  qed
  moreover have "(Increment ^^ 200) (v4_in_v6 @ [10, 0, 0, 1]) = v4_in_v6 @ [10, 0, 0, 201]" using steps [of 200] by simp
  ultimately have "first_address sample_entry = Inr (?n, v4_in_v6 @ [10, 0, 0, 201])"
    by (simp add: first_address_def sub) (simp add: sample_entry_def ips)
  with inside show ?thesis by blast
qed

theorem address_search_exact_witness:
  "\<exists>subnet a b. first_address sample_entry = Inr (subnet, a) \<and> find_ip subnet Map.empty a = Some (Some b) \<and> Contains subnet b"
proof -
  obtain subnet where s: "first_address sample_entry = Inr (subnet, v4_in_v6 @ [10, 0, 0, 201])" "Contains subnet (v4_in_v6 @ [10, 0, 0, 201])"
    using sample_first by blast
  then have some: "find_ip subnet Map.empty (v4_in_v6 @ [10, 0, 0, 201]) \<noteq> Some None" by (subst find_ip.simps) simp
  have "ParseIP (lip_Address sample_entry) \<noteq> []"
    using parse_dotted [of 10 0 0 1] by (simp add: sample_texts [simplified] sample_entry_def)
  with address_search_exact [OF s(1), of Map.empty] some s(1) show ?thesis
    by (auto simp: Let_def split: if_splits)
qed

text \<open>
  The names of at most no networks are asked for.  A libvirt that keeps to that answers with an empty list, and so a network that is missing is never
  told from a host without networks: the error for it cannot occur.
\<close>

theorem missing_network_unnoticed:
  assumes "\<And>n s s' names. lv_ConnectListNetworks l n s = (Inr names, s') \<Longrightarrow> length names \<le> n"
  shows "fst (doesNetworkExist l name s) \<noteq> Inr (False, True)"
  using assms [of 0] by (auto simp: doesNetworkExist_def lv_plain_def split: prod.splits sum.splits)

theorem missing_network_unnoticed_witness:
  "fst (doesNetworkExist sample_libvirt ''br0'' 0) = Inr (False, False)"
proof -
  have "fst (doesNetworkExist sample_libvirt ''br0'' 0) \<noteq> Inr (False, True)"
    by (rule missing_network_unnoticed) (auto simp: sample_libvirt_def)
  then show ?thesis by (simp add: doesNetworkExist_def lv_plain_def sample_libvirt_def checkLibvirtError_def)
qed

end
