(* ===== verification/Libvirt_Storage.thy ===== *)
theory Libvirt_Storage
  imports Libvirt_Network Kube_Api Ignition_Library
begin

text \<open>
  Storage and virtual machines of libvirt (\<^verbatim>\<open>pools.go\<close>, \<^verbatim>\<open>image.go\<close>, \<^verbatim>\<open>util.go\<close> and the texts of \<^verbatim>\<open>templates.go\<close> in
  \<^verbatim>\<open>pkg/cluster/driver/libvirt\<close>), and how the target of a connection is resolved (\<^verbatim>\<open>pkg/util/net.go\<close>).  \<open>lv_event\<close> is what is
  changed on the target; \<open>host_env\<close> is the machine that runs the command.
\<close>

datatype lv_event =
    EvPoolDir string
  | EvPoolDefine string
  | EvPoolStart string
  | EvPoolAutostart string
  | EvPoolRefresh string
  | EvVolDelete string string
  | EvVolCreate string string
  | EvVolUpload string string string
  | EvDomainDefine string
  | EvDomainStart string
  | EvDomainDestroy string
  | EvDomainUndefine string

definition lv_ask :: "('s, 'a) lv_call \<Rightarrow> ('s, 'e, 'a) act" where
  "lv_ask q = ask (lv_plain q)"

definition lv_do :: "'e \<Rightarrow> ('s, 'a) lv_call \<Rightarrow> ('s, 'e, 'a) act" where
  "lv_do ev q = perform ev (lv_plain q)"

section \<open>The target of a connection\<close>

record TargetURI =
  uri_Scheme :: string
  uri_Username :: string
  uri_Host :: string
  uri_Hostname :: string
  uri_Path :: string

record 's host_env =
  he_LookupHost :: "string \<Rightarrow> 's \<Rightarrow> string list result \<times> 's"
  he_InterfaceAddrs :: "'s \<Rightarrow> string list result \<times> 's"
  he_UserHomeDir :: "'s \<Rightarrow> string result \<times> 's"
  he_MkdirAll :: "string \<Rightarrow> 's \<Rightarrow> unit result \<times> 's"
  he_darwin :: bool
  he_BaseImage :: "string \<Rightarrow> string \<Rightarrow> 's \<Rightarrow> string result \<times> 's"

definition local_address :: "string list \<Rightarrow> string list \<Rightarrow> string \<Rightarrow> string \<times> bool" where
  "local_address localAddrs hostIPs first = (case find (\<lambda>h. h \<in> set localAddrs) hostIPs of Some h \<Rightarrow> (h, True) | None \<Rightarrow> (first, False))"

definition ResolveURIToIP :: "'s host_env \<Rightarrow> TargetURI \<Rightarrow> ('s, 'e, string \<times> bool) act" where
  "ResolveURIToIP he uri =
     (if uri_Hostname uri = [] then aret (''127.0.0.1'', True)
      else abind (ask (he_LookupHost he (uri_Hostname uri))) (\<lambda>hostIPs. case hostIPs of
             [] \<Rightarrow> afail (''Host '' @ uri_Hostname uri @ '' has no IPs'')
           | first # _ \<Rightarrow> abind (ask (he_InterfaceAddrs he)) (\<lambda>localAddrs. aret (local_address localAddrs hostIPs first))))"

section \<open>Texts\<close>

record Volume =
  vol_Key :: string
  vol_VName :: string
  vol_Path :: string
  vol_PathToBackingStore :: string
  vol_Size :: u64
  vol_StorageUnit :: string
  vol_Type :: string

record PortForward =
  pf_From :: u16
  pf_To :: u16
  pf_Listen :: string

record Network =
  nw_Type :: string
  nw_Network :: string
  nw_Bus :: string
  nw_Slot :: string
  nw_Subnet :: string
  nw_PortForwards :: "PortForward list"

record Domain =
  dm_Name :: string
  dm_Description :: string
  dm_VolumePool :: string
  dm_Volume :: string
  dm_IgnitionPath :: string
  dm_Hypervisor :: string
  dm_Networks :: "Network list"
  dm_Memory :: int
  dm_MemoryCapacityUnit :: string
  dm_CPUs :: int
  dm_CPUArch :: string
  dm_Smm :: bool
  dm_SecureBoot :: bool

definition onoff :: "bool \<Rightarrow> string" where "onoff b = (if b then ''on'' else ''off'')"

text \<open>The quotes of the attributes are \<^verbatim>\<open>CHR 39\<close>.\<close>

definition q1 :: "string \<Rightarrow> string" where "q1 s = CHR 39 # s @ [CHR 39]"

definition volumeTemplate :: "Volume \<Rightarrow> string" where
  "volumeTemplate v = '' '' @ CHR 10 # text_lines [
     ''<volume type='' @ q1 ''file'' @ ''>'',
     ''  <name>'' @ vol_VName v @ ''</name>'',
     ''  <capacity unit='' @ q1 (vol_StorageUnit v) @ ''>'' @ format_nat (unat (vol_Size v)) @ ''</capacity>'',
     ''  <target>'',
     ''    <format type='' @ q1 ''qcow2'' @ ''/>'',
     ''    <permissions>'',
     ''      <mode>0644</mode>'',
     ''    </permissions>'',
     ''    <compat>1.1</compat>'',
     ''    <clusterSize unit='' @ q1 ''B'' @ ''>65536</clusterSize>'',
     ''    <features/>'',
     ''  </target>'',
     ''  <backingStore>'',
     ''    <path>'' @ vol_PathToBackingStore v @ ''</path>'',
     ''    <format type='' @ q1 ''qcow2'' @ ''/>'',
     ''  </backingStore>'',
     ''</volume>'']"

definition volumeTemplateNoBacking :: "Volume \<Rightarrow> string" where
  "volumeTemplateNoBacking v = CHR 10 # text_lines [
     ''<volume type='' @ q1 ''file'' @ ''>'',
     ''  <name>'' @ vol_VName v @ ''</name>'',
     ''  <capacity unit='' @ q1 ''bytes'' @ ''>'' @ format_nat (unat (vol_Size v)) @ ''</capacity>'',
     ''  <target>'',
     ''    <format type='' @ q1 (vol_Type v) @ ''/>'',
     ''    <permissions>'',
     ''      <mode>0644</mode>'',
     ''    </permissions>'',
     ''    <compat>1.1</compat>'',
     ''    <features/>'',
     ''  </target>'',
     ''</volume>'']"

text \<open>A condition or a loop of the template leaves the line ends that surround its marks.\<close>

definition bridge_text :: "Network \<Rightarrow> string" where
  "bridge_text n = CHR 10 # ''  '' @
     (if nw_Type n = ''network''
      then CHR 10 # text_lines [
        ''    <interface type='' @ q1 ''network'' @ ''>'',
        ''      <source network='' @ q1 (nw_Network n) @ ''/>'',
        ''      <model type='' @ q1 ''virtio'' @ ''/>'',
        ''      <address type='' @ q1 ''pci'' @ '' domain='' @ q1 ''0x0000'' @ '' bus='' @ q1 (nw_Bus n) @ '' slot='' @ q1 (nw_Slot n) @ '' function='' @ q1 ''0x0'' @ '' />'',
        ''    </interface>''] @ ''  ''
      else []) @ [CHR 10]"

definition forward_text :: "PortForward \<Rightarrow> string" where
  "forward_text p = '',hostfwd=tcp:'' @ pf_Listen p @ '':'' @ format_nat (unat (pf_From p)) @ ''-:'' @ format_nat (unat (pf_To p))"

definition user_text :: "Network \<Rightarrow> string" where
  "user_text n = CHR 10 # ''  '' @
     (if nw_Type n = ''user''
      then CHR 10 # text_lines [
        ''    <qemu:arg value='' @ q1 ''-netdev'' @ ''/>'',
        ''    <qemu:arg value='' @ q1 (''user,id=mynet,net='' @ nw_Subnet n @ concat (map forward_text (nw_PortForwards n))) @ ''/>'',
        ''    <qemu:arg value='' @ q1 ''-device'' @ ''/>'',
        ''    <qemu:arg value='' @ q1 (''virtio-net,netdev=mynet,addr=0'' @ nw_Slot n @ ''.0'') @ ''/>''] @ ''  ''
      else []) @ [CHR 10]"

definition domainTemplate :: "Domain \<Rightarrow> string" where
  \<open>domainTemplate d =
     (let arm = (dm_CPUArch d = ''aarch64''); tab = CHR 9
      in CHR 10 # text_lines [
     ''<domain type='' @ q1 (dm_Hypervisor d) @ '' xmlns:qemu='' @ q1 ''http://libvirt.org/schemas/domain/qemu/1.0'' @ ''>'',
     ''  <name>'' @ dm_Name d @ ''</name>'',
     ''  <description>'' @ dm_Description d @ ''"</description>'',
     ''  <memory unit='' @ q1 (dm_MemoryCapacityUnit d) @ ''>'' @ format_int (dm_Memory d) @ ''</memory>'',
     ''  <vcpu placement='' @ q1 ''static'' @ ''>'' @ format_int (dm_CPUs d) @ ''</vcpu>'',
     ''  <resource>'',
     ''    <partition>/machine</partition>'',
     ''  </resource>'',
     ''  <os firmware="efi">'',
     ''    <firmware>'',
     ''      <feature enabled="'' @ yesno (dm_SecureBoot d) @ ''" name="enrolled-keys"/>'',
     ''      <feature enabled="'' @ yesno (dm_SecureBoot d) @ ''" name="secure-boot"/>'',
     ''    </firmware>'',
     ''    <boot dev='' @ q1 ''hd'' @ ''/>'',
     ''  '',
     ''      <type arch='' @ q1 (dm_CPUArch d) @ '' machine='' @ q1 (if arm then ''virt'' else ''q35'') @ ''>hvm</type>'',
     ''  '',
     ''  </os>'',
     ''  '']
     @ text_lines (if arm
        then [''    <cpu mode='' @ q1 ''host-passthrough'' @ '' match='' @ q1 ''exact'' @ '' check='' @ q1 ''partial'' @ ''>'',
              ''      <model fallback='' @ q1 ''forbid'' @ ''>cortex-a57</model>'',
              ''    </cpu>'',
              ''    <features>'',
              ''  '']
        else [tab # ''<cpu mode='' @ q1 ''host-passthrough'' @ ''>'',
              tab # ''    <feature policy='' @ q1 ''disable'' @ '' name='' @ q1 ''pdpe1gb'' @ ''/>'',
              tab # ''</cpu>'',
              ''    <features>'',
              [tab, tab] @ ''<smm state="'' @ onoff (dm_Smm d) @ ''"/>'',
              ''  ''])
     @ text_lines [
     tab # ''<acpi/>'',
     ''    <apic/>'',
     ''  </features>'',
     ''  <devices>'',
     ''    <disk type='' @ q1 ''volume'' @ '' device='' @ q1 ''disk'' @ ''>'',
     ''      <driver name='' @ q1 ''qemu'' @ '' type='' @ q1 ''qcow2'' @ ''/>'',
     ''      <source pool='' @ q1 (dm_VolumePool d) @ '' volume='' @ q1 (dm_Volume d) @ ''/>'',
     ''      <target dev='' @ q1 ''sda'' @ '' bus='' @ q1 ''scsi'' @ ''/>'',
     ''      <alias name='' @ q1 ''scsi0-0-0-0'' @ ''/>'',
     ''      <address type='' @ q1 ''drive'' @ '' controller='' @ q1 ''0'' @ '' bus='' @ q1 ''0'' @ '' target='' @ q1 ''0'' @ '' unit='' @ q1 ''0'' @ ''/>'',
     ''    </disk>'',
     ''    <controller type='' @ q1 ''scsi'' @ '' index='' @ q1 ''0'' @ '' model='' @ q1 ''virtio-scsi'' @ ''>'',
     ''      <alias name='' @ q1 ''scsi0'' @ ''/>'',
     ''      <address type='' @ q1 ''pci'' @ '' domain='' @ q1 ''0x0000'' @ '' bus='' @ q1 ''0x03'' @ '' slot='' @ q1 ''0x00'' @ '' function='' @ q1 ''0x0'' @ ''/>'',
     ''    </controller>'']
     @ concat (map bridge_text (dm_Networks d)) @ CHR 10 # text_lines [
     ''    <serial type='' @ q1 ''pty'' @ ''>'',
     ''      <target port='' @ q1 ''0'' @ ''/>'',
     ''    </serial>'',
     ''    <console type='' @ q1 ''pty'' @ ''>'',
     ''      <target type='' @ q1 ''serial'' @ '' port='' @ q1 ''0'' @ ''/>'',
     ''    </console>'']
     @ (if dm_CPUArch d = ''x86_64''
        then CHR 10 # text_lines [
          ''    <input type='' @ q1 ''keyboard'' @ '' bus='' @ q1 ''ps2'' @ ''>'',
          ''      <alias name='' @ q1 ''input1'' @ ''/>'',
          ''    </input>'']
        else []) @ CHR 10 # text_lines [
     ''    <audio id='' @ q1 ''1'' @ '' type='' @ q1 ''none'' @ ''/>'',
     ''    <memballoon model='' @ q1 ''virtio'' @ ''>'',
     ''      <alias name='' @ q1 ''balloon0'' @ ''/>'',
     ''      <address type='' @ q1 ''pci'' @ '' domain='' @ q1 ''0x0000'' @ '' bus='' @ q1 ''0x05'' @ '' slot='' @ q1 ''0x00'' @ '' function='' @ q1 ''0x0'' @ ''/>'',
     ''    </memballoon>'',
     ''    <rng model='' @ q1 ''virtio'' @ ''>'',
     ''      <backend model='' @ q1 ''random'' @ ''>/dev/urandom</backend>'',
     ''      <alias name='' @ q1 ''rng0'' @ ''/>'',
     ''    </rng>'',
     ''  </devices>'',
     ''  <qemu:commandline>'']
     @ (if dm_IgnitionPath d \<noteq> []
        then CHR 10 # text_lines [
          ''    <qemu:arg value='' @ q1 ''-fw_cfg'' @ ''/>'',
          ''    <qemu:arg value='' @ q1 (''name=opt/com.coreos/config,file='' @ dm_IgnitionPath d) @ ''/>'']
        else []) @ CHR 10 # concat (map user_text (dm_Networks d)) @ CHR 10 # text_lines [
     ''  </qemu:commandline>'',
     ''</domain>''])\<close>

section \<open>Storage pools\<close>

definition DefaultStoragePool :: string where "DefaultStoragePool = ''images''"
definition StoragePoolPath :: string where "StoragePoolPath = ''/var/lib/libvirt/images''"
definition UserStoragePoolPath :: string where "UserStoragePoolPath = ''.local/share/libvirt/images''"

definition refreshStoragePools :: "'s libvirt \<Rightarrow> ('s, lv_event, unit) act" where
  "refreshStoragePools l = abind (lv_ask (lv_ListActivePools l)) (\<lambda>pools. afor pools (\<lambda>pool. lv_do (EvPoolRefresh (lo_Name pool)) (lv_PoolRefresh l pool)))"

text \<open>A home directory that cannot be found gives an empty path and no error.\<close>

definition getDefaultPoolPath :: "'s host_env \<Rightarrow> TargetURI \<Rightarrow> ('s, 'e, string \<times> bool) act" where
  "getDefaultPoolPath he uri =
     abind (ResolveURIToIP he uri) (\<lambda>(_, isLocal).
       if go_contains (uri_Path uri) ''session'' \<and> isLocal \<and> he_darwin he
       then atry (ask (he_UserHomeDir he)) (\<lambda>r. case r of
              Inl _ \<Rightarrow> aret ([], isLocal)
            | Inr homedir \<Rightarrow> aret (homedir @ ''/'' @ UserStoragePoolPath, isLocal))
       else aret (StoragePoolPath, isLocal))"

text \<open>A description that cannot be read gives an empty path and no error.\<close>

definition GetStoragePoolPath :: "'s libvirt \<Rightarrow> lv_object \<Rightarrow> ('s, 'e, string) act" where
  "GetStoragePoolPath l pool =
     abind (lv_ask (lv_PoolGetXMLDesc l pool)) (\<lambda>poolDesc. aret (case lv_XmlPoolPath l poolDesc of Inl _ \<Rightarrow> [] | Inr path \<Rightarrow> path))"

definition StartStoragePool :: "'s libvirt \<Rightarrow> lv_object \<Rightarrow> ('s, lv_event, unit) act" where
  "StartStoragePool l pool =
     abind (lv_ask (lv_PoolIsRunning l pool)) (\<lambda>running.
       if running then aret ()
       else abind (lv_do (EvPoolStart (lo_Name pool)) (lv_PoolCreate l pool)) (\<lambda>_.
            abind (lv_do (EvPoolAutostart (lo_Name pool)) (lv_PoolSetAutostart l pool)) (\<lambda>_.
              refreshStoragePools l)))"

fun pool_with_path :: "'s libvirt \<Rightarrow> string \<Rightarrow> lv_object list \<Rightarrow> ('s, 'e, lv_object option) act" where
  "pool_with_path l poolPath [] = aret None"
| "pool_with_path l poolPath (p # ps) =
     abind (GetStoragePoolPath l p) (\<lambda>thisPoolPath.
       if thisPoolPath = poolPath then aret (if poolPath \<noteq> [] then Some p else None) else pool_with_path l poolPath ps)"

definition FindStoragePool :: "'s libvirt \<Rightarrow> string \<Rightarrow> string \<Rightarrow> ('s, lv_event, lv_object option) act" where
  "FindStoragePool l storagePool poolPath =
     (let poolName = (if storagePool \<noteq> [] then storagePool else DefaultStoragePool)
      in abind (ask (keep (lv_PoolLookupByName l poolName))) (\<lambda>r. case r of
           Inr pool \<Rightarrow> abind (StartStoragePool l pool) (\<lambda>_. aret (Some pool))
         | Inl err \<Rightarrow>
             if \<not> checkLibvirtError err ErrNoStoragePool then afail (lv_text err)
             else abind (lv_ask (lv_ListActivePools l)) (pool_with_path l poolPath)))"

definition CreateStoragePool :: "'s libvirt \<Rightarrow> string \<Rightarrow> string \<Rightarrow> ('s, lv_event, lv_object) act" where
  "CreateStoragePool l name path =
     abind (alift (lv_PoolToXml l name path)) (\<lambda>xml.
     abind (lv_do (EvPoolDefine xml) (lv_PoolDefineXML l xml)) (\<lambda>pool.
     abind (StartStoragePool l pool) (\<lambda>_.
       aret pool)))"

definition FindOrCreateStoragePool :: "'s libvirt \<Rightarrow> 's host_env \<Rightarrow> TargetURI \<Rightarrow> string \<Rightarrow> ('s, lv_event, lv_object) act" where
  "FindOrCreateStoragePool l he uri storagePool =
     abind (getDefaultPoolPath he uri) (\<lambda>(poolPath, isLocal).
     abind (if isLocal then perform (EvPoolDir poolPath) (he_MkdirAll he poolPath) else aret ()) (\<lambda>_.
     abind (FindStoragePool l storagePool poolPath) (\<lambda>pool. case pool of
         Some pool \<Rightarrow> aret pool
       | None \<Rightarrow> CreateStoragePool l DefaultStoragePool poolPath)))"

section \<open>Volumes\<close>

definition delete_vol :: "'s libvirt \<Rightarrow> lv_object \<Rightarrow> lv_volume \<Rightarrow> ('s, lv_event, unit) act" where
  "delete_vol l pool vol = lv_do (EvVolDelete (lo_Name pool) (lv_Name vol)) (lv_VolDelete l vol)"

definition deleteVolume :: "'s libvirt \<Rightarrow> lv_object \<Rightarrow> string \<Rightarrow> ('s, lv_event, unit) act" where
  "deleteVolume l pool volName =
     abind (ask (keep (lv_VolLookupByName l pool volName))) (\<lambda>r. case r of
         Inl err \<Rightarrow> if checkLibvirtError err ErrNoStorageVol then aret () else afail (lv_text err)
       | Inr vol \<Rightarrow> delete_vol l pool vol)"

text \<open>\<^verbatim>\<open>filepath.Join\<close> of two clean paths.\<close>

definition path_join :: "string \<Rightarrow> string \<Rightarrow> string" where
  "path_join a b = (if a = [] then b else a @ ''/'' @ b)"

definition zero_Volume :: Volume where
  "zero_Volume = \<lparr>vol_Key = [], vol_VName = [], vol_Path = [], vol_PathToBackingStore = [], vol_Size = 0, vol_StorageUnit = [], vol_Type = []\<rparr>"

text \<open>What is there under the name is deleted first; with \<open>reupload\<close> the data goes into a volume that appeared meanwhile.\<close>

definition TransferToPool ::
  "'s libvirt \<Rightarrow> string \<Rightarrow> lv_object \<Rightarrow> string \<Rightarrow> string \<Rightarrow> bool \<Rightarrow> u64 \<Rightarrow> ('s, lv_event, unit) act" where
  "TransferToPool l data pool volumeName volType reupload amount =
     (let xml = volumeTemplateNoBacking (zero_Volume\<lparr>vol_VName := volumeName, vol_Size := amount, vol_Type := volType\<rparr>);
          upload = (\<lambda>vol. lv_do (EvVolUpload (lo_Name pool) (lv_Name vol) data) (lv_VolUpload l vol data amount))
      in abind (ask (keep (lv_VolLookupByName l pool volumeName))) (\<lambda>r.
         abind (case r of
                  Inr vol \<Rightarrow> delete_vol l pool vol
                | Inl err \<Rightarrow> if checkLibvirtError err ErrNoStorageVol then aret () else afail (lv_text err)) (\<lambda>_.
         abind (perform (EvVolCreate (lo_Name pool) xml) (keep (lv_VolCreateXML l pool xml))) (\<lambda>r. case r of
             Inr vol \<Rightarrow> upload vol
           | Inl err \<Rightarrow>
               if \<not> checkLibvirtError err ErrStorageVolExist then afail (lv_text err)
               else if \<not> reupload then aret ()
               else abind (lv_ask (lv_VolLookupByName l pool volumeName)) upload))))"

definition TransferBaseImage :: "'s libvirt \<Rightarrow> 's host_env \<Rightarrow> string \<Rightarrow> lv_object \<Rightarrow> string \<Rightarrow> string \<Rightarrow> ('s, lv_event, unit) act" where
  "TransferBaseImage l he imageName pool volumeName arch =
     abind (ask (he_BaseImage he imageName arch)) (\<lambda>tarStream. TransferToPool l tarStream pool volumeName ''qcow2'' False 0)"

definition DoesBaseImageExist :: "'s libvirt \<Rightarrow> lv_object \<Rightarrow> string \<Rightarrow> ('s, 'e, bool) act" where
  "DoesBaseImageExist l pool bootVolumeName =
     abind (ask (keep (lv_VolLookupByName l pool bootVolumeName))) (\<lambda>r.
       aret (case r of Inl _ \<Rightarrow> False | Inr vol \<Rightarrow> lv_Name vol = bootVolumeName \<and> lv_Pool vol = lo_Name pool))"

definition uploadInitialIgnitionFile :: "'s libvirt \<Rightarrow> string \<Rightarrow> lv_object \<Rightarrow> string \<Rightarrow> ('s, lv_event, unit) act" where
  "uploadInitialIgnitionFile l ignitionBytes pool volumeName =
     TransferToPool l ignitionBytes pool volumeName ''raw'' True (of_nat (length ignitionBytes))"

definition getVolumePath :: "'s libvirt \<Rightarrow> lv_object \<Rightarrow> string \<Rightarrow> ('s, 'e, string) act" where
  "getVolumePath l pool volumeName =
     abind (lv_ask (lv_VolLookupByName l pool volumeName)) (\<lambda>vol.
     abind (lv_ask (lv_VolGetXMLDesc l vol)) (\<lambda>volXml. alift (lv_XmlVolPath l volXml)))"

text \<open>The place of the first letter, of the text with a \<^verbatim>\<open>B\<close> at its end (letters of ASCII).\<close>

definition is_letter :: "char \<Rightarrow> bool" where
  "is_letter c = (let n = of_char c :: nat in 65 \<le> n \<and> n \<le> 90 \<or> 97 \<le> n \<and> n \<le> 122)"

definition createLibvirtCapacityInfo :: "string \<Rightarrow> (string \<times> int) result" where
  "createLibvirtCapacityInfo kubernetesResourceString =
     (let s = kubernetesResourceString @ ''B'';
          sizeString = takeWhile (\<lambda>c. \<not> is_letter c) s; unit = dropWhile (\<lambda>c. \<not> is_letter c) s
      in case atoi sizeString of
           None \<Rightarrow> Inl (''strconv.Atoi: parsing '' @ sizeString)
         | Some amount \<Rightarrow> Inr (unit, amount))"

definition node_volume :: "string \<Rightarrow> string \<Rightarrow> string \<Rightarrow> string \<Rightarrow> int \<Rightarrow> Volume" where
  "node_volume poolPath ocneVolumeName bootVolumeName resourceUnits amount =
     \<lparr>vol_Key = path_join poolPath ocneVolumeName, vol_VName = ocneVolumeName, vol_Path = path_join poolPath ocneVolumeName,
      vol_PathToBackingStore = path_join poolPath bootVolumeName, vol_Size = of_int amount, vol_StorageUnit = resourceUnits, vol_Type = ''qcow2''\<rparr>"

definition createVolumeFromImagesPool :: "string \<Rightarrow> 's libvirt \<Rightarrow> lv_object \<Rightarrow> string \<Rightarrow> string \<Rightarrow> ('s, lv_event, unit) act" where
  "createVolumeFromImagesPool storage l pool ocneVolumeName bootVolumeName =
     abind (GetStoragePoolPath l pool) (\<lambda>poolPath.
     abind (alift (createLibvirtCapacityInfo storage)) (\<lambda>(resourceUnits, amount).
       let xml = volumeTemplate (node_volume poolPath ocneVolumeName bootVolumeName resourceUnits amount)
       in abind (lv_do (EvVolCreate (lo_Name pool) xml) (lv_VolCreateXML l pool xml)) (\<lambda>_. aret ())))"

section \<open>Virtual machines\<close>

definition getDomainName :: "string \<Rightarrow> string \<Rightarrow> int \<Rightarrow> string" where
  "getDomainName clusterName role num = clusterName @ ''-'' @ role @ ''-'' @ format_int num"

definition getResourceNames :: "string \<Rightarrow> string \<times> string" where
  "getResourceNames libvirtDomainName = (libvirtDomainName @ ''.qcow2'', libvirtDomainName @ ''-init.ign'')"

definition joined_parts :: "string list \<Rightarrow> string" where
  "joined_parts parts = trim_suffix (concat (map (\<lambda>p. p @ ''-'') parts)) ''-''"

definition isDomainFromCluster :: "string \<Rightarrow> string \<Rightarrow> bool" where
  "isDomainFromCluster libvirtDomainName clusterName =
     (let parts = go_split libvirtDomainName ''-''; n = length parts
      in if n < 3 then False
         else if atoi (parts ! (n - 1)) = None then False
         else if parts ! (n - 2) = ''worker'' then clusterName = joined_parts (take (n - 2) parts)
         else if 3 < n \<and> parts ! (n - 2) = ''plane'' \<and> parts ! (n - 3) = ''control'' then clusterName = joined_parts (take (n - 3) parts)
         else False)"

definition setDomainRunningIfExists :: "'s libvirt \<Rightarrow> string \<Rightarrow> ('s, lv_event, bool \<times> bool) act" where
  "setDomainRunningIfExists l name =
     abind (ask (keep (lv_DomainLookupByName l name))) (\<lambda>r. case r of
         Inl err \<Rightarrow> if checkLibvirtError err ErrNoDomain then aret (False, False) else afail (lv_text err)
       | Inr vm \<Rightarrow>
           abind (lv_ask (lv_DomainIsRunning l vm)) (\<lambda>running.
             if running then aret (True, True)
             else abind (lv_do (EvDomainStart (lo_Name vm)) (lv_DomainCreate l vm)) (\<lambda>_. aret (True, False))))"

definition removeDomain :: "'s libvirt \<Rightarrow> string \<Rightarrow> ('s, lv_event, unit) act" where
  "removeDomain l name =
     abind (ask (keep (lv_DomainLookupByName l name))) (\<lambda>r. case r of
         Inl err \<Rightarrow> if checkLibvirtError err ErrNoDomain then aret () else afail (lv_text err)
       | Inr vm \<Rightarrow>
           abind (perform (EvDomainDestroy (lo_Name vm)) (keep (lv_DomainDestroy l vm))) (\<lambda>d.
             if (case d of Inl err \<Rightarrow> \<not> checkLibvirtError err ErrOperationInvalid | Inr _ \<Rightarrow> False)
             then afail (case d of Inl err \<Rightarrow> lv_text err | Inr _ \<Rightarrow> [])
             else lv_do (EvDomainUndefine (lo_Name vm)) (lv_DomainUndefine l vm)))"

definition getLibvirtCPUArchitecture :: "'s libvirt \<Rightarrow> ('s, 'e, string) act" where
  "getLibvirtCPUArchitecture l = abind (lv_ask (lv_Capabilities l)) (\<lambda>xml. alift (lv_XmlArch l xml))"

text \<open>The domain is started also if it could not be defined (without a name, then), and whether that succeeds is not looked at.\<close>

definition createDomainFromTemplate :: "int \<Rightarrow> string \<Rightarrow> 's libvirt \<Rightarrow> Domain \<Rightarrow> ('s, lv_event, unit) act" where
  "createDomainFromTemplate cpus memory l domainInformation =
     abind (alift (createLibvirtCapacityInfo memory)) (\<lambda>(resourceUnits, amount).
     abind (getLibvirtCPUArchitecture l) (\<lambda>arch.
       let xml = domainTemplate (domainInformation\<lparr>dm_CPUs := cpus, dm_Memory := amount, dm_MemoryCapacityUnit := resourceUnits, dm_CPUArch := arch\<rparr>);
           start = (\<lambda>vm. lv_do (EvDomainStart (lo_Name vm)) (lv_DomainCreate l vm))
       in atry (lv_do (EvDomainDefine xml) (lv_DomainDefineXML l xml)) (\<lambda>r. case r of
            Inr vm \<Rightarrow> atry (start vm) (\<lambda>_. aret ())
          | Inl err \<Rightarrow> atry (start \<lparr>lo_Name = [], lo_UUID = []\<rparr>) (\<lambda>_. afail err))))"

definition isClusterUp :: "'s kube_api \<Rightarrow> ('s \<Rightarrow> unit result \<times> 's) \<Rightarrow> bool \<Rightarrow> ('s, 'e, bool) act" where
  "isClusterUp ka getKubeClient wait =
     abind (ask getKubeClient) (\<lambda>_.
     abind (if wait then abind (wait_for (WaitUntilGetNodesSucceeds (ka_node ka))) (\<lambda>_. aret ())
            else abind (ask (na_GetNodeList (ka_node ka))) (\<lambda>_. aret ())) (\<lambda>_.
       aret True))"

section \<open>Names of machines\<close>

lemma go_join_append: "xs \<noteq> [] \<Longrightarrow> ys \<noteq> [] \<Longrightarrow> go_join (xs @ ys) sep = go_join xs sep @ sep @ go_join ys sep"
  by (induction xs rule: induct_list012) (auto simp: go_join_Cons)

lemma go_split_append: "go_split (a @ c # b) [c] = go_split a [c] @ go_split b [c]"
proof -
  let ?xs = "go_split a [c] @ go_split b [c]"
  have "go_join ?xs [c] = a @ c # b" by (simp add: go_join_append go_join_split)
  moreover have "go_split (go_join ?xs [c]) [c] = ?xs" by (rule go_split_join_char) (use go_split_no_sep [of a c] go_split_no_sep [of b c] in auto)
  ultimately show ?thesis by simp
qed

lemma joined_parts_join: "ps \<noteq> [] \<Longrightarrow> joined_parts ps = go_join ps ''-''"
proof -
  have "ps \<noteq> [] \<Longrightarrow> concat (map (\<lambda>p. p @ ''-'') ps) = go_join ps ''-'' @ ''-''" for ps
    by (induction ps rule: induct_list012) simp_all
  then show "ps \<noteq> [] \<Longrightarrow> joined_parts ps = go_join ps ''-''" by (simp add: joined_parts_def trim_suffix_def)
qed

lemma last_parts: "2 \<le> length ps \<Longrightarrow> ps = take (length ps - 2) ps @ [ps ! (length ps - 2), ps ! (length ps - 1)]"
proof (induction ps rule: rev_induct)
  case (snoc k ps)
  then show ?case by (cases ps rule: rev_cases) (simp_all add: nth_append)
qed simp

lemma last_3_parts:
  assumes "3 \<le> length ps"
  shows "ps = take (length ps - 3) ps @ [ps ! (length ps - 3), ps ! (length ps - 2), ps ! (length ps - 1)]"
proof -
  have "Suc (length ps - 3) = length ps - 2" using assms by linarith
  with take_Suc_conv_app_nth [of "length ps - 3" ps] assms
  have "take (length ps - 2) ps = take (length ps - 3) ps @ [ps ! (length ps - 3)]" by simp
  with last_parts [of ps] assms show ?thesis by simp
qed

lemma no_dash_split: "CHR ''-'' \<notin> set k \<Longrightarrow> go_split (c @ ''-worker-'' @ k) ''-'' = go_split c ''-'' @ [''worker'', k]"
  "CHR ''-'' \<notin> set k \<Longrightarrow> go_split (c @ ''-control-plane-'' @ k) ''-'' = go_split c ''-'' @ [''control'', ''plane'', k]"
proof -
  assume k: "CHR ''-'' \<notin> set k"
  have "c @ ''-worker-'' @ k = c @ CHR ''-'' # (''worker'' @ CHR ''-'' # k)" by simp
  then show "go_split (c @ ''-worker-'' @ k) ''-'' = go_split c ''-'' @ [''worker'', k]"
    using k by (simp only: go_split_append) (simp add: go_split_char_simple)
  have "c @ ''-control-plane-'' @ k = c @ CHR ''-'' # (''control'' @ CHR ''-'' # (''plane'' @ CHR ''-'' # k))" by simp
  then show "go_split (c @ ''-control-plane-'' @ k) ''-'' = go_split c ''-'' @ [''control'', ''plane'', k]"
    using k by (simp only: go_split_append) (simp add: go_split_char_simple)
qed

lemma parts_of: "go_split d ''-'' = ps @ qs \<Longrightarrow> ps \<noteq> [] \<Longrightarrow> qs \<noteq> [] \<Longrightarrow> d = joined_parts ps @ ''-'' @ go_join qs ''-''"
  by (metis go_join_append go_join_split joined_parts_join not_Cons_self2)

lemma isDomainFromCluster_iff:
  "isDomainFromCluster d c \<longleftrightarrow>
     (\<exists>role k. (role = ControlPlaneRole \<or> role = WorkerRole) \<and> CHR ''-'' \<notin> set k \<and> atoi k \<noteq> None \<and> d = c @ ''-'' @ role @ ''-'' @ k)"
  (is "_ = ?R")
proof
  let ?ps = "go_split d ''-''" let ?n = "length ?ps"
  assume own: "isDomainFromCluster d c"
  then have n: "3 \<le> ?n" and k: "atoi (?ps ! (?n - 1)) \<noteq> None" by (auto simp: isDomainFromCluster_def Let_def split: if_splits)
  have "?ps ! (?n - 1) \<in> set ?ps" using n by (intro nth_mem) linarith
  then have dash: "CHR ''-'' \<notin> set (?ps ! (?n - 1))" using go_split_no_sep by blast
  consider (worker) "?ps ! (?n - 2) = ''worker''" "c = joined_parts (take (?n - 2) ?ps)"
    | (plane) "3 < ?n" "?ps ! (?n - 2) = ''plane''" "?ps ! (?n - 3) = ''control''" "c = joined_parts (take (?n - 3) ?ps)"
    using own by (auto simp: isDomainFromCluster_def Let_def split: if_splits)
  then show ?R
  proof cases
    case worker
    with last_parts [of ?ps] n have "?ps = take (?n - 2) ?ps @ [''worker'', ?ps ! (?n - 1)]" by simp
    from parts_of [OF this] n worker(2) have "d = c @ ''-'' @ WorkerRole @ ''-'' @ ?ps ! (?n - 1)" by (force simp: WorkerRole_def)
    with k dash show ?thesis by blast
  next
    case plane
    with last_3_parts [of ?ps] n have "?ps = take (?n - 3) ?ps @ [''control'', ''plane'', ?ps ! (?n - 1)]" by simp
    from parts_of [OF this] plane(1,4) have "d = c @ ''-'' @ ControlPlaneRole @ ''-'' @ ?ps ! (?n - 1)" by (force simp: ControlPlaneRole_def)
    with k dash show ?thesis by blast
  qed
next
  assume ?R
  then obtain role k where r: "role = ControlPlaneRole \<or> role = WorkerRole" "CHR ''-'' \<notin> set k" "atoi k \<noteq> None" "d = c @ ''-'' @ role @ ''-'' @ k" by blast
  have one: "1 \<le> length (go_split c ''-'')" using go_split_nonempty [of "''-''" c] by (cases "go_split c ''-''") auto
  have c: "joined_parts (go_split c ''-'') = c" by (simp add: joined_parts_join go_join_split)
  from r(1) show "isDomainFromCluster d c"
  proof (elim disjE)
    assume "role = ControlPlaneRole"
    with r no_dash_split(2) [of k c] have "go_split d ''-'' = go_split c ''-'' @ [''control'', ''plane'', k]" by (simp add: ControlPlaneRole_def)
    with r(3) one c show ?thesis by (simp add: isDomainFromCluster_def Let_def nth_append)
  next
    assume "role = WorkerRole"
    with r no_dash_split(1) [of k c] have "go_split d ''-'' = go_split c ''-'' @ [''worker'', k]" by (simp add: WorkerRole_def)
    with r(3) one c show ?thesis by (simp add: isDomainFromCluster_def Let_def nth_append)
  qed
qed

lemma own_domain_unique:
  assumes "isDomainFromCluster d c1" and "isDomainFromCluster d c2"
  shows "c1 = c2"
proof -
  have parts: "\<exists>qs. go_split d ''-'' = go_split c ''-'' @ qs \<and> (\<exists>k. qs = [''control'', ''plane'', k] \<or> qs = [''worker'', k])"
    if "isDomainFromCluster d c" for c
    using that no_dash_split [of _ c] unfolding isDomainFromCluster_iff ControlPlaneRole_def WorkerRole_def by fastforce
  obtain q1 k1 where q1: "go_split d ''-'' = go_split c1 ''-'' @ q1" "q1 = [''control'', ''plane'', k1] \<or> q1 = [''worker'', k1]"
    using parts [OF assms(1)] by blast
  obtain q2 k2 where q2: "go_split d ''-'' = go_split c2 ''-'' @ q2" "q2 = [''control'', ''plane'', k2] \<or> q2 = [''worker'', k2]"
    using parts [OF assms(2)] by blast
  have "go_split c1 ''-'' @ q1 = go_split c2 ''-'' @ q2" using q1(1) q2(1) by simp
  then have "rev q1 @ rev (go_split c1 ''-'') = rev q2 @ rev (go_split c2 ''-'')" by (metis rev_append)
  with q1(2) q2(2) have "go_split c1 ''-'' = go_split c2 ''-''" by auto
  then show ?thesis by (metis go_join_split not_Cons_self2)
qed

lemma atoi_format: "0 \<le> n \<Longrightarrow> n < 2 ^ 63 \<Longrightarrow> atoi (format_int n) = Some n"
proof -
  assume n: "0 \<le> n" "n < 2 ^ 63"
  have "hd (format_nat (nat n)) \<in> set (format_nat (nat n))" by simp
  then have "is_digit (hd (format_nat (nat n)))" using format_nat_digits by (metis list_all_iff)
  then obtain c cs where c: "format_nat (nat n) = c # cs" "c \<noteq> CHR ''-''" "c \<noteq> CHR ''+''"
    by (cases "format_nat (nat n)") (force simp: is_digit_def)+
  moreover have "list_all is_digit (c # cs)" "nat_of_digits (c # cs) = nat n" using c(1) format_nat_digits nat_of_digits_format by metis+
  ultimately show ?thesis using n by (simp add: atoi_def format_int_def)
qed

text \<open>
  C35. The name of a machine tells the cluster it is of: a machine is taken for one of a cluster exactly if its name is the name of the cluster,
  a role and a number; the names made for the nodes of a cluster are taken for machines of that cluster and no other; and no machine is taken for
  one of two clusters.
\<close>

theorem domain_names_tell_cluster:
  assumes "role = ControlPlaneRole \<or> role = WorkerRole" and "0 \<le> n" and "n < 2 ^ 63"
  shows "(isDomainFromCluster d c \<longleftrightarrow>
            (\<exists>role k. (role = ControlPlaneRole \<or> role = WorkerRole) \<and> CHR ''-'' \<notin> set k \<and> atoi k \<noteq> None \<and> d = c @ ''-'' @ role @ ''-'' @ k))
       \<and> (isDomainFromCluster (getDomainName owner role n) c \<longleftrightarrow> c = owner)
       \<and> \<not> (isDomainFromCluster d c \<and> isDomainFromCluster d other \<and> c \<noteq> other)"
proof (intro conjI)
  have "CHR ''-'' \<notin> set (format_int n)" using assms(2) by (simp add: format_int_def format_nat_no_char is_digit_def)
  with assms atoi_format have "isDomainFromCluster (getDomainName owner role n) owner"
    unfolding isDomainFromCluster_iff getDomainName_def by blast
  then show "isDomainFromCluster (getDomainName owner role n) c \<longleftrightarrow> c = owner" using own_domain_unique by blast
qed (use isDomainFromCluster_iff own_domain_unique in blast)+

theorem domain_names_tell_cluster_witness:
  "isDomainFromCluster (getDomainName ''prod'' ControlPlaneRole 1) ''prod'' \<and> \<not> isDomainFromCluster (getDomainName ''prod-worker'' ControlPlaneRole 1) ''prod''"
proof -
  have "isDomainFromCluster (getDomainName owner ControlPlaneRole 1) c \<longleftrightarrow> c = owner" for owner c
    by (rule domain_names_tell_cluster [of ControlPlaneRole 1 _ c owner, THEN conjunct2, THEN conjunct1]) simp_all
  then show ?thesis by (simp del: append_Cons)
qed

section \<open>The size of a volume\<close>

lemma capacity_parts:
  assumes "u = [] \<or> is_letter (hd u)" and "\<forall>c \<in> set ds. \<not> is_letter c" and "atoi ds = Some n"
  shows "createLibvirtCapacityInfo (ds @ u) = Inr (u @ ''B'', n)"
proof -
  have "takeWhile (\<lambda>c. \<not> is_letter c) (u @ ''B'') = []" "dropWhile (\<lambda>c. \<not> is_letter c) (u @ ''B'') = u @ ''B''"
    using assms(1) by (cases u; simp add: is_letter_def)+
  moreover have "takeWhile (\<lambda>c. \<not> is_letter c) (ds @ u @ ''B'') = ds @ takeWhile (\<lambda>c. \<not> is_letter c) (u @ ''B'')"
    "dropWhile (\<lambda>c. \<not> is_letter c) (ds @ u @ ''B'') = dropWhile (\<lambda>c. \<not> is_letter c) (u @ ''B'')"
    using assms(2) by (simp_all add: takeWhile_append2 dropWhile_append2)
  ultimately show ?thesis using assms(3) by (simp add: createLibvirtCapacityInfo_def Let_def)
qed

lemma digit_no_letter: "is_digit c \<Longrightarrow> \<not> is_letter c"
  by (simp add: is_digit_def is_letter_def Let_def)

lemma format_int_no_letter: "c \<in> set (format_int n) \<Longrightarrow> \<not> is_letter c"
proof -
  have "c \<in> set (format_nat k) \<Longrightarrow> \<not> is_letter c" for k using format_nat_digits [of k] digit_no_letter by (auto simp: list_all_iff)
  then show "c \<in> set (format_int n) \<Longrightarrow> \<not> is_letter c" by (auto simp: format_int_def is_letter_def split: if_splits)
qed

lemma atoi_format_int: "\<bar>n\<bar> < 2 ^ 63 \<Longrightarrow> atoi (format_int n) = Some n"
proof (cases "0 \<le> n")
  case False
  moreover have "list_all is_digit (format_nat (nat (- n)))" by (rule format_nat_digits)
  ultimately show "\<bar>n\<bar> < 2 ^ 63 \<Longrightarrow> atoi (format_int n) = Some n" by (simp add: format_int_def atoi_def nat_of_digits_format)
qed (simp add: atoi_format)

lemma uint_of_signed:
  assumes "\<bar>n\<bar> < 2 ^ 63"
  shows "uint (word_of_int n :: u64) = (if 0 \<le> n then n else 2 ^ 64 + n)"
proof (cases "0 \<le> n")
  case True
  with assms show ?thesis by (simp add: uint_word_of_int mod_pos_pos_trivial)
next
  case False
  then have "n mod 2 ^ 64 = (n + 2 ^ 64) mod 2 ^ 64" by simp
  also have "\<dots> = n + 2 ^ 64" using False assms by (intro mod_pos_pos_trivial) simp_all
  finally show ?thesis using False by (simp add: uint_word_of_int)
qed

text \<open>
  The size of the volume of a node.  An amount of 64 bits with a unit of letters is read as it is written, and a byte is added to the unit;
  the volume that is created has that amount, but a negative amount is not refused: it becomes a size near the greatest one.
\<close>

theorem volume_capacity:
  fixes l :: "'s libvirt"
  assumes "\<bar>n\<bar> < 2 ^ 63" and "u = [] \<or> is_letter (hd u)"
    and "GetStoragePoolPath l pool (s, tr) = (Inr path, s1, tr :: lv_event list)"
    and "createVolumeFromImagesPool (format_int n @ u) l pool v boot (s, tr) = (r, s', tr')"
  shows "createLibvirtCapacityInfo (format_int n @ u) = Inr (u @ ''B'', n)
       \<and> tr' = tr @ [EvVolCreate (lo_Name pool) (volumeTemplate (node_volume path v boot (u @ ''B'') n))]
       \<and> int (unat (vol_Size (node_volume path v boot (u @ ''B'') n))) = (if 0 \<le> n then n else 2 ^ 64 + n)"
proof (intro conjI)
  show cap: "createLibvirtCapacityInfo (format_int n @ u) = Inr (u @ ''B'', n)"
    by (rule capacity_parts [OF assms(2)]) (use assms(1) format_int_no_letter atoi_format_int in blast)+
  show "tr' = tr @ [EvVolCreate (lo_Name pool) (volumeTemplate (node_volume path v boot (u @ ''B'') n))]"
    using assms(3,4) cap by (auto simp: createVolumeFromImagesPool_def abind_run Let_def lv_do_def perform_def split: prod.splits sum.splits)
  have "uint (word_of_int n :: u64) = (if 0 \<le> n then n else 2 ^ 64 + n)" by (rule uint_of_signed [OF assms(1)])
  moreover have "vol_Size (node_volume path v boot (u @ ''B'') n) = word_of_int n" by (simp add: node_volume_def)
  ultimately show "int (unat (vol_Size (node_volume path v boot (u @ ''B'') n))) = (if 0 \<le> n then n else 2 ^ 64 + n)"
    by (simp only: of_nat_unat)
qed

lemma sample_pool_path: "GetStoragePoolPath sample_libvirt pool (0, []) = (Inr [], 0, [] :: lv_event list)"
  by (simp add: GetStoragePoolPath_def sample_libvirt_def lv_ask_def lv_plain_def ask_def abind_run)

theorem volume_capacity_witness:
  "createLibvirtCapacityInfo ''-5Gi'' = Inr (''GiB'', - 5)
   \<and> int (unat (vol_Size (node_volume [] ''v'' ''b'' ''GiB'' (- 5)))) = 2 ^ 64 - 5"
proof -
  obtain r s' tr' where run: "createVolumeFromImagesPool (format_int (- 5) @ ''Gi'') sample_libvirt \<lparr>lo_Name = [], lo_UUID = []\<rparr> ''v'' ''b'' (0, []) = (r, s', tr')"
    by (metis prod.exhaust)
  have "format_int (- 5) = ''-5''" by (simp add: format_int_def format_nat.simps digit_char_def char_of_def bit_0)
  with volume_capacity [OF _ _ sample_pool_path run] show ?thesis by (simp add: is_letter_def)
qed

end
