(* ===== verification/Libvirt_Driver.thy ===== *)
theory Libvirt_Driver
  imports Libvirt_Storage None_Byo_Drivers Config_Merge
begin

text \<open>
  The driver for virtual machines on a libvirt host (\<^verbatim>\<open>pkg/cluster/driver/libvirt/libvirt.go\<close>): the ignition configuration of a node, the virtual
  machine for it, and starting and deleting a cluster.  The driver is changed by its operations (\<open>Driver_State\<close>).  \<open>libvirt_env\<close> is
  what it needs beside what the driver of \<open>None_Byo_Drivers\<close> needs: the connection, the machine, the file of addresses, the lock and the cache.
\<close>

section \<open>The driver\<close>

definition BridgeNic :: string where "BridgeNic = ''enp1s0''"
definition UserNic :: string where "UserNic = ''enp0s2''"
definition DarwinLibvirtSocketPath :: string where "DarwinLibvirtSocketPath = ''.cache/libvirt/libvirt-sock''"
definition DefaultBootVolumeName :: string where "DefaultBootVolumeName = ''boot.qcow2''"

record LibvirtDriver =
  ld_Name :: string
  ld_Config :: ClusterConfig
  ld_URI :: TargetURI
  ld_Local :: bool
  ld_TargetIP :: string
  ld_KubeAPIServerIP :: string
  ld_TunnelPort :: u16
  ld_LocalKubeconfigName :: string
  ld_LocalKubeconfigPath :: string
  ld_VMKubeconfigName :: string
  ld_VMKubeconfigPath :: string
  ld_PKIInfo :: "PKIInfo option"
  ld_NetworkName :: string
  ld_BridgeNetworking :: bool
  ld_NetworkingResolved :: bool
  ld_KubeVersion :: string
  ld_BootVolumeContainerImage :: string
  ld_CPUArch :: string
  ld_UploadCertificateKey :: string

datatype libvirt_event =
    EvLv lv_event
  | EvAddr addr_event
  | EvVmPki pki_event
  | EvVmAdmin admin_event
  | EvVmInstall kube_event
  | EvVmRemove string
  | EvVmRemoveAll string
  | EvLock
  | EvUnlock
  | EvDisconnect

record ('s, 'c, 'k, 'x) libvirt_env =
  lb_by :: "('s, 'c, 'k, 'x) byo_env"
  lb_l :: "'s libvirt"
  lb_he :: "'s host_env"
  lb_ad :: "'s addr_env"
  lb_os :: "'s lock_os"
  lb_ca :: "'s cache_env"
  lb_ParseURL :: "string \<Rightarrow> TargetURI result"
  lb_Connect :: "TargetURI \<Rightarrow> 's \<Rightarrow> unit result \<times> 's"

text \<open>The error of parsing the address again is not looked at; the address that is nil then panics.\<close>

definition ssh_like :: "TargetURI \<Rightarrow> bool" where
  "ssh_like uri \<longleftrightarrow> uri_Scheme uri = [] \<and> uri_Username uri = [] \<and> uri_Host uri = [] \<and> uri_Path uri \<noteq> []"

definition libvirt_target ::
  "('s, 'c, 'k, 'x) libvirt_env \<Rightarrow> string \<Rightarrow> ('s, 'e, (TargetURI \<times> string \<times> bool) outcome) act" where
  "libvirt_target lb sessionURI =
     abind (alift (lb_ParseURL lb sessionURI)) (\<lambda>uri.
     abind (ResolveURIToIP (lb_he lb) uri) (\<lambda>(hostIP, isLocal).
       if ssh_like uri
       then (case lb_ParseURL lb (''qemu+ssh://'' @ uri_Path uri @ ''/system'') of
               Inl _ \<Rightarrow> aret Panics
             | Inr uri \<Rightarrow> abind (ResolveURIToIP (lb_he lb) uri) (\<lambda>(hostIP, isLocal). pret (uri, hostIP, isLocal)))
       else if isLocal \<and> he_darwin (lb_he lb)
       then abind (ask (he_UserHomeDir (lb_he lb))) (\<lambda>homedir.
              case lb_ParseURL lb (sessionURI @ ''?socket='' @ homedir @ ''/'' @ DarwinLibvirtSocketPath) of
                Inl _ \<Rightarrow> aret Panics
              | Inr uri \<Rightarrow> pret (uri, hostIP, isLocal))
       else pret (uri, hostIP, isLocal)))"

definition libvirt_NewDriver :: "('s, 'c, 'k, 'x) libvirt_env \<Rightarrow> Config \<Rightarrow> ClusterConfig \<Rightarrow> ('s, 'e, LibvirtDriver outcome) act" where
  "libvirt_NewDriver lb config clusterConfig =
     (let cc = OverlayConfig clusterConfig config; lp = prv_Libvirt (clu_Providers cc); name = clu_Name cc; by = lb_by lb
      in pbind (libvirt_target lb (lv_SessionURI lp)) (\<lambda>(uri, hostIP, isLocal).
         abind (ask (lb_Connect lb uri)) (\<lambda>_.
         abind (ask (GetKubeconfigPath by (''kubeconfig.'' @ name @ ''.vm''))) (\<lambda>vmKubeConfig.
         abind (ask (GetKubeconfigPath by (''kubeconfig.'' @ name @ ''.local''))) (\<lambda>localKubeConfig.
         abind (getLibvirtCPUArchitecture (lb_l lb)) (\<lambda>architecture.
         abind (ask (by_Rand by 32)) (\<lambda>bytes.
           pret \<lparr>ld_Name = name, ld_Config = cc, ld_URI = uri, ld_Local = isLocal, ld_TargetIP = hostIP, ld_KubeAPIServerIP = [], ld_TunnelPort = 0,
             ld_LocalKubeconfigName = ''kubeconfig.'' @ name @ ''.local'', ld_LocalKubeconfigPath = localKubeConfig,
             ld_VMKubeconfigName = ''kubeconfig.'' @ name @ ''.vm'', ld_VMKubeconfigPath = vmKubeConfig, ld_PKIInfo = None,
             ld_NetworkName = lv_Network lp, ld_BridgeNetworking = True, ld_NetworkingResolved = False, ld_KubeVersion = cfg_KubeVersion config,
             ld_BootVolumeContainerImage = cfg_BootVolumeContainerImage config, ld_CPUArch = architecture,
             ld_UploadCertificateKey = hex_encode bytes\<rparr>)))))))"

section \<open>The ignition configuration of a node\<close>

definition internal_lb :: "LibvirtDriver \<Rightarrow> bool" where
  "internal_lb ld \<longleftrightarrow> clu_LoadBalancer (ld_Config ld) = [] \<and> ld_KubeAPIServerIP ld \<noteq> ''127.0.0.1''"

definition libvirt_init :: "LibvirtDriver \<Rightarrow> string \<Rightarrow> string \<Rightarrow> string \<Rightarrow> ClusterInit" where
  "libvirt_init ld netInterface caCert caKey =
     (let c = ld_Config ld
      in \<lparr>ci_OsTag = clu_OsTag c, ci_OsRegistry = clu_OsRegistry c, ci_ImageRegistry = clu_Registry c, ci_KubeAPIServerIP = ld_KubeAPIServerIP ld,
          ci_KubeAPIBindPort = clu_KubeAPIServerBindPort c, ci_KubeAPIBindPortAlt = clu_KubeAPIServerBindPortAlt c,
          ci_InternalLB = internal_lb ld, ci_Proxy = clu_Proxy c, ci_KubeAPIExtraSans = [ld_TargetIP ld], ci_KubePKICert = caCert, ci_KubePKIKey = caKey,
          ci_ServiceSubnet = clu_ServiceSubnet c, ci_PodSubnet = clu_PodSubnet c, ci_ExpectingWorkerNodes = clu_WorkerNodes c > 0,
          ci_ProxyMode = clu_KubeProxyMode c, ci_NetInterface = netInterface, ci_UploadCertificateKey = ld_UploadCertificateKey ld,
          ci_KubeVersion = ld_KubeVersion ld, ci_TLSCipherSuites = clu_CipherSuites c\<rparr>)"

definition libvirt_join :: "LibvirtDriver \<Rightarrow> string \<Rightarrow> string \<Rightarrow> string \<Rightarrow> string list \<Rightarrow> ClusterJoin" where
  "libvirt_join ld netInterface role joinToken caCertHashes =
     (let c = ld_Config ld
      in \<lparr>cj_Role = role, cj_OsTag = clu_OsTag c, cj_OsRegistry = clu_OsRegistry c, cj_ImageRegistry = clu_Registry c,
          cj_KubeAPIServerIP = ld_KubeAPIServerIP ld, cj_JoinToken = joinToken, cj_KubePKICertHashes = caCertHashes,
          cj_KubeAPIBindPort = clu_KubeAPIServerBindPort c, cj_KubeAPIBindPortAlt = clu_KubeAPIServerBindPortAlt c,
          cj_InternalLB = internal_lb ld, cj_Proxy = clu_Proxy c, cj_ProxyMode = clu_KubeProxyMode c, cj_NetInterface = netInterface,
          cj_UploadCertificateKey = ld_UploadCertificateKey ld, cj_TLSCipherSuites = clu_CipherSuites c\<rparr>)"

text \<open>Whether a file can be added is not looked at.\<close>

definition network_files :: "('s, 'c, 'k, 'x) libvirt_env \<Rightarrow> bool \<Rightarrow> bool \<Rightarrow> IgnConfig \<Rightarrow> IgnConfig" where
  "network_files lb bridgeNetwork userNetwork ign =
     (let add = (\<lambda>n. ignoring (AddFile (by_mk (lb_by lb)) (ToFile n)));
          ign = (if bridgeNetwork
                 then add (DefaultNetwork\<lparr>ns_Name := BridgeNic, ns_DefaultRoute := \<not> userNetwork, ns_IPV6DefaultRoute := \<not> userNetwork\<rparr>) ign else ign)
      in if userNetwork then add (DefaultNetwork\<lparr>ns_Name := UserNic\<rparr>) ign else ign)"

definition node_extras :: "('s, 'c, 'k, 'x) libvirt_env \<Rightarrow> LibvirtDriver \<Rightarrow> string \<Rightarrow> IgnConfig \<Rightarrow> IgnConfig result" where
  "node_extras lb ld nodeName ign =
     (let by = lb_by lb; c = ld_Config ld; ei = clu_ExtraIgnition c
      in rbind (proxy_ignition (clu_Proxy c) [ld_KubeAPIServerIP ld, clu_ServiceSubnet c, clu_PodSubnet c]) (\<lambda>proxy.
         let ign = ignoring (AddFile (by_mk by) (plain_file ''/etc/hostname'' (file_mode 6 4 4) nodeName)) (Merge ign proxy)
         in rbind (OcneUser (by_KeyFile by) (clu_SshPublicKey c) (clu_SshPublicKeyPath c) (clu_Password c)) (\<lambda>usrIgn.
            let ign = Merge ign usrIgn
            in rbind (if ei = [] then Inr ign
                      else rbind (if has_prefix ei ''/'' then Inr ei else by_AbsJoin by (clu_WorkingDirectory c) ei) (\<lambda>path.
                           rbind (FromPath (by_fs by) (by_ip by) path) (\<lambda>fromExtra. Inr (Merge ign fromExtra)))) (\<lambda>ign.
               if clu_ExtraIgnitionInline c = [] then Inr ign
               else rbind (FromString (by_ip by) (clu_ExtraIgnitionInline c)) (\<lambda>fromExtra. Inr (Merge ign fromExtra))))))"

type_synonym ('s, 'a) vm_act = "('s \<times> LibvirtDriver, libvirt_event, 'a) act"

definition generateIgnition ::
  "('s, 'c, 'k, 'x) libvirt_env \<Rightarrow> string \<Rightarrow> string \<Rightarrow> bool \<Rightarrow> string \<Rightarrow> string list \<Rightarrow> bool \<Rightarrow> bool \<Rightarrow> ('s, string outcome) vm_act" where
  "generateIgnition lb nodeName role join joinToken caCertHashes bridgeNetwork userNetwork =
     (let by = lb_by lb; netInterface = (if bridgeNetwork then BridgeNic else UserNic)
      in abind driver (\<lambda>ld.
         abind (if join then aret (JoinCluster (by_mk by) (by_lib by) (by_kl by) (libvirt_join ld netInterface role joinToken caCertHashes))
                else case ld_PKIInfo ld of
                       None \<Rightarrow> aret Panics
                     | Some pki \<Rightarrow>
                         abind (world (by_ReadFile by (pki_CACertPath pki))) (\<lambda>caCert.
                         abind (world (by_ReadFile by (pki_CAKeyPath pki))) (\<lambda>caKey.
                           aret (InitializeCluster (by_mk by) (by_lib by) (by_kl by) (libvirt_init ld netInterface caCert caKey))))) (\<lambda>ign.
           panic_or ign (\<lambda>ign.
             abind (alift (rbind (node_extras lb ld nodeName (network_files lb bridgeNetwork userNetwork ign)) (by_Marshal by))) pret))))"

abbreviation in_lv :: "('s, lv_event, 'a) act \<Rightarrow> ('s, 'a) vm_act" where "in_lv \<equiv> in_world EvLv"

section \<open>Nodes\<close>

definition user_network :: "LibvirtDriver \<Rightarrow> Network" where
  "user_network ld =
     (let lbl = (clu_LoadBalancer (ld_Config ld) = [])
      in \<lparr>nw_Type = ''user'', nw_Network = [], nw_Bus = ''0'', nw_Slot = ''2'',
          nw_Subnet = (if lbl then lv_SlirpSubnet (prv_Libvirt (clu_Providers (ld_Config ld))) else []),
          nw_PortForwards = (if lbl then [\<lparr>pf_From = ld_TunnelPort ld, pf_To = 6443, pf_Listen = ld_TargetIP ld\<rparr>] else [])\<rparr>)"

definition bridge_network :: "LibvirtDriver \<Rightarrow> Network" where
  "bridge_network ld = \<lparr>nw_Type = ''network'', nw_Network = ld_NetworkName ld, nw_Bus = ''0x1'', nw_Slot = ''0x0'', nw_Subnet = [], nw_PortForwards = []\<rparr>"

definition node_networks :: "LibvirtDriver \<Rightarrow> bool \<Rightarrow> Network list" where
  "node_networks ld userNetworking =
     (if userNetworking then [user_network ld] else []) @ (if ld_BridgeNetworking ld then [bridge_network ld] else [])"

definition node_kind :: "LibvirtDriver \<Rightarrow> string \<Rightarrow> Node" where
  "node_kind ld role =
     (let lp = prv_Libvirt (clu_Providers (ld_Config ld)) in if role = ControlPlaneRole then lv_ControlPlaneNode lp else lv_WorkerNode lp)"

definition boot_volume :: "LibvirtDriver \<Rightarrow> string" where
  "boot_volume ld =
     (let name = lv_BootVolumeName (prv_Libvirt (clu_Providers (ld_Config ld)))
      in if name = DefaultBootVolumeName then name @ ''-'' @ ld_KubeVersion ld else name)"

definition node_domain :: "('s, 'c, 'k, 'x) libvirt_env \<Rightarrow> LibvirtDriver \<Rightarrow> string \<Rightarrow> lv_object \<Rightarrow> string \<Rightarrow> string \<Rightarrow> Network list \<Rightarrow> Domain" where
  "node_domain lb ld name pool volume ignitionPath nets =
     (let lp = prv_Libvirt (clu_Providers (ld_Config ld))
      in \<lparr>dm_Name = name, dm_Description = ''An instance that is spun up dynamically'', dm_VolumePool = lo_Name pool, dm_Volume = volume,
          dm_IgnitionPath = ignitionPath, dm_Hypervisor = (if ld_Local ld \<and> he_darwin (lb_he lb) then ''hvf'' else ''kvm''), dm_Networks = nets,
          dm_Memory = 0, dm_MemoryCapacityUnit = [], dm_CPUs = 0, dm_CPUArch = [], dm_Smm = lv_Smm lp, dm_SecureBoot = lv_SecureBoot lp\<rparr>)"

definition addNode :: "('s, 'c, 'k, 'x) libvirt_env \<Rightarrow> string \<Rightarrow> int \<Rightarrow> bool \<Rightarrow> string \<Rightarrow> string list \<Rightarrow> ('s, unit outcome) vm_act" where
  "addNode lb role num join tokenStr caCertHashes =
     abind driver (\<lambda>ld.
       let l = lb_l lb; he = lb_he lb;
           name = getDomainName (ld_Name ld) role num; volume = fst (getResourceNames name); ignitionVolume = snd (getResourceNames name);
           boot = boot_volume ld
       in pbind (generateIgnition lb name role join tokenStr caCertHashes (ld_BridgeNetworking ld) (\<not> join)) (\<lambda>ignitionBytes.
          abind (in_lv (FindOrCreateStoragePool l he (ld_URI ld) (lv_StoragePool (prv_Libvirt (clu_Providers (ld_Config ld)))))) (\<lambda>imagesPool.
          abind (in_lv (refreshStoragePools l)) (\<lambda>_.
          abind (in_lv (DoesBaseImageExist l imagesPool boot)) (\<lambda>there.
          abind (if there then aret () else in_lv (TransferBaseImage l he (ld_BootVolumeContainerImage ld) imagesPool boot (ld_CPUArch ld))) (\<lambda>_.
          abind (world (keep (lv_VolLookupByName l imagesPool volume))) (\<lambda>r.
          abind (case r of
                   Inr _ \<Rightarrow> aret ()
                 | Inl err \<Rightarrow> if checkLibvirtError err ErrNoStorageVol
                              then in_lv (createVolumeFromImagesPool (node_Storage (node_kind ld role)) l imagesPool volume boot)
                              else afail (lv_text err)) (\<lambda>_.
          abind (in_lv (uploadInitialIgnitionFile l ignitionBytes imagesPool ignitionVolume)) (\<lambda>_.
          abind (in_lv (refreshStoragePools l)) (\<lambda>_.
          abind (in_lv (getVolumePath l imagesPool ignitionVolume)) (\<lambda>ignitionPath.
            let nets = node_networks ld (\<not> join)
            in if nets = [] then afail ''No networks defined for node''
               else abind (in_lv (createDomainFromTemplate (node_CPUs (node_kind ld role)) (node_Memory (node_kind ld role)) l
                                 (node_domain lb ld name imagesPool volume ignitionPath nets))) (\<lambda>_. pret ()))))))))))))"

definition removeNode :: "('s, 'c, 'k, 'x) libvirt_env \<Rightarrow> string \<Rightarrow> ('s, unit) vm_act" where
  "removeNode lb libvirtDomainName =
     abind driver (\<lambda>ld.
       let l = lb_l lb; volume = fst (getResourceNames libvirtDomainName); ignitionVolume = snd (getResourceNames libvirtDomainName)
       in abind (in_lv (removeDomain l libvirtDomainName)) (\<lambda>_.
          abind (in_lv (getDefaultPoolPath (lb_he lb) (ld_URI ld))) (\<lambda>(poolPath, _).
          abind (in_lv (FindStoragePool l (lv_StoragePool (prv_Libvirt (clu_Providers (ld_Config ld)))) poolPath)) (\<lambda>imagesPool. case imagesPool of
              None \<Rightarrow> aret ()
            | Some pool \<Rightarrow>
                abind (in_lv (deleteVolume l pool ignitionVolume)) (\<lambda>_. in_lv (deleteVolume l pool volume))))))"

section \<open>Starting a cluster\<close>

definition resolveNetworking :: "('s, 'c, 'k, 'x) libvirt_env \<Rightarrow> ('s, unit) vm_act" where
  "resolveNetworking lb =
     abind driver (\<lambda>ld.
       if ld_NetworkingResolved ld then aret ()
       else abind (set_driver (\<lambda>ld. ld\<lparr>ld_NetworkingResolved := True\<rparr>)) (\<lambda>_.
            abind (world (doesNetworkExist (lb_l lb) (ld_NetworkName ld))) (\<lambda>(netExists, netsExist).
              if \<not> netsExist then set_driver (\<lambda>ld. ld\<lparr>ld_BridgeNetworking := False\<rparr>)
              else if \<not> netExists then afail (''Network '' @ ld_NetworkName ld @ '' does not exist'')
              else set_driver (\<lambda>ld. ld\<lparr>ld_BridgeNetworking := True\<rparr>))))"

definition take_lock :: "('s, 'c, 'k, 'x) libvirt_env \<Rightarrow> ('s, unit) vm_act" where
  "take_lock lb = abind (in_lv (wait_for (WaitFor (lb_os lb) (10 * 1000000000)))) (\<lambda>_. note_event EvLock)"

definition drop_lock :: "('s, 'c, 'k, 'x) libvirt_env \<Rightarrow> ('s, unit) vm_act" where
  "drop_lock lb = changes EvUnlock (Drop (lb_os lb))"

definition libvirt_cert_options :: "LibvirtDriver \<Rightarrow> CertOptions" where
  "libvirt_cert_options ld =
     (let i = clu_CertificateInformation (ld_Config ld)
      in \<lparr>co_Country = ci_Country i, co_Org = ci_Org i, co_OrgUnit = ci_OrgUnit i, co_State = ci_State i\<rparr>)"

definition vm_request :: "LibvirtDriver \<Rightarrow> KubeconfigRequest" where
  "vm_request ld = \<lparr>kr_Path = ld_VMKubeconfigPath ld, kr_Host = ld_KubeAPIServerIP ld, kr_Port = 6443,
     kr_ServiceSubnets = go_split (clu_ServiceSubnet (ld_Config ld)) '',''\<rparr>"

definition local_request :: "LibvirtDriver \<Rightarrow> u16 \<Rightarrow> KubeconfigRequest" where
  "local_request ld port =
     (let lbl = clu_LoadBalancer (ld_Config ld)
      in \<lparr>kr_Path = ld_LocalKubeconfigPath ld, kr_Host = (if lbl = [] then ld_TargetIP ld else lbl), kr_Port = (if lbl = [] then port else 6443),
          kr_ServiceSubnets = go_split (clu_ServiceSubnet (ld_Config ld)) '',''\<rparr>)"

text \<open>What is done under the lock.  Whether the cluster could be added to the file is not looked at.\<close>

definition first_node :: "('s, 'c, 'k, 'x) libvirt_env \<Rightarrow> ('s, unit outcome) vm_act" where
  "first_node lb =
     abind driver (\<lambda>ld.
     pbind (in_world EvAddr (allocatePort (lb_ad lb) (uri_Hostname (ld_URI ld)))) (\<lambda>port.
     abind (set_driver (\<lambda>ld. ld\<lparr>ld_TunnelPort := port\<rparr>)) (\<lambda>_.
     abind (in_world EvVmPki (GeneratePKI (by_cy (lb_by lb)) (libvirt_cert_options ld) (vm_request ld) [local_request ld port])) (\<lambda>pkiInfo.
     abind (set_driver (\<lambda>ld. ld\<lparr>ld_PKIInfo := Some pkiInfo\<rparr>)) (\<lambda>_.
     pbind (addNode lb ControlPlaneRole 1 False [] [[]]) (\<lambda>_.
     atry (in_world EvAddr (addCluster (lb_ad lb) (uri_Hostname (ld_URI ld)) (ld_Name ld) (ld_KubeAPIServerIP ld) port)) (\<lambda>r. case r of
         Inr Panics \<Rightarrow> aret Panics
       | _ \<Rightarrow> pret ())))))))"

definition initializeCluster :: "('s, 'c, 'k, 'x) libvirt_env \<Rightarrow> ('s, unit outcome) vm_act" where
  "initializeCluster lb = abind (take_lock lb) (\<lambda>_. adefer (first_node lb) (drop_lock lb))"

text \<open>
  The counter of the loop over new nodes has 16 bits and wraps around: for 65535 nodes only an error ends it.  A token that cannot be made
  ends the join without an error.
\<close>

partial_function (option) join_loop ::
  "('s, 'c, 'k, 'x) libvirt_env \<Rightarrow> string \<Rightarrow> u16 \<Rightarrow> string \<Rightarrow> string list \<Rightarrow> u16 \<Rightarrow>
     ('s \<times> LibvirtDriver) \<times> libvirt_event list \<Rightarrow> (unit outcome result \<times> ('s \<times> LibvirtDriver) \<times> libvirt_event list) option" where
  "join_loop lb role num tokenStr caCertHashes i w =
     (if num < i then Some (Inr (Returns ()), w)
      else case addNode lb role (uint i) True tokenStr caCertHashes w of
             (Inl e, w') \<Rightarrow> Some (Inl e, w')
           | (Inr Panics, w') \<Rightarrow> Some (Inr Panics, w')
           | (Inr (Returns _), w') \<Rightarrow> join_loop lb role num tokenStr caCertHashes (i + 1) w')"

definition new_nodes :: "('s, 'c, 'k, 'x) libvirt_env \<Rightarrow> string \<Rightarrow> u16 \<Rightarrow> string \<Rightarrow> string list \<Rightarrow> ('s, unit outcome) vm_act" where
  "new_nodes lb role num tokenStr caCertHashes =
     (\<lambda>w. case join_loop lb role num tokenStr caCertHashes (if role = ControlPlaneRole then 2 else 1) w of
            None \<Rightarrow> (Inl ''the loop does not return'', w)
          | Some r \<Rightarrow> r)"

definition join_nodes :: "('s, 'c, 'k, 'x) libvirt_env \<Rightarrow> string \<Rightarrow> u16 \<Rightarrow> ('s, unit outcome) vm_act" where
  "join_nodes lb role num =
     (if num = 0 then pret ()
      else abind (resolveNetworking lb) (\<lambda>_.
           abind driver (\<lambda>ld.
             if \<not> ld_BridgeNetworking ld then afail ''Adding nodes to user-only network clusters is not supported''
             else abind (world (ae_CertHashes (by_ae (lb_by lb)) (ld_VMKubeconfigPath ld))) (\<lambda>caCertHashes.
                  atry (in_world EvVmAdmin (CreateJoinToken (by_ae (lb_by lb)) (ld_LocalKubeconfigPath ld) False)) (\<lambda>r. case r of
                      Inl _ \<Rightarrow> pret ()
                    | Inr tokenStr \<Rightarrow> new_nodes lb role num tokenStr caCertHashes)))))"

definition api_server_address :: "('s, 'c, 'k, 'x) libvirt_env \<Rightarrow> LibvirtDriver \<Rightarrow> ('s, string outcome) vm_act" where
  "api_server_address lb ld =
     (let c = ld_Config ld
      in if \<not> ld_BridgeNetworking ld then pret ''127.0.0.1''
         else if clu_VirtualIp c \<noteq> [] then pret (clu_VirtualIp c)
         else if clu_LoadBalancer c \<noteq> [] then pret (clu_LoadBalancer c)
         else in_world EvAddr (allocateIP (lb_l lb) (lb_ad lb) (uri_Hostname (ld_URI ld)) (ld_NetworkName ld)))"

definition libvirt_create :: "('s, 'c, 'k, 'x) libvirt_env \<Rightarrow> ('s, unit outcome) vm_act" where
  "libvirt_create lb =
     abind driver (\<lambda>ld.
     pbind (api_server_address lb ld) (\<lambda>kubeAPIServerIP.
     abind (set_driver (\<lambda>ld. ld\<lparr>ld_KubeAPIServerIP := kubeAPIServerIP\<rparr>)) (\<lambda>_.
     pbind (initializeCluster lb) (\<lambda>_.
     abind (world (ae_GetKubeClient (by_ae (lb_by lb)) (ld_LocalKubeconfigPath ld))) (\<lambda>_.
     abind (in_lv (wait_for (WaitUntilGetNodesSucceeds (ka_node (by_ka (lb_by lb)))))) (\<lambda>_.
     pbind (if 1 < clu_ControlPlaneNodes (ld_Config ld) then join_nodes lb ControlPlaneRole (clu_ControlPlaneNodes (ld_Config ld)) else pret ()) (\<lambda>_.
       join_nodes lb WorkerRole (clu_WorkerNodes (ld_Config ld)))))))))"

definition session_of :: "ClusterConfig \<Rightarrow> string" where "session_of c = lv_SessionURI (prv_Libvirt (clu_Providers c))"

definition other_session :: "ClusterCache \<Rightarrow> ClusterConfig \<Rightarrow> string option" where
  "other_session clusterCache c =
     (case cache_Get clusterCache (clu_Name c) of
        None \<Rightarrow> None
      | Some old \<Rightarrow> if session_of c \<noteq> session_of (cl_ClusterConfig old) then Some (session_of (cl_ClusterConfig old)) else None)"

definition start_resolved :: "('s, 'c, 'k, 'x) libvirt_env \<Rightarrow> ClusterConfig \<Rightarrow> ('s, (bool \<times> bool) outcome) vm_act" where
  "start_resolved lb c =
     abind driver (\<lambda>ld.
       if \<not> ld_BridgeNetworking ld \<and> 0 < clu_WorkerNodes c
       then afail ''Adding worker nodes to user-networking clusters is not supported''
       else if \<not> ld_BridgeNetworking ld \<and> 1 < clu_ControlPlaneNodes c
       then afail ''Adding more than one control plane nodes to user-networking clusters is not supported''
       else if clu_VirtualIp c \<noteq> [] \<and> clu_LoadBalancer c \<noteq> []
       then afail ''Can not specify both virtual IP and load balancer''
       else abind (in_lv (setDomainRunningIfExists (lb_l lb) (getDomainName (ld_Name ld) ControlPlaneRole 1))) (\<lambda>(isRunning, wasRunning).
            if isRunning
            then abind (in_lv (isClusterUp (by_ka (lb_by lb))
                        (\<lambda>s. case ae_GetKubeClient (by_ae (lb_by lb)) (ld_LocalKubeconfigPath ld) s of (r, s') \<Rightarrow> (rbind r (\<lambda>_. Inr ()), s'))
                        (\<not> wasRunning))) (\<lambda>up. pret (up, False))
            else pbind (libvirt_create lb) (\<lambda>_. pret (False, False))))"

definition libvirt_Start :: "('s, 'c, 'k, 'x) libvirt_env \<Rightarrow> ('s, (bool \<times> bool) outcome) vm_act" where
  "libvirt_Start lb =
     abind driver (\<lambda>ld.
     abind (in_lv (wait_for (GetCache (lb_ca lb)))) (\<lambda>clusterCache. case other_session clusterCache (ld_Config ld) of
         Some uri \<Rightarrow> afail (''A cluster named '' @ clu_Name (ld_Config ld) @ '' already exists for the libvirt provider but has session URI '' @ uri)
       | None \<Rightarrow> abind (resolveNetworking lb) (\<lambda>_. start_resolved lb (ld_Config ld))))"

definition libvirt_ha_app :: "LibvirtDriver \<Rightarrow> 's ApplicationDescription" where
  "libvirt_ha_app ld = internal_app False ''ocne-ha-monitor'' ''ocne-system'' ''ha-config'' ''2.0.0''
     [''apiAddress'' \<mapsto> GStr (ld_KubeAPIServerIP ld), ''apiPort'' \<mapsto> GInt (uint (clu_KubeAPIServerBindPort (ld_Config ld)))]"

definition libvirt_PostStart :: "('s, 'c, 'k, 'x) libvirt_env \<Rightarrow> ('s, unit) vm_act" where
  "libvirt_PostStart lb =
     abind driver (\<lambda>ld.
       if clu_LoadBalancer (ld_Config ld) \<noteq> [] then aret ()
       else in_world EvVmInstall (InstallApplications (by_ka (lb_by lb)) (by_ha (lb_by lb)) [libvirt_ha_app ld]))"

section \<open>The other operations\<close>

definition libvirt_Join :: "('s, unit) vm_act" where
  "libvirt_Join = afail ''Join not implemented for libvirt provider''"

definition libvirt_Stop :: "('s, unit) vm_act" where "libvirt_Stop = aret ()"

definition remove_kubeconfig :: "('s, 'c, 'k, 'x) libvirt_env \<Rightarrow> string \<Rightarrow> ('s, unit) vm_act" where
  "remove_kubeconfig lb path =
     abind (changes (EvVmRemove path) (keep (by_Remove (lb_by lb) path))) (\<lambda>r. case r of
         Inl (CannotRemove err) \<Rightarrow> afail err
       | _ \<Rightarrow> aret ())"

text \<open>The lock is not deferred here: a panic leaves it behind.\<close>

definition libvirt_Delete :: "('s, 'c, 'k, 'x) libvirt_env \<Rightarrow> ('s, unit outcome) vm_act" where
  "libvirt_Delete lb =
     abind driver (\<lambda>ld.
     abind (in_lv (lv_ask (lv_ListAllDomains (lb_l lb)))) (\<lambda>vms.
     abind (afor (filter (\<lambda>n. isDomainFromCluster n (ld_Name ld)) (map lo_Name vms)) (removeNode lb)) (\<lambda>_.
     abind (remove_kubeconfig lb (ld_LocalKubeconfigPath ld)) (\<lambda>_.
     abind (remove_kubeconfig lb (ld_VMKubeconfigPath ld)) (\<lambda>_.
     abind (take_lock lb) (\<lambda>_.
     atry (in_world EvAddr (removeCluster (lb_ad lb) (ld_Name ld))) (\<lambda>r. case r of
         Inr Panics \<Rightarrow> aret Panics
       | _ \<Rightarrow> atry (drop_lock lb) (\<lambda>_. pret ()))))))))"

definition libvirt_Close :: "('s, 'c, 'k, 'x) libvirt_env \<Rightarrow> ('s, unit) vm_act" where
  "libvirt_Close lb =
     abind driver (\<lambda>ld.
     abind (case ld_PKIInfo ld of
              None \<Rightarrow> aret ()
            | Some pki \<Rightarrow> if pki_CertsDir pki = [] then aret ()
                          else atry (changes (EvVmRemoveAll (pki_CertsDir pki)) (by_RemoveAll (lb_by lb) (pki_CertsDir pki))) (\<lambda>_. aret ())) (\<lambda>_.
       changes EvDisconnect (lv_plain (lv_Disconnect (lb_l lb)))))"

definition libvirt_GetKubeAPIServerAddress :: "('s, 'c, 'k, 'x) libvirt_env \<Rightarrow> LibvirtDriver \<Rightarrow> string" where
  "libvirt_GetKubeAPIServerAddress lb ld = GetURIAddress (by_kl (lb_by lb)) (ld_KubeAPIServerIP ld)"

definition libvirt_DefaultCNIInterfaces :: "LibvirtDriver \<Rightarrow> string list" where
  "libvirt_DefaultCNIInterfaces ld = (if ld_BridgeNetworking ld then [BridgeNic] else [[]])"

definition libvirt_Stage :: "string \<Rightarrow> (string \<times> string \<times> bool) result" where
  "libvirt_Stage version = Inr ([], [], True)"

section \<open>Which effects the operations have\<close>

lemma emits_generateIgnition [emits_intro]: "emits P (generateIgnition lb nodeName role join tok hashes br us)"
  unfolding generateIgnition_def Let_def by (intro emits_intro)

lemma emits_addNode [emits_intro]: "(\<And>e. P (EvLv e)) \<Longrightarrow> emits P (addNode lb role num join tok hashes)"
  unfolding addNode_def Let_def by (intro emits_intro in_world_emits)

lemma emits_resolveNetworking [emits_intro]: "emits P (resolveNetworking lb)"
  unfolding resolveNetworking_def by (intro emits_intro)

lemma join_loop_emits:
  fixes lb :: "('s, 'c, 'k, 'x) libvirt_env"
  assumes P: "\<And>e. P (EvLv e)" and "join_loop lb role num tok hashes i w = Some x"
  shows "\<exists>evs. snd (snd x) = snd w @ evs \<and> list_all P evs"
proof (rule join_loop.raw_induct [where P = "\<lambda>lb role num tok hashes i w x. \<exists>evs. snd (snd x) = snd w @ evs \<and> list_all P evs", OF _ assms(2)])
  fix loop and lb :: "('s, 'c, 'k, 'x) libvirt_env" and role num tok hashes i w x
  assume IH: "\<And>lb role num tok hashes i w x. loop lb role num tok hashes i w = Some x \<Longrightarrow> \<exists>evs. snd (snd x) = snd w @ evs \<and> list_all P evs"
    and run: "(if num < i then Some (Inr (Returns ()), w)
       else case addNode lb role (uint i) True tok hashes w of
              (Inl e, w') \<Rightarrow> Some (Inl e, w')
            | (Inr Panics, w') \<Rightarrow> Some (Inr Panics, w')
            | (Inr (Returns _), w') \<Rightarrow> loop lb role num tok hashes (i + 1) w') = Some x"
  obtain s tr where w: "w = (s, tr)" by (cases w)
  obtain q s1 tr1 where node: "addNode lb role (uint i) True tok hashes w = (q, s1, tr1)" by (metis prod.exhaust)
  have "emits P (addNode lb role (uint i) True tok hashes)" using P by (rule emits_addNode)
  from emitsD [OF this] node w obtain e1 where e1: "tr1 = tr @ e1" "list_all P e1" by metis
  consider (last) "num < i" | (fails) e where "\<not> num < i" "q = Inl e" | (panics) "\<not> num < i" "q = Inr Panics"
    | (again) y where "\<not> num < i" "q = Inr (Returns y)" by (metis outcome.exhaust sum.exhaust)
  then show "\<exists>evs. snd (snd x) = snd w @ evs \<and> list_all P evs"
  proof cases
    case again
    with run node have "loop lb role num tok hashes (i + 1) (s1, tr1) = Some x" by simp
    from IH [OF this] e1 w show ?thesis by (metis append.assoc list_all_append snd_conv)
  qed (use run node e1 w in auto)
qed

lemma emits_new_nodes [emits_intro]: "(\<And>e. P (EvLv e)) \<Longrightarrow> emits P (new_nodes lb role num tok hashes)"
  by (rule emitsI) (auto simp: new_nodes_def split: option.splits dest!: join_loop_emits [where P = P, rotated])

lemma emits_join_nodes: "(\<And>e. P (EvLv e)) \<Longrightarrow> (\<And>e. P (EvVmAdmin e)) \<Longrightarrow> emits P (join_nodes lb role num)"
  unfolding join_nodes_def by (intro emits_intro in_world_emits)

lemma emits_allocatePort [emits_intro]: "emits P (allocatePort ad hostname)"
  unfolding allocatePort_def by (intro emits_intro)

lemma emits_allocateIP [emits_intro]: "emits P (allocateIP l ad hostname networkName)"
  unfolding allocateIP_def by (intro emits_intro)

lemma emits_api_server_address [emits_intro]: "emits P (api_server_address lb ld)"
  unfolding api_server_address_def Let_def by (intro emits_intro emits_in_world [OF emits_allocateIP [where P = "\<lambda>_. False"]]) simp

lemma emits_lv_wait [emits_intro]: "emits P (in_lv (wait_for q))"
  by (rule emits_in_world [OF emits_wait_for [where P = "\<lambda>_. False"]]) simp

section \<open>The order of a start\<close>

lemma traces_adefer:
  assumes "traces A m" and "traces D d" and "\<And>a b. a \<in> A \<Longrightarrow> b \<in> D \<Longrightarrow> a @ b \<in> L"
  shows "traces L (adefer m d)"
proof (rule tracesI)
  fix s tr r s' tr'
  assume run: "adefer m d (s, tr) = (r, s', tr')"
  obtain q s1 tr1 where m: "m (s, tr) = (q, s1, tr1)" by (metis prod.exhaust)
  obtain q2 s2 tr2 where d: "d (s1, tr1) = (q2, s2, tr2)" by (metis prod.exhaust)
  from run m d have "tr' = tr2" by (simp add: adefer_def)
  with tracesD [OF assms(1) m] tracesD [OF assms(2) d] assms(3) show "\<exists>evs \<in> L. tr' = tr @ evs" by (metis append.assoc)
qed

definition new_cluster_trace :: "libvirt_event list set" where
  "new_cluster_trace = {map EvVmPki pki @ map EvLv node @ map EvAddr addr | pki node addr. True}"

lemma traces_addNode: "traces (range (map EvLv)) (addNode lb role num join tok hashes)"
  by (rule emits_map [where P = "\<lambda>e. e \<in> range EvLv"]) (auto intro: emits_addNode)

lemma traces_first_node:
  fixes lb :: "('s, 'c, 'k, 'x) libvirt_env"
  shows "traces new_cluster_trace (first_node lb)"
proof -
  let ?A = "range (map EvAddr)" and ?N = "{map EvLv node @ map EvAddr addr | node addr. True}"
  have nil: "[] \<in> ?A" "[] \<in> ?N" "[] \<in> new_cluster_trace" by (auto simp: new_cluster_trace_def)
  have quiet: "traces {[]} (case r of Inr Panics \<Rightarrow> aret Panics | _ \<Rightarrow> pret ())" for r :: "unit outcome result"
    by (auto intro!: traces_nothing split: sum.split outcome.split)
  have save: "traces ?A (atry (in_world EvAddr m) (\<lambda>r. case r of Inr Panics \<Rightarrow> aret Panics | _ \<Rightarrow> pret ()))"
    for m :: "('s, addr_event, unit outcome) act"
    by (rule traces_atry [OF traces_in_world [where L = ?A] quiet]) auto
  have node: "traces ?N (pbind (addNode lb ControlPlaneRole 1 False [] [[]])
      (\<lambda>_. atry (in_world EvAddr m) (\<lambda>r. case r of Inr Panics \<Rightarrow> aret Panics | _ \<Rightarrow> pret ())))" for m :: "('s, addr_event, unit outcome) act"
    by (rule traces_pbind [OF traces_addNode save]) (use map_is_Nil_conv in fastforce)+
  have later: "a @ b \<in> new_cluster_trace" if "a \<in> range (map EvVmPki)" "b \<in> ?N" for a b using that by (auto simp: new_cluster_trace_def)
  have only: "a \<in> new_cluster_trace" if "a \<in> range (map EvVmPki)" for a using later [OF that nil(2)] by simp
  have pki: "traces (range (map EvVmPki)) (in_world EvVmPki m)" for m :: "('s, pki_event, 'a) act"
    by (rule traces_in_world) auto
  have port: "emits (\<lambda>_. False) (in_world EvAddr (allocatePort ad h))" for ad :: "'s addr_env" and h
    by (rule emits_in_world [OF emits_allocatePort [where P = "\<lambda>_. False"]]) simp
  show ?thesis unfolding first_node_def
    by (rule traces_after [OF emits_driver], rule traces_pafter [OF port], rule traces_set_driver,
        rule traces_abind [OF pki], rule traces_set_driver, rule node) (use nil only later in auto)
qed

definition join_trace :: "libvirt_event list set" where
  "join_trace = {evs. list_all (\<lambda>e. e \<in> range EvLv \<union> range EvVmAdmin) evs}"

definition create_trace :: "libvirt_event list set" where
  "create_trace = {[]} \<union> {EvLock # evs @ EvUnlock # rest | evs rest. evs \<in> new_cluster_trace \<and> rest \<in> join_trace}"

lemma traces_initializeCluster:
  fixes lb :: "('s, 'c, 'k, 'x) libvirt_env"
  assumes "\<And>x. traces join_trace (g x)"
  shows "traces create_trace (pbind (initializeCluster lb) g)"
proof -
  have drop: "traces {[EvUnlock]} (drop_lock lb)"
    by (rule tracesI) (auto simp: drop_lock_def changes_def split: prod.splits)
  let ?U = "{evs @ [EvUnlock] | evs. evs \<in> new_cluster_trace}"
  have locked: "traces ?U (adefer (first_node lb) (drop_lock lb))"
    by (rule traces_adefer [OF traces_first_node drop]) auto
  have nil: "[] \<in> join_trace" by (simp add: join_trace_def)
  have cont: "traces {evs @ EvUnlock # rest | evs rest. evs \<in> new_cluster_trace \<and> rest \<in> join_trace} (pbind (adefer (first_node lb) (drop_lock lb)) g)"
    by (rule traces_pbind [OF locked assms]) (use nil in force)+
  show ?thesis unfolding initializeCluster_def take_lock_def abind_abind pbind_abind
    by (rule traces_after [OF emits_lv_wait], rule traces_note [OF cont]) (auto simp: create_trace_def)
qed

lemma traces_create:
  fixes lb :: "('s, 'c, 'k, 'x) libvirt_env"
  shows "traces create_trace (libvirt_create lb)"
proof -
  have joins: "emits (\<lambda>e. e \<in> range EvLv \<or> e \<in> range EvVmAdmin) (join_nodes lb role num)" for role num
    by (rule emits_join_nodes) auto
  have nil: "[] \<in> create_trace" by (simp add: create_trace_def)
  show ?thesis unfolding libvirt_create_def
    by (rule traces_after [OF emits_driver], rule traces_pafter [OF emits_api_server_address], rule traces_set_driver, rule traces_initializeCluster)
       (auto simp: join_trace_def emits_traces [symmetric] intro!: emits_intro joins nil)
qed

text \<open>The domain of the name is started if it is there and not running; nothing is done if it is not there.\<close>

lemma setDomainRunning_effects:
  assumes "setDomainRunningIfExists l name (s, []) = (r, s', evs)"
    and "\<And>s vm s'. lv_DomainLookupByName l name s = (Inr vm, s') \<Longrightarrow> lo_Name vm = name"
  shows "evs \<in> {[], [EvDomainStart name]}" and "r = Inr (False, b) \<Longrightarrow> evs = []"
  using assms by (auto simp: setDomainRunningIfExists_def abind_run ask_def keep_def lv_ask_def lv_plain_def lv_do_def perform_def
      split: prod.splits sum.splits if_splits)

lemma isClusterUp_silent [emits_intro]: "emits P (isClusterUp ka kubeClient wait)"
  unfolding isClusterUp_def by (intro emits_intro)

lemma traces_start_tail:
  assumes named: "\<And>s vm s'. lv_DomainLookupByName (lb_l lb) name s = (Inr vm, s') \<Longrightarrow> lo_Name vm = name"
  shows "traces ({[], [EvLv (EvDomainStart name)]} \<union> create_trace)
     (abind (in_lv (setDomainRunningIfExists (lb_l lb) name)) (\<lambda>(isRunning, wasRunning).
        if isRunning then abind (in_lv (isClusterUp ka kubeClient (\<not> wasRunning))) (\<lambda>up. pret (up, False))
        else pbind (libvirt_create lb) (\<lambda>_. pret (False, False))))"
    (is "traces ?L (abind (in_lv ?set) ?k)")
proof (rule tracesI)
  fix w tr r w' tr'
  assume run: "abind (in_lv ?set) ?k (w, tr) = (r, w', tr')"
  obtain s d where w: "w = (s, d)" by (cases w)
  obtain q s1 evs where m: "?set (s, []) = (q, s1, evs)" by (metis prod.exhaust)
  note effects = setDomainRunning_effects [OF m named]
  have up: "emits (\<lambda>_. False) (abind (in_lv (isClusterUp ka kubeClient b)) (\<lambda>up. pret (up, False)))" for b
    by (intro emits_intro emits_in_world [OF isClusterUp_silent [where P = "\<lambda>_. False"]]) simp
  have create: "traces create_trace (pbind (libvirt_create lb) (\<lambda>_. pret (False, False)))"
    by (rule traces_pbind [OF traces_create traces_nothing(3) [where L = "{[]}"]]) auto
  show "\<exists>evs \<in> ?L. tr' = tr @ evs"
  proof (cases q)
    case (Inl e)
    with run w m effects(1) show ?thesis by (auto simp: abind_run in_world_run)
  next
    case (Inr b)
    obtain isRunning wasRunning where b: "b = (isRunning, wasRunning)" by (cases b)
    show ?thesis
    proof (cases isRunning)
      case True
      with run w m Inr b have "abind (in_lv (isClusterUp ka kubeClient (\<not> wasRunning))) (\<lambda>up. pret (up, False)) ((s1, d), tr @ map EvLv evs) = (r, w', tr')"
        by (simp add: abind_run in_world_run)
      from no_effects [OF up this] effects(1) show ?thesis by auto
    next
      case False
      with run w m Inr b effects(2) have "pbind (libvirt_create lb) (\<lambda>_. pret (False, False)) ((s1, d), tr) = (r, w', tr')"
        by (simp add: abind_run in_world_run)
      from tracesD [OF create this] show ?thesis by blast
    qed
  qed
qed

lemma resolveNetworking_keeps:
  "resolveNetworking lb ((s, ld), tr) = (r, (s', ld'), tr') \<Longrightarrow> tr' = tr \<and> ld_Name ld' = ld_Name ld \<and> ld_Config ld' = ld_Config ld"
  by (auto simp: resolveNetworking_def abind_run world_run split: prod.splits sum.splits if_splits)

section \<open>Properties\<close>

text \<open>
  C36. What a start does on the host, in which order.  Either nothing is made: at most the machine of the first node is started, if it is there
  already; or a new cluster is made under the lock: first the certificates, then the first machine, then the entry in the file of addresses; the lock
  is dropped before other nodes are added, and the file is not written again.  No cluster is made with both a virtual IP and a load balancer, or on
  top of a cluster of that name in the cache with another session.
\<close>

theorem libvirt_Start_order:
  fixes lb :: "('s, 'c, 'k, 'x) libvirt_env"
  assumes named: "\<And>name s vm s'. lv_DomainLookupByName (lb_l lb) name s = (Inr vm, s') \<Longrightarrow> lo_Name vm = name"
    and run: "libvirt_Start lb ((s, ld), []) = (r, w', evs)"
  shows "(evs = [] \<or> evs = [EvLv (EvDomainStart (getDomainName (ld_Name ld) ControlPlaneRole 1))]
      \<or> (\<exists>pki node addr rest. evs = EvLock # map EvVmPki pki @ map EvLv node @ map EvAddr addr @ EvUnlock # rest
           \<and> set rest \<subseteq> range EvLv \<union> range EvVmAdmin))
    \<and> (evs \<noteq> [] \<longrightarrow> (clu_VirtualIp (ld_Config ld) = [] \<or> clu_LoadBalancer (ld_Config ld) = [])
         \<and> (\<exists>s1 clusterCache. GetCache (lb_ca lb) s = Some (Inr clusterCache, s1) \<and> other_session clusterCache (ld_Config ld) = None))"
proof (cases "evs = []")
  case False
  let ?c = "ld_Config ld" and ?name = "getDomainName (ld_Name ld) ControlPlaneRole 1"
  obtain clusterCache s1 where cache: "GetCache (lb_ca lb) s = Some (Inr clusterCache, s1)"
    using run False by (auto simp: libvirt_Start_def abind_run in_world_run wait_for_def ask_def split: prod.splits sum.splits option.splits)
  with run False have agree: "other_session clusterCache ?c = None"
    and rest: "abind (resolveNetworking lb) (\<lambda>_. start_resolved lb ?c) ((s1, ld), []) = (r, w', evs)"
    by (auto simp: libvirt_Start_def abind_run in_world_run wait_for_def ask_def split: option.splits)
  obtain q s2 ld2 tr2 where net: "resolveNetworking lb ((s1, ld), []) = (q, (s2, ld2), tr2)" by (metis prod.exhaust)
  note keeps = resolveNetworking_keeps [OF net]
  with rest net False have tail: "start_resolved lb ?c ((s2, ld2), []) = (r, w', evs)"
    by (cases q) (auto simp: abind_run)
  with False have one: "clu_VirtualIp ?c = [] \<or> clu_LoadBalancer ?c = []" by (auto simp: start_resolved_def abind_run split: if_splits)
  from tail False keeps have "abind (in_lv (setDomainRunningIfExists (lb_l lb) ?name)) (\<lambda>(isRunning, wasRunning).
        if isRunning
        then abind (in_lv (isClusterUp (by_ka (lb_by lb))
                    (\<lambda>s. case ae_GetKubeClient (by_ae (lb_by lb)) (ld_LocalKubeconfigPath ld2) s of (r, s') \<Rightarrow> (rbind r (\<lambda>_. Inr ()), s'))
                    (\<not> wasRunning))) (\<lambda>up. pret (up, False))
        else pbind (libvirt_create lb) (\<lambda>_. pret (False, False))) ((s2, ld2), []) = (r, w', evs)"
    by (simp add: start_resolved_def abind_driver split: if_splits)
  from tracesD [OF traces_start_tail this] named
  have "evs \<in> {[], [EvLv (EvDomainStart ?name)]} \<union> create_trace" by force
  then show ?thesis using one cache agree unfolding create_trace_def new_cluster_trace_def join_trace_def list_all_iff by fastforce
qed simp

text \<open>A host without networks, on which the machines of every name are there and do not run.\<close>

definition sample_hypervisor :: "int libvirt" where
  "sample_hypervisor = sample_libvirt\<lparr>lv_DomainLookupByName := (\<lambda>n s. (Inr \<lparr>lo_Name = n, lo_UUID = []\<rparr>, s)), lv_DomainIsRunning := (\<lambda>_ s. (Inr False, s))\<rparr>"

definition sample_host :: "int host_env" where
  "sample_host = \<lparr>he_LookupHost = (\<lambda>_ s. (Inr [''10.0.0.1''], s)), he_InterfaceAddrs = (\<lambda>s. (Inr [], s)), he_UserHomeDir = (\<lambda>s. (Inr ''/h'', s)),
     he_MkdirAll = (\<lambda>_ s. (Inr (), s)), he_darwin = False, he_BaseImage = (\<lambda>_ _ s. (Inr [], s))\<rparr>"

definition sample_addr :: "int addr_env" where
  "sample_addr = \<lparr>ad_UserHomeDir = (\<lambda>s. (Inr ''/h'', s)), ad_ReadFile = (\<lambda>_ s. (Inl (NoSuchFile []), s)), ad_Unmarshal = (\<lambda>_ ni. Inr ni),
     ad_Marshal = (\<lambda>_. Inr []), ad_MkdirAll = (\<lambda>_ s. (Inr (), s)), ad_WriteFile = (\<lambda>_ _ s. (Inr (), s))\<rparr>"

definition sample_uri :: TargetURI where
  "sample_uri = \<lparr>uri_Scheme = ''qemu'', uri_Username = [], uri_Host = [], uri_Hostname = [], uri_Path = ''/session''\<rparr>"

definition sample_vm :: "(int, unit, nat, string) libvirt_env" where
  "sample_vm = \<lparr>lb_by = sample_byo, lb_l = sample_hypervisor, lb_he = sample_host, lb_ad = sample_addr, lb_os = ca_os sample_start_cache,
     lb_ca = sample_start_cache, lb_ParseURL = (\<lambda>_. Inr sample_uri), lb_Connect = (\<lambda>_ s. (Inr (), s))\<rparr>"

definition sample_vm_driver :: LibvirtDriver where
  "sample_vm_driver = \<lparr>ld_Name = ''c'', ld_Config = zero_ClusterConfig, ld_URI = sample_uri, ld_Local = True, ld_TargetIP = ''127.0.0.1'',
     ld_KubeAPIServerIP = [], ld_TunnelPort = 0, ld_LocalKubeconfigName = ''l'', ld_LocalKubeconfigPath = ''/h/l'', ld_VMKubeconfigName = ''v'',
     ld_VMKubeconfigPath = ''/h/v'', ld_PKIInfo = None, ld_NetworkName = ''default'', ld_BridgeNetworking = True, ld_NetworkingResolved = True,
     ld_KubeVersion = ''1.33'', ld_BootVolumeContainerImage = [], ld_CPUArch = ''x86_64'', ld_UploadCertificateKey = []\<rparr>"

lemma sample_hypervisor_simps [simp]:
  "lv_DomainLookupByName sample_hypervisor n s = (Inr \<lparr>lo_Name = n, lo_UUID = []\<rparr>, s)" "lv_DomainIsRunning sample_hypervisor d s = (Inr False, s)"
  "lv_DomainCreate sample_hypervisor d s = (Inr (), s)"
  by (simp_all add: sample_hypervisor_def sample_libvirt_def)

lemma sample_cache_read: "GetCache sample_start_cache s = Some (Inr \<lparr>cc_Clusters = Some Map.empty\<rparr>, s)"
proof -
  have w: "WaitFor (ca_os sample_start_cache) t s = Some (Inl ''read-only'', s)" "snd (Drop (ca_os sample_start_cache) s) = s" for t s
    by (simp_all add: WaitFor_def Drop_def sample_start_cache_def Let_def)
  have "lo_HomeDir (ca_os sample_start_cache) s = (Inr ''/h'', s)" "ca_ReadFile sample_start_cache p s = (Inl (NoSuchFile ''no file''), s)" for p s
    by (simp_all add: sample_start_cache_def)
  with w show ?thesis by (simp add: GetCache_def locked_def)
qed

lemma sample_vm_simps [simp]:
  "lb_ca sample_vm = sample_start_cache" "lb_l sample_vm = sample_hypervisor" "ld_NetworkingResolved sample_vm_driver"
  "ld_BridgeNetworking sample_vm_driver" "clu_VirtualIp (ld_Config sample_vm_driver) = []" "ld_Name sample_vm_driver = ''c''"
  by (simp_all add: sample_vm_def sample_vm_driver_def zero_ClusterConfig_def)

theorem libvirt_Start_order_witness:
  "\<exists>r w'. libvirt_Start sample_vm ((0, sample_vm_driver), []) = (r, w', [EvLv (EvDomainStart (getDomainName ''c'' ControlPlaneRole 1))])
     \<and> (\<exists>s1 clusterCache. GetCache (lb_ca sample_vm) 0 = Some (Inr clusterCache, s1) \<and> other_session clusterCache (ld_Config sample_vm_driver) = None)"
proof -
  let ?n = "getDomainName ''c'' ControlPlaneRole 1"
  obtain r w' evs where run: "libvirt_Start sample_vm ((0, sample_vm_driver), []) = (r, w', evs)" by (metis prod.exhaust)
  have "other_session \<lparr>cc_Clusters = Some Map.empty\<rparr> (ld_Config sample_vm_driver) = None" by (simp add: other_session_def cache_Get_def)
  moreover have "resolveNetworking sample_vm ((0, sample_vm_driver), []) = (Inr (), (0, sample_vm_driver), [])"
    by (simp add: resolveNetworking_def abind_driver)
  ultimately have tail: "start_resolved sample_vm (ld_Config sample_vm_driver) ((0, sample_vm_driver), []) = (r, w', evs)"
    using run sample_cache_read [of 0] by (simp add: libvirt_Start_def abind_run in_world_run wait_for_def ask_def)
  have set: "setDomainRunningIfExists sample_hypervisor ?n (0, []) = (Inr (True, False), 0, [EvDomainStart ?n])"
    by (simp add: setDomainRunningIfExists_def abind_run ask_def keep_def lv_ask_def lv_plain_def lv_do_def perform_def)
  have up: "emits (\<lambda>_. False) (abind (in_lv (isClusterUp ka kubeClient b) :: (int, bool) vm_act) (\<lambda>up. pret (up, False)))" for ka kubeClient b
    by (intro emits_intro emits_in_world [OF isClusterUp_silent [where P = "\<lambda>_. False"]]) simp
  from tail set have "\<exists>ka kubeClient. abind (in_lv (isClusterUp ka kubeClient True)) (\<lambda>up. pret (up, False))
      ((0, sample_vm_driver), [EvLv (EvDomainStart ?n)]) = (r, w', evs)"
    by (simp add: start_resolved_def abind_driver) (auto simp: abind_run in_world_run)
  with no_effects [OF up] have "evs = [EvLv (EvDomainStart ?n)]" by blast
  with run libvirt_Start_order [OF _ run] show ?thesis by auto
qed

section \<open>Deleting a cluster\<close>

text \<open>What removing the machines that satisfy \<open>own\<close> may do; starting and refreshing a storage pool is part of looking for it.\<close>

fun removes_only :: "(string \<Rightarrow> bool) \<Rightarrow> lv_event \<Rightarrow> bool" where
  "removes_only own (EvDomainDestroy d) = own d"
| "removes_only own (EvDomainUndefine d) = own d"
| "removes_only own (EvVolDelete _ v) = (\<exists>d. own d \<and> (v = fst (getResourceNames d) \<or> v = snd (getResourceNames d)))"
| "removes_only own (EvPoolStart _) = True"
| "removes_only own (EvPoolAutostart _) = True"
| "removes_only own (EvPoolRefresh _) = True"
| "removes_only own _ = False"

definition lookups_by_name :: "'s libvirt \<Rightarrow> bool" where
  "lookups_by_name l \<longleftrightarrow>
     (\<forall>n s d s'. lv_DomainLookupByName l n s = (Inr d, s') \<longrightarrow> lo_Name d = n)
   \<and> (\<forall>p n s v s'. lv_VolLookupByName l p n s = (Inr v, s') \<longrightarrow> lv_Name v = n)"

lemma emits_refreshStoragePools [emits_intro]: "(\<And>p. P (EvPoolRefresh p)) \<Longrightarrow> emits P (refreshStoragePools l)"
  unfolding refreshStoragePools_def lv_ask_def lv_do_def by (intro emits_intro)

lemma emits_FindStoragePool [emits_intro]:
  assumes "\<And>p. P (EvPoolRefresh p)" and "\<And>p. P (EvPoolStart p)" and "\<And>p. P (EvPoolAutostart p)"
  shows "emits P (FindStoragePool l storagePool poolPath)"
proof -
  have "emits P (pool_with_path l poolPath ps)" for ps
  proof (induction l poolPath ps rule: pool_with_path.induct)
    case (2 l poolPath p ps)
    then show ?case unfolding pool_with_path.simps GetStoragePoolPath_def lv_ask_def by (intro emits_intro)
  qed (simp only: pool_with_path.simps emits_aret)
  then show ?thesis unfolding FindStoragePool_def StartStoragePool_def lv_ask_def lv_do_def Let_def by (intro emits_intro assms)
qed

lemma emits_ResolveURIToIP [emits_intro]: "emits P (ResolveURIToIP he uri)"
  unfolding ResolveURIToIP_def by (intro emits_intro)

lemma emits_getDefaultPoolPath [emits_intro]: "emits P (getDefaultPoolPath he uri)"
  unfolding getDefaultPoolPath_def by (intro emits_intro)

text \<open>After a lookup that gives objects of the name only.\<close>

lemma emits_abind_ask:
  assumes "\<And>s x s'. q s = (Inr x, s') \<Longrightarrow> emits P (f x)"
  shows "emits P (abind (ask q) f)"
proof (rule emitsI)
  fix s tr r s' tr'
  assume run: "abind (ask q) f (s, tr) = (r, s', tr')"
  obtain y s1 where q: "q s = (y, s1)" by (metis prod.exhaust)
  show "\<exists>evs. tr' = tr @ evs \<and> list_all P evs"
  proof (cases y)
    case (Inl e)
    with run q show ?thesis by (simp add: abind_run ask_def)
  next
    case (Inr x)
    with run q have "f x (s1, tr) = (r, s', tr')" by (simp add: abind_run ask_def)
    with emitsD [OF assms] q Inr show ?thesis by blast
  qed
qed

lemma lookups_by_nameD:
  "lookups_by_name l \<Longrightarrow> lv_DomainLookupByName l n s = (Inr d, s') \<Longrightarrow> lo_Name d = n"
  "lookups_by_name l \<Longrightarrow> lv_VolLookupByName l p n s = (Inr v, s') \<Longrightarrow> lv_Name v = n"
  unfolding lookups_by_name_def by blast+

lemma emits_deleteVolume:
  assumes "lookups_by_name l" and "\<And>p. P (EvVolDelete p n)"
  shows "emits P (deleteVolume l pool n)"
  unfolding deleteVolume_def delete_vol_def lv_do_def
  by (rule emits_abind_ask)
     (use assms lookups_by_nameD(2) [OF assms(1)] in \<open>auto simp: keep_def intro!: emits_intro split: sum.splits prod.splits\<close>)

lemma emits_removeDomain:
  assumes "lookups_by_name l" and "P (EvDomainDestroy n)" and "P (EvDomainUndefine n)"
  shows "emits P (removeDomain l n)"
  unfolding removeDomain_def lv_do_def
  by (rule emits_abind_ask)
     (use assms lookups_by_nameD(1) [OF assms(1)] in \<open>auto simp: keep_def intro!: emits_intro split: sum.splits prod.splits\<close>)

lemma emits_removeNode:
  assumes "lookups_by_name (lb_l lb)" and "own d"
  shows "emits (\<lambda>e. \<exists>x. e = EvLv x \<and> removes_only own x) (removeNode lb d)"
proof -
  let ?P = "\<lambda>e. \<exists>x. e = EvLv x \<and> removes_only own x"
  have lv: "emits ?P (in_lv m)" if "emits (removes_only own) m" for m :: "('a, lv_event, 'z) act"
    by (rule emits_in_world [OF that]) blast
  show ?thesis unfolding removeNode_def Let_def
    by (intro emits_intro lv emits_removeDomain emits_deleteVolume assms(1)) (use assms(2) in auto)
qed

definition delete_machines :: "string \<Rightarrow> libvirt_event list set" where
  "delete_machines name = {map EvLv ms | ms. list_all (removes_only (\<lambda>d. isDomainFromCluster d name)) ms}"

definition delete_address :: "libvirt_event list set" where
  "delete_address = {[]} \<union> {EvLock # map EvAddr addr @ un | addr un. un = [] \<or> un = [EvUnlock]}"

lemma traces_machines:
  assumes "lookups_by_name (lb_l lb)"
  shows "traces (delete_machines name) (afor (filter (\<lambda>n. isDomainFromCluster n name) ds) (removeNode lb))"
proof -
  have "emits (\<lambda>e. \<exists>x. e = EvLv x \<and> removes_only (\<lambda>d. isDomainFromCluster d name) x)
      (afor (filter (\<lambda>n. isDomainFromCluster n name) ds) (removeNode lb))"
    by (rule emits_afor) (use emits_removeNode [OF assms] in auto)
  then show ?thesis unfolding emits_traces
  proof (rule traces_mono, intro subsetI)
    fix evs assume evs: "evs \<in> {evs. list_all (\<lambda>e. \<exists>x. e = EvLv x \<and> removes_only (\<lambda>d. isDomainFromCluster d name) x) evs}"
    then have "\<forall>e \<in> set evs. e \<in> range EvLv" by (auto simp: list_all_iff)
    then obtain ms where "evs = map EvLv ms" using in_range_map by blast
    with evs show "evs \<in> delete_machines name" by (auto simp: delete_machines_def list_all_iff)
  qed
qed

lemma traces_release:
  fixes m :: "('s, addr_event, unit outcome) act"
  shows "traces delete_address (abind (take_lock lb) (\<lambda>_.
     atry (in_world EvAddr m) (\<lambda>r. case r of Inr Panics \<Rightarrow> aret Panics | _ \<Rightarrow> atry (drop_lock lb) (\<lambda>_. pret ()))))"
  (is "traces _ (abind _ (\<lambda>_. ?m))")
proof -
  have drop: "traces {[EvUnlock]} (atry (drop_lock lb) (\<lambda>_. pret ()))"
    by (rule traces_atry [where A = "{[EvUnlock]}" and B = "{[]}"]) (auto intro!: tracesI simp: drop_lock_def changes_def pret_def aret_def split: prod.splits)
  have quiet: "traces {[], [EvUnlock]} (case r of Inr Panics \<Rightarrow> aret Panics | _ \<Rightarrow> atry (drop_lock lb) (\<lambda>_. pret ()))" for r :: "unit outcome result"
    by (auto intro!: traces_nothing traces_mono [OF drop] split: sum.split outcome.split)
  have "traces {map EvAddr addr @ un | addr un. un = [] \<or> un = [EvUnlock]} ?m"
    by (rule traces_atry [OF traces_in_world [where L = "range (map EvAddr)"] quiet]) auto
  then show ?thesis unfolding take_lock_def abind_abind
    by (intro traces_after [OF emits_lv_wait] traces_note) (auto simp: delete_address_def)
qed

lemma traces_remove_kubeconfig: "traces {[EvVmRemove path]} (remove_kubeconfig lb path)"
  by (rule tracesI) (auto simp: remove_kubeconfig_def abind_run changes_run keep_def split: prod.splits sum.splits remove_error.splits)

definition files_and_address :: "LibvirtDriver \<Rightarrow> libvirt_event list set" where
  "files_and_address ld =
     (let l = EvVmRemove (ld_LocalKubeconfigPath ld); v = EvVmRemove (ld_VMKubeconfigPath ld)
      in {[], [l]} \<union> {l # v # addr | addr. addr \<in> delete_address})"

lemma traces_Delete:
  assumes "lookups_by_name (lb_l lb)" and "libvirt_Delete lb ((s, ld), []) = (r, w', evs)"
  shows "\<exists>ms fs. evs = map EvLv ms @ fs \<and> list_all (removes_only (\<lambda>d. isDomainFromCluster d (ld_Name ld))) ms \<and> fs \<in> files_and_address ld"
proof -
  let ?l = "EvVmRemove (ld_LocalKubeconfigPath ld)" and ?v = "EvVmRemove (ld_VMKubeconfigPath ld)"
  let ?release = "abind (take_lock lb) (\<lambda>_. atry (in_world EvAddr (removeCluster (lb_ad lb) (ld_Name ld)))
     (\<lambda>r. case r of Inr Panics \<Rightarrow> aret Panics | _ \<Rightarrow> atry (drop_lock lb) (\<lambda>_. pret ())))"
  have nil: "[] \<in> delete_address" "[] \<in> delete_machines (ld_Name ld)" by (auto simp: delete_address_def delete_machines_def)
  have vm: "traces {?v # addr | addr. addr \<in> delete_address} (abind (remove_kubeconfig lb (ld_VMKubeconfigPath ld)) (\<lambda>_. ?release))"
    by (rule traces_abind [OF traces_remove_kubeconfig traces_release]) (use nil in auto)
  have files: "traces (files_and_address ld) (abind (remove_kubeconfig lb (ld_LocalKubeconfigPath ld))
      (\<lambda>_. abind (remove_kubeconfig lb (ld_VMKubeconfigPath ld)) (\<lambda>_. ?release)))"
    by (rule traces_abind [OF traces_remove_kubeconfig vm]) (auto simp: files_and_address_def Let_def)
  let ?L = "{ms @ fs | ms fs. ms \<in> delete_machines (ld_Name ld) \<and> fs \<in> files_and_address ld}"
  have stop: "[] \<in> files_and_address ld" by (simp add: files_and_address_def Let_def)
  have machines: "traces ?L (abind (afor (filter (\<lambda>n. isDomainFromCluster n (ld_Name ld)) ds) (removeNode lb)) (\<lambda>_. abind (remove_kubeconfig lb
      (ld_LocalKubeconfigPath ld)) (\<lambda>_. abind (remove_kubeconfig lb (ld_VMKubeconfigPath ld)) (\<lambda>_. ?release))))" for ds
    by (rule traces_abind [OF traces_machines [OF assms(1)] files]) (use stop in force)+
  have "emits (\<lambda>_. False) (in_lv (lv_ask q))" for q by (rule emits_in_world [where P = "\<lambda>_. False"]) (auto simp: lv_ask_def intro: emits_ask)
  from traces_after [OF this machines] stop nil
  have "traces ?L (abind (in_lv (lv_ask (lv_ListAllDomains (lb_l lb)))) (\<lambda>vms. abind (afor (filter (\<lambda>n. isDomainFromCluster n (ld_Name ld)) (map lo_Name vms)) (removeNode lb))
      (\<lambda>_. abind (remove_kubeconfig lb (ld_LocalKubeconfigPath ld)) (\<lambda>_. abind (remove_kubeconfig lb (ld_VMKubeconfigPath ld)) (\<lambda>_. ?release)))))"
    by blast
  from tracesD [OF this assms(2) [unfolded libvirt_Delete_def abind_driver]]
  show ?thesis unfolding delete_machines_def by auto
qed

lemma other_machine_safe:
  assumes "list_all (removes_only (\<lambda>d. isDomainFromCluster d name)) ms" and "isDomainFromCluster d other" and "other \<noteq> name"
    and "e \<in> {EvDomainDestroy d, EvDomainUndefine d, EvVolDelete pool (fst (getResourceNames d)), EvVolDelete pool (snd (getResourceNames d))}"
  shows "e \<notin> set ms"
proof
  assume "e \<in> set ms"
  with assms(1) have "removes_only (\<lambda>d. isDomainFromCluster d name) e" by (simp add: list_all_iff)
  moreover have "x @ ''.qcow2'' \<noteq> y @ ''-init.ign''" for x y :: string
    by (rule notI) (drule arg_cong [where f = last], simp)
  ultimately have "isDomainFromCluster d name" using assms(4) by (auto simp: getResourceNames_def)
  with assms(2,3) own_domain_unique show False by blast
qed


lemma sample_machines: "isDomainFromCluster ''c-worker-1'' ''c''" "isDomainFromCluster ''other-worker-1'' ''other''"
proof -
  have one: "atoi ''1'' \<noteq> None" by (simp add: atoi_def is_digit_def nat_of_digits_def digit_val_def)
  have "isDomainFromCluster (c @ ''-'' @ WorkerRole @ ''-'' @ ''1'') c" for c
    unfolding isDomainFromCluster_iff using one by (intro exI [of _ WorkerRole] exI [of _ "''1''"]) simp
  from this [of "''c''"] this [of "''other''"] show "isDomainFromCluster ''c-worker-1'' ''c''" "isDomainFromCluster ''other-worker-1'' ''other''"
    by (simp_all add: WorkerRole_def)
qed

lemma sample_remove:
  "removeNode sample_vm d ((0, sample_vm_driver), tr) =
     (Inr (), (0, sample_vm_driver), tr @ map EvLv [EvDomainDestroy d, EvDomainUndefine d, EvVolDelete ''images'' (snd (getResourceNames d)),
        EvVolDelete ''images'' (fst (getResourceNames d))])"
  by (simp add: removeNode_def abind_driver abind_run in_world_run removeDomain_def ask_def keep_def perform_def lv_do_def lv_ask_def lv_plain_def
      getDefaultPoolPath_def ResolveURIToIP_def FindStoragePool_def StartStoragePool_def deleteVolume_def delete_vol_def DefaultStoragePool_def
      sample_vm_def sample_hypervisor_def sample_libvirt_def sample_host_def sample_vm_driver_def sample_uri_def zero_ClusterConfig_def
      zero_Providers_def zero_LibvirtProvider_def Let_def)


text \<open>
  Adding nodes succeeds without adding any when no token can be made: whatever the reason and however many nodes were asked for, no machine is made
  and no error is reported.
\<close>

theorem join_error_hidden:
  assumes "num \<noteq> 0" and "ld_NetworkingResolved ld" and "ld_BridgeNetworking ld"
    and "ae_CertHashes (by_ae (lb_by lb)) (ld_VMKubeconfigPath ld) s = (Inr hashes, s1)"
    and "CreateJoinToken (by_ae (lb_by lb)) (ld_LocalKubeconfigPath ld) False (s1, []) = (Inl e, s2, es)"
  shows "join_nodes lb role num ((s, ld), tr) = (Inr (Returns ()), (s2, ld), tr @ map EvVmAdmin es)"
  using assms by (simp add: join_nodes_def resolveNetworking_def abind_driver abind_run world_run atry_run in_world_run)

theorem join_error_hidden_witness:
  "join_nodes (sample_vm\<lparr>lb_by := sample_byo\<lparr>by_ae := sample_admin\<lparr>ae_GetClientset := (\<lambda>_ s. (Inl ''connection refused'', s))\<rparr>\<rparr>\<rparr>) WorkerRole 3
     ((0, sample_vm_driver), []) = (Inr (Returns ()), (0, sample_vm_driver), [])"
  using join_error_hidden [of 3 sample_vm_driver "sample_vm\<lparr>lb_by := sample_byo\<lparr>by_ae := sample_admin\<lparr>ae_GetClientset := (\<lambda>_ s. (Inl ''connection refused'', s))\<rparr>\<rparr>\<rparr>"
      0 "[''sha256:0'']" 0 "''connection refused''" 0 "[]" WorkerRole "[]"]
  by (simp add: sample_admin_def CreateJoinToken_def abind_run ask_def)

end
