(* ===== verification/Kube_Resources.thy ===== *)
theory Kube_Resources
  imports K8s_Yaml Kube_Api Driver_State
begin

text \<open>
  Objects of any kind in a cluster: their names, labels and owners (what the program uses of
  \<^verbatim>\<open>k8s.io/apimachinery/pkg/apis/meta/v1/unstructured\<close>), the requests for them (\<^verbatim>\<open>pkg/k8s/unstructured.go\<close>) and applying
  manifests (\<^verbatim>\<open>pkg/k8s/apply.go\<close>).  An object is a map from the names of its fields; the order in which Go's runtime goes through
  the keys of a map is \<open>ol_keys\<close>, a parameter.  \<open>resource_client\<close> is the client of one cluster.
\<close>

type_synonym kobject = yaml_object

record obj_lib =
  ol_keys :: "kobject \<Rightarrow> string list"
  ol_Encode :: "kobject \<Rightarrow> string result"
  ol_DeepEqual :: "kobject \<Rightarrow> kobject \<Rightarrow> bool"
  ol_dec :: object_decoder

record 's resource_client =
  rc_New :: "'s \<Rightarrow> unit result \<times> 's"
  rc_List :: "string \<Rightarrow> string \<Rightarrow> 's \<Rightarrow> kobject list result \<times> 's"
  rc_Get :: "kobject \<Rightarrow> 's \<Rightarrow> (kerror + kobject) \<times> 's"
  rc_Create :: "kobject \<Rightarrow> 's \<Rightarrow> kobject result \<times> 's"
  rc_Update :: "kobject \<Rightarrow> 's \<Rightarrow> kobject result \<times> 's"
  rc_Delete :: "string \<Rightarrow> kobject \<Rightarrow> 's \<Rightarrow> (kerror + unit) \<times> 's"

text \<open>Changes to the cluster of a kubeconfig.\<close>

datatype res_event =
    EvResCreate string kobject
  | EvResUpdate string kobject
  | EvResDelete string string kobject

section \<open>Fields of an object\<close>

definition field_text :: "kobject \<Rightarrow> string list \<Rightarrow> string" where
  "field_text u path = (case nested_string u path of Inr (s, True) \<Rightarrow> s | _ \<Rightarrow> [])"

definition GetName :: "kobject \<Rightarrow> string" where "GetName u = field_text u [''metadata'', ''name'']"
definition GetNamespace :: "kobject \<Rightarrow> string" where "GetNamespace u = field_text u [''metadata'', ''namespace'']"
definition GetKind :: "kobject \<Rightarrow> string" where "GetKind u = field_text u [''kind'']"
definition GetAPIVersion :: "kobject \<Rightarrow> string" where "GetAPIVersion u = field_text u [''apiVersion'']"

definition with_field :: "gval \<Rightarrow> string list \<Rightarrow> kobject \<Rightarrow> kobject" where
  "with_field v path u = (case set_nested_field u v path of Inl _ \<Rightarrow> u | Inr u' \<Rightarrow> u')"

fun RemoveNestedField :: "string list \<Rightarrow> kobject \<Rightarrow> kobject" where
  "RemoveNestedField [] u = u"
| "RemoveNestedField [k] u = u(k := None)"
| "RemoveNestedField (k # ks) u = (case u k of Some (GMap m) \<Rightarrow> u(k \<mapsto> GMap (RemoveNestedField ks m)) | _ \<Rightarrow> u)"

definition SetName :: "string \<Rightarrow> kobject \<Rightarrow> kobject" where
  "SetName name u = (if name = [] then RemoveNestedField [''metadata'', ''name''] u else with_field (GStr name) [''metadata'', ''name''] u)"

definition SetNamespace :: "string \<Rightarrow> kobject \<Rightarrow> kobject" where
  "SetNamespace ns u =
     (if ns = [] then RemoveNestedField [''metadata'', ''namespace''] u else with_field (GStr ns) [''metadata'', ''namespace''] u)"

text \<open>A map of strings; with \<open>coerce\<close>, a null in it is the empty string.\<close>

definition string_entry :: "bool \<Rightarrow> gval \<Rightarrow> string option" where
  "string_entry coerce v = (case v of GStr s \<Rightarrow> Some s | GNil \<Rightarrow> if coerce then Some [] else None | _ \<Rightarrow> None)"

definition strings_of :: "obj_lib \<Rightarrow> bool \<Rightarrow> kobject \<Rightarrow> (string \<rightharpoonup> string) result" where
  "strings_of ol coerce m =
     (if list_all (\<lambda>k. case m k of None \<Rightarrow> True | Some v \<Rightarrow> string_entry coerce v \<noteq> None) (ol_keys ol m)
      then Inr (\<lambda>k. case m k of None \<Rightarrow> None | Some v \<Rightarrow> string_entry coerce v)
      else Inl ''accessor error: contains non-string value in the map'')"

definition NestedStringMap :: "obj_lib \<Rightarrow> kobject \<Rightarrow> string list \<Rightarrow> (string \<rightharpoonup> string) option result" where
  "NestedStringMap ol u path =
     rbind (nested_field (GMap u) path) (\<lambda>r. case r of
         None \<Rightarrow> Inr None
       | Some (GMap m) \<Rightarrow> rbind (strings_of ol False m) (\<lambda>m. Inr (Some m))
       | Some _ \<Rightarrow> Inl ''accessor error: not a map'')"

definition metadata_strings :: "obj_lib \<Rightarrow> kobject \<Rightarrow> string \<Rightarrow> (string \<rightharpoonup> string)" where
  "metadata_strings ol u k =
     (case nested_field (GMap u) [''metadata'', k] of
        Inr (Some (GMap m)) \<Rightarrow> (case strings_of ol True m of Inl _ \<Rightarrow> Map.empty | Inr m \<Rightarrow> m)
      | _ \<Rightarrow> Map.empty)"

definition GetLabels :: "obj_lib \<Rightarrow> kobject \<Rightarrow> (string \<rightharpoonup> string)" where "GetLabels ol u = metadata_strings ol u ''labels''"
definition GetAnnotations :: "obj_lib \<Rightarrow> kobject \<Rightarrow> (string \<rightharpoonup> string)" where "GetAnnotations ol u = metadata_strings ol u ''annotations''"

definition SetAnnotations :: "(string \<rightharpoonup> string) \<Rightarrow> kobject \<Rightarrow> kobject" where
  "SetAnnotations annots u = with_field (GMap (\<lambda>k. map_option GStr (annots k))) [''metadata'', ''annotations''] u"

record OwnerReference =
  or_APIVersion :: string
  or_Kind :: string
  or_Name :: string

definition owner_of :: "gval \<Rightarrow> OwnerReference option" where
  "owner_of v = (case v of
      GMap m \<Rightarrow> Some \<lparr>or_APIVersion = field_text m [''apiVersion''], or_Kind = field_text m [''kind''], or_Name = field_text m [''name'']\<rparr>
    | _ \<Rightarrow> None)"

definition GetOwnerReferences :: "kobject \<Rightarrow> OwnerReference list" where
  "GetOwnerReferences u =
     (case nested_field (GMap u) [''metadata'', ''ownerReferences''] of
        Inr (Some (GList vs)) \<Rightarrow> if list_all (\<lambda>v. owner_of v \<noteq> None) vs then map (\<lambda>v. the (owner_of v)) vs else []
      | _ \<Rightarrow> [])"

definition ParseGroupVersion :: "string \<Rightarrow> (string \<times> string) result" where
  "ParseGroupVersion gv =
     (if gv = [] \<or> gv = ''/'' then Inr ([], [])
      else case go_split gv ''/'' of
             [v] \<Rightarrow> Inr ([], v)
           | [g, v] \<Rightarrow> Inr (g, v)
           | _ \<Rightarrow> Inl (''unexpected GroupVersion string: '' @ gv))"

definition GroupVersionKind :: "kobject \<Rightarrow> string \<times> string \<times> string" where
  "GroupVersionKind u = (case ParseGroupVersion (GetAPIVersion u) of Inl _ \<Rightarrow> ([], [], []) | Inr (g, v) \<Rightarrow> (g, v, GetKind u))"

definition FromAPIVersionAndKind :: "string \<Rightarrow> string \<Rightarrow> string \<times> string \<times> string" where
  "FromAPIVersionAndKind apiVersion kind = (case ParseGroupVersion apiVersion of Inl _ \<Rightarrow> ([], [], kind) | Inr (g, v) \<Rightarrow> (g, v, kind))"

definition SetGroupVersionKind :: "string \<times> string \<times> string \<Rightarrow> kobject \<Rightarrow> kobject" where
  "SetGroupVersionKind gvk u = (case gvk of (g, v, kind) \<Rightarrow>
     with_field (GStr kind) [''kind''] (with_field (GStr (if g = [] then v else g @ ''/'' @ v)) [''apiVersion''] u))"

definition gvk_text :: "kobject \<Rightarrow> string" where
  "gvk_text u = (case GroupVersionKind u of (g, v, kind) \<Rightarrow> g @ ''/'' @ v @ '', Kind='' @ kind)"

section \<open>Requests\<close>

definition plain_error :: "('s \<Rightarrow> (kerror + 'a) \<times> 's) \<Rightarrow> 's \<Rightarrow> 'a result \<times> 's" where
  "plain_error q s = (case q s of (Inl err, s') \<Rightarrow> (Inl (kerror_text err), s') | (Inr x, s') \<Rightarrow> (Inr x, s'))"

text \<open>The namespace is not part of the request.\<close>

definition GetResources :: "'s resource_client \<Rightarrow> string \<Rightarrow> string \<Rightarrow> string \<Rightarrow> ('s, 'e, kobject list) act" where
  "GetResources rc namespace apiVersion kind = abind (ask (rc_New rc)) (\<lambda>_. ask (rc_List rc apiVersion kind))"

definition GetResource :: "'s resource_client \<Rightarrow> kobject \<Rightarrow> ('s, 'e, kobject) act" where
  "GetResource rc u = abind (ask (rc_New rc)) (\<lambda>_. ask (plain_error (rc_Get rc u)))"

definition CreateResource :: "'s resource_client \<Rightarrow> string \<Rightarrow> kobject \<Rightarrow> ('s, res_event, kobject) act" where
  "CreateResource rc cluster u =
     abind (ask (rc_New rc)) (\<lambda>_.
       let u = fold (\<lambda>k. RemoveNestedField [''metadata'', k]) [''resourceVersion'', ''uid'', ''creationTimestamp'', ''ownerReferences''] u
       in perform (EvResCreate cluster u) (rc_Create rc u))"

definition CreateResourceIfNotExist :: "'s resource_client \<Rightarrow> string \<Rightarrow> kobject \<Rightarrow> ('s, res_event, unit) act" where
  "CreateResourceIfNotExist rc cluster u =
     atry (GetResource rc u) (\<lambda>r. case r of
         Inr _ \<Rightarrow> aret ()
       | Inl err \<Rightarrow> if \<not> go_contains err ''not found'' then afail err else abind (CreateResource rc cluster u) (\<lambda>_. aret ()))"

definition identified :: "string \<Rightarrow> string \<Rightarrow> string \<Rightarrow> string \<Rightarrow> string \<Rightarrow> kobject" where
  "identified group_name version kind name namespace = SetNamespace namespace (SetName name (SetGroupVersionKind (group_name, version, kind) Map.empty))"

definition GetResourceByIdentifier ::
  "'s resource_client \<Rightarrow> string \<Rightarrow> string \<Rightarrow> string \<Rightarrow> string \<Rightarrow> string \<Rightarrow> ('s, 'e, kobject) act" where
  "GetResourceByIdentifier rc group_name version kind name namespace = GetResource rc (identified group_name version kind name namespace)"

definition DeleteResource :: "'s resource_client \<Rightarrow> string \<Rightarrow> kobject \<Rightarrow> ('s, res_event, unit) act" where
  "DeleteResource rc cluster u = abind (ask (rc_New rc)) (\<lambda>_. perform (EvResDelete cluster [] u) (plain_error (rc_Delete rc [] u)))"

definition DeleteResourceByIdentifier ::
  "'s resource_client \<Rightarrow> string \<Rightarrow> string \<Rightarrow> string \<Rightarrow> string \<Rightarrow> string \<Rightarrow> string \<Rightarrow> ('s, res_event, unit) act" where
  "DeleteResourceByIdentifier rc cluster group_name version kind name namespace =
     abind (GetResource rc (identified group_name version kind name namespace)) (DeleteResource rc cluster)"

definition UpdateResource :: "'s resource_client \<Rightarrow> string \<Rightarrow> kobject \<Rightarrow> ('s, res_event, kobject) act" where
  "UpdateResource rc cluster u = abind (ask (rc_New rc)) (\<lambda>_. perform (EvResUpdate cluster u) (rc_Update rc u))"

end
