(* ===== verification/Kube_Apply.thy ===== *)
theory Kube_Apply
  imports Kube_Resources
begin

text \<open>
  Applying and deleting manifests (\<^verbatim>\<open>pkg/k8s/apply.go\<close>).  The applier is changed by its operations (\<open>Driver_State\<close>); its client is the kubeconfig it
  was made from.  \<open>apply_env\<close> has the clients, the files, the template engine and the library of objects.
\<close>

record YAMLApplier =
  ya_client :: string
  ya_objects :: "kobject list"
  ya_namespaceOverride :: string
  ya_objectResultMsgs :: "string list"

record ('s, 'x) apply_env =
  ap_rc :: "string \<Rightarrow> 's resource_client"
  ap_ol :: obj_lib
  ap_ReadDir :: "string \<Rightarrow> 's \<Rightarrow> (string \<times> bool) list result \<times> 's"
  ap_ReadFile :: "string \<Rightarrow> 's \<Rightarrow> string result \<times> 's"
  ap_ExecuteFile :: "string \<Rightarrow> 'x \<Rightarrow> 's \<Rightarrow> string result \<times> 's"
  ap_Execute :: "string \<Rightarrow> 'x \<Rightarrow> string result"
  ap_GetKubeConfig :: "string \<Rightarrow> 's \<Rightarrow> unit result \<times> 's"

type_synonym ('s, 'a) apply_act = "('s \<times> YAMLApplier, res_event, 'a) act"

definition NewYAMLApplier :: "('s, 'x) apply_env \<Rightarrow> string \<Rightarrow> string \<Rightarrow> ('s, 'e, YAMLApplier) act" where
  "NewYAMLApplier ap restConf namespaceOverride =
     abind (ask (rc_New (ap_rc ap restConf))) (\<lambda>_.
       aret \<lparr>ya_client = restConf, ya_objects = [], ya_namespaceOverride = namespaceOverride, ya_objectResultMsgs = []\<rparr>)"

definition Objects :: "YAMLApplier \<Rightarrow> kobject list" where "Objects y = ya_objects y"
definition ObjectResultMsgs :: "YAMLApplier \<Rightarrow> string list" where "ObjectResultMsgs y = ya_objectResultMsgs y"

section \<open>One object\<close>

definition overridden :: "YAMLApplier \<Rightarrow> kobject \<Rightarrow> kobject" where
  "overridden y ob = (let ns = trim_space (ya_namespaceOverride y) in if ns \<noteq> [] then SetNamespace ns ob else ob)"

definition merge_keys :: "kobject \<Rightarrow> kobject \<Rightarrow> kobject" where "merge_keys m1 m2 = m1 ++ m2"

text \<open>
  What becomes of a field of the manifest: a map is laid over that of the server, a list replaces it, and any other value is used only if the server
  has none.  A map cannot be laid over a value that is no map: the type assertion panics.
\<close>

definition merge_field :: "gval option \<Rightarrow> gval \<Rightarrow> gval outcome" where
  "merge_field server client =
     (let server = (case server of None \<Rightarrow> GNil | Some v \<Rightarrow> v)
      in case client of
           GMap m2 \<Rightarrow> (case server of GNil \<Rightarrow> Returns client | GMap m1 \<Rightarrow> Returns (GMap (merge_keys m1 m2)) | _ \<Rightarrow> Panics)
         | GList _ \<Rightarrow> Returns client
         | _ \<Rightarrow> Returns (if is_nil server then client else server))"

definition client_fields :: "obj_lib \<Rightarrow> kobject \<Rightarrow> (string \<times> gval) list" where
  "client_fields ol ob = map (\<lambda>k. (k, the (ob k))) (filter (\<lambda>k. k \<noteq> ''kind'' \<and> k \<noteq> ''apiVersion'') (ol_keys ol ob))"

fun merge_fields :: "(string \<times> gval) list \<Rightarrow> kobject \<Rightarrow> kobject outcome" where
  "merge_fields [] server = Returns server"
| "merge_fields ((k, v) # fs) server = (case merge_field (server k) v of Panics \<Rightarrow> Panics | Returns w \<Rightarrow> merge_fields fs (server(k \<mapsto> w)))"

definition clear_others :: "obj_lib \<Rightarrow> (string \<times> gval) list \<Rightarrow> kobject \<Rightarrow> kobject" where
  "clear_others ol fs server =
     fold (\<lambda>k ob. ob(k \<mapsto> GNil)) (filter (\<lambda>k. k \<noteq> ''kind'' \<and> k \<noteq> ''apiVersion'' \<and> k \<notin> fst ` set fs) (ol_keys ol server)) server"

definition mutated :: "obj_lib \<Rightarrow> (string \<times> gval) list \<Rightarrow> kobject \<Rightarrow> kobject outcome" where
  "mutated ol fs server = (case merge_fields fs server of Panics \<Rightarrow> Panics | Returns ob \<Rightarrow> Returns (clear_others ol fs ob))"

definition LastAppliedConfigAnnotation :: string where
  "LastAppliedConfigAnnotation = ''kubectl.kubernetes.io/last-applied-configuration''"

definition SetLastAppliedConfigurationAnnotation :: "obj_lib \<Rightarrow> kobject \<Rightarrow> kobject result" where
  "SetLastAppliedConfigurationAnnotation ol ob =
     (let annots = GetAnnotations ol ob
      in case ol_Encode ol (SetAnnotations (annots(LastAppliedConfigAnnotation := None)) ob) of
           Inl err \<Rightarrow> Inl (''error while applying '' @ LastAppliedConfigAnnotation @ '' annotation on the object: '' @ err)
         | Inr modified \<Rightarrow> Inr (SetAnnotations (annots(LastAppliedConfigAnnotation \<mapsto> modified)) ob))"

text \<open>\<^verbatim>\<open>CreateOrUpdate\<close> of the controller runtime: the object as it is then, and what was done.\<close>

definition key_kept :: "kobject \<Rightarrow> kobject \<Rightarrow> unit result" where
  "key_kept ob ob' =
     (if GetName ob' = GetName ob \<and> GetNamespace ob' = GetNamespace ob then Inr ()
      else Inl ''MutateFn cannot mutate object name and/or object namespace'')"

definition CreateOrUpdate ::
  "obj_lib \<Rightarrow> 's resource_client \<Rightarrow> string \<Rightarrow> kobject \<Rightarrow> (kobject \<Rightarrow> kobject outcome) \<Rightarrow> ('s, res_event, (kobject \<times> string) outcome) act" where
  "CreateOrUpdate ol rc cluster ob f =
     abind (ask (keep (rc_Get rc ob))) (\<lambda>r. case r of
         Inl (KOther err) \<Rightarrow> afail err
       | Inl (KNotFound _) \<Rightarrow> (case f ob of
             Panics \<Rightarrow> aret Panics
           | Returns ob' \<Rightarrow> abind (alift (key_kept ob ob')) (\<lambda>_.
               abind (perform (EvResCreate cluster ob') (rc_Create rc ob')) (\<lambda>made. pret (made, ''created''))))
       | Inr existing \<Rightarrow> (case f existing of
             Panics \<Rightarrow> aret Panics
           | Returns ob' \<Rightarrow> abind (alift (key_kept ob ob')) (\<lambda>_.
               if ol_DeepEqual ol existing ob' then pret (ob', ''unchanged'')
               else abind (perform (EvResUpdate cluster ob') (rc_Update rc ob')) (\<lambda>made. pret (made, ''updated'')))))"

definition result_message :: "kobject \<Rightarrow> string \<Rightarrow> string" where
  "result_message ob result =
     (let g = fst (GroupVersionKind ob)
      in GetKind ob @ (if g \<noteq> [] then ''.'' @ g else []) @ ''/'' @ GetName ob @ '' '' @ result)"

text \<open>A field of the manifest that is null has no type: asking for its name panics.\<close>

definition applyAction :: "('s, 'x) apply_env \<Rightarrow> kobject \<Rightarrow> ('s, unit outcome) apply_act" where
  "applyAction ap ob =
     abind driver (\<lambda>y.
       let ol = ap_ol ap; ob = overridden y ob; fs = client_fields ol ob
       in if list_ex (\<lambda>(k, v). is_nil v) fs then aret Panics
          else abind (alift (SetLastAppliedConfigurationAnnotation ol ob)) (\<lambda>ob.
               pbind (in_world (\<lambda>e. e) (CreateOrUpdate ol (ap_rc ap (ya_client y)) (ya_client y) ob (mutated ol fs))) (\<lambda>(ob, result).
               abind (set_driver (\<lambda>y. y\<lparr>ya_objects := ya_objects y @ [ob], ya_objectResultMsgs := ya_objectResultMsgs y @ [result_message ob result]\<rparr>)) (\<lambda>_.
                 pret ()))))"

definition delete_from :: "('s, 'x) apply_env \<Rightarrow> string \<Rightarrow> string \<Rightarrow> kobject \<Rightarrow> ('s, unit) apply_act" where
  "delete_from ap cluster policy ob =
     abind (changes (EvResDelete cluster policy ob) (keep (rc_Delete (ap_rc ap cluster) policy ob))) (\<lambda>r. case r of
         Inl (KOther err) \<Rightarrow> afail err
       | _ \<Rightarrow> aret ())"

definition execDeleteAction :: "('s, 'x) apply_env \<Rightarrow> string \<Rightarrow> kobject \<Rightarrow> ('s, unit outcome) apply_act" where
  "execDeleteAction ap propagationPolicy ob =
     abind driver (\<lambda>y. abind (delete_from ap (ya_client y) propagationPolicy (overridden y ob)) (\<lambda>_. pret ()))"

definition deleteAction :: "('s, 'x) apply_env \<Rightarrow> kobject \<Rightarrow> ('s, unit outcome) apply_act" where
  "deleteAction ap = execDeleteAction ap ''Orphan''"

definition deleteActionWithDependents :: "('s, 'x) apply_env \<Rightarrow> kobject \<Rightarrow> ('s, unit outcome) apply_act" where
  "deleteActionWithDependents ap = execDeleteAction ap ''Background''"

section \<open>Manifests\<close>

definition doAction :: "('s, 'x) apply_env \<Rightarrow> string \<Rightarrow> (kobject \<Rightarrow> ('s, unit outcome) apply_act) \<Rightarrow> ('s, unit outcome) apply_act" where
  "doAction ap content f =
     (case Unmarshall (ol_dec (ap_ol ap)) content of
        (_, Some err) \<Rightarrow> afail err
      | (objs, None) \<Rightarrow> pfor objs f)"

definition doFileAction :: "('s, 'x) apply_env \<Rightarrow> string \<Rightarrow> (kobject \<Rightarrow> ('s, unit outcome) apply_act) \<Rightarrow> ('s, unit outcome) apply_act" where
  "doFileAction ap filePath f = abind (world (ap_ReadFile ap filePath)) (\<lambda>content. doAction ap content f)"

definition doStringAction :: "('s, 'x) apply_env \<Rightarrow> string \<Rightarrow> (kobject \<Rightarrow> ('s, unit outcome) apply_act) \<Rightarrow> ('s, unit outcome) apply_act" where
  "doStringAction ap spec f = doAction ap spec f"

definition doTemplatedFileAction ::
  "('s, 'x) apply_env \<Rightarrow> string \<Rightarrow> (kobject \<Rightarrow> ('s, unit outcome) apply_act) \<Rightarrow> 'x \<Rightarrow> ('s, unit outcome) apply_act" where
  "doTemplatedFileAction ap filePath f args = abind (world (ap_ExecuteFile ap filePath args)) (\<lambda>content. doAction ap content f)"

definition doTemplatedBytesAction ::
  "('s, 'x) apply_env \<Rightarrow> string \<Rightarrow> (kobject \<Rightarrow> ('s, unit outcome) apply_act) \<Rightarrow> 'x \<Rightarrow> ('s, unit outcome) apply_act" where
  "doTemplatedBytesAction ap b f args = abind (alift (ap_Execute ap b args)) (\<lambda>content. doAction ap content f)"

definition ApplyF :: "('s, 'x) apply_env \<Rightarrow> string \<Rightarrow> ('s, unit outcome) apply_act" where
  "ApplyF ap filePath = doFileAction ap filePath (applyAction ap)"

definition ApplyS :: "('s, 'x) apply_env \<Rightarrow> string \<Rightarrow> ('s, unit outcome) apply_act" where
  "ApplyS ap spec = doStringAction ap spec (applyAction ap)"

definition ApplyFT :: "('s, 'x) apply_env \<Rightarrow> string \<Rightarrow> 'x \<Rightarrow> ('s, unit outcome) apply_act" where
  "ApplyFT ap filePath args = doTemplatedFileAction ap filePath (applyAction ap) args"

definition ApplyBT :: "('s, 'x) apply_env \<Rightarrow> string \<Rightarrow> 'x \<Rightarrow> ('s, unit outcome) apply_act" where
  "ApplyBT ap b args = doTemplatedBytesAction ap b (applyAction ap) args"

definition DeleteF :: "('s, 'x) apply_env \<Rightarrow> string \<Rightarrow> ('s, unit outcome) apply_act" where
  "DeleteF ap filePath = doFileAction ap filePath (deleteAction ap)"

definition DeleteS :: "('s, 'x) apply_env \<Rightarrow> string \<Rightarrow> ('s, unit outcome) apply_act" where
  "DeleteS ap spec = doStringAction ap spec (deleteAction ap)"

definition DeleteFWithDependents :: "('s, 'x) apply_env \<Rightarrow> string \<Rightarrow> ('s, unit outcome) apply_act" where
  "DeleteFWithDependents ap filePath = doFileAction ap filePath (deleteActionWithDependents ap)"

definition DeleteFT :: "('s, 'x) apply_env \<Rightarrow> string \<Rightarrow> 'x \<Rightarrow> ('s, unit outcome) apply_act" where
  "DeleteFT ap filePath args = doTemplatedFileAction ap filePath (deleteAction ap) args"

definition use_client :: "('s, 'x) apply_env \<Rightarrow> string \<Rightarrow> ('s, unit) apply_act" where
  "use_client ap kubeconfigPath =
     abind (world (ap_GetKubeConfig ap kubeconfigPath)) (\<lambda>_.
     abind (world (rc_New (ap_rc ap kubeconfigPath))) (\<lambda>_.
       set_driver (\<lambda>y. y\<lparr>ya_client := kubeconfigPath\<rparr>)))"

text \<open>The manifest itself is taken for the kubeconfig when it is applied.\<close>

definition ApplyFTDefaultConfig :: "('s, 'x) apply_env \<Rightarrow> string \<Rightarrow> 'x \<Rightarrow> string \<Rightarrow> ('s, unit outcome) apply_act" where
  "ApplyFTDefaultConfig ap filePath args kubeconfigPath = abind (use_client ap filePath) (\<lambda>_. ApplyFT ap filePath args)"

definition DeleteFTDefaultConfig :: "('s, 'x) apply_env \<Rightarrow> string \<Rightarrow> 'x \<Rightarrow> string \<Rightarrow> ('s, unit outcome) apply_act" where
  "DeleteFTDefaultConfig ap filePath args kubeconfigPath = abind (use_client ap kubeconfigPath) (\<lambda>_. DeleteFT ap filePath args)"

section \<open>Directories\<close>

definition path_ext :: "string \<Rightarrow> string" where
  "path_ext p =
     (let t = takeWhile (\<lambda>c. c \<noteq> CHR ''.'' \<and> c \<noteq> CHR ''/'') (rev p)
      in case drop (length t) (rev p) of c # _ \<Rightarrow> if c = CHR ''.'' then CHR ''.'' # rev t else [] | [] \<Rightarrow> [])"

definition isYamlExt :: "string \<Rightarrow> bool" where
  "isYamlExt fileName \<longleftrightarrow> path_ext fileName = ''.yml'' \<or> path_ext fileName = ''.yaml''"

definition filterYamlExt :: "(string \<times> bool) list \<Rightarrow> string list" where
  "filterYamlExt entries = map fst (filter (\<lambda>(name, isDir). \<not> isDir \<and> isYamlExt name) entries)"

definition on_directory :: "('s, 'x) apply_env \<Rightarrow> string \<Rightarrow> (string \<Rightarrow> ('s, unit outcome) apply_act) \<Rightarrow> ('s, unit outcome) apply_act" where
  "on_directory ap directory f =
     abind (world (ap_ReadDir ap directory)) (\<lambda>entries.
       let filteredFiles = filterYamlExt entries
       in if filteredFiles = [] then afail (''no files passed to apply: '' @ directory)
          else pfor filteredFiles (\<lambda>name. f (directory @ ''/'' @ name)))"

definition ApplyD :: "('s, 'x) apply_env \<Rightarrow> string \<Rightarrow> ('s, unit outcome) apply_act" where
  "ApplyD ap directory = on_directory ap directory (ApplyF ap)"

definition ApplyDT :: "('s, 'x) apply_env \<Rightarrow> string \<Rightarrow> 'x \<Rightarrow> ('s, unit outcome) apply_act" where
  "ApplyDT ap directory args = on_directory ap directory (\<lambda>filePath. ApplyFT ap filePath args)"

definition DeleteAll :: "('s, 'x) apply_env \<Rightarrow> ('s, unit) apply_act" where
  "DeleteAll ap =
     abind driver (\<lambda>y.
     abind (afor (ya_objects y) (delete_from ap (ya_client y) [])) (\<lambda>_.
       set_driver (\<lambda>y. y\<lparr>ya_objects := []\<rparr>)))"

section \<open>Functions for templates\<close>

definition is_line_end :: "char \<Rightarrow> bool" where
  "is_line_end c \<longleftrightarrow> of_char c \<in> {10, 11, 12, 13 :: nat}"

fun fields_at :: "(char \<Rightarrow> bool) \<Rightarrow> string \<Rightarrow> string \<Rightarrow> string list" where
  "fields_at P [] acc = (if acc = [] then [] else [acc])"
| "fields_at P (c # cs) acc = (if P c then (if acc = [] then [] else [acc]) @ fields_at P cs [] else fields_at P cs (acc @ [c]))"

definition nindent :: "nat \<Rightarrow> string \<Rightarrow> string" where
  "nindent indent s = go_join (map (\<lambda>seg. replicate indent CHR '' '' @ trim_space seg) (fields_at is_line_end s [])) [CHR 10]"

fun split_after_line :: "string \<Rightarrow> string \<Rightarrow> string list" where
  "split_after_line [] acc = [acc]"
| "split_after_line (c # cs) acc = (if c = CHR 10 then (acc @ [c]) # split_after_line cs [] else split_after_line cs (acc @ [c]))"

definition multiLineIndent :: "nat \<Rightarrow> string \<Rightarrow> string" where
  "multiLineIndent indentNum aff = concat (map (\<lambda>line. replicate indentNum CHR '' '' @ line) (split_after_line aff []))"

end
