(* ===== verification/Capi_Graph.thy ===== *)
theory Capi_Graph
  imports Kube_Resources "HOL-Library.AList"
begin

text \<open>
  The graph of the Cluster API objects of a cluster (\<^verbatim>\<open>pkg/cluster/driver/capi/capi.go\<close>).  The nodes are shared and changed through
  pointers: they live in a store, and a pointer is an index into it.  A node joins the store when it is made.  A Go map is an association list;
  the order in which the runtime goes through its keys is a parameter.
\<close>

type_synonym 'v gomap = "(string \<times> 'v) list"

record GraphNode =
  gn_Object :: kobject
  gn_Children :: "nat gomap gomap"

record ClusterGraph =
  cg_nodes :: "GraphNode list"
  cg_Cluster :: nat
  cg_InfrastructureCluster :: nat
  cg_ControlPlane :: nat
  cg_MachineTemplates :: "nat gomap gomap"
  cg_MachineDeployments :: "nat gomap"
  cg_MachineSets :: "nat gomap"
  cg_Machines :: "nat gomap"
  cg_All :: "nat gomap gomap"

definition ClusterNameLabel :: string where "ClusterNameLabel = ''cluster.x-k8s.io/cluster-name''"
definition ClusterInfrastructureRef :: "string list" where "ClusterInfrastructureRef = [''spec'', ''infrastructureRef'']"
definition ClusterControlPlaneRef :: "string list" where "ClusterControlPlaneRef = [''spec'', ''controlPlaneRef'']"
definition ControlPlaneMachineTemplateInfrastructureRef :: "string list" where
  "ControlPlaneMachineTemplateInfrastructureRef = [''spec'', ''machineTemplate'', ''infrastructureRef'']"
definition MachineDeploymentInfrastructureRef :: "string list" where
  "MachineDeploymentInfrastructureRef = [''spec'', ''template'', ''spec'', ''infrastructureRef'']"
definition KubeadmControlPlane :: string where "KubeadmControlPlane = ''KubeadmControlPlane''"

section \<open>Nodes and maps of nodes\<close>

definition node_at :: "ClusterGraph \<Rightarrow> nat \<Rightarrow> GraphNode" where "node_at g p = cg_nodes g ! p"
definition object_at :: "ClusterGraph \<Rightarrow> nat \<Rightarrow> kobject" where "object_at g p = gn_Object (node_at g p)"
definition gn_GetName :: "ClusterGraph \<Rightarrow> nat \<Rightarrow> string" where "gn_GetName g p = GetName (object_at g p)"
definition gvk_at :: "ClusterGraph \<Rightarrow> nat \<Rightarrow> string" where "gvk_at g p = gvk_text (object_at g p)"

definition newGraphNode :: "kobject \<Rightarrow> ClusterGraph \<Rightarrow> nat \<times> ClusterGraph" where
  "newGraphNode ob g = (length (cg_nodes g), g\<lparr>cg_nodes := cg_nodes g @ [\<lparr>gn_Object = ob, gn_Children = []\<rparr>]\<rparr>)"

definition getFromNestedMap :: "'v gomap gomap \<Rightarrow> string \<Rightarrow> string \<Rightarrow> 'v option" where
  "getFromNestedMap m gvk name = (case map_of m gvk of None \<Rightarrow> None | Some kindMap \<Rightarrow> map_of kindMap name)"

definition addToNestedMap :: "'v gomap gomap \<Rightarrow> string \<Rightarrow> string \<Rightarrow> 'v \<Rightarrow> 'v gomap gomap" where
  "addToNestedMap m firstKey name v =
     (let kindMap = (case map_of m firstKey of None \<Rightarrow> [] | Some k \<Rightarrow> k) in AList.update firstKey (AList.update name v kindMap) m)"

definition AddChild :: "nat \<Rightarrow> nat \<Rightarrow> ClusterGraph \<Rightarrow> ClusterGraph" where
  "AddChild p c g =
     (let gn = node_at g p
      in g\<lparr>cg_nodes := (cg_nodes g)[p := gn\<lparr>gn_Children := addToNestedMap (gn_Children gn) (gvk_at g c) (gn_GetName g c) c\<rparr>]\<rparr>)"

text \<open>The three nodes of a new graph are replaced before anybody looks at their objects, which are nil.\<close>

definition newClusterGraph :: ClusterGraph where
  "newClusterGraph =
     \<lparr>cg_nodes = replicate 3 \<lparr>gn_Object = Map.empty, gn_Children = []\<rparr>, cg_Cluster = 0, cg_InfrastructureCluster = 1, cg_ControlPlane = 2,
      cg_MachineTemplates = [], cg_MachineDeployments = [], cg_MachineSets = [], cg_Machines = [], cg_All = []\<rparr>"

text \<open>The node that is in the graph already, or this one.\<close>

definition AddToAll :: "nat \<Rightarrow> ClusterGraph \<Rightarrow> nat \<times> ClusterGraph" where
  "AddToAll p g =
     (case getFromNestedMap (cg_All g) (gvk_at g p) (gn_GetName g p) of
        Some q \<Rightarrow> (q, g)
      | None \<Rightarrow> (p, g\<lparr>cg_All := addToNestedMap (cg_All g) (gvk_at g p) (gn_GetName g p) p\<rparr>))"

section \<open>References\<close>

definition makeUnst :: "string \<Rightarrow> string \<Rightarrow> string \<Rightarrow> string \<Rightarrow> kobject" where
  "makeUnst apiVersion kind namespace name =
     SetGroupVersionKind (FromAPIVersionAndKind apiVersion kind) (SetName name (SetNamespace namespace Map.empty))"

definition makeUnstFromRef :: "(string \<rightharpoonup> string) \<Rightarrow> string \<Rightarrow> kobject result" where
  "makeUnstFromRef ref namespace =
     (case ref ''apiVersion'' of
        None \<Rightarrow> Inl ''Reference does not contain an apiVersion''
      | Some apiVersion \<Rightarrow> (case ref ''kind'' of
          None \<Rightarrow> Inl ''Reference does not contain a kind''
        | Some kind \<Rightarrow> (case ref ''name'' of
            None \<Rightarrow> Inl ''Reference does not contain a name''
          | Some name \<Rightarrow> Inr (makeUnst apiVersion kind namespace name))))"

text \<open>A map that is not there is empty.\<close>

definition stringMap :: "obj_lib \<Rightarrow> kobject \<Rightarrow> string list \<Rightarrow> (string \<rightharpoonup> string) result" where
  "stringMap ol u path = rbind (NestedStringMap ol u path) (\<lambda>r. Inr (case r of None \<Rightarrow> Map.empty | Some m \<Rightarrow> m))"

definition getByRef :: "'s resource_client \<Rightarrow> obj_lib \<Rightarrow> kobject \<Rightarrow> string list \<Rightarrow> ('s, 'e, kobject) act" where
  "getByRef rc ol u path =
     abind (alift (stringMap ol u path)) (\<lambda>ref.
     abind (alift (makeUnstFromRef ref (GetNamespace u))) (GetResource rc))"

definition owned_by :: "kobject \<Rightarrow> kobject \<Rightarrow> bool" where
  "owned_by owner u \<longleftrightarrow> GetNamespace u = GetNamespace owner \<and>
     list_ex (\<lambda>r. or_APIVersion r = GetAPIVersion owner \<and> or_Kind r = GetKind owner \<and> or_Name r = GetName owner) (GetOwnerReferences u)"

definition getByOwner :: "'s resource_client \<Rightarrow> kobject \<Rightarrow> string \<Rightarrow> string \<Rightarrow> ('s, 'e, kobject list) act" where
  "getByOwner rc owner apiVersion kind =
     abind (GetResources rc (GetNamespace owner) apiVersion kind) (\<lambda>ul. aret (filter (owned_by owner) ul))"

section \<open>Building the graph\<close>

definition add_template :: "nat \<Rightarrow> kobject \<Rightarrow> ClusterGraph \<Rightarrow> ClusterGraph" where
  "add_template p ob g =
     (let (mt, g) = newGraphNode ob g; (mt, g) = AddToAll mt g; g = AddChild p mt g
      in g\<lparr>cg_MachineTemplates := addToNestedMap (cg_MachineTemplates g) (gvk_at g mt) (gn_GetName g mt) mt\<rparr>)"

definition populateControlPlane :: "'s resource_client \<Rightarrow> obj_lib \<Rightarrow> nat \<Rightarrow> ClusterGraph \<Rightarrow> ('s, 'e, ClusterGraph) act" where
  "populateControlPlane rc ol controlPlane g =
     (if GetKind (object_at g controlPlane) \<noteq> ''KubeadmControlPlane'' then afail ''Only KubeadmControlPlanes are supported''
      else abind (getByRef rc ol (object_at g controlPlane) ControlPlaneMachineTemplateInfrastructureRef) (\<lambda>machineTemplate.
             aret (add_template controlPlane machineTemplate g)))"

definition add_deployment :: "nat \<Rightarrow> kobject \<Rightarrow> ClusterGraph \<Rightarrow> nat \<times> ClusterGraph" where
  "add_deployment cluster ob g =
     (let (md, g) = newGraphNode ob g; (md, g) = AddToAll md g; g = AddChild cluster md g
      in (md, g\<lparr>cg_MachineDeployments := AList.update (gn_GetName g md) md (cg_MachineDeployments g)\<rparr>))"

primrec add_deployments :: "'s resource_client \<Rightarrow> obj_lib \<Rightarrow> nat \<Rightarrow> kobject list \<Rightarrow> ClusterGraph \<Rightarrow> ('s, 'e, ClusterGraph) act" where
  "add_deployments rc ol cluster [] g = aret g"
| "add_deployments rc ol cluster (ob # obs) g =
     (case add_deployment cluster ob g of (md, g) \<Rightarrow>
        abind (getByRef rc ol (object_at g md) MachineDeploymentInfrastructureRef) (\<lambda>machineTemplate.
          add_deployments rc ol cluster obs (add_template md machineTemplate g)))"

definition populateMachineDeployments :: "'s resource_client \<Rightarrow> obj_lib \<Rightarrow> nat \<Rightarrow> ClusterGraph \<Rightarrow> ('s, 'e, ClusterGraph) act" where
  "populateMachineDeployments rc ol cluster g =
     abind (getByOwner rc (object_at g cluster) ''cluster.x-k8s.io/v1beta1'' ''MachineDeployment'') (\<lambda>mds.
       add_deployments rc ol cluster mds g)"

definition is_cluster :: "obj_lib \<Rightarrow> kobject \<Rightarrow> bool" where
  "is_cluster ol u \<longleftrightarrow> GetKind u = ''Cluster'' \<and> GetAPIVersion u = ''cluster.x-k8s.io/v1beta1'' \<and> GetLabels ol u ClusterNameLabel \<noteq> None"

definition GetClusterObject :: "obj_lib \<Rightarrow> string \<Rightarrow> kobject result" where
  "GetClusterObject ol clusterResources =
     (case FindIn (ol_dec ol) clusterResources (is_cluster ol) of
        Inl err \<Rightarrow> if err = ErrorNotExist then Inl ''Cluster resources do not include a valid cluster.x-k8s.io/v1beta1/Cluster'' else Inl err
      | Inr clusterObj \<Rightarrow> Inr clusterObj)"

definition add_cluster :: "kobject \<Rightarrow> nat \<times> ClusterGraph" where
  "add_cluster ob =
     (let (cluster, g) = newGraphNode ob newClusterGraph; g = g\<lparr>cg_Cluster := cluster\<rparr> in (cluster, snd (AddToAll cluster g)))"

definition add_infrastructure :: "nat \<Rightarrow> kobject \<Rightarrow> ClusterGraph \<Rightarrow> ClusterGraph" where
  "add_infrastructure cluster ob g =
     (let (infraCluster, g) = newGraphNode ob g; g = AddChild cluster infraCluster g; (p, g) = AddToAll infraCluster g
      in g\<lparr>cg_InfrastructureCluster := p\<rparr>)"

definition add_control_plane :: "nat \<Rightarrow> kobject \<Rightarrow> ClusterGraph \<Rightarrow> nat \<times> ClusterGraph" where
  "add_control_plane cluster ob g =
     (let (controlPlane, g) = newGraphNode ob g; g = AddChild cluster controlPlane g; (p, g) = AddToAll controlPlane g
      in (controlPlane, g\<lparr>cg_ControlPlane := p\<rparr>))"

definition GetClusterGraph :: "'s resource_client \<Rightarrow> obj_lib \<Rightarrow> string \<Rightarrow> string \<Rightarrow> ('s, 'e, ClusterGraph) act" where
  "GetClusterGraph rc ol namespace name =
     abind (GetResource rc (makeUnst ''cluster.x-k8s.io/v1beta1'' ''Cluster'' namespace name)) (\<lambda>ob.
       case add_cluster ob of (cluster, g) \<Rightarrow>
     abind (getByRef rc ol (object_at g cluster) ClusterInfrastructureRef) (\<lambda>infra.
       let g = add_infrastructure cluster infra g
       in abind (getByRef rc ol (object_at g cluster) ClusterControlPlaneRef) (\<lambda>cp.
       case add_control_plane cluster cp g of (controlPlane, g) \<Rightarrow>
     abind (populateControlPlane rc ol controlPlane g) (populateMachineDeployments rc ol cluster))))"

section \<open>Walking over machine templates\<close>

text \<open>
  A callback is given the parent, the template and what has been collected.  A kind of children that is no kind of machine template ends the
  walk over the children of its node.
\<close>

type_synonym ('s, 'e, 'a) visit = "nat \<Rightarrow> nat \<Rightarrow> 'a \<Rightarrow> ('s, 'e, 'a outcome) act"

primrec walk_names :: "nat gomap \<Rightarrow> nat \<Rightarrow> ('s, 'e, 'a) visit \<Rightarrow> string list \<Rightarrow> 'a \<Rightarrow> ('s, 'e, 'a outcome) act" where
  "walk_names mts gn cb [] x = pret x"
| "walk_names mts gn cb (n # ns) x =
     (case map_of mts n of None \<Rightarrow> walk_names mts gn cb ns x | Some mtNode \<Rightarrow> pbind (cb gn mtNode x) (walk_names mts gn cb ns))"

primrec walk_kinds ::
  "(string list \<Rightarrow> string list) \<Rightarrow> ClusterGraph \<Rightarrow> nat \<Rightarrow> ('s, 'e, 'a) visit \<Rightarrow> string list \<Rightarrow> 'a \<Rightarrow> ('s, 'e, 'a outcome) act" where
  "walk_kinds order g gn cb [] x = pret x"
| "walk_kinds order g gn cb (gvk # gvks) x =
     (case map_of (cg_MachineTemplates g) gvk of
        None \<Rightarrow> pret x
      | Some mts \<Rightarrow>
          pbind (walk_names mts gn cb (order (map fst (the (map_of (gn_Children (node_at g gn)) gvk)))) x) (walk_kinds order g gn cb gvks))"

definition walkGraphNodeForMachineTemplates ::
  "(string list \<Rightarrow> string list) \<Rightarrow> ClusterGraph \<Rightarrow> nat \<Rightarrow> ('s, 'e, 'a) visit \<Rightarrow> 'a \<Rightarrow> ('s, 'e, 'a outcome) act" where
  "walkGraphNodeForMachineTemplates order g gn cb x = walk_kinds order g gn cb (order (map fst (gn_Children (node_at g gn)))) x"

primrec walk_nodes ::
  "(string list \<Rightarrow> string list) \<Rightarrow> ClusterGraph \<Rightarrow> ('s, 'e, 'a) visit \<Rightarrow> nat list \<Rightarrow> 'a \<Rightarrow> ('s, 'e, 'a outcome) act" where
  "walk_nodes order g cb [] x = pret x"
| "walk_nodes order g cb (gn # gns) x = pbind (walkGraphNodeForMachineTemplates order g gn cb x) (walk_nodes order g cb gns)"

definition WalkMachineTemplates ::
  "(string list \<Rightarrow> string list) \<Rightarrow> ClusterGraph \<Rightarrow> ('s, 'e, 'a) visit \<Rightarrow> 'a \<Rightarrow> ('s, 'e, 'a outcome) act" where
  "WalkMachineTemplates order g cb x =
     pbind (walkGraphNodeForMachineTemplates order g (cg_ControlPlane g) cb x)
       (walk_nodes order g cb (map (\<lambda>n. the (map_of (cg_MachineDeployments g) n)) (order (map fst (cg_MachineDeployments g)))))"

end
