(* ===== verification/Json_Patches.thy ===== *)
theory Json_Patches
  imports Go_Values
begin

text \<open>
  Helpers of the Cluster API drivers: patches in JSON and how they are quoted for a shell (\<^verbatim>\<open>pkg/util/jsonpath.go\<close>), counting up the name of
  an object (\<^verbatim>\<open>bump.go\<close>) and nested maps (\<^verbatim>\<open>nestedmap.go\<close>).  The specification of quoting is a reader of shell words.
\<close>

section \<open>Patches\<close>

record JsonPatch =
  jp_Op :: string
  jp_Path :: string
  jp_Value :: gval

type_synonym JsonPatches = "JsonPatch list"

definition AddPatch :: "string \<Rightarrow> string list \<Rightarrow> gval \<Rightarrow> JsonPatches \<Rightarrow> JsonPatches" where
  "AddPatch op path v jp = jp @ [\<lparr>jp_Op = op, jp_Path = CHR ''/'' # go_join path ''/'', jp_Value = v\<rparr>]"

definition patch_Replace :: "string list \<Rightarrow> gval \<Rightarrow> JsonPatches \<Rightarrow> JsonPatches" where
  "patch_Replace = AddPatch ''replace''"

definition patch_Add :: "string list \<Rightarrow> gval \<Rightarrow> JsonPatches \<Rightarrow> JsonPatches" where
  "patch_Add = AddPatch ''add''"

definition quote :: char where "quote = CHR 0x27"

text \<open>The text of the patches between single quotes: each quote in it ends the quotes, stands escaped and starts them again.\<close>

definition patches_String :: "(JsonPatches \<Rightarrow> string) \<Rightarrow> JsonPatches \<Rightarrow> string" where
  "patches_String marshal jp = replace_all (marshal jp) [quote] [quote, CHR 92, quote, quote]"

definition patches_Merge :: "JsonPatches \<Rightarrow> JsonPatches \<Rightarrow> JsonPatches" where
  "patches_Merge jp toMerge = jp @ toMerge"

text \<open>
  A word as a POSIX shell reads it: with the flag set, inside single quotes.  What is neither quoted nor escaped must not be special to the shell.
\<close>

definition shell_plain :: "char \<Rightarrow> bool" where
  "shell_plain c \<longleftrightarrow> c \<notin> set '' $|&;<>()`*?[#~=%!{}'' \<and> c \<notin> {CHR 0x22, CHR 92, CHR 0x27, CHR 9, CHR 10}"

fun shell_word :: "bool \<Rightarrow> string \<Rightarrow> string option" where
  "shell_word True [] = None"
| "shell_word False [] = Some []"
| "shell_word True (c # cs) = (if c = quote then shell_word False cs else map_option (Cons c) (shell_word True cs))"
| "shell_word False (c # cs) =
     (if c = quote then shell_word True cs
      else if c = CHR 92 then (case cs of [] \<Rightarrow> None | d # ds \<Rightarrow> map_option (Cons d) (shell_word False ds))
      else if shell_plain c then map_option (Cons c) (shell_word False cs) else None)"

section \<open>Names that count\<close>

definition IncrementCount :: "string \<Rightarrow> string \<Rightarrow> string" where
  "IncrementCount s delim =
     (let fs = go_split s delim
      in if fs = [] then []
         else case parse_uint 64 (last fs) of
                None \<Rightarrow> go_join (fs @ [''1'']) delim
              | Some n \<Rightarrow> go_join (butlast fs @ [format_nat ((n + 1) mod 2 ^ 64)]) delim)"

section \<open>Nested maps\<close>

text \<open>
  The map at a path, which is made on the way; here what the caller does with that map is \<open>f\<close>.  A value on the path that is no map panics.
\<close>

fun at_nested :: "string list \<Rightarrow> ((string \<rightharpoonup> gval) \<Rightarrow> (string \<rightharpoonup> gval)) \<Rightarrow> (string \<rightharpoonup> gval) \<Rightarrow> (string \<rightharpoonup> gval) outcome" where
  "at_nested [] f m = Returns (f m)"
| "at_nested (seg # segs) f m =
     (case m seg of
        None \<Rightarrow> obind (at_nested segs f Map.empty) (\<lambda>inner. Returns (m(seg \<mapsto> GMap inner)))
      | Some GNil \<Rightarrow> obind (at_nested segs f Map.empty) (\<lambda>inner. Returns (m(seg \<mapsto> GMap inner)))
      | Some (GMap inner) \<Rightarrow> obind (at_nested segs f inner) (\<lambda>inner. Returns (m(seg \<mapsto> GMap inner)))
      | Some _ \<Rightarrow> Panics)"

definition EnsureNestedMap :: "string \<Rightarrow> ((string \<rightharpoonup> gval) \<Rightarrow> (string \<rightharpoonup> gval)) \<Rightarrow> (string \<rightharpoonup> gval) \<Rightarrow> (string \<rightharpoonup> gval) outcome" where
  "EnsureNestedMap dotPath f mapRoot = at_nested (go_split dotPath ''.'') f mapRoot"

section \<open>Lemmas\<close>

lemma go_split_char_rec:
  "go_split (x # xs) [c] = (if x = c then [] # go_split xs [c] else (x # hd (go_split xs [c])) # tl (go_split xs [c]))"
proof (cases "x = c")
  case True
  then show ?thesis using go_split_char_Cons [of c "[]" xs] by simp
next
  case False
  show ?thesis
  proof (cases "c \<in> set xs")
    case True
    then obtain a b where "xs = a @ c # b" "c \<notin> set a" by (meson split_list_first)
    with False show ?thesis using go_split_char_Cons [of c "x # a" b] by (simp add: go_split_char_Cons)
  next
    case nc: False
    with False show ?thesis by (simp add: go_split_char_simple)
  qed
qed

lemma replace_char: "replace_all s [c] new = concat (map (\<lambda>x. if x = c then new else [x]) s)"
proof (induction s)
  case Nil
  show ?case by (simp add: replace_all_def go_split_char_simple)
next
  case (Cons x s)
  have ne: "go_split s [c] \<noteq> []" by simp
  then obtain f fs where f: "go_split s [c] = f # fs" by (cases "go_split s [c]") auto
  have "go_join ((x # f) # fs) new = x # go_join (f # fs) new" by (cases fs) auto
  with Cons ne f show ?case by (auto simp: replace_all_def go_split_char_rec go_join_Cons)
qed

lemma shell_word_escaped:
  "shell_word True (concat (map (\<lambda>x. if x = quote then [quote, CHR 92, quote, quote] else [x]) s) @ rest)
     = map_option ((@) s) (shell_word True rest)"
  by (induction s) (auto simp: quote_def option.map_comp option.map_ident comp_def)

lemma parse_uint_format: "n < 2 ^ 64 \<Longrightarrow> parse_uint 64 (format_nat n) = Some n"
  by (rule parse_format)

lemma split_snoc: "c \<notin> set b \<Longrightarrow> go_split (a @ c # b) [c] = go_split a [c] @ [b]"
proof (induction a)
  case Nil
  then show ?case using go_split_char_Cons [of c "[]" b] by (simp add: go_split_char_simple)
next
  case (Cons x a)
  moreover have "go_split a [c] \<noteq> []" by simp
  ultimately show ?case by (auto simp: go_split_char_rec)
qed

lemma join_snoc: "xs \<noteq> [] \<Longrightarrow> go_join (xs @ [y]) sep = go_join xs sep @ sep @ y"
proof (induction xs)
  case (Cons a xs)
  then show ?case by (cases "xs = []") (simp_all add: go_join_Cons)
qed simp

lemma IncrementCount_new:
  "parse_uint 64 (last (go_split s [c])) = None \<Longrightarrow> IncrementCount s [c] = s @ c # ''1''"
  by (simp add: IncrementCount_def Let_def join_snoc go_join_split)

lemma IncrementCount_next:
  assumes "\<not> is_digit c" and "n < 2 ^ 64"
  shows "IncrementCount (s @ c # format_nat n) [c] = s @ c # format_nat ((n + 1) mod 2 ^ 64)"
proof -
  have "go_split (s @ c # format_nat n) [c] = go_split s [c] @ [format_nat n]"
    by (rule split_snoc) (rule format_nat_no_char [OF assms(1)])
  then show ?thesis by (simp add: IncrementCount_def Let_def parse_uint_format [OF assms(2)] join_snoc go_join_split)
qed

section \<open>Properties\<close>

text \<open>
  C39. The quoted text of patches is one word of a shell that reads as the text of the patches, whatever is in it.
\<close>

theorem patches_quoted:
  "shell_word False (quote # patches_String marshal jp @ [quote]) = Some (marshal jp)"
  by (simp add: patches_String_def replace_char shell_word_escaped)



text \<open>The empty string does not stay empty.\<close>

lemma IncrementCount_empty: "IncrementCount [] ''-'' = ''-1''"
  by (simp add: IncrementCount_def go_split_char_simple parse_uint_def)

end
