(* ===== verification/Capi_Updates.thy ===== *)
theory Capi_Updates
  imports Json_Patches Kube_Resources Ignition_Compare Ignition_Build Ignition_Texts
begin

text \<open>
  What has to change in the objects of a cluster to update it (\<^verbatim>\<open>pkg/cluster/driver/capi/capi.go\<close>): the annotations and the patches of a control
  plane, and the ignition configuration that is kept in one.  The encoder of ignition configurations is a parameter.
\<close>

section \<open>The control plane\<close>

definition SkipKubeProxyAnnotation :: string where "SkipKubeProxyAnnotation = ''controlplane.cluster.x-k8s.io/skip-kube-proxy''"
definition SkipCoreDNSAnnotation :: string where "SkipCoreDNSAnnotation = ''controlplane.cluster.x-k8s.io/skip-coredns''"
definition ControlPlaneAPI :: string where "ControlPlaneAPI = ''controlplane.cluster.x-k8s.io/v1beta1''"
definition PatchesDirectory :: string where "PatchesDirectory = ''directory''"
definition PhasePreflight :: string where "PhasePreflight = ''preflight''"
definition ControlPlaneVersion :: "string list" where "ControlPlaneVersion = [''spec'', ''version'']"
definition ControlPlaneJoinPatches :: "string list" where
  "ControlPlaneJoinPatches = [''spec'', ''kubeadmConfigSpec'', ''joinConfiguration'', ''patches'']"
definition ControlPlaneJoinSkipPhases :: "string list" where
  "ControlPlaneJoinSkipPhases = [''spec'', ''kubeadmConfigSpec'', ''joinConfiguration'', ''skipPhases'']"
definition ControlPlaneTemplateRef :: "string list" where
  "ControlPlaneTemplateRef = [''spec'', ''machineTemplate'', ''infrastructureRef'']"

definition skip_annotations :: "(string \<rightharpoonup> string) \<Rightarrow> (string \<rightharpoonup> string)" where
  "skip_annotations annots =
     (let annots = (if annots SkipKubeProxyAnnotation = None then annots(SkipKubeProxyAnnotation \<mapsto> ''true'') else annots)
      in if annots SkipCoreDNSAnnotation = None then annots(SkipCoreDNSAnnotation \<mapsto> ''true'') else annots)"

text \<open>The object as it is afterwards.\<close>

definition PatchControlPlane :: "obj_lib \<Rightarrow> 's resource_client \<Rightarrow> string \<Rightarrow> kobject \<Rightarrow> ('s, res_event, kobject) act" where
  "PatchControlPlane ol rc cluster kcp =
     (if GetAPIVersion kcp \<noteq> ControlPlaneAPI \<or> GetKind kcp \<noteq> ''KubeadmControlPlane''
      then afail (''Control plane object '' @ GetName kcp @ '' in namespace '' @ GetNamespace kcp @ '' is not a '' @ ControlPlaneAPI @ ''/KubeadmControlPlane'')
      else let annots = GetAnnotations ol kcp
           in if annots SkipKubeProxyAnnotation \<noteq> None \<and> annots SkipCoreDNSAnnotation \<noteq> None then aret kcp
              else UpdateResource rc cluster (SetAnnotations (skip_annotations annots) kcp))"

definition NestedStringSlice :: "kobject \<Rightarrow> string list \<Rightarrow> string list option result" where
  "NestedStringSlice u path =
     rbind (nested_field (GMap u) path) (\<lambda>r. case r of
         None \<Rightarrow> Inr None
       | Some (GList vs) \<Rightarrow> if list_all (\<lambda>v. case v of GStr _ \<Rightarrow> True | _ \<Rightarrow> False) vs then Inr (Some (map (\<lambda>v. case v of GStr s \<Rightarrow> s | _ \<Rightarrow> []) vs))
                           else Inl ''accessor error: contains non-string value in the slice''
       | Some _ \<Rightarrow> Inl ''accessor error: not a slice'')"

definition template_patches :: "string \<Rightarrow> string \<Rightarrow> JsonPatches" where
  "template_patches version mtName =
     patch_Replace (ControlPlaneTemplateRef @ [''name'']) (GStr mtName) (patch_Replace ControlPlaneVersion (GStr version) [])"

definition patch_directory :: "(string \<rightharpoonup> string) \<Rightarrow> JsonPatches \<Rightarrow> JsonPatches" where
  "patch_directory patches jp =
     (case patches PatchesDirectory of
        Some patchDir \<Rightarrow> if patchDir \<noteq> OckPatchDirectory
                         then patch_Replace (ControlPlaneJoinPatches @ [PatchesDirectory]) (GStr OckPatchDirectory) jp else jp
      | None \<Rightarrow> patch_Add ControlPlaneJoinPatches (GMap [PatchesDirectory \<mapsto> GStr OckPatchDirectory]) jp)"

text \<open>
  The phases that the nodes skip when they join.  The control plane that is given is changed as well; nobody reads that field of it afterwards.
  A control plane that has patches gets none of the rest.
\<close>

definition skip_preflight :: "kobject \<Rightarrow> JsonPatches \<Rightarrow> (JsonPatches \<times> kobject) result" where
  "skip_preflight kcp jp =
     rbind (NestedStringSlice kcp ControlPlaneJoinSkipPhases) (\<lambda>r.
       let joinSkips = (case r of None \<Rightarrow> [] | Some xs \<Rightarrow> xs)
       in if PhasePreflight \<in> set joinSkips then Inr (jp, kcp)
          else let v = GList (map GStr (joinSkips @ [PhasePreflight]))
               in rbind (set_nested_field kcp v ControlPlaneJoinSkipPhases) (\<lambda>kcp'.
                    Inr ((if r \<noteq> None then patch_Replace else patch_Add) ControlPlaneJoinSkipPhases v jp, kcp')))"

definition GetControlPlanePatches :: "obj_lib \<Rightarrow> kobject \<Rightarrow> string \<Rightarrow> string \<Rightarrow> (JsonPatches \<times> kobject) result" where
  "GetControlPlanePatches ol kcp version mtName =
     rbind (NestedStringMap ol kcp ControlPlaneJoinPatches) (\<lambda>r. case r of
         Some _ \<Rightarrow> Inr (template_patches version mtName, kcp)
       | None \<Rightarrow> skip_preflight kcp (patch_directory Map.empty (template_patches version mtName)))"

section \<open>Ignition configurations\<close>

record IgnitionUpdates =
  iu_Updates :: IgnConfig
  iu_FilesToRemove :: "string list"
  iu_DirectoriesToRemove :: "string list"
  iu_UsersToRemove :: "string list"
  iu_UnitsToRemove :: "string \<rightharpoonup> string list"

definition DeleteFunc :: "('a \<Rightarrow> bool) \<Rightarrow> 'a slice \<Rightarrow> 'a slice" where
  "DeleteFunc P = map_option (filter (\<lambda>x. \<not> P x))"

text \<open>A unit that is to be removed with no dropins goes as a whole; otherwise only those dropins go.\<close>

definition without_dropins :: "(string \<rightharpoonup> string list) \<Rightarrow> IgnUnit \<Rightarrow> IgnUnit" where
  "without_dropins removals u =
     (case removals (unit_Name u) of
        None \<Rightarrow> u
      | Some dropins \<Rightarrow> u\<lparr>unit_Dropins := DeleteFunc (\<lambda>d. drop_Name d \<in> set dropins) (unit_Dropins u)\<rparr>)"

definition remove_parts :: "IgnitionUpdates \<Rightarrow> IgnConfig \<Rightarrow> IgnConfig" where
  "remove_parts upd ign = ign\<lparr>
     ign_Storage := (ign_Storage ign)\<lparr>
        sto_Files := DeleteFunc (\<lambda>f. file_key f \<in> set (iu_FilesToRemove upd)) (sto_Files (ign_Storage ign)),
        sto_Directories := DeleteFunc (\<lambda>d. dir_key d \<in> set (iu_DirectoriesToRemove upd)) (sto_Directories (ign_Storage ign))\<rparr>,
     ign_Passwd := (ign_Passwd ign)\<lparr>
        pwd_Users := DeleteFunc (\<lambda>u. pusr_Name u \<in> set (iu_UsersToRemove upd)) (pwd_Users (ign_Passwd ign))\<rparr>,
     ign_Systemd := (ign_Systemd ign)\<lparr>
        sysd_Units := map_option (map (without_dropins (iu_UnitsToRemove upd)))
          (DeleteFunc (\<lambda>u. iu_UnitsToRemove upd (unit_Name u) = Some []) (sysd_Units (ign_Systemd ign)))\<rparr>\<rparr>"

definition UpdateIgnition ::
  "ign_parsers \<Rightarrow> (IgnConfig \<Rightarrow> string result) \<Rightarrow> kobject \<Rightarrow> IgnitionUpdates \<Rightarrow> string list \<Rightarrow> JsonPatches option result" where
  "UpdateIgnition ip marshal res upd path =
     rbind (nested_string res path) (\<lambda>(ignStr, found).
       if \<not> found then Inl (''could not find '' @ go_join path ''/'' @ '' in '' @ GetNamespace res @ ''/'' @ GetName res)
       else rbind (FromString ip ignStr) (\<lambda>ign.
            let ign = Merge (remove_parts upd ign) (iu_Updates upd)
            in rbind (FromString ip ignStr) (\<lambda>ignOrig.
               if Compare (Some ign) (Some ignOrig) then Inr None
               else rbind (marshal ign) (\<lambda>ignBytes. Inr (Some (patch_Replace path (GStr ignBytes) []))))))"

section \<open>Lemmas\<close>

lemma DeleteFunc_sl: "sl (DeleteFunc P s) = filter (\<lambda>x. \<not> P x) (sl s)"
  by (cases s) (simp_all add: DeleteFunc_def)

lemma sl_map_option: "sl (map_option (map f) s) = map f (sl s)"
  by (cases s) simp_all

lemma without_dropins_Name [simp]: "unit_Name (without_dropins r u) = unit_Name u"
  by (simp add: without_dropins_def split: option.split)

lemma parts_of_remove:
  "units_of (remove_parts upd ign) = map (without_dropins (iu_UnitsToRemove upd))
     (filter (\<lambda>u. iu_UnitsToRemove upd (unit_Name u) \<noteq> Some []) (units_of ign))"
  "users_of (remove_parts upd ign) = filter (\<lambda>u. pusr_Name u \<notin> set (iu_UsersToRemove upd)) (users_of ign)"
  "groups_of (remove_parts upd ign) = groups_of ign"
  "files_of (remove_parts upd ign) = filter (\<lambda>f. file_key f \<notin> set (iu_FilesToRemove upd)) (files_of ign)"
  "dirs_of (remove_parts upd ign) = filter (\<lambda>d. dir_key d \<notin> set (iu_DirectoriesToRemove upd)) (dirs_of ign)"
  "links_of (remove_parts upd ign) = links_of ign"
  by (simp_all add: remove_parts_def parts_of_defs DeleteFunc_sl sl_map_option)

text \<open>What is left of a view.\<close>

definition node_left :: "IgnitionUpdates \<Rightarrow> string \<Rightarrow> node \<Rightarrow> node option" where
  "node_left upd path n = (case n of
      NFile _ \<Rightarrow> if path \<in> set (iu_FilesToRemove upd) then None else Some n
    | NDir _ \<Rightarrow> if path \<in> set (iu_DirectoriesToRemove upd) then None else Some n
    | NLink _ \<Rightarrow> Some n)"

definition view_left :: "IgnitionUpdates \<Rightarrow> ign_view \<Rightarrow> ign_view" where
  "view_left upd v = \<lparr>
     view_unit = (\<lambda>n. if iu_UnitsToRemove upd n = Some [] then None else map_option (without_dropins (iu_UnitsToRemove upd)) (view_unit v n)),
     view_user = (\<lambda>n. if n \<in> set (iu_UsersToRemove upd) then None else view_user v n),
     view_group = view_group v,
     view_node = (\<lambda>path. Option.bind (view_node v path) (node_left upd path))\<rparr>"

lemma child_entry_map_key:
  "(\<And>x. key (f x) = key x) \<Longrightarrow> child_entry key (map f xs) k = map_option f (child_entry key xs k)"
  by (induction xs) (simp_all add: child_entry_Cons split: option.split)

lemma separate_remove: "separate ign \<Longrightarrow> separate (remove_parts upd ign)"
  unfolding separate_def parts_of_remove by auto

lemma node_of_remove:
  assumes "separate ign"
  shows "node_of (remove_parts upd ign) path = Option.bind (node_of ign path) (node_left upd path)"
proof -
  have one: "child_entry file_key (files_of ign) path = None \<or> child_entry dir_key (dirs_of ign) path = None"
    using assms by (auto simp: separate_def child_entry_None)
  have f: "child_entry file_key (filter (\<lambda>f. file_key f \<notin> R) xs) path = (if path \<notin> R then child_entry file_key xs path else None)" for R xs
    by (rule child_entry_filter)
  have d: "child_entry dir_key (filter (\<lambda>f. dir_key f \<notin> R) xs) path = (if path \<notin> R then child_entry dir_key xs path else None)" for R xs
    by (rule child_entry_filter)
  show ?thesis
    using one by (auto simp: node_of_def parts_of_remove f d node_left_def split: option.splits)
qed

lemma view_remove: "separate ign \<Longrightarrow> view (remove_parts upd ign) = view_left upd (view ign)"
proof -
  assume sep: "separate ign"
  have u: "child_entry unit_Name (filter (\<lambda>u. iu_UnitsToRemove upd (unit_Name u) \<noteq> Some []) xs) n
      = (if iu_UnitsToRemove upd n \<noteq> Some [] then child_entry unit_Name xs n else None)" for xs n
    by (rule child_entry_filter)
  have us: "child_entry pusr_Name (filter (\<lambda>u. pusr_Name u \<notin> R) xs) n = (if n \<notin> R then child_entry pusr_Name xs n else None)" for R xs n
    by (rule child_entry_filter)
  show ?thesis
    by (simp add: view_def view_left_def parts_of_remove u us child_entry_map_key fun_eq_iff node_of_remove [OF sep])
qed

text \<open>Annotations that are set are read back, unless the metadata is no map.\<close>

definition has_metadata :: "kobject \<Rightarrow> bool" where
  "has_metadata u = (case u ''metadata'' of None \<Rightarrow> True | Some (GMap _) \<Rightarrow> True | _ \<Rightarrow> False)"

lemma nested_SetAnnotations:
  "has_metadata u \<Longrightarrow> nested_field (GMap (SetAnnotations m u)) [''metadata'', ''annotations''] = Inr (Some (GMap (\<lambda>k. map_option GStr (m k))))"
  by (auto simp: SetAnnotations_def with_field_def has_metadata_def split: option.splits gval.splits)

lemma GetAnnotations_SetAnnotations:
  assumes "has_metadata u"
  shows "GetAnnotations ol (SetAnnotations m u) = m"
proof -
  have "strings_of ol True (\<lambda>k. map_option GStr (m k)) = Inr m"
    by (auto simp: strings_of_def string_entry_def list_all_iff fun_eq_iff split: option.splits)
  then show ?thesis
    unfolding GetAnnotations_def metadata_strings_def nested_SetAnnotations [OF assms] by simp
qed

section \<open>Properties\<close>

text \<open>
  C38. The update of an ignition configuration removes exactly what is listed and merges what is new: seen as maps from names and paths, the new
  configuration is the old one without the files, directories, users and units to remove, and without the dropins to remove, combined with the
  updates.  There is a patch, and it is the text of the new configuration, exactly if the comparison tells the two apart.
\<close>

theorem UpdateIgnition_updates:
  assumes "nested_string res path = Inr (text0, True)" and "FromString ip text0 = Inr ign"
    and "separate ign" and "separate (iu_Updates upd)"
    and "UpdateIgnition ip marshal res upd path = Inr r"
  shows "\<exists>new. view new = combine_views (view_left upd (view ign)) (view (iu_Updates upd)) \<and>
    (if Compare (Some new) (Some ign) then r = None
     else \<exists>t. marshal new = Inr t \<and> r = Some [\<lparr>jp_Op = ''replace'', jp_Path = CHR ''/'' # go_join path ''/'', jp_Value = GStr t\<rparr>])"
proof -
  let ?new = "Merge (remove_parts upd ign) (iu_Updates upd)"
  have "view ?new = combine_views (view_left upd (view ign)) (view (iu_Updates upd))"
    using Merge_refines_combine [OF separate_remove [OF assms(3)] assms(4)] by (simp add: view_remove [OF assms(3)])
  moreover have "if Compare (Some ?new) (Some ign) then r = None
     else \<exists>t. marshal ?new = Inr t \<and> r = Some [\<lparr>jp_Op = ''replace'', jp_Path = CHR ''/'' # go_join path ''/'', jp_Value = GStr t\<rparr>]"
    using assms(1,2,5) by (auto simp: UpdateIgnition_def Let_def rbind_Inr_iff patch_Replace_def AddPatch_def split: if_splits)
  ultimately show ?thesis by blast
qed

theorem UpdateIgnition_updates_witness:
  "\<exists>r new. UpdateIgnition \<lparr>ip_GetConfigVersion = (\<lambda>_. ''3.4.0''), ip_TranslateBytes = (\<lambda>s. (s, [], None)),
        ip_ParseCompatibleVersion = (\<lambda>_. (zero_IgnConfig\<lparr>ign_Storage := zero_IgnStorage\<lparr>sto_Files := Some
           [zero_IgnFile\<lparr>file_Node := zero_IgnNode\<lparr>inode_Path := ''/etc/old''\<rparr>\<rparr>]\<rparr>\<rparr>, [], None))\<rparr>
      (\<lambda>_. Inr ''{}'') [''ign'' \<mapsto> GStr ''old'']
      \<lparr>iu_Updates = zero_IgnConfig, iu_FilesToRemove = [''/etc/old''], iu_DirectoriesToRemove = [], iu_UsersToRemove = [], iu_UnitsToRemove = Map.empty\<rparr>
      [''ign''] = Inr r \<and> node_of new ''/etc/old'' = None"
proof -
  let ?ign = "zero_IgnConfig\<lparr>ign_Storage := zero_IgnStorage\<lparr>sto_Files := Some [zero_IgnFile\<lparr>file_Node := zero_IgnNode\<lparr>inode_Path := ''/etc/old''\<rparr>\<rparr>]\<rparr>\<rparr>"
  let ?ip = "\<lparr>ip_GetConfigVersion = (\<lambda>_. ''3.4.0''), ip_TranslateBytes = (\<lambda>s. (s, [], None)), ip_ParseCompatibleVersion = (\<lambda>_. (?ign, [], None))\<rparr>"
  let ?upd = "\<lparr>iu_Updates = zero_IgnConfig, iu_FilesToRemove = [''/etc/old''], iu_DirectoriesToRemove = [], iu_UsersToRemove = [],
     iu_UnitsToRemove = Map.empty\<rparr>"
  let ?res = "[''ign'' \<mapsto> GStr ''old'']"
  have str: "nested_string ?res [''ign''] = Inr (''old'', True)" by (simp add: nested_string_def)
  have parse: "FromString ?ip ''old'' = Inr ?ign" by (simp add: FromString_def FromBytes_def no_report_def)
  have parts: "files_of zero_IgnConfig = []" "dirs_of zero_IgnConfig = []" "links_of zero_IgnConfig = []"
    by (simp_all add: parts_of_defs zero_IgnConfig_def zero_IgnStorage_def)
  have sep: "separate ?ign" "separate zero_IgnConfig"
    by (simp_all add: separate_def parts_of_defs zero_IgnConfig_def zero_IgnStorage_def)
  have none: "node_of zero_IgnConfig p = None" for p by (simp add: node_of_def parts)
  have old: "\<exists>f. node_of ?ign ''/etc/old'' = Some (NFile f)"
    by (simp add: node_of_def parts_of_defs zero_IgnConfig_def zero_IgnStorage_def child_entry_Cons file_key_def)
  have "is_ok (UpdateIgnition ?ip (\<lambda>_. Inr ''{}'') ?res ?upd [''ign''])"
    unfolding UpdateIgnition_def str rbind_Inr prod.case parse Let_def by simp
  then obtain r where run: "UpdateIgnition ?ip (\<lambda>_. Inr ''{}'') ?res ?upd [''ign''] = Inr r" by (auto simp: is_ok_iff)
  from UpdateIgnition_updates [OF str parse sep(1) _ run] sep(2)
  obtain new where "view new = combine_views (view_left ?upd (view ?ign)) (view zero_IgnConfig)" by auto
  then have "view_node (view new) ''/etc/old'' = view_node (combine_views (view_left ?upd (view ?ign)) (view zero_IgnConfig)) ''/etc/old''"
    by simp
  then have "node_of new ''/etc/old'' = None"
    using none old by (auto simp: combine_views_def view_left_def view_def node_left_def)
  with run show ?thesis by blast
qed

text \<open>
  Patching a control plane sets the two annotations that keep the add-ons of kubeadm away, where they are not set, and keeps every other
  annotation; if both are set, whatever their values, nothing is changed.
\<close>

theorem PatchControlPlane_annotates:
  assumes "has_metadata kcp" and "PatchControlPlane ol rc cluster kcp (s, tr) = (Inr kcp', s', tr')"
  shows "if GetAnnotations ol kcp SkipKubeProxyAnnotation \<noteq> None \<and> GetAnnotations ol kcp SkipCoreDNSAnnotation \<noteq> None
         then kcp' = kcp \<and> tr' = tr
         else \<exists>ob. tr' = tr @ [EvResUpdate cluster ob] \<and> (\<forall>k. GetAnnotations ol ob k =
            (case GetAnnotations ol kcp k of Some v \<Rightarrow> Some v
             | None \<Rightarrow> if k = SkipKubeProxyAnnotation \<or> k = SkipCoreDNSAnnotation then Some ''true'' else None))"
proof (cases "GetAnnotations ol kcp SkipKubeProxyAnnotation \<noteq> None \<and> GetAnnotations ol kcp SkipCoreDNSAnnotation \<noteq> None")
  case True
  with assms(2) show ?thesis by (auto simp: PatchControlPlane_def Let_def split: if_splits)
next
  case False
  let ?ob = "SetAnnotations (skip_annotations (GetAnnotations ol kcp)) kcp"
  have "UpdateResource rc cluster ?ob (s, tr) = (Inr kcp', s', tr')"
    using assms(2) False by (auto simp: PatchControlPlane_def Let_def split: if_splits)
  then have "tr' = tr @ [EvResUpdate cluster ?ob]"
    by (auto simp: UpdateResource_def elim!: abind_cases dest!: ask_trace perform_trace)
  moreover have "skip_annotations m k = (case m k of Some v \<Rightarrow> Some v
      | None \<Rightarrow> if k = SkipKubeProxyAnnotation \<or> k = SkipCoreDNSAnnotation then Some ''true'' else None)" for m k
    by (auto simp: skip_annotations_def Let_def split: option.splits)
  ultimately show ?thesis using False by (auto simp: GetAnnotations_SetAnnotations [OF assms(1)])
qed

end
