(* ===== verification/Oci_Cloud.thy ===== *)
theory Oci_Cloud
  imports Applications Driver_State Config_Types
begin

text \<open>
  What the program asks of Oracle Cloud (\<^verbatim>\<open>pkg/util/oci\<close>) and how it uploads an image of a machine there (\<^verbatim>\<open>pkg/commands/image/upload\<close>).
  The client library of the cloud is the record \<open>oci_api\<close>; profiles name the section of the configuration file that a client is made from.
\<close>

section \<open>The cloud\<close>

text \<open>An image as the service describes it; the service always gives its OCID, its compartment and the time when it was made.\<close>

record OciImage =
  oim_Id :: string
  oim_DisplayName :: string
  oim_CompartmentId :: string
  oim_FreeformTags :: "string \<rightharpoonup> string"
  oim_TimeCreated :: int

record CreateImageDetails =
  cid_CompartmentId :: string
  cid_DisplayName :: string
  cid_FreeformTags :: "string \<rightharpoonup> string"
  cid_NamespaceName :: string
  cid_BucketName :: string
  cid_ObjectName :: string

datatype oci_event =
    EvImportImage CreateImageDetails
  | EvImageSchema string string string
  | EvRemoveShape string string
  | EvAddShape string string
  | EvPutObject string string string
  | EvWriteCapabilities string string

record 's oci_api =
  oa_UserHomeDir :: "'s \<Rightarrow> string result \<times> 's"
  oa_ReadFile :: "string \<Rightarrow> 's \<Rightarrow> string result \<times> 's"
  oa_WriteFile :: "string \<Rightarrow> string \<Rightarrow> 's \<Rightarrow> unit result \<times> 's"
  oa_AbsDir :: "string \<Rightarrow> string result"
  oa_IsTTY :: "'s \<Rightarrow> bool result \<times> 's"
  oa_Sleep :: "int \<Rightarrow> 's \<Rightarrow> 's"
  oa_NewComputeClient :: "string \<Rightarrow> 's \<Rightarrow> unit result \<times> 's"
  oa_GetImage :: "string \<Rightarrow> string \<Rightarrow> 's \<Rightarrow> OciImage result \<times> 's"
  oa_ListImages :: "string \<Rightarrow> string \<Rightarrow> string \<Rightarrow> 's \<Rightarrow> OciImage list result \<times> 's"
  oa_CreateImage :: "string \<Rightarrow> CreateImageDetails \<Rightarrow> 's \<Rightarrow> (string \<times> string) result \<times> 's"
  oa_ListSchemas :: "string \<Rightarrow> 's \<Rightarrow> string list result \<times> 's"
  oa_CreateSchema :: "string \<Rightarrow> string \<Rightarrow> string \<Rightarrow> string \<Rightarrow> 's \<Rightarrow> unit result \<times> 's"
  oa_ListShapes :: "string \<Rightarrow> string \<Rightarrow> string option \<Rightarrow> 's \<Rightarrow> (string list \<times> string option) result \<times> 's"
  oa_RemoveShape :: "string \<Rightarrow> string \<Rightarrow> string \<Rightarrow> 's \<Rightarrow> unit result \<times> 's"
  oa_AddShape :: "string \<Rightarrow> string \<Rightarrow> string \<Rightarrow> 's \<Rightarrow> unit result \<times> 's"
  oa_NewIdentityClient :: "string \<Rightarrow> 's \<Rightarrow> unit result \<times> 's"
  oa_TenancyOCID :: "string \<Rightarrow> 's \<Rightarrow> string result \<times> 's"
  oa_ListCompartments :: "string \<Rightarrow> string \<Rightarrow> 's \<Rightarrow> (string \<times> string) list result \<times> 's"
  oa_ListRegions :: "string \<Rightarrow> 's \<Rightarrow> string list result \<times> 's"
  oa_NewObjectStorage :: "string \<Rightarrow> 's \<Rightarrow> unit result \<times> 's"
  oa_GetNamespace :: "string \<Rightarrow> 's \<Rightarrow> string result \<times> 's"
  oa_PutObject :: "string \<Rightarrow> string \<Rightarrow> string \<Rightarrow> string \<Rightarrow> string \<Rightarrow> 's \<Rightarrow> unit result \<times> 's"
  oa_NewWorkRequestClient :: "string \<Rightarrow> 's \<Rightarrow> unit result \<times> 's"
  oa_GetWorkRequest :: "string \<Rightarrow> string \<Rightarrow> 's \<Rightarrow> string result \<times> 's"
  oa_Base :: "string \<Rightarrow> string"
  oa_Join :: "string list \<Rightarrow> string"
  oa_Targz :: "(string \<times> string) list \<Rightarrow> string"

section \<open>The configuration file\<close>

record OciConfig =
  ocf_Name :: string
  ocf_Fingerprint :: string
  ocf_Key :: string
  ocf_Passphrase :: string
  ocf_Region :: string
  ocf_Tenancy :: string
  ocf_UseInstancePrincipal :: bool
  ocf_User :: string

definition named_OciConfig :: "string \<Rightarrow> OciConfig" where
  "named_OciConfig name = \<lparr>ocf_Name = name, ocf_Fingerprint = [], ocf_Key = [], ocf_Passphrase = [], ocf_Region = [], ocf_Tenancy = [],
     ocf_UseInstancePrincipal = False, ocf_User = []\<rparr>"

text \<open>The sections that are complete, and the current one: there is none before the first header.\<close>

type_synonym sections = "OciConfig list \<times> OciConfig option"

definition all_sections :: "sections \<Rightarrow> OciConfig list" where
  "all_sections st = fst st @ (case snd st of None \<Rightarrow> [] | Some c \<Rightarrow> [c])"

definition not_an_element :: "string \<Rightarrow> gerror" where
  "not_an_element l = l @ '' is not a valid OCI configuration file element''"

text \<open>What a key changes; the file of a key is read in any case.  A value before the first header dereferences nil.\<close>

definition config_value :: "'s oci_api \<Rightarrow> string \<Rightarrow> string \<Rightarrow> ('s, 'e, (OciConfig \<Rightarrow> OciConfig) option) act" where
  "config_value oa key val =
     (if key = ''user'' then aret (Some (\<lambda>c. c\<lparr>ocf_User := val\<rparr>))
      else if key = ''fingerprint'' then aret (Some (\<lambda>c. c\<lparr>ocf_Fingerprint := val\<rparr>))
      else if key = ''tenancy'' then aret (Some (\<lambda>c. c\<lparr>ocf_Tenancy := val\<rparr>))
      else if key = ''region'' then aret (Some (\<lambda>c. c\<lparr>ocf_Region := val\<rparr>))
      else if key = ''key_file'' then abind (ask (oa_ReadFile oa val)) (\<lambda>k. aret (Some (\<lambda>c. c\<lparr>ocf_Key := k\<rparr>)))
      else if key = ''passphrase'' then aret (Some (\<lambda>c. c\<lparr>ocf_Passphrase := val\<rparr>))
      else aret None)"

definition set_value :: "(OciConfig \<Rightarrow> OciConfig) option \<Rightarrow> sections \<Rightarrow> sections outcome" where
  "set_value f st =
     (case f of
        None \<Rightarrow> Returns st
      | Some f \<Rightarrow> (case snd st of None \<Rightarrow> Panics | Some c \<Rightarrow> Returns (fst st, Some (f c))))"

definition config_line :: "'s oci_api \<Rightarrow> string \<Rightarrow> sections \<Rightarrow> ('s, 'e, sections outcome) act" where
  "config_line oa line st =
     (let l = go_trim line [CHR '' '', CHR 9]
      in if l = [] then pret st
         else case cut_prefix l ''['' of
                (suf, True) \<Rightarrow> (case cut_suffix suf '']'' of
                   (section, True) \<Rightarrow> pret (all_sections st, Some (named_OciConfig section))
                 | _ \<Rightarrow> afail (not_an_element l))
              | _ \<Rightarrow>
                  if has_prefix l ''#'' then pret st
                  else let elements = go_split l ''=''
                       in if length elements \<noteq> 2 then afail (not_an_element l)
                          else let key = go_trim (elements ! 0) [CHR '' '', CHR 10]; val = go_trim (elements ! 1) [CHR '' '', CHR 10]
                               in abind (config_value oa key val) (\<lambda>f. aret (set_value f st)))"

primrec config_lines :: "'s oci_api \<Rightarrow> string list \<Rightarrow> sections \<Rightarrow> ('s, 'e, sections outcome) act" where
  "config_lines oa [] st = pret st"
| "config_lines oa (l # ls) st = pbind (config_line oa l st) (config_lines oa ls)"

definition parseOciConfig :: "'s oci_api \<Rightarrow> string \<Rightarrow> ('s, 'e, OciConfig list outcome) act" where
  "parseOciConfig oa filename =
     abind (ask (oa_ReadFile oa filename)) (\<lambda>contents.
     pbind (config_lines oa (go_split contents [CHR 10]) ([], None)) (\<lambda>st. pret (all_sections st)))"

text \<open>The error always names the default section, whichever was looked for.\<close>

definition GetConfig :: "'s oci_api \<Rightarrow> string \<Rightarrow> ('s, 'e, OciConfig outcome) act" where
  "GetConfig oa profile =
     abind (ask (oa_UserHomeDir oa)) (\<lambda>homedir.
     pbind (parseOciConfig oa (oa_Join oa [homedir, ''.oci'', ''config''])) (\<lambda>sections.
       case find (\<lambda>o'. ocf_Name o' = profile) sections of
         None \<Rightarrow> afail ''no default section found in OCI configuration file''
       | Some c \<Rightarrow> pret (if ocf_Passphrase c = [] then c\<lparr>ocf_Passphrase := ''fiddlesticks''\<rparr> else c)))"

section \<open>Compartments and regions\<close>

text \<open>A compartment that has none below it is the answer, whatever is left of the name.\<close>

primrec find_compartment :: "'s oci_api \<Rightarrow> string \<Rightarrow> string \<Rightarrow> string list \<Rightarrow> string \<Rightarrow> ('s, 'e, string) act" where
  "find_compartment oa profile whole [] ocid = aret ocid"
| "find_compartment oa profile whole (name # names) ocid =
     abind (ask (oa_ListCompartments oa profile ocid)) (\<lambda>items.
       if items = [] then aret ocid
       else let ocid' = (case map_of items name of None \<Rightarrow> [] | Some i \<Rightarrow> i)
            in if ocid' = [] then afail (''could not find compartment named '' @ name @ '' in '' @ whole)
               else find_compartment oa profile whole names ocid')"

definition GetCompartmentId :: "'s oci_api \<Rightarrow> string \<Rightarrow> string \<Rightarrow> ('s, 'e, string) act" where
  "GetCompartmentId oa compartmentName profile =
     (if has_prefix compartmentName ''ocid1.compartment'' then aret compartmentName
      else let elements = go_split compartmentName ''/''
           in if length elements < 1 then afail (CHR 0x22 # compartmentName @ CHR 0x22 # '' is not a valid compartment name'')
              else abind (ask (oa_NewIdentityClient oa profile)) (\<lambda>_.
                   abind (ask (oa_TenancyOCID oa profile)) (find_compartment oa profile compartmentName elements)))"

definition ListRegions :: "'s oci_api \<Rightarrow> string \<Rightarrow> ('s, 'e, string list) act" where
  "ListRegions oa profile = abind (ask (oa_NewIdentityClient oa profile)) (\<lambda>_. ask (oa_ListRegions oa profile))"

section \<open>Shapes\<close>

definition OciArmCompatibleShapes :: "string list" where
  "OciArmCompatibleShapes = [''VM.Standard.A1.Flex'', ''BM.Standard.A1.160'', ''VM.Standard.A2.Flex'']"

definition ArchitectureFromShape :: "string \<Rightarrow> string" where
  "ArchitectureFromShape shape = (if shape \<in> set OciArmCompatibleShapes then ''arm64'' else ''amd64'')"

definition removable_shape :: "string \<Rightarrow> bool" where
  "removable_shape shape \<longleftrightarrow> \<not> go_contains shape ''.A2.'' \<and> \<not> go_contains shape ''.A1.'' \<and> \<not> go_contains shape ''Generic''"

text \<open>The pages of the shapes of an image need not end.\<close>

partial_function (option) shape_pages ::
  "'s oci_api \<Rightarrow> string \<Rightarrow> string \<Rightarrow> string option \<Rightarrow> string list \<Rightarrow> 's \<Rightarrow> (string list result \<times> 's) option" where
  "shape_pages oa profile imageId page shapesToRemove s =
     (case oa_ListShapes oa profile imageId page s of
        (Inl err, s') \<Rightarrow> Some (Inl err, s')
      | (Inr (items, next_page), s') \<Rightarrow>
          let shapes = shapesToRemove @ filter removable_shape items
          in (case next_page of
                None \<Rightarrow> Some (Inr shapes, s')
              | Some p \<Rightarrow> shape_pages oa profile imageId (Some p) shapes s'))"

declare shape_pages.simps [code]

primrec remove_shapes :: "'s oci_api \<Rightarrow> string \<Rightarrow> string \<Rightarrow> string list \<Rightarrow> ('s, oci_event, unit) act" where
  "remove_shapes oa profile imageId [] = aret ()"
| "remove_shapes oa profile imageId (shape # shapes) =
     atry (perform (EvRemoveShape imageId shape) (oa_RemoveShape oa profile imageId shape)) (\<lambda>_. remove_shapes oa profile imageId shapes)"

definition EnsureCompatibleImageShapes :: "'s oci_api \<Rightarrow> string \<Rightarrow> string \<Rightarrow> string \<Rightarrow> ('s, oci_event, unit) act" where
  "EnsureCompatibleImageShapes oa imageId arch profile =
     (if arch \<noteq> ''arm64'' then aret ()
      else abind (ask (oa_NewComputeClient oa profile)) (\<lambda>_.
           abind (wait_for (shape_pages oa profile imageId None [])) (\<lambda>shapesToRemove.
           abind (remove_shapes oa profile imageId shapesToRemove) (\<lambda>_.
             afor OciArmCompatibleShapes (\<lambda>shape. perform (EvAddShape imageId shape) (oa_AddShape oa profile imageId shape))))))"

section \<open>Images\<close>

definition OCIArchitectureTag :: string where "OCIArchitectureTag = ''ocne/architecture''"
definition OCIKubernetesVersionTag :: string where "OCIKubernetesVersionTag = ''ocne/kubernetes''"

definition GetImageById :: "'s oci_api \<Rightarrow> string \<Rightarrow> string \<Rightarrow> ('s, 'e, OciImage) act" where
  "GetImageById oa ocid profile = abind (ask (oa_NewComputeClient oa profile)) (\<lambda>_. ask (oa_GetImage oa profile ocid))"

text \<open>The latest of the images with both tags; of several made at the same time, the first.\<close>

definition has_tags :: "string \<Rightarrow> string \<Rightarrow> OciImage \<Rightarrow> bool" where
  "has_tags k8sVersion arch img \<longleftrightarrow>
     oim_FreeformTags img OCIKubernetesVersionTag = Some k8sVersion \<and> oim_FreeformTags img OCIArchitectureTag = Some arch"

fun latest_image :: "string \<Rightarrow> string \<Rightarrow> OciImage list \<Rightarrow> OciImage option \<Rightarrow> OciImage option" where
  "latest_image k8sVersion arch [] latest = latest"
| "latest_image k8sVersion arch (img # imgs) latest =
     (if \<not> has_tags k8sVersion arch img then latest_image k8sVersion arch imgs latest
      else latest_image k8sVersion arch imgs
             (case latest of None \<Rightarrow> Some img | Some l \<Rightarrow> if oim_TimeCreated l < oim_TimeCreated img then Some img else latest))"

definition GetImage :: "'s oci_api \<Rightarrow> string \<Rightarrow> string \<Rightarrow> string \<Rightarrow> string \<Rightarrow> string \<Rightarrow> ('s, 'e, OciImage option) act" where
  "GetImage oa imageName k8sVersion arch compartmentId profile =
     abind (ask (oa_NewComputeClient oa profile)) (\<lambda>_.
     abind (ask (oa_ListImages oa profile compartmentId imageName)) (\<lambda>items. aret (latest_image k8sVersion arch items None)))"

definition oci_GetNamespace :: "'s oci_api \<Rightarrow> string \<Rightarrow> ('s, 'e, string) act" where
  "oci_GetNamespace oa profile = abind (ask (oa_NewObjectStorage oa profile)) (\<lambda>_. ask (oa_GetNamespace oa profile))"

definition UploadObject :: "'s oci_api \<Rightarrow> string \<Rightarrow> string \<Rightarrow> string \<Rightarrow> string \<Rightarrow> ('s, oci_event, unit) act" where
  "UploadObject oa bucketName objectName profile content =
     abind (oci_GetNamespace oa profile) (\<lambda>namespace.
     abind (ask (oa_NewObjectStorage oa profile)) (\<lambda>_.
       perform (EvPutObject bucketName objectName content) (oa_PutObject oa profile namespace bucketName objectName content)))"

text \<open>The OCID of the image and the request that makes it.\<close>

definition ImportImage ::
  "'s oci_api \<Rightarrow> string \<Rightarrow> string \<Rightarrow> string \<Rightarrow> string \<Rightarrow> string \<Rightarrow> string \<Rightarrow> string \<Rightarrow> ('s, oci_event, string \<times> string) act" where
  "ImportImage oa imageName k8sVersion arch compartmentId bucketName objectName profile =
     abind (ask (oa_NewComputeClient oa profile)) (\<lambda>_.
     abind (oci_GetNamespace oa profile) (\<lambda>namespace.
       let req = \<lparr>cid_CompartmentId = compartmentId, cid_DisplayName = imageName,
                  cid_FreeformTags = [OCIArchitectureTag \<mapsto> arch, OCIKubernetesVersionTag \<mapsto> k8sVersion],
                  cid_NamespaceName = namespace, cid_BucketName = bucketName, cid_ObjectName = objectName\<rparr>
       in perform (EvImportImage req) (oa_CreateImage oa profile req)))"

definition CreateEFIImageSchema :: "'s oci_api \<Rightarrow> string \<Rightarrow> string \<Rightarrow> string \<Rightarrow> ('s, oci_event, unit) act" where
  "CreateEFIImageSchema oa compartmentId imageId profile =
     abind (ask (oa_NewComputeClient oa profile)) (\<lambda>_.
     abind (ask (oa_ListSchemas oa profile)) (\<lambda>items. case items of
         [version] \<Rightarrow> perform (EvImageSchema compartmentId imageId version) (oa_CreateSchema oa profile compartmentId imageId version)
       | _ \<Rightarrow> afail ''Unexpected number of global image capability schemas''))"

definition EnsureImageDetails :: "'s oci_api \<Rightarrow> string \<Rightarrow> string \<Rightarrow> string \<Rightarrow> string \<Rightarrow> ('s, oci_event, unit) act" where
  "EnsureImageDetails oa compartmentId profile imageId arch =
     abind (CreateEFIImageSchema oa compartmentId imageId profile) (\<lambda>_. EnsureCompatibleImageShapes oa imageId arch profile)"

section \<open>Work requests\<close>

definition GetWorkRequestStatus :: "'s oci_api \<Rightarrow> string \<Rightarrow> string \<Rightarrow> 's \<Rightarrow> string result \<times> 's" where
  "GetWorkRequestStatus oa workRequestId profile s =
     (case oa_NewWorkRequestClient oa profile s of
        (Inl err, s') \<Rightarrow> (Inl err, s')
      | (Inr _, s') \<Rightarrow> oa_GetWorkRequest oa profile workRequestId s')"

text \<open>A request is waited for until it failed or succeeded; one that was cancelled does neither.\<close>

partial_function (option) waitForWorkRequest :: "'s oci_api \<Rightarrow> string \<Rightarrow> string \<Rightarrow> 's \<Rightarrow> (unit result \<times> 's) option" where
  "waitForWorkRequest oa workRequestId profile s =
     (case GetWorkRequestStatus oa workRequestId profile s of
        (Inl err, s') \<Rightarrow> Some (Inl err, s')
      | (Inr status, s') \<Rightarrow>
          if status = ''FAILED'' then Some (Inl ''Work request failed'', s')
          else if status = ''SUCCEEDED'' then Some (Inr (), s')
          else waitForWorkRequest oa workRequestId profile (oa_Sleep oa (10 * duration_s) s'))"

declare waitForWorkRequest.simps [code]

text \<open>All requests are waited for at the same time; here one after the other.\<close>

definition WaitForWorkRequests :: "'s oci_api \<Rightarrow> string list \<Rightarrow> string \<Rightarrow> ('s, 'e, unit) act" where
  "WaitForWorkRequests oa requests profile =
     abind (atry (ask (oa_IsTTY oa)) (\<lambda>r. case r of
         Inl _ \<Rightarrow> aret True
       | Inr _ \<Rightarrow> run_serial (map (\<lambda>i. wait_for (waitForWorkRequest oa i profile)) requests))) (\<lambda>failed.
     if failed then afail ''Work request failed'' else aret ())"

definition WaitForWorkRequest :: "'s oci_api \<Rightarrow> string \<Rightarrow> string \<Rightarrow> ('s, 'e, unit) act" where
  "WaitForWorkRequest oa workRequestId profile = WaitForWorkRequests oa [workRequestId] profile"

section \<open>Lemmas\<close>

text \<open>The search for the latest image finds the first of the tagged ones than which none is later.\<close>

definition latest_of :: "OciImage list \<Rightarrow> OciImage option" where
  "latest_of imgs = find (\<lambda>i. \<forall>j \<in> set imgs. oim_TimeCreated j \<le> oim_TimeCreated i) imgs"

lemma find_cong_set: "(\<And>x. x \<in> set xs \<Longrightarrow> P x = Q x) \<Longrightarrow> find P xs = find Q xs"
  by (induction xs) auto

lemma latest_of_skip_first:
  assumes "oim_TimeCreated l < oim_TimeCreated img"
  shows "latest_of (l # img # T) = latest_of (img # T)"
proof -
  have "find (\<lambda>i. \<forall>j \<in> set (l # img # T). oim_TimeCreated j \<le> oim_TimeCreated i) (img # T)
      = find (\<lambda>i. \<forall>j \<in> set (img # T). oim_TimeCreated j \<le> oim_TimeCreated i) (img # T)"
    by (rule find_cong_set) (use assms in \<open>force\<close>)
  with assms show ?thesis unfolding latest_of_def by (simp add: not_le)
qed

lemma latest_of_skip_second:
  assumes "oim_TimeCreated img \<le> oim_TimeCreated l"
  shows "latest_of (l # img # T) = latest_of (l # T)"
proof (cases "\<forall>j \<in> set T. oim_TimeCreated j \<le> oim_TimeCreated l")
  case True
  with assms show ?thesis unfolding latest_of_def by simp
next
  case False
  have "find (\<lambda>i. \<forall>j \<in> set (l # img # T). oim_TimeCreated j \<le> oim_TimeCreated i) T
      = find (\<lambda>i. \<forall>j \<in> set (l # T). oim_TimeCreated j \<le> oim_TimeCreated i) T"
    by (rule find_cong_set) (use assms in force)
  moreover have "(\<forall>j \<in> set T. oim_TimeCreated j \<le> oim_TimeCreated img) = False" using False assms by (meson order_trans)
  moreover have "(\<forall>j \<in> set T. oim_TimeCreated j \<le> oim_TimeCreated l) = False" using False by simp
  ultimately show ?thesis unfolding latest_of_def find.simps list.set ball_simps by (simp del: ball_simps)
qed

lemma latest_image_some: "latest_image v a imgs (Some l) = latest_of (l # filter (has_tags v a) imgs)"
proof (induction imgs arbitrary: l)
  case Nil
  then show ?case by (simp add: latest_of_def)
next
  case (Cons img imgs)
  then show ?case by (auto simp: latest_of_skip_first latest_of_skip_second not_less)
qed

lemma latest_image_none: "latest_image v a imgs None = latest_of (filter (has_tags v a) imgs)"
  by (induction imgs) (simp_all add: latest_image_some, simp add: latest_of_def)

lemma find_filter_Some:
  "find P (filter Q xs) = Some x \<Longrightarrow> \<exists>before after. xs = before @ x # after \<and> Q x \<and> P x \<and> (\<forall>i \<in> set before. Q i \<longrightarrow> \<not> P i)"
proof (induction xs)
  case (Cons y xs)
  show ?case
  proof (cases "Q y \<and> P y")
    case True
    with Cons.prems show ?thesis by (intro exI [of _ "[]"] exI [of _ xs]) simp
  next
    case False
    with Cons.prems have "find P (filter Q xs) = Some x" by (auto split: if_splits)
    then obtain before after where "xs = before @ x # after" "Q x" "P x" "\<forall>i \<in> set before. Q i \<longrightarrow> \<not> P i" using Cons.IH by blast
    with False show ?thesis by (intro exI [of _ "y # before"] exI [of _ after]) auto
  qed
qed simp

lemma latest_of_None: "latest_of imgs = None \<longleftrightarrow> imgs = []"
proof (cases "imgs = []")
  case False
  let ?T = "oim_TimeCreated ` set imgs"
  have "Max ?T \<in> ?T" using False by (intro Max_in) auto
  then obtain i where "i \<in> set imgs" "oim_TimeCreated i = Max ?T" by auto
  then have "\<forall>j \<in> set imgs. oim_TimeCreated j \<le> oim_TimeCreated i" by simp
  with \<open>i \<in> set imgs\<close> False show ?thesis by (auto simp: latest_of_def find_None_iff)
qed (simp add: latest_of_def)

text \<open>The rounds of the wait for a request, and how it ends.\<close>

definition next_round :: "'s oci_api \<Rightarrow> string \<Rightarrow> string \<Rightarrow> 's \<Rightarrow> 's" where
  "next_round oa i profile s = oa_Sleep oa (10 * duration_s) (snd (GetWorkRequestStatus oa i profile s))"

definition request_status :: "'s oci_api \<Rightarrow> string \<Rightarrow> string \<Rightarrow> nat \<Rightarrow> 's \<Rightarrow> string result \<times> 's" where
  "request_status oa i profile n s = GetWorkRequestStatus oa i profile ((next_round oa i profile ^^ n) s)"

definition settled :: "string result \<Rightarrow> bool" where
  "settled r \<longleftrightarrow> (case r of Inl _ \<Rightarrow> True | Inr status \<Rightarrow> status \<in> {''FAILED'', ''SUCCEEDED''})"

definition settles_as :: "string result \<Rightarrow> unit result" where
  "settles_as r = (case r of Inl err \<Rightarrow> Inl err | Inr status \<Rightarrow> if status = ''SUCCEEDED'' then Inr () else Inl ''Work request failed'')"

lemma request_status_Suc:
  "request_status oa i profile (Suc n) s = request_status oa i profile n (next_round oa i profile s)"
  unfolding request_status_def by (simp add: funpow_swap1)

lemma waitForWorkRequest_step:
  "waitForWorkRequest oa i profile s =
     (case request_status oa i profile 0 s of (r, s') \<Rightarrow>
        if settled r then Some (settles_as r, s') else waitForWorkRequest oa i profile (next_round oa i profile s))"
  by (subst waitForWorkRequest.simps) (auto simp: request_status_def next_round_def settled_def settles_as_def split: prod.splits sum.splits)

lemma waitForWorkRequest_settled:
  assumes "settled (fst (request_status oa i profile n s))" and "\<And>m. m < n \<Longrightarrow> \<not> settled (fst (request_status oa i profile m s))"
  shows "waitForWorkRequest oa i profile s
    = Some (settles_as (fst (request_status oa i profile n s)), snd (request_status oa i profile n s))"
  using assms
proof (induction n arbitrary: s)
  case 0
  then show ?case by (subst waitForWorkRequest_step) (auto split: prod.splits)
next
  case (Suc n)
  let ?s = "next_round oa i profile s"
  have "waitForWorkRequest oa i profile s = waitForWorkRequest oa i profile ?s"
    using Suc.prems(2) [of 0] by (subst waitForWorkRequest_step) (auto split: prod.splits)
  also have "\<dots> = Some (settles_as (fst (request_status oa i profile n ?s)), snd (request_status oa i profile n ?s))"
    by (rule Suc.IH) (use Suc.prems in \<open>auto simp flip: request_status_Suc\<close>)
  finally show ?case by (simp add: request_status_Suc)
qed

lemma waitForWorkRequest_ends:
  assumes "waitForWorkRequest oa i profile s = Some y"
  shows "\<exists>n. settled (fst (request_status oa i profile n s))"
proof (rule waitForWorkRequest.raw_induct [where P = "\<lambda>oa i profile s y. \<exists>n. settled (fst (request_status oa i profile n s))", OF _ assms])
  fix loop and oa :: "'a oci_api" and i profile s y
  assume IH: "\<And>oa i profile s y. loop oa i profile s = Some y \<Longrightarrow> \<exists>n. settled (fst (request_status oa i profile n s))"
    and run: "(case GetWorkRequestStatus oa i profile s of
        (Inl err, s') \<Rightarrow> Some (Inl err, s')
      | (Inr status, s') \<Rightarrow>
          (if status = ''FAILED'' then Some (Inl ''Work request failed'', s')
           else if status = ''SUCCEEDED'' then Some (Inr (), s')
           else loop oa i profile (oa_Sleep oa (10 * duration_s) s'))) = Some y"
  show "\<exists>n. settled (fst (request_status oa i profile n s))"
  proof (cases "settled (fst (request_status oa i profile 0 s))")
    case False
    with run have "loop oa i profile (next_round oa i profile s) = Some y"
      by (auto simp: settled_def request_status_def next_round_def split: prod.splits sum.splits)
    from IH [OF this] show ?thesis by (metis request_status_Suc)
  qed blast
qed

text \<open>Paths of compartments in a tree.\<close>

inductive below :: "(string \<Rightarrow> (string \<times> string) list) \<Rightarrow> string \<Rightarrow> string list \<Rightarrow> string \<Rightarrow> bool" for kids where
  here: "below kids i [] i"
| child: "map_of (kids i) n = Some j \<Longrightarrow> j \<noteq> [] \<Longrightarrow> below kids j ns k \<Longrightarrow> below kids i (n # ns) k"

inductive_simps below_Nil [simp]: "below kids i [] k"
inductive_simps below_Cons [simp]: "below kids i (n # ns) k"

lemma split_Cons_ex:
  "(\<exists>ns rest. n # names = ns @ rest \<and> P ns rest) \<longleftrightarrow> P [] (n # names) \<or> (\<exists>ns rest. names = ns @ rest \<and> P (n # ns) rest)"
  (is "?l = (?a \<or> ?b)")
proof
  assume ?l
  then obtain ns rest where "n # names = ns @ rest" "P ns rest" by blast
  then show "?a \<or> ?b" by (cases ns) auto
next
  assume "?a \<or> ?b"
  then show ?l
  proof
    assume ?b
    then obtain ns rest where "names = ns @ rest" "P (n # ns) rest" by blast
    then show ?l by (intro exI [of _ "n # ns"] exI [of _ rest]) simp
  qed (intro exI [of _ "[]"] exI [of _ "n # names"], simp)
qed

lemma find_compartment_exact:
  assumes "\<And>i. oa_ListCompartments oa profile i s = (Inr (kids i), s)"
  shows "find_compartment oa profile whole names i (s, tr) = (Inr k, s, tr) \<longleftrightarrow>
      (\<exists>ns rest. names = ns @ rest \<and> below kids i ns k \<and> (rest = [] \<or> kids k = []))"
proof (induction names arbitrary: i)
  case Nil
  then show ?case by auto
next
  case (Cons n names)
  have "find_compartment oa profile whole (n # names) i (s, tr) = (Inr k, s, tr) \<longleftrightarrow>
      (if kids i = [] then k = i
       else \<exists>j. map_of (kids i) n = Some j \<and> j \<noteq> [] \<and> find_compartment oa profile whole names j (s, tr) = (Inr k, s, tr))"
    using assms by (auto simp: abind_def ask_def Let_def split: option.splits)
  then show ?case unfolding split_Cons_ex Cons.IH by auto
qed

text \<open>A configuration file, each section with the file of its key.\<close>

definition blanks :: string where "blanks = [CHR '' '', CHR 9]"

definition plain_value :: "string \<Rightarrow> bool" where
  "plain_value v \<longleftrightarrow> CHR 10 \<notin> set v \<and> CHR ''='' \<notin> set v \<and> (v \<noteq> [] \<longrightarrow> hd v \<notin> set blanks \<and> last v \<notin> set blanks)"

definition plain_section :: "OciConfig \<times> string \<Rightarrow> bool" where
  "plain_section cf \<longleftrightarrow> CHR 10 \<notin> set (ocf_Name (fst cf)) \<and> \<not> ocf_UseInstancePrincipal (fst cf) \<and>
     (\<forall>v \<in> {ocf_User (fst cf), ocf_Fingerprint (fst cf), ocf_Tenancy (fst cf), ocf_Region (fst cf), ocf_Passphrase (fst cf), snd cf}. plain_value v)"

definition value_line :: "string \<Rightarrow> string \<Rightarrow> string" where "value_line key v = key @ CHR ''='' # v"

definition section_lines :: "OciConfig \<times> string \<Rightarrow> string list" where
  "section_lines cf =
     [CHR ''['' # ocf_Name (fst cf) @ '']'', value_line ''user'' (ocf_User (fst cf)), value_line ''fingerprint'' (ocf_Fingerprint (fst cf)),
      value_line ''key_file'' (snd cf), value_line ''tenancy'' (ocf_Tenancy (fst cf)), value_line ''region'' (ocf_Region (fst cf)),
      value_line ''passphrase'' (ocf_Passphrase (fst cf))]"

lemma go_trim_id:
  assumes "s \<noteq> []" and "hd s \<notin> set cs" and "last s \<notin> set cs"
  shows "go_trim s cs = s"
  using assms by (simp add: go_trim_def trim_left_def trim_right_def dropWhile_hd hd_rev)

lemma trim_value: "plain_value v \<Longrightarrow> go_trim v [CHR '' '', CHR 10] = v"
proof (cases "v = []")
  case False
  assume "plain_value v"
  moreover from False have "hd v \<in> set v" "last v \<in> set v" by simp_all
  ultimately show ?thesis using False by (intro go_trim_id) (auto simp: plain_value_def blanks_def simp del: hd_in_set last_in_set)
qed (simp add: go_trim_def trim_left_def trim_right_def)

lemma config_line_value:
  assumes "plain_value v" and "key \<in> {''user'', ''fingerprint'', ''tenancy'', ''region'', ''key_file'', ''passphrase''}"
  shows "config_line oa (value_line key v) st = abind (config_value oa key v) (\<lambda>f. aret (set_value f st))"
proof -
  have "go_trim (value_line key v) [CHR '' '', CHR 9] = value_line key v"
    by (rule go_trim_id) (use assms in \<open>auto simp: value_line_def plain_value_def blanks_def\<close>)
  moreover have "go_split (value_line key v) ''='' = [key, v]"
    unfolding value_line_def by (subst go_split_char_Cons) (use assms in \<open>auto simp: plain_value_def go_split_char_simple\<close>)
  moreover have "go_trim key [CHR '' '', CHR 10] = key" by (rule go_trim_id) (use assms(2) in auto)
  moreover have "cut_prefix (value_line key v) ''['' = (value_line key v, False)" "\<not> has_prefix (value_line key v) ''#''"
    using assms(2) by (auto simp: value_line_def cut_prefix_def)
  ultimately show ?thesis
    using trim_value [OF assms(1)] by (auto simp: config_line_def value_line_def)
qed

lemma config_line_header:
  "config_line oa (CHR ''['' # name @ '']'') st = pret (all_sections st, Some (named_OciConfig name))"
proof -
  have "go_trim (CHR ''['' # name @ '']'') [CHR '' '', CHR 9] = CHR ''['' # name @ '']''" by (rule go_trim_id) simp_all
  moreover have "cut_prefix (CHR ''['' # name @ '']'') ''['' = (name @ '']'', True)" by (simp add: cut_prefix_def)
  ultimately show ?thesis by (simp add: config_line_def)
qed

lemma config_lines_section:
  assumes "plain_section cf" and "oa_ReadFile oa (snd cf) s = (Inr (ocf_Key (fst cf)), s)"
  shows "config_lines oa (section_lines cf @ ls) st (s, tr) = config_lines oa ls (all_sections st, Some (fst cf)) (s, tr)"
proof -
  obtain c f where cf: "cf = (c, f)" by (cases cf)
  show ?thesis
    using assms unfolding cf
    by (cases c) (simp add: section_lines_def plain_section_def config_line_header config_line_value config_value_def set_value_def
        named_OciConfig_def pbind_run abind_run ask_def)
qed

lemma config_lines_sections:
  assumes "list_all plain_section cfs" and "\<And>cf. cf \<in> set cfs \<Longrightarrow> oa_ReadFile oa (snd cf) s = (Inr (ocf_Key (fst cf)), s)"
  shows "\<exists>st'. config_lines oa (concat (map section_lines cfs)) st (s, tr) = (Inr (Returns st'), s, tr) \<and>
    all_sections st' = all_sections st @ map fst cfs"
  using assms
proof (induction cfs arbitrary: st)
  case (Cons cf cfs)
  let ?st = "(all_sections st, Some (fst cf))"
  obtain st' where "config_lines oa (concat (map section_lines cfs)) ?st (s, tr) = (Inr (Returns st'), s, tr)"
    "all_sections st' = all_sections ?st @ map fst cfs"
    using Cons.IH [of ?st] Cons.prems by auto
  moreover have "config_lines oa (section_lines cf @ concat (map section_lines cfs)) st (s, tr)
      = config_lines oa (concat (map section_lines cfs)) ?st (s, tr)"
    by (rule config_lines_section) (use Cons.prems in simp_all)
  ultimately show ?case by (intro exI [of _ st']) (simp add: all_sections_def)
qed simp

lemma no_newline: "list_all plain_section cfs \<Longrightarrow> \<forall>l \<in> set (concat (map section_lines cfs)). CHR 10 \<notin> set l"
  by (auto simp: list_all_iff section_lines_def plain_section_def plain_value_def value_line_def)

text \<open>A small cloud: one section with a key file, a compartment below the tenancy, two images of which the second is later.\<close>

definition sample_sections :: "(OciConfig \<times> string) list" where
  "sample_sections = [((named_OciConfig ''DEFAULT'')\<lparr>ocf_User := ''me'', ocf_Key := ''KEY''\<rparr>, ''k.pem'')]"

definition sample_images :: "OciImage list" where
  "sample_images = map (\<lambda>(i, t). \<lparr>oim_Id = i, oim_DisplayName = ''ock'', oim_CompartmentId = ''dev'',
     oim_FreeformTags = [OCIArchitectureTag \<mapsto> ''arm64'', OCIKubernetesVersionTag \<mapsto> ''1.31''], oim_TimeCreated = t\<rparr>) [(''a'', 1), (''b'', 2)]"

definition sample_kids :: "string \<Rightarrow> (string \<times> string) list" where
  "sample_kids i = (if i = ''root'' then [(''dev'', ''ocid.dev'')] else [])"

definition sample_cloud :: "nat oci_api" where
  "sample_cloud = \<lparr>oa_UserHomeDir = (\<lambda>s. (Inr [], s)),
     oa_ReadFile = (\<lambda>f s. (if f = ''config'' then Inr (go_join (concat (map section_lines sample_sections)) [CHR 10])
                           else if f = ''k.pem'' then Inr ''KEY'' else Inl ''no such file'', s)),
     oa_WriteFile = (\<lambda>_ _ s. (Inr (), s)), oa_AbsDir = Inr, oa_IsTTY = (\<lambda>s. (Inr False, s)), oa_Sleep = (\<lambda>_. Suc),
     oa_NewComputeClient = (\<lambda>_ s. (Inr (), s)), oa_GetImage = (\<lambda>_ _ s. (Inl ''not found'', s)), oa_ListImages = (\<lambda>_ _ _ s. (Inr sample_images, s)),
     oa_CreateImage = (\<lambda>_ _ s. (Inr (''c'', ''request''), s)), oa_ListSchemas = (\<lambda>_ s. (Inr [''1''], s)), oa_CreateSchema = (\<lambda>_ _ _ _ s. (Inr (), s)),
     oa_ListShapes = (\<lambda>_ _ _ s. (Inr ([], None), s)), oa_RemoveShape = (\<lambda>_ _ _ s. (Inr (), s)), oa_AddShape = (\<lambda>_ _ _ s. (Inr (), s)),
     oa_NewIdentityClient = (\<lambda>_ s. (Inr (), s)), oa_TenancyOCID = (\<lambda>_ s. (Inr ''root'', s)),
     oa_ListCompartments = (\<lambda>_ i s. (Inr (sample_kids i), s)), oa_ListRegions = (\<lambda>_ s. (Inr [], s)),
     oa_NewObjectStorage = (\<lambda>_ s. (Inr (), s)), oa_GetNamespace = (\<lambda>_ s. (Inr [], s)), oa_PutObject = (\<lambda>_ _ _ _ _ s. (Inr (), s)),
     oa_NewWorkRequestClient = (\<lambda>_ s. (Inr (), s)), oa_GetWorkRequest = (\<lambda>_ _ s. (Inr ''CANCELED'', s)),
     oa_Base = (\<lambda>f. f), oa_Join = concat, oa_Targz = (\<lambda>_. [])\<rparr>"

section \<open>Properties\<close>

text \<open>
  The configuration file is read as it is written: a file with one section for each profile, whose values are plain, gives these profiles, in
  their order, each with the contents of its own key file.
\<close>

theorem parseOciConfig_reads_back:
  assumes "list_all plain_section cfs"
    and "\<And>cf. cf \<in> set cfs \<Longrightarrow> oa_ReadFile oa (snd cf) s = (Inr (ocf_Key (fst cf)), s)"
    and "oa_ReadFile oa filename s = (Inr (go_join (concat (map section_lines cfs)) [CHR 10]), s)"
  shows "parseOciConfig oa filename (s, tr) = (Inr (Returns (map fst cfs)), s, tr)"
proof (cases "cfs = []")
  case True
  with assms(3) show ?thesis
    by (simp add: parseOciConfig_def abind_def ask_def go_split_char_simple config_line_def go_trim_def trim_left_def trim_right_def
        pbind_run all_sections_def)
next
  case False
  then have "concat (map section_lines cfs) \<noteq> []" by (cases cfs) (simp_all add: section_lines_def)
  from go_split_join_char [OF this no_newline [OF assms(1)]] config_lines_sections [OF assms(1,2), of "([], None)" tr]
  show ?thesis using assms(3) by (auto simp: parseOciConfig_def abind_def ask_def pbind_run all_sections_def [of "([], None)"])
qed

theorem parseOciConfig_reads_back_witness:
  "parseOciConfig sample_cloud ''config'' (0, []) = (Inr (Returns [(named_OciConfig ''DEFAULT'')\<lparr>ocf_User := ''me'', ocf_Key := ''KEY''\<rparr>]), 0, [])"
proof -
  have "list_all plain_section sample_sections"
    by (simp add: sample_sections_def plain_section_def plain_value_def named_OciConfig_def blanks_def)
  from parseOciConfig_reads_back [OF this, of sample_cloud 0 "''config''" "[]"] show ?thesis
    by (simp add: sample_cloud_def sample_sections_def)
qed

text \<open>
  The path of a compartment leads down the tree of compartments from the one of the tenancy: the answer is the compartment at its end, or one on
  the way that has none below it, whatever is left of the path, and there is no other answer.
\<close>

theorem GetCompartmentId_follows_path:
  assumes "\<not> has_prefix path ''ocid1.compartment''"
    and "oa_NewIdentityClient oa profile s = (Inr (), s)" and "oa_TenancyOCID oa profile s = (Inr root, s)"
    and "\<And>i. oa_ListCompartments oa profile i s = (Inr (kids i), s)"
  shows "GetCompartmentId oa path profile (s, tr) = (Inr k, s, tr) \<longleftrightarrow>
    (\<exists>ns rest. go_split path ''/'' = ns @ rest \<and> below kids root ns k \<and> (rest = [] \<or> kids k = []))"
  using find_compartment_exact [of oa profile s kids path "go_split path ''/''" root tr k, OF assms(4)] assms(1-3)
  by (cases "go_split path ''/''") (simp_all add: GetCompartmentId_def abind_def ask_def del: find_compartment.simps)

theorem GetCompartmentId_follows_path_witness:
  "GetCompartmentId sample_cloud ''dev/any/thing'' ''DEFAULT'' (0, []) = (Inr ''ocid.dev'', 0, [])"
proof -
  have p: "go_split ''dev/any/thing'' ''/'' = [''dev''] @ [''any'', ''thing'']"
    using go_split_char_Cons [of "CHR ''/''" "''dev''" "''any/thing''"] go_split_char_Cons [of "CHR ''/''" "''any''" "''thing''"]
    by (simp add: go_split_char_simple)
  have "below sample_kids ''root'' [''dev''] ''ocid.dev''" "sample_kids ''ocid.dev'' = []" by (simp_all add: sample_kids_def)
  with p have "\<exists>ns rest. go_split ''dev/any/thing'' ''/'' = ns @ rest \<and> below sample_kids ''root'' ns ''ocid.dev'' \<and> (rest = [] \<or> sample_kids ''ocid.dev'' = [])"
    by blast
  then show ?thesis
    by (subst GetCompartmentId_follows_path [of _ _ _ _ "''root''" sample_kids]) (simp_all add: sample_cloud_def)
qed

text \<open>
  The image found for a version and an architecture is one that is listed with both tags and than which no other such image is later, the
  first if there are several; no image is found exactly if none has the tags.
\<close>

theorem GetImage_latest:
  assumes "oa_NewComputeClient oa profile s = (Inr (), s1)" and "oa_ListImages oa profile compartment name s1 = (Inr imgs, s2)"
  shows "\<exists>r. GetImage oa name version arch compartment profile (s, tr) = (Inr r, s2, tr) \<and>
    (case r of
       None \<Rightarrow> \<not> list_ex (has_tags version arch) imgs
     | Some img \<Rightarrow> \<exists>before after. imgs = before @ img # after \<and> has_tags version arch img \<and>
         (\<forall>i \<in> set before. has_tags version arch i \<longrightarrow> oim_TimeCreated i < oim_TimeCreated img) \<and>
         (\<forall>i \<in> set after. has_tags version arch i \<longrightarrow> oim_TimeCreated i \<le> oim_TimeCreated img))"
proof -
  let ?T = "filter (has_tags version arch) imgs"
  have run: "GetImage oa name version arch compartment profile (s, tr) = (Inr (latest_of ?T), s2, tr)"
    using assms by (simp add: GetImage_def abind_def ask_def latest_image_none)
  show ?thesis
  proof (cases "latest_of ?T")
    case None
    then have "\<not> list_ex (has_tags version arch) imgs" by (auto simp: latest_of_None filter_empty_conv list_ex_iff)
    with run None show ?thesis by simp
  next
    case (Some img)
    then obtain before after where *: "imgs = before @ img # after" "has_tags version arch img"
        "\<forall>j \<in> set ?T. oim_TimeCreated j \<le> oim_TimeCreated img"
        "\<forall>i \<in> set before. has_tags version arch i \<longrightarrow> \<not> (\<forall>j \<in> set ?T. oim_TimeCreated j \<le> oim_TimeCreated i)"
      unfolding latest_of_def by (blast dest: find_filter_Some)
    have "oim_TimeCreated i < oim_TimeCreated img" if "i \<in> set before" "has_tags version arch i" for i
    proof (rule ccontr)
      assume "\<not> oim_TimeCreated i < oim_TimeCreated img"
      with *(3) have "\<forall>j \<in> set ?T. oim_TimeCreated j \<le> oim_TimeCreated i" by (meson not_less order_trans)
      with *(4) that show False by blast
    qed
    moreover have "\<forall>i \<in> set after. has_tags version arch i \<longrightarrow> oim_TimeCreated i \<le> oim_TimeCreated img" using *(1,3) by auto
    ultimately show ?thesis using run Some *(1,2) by auto
  qed
qed

theorem GetImage_latest_witness:
  "\<exists>r. GetImage sample_cloud ''ock'' ''1.31'' ''arm64'' ''dev'' ''DEFAULT'' (0, [] :: oci_event list) = (Inr r, 0, []) \<and> map_option oim_Id r = Some ''b''"
proof -
  have "oa_NewComputeClient sample_cloud ''DEFAULT'' 0 = (Inr (), 0)"
    "oa_ListImages sample_cloud ''DEFAULT'' ''dev'' ''ock'' 0 = (Inr sample_images, 0)" by (simp_all add: sample_cloud_def)
  from GetImage_latest [OF this, of "''1.31''" "''arm64''" "[] :: oci_event list"]
  obtain r where r: "GetImage sample_cloud ''ock'' ''1.31'' ''arm64'' ''dev'' ''DEFAULT'' (0, [] :: oci_event list) = (Inr r, 0, [])"
    and spec: "case r of
       None \<Rightarrow> \<not> list_ex (has_tags ''1.31'' ''arm64'') sample_images
     | Some img \<Rightarrow> \<exists>before after. sample_images = before @ img # after \<and> has_tags ''1.31'' ''arm64'' img \<and>
         (\<forall>i \<in> set before. has_tags ''1.31'' ''arm64'' i \<longrightarrow> oim_TimeCreated i < oim_TimeCreated img) \<and>
         (\<forall>i \<in> set after. has_tags ''1.31'' ''arm64'' i \<longrightarrow> oim_TimeCreated i \<le> oim_TimeCreated img)" by blast
  from spec have "map_option oim_Id r = Some ''b''"
    by (auto simp: sample_images_def has_tags_def OCIArchitectureTag_def OCIKubernetesVersionTag_def Cons_eq_append_conv split: option.splits)
  with r show ?thesis by blast
qed

text \<open>
  The wait for a request returns exactly if the request is ever seen failed or succeeded or cannot be asked for; it returns what is seen first.  It
  does not return for a request that stays cancelled.
\<close>

theorem waitForWorkRequest_returns:
  "waitForWorkRequest oa i profile s =
     (if \<exists>n. settled (fst (request_status oa i profile n s))
      then let n = LEAST n. settled (fst (request_status oa i profile n s))
           in Some (settles_as (fst (request_status oa i profile n s)), snd (request_status oa i profile n s))
      else None)"
proof (cases "\<exists>n. settled (fst (request_status oa i profile n s))")
  case True
  let ?n = "LEAST n. settled (fst (request_status oa i profile n s))"
  from True have "settled (fst (request_status oa i profile ?n s))" by (rule LeastI_ex)
  moreover have "\<not> settled (fst (request_status oa i profile m s))" if "m < ?n" for m
    using that by (rule not_less_Least)
  ultimately have "waitForWorkRequest oa i profile s
      = Some (settles_as (fst (request_status oa i profile ?n s)), snd (request_status oa i profile ?n s))"
    by (rule waitForWorkRequest_settled)
  with True show ?thesis by (simp only: Let_def if_True)
next
  case False
  with waitForWorkRequest_ends [of oa i profile s] show ?thesis by (cases "waitForWorkRequest oa i profile s") auto
qed

lemma cancelled_never_returns: "waitForWorkRequest sample_cloud i profile s = None"
  by (simp add: waitForWorkRequest_returns settled_def request_status_def GetWorkRequestStatus_def sample_cloud_def)

end
