(* ===== verification/Oci_Upload.thy ===== *)
theory Oci_Upload
  imports Oci_Cloud Image_Reference
begin

text \<open>
  Uploading an image of a machine to Oracle Cloud (\<^verbatim>\<open>pkg/commands/image/upload/upload.go\<close>), with the description of what the image can do that goes
  with it (\<^verbatim>\<open>pkg/util/oci/imagecapability.go\<close>).  The JSON encoder and the archive writer are parameters.
\<close>

section \<open>Capabilities\<close>

record ExternalLaunchOptions =
  elo_Firmware :: string
  elo_NetworkType :: string
  elo_BootVolumeType :: string
  elo_RemoteDataVolumeType :: string
  elo_LocalDataVolumeType :: string
  elo_LaunchOptionsSource :: string
  elo_PvAttachmentVersion :: int
  elo_PvEncryptionInTransitEnabled :: bool
  elo_ConsistentVolumeNamingEnabled :: bool

record ShapeCompatibility =
  shc_InternalShapeName :: string
  shc_OcpuConstraints :: "string option"
  shc_MemoryConstraints :: "string option"

record AdditionalMetadata =
  adm_SourcePublicImageId :: "string option"
  adm_ShapeCompatibilities :: "ShapeCompatibility list"

record ImageCapability =
  icp_Version :: int
  icp_ExternalLaunchOptions :: ExternalLaunchOptions
  icp_ImageCapabilityData :: string
  icp_ImageCapsFormatVersion :: string
  icp_OperatingSystem :: string
  icp_OperatingSystemVersion :: string
  icp_AdditionalMetadata :: AdditionalMetadata

record Descriptor =
  dsc_DefaultValue :: gval
  dsc_DescriptorType :: string
  dsc_Values :: "string list"

definition amd64ImageShapesOCI :: "string list" where
  "amd64ImageShapesOCI = [''VM.DenseIO1.16'', ''VM.DenseIO1.4'', ''VM.DenseIO1.8'', ''VM.DenseIO2.16'', ''VM.DenseIO2.24'', ''VM.DenseIO2.8'',
     ''VM.GPU2.1'', ''VM.GPU3.1'', ''VM.GPU3.2'', ''VM.GPU3.4'', ''VM.Standard.B1.1'', ''VM.Standard.B1.16'', ''VM.Standard.B1.2'',
     ''VM.Standard.B1.4'', ''VM.Standard.B1.8'', ''VM.Standard.E2.1'', ''VM.Standard.E2.1.Micro'', ''VM.Standard.E2.2'', ''VM.Standard.E2.4'',
     ''VM.Standard.E2.8'', ''VM.Standard.E3.Flex'', ''VM.Standard.E4.Flex'', ''VM.Standard.E5.Flex'', ''VM.Standard.E5T.Flex'',
     ''VM.Standard.E5T.NPS4.Flex'', ''VM.Standard.E6.Flex'', ''VM.Standard1.1'', ''VM.Standard1.16'', ''VM.Standard1.2'', ''VM.Standard1.2XL'',
     ''VM.Standard1.4XL'', ''VM.Standard2.1'', ''VM.Standard2.16'', ''VM.Standard2.2'', ''VM.Standard2.24'', ''VM.Standard2.4'', ''VM.Standard2.8'',
     ''VM.Standard2.Flex.Micro'', ''VM.Standard3.Flex'', ''VM.Standard4.Flex'', ''e1-2c.64.512'', ''e2-2c.128.2048'', ''e2-2c.64.2048.gpu'',
     ''e4-2c.128.2048'', ''e4-2c.128.2048.2t'', ''e4-2c.128.2048.jbod'', ''e4-2c.128.2048.nvme'', ''x5-2.36.256'', ''x5-2.36.512.nvme-12.8'',
     ''x5-2.36.512.nvme-28.8'', ''x6-2.44.512'', ''x7-2c.28.256.gpu'', ''x7-2c.36.192.hpc'', ''x7-2c.52.768'', ''x7-2c.52.768.gpu'',
     ''x7-2l.52.768.nvme'']"

definition arm64ImageShapesOCI :: "string list" where
  "arm64ImageShapesOCI = [''VM.Standard.A1.Flex'', ''VM.Standard.A2.Flex'', ''a1-2c.160.1024'']"

definition amd64ImageShapesPCA :: "string list" where "amd64ImageShapesPCA = [''VM.PCAStandard.E5.Flex'']"
definition arm64ImageShapesPCA :: "string list" where "arm64ImageShapesPCA = []"

definition no_metadata :: AdditionalMetadata where
  "no_metadata = \<lparr>adm_SourcePublicImageId = None, adm_ShapeCompatibilities = []\<rparr>"

definition enumstring :: "string \<Rightarrow> Descriptor" where
  "enumstring v = \<lparr>dsc_DefaultValue = GStr v, dsc_DescriptorType = ''enumstring'', dsc_Values = [v]\<rparr>"

definition capability_data :: "string \<rightharpoonup> Descriptor" where
  "capability_data = [''Compute.LaunchMode'' \<mapsto> enumstring ''PARAVIRTUALIZED'', ''Compute.Firmware'' \<mapsto> enumstring ''UEFI_64'']"

definition newOCICommonImageCapability :: "((string \<rightharpoonup> Descriptor) \<Rightarrow> string result) \<Rightarrow> ImageCapability result" where
  "newOCICommonImageCapability marshal =
     rbind (marshal capability_data) (\<lambda>data. Inr \<lparr>icp_Version = 2,
       icp_ExternalLaunchOptions = \<lparr>elo_Firmware = ''UEFI_64'', elo_NetworkType = ''VFIO'', elo_BootVolumeType = ''ISCSI'',
         elo_RemoteDataVolumeType = ''PARAVIRTUALIZED'', elo_LocalDataVolumeType = ''VFIO'', elo_LaunchOptionsSource = ''NATIVE'',
         elo_PvAttachmentVersion = 1, elo_PvEncryptionInTransitEnabled = False, elo_ConsistentVolumeNamingEnabled = False\<rparr>,
       icp_ImageCapabilityData = data, icp_ImageCapsFormatVersion = ''34dd2cea-aff2-4f45-b8f6-1cb5290bfab2'',
       icp_OperatingSystem = ''Oracle Linux'', icp_OperatingSystemVersion = ''8'', icp_AdditionalMetadata = no_metadata\<rparr>)"

definition newPCACommonImageCapability :: ImageCapability where
  "newPCACommonImageCapability = \<lparr>icp_Version = 2,
     icp_ExternalLaunchOptions = \<lparr>elo_Firmware = ''UEFI_64'', elo_NetworkType = ''PARAVIRTUALIZED'', elo_BootVolumeType = ''PARAVIRTUALIZED'',
       elo_RemoteDataVolumeType = ''PARAVIRTUALIZED'', elo_LocalDataVolumeType = ''PARAVIRTUALIZED'', elo_LaunchOptionsSource = ''CUSTOM'',
       elo_PvAttachmentVersion = 0, elo_PvEncryptionInTransitEnabled = False, elo_ConsistentVolumeNamingEnabled = False\<rparr>,
     icp_ImageCapabilityData = [], icp_ImageCapsFormatVersion = [],
     icp_OperatingSystem = ''Oracle Linux'', icp_OperatingSystemVersion = ''8'', icp_AdditionalMetadata = no_metadata\<rparr>"

definition with_shapes :: "string list \<Rightarrow> ImageCapability \<Rightarrow> ImageCapability" where
  "with_shapes shapes c = c\<lparr>icp_AdditionalMetadata := (icp_AdditionalMetadata c)\<lparr>adm_ShapeCompatibilities :=
     map (\<lambda>shape. \<lparr>shc_InternalShapeName = shape, shc_OcpuConstraints = None, shc_MemoryConstraints = None\<rparr>) shapes\<rparr>\<rparr>"

definition amd64Capabilities :: "((string \<rightharpoonup> Descriptor) \<Rightarrow> string result) \<Rightarrow> bool \<Rightarrow> ImageCapability result" where
  "amd64Capabilities marshal isPCA =
     (if isPCA then Inr (with_shapes amd64ImageShapesPCA newPCACommonImageCapability)
      else rbind (newOCICommonImageCapability marshal) (\<lambda>c. Inr (with_shapes amd64ImageShapesOCI c)))"

definition arm64Capabilities :: "((string \<rightharpoonup> Descriptor) \<Rightarrow> string result) \<Rightarrow> bool \<Rightarrow> ImageCapability result" where
  "arm64Capabilities marshal isPCA =
     (if isPCA then Inr (with_shapes arm64ImageShapesPCA newPCACommonImageCapability)
      else rbind (newOCICommonImageCapability marshal) (\<lambda>c. Inr (with_shapes arm64ImageShapesOCI c)))"

text \<open>Whatever is not amd64 counts as arm64.\<close>

definition NewImageCapability :: "((string \<rightharpoonup> Descriptor) \<Rightarrow> string result) \<Rightarrow> string \<Rightarrow> bool \<Rightarrow> ImageCapability result" where
  "NewImageCapability marshal imageArch isPCA =
     (if imageArch = ''amd64'' then amd64Capabilities marshal isPCA else arm64Capabilities marshal isPCA)"

section \<open>Uploading\<close>

record UploadOptions =
  upo_ClusterConfig :: ClusterConfig
  upo_ProviderType :: string
  upo_ImagePath :: string
  upo_Profile :: string
  upo_PCA :: bool
  upo_ImageName :: string
  upo_KubernetesVersion :: string
  upo_ImageArchitecture :: string
  upo_Destination :: string
  upo_compartmentId :: string

record 's upload_env =
  uv_oa :: "'s oci_api"
  uv_il :: image_lib
  uv_cl :: "'s copy_lib"
  uv_MarshalData :: "(string \<rightharpoonup> Descriptor) \<Rightarrow> string result"
  uv_MarshalCapability :: "ImageCapability \<Rightarrow> string result"
  uv_UploadOlvm :: "UploadOptions \<Rightarrow> 's \<Rightarrow> unit result \<times> 's"

datatype upload_event = EvUploadOci oci_event | EvUploadCopy copy_event | EvUploadOlvm

definition setCompartmentId :: "'s upload_env \<Rightarrow> UploadOptions \<Rightarrow> ('s, 'e, UploadOptions) act" where
  "setCompartmentId up options =
     (if upo_compartmentId options \<noteq> [] then aret options
      else let p = prv_Oci (clu_Providers (upo_ClusterConfig options))
           in abind (GetCompartmentId (uv_oa up) (oci_Compartment p) (oci_Profile p)) (\<lambda>i. aret (options\<lparr>upo_compartmentId := i\<rparr>)))"

definition getImageCapabilitiesFileSpec :: "string \<Rightarrow> string" where
  "getImageCapabilitiesFileSpec filePath = filePath @ ''.json''"

definition createImageCapabilitiesFile :: "'s upload_env \<Rightarrow> string \<Rightarrow> string \<Rightarrow> bool \<Rightarrow> ('s, oci_event, unit) act" where
  "createImageCapabilitiesFile up filePath imageArchitecture isPCA =
     abind (alift (NewImageCapability (uv_MarshalData up) imageArchitecture isPCA)) (\<lambda>capabilities.
     abind (alift (uv_MarshalCapability up capabilities)) (\<lambda>data.
       perform (EvWriteCapabilities filePath data) (oa_WriteFile (uv_oa up) filePath data)))"

text \<open>A file whose name does not end in \<^verbatim>\<open>.oci\<close> is taken for the metadata, also if it is the image.\<close>

definition tar_name :: "string \<Rightarrow> string" where
  "tar_name name = (if has_suffix name ''.oci'' then ''output.QCOW2'' else ''image_metadata.json'')"

definition addFileToTarWriter :: "'s upload_env \<Rightarrow> string \<Rightarrow> ('s, 'e, string \<times> string) act" where
  "addFileToTarWriter up filename =
     abind (ask (oa_ReadFile (uv_oa up) filename)) (\<lambda>content. aret (tar_name (oa_Base (uv_oa up) filename), content))"

definition createTarballInMemory :: "'s upload_env \<Rightarrow> string \<Rightarrow> string \<Rightarrow> ('s, 'e, string) act" where
  "createTarballInMemory up qcow2Image capabilitiesFileSpec =
     abind (addFileToTarWriter up qcow2Image) (\<lambda>a.
     abind (addFileToTarWriter up capabilitiesFileSpec) (\<lambda>b. aret (oa_Targz (uv_oa up) [a, b])))"

text \<open>The name of the object.\<close>

definition uploadTarballBytes :: "'s upload_env \<Rightarrow> string \<Rightarrow> string \<Rightarrow> UploadOptions \<Rightarrow> ('s, oci_event, string) act" where
  "uploadTarballBytes up tarball baseName options =
     (let oa = uv_oa up; p = prv_Oci (clu_Providers (upo_ClusterConfig options)); filename = ''ocne_'' @ oa_Base oa baseName
      in abind (atry (ask (oa_IsTTY oa)) (\<lambda>r. case r of
              Inl _ \<Rightarrow> aret True
            | Inr _ \<Rightarrow> run_serial [UploadObject oa (oci_ImageBucket p) filename (oci_Profile p) tarball])) (\<lambda>failed.
         if failed then afail (''failed to upload '' @ filename @ '' to object storage'') else aret filename))"

definition UploadAsync :: "'s upload_env \<Rightarrow> UploadOptions \<Rightarrow> ('s, oci_event, string \<times> string) act" where
  "UploadAsync up options =
     (let oa = uv_oa up
      in abind (ListRegions oa (upo_Profile options)) (\<lambda>regions.
         abind (setCompartmentId up (if length regions = 1 then options\<lparr>upo_PCA := True\<rparr> else options)) (\<lambda>options.
         abind (alift (oa_AbsDir oa (upo_ImagePath options))) (\<lambda>qcow2Image.
         abind (ask (oa_ReadFile oa qcow2Image)) (\<lambda>_.
         let spec = getImageCapabilitiesFileSpec qcow2Image
         in abind (createImageCapabilitiesFile up spec (upo_ImageArchitecture options) (upo_PCA options)) (\<lambda>_.
            abind (createTarballInMemory up qcow2Image spec) (\<lambda>tarBytes.
            abind (uploadTarballBytes up tarBytes qcow2Image options) (\<lambda>filename.
              ImportImage oa (upo_ImageName options) (upo_KubernetesVersion options) (upo_ImageArchitecture options) (upo_compartmentId options)
                (oci_ImageBucket (prv_Oci (clu_Providers (upo_ClusterConfig options)))) filename (upo_Profile options)))))))))"

definition UploadOci :: "'s upload_env \<Rightarrow> UploadOptions \<Rightarrow> ('s, oci_event, unit) act" where
  "UploadOci up options =
     abind (setCompartmentId up options) (\<lambda>options.
     abind (UploadAsync up options) (\<lambda>(imageId, workRequestId).
       if workRequestId = [] then aret () else WaitForWorkRequest (uv_oa up) workRequestId (upo_Profile options)))"

definition UploadOstree :: "'s upload_env \<Rightarrow> UploadOptions \<Rightarrow> ('s, copy_event, unit) act" where
  "UploadOstree up options = Copy (uv_il up) (uv_cl up) (''oci-archive:'' @ upo_ImagePath options) (upo_Destination options)"

definition Upload :: "'s upload_env \<Rightarrow> UploadOptions \<Rightarrow> ('s, upload_event, unit) act" where
  "Upload up options =
     (let p = upo_ProviderType options
      in if p = ''oci'' then with_events EvUploadOci (UploadOci up options)
         else if p = ''ostree'' then with_events EvUploadCopy (UploadOstree up options)
         else if p = ''olvm'' then perform EvUploadOlvm (uv_UploadOlvm up options)
         else afail (p @ '' is not a supported provider''))"

end
