(* ===== verification/Capi_Templates.thy ===== *)
theory Capi_Templates
  imports None_Byo_Drivers Oci_Upload
begin

text \<open>
  The resources of the Cluster API that are made from a configuration (\<^verbatim>\<open>pkg/cluster/template\<close>): the data given to the templates, with the ignition
  configurations of the nodes.  The engine of the templates and their texts are parameters.  A configuration that is given is changed: it is the
  state of these functions, beside the world.
\<close>

section \<open>Texts\<close>

definition preKubeadmDropin :: "string" where
  \<open>preKubeadmDropin = text_lines [
     ''[Unit]'',
     ''Before=kubeadm.service'']\<close>

definition proxyConfigContents :: "string" where
  \<open>proxyConfigContents = text_lines [
     ''[Unit]'',
     ''Description=Add API server IP address to no_proxy configuration'',
     ''After=kubeadm.service'',
     '''',
     ''[Service]'',
     ''User=root'',
     ''Type=oneshot'',
     ''ExecStart=/etc/ocne/proxy-config.sh'',
     '''',
     ''[Install]'',
     ''WantedBy=multi-user.target'']\<close>

definition proxyConfigScript :: "string \<Rightarrow> string \<Rightarrow> string \<Rightarrow> string" where
  \<open>proxyConfigScript name conf conf2 = text_lines [
     ''#!/bin/bash'',
     '''',
     ''# Update the no_proxy configuration to include the IP address of the API server.'',
     '''',
     ''export KUBECONFIG=/etc/kubernetes/kubelet.conf'',
     ''CLUSTER_NAME='' @ name,
     ''PROXY_CONF='' @ conf,
     ''PROXY_CONF2='' @ conf2,
     '''',
     ''# Parse the API Server IP address'',
     ''#  - Get the full URL'',
     ''#  - Strip off the protocol (https://)'',
     ''#  - Split the resulting string at double colon'',
     ''url=$(kubectl config view --cluster $CLUSTER_NAME -o=jsonpath="{.clusters[0].cluster.server}")'',
     ''protocol="$(echo $url | grep :// | sed -e's,^'' @ [CHR 92] @ ''(.*://'' @ [CHR 92] @ '').*,'' @ [CHR 92] @ ''1,g')"'',
     ''url2="$(echo ${url/$protocol/})"'',
     ''IFS=":"'',
     ''read -ra ipaddr <<< "$url2"'',
     ''unset IFS'',
     '''',
     ''# Add the IP address to the no_proxy list if not already there'',
     ''echo Checking if $ipaddr exists in $PROXY_CONF'',
     ''grep -q "${ipaddr}" $PROXY_CONF'',
     ''if ['' @ ''[ $? -ne 0 ]'' @ '']; then'',
     [CHR 9] @ ''echo Adding $ipaddr to no_proxy setting in $PROXY_CONF'',
     [CHR 9] @ ''sed -i "s/no_proxy=/no_proxy=$ipaddr,/g" $PROXY_CONF'',
     [CHR 9] @ ''systemctl daemon-reload'',
     ''fi'',
     ''echo Checking if $ipaddr exists in $PROXY_CONF2'',
     ''grep -q "${ipaddr}" $PROXY_CONF2'',
     ''if ['' @ ''[ $? -ne 0 ]'' @ '']; then'',
     [CHR 9] @ ''echo Adding $ipaddr to no_proxy setting in $PROXY_CONF2'',
     [CHR 9] @ ''sed -i "s/no_proxy=/no_proxy=$ipaddr,/g" $PROXY_CONF2'',
     [CHR 9] @ ''systemctl daemon-reload'',
     ''fi'']\<close>

definition ocidPopulate :: "string" where
  \<open>ocidPopulate = text_lines [
     ''[Service]'',
     ''ExecStartPre=sh -c 'export OCID=$(curl -H "Authorization: Bearer Oracle" -L http://169.254.169.254/opc/v2/instance/id); sed -i "s/{{ ds'' @ [CHR 92] @ [CHR 92] @ ''['' @ [CHR 92] @ [CHR 92] @ ''"id'' @ [CHR 92] @ [CHR 92] @ ''"'' @ [CHR 92] @ [CHR 92] @ ''] }}/$OCID/g" /etc/kubeadm.yml'' @ [CHR 0x27],
     ''ExecStartPost=sh -c 'mv /etc/systemd/system/crio.service.d/ocid-populate.conf /tmp/'' @ [CHR 0x27]]\<close>

definition enableServicesDropin :: "string" where
  \<open>enableServicesDropin = text_lines [
     ''[Service]'',
     ''ExecStartPre=/bin/bash -c "/etc/ocne/enableServices.sh &"'']\<close>

definition enableServicesScript :: "string" where
  \<open>enableServicesScript = text_lines [
     ''#! /bin/bash'',
     ''set -x'',
     ''set -e'',
     ''systemctl enable --now crio.service '',
     ''systemctl enable kubelet.service'',
     ''systemctl enable --now kubeadm.service'']\<close>

definition ipv6DefaultRouteService :: "string \<Rightarrow> string" where
  \<open>ipv6DefaultRouteService netInterface = text_lines [
     ''[Unit]'',
     ''Description=Set default route for IPV6'',
     ''After=network-online.target'',
     ''Wants=network-online.target'',
     '''',
     ''[Service]'',
     ''User=root'',
     ''Type=oneshot'',
     ''ExecStart=/usr/sbin/ip -6 route add default dev '' @ netInterface,
     ''RemainAfterExit=no'',
     '''',
     ''[Install]'',
     ''WantedBy=multi-user.target'']\<close>

definition presetFileData :: "string" where
  \<open>presetFileData = text_lines [
     ''disable ocne.service'',
     ''disable kubeadm.service'',
     ''disable crio.service'',
     ''disable kubelet.service'',
     ''enable keepalived.service'',
     ''enable ocne-nginx.service'',
     ''enable ocne-nginx-refresh.service'',
     ''enable ocne-image-cleanup.service'',
     ''enable ocne-disable-ignition.service'']\<close>

section \<open>What the nodes get\<close>

definition IscsidServiceName :: string where "IscsidServiceName = ''iscsid.service''"
definition InstanceMetadata :: string where "InstanceMetadata = ''169.254.169.254''"

text \<open>Units with and without a state, and drop-ins.\<close>

definition disabled_unit :: "string \<Rightarrow> IgnUnit" where
  "disabled_unit name = zero_IgnUnit\<lparr>unit_Name := name, unit_Enabled := Some False\<rparr>"

definition with_dropins :: "IgnDropin list \<Rightarrow> IgnUnit \<Rightarrow> IgnUnit" where
  "with_dropins ds u = u\<lparr>unit_Dropins := Some ds\<rparr>"

definition update_file :: "image_lib \<Rightarrow> ClusterConfig \<Rightarrow> File result outcome" where
  "update_file lib cc =
     obind (ParseOstreeReference lib (clu_OsRegistry cc)) (\<lambda>r. Returns (rbind r (\<lambda>(ostreeTransport, registry, tag).
       if tag \<noteq> [] then Inl ''osRegistry field cannot have a tag''
       else Inr (plain_file OcneUpdateConfigPath (file_mode 4 0 0) (update_yaml registry (clu_OsTag cc) ostreeTransport)))))"

text \<open>The configurations of proxies, containers, the user and the patches; they are made before anything else.\<close>

definition base_parts :: "('s, 'c, 'k, 'x) byo_env \<Rightarrow> ClusterConfig \<Rightarrow> (IgnConfig \<times> IgnConfig \<times> IgnConfig \<times> IgnConfig) result" where
  "base_parts by cc =
     rbind (proxy_ignition (clu_Proxy cc) [clu_ServiceSubnet cc, clu_PodSubnet cc, InstanceMetadata]) (\<lambda>proxy.
     rbind (ContainerConfiguration (by_mk by) (clu_Registry cc)) (\<lambda>container.
     rbind (OcneUser (by_KeyFile by) (clu_SshPublicKey cc) (clu_SshPublicKeyPath cc) (clu_Password cc)) (\<lambda>usr.
     rbind (KubeadmPatches (by_mk by)) (\<lambda>patches. Inr (proxy, container, usr, patches)))))"

definition merge_parts :: "IgnConfig \<times> IgnConfig \<times> IgnConfig \<times> IgnConfig \<Rightarrow> IgnConfig \<Rightarrow> IgnConfig" where
  "merge_parts parts ign = (case parts of (proxy, container, usr, patches) \<Rightarrow> Merge (Merge (Merge (Merge ign container) proxy) usr) patches)"

text \<open>A relative path is taken from the current directory here, not from the one of the configuration.\<close>

definition merge_extra :: "('s, 'c, 'k, 'x) byo_env \<Rightarrow> ClusterConfig \<Rightarrow> IgnConfig \<Rightarrow> IgnConfig result" where
  "merge_extra by cc ign =
     rbind (if clu_ExtraIgnition cc = [] then Inr ign
            else rbind (FromPath (by_fs by) (by_ip by) (clu_ExtraIgnition cc)) (\<lambda>fromExtra. Inr (Merge ign fromExtra))) (\<lambda>ign.
       if clu_ExtraIgnitionInline cc = [] then Inr ign
       else rbind (FromString (by_ip by) (clu_ExtraIgnitionInline cc)) (\<lambda>fromExtra. Inr (Merge ign fromExtra)))"

text \<open>The text is indented; a configuration that cannot be encoded becomes an empty text.\<close>

definition indented :: "('s, 'c, 'k, 'x) byo_env \<Rightarrow> IgnConfig \<Rightarrow> string" where
  "indented by ign =
     (case by_Marshal by ign of
        Inl _ \<Rightarrow> []
      | Inr ignBytes \<Rightarrow> go_join (map (\<lambda>l. replicate 12 (CHR '' '') @ l) (go_split ignBytes [CHR 10])) [CHR 10])"

section \<open>Oracle Cloud\<close>

definition oci_units :: "IgnUnit list" where
  "oci_units = [
     disabled_unit ''ocne.service'',
     with_dropins [dropin ''pre-kubeadm.conf'' preKubeadmDropin, dropin ''ocid-populate.conf'' ocidPopulate] (enabled_unit CrioServiceName),
     text_unit ''ocne-proxy-config.service'' proxyConfigContents]"

definition oci_getExtraIgnition :: "('s, 'c, 'k, 'x) byo_env \<Rightarrow> ClusterConfig \<Rightarrow> string result outcome" where
  "oci_getExtraIgnition by cc =
     (case base_parts by cc of
        Inl err \<Rightarrow> Returns (Inl err)
      | Inr parts \<Rightarrow>
          let ign = foldl AddUnit NewIgnition oci_units;
              proxyConfigFile = plain_file ''/etc/ocne/proxy-config.sh'' (file_mode 5 5 5) (proxyConfigScript (clu_Name cc)
                ''/etc/systemd/system/ocne-update.service.d/proxy.conf'' ''/etc/systemd/system/crio.service.d/proxy.conf'');
              ign = ignoring (AddFile (by_mk by) proxyConfigFile) ign
          in obind (update_file (by_lib by) cc) (\<lambda>r. Returns (rbind r (\<lambda>updateFile.
               let ign = AddUnit (ignoring (AddFile (by_mk by) updateFile) ign) (enabled_unit IscsidServiceName)
               in rbind (merge_extra by cc (merge_parts parts ign)) (\<lambda>ign. Inr (indented by ign))))))"

definition imageFromShape :: "string \<Rightarrow> OciImageSet \<Rightarrow> string" where
  "imageFromShape shape imgs = (if ArchitectureFromShape shape = ''arm64'' then oi_Arm64 imgs else oi_Amd64 imgs)"

record ociData =
  ocd_ClusterConfig :: ClusterConfig
  ocd_ExtraConfig :: string
  ocd_KubeVersions :: KubernetesVersions
  ocd_VolumePluginDir :: string
  ocd_CipherSuite :: string

record olvmData =
  old_Config :: Config
  old_ClusterConfig :: ClusterConfig
  old_ExtraConfigControlPlane :: string
  old_ExtraConfigWorker :: string
  old_KubeVersions :: KubernetesVersions
  old_VolumePluginDir :: string
  old_CipherSuite :: string
  old_PodSubnetCidrBlocks :: "string list"
  old_ServiceSubnetCidrBlocks :: "string list"
  old_ControlPlaneIPV4Addresses :: "string list"
  old_ControlPlaneIPV6Addresses :: "string list"
  old_WorkerIPV4Addresses :: "string list"
  old_WorkerIPV6Addresses :: "string list"

record template_lib =
  tl_ReadTemplate :: "string \<Rightarrow> string result"
  tl_RenderOci :: "string \<Rightarrow> (string \<Rightarrow> OciImageSet \<Rightarrow> string) \<Rightarrow> ociData \<Rightarrow> string result"
  tl_RenderOlvm :: "string \<Rightarrow> olvmData \<Rightarrow> string result"

type_synonym ('s, 'e, 'a) config_act = "('s \<times> ClusterConfig, 'e, 'a) act"

definition set_oci :: "(OciProvider \<Rightarrow> OciProvider) \<Rightarrow> ClusterConfig \<Rightarrow> ClusterConfig" where
  "set_oci f cc = cc\<lparr>clu_Providers := (clu_Providers cc)\<lparr>prv_Oci := f (prv_Oci (clu_Providers cc))\<rparr>\<rparr>"

definition set_olvm :: "(OlvmProvider \<Rightarrow> OlvmProvider) \<Rightarrow> ClusterConfig \<Rightarrow> ClusterConfig" where
  "set_olvm f cc = cc\<lparr>clu_Providers := (clu_Providers cc)\<lparr>prv_Olvm := f (prv_Olvm (clu_Providers cc))\<rparr>\<rparr>"

text \<open>An image that is found goes into the configuration; errors are not looked at.\<close>

definition use_image :: "'s oci_api \<Rightarrow> string \<Rightarrow> (string \<Rightarrow> OciImageSet \<Rightarrow> OciImageSet) \<Rightarrow> ('s, oci_event, unit) config_act" where
  "use_image oa arch put =
     abind driver (\<lambda>cc. let p = prv_Oci (clu_Providers cc) in
     atry (in_world (\<lambda>e. e) (GetImage oa ''ock'' (clu_KubeVersion cc) arch (oci_Compartment p) (oci_Profile p))) (\<lambda>r. case r of
         Inr (Some img) \<Rightarrow> set_driver (set_oci (\<lambda>p. p\<lparr>oci_Images := put (oim_Id img) (oci_Images p)\<rparr>))
       | _ \<Rightarrow> aret ()))"

definition resolve_compartment :: "'s oci_api \<Rightarrow> ('s, oci_event, unit) config_act" where
  "resolve_compartment oa =
     abind driver (\<lambda>cc. let p = prv_Oci (clu_Providers cc) in
       if oci_Compartment p = [] then aret ()
       else abind (in_world (\<lambda>e. e) (GetCompartmentId oa (oci_Compartment p) (oci_Profile p))) (\<lambda>newCid.
            abind (set_driver (set_oci (\<lambda>p. p\<lparr>oci_Compartment := newCid\<rparr>))) (\<lambda>_.
            abind (use_image oa ''amd64'' (\<lambda>i imgs. imgs\<lparr>oi_Amd64 := i\<rparr>)) (\<lambda>_.
              use_image oa ''arm64'' (\<lambda>i imgs. imgs\<lparr>oi_Arm64 := i\<rparr>)))))"

definition odd_control_plane :: "ClusterConfig \<Rightarrow> unit result" where
  "odd_control_plane cc = (if even (uint (clu_ControlPlaneNodes cc)) then Inl ''the number of control plane nodes must be odd'' else Inr ())"

definition GetOciTemplate ::
  "('s, 'c, 'k, 'x) byo_env \<Rightarrow> 's oci_api \<Rightarrow> template_lib \<Rightarrow> ('s, oci_event, string outcome) config_act" where
  "GetOciTemplate by oa tm =
     abind (alift (tl_ReadTemplate tm ''capi-oci.yaml'')) (\<lambda>tmpl.
     abind driver (\<lambda>cc.
     abind (alift (odd_control_plane cc)) (\<lambda>_.
     abind (alift (GetKubernetesVersions (clu_KubeVersion cc))) (\<lambda>kubeVer.
     abind (resolve_compartment oa) (\<lambda>_.
     abind driver (\<lambda>cc.
       panic_or (oci_getExtraIgnition by cc) (\<lambda>ign.
         abind (alift (tl_RenderOci tm tmpl imageFromShape \<lparr>ocd_ClusterConfig = cc, ocd_ExtraConfig = ign, ocd_KubeVersions = kubeVer,
           ocd_VolumePluginDir = VolumePluginDir, ocd_CipherSuite = clu_CipherSuites cc\<rparr>)) pret)))))))"

text \<open>Every line that names an image has to give an OCID.\<close>

definition valid_image_line :: "string \<Rightarrow> bool" where
  "valid_image_line l =
     (case go_cut l ''imageId:'' of None \<Rightarrow> True | Some (_, rest) \<Rightarrow> has_prefix (go_trim rest [CHR 0x22, CHR '' '']) ''ocid1.image'')"

definition ValidateClusterResources :: "string \<Rightarrow> unit result" where
  "ValidateClusterResources clusterResources =
     (if list_all valid_image_line (go_split clusterResources [CHR 10]) then Inr ()
      else Inl ''Image ids in cluster resources must be valid OCI image OCIDs'')"

section \<open>oVirt\<close>

definition nn_or :: "string \<Rightarrow> string \<Rightarrow> NamespacedName \<Rightarrow> NamespacedName" where
  "nn_or name ns nn =
     (let nn = (if nn_Name nn = [] then nn\<lparr>nn_Name := name\<rparr> else nn) in if nn_Namespace nn = [] then nn\<lparr>nn_Namespace := ns\<rparr> else nn)"

definition CredSecretNsn :: "ClusterConfig \<Rightarrow> NamespacedName" where
  "CredSecretNsn cc =
     (let ov = prv_Olvm (clu_Providers cc)
      in nn_or (clu_Name cc @ ''-ovirt-credentials'') (olvm_Namespace ov) (api_CredentialsSecret (olvm_OlvmAPIServer ov)))"

definition CaConfigMapNsn :: "ClusterConfig \<Rightarrow> NamespacedName" where
  "CaConfigMapNsn cc =
     (let ov = prv_Olvm (clu_Providers cc) in nn_or (clu_Name cc @ ''-ovirt-ca'') (olvm_Namespace ov) (api_CAConfigMap (olvm_OlvmAPIServer ov)))"

definition has_ipv6 :: "OlvmVirtualMachine \<Rightarrow> bool" where
  "has_ipv6 vm \<longleftrightarrow> v6_IpAddresses (vn_IPV6 (vm_Network vm)) \<noteq> [] \<or> v6_AutoConf (vn_IPV6 (vm_Network vm))"

definition olvm_units :: "OlvmVirtualMachine \<Rightarrow> IgnUnit list" where
  "olvm_units vm =
     (if has_ipv6 vm then [text_unit ''ocne-ipv6-default-route.service'' (ipv6DefaultRouteService (vn_Interface (vm_Network vm)))] else [])
     @ [disabled_unit ''ocne.service'']"

definition olvm_update_unit :: IgnUnit where
  "olvm_update_unit =
     with_dropins [dropin ''pre-kubeadm.conf'' preKubeadmDropin, dropin ''enable-services.conf'' enableServicesDropin] (enabled_unit OcneUpdateServiceName)"

definition olvm_virtual_ip :: "('s, 'c, 'k, 'x) byo_env \<Rightarrow> Config \<Rightarrow> ClusterConfig \<Rightarrow> IgnConfig \<Rightarrow> IgnConfig result" where
  "olvm_virtual_ip by config cc ign =
     IgnitionForVirtualIp (by_mk by) ign (cfg_KubeAPIServerBindPort config) (cfg_KubeAPIServerBindPortAlt config) (clu_VirtualIp cc)
       (Some (clu_Proxy cc)) (vn_Interface (vm_Network (om_VirtualMachine (olvm_ControlPlaneMachine (prv_Olvm (clu_Providers cc))))))"

definition olvm_getExtraIgnition ::
  "('s, 'c, 'k, 'x) byo_env \<Rightarrow> Config \<Rightarrow> ClusterConfig \<Rightarrow> bool \<Rightarrow> OlvmVirtualMachine \<Rightarrow> string result outcome" where
  "olvm_getExtraIgnition by config cc internalLB vm =
     (case base_parts by cc of
        Inl err \<Rightarrow> Returns (Inl err)
      | Inr parts \<Rightarrow>
          let add = (\<lambda>f. ignoring (AddFile (by_mk by) f));
              preset = (\<lambda>path. plain_file path (file_mode 5 5 5) presetFileData);
              ign = add (preset ''/etc/systemd/system-preset/80-ocne.preset'') (add (preset ''/etc/systemd/system-preset/10-ocne.preset'')
                      (foldl AddUnit NewIgnition (olvm_units vm)))
          in obind (update_file (by_lib by) cc) (\<lambda>r. Returns (rbind r (\<lambda>updateFile.
               let ign = add (plain_file ''/etc/ocne/enableServices.sh'' (file_mode 5 5 5) enableServicesScript) (add updateFile ign);
                   ign = merge_parts parts (AddUnit ign olvm_update_unit)
               in rbind (if internalLB then olvm_virtual_ip by config cc ign else Inr ign) (\<lambda>ign.
                  rbind (merge_extra by cc ign) (\<lambda>ign. Inr (indented by ign)))))))"

definition SplitAndTrim :: "string \<Rightarrow> string \<Rightarrow> string list" where
  "SplitAndTrim s sep = map trim_space (go_split s sep)"

definition olvm_data :: "Config \<Rightarrow> ClusterConfig \<Rightarrow> KubernetesVersions \<Rightarrow> string \<Rightarrow> string \<Rightarrow> olvmData" where
  "olvm_data config cc kubeVer cpIgn workerIgn =
     (let ov = prv_Olvm (clu_Providers cc);
          cp = vm_Network (om_VirtualMachine (olvm_ControlPlaneMachine ov)); wk = vm_Network (om_VirtualMachine (olvm_WorkerMachine ov))
      in \<lparr>old_Config = config, old_ClusterConfig = cc, old_ExtraConfigControlPlane = cpIgn, old_ExtraConfigWorker = workerIgn,
          old_KubeVersions = kubeVer, old_VolumePluginDir = VolumePluginDir, old_CipherSuite = clu_CipherSuites cc,
          old_PodSubnetCidrBlocks = SplitAndTrim (clu_PodSubnet cc) '','', old_ServiceSubnetCidrBlocks = SplitAndTrim (clu_ServiceSubnet cc) '','',
          old_ControlPlaneIPV4Addresses = SplitAndTrim (v4_IpAddresses (vn_IPV4 cp)) '','',
          old_ControlPlaneIPV6Addresses = SplitAndTrim (v6_IpAddresses (vn_IPV6 cp)) '','',
          old_WorkerIPV4Addresses = SplitAndTrim (v4_IpAddresses (vn_IPV4 wk)) '','',
          old_WorkerIPV6Addresses = SplitAndTrim (v6_IpAddresses (vn_IPV6 wk)) '',''\<rparr>)"

definition with_default_names :: "ClusterConfig \<Rightarrow> ClusterConfig" where
  "with_default_names cc =
     (let cc = set_olvm (\<lambda>ov. ov\<lparr>olvm_OlvmAPIServer := (olvm_OlvmAPIServer ov)\<lparr>api_CAConfigMap := CaConfigMapNsn cc\<rparr>\<rparr>) cc
      in set_olvm (\<lambda>ov. ov\<lparr>olvm_OlvmAPIServer := (olvm_OlvmAPIServer ov)\<lparr>api_CredentialsSecret := CredSecretNsn cc\<rparr>\<rparr>) cc)"

definition GetOlvmTemplate ::
  "('s, 'c, 'k, 'x) byo_env \<Rightarrow> template_lib \<Rightarrow> Config \<Rightarrow> ('s, oci_event, string outcome) config_act" where
  "GetOlvmTemplate by tm config =
     abind (alift (tl_ReadTemplate tm ''capi-olvm.yaml'')) (\<lambda>tmpl.
     abind driver (\<lambda>cc.
     abind (alift (odd_control_plane cc)) (\<lambda>_.
     abind (alift (GetKubernetesVersions (clu_KubeVersion cc))) (\<lambda>kubeVer.
     abind (set_driver with_default_names) (\<lambda>_.
     abind driver (\<lambda>cc. let ov = prv_Olvm (clu_Providers cc) in
       panic_or (olvm_getExtraIgnition by config cc True (om_VirtualMachine (olvm_ControlPlaneMachine ov))) (\<lambda>cpIgn.
       panic_or (olvm_getExtraIgnition by config cc False (om_VirtualMachine (olvm_WorkerMachine ov))) (\<lambda>workerIgn.
         abind (alift (tl_RenderOlvm tm tmpl (olvm_data config cc kubeVer cpIgn workerIgn))) pret))))))))"

definition GetTemplate ::
  "('s, 'c, 'k, 'x) byo_env \<Rightarrow> 's oci_api \<Rightarrow> template_lib \<Rightarrow> Config \<Rightarrow> ('s, oci_event, string outcome) config_act" where
  "GetTemplate by oa tm config =
     abind driver (\<lambda>cc.
       if clu_Provider cc = ''oci'' then GetOciTemplate by oa tm
       else if clu_Provider cc = ''olvm'' then GetOlvmTemplate by tm config
       else afail (''templates not implemented for provider '' @ clu_Provider cc))"

end
