(* ===== verification/Capi_Driver.thy ===== *)
theory Capi_Driver
  imports Capi_Graph Capi_Updates Capi_Templates Config_Load
begin

text \<open>
  What the drivers for Oracle Cloud and for oVirt share (\<^verbatim>\<open>pkg/cluster/driver/oci\<close> and \<^verbatim>\<open>olvm\<close>): a cluster whose nodes are resources of the Cluster
  API in a bootstrap cluster.  The driver is changed by its operations (\<open>Driver_State\<close>).  The bootstrap cluster may be an ephemeral one
  (\<^verbatim>\<open>pkg/commands/cluster/start/ephemeral.go\<close>).  \<open>capi_env\<close> is what the drivers need of the outside; clients are named by their kubeconfig.
\<close>

section \<open>The driver\<close>

record CapiDriver =
  cad_Ephemeral :: bool
  cad_BootstrapKubeConfig :: string
  cad_KubeConfig :: string
  cad_Config :: Config
  cad_ClusterConfig :: ClusterConfig
  cad_ClusterResources :: string
  cad_ResourceNamespace :: string
  cad_FromTemplate :: bool
  cad_Deleted :: bool

datatype capi_event =
    EvCapiRes res_event
  | EvCapiKube string kube_event
  | EvCreateSecret string string string "(string \<times> string) list"
  | EvDeleteSecret string string string
  | EvStartEphemeral
  | EvStopEphemeral
  | EvMove string string string
  | EvCapiWrite string string
  | EvCapiRemove string
  | EvOci oci_event
  | EvMakeImage string string

record ('s, 'c, 'h, 'k, 'x) capi_env =
  cp_by :: "('s, 'c, 'k, 'x) byo_env"
  cp_sn :: "string \<Rightarrow> ('s, 'c, 'h) start_env"
  cp_rc :: "string \<Rightarrow> 's resource_client"
  cp_ol :: obj_lib
  cp_order :: "string list \<Rightarrow> string list"
  cp_Start :: "Config \<Rightarrow> ClusterConfig \<Rightarrow> 's \<Rightarrow> string result \<times> 's"
  cp_Delete :: "Config \<Rightarrow> ClusterConfig \<Rightarrow> 's \<Rightarrow> unit result \<times> 's"
  cp_up :: "'s upload_env"
  cp_tm :: template_lib
  cp_FindSecrets :: "string \<Rightarrow> string \<Rightarrow> string \<Rightarrow> string \<Rightarrow> 's \<Rightarrow> (string \<times> (string \<rightharpoonup> string)) list result \<times> 's"
  cp_GetSecret :: "string \<Rightarrow> string \<Rightarrow> string \<Rightarrow> 's \<Rightarrow> unit result \<times> 's"
  cp_CreateSecret :: "string \<Rightarrow> string \<Rightarrow> string \<Rightarrow> (string \<times> string) list \<Rightarrow> 's \<Rightarrow> unit result \<times> 's"
  cp_DeleteSecret :: "string \<Rightarrow> string \<Rightarrow> string \<Rightarrow> 's \<Rightarrow> (kerror + unit) \<times> 's"
  cp_PodsForApplication :: "string \<Rightarrow> string \<Rightarrow> string \<Rightarrow> 's \<Rightarrow> string list result \<times> 's"
  cp_GetPodLogs :: "string \<Rightarrow> string \<Rightarrow> 's \<Rightarrow> unit result \<times> 's"
  cp_NewClusterctl :: "'s \<Rightarrow> unit result \<times> 's"
  cp_Move :: "string \<Rightarrow> string \<Rightarrow> string \<Rightarrow> 's \<Rightarrow> unit result \<times> 's"
  cp_Stat :: "string \<Rightarrow> 's \<Rightarrow> (remove_error + unit) \<times> 's"
  cp_WriteFile :: "string \<Rightarrow> string \<Rightarrow> 's \<Rightarrow> unit result \<times> 's"
  cp_OverwriteFile :: "string \<Rightarrow> string \<Rightarrow> 's \<Rightarrow> unit result \<times> 's"
  cp_InMemoryFile :: "string \<Rightarrow> 's \<Rightarrow> string result \<times> 's"
  cp_Getenv :: "string \<Rightarrow> string"
  cp_AbsDir :: "string \<Rightarrow> string result"
  cp_ApiURL :: "string \<Rightarrow> string result"
  cp_MarshalPatches :: "JsonPatches \<Rightarrow> string"

type_synonym ('s, 'a) cad_act = "('s \<times> CapiDriver, capi_event, 'a) act"

abbreviation cad_ka :: "('s, 'c, 'h, 'k, 'x) capi_env \<Rightarrow> string \<Rightarrow> 's kube_api" where "cad_ka cp kc \<equiv> sn_ka (cp_sn cp kc)"
abbreviation cad_ha :: "('s, 'c, 'h, 'k, 'x) capi_env \<Rightarrow> string \<Rightarrow> ('s, 'c) helm_api" where "cad_ha cp kc \<equiv> sn_ha (cp_sn cp kc)"
abbreviation in_kube :: "string \<Rightarrow> ('s, kube_event, 'a) act \<Rightarrow> ('s, 'a) cad_act" where "in_kube kc \<equiv> in_world (EvCapiKube kc)"
abbreviation in_res :: "('s, res_event, 'a) act \<Rightarrow> ('s, 'a) cad_act" where "in_res \<equiv> in_world EvCapiRes"

definition kube_client :: "('s, 'c, 'h, 'k, 'x) capi_env \<Rightarrow> string \<Rightarrow> ('s, unit) cad_act" where
  "kube_client cp kubeconfigPath = abind (world (ae_GetKubeClient (by_ae (cp_by cp)) kubeconfigPath)) (\<lambda>_. aret ())"

section \<open>The ephemeral cluster\<close>

definition ephemeral_cluster :: "Config \<Rightarrow> ClusterConfig \<Rightarrow> Config \<times> ClusterConfig" where
  "ephemeral_cluster config clusterConfig =
     (let c = CopyConfig config; cc = CopyClusterConfig clusterConfig; pv = clu_Providers cc;
          cc' = cc\<lparr>clu_Provider := ''libvirt'', clu_ControlPlaneNodes := 1, clu_WorkerNodes := 0, clu_Headless := True, clu_Catalog := False,
                   clu_CommunityCatalog := False, clu_CNI := CNIFlannel, clu_Name := eph_Name (cfg_EphemeralConfig c),
                   clu_Providers := pv\<lparr>prv_Libvirt := (prv_Libvirt pv)\<lparr>lv_ControlPlaneNode := eph_Node (cfg_EphemeralConfig c)\<rparr>\<rparr>\<rparr>
      in (c\<lparr>cfg_Quiet := True, cfg_QuietPtr := Some True, cfg_BootVolumeContainerImage := clu_BootVolumeContainerImage cc',
            cfg_KubeVersion := KubeVersion, cfg_OsTag := clu_OsTag cc'\<rparr>,
          cc'\<lparr>clu_KubeVersion := KubeVersion\<rparr>))"

text \<open>The kubeconfig of the new cluster also goes into the configuration that is given.\<close>

definition StartEphemeralCluster ::
  "('s, 'c, 'h, 'k, 'x) capi_env \<Rightarrow> Config \<Rightarrow> ClusterConfig \<Rightarrow> ('s, capi_event, string \<times> Config) act" where
  "StartEphemeralCluster cp config clusterConfig =
     (case ephemeral_cluster config clusterConfig of (c, cc) \<Rightarrow>
        abind (perform EvStartEphemeral (cp_Start cp c cc)) (\<lambda>kubeConfigPath. aret (kubeConfigPath, config\<lparr>cfg_KubeConfig := kubeConfigPath\<rparr>)))"

text \<open>A kubeconfig is the default one if neither the argument nor the environment names one; then it is not used, even if it is there.\<close>

definition EnsureCluster ::
  "('s, 'c, 'h, 'k, 'x) capi_env \<Rightarrow> string \<Rightarrow> Config \<Rightarrow> ClusterConfig \<Rightarrow> ('s, capi_event, string \<times> bool \<times> Config) act" where
  "EnsureCluster cp kubeconfigPath config clusterConfig =
     (let ae = by_ae (cp_by cp)
      in if kubeconfigPath \<noteq> [] \<or> ae_Getenv ae EnvVarTestKubeConfig \<noteq> [] \<or> ae_Getenv ae EnvVarKubeConfig \<noteq> []
         then abind (ask (location ae kubeconfigPath)) (\<lambda>path. aret (path, False, config))
         else abind (StartEphemeralCluster cp config clusterConfig) (\<lambda>(path, config). aret (path, True, config)))"

definition close_ephemeral :: "('s, 'c, 'h, 'k, 'x) capi_env \<Rightarrow> ('s, unit) cad_act" where
  "close_ephemeral cp =
     abind driver (\<lambda>cad.
       case StopEphemeralCluster (\<lambda>_ _. None) (cad_Config cad) (cad_ClusterConfig cad) of
         (None, _) \<Rightarrow> aret ()
       | (Some (c, cc), _) \<Rightarrow> changes EvStopEphemeral (cp_Delete cp c cc))"

section \<open>Secrets\<close>

definition CreateSecret :: "('s, 'c, 'h, 'k, 'x) capi_env \<Rightarrow> string \<Rightarrow> string \<Rightarrow> string \<Rightarrow> (string \<times> string) list \<Rightarrow> ('s, capi_event, unit) act" where
  "CreateSecret cp kc ns name data = perform (EvCreateSecret kc ns name data) (cp_CreateSecret cp kc ns name data)"

text \<open>Any error of the lookup is taken for a secret that is not there.\<close>

definition CreateSecretIfNotExists ::
  "('s, 'c, 'h, 'k, 'x) capi_env \<Rightarrow> string \<Rightarrow> string \<Rightarrow> string \<Rightarrow> (string \<times> string) list \<Rightarrow> ('s, capi_event, unit) act" where
  "CreateSecretIfNotExists cp kc ns name data =
     atry (ask (cp_GetSecret cp kc ns name)) (\<lambda>r. case r of Inr _ \<Rightarrow> aret () | Inl _ \<Rightarrow> CreateSecret cp kc ns name data)"

definition DeleteSecret :: "('s, 'c, 'h, 'k, 'x) capi_env \<Rightarrow> string \<Rightarrow> string \<Rightarrow> string \<Rightarrow> ('s, capi_event, unit) act" where
  "DeleteSecret cp kc ns name =
     abind (perform (EvDeleteSecret kc ns name) (keep (cp_DeleteSecret cp kc ns name))) (\<lambda>r. case r of
         Inl (KOther err) \<Rightarrow> afail err
       | _ \<Rightarrow> aret ())"

definition FindSecretsByLabelKeyVal ::
  "('s, 'c, 'h, 'k, 'x) capi_env \<Rightarrow> string \<Rightarrow> string \<Rightarrow> string \<Rightarrow> string \<Rightarrow> ('s, 'e, (string \<times> (string \<rightharpoonup> string)) list) act" where
  "FindSecretsByLabelKeyVal cp kc ns key v = ask (cp_FindSecrets cp kc ns key v)"

text \<open>An action on the world whose events are those of the driver, and one that is given to others as a function of the world.\<close>

abbreviation in_cad :: "('s, capi_event, 'a) act \<Rightarrow> ('s, 'a) cad_act" where "in_cad \<equiv> in_world (\<lambda>e. e)"

definition quietly :: "('s, capi_event, 'a) act \<Rightarrow> 's \<Rightarrow> 'a result \<times> 's" where
  "quietly m s = (case m (s, []) of (r, s', _) \<Rightarrow> (r, s'))"

section \<open>Waiting\<close>

definition no_kubeconfig :: "string \<Rightarrow> string \<Rightarrow> gerror" where
  "no_kubeconfig clusterName ns = ''no kubeconfig found for cluster '' @ clusterName @ '' in namespace '' @ ns"

definition find_kubeconfig :: "('s, 'c, 'h, 'k, 'x) capi_env \<Rightarrow> string \<Rightarrow> string \<Rightarrow> string \<Rightarrow> ('s, 'e, string \<times> (string \<rightharpoonup> string)) act" where
  "find_kubeconfig cp kc ns clusterName =
     abind (FindSecretsByLabelKeyVal cp kc ns ClusterNameLabel clusterName) (\<lambda>secrets.
       case find (\<lambda>s. go_contains (fst s) ''kubeconfig'') secrets of
         None \<Rightarrow> afail (no_kubeconfig clusterName ns)
       | Some s \<Rightarrow> aret s)"

definition waitForKubeconfig :: "('s, 'c, 'h, 'k, 'x) capi_env \<Rightarrow> string \<Rightarrow> string \<Rightarrow> string \<Rightarrow> ('s, 'e, string) act" where
  "waitForKubeconfig cp kc ns clusterName =
     abind (aretry (ka_node (cad_ka cp kc)) (20 * 60 * duration_s) (retry_functor (find_kubeconfig cp kc ns clusterName))) (\<lambda>r. case r of
         None \<Rightarrow> afail ''internal error: kubeconfig secret is not a secret''
       | Some (name, data) \<Rightarrow> (case data ''value'' of
           None \<Rightarrow> afail (name @ '' is not a valid kubeconfig secret'')
         | Some kubeconfig \<Rightarrow> aret kubeconfig))"

text \<open>If the waiting cannot be shown, nothing is waited for, and the kubeconfig is empty without an error.\<close>

definition shown_kubeconfig :: "('s, 'c, 'h, 'k, 'x) capi_env \<Rightarrow> string \<Rightarrow> string \<Rightarrow> string \<Rightarrow> ('s, 'e, string) act" where
  "shown_kubeconfig cp kc ns clusterName =
     atry (ask (ha_IsTTY (cad_ha cp kc))) (\<lambda>r. case r of Inl _ \<Rightarrow> aret [] | Inr _ \<Rightarrow> waitForKubeconfig cp kc ns clusterName)"

text \<open>The controllers are waited for at the same time; they are only looked at.  Here one is waited for after the other.\<close>

definition CoreCAPINamespace :: string where "CoreCAPINamespace = ''capi-system''"
definition CoreCAPIDeployment :: string where "CoreCAPIDeployment = ''core-capi-controller-manager''"
definition KubeadmBootstrapCAPINamespace :: string where "KubeadmBootstrapCAPINamespace = ''capi-kubeadm-bootstrap-system''"
definition KubeadmBootstrapCAPIDeployment :: string where "KubeadmBootstrapCAPIDeployment = ''bootstrap-capi-controller-manager''"
definition KubeadmControlPlaneCAPINamespace :: string where "KubeadmControlPlaneCAPINamespace = ''capi-kubeadm-control-plane-system''"
definition KubeadmControlPlaneCAPIDeployment :: string where "KubeadmControlPlaneCAPIDeployment = ''control-plane-capi-controller-manager''"

definition waitForControllers :: "('s, 'c, 'h, 'k, 'x) capi_env \<Rightarrow> string \<Rightarrow> string \<Rightarrow> string \<Rightarrow> ('s, 'e, unit) act" where
  "waitForControllers cp providerNamespace providerDeployment kc =
     abind (WaitForSerial (cad_ha cp kc) (map (\<lambda>(ns, name). ask (WaitForDeployment (cp_sn cp kc) ns name 1))
       [(CoreCAPINamespace, CoreCAPIDeployment), (KubeadmBootstrapCAPINamespace, KubeadmBootstrapCAPIDeployment),
        (KubeadmControlPlaneCAPINamespace, KubeadmControlPlaneCAPIDeployment), (providerNamespace, providerDeployment)])) (\<lambda>haveError.
     if haveError then afail ''Not all Cluster API controllers became available'' else aret ())"

section \<open>Resources\<close>

text \<open>An error of one resource that speaks of something not found is passed over.\<close>

definition applyResources :: "('s, 'c, 'h, 'k, 'x) capi_env \<Rightarrow> string \<Rightarrow> string \<Rightarrow> ('s, res_event, unit) act" where
  "applyResources cp kc resources =
     (case Unmarshall (ol_dec (cp_ol cp)) resources of
        (_, Some err) \<Rightarrow> afail err
      | (objs, None) \<Rightarrow>
          afor objs (\<lambda>ob. atry (CreateResourceIfNotExist (cp_rc cp kc) kc ob) (\<lambda>r. case r of
              Inl err \<Rightarrow> if \<not> go_contains err ''not found'' then afail err else aret ()
            | Inr _ \<Rightarrow> aret ())))"

text \<open>What works on the configuration alone.\<close>

definition on_config :: "('s, oci_event, 'a) config_act \<Rightarrow> ('s, 'a) cad_act" where
  "on_config m = (\<lambda>((s, d), tr). case m ((s, cad_ClusterConfig d), []) of
     (r, (s', cc), evs) \<Rightarrow> (r, (s', d\<lparr>cad_ClusterConfig := cc\<rparr>), tr @ map EvOci evs))"

abbreviation in_oci :: "('s, oci_event, 'a) act \<Rightarrow> ('s, 'a) cad_act" where "in_oci \<equiv> in_world EvOci"

definition use_template :: "('s, 'c, 'h, 'k, 'x) capi_env \<Rightarrow> ('s, unit outcome) cad_act" where
  "use_template cp =
     abind driver (\<lambda>cad.
       if cad_FromTemplate cad
       then pbind (on_config (GetTemplate (cp_by cp) (uv_oa (cp_up cp)) (cp_tm cp) (cad_Config cad))) (\<lambda>cdi.
            abind (set_driver (\<lambda>cad. cad\<lparr>cad_ClusterResources := cdi\<rparr>)) pret)
       else pret ())"

definition cluster_gone :: "('s, 'c, 'h, 'k, 'x) capi_env \<Rightarrow> string \<Rightarrow> string \<Rightarrow> string \<Rightarrow> ('s, 'e, unit) act" where
  "cluster_gone cp kc clusterName clusterNs =
     atry (GetResourceByIdentifier (cp_rc cp kc) ''cluster.x-k8s.io'' ''v1beta1'' ''Cluster'' clusterName clusterNs) (\<lambda>r. case r of
         Inl err \<Rightarrow> if go_contains err ''not found'' then aret () else afail err
       | Inr _ \<Rightarrow> afail (''Cluster '' @ clusterNs @ ''/'' @ clusterName @ '' is not yet deleted''))"

definition waitForClusterDeletion :: "('s, 'c, 'h, 'k, 'x) capi_env \<Rightarrow> string \<Rightarrow> string \<Rightarrow> string \<Rightarrow> ('s, 'e, unit) act" where
  "waitForClusterDeletion cp kc clusterName clusterNs =
     abind (ask (ae_GetKubeClient (by_ae (cp_by cp)) kc)) (\<lambda>_.
     abind (aretry (ka_node (cad_ka cp kc)) (20 * 60 * duration_s) (retry_functor (cluster_gone cp kc clusterName clusterNs))) (\<lambda>_. aret ()))"

definition deleteCluster :: "('s, 'c, 'h, 'k, 'x) capi_env \<Rightarrow> string \<Rightarrow> string \<Rightarrow> string \<Rightarrow> ('s, res_event, unit) act" where
  "deleteCluster cp kc clusterName clusterNs =
     abind (ask (ae_GetKubeClient (by_ae (cp_by cp)) kc)) (\<lambda>_.
     abind (DeleteResourceByIdentifier (cp_rc cp kc) kc ''cluster.x-k8s.io'' ''v1beta1'' ''Cluster'' clusterName clusterNs) (\<lambda>_.
     abind (WaitFor_one (cad_ha cp kc) (waitForClusterDeletion cp kc clusterName clusterNs)) (\<lambda>(haveError, _).
       if haveError then afail ''Error deleting cluster'' else aret ())))"

text \<open>The logs of the controllers are read in the background; here they are only opened.\<close>

definition follow_controller :: "('s, 'c, 'h, 'k, 'x) capi_env \<Rightarrow> string \<Rightarrow> string \<Rightarrow> string \<Rightarrow> ('s, unit) cad_act" where
  "follow_controller cp release ns kc =
     abind (world (cp_PodsForApplication cp release ns kc)) (\<lambda>pods. afor pods (\<lambda>pod. world (cp_GetPodLogs cp kc pod)))"

text \<open>The kubeconfig of the managed cluster goes into a new file; that it could not be had is not looked at.\<close>

definition hand_back :: "('s, 'c, 'h, 'k, 'x) capi_env \<Rightarrow> string \<Rightarrow> string list \<Rightarrow> ('s, string \<times> string \<times> bool) cad_act" where
  "hand_back cp clusterName helpMessages =
     abind driver (\<lambda>cad.
     atry (in_res (waitForKubeconfig cp (cad_BootstrapKubeConfig cad) (cad_ResourceNamespace cad) clusterName)) (\<lambda>kcfg.
     atry (world (cp_InMemoryFile cp (''kcfg.'' @ clusterName))) (\<lambda>kcfgPath.
       let path = (case kcfgPath of Inl _ \<Rightarrow> [] | Inr p \<Rightarrow> p); content = (case kcfg of Inl _ \<Rightarrow> [] | Inr k \<Rightarrow> k)
       in abind (changes (EvCapiWrite path content) (cp_OverwriteFile cp path content)) (\<lambda>_.
            aret (path, go_join helpMessages [CHR 10], True)))))"

section \<open>Staging\<close>

text \<open>
  The graph of the cluster, with its control plane patched, and whether the minor version of Kubernetes changes.  \<open>described\<close> is how the
  driver names a control plane without a version.
\<close>

definition with_object :: "nat \<Rightarrow> kobject \<Rightarrow> ClusterGraph \<Rightarrow> ClusterGraph" where
  "with_object p ob g = g\<lparr>cg_nodes := (cg_nodes g)[p := (node_at g p)\<lparr>gn_Object := ob\<rparr>]\<rparr>"

definition staged_graph ::
  "('s, 'c, 'h, 'k, 'x) capi_env \<Rightarrow> (kobject \<Rightarrow> string) \<Rightarrow> string \<Rightarrow> ('s, (kobject \<times> ClusterGraph \<times> bool) outcome) cad_act" where
  "staged_graph cp described version =
     abind driver (\<lambda>cad. let kc = cad_BootstrapKubeConfig cad in
     abind (kube_client cp kc) (\<lambda>_.
     pbind (use_template cp) (\<lambda>_.
     abind driver (\<lambda>cad.
     abind (alift (GetClusterObject (cp_ol cp) (cad_ClusterResources cad))) (\<lambda>clusterObj.
     abind (in_res (GetClusterGraph (cp_rc cp kc) (cp_ol cp) (GetNamespace clusterObj) (GetName clusterObj))) (\<lambda>g.
       let kcp = object_at g (cg_ControlPlane g)
       in abind (alift (nested_string kcp ControlPlaneVersion)) (\<lambda>(currentKubeVersion, found).
          if \<not> found then afail (described kcp @ '' '' @ GetName kcp @ '' in '' @ GetNamespace kcp @ '' does not have a version'')
          else abind (in_res (PatchControlPlane (cp_ol cp) (cp_rc cp kc) kc kcp)) (\<lambda>kcp.
               abind (alift (CompareKubernetesVersions currentKubeVersion version)) (\<lambda>minorVersionCmp.
                 pret (clusterObj, with_object (cg_ControlPlane g) kcp g, minorVersionCmp \<noteq> 0))))))))))"

text \<open>A copy of a machine template with its number counted up and another image; what the server made of it.\<close>

definition new_template ::
  "('s, 'c, 'h, 'k, 'x) capi_env \<Rightarrow> string \<Rightarrow> string list \<Rightarrow> string \<Rightarrow> kobject \<Rightarrow> ('s, res_event, kobject) act" where
  "new_template cp kc path v ob =
     abind (alift (set_nested_field (SetName (IncrementCount (GetName ob) ''-'') ob) (GStr v) path)) (CreateResource (cp_rc cp kc) kc)"

primrec new_templates ::
  "('s, 'c, 'h, 'k, 'x) capi_env \<Rightarrow> string \<Rightarrow> string list \<Rightarrow> string \<Rightarrow> ClusterGraph \<Rightarrow> nat list \<Rightarrow> (nat \<times> kobject) list \<Rightarrow> ('s, res_event, (nat \<times> kobject) list) act" where
  "new_templates cp kc path v g [] updated = aret updated"
| "new_templates cp kc path v g (mtNode # mtNodes) updated =
     abind (new_template cp kc path v (object_at g mtNode)) (\<lambda>mt. new_templates cp kc path v g mtNodes (AList.update mtNode mt updated))"

definition patch_command :: "string \<Rightarrow> string \<Rightarrow> kobject \<Rightarrow> string \<Rightarrow> string" where
  "patch_command kind resource ob patches =
     ''To update '' @ kind @ '' '' @ GetName ob @ '' in '' @ GetNamespace ob @ '', run:'' @ CHR 10 # ''    kubectl patch -n '' @ GetNamespace ob @ '' ''
       @ resource @ '' '' @ GetName ob @ '' --type=json -p='' @ quote # patches @ [quote, CHR 10]"

definition kcp_command :: "('s, 'c, 'h, 'k, 'x) capi_env \<Rightarrow> kobject \<Rightarrow> JsonPatches \<Rightarrow> string" where
  "kcp_command cp ob patches = patch_command ''KubeadmControlPlane'' ''kubeadmcontrolplane'' ob (patches_String (cp_MarshalPatches cp) patches)"

definition MachineDeploymentVersion :: "string list" where "MachineDeploymentVersion = [''spec'', ''template'', ''spec'', ''version'']"

definition md_command :: "('s, 'c, 'h, 'k, 'x) capi_env \<Rightarrow> string \<Rightarrow> kobject \<Rightarrow> kobject \<Rightarrow> string result" where
  "md_command cp version umt ob =
     rbind (GetKubernetesVersions version) (\<lambda>kubeVersions.
       let patches = patch_Replace (MachineDeploymentInfrastructureRef @ [''name'']) (GStr (GetName umt))
                       (patch_Replace MachineDeploymentVersion (GStr (kv_Kubernetes kubeVersions)) [])
       in Inr (patch_command ''MachineDeployment'' ''machinedeployment'' ob (patches_String (cp_MarshalPatches cp) patches)))"

end
