(* ===== verification/Olvm_Driver.thy ===== *)
theory Olvm_Driver
  imports Capi_Driver Ignition_Library
begin

text \<open>
  The driver for clusters on oVirt (\<^verbatim>\<open>pkg/cluster/driver/olvm\<close>): checking its configuration, the applications it installs, starting, staging
  and deleting a cluster.
\<close>

section \<open>Credentials\<close>

definition getCreds :: "(string \<Rightarrow> string) \<Rightarrow> (string \<times> string) list result" where
  "getCreds getenv =
     (let missing = (\<lambda>var what. ''Missing environment variable '' @ var @ '' used to specify OLVM '' @ what);
          username = getenv ''OCNE_OLVM_USERNAME''; password = getenv ''OCNE_OLVM_PASSWORD''; scope = getenv ''OCNE_OLVM_SCOPE''
      in if username = [] then Inl (missing ''OCNE_OLVM_USERNAME'' ''username'')
         else if password = [] then Inl (missing ''OCNE_OLVM_PASSWORD'' ''password'')
         else if scope = [] then Inl (missing ''OCNE_OLVM_SCOPE'' ''username'')
         else Inr [(''username'', username), (''password'', password), (''scope'', scope)])"

definition caCrtBaseKey :: string where "caCrtBaseKey = ''ca.crt''"

text \<open>The key of the first file has no number; \<open>i\<close> is the index of the next file.\<close>

primrec ca_files ::
  "('s, 'c, 'h, 'k, 'x) capi_env \<Rightarrow> string list \<Rightarrow> nat \<Rightarrow> string \<Rightarrow> (string \<times> string) list \<Rightarrow> ('s, 'e, (string \<times> string) list) act" where
  "ca_files cp [] i baseKey caMap = aret caMap"
| "ca_files cp (caFile # caFiles) i baseKey caMap =
     abind (alift (cp_AbsDir cp (trim_space caFile))) (\<lambda>f.
     atry (ask (by_ReadFile (cp_by cp) f)) (\<lambda>r. case r of
         Inl err \<Rightarrow> afail (''Error reading OLVM Provider oVirt CA file: '' @ err)
       | Inr by \<Rightarrow> ca_files cp caFiles (i + 1) (caCrtBaseKey @ format_nat (i + 1)) (AList.update baseKey by caMap)))"

definition GetCAMap :: "('s, 'c, 'h, 'k, 'x) capi_env \<Rightarrow> OlvmProvider \<Rightarrow> ('s, 'e, (string \<times> string) list) act" where
  "GetCAMap cp prov =
     (let api = olvm_OlvmAPIServer prov
      in if api_ServerCA api \<noteq> [] \<and> api_ServerCAPath api \<noteq> []
         then afail ''The OLVM Provider cannot specify both ovirtApiCA and ovirtApiCAPath''
         else if api_ServerCA api \<noteq> [] then aret [(caCrtBaseKey, api_ServerCA api)]
         else if api_ServerCAPath api \<noteq> [] then ca_files cp (go_split (api_ServerCAPath api) '','') 0 caCrtBaseKey []
         else aret [])"

section \<open>The configuration\<close>

definition required :: "string \<Rightarrow> string \<Rightarrow> unit result" where
  "required v param = (if v = [] then Inl (''The configuration parameter '' @ param @ '' is required'') else Inr ())"

definition both :: "unit result \<Rightarrow> unit result \<Rightarrow> unit result" where "both a b = rbind a (\<lambda>_. b)"

definition validateIpV4 :: "OlvmIPV4 \<Rightarrow> string \<Rightarrow> unit result" where
  "validateIpV4 ipv4 basePath = both (required (v4_IpAddresses ipv4) (basePath @ ''.ipAddresses'')) (required (v4_Subnet ipv4) (basePath @ ''.subnet''))"

definition validateVirtualMachineNetwork :: "OlvmVirtualMachineNetwork \<Rightarrow> string \<Rightarrow> unit result" where
  "validateVirtualMachineNetwork vmn basePath = validateIpV4 (vn_IPV4 vmn) (basePath @ ''.ipv4'')"

definition validateVirtualMachine :: "OlvmVirtualMachine \<Rightarrow> string \<Rightarrow> unit result" where
  "validateVirtualMachine vm basePath = validateVirtualMachineNetwork (vm_Network vm) (basePath @ ''.network'')"

definition validateNetwork :: "OlvmNetwork \<Rightarrow> string \<Rightarrow> unit result" where
  "validateNetwork network basePath =
     both (required (on_NetworkName network) (basePath @ ''.networkName'')) (required (on_VnicProfileName network) (basePath @ ''.vnicProfileName''))"

definition validateMachine :: "OlvmMachine \<Rightarrow> string \<Rightarrow> unit result" where
  "validateMachine machine basePath =
     both (required (om_OlvmOvirtClusterName machine) (basePath @ ''.olvmOvirtClusterName''))
    (both (required (om_VMTemplateName machine) (basePath @ ''.vmTemplateName''))
    (both (validateNetwork (om_OlvmNetwork machine) (basePath @ ''.olvmNetwork''))
          (validateVirtualMachine (om_VirtualMachine machine) (basePath @ ''.virtualMachine''))))"

definition at_least_one :: "ClusterConfig \<Rightarrow> ClusterConfig" where
  "at_least_one cc =
     (let cc = (if clu_WorkerNodes cc = 0 then cc\<lparr>clu_WorkerNodes := 1\<rparr> else cc)
      in if clu_ControlPlaneNodes cc = 0 then cc\<lparr>clu_ControlPlaneNodes := 1\<rparr> else cc)"

text \<open>The configuration as it is afterwards.\<close>

definition validateConfig :: "ClusterConfig \<Rightarrow> ClusterConfig result" where
  "validateConfig clusterConfig =
     (let cc = at_least_one clusterConfig; provider = prv_Olvm (clu_Providers cc)
      in rbind (both (required (olvm_DatacenterName provider) ''providers.olvm.olvmDatacenterName'')
               (both (required (api_ServerURL (olvm_OlvmAPIServer provider)) ''providers.olvm.olvmOvirtAPIServer.serverURL'')
               (both (validateMachine (olvm_ControlPlaneMachine provider) ''providers.olvm.controlPlaneMachine'')
                     (validateMachine (olvm_WorkerMachine provider) ''providers.olvm.workerMachine'')))) (\<lambda>_. Inr cc))"

section \<open>Applications\<close>

definition chart_app :: "('s \<Rightarrow> unit result \<times> 's) option \<Rightarrow> string \<Rightarrow> string \<Rightarrow> string \<Rightarrow> string \<Rightarrow> gval \<Rightarrow> 's ApplicationDescription" where
  "chart_app pre chart ns release version config = \<lparr>ad_PreInstall = pre, ad_Force = False,
     ad_Application = \<lparr>app_Name = chart, app_Release = release, app_Version = version, app_Catalog = InternalCatalog,
        app_Namespace = ns, app_Config = config, app_ConfigFrom = []\<rparr>\<rparr>"

definition capi_apps :: "(string \<rightharpoonup> gval) \<Rightarrow> 's ApplicationDescription \<Rightarrow> 's ApplicationDescription list" where
  "capi_apps proxyValues provider =
     (let proxied = GMap [''proxy'' \<mapsto> GMap proxyValues]
      in [chart_app None ''cert-manager'' ''cert-manager'' ''cert-manager'' [] GNil,
          chart_app None ''core-capi'' CoreCAPINamespace ''core-capi'' [] proxied,
          provider,
          chart_app None ''bootstrap-capi'' KubeadmBootstrapCAPINamespace ''bootstrap-capi'' [] proxied,
          chart_app None ''control-plane-capi'' KubeadmControlPlaneCAPINamespace ''control-plane-capi'' [] proxied])"

text \<open>Only the first of the three proxies is that of oVirt.\<close>

definition olvm_proxies :: "ClusterConfig \<Rightarrow> (string \<rightharpoonup> gval)" where
  "olvm_proxies cc =
     (let pv = clu_Providers cc
      in [''httpsProxy'' \<mapsto> GStr (proxy_HttpsProxy (olvm_Proxy (prv_Olvm pv))), ''httpProxy'' \<mapsto> GStr (proxy_HttpProxy (oci_Proxy (prv_Oci pv))),
          ''noProxy'' \<mapsto> GStr (proxy_NoProxy (oci_Proxy (prv_Oci pv)))])"

definition olvm_getApplications :: "ClusterConfig \<Rightarrow> 's ApplicationDescription list" where
  "olvm_getApplications cc =
     capi_apps (olvm_proxies cc)
       (chart_app None ''olvm-capi'' ''cluster-api-provider-olvm'' ''olvm-capi'' [] (GMap [''proxy'' \<mapsto> GMap (olvm_proxies cc)]))"

text \<open>Each setting goes to its place in the values of the chart.\<close>

definition set_at :: "bool \<Rightarrow> string \<Rightarrow> string \<Rightarrow> gval \<Rightarrow> (string \<rightharpoonup> gval) outcome \<Rightarrow> (string \<rightharpoonup> gval) outcome" where
  "set_at cond path k v m = (if cond then obind m (EnsureNestedMap path (\<lambda>inner. inner(k \<mapsto> v))) else m)"

definition getOvirtCsiOverrides :: "OlvmProvider \<Rightarrow> (string \<rightharpoonup> gval) outcome" where
  "getOvirtCsiOverrides ov =
     (let api = olvm_OlvmAPIServer ov; csi = olvm_CSIDriver ov; insecure = api_InsecureSkipTLSVerify api;
          m = Returns Map.empty;
          m = set_at (\<not> insecure \<and> (api_ServerCA api \<noteq> [] \<or> api_ServerCAPath api \<noteq> [])) ''ovirt'' ''caProvided'' (GBool True) m;
          m = set_at (csi_ConfigMapName csi \<noteq> []) ''ovirt'' ''caConfigMapName'' (GStr (csi_ConfigMapName csi)) m;
          m = set_at (csi_ControllerPluginName csi \<noteq> []) ''csiController.ovirtController'' ''name'' (GStr (csi_ControllerPluginName csi)) m;
          m = set_at (csi_CsiDriverName csi \<noteq> []) ''driver'' ''name'' (GStr (csi_CsiDriverName csi)) m;
          m = set_at (csi_NodePluginName csi \<noteq> []) ''csiNode.ovirtNode'' ''name'' (GStr (csi_NodePluginName csi)) m;
          m = set_at (csi_SecretName csi \<noteq> []) ''ovirt'' ''secretName'' (GStr (csi_SecretName csi)) m;
          m = set_at insecure ''ovirt'' ''insecure'' (GBool insecure) m
      in set_at insecure ''ovirt'' ''caProvided'' (GBool False) m)"

text \<open>
  What is made for the chart of the CSI driver before it is installed.  Whether the old secret and config map could be deleted is not looked at,
  nor whether the new config map could be made.
\<close>

definition csi_pre_install ::
  "('s, 'c, 'h, 'k, 'x) capi_env \<Rightarrow> string \<Rightarrow> OlvmProvider \<Rightarrow> (string \<times> string) list \<Rightarrow> ('s, capi_event, unit) act" where
  "csi_pre_install cp kc ov credmap =
     (let csi = olvm_CSIDriver ov; ns = csi_Namespace csi; kube = with_events (EvCapiKube kc)
      in atry (DeleteSecret cp kc ns (csi_SecretName csi)) (\<lambda>_.
         abind (CreateSecret cp kc ns (csi_SecretName csi) credmap) (\<lambda>_.
           if api_InsecureSkipTLSVerify (olvm_OlvmAPIServer ov) then aret ()
           else abind (GetCAMap cp ov) (\<lambda>caMap.
                atry (kube (DeleteConfigmap (cad_ka cp kc) ns (csi_ConfigMapName csi))) (\<lambda>_.
                  if caMap = [] then aret ()
                  else atry (kube (CreateConfigMapWithData (cad_ka cp kc) ns (csi_ConfigMapName csi) caMap)) (\<lambda>_. aret ()))))))"

definition olvm_getWorkloadClusterApplications ::
  "('s, 'c, 'h, 'k, 'x) capi_env \<Rightarrow> string \<Rightarrow> ClusterConfig \<Rightarrow> 's ApplicationDescription list result outcome" where
  "olvm_getWorkloadClusterApplications cp kc cc =
     (let ov = prv_Olvm (clu_Providers cc); csi = olvm_CSIDriver ov
      in if \<not> csi_Install csi then Returns (Inr [])
         else case getCreds (cp_Getenv cp) of
                Inl err \<Rightarrow> Returns (Inl err)
              | Inr creds \<Rightarrow> (case cp_ApiURL cp (api_ServerURL (olvm_OlvmAPIServer ov)) of
                  Inl err \<Rightarrow> Returns (Inl err)
                | Inr url \<Rightarrow>
                    let credmap = [(''ovirt_username'', the (map_of creds ''username'')), (''ovirt_password'', the (map_of creds ''password'')),
                                   (''ovirt_url'', url)]
                    in obind (getOvirtCsiOverrides ov) (\<lambda>chartOverrides.
                         Returns (Inr [chart_app (Some (quietly (csi_pre_install cp kc ov credmap))) ''ovirt-csi-driver'' (csi_Namespace csi)
                                         ''ovirt-csi-driver'' [] (GMap chartOverrides)]))))"

section \<open>Making the driver\<close>

text \<open>The resources in the configuration, and whether they have to be made from a template.\<close>

definition configured_resources :: "('s, 'c, 'h, 'k, 'x) capi_env \<Rightarrow> ClusterConfig \<Rightarrow> ('s, 'e, string \<times> bool) act" where
  "configured_resources cp clusterConfig =
     (let cd = clu_ClusterDefinition clusterConfig; cdi = clu_ClusterDefinitionInline clusterConfig
      in if cd \<noteq> [] \<and> cdi \<noteq> [] then afail ''cluster configuration has file-based and inline resources''
         else if cd = [] \<and> cdi = [] then aret ([], True)
         else if cd \<noteq> []
         then abind (alift (if has_prefix cd ''/'' then Inr cd else by_AbsJoin (cp_by cp) (clu_WorkingDirectory clusterConfig) cd)) (\<lambda>cd.
              abind (ask (by_ReadFile (cp_by cp) cd)) (\<lambda>cdi. aret (cdi, False)))
         else aret (cdi, False))"

definition new_driver :: "Config \<Rightarrow> ClusterConfig \<Rightarrow> string \<Rightarrow> bool \<Rightarrow> string \<Rightarrow> bool \<Rightarrow> string \<Rightarrow> CapiDriver" where
  "new_driver config clusterConfig resources doTemplate bootstrapKubeConfig isEphemeral kubeConfig =
     \<lparr>cad_Ephemeral = isEphemeral, cad_BootstrapKubeConfig = bootstrapKubeConfig, cad_KubeConfig = kubeConfig, cad_Config = config,
      cad_ClusterConfig = clusterConfig, cad_ClusterResources = resources, cad_ResourceNamespace = [], cad_FromTemplate = doTemplate,
      cad_Deleted = False\<rparr>"

definition installs_on :: "('s, 'c, 'h, 'k, 'x) capi_env \<Rightarrow> string \<Rightarrow> 's ApplicationDescription list \<Rightarrow> ('s, capi_event, unit) act" where
  "installs_on cp kc apps = with_events (EvCapiKube kc) (InstallApplications (cad_ka cp kc) (cad_ha cp kc) apps)"

definition OLVMCAPIOperatorNamespace :: string where "OLVMCAPIOperatorNamespace = ''cluster-api-provider-olvm''"
definition OLVMCAPIDeployment :: string where "OLVMCAPIDeployment = ''olvm-capi-controller-manager''"
definition OLVMCAPIRelease :: string where "OLVMCAPIRelease = ''olvm-capi''"

definition olvm_waitForControllers :: "('s, 'c, 'h, 'k, 'x) capi_env \<Rightarrow> string \<Rightarrow> ('s, 'e, unit) act" where
  "olvm_waitForControllers cp = waitForControllers cp OLVMCAPIOperatorNamespace OLVMCAPIDeployment"

definition olvm_CreateDriver :: "('s, 'c, 'h, 'k, 'x) capi_env \<Rightarrow> Config \<Rightarrow> ClusterConfig \<Rightarrow> ('s, capi_event, CapiDriver) act" where
  "olvm_CreateDriver cp config clusterConfig =
     abind (configured_resources cp clusterConfig) (\<lambda>(cdi, doTemplate).
     abind (alift (validateConfig clusterConfig)) (\<lambda>cc.
     abind (EnsureCluster cp (cfg_KubeConfig config) config cc) (\<lambda>(boot, isEphemeral, config).
     abind (ask (ae_GetKubeClient (by_ae (cp_by cp)) boot)) (\<lambda>_.
     abind (installs_on cp boot (olvm_getApplications cc)) (\<lambda>_.
     abind (olvm_waitForControllers cp boot) (\<lambda>_.
     abind (ask (GetKubeconfigPath (cp_by cp) (''kubeconfig.'' @ clu_Name cc))) (\<lambda>kubeConfig.
       aret (new_driver config cc cdi doTemplate boot isEphemeral kubeConfig))))))))"

section \<open>Starting\<close>

definition createRequiredResources :: "('s, 'c, 'h, 'k, 'x) capi_env \<Rightarrow> string \<Rightarrow> ClusterConfig \<Rightarrow> ('s, capi_event, unit) act" where
  "createRequiredResources cp kc cc =
     (let secret = CredSecretNsn cc; cm = CaConfigMapNsn cc; kube = with_events (EvCapiKube kc)
      in abind (alift (getCreds (cp_Getenv cp))) (\<lambda>credmap.
         atry (DeleteSecret cp kc (nn_Namespace secret) (nn_Name secret)) (\<lambda>_.
         abind (CreateSecret cp kc (nn_Namespace secret) (nn_Name secret) credmap) (\<lambda>_.
           if api_InsecureSkipTLSVerify (olvm_OlvmAPIServer (prv_Olvm (clu_Providers cc))) then aret ()
           else abind (GetCAMap cp (prv_Olvm (clu_Providers cc))) (\<lambda>caMap.
                atry (kube (DeleteConfigmap (cad_ka cp kc) (nn_Namespace cm) (nn_Name cm))) (\<lambda>_.
                  if caMap = [] then aret ()
                  else kube (CreateConfigMapWithData (cad_ka cp kc) (nn_Namespace cm) (nn_Name cm) caMap)))))))"

text \<open>A client that cannot be made for the new cluster is used all the same, and panics.\<close>

definition wait_for_nodes :: "('s, 'c, 'h, 'k, 'x) capi_env \<Rightarrow> string \<Rightarrow> ('s, unit outcome) cad_act" where
  "wait_for_nodes cp kc =
     atry (kube_client cp kc) (\<lambda>r. case r of
         Inl _ \<Rightarrow> aret Panics
       | Inr _ \<Rightarrow> abind (in_res (wait_for (WaitUntilGetNodesSucceeds (ka_node (cad_ka cp kc))))) (\<lambda>_. pret ()))"

definition cluster_label :: "('s, 'c, 'h, 'k, 'x) capi_env \<Rightarrow> kobject \<Rightarrow> string" where
  "cluster_label cp clusterObj = (case GetLabels (cp_ol cp) clusterObj ClusterNameLabel of None \<Rightarrow> [] | Some v \<Rightarrow> v)"

definition install_workload :: "('s, 'c, 'h, 'k, 'x) capi_env \<Rightarrow> ('s, (bool \<times> bool) outcome) cad_act" where
  "install_workload cp =
     abind driver (\<lambda>cad.
       panic_or (olvm_getWorkloadClusterApplications cp (cad_KubeConfig cad) (cad_ClusterConfig cad)) (\<lambda>workloadApps.
         abind (in_cad (installs_on cp (cad_KubeConfig cad) workloadApps)) (\<lambda>_. pret (False, False))))"

definition olvm_Start :: "('s, 'c, 'h, 'k, 'x) capi_env \<Rightarrow> ('s, (bool \<times> bool) outcome) cad_act" where
  "olvm_Start cp =
     pbind (use_template cp) (\<lambda>_.
     abind driver (\<lambda>cad. let kc = cad_BootstrapKubeConfig cad in
     abind (alift (ValidateClusterResources (cad_ClusterResources cad))) (\<lambda>_.
     abind (alift (GetClusterObject (cp_ol cp) (cad_ClusterResources cad))) (\<lambda>clusterObj. let ns = GetNamespace clusterObj in
     abind (set_driver (\<lambda>cad. cad\<lparr>cad_ResourceNamespace := ns\<rparr>)) (\<lambda>_.
     abind (kube_client cp kc) (\<lambda>_.
     abind (in_kube kc (CreateNamespaceIfNotExists (cad_ka cp kc) ns)) (\<lambda>_.
     abind (in_cad (createRequiredResources cp kc (cad_ClusterConfig cad))) (\<lambda>_.
     abind (follow_controller cp OLVMCAPIRelease OLVMCAPIOperatorNamespace kc) (\<lambda>_.
     abind (in_res (applyResources cp kc (cad_ClusterResources cad))) (\<lambda>_.
     abind (in_res (shown_kubeconfig cp kc ns (cluster_label cp clusterObj))) (\<lambda>kubeconfig.
     abind (changes (EvCapiWrite (cad_KubeConfig cad) kubeconfig) (cp_WriteFile cp (cad_KubeConfig cad) kubeconfig)) (\<lambda>_.
     pbind (wait_for_nodes cp (cad_KubeConfig cad)) (\<lambda>_. install_workload cp)))))))))))))"

definition ha_monitor :: "CapiDriver \<Rightarrow> 's ApplicationDescription" where
  "ha_monitor cad = chart_app None ''ocne-ha-monitor'' ''ocne-system'' ''ha-config'' ''2.0.0''
     (GMap [''apiAddress'' \<mapsto> GStr (clu_VirtualIp (cad_ClusterConfig cad)),
            ''apiPort'' \<mapsto> GInt (uint (cfg_KubeAPIServerBindPort (cad_Config cad)))])"

text \<open>If the client that moves resources cannot be made, nothing is moved and there is no error.\<close>

definition move_resources :: "('s, 'c, 'h, 'k, 'x) capi_env \<Rightarrow> string \<Rightarrow> string \<Rightarrow> string \<Rightarrow> ('s, unit) cad_act" where
  "move_resources cp from_kc to_kc ns =
     atry (world (cp_NewClusterctl cp)) (\<lambda>r. case r of
         Inl _ \<Rightarrow> aret ()
       | Inr _ \<Rightarrow> changes (EvMove from_kc to_kc ns) (cp_Move cp from_kc to_kc ns))"

definition olvm_PostStart :: "('s, 'c, 'h, 'k, 'x) capi_env \<Rightarrow> ('s, unit) cad_act" where
  "olvm_PostStart cp =
     abind driver (\<lambda>cad. let kc = cad_KubeConfig cad; cc = cad_ClusterConfig cad in
     abind (if clu_VirtualIp cc \<noteq> [] then in_cad (installs_on cp kc [ha_monitor cad]) else aret ()) (\<lambda>_.
       if \<not> olvm_SelfManaged (prv_Olvm (clu_Providers cc)) then aret ()
       else abind (kube_client cp kc) (\<lambda>_.
            abind (in_cad (installs_on cp kc (olvm_getApplications cc))) (\<lambda>_.
            abind (in_res (olvm_waitForControllers cp kc)) (\<lambda>_.
              move_resources cp (cad_BootstrapKubeConfig cad) kc (cad_ResourceNamespace cad))))))"

section \<open>Deleting\<close>

text \<open>
  Whether the resources are moved back depends on the setting of another provider.  If the client that moves them cannot be made, the deletion ends
  here without an error: the flag says which.
\<close>

definition move_back :: "('s, 'c, 'h, 'k, 'x) capi_env \<Rightarrow> ('s, bool) cad_act" where
  "move_back cp =
     abind driver (\<lambda>cad.
       if \<not> oci_SelfManaged (prv_Oci (clu_Providers (cad_ClusterConfig cad))) then aret True
       else atry (world (cp_NewClusterctl cp)) (\<lambda>r. case r of
              Inl _ \<Rightarrow> aret False
            | Inr _ \<Rightarrow> let fr = cad_KubeConfig cad; to = cad_BootstrapKubeConfig cad; ns = cad_ResourceNamespace cad
                        in abind (changes (EvMove fr to ns) (cp_Move cp fr to ns)) (\<lambda>_. aret True)))"

definition delete_credentials :: "('s, 'c, 'h, 'k, 'x) capi_env \<Rightarrow> string \<Rightarrow> ClusterConfig \<Rightarrow> ('s, unit) cad_act" where
  "delete_credentials cp kc cc =
     (let secret = CredSecretNsn cc; cm = CaConfigMapNsn cc
      in atry (in_cad (DeleteSecret cp kc (nn_Namespace secret) (nn_Name secret))) (\<lambda>r. case r of
           Inl err \<Rightarrow> afail (''Error deleting oVirt credential secret '' @ nn_Namespace secret @ ''/'' @ nn_Name secret @ '': '' @ err)
         | Inr _ \<Rightarrow> atry (in_kube kc (DeleteConfigmap (cad_ka cp kc) (nn_Namespace cm) (nn_Name cm))) (\<lambda>r. case r of
             Inl err \<Rightarrow> afail (''Error deleting oVirt CA configmap '' @ nn_Namespace cm @ ''/'' @ nn_Name cm @ '': '' @ err)
           | Inr _ \<Rightarrow> aret ())))"

definition olvm_Delete :: "('s, 'c, 'h, 'k, 'x) capi_env \<Rightarrow> ('s, unit outcome) cad_act" where
  "olvm_Delete cp =
     abind (set_driver (\<lambda>cad. cad\<lparr>cad_Deleted := True\<rparr>)) (\<lambda>_.
     pbind (use_template cp) (\<lambda>_.
     abind driver (\<lambda>cad. let kc = cad_BootstrapKubeConfig cad in
     abind (alift (GetClusterObject (cp_ol cp) (cad_ClusterResources cad))) (\<lambda>clusterObj. let ns = GetNamespace clusterObj in
     abind (set_driver (\<lambda>cad. cad\<lparr>cad_ResourceNamespace := ns\<rparr>)) (\<lambda>_.
     abind (move_back cp) (\<lambda>go.
       if \<not> go then pret ()
       else abind (in_res (deleteCluster cp kc (GetName clusterObj) ns)) (\<lambda>_.
            atry (changes (EvCapiRemove (cad_KubeConfig cad)) (keep (by_Remove (cp_by cp) (cad_KubeConfig cad)))) (\<lambda>_.
            abind (kube_client cp kc) (\<lambda>_.
            abind (delete_credentials cp kc (cad_ClusterConfig cad)) pret)))))))))"

definition olvm_Close :: "('s, 'c, 'h, 'k, 'x) capi_env \<Rightarrow> ('s, unit) cad_act" where
  "olvm_Close cp =
     abind driver (\<lambda>cad.
       if cad_Deleted cad then aret ()
       else if cad_Ephemeral cad \<and> oci_SelfManaged (prv_Oci (clu_Providers (cad_ClusterConfig cad))) then close_ephemeral cp
       else aret ())"

section \<open>Staging\<close>

record TemplateData =
  td_HasUpdate :: bool
  td_NewTemplate :: string
  td_MachineTemplates :: "nat list"

definition vmTemplateName :: "string list" where "vmTemplateName = [''spec'', ''template'', ''spec'', ''vmTemplateName'']"

definition templateNameFromMachineTemplate :: "kobject \<Rightarrow> string result" where
  "templateNameFromMachineTemplate mt =
     (case nested_string mt vmTemplateName of
        Inr (templateName, True) \<Rightarrow> Inr templateName
      | _ \<Rightarrow> Inl (''OLVMMachineTemplate '' @ GetName mt @ '' in '' @ GetNamespace mt @ '' has no vmTemplateName''))"

text \<open>The name of a machine template tells whether it is for control plane nodes.\<close>

definition hasUpdate :: "kobject \<Rightarrow> string \<Rightarrow> OlvmProvider \<Rightarrow> bool \<times> string \<times> bool" where
  "hasUpdate node templateName provider =
     (let controlPlaneNode = go_contains (GetName node) ''control-plane'';
          newTemplateName = om_VMTemplateName ((if controlPlaneNode then olvm_ControlPlaneMachine else olvm_WorkerMachine) provider)
      in if newTemplateName \<noteq> [] then (newTemplateName \<noteq> templateName, newTemplateName, controlPlaneNode) else (False, [], controlPlaneNode))"

definition bool_text :: "bool \<Rightarrow> string" where "bool_text b = (if b then ''true'' else ''false'')"

text \<open>Templates are collected under the name of their image and their role; what the first one says about an update holds for all.\<close>

definition add_template_data :: "kobject \<Rightarrow> nat \<Rightarrow> OlvmProvider \<Rightarrow> TemplateData gomap \<Rightarrow> TemplateData gomap result" where
  "add_template_data mt mtNode provider retVal =
     rbind (templateNameFromMachineTemplate mt) (\<lambda>template.
       case hasUpdate mt template provider of (update, newTemplate, cpNode) \<Rightarrow>
         let key = template @ ''-'' @ bool_text cpNode
         in Inr (case map_of retVal key of
                   None \<Rightarrow> AList.update key \<lparr>td_HasUpdate = update, td_NewTemplate = newTemplate, td_MachineTemplates = [mtNode]\<rparr> retVal
                 | Some imgData \<Rightarrow> AList.update key (imgData\<lparr>td_MachineTemplates := td_MachineTemplates imgData @ [mtNode]\<rparr>) retVal))"

definition graphToVMTemplates :: "('s, 'c, 'h, 'k, 'x) capi_env \<Rightarrow> OlvmProvider \<Rightarrow> ClusterGraph \<Rightarrow> ('w, 'e, TemplateData gomap outcome) act" where
  "graphToVMTemplates cp provider g =
     WalkMachineTemplates (cp_order cp) g (\<lambda>parent mtNode retVal.
       abind (alift (add_template_data (object_at g mtNode) mtNode provider retVal)) pret) []"

definition copy_unit :: "string \<Rightarrow> string \<Rightarrow> IgnUnit" where
  "copy_unit name contents = zero_IgnUnit\<lparr>unit_Name := name, unit_Contents := Some contents\<rparr>"

definition control_plane_removals :: "IgnConfig \<Rightarrow> IgnitionUpdates" where
  "control_plane_removals ignUpdates =
     \<lparr>iu_Updates = ignUpdates,
      iu_FilesToRemove = [''/etc/ocne/keepalived-copy-kubeconfig.sh'', ''/etc/ocne/nginx-refresh/nginx-copy-kubeconfig.sh'',
        ''/etc/ocne/nginx-refresh/check_nginx.sh'', ''/etc/ocne/nginx-refresh/log'', ''/etc/polkit-1/rules.d/51-keepalived.rules'',
        ''/etc/polkit-1/rules.d/52-nginx.rules'', ''/etc/ocne/keepalived.conf.tmpl'', ''/etc/ocne/nginx/nginx.conf.tmpl'',
        ''/etc/keepalived/peers'', ''/etc/ocne/nginx-refresh/servers''],
      iu_DirectoriesToRemove = [''/etc/ocne/nginx-refresh''],
      iu_UsersToRemove = [],
      iu_UnitsToRemove = [KeepalivedServiceName \<mapsto> [''copy-kubeconfig.conf''], NginxServiceName \<mapsto> [''copy-kubeconfig.conf'']]\<rparr>"

definition control_plane_updates :: "data_url \<Rightarrow> string \<Rightarrow> int \<Rightarrow> IgnConfig result" where
  "control_plane_updates mk apiHost apiPort =
     rbind (AddFile mk (owned_file KeepAlivedCheckScriptPath (file_mode 7 5 5) (GenerateKeepalivedCheckScript (word_of_int apiPort) 6444 apiHost)
              KeepAlivedUser KeepAlivedGroup) NewIgnition) (\<lambda>ignUpdates.
       Inr (foldl AddUnit ignUpdates [copy_unit KeepalivedRefreshPathName GetKeepalivedRefreshPathUnit,
         copy_unit KeepalivedRefreshServiceName GetKeepalivedRefreshUnit, copy_unit NginxRefreshPathName GetNginxRefreshPathUnit,
         copy_unit NginxRefreshServiceName GetNginxRefreshUnit]))"

definition NestedInt64 :: "kobject \<Rightarrow> string list \<Rightarrow> int option result" where
  "NestedInt64 u path =
     rbind (nested_field (GMap u) path) (\<lambda>r. case r of
         None \<Rightarrow> Inr None
       | Some (GInt i) \<Rightarrow> Inr (Some i)
       | Some _ \<Rightarrow> Inl ''accessor error: not an int64'')"

definition ControlPlaneIgnition :: "string list" where
  "ControlPlaneIgnition = [''spec'', ''kubeadmConfigSpec'', ''ignition'', ''containerLinuxConfig'', ''additionalConfig'']"

definition controlPlaneIgnitionPatches :: "('s, 'c, 'h, 'k, 'x) capi_env \<Rightarrow> kobject \<Rightarrow> kobject \<Rightarrow> JsonPatches option result" where
  "controlPlaneIgnitionPatches cp kcp clusterObj =
     (let by = cp_by cp
      in rbind (nested_string clusterObj [''spec'', ''controlPlaneEndpoint'', ''host'']) (\<lambda>(apiHost, found).
         if \<not> found then Inl (''Could not find control plane endpoint in cluster '' @ GetName clusterObj)
         else rbind (NestedInt64 clusterObj [''spec'', ''controlPlaneEndpoint'', ''port'']) (\<lambda>r. case r of
              None \<Rightarrow> Inl (''Could not find control plane port in cluster '' @ GetName clusterObj)
            | Some apiPort \<Rightarrow> rbind (control_plane_updates (by_mk by) apiHost apiPort) (\<lambda>ignUpdates.
                UpdateIgnition (by_ip by) (by_Marshal by) kcp (control_plane_removals ignUpdates) ControlPlaneIgnition))))"

text \<open>The new templates, for the images that have an update, or all if the environment says so.\<close>

primrec olvm_new_templates ::
  "('s, 'c, 'h, 'k, 'x) capi_env \<Rightarrow> string \<Rightarrow> ClusterGraph \<Rightarrow> TemplateData list \<Rightarrow> (nat \<times> kobject) list \<Rightarrow> ('s, res_event, (nat \<times> kobject) list) act" where
  "olvm_new_templates cp kc g [] updated = aret updated"
| "olvm_new_templates cp kc g (img # imgs) updated =
     (if cp_Getenv cp ''OCNE_OLVM_STAGE_FORCE_TEMPLATES'' = [] \<and> \<not> td_HasUpdate img then olvm_new_templates cp kc g imgs updated
      else abind (new_templates cp kc vmTemplateName (td_NewTemplate img) g (td_MachineTemplates img) updated) (olvm_new_templates cp kc g imgs))"

text \<open>The patches of the ignition are merged before the error is looked at: with an error, there is nothing to merge them into.\<close>

definition kcp_help :: "('s, 'c, 'h, 'k, 'x) capi_env \<Rightarrow> string \<Rightarrow> kobject \<Rightarrow> kobject \<Rightarrow> JsonPatches option \<Rightarrow> string result outcome" where
  "kcp_help cp version kcp umt ignPatches =
     (case GetKubernetesVersions version of
        Inl err \<Rightarrow> Returns (Inl err)
      | Inr kubeVersions \<Rightarrow> (case GetControlPlanePatches (cp_ol cp) kcp (kv_Kubernetes kubeVersions) (GetName umt) of
          Inl err \<Rightarrow> if ignPatches \<noteq> None then Panics else Returns (Inl err)
        | Inr (patches, _) \<Rightarrow>
            Returns (Inr (kcp_command cp kcp (case ignPatches of None \<Rightarrow> patches | Some jp \<Rightarrow> patches_Merge patches jp)))))"

definition olvm_help ::
  "('s, 'c, 'h, 'k, 'x) capi_env \<Rightarrow> string \<Rightarrow> ClusterGraph \<Rightarrow> (nat \<times> kobject) list \<Rightarrow> nat \<Rightarrow> nat \<Rightarrow> string list \<Rightarrow> ('w, 'e, string list outcome) act" where
  "olvm_help cp version g updatedMts parent mtNode helpMessages =
     (let ob = object_at g parent; cpn = (parent = cg_ControlPlane g)
      in abind (alift (if cpn then controlPlaneIgnitionPatches cp ob (object_at g (cg_InfrastructureCluster g)) else Inr None)) (\<lambda>ignPatches.
         case map_of updatedMts mtNode of
           None \<Rightarrow> pret (case ignPatches of None \<Rightarrow> helpMessages | Some jp \<Rightarrow> helpMessages @ [kcp_command cp ob jp])
         | Some umt \<Rightarrow> panic_or (if cpn then kcp_help cp version ob umt ignPatches else Returns (md_command cp version umt ob)) (\<lambda>help.
             pret (helpMessages @ [help]))))"

definition in_order :: "('s, 'c, 'h, 'k, 'x) capi_env \<Rightarrow> 'v gomap \<Rightarrow> 'v list" where
  "in_order cp m = map (\<lambda>k. the (map_of m k)) (cp_order cp (map fst m))"

definition olvm_described :: "kobject \<Rightarrow> string" where "olvm_described kcp = gvk_text kcp @ ''/'' @ gvk_text kcp"

definition olvm_Stage :: "('s, 'c, 'h, 'k, 'x) capi_env \<Rightarrow> string \<Rightarrow> ('s, (string \<times> string \<times> bool) outcome) cad_act" where
  "olvm_Stage cp version =
     pbind (staged_graph cp olvm_described version) (\<lambda>(clusterObj, g, minorVersionChanged).
     abind driver (\<lambda>cad.
     pbind (graphToVMTemplates cp (prv_Olvm (clu_Providers (cad_ClusterConfig cad))) g) (\<lambda>vmTemplates.
     abind (in_res (olvm_new_templates cp (cad_BootstrapKubeConfig cad) g (in_order cp vmTemplates) [])) (\<lambda>updatedMts.
     pbind (WalkMachineTemplates (cp_order cp) g (olvm_help cp version g updatedMts) []) (\<lambda>helpMessages.
     abind (hand_back cp (cluster_label cp clusterObj) helpMessages) pret)))))"

section \<open>The driver as the commands see it\<close>

definition olvm_GetKubeconfigPath :: "CapiDriver \<Rightarrow> string" where "olvm_GetKubeconfigPath cad = cad_KubeConfig cad"
definition olvm_GetKubeAPIServerAddress :: "CapiDriver \<Rightarrow> string" where "olvm_GetKubeAPIServerAddress cad = clu_VirtualIp (cad_ClusterConfig cad)"
definition olvm_DefaultCNIInterfaces :: "CapiDriver \<Rightarrow> string list" where "olvm_DefaultCNIInterfaces cad = []"

definition olvm_PostInstallHelpStanza :: "CapiDriver \<Rightarrow> string" where
  "olvm_PostInstallHelpStanza cad = ''To access the cluster:'' @ CHR 10 # ''    use '' @ cad_KubeConfig cad"

definition olvm_Join :: "string \<Rightarrow> int \<Rightarrow> int \<Rightarrow> ('s, unit) cad_act" where
  "olvm_Join kubeconfigPath controlPlaneNodes workerNodes =
     afail ''Joining new nodes to this cluster is done by editing the KubeadmControlPlane and MachineDeployment resources in the management cluster''"

definition olvm_Stop :: "('s, unit) cad_act" where "olvm_Stop = afail ''OlvmDriver.Stop() is not implemented''"

end
