(* ===== verification/Oci_Driver.thy ===== *)
theory Oci_Driver
  imports Olvm_Driver
begin

text \<open>
  The driver for clusters in Oracle Cloud (\<^verbatim>\<open>pkg/cluster/driver/oci\<close>): its applications, the settings of the cloud controller, images of machines,
  starting, moving, staging and deleting a cluster.  Making an image (\<^verbatim>\<open>pkg/commands/image/create\<close>), looking at a container image and the YAML
  encoder are parameters.
\<close>

record ('s, 'c, 'h, 'k, 'x) oci_env =
  oe_cp :: "('s, 'c, 'h, 'k, 'x) capi_env"
  oe_MarshalYaml :: "gval \<Rightarrow> string result"
  oe_Create :: "Config \<Rightarrow> ClusterConfig \<Rightarrow> string \<Rightarrow> 's \<Rightarrow> unit result \<times> 's"
  oe_ImagesDir :: "'s \<Rightarrow> string result \<times> 's"
  oe_ImageCreated :: "string \<Rightarrow> string \<Rightarrow> 's \<Rightarrow> int result \<times> 's"

abbreviation oe_oa :: "('s, 'c, 'h, 'k, 'x) oci_env \<Rightarrow> 's oci_api" where "oe_oa oe \<equiv> uv_oa (cp_up (oe_cp oe))"
abbreviation oci_settings :: "ClusterConfig \<Rightarrow> OciProvider" where "oci_settings cc \<equiv> prv_Oci (clu_Providers cc)"

section \<open>Applications\<close>

definition OCICAPINamespace :: string where "OCICAPINamespace = ''cluster-api-provider-oci-system''"
definition OCICAPIDeployment :: string where "OCICAPIDeployment = ''capoci-controller-manager''"
definition OCICAPIRelease :: string where "OCICAPIRelease = ''capoci''"

definition oci_proxies :: "ClusterConfig \<Rightarrow> (string \<rightharpoonup> gval)" where
  "oci_proxies cc =
     (let p = oci_Proxy (oci_settings cc)
      in [''httpsProxy'' \<mapsto> GStr (proxy_HttpsProxy p), ''httpProxy'' \<mapsto> GStr (proxy_HttpProxy p), ''noProxy'' \<mapsto> GStr (proxy_NoProxy p)])"

definition auth_config :: "OciConfig \<Rightarrow> (string \<rightharpoonup> gval)" where
  "auth_config c = [''fingerprint'' \<mapsto> GStr (ocf_Fingerprint c), ''key'' \<mapsto> GStr (ocf_Key c), ''passphrase'' \<mapsto> GStr (ocf_Passphrase c),
     ''region'' \<mapsto> GStr (ocf_Region c), ''tenancy'' \<mapsto> GStr (ocf_Tenancy c), ''user'' \<mapsto> GStr (ocf_User c)]"

definition oci_getApplications :: "('s, 'c, 'h, 'k, 'x) oci_env \<Rightarrow> ClusterConfig \<Rightarrow> ('s, 'e, 's ApplicationDescription list outcome) act" where
  "oci_getApplications oe cc =
     pbind (GetConfig (oe_oa oe) (oci_Profile (oci_settings cc))) (\<lambda>ociConfig.
       pret (capi_apps (oci_proxies cc) (chart_app None ''oci-capi'' OCICAPINamespace OCICAPIRelease []
         (GMap [''authConfig'' \<mapsto> GMap ((auth_config ociConfig)(''useInstancePrincipal'' \<mapsto> GStr (bool_text (ocf_UseInstancePrincipal ociConfig)))),
                ''proxy'' \<mapsto> GMap (oci_proxies cc)]))))"

definition OciCcmNamespace :: string where "OciCcmNamespace = ''kube-system''"
definition OciCcmSecretName :: string where "OciCcmSecretName = ''oci-cloud-controller-manager''"
definition OciCcmCsiSecretName :: string where "OciCcmCsiSecretName = ''oci-volume-provisioner''"

definition auth_creds :: "OciConfig \<Rightarrow> string \<Rightarrow> OciProvider \<Rightarrow> gval" where
  "auth_creds c compartmentId p = GMap [
     ''auth'' \<mapsto> GMap ((auth_config c)(''useInstancePrincipals'' \<mapsto> GBool (ocf_UseInstancePrincipal c))),
     ''compartment'' \<mapsto> GStr compartmentId, ''vcn'' \<mapsto> GStr (oci_Vcn p),
     ''loadBalancer'' \<mapsto> GMap [''subnet1'' \<mapsto> GStr (lb_Subnet1 (oci_LoadBalancer p)), ''subnet2'' \<mapsto> GStr (lb_Subnet2 (oci_LoadBalancer p)),
       ''securityListManagementMode'' \<mapsto> GStr ''None'']]"

definition ccm_pre_install :: "('s, 'c, 'h, 'k, 'x) capi_env \<Rightarrow> string \<Rightarrow> string \<Rightarrow> ('s, capi_event, unit) act" where
  "ccm_pre_install cp kc authCredBytes =
     abind (CreateSecretIfNotExists cp kc OciCcmNamespace OciCcmSecretName [(''cloud-provider.yaml'', authCredBytes)]) (\<lambda>_.
       CreateSecretIfNotExists cp kc OciCcmNamespace OciCcmCsiSecretName [(''config.yaml'', authCredBytes)])"

definition oci_getWorkloadClusterApplications ::
  "('s, 'c, 'h, 'k, 'x) oci_env \<Rightarrow> string \<Rightarrow> ClusterConfig \<Rightarrow> ('s, 'e, 's ApplicationDescription list outcome) act" where
  "oci_getWorkloadClusterApplications oe kc cc =
     (let p = oci_settings cc
      in pbind (GetConfig (oe_oa oe) (oci_Profile p)) (\<lambda>ociConfig.
         abind (GetCompartmentId (oe_oa oe) (oci_Compartment p) (oci_Profile p)) (\<lambda>compartmentId.
         abind (alift (oe_MarshalYaml oe (auth_creds ociConfig compartmentId p))) (\<lambda>authCredBytes.
           pret [chart_app (Some (quietly (ccm_pre_install (oe_cp oe) kc authCredBytes))) ''oci-ccm'' OciCcmNamespace ''oci-ccm'' [] GNil]))))"

definition oci_waitForControllers :: "('s, 'c, 'h, 'k, 'x) capi_env \<Rightarrow> string \<Rightarrow> ('s, 'e, unit) act" where
  "oci_waitForControllers cp = waitForControllers cp OCICAPINamespace OCICAPIDeployment"

section \<open>The settings of the cloud controller\<close>

definition no_field :: "string \<Rightarrow> string \<Rightarrow> string \<Rightarrow> gerror" where
  "no_field ns name val = ''Cluster '' @ ns @ ''/'' @ name @ '' does not have a '' @ val @ '' field''"

definition odd_field :: "string \<Rightarrow> string \<Rightarrow> string \<Rightarrow> gerror" where
  "odd_field ns name val = ''Cluster '' @ ns @ ''/'' @ name @ '' field '' @ val @ '' has an unexpected format''"

definition getMapVal :: "(string \<rightharpoonup> gval) \<Rightarrow> string \<Rightarrow> string \<Rightarrow> string \<Rightarrow> (string \<rightharpoonup> gval) result" where
  "getMapVal source val ns name =
     (case source val of None \<Rightarrow> Inl (no_field ns name val) | Some (GMap m) \<Rightarrow> Inr m | Some _ \<Rightarrow> Inl (odd_field ns name val))"

definition getListVal :: "(string \<rightharpoonup> gval) \<Rightarrow> string \<Rightarrow> string \<Rightarrow> string \<Rightarrow> gval list result" where
  "getListVal source val ns name =
     (case source val of None \<Rightarrow> Inl (no_field ns name val) | Some (GList vs) \<Rightarrow> Inr vs | Some _ \<Rightarrow> Inl (odd_field ns name val))"

definition getStringVal :: "(string \<rightharpoonup> gval) \<Rightarrow> string \<Rightarrow> string \<Rightarrow> string \<Rightarrow> string result" where
  "getStringVal source val ns name =
     (case source val of None \<Rightarrow> Inl (no_field ns name val) | Some (GStr s) \<Rightarrow> Inr s | Some _ \<Rightarrow> Inl (odd_field ns name val))"

definition getOCIClusterObject :: "obj_lib \<Rightarrow> string \<Rightarrow> kobject result" where
  "getOCIClusterObject ol clusterResources =
     rbind (GetClusterObject ol clusterResources) (\<lambda>clusterObj.
       let ns = GetNamespace clusterObj; cn = GetName clusterObj
       in rbind (getMapVal clusterObj ''spec'' ns cn) (\<lambda>clusterSpec.
          rbind (getMapVal clusterSpec ''infrastructureRef'' ns cn) (\<lambda>infraRef.
          rbind (getStringVal infraRef ''kind'' ns cn) (\<lambda>kind.
          rbind (getStringVal infraRef ''name'' ns cn) (\<lambda>name.
            if kind \<noteq> ''OCICluster'' then Inl (''Cluster '' @ ns @ ''/'' @ cn @ '' points to an unsupported infrastructure reference '' @ kind)
            else case FindIn (ol_dec ol) clusterResources (\<lambda>u. GetKind u = kind \<and> GetName u = name) of
                   Inr ociClusterObj \<Rightarrow> Inr ociClusterObj
                 | Inl err \<Rightarrow> if err = ErrorNotExist then Inl ''Cluster resources do not include a valid cluster.x-k8s.io/v1beta1/Cluster''
                              else Inl err)))))"

text \<open>The subnets for load balancers; one that is not well formed is passed over.\<close>

definition service_subnet :: "string \<Rightarrow> string \<Rightarrow> gval \<Rightarrow> string option" where
  "service_subnet ns name v =
     (case v of
        GMap sn \<Rightarrow> (case (getStringVal sn ''role'' ns name, getStringVal sn ''id'' ns name) of
           (Inr role, Inr subnetId) \<Rightarrow> if role = ''service-lb'' then Some subnetId else None
         | _ \<Rightarrow> None)
      | _ \<Rightarrow> None)"

definition network_ids :: "kobject \<Rightarrow> string \<Rightarrow> string \<Rightarrow> (string \<times> string list) result" where
  "network_ids ociCluster ns name =
     rbind (getMapVal ociCluster ''spec'' ns name) (\<lambda>spec.
     rbind (getMapVal spec ''networkSpec'' ns name) (\<lambda>networkSpec.
     rbind (getMapVal networkSpec ''vcn'' ns name) (\<lambda>vcn.
     rbind (getStringVal vcn ''id'' ns name) (\<lambda>vcnId.
       let at = GetNamespace ociCluster @ ''/'' @ GetName ociCluster
       in if vcnId = [] then Inl (''OCICluster '' @ at @ '' has an empty vcn id'')
          else rbind (getListVal vcn ''subnets'' ns name) (\<lambda>subnets.
               let serviceSubnets = List.map_filter (service_subnet ns name) subnets
               in if serviceSubnets = [] then Inl (''OCICluster '' @ at @ '' does not have a service-lb subnet'')
                  else Inr (vcnId, serviceSubnets))))))"

text \<open>With one subnet only, the second setting stays as it is.\<close>

definition with_network :: "string \<Rightarrow> string list \<Rightarrow> OciProvider \<Rightarrow> OciProvider" where
  "with_network vcnId subnets p =
     (let b = (oci_LoadBalancer p)\<lparr>lb_Subnet1 := hd subnets\<rparr>
      in p\<lparr>oci_Vcn := vcnId, oci_LoadBalancer := (if length subnets > 1 then b\<lparr>lb_Subnet2 := last subnets\<rparr> else b)\<rparr>)"

definition getOciCcmOptions :: "('s, 'c, 'h, 'k, 'x) capi_env \<Rightarrow> ('s, unit) cad_act" where
  "getOciCcmOptions cp =
     abind driver (\<lambda>cad. let p = oci_settings (cad_ClusterConfig cad) in
       if oci_Vcn p \<noteq> [] \<and> lb_Subnet1 (oci_LoadBalancer p) \<noteq> [] \<and> lb_Subnet2 (oci_LoadBalancer p) \<noteq> [] then aret ()
       else abind (alift (getOCIClusterObject (cp_ol cp) (cad_ClusterResources cad))) (\<lambda>u.
            abind (in_res (GetResource (cp_rc cp (cad_BootstrapKubeConfig cad)) u)) (\<lambda>ociCluster.
            abind (alift (network_ids ociCluster (GetNamespace u) (GetName u))) (\<lambda>(vcnId, subnets).
              set_driver (\<lambda>cad. cad\<lparr>cad_ClusterConfig := set_oci (with_network vcnId subnets) (cad_ClusterConfig cad)\<rparr>)))))"

section \<open>Images\<close>

definition DefaultImagePath :: "('s, 'c, 'h, 'k, 'x) oci_env \<Rightarrow> string \<Rightarrow> string \<Rightarrow> ('s, string) cad_act" where
  "DefaultImagePath oe kubeVersion arch =
     abind (world (oe_ImagesDir oe)) (\<lambda>localDir.
       aret (oa_Join (oe_oa oe) [localDir, ''boot.qcow2-'' @ kubeVersion @ ''-'' @ arch @ ''.oci'']))"

text \<open>The image is made with the kubeconfig of the bootstrap cluster, which is set back; a tag that is chosen here is not.\<close>

definition create_image :: "('s, 'c, 'h, 'k, 'x) oci_env \<Rightarrow> string \<Rightarrow> string \<Rightarrow> ('s, unit) cad_act" where
  "create_image oe arch version =
     abind driver (\<lambda>old. let cc = cad_ClusterConfig old in
     abind (set_driver (\<lambda>cad. cad\<lparr>cad_Config := (cad_Config cad)\<lparr>cfg_KubeConfig := cad_BootstrapKubeConfig cad\<rparr>,
        cad_ClusterConfig := cc\<lparr>clu_KubeVersion := version, clu_OsTag := if clu_OsTag cc = [] then version else clu_OsTag cc\<rparr>\<rparr>)) (\<lambda>_.
     abind driver (\<lambda>cad.
     atry (changes (EvMakeImage arch version) (oe_Create oe (cad_Config cad) (cad_ClusterConfig cad) arch)) (\<lambda>r.
     abind (set_driver (\<lambda>cad. cad\<lparr>cad_Config := (cad_Config cad)\<lparr>cfg_KubeConfig := cfg_KubeConfig (cad_Config old)\<rparr>,
        cad_ClusterConfig := (cad_ClusterConfig cad)\<lparr>clu_KubeVersion := clu_KubeVersion cc\<rparr>\<rparr>)) (\<lambda>_. alift r)))))"

definition upload_options :: "CapiDriver \<Rightarrow> string \<Rightarrow> string \<Rightarrow> string \<Rightarrow> UploadOptions" where
  "upload_options cad imageName arch version =
     \<lparr>upo_ClusterConfig = cad_ClusterConfig cad, upo_ProviderType = ''oci'', upo_ImagePath = imageName,
      upo_Profile = oci_Profile (oci_settings (cad_ClusterConfig cad)), upo_PCA = False, upo_ImageName = ''ock'', upo_KubernetesVersion = version,
      upo_ImageArchitecture = arch, upo_Destination = [], upo_compartmentId = []\<rparr>"

definition check_image :: "('s, 'c, 'h, 'k, 'x) oci_env \<Rightarrow> string \<Rightarrow> bool \<Rightarrow> ('s, unit) cad_act" where
  "check_image oe imageName force =
     abind (world (keep (cp_Stat (oe_cp oe) imageName))) (\<lambda>stat. case stat of
         Inl (CannotRemove err) \<Rightarrow> if \<not> force then afail err else aret ()
       | _ \<Rightarrow> aret ())"

text \<open>The OCID of a new image and the request that imports it.  A converted image that is there is made again; the name that is given is not used.\<close>

definition ensureImage :: "('s, 'c, 'h, 'k, 'x) oci_env \<Rightarrow> string \<Rightarrow> string \<Rightarrow> string \<Rightarrow> bool \<Rightarrow> ('s, string \<times> string) cad_act" where
  "ensureImage oe name arch version force =
     abind driver (\<lambda>cad. let p = oci_settings (cad_ClusterConfig cad) in
     abind (in_oci (GetCompartmentId (oe_oa oe) (oci_Compartment p) (oci_Profile p))) (\<lambda>compartmentId.
     abind (in_oci (GetImage (oe_oa oe) ''ock'' version arch compartmentId (oci_Profile p))) (\<lambda>found.
       if found \<noteq> None \<and> \<not> force then aret ([], [])
       else abind (DefaultImagePath oe version arch) (\<lambda>imageName.
            abind (check_image oe imageName force) (\<lambda>_.
            abind (create_image oe arch version) (\<lambda>_.
            abind driver (\<lambda>cad.
              in_oci (UploadAsync (cp_up (oe_cp oe)) (upload_options cad imageName arch version)))))))))"

text \<open>The images of the control plane and of the workers with their architectures; there is one if they have the same.\<close>

definition wanted_images :: "('s, 'c, 'h, 'k, 'x) oci_env \<Rightarrow> ('s, (string \<times> string \<times> string) list) cad_act" where
  "wanted_images oe =
     abind driver (\<lambda>cad.
       let cc = cad_ClusterConfig cad; p = oci_settings cc; version = clu_KubeVersion cc;
           controlPlaneArch = ArchitectureFromShape (os_Shape (oci_ControlPlaneShape p)); workerArch = ArchitectureFromShape (os_Shape (oci_WorkerShape p))
       in abind (ensureImage oe ''ock'' controlPlaneArch version False) (\<lambda>(i, request).
            if controlPlaneArch = workerArch then aret [(i, request, controlPlaneArch)]
            else abind (ensureImage oe ''ock'' workerArch version False) (\<lambda>(j, request').
                   aret [(i, request, controlPlaneArch), (j, request', workerArch)])))"

definition ensureImages :: "('s, 'c, 'h, 'k, 'x) oci_env \<Rightarrow> ('s, unit) cad_act" where
  "ensureImages oe =
     abind driver (\<lambda>cad. let p = oci_settings (cad_ClusterConfig cad) in
     abind (in_oci (GetCompartmentId (oe_oa oe) (oci_Compartment p) (oci_Profile p))) (\<lambda>compartmentId.
     abind (wanted_images oe) (\<lambda>images.
     abind (in_oci (WaitForWorkRequests (oe_oa oe)
       (cp_order (oe_cp oe) (remdups (filter (\<lambda>r. r \<noteq> []) (map (\<lambda>(i, request, arch). request) images)))) (oci_Profile p))) (\<lambda>_.
       afor (filter (\<lambda>(i, request, arch). i \<noteq> []) images) (\<lambda>(i, request, arch).
         in_oci (EnsureImageDetails (oe_oa oe) compartmentId (oci_Profile p) i arch))))))"

section \<open>Making the driver\<close>

text \<open>Version 1.26 does not support arm.\<close>

definition fix_shape :: "ClusterConfig \<Rightarrow> ClusterConfig" where
  "fix_shape cc =
     (if trim_prefix (clu_KubeVersion cc) ''v'' = ''1.26'' \<and> os_Shape (oci_ControlPlaneShape (oci_settings cc)) \<in> set OciArmCompatibleShapes
      then set_oci (\<lambda>p. p\<lparr>oci_ControlPlaneShape := (oci_ControlPlaneShape p)\<lparr>os_Shape := ''VM.Standard.E4.Flex''\<rparr>\<rparr>) cc else cc)"

definition oci_checked :: "ClusterConfig \<Rightarrow> ClusterConfig result" where
  "oci_checked clusterConfig =
     (let cc = at_least_one clusterConfig
      in if oci_Compartment (oci_settings cc) = [] then Inl ''the oci provider requires a compartment in the provider with configuration''
         else Inr (fix_shape cc))"

definition oci_CreateDriver :: "('s, 'c, 'h, 'k, 'x) oci_env \<Rightarrow> Config \<Rightarrow> ClusterConfig \<Rightarrow> ('s, capi_event, CapiDriver outcome) act" where
  "oci_CreateDriver oe config clusterConfig =
     (let cp = oe_cp oe
      in abind (configured_resources cp clusterConfig) (\<lambda>(cdi, doTemplate).
         abind (alift (oci_checked clusterConfig)) (\<lambda>cc.
         abind (EnsureCluster cp (oci_KubeConfigPath (prv_Oci (cfg_Providers config))) config cc) (\<lambda>(boot, isEphemeral, config).
         pbind (oci_getApplications oe cc) (\<lambda>apps.
         abind (installs_on cp boot apps) (\<lambda>_.
         abind (ask (ae_GetKubeClient (by_ae (cp_by cp)) boot)) (\<lambda>_.
         abind (oci_waitForControllers cp boot) (\<lambda>_.
         abind (ask (GetKubeconfigPath (cp_by cp) (''kubeconfig.'' @ clu_Name cc))) (\<lambda>kubeConfig.
           pret (new_driver config cc cdi doTemplate boot isEphemeral kubeConfig))))))))))"

section \<open>Starting\<close>

definition oci_install_workload :: "('s, 'c, 'h, 'k, 'x) oci_env \<Rightarrow> ('s, (bool \<times> bool) outcome) cad_act" where
  "oci_install_workload oe =
     abind driver (\<lambda>cad. let kc = cad_KubeConfig cad in
     pbind (in_oci (oci_getWorkloadClusterApplications oe kc (cad_ClusterConfig cad))) (\<lambda>workloadApps.
     abind (in_cad (installs_on (oe_cp oe) kc workloadApps)) (\<lambda>_. pret (False, False))))"

definition oci_Start :: "('s, 'c, 'h, 'k, 'x) oci_env \<Rightarrow> ('s, (bool \<times> bool) outcome) cad_act" where
  "oci_Start oe =
     (let cp = oe_cp oe
      in abind driver (\<lambda>cad.
         abind (if cad_FromTemplate cad then ensureImages oe else aret ()) (\<lambda>_.
         pbind (use_template cp) (\<lambda>_.
         abind driver (\<lambda>cad. let kc = cad_BootstrapKubeConfig cad in
         abind (alift (ValidateClusterResources (cad_ClusterResources cad))) (\<lambda>_.
         abind (alift (GetClusterObject (cp_ol cp) (cad_ClusterResources cad))) (\<lambda>clusterObj. let ns = GetNamespace clusterObj in
         abind (set_driver (\<lambda>cad. cad\<lparr>cad_ResourceNamespace := ns\<rparr>)) (\<lambda>_.
         abind (kube_client cp kc) (\<lambda>_.
         abind (in_kube kc (CreateNamespaceIfNotExists (cad_ka cp kc) ns)) (\<lambda>_.
         abind (in_res (applyResources cp kc (cad_ClusterResources cad))) (\<lambda>_.
         abind (follow_controller cp OCICAPIRelease OCICAPINamespace kc) (\<lambda>_.
         abind (in_res (shown_kubeconfig cp kc ns (cluster_label cp clusterObj))) (\<lambda>kubeconfig.
         abind (changes (EvCapiWrite (cad_KubeConfig cad) kubeconfig) (cp_WriteFile cp (cad_KubeConfig cad) kubeconfig)) (\<lambda>_.
         pbind (wait_for_nodes cp (cad_KubeConfig cad)) (\<lambda>_.
         abind (getOciCcmOptions cp) (\<lambda>_. oci_install_workload oe))))))))))))))))"

section \<open>Moving the resources\<close>

text \<open>If the client that moves resources cannot be made, nothing is moved and there is no error.\<close>

definition tryMove :: "('s, 'c, 'h, 'k, 'x) capi_env \<Rightarrow> string \<Rightarrow> string \<Rightarrow> string \<Rightarrow> ('s, capi_event, unit) act" where
  "tryMove cp fromKcfg toKcfg ns =
     atry (ask (cp_NewClusterctl cp)) (\<lambda>r. case r of
         Inl _ \<Rightarrow> aret ()
       | Inr _ \<Rightarrow> perform (EvMove fromKcfg toKcfg ns) (cp_Move cp fromKcfg toKcfg ns))"

text \<open>As long as the resources cannot be moved yet, it is tried again; this need not end.\<close>

partial_function (option) move_loop ::
  "('s, 'c, 'h, 'k, 'x) capi_env \<Rightarrow> (int \<Rightarrow> 's \<Rightarrow> 's) \<Rightarrow> string \<Rightarrow> string \<Rightarrow> string \<Rightarrow> 's \<times> capi_event list \<Rightarrow>
     (unit result \<times> 's \<times> capi_event list) option" where
  "move_loop cp sleep fromKcfg toKcfg ns w =
     (case tryMove cp fromKcfg toKcfg ns w of
        (Inr _, w') \<Rightarrow> Some (Inr (), w')
      | (Inl err, s', tr') \<Rightarrow>
          if go_contains err ''cannot start the move operation'' then move_loop cp sleep fromKcfg toKcfg ns (sleep (3 * duration_s) s', tr')
          else Some (Inl err, s', tr'))"

definition moveCluster :: "('s, 'c, 'h, 'k, 'x) oci_env \<Rightarrow> bool \<Rightarrow> ('s, unit) cad_act" where
  "moveCluster oe fromBootstrap =
     (let cp = oe_cp oe
      in abind driver (\<lambda>cad.
         let boot = cad_BootstrapKubeConfig cad; kc = cad_KubeConfig cad; ns = cad_ResourceNamespace cad;
             fromKcfg = (if fromBootstrap then boot else kc); toKcfg = (if fromBootstrap then kc else boot)
         in abind (in_cad (WaitFor_one (cad_ha cp kc) (\<lambda>w. case move_loop cp (oa_Sleep (oe_oa oe)) fromKcfg toKcfg ns w of
                None \<Rightarrow> (Inl ''the wait does not return'', w)
              | Some x \<Rightarrow> x))) (\<lambda>(haveError, _).
            if haveError then afail ''Could not move Cluster API resources'' else aret ())))"

text \<open>The error of the move is not looked at.\<close>

definition oci_PostStart :: "('s, 'c, 'h, 'k, 'x) oci_env \<Rightarrow> ('s, unit outcome) cad_act" where
  "oci_PostStart oe =
     (let cp = oe_cp oe
      in abind driver (\<lambda>cad. let kc = cad_KubeConfig cad in
         if \<not> oci_SelfManaged (oci_settings (cad_ClusterConfig cad)) then pret ()
         else pbind (in_oci (oci_getApplications oe (cad_ClusterConfig cad))) (\<lambda>apps.
              abind (in_cad (installs_on cp kc apps)) (\<lambda>_.
              abind (kube_client cp kc) (\<lambda>_.
              abind (in_res (oci_waitForControllers cp kc)) (\<lambda>_.
              atry (moveCluster oe True) (\<lambda>_. pret ())))))))"

section \<open>Deleting\<close>

text \<open>The resources are moved back if the cluster can be reached and has them.\<close>

definition pivot_back :: "('s, 'c, 'h, 'k, 'x) oci_env \<Rightarrow> string \<Rightarrow> string \<Rightarrow> ('s, unit) cad_act" where
  "pivot_back oe clusterName ns =
     (let cp = oe_cp oe
      in abind driver (\<lambda>cad. let kc = cad_KubeConfig cad in
         if \<not> oci_SelfManaged (oci_settings (cad_ClusterConfig cad)) then aret ()
         else abind (world (keep (cp_Stat cp kc))) (\<lambda>stat. case stat of
                Inl NotThere \<Rightarrow> aret ()
              | Inl (CannotRemove err) \<Rightarrow> afail err
              | Inr _ \<Rightarrow> atry (kube_client cp kc) (\<lambda>r. case r of
                  Inl _ \<Rightarrow> aret ()
                | Inr _ \<Rightarrow> atry (in_res (GetResourceByIdentifier (cp_rc cp kc) ''cluster.x-k8s.io'' ''v1beta1'' ''Cluster'' clusterName ns)) (\<lambda>r. case r of
                    Inl _ \<Rightarrow> aret ()
                  | Inr _ \<Rightarrow> moveCluster oe False)))))"

definition oci_Delete :: "('s, 'c, 'h, 'k, 'x) oci_env \<Rightarrow> ('s, unit outcome) cad_act" where
  "oci_Delete oe =
     (let cp = oe_cp oe
      in abind (set_driver (\<lambda>cad. cad\<lparr>cad_Deleted := True\<rparr>)) (\<lambda>_.
         pbind (use_template cp) (\<lambda>_.
         abind driver (\<lambda>cad.
         abind (alift (GetClusterObject (cp_ol cp) (cad_ClusterResources cad))) (\<lambda>clusterObj.
         let ns = GetNamespace clusterObj; clusterName = GetName clusterObj
         in abind (set_driver (\<lambda>cad. cad\<lparr>cad_ResourceNamespace := ns\<rparr>)) (\<lambda>_.
            abind (pivot_back oe clusterName ns) (\<lambda>_.
            abind (in_res (deleteCluster cp (cad_BootstrapKubeConfig cad) clusterName ns)) pret)))))))"

definition oci_Close :: "('s, 'c, 'h, 'k, 'x) oci_env \<Rightarrow> ('s, unit) cad_act" where
  "oci_Close oe =
     abind driver (\<lambda>cad.
       if cad_Deleted cad then aret ()
       else if cad_Ephemeral cad \<and> oci_SelfManaged (oci_settings (cad_ClusterConfig cad)) then close_ephemeral (oe_cp oe)
       else aret ())"

end
