(* ===== verification/Oci_Stage.thy ===== *)
theory Oci_Stage
  imports Oci_Driver
begin

text \<open>
  Staging a version for a cluster in Oracle Cloud (\<^verbatim>\<open>pkg/cluster/driver/oci/stage.go\<close>): which images of machines have to be made and uploaded, the
  machine templates that use them, and what the user is told to do.  The rest of the driver as the commands see it.
\<close>

section \<open>Images of machine templates\<close>

record OciImageData =
  oid_Image :: OciImage
  oid_HasUpdate :: bool
  oid_Arch :: string
  oid_NewId :: string
  oid_WorkRequestId :: string
  oid_MachineTemplates :: "nat list"

definition MachineTemplateImageId :: "string list" where "MachineTemplateImageId = [''spec'', ''template'', ''spec'', ''imageId'']"
definition MachineTemplateShape :: "string list" where "MachineTemplateShape = [''spec'', ''template'', ''spec'', ''shape'']"

definition template_string :: "kobject \<Rightarrow> string list \<Rightarrow> string \<Rightarrow> string result" where
  "template_string mt path what =
     (case nested_string mt path of
        Inr (v, True) \<Rightarrow> Inr v
      | _ \<Rightarrow> Inl (''MachineTemplate '' @ GetName mt @ '' in '' @ GetNamespace mt @ '' has no '' @ what))"

definition imageFromMachineTemplate :: "'s oci_api \<Rightarrow> kobject \<Rightarrow> string \<Rightarrow> ('s, 'e, OciImage) act" where
  "imageFromMachineTemplate oa mt profile =
     abind (alift (template_string mt MachineTemplateImageId ''imageId'')) (\<lambda>imageId. GetImageById oa imageId profile)"

definition with_docker :: "image_lib \<Rightarrow> string \<Rightarrow> string" where
  "with_docker lib img = (if il_has_transport lib img then img else ''docker://'' @ img)"

text \<open>Whether the container image is later than the image that is used.\<close>

definition newer_container :: "('s, 'c, 'h, 'k, 'x) oci_env \<Rightarrow> string \<Rightarrow> string \<Rightarrow> string \<Rightarrow> OciImage \<Rightarrow> ('s, 'e, bool outcome) act" where
  "newer_container oe version arch bvImage existingImg =
     (let lib = uv_il (cp_up (oe_cp oe))
      in case EnsureBootImageVersion lib version bvImage of
           (_, Some _) \<Rightarrow> pret False
         | (containerImg, None) \<Rightarrow>
             abind (ask (oe_ImageCreated oe (with_docker lib containerImg) arch)) (\<lambda>created. pret (created > oim_TimeCreated existingImg)))"

text \<open>
  Whether an image has to be uploaded.  If the version stays the same and no image has its tags (the one that is used may have lost one), the
  image that was not found is dereferenced.
\<close>

definition doUpdate ::
  "('s, 'c, 'h, 'k, 'x) oci_env \<Rightarrow> OciImage \<Rightarrow> string \<Rightarrow> string \<Rightarrow> string \<Rightarrow> string \<Rightarrow> ('s, 'e, bool outcome) act" where
  "doUpdate oe img arch version bvImage profile =
     (if cp_Getenv (oe_cp oe) ''OCNE_OCI_STAGE_FORCE_UPLOAD'' \<noteq> [] then pret True
      else case oim_FreeformTags img OCIKubernetesVersionTag of
             None \<Rightarrow> afail (''OCI Custom image '' @ oim_Id img @ '' does not have a Kubernetes version tag'')
           | Some imgKubeVersion \<Rightarrow>
               abind (GetImage (oe_oa oe) (oim_DisplayName img) version arch (oim_CompartmentId img) profile) (\<lambda>found.
               abind (alift (CompareKubernetesVersions imgKubeVersion version)) (\<lambda>kubeCmp.
                 if kubeCmp = 0
                 then case found of
                        None \<Rightarrow> aret Panics
                      | Some existingImg \<Rightarrow>
                          if oim_Id existingImg = oim_Id img then newer_container oe version arch bvImage existingImg else pret False
                 else pret (found = None))))"

text \<open>The images under their OCIDs; the architecture is that of the first template.\<close>

definition add_image :: "nat \<Rightarrow> OciImage \<Rightarrow> string \<Rightarrow> OciImageData gomap \<Rightarrow> OciImageData gomap" where
  "add_image mtNode img shape retVal =
     (case map_of retVal (oim_Id img) of
        None \<Rightarrow> AList.update (oim_Id img) \<lparr>oid_Image = img, oid_HasUpdate = False, oid_Arch = ArchitectureFromShape shape, oid_NewId = [],
                   oid_WorkRequestId = [], oid_MachineTemplates = [mtNode]\<rparr> retVal
      | Some imgData \<Rightarrow> AList.update (oim_Id img) (imgData\<lparr>oid_MachineTemplates := oid_MachineTemplates imgData @ [mtNode]\<rparr>) retVal)"

definition graphToImages :: "('s, 'c, 'h, 'k, 'x) oci_env \<Rightarrow> ClusterGraph \<Rightarrow> string \<Rightarrow> ('s, 'e, OciImageData gomap outcome) act" where
  "graphToImages oe g profile =
     WalkMachineTemplates (cp_order (oe_cp oe)) g (\<lambda>parent mtNode retVal. let mt = object_at g mtNode in
       abind (imageFromMachineTemplate (oe_oa oe) mt profile) (\<lambda>img.
       abind (alift (template_string mt MachineTemplateShape ''shape'')) (\<lambda>shape. pret (add_image mtNode img shape retVal)))) []"

text \<open>Loops over the images, in the order in which the map gives them.\<close>

primrec over_images ::
  "(string \<Rightarrow> OciImageData \<Rightarrow> ('s, 'e, OciImageData outcome) act) \<Rightarrow> string list \<Rightarrow> OciImageData gomap \<Rightarrow> ('s, 'e, OciImageData gomap outcome) act" where
  "over_images f [] imgs = pret imgs"
| "over_images f (i # is) imgs =
     pbind (f i (the (map_of imgs i))) (\<lambda>img. over_images f is (AList.update i img imgs))"

definition each_image ::
  "('s, 'c, 'h, 'k, 'x) oci_env \<Rightarrow> (string \<Rightarrow> OciImageData \<Rightarrow> ('w, 'e, OciImageData outcome) act) \<Rightarrow> OciImageData gomap
     \<Rightarrow> ('w, 'e, OciImageData gomap outcome) act" where
  "each_image oe f imgs = over_images f (cp_order (oe_cp oe) (map fst imgs)) imgs"

definition findUpdates ::
  "('s, 'c, 'h, 'k, 'x) oci_env \<Rightarrow> OciImageData gomap \<Rightarrow> string \<Rightarrow> string \<Rightarrow> string \<Rightarrow> ('s, 'e, OciImageData gomap outcome) act" where
  "findUpdates oe imgs version bvImage profile =
     each_image oe (\<lambda>i img. pbind (doUpdate oe (oid_Image img) (oid_Arch img) version bvImage profile) (\<lambda>u. pret (img\<lparr>oid_HasUpdate := u\<rparr>))) imgs"

section \<open>New images\<close>

text \<open>
  The boot image is set for the upload and set back after it.  If its name cannot be completed, the error is overwritten by the upload, which uses
  what is left of the name.
\<close>

definition upload_image :: "('s, 'c, 'h, 'k, 'x) oci_env \<Rightarrow> string \<Rightarrow> OciImageData \<Rightarrow> ('s, OciImageData) cad_act" where
  "upload_image oe version img =
     (let lib = uv_il (cp_up (oe_cp oe)); set_bv = (\<lambda>bv. set_driver (\<lambda>cad. cad\<lparr>cad_ClusterConfig := (cad_ClusterConfig cad)\<lparr>clu_BootVolumeContainerImage := bv\<rparr>\<rparr>))
      in abind driver (\<lambda>cad. let oldBv = clu_BootVolumeContainerImage (cad_ClusterConfig cad) in
         abind (set_bv (fst (EnsureBootImageVersion lib version (with_docker lib oldBv)))) (\<lambda>_.
         atry (ensureImage oe (oim_DisplayName (oid_Image img)) (oid_Arch img) version True) (\<lambda>r.
         abind (set_bv oldBv) (\<lambda>_.
         abind (alift r) (\<lambda>(newId, workRequestId). aret (img\<lparr>oid_NewId := newId, oid_WorkRequestId := workRequestId\<rparr>)))))))"

text \<open>If the minor version changes, the latest image is used; an error of the search is taken for an image that is not there.\<close>

definition latest_data :: "('s, 'c, 'h, 'k, 'x) oci_env \<Rightarrow> string \<Rightarrow> OciImageData \<Rightarrow> ('s, OciImageData) cad_act" where
  "latest_data oe version img =
     abind driver (\<lambda>cad.
     atry (in_oci (GetImage (oe_oa oe) (oim_DisplayName (oid_Image img)) version (oid_Arch img) (oim_CompartmentId (oid_Image img))
       (oci_Profile (oci_settings (cad_ClusterConfig cad))))) (\<lambda>r. case r of
         Inr (Some existingImg) \<Rightarrow> aret (img\<lparr>oid_HasUpdate := True, oid_NewId := oim_Id existingImg\<rparr>)
       | _ \<Rightarrow> afail (''Could not find latest OCI image for Kubernetes version '' @ version @ '' and architecture '' @ oid_Arch img)))"

definition new_image :: "('s, 'c, 'h, 'k, 'x) oci_env \<Rightarrow> string \<Rightarrow> bool \<Rightarrow> OciImageData \<Rightarrow> ('s, OciImageData outcome) cad_act" where
  "new_image oe version minorVersionChanged img =
     (if oid_HasUpdate img then abind (upload_image oe version img) pret
      else if minorVersionChanged then abind (latest_data oe version img) pret
      else pret img)"

text \<open>The requests of the images that were uploaded: those that had an update before.\<close>

definition work_requests :: "OciImageData gomap \<Rightarrow> OciImageData gomap \<Rightarrow> string list" where
  "work_requests old imgs =
     remdups (map (\<lambda>(i, img). oid_WorkRequestId img) (filter (\<lambda>(i, img). oid_HasUpdate (the (map_of old i))) imgs))"

text \<open>The images as they are then.\<close>

definition new_images :: "('s, 'c, 'h, 'k, 'x) oci_env \<Rightarrow> string \<Rightarrow> bool \<Rightarrow> OciImageData gomap \<Rightarrow> ('s, OciImageData gomap outcome) cad_act" where
  "new_images oe version minorVersionChanged old =
     pbind (each_image oe (\<lambda>i. new_image oe version minorVersionChanged) old) (\<lambda>imgs.
     abind driver (\<lambda>cad. let profile = oci_Profile (oci_settings (cad_ClusterConfig cad)) in
     abind (in_oci (WaitForWorkRequests (oe_oa oe) (cp_order (oe_cp oe) (work_requests old imgs)) profile)) (\<lambda>_.
     abind (afor (filter (\<lambda>img. oid_WorkRequestId img \<noteq> []) (in_order (oe_cp oe) imgs)) (\<lambda>img.
       in_oci (EnsureImageDetails (oe_oa oe) (oim_CompartmentId (oid_Image img)) profile (oid_NewId img) (oid_Arch img)))) (\<lambda>_. pret imgs))))"

section \<open>New templates\<close>

text \<open>If the environment says so, every image gets new templates with the old image.\<close>

primrec oci_new_templates ::
  "('s, 'c, 'h, 'k, 'x) capi_env \<Rightarrow> string \<Rightarrow> ClusterGraph \<Rightarrow> OciImageData list \<Rightarrow> (nat \<times> kobject) list \<Rightarrow> ('s, res_event, (nat \<times> kobject) list) act" where
  "oci_new_templates cp kc g [] updated = aret updated"
| "oci_new_templates cp kc g (img # imgs) updated =
     (let force = cp_Getenv cp ''OCNE_OCI_STAGE_FORCE_TEMPLATES'' \<noteq> []
      in if \<not> force \<and> \<not> oid_HasUpdate img then oci_new_templates cp kc g imgs updated
         else abind (new_templates cp kc MachineTemplateImageId (if force then oim_Id (oid_Image img) else oid_NewId img) g
                       (oid_MachineTemplates img) updated) (oci_new_templates cp kc g imgs))"

definition oci_kcp_help :: "('s, 'c, 'h, 'k, 'x) capi_env \<Rightarrow> string \<Rightarrow> kobject \<Rightarrow> kobject \<Rightarrow> string result" where
  "oci_kcp_help cp version kcp umt =
     rbind (GetKubernetesVersions version) (\<lambda>kubeVersions.
     rbind (GetControlPlanePatches (cp_ol cp) kcp (kv_Kubernetes kubeVersions) (GetName umt)) (\<lambda>(patches, _). Inr (kcp_command cp kcp patches)))"

definition oci_help ::
  "('s, 'c, 'h, 'k, 'x) capi_env \<Rightarrow> string \<Rightarrow> ClusterGraph \<Rightarrow> (nat \<times> kobject) list \<Rightarrow> nat \<Rightarrow> nat \<Rightarrow> string list \<Rightarrow> ('w, 'e, string list outcome) act" where
  "oci_help cp version g updatedMts parent mtNode helpMessages =
     (case map_of updatedMts mtNode of
        None \<Rightarrow> pret helpMessages
      | Some umt \<Rightarrow>
          let ob = object_at g parent
          in abind (alift (if parent = cg_ControlPlane g then oci_kcp_help cp version ob umt else md_command cp version umt ob)) (\<lambda>help.
               pret (helpMessages @ [help])))"

definition oci_described :: "kobject \<Rightarrow> string" where "oci_described kcp = gvk_text kcp @ ''/'' @ GetAPIVersion kcp"

definition oci_Stage :: "('s, 'c, 'h, 'k, 'x) oci_env \<Rightarrow> string \<Rightarrow> ('s, (string \<times> string \<times> bool) outcome) cad_act" where
  "oci_Stage oe version =
     (let cp = oe_cp oe
      in pbind (staged_graph cp oci_described version) (\<lambda>(clusterObj, g, minorVersionChanged).
         abind driver (\<lambda>cad. let cc = cad_ClusterConfig cad; profile = oci_Profile (oci_settings cc) in
         pbind (in_oci (graphToImages oe g profile)) (\<lambda>ociImages.
         pbind (in_oci (findUpdates oe ociImages version (clu_BootVolumeContainerImage cc) profile)) (\<lambda>ociImages.
         pbind (new_images oe version minorVersionChanged ociImages) (\<lambda>ociImages.
         abind (in_res (oci_new_templates cp (cad_BootstrapKubeConfig cad) g (in_order cp ociImages) [])) (\<lambda>updatedMts.
         pbind (WalkMachineTemplates (cp_order cp) g (oci_help cp version g updatedMts) []) (\<lambda>helpMessages.
         abind (hand_back cp (cluster_label cp clusterObj) helpMessages) pret))))))))"

section \<open>The driver as the commands see it\<close>

definition OCIClusterControlPlaneEndpointHost :: "string list" where
  "OCIClusterControlPlaneEndpointHost = [''spec'', ''controlPlaneEndpoint'', ''host'']"

text \<open>Whatever goes wrong, the address is empty.\<close>

definition oci_GetKubeAPIServerAddress :: "('s, 'c, 'h, 'k, 'x) oci_env \<Rightarrow> ('s, string) cad_act" where
  "oci_GetKubeAPIServerAddress oe =
     (let cp = oe_cp oe
      in abind driver (\<lambda>cad. let kc = cad_BootstrapKubeConfig cad in
         case getOCIClusterObject (cp_ol cp) (cad_ClusterResources cad) of
           Inl _ \<Rightarrow> aret []
         | Inr u \<Rightarrow> atry (abind (kube_client cp kc) (\<lambda>_. in_res (GetResource (cp_rc cp kc) u))) (\<lambda>r. case r of
             Inl _ \<Rightarrow> aret []
           | Inr cl \<Rightarrow> aret (case nested_string cl OCIClusterControlPlaneEndpointHost of Inl _ \<Rightarrow> [] | Inr (host, _) \<Rightarrow> host))))"

definition oci_GetKubeconfigPath :: "CapiDriver \<Rightarrow> string" where "oci_GetKubeconfigPath cad = cad_KubeConfig cad"
definition oci_DefaultCNIInterfaces :: "CapiDriver \<Rightarrow> string list" where "oci_DefaultCNIInterfaces cad = []"

definition oci_PostInstallHelpStanza :: "CapiDriver \<Rightarrow> string" where
  "oci_PostInstallHelpStanza cad = ''To access the cluster:'' @ CHR 10 # ''    use '' @ cad_KubeConfig cad"

definition oci_Join :: "string \<Rightarrow> int \<Rightarrow> int \<Rightarrow> ('s, unit) cad_act" where
  "oci_Join kubeconfigPath controlPlaneNodes workerNodes =
     afail ''Joining new nodes to this cluster is done by editing the KubeadmControlPlane and MachineDeployment resources in the management cluster''"

definition oci_Stop :: "('s, unit) cad_act" where "oci_Stop = afail ''ClusterApiDriver.Stop() is not implemented''"

end
